(* ===== verification/Prelude.thy ===== *)
theory Prelude
  imports Main
begin

text \<open>
  What every component of the development shares.

  A C function of the repository returns, or its run ends in a way the language
  gives no value for. The second is a value of \<open>stop\<close>: the call of
  \<open>exit\<close>, an access outside an allocation, a read of memory nothing was
  stored in, a null pointer followed, an assertion that fails, and a mutex that is
  already held. \<open>'a res\<close> is the result type of every operation that can end so,
  and \<open>andthen\<close> sequences two of them as \<open>;\<close> does.

  Memory requests are answered by an argument: an \<open>allocator\<close> says, for a
  number of bytes, whether \<open>malloc\<close> or \<open>realloc\<close> has them. The C library is
  not in the repository, and both answers are documented behaviour of it.
\<close>

datatype stop = Exit int | OutOfBounds | Uninitialised | NullPointer | AssertFailed | Deadlock | Diverges

type_synonym 'a res = "stop + 'a"

type_synonym allocator = "nat \<Rightarrow> bool"

text \<open>The allocator of a machine that never runs out of memory.\<close>

definition ample :: "allocator \<Rightarrow> bool" where
  "ample alloc \<longleftrightarrow> (\<forall>n. alloc n)"

named_theorems bounds_simps \<open>equations of the bounds-checked array accesses\<close>
named_theorems inv_intros \<open>preservation rules of the components' invariants\<close>

section \<open>Sequencing\<close>

definition andthen :: "'a res \<Rightarrow> ('a \<Rightarrow> 'b res) \<Rightarrow> 'b res" where
  "andthen m f = (case m of Inl e \<Rightarrow> Inl e | Inr x \<Rightarrow> f x)"

lemma andthen_simps [simp]:
  "andthen (Inl e) f = Inl e"
  "andthen (Inr x) f = f x"
  by (simp_all add: andthen_def)

lemma andthen_Inr_iff: "andthen m f = Inr y \<longleftrightarrow> (\<exists>x. m = Inr x \<and> f x = Inr y)"
  by (cases m) simp_all

lemma andthen_Inr_E [elim!]:
  assumes "andthen m f = Inr y"
  obtains x where "m = Inr x" and "f x = Inr y"
  using assms by (auto simp: andthen_Inr_iff)

lemma andthen_assoc: "andthen (andthen m f) g = andthen m (\<lambda>x. andthen (f x) g)"
  by (cases m) simp_all

lemma andthen_cong [fundef_cong]:
  "m = m' \<Longrightarrow> (\<And>x. m' = Inr x \<Longrightarrow> f x = g x) \<Longrightarrow> andthen m f = andthen m' g"
  by (cases m') simp_all

definition guard :: "bool \<Rightarrow> stop \<Rightarrow> unit res" where
  "guard b e = (if b then Inr () else Inl e)"

lemma guard_simps [simp]:
  "b \<Longrightarrow> guard b e = Inr ()"
  "\<not> b \<Longrightarrow> guard b e = Inl e"
  by (simp_all add: guard_def)

lemma guard_Inr_iff [simp]: "guard b e = Inr u \<longleftrightarrow> b"
  by (simp add: guard_def)

section \<open>Arrays\<close>

text \<open>
  An array is the list of its allocated cells, and an index is an integer, as the C
  subscript is. Reading or writing outside the allocation stops the run.
\<close>

definition in_range :: "int \<Rightarrow> 'a list \<Rightarrow> bool" where
  "in_range i xs \<longleftrightarrow> 0 \<le> i \<and> nat i < length xs"

definition array_get :: "'a list \<Rightarrow> int \<Rightarrow> 'a res" where
  "array_get xs i = (if in_range i xs then Inr (xs ! nat i) else Inl OutOfBounds)"

definition array_set :: "'a list \<Rightarrow> int \<Rightarrow> 'a \<Rightarrow> 'a list res" where
  "array_set xs i x = (if in_range i xs then Inr (xs[nat i := x]) else Inl OutOfBounds)"

lemma in_range_of_nat [bounds_simps]: "in_range (int k) xs \<longleftrightarrow> k < length xs"
  by (simp add: in_range_def)

lemma in_range_update [simp]: "in_range i (xs[k := x]) = in_range i xs"
  by (simp add: in_range_def)

lemma array_get_in [bounds_simps]: "k < length xs \<Longrightarrow> array_get xs (int k) = Inr (xs ! k)"
  by (simp add: array_get_def in_range_def)

lemma array_set_in [bounds_simps]: "k < length xs \<Longrightarrow> array_set xs (int k) x = Inr (xs[k := x])"
  by (simp add: array_set_def in_range_def)

lemma array_get_out [bounds_simps]: "\<not> in_range i xs \<Longrightarrow> array_get xs i = Inl OutOfBounds"
  by (simp add: array_get_def)

lemma array_set_out [bounds_simps]: "\<not> in_range i xs \<Longrightarrow> array_set xs i x = Inl OutOfBounds"
  by (simp add: array_set_def)

lemma array_set_length: "array_set xs i x = Inr ys \<Longrightarrow> length ys = length xs"
  by (auto simp: array_set_def split: if_splits)

lemma array_get_after_set:
  "array_set xs i x = Inr ys \<Longrightarrow> array_get ys j = (if j = i then Inr x else array_get xs j)"
  by (auto simp: array_set_def array_get_def in_range_def nat_eq_iff nth_list_update split: if_splits)

section \<open>Lists\<close>

definition remove_nth :: "nat \<Rightarrow> 'a list \<Rightarrow> 'a list" where
  "remove_nth i xs = take i xs @ drop (Suc i) xs"

lemma length_remove_nth: "i < length xs \<Longrightarrow> length (remove_nth i xs) = length xs - 1"
  by (simp add: remove_nth_def)

lemma map_remove_nth: "map f (remove_nth i xs) = remove_nth i (map f xs)"
  by (simp add: remove_nth_def take_map drop_map)

lemma remove_nth_last: "i = length xs - 1 \<Longrightarrow> remove_nth i xs = butlast xs"
  by (cases xs) (simp_all add: remove_nth_def butlast_conv_take)

text \<open>The first position whose element satisfies a predicate.\<close>

fun first_index :: "('a \<Rightarrow> bool) \<Rightarrow> 'a list \<Rightarrow> nat option" where
  "first_index P [] = None"
| "first_index P (x # xs) = (if P x then Some 0 else map_option Suc (first_index P xs))"

lemma first_index_None: "first_index P xs = None \<longleftrightarrow> (\<forall>x \<in> set xs. \<not> P x)"
  by (induction xs) auto

lemma first_index_Some:
  "first_index P xs = Some i \<longleftrightarrow> i < length xs \<and> P (xs ! i) \<and> (\<forall>j < i. \<not> P (xs ! j))"
proof (induction xs arbitrary: i)
  case Nil
  show ?case by simp
next
  case (Cons x xs)
  show ?case
    by (cases i) (auto simp: Cons.IH All_less_Suc2)
qed

lemma first_index_append:
  "first_index P (xs @ ys) =
     (case first_index P xs of Some i \<Rightarrow> Some i | None \<Rightarrow> map_option (\<lambda>i. i + length xs) (first_index P ys))"
  by (induction xs) (auto simp: option.map_comp comp_def option.map_ident split: option.splits)

lemma first_index_map: "first_index P (map f xs) = first_index (\<lambda>x. P (f x)) xs"
  by (induction xs) auto

lemma filter_first_index:
  "first_index P xs = Some i \<Longrightarrow> filter P xs = xs ! i # filter P (remove_nth i xs)"
proof (induction xs arbitrary: i)
  case Nil
  then show ?case by simp
next
  case (Cons x xs)
  then show ?case by (auto simp: remove_nth_def split: if_splits)
qed

lemma filter_not_remove_nth:
  "i < length xs \<Longrightarrow> P (xs ! i) \<Longrightarrow> filter (\<lambda>x. \<not> P x) (remove_nth i xs) = filter (\<lambda>x. \<not> P x) xs"
  by (subst (2) id_take_nth_drop [of i xs]) (auto simp: remove_nth_def)

end
