(* ===== verification/QueueSpec.thy ===== *)
theory QueueSpec
  imports Prelude
begin

text \<open>
  The interface between the merger's communication queues and the element queue they
  are kept in: what the client relies on when it adds, searches, reads and deletes.
  Positions are the addresses that a search returns.
\<close>

locale element_queue =
  fixes add :: "'q \<Rightarrow> 'a \<Rightarrow> 'q res"
    and search :: "'q \<Rightarrow> 'r \<Rightarrow> ('r \<Rightarrow> 'a \<Rightarrow> bool res) \<Rightarrow> int option res"
    and get :: "'q \<Rightarrow> int \<Rightarrow> 'a res"
    and delete :: "'q \<Rightarrow> int \<Rightarrow> 'q res"
    and elems :: "'q \<Rightarrow> 'a list"
    and inv :: "'q \<Rightarrow> bool"
    and spare :: "'q \<Rightarrow> bool"
  assumes add_elems: "inv q \<Longrightarrow> add q x = Inr r \<Longrightarrow> elems r = elems q @ [x]"
    and add_inv: "inv q \<Longrightarrow> add q x = Inr r \<Longrightarrow> inv r"
    and search_first: "inv q \<Longrightarrow> (\<And>x. x \<in> set (elems q) \<Longrightarrow> compare ref x = Inr (P x)) \<Longrightarrow>
      search q ref compare = Inr (map_option int (first_index P (elems q)))"
    and get_elems: "inv q \<Longrightarrow> k < length (elems q) \<Longrightarrow> get q (int k) = Inr (elems q ! k)"
    and delete_elems: "inv q \<Longrightarrow> k < length (elems q) \<Longrightarrow> delete q (int k) = Inr r \<Longrightarrow>
      elems r = remove_nth k (elems q)"
    and delete_inv: "inv q \<Longrightarrow> k < length (elems q) \<Longrightarrow> delete q (int k) = Inr r \<Longrightarrow> inv r"
    and delete_spare: "inv q \<Longrightarrow> k < length (elems q) \<Longrightarrow> delete q (int k) = Inr r \<Longrightarrow> spare r"
    and delete_returns: "inv q \<Longrightarrow> k < length (elems q) \<Longrightarrow> spare q \<or> Suc k = length (elems q) \<Longrightarrow>
      \<exists>r. delete q (int k) = Inr r"
    and delete_stops: "inv q \<Longrightarrow> Suc k < length (elems q) \<Longrightarrow> \<not> spare q \<Longrightarrow>
      delete q (int k) = Inl OutOfBounds"
begin

lemmas queue_laws = add_elems add_inv get_elems delete_elems delete_inv delete_spare

text \<open>
  Searching, reading and deleting the element found, as one step: the oldest matching
  element leaves the queue and every other element keeps its place.
\<close>

lemma extract_found:
  assumes "inv q" and "\<And>x. x \<in> set (elems q) \<Longrightarrow> compare ref x = Inr (P x)"
    and "first_index P (elems q) = Some i" and "spare q \<or> Suc i = length (elems q)"
  obtains r where "search q ref compare = Inr (Some (int i))"
    and "get q (int i) = Inr (elems q ! i)" and "delete q (int i) = Inr r"
    and "inv r" and "elems r = remove_nth i (elems q)" and "spare r"
proof -
  have i: "i < length (elems q)" using assms(3) by (simp add: first_index_Some)
  obtain r where r: "delete q (int i) = Inr r"
    using delete_returns [OF assms(1) i assms(4)] by blast
  have "search q ref compare = Inr (Some (int i))"
    using search_first [where compare = compare and ref = ref and P = P, OF assms(1,2)] assms(3) by simp
  then show ?thesis
    by (rule that [OF _ get_elems [OF assms(1) i] r])
      (use assms(1) i r in \<open>auto intro: queue_laws\<close>)
qed

lemma extract_stops:
  assumes "inv q" and "\<And>x. x \<in> set (elems q) \<Longrightarrow> compare ref x = Inr (P x)"
    and "first_index P (elems q) = Some i" and "\<not> spare q" and "Suc i \<noteq> length (elems q)"
  shows "search q ref compare = Inr (Some (int i)) \<and> get q (int i) = Inr (elems q ! i) \<and>
    delete q (int i) = Inl OutOfBounds"
proof -
  have i: "i < length (elems q)" using assms(3) by (simp add: first_index_Some)
  then have "Suc i < length (elems q)" using assms(5) by simp
  then show ?thesis
    using search_first [where compare = compare and ref = ref and P = P, OF assms(1,2)] assms i
    by (simp add: get_elems delete_stops)
qed

lemma extract_missing:
  assumes "inv q" and "\<And>x. x \<in> set (elems q) \<Longrightarrow> compare ref x = Inr (P x)"
    and "first_index P (elems q) = None"
  shows "search q ref compare = Inr None"
  using search_first [where compare = compare and ref = ref and P = P, OF assms(1,2)] assms(3) by simp

end

end
