(* ===== verification/NewQueue.thy ===== *)
theory NewQueue
  imports QueueSpec
begin

text \<open>
  The element queue of \<open>trunk/dependencies/extrae/src/common/new-queue.c\<close>: an array
  that grows by a fixed number of elements and is searched from the front. One cell
  of \<open>Data\<close> is one element of \<open>SizeOfElement\<close> bytes (the code only ever copies
  whole elements, at offsets that are multiples of that size); a cell that nothing was
  stored in is \<open>None\<close>. The pointers that \<open>NewQueue_search\<close> returns and
  \<open>NewQueue_delete\<close> takes are element indices into \<open>Data\<close>.
\<close>

record 'a new_queue =
  Data :: "'a option list"
  SizeOfElement :: nat
  NumOfElements :: int
  ElementsPerAllocation :: int
  ElementsAllocated :: int

definition sizeof_NewQueue_t :: nat where
  "sizeof_NewQueue_t = 32"

definition NewQueue_create :: "allocator \<Rightarrow> nat \<Rightarrow> int \<Rightarrow> 'a new_queue res" where
  "NewQueue_create alloc elem_size per =
     (if \<not> alloc sizeof_NewQueue_t then Inl (Exit (-1))
      else Inr \<lparr>Data = [], SizeOfElement = elem_size, NumOfElements = 0,
                ElementsPerAllocation = per, ElementsAllocated = 0\<rparr>)"

definition NewQueue_clear :: "'a new_queue option \<Rightarrow> 'a new_queue option" where
  "NewQueue_clear q = map_option (\<lambda>q. q\<lparr>NumOfElements := 0\<rparr>) q"

definition NewQueue_grow :: "allocator \<Rightarrow> 'a new_queue \<Rightarrow> 'a new_queue res" where
  "NewQueue_grow alloc q =
     (let n = ElementsAllocated q + ElementsPerAllocation q in
      if \<not> alloc (nat n * SizeOfElement q) then Inl (Exit (-1))
      else Inr (q\<lparr>Data := take (nat n) (Data q) @ replicate (nat n - length (Data q)) None,
                  ElementsAllocated := n\<rparr>))"

definition NewQueue_add :: "allocator \<Rightarrow> 'a new_queue \<Rightarrow> 'a \<Rightarrow> 'a new_queue res" where
  "NewQueue_add alloc q d =
     andthen (if NumOfElements q = ElementsAllocated q then NewQueue_grow alloc q else Inr q)
       (\<lambda>q. andthen (array_set (Data q) (NumOfElements q) (Some d))
         (\<lambda>cells. Inr (q\<lparr>Data := cells, NumOfElements := NumOfElements q + 1\<rparr>)))"

text \<open>Reading an element, as the comparison callback does.\<close>

definition element_at :: "'a new_queue \<Rightarrow> int \<Rightarrow> 'a res" where
  "element_at q i =
     andthen (array_get (Data q) i)
       (\<lambda>c. case c of None \<Rightarrow> Inl Uninitialised | Some x \<Rightarrow> Inr x)"

function search_loop :: "'a new_queue \<Rightarrow> ('a \<Rightarrow> bool res) \<Rightarrow> int \<Rightarrow> int option res" where
  "search_loop q compare i =
     (if i < NumOfElements q
      then andthen (element_at q i)
             (\<lambda>x. andthen (compare x)
               (\<lambda>found. if found then Inr (Some i) else search_loop q compare (i + 1)))
      else Inr None)"
  by pat_completeness auto
termination
  by (relation "measure (\<lambda>(q, compare, i). nat (NumOfElements q - i))") auto

declare search_loop.simps [simp del]

definition NewQueue_search ::
  "'a new_queue \<Rightarrow> 'r \<Rightarrow> ('r \<Rightarrow> 'a \<Rightarrow> bool res) \<Rightarrow> int option res" where
  "NewQueue_search q reference compare =
     (if NumOfElements q > 0 then search_loop q (compare reference) 0 else Inr None)"

text \<open>The first loop of \<open>NewQueue_delete\<close> compares addresses and reads no element.\<close>

function delete_find :: "'a new_queue \<Rightarrow> int \<Rightarrow> int \<Rightarrow> int option" where
  "delete_find q d i =
     (if i < NumOfElements q then (if d = i then Some i else delete_find q d (i + 1)) else None)"
  by pat_completeness auto
termination
  by (relation "measure (\<lambda>(q, d, i). nat (NumOfElements q - i))") auto

declare delete_find.simps [simp del]

text \<open>\<open>memcpy\<close> of the element after \<open>i\<close> over the element \<open>i\<close>.\<close>

definition copy_down :: "'a new_queue \<Rightarrow> int \<Rightarrow> 'a new_queue res" where
  "copy_down q i =
     andthen (array_get (Data q) (i + 1))
       (\<lambda>c. andthen (array_set (Data q) i c) (\<lambda>cells. Inr (q\<lparr>Data := cells\<rparr>)))"

lemma copy_down_NumOfElements: "copy_down q i = Inr q' \<Longrightarrow> NumOfElements q' = NumOfElements q"
  by (auto simp: copy_down_def)

function delete_shift :: "'a new_queue \<Rightarrow> int \<Rightarrow> int \<Rightarrow> 'a new_queue res" where
  "delete_shift q n i =
     (if i < n - 1 then andthen (copy_down q (i + 1)) (\<lambda>q. delete_shift q n (i + 1)) else Inr q)"
  by pat_completeness auto
termination
  by (relation "measure (\<lambda>(q, n, i). nat (n - i))") auto

declare delete_shift.simps [simp del]

definition NewQueue_delete :: "'a new_queue \<Rightarrow> int \<Rightarrow> 'a new_queue res" where
  "NewQueue_delete q d =
     (let n = NumOfElements q;
          found = (if n > 0 then delete_find q d 0 else None)
      in andthen
           (case found of
              Some i \<Rightarrow>
                (if i < n - 1 then andthen (copy_down q i) (\<lambda>q. delete_shift q n i) else Inr q)
            | None \<Rightarrow> Inr q)
           (\<lambda>q. Inr (q\<lparr>NumOfElements := n - 1\<rparr>)))"

function dump_loop :: "'a new_queue \<Rightarrow> ('a \<Rightarrow> 'o) \<Rightarrow> int \<Rightarrow> 'o list res" where
  "dump_loop q printer i =
     (if i < NumOfElements q
      then andthen (element_at q i)
             (\<lambda>x. andthen (dump_loop q printer (i + 1)) (\<lambda>out. Inr (printer x # out)))
      else Inr [])"
  by pat_completeness auto
termination
  by (relation "measure (\<lambda>(q, printer, i). nat (NumOfElements q - i))") auto

declare dump_loop.simps [simp del]

definition NewQueue_dump :: "'a new_queue \<Rightarrow> ('a \<Rightarrow> 'o) \<Rightarrow> 'o list res" where
  "NewQueue_dump q printer = (if NumOfElements q > 0 then dump_loop q printer 0 else Inr [])"


section \<open>The queue as a list\<close>

definition queue_inv :: "'a new_queue \<Rightarrow> bool" where
  "queue_inv q \<longleftrightarrow>
     length (Data q) = nat (ElementsAllocated q) \<and>
     0 \<le> NumOfElements q \<and> NumOfElements q \<le> ElementsAllocated q \<and>
     0 < ElementsPerAllocation q \<and>
     None \<notin> set (take (nat (NumOfElements q)) (Data q))"

definition queue_elems :: "'a new_queue \<Rightarrow> 'a list" where
  "queue_elems q = map the (take (nat (NumOfElements q)) (Data q))"

text \<open>There is an allocated cell behind the last element.\<close>

definition has_spare :: "'a new_queue \<Rightarrow> bool" where
  "has_spare q \<longleftrightarrow> NumOfElements q < ElementsAllocated q"

lemma queue_inv_length: "queue_inv q \<Longrightarrow> nat (NumOfElements q) \<le> length (Data q)"
  by (simp add: queue_inv_def nat_mono)

lemma length_queue_elems: "queue_inv q \<Longrightarrow> length (queue_elems q) = nat (NumOfElements q)"
  by (simp add: queue_elems_def queue_inv_length)

lemma NumOfElements_eq_length: "queue_inv q \<Longrightarrow> NumOfElements q = int (length (queue_elems q))"
  by (simp add: length_queue_elems) (simp add: queue_inv_def)

lemma queue_elems_nth:
  assumes "queue_inv q" and "k < length (queue_elems q)"
  shows "Data q ! k = Some (queue_elems q ! k)"
proof -
  have k: "k < nat (NumOfElements q)" using assms by (simp add: length_queue_elems)
  with queue_inv_length [OF assms(1)]
  have "Data q ! k \<in> set (take (nat (NumOfElements q)) (Data q))"
    by (auto simp: in_set_conv_nth)
  with assms(1) k queue_inv_length [OF assms(1)] show ?thesis
    by (cases "Data q ! k") (auto simp: queue_inv_def queue_elems_def)
qed

lemma queue_invI:
  assumes "length (Data q) = nat (ElementsAllocated q)" "NumOfElements q = int (length xs)"
    "NumOfElements q \<le> ElementsAllocated q" "0 < ElementsPerAllocation q"
    "\<And>k. k < length xs \<Longrightarrow> Data q ! k = Some (xs ! k)"
  shows "queue_inv q \<and> queue_elems q = xs"
proof -
  have len: "length xs \<le> length (Data q)" using assms(1-3) by linarith
  have "take (length xs) (Data q) = map Some xs"
    by (rule nth_equalityI) (use assms len in auto)
  then show ?thesis using assms(1-4)
    by (auto simp: queue_inv_def queue_elems_def comp_def)
qed

lemma element_at_elems:
  assumes "queue_inv q" and "k < length (queue_elems q)"
  shows "element_at q (int k) = Inr (queue_elems q ! k)"
proof -
  have "k < length (Data q)"
    using assms queue_inv_length [OF assms(1)] by (simp add: length_queue_elems)
  then show ?thesis
    using assms by (simp add: element_at_def bounds_simps queue_elems_nth)
qed

lemma NewQueue_create_correct:
  "NewQueue_create alloc elem_size per = Inr q \<Longrightarrow> 0 < per \<Longrightarrow> queue_inv q \<and> queue_elems q = []"
  by (auto simp: NewQueue_create_def queue_inv_def queue_elems_def split: if_splits)

lemma NewQueue_clear_correct:
  "queue_inv q \<Longrightarrow> NewQueue_clear (Some q) = Some r \<Longrightarrow> queue_inv r \<and> queue_elems r = []"
  by (auto simp: NewQueue_clear_def queue_inv_def queue_elems_def)

text \<open>Every add either finds no memory or appends.\<close>

lemma NewQueue_grow_correct:
  assumes "queue_inv q" and "NewQueue_grow alloc q = Inr r"
  shows "queue_inv r \<and> queue_elems r = queue_elems q \<and> has_spare r"
proof -
  let ?n = "ElementsAllocated q + ElementsPerAllocation q"
  have r: "r = q\<lparr>Data := take (nat ?n) (Data q) @ replicate (nat ?n - length (Data q)) None,
                 ElementsAllocated := ?n\<rparr>"
    using assms(2) by (auto simp: NewQueue_grow_def Let_def split: if_splits)
  have len: "length (Data q) \<le> nat ?n"
    using assms(1) by (simp add: queue_inv_def nat_mono)
  have "queue_inv r \<and> queue_elems r = queue_elems q"
    by (rule queue_invI)
      (use assms(1) len in \<open>auto simp: r NumOfElements_eq_length [symmetric] nth_append
         queue_elems_nth queue_inv_def length_queue_elems\<close>)
  moreover have "has_spare r"
    using assms(1) by (simp add: r has_spare_def queue_inv_def)
  ultimately show ?thesis by blast
qed


lemma NewQueue_add_correct:
  assumes "queue_inv q" and "NewQueue_add alloc q d = Inr r"
  shows "queue_inv r \<and> queue_elems r = queue_elems q @ [d]"
proof -
  obtain p where grow: "(if NumOfElements q = ElementsAllocated q then NewQueue_grow alloc q else Inr q) = Inr p"
    and add: "andthen (array_set (Data p) (NumOfElements p) (Some d))
      (\<lambda>cells. Inr (p\<lparr>Data := cells, NumOfElements := NumOfElements p + 1\<rparr>)) = Inr r"
    using assms(2) unfolding NewQueue_add_def by (rule andthen_Inr_E)
  have p: "queue_inv p" "queue_elems p = queue_elems q" "has_spare p"
    using grow assms(1) NewQueue_grow_correct [of q alloc p]
    by (auto simp: has_spare_def queue_inv_def split: if_splits)
  have r: "r = p\<lparr>Data := (Data p)[nat (NumOfElements p) := Some d],
                 NumOfElements := NumOfElements p + 1\<rparr>"
    using add by (auto simp: array_set_def split: if_splits)
  have n: "NumOfElements p = int (length (queue_elems p))"
    by (rule NumOfElements_eq_length [OF p(1)])
  have shape: "length (Data p) = nat (ElementsAllocated p)" "0 < ElementsPerAllocation p"
    "int (length (queue_elems p)) < ElementsAllocated p"
    using p(1,3) n by (auto simp: queue_inv_def has_spare_def)
  have "queue_inv r \<and> queue_elems r = queue_elems p @ [d]"
    by (intro queue_invI)
      (use shape in \<open>auto simp: r n nth_append nth_list_update queue_elems_nth [OF p(1)]
         less_Suc_eq\<close>)
  then show ?thesis by (simp add: p(2))
qed

lemma NewQueue_add_stops:
  assumes "queue_inv q"
  shows "NewQueue_add alloc q d = Inl e \<longleftrightarrow>
    e = Exit (-1) \<and> \<not> has_spare q \<and>
    \<not> alloc (nat (ElementsAllocated q + ElementsPerAllocation q) * SizeOfElement q)"
  using assms
  by (auto simp: NewQueue_add_def NewQueue_grow_def Let_def has_spare_def queue_inv_def
      array_set_def in_range_def split: if_splits)

section \<open>Searching\<close>

lemma search_loop_elems:
  assumes "queue_inv q" and "\<And>x. x \<in> set (queue_elems q) \<Longrightarrow> compare x = Inr (P x)"
  shows "k \<le> length (queue_elems q) \<Longrightarrow>
    search_loop q compare (int k) =
      Inr (map_option (\<lambda>i. int (i + k)) (first_index P (drop k (queue_elems q))))"
proof (induction rule: inc_induct)
  case base
  show ?case
    using assms by (simp add: search_loop.simps [of q] NumOfElements_eq_length)
next
  case (step k)
  then show ?case
    using assms Cons_nth_drop_Suc [of k "queue_elems q", symmetric]
    by (simp add: search_loop.simps [of q _ "int k"] NumOfElements_eq_length element_at_elems
        option.map_comp comp_def ac_simps)
qed

lemma NewQueue_search_correct:
  assumes "queue_inv q" and "\<And>x. x \<in> set (queue_elems q) \<Longrightarrow> compare ref x = Inr (P x)"
  shows "NewQueue_search q ref compare = Inr (map_option int (first_index P (queue_elems q)))"
  using search_loop_elems [OF assms(1), where k = 0 and compare = "compare ref" and P = P]
    assms(2) NumOfElements_eq_length [OF assms(1)]
  by (auto simp: NewQueue_search_def)

lemma dump_loop_elems:
  assumes "queue_inv q"
  shows "k \<le> length (queue_elems q) \<Longrightarrow>
    dump_loop q printer (int k) = Inr (map printer (drop k (queue_elems q)))"
proof (induction rule: inc_induct)
  case base
  show ?case
    using assms by (simp add: dump_loop.simps [of q] NumOfElements_eq_length)
next
  case (step k)
  then show ?case
    using assms Cons_nth_drop_Suc [of k "queue_elems q", symmetric]
    by (simp add: dump_loop.simps [of q _ "int k"] NumOfElements_eq_length element_at_elems ac_simps)
qed

lemma NewQueue_dump_correct:
  assumes "queue_inv q"
  shows "NewQueue_dump q printer = Inr (map printer (queue_elems q))"
  using dump_loop_elems [OF assms, of 0 printer] NumOfElements_eq_length [OF assms]
  by (auto simp: NewQueue_dump_def)

section \<open>Deleting\<close>

lemma delete_find_eq:
  "delete_find q d i = (if i \<le> d \<and> d < NumOfElements q then Some d else None)"
  by (induction q d i rule: delete_find.induct) (subst delete_find.simps, auto)

text \<open>
  The shift copies every cell from \<open>i + 1\<close> up to the last element down by one. The
  last copy, into the last element, reads the cell behind it.
\<close>

lemma copy_down_eq:
  "copy_down q (int k) =
     (if Suc k < length (Data q) then Inr (q\<lparr>Data := (Data q)[k := Data q ! Suc k]\<rparr>)
      else Inl OutOfBounds)"
  by (auto simp: copy_down_def array_get_def array_set_def in_range_def nat_add_distrib)

lemma delete_shift_eq:
  "n \<le> length (Data q) \<Longrightarrow> k < n \<Longrightarrow>
   delete_shift q (int n) (int k) =
     (if n < length (Data q) \<or> Suc k = n
      then Inr (q\<lparr>Data := take (Suc k) (Data q) @
        take (n - Suc k) (drop (Suc (Suc k)) (Data q)) @ drop n (Data q)\<rparr>)
      else Inl OutOfBounds)"
proof (induction "n - Suc k" arbitrary: k q)
  case 0
  then have "Suc k = n" by simp
  then show ?case
    by (auto simp: delete_shift.simps [of q])
next
  case (Suc m)
  let ?D = "Data q"
  have k: "Suc k < n" using Suc.hyps(2) by simp
  let ?q = "q\<lparr>Data := ?D[Suc k := ?D ! Suc (Suc k)]\<rparr>"
  have step: "delete_shift q (int n) (int k) =
      andthen (copy_down q (int (Suc k))) (\<lambda>q. delete_shift q (int n) (int (Suc k)))"
    using k by (simp add: delete_shift.simps [of q] add.commute)
  show ?case
  proof (cases "Suc (Suc k) < length ?D")
    case False
    with k Suc.prems show ?thesis by (simp add: step copy_down_eq del: of_nat_Suc)
  next
    case True
    have IH: "delete_shift ?q (int n) (int (Suc k)) =
      (if n < length ?D \<or> Suc (Suc k) = n
       then Inr (?q\<lparr>Data := take (Suc (Suc k)) (Data ?q) @
          take (n - Suc (Suc k)) (drop (Suc (Suc (Suc k))) (Data ?q)) @ drop n (Data ?q)\<rparr>)
       else Inl OutOfBounds)"
      using Suc.hyps(1) [of "Suc k" ?q] Suc.hyps(2) Suc.prems k by simp
    have "take (Suc (Suc k)) (?D[Suc k := ?D ! Suc (Suc k)]) = take (Suc k) ?D @ [?D ! Suc (Suc k)]"
      using True by (simp add: take_Suc_conv_app_nth)
    moreover have "take (n - Suc k) (drop (Suc (Suc k)) ?D) =
        ?D ! Suc (Suc k) # take (n - Suc (Suc k)) (drop (Suc (Suc (Suc k))) ?D)"
      using True k by (simp add: Cons_nth_drop_Suc [symmetric] Suc_diff_Suc [symmetric])
    ultimately have cells: "take (Suc (Suc k)) (?D[Suc k := ?D ! Suc (Suc k)]) @
        take (n - Suc (Suc k)) (drop (Suc (Suc (Suc k))) ?D) @ drop n ?D =
        take (Suc k) ?D @ take (n - Suc k) (drop (Suc (Suc k)) ?D) @ drop n ?D"
      by simp
    show ?thesis
      using True k Suc.prems by (auto simp: step copy_down_eq IH cells simp del: of_nat_Suc)
  qed
qed


text \<open>The whole of the deletion of a queued element, and of an address that is none.\<close>

lemma NewQueue_delete_queued:
  assumes inv: "queue_inv q" and k: "k < length (queue_elems q)"
  shows "NewQueue_delete q (int k) =
    (if has_spare q \<or> Suc k = length (queue_elems q)
     then Inr (q\<lparr>Data := (if Suc k < length (queue_elems q)
         then take k (Data q) @ take (length (queue_elems q) - k) (drop (Suc k) (Data q)) @
              drop (length (queue_elems q)) (Data q)
         else Data q),
       NumOfElements := NumOfElements q - 1\<rparr>)
     else Inl OutOfBounds)"
proof -
  let ?n = "length (queue_elems q)"
  let ?D = "Data q"
  have n: "NumOfElements q = int ?n" by (rule NumOfElements_eq_length [OF inv])
  have len: "?n \<le> length ?D" and spare: "has_spare q \<longleftrightarrow> ?n < length ?D"
    using inv n by (auto simp: queue_inv_def has_spare_def)
  have found: "delete_find q (int k) 0 = Some (int k)"
    using k by (simp add: delete_find_eq n)
  show ?thesis
  proof (cases "Suc k < ?n")
    case False
    with k show ?thesis by (simp add: NewQueue_delete_def Let_def n found)
  next
    case True
    let ?q = "q\<lparr>Data := ?D[k := ?D ! Suc k]\<rparr>"
    have shift: "delete_shift ?q (int ?n) (int k) =
      (if ?n < length ?D \<or> Suc k = ?n
       then Inr (?q\<lparr>Data := take (Suc k) (Data ?q) @
          take (?n - Suc k) (drop (Suc (Suc k)) (Data ?q)) @ drop ?n (Data ?q)\<rparr>)
       else Inl OutOfBounds)"
      using delete_shift_eq [of ?n ?q k] len k by simp
    have "take (Suc k) (?D[k := ?D ! Suc k]) = take k ?D @ [?D ! Suc k]"
      using True len by (simp add: take_Suc_conv_app_nth)
    moreover have "take (?n - k) (drop (Suc k) ?D) =
        ?D ! Suc k # take (?n - Suc k) (drop (Suc (Suc k)) ?D)"
      using True len by (simp add: Cons_nth_drop_Suc [symmetric] Suc_diff_Suc [symmetric])
    ultimately have "Data ?q = ?D[k := ?D ! Suc k] \<and>
        take (Suc k) (?D[k := ?D ! Suc k]) @ take (?n - Suc k) (drop (Suc (Suc k)) ?D) @ drop ?n ?D =
        take k ?D @ take (?n - k) (drop (Suc k) ?D) @ drop ?n ?D"
      by simp
    with True k len shift show ?thesis
      by (cases "?n < length ?D") (auto simp: NewQueue_delete_def Let_def n found copy_down_eq spare)
  qed
qed

lemma NewQueue_delete_correct:
  assumes inv: "queue_inv q" and k: "k < length (queue_elems q)" and del: "NewQueue_delete q (int k) = Inr r"
  shows "queue_inv r \<and> queue_elems r = remove_nth k (queue_elems q) \<and> has_spare r"
proof -
  let ?xs = "queue_elems q"
  let ?D = "Data q"
  have n: "NumOfElements q = int (length ?xs)" by (rule NumOfElements_eq_length [OF inv])
  have shape: "length ?D = nat (ElementsAllocated q)" "0 < ElementsPerAllocation q"
    "int (length ?xs) \<le> ElementsAllocated q" "length ?xs \<le> length ?D"
    using inv n by (auto simp: queue_inv_def)
  have spare: "has_spare q \<or> Suc k = length ?xs"
    using del NewQueue_delete_queued [OF inv k] by (auto split: if_splits)
  then have r: "r = q\<lparr>Data := (if Suc k < length ?xs
         then take k ?D @ take (length ?xs - k) (drop (Suc k) ?D) @ drop (length ?xs) ?D
         else ?D), NumOfElements := int (length ?xs) - 1\<rparr>"
    using del NewQueue_delete_queued [OF inv k] by (auto simp: n split: if_splits)
  have room: "Suc k < length ?xs \<Longrightarrow> length ?xs < length ?D"
    using spare shape n by (auto simp: has_spare_def)
  have "queue_inv r \<and> queue_elems r = remove_nth k ?xs"
  proof (rule queue_invI)
    show "length (Data r) = nat (ElementsAllocated r)" using shape room k by (auto simp: r)
    show "NumOfElements r = int (length (remove_nth k ?xs))"
      using k by (simp add: r length_remove_nth of_nat_diff)
    show "NumOfElements r \<le> ElementsAllocated r" using shape by (simp add: r)
    show "0 < ElementsPerAllocation r" using shape by (simp add: r)
    fix j assume "j < length (remove_nth k ?xs)"
    then have "j < length ?xs - 1" using k by (simp add: length_remove_nth)
    then show "Data r ! j = Some (remove_nth k ?xs ! j)"
      using shape room k queue_elems_nth [OF inv]
      by (auto simp: r remove_nth_def nth_append)
  qed
  moreover have "has_spare r" using shape k by (simp add: r has_spare_def)
  ultimately show ?thesis by blast
qed

lemma NewQueue_delete_absent:
  assumes "queue_inv q" and "d < 0 \<or> int (length (queue_elems q)) \<le> d"
  shows "NewQueue_delete q d = Inr (q\<lparr>NumOfElements := NumOfElements q - 1\<rparr>)"
  using assms NumOfElements_eq_length [OF assms(1)]
  by (auto simp: NewQueue_delete_def Let_def delete_find_eq)


section \<open>The contract of the queue\<close>

interpretation nq: element_queue "NewQueue_add alloc" NewQueue_search element_at NewQueue_delete
  queue_elems queue_inv has_spare for alloc
proof unfold_locales
  fix q r :: "'a new_queue" and k
  assume "queue_inv q" "k < length (queue_elems q)" "has_spare q \<or> Suc k = length (queue_elems q)"
  then show "\<exists>r. NewQueue_delete q (int k) = Inr r" by (simp add: NewQueue_delete_queued)
next
  fix q :: "'a new_queue" and k
  assume "queue_inv q" "Suc k < length (queue_elems q)" "\<not> has_spare q"
  then show "NewQueue_delete q (int k) = Inl OutOfBounds" by (simp add: NewQueue_delete_queued)
qed (auto simp: NewQueue_add_correct NewQueue_search_correct element_at_elems
    dest: NewQueue_delete_correct)


section \<open>Properties\<close>

text \<open>
  Adding to a well-formed queue, when memory can be had, always returns, keeps the
  queue well formed and appends the element behind all queued ones, whether or not
  the array had to grow.
\<close>

theorem NewQueue_add_appends:
  assumes "queue_inv q" and "\<And>n. alloc n"
  shows "\<exists>r. NewQueue_add alloc q d = Inr r \<and> queue_inv r \<and> queue_elems r = queue_elems q @ [d]"
proof -
  obtain r where "NewQueue_add alloc q d = Inr r"
    using NewQueue_add_stops [OF assms(1), of alloc d] assms(2) by (cases "NewQueue_add alloc q d") auto
  then show ?thesis
    using nq.add_inv [OF assms(1)] nq.add_elems [OF assms(1)] by auto
qed

lemma NewQueue_add_appends_witness:
  "\<exists>r. NewQueue_add (\<lambda>_. True) \<lparr>Data = [Some (5::nat), None], SizeOfElement = 8, NumOfElements = 1,
      ElementsPerAllocation = 2, ElementsAllocated = 2\<rparr> 6 = Inr r \<and> queue_inv r \<and>
    queue_elems r = [5, 6]"
  using NewQueue_add_appends [of "\<lparr>Data = [Some (5::nat), None], SizeOfElement = 8,
      NumOfElements = 1, ElementsPerAllocation = 2, ElementsAllocated = 2\<rparr>" "\<lambda>_. True" 6]
  by (simp add: queue_inv_def queue_elems_def)

text \<open>
  C23. Deleting a queued element reads one element past the allocation exactly when the
  array is full and the element is not the last one: the shift copies from behind the
  last element. In every other case the deletion returns, and the queue has lost that element and no other.
\<close>

theorem NewQueue_delete_overread:
  assumes "queue_inv q" and "0 \<le> d" and "d < NumOfElements q"
  shows "if NumOfElements q = ElementsAllocated q \<and> d < NumOfElements q - 1
    then NewQueue_delete q d = Inl OutOfBounds
    else \<exists>r. NewQueue_delete q d = Inr r \<and> queue_inv r \<and> queue_elems r = remove_nth (nat d) (queue_elems q)"
proof -
  obtain k where k: "d = int k" using assms(2) by (rule nonneg_int_cases)
  have n: "NumOfElements q = int (length (queue_elems q))"
    by (rule NumOfElements_eq_length [OF assms(1)])
  have le: "NumOfElements q \<le> ElementsAllocated q" using assms(1) by (simp add: queue_inv_def)
  have in_queue: "k < length (queue_elems q)" using assms(3) by (simp add: k n)
  show ?thesis
  proof (cases "has_spare q \<or> Suc k = length (queue_elems q)")
    case True
    then obtain r where r: "NewQueue_delete q d = Inr r"
      using NewQueue_delete_queued [OF assms(1) in_queue] by (simp add: k)
    moreover have "\<not> (NumOfElements q = ElementsAllocated q \<and> d < NumOfElements q - 1)"
      using True by (auto simp: has_spare_def k n)
    ultimately show ?thesis
      using NewQueue_delete_correct [OF assms(1) in_queue, of r] by (simp add: k)
  next
    case False
    then have "NumOfElements q = ElementsAllocated q \<and> d < NumOfElements q - 1"
      using le in_queue by (auto simp: has_spare_def k n)
    moreover have "NewQueue_delete q d = Inl OutOfBounds"
      using False NewQueue_delete_queued [OF assms(1) in_queue] by (simp add: k)
    ultimately show ?thesis by simp
  qed
qed

lemma NewQueue_delete_overread_witness:
  "NewQueue_delete \<lparr>Data = [Some (5::nat), Some 6], SizeOfElement = 8, NumOfElements = 2,
     ElementsPerAllocation = 2, ElementsAllocated = 2\<rparr> 0 = Inl OutOfBounds \<and>
   (\<exists>r. NewQueue_delete \<lparr>Data = [Some (5::nat), Some 6, None, None], SizeOfElement = 8, NumOfElements = 2,
     ElementsPerAllocation = 2, ElementsAllocated = 4\<rparr> 0 = Inr r \<and> queue_elems r = [6])"
  using NewQueue_delete_overread [of "\<lparr>Data = [Some (5::nat), Some 6], SizeOfElement = 8,
      NumOfElements = 2, ElementsPerAllocation = 2, ElementsAllocated = 2\<rparr>" 0]
    NewQueue_delete_overread [of "\<lparr>Data = [Some (5::nat), Some 6, None, None], SizeOfElement = 8,
      NumOfElements = 2, ElementsPerAllocation = 2, ElementsAllocated = 4\<rparr>" 0]
  by (auto simp: queue_inv_def queue_elems_def remove_nth_def)

text \<open>
  Deleting an address that is not that of a queued element still takes an element
  out of a non-empty queue: the counter goes down and the last element is lost.
\<close>

theorem NewQueue_delete_absent_drops_last:
  assumes "queue_inv q" and "queue_elems q \<noteq> []" and "d < 0 \<or> NumOfElements q \<le> d"
  shows "\<exists>r. NewQueue_delete q d = Inr r \<and> queue_inv r \<and> queue_elems r = butlast (queue_elems q)"
proof -
  let ?r = "q\<lparr>NumOfElements := NumOfElements q - 1\<rparr>"
  let ?xs = "queue_elems q"
  have n: "NumOfElements q = int (length ?xs)" by (rule NumOfElements_eq_length [OF assms(1)])
  have "NewQueue_delete q d = Inr ?r"
    using assms NewQueue_delete_absent [OF assms(1), of d] by (simp add: n)
  moreover have "queue_inv ?r \<and> queue_elems ?r = butlast ?xs"
    by (rule queue_invI)
      (use assms(1,2) queue_elems_nth [OF assms(1)] in
        \<open>auto simp: n nth_butlast queue_inv_def of_nat_diff Suc_le_eq\<close>)
  ultimately show ?thesis by blast
qed

lemma NewQueue_delete_absent_drops_last_witness:
  "\<exists>r. NewQueue_delete \<lparr>Data = [Some (5::nat), Some 6], SizeOfElement = 8, NumOfElements = 2,
      ElementsPerAllocation = 2, ElementsAllocated = 2\<rparr> 7 = Inr r \<and> queue_inv r \<and>
    queue_elems r = [5]"
  using NewQueue_delete_absent_drops_last [of "\<lparr>Data = [Some (5::nat), Some 6], SizeOfElement = 8,
      NumOfElements = 2, ElementsPerAllocation = 2, ElementsAllocated = 2\<rparr>" 7]
  by (simp add: queue_inv_def queue_elems_def)

end
