(* ===== verification/EventRecord.thy ===== *)
theory EventRecord
  imports Prelude "HOL-Library.Word"
begin

text \<open>
  The event record \<open>event_t\<close> of \<open>trunk/dependencies/extrae/src/common/record.h\<close>
  and its accessors, which the tracing buffers and the merger share.

  The parameters of an event are a union of three structures in the same 24 bytes.
  The fields here are those of its widest member, \<open>mpi_param\<close>; the members
  \<open>omp_param\<close> and \<open>misc_param\<close> are read out of the same bytes, as a
  little-endian machine lays them out.
\<close>

unbundle bit_operations_syntax

type_synonym INT32 = "32 word"
type_synonym INT64 = "64 word"
type_synonym UINT64 = "64 word"

record u_param =
  param_target :: INT32
  param_size :: INT32
  param_tag :: INT32
  param_comm :: INT32
  param_aux :: INT64

record event_t =
  ev_param :: u_param
  ev_value :: UINT64
  ev_time :: UINT64
  ev_HWCValues :: "INT64 list"
  ev_event :: INT32
  ev_HWCReadSet :: INT32

definition Get_EvTime :: "event_t option \<Rightarrow> UINT64" where
  "Get_EvTime p = (case p of None \<Rightarrow> 0 | Some e \<Rightarrow> ev_time e)"

definition Get_EvEvent :: "event_t \<Rightarrow> INT32" where
  "Get_EvEvent e = ev_event e"

definition Get_EvValue :: "event_t \<Rightarrow> UINT64" where
  "Get_EvValue e = ev_value e"

definition Get_EvTarget :: "event_t \<Rightarrow> INT32" where
  "Get_EvTarget e = param_target (ev_param e)"

definition Get_EvSize :: "event_t \<Rightarrow> INT32" where
  "Get_EvSize e = param_size (ev_param e)"

definition Get_EvTag :: "event_t \<Rightarrow> INT32" where
  "Get_EvTag e = param_tag (ev_param e)"

definition Get_EvComm :: "event_t \<Rightarrow> INT32" where
  "Get_EvComm e = param_comm (ev_param e)"

definition Get_EvAux :: "event_t \<Rightarrow> INT64" where
  "Get_EvAux e = param_aux (ev_param e)"

definition Get_EvNParam :: "event_t \<Rightarrow> nat \<Rightarrow> UINT64 res" where
  "Get_EvNParam e i =
     (if i = 0 then Inr (ucast (Get_EvTarget e) OR push_bit 32 (ucast (Get_EvSize e)))
      else if i = 1 then Inr (ucast (Get_EvTag e) OR push_bit 32 (ucast (Get_EvComm e)))
      else Inl OutOfBounds)"

definition Get_EvHWCRead :: "event_t \<Rightarrow> bool" where
  "Get_EvHWCRead e \<longleftrightarrow> ev_HWCReadSet e \<noteq> 0"

definition Get_EvHWCSet :: "event_t \<Rightarrow> INT32" where
  "Get_EvHWCSet e =
     (if 0 <s ev_HWCReadSet e then ev_HWCReadSet e - 1 else ev_HWCReadSet e * (- 1) - 1)"

definition Reset_EvHWCs :: "event_t \<Rightarrow> event_t" where
  "Reset_EvHWCs e =
     (if 0 <s ev_HWCReadSet e then e\<lparr>ev_HWCReadSet := ev_HWCReadSet e * (- 1)\<rparr> else e)"

definition Check_EvHWCsReset :: "event_t \<Rightarrow> bool" where
  "Check_EvHWCsReset e \<longleftrightarrow> ev_HWCReadSet e <s 0"

definition Get_EvHWC :: "event_t \<Rightarrow> int \<Rightarrow> INT64 res" where
  "Get_EvHWC e cnt = (if Check_EvHWCsReset e then Inr 0 else array_get (ev_HWCValues e) cnt)"

text \<open>
  A reset event keeps the set its counters were read with, and reads as zero in every
  counter from then on.
\<close>

lemma sint_neg: "0 <s (x :: INT32) \<Longrightarrow> sint (- x) = - sint x"
proof -
  assume "0 <s x"
  then have "0 < sint x" by (simp add: word_sless_alt)
  moreover have "sint x < 2 ^ 31" using sint_lt [of x] by simp
  ultimately have "signed_take_bit 31 (- sint x) = - sint x"
    by (intro signed_take_bit_int_eq_self) simp_all
  then show ?thesis by (simp add: sint_word_ariths)
qed

lemma Reset_EvHWCs_set: "Get_EvHWCSet (Reset_EvHWCs e) = Get_EvHWCSet e"
proof (cases "0 <s ev_HWCReadSet e")
  case True
  then have "\<not> 0 <s - ev_HWCReadSet e"
    using sint_neg [of "ev_HWCReadSet e"] by (simp add: word_sless_alt)
  with True show ?thesis by (simp add: Reset_EvHWCs_def Get_EvHWCSet_def)
qed (simp add: Reset_EvHWCs_def Get_EvHWCSet_def)

lemma Reset_EvHWCs_reads_zero:
  assumes "0 <s ev_HWCReadSet e"
  shows "Get_EvHWC (Reset_EvHWCs e) cnt = Inr 0"
  using assms sint_neg [of "ev_HWCReadSet e"]
  by (simp add: Get_EvHWC_def Check_EvHWCsReset_def Reset_EvHWCs_def word_sless_alt)

end
