(* ===== verification/CommQueues.thy ===== *)
theory CommQueues
  imports NewQueue EventRecord
begin

text \<open>
  The queues of pending sends and receives of the Paraver merger,
  \<open>trunk/dependencies/extrae/src/merger/paraver/communication_queues.c\<close>. A pointer to
  an event is the event or, for \<open>NULL\<close>, \<open>None\<close>. The tags and ranks that the code
  compares as \<open>int\<close> against \<open>unsigned\<close> are 32-bit words, whose equality is that
  of the comparison. \<open>MPI_ANY_TAG\<close> is \<open>-1\<close> where the merger is built without
  \<open>mpi.h\<close> and that header's value otherwise, so it is an argument.
\<close>

type_synonym event_ptr = "event_t option"

record SendData_t =
  send_begin :: event_ptr
  send_end :: event_ptr
  send_position :: int
  send_key :: INT64
  send_partner :: INT32
  send_thread :: INT32
  send_vthread :: INT32
  send_tag :: INT32

text \<open>\<open>SendDataReference_t\<close> and \<open>RecvDataReference_t\<close>, which are alike.\<close>

record DataReference_t =
  ref_key :: INT64
  ref_tag :: INT32
  ref_target :: INT32

definition MPI_ANY_TAG_default :: INT32 where
  "MPI_ANY_TAG_default = - 1"

definition CommunicationQueues_QueueSend ::
  "allocator \<Rightarrow> SendData_t new_queue \<Rightarrow> event_ptr \<Rightarrow> event_ptr \<Rightarrow> int \<Rightarrow> INT32 \<Rightarrow> INT32 \<Rightarrow>
   INT32 \<Rightarrow> INT32 \<Rightarrow> INT64 \<Rightarrow> SendData_t new_queue res" where
  "CommunicationQueues_QueueSend alloc qsend sbegin send position thread vthread partner tag key =
     NewQueue_add alloc qsend
       \<lparr>send_begin = sbegin, send_end = send, send_position = position, send_key = key,
        send_partner = partner, send_thread = thread, send_vthread = vthread, send_tag = tag\<rparr>"

definition CompareSend_cbk :: "INT32 \<Rightarrow> DataReference_t \<Rightarrow> SendData_t \<Rightarrow> bool res" where
  "CompareSend_cbk any_tag ref d =
     Inr ((ref_tag ref = send_tag d \<or> ref_tag ref = any_tag) \<and>
       ref_target ref = send_partner d \<and> ref_key ref = send_key d)"

text \<open>The variables that the out-parameters of an extraction point to.\<close>

record extracted =
  out_begin :: event_ptr
  out_end :: event_ptr
  out_position :: int
  out_thread :: INT32
  out_vthread :: INT32

definition CommunicationQueues_ExtractSend ::
  "INT32 \<Rightarrow> SendData_t new_queue \<Rightarrow> INT32 \<Rightarrow> INT32 \<Rightarrow> extracted \<Rightarrow> INT64 \<Rightarrow>
   (extracted \<times> SendData_t new_queue) res" where
  "CommunicationQueues_ExtractSend any_tag qsend receiver tag out key =
     (let reference = \<lparr>ref_key = key, ref_tag = tag, ref_target = receiver\<rparr> in
      andthen (NewQueue_search qsend reference (CompareSend_cbk any_tag))
        (\<lambda>found. case found of
           Some p \<Rightarrow>
             andthen (element_at qsend p) (\<lambda>d.
             andthen (NewQueue_delete qsend p) (\<lambda>qsend.
               Inr (out\<lparr>out_begin := send_begin d, out_end := send_end d,
                        out_position := send_position d, out_thread := send_thread d,
                        out_vthread := send_vthread d\<rparr>, qsend)))
         | None \<Rightarrow> Inr (out\<lparr>out_begin := None, out_end := None, out_position := 0\<rparr>, qsend)))"

record RecvData_t =
  recv_begin :: event_ptr
  recv_end :: event_ptr
  recv_key :: INT64
  recv_partner :: INT32
  recv_thread :: INT32
  recv_vthread :: INT32
  recv_tag :: INT32

definition CommunicationQueues_QueueRecv ::
  "allocator \<Rightarrow> RecvData_t new_queue \<Rightarrow> event_ptr \<Rightarrow> event_ptr \<Rightarrow> INT32 \<Rightarrow> INT32 \<Rightarrow>
   INT32 \<Rightarrow> INT32 \<Rightarrow> INT64 \<Rightarrow> RecvData_t new_queue res" where
  "CommunicationQueues_QueueRecv alloc qreceive rbegin rend thread vthread partner tag key =
     NewQueue_add alloc qreceive
       \<lparr>recv_begin = rbegin, recv_end = rend, recv_key = key, recv_partner = partner,
        recv_thread = thread, recv_vthread = vthread, recv_tag = tag\<rparr>"

text \<open>The event is looked at only when the tags differ.\<close>

definition CompareRecv_cbk :: "INT32 \<Rightarrow> DataReference_t \<Rightarrow> RecvData_t \<Rightarrow> bool res" where
  "CompareRecv_cbk any_tag ref d =
     andthen
       (if ref_tag ref = recv_tag d then Inr True
        else case recv_end d of None \<Rightarrow> Inl NullPointer | Some e \<Rightarrow> Inr (any_tag = Get_EvTag e))
       (\<lambda>tag_ok. Inr (tag_ok \<and> ref_target ref = recv_partner d \<and> ref_key ref = recv_key d))"

definition CommunicationQueues_ExtractRecv ::
  "INT32 \<Rightarrow> RecvData_t new_queue \<Rightarrow> INT32 \<Rightarrow> INT32 \<Rightarrow> extracted \<Rightarrow> INT64 \<Rightarrow>
   (extracted \<times> RecvData_t new_queue) res" where
  "CommunicationQueues_ExtractRecv any_tag qreceive sender tag out key =
     (let reference = \<lparr>ref_key = key, ref_tag = tag, ref_target = sender\<rparr> in
      andthen (NewQueue_search qreceive reference (CompareRecv_cbk any_tag))
        (\<lambda>found. case found of
           Some p \<Rightarrow>
             andthen (element_at qreceive p) (\<lambda>d.
             andthen (NewQueue_delete qreceive p) (\<lambda>qreceive.
               Inr (out\<lparr>out_begin := recv_begin d, out_end := recv_end d,
                        out_thread := recv_thread d, out_vthread := recv_vthread d\<rparr>, qreceive)))
         | None \<Rightarrow> Inr (out\<lparr>out_begin := None, out_end := None\<rparr>, qreceive)))"

text \<open>The sizes of the two structures are the platform's, and only scale the request.\<close>

definition CommunicationQueues_Init ::
  "allocator \<Rightarrow> nat \<Rightarrow> nat \<Rightarrow> (SendData_t new_queue \<times> RecvData_t new_queue) res" where
  "CommunicationQueues_Init alloc sizeof_send sizeof_recv =
     andthen (NewQueue_create alloc sizeof_send 1024) (\<lambda>s.
     andthen (NewQueue_create alloc sizeof_recv 1024) (\<lambda>r. Inr (s, r)))"

definition CommunicationQueues_Clear :: "'a new_queue option \<Rightarrow> 'a new_queue option" where
  "CommunicationQueues_Clear queue = (if queue \<noteq> None then NewQueue_clear queue else queue)"


section \<open>What an extraction finds\<close>

definition matches_send :: "INT32 \<Rightarrow> INT32 \<Rightarrow> INT32 \<Rightarrow> INT64 \<Rightarrow> SendData_t \<Rightarrow> bool" where
  "matches_send any_tag receiver tag key d \<longleftrightarrow>
     (tag = send_tag d \<or> tag = any_tag) \<and> receiver = send_partner d \<and> key = send_key d"

definition matches_recv :: "INT32 \<Rightarrow> INT32 \<Rightarrow> INT32 \<Rightarrow> INT64 \<Rightarrow> RecvData_t \<Rightarrow> bool" where
  "matches_recv any_tag sender tag key d \<longleftrightarrow>
     (tag = recv_tag d \<or> (case recv_end d of None \<Rightarrow> False | Some e \<Rightarrow> any_tag = Get_EvTag e)) \<and>
     sender = recv_partner d \<and> key = recv_key d"

definition send_result :: "extracted \<Rightarrow> SendData_t \<Rightarrow> extracted" where
  "send_result out d =
     out\<lparr>out_begin := send_begin d, out_end := send_end d, out_position := send_position d,
         out_thread := send_thread d, out_vthread := send_vthread d\<rparr>"

definition recv_result :: "extracted \<Rightarrow> RecvData_t \<Rightarrow> extracted" where
  "recv_result out d =
     out\<lparr>out_begin := recv_begin d, out_end := recv_end d,
         out_thread := recv_thread d, out_vthread := recv_vthread d\<rparr>"

lemma CompareSend_cbk_matches:
  "CompareSend_cbk any_tag \<lparr>ref_key = key, ref_tag = tag, ref_target = receiver\<rparr> d =
     Inr (matches_send any_tag receiver tag key d)"
  by (auto simp: CompareSend_cbk_def matches_send_def)

lemma CompareRecv_cbk_matches:
  "recv_end d \<noteq> None \<Longrightarrow>
   CompareRecv_cbk any_tag \<lparr>ref_key = key, ref_tag = tag, ref_target = sender\<rparr> d =
     Inr (matches_recv any_tag sender tag key d)"
  by (auto simp: CompareRecv_cbk_def matches_recv_def)

lemmas extract_send_found = nq.extract_found [where compare = "CompareSend_cbk any_tag"
    and ref = "\<lparr>ref_key = key, ref_tag = tag, ref_target = receiver\<rparr>"
    and P = "matches_send any_tag receiver tag key" for any_tag key tag receiver,
    OF _ CompareSend_cbk_matches]

lemma extract_send_step:
  assumes "queue_inv q" and "first_index (matches_send any_tag receiver tag key) (queue_elems q) = Some i"
    and "has_spare q \<or> Suc i = length (queue_elems q)"
  shows "\<exists>r. CommunicationQueues_ExtractSend any_tag q receiver tag out key =
      Inr (send_result out (queue_elems q ! i), r) \<and>
    queue_inv r \<and> queue_elems r = remove_nth i (queue_elems q) \<and> has_spare r"
  by (rule extract_send_found [OF assms(1,2,3)])
    (simp add: CommunicationQueues_ExtractSend_def send_result_def)

lemma extract_recv_step:
  assumes "queue_inv q" and "\<And>d. d \<in> set (queue_elems q) \<Longrightarrow> recv_end d \<noteq> None"
    and "first_index (matches_recv any_tag sender tag key) (queue_elems q) = Some i"
    and "has_spare q \<or> Suc i = length (queue_elems q)"
  shows "\<exists>r. CommunicationQueues_ExtractRecv any_tag q sender tag out key =
      Inr (recv_result out (queue_elems q ! i), r) \<and>
    queue_inv r \<and> queue_elems r = remove_nth i (queue_elems q) \<and> has_spare r"
  by (rule nq.extract_found [where compare = "CompareRecv_cbk any_tag"
      and ref = "\<lparr>ref_key = key, ref_tag = tag, ref_target = sender\<rparr>"
      and P = "matches_recv any_tag sender tag key", OF assms(1) CompareRecv_cbk_matches assms(3,4)])
    (use assms(2) in \<open>auto simp: CommunicationQueues_ExtractRecv_def recv_result_def\<close>)

lemma extract_send_missing:
  assumes "queue_inv q" and "first_index (matches_send any_tag receiver tag key) (queue_elems q) = None"
  shows "CommunicationQueues_ExtractSend any_tag q receiver tag out key =
    Inr (out\<lparr>out_begin := None, out_end := None, out_position := 0\<rparr>, q)"
  using nq.extract_missing [where compare = "CompareSend_cbk any_tag"
      and ref = "\<lparr>ref_key = key, ref_tag = tag, ref_target = receiver\<rparr>"
      and P = "matches_send any_tag receiver tag key", OF assms(1) CompareSend_cbk_matches assms(2)]
  by (simp add: CommunicationQueues_ExtractSend_def)

section \<open>Repeated extraction\<close>

text \<open>Extracting \<open>n\<close> times with the same receiver, tag and key.\<close>

fun extract_sends ::
  "INT32 \<Rightarrow> INT32 \<Rightarrow> INT32 \<Rightarrow> INT64 \<Rightarrow> extracted \<Rightarrow> nat \<Rightarrow> SendData_t new_queue \<Rightarrow>
   (extracted list \<times> SendData_t new_queue) res" where
  "extract_sends any_tag receiver tag key out 0 q = Inr ([], q)"
| "extract_sends any_tag receiver tag key out (Suc n) q =
     andthen (CommunicationQueues_ExtractSend any_tag q receiver tag out key)
       (\<lambda>(o1, q). andthen (extract_sends any_tag receiver tag key out n q)
         (\<lambda>(os, q). Inr (o1 # os, q)))"

lemma extract_sends_in_order:
  assumes "queue_inv q" and "has_spare q"
    and "n \<le> length (filter (matches_send any_tag receiver tag key) (queue_elems q))"
  shows "\<exists>r. extract_sends any_tag receiver tag key out n q =
      Inr (map (send_result out)
        (take n (filter (matches_send any_tag receiver tag key) (queue_elems q))), r) \<and>
    queue_inv r \<and> has_spare r \<and>
    filter (\<lambda>d. \<not> matches_send any_tag receiver tag key d) (queue_elems r) =
    filter (\<lambda>d. \<not> matches_send any_tag receiver tag key d) (queue_elems q)"
  using assms
proof (induction n arbitrary: q)
  case 0
  then show ?case by simp
next
  case (Suc n)
  let ?P = "matches_send any_tag receiver tag key"
  have "filter ?P (queue_elems q) \<noteq> []" using Suc.prems(3) by auto
  then obtain i where i: "first_index ?P (queue_elems q) = Some i"
    by (cases "first_index ?P (queue_elems q)") (auto simp: first_index_None filter_empty_conv)
  obtain r where r: "CommunicationQueues_ExtractSend any_tag q receiver tag out key =
      Inr (send_result out (queue_elems q ! i), r)"
    "queue_inv r" "queue_elems r = remove_nth i (queue_elems q)" "has_spare r"
    using extract_send_step [OF Suc.prems(1) i] Suc.prems(2) by blast
  have split: "filter ?P (queue_elems q) = queue_elems q ! i # filter ?P (queue_elems r)"
    using filter_first_index [OF i] by (simp add: r(3))
  obtain s where "extract_sends any_tag receiver tag key out n r =
      Inr (map (send_result out) (take n (filter ?P (queue_elems r))), s)"
    "queue_inv s" "has_spare s"
    "filter (\<lambda>d. \<not> ?P d) (queue_elems s) = filter (\<lambda>d. \<not> ?P d) (queue_elems r)"
    using Suc.IH [OF r(2,4)] Suc.prems(3) split by auto
  moreover have "filter (\<lambda>d. \<not> ?P d) (queue_elems r) = filter (\<lambda>d. \<not> ?P d) (queue_elems q)"
    using i by (simp add: r(3) first_index_Some filter_not_remove_nth)
  ultimately show ?case using r(1) split by auto
qed


section \<open>Properties\<close>

text \<open>A send queue with two pending sends, for the witnesses.\<close>

definition send_ex :: "nat \<Rightarrow> INT32 \<Rightarrow> SendData_t" where
  "send_ex pos tag = \<lparr>send_begin = None, send_end = None, send_position = int pos, send_key = 1,
     send_partner = 2, send_thread = 1, send_vthread = 1, send_tag = tag\<rparr>"

definition send_queue_ex :: "SendData_t new_queue" where
  "send_queue_ex = \<lparr>Data = [Some (send_ex 10 5), Some (send_ex 20 7), None, None], SizeOfElement = 56,
     NumOfElements = 2, ElementsPerAllocation = 4, ElementsAllocated = 4\<rparr>"

definition out_ex :: extracted where
  "out_ex = \<lparr>out_begin = None, out_end = None, out_position = -1, out_thread = 0, out_vthread = 0\<rparr>"

lemma send_queue_ex_inv: "queue_inv send_queue_ex" "has_spare send_queue_ex"
    "queue_elems send_queue_ex = [send_ex 10 5, send_ex 20 7]"
  by (simp_all add: send_queue_ex_def queue_inv_def has_spare_def queue_elems_def)

text \<open>
  C14. Messages do not overtake: from a queue that is not full, with an allocated cell behind its last element, extracting
  repeatedly for one receiver, tag (or any tag) and key gives the matching sends in the order they were queued, does not fail
  while matching sends are left, and leaves every send that does not match where it was. From a full queue the
  extraction of an element that is not the last reads behind the allocation.
\<close>

theorem ExtractSend_non_overtaking:
  assumes "queue_inv q" and "has_spare q"
    and "n = length (filter (matches_send any_tag receiver tag key) (queue_elems q))"
  shows "\<exists>r. extract_sends any_tag receiver tag key out n q =
      Inr (map (send_result out) (filter (matches_send any_tag receiver tag key) (queue_elems q)), r) \<and>
    queue_inv r \<and>
    filter (\<lambda>d. \<not> matches_send any_tag receiver tag key d) (queue_elems r) =
    filter (\<lambda>d. \<not> matches_send any_tag receiver tag key d) (queue_elems q)"
  using extract_sends_in_order [OF assms(1,2), of n any_tag receiver tag key out] assms(3) by auto

lemma ExtractSend_non_overtaking_witness:
  "\<exists>r. extract_sends (- 1) 2 (- 1) 1 out_ex 2 send_queue_ex =
      Inr ([send_result out_ex (send_ex 10 5), send_result out_ex (send_ex 20 7)], r) \<and> queue_inv r"
proof -
  have all: "filter (matches_send (- 1) 2 (- 1) 1) (queue_elems send_queue_ex) =
      [send_ex 10 5, send_ex 20 7]"
    by (simp add: send_queue_ex_inv matches_send_def send_ex_def)
  then show ?thesis
    using ExtractSend_non_overtaking [OF send_queue_ex_inv(1,2), of 2 "- 1" 2 "- 1" 1 out_ex]
    by auto
qed

text \<open>
  A receive is matched with the oldest queued one of its sender, tag and key (or one
  that was posted with any tag), which alone leaves the queue, provided the queued
  receives have their end events and the array is not full.
\<close>

theorem ExtractRecv_oldest:
  assumes "queue_inv q" and "has_spare q"
    and "\<And>d. d \<in> set (queue_elems q) \<Longrightarrow> recv_end d \<noteq> None"
    and "i < length (queue_elems q)" and "matches_recv any_tag sender tag key (queue_elems q ! i)"
    and "\<And>j. j < i \<Longrightarrow> \<not> matches_recv any_tag sender tag key (queue_elems q ! j)"
  shows "\<exists>r. CommunicationQueues_ExtractRecv any_tag q sender tag out key =
      Inr (recv_result out (queue_elems q ! i), r) \<and>
    queue_inv r \<and> queue_elems r = remove_nth i (queue_elems q)"
  using extract_recv_step [OF assms(1,3), where i = i] assms(2,4,5,6) by (simp add: first_index_Some) blast

definition recv_ex :: "INT32 \<Rightarrow> INT32 \<Rightarrow> RecvData_t" where
  "recv_ex tag posted =
     (let e = \<lparr>ev_param = \<lparr>param_target = 2, param_size = 4, param_tag = posted, param_comm = 1, param_aux = 0\<rparr>,
               ev_value = 0, ev_time = 9, ev_HWCValues = [], ev_event = 50000003, ev_HWCReadSet = 0\<rparr>
      in \<lparr>recv_begin = Some e, recv_end = Some e, recv_key = 1, recv_partner = 2, recv_thread = 1,
          recv_vthread = 1, recv_tag = tag\<rparr>)"

definition recv_queue_ex :: "RecvData_t new_queue" where
  "recv_queue_ex = \<lparr>Data = [Some (recv_ex 5 5), Some (recv_ex 7 (- 1)), None], SizeOfElement = 40,
     NumOfElements = 2, ElementsPerAllocation = 3, ElementsAllocated = 3\<rparr>"

lemma recv_queue_ex_inv: "queue_inv recv_queue_ex" "has_spare recv_queue_ex"
    "queue_elems recv_queue_ex = [recv_ex 5 5, recv_ex 7 (- 1)]"
  by (simp_all add: recv_queue_ex_def queue_inv_def has_spare_def queue_elems_def)

lemma ExtractRecv_oldest_witness:
  "\<exists>r. CommunicationQueues_ExtractRecv (- 1) recv_queue_ex 2 9 out_ex 1 =
      Inr (recv_result out_ex (recv_ex 7 (- 1)), r) \<and> queue_inv r \<and> queue_elems r = [recv_ex 5 5]"
proof -
  have "\<exists>r. CommunicationQueues_ExtractRecv (- 1) recv_queue_ex 2 9 out_ex 1 =
      Inr (recv_result out_ex (queue_elems recv_queue_ex ! 1), r) \<and> queue_inv r \<and>
      queue_elems r = remove_nth 1 (queue_elems recv_queue_ex)"
    by (rule ExtractRecv_oldest [OF recv_queue_ex_inv(1,2)])
      (auto simp: recv_queue_ex_inv(3) recv_ex_def Let_def matches_recv_def Get_EvTag_def)
  then show ?thesis by (simp add: recv_queue_ex_inv(3) remove_nth_def)
qed

text \<open>
  What is queued for a receiver comes back: a send queued behind sends that do not
  match it is extracted with its events, position and threads, and the queue holds
  what it held before.
\<close>

theorem QueueSend_ExtractSend:
  assumes "queue_inv q" and "\<And>n. alloc n"
    and "\<And>d. d \<in> set (queue_elems q) \<Longrightarrow> \<not> matches_send any_tag partner tag key d"
  shows "\<exists>r s. CommunicationQueues_QueueSend alloc q b e position thread vthread partner tag key = Inr r \<and>
    CommunicationQueues_ExtractSend any_tag r partner tag out key =
      Inr (\<lparr>out_begin = b, out_end = e, out_position = position, out_thread = thread,
            out_vthread = vthread\<rparr>, s) \<and>
    queue_inv s \<and> queue_elems s = queue_elems q"
proof -
  let ?d = "\<lparr>send_begin = b, send_end = e, send_position = position, send_key = key,
      send_partner = partner, send_thread = thread, send_vthread = vthread, send_tag = tag\<rparr>"
  let ?P = "matches_send any_tag partner tag key"
  obtain r where add: "NewQueue_add alloc q ?d = Inr r"
    using NewQueue_add_stops [OF assms(1), of alloc ?d] assms(2) by (cases "NewQueue_add alloc q ?d") auto
  have r: "queue_inv r" "queue_elems r = queue_elems q @ [?d]"
    using nq.add_inv [OF assms(1) add] nq.add_elems [OF assms(1) add] by auto
  have "first_index ?P (queue_elems q) = None" using assms(3) by (simp add: first_index_None)
  moreover have "?P ?d" by (simp add: matches_send_def)
  ultimately have "first_index ?P (queue_elems r) = Some (length (queue_elems q))"
    by (simp add: r(2) first_index_append)
  from extract_send_step [OF r(1) this, of out]
  obtain s where "CommunicationQueues_ExtractSend any_tag r partner tag out key = Inr (send_result out ?d, s)"
    "queue_inv s" "queue_elems s = queue_elems q"
    by (auto simp: r(2) remove_nth_def)
  then show ?thesis using add by (auto simp: CommunicationQueues_QueueSend_def send_result_def)
qed

lemma QueueSend_ExtractSend_witness:
  "\<exists>r s. CommunicationQueues_QueueSend (\<lambda>_. True) send_queue_ex None None 30 4 4 2 9 1 = Inr r \<and>
    CommunicationQueues_ExtractSend (- 1) r 2 9 out_ex 1 =
      Inr (\<lparr>out_begin = None, out_end = None, out_position = 30, out_thread = 4, out_vthread = 4\<rparr>, s) \<and>
    queue_inv s \<and> queue_elems s = queue_elems send_queue_ex"
  by (rule QueueSend_ExtractSend [OF send_queue_ex_inv(1)])
    (auto simp: send_queue_ex_inv matches_send_def send_ex_def)

end
