(* ===== verification/BufferIO.thy ===== *)
theory BufferIO
  imports EventRecord
begin

text \<open>
  How a tracing buffer reaches the disk: the blocks of memory a flush selects
  (\<open>DataBlocks_t\<close>) and the loop that writes them, from
  \<open>trunk/dependencies/extrae/src/tracer/wrappers/API/buffers.c\<close>.

  Memory is a list of bytes, the object representation of the event array from its
  first event on; \<open>'c\<close> is the type of a byte. The system call \<open>write\<close> is not in
  the repository. Its documented behaviour is an argument kept in the state of the
  disk: \<open>pending_writes\<close> lists what the next calls do, \<open>None\<close> failing with
  \<open>-1\<close> and \<open>Some n\<close> taking at most \<open>n\<close> bytes; once the list is used up
  every call takes all it is given. Every call appends, since a flush seeks to the end
  of the file first.
\<close>

record 'c disk =
  contents :: "'c list"
  pending_writes :: "nat option list"

definition sizeof_int :: nat where
  "sizeof_int = 4"

definition IOV_MAX :: nat where
  "IOV_MAX = 512"

definition BLOCKS_CHUNK :: int where
  "BLOCKS_CHUNK = 50"

definition os_write :: "'c list \<Rightarrow> nat \<Rightarrow> nat \<Rightarrow> 'c disk \<Rightarrow> (int \<times> 'c disk) res" where
  "os_write mem addr count d =
     (let step = (\<lambda>n d. if addr + n \<le> length mem
         then Inr (int n, d\<lparr>contents := contents d @ take n (drop addr mem)\<rparr>)
         else Inl OutOfBounds)
      in case pending_writes d of
           [] \<Rightarrow> step count d
         | None # ps \<Rightarrow> Inr (- 1, d\<lparr>pending_writes := ps\<rparr>)
         | Some n # ps \<Rightarrow> step (min n count) (d\<lparr>pending_writes := ps\<rparr>))"

lemma os_write_progress:
  assumes "os_write mem addr count d = Inr (w, d')" and "0 \<le> w" and "0 < count"
  shows "length (pending_writes d') + (count - nat w) < length (pending_writes d) + count"
  using assms
  by (auto simp: os_write_def Let_def split: list.splits option.splits if_splits)

text \<open>
  One block: \<open>write\<close> is called until \<open>iov_len\<close> bytes are gone. The address of
  each call is \<open>(int *) iov_base + tmp\<close>, so it advances by \<open>tmp\<close> integers.
  The result is the count or the negative result of the failing call.
\<close>

function write_loop ::
  "'c list \<Rightarrow> nat \<Rightarrow> nat \<Rightarrow> nat \<Rightarrow> 'c disk \<Rightarrow> (int \<times> 'c disk) res" where
  "write_loop mem iov_base iov_len tmp d =
     (if tmp < iov_len
      then andthen (os_write mem (iov_base + sizeof_int * tmp) (iov_len - tmp) d)
             (\<lambda>(written, d). if written < 0 then Inr (written, d)
                else write_loop mem iov_base iov_len (tmp + nat written) d)
      else Inr (int tmp, d))"
  by pat_completeness auto
termination
  by (relation "measure (\<lambda>(mem, base, len, tmp, d). length (pending_writes d) + (len - tmp))")
    (auto dest!: os_write_progress)

declare write_loop.simps [simp del]

fun writev_wrapper ::
  "'c list \<Rightarrow> (nat \<times> nat) list \<Rightarrow> int \<Rightarrow> 'c disk \<Rightarrow> (int \<times> 'c disk) res" where
  "writev_wrapper mem [] tot d = Inr (tot, d)"
| "writev_wrapper mem ((iov_base, iov_len) # iov) tot d =
     andthen (write_loop mem iov_base iov_len 0 d)
       (\<lambda>(tmp, d). if tmp < 0 then Inr (tmp, d) else writev_wrapper mem iov (tot + tmp) d)"

text \<open>The blocks are written in groups of at most \<open>IOV_MAX\<close>.\<close>

fun block_group :: "(nat \<times> nat) option list \<Rightarrow> (nat \<times> nat) list res" where
  "block_group [] = Inr []"
| "block_group (None # bs) = Inl Uninitialised"
| "block_group (Some b # bs) = andthen (block_group bs) (\<lambda>bs. Inr (b # bs))"

function dump_groups ::
  "'c list \<Rightarrow> nat \<Rightarrow> nat \<Rightarrow> (nat \<times> nat) option list \<Rightarrow> 'c disk \<Rightarrow> 'c disk res" where
  "dump_groups mem idx remaining blocks d =
     (if 0 < remaining
      then let written_blocks = min IOV_MAX remaining in
        andthen (guard (idx + written_blocks \<le> length blocks) OutOfBounds) (\<lambda>_.
        andthen (block_group (take written_blocks (drop idx blocks))) (\<lambda>iov.
        andthen (writev_wrapper mem iov 0 d) (\<lambda>(nbytes, d).
          if nbytes = - 1 then Inl (Exit 1)
          else dump_groups mem (idx + written_blocks) (remaining - written_blocks) blocks d)))
      else Inr d)"
  by pat_completeness auto
termination
  by (relation "measure (\<lambda>(mem, idx, remaining, blocks, d). remaining)") (auto simp: IOV_MAX_def)

declare dump_groups.simps [simp del]

definition dump_buffer ::
  "'c list \<Rightarrow> int \<Rightarrow> (nat \<times> nat) option list option \<Rightarrow> 'c disk \<Rightarrow> 'c disk res" where
  "dump_buffer mem n_blocks blocks d =
     (case blocks of None \<Rightarrow> Inr d | Some bs \<Rightarrow> dump_groups mem 0 (nat n_blocks) bs d)"

section \<open>Data blocks\<close>

text \<open>
  Addresses of events count events; a block holds the byte offset from the first event
  and the length in bytes, for events of \<open>sz\<close> bytes.
\<close>

record DataBlocks_t =
  FirstAddr :: int
  LastAddr :: int
  MaxBlocks :: int
  NumBlocks :: int
  BlocksList :: "(nat \<times> nat) option list"

definition sizeof_iovec :: nat where
  "sizeof_iovec = 16"

definition sizeof_DataBlocks_t :: nat where
  "sizeof_DataBlocks_t = 32"

definition new_DataBlocks :: "allocator \<Rightarrow> int \<Rightarrow> int \<Rightarrow> DataBlocks_t res" where
  "new_DataBlocks alloc first_evt last_evt =
     andthen (guard (alloc sizeof_DataBlocks_t) (Exit (-1))) (\<lambda>_.
     andthen (guard (alloc (sizeof_iovec * nat BLOCKS_CHUNK)) (Exit (-1))) (\<lambda>_.
       Inr \<lparr>FirstAddr = first_evt, LastAddr = last_evt, MaxBlocks = BLOCKS_CHUNK, NumBlocks = 0,
            BlocksList = replicate (nat BLOCKS_CHUNK) None\<rparr>))"

definition DataBlocks_AddSorted ::
  "allocator \<Rightarrow> nat \<Rightarrow> DataBlocks_t \<Rightarrow> int \<Rightarrow> int \<Rightarrow> DataBlocks_t res" where
  "DataBlocks_AddSorted alloc sz blocks ini_address end_address =
     (let blocks = blocks\<lparr>NumBlocks := NumBlocks blocks + 1\<rparr>;
          more = MaxBlocks blocks + BLOCKS_CHUNK
      in andthen
        (if NumBlocks blocks \<ge> MaxBlocks blocks
         then if alloc (sizeof_iovec * nat more)
           then Inr (blocks\<lparr>MaxBlocks := more, BlocksList := BlocksList blocks @
                  replicate (nat more - length (BlocksList blocks)) None\<rparr>)
           else Inl (Exit (-1))
         else Inr blocks)
        (\<lambda>blocks. andthen (array_set (BlocksList blocks) (NumBlocks blocks - 1)
            (Some (sz * nat (ini_address - FirstAddr blocks), sz * nat (end_address - ini_address))))
          (\<lambda>bs. Inr (blocks\<lparr>BlocksList := bs\<rparr>))))"

definition DataBlocks_Add ::
  "allocator \<Rightarrow> nat \<Rightarrow> DataBlocks_t \<Rightarrow> int \<Rightarrow> int \<Rightarrow> DataBlocks_t res" where
  "DataBlocks_Add alloc sz blocks ini_address end_address =
     (if ini_address < end_address
      then DataBlocks_AddSorted alloc sz blocks ini_address end_address
      else andthen (DataBlocks_AddSorted alloc sz blocks ini_address (LastAddr blocks))
        (\<lambda>blocks. DataBlocks_AddSorted alloc sz blocks (FirstAddr blocks) end_address))"


section \<open>Complete writes\<close>

definition block_bytes :: "'c list \<Rightarrow> (nat \<times> nat) list \<Rightarrow> 'c list" where
  "block_bytes mem iov = concat (map (\<lambda>(b, l). take l (drop b mem)) iov)"

definition blocks_in :: "'c list \<Rightarrow> (nat \<times> nat) list \<Rightarrow> bool" where
  "blocks_in mem iov \<longleftrightarrow> list_all (\<lambda>(b, l). b + l \<le> length mem) iov"

lemma block_bytes_simps [simp]:
  "block_bytes mem [] = []"
  "block_bytes mem ((b, l) # iov) = take l (drop b mem) @ block_bytes mem iov"
  "block_bytes mem (iov @ jov) = block_bytes mem iov @ block_bytes mem jov"
  by (simp_all add: block_bytes_def)

lemma blocks_in_simps [simp]:
  "blocks_in mem []"
  "blocks_in mem ((b, l) # iov) \<longleftrightarrow> b + l \<le> length mem \<and> blocks_in mem iov"
  "blocks_in mem (iov @ jov) \<longleftrightarrow> blocks_in mem iov \<and> blocks_in mem jov"
  by (simp_all add: blocks_in_def)

lemma blocks_in_take_drop:
  "blocks_in mem iov \<Longrightarrow> blocks_in mem (take n (drop k iov))"
  by (auto simp: blocks_in_def list_all_iff dest: in_set_takeD in_set_dropD)

lemma write_loop_complete:
  assumes "pending_writes d = []" and "b + l \<le> length mem"
  shows "write_loop mem b l 0 d = Inr (int l, d\<lparr>contents := contents d @ take l (drop b mem)\<rparr>)"
  using assms by (simp add: write_loop.simps os_write_def Let_def)

lemma writev_wrapper_complete:
  "pending_writes d = [] \<Longrightarrow> blocks_in mem iov \<Longrightarrow>
   \<exists>n. writev_wrapper mem iov tot d =
     Inr (tot + int n, d\<lparr>contents := contents d @ block_bytes mem iov\<rparr>)"
proof (induction iov arbitrary: tot d)
  case Nil
  show ?case by (rule exI [of _ 0]) simp
next
  case (Cons bl iov)
  obtain b l where bl: "bl = (b, l)" by (cases bl)
  let ?d = "d\<lparr>contents := contents d @ take l (drop b mem)\<rparr>"
  obtain n where "writev_wrapper mem iov (tot + int l) ?d =
      Inr (tot + int l + int n, ?d\<lparr>contents := contents ?d @ block_bytes mem iov\<rparr>)"
    using Cons.IH [of ?d] Cons.prems by (auto simp: bl)
  then show ?case
    using Cons.prems by (intro exI [of _ "l + n"]) (simp add: bl write_loop_complete)
qed

lemma block_group_Some: "block_group (map Some iov) = Inr iov"
  by (induction iov) simp_all

lemma dump_groups_complete:
  assumes "pending_writes d = []" and "blocks_in mem iov"
    and "idx + remaining = length iov"
  shows "dump_groups mem idx remaining (map Some iov @ rest) d =
    Inr (d\<lparr>contents := contents d @ block_bytes mem (drop idx iov)\<rparr>)"
  using assms
proof (induction remaining arbitrary: idx d rule: less_induct)
  case (less remaining)
  show ?case
  proof (cases "remaining = 0")
    case True
    with less.prems show ?thesis by (simp add: dump_groups.simps)
  next
    case False
    let ?w = "min IOV_MAX remaining"
    let ?iov = "take ?w (drop idx iov)"
    have w: "0 < ?w" "?w \<le> remaining" using False by (auto simp: IOV_MAX_def)
    obtain n where n: "writev_wrapper mem ?iov 0 d =
        Inr (int n, d\<lparr>contents := contents d @ block_bytes mem ?iov\<rparr>)"
      using writev_wrapper_complete [OF less.prems(1) blocks_in_take_drop [OF less.prems(2)], of ?w idx 0]
      by auto
    let ?d = "d\<lparr>contents := contents d @ block_bytes mem ?iov\<rparr>"
    have "dump_groups mem (idx + ?w) (remaining - ?w) (map Some iov @ rest) ?d =
        Inr (?d\<lparr>contents := contents ?d @ block_bytes mem (drop (idx + ?w) iov)\<rparr>)"
      by (rule less.IH) (use w less.prems in auto)
    moreover have "block_bytes mem (drop idx iov) =
        block_bytes mem ?iov @ block_bytes mem (drop (idx + ?w) iov)"
      by (metis append_take_drop_id block_bytes_simps(3) drop_drop add.commute)
    moreover have "block_group (take ?w (drop idx (map Some iov @ rest))) = Inr ?iov"
      using w less.prems(3)
      by (simp add: drop_map take_map block_group_Some del: take_drop)
    moreover have "idx + ?w \<le> length (map Some iov @ rest)" using w less.prems(3) by simp
    ultimately show ?thesis
      using False by (simp add: dump_groups.simps [of mem idx] Let_def n)
  qed
qed

lemma dump_buffer_complete:
  assumes "pending_writes d = []" and "blocks_in mem iov"
  shows "dump_buffer mem (int (length iov)) (Some (map Some iov @ rest)) d =
    Inr (d\<lparr>contents := contents d @ block_bytes mem iov\<rparr>)"
  using dump_groups_complete [OF assms, of 0 "length iov" rest] by (simp add: dump_buffer_def)

section \<open>The block list\<close>

definition db_rep :: "DataBlocks_t \<Rightarrow> (nat \<times> nat) list \<Rightarrow> bool" where
  "db_rep db iov \<longleftrightarrow>
     NumBlocks db = int (length iov) \<and> NumBlocks db < MaxBlocks db \<and>
     BlocksList db = map Some iov @ replicate (nat (MaxBlocks db) - length iov) None"

lemma db_rep_NumBlocks: "db_rep db iov \<Longrightarrow> NumBlocks db = int (length iov)"
  by (simp add: db_rep_def)

lemma new_DataBlocks_rep:
  assumes "\<And>n. alloc n"
  shows "\<exists>db. new_DataBlocks alloc f l = Inr db \<and> db_rep db [] \<and> FirstAddr db = f \<and> LastAddr db = l"
  using assms by (simp add: new_DataBlocks_def db_rep_def BLOCKS_CHUNK_def)

lemma DataBlocks_AddSorted_rep:
  assumes "db_rep db iov" and "\<And>n. alloc n"
  shows "\<exists>db'. DataBlocks_AddSorted alloc sz db a e = Inr db' \<and>
    db_rep db' (iov @ [(sz * nat (a - FirstAddr db), sz * nat (e - a))]) \<and>
    FirstAddr db' = FirstAddr db \<and> LastAddr db' = LastAddr db"
proof (cases "NumBlocks db + 1 \<ge> MaxBlocks db")
  case True
  with assms show ?thesis
    by (auto simp: DataBlocks_AddSorted_def Let_def db_rep_def array_set_def in_range_def
        BLOCKS_CHUNK_def list_update_append replicate_add [symmetric]
        intro!: nth_equalityI) (auto simp: nth_append nth_list_update)
next
  case False
  with assms show ?thesis
    by (auto simp: DataBlocks_AddSorted_def Let_def db_rep_def array_set_def in_range_def
        list_update_append intro!: nth_equalityI) (auto simp: nth_append nth_list_update)
qed

end
