(* ===== verification/Buffers.thy ===== *)
theory Buffers
  imports BufferIO
begin

text \<open>
  The circular tracing buffer \<open>Buffer_t\<close> of
  \<open>trunk/dependencies/extrae/src/tracer/wrappers/API/buffers.c\<close>: creation, insertion,
  the callbacks that make room in a full buffer, flushing to disk and the victim cache.

  A pointer into the event array is an integer that counts events; the cells of the
  array are \<open>Events\<close>, from \<open>FirstEvt\<close> on. The field \<open>VictimCache\<close> holds a
  second buffer, whose own cache \<open>new_Buffer\<close> never creates: the type of caches is
  a parameter of the record, and an operation that stores into the cache takes the
  insertion into it, \<open>vins\<close>, as an argument. \<open>FlushCallback\<close> is one of the
  callbacks this file of the program provides.
\<close>

datatype callback =
  CB_NULL | CALLBACK_FLUSH | CALLBACK_OVERWRITE | CALLBACK_DISCARD | CB_Discard10Pct

record 'v Buffer_t =
  MaxEvents :: int
  FillCount :: int
  FirstEvt :: int
  LastEvt :: int
  HeadEvt :: int
  CurEvt :: int
  Events :: "event_t option list"
  fd :: int
  Lock :: bool
  Masks :: "32 word list"
  FlushCallback :: callback
  NumberOfCachedEvents :: int
  CachedEvents :: "INT32 list"
  VictimCache :: "'v option"

text \<open>
  What the build and the platform decide: whether the on-line module is built in
  (\<open>HAVE_ONLINE\<close>), which adds a lock and the selection by masks; the size of
  \<open>event_t\<close> and its bytes; memory; and whether a mutex can be initialised.
\<close>

record 'c platform =
  HAVE_ONLINE :: bool
  sizeof_event :: nat
  event_bytes :: "event_t option \<Rightarrow> 'c list"
  memory :: allocator
  mutex_init_ok :: bool

definition MASK_NOFLUSH :: "32 word" where
  "MASK_NOFLUSH = push_bit 0 1"

definition MASK_CLUSTERED :: "32 word" where
  "MASK_CLUSTERED = push_bit 1 1"

definition ALL_BITS_SET :: "32 word" where
  "ALL_BITS_SET = 0xFFFFFFFF"

definition BUFFER_CACHE_SIZE :: int where
  "BUFFER_CACHE_SIZE = 1000"

definition CIRCULAR_STEP :: "int \<Rightarrow> int \<Rightarrow> int \<Rightarrow> int \<Rightarrow> int \<times> bool" where
  "CIRCULAR_STEP current step first_evt last_evt =
     (let current = current + step in
      if current \<ge> last_evt then (first_evt + (current - last_evt), True)
      else if current < first_evt then (last_evt - (first_evt - current), True)
      else (current, False))"

definition EVENT_INDEX :: "'v Buffer_t \<Rightarrow> int \<Rightarrow> int" where
  "EVENT_INDEX b event = event - FirstEvt b"

text \<open>Following a pointer into the array.\<close>

definition event_at :: "'v Buffer_t \<Rightarrow> int \<Rightarrow> event_t res" where
  "event_at b p = andthen (array_get (Events b) (EVENT_INDEX b p))
     (\<lambda>c. case c of None \<Rightarrow> Inl Uninitialised | Some e \<Rightarrow> Inr e)"

section \<open>Queries\<close>

definition Buffer_IsClosed :: "'v Buffer_t \<Rightarrow> bool" where
  "Buffer_IsClosed b \<longleftrightarrow> fd b = - 1"

definition Buffer_IsEmpty :: "'v Buffer_t \<Rightarrow> bool" where
  "Buffer_IsEmpty b \<longleftrightarrow> FillCount b = 0"

definition Buffer_IsFull :: "'v Buffer_t \<Rightarrow> bool" where
  "Buffer_IsFull b \<longleftrightarrow> FillCount b = MaxEvents b"

definition Buffer_GetFirst :: "'v Buffer_t \<Rightarrow> int" where
  "Buffer_GetFirst b = FirstEvt b"

definition Buffer_GetLast :: "'v Buffer_t \<Rightarrow> int" where
  "Buffer_GetLast b = LastEvt b"

definition Buffer_GetHead :: "'v Buffer_t \<Rightarrow> int" where
  "Buffer_GetHead b = HeadEvt b"

definition Buffer_GetTail :: "'v Buffer_t \<Rightarrow> int" where
  "Buffer_GetTail b = CurEvt b"

definition Buffer_GetFillCount :: "'v Buffer_t \<Rightarrow> int" where
  "Buffer_GetFillCount b = FillCount b"

definition Buffer_GetFirstEvent :: "'v Buffer_t \<Rightarrow> int option" where
  "Buffer_GetFirstEvent b = (if Buffer_GetFillCount b > 0 then Some (Buffer_GetHead b) else None)"

definition Buffer_GetLastEvent :: "'v Buffer_t \<Rightarrow> int option" where
  "Buffer_GetLastEvent b = (if Buffer_GetFillCount b > 0 then Some (Buffer_GetTail b - 1) else None)"

definition Buffer_RemainingEvents :: "'v Buffer_t \<Rightarrow> int" where
  "Buffer_RemainingEvents b = MaxEvents b - FillCount b"

definition Buffer_EnoughSpace :: "'v Buffer_t \<Rightarrow> int \<Rightarrow> bool" where
  "Buffer_EnoughSpace b num_events \<longleftrightarrow> Buffer_RemainingEvents b \<ge> num_events"

definition Buffer_GetNext :: "'v Buffer_t \<Rightarrow> int \<Rightarrow> int" where
  "Buffer_GetNext b current =
     (let nxt = current + 1 in if nxt = Buffer_GetLast b then Buffer_GetFirst b else nxt)"

definition Buffer_Lock :: "'c platform \<Rightarrow> 'v Buffer_t \<Rightarrow> 'v Buffer_t res" where
  "Buffer_Lock P b =
     (if HAVE_ONLINE P then if Lock b then Inl Deadlock else Inr (b\<lparr>Lock := True\<rparr>) else Inr b)"

definition Buffer_Unlock :: "'c platform \<Rightarrow> 'v Buffer_t \<Rightarrow> 'v Buffer_t" where
  "Buffer_Unlock P b = (if HAVE_ONLINE P then b\<lparr>Lock := False\<rparr> else b)"

text \<open>The bytes of the file on disk, whatever the position of the descriptor.\<close>

definition Buffer_GetFileSize :: "'v Buffer_t option \<Rightarrow> 'c disk \<Rightarrow> UINT64" where
  "Buffer_GetFileSize b d =
     (case b of None \<Rightarrow> 0 | Some b \<Rightarrow> if fd b \<noteq> - 1 then of_nat (length (contents d)) else 0)"

definition Buffer_SetFlushCallback :: "'v Buffer_t \<Rightarrow> callback \<Rightarrow> 'v Buffer_t" where
  "Buffer_SetFlushCallback b cb = b\<lparr>FlushCallback := cb\<rparr>"

section \<open>Masks\<close>

definition Mask_Wipe :: "'v Buffer_t \<Rightarrow> 'v Buffer_t" where
  "Mask_Wipe b = b\<lparr>Masks := replicate (nat (MaxEvents b)) 0\<rparr>"

text \<open>Every change of a mask reads and writes the cell of one event.\<close>

definition Mask_Modify :: "('m \<Rightarrow> 32 word \<Rightarrow> 32 word) \<Rightarrow> 'v Buffer_t \<Rightarrow> int \<Rightarrow> 'm \<Rightarrow> 'v Buffer_t res" where
  "Mask_Modify f b event m =
     (let index = EVENT_INDEX b event in
      andthen (array_get (Masks b) index) (\<lambda>old.
      andthen (array_set (Masks b) index (f m old)) (\<lambda>ms. Inr (b\<lparr>Masks := ms\<rparr>))))"

definition Mask_Set :: "'v Buffer_t \<Rightarrow> int \<Rightarrow> 32 word \<Rightarrow> 'v Buffer_t res" where
  "Mask_Set = Mask_Modify (\<lambda>m old. old OR m)"

definition Mask_SetAll :: "'v Buffer_t \<Rightarrow> int \<Rightarrow> 'v Buffer_t res" where
  "Mask_SetAll b event = Mask_Modify (\<lambda>m old. ALL_BITS_SET) b event ()"

definition Mask_Unset :: "'v Buffer_t \<Rightarrow> int \<Rightarrow> 32 word \<Rightarrow> 'v Buffer_t res" where
  "Mask_Unset = Mask_Modify (\<lambda>m old. old AND NOT m)"

definition Mask_UnsetAll :: "'v Buffer_t \<Rightarrow> int \<Rightarrow> 'v Buffer_t res" where
  "Mask_UnsetAll b event = Mask_Modify (\<lambda>m old. 0) b event ()"

definition Mask_Flip :: "'v Buffer_t \<Rightarrow> int \<Rightarrow> 32 word \<Rightarrow> 'v Buffer_t res" where
  "Mask_Flip = Mask_Modify (\<lambda>m old. old XOR m)"

definition Mask_Get :: "'v Buffer_t \<Rightarrow> int \<Rightarrow> 32 word \<Rightarrow> bool res" where
  "Mask_Get b event mask_id =
     andthen (array_get (Masks b) (EVENT_INDEX b event)) (\<lambda>m. Inr (m AND mask_id = mask_id))"

definition Mask_IsSet :: "'v Buffer_t \<Rightarrow> int \<Rightarrow> 32 word \<Rightarrow> bool res" where
  "Mask_IsSet b event mask_id = andthen (Mask_Get b event mask_id) (\<lambda>r. Inr r)"

definition Mask_IsUnset :: "'v Buffer_t \<Rightarrow> int \<Rightarrow> 32 word \<Rightarrow> bool res" where
  "Mask_IsUnset b event mask_id = andthen (Mask_Get b event mask_id) (\<lambda>r. Inr (\<not> r))"

text \<open>
  The region loop passes over the events until it is back at \<open>end\<close>. After
  \<open>MaxEvents\<close> steps every position has been seen, so a loop that is still running
  then never ends: that many steps are its fuel.
\<close>

fun change_region_loop ::
  "('v Buffer_t \<Rightarrow> int \<Rightarrow> 'v Buffer_t res) \<Rightarrow> int \<Rightarrow> nat \<Rightarrow> 'v Buffer_t \<Rightarrow> int \<Rightarrow> ('v Buffer_t \<times> int) res" where
  "change_region_loop f end_evt 0 b current = Inl Diverges"
| "change_region_loop f end_evt (Suc n) b current =
     andthen (f b current) (\<lambda>b.
       let current = Buffer_GetNext b current in
       if current \<noteq> end_evt then change_region_loop f end_evt n b current else Inr (b, current))"

definition Mask_ChangeRegion ::
  "'v Buffer_t \<Rightarrow> int \<Rightarrow> int \<Rightarrow> 32 word \<Rightarrow> bool \<Rightarrow> 'v Buffer_t res" where
  "Mask_ChangeRegion b start end_evt mask_id set_it =
     (let f = (\<lambda>b p. if set_it then Mask_Set b p mask_id else Mask_Unset b p mask_id) in
      andthen (change_region_loop f end_evt (nat (MaxEvents b)) b start) (\<lambda>(b, current). f b current))"

definition Mask_SetRegion :: "'v Buffer_t \<Rightarrow> int \<Rightarrow> int \<Rightarrow> 32 word \<Rightarrow> 'v Buffer_t res" where
  "Mask_SetRegion b start end_evt mask_id = Mask_ChangeRegion b start end_evt mask_id True"

definition Mask_UnsetRegion :: "'v Buffer_t \<Rightarrow> int \<Rightarrow> int \<Rightarrow> 32 word \<Rightarrow> 'v Buffer_t res" where
  "Mask_UnsetRegion b start end_evt mask_id = Mask_ChangeRegion b start end_evt mask_id False"

end
