(* ===== verification/BufferOps.thy ===== *)
theory BufferOps
  imports Buffers
begin

text \<open>
  The operations of the tracing buffer that create it, fill it and make room in it
  (\<open>buffers.c\<close>): \<open>new_Buffer\<close>, the victim cache, \<open>Buffer_Flush\<close> with
  \<open>Filter_Buffer\<close>, the discarding callbacks and the two insertions. The state is the
  buffer and the disk behind its descriptor.
\<close>

section \<open>Creation\<close>

text \<open>
  The results of the next calls of \<open>open\<close>; once they are used up it fails. A
  descriptor 0 is not accepted and the call is repeated.
\<close>

fun open_loop :: "int list \<Rightarrow> int \<times> int list" where
  "open_loop [] = (- 1, [])"
| "open_loop (r # rs) = (if r = 0 then open_loop rs else (r, rs))"

text \<open>
  The fields of a new buffer without its cache. The size of the structure is that of a
  64-bit platform, and with the on-line module it holds a mutex. Opening truncates the file. A negative
  number of events asks for more memory than there is.
\<close>

definition sizeof_Buffer_t :: "'c platform \<Rightarrow> nat" where
  "sizeof_Buffer_t P = (if HAVE_ONLINE P then 128 else 88)"

definition new_Buffer_fields ::
  "'c platform \<Rightarrow> int \<Rightarrow> bool \<Rightarrow> int list \<Rightarrow> 'c disk \<Rightarrow> ('v Buffer_t \<times> int list \<times> 'c disk) res" where
  "new_Buffer_fields P n_events has_file opens d =
     andthen (guard (memory P (sizeof_Buffer_t P)) (Exit (-1))) (\<lambda>_.
     andthen (guard (0 \<le> n_events \<and> memory P (nat n_events * sizeof_event P)) (Exit (-1))) (\<lambda>_.
       let (descriptor, opens') = (if has_file then open_loop opens else (- 1, opens));
           d' = (if has_file \<and> descriptor \<noteq> - 1 then d\<lparr>contents := []\<rparr> else d)
       in andthen (guard (\<not> has_file \<or> descriptor \<noteq> - 1) (Exit 1)) (\<lambda>_.
          andthen (guard (\<not> HAVE_ONLINE P \<or> mutex_init_ok P) (Exit 1)) (\<lambda>_.
          andthen (guard (memory P (nat n_events * sizeof_int)) (Exit (-1))) (\<lambda>_.
            Inr (Mask_Wipe \<lparr>MaxEvents = n_events, FillCount = 0, FirstEvt = 0, LastEvt = n_events,
                   HeadEvt = 0, CurEvt = 0, Events = replicate (nat n_events) None,
                   fd = descriptor, Lock = False, Masks = [], FlushCallback = CALLBACK_FLUSH,
                   NumberOfCachedEvents = 0, CachedEvents = [], VictimCache = None\<rparr>,
                 opens', d'))))))"

definition new_Buffer ::
  "'c platform \<Rightarrow> int \<Rightarrow> bool \<Rightarrow> bool \<Rightarrow> int list \<Rightarrow> 'c disk \<Rightarrow>
   (unit Buffer_t Buffer_t \<times> int list \<times> 'c disk) res" where
  "new_Buffer P n_events has_file enable_cache opens d =
     andthen (new_Buffer_fields P n_events has_file opens d) (\<lambda>(b, opens, d).
       if enable_cache
       then andthen (new_Buffer_fields P BUFFER_CACHE_SIZE has_file opens d) (\<lambda>(c, opens, d).
              Inr (b\<lparr>VictimCache := Some c\<rparr>, opens, d))
       else Inr (b, opens, d))"

section \<open>The victim cache\<close>

definition Buffer_AddCachedEvent ::
  "'c platform \<Rightarrow> 'v Buffer_t option \<Rightarrow> INT32 \<Rightarrow> 'v Buffer_t option res" where
  "Buffer_AddCachedEvent P buffer event_type =
     (case buffer of
        Some b \<Rightarrow>
          if VictimCache b \<noteq> None
          then let n = NumberOfCachedEvents b + 1 in
            if memory P (4 * nat n)
            then Inr (Some (b\<lparr>NumberOfCachedEvents := n,
                   CachedEvents := take (nat n - 1) (CachedEvents b) @ [event_type]\<rparr>))
            else Inl (Exit (-1))
          else Inr buffer
      | None \<Rightarrow> Inr buffer)"

definition Buffer_IsEventCached :: "'v Buffer_t \<Rightarrow> INT32 \<Rightarrow> bool" where
  "Buffer_IsEventCached b event_type \<longleftrightarrow>
     VictimCache b \<noteq> None \<and> event_type \<in> set (take (nat (NumberOfCachedEvents b)) (CachedEvents b))"

text \<open>Inserting into a cache: the cache, the event, the disk.\<close>

type_synonym ('v, 'c) cache_insert = "'v \<Rightarrow> event_t \<Rightarrow> 'c disk \<Rightarrow> ('v \<times> 'c disk) res"

definition Buffer_CacheEvent ::
  "('v, 'c) cache_insert \<Rightarrow> 'v Buffer_t \<Rightarrow> int \<Rightarrow> 'c disk \<Rightarrow> ('v Buffer_t \<times> 'c disk) res" where
  "Buffer_CacheEvent vins b event d =
     andthen (event_at b event) (\<lambda>e.
       if Buffer_IsEventCached b (Get_EvEvent e)
       then (case VictimCache b of
               None \<Rightarrow> Inl NullPointer
             | Some c \<Rightarrow> andthen (vins c e d) (\<lambda>(c, d). Inr (b\<lparr>VictimCache := Some c\<rparr>, d)))
       else Inr (b, d))"

section \<open>Flushing\<close>

text \<open>The event array as the bytes that are written.\<close>

definition buffer_bytes :: "'c platform \<Rightarrow> 'v Buffer_t \<Rightarrow> 'c list" where
  "buffer_bytes P b = concat (map (event_bytes P) (Events b))"

text \<open>
  The selection by masks: an event with the no-flush mask that is not of a cached type
  is left out, and every maximal run of other events is one block.
\<close>

fun filter_loop ::
  "'c platform \<Rightarrow> 'v Buffer_t \<Rightarrow> int \<Rightarrow> nat \<Rightarrow> int \<Rightarrow> int option \<Rightarrow> DataBlocks_t \<Rightarrow> DataBlocks_t res" where
  "filter_loop P b last_event 0 current ini_addr db = Inl Diverges"
| "filter_loop P b last_event (Suc n) current ini_addr db =
     andthen (Mask_IsSet b current MASK_NOFLUSH) (\<lambda>masked.
     andthen (if masked
              then andthen (event_at b current) (\<lambda>e. Inr (\<not> Buffer_IsEventCached b (Get_EvEvent e)))
              else Inr False) (\<lambda>skip.
     andthen
       (if skip
        then case ini_addr of
               Some a \<Rightarrow> andthen (DataBlocks_Add (memory P) (sizeof_event P) db a current)
                          (\<lambda>db. Inr (None, db))
             | None \<Rightarrow> Inr (None, db)
        else case ini_addr of None \<Rightarrow> Inr (Some current, db) | Some a \<Rightarrow> Inr (ini_addr, db))
       (\<lambda>(ini_addr, db).
         let current = Buffer_GetNext b current in
         if current \<noteq> last_event then filter_loop P b last_event n current ini_addr db
         else case ini_addr of
                Some a \<Rightarrow> DataBlocks_Add (memory P) (sizeof_event P) db a current
              | None \<Rightarrow> Inr db)))"

definition Filter_Buffer ::
  "'c platform \<Rightarrow> 'v Buffer_t \<Rightarrow> int \<Rightarrow> int \<Rightarrow> DataBlocks_t \<Rightarrow> DataBlocks_t res" where
  "Filter_Buffer P b first_event last_event io_db =
     filter_loop P b last_event (nat (MaxEvents b)) first_event None io_db"

definition Buffer_Flush ::
  "'c platform \<Rightarrow> 'v Buffer_t \<Rightarrow> 'c disk \<Rightarrow> (int \<times> 'v Buffer_t \<times> 'c disk) res" where
  "Buffer_Flush P b d =
     andthen (new_DataBlocks (memory P) (FirstEvt b) (LastEvt b)) (\<lambda>db.
       if Buffer_IsEmpty b \<or> Buffer_IsClosed b then Inr (0, b, d)
       else
         let head = Buffer_GetHead b;
             num_flushed = Buffer_GetFillCount b;
             (tail, overflow) = CIRCULAR_STEP head num_flushed (FirstEvt b) (LastEvt b)
         in andthen (if HAVE_ONLINE P then Filter_Buffer P b head tail db
                     else DataBlocks_Add (memory P) (sizeof_event P) db head tail) (\<lambda>db.
            andthen (dump_buffer (buffer_bytes P b) (NumBlocks db) (Some (BlocksList db)) d) (\<lambda>d.
              Inr (1, b\<lparr>FillCount := FillCount b - num_flushed, HeadEvt := tail\<rparr>, d))))"

definition Buffer_FlushCache ::
  "'c platform \<Rightarrow> unit Buffer_t Buffer_t option \<Rightarrow> 'c disk \<Rightarrow>
   (int \<times> unit Buffer_t Buffer_t option \<times> 'c disk) res" where
  "Buffer_FlushCache P buffer d =
     (case buffer of
        None \<Rightarrow> Inr (0, None, d)
      | Some b \<Rightarrow>
          (case VictimCache b of
             None \<Rightarrow> Inr (0, Some b, d)
           | Some c \<Rightarrow> andthen (Buffer_Flush P c d)
               (\<lambda>(rc, c, d). Inr (rc, Some (b\<lparr>VictimCache := Some c\<rparr>), d))))"

definition Buffer_Close ::
  "'c platform \<Rightarrow> unit Buffer_t Buffer_t \<Rightarrow> 'c disk \<Rightarrow> (unit Buffer_t Buffer_t \<times> 'c disk) res" where
  "Buffer_Close P b d =
     andthen (if fd b \<noteq> - 1 then Buffer_FlushCache P (Some b) d else Inr (0, Some b, d))
       (\<lambda>(rc, buffer, d). case buffer of
          None \<Rightarrow> Inl NullPointer
        | Some b \<Rightarrow> Inr (b\<lparr>fd := - 1\<rparr>, d))"

section \<open>Discarding\<close>

definition Buffer_DiscardOldest ::
  "('v, 'c) cache_insert \<Rightarrow> 'v Buffer_t \<Rightarrow> 'c disk \<Rightarrow> (int \<times> 'v Buffer_t \<times> 'c disk) res" where
  "Buffer_DiscardOldest vins b d =
     andthen (Buffer_CacheEvent vins b (HeadEvt b) d) (\<lambda>(b, d).
       let new_head = Buffer_GetNext b (HeadEvt b) in
       Inr (1, b\<lparr>FillCount := FillCount b - 1, HeadEvt := new_head\<rparr>, d))"

text \<open>\<open>MaxEvents * 0.1\<close>, truncated to an \<open>int\<close>, is the tenth rounded down.\<close>

definition Buffer_Discard10Pct :: "'v Buffer_t \<Rightarrow> int \<times> 'v Buffer_t" where
  "Buffer_Discard10Pct b =
     (let pct10 = MaxEvents b div 10;
          head = HeadEvt b + pct10;
          head = (if head \<ge> LastEvt b then FirstEvt b + (head - LastEvt b) else head)
      in (1, b\<lparr>FillCount := FillCount b - pct10, HeadEvt := head\<rparr>))"

definition Buffer_DiscardAll :: "'v Buffer_t \<Rightarrow> int \<times> 'v Buffer_t" where
  "Buffer_DiscardAll b = (1, b\<lparr>FillCount := 0, HeadEvt := CurEvt b\<rparr>)"

definition Buffer_ExecuteFlushCallback ::
  "'c platform \<Rightarrow> ('v, 'c) cache_insert \<Rightarrow> 'v Buffer_t \<Rightarrow> 'c disk \<Rightarrow> (int \<times> 'v Buffer_t \<times> 'c disk) res" where
  "Buffer_ExecuteFlushCallback P vins b d =
     (case FlushCallback b of
        CB_NULL \<Rightarrow> Inr (0, b, d)
      | CALLBACK_FLUSH \<Rightarrow> Buffer_Flush P b d
      | CALLBACK_OVERWRITE \<Rightarrow> Buffer_DiscardOldest vins b d
      | CALLBACK_DISCARD \<Rightarrow> (case Buffer_DiscardAll b of (rc, b) \<Rightarrow> Inr (rc, b, d))
      | CB_Discard10Pct \<Rightarrow> (case Buffer_Discard10Pct b of (rc, b) \<Rightarrow> Inr (rc, b, d)))"

section \<open>Insertion\<close>

text \<open>
  With the on-line module the buffer is locked for the insertion. The return after a
  callback that made no room comes before the unlock.
\<close>

definition Buffer_InsertSingle ::
  "'c platform \<Rightarrow> ('v, 'c) cache_insert \<Rightarrow> 'v Buffer_t \<Rightarrow> event_t \<Rightarrow> 'c disk \<Rightarrow>
   ('v Buffer_t \<times> 'c disk) res" where
  "Buffer_InsertSingle P vins b new_event d =
     andthen (Buffer_Lock P b) (\<lambda>b.
     andthen (if Buffer_IsFull b then Buffer_ExecuteFlushCallback P vins b d else Inr (1, b, d))
       (\<lambda>(rc, b, d).
         if rc = 0 then Inr (b, d)
         else
           andthen (array_set (Events b) (EVENT_INDEX b (CurEvt b)) (Some new_event)) (\<lambda>evs.
           andthen (Mask_UnsetAll (b\<lparr>Events := evs\<rparr>) (CurEvt b)) (\<lambda>b.
             let b = b\<lparr>CurEvt := Buffer_GetNext b (CurEvt b)\<rparr>;
                 b = b\<lparr>FillCount := FillCount b + 1\<rparr>
             in Inr (Buffer_Unlock P b, d)))))"

text \<open>A cache has no cache of its own.\<close>

definition no_cache :: "(unit, 'c) cache_insert" where
  "no_cache u e d = Inl NullPointer"

definition Cache_InsertSingle :: "'c platform \<Rightarrow> (unit Buffer_t, 'c) cache_insert" where
  "Cache_InsertSingle P = Buffer_InsertSingle P no_cache"

definition Trace_InsertSingle :: "'c platform \<Rightarrow> (unit Buffer_t Buffer_t, 'c) cache_insert" where
  "Trace_InsertSingle P = Buffer_InsertSingle P (Cache_InsertSingle P)"

fun make_room ::
  "'c platform \<Rightarrow> ('v, 'c) cache_insert \<Rightarrow> int \<Rightarrow> nat \<Rightarrow> 'v Buffer_t \<Rightarrow> 'c disk \<Rightarrow>
   (bool \<times> 'v Buffer_t \<times> 'c disk) res" where
  "make_room P vins num_events 0 b d = Inr (True, b, d)"
| "make_room P vins num_events (Suc retry) b d =
     (if \<not> Buffer_EnoughSpace b num_events
      then andthen (Buffer_ExecuteFlushCallback P vins b d) (\<lambda>(rc, b, d).
             if rc = 0 then Inr (False, b, d) else make_room P vins num_events retry b d)
      else Inr (True, b, d))"

fun insert_all ::
  "'c platform \<Rightarrow> ('v, 'c) cache_insert \<Rightarrow> event_t list \<Rightarrow> 'v Buffer_t \<Rightarrow> 'c disk \<Rightarrow>
   ('v Buffer_t \<times> 'c disk) res" where
  "insert_all P vins [] b d = Inr (b, d)"
| "insert_all P vins (e # es) b d =
     andthen (Buffer_InsertSingle P vins b e d) (\<lambda>(b, d). insert_all P vins es b d)"

definition Buffer_InsertMultiple ::
  "'c platform \<Rightarrow> ('v, 'c) cache_insert \<Rightarrow> 'v Buffer_t \<Rightarrow> event_t list \<Rightarrow> 'c disk \<Rightarrow>
   ('v Buffer_t \<times> 'c disk) res" where
  "Buffer_InsertMultiple P vins b events_list d =
     (let num_events = int (length events_list) in
      andthen (make_room P vins num_events (length events_list) b d) (\<lambda>(go_on, b, d).
        if \<not> go_on then Inr (b, d)
        else if \<not> Buffer_EnoughSpace b num_events then Inl (Exit 1)
        else insert_all P vins events_list b d))"

end
