(* ===== verification/BufferRing.thy ===== *)
theory BufferRing
  imports BufferOps
begin

text \<open>
  The circular buffer as the list of its events, oldest first, and what each operation
  does to that list.
\<close>

section \<open>Positions in the ring\<close>

definition head_ix :: "'v Buffer_t \<Rightarrow> nat" where
  "head_ix b = nat (HeadEvt b - FirstEvt b)"

definition ring_ix :: "'v Buffer_t \<Rightarrow> nat \<Rightarrow> nat" where
  "ring_ix b k = (head_ix b + k) mod nat (MaxEvents b)"

definition ring_inv :: "'v Buffer_t \<Rightarrow> bool" where
  "ring_inv b \<longleftrightarrow>
     0 < MaxEvents b \<and> LastEvt b = FirstEvt b + MaxEvents b \<and>
     FirstEvt b \<le> HeadEvt b \<and> HeadEvt b < LastEvt b \<and>
     0 \<le> FillCount b \<and> FillCount b \<le> MaxEvents b \<and>
     CurEvt b = FirstEvt b + int (ring_ix b (nat (FillCount b))) \<and>
     length (Events b) = nat (MaxEvents b) \<and> length (Masks b) = nat (MaxEvents b) \<and>
     list_all (\<lambda>k. Events b ! ring_ix b k \<noteq> None) [0..<nat (FillCount b)]"

definition ring_events :: "'v Buffer_t \<Rightarrow> event_t list" where
  "ring_events b = map (\<lambda>k. the (Events b ! ring_ix b k)) [0..<nat (FillCount b)]"

text \<open>The natural numbers behind the fields of a well-formed buffer.\<close>

lemma ring_invE:
  assumes "ring_inv b"
  obtains N h f where "MaxEvents b = int N" and "LastEvt b = FirstEvt b + int N"
    and "HeadEvt b = FirstEvt b + int h" and "FillCount b = int f"
    and "CurEvt b = FirstEvt b + int ((h + f) mod N)" and "h < N" and "f \<le> N"
    and "length (Events b) = N" and "length (Masks b) = N" and "head_ix b = h"
    and "\<forall>k. ring_ix b k = (h + k) mod N"
    and "\<forall>k<f. Events b ! ((h + k) mod N) \<noteq> None"
    and "ring_events b = map (\<lambda>k. the (Events b ! ((h + k) mod N))) [0..<f]"
proof -
  let ?N = "nat (MaxEvents b)" and ?h = "head_ix b" and ?f = "nat (FillCount b)"
  have "ring_ix b k = (?h + k) mod ?N" for k by (simp add: ring_ix_def)
  with assms show ?thesis
    by (intro that [of ?N ?h ?f])
      (auto simp: ring_inv_def head_ix_def ring_ix_def ring_events_def list_all_iff)
qed

lemma ring_invI:
  assumes "MaxEvents b = int N" and "LastEvt b = FirstEvt b + int N"
    and "HeadEvt b = FirstEvt b + int h" and "FillCount b = int f"
    and "CurEvt b = FirstEvt b + int ((h + f) mod N)" and "h < N" and "f \<le> N"
    and "length (Events b) = N" and "length (Masks b) = N"
    and "\<And>k. k < f \<Longrightarrow> Events b ! ((h + k) mod N) = Some (g k)"
  shows "ring_inv b \<and> ring_events b = map g [0..<f]"
  using assms
  by (auto simp: ring_inv_def ring_events_def ring_ix_def head_ix_def list_all_iff)

lemma ring_events_length: "ring_inv b \<Longrightarrow> int (length (ring_events b)) = FillCount b"
  by (simp add: ring_events_def ring_inv_def)

lemma mod_ring_distinct:
  assumes "j < k" and "k < j + N" shows "(h + j) mod N \<noteq> (h + k) mod (N::nat)"
proof
  assume "(h + j) mod N = (h + k) mod N"
  then have "N dvd h + k - (h + j)"
    using assms(1) mod_eq_dvd_iff_nat [of "h + j" "h + k" N] by simp
  then have "N dvd k - j" by simp
  then have "N \<le> k - j" using assms(1) by (intro dvd_imp_le) simp_all
  with assms show False by arith
qed

lemma Buffer_GetNext_ring:
  assumes "LastEvt b = FirstEvt b + int N" and "p < N"
  shows "Buffer_GetNext b (FirstEvt b + int p) = FirstEvt b + int (Suc p mod N)"
  using assms
  by (auto simp: Buffer_GetNext_def Buffer_GetLast_def Buffer_GetFirst_def Let_def mod_Suc)

lemma CIRCULAR_STEP_ring:
  assumes "h < N" and "f \<le> N"
  shows "fst (CIRCULAR_STEP (F + int h) (int f) F (F + int N)) = F + int ((h + f) mod N)"
proof (cases "h + f < N")
  case True
  then show ?thesis by (simp add: CIRCULAR_STEP_def Let_def)
next
  case False
  then have "(h + f) mod N = h + f - N" using assms by (simp add: mod_if)
  with False show ?thesis by (simp add: CIRCULAR_STEP_def Let_def)
qed

section \<open>Inserting where there is room\<close>

text \<open>What an operation may not change.\<close>

definition same_setup :: "'v Buffer_t \<Rightarrow> 'v Buffer_t \<Rightarrow> bool" where
  "same_setup b c \<longleftrightarrow>
     MaxEvents c = MaxEvents b \<and> FirstEvt c = FirstEvt b \<and> fd c = fd b \<and>
     FlushCallback c = FlushCallback b \<and> NumberOfCachedEvents c = NumberOfCachedEvents b \<and>
     CachedEvents c = CachedEvents b"

lemma same_setup_refl [simp]: "same_setup b b"
  by (simp add: same_setup_def)

lemma same_setup_trans: "same_setup a b \<Longrightarrow> same_setup b c \<Longrightarrow> same_setup a c"
  by (simp add: same_setup_def)

text \<open>Storing an event behind the newest one.\<close>

definition store_event :: "'v Buffer_t \<Rightarrow> event_t \<Rightarrow> 'v Buffer_t" where
  "store_event b e =
     (let i = nat (CurEvt b - FirstEvt b) in
      b\<lparr>Events := (Events b)[i := Some e], Masks := (Masks b)[i := 0],
        CurEvt := Buffer_GetNext b (CurEvt b), FillCount := FillCount b + 1\<rparr>)"

lemma store_event_ring:
  assumes "ring_inv b" and "FillCount b < MaxEvents b"
  shows "ring_inv (store_event b e) \<and> ring_events (store_event b e) = ring_events b @ [e]"
proof -
  obtain N h f where r: "MaxEvents b = int N" "LastEvt b = FirstEvt b + int N"
    "HeadEvt b = FirstEvt b + int h" "FillCount b = int f"
    "CurEvt b = FirstEvt b + int ((h + f) mod N)" "h < N" "f \<le> N"
    "length (Events b) = N" "length (Masks b) = N" "head_ix b = h"
    "\<forall>k. ring_ix b k = (h + k) mod N" "\<forall>k<f. Events b ! ((h + k) mod N) \<noteq> None"
    "ring_events b = map (\<lambda>k. the (Events b ! ((h + k) mod N))) [0..<f]"
    using assms(1) by (rule ring_invE)
  have f: "f < N" using assms(2) r(1,4) by simp
  let ?p = "(h + f) mod N"
  let ?s = "store_event b e"
  let ?g = "\<lambda>k. if k = f then e else the (Events b ! ((h + k) mod N))"
  have p: "?p < N" using f by simp
  have next': "Buffer_GetNext b (CurEvt b) = FirstEvt b + int ((h + Suc f) mod N)"
    using Buffer_GetNext_ring [OF r(2) p] by (simp add: r(5) mod_Suc_eq)
  have "?p \<noteq> (h + k) mod N" if "k < f" for k
    using mod_ring_distinct [of k f N h] that f by simp
  then have cells: "Events ?s ! ((h + k) mod N) = Some (?g k)" if "k < Suc f" for k
    using that r(8,12) p f by (auto simp: store_event_def Let_def r(5) nth_list_update less_Suc_eq)
  have "ring_inv ?s \<and> ring_events ?s = map ?g [0..<Suc f]"
    by (rule ring_invI [where N = N and h = h])
      (use r f cells next' in \<open>auto simp: store_event_def Let_def\<close>)
  moreover have "map ?g [0..<Suc f] = ring_events b @ [e]" by (simp add: r(13))
  ultimately show ?thesis by simp
qed

lemma store_event_setup:
  "same_setup b (store_event b e)" "VictimCache (store_event b e) = VictimCache b"
  "Lock (store_event b e) = Lock b" "FillCount (store_event b e) = FillCount b + 1"
  by (simp_all add: same_setup_def store_event_def Let_def)

text \<open>The part of the insertion behind the callback.\<close>

lemma insert_tail_store:
  assumes "ring_inv b"
  shows "andthen (array_set (Events b) (EVENT_INDEX b (CurEvt b)) (Some e)) (\<lambda>evs.
         andthen (Mask_UnsetAll (b\<lparr>Events := evs\<rparr>) (CurEvt b)) (\<lambda>b.
           let b = b\<lparr>CurEvt := Buffer_GetNext b (CurEvt b)\<rparr>;
               b = b\<lparr>FillCount := FillCount b + 1\<rparr> in Inr (Buffer_Unlock P b, d))) =
    Inr (Buffer_Unlock P (store_event b e), d)"
proof -
  obtain N h f where r: "MaxEvents b = int N" "CurEvt b = FirstEvt b + int ((h + f) mod N)" "h < N"
    "length (Events b) = N" "length (Masks b) = N"
    using assms by (rule ring_invE)
  have "(h + f) mod N < N" using r(3) by simp
  then show ?thesis
    using r by (simp add: Mask_UnsetAll_def Mask_Modify_def Let_def EVENT_INDEX_def bounds_simps
        store_event_def Buffer_GetNext_def Buffer_GetLast_def Buffer_GetFirst_def)
qed

section \<open>Removing the oldest events\<close>

lemma drop_ring:
  assumes "ring_inv b" and "int n \<le> FillCount b"
  shows "ring_inv (b\<lparr>FillCount := FillCount b - int n, HeadEvt := FirstEvt b + int (ring_ix b n)\<rparr>) \<and>
    ring_events (b\<lparr>FillCount := FillCount b - int n, HeadEvt := FirstEvt b + int (ring_ix b n)\<rparr>) =
      drop n (ring_events b)"
proof -
  obtain N h f where r: "MaxEvents b = int N" "LastEvt b = FirstEvt b + int N"
    "HeadEvt b = FirstEvt b + int h" "FillCount b = int f"
    "CurEvt b = FirstEvt b + int ((h + f) mod N)" "h < N" "f \<le> N"
    "length (Events b) = N" "length (Masks b) = N" "head_ix b = h"
    "\<forall>k. ring_ix b k = (h + k) mod N" "\<forall>k<f. Events b ! ((h + k) mod N) \<noteq> None"
    "ring_events b = map (\<lambda>k. the (Events b ! ((h + k) mod N))) [0..<f]"
    using assms(1) by (rule ring_invE)
  have n: "n \<le> f" using assms(2) r(4) by simp
  let ?b = "b\<lparr>FillCount := FillCount b - int n, HeadEvt := FirstEvt b + int (ring_ix b n)\<rparr>"
  let ?g = "\<lambda>k. the (Events b ! ((h + (n + k)) mod N))"
  have shift: "((h + n) mod N + k) mod N = (h + (n + k)) mod N" for k
    by (simp add: mod_add_left_eq add.assoc)
  have "((h + n) mod N + (f - n)) mod N = (h + n + (f - n)) mod N" by (rule mod_add_left_eq)
  then have cur: "((h + n) mod N + (f - n)) mod N = (h + f) mod N" using n by simp
  have "ring_inv ?b \<and> ring_events ?b = map ?g [0..<f - n]"
    by (intro ring_invI [where N = N and h = "(h + n) mod N"])
      (use r n shift cur in \<open>auto simp: of_nat_diff\<close>)
  moreover have "map ?g [0..<f - n] = drop n (ring_events b)"
    by (rule nth_equalityI) (use n in \<open>simp_all add: r(13) add.commute\<close>)
  ultimately show ?thesis by simp
qed

lemma HeadEvt_ring:
  assumes "ring_inv b"
  shows "HeadEvt b = FirstEvt b + int (ring_ix b 0)"
    and "Buffer_GetNext b (HeadEvt b) = FirstEvt b + int (ring_ix b 1)"
proof -
  obtain N h where r: "LastEvt b = FirstEvt b + int N" "HeadEvt b = FirstEvt b + int h" "h < N"
    "\<forall>k. ring_ix b k = (h + k) mod N"
    using assms by (rule ring_invE)
  then show "HeadEvt b = FirstEvt b + int (ring_ix b 0)"
    and "Buffer_GetNext b (HeadEvt b) = FirstEvt b + int (ring_ix b 1)"
    using Buffer_GetNext_ring [OF r(1,3)] by simp_all
qed

end
