(* ===== verification/BufferFlush.thy ===== *)
theory BufferFlush
  imports BufferRing
begin

text \<open>
  What a flush writes: the blocks chosen from the circular array, joined, are the bytes
  of its events in order, with or without the selection by masks.
\<close>

section \<open>Segments of the ring\<close>

lemma ring_segment_straight:
  assumes "length cells = N" and "p + len < N"
  shows "take len (drop p cells) = map (\<lambda>k. cells ! ((p + k) mod N)) [0..<len]"
  by (rule nth_equalityI) (use assms in auto)

lemma ring_segment_wrapped:
  assumes "length cells = N" and "p < N" and "len \<le> N" and "N \<le> p + len"
  shows "drop p cells @ take (p + len - N) cells = map (\<lambda>k. cells ! ((p + k) mod N)) [0..<len]"
proof (rule nth_equalityI)
  show "length (drop p cells @ take (p + len - N) cells) = length (map (\<lambda>k. cells ! ((p + k) mod N)) [0..<len])"
    using assms by simp
  fix i assume "i < length (drop p cells @ take (p + len - N) cells)"
  then have i: "i < len" using assms by simp
  show "(drop p cells @ take (p + len - N) cells) ! i = map (\<lambda>k. cells ! ((p + k) mod N)) [0..<len] ! i"
  proof (cases "p + i < N")
    case True
    then have "i < N - p" by simp
    with True i assms show ?thesis by (simp add: nth_append)
  next
    case False
    then have "(p + i) mod N = p + i - N" using i assms by (simp add: mod_if)
    moreover have "i - (N - p) = p + i - N" using False assms by simp
    moreover have "\<not> i < N - p" using False by simp
    ultimately show ?thesis using False i assms by (simp add: nth_append)
  qed
qed

text \<open>Cells of one size become bytes at multiples of that size.\<close>

lemma concat_cells_drop:
  "(\<And>c. length (f c) = sz) \<Longrightarrow> drop (sz * p) (concat (map f cells)) = concat (map f (drop p cells))"
proof (induction cells arbitrary: p)
  case Nil
  show ?case by simp
next
  case (Cons c cells)
  then show ?case by (cases p) simp_all
qed

lemma concat_cells_take:
  "(\<And>c. length (f c) = sz) \<Longrightarrow> take (sz * p) (concat (map f cells)) = concat (map f (take p cells))"
proof (induction cells arbitrary: p)
  case Nil
  show ?case by simp
next
  case (Cons c cells)
  then show ?case by (cases p) simp_all
qed

lemma length_concat_cells: "(\<And>c. length (f c) = sz) \<Longrightarrow> length (concat (map f cells)) = sz * length cells"
  by (induction cells) simp_all

text \<open>Adding a run of \<open>len\<close> events from position \<open>p\<close> adds blocks with just their bytes.\<close>

lemma DataBlocks_Add_segment:
  assumes "db_rep db iov" and "\<And>n. alloc n" and "\<And>c. length (f c) = sz"
    and "FirstAddr db = F" and "LastAddr db = F + int N"
    and "length cells = N" and "p < N" and "0 < len" and "len \<le> N"
  shows "\<exists>db' jov. DataBlocks_Add alloc sz db (F + int p) (F + int ((p + len) mod N)) = Inr db' \<and>
    db_rep db' (iov @ jov) \<and> FirstAddr db' = F \<and> LastAddr db' = F + int N \<and>
    blocks_in (concat (map f cells)) jov \<and>
    block_bytes (concat (map f cells)) jov =
      concat (map f (map (\<lambda>k. cells ! ((p + k) mod N)) [0..<len]))"
proof (cases "p + len < N")
  case True
  then have end': "(p + len) mod N = p + len" by simp
  obtain db' where db': "DataBlocks_AddSorted alloc sz db (F + int p) (F + int (p + len)) = Inr db'"
    "db_rep db' (iov @ [(sz * p, sz * len)])" "FirstAddr db' = F" "LastAddr db' = F + int N"
    using DataBlocks_AddSorted_rep [where alloc = alloc and sz = sz and a = "F + int p" and e = "F + int (p + len)", OF assms(1,2)] assms(4,5)
    by auto
  have "sz * p + sz * len \<le> sz * N" using True by (simp flip: distrib_left)
  then have "blocks_in (concat (map f cells)) [(sz * p, sz * len)]"
    using assms(3,6) by (simp add: length_concat_cells)
  moreover have "block_bytes (concat (map f cells)) [(sz * p, sz * len)] =
      concat (map f (map (\<lambda>k. cells ! ((p + k) mod N)) [0..<len]))"
    using ring_segment_straight [OF assms(6) True] assms(3)
    by (simp add: concat_cells_drop concat_cells_take)
  ultimately show ?thesis
    using db' assms(8) end' by (intro exI [of _ db'] exI [of _ "[(sz * p, sz * len)]"])
      (simp add: DataBlocks_Add_def)
next
  case False
  let ?q = "p + len - N"
  have end': "(p + len) mod N = ?q" using False assms(7-9) by (simp add: mod_if)
  obtain db1 where db1: "DataBlocks_AddSorted alloc sz db (F + int p) (F + int N) = Inr db1"
    "db_rep db1 (iov @ [(sz * p, sz * (N - p))])" "FirstAddr db1 = F" "LastAddr db1 = F + int N"
    using DataBlocks_AddSorted_rep [where alloc = alloc and sz = sz and a = "F + int p" and e = "F + int N", OF assms(1,2)] assms(4,5,7)
    by (auto simp: nat_diff_distrib)
  obtain db' where db': "DataBlocks_AddSorted alloc sz db1 F (F + int ?q) = Inr db'"
    "db_rep db' (iov @ [(sz * p, sz * (N - p)), (0, sz * ?q)])" "FirstAddr db' = F" "LastAddr db' = F + int N"
    using DataBlocks_AddSorted_rep [where alloc = alloc and sz = sz and a = F and e = "F + int ?q", OF db1(2) assms(2)] db1(3,4) by auto
  let ?jov = "[(sz * p, sz * (N - p)), (0, sz * ?q)]"
  have "sz * p + sz * (N - p) = sz * N" using assms(7) by (simp flip: distrib_left)
  moreover have "sz * ?q \<le> sz * N" using assms(7,9) by (intro mult_le_mono2) simp
  ultimately have "blocks_in (concat (map f cells)) ?jov"
    using assms(3,6) by (simp add: length_concat_cells)
  moreover have "block_bytes (concat (map f cells)) ?jov =
      concat (map f (map (\<lambda>k. cells ! ((p + k) mod N)) [0..<len]))"
    using ring_segment_wrapped [OF assms(6,7,9)] False assms(3,6)
    by (simp add: concat_cells_drop concat_cells_take flip: concat_append map_append)
  moreover have "\<not> F + int p < F + int ?q" using assms(9) by simp
  ultimately show ?thesis
    using db' db1 assms(4,5) end'
    by (intro exI [of _ db'] exI [of _ ?jov]) (simp add: DataBlocks_Add_def)
qed


section \<open>The selection by masks\<close>

text \<open>The events that a flush with the on-line module leaves out.\<close>

definition skips :: "'v Buffer_t \<Rightarrow> nat \<Rightarrow> bool" where
  "skips b k \<longleftrightarrow> Masks b ! ring_ix b k AND MASK_NOFLUSH = MASK_NOFLUSH \<and>
     \<not> Buffer_IsEventCached b (Get_EvEvent (the (Events b ! ring_ix b k)))"

definition kept_bytes :: "'c platform \<Rightarrow> 'v Buffer_t \<Rightarrow> nat \<Rightarrow> 'c list" where
  "kept_bytes P b n = concat (map (\<lambda>k. event_bytes P (Events b ! ring_ix b k))
     (filter (\<lambda>k. \<not> skips b k) [0..<n]))"

lemma kept_bytes_extend:
  assumes "s \<le> i" and "\<And>k. s \<le> k \<Longrightarrow> k < i \<Longrightarrow> \<not> skips b k"
  shows "kept_bytes P b i = kept_bytes P b s @
    concat (map (event_bytes P) (map (\<lambda>k. Events b ! ring_ix b k) [s..<i]))"
proof -
  have "[0..<i] = [0..<s] @ [s..<i]" using assms(1) by (metis le0 upt_add_eq_append le_iff_add add_0)
  moreover have "filter (\<lambda>k. \<not> skips b k) [s..<i] = [s..<i]"
    using assms(2) by (simp add: filter_id_conv)
  ultimately show ?thesis by (simp add: kept_bytes_def comp_def)
qed

lemma kept_bytes_skip: "skips b i \<Longrightarrow> kept_bytes P b (Suc i) = kept_bytes P b i"
  by (simp add: kept_bytes_def)

text \<open>What a platform must provide for a flush: memory, and events of one size.\<close>

definition platform_ok :: "'c platform \<Rightarrow> bool" where
  "platform_ok P \<longleftrightarrow> memory P = (\<lambda>_. True) \<and> (\<forall>c. length (event_bytes P c) = sizeof_event P)"

lemma platform_okD:
  "platform_ok P \<Longrightarrow> memory P n" "platform_ok P \<Longrightarrow> length (event_bytes P c) = sizeof_event P"
  by (simp_all add: platform_ok_def)

text \<open>
  One step's worth of the loop: the state is described by the start \<open>s\<close> of the run
  that is open at position \<open>i\<close> (none is open when \<open>s = i\<close>).
\<close>

definition filter_state :: "'c platform \<Rightarrow> 'v Buffer_t \<Rightarrow> nat \<Rightarrow> nat \<Rightarrow> int option \<Rightarrow> DataBlocks_t \<Rightarrow> bool" where
  "filter_state P b s i ini db \<longleftrightarrow>
     s \<le> i \<and> (\<forall>k. s \<le> k \<and> k < i \<longrightarrow> \<not> skips b k) \<and>
     ini = (if s = i then None else Some (FirstEvt b + int (ring_ix b s))) \<and>
     FirstAddr db = FirstEvt b \<and> LastAddr db = LastEvt b \<and>
     (\<exists>iov. db_rep db iov \<and> blocks_in (buffer_bytes P b) iov \<and>
       block_bytes (buffer_bytes P b) iov = kept_bytes P b s)"

lemma filter_close_run:
  assumes "ring_inv b" and "platform_ok P" and "filter_state P b s i ini db" and "s < i"
    and "int i \<le> FillCount b"
  shows "\<exists>db'. DataBlocks_Add (memory P) (sizeof_event P) db (FirstEvt b + int (ring_ix b s))
      (FirstEvt b + int (ring_ix b i)) = Inr db' \<and> filter_state P b i i None db'"
proof -
  obtain N h f where r: "MaxEvents b = int N" "LastEvt b = FirstEvt b + int N"
    "HeadEvt b = FirstEvt b + int h" "FillCount b = int f"
    "CurEvt b = FirstEvt b + int ((h + f) mod N)" "h < N" "f \<le> N"
    "length (Events b) = N" "length (Masks b) = N" "head_ix b = h"
    "\<forall>k. ring_ix b k = (h + k) mod N" "\<forall>k<f. Events b ! ((h + k) mod N) \<noteq> None"
    "ring_events b = map (\<lambda>k. the (Events b ! ((h + k) mod N))) [0..<f]"
    using assms(1) by (rule ring_invE)
  obtain iov where iov: "db_rep db iov" "blocks_in (buffer_bytes P b) iov"
    "block_bytes (buffer_bytes P b) iov = kept_bytes P b s"
    "FirstAddr db = FirstEvt b" "LastAddr db = FirstEvt b + int N"
    using assms(3) r(2) by (auto simp: filter_state_def)
  have "(h + s) + (i - s) = h + i" using assms(4) by simp
  then have ix: "ring_ix b i = (ring_ix b s + (i - s)) mod N"
    by (metis r(11) mod_add_left_eq)
  have len: "ring_ix b s < N" "0 < i - s" "i - s \<le> N"
    using assms(4,5) r(4,6,7) by (auto simp: r(11))
  obtain db' jov where db': "DataBlocks_Add (memory P) (sizeof_event P) db
      (FirstEvt b + int (ring_ix b s)) (FirstEvt b + int (ring_ix b i)) = Inr db'"
    "db_rep db' (iov @ jov)" "FirstAddr db' = FirstEvt b" "LastAddr db' = FirstEvt b + int N"
    "blocks_in (buffer_bytes P b) jov"
    "block_bytes (buffer_bytes P b) jov =
       concat (map (event_bytes P) (map (\<lambda>k. Events b ! ((ring_ix b s + k) mod N)) [0..<i - s]))"
    using DataBlocks_Add_segment [where alloc = "memory P" and f = "event_bytes P" and N = N,
        OF iov(1) platform_okD(1) [OF assms(2)] platform_okD(2) [OF assms(2)] iov(4,5) r(8) len]
    unfolding ix buffer_bytes_def by blast
  have "map (\<lambda>k. Events b ! ((ring_ix b s + k) mod N)) [0..<i - s] =
      map (\<lambda>k. Events b ! ring_ix b k) [s..<i]"
    by (rule nth_equalityI) (simp_all add: r(11) mod_add_left_eq add.assoc)
  then have "block_bytes (buffer_bytes P b) (iov @ jov) = kept_bytes P b i"
    using kept_bytes_extend [of s i b P] assms(3,4) iov(3) db'(6)
    by (auto simp: filter_state_def)
  then have "filter_state P b i i None db'"
    using db' iov(2) r(2) by (auto simp: filter_state_def intro!: exI [of _ "iov @ jov"])
  with db'(1) show ?thesis by blast
qed


text \<open>The code's view of the position of event number \<open>i\<close>.\<close>

lemma ring_cursor:
  assumes "ring_inv b" and "i < nat (FillCount b)"
  defines "cur \<equiv> FirstEvt b + int (ring_ix b i)"
  shows "event_at b cur = Inr (the (Events b ! ring_ix b i))"
    and "Mask_IsSet b cur m = Inr (Masks b ! ring_ix b i AND m = m)"
    and "Buffer_GetNext b cur = FirstEvt b + int (ring_ix b (Suc i))"
    and "FirstEvt b + int (ring_ix b (Suc i)) = CurEvt b \<longleftrightarrow> Suc i = nat (FillCount b)"
proof -
  obtain N h f where r: "MaxEvents b = int N" "LastEvt b = FirstEvt b + int N" "FillCount b = int f"
    "CurEvt b = FirstEvt b + int ((h + f) mod N)" "h < N" "f \<le> N"
    "length (Events b) = N" "length (Masks b) = N"
    "\<forall>k. ring_ix b k = (h + k) mod N" "\<forall>k<f. Events b ! ((h + k) mod N) \<noteq> None"
    using assms(1) by (rule ring_invE)
  have i: "i < f" using assms(2) r(3) by simp
  have p: "ring_ix b i < N" using r(5) by (simp add: r(9))
  have "Events b ! ring_ix b i \<noteq> None" using i r(9,10) by simp
  then show "event_at b cur = Inr (the (Events b ! ring_ix b i))"
    using p r(7) by (auto simp: cur_def event_at_def EVENT_INDEX_def bounds_simps)
  show "Mask_IsSet b cur m = Inr (Masks b ! ring_ix b i AND m = m)"
    using p r(8) by (simp add: cur_def Mask_IsSet_def Mask_Get_def EVENT_INDEX_def bounds_simps)
  show "Buffer_GetNext b cur = FirstEvt b + int (ring_ix b (Suc i))"
    using Buffer_GetNext_ring [OF r(2) p] by (simp add: cur_def r(9) mod_Suc_eq)
  show "FirstEvt b + int (ring_ix b (Suc i)) = CurEvt b \<longleftrightarrow> Suc i = nat (FillCount b)"
  proof (cases "Suc i = f")
    case True
    then show ?thesis by (simp add: r(3,4,9) flip: add_Suc_right)
  next
    case False
    with i have "Suc i < f" by simp
    then show ?thesis
      using mod_ring_distinct [of "Suc i" f N h] r(3-6) by (simp add: r(9))
  qed
qed

text \<open>One turn of the loop: the state then holds at \<open>Suc i\<close>, for some open run.\<close>

lemma filter_step:
  assumes inv: "ring_inv b" and ok: "platform_ok P" and i: "i < nat (FillCount b)"
    and st: "filter_state P b s i ini db"
  shows "\<exists>s' ini' db'. filter_loop P b (CurEvt b) (Suc n) (FirstEvt b + int (ring_ix b i)) ini db =
      (if Suc i \<noteq> nat (FillCount b)
       then filter_loop P b (CurEvt b) n (FirstEvt b + int (ring_ix b (Suc i))) ini' db'
       else case ini' of
              Some a \<Rightarrow> DataBlocks_Add (memory P) (sizeof_event P) db' a (FirstEvt b + int (ring_ix b (Suc i)))
            | None \<Rightarrow> Inr db') \<and> filter_state P b s' (Suc i) ini' db'"
proof (cases "skips b i")
  case True
  note cursor = ring_cursor [OF inv i]
  have sk: "Masks b ! ring_ix b i AND MASK_NOFLUSH = MASK_NOFLUSH"
    "\<not> Buffer_IsEventCached b (Get_EvEvent (the (Events b ! ring_ix b i)))"
    using True by (auto simp: skips_def)
  have jump: "filter_state P b i i None db1 \<Longrightarrow> filter_state P b (Suc i) (Suc i) None db1" for db1
    using True by (auto simp: filter_state_def kept_bytes_skip)
  show ?thesis
  proof (cases "s = i")
    case True
    then show ?thesis
      using st jump [of db]
      by (intro exI [of _ "Suc i"] exI [of _ None] exI [of _ db])
        (auto simp: cursor sk Let_def filter_state_def)
  next
    case False
    with st have si: "s < i" and ini: "ini = Some (FirstEvt b + int (ring_ix b s))"
      by (auto simp: filter_state_def)
    have "int i \<le> FillCount b" using i by simp
    from filter_close_run [OF inv ok st si this]
    obtain db1 where db1: "DataBlocks_Add (memory P) (sizeof_event P) db
        (FirstEvt b + int (ring_ix b s)) (FirstEvt b + int (ring_ix b i)) = Inr db1"
      "filter_state P b i i None db1" by blast
    show ?thesis
      using jump [OF db1(2)] db1(1) ini
      by (intro exI [of _ "Suc i"] exI [of _ None] exI [of _ db1]) (auto simp: cursor sk Let_def)
  qed
next
  case False
  note cursor = ring_cursor [OF inv i]
  let ?ini = "Some (FirstEvt b + int (ring_ix b s))"
  have "filter_state P b s (Suc i) ?ini db"
    using st False by (auto simp: filter_state_def less_Suc_eq)
  then show ?thesis
    using st False
    by (intro exI [of _ s] exI [of _ ?ini] exI [of _ db])
      (auto simp: cursor Let_def skips_def filter_state_def)
qed

lemma filter_loop_ring:
  assumes inv: "ring_inv b" and ok: "platform_ok P"
  shows "i < nat (FillCount b) \<Longrightarrow> nat (FillCount b) - i \<le> n \<Longrightarrow> filter_state P b s i ini db \<Longrightarrow>
    \<exists>db'. filter_loop P b (CurEvt b) n (FirstEvt b + int (ring_ix b i)) ini db = Inr db' \<and>
      filter_state P b (nat (FillCount b)) (nat (FillCount b)) None db'"
proof (induction n arbitrary: i s ini db)
  case 0
  then show ?case by simp
next
  case (Suc n)
  let ?f = "nat (FillCount b)"
  obtain s' ini' db' where d: "filter_loop P b (CurEvt b) (Suc n) (FirstEvt b + int (ring_ix b i)) ini db =
      (if Suc i \<noteq> ?f then filter_loop P b (CurEvt b) n (FirstEvt b + int (ring_ix b (Suc i))) ini' db'
       else case ini' of
              Some a \<Rightarrow> DataBlocks_Add (memory P) (sizeof_event P) db' a (FirstEvt b + int (ring_ix b (Suc i)))
            | None \<Rightarrow> Inr db')" "filter_state P b s' (Suc i) ini' db'"
    using filter_step [OF inv ok Suc.prems(1,3)] by blast
  show ?case
  proof (cases "Suc i = ?f")
    case False
    with Suc.prems have "Suc i < ?f" "?f - Suc i \<le> n" by auto
    from Suc.IH [OF this d(2)] False show ?thesis by (simp only: d(1) if_True not_False_eq_True)
  next
    case True
    show ?thesis
    proof (cases "s' = Suc i")
      case True
      with d \<open>Suc i = ?f\<close> show ?thesis by (auto simp: filter_state_def)
    next
      case False
      then have "s' < Suc i" using d(2) by (auto simp: filter_state_def)
      have "int (Suc i) \<le> FillCount b" using Suc.prems(1) by simp
      from filter_close_run [OF inv ok d(2) \<open>s' < Suc i\<close> this] obtain db1 where
        "DataBlocks_Add (memory P) (sizeof_event P) db' (FirstEvt b + int (ring_ix b s'))
          (FirstEvt b + int (ring_ix b (Suc i))) = Inr db1"
        "filter_state P b (Suc i) (Suc i) None db1" by blast
      moreover have "ini' = Some (FirstEvt b + int (ring_ix b s'))"
        using False d(2) by (auto simp: filter_state_def)
      ultimately show ?thesis using d(1) \<open>Suc i = ?f\<close> by auto
    qed
  qed
qed

section \<open>The flush\<close>

definition bytes_of :: "'c platform \<Rightarrow> event_t list \<Rightarrow> 'c list" where
  "bytes_of P es = concat (map (\<lambda>e. event_bytes P (Some e)) es)"

lemma bytes_of_simps [simp]:
  "bytes_of P [] = []"
  "bytes_of P (e # es) = event_bytes P (Some e) @ bytes_of P es"
  "bytes_of P (es @ fs) = bytes_of P es @ bytes_of P fs"
  by (simp_all add: bytes_of_def)

definition flushed_bytes :: "'c platform \<Rightarrow> 'v Buffer_t \<Rightarrow> 'c list" where
  "flushed_bytes P b =
     (if HAVE_ONLINE P then kept_bytes P b (nat (FillCount b)) else bytes_of P (ring_events b))"

text \<open>The events that are in the ring are stored, so selecting none out gives their bytes.\<close>

lemma ring_cells:
  assumes "ring_inv b" and "k < nat (FillCount b)"
  shows "Events b ! ring_ix b k = Some (ring_events b ! k)"
  using assms by (auto simp: ring_inv_def ring_events_def list_all_iff)

lemma concat_ring_cells:
  assumes "ring_inv b"
  shows "concat (map (event_bytes P) (map (\<lambda>k. Events b ! ring_ix b k) [0..<nat (FillCount b)])) =
    bytes_of P (ring_events b)"
proof -
  have "map (\<lambda>k. Events b ! ring_ix b k) [0..<nat (FillCount b)] = map Some (ring_events b)"
  proof (rule nth_equalityI)
    show len: "length (map (\<lambda>k. Events b ! ring_ix b k) [0..<nat (FillCount b)]) = length (map Some (ring_events b))"
      by (simp add: ring_events_def)
    fix k assume "k < length (map (\<lambda>k. Events b ! ring_ix b k) [0..<nat (FillCount b)])"
    with len ring_cells [OF assms, of k]
    show "map (\<lambda>k. Events b ! ring_ix b k) [0..<nat (FillCount b)] ! k = map Some (ring_events b) ! k"
      by simp
  qed
  then show ?thesis by (simp only: bytes_of_def) (simp add: comp_def)
qed

lemma kept_bytes_all:
  assumes "ring_inv b" and "\<forall>k < nat (FillCount b). \<not> skips b k"
  shows "kept_bytes P b (nat (FillCount b)) = bytes_of P (ring_events b)"
proof -
  have "kept_bytes P b 0 = []" by (simp add: kept_bytes_def)
  with kept_bytes_extend [of 0 "nat (FillCount b)" b P] assms show ?thesis
    by (simp add: concat_ring_cells [OF assms(1), of P, symmetric])
qed

lemma Buffer_Flush_nothing:
  assumes "platform_ok P" and "Buffer_IsEmpty b \<or> Buffer_IsClosed b"
  shows "Buffer_Flush P b d = Inr (0, b, d)"
  using assms new_DataBlocks_rep [of "memory P" "FirstEvt b" "LastEvt b"]
  by (auto simp: Buffer_Flush_def platform_okD)

text \<open>The blocks that both kinds of flush choose.\<close>

lemma flush_blocks:
  assumes inv: "ring_inv b" and ok: "platform_ok P" and fill: "0 < FillCount b"
    and db: "db_rep db []" "FirstAddr db = FirstEvt b" "LastAddr db = LastEvt b"
  shows "\<exists>db' iov. (if HAVE_ONLINE P then Filter_Buffer P b (HeadEvt b) (CurEvt b) db
      else DataBlocks_Add (memory P) (sizeof_event P) db (HeadEvt b) (CurEvt b)) = Inr db' \<and>
    db_rep db' iov \<and> blocks_in (buffer_bytes P b) iov \<and>
    block_bytes (buffer_bytes P b) iov = flushed_bytes P b"
proof -
  let ?f = "nat (FillCount b)"
  have head: "HeadEvt b = FirstEvt b + int (ring_ix b 0)" and f: "?f \<le> nat (MaxEvents b)"
    and cur: "FirstEvt b + int (ring_ix b ?f) = CurEvt b"
    using inv by (auto simp: ring_inv_def ring_ix_def head_ix_def)
  have st: "filter_state P b 0 0 None db"
    using db by (auto simp: filter_state_def kept_bytes_def intro!: exI [of _ "[]"])
  show ?thesis
  proof (cases "HAVE_ONLINE P")
    case True
    obtain db' where "Filter_Buffer P b (HeadEvt b) (CurEvt b) db = Inr db'"
      "filter_state P b ?f ?f None db'"
      using filter_loop_ring [OF inv ok _ _ st, of "nat (MaxEvents b)"] f fill
      by (auto simp: Filter_Buffer_def head)
    with True show ?thesis by (auto simp: filter_state_def flushed_bytes_def)
  next
    case False
    obtain N where N: "length (Events b) = N" "LastAddr db = FirstEvt b + int N"
      "\<forall>k. ring_ix b k = (ring_ix b 0 + k) mod N" "ring_ix b 0 < N" "?f \<le> N"
      using inv db(3) by (elim ring_invE) (auto simp: head)
    obtain db' jov where "DataBlocks_Add (memory P) (sizeof_event P) db
        (HeadEvt b) (CurEvt b) = Inr db'" "db_rep db' jov" "blocks_in (buffer_bytes P b) jov"
      "block_bytes (buffer_bytes P b) jov =
         concat (map (event_bytes P) (map (\<lambda>k. Events b ! ring_ix b k) [0..<?f]))"
      using DataBlocks_Add_segment [where alloc = "memory P" and f = "event_bytes P" and N = N
          and p = "ring_ix b 0" and len = ?f,
          OF db(1) platform_okD(1) [OF ok] platform_okD(2) [OF ok] db(2) N(2,1,4) _ N(5)] fill cur
      unfolding head buffer_bytes_def by (auto simp: N(3) [rule_format, symmetric])
    with False concat_ring_cells [OF inv, of P] show ?thesis by (auto simp: flushed_bytes_def)
  qed
qed

lemma Buffer_Flush_writes:
  assumes inv: "ring_inv b" and ok: "platform_ok P" and "0 < FillCount b" and "fd b \<noteq> - 1"
    and "pending_writes d = []"
  shows "Buffer_Flush P b d = Inr (1, b\<lparr>FillCount := 0, HeadEvt := CurEvt b\<rparr>,
    d\<lparr>contents := contents d @ flushed_bytes P b\<rparr>)"
proof -
  obtain db where db: "new_DataBlocks (memory P) (FirstEvt b) (LastEvt b) = Inr db" "db_rep db []"
    "FirstAddr db = FirstEvt b" "LastAddr db = LastEvt b"
    using new_DataBlocks_rep [of "memory P"] platform_okD(1) [OF ok] by blast
  have "fst (CIRCULAR_STEP (HeadEvt b) (FillCount b) (FirstEvt b) (LastEvt b)) = CurEvt b"
    using inv by (elim ring_invE) (simp add: CIRCULAR_STEP_ring)
  then obtain ov where step: "CIRCULAR_STEP (HeadEvt b) (FillCount b) (FirstEvt b) (LastEvt b) = (CurEvt b, ov)"
    by (cases "CIRCULAR_STEP (HeadEvt b) (FillCount b) (FirstEvt b) (LastEvt b)") simp
  obtain db' iov where blocks: "(if HAVE_ONLINE P then Filter_Buffer P b (HeadEvt b) (CurEvt b) db
      else DataBlocks_Add (memory P) (sizeof_event P) db (HeadEvt b) (CurEvt b)) = Inr db'"
    "db_rep db' iov" "blocks_in (buffer_bytes P b) iov"
    "block_bytes (buffer_bytes P b) iov = flushed_bytes P b"
    using flush_blocks [OF inv ok assms(3) db(2-4)] by blast
  have "dump_buffer (buffer_bytes P b) (NumBlocks db') (Some (BlocksList db')) d =
      Inr (d\<lparr>contents := contents d @ flushed_bytes P b\<rparr>)"
    using dump_buffer_complete [OF assms(5) blocks(3)] blocks(2,4) by (simp add: db_rep_def)
  with assms db(1) step blocks(1) show ?thesis
    by (simp add: Buffer_Flush_def Buffer_IsEmpty_def Buffer_IsClosed_def Buffer_GetHead_def
        Buffer_GetFillCount_def Let_def)
qed

text \<open>A buffer that gave up its events: it is well formed and empty.\<close>

lemma emptied_ring:
  assumes "ring_inv b"
  shows "ring_inv (b\<lparr>FillCount := 0, HeadEvt := CurEvt b\<rparr>)"
    and "ring_events (b\<lparr>FillCount := 0, HeadEvt := CurEvt b\<rparr>) = []"
proof -
  obtain N h f where r: "MaxEvents b = int N" "LastEvt b = FirstEvt b + int N"
    "CurEvt b = FirstEvt b + int ((h + f) mod N)" "h < N"
    "length (Events b) = N" "length (Masks b) = N"
    using assms by (rule ring_invE)
  then show "ring_inv (b\<lparr>FillCount := 0, HeadEvt := CurEvt b\<rparr>)"
    using ring_invI [of "b\<lparr>FillCount := 0, HeadEvt := CurEvt b\<rparr>" N "(h + f) mod N" 0] by simp
  show "ring_events (b\<lparr>FillCount := 0, HeadEvt := CurEvt b\<rparr>) = []"
    by (simp add: ring_events_def)
qed

end
