(* ===== verification/TraceSink.thy ===== *)
theory TraceSink
  imports BufferIO
begin

text \<open>
  What a client of a tracing buffer relies on: that every event it hands over is sooner
  or later on disk, once and in order. An insertion may write or keep what is pending,
  as long as the file followed by the pending events grows by the event inserted.
  The contract is met by the buffer with the callback that flushes, and so also by the
  victim cache; its client here is a run of insertions.
\<close>

locale trace_sink =
  fixes insert :: "'b \<Rightarrow> event_t \<Rightarrow> 'c disk \<Rightarrow> ('b \<times> 'c disk) res"
    and flush :: "'b \<Rightarrow> 'c disk \<Rightarrow> (int \<times> 'b \<times> 'c disk) res"
    and inv :: "'b \<Rightarrow> bool"
    and pending :: "'b \<Rightarrow> event_t list"
    and bytes :: "event_t list \<Rightarrow> 'c list"
  assumes insert_keeps: "inv b \<Longrightarrow> pending_writes d = [] \<Longrightarrow>
      \<exists>b' d'. insert b e d = Inr (b', d') \<and> inv b' \<and> pending_writes d' = [] \<and>
        contents d' @ bytes (pending b') = contents d @ bytes (pending b) @ bytes [e]"
    and flush_empties: "inv b \<Longrightarrow> pending_writes d = [] \<Longrightarrow>
      \<exists>rc b' d'. flush b d = Inr (rc, b', d') \<and> inv b' \<and> pending b' = [] \<and>
        pending_writes d' = [] \<and> contents d' = contents d @ bytes (pending b)"
    and bytes_append: "bytes (es @ fs) = bytes es @ bytes fs"
begin

fun insert_run :: "event_t list \<Rightarrow> 'b \<Rightarrow> 'c disk \<Rightarrow> ('b \<times> 'c disk) res" where
  "insert_run [] b d = Inr (b, d)"
| "insert_run (e # es) b d = andthen (insert b e d) (\<lambda>(b, d). insert_run es b d)"

lemma bytes_Nil [simp]: "bytes [] = []"
  using bytes_append [of "[]" "[]"] by simp

lemma insert_run_keeps:
  "inv b \<Longrightarrow> pending_writes d = [] \<Longrightarrow>
   \<exists>b' d'. insert_run es b d = Inr (b', d') \<and> inv b' \<and> pending_writes d' = [] \<and>
     contents d' @ bytes (pending b') = contents d @ bytes (pending b @ es)"
proof (induction es arbitrary: b d)
  case Nil
  then show ?case by simp
next
  case (Cons e es)
  obtain b1 d1 where 1: "insert b e d = Inr (b1, d1)" "inv b1" "pending_writes d1 = []"
    "contents d1 @ bytes (pending b1) = contents d @ bytes (pending b) @ bytes [e]"
    using insert_keeps [OF Cons.prems] by blast
  obtain b2 d2 where 2: "insert_run es b1 d1 = Inr (b2, d2)" "inv b2" "pending_writes d2 = []"
    "contents d2 @ bytes (pending b2) = contents d1 @ bytes (pending b1 @ es)"
    using Cons.IH [OF 1(2,3)] by blast
  have "bytes (e # es) = bytes [e] @ bytes es" using bytes_append [of "[e]" es] by simp
  with 1(1,4) 2 show ?case by (auto simp: bytes_append)
qed

lemma run_then_flush:
  assumes "inv b" and "pending_writes d = []"
  shows "\<exists>rc b' d'. andthen (insert_run es b d) (\<lambda>(b, d). flush b d) = Inr (rc, b', d') \<and>
     inv b' \<and> pending b' = [] \<and> contents d' = contents d @ bytes (pending b @ es)"
proof -
  obtain b1 d1 where 1: "insert_run es b d = Inr (b1, d1)" "inv b1" "pending_writes d1 = []"
    "contents d1 @ bytes (pending b1) = contents d @ bytes (pending b @ es)"
    using insert_run_keeps [OF assms] by blast
  with flush_empties [OF 1(2,3)] show ?thesis by auto
qed

end

end
