(* ===== verification/BufferInsert.thy ===== *)
theory BufferInsert
  imports BufferFlush TraceSink
begin

text \<open>
  What the insertions do to the list of events, with each callback, and what reaches
  the disk.
\<close>

section \<open>One insertion\<close>

definition locked :: "'c platform \<Rightarrow> 'v Buffer_t \<Rightarrow> 'v Buffer_t" where
  "locked P b = (if HAVE_ONLINE P then b\<lparr>Lock := True\<rparr> else b)"

lemma Buffer_Lock_free: "\<not> Lock b \<Longrightarrow> Buffer_Lock P b = Inr (locked P b)"
  by (simp add: Buffer_Lock_def locked_def)

lemma locked_fields [simp]:
  "MaxEvents (locked P b) = MaxEvents b" "FillCount (locked P b) = FillCount b"
  "FirstEvt (locked P b) = FirstEvt b" "LastEvt (locked P b) = LastEvt b"
  "HeadEvt (locked P b) = HeadEvt b" "CurEvt (locked P b) = CurEvt b"
  "Events (locked P b) = Events b" "Masks (locked P b) = Masks b" "fd (locked P b) = fd b"
  "FlushCallback (locked P b) = FlushCallback b" "VictimCache (locked P b) = VictimCache b"
  "NumberOfCachedEvents (locked P b) = NumberOfCachedEvents b"
  "CachedEvents (locked P b) = CachedEvents b"
  by (simp_all add: locked_def)

lemma locked_ring [simp]:
  "ring_inv (locked P b) = ring_inv b" "ring_events (locked P b) = ring_events b"
  "Buffer_IsFull (locked P b) = Buffer_IsFull b" "flushed_bytes P (locked P b) = flushed_bytes P b"
  by (simp_all add: ring_inv_def ring_events_def ring_ix_def head_ix_def Buffer_IsFull_def
      flushed_bytes_def kept_bytes_def skips_def Buffer_IsEventCached_def)

lemma locked_ix [simp]:
  "ring_ix (locked P b) k = ring_ix b k" "Buffer_GetNext (locked P b) p = Buffer_GetNext b p"
  "Buffer_IsEventCached (locked P b) t = Buffer_IsEventCached b t"
  by (simp_all add: ring_ix_def head_ix_def Buffer_GetNext_def Buffer_GetLast_def Buffer_GetFirst_def
      Buffer_IsEventCached_def Let_def)

lemma VictimCache_ring:
  "ring_inv (b\<lparr>VictimCache := x\<rparr>) = ring_inv b" "ring_events (b\<lparr>VictimCache := x\<rparr>) = ring_events b"
  by (simp_all add: ring_inv_def ring_events_def ring_ix_def head_ix_def)

lemma Buffer_Unlock_fields [simp]:
  "ring_inv (Buffer_Unlock P b) = ring_inv b" "ring_events (Buffer_Unlock P b) = ring_events b"
  "FillCount (Buffer_Unlock P b) = FillCount b" "MaxEvents (Buffer_Unlock P b) = MaxEvents b"
  "fd (Buffer_Unlock P b) = fd b" "FlushCallback (Buffer_Unlock P b) = FlushCallback b"
  "VictimCache (Buffer_Unlock P b) = VictimCache b" "skips (Buffer_Unlock P b) k = skips b k"
  "CachedEvents (Buffer_Unlock P b) = CachedEvents b"
  "NumberOfCachedEvents (Buffer_Unlock P b) = NumberOfCachedEvents b"
  by (simp_all add: Buffer_Unlock_def ring_inv_def ring_events_def ring_ix_def head_ix_def
      skips_def Buffer_IsEventCached_def)

lemma InsertSingle_room:
  assumes "ring_inv b" and "FillCount b < MaxEvents b" and "\<not> Lock b"
  shows "Buffer_InsertSingle P vins b e d = Inr (store_event b e, d)"
proof -
  have "Buffer_Unlock P (store_event (locked P b) e) = store_event b e"
    using assms(3) by (simp add: Buffer_Unlock_def locked_def store_event_def Let_def
        Buffer_GetNext_def Buffer_GetLast_def Buffer_GetFirst_def)
  then show ?thesis
    using insert_tail_store [of "locked P b" e P d] assms
    by (simp add: Buffer_InsertSingle_def Buffer_Lock_free Buffer_IsFull_def)
qed

lemma InsertSingle_full:
  assumes "ring_inv b" and "FillCount b = MaxEvents b" and "\<not> Lock b"
    and "Buffer_ExecuteFlushCallback P vins (locked P b) d = Inr (rc, b1, d1)"
  shows "rc = 0 \<Longrightarrow> Buffer_InsertSingle P vins b e d = Inr (b1, d1)"
    and "rc \<noteq> 0 \<Longrightarrow> ring_inv b1 \<Longrightarrow>
      Buffer_InsertSingle P vins b e d = Inr (Buffer_Unlock P (store_event b1 e), d1)"
  using assms insert_tail_store [of b1 e P d1]
  by (simp_all add: Buffer_InsertSingle_def Buffer_Lock_free Buffer_IsFull_def)

section \<open>The flushing callback loses no event\<close>

definition unmasked :: "'v Buffer_t \<Rightarrow> bool" where
  "unmasked b \<longleftrightarrow> (\<forall>k < nat (FillCount b). Masks b ! ring_ix b k AND MASK_NOFLUSH = 0)"

lemma unmasked_Unlock [simp]: "unmasked (Buffer_Unlock P b) = unmasked b"
  by (simp add: unmasked_def Buffer_Unlock_def ring_ix_def head_ix_def)

lemma unmasked_flush:
  assumes "ring_inv b" and "unmasked b"
  shows "flushed_bytes P b = bytes_of P (ring_events b)"
proof -
  have "\<forall>k < nat (FillCount b). \<not> skips b k"
    using assms(2) by (auto simp: unmasked_def skips_def MASK_NOFLUSH_def)
  then show ?thesis using kept_bytes_all [OF assms(1), of P] by (simp add: flushed_bytes_def)
qed

lemma store_event_unmasked:
  assumes "ring_inv b" and "FillCount b < MaxEvents b" and "unmasked b"
  shows "unmasked (store_event b e)"
proof -
  obtain N h f where r: "MaxEvents b = int N" "FillCount b = int f"
    "CurEvt b = FirstEvt b + int ((h + f) mod N)" "h < N" "length (Masks b) = N"
    "\<forall>k. ring_ix b k = (h + k) mod N"
    using assms(1) by (rule ring_invE)
  have ix: "ring_ix (store_event b e) k = (h + k) mod N" for k
    using r(6) by (simp add: ring_ix_def head_ix_def store_event_def Let_def)
  show ?thesis
  proof -
    have "Masks (store_event b e) ! ((h + k) mod N) AND MASK_NOFLUSH = 0" if "k < Suc f" for k
      using that assms(3) r
      by (cases "k = f") (auto simp: store_event_def Let_def nth_list_update unmasked_def)
    then show ?thesis using r(2) by (simp add: unmasked_def ix store_event_setup nat_add_distrib)
  qed
qed

definition flush_sink :: "'c platform \<Rightarrow> 'v Buffer_t \<Rightarrow> bool" where
  "flush_sink P b \<longleftrightarrow> platform_ok P \<and> ring_inv b \<and> unmasked b \<and> \<not> Lock b \<and> fd b \<noteq> - 1 \<and>
     FlushCallback b = CALLBACK_FLUSH"

lemma flush_sink_insert:
  assumes "flush_sink P b" and "pending_writes d = []"
  shows "\<exists>b' d'. Buffer_InsertSingle P vins b e d = Inr (b', d') \<and> flush_sink P b' \<and>
    pending_writes d' = [] \<and>
    contents d' @ bytes_of P (ring_events b') =
      contents d @ bytes_of P (ring_events b) @ bytes_of P [e]"
proof (cases "FillCount b < MaxEvents b")
  case True
  have "ring_inv b" "\<not> Lock b" "unmasked b" using assms(1) by (auto simp: flush_sink_def)
  with InsertSingle_room [OF _ True, of P vins e d] store_event_ring [OF _ True, of e]
    store_event_unmasked [OF _ True, of e] assms store_event_setup [of b e]
  show ?thesis by (auto simp: flush_sink_def same_setup_def)
next
  case False
  have inv: "ring_inv b" "platform_ok P" "\<not> Lock b" "unmasked b" "fd b \<noteq> - 1"
    "FlushCallback b = CALLBACK_FLUSH"
    using assms(1) by (auto simp: flush_sink_def)
  then have full: "FillCount b = MaxEvents b" "0 < MaxEvents b" using False by (auto simp: ring_inv_def)
  let ?l = "locked P b"
  let ?b1 = "?l\<lparr>FillCount := 0, HeadEvt := CurEvt ?l\<rparr>"
  let ?d1 = "d\<lparr>contents := contents d @ flushed_bytes P b\<rparr>"
  have "Buffer_ExecuteFlushCallback P vins ?l d = Inr (1, ?b1, ?d1)"
    using Buffer_Flush_writes [of ?l P d] inv full assms(2) by (simp add: Buffer_ExecuteFlushCallback_def)
  note ins = InsertSingle_full(2) [OF inv(1) full(1) inv(3) this, of e]
  have ring1: "ring_inv ?b1" "ring_events ?b1 = []" using emptied_ring [of ?l] inv(1) by simp_all
  have room: "FillCount ?b1 < MaxEvents ?b1" "unmasked ?b1" using full by (simp_all add: unmasked_def)
  let ?b2 = "Buffer_Unlock P (store_event ?b1 e)"
  have "ring_inv ?b2" "ring_events ?b2 = [e]" "unmasked ?b2"
    using store_event_ring [OF ring1(1) room(1), of e] ring1(2)
      store_event_unmasked [OF ring1(1) room, of e]
    by simp_all
  moreover have "\<not> Lock ?b2" "fd ?b2 = fd b" "FlushCallback ?b2 = FlushCallback b"
    using inv(3) store_event_setup [of ?b1 e]
    by (auto simp: Buffer_Unlock_def same_setup_def locked_def)
  ultimately show ?thesis
    using ins ring1(1) inv assms(2) unmasked_flush [OF inv(1,4), of P] by (simp add: flush_sink_def)
qed

lemma flush_sink_flush:
  assumes "flush_sink P b" and "pending_writes d = []"
  shows "\<exists>rc b' d'. Buffer_Flush P b d = Inr (rc, b', d') \<and> flush_sink P b' \<and> ring_events b' = [] \<and>
    pending_writes d' = [] \<and> contents d' = contents d @ bytes_of P (ring_events b)"
proof (cases "FillCount b = 0")
  case True
  with Buffer_Flush_nothing [of P b d] assms show ?thesis
    by (auto simp: flush_sink_def Buffer_IsEmpty_def ring_events_def)
next
  case False
  with assms have "0 < FillCount b" by (auto simp: flush_sink_def ring_inv_def)
  with Buffer_Flush_writes [of b P d] emptied_ring [of b] assms unmasked_flush [of b P]
  show ?thesis by (auto simp: flush_sink_def unmasked_def)
qed

interpretation buffer_sink: trace_sink "Buffer_InsertSingle P vins" "Buffer_Flush P"
  "flush_sink P" ring_events "bytes_of P"
  for P :: "'c platform" and vins :: "('v, 'c) cache_insert"
  by unfold_locales (fact flush_sink_insert flush_sink_flush, fact flush_sink_flush, simp)

lemma insert_all_run: "insert_all P vins es b d = buffer_sink.insert_run P vins es b d"
  by (induction es arbitrary: b d) (auto intro!: andthen_cong split: prod.splits)

section \<open>The newest events of a list\<close>

definition newest :: "nat \<Rightarrow> 'a list \<Rightarrow> 'a list" where
  "newest n xs = drop (length xs - n) xs"

definition surplus :: "nat \<Rightarrow> 'a list \<Rightarrow> 'a list" where
  "surplus n xs = take (length xs - n) xs"

lemma newest_short: "length xs \<le> n \<Longrightarrow> newest n xs = xs" "length xs \<le> n \<Longrightarrow> surplus n xs = []"
  by (simp_all add: newest_def surplus_def)

lemma newest_append: "n \<le> length xs \<Longrightarrow> newest n (xs @ ys) = newest n (newest n xs @ ys)"
  by (simp add: newest_def add.commute)

lemma newest_newest: "newest n (newest n xs @ ys) = newest n (xs @ ys)"
  using newest_append [of n xs ys] newest_short(1) [of xs n] by (cases "length xs \<le> n") simp_all

lemma surplus_surplus: "surplus n xs @ surplus n (newest n xs @ ys) = surplus n (xs @ ys)"
proof (cases "length xs \<le> n")
  case True
  then show ?thesis by (simp add: newest_short)
next
  case False
  then obtain m where m: "length xs = n + m" by (metis le_iff_add nat_le_linear)
  then show ?thesis by (simp add: surplus_def newest_def add.commute take_add)
qed

lemma newest_full:
  "length xs = n \<Longrightarrow> xs \<noteq> [] \<Longrightarrow> newest n (xs @ [x]) = tl xs @ [x]"
  "length xs = n \<Longrightarrow> xs \<noteq> [] \<Longrightarrow> surplus n (xs @ [x]) = [hd xs]"
  by (cases xs; auto simp: newest_def surplus_def)+

section \<open>The overwriting callback keeps the newest events\<close>

text \<open>
  The cache is any store that meets the contract. An event that is overwritten goes to
  the cache when its type is one of the cached ones, and is lost otherwise.
\<close>

definition overwriting :: "('v \<Rightarrow> bool) \<Rightarrow> 'v Buffer_t \<Rightarrow> bool" where
  "overwriting ready b \<longleftrightarrow> ring_inv b \<and> \<not> Lock b \<and> FlushCallback b = CALLBACK_OVERWRITE \<and>
     (\<exists>c. VictimCache b = Some c \<and> ready c)"

definition cache_pending :: "('v \<Rightarrow> event_t list) \<Rightarrow> 'v Buffer_t \<Rightarrow> event_t list" where
  "cache_pending pending b = (case VictimCache b of None \<Rightarrow> [] | Some c \<Rightarrow> pending c)"

definition evicted :: "'v Buffer_t \<Rightarrow> event_t list \<Rightarrow> event_t list" where
  "evicted b es = filter (\<lambda>e. Buffer_IsEventCached b (Get_EvEvent e)) es"

lemma evicted_simps [simp]:
  "evicted b [] = []" "evicted b (es @ fs) = evicted b es @ evicted b fs"
  by (simp_all add: evicted_def)

lemma evicted_same_setup:
  "same_setup b b' \<Longrightarrow> VictimCache b \<noteq> None \<Longrightarrow> VictimCache b' \<noteq> None \<Longrightarrow> evicted b' = evicted b"
  by (rule ext) (simp add: evicted_def Buffer_IsEventCached_def same_setup_def)

context trace_sink
begin

lemma DiscardOldest_evicts:
  assumes "overwriting inv b" and "FillCount b = MaxEvents b" and "pending_writes d = []"
  shows "\<exists>b' d'. Buffer_DiscardOldest insert (locked P b) d = Inr (1, b', d') \<and> ring_inv b' \<and>
    same_setup b b' \<and> FillCount b' = FillCount b - 1 \<and> Lock b' = Lock (locked P b) \<and>
    (\<exists>c. VictimCache b' = Some c \<and> inv c) \<and>
    ring_events b' = tl (ring_events b) \<and> pending_writes d' = [] \<and>
    contents d' @ bytes (cache_pending pending b') =
      contents d @ bytes (cache_pending pending b @ evicted b [hd (ring_events b)])"
proof -
  let ?l = "locked P b"
  obtain c where c: "VictimCache b = Some c" "inv c" and inv: "ring_inv b"
    using assms(1) by (auto simp: overwriting_def)
  have f: "0 < nat (FillCount b)" "int 1 \<le> FillCount b" using assms(2) inv by (auto simp: ring_inv_def)
  then have ne: "ring_events b \<noteq> []" using ring_events_length [OF inv] by auto
  have "Events b ! ring_ix b 0 = Some (hd (ring_events b))"
    using ring_cells [OF inv f(1)] ne by (simp add: hd_conv_nth)
  then have at: "event_at ?l (HeadEvt ?l) = Inr (hd (ring_events b))"
    using ring_cursor(1) [of ?l 0] inv f by (simp add: HeadEvt_ring(1) [OF inv])
  let ?d = "\<lambda>b :: 'b Buffer_t. b\<lparr>FillCount := FillCount b - 1, HeadEvt := Buffer_GetNext b (HeadEvt b)\<rparr>"
  have drop: "ring_inv (?d ?l)" "ring_events (?d ?l) = tl (ring_events b)"
    using drop_ring [of ?l 1] inv f(2) by (simp_all add: drop_Suc HeadEvt_ring(2) [OF inv])
  let ?e = "hd (ring_events b)"
  show ?thesis
  proof (cases "Buffer_IsEventCached b (Get_EvEvent ?e)")
    case False
    then have "Buffer_CacheEvent insert ?l (HeadEvt ?l) d = Inr (?l, d)"
      using at by (simp add: Buffer_CacheEvent_def)
    then have "Buffer_DiscardOldest insert ?l d = Inr (1, ?d ?l, d)"
      by (simp add: Buffer_DiscardOldest_def)
    moreover have "cache_pending pending (?d ?l) = cache_pending pending b" "same_setup b (?d ?l)"
      "evicted b [?e] = []" "VictimCache (?d ?l) = Some c" "Lock (?d ?l) = Lock ?l"
      using False c by (simp_all add: cache_pending_def same_setup_def evicted_def)
    ultimately show ?thesis using drop c(2) assms(3) by (intro exI [of _ "?d ?l"] exI [of _ d]) simp
  next
    case True
    obtain c' d' where ins: "insert c ?e d = Inr (c', d')" "inv c'" "pending_writes d' = []"
      "contents d' @ bytes (pending c') = contents d @ bytes (pending c) @ bytes [?e]"
      using insert_keeps [OF c(2) assms(3)] by blast
    then have ce: "Buffer_CacheEvent insert ?l (HeadEvt ?l) d = Inr (?l\<lparr>VictimCache := Some c'\<rparr>, d')"
      using at c True by (simp add: Buffer_CacheEvent_def)
    let ?c = "?d (?l\<lparr>VictimCache := Some c'\<rparr>)"
    have "Buffer_DiscardOldest insert ?l d = Inr (1, ?c, d')"
      using ce by (simp add: Buffer_DiscardOldest_def)
    moreover have "?c = (?d ?l)\<lparr>VictimCache := Some c'\<rparr>"
      by (simp add: Buffer_GetNext_def Buffer_GetLast_def Buffer_GetFirst_def Let_def)
    then have "ring_inv ?c" "ring_events ?c = tl (ring_events b)"
      using drop by (simp_all only: VictimCache_ring)
    moreover have "cache_pending pending ?c = pending c'" "cache_pending pending b = pending c" "same_setup b ?c"
      "evicted b [?e] = [?e]" "VictimCache ?c = Some c'" "Lock ?c = Lock ?l"
      using True c by (simp_all add: cache_pending_def same_setup_def evicted_def)
    ultimately show ?thesis
      using ins(2-4) by (intro exI [of _ ?c] exI [of _ d']) (simp add: bytes_append)
  qed
qed

lemma overwriting_step:
  assumes "overwriting inv b" and "pending_writes d = []"
  defines "N \<equiv> nat (MaxEvents b)"
  shows "\<exists>b' d'. Buffer_InsertSingle P insert b e d = Inr (b', d') \<and> overwriting inv b' \<and>
    same_setup b b' \<and> pending_writes d' = [] \<and>
    ring_events b' = newest N (ring_events b @ [e]) \<and>
    contents d' @ bytes (cache_pending pending b') =
      contents d @ bytes (cache_pending pending b @ evicted b (surplus N (ring_events b @ [e])))"
proof (cases "FillCount b < MaxEvents b")
  case True
  have inv: "ring_inv b" "\<not> Lock b" using assms(1) by (auto simp: overwriting_def)
  then have len: "length (ring_events b @ [e]) \<le> N"
    using True ring_events_length [OF inv(1)] by (simp add: N_def)
  have "cache_pending pending (store_event b e) = cache_pending pending b" by (simp add: cache_pending_def store_event_setup)
  moreover have "overwriting inv (store_event b e)"
    using assms(1) store_event_ring [OF inv(1) True] store_event_setup [of b e]
    by (auto simp: overwriting_def same_setup_def)
  ultimately show ?thesis
    using InsertSingle_room [OF inv(1) True inv(2), of P insert e d] assms(2)
      store_event_ring [OF inv(1) True] store_event_setup(1) [of b e] newest_short [OF len]
    by simp
next
  case False
  have inv: "ring_inv b" "\<not> Lock b" "FlushCallback b = CALLBACK_OVERWRITE"
    using assms(1) by (auto simp: overwriting_def)
  with False have full: "FillCount b = MaxEvents b" "0 < MaxEvents b" by (auto simp: ring_inv_def)
  then have len: "length (ring_events b) = N" "ring_events b \<noteq> []"
    using ring_events_length [OF inv(1)] by (auto simp: N_def)
  obtain b1 d1 where 1: "Buffer_DiscardOldest insert (locked P b) d = Inr (1, b1, d1)" "ring_inv b1"
    "same_setup b b1" "FillCount b1 = FillCount b - 1" "\<exists>c. VictimCache b1 = Some c \<and> inv c"
    "ring_events b1 = tl (ring_events b)" "pending_writes d1 = []"
    "contents d1 @ bytes (cache_pending pending b1) =
       contents d @ bytes (cache_pending pending b @ evicted b [hd (ring_events b)])"
    "Lock b1 = Lock (locked P b)"
    using DiscardOldest_evicts [OF assms(1) full(1) assms(2), of P] by blast
  have room: "FillCount b1 < MaxEvents b1" using 1(3,4) full by (simp add: same_setup_def)
  let ?b2 = "Buffer_Unlock P (store_event b1 e)"
  have ins: "Buffer_InsertSingle P insert b e d = Inr (?b2, d1)"
    using InsertSingle_full(2) [OF inv(1) full(1) inv(2), of P insert d 1 b1 d1 e] 1(1,2) inv(3)
    by (simp add: Buffer_ExecuteFlushCallback_def)
  have "\<not> Lock ?b2" using 1(9) inv(2) store_event_setup(3) [of b1 e]
    by (simp add: Buffer_Unlock_def locked_def split: if_splits)
  moreover have "same_setup b ?b2"
    using 1(3) store_event_setup(1) [of b1 e] by (simp add: same_setup_def Buffer_Unlock_def)
  moreover have "cache_pending pending ?b2 = cache_pending pending b1" by (simp add: cache_pending_def store_event_setup)
  ultimately show ?thesis
    using ins 1 inv(3) store_event_ring [OF 1(2) room, of e] newest_full [OF len, of e]
      store_event_setup(2) [of b1 e]
    by (intro exI [of _ ?b2] exI [of _ d1]) (auto simp: overwriting_def same_setup_def)
qed

lemma overwriting_run:
  "overwriting inv b \<Longrightarrow> pending_writes d = [] \<Longrightarrow>
   \<exists>b' d'. insert_all P insert es b d = Inr (b', d') \<and> overwriting inv b' \<and> same_setup b b' \<and>
     pending_writes d' = [] \<and>
     ring_events b' = newest (nat (MaxEvents b)) (ring_events b @ es) \<and>
     contents d' @ bytes (cache_pending pending b') = contents d @ bytes (cache_pending pending b @
       evicted b (surplus (nat (MaxEvents b)) (ring_events b @ es)))"
proof (induction es arbitrary: b d)
  case Nil
  then have "length (ring_events b) \<le> nat (MaxEvents b)"
    using ring_events_length [of b] by (auto simp: overwriting_def ring_inv_def)
  with Nil show ?case by (simp add: newest_short)
next
  case (Cons e es)
  let ?N = "nat (MaxEvents b)"
  obtain b1 d1 where 1: "Buffer_InsertSingle P insert b e d = Inr (b1, d1)" "overwriting inv b1"
    "same_setup b b1" "pending_writes d1 = []" "ring_events b1 = newest ?N (ring_events b @ [e])"
    "contents d1 @ bytes (cache_pending pending b1) =
       contents d @ bytes (cache_pending pending b @ evicted b (surplus ?N (ring_events b @ [e])))"
    using overwriting_step [OF Cons.prems] by blast
  obtain b2 d2 where 2: "insert_all P insert es b1 d1 = Inr (b2, d2)" "overwriting inv b2"
    "same_setup b1 b2" "pending_writes d2 = []"
    "ring_events b2 = newest ?N (ring_events b1 @ es)"
    "contents d2 @ bytes (cache_pending pending b2) =
       contents d1 @ bytes (cache_pending pending b1 @ evicted b1 (surplus ?N (ring_events b1 @ es)))"
    using Cons.IH [OF 1(2,4)] 1(3) by (auto simp: same_setup_def)
  have "evicted b1 = evicted b"
    using evicted_same_setup [OF 1(3)] 1(2) Cons.prems(1) by (auto simp: overwriting_def)
  then have "contents d2 @ bytes (cache_pending pending b2) = contents d @ bytes (cache_pending pending b @
       evicted b (surplus ?N (ring_events b @ [e]) @ surplus ?N (ring_events b1 @ es)))"
    using 2(6) 1(6) by (simp add: bytes_append)
  then show ?case
    using 1 2 same_setup_trans [OF 1(3) 2(3)] newest_newest [of ?N "ring_events b @ [e]" es]
      surplus_surplus [of ?N "ring_events b @ [e]" es]
    by simp
qed

end

end
