(* ===== verification/BufferProps.thy ===== *)
theory BufferProps
  imports BufferInsert
begin

text \<open>
  The properties of the tracing buffer: a whole life from creation to the last flush,
  the circular mode with its victim cache, what a flush selects, and the cases in which
  the code loses events.
\<close>

section \<open>New buffers\<close>

lemma new_Buffer_fields_sink:
  assumes "platform_ok P" and "0 < n" and "new_Buffer_fields P n True opens d = Inr (b, opens', d')"
  shows "flush_sink P b" "ring_events b = []" "d' = d\<lparr>contents := []\<rparr>" "MaxEvents b = n"
    "VictimCache b = None" "CachedEvents b = []" "NumberOfCachedEvents b = 0"
  using assms
  by (auto simp: new_Buffer_fields_def Let_def Mask_Wipe_def flush_sink_def ring_inv_def
      ring_events_def ring_ix_def head_ix_def unmasked_def split: prod.splits)

lemma flush_sink_VictimCache [simp]: "flush_sink P (b\<lparr>VictimCache := x\<rparr>) = flush_sink P b"
  by (simp add: flush_sink_def VictimCache_ring unmasked_def ring_ix_def head_ix_def)

text \<open>A new buffer, and its cache if it has one, is empty and on an empty file.\<close>

lemma new_Buffer_sink:
  assumes "platform_ok P" and "0 < n" and "new_Buffer P n True enable_cache opens d = Inr (b, opens', d')"
  shows "flush_sink P b" "ring_events b = []" "d' = d\<lparr>contents := []\<rparr>" "MaxEvents b = n"
    "CachedEvents b = []" "NumberOfCachedEvents b = 0"
    "if enable_cache then \<exists>c. VictimCache b = Some c \<and> flush_sink P c \<and> ring_events c = []
     else VictimCache b = None"
proof -
  obtain b1 o1 d1 where 1: "new_Buffer_fields P n True opens d = Inr (b1, o1, d1)"
    "(if enable_cache
      then andthen (new_Buffer_fields P BUFFER_CACHE_SIZE True o1 d1) (\<lambda>(c, opens, d).
             Inr (b1\<lparr>VictimCache := Some c\<rparr>, opens, d))
      else Inr (b1, o1, d1)) = Inr (b, opens', d')"
    using assms(3) by (auto simp: new_Buffer_def)
  note b1 = new_Buffer_fields_sink [OF assms(1,2) 1(1)]
  have *: "flush_sink P b \<and> ring_events b = [] \<and> d' = d\<lparr>contents := []\<rparr> \<and> MaxEvents b = n \<and>
    CachedEvents b = [] \<and> NumberOfCachedEvents b = 0 \<and>
    (if enable_cache then \<exists>c. VictimCache b = Some c \<and> flush_sink P c \<and> ring_events c = []
     else VictimCache b = None)"
  proof (cases enable_cache)
    case False
    with 1(2) b1 show ?thesis by simp
  next
    case True
    then obtain c where c: "new_Buffer_fields P BUFFER_CACHE_SIZE True o1 d1 = Inr (c, opens', d')"
      "b = b1\<lparr>VictimCache := Some c\<rparr>"
      using 1(2) by auto
    have "flush_sink P c" "ring_events c = []" "d' = d1\<lparr>contents := []\<rparr>"
      by (rule new_Buffer_fields_sink [OF assms(1) _ c(1)]; simp add: BUFFER_CACHE_SIZE_def)+
    with True b1 c(2) show ?thesis by (simp add: VictimCache_ring)
  qed
  then show "flush_sink P b" "ring_events b = []" "d' = d\<lparr>contents := []\<rparr>" "MaxEvents b = n"
    "CachedEvents b = []" "NumberOfCachedEvents b = 0"
    "if enable_cache then \<exists>c. VictimCache b = Some c \<and> flush_sink P c \<and> ring_events c = []
     else VictimCache b = None" by blast+
qed

text \<open>A platform for the examples: an event is written as one number, its type.\<close>

definition plain_bytes :: "event_t option \<Rightarrow> nat list" where
  "plain_bytes c = (case c of None \<Rightarrow> [0] | Some e \<Rightarrow> [unat (Get_EvEvent e)])"

definition plain_platform :: "bool \<Rightarrow> nat platform" where
  "plain_platform online = \<lparr>HAVE_ONLINE = online, sizeof_event = 1, event_bytes = plain_bytes,
     memory = (\<lambda>_. True), mutex_init_ok = True\<rparr>"

definition plain_event :: "INT32 \<Rightarrow> event_t" where
  "plain_event t =
     \<lparr>ev_param = \<lparr>param_target = 0, param_size = 0, param_tag = 0, param_comm = 0, param_aux = 0\<rparr>,
      ev_value = 0, ev_time = 0, ev_HWCValues = [], ev_event = t, ev_HWCReadSet = 0\<rparr>"

lemma plain_platform_ok: "platform_ok (plain_platform online)"
  by (simp add: platform_ok_def plain_platform_def plain_bytes_def split: option.splits)

lemma plain_bytes_of [simp]:
  "bytes_of (plain_platform online) (map plain_event ts) = map unat ts"
  by (induction ts) (simp_all add: plain_platform_def plain_bytes_def plain_event_def Get_EvEvent_def)

section \<open>A traced run reaches the disk\<close>

text \<open>
  C2. A tracing buffer that is created on a file with room for at least one event and left
  with its default callback, whatever its size and with or without the on-line module
  and the victim cache: after any run of insertions and a last flush the file holds
  the bytes of exactly the inserted events, in order.
\<close>

theorem trace_complete:
  assumes "platform_ok P" and "0 < n" and "pending_writes d = []"
    and "new_Buffer P n True enable_cache opens d = Inr (b, opens', d')"
  shows "\<exists>rc b2 d2. andthen (insert_all P (Cache_InsertSingle P) es b d') (\<lambda>(b, d). Buffer_Flush P b d) =
      Inr (rc, b2, d2) \<and> ring_inv b2 \<and> ring_events b2 = [] \<and> contents d2 = bytes_of P es"
  using buffer_sink.run_then_flush [of P b d' "Cache_InsertSingle P" es] assms(3)
    new_Buffer_sink [OF assms(1,2,4)]
  by (auto simp: insert_all_run flush_sink_def)

definition trace_disk :: "nat disk" where
  "trace_disk = \<lparr>contents = [9, 9], pending_writes = []\<rparr>"

theorem trace_complete_witness:
  "\<exists>rc b2 d2. andthen (new_Buffer (plain_platform True) 2 True True [0, 5, 7] trace_disk)
      (\<lambda>(b, opens, d). andthen (insert_all (plain_platform True) (Cache_InsertSingle (plain_platform True))
         (map plain_event [4, 8, 15, 16, 23]) b d) (\<lambda>(b, d). Buffer_Flush (plain_platform True) b d)) =
    Inr (rc, b2, d2) \<and> contents d2 = [4, 8, 15, 16, 23]"
proof -
  obtain b opens' d' where new: "new_Buffer (plain_platform True) 2 True True [0, 5, 7] trace_disk = Inr (b, opens', d')"
    by (auto simp: new_Buffer_def new_Buffer_fields_def plain_platform_def BUFFER_CACHE_SIZE_def)
  obtain rc b2 d2 where "andthen (insert_all (plain_platform True) (Cache_InsertSingle (plain_platform True))
         (map plain_event [4, 8, 15, 16, 23]) b d') (\<lambda>(b, d). Buffer_Flush (plain_platform True) b d) =
      Inr (rc, b2, d2)"
    "contents d2 = bytes_of (plain_platform True) (map plain_event [4, 8, 15, 16, 23])"
    using trace_complete [OF plain_platform_ok _ _ new, of "map plain_event [4, 8, 15, 16, 23]"]
    by (auto simp: trace_disk_def simp del: insert_all.simps list.map)
  then show ?thesis by (simp only: new plain_bytes_of andthen_simps prod.case) simp
qed

section \<open>The circular mode\<close>

text \<open>A buffer in circular mode that has a cache, itself ready to trace.\<close>

definition circular :: "'c platform \<Rightarrow> unit Buffer_t Buffer_t \<Rightarrow> bool" where
  "circular P b \<longleftrightarrow> ring_inv b \<and> \<not> Lock b \<and> FlushCallback b = CALLBACK_OVERWRITE \<and>
     (\<exists>c. VictimCache b = Some c \<and> flush_sink P c)"

text \<open>
  C13. In circular mode any run of insertions returns and leaves the last \<open>MaxEvents\<close> of
  the events, in order. Of those it pushed out, the events of the cached types, and no
  others, are in the file or in the victim cache, in order, behind what was there.
\<close>

theorem circular_keeps_newest:
  assumes "circular P b" and "pending_writes d = []" and "VictimCache b = Some c"
  shows "\<exists>b' d' c'. insert_all P (Cache_InsertSingle P) es b d = Inr (b', d') \<and> circular P b' \<and>
    ring_events b' = newest (nat (MaxEvents b)) (ring_events b @ es) \<and> VictimCache b' = Some c' \<and>
    contents d' @ bytes_of P (ring_events c') = contents d @ bytes_of P (ring_events c @
      filter (\<lambda>e. Buffer_IsEventCached b (Get_EvEvent e))
        (surplus (nat (MaxEvents b)) (ring_events b @ es)))"
proof -
  have "overwriting (flush_sink P) b"
    using assms(1) by (simp add: circular_def overwriting_def)
  from buffer_sink.overwriting_run [OF this assms(2), where P = P and vins = no_cache and es = es]
  show ?thesis
    using assms(3)
    by (auto simp: circular_def Cache_InsertSingle_def overwriting_def cache_pending_def evicted_def)
qed

definition circular_cache :: "unit Buffer_t" where
  "circular_cache = \<lparr>MaxEvents = 3, FillCount = 0, FirstEvt = 0, LastEvt = 3, HeadEvt = 1, CurEvt = 1,
     Events = [None, None, None], fd = 4, Lock = False, Masks = [0, 0, 0],
     FlushCallback = CALLBACK_FLUSH, NumberOfCachedEvents = 0, CachedEvents = [], VictimCache = None\<rparr>"

definition circular_buffer :: "unit Buffer_t Buffer_t" where
  "circular_buffer = \<lparr>MaxEvents = 2, FillCount = 1, FirstEvt = 0, LastEvt = 2, HeadEvt = 1, CurEvt = 0,
     Events = [None, Some (plain_event 8)], fd = 3, Lock = False, Masks = [0, 0],
     FlushCallback = CALLBACK_OVERWRITE, NumberOfCachedEvents = 2, CachedEvents = [8, 16],
     VictimCache = Some circular_cache\<rparr>"

lemma circular_buffer_ok:
  "circular (plain_platform online) circular_buffer" "ring_events circular_buffer = [plain_event 8]"
  "ring_events circular_cache = []"
  by (simp_all add: circular_def circular_buffer_def circular_cache_def flush_sink_def plain_platform_ok
      ring_inv_def ring_ix_def head_ix_def unmasked_def ring_events_def)

theorem circular_keeps_newest_witness:
  "\<exists>b' d' c'. insert_all (plain_platform True) (Cache_InsertSingle (plain_platform True))
      (map plain_event [4, 8, 15, 16, 23]) circular_buffer trace_disk = Inr (b', d') \<and>
    ring_events b' = map plain_event [16, 23] \<and> VictimCache b' = Some c' \<and>
    contents d' @ bytes_of (plain_platform True) (ring_events c') = [9, 9, 8, 8]"
proof -
  have "VictimCache circular_buffer = Some circular_cache" by (simp add: circular_buffer_def)
  note * = circular_keeps_newest [OF circular_buffer_ok(1) _ this, of trace_disk True "map plain_event [4, 8, 15, 16, 23]"]
  have "newest (nat (MaxEvents circular_buffer)) (ring_events circular_buffer @ map plain_event [4, 8, 15, 16, 23]) =
      map plain_event [16, 23]"
    by (simp add: circular_buffer_ok newest_def) (simp add: circular_buffer_def)
  moreover have "filter (\<lambda>e. Buffer_IsEventCached circular_buffer (Get_EvEvent e))
      (surplus (nat (MaxEvents circular_buffer)) (ring_events circular_buffer @ map plain_event [4, 8, 15, 16, 23])) =
      map plain_event [8, 8]"
    by (simp add: circular_buffer_ok surplus_def)
      (simp add: circular_buffer_def Buffer_IsEventCached_def plain_event_def Get_EvEvent_def)
  moreover have "map unat [8, 8 :: INT32] = [8, 8]" by simp
  ultimately show ?thesis
    using * by (simp add: trace_disk_def circular_buffer_ok del: insert_all.simps list.map) blast
qed

section \<open>What a flush selects\<close>

text \<open>The events a flush writes: all, or with the on-line module those it does not skip.\<close>

definition selected_events :: "'c platform \<Rightarrow> 'v Buffer_t \<Rightarrow> event_t list" where
  "selected_events P b =
     map fst (filter (\<lambda>(e, m). \<not> (HAVE_ONLINE P \<and> m AND MASK_NOFLUSH = MASK_NOFLUSH \<and>
         \<not> Buffer_IsEventCached b (Get_EvEvent e)))
       (map (\<lambda>k. (ring_events b ! k, Masks b ! ring_ix b k)) [0..<nat (FillCount b)]))"

lemma flushed_bytes_selected:
  assumes "ring_inv b"
  shows "flushed_bytes P b = bytes_of P (selected_events P b)"
proof -
  let ?f = "nat (FillCount b)"
  have cells: "k < ?f \<Longrightarrow> Events b ! ring_ix b k = Some (ring_events b ! k)" for k
    by (rule ring_cells [OF assms])
  show ?thesis
  proof (cases "HAVE_ONLINE P")
    case True
    have "kept_bytes P b ?f = concat (map (\<lambda>k. event_bytes P (Some (ring_events b ! k)))
        (filter (\<lambda>k. \<not> (Masks b ! ring_ix b k AND MASK_NOFLUSH = MASK_NOFLUSH \<and>
           \<not> Buffer_IsEventCached b (Get_EvEvent (ring_events b ! k)))) [0..<?f]))"
      unfolding kept_bytes_def
      by (intro arg_cong [where f = concat] map_cong filter_cong) (auto simp: skips_def cells)
    with True show ?thesis
      by (simp add: flushed_bytes_def selected_events_def bytes_of_def filter_map comp_def)
  next
    case False
    then have "selected_events P b = map ((!) (ring_events b)) [0..<?f]"
      by (simp add: selected_events_def comp_def)
    also have "\<dots> = ring_events b"
      using map_nth [of "ring_events b"] by (simp add: ring_events_def)
    finally show ?thesis using False by (simp add: flushed_bytes_def)
  qed
qed

text \<open>
  C19. A flush of a well-formed buffer with an open file appends to it the bytes of the
  selected events, in order, once each, wherever they lie in the circular array and
  however many blocks that takes; it returns 1, and the buffer is empty and well formed.
\<close>

theorem Flush_writes_selected:
  assumes "ring_inv b" and "platform_ok P" and "0 < FillCount b" and "fd b \<noteq> - 1"
    and "pending_writes d = []"
  shows "\<exists>b'. Buffer_Flush P b d =
      Inr (1, b', d\<lparr>contents := contents d @ bytes_of P (selected_events P b)\<rparr>) \<and>
    ring_inv b' \<and> ring_events b' = [] \<and> FillCount b' = 0 \<and> same_setup b b'"
  using Buffer_Flush_writes [OF assms] emptied_ring [OF assms(1)]
  by (simp add: flushed_bytes_selected [OF assms(1)] same_setup_def)

text \<open>A full ring that wraps, with the first and third event masked, and the first type cached.\<close>

definition masked_buffer :: "unit Buffer_t Buffer_t" where
  "masked_buffer = \<lparr>MaxEvents = 4, FillCount = 4, FirstEvt = 0, LastEvt = 4, HeadEvt = 2, CurEvt = 2,
     Events = map (\<lambda>t. Some (plain_event t)) [15, 16, 4, 8], fd = 3, Lock = False,
     Masks = [1, 0, 1, 2], FlushCallback = CALLBACK_FLUSH, NumberOfCachedEvents = 1,
     CachedEvents = [4], VictimCache = Some circular_cache\<rparr>"

lemma masked_buffer_ok:
  "ring_inv masked_buffer" "FillCount masked_buffer = 4" "fd masked_buffer = 3"
  "selected_events (plain_platform True) masked_buffer = map plain_event [4, 8, 16]"
  by (simp_all add: masked_buffer_def ring_inv_def ring_ix_def head_ix_def selected_events_def
      ring_events_def upt_rec MASK_NOFLUSH_def plain_platform_def plain_event_def Get_EvEvent_def
      Buffer_IsEventCached_def)

theorem Flush_writes_selected_witness:
  "\<exists>b'. Buffer_Flush (plain_platform True) masked_buffer trace_disk =
     Inr (1, b', trace_disk\<lparr>contents := [9, 9, 4, 8, 16]\<rparr>)"
  using Flush_writes_selected [OF masked_buffer_ok(1) plain_platform_ok, of trace_disk True]
    plain_bytes_of [of True "[4, 8, 16]"]
  by (auto simp: masked_buffer_ok trace_disk_def simp del: plain_bytes_of)

end
