(* ===== verification/BufferFaults.thy ===== *)
theory BufferFaults
  imports BufferProps
begin

text \<open>
  The tracing buffer at its limits: groups of events larger than the buffer, callbacks
  that make no room, writes that the system cuts short, and discarding from a small
  buffer.
\<close>

section \<open>Groups of events\<close>

lemma flush_sink_callback:
  assumes "flush_sink P b" and "pending_writes d = []"
  shows "\<exists>b' d'. Buffer_ExecuteFlushCallback P vins b d =
      Inr (if FillCount b = 0 then 0 else 1, b', d') \<and> flush_sink P b' \<and> FillCount b' = 0 \<and>
    MaxEvents b' = MaxEvents b \<and> ring_events b' = [] \<and> pending_writes d' = [] \<and>
    contents d' = contents d @ bytes_of P (ring_events b)"
proof (cases "FillCount b = 0")
  case True
  with Buffer_Flush_nothing [of P b d] assms show ?thesis
    by (auto simp: flush_sink_def Buffer_IsEmpty_def ring_events_def Buffer_ExecuteFlushCallback_def)
next
  case False
  with assms have "0 < FillCount b" by (auto simp: flush_sink_def ring_inv_def)
  with Buffer_Flush_writes [of b P d] emptied_ring [of b] assms unmasked_flush [of b P]
  show ?thesis by (auto simp: flush_sink_def unmasked_def Buffer_ExecuteFlushCallback_def)
qed

lemma EnoughSpace_empty: "FillCount b = 0 \<Longrightarrow> Buffer_EnoughSpace b n \<longleftrightarrow> n \<le> MaxEvents b"
  by (simp add: Buffer_EnoughSpace_def Buffer_RemainingEvents_def)

lemma make_room_empty:
  assumes "flush_sink P b" and "pending_writes d = []" and "FillCount b = 0" and "n \<le> MaxEvents b \<or> 0 < retry"
  shows "\<exists>b' d'. make_room P vins n retry b d = Inr (n \<le> MaxEvents b, b', d') \<and> flush_sink P b' \<and>
    FillCount b' = 0 \<and> MaxEvents b' = MaxEvents b \<and> pending_writes d' = [] \<and> ring_events b' = [] \<and>
    contents d' = contents d"
proof (cases retry)
  case 0
  with assms show ?thesis by (simp add: ring_events_def)
next
  case (Suc r)
  have "ring_events b = []" using assms(3) by (simp add: ring_events_def)
  with flush_sink_callback [OF assms(1,2), of vins] assms Suc show ?thesis
    by (auto simp: EnoughSpace_empty)
qed

lemma make_room_sink:
  assumes "flush_sink P b" and "pending_writes d = []" and "n \<le> MaxEvents b \<or> 1 < retry" and "0 < retry"
  shows "\<exists>b' d'. make_room P vins n retry b d = Inr (n \<le> MaxEvents b, b', d') \<and> flush_sink P b' \<and>
    (n \<le> MaxEvents b \<longrightarrow> Buffer_EnoughSpace b' n) \<and> pending_writes d' = [] \<and>
    contents d' @ bytes_of P (ring_events b') = contents d @ bytes_of P (ring_events b)"
proof -
  obtain r where r: "retry = Suc r" using assms(4) by (cases retry) simp_all
  have fill: "0 \<le> FillCount b" using assms(1) by (simp add: flush_sink_def ring_inv_def)
  show ?thesis
  proof (cases "Buffer_EnoughSpace b n")
    case True
    then have "n \<le> MaxEvents b" using fill by (simp add: Buffer_EnoughSpace_def Buffer_RemainingEvents_def)
    with True assms show ?thesis by (simp add: r)
  next
    case False
    obtain b1 d1 where 1: "Buffer_ExecuteFlushCallback P vins b d =
        Inr (if FillCount b = 0 then 0 else 1, b1, d1)" "flush_sink P b1" "FillCount b1 = 0"
      "MaxEvents b1 = MaxEvents b" "ring_events b1 = []" "pending_writes d1 = []"
      "contents d1 = contents d @ bytes_of P (ring_events b)"
      using flush_sink_callback [OF assms(1,2)] by blast
    show ?thesis
    proof (cases "FillCount b = 0")
      case True
      with False 1 show ?thesis by (simp add: r EnoughSpace_empty)
    next
      case notempty: False
      have "n \<le> MaxEvents b1 \<or> 0 < r" using assms(3) r 1(4) by auto
      from make_room_empty [OF 1(2,6,3) this, of vins] notempty False 1 show ?thesis
        by (auto simp: r EnoughSpace_empty)
    qed
  qed
qed

text \<open>
  C24. \<open>Buffer_InsertMultiple\<close> into a buffer that flushes returns and keeps the buffer
  well formed. A group that fits the buffer is inserted whole, and nothing is lost or reordered.
  A group larger than the buffer is dropped without a message: the second flush finds the
  buffer empty and its result ends the operation before the check that would end the run.
\<close>

theorem InsertMultiple_all_or_nothing:
  assumes "flush_sink P b" and "pending_writes d = []"
  shows "\<exists>b' d'. Buffer_InsertMultiple P vins b es d = Inr (b', d') \<and> flush_sink P b' \<and>
    pending_writes d' = [] \<and>
    contents d' @ bytes_of P (ring_events b') = contents d @ bytes_of P (ring_events b @
      (if int (length es) \<le> MaxEvents b then es else []))"
proof (cases "es = []")
  case True
  have "FillCount b \<le> MaxEvents b" "0 < MaxEvents b" using assms(1) by (auto simp: flush_sink_def ring_inv_def)
  with True assms show ?thesis
    by (simp add: Buffer_InsertMultiple_def Buffer_EnoughSpace_def Buffer_RemainingEvents_def)
next
  case False
  have "0 < MaxEvents b" using assms(1) by (simp add: flush_sink_def ring_inv_def)
  with False have "int (length es) \<le> MaxEvents b \<or> 1 < length es" "0 < length es"
    by (cases es; auto)+
  from make_room_sink [OF assms this, of vins] obtain b1 d1 where 1:
    "make_room P vins (int (length es)) (length es) b d = Inr (int (length es) \<le> MaxEvents b, b1, d1)"
    "flush_sink P b1" "int (length es) \<le> MaxEvents b \<longrightarrow> Buffer_EnoughSpace b1 (int (length es))"
    "pending_writes d1 = []"
    "contents d1 @ bytes_of P (ring_events b1) = contents d @ bytes_of P (ring_events b)" by blast
  show ?thesis
  proof (cases "int (length es) \<le> MaxEvents b")
    case True
    with buffer_sink.insert_run_keeps [OF 1(2,4), of vins es] 1 show ?thesis
      by (auto simp: Buffer_InsertMultiple_def insert_all_run)
  next
    case False
    with 1 show ?thesis by (simp add: Buffer_InsertMultiple_def)
  qed
qed

definition two_cells :: "unit Buffer_t" where
  "two_cells = \<lparr>MaxEvents = 2, FillCount = 1, FirstEvt = 0, LastEvt = 2, HeadEvt = 1, CurEvt = 0,
     Events = [None, Some (plain_event 8)], fd = 3, Lock = False, Masks = [0, 0],
     FlushCallback = CALLBACK_FLUSH, NumberOfCachedEvents = 0, CachedEvents = [], VictimCache = None\<rparr>"

lemma two_cells_ok: "flush_sink (plain_platform online) two_cells" "ring_events two_cells = [plain_event 8]"
  by (simp_all add: two_cells_def flush_sink_def plain_platform_ok
      ring_inv_def ring_ix_def head_ix_def unmasked_def ring_events_def)

theorem InsertMultiple_all_or_nothing_witness:
  "\<exists>b' d'. Buffer_InsertMultiple (plain_platform True) no_cache two_cells (map plain_event [4, 5, 6]) trace_disk =
     Inr (b', d') \<and> contents d' @ bytes_of (plain_platform True) (ring_events b') = [9, 9, 8]"
proof -
  have "\<not> int (length (map plain_event [4, 5, 6])) \<le> MaxEvents two_cells"
    and "bytes_of (plain_platform True) [plain_event 8] = [8]"
    using plain_bytes_of [of True "[8]"] by (simp_all add: two_cells_def)
  with InsertMultiple_all_or_nothing [OF two_cells_ok(1), of trace_disk True no_cache "map plain_event [4, 5, 6]"]
  show ?thesis by (auto simp: trace_disk_def two_cells_ok)
qed

section \<open>Callbacks that make no room\<close>

text \<open>
  C25. With the on-line module, an insertion into a full buffer whose callback is NULL, or
  whose file is closed, drops the event and returns with the buffer locked. Every later
  insertion waits for that lock for ever.
\<close>

theorem InsertSingle_keeps_lock:
  assumes "HAVE_ONLINE P" and "platform_ok P" and "Buffer_IsFull b" and "\<not> Lock b"
    and "FlushCallback b = CB_NULL \<or> FlushCallback b = CALLBACK_FLUSH \<and> Buffer_IsClosed b"
  shows "\<exists>b'. Buffer_InsertSingle P vins b e d = Inr (b', d) \<and> ring_events b' = ring_events b \<and>
    Buffer_InsertSingle P vins b' e' d' = Inl Deadlock"
proof -
  have "Buffer_ExecuteFlushCallback P vins (locked P b) d = Inr (0, locked P b, d)"
    using assms Buffer_Flush_nothing [of P "locked P b" d]
    by (auto simp: Buffer_ExecuteFlushCallback_def Buffer_IsClosed_def)
  then have "Buffer_InsertSingle P vins b e d = Inr (locked P b, d)"
    using assms by (simp add: Buffer_InsertSingle_def Buffer_Lock_free)
  moreover have "Buffer_InsertSingle P vins (locked P b) e' d' = Inl Deadlock"
    using assms(1) by (simp add: Buffer_InsertSingle_def Buffer_Lock_def locked_def)
  ultimately show ?thesis by (intro exI [of _ "locked P b"]) simp
qed

theorem InsertSingle_keeps_lock_witness:
  "\<exists>b'. Buffer_InsertSingle (plain_platform True) no_cache
       (two_cells\<lparr>FillCount := 2, FlushCallback := CB_NULL\<rparr>) (plain_event 1) trace_disk = Inr (b', trace_disk) \<and>
     Buffer_InsertSingle (plain_platform True) no_cache b' (plain_event 2) trace_disk = Inl Deadlock"
proof -
  have "HAVE_ONLINE (plain_platform True)" by (simp add: plain_platform_def)
  from InsertSingle_keeps_lock [OF this plain_platform_ok,
      of "two_cells\<lparr>FillCount := 2, FlushCallback := CB_NULL\<rparr>" no_cache "plain_event 1" trace_disk
        "plain_event 2" trace_disk]
  show ?thesis by (auto simp: two_cells_def Buffer_IsFull_def)
qed

section \<open>Short writes\<close>

text \<open>
  C26. When the system takes only \<open>n\<close> of the \<open>l\<close> bytes of a block, the loop goes on
  \<open>4 * n\<close> bytes into the block and not \<open>n\<close>: the file gets the first \<open>n\<close> bytes and
  then bytes from further on, up to \<open>3 * n\<close> behind the block, or the run leaves the array.
\<close>

theorem write_loop_after_short_write:
  assumes "pending_writes d = [Some n]" and "n < l" and "0 < n" and "b + l \<le> length mem"
  shows "write_loop mem b l 0 d =
    (if b + 4 * n + (l - n) \<le> length mem
     then Inr (int l, \<lparr>contents = contents d @ take n (drop b mem) @ take (l - n) (drop (b + 4 * n) mem),
                       pending_writes = []\<rparr>)
     else Inl OutOfBounds)"
proof -
  let ?d = "\<lparr>contents = contents d @ take n (drop b mem), pending_writes = []\<rparr>"
  have "os_write mem b l d = Inr (int n, ?d)"
    using assms by (simp add: os_write_def)
  then have "write_loop mem b l 0 d = write_loop mem b l n ?d"
    using assms by (subst write_loop.simps) simp
  also have "\<dots> = (if b + 4 * n + (l - n) \<le> length mem
     then Inr (int l, ?d\<lparr>contents := contents ?d @ take (l - n) (drop (b + 4 * n) mem)\<rparr>)
     else Inl OutOfBounds)"
  proof -
    have "os_write mem (b + sizeof_int * n) (l - n) ?d = (if b + 4 * n + (l - n) \<le> length mem
       then Inr (int (l - n), ?d\<lparr>contents := contents ?d @ take (l - n) (drop (b + 4 * n) mem)\<rparr>)
       else Inl OutOfBounds)"
      by (simp add: os_write_def sizeof_int_def)
    moreover have "write_loop mem b l l d1 = Inr (int l, d1)" for d1
      by (subst write_loop.simps) simp
    moreover have "n + nat (int l - int n) = l" using assms(2) by simp
    ultimately show ?thesis using assms(2) by (subst write_loop.simps) simp
  qed
  finally show ?thesis by simp
qed

theorem write_loop_after_short_write_witness:
  "write_loop [1, 2, 3, 4, 5, 6, 7, 8] 0 4 0 \<lparr>contents = [], pending_writes = [Some 1]\<rparr> =
     Inr (4, \<lparr>contents = [1, 5, 6, 7 :: nat], pending_writes = []\<rparr>)"
  using write_loop_after_short_write [of "\<lparr>contents = [], pending_writes = [Some 1]\<rparr>" 1 4 0
      "[1, 2, 3, 4, 5, 6, 7, 8 :: nat]"]
  by simp

section \<open>Discarding\<close>

text \<open>
  Discarding a tenth from a full buffer of ten events or more removes the oldest
  \<open>MaxEvents div 10\<close> events and keeps the others in order, well formed.
\<close>

theorem Discard10Pct_drops_oldest:
  assumes "ring_inv b" and "Buffer_IsFull b"
  shows "ring_inv (snd (Buffer_Discard10Pct b)) \<and>
    ring_events (snd (Buffer_Discard10Pct b)) = drop (nat (MaxEvents b div 10)) (ring_events b)"
proof -
  obtain N h where r: "MaxEvents b = int N" "LastEvt b = FirstEvt b + int N"
    "HeadEvt b = FirstEvt b + int h" "h < N" "\<forall>k. ring_ix b k = (h + k) mod N"
    using assms(1) by (rule ring_invE)
  let ?n = "N div 10"
  have n: "int N div 10 = int ?n" by (simp add: zdiv_int)
  have "h + ?n < N + N" using r(4) by linarith
  then have "(if LastEvt b \<le> HeadEvt b + int ?n then FirstEvt b + (HeadEvt b + int ?n - LastEvt b)
      else HeadEvt b + int ?n) = FirstEvt b + int (ring_ix b ?n)"
    using r by (auto simp: mod_if)
  then have "snd (Buffer_Discard10Pct b) =
      b\<lparr>FillCount := FillCount b - int ?n, HeadEvt := FirstEvt b + int (ring_ix b ?n)\<rparr>"
    by (simp only: Buffer_Discard10Pct_def Let_def r(1) n snd_conv)
  moreover have "nat (int N div 10) = ?n" using n by simp
  ultimately show ?thesis
    using drop_ring [OF assms(1), of ?n] assms(2) r(1) by (simp add: Buffer_IsFull_def zdiv_int)
qed

definition ten_cells :: "unit Buffer_t" where
  "ten_cells = \<lparr>MaxEvents = 10, FillCount = 10, FirstEvt = 0, LastEvt = 10, HeadEvt = 9, CurEvt = 9,
     Events = map (\<lambda>t. Some (plain_event t)) [1, 2, 3, 4, 5, 6, 7, 8, 9, 0], fd = 3, Lock = False,
     Masks = replicate 10 0, FlushCallback = CB_Discard10Pct, NumberOfCachedEvents = 0,
     CachedEvents = [], VictimCache = None\<rparr>"

lemma ten_cells_ok: "ring_inv ten_cells" "Buffer_IsFull ten_cells" "MaxEvents ten_cells = 10"
  "ring_events ten_cells = map plain_event [0, 1, 2, 3, 4, 5, 6, 7, 8, 9]"
  by (simp_all add: ten_cells_def ring_inv_def ring_ix_def head_ix_def Buffer_IsFull_def
      ring_events_def upt_rec)

theorem Discard10Pct_drops_oldest_witness:
  "ring_events (snd (Buffer_Discard10Pct ten_cells)) = map plain_event [1, 2, 3, 4, 5, 6, 7, 8, 9]"
  using Discard10Pct_drops_oldest [OF ten_cells_ok(1,2)] by (simp add: ten_cells_ok)

end
