(* ===== verification/Cursor.thy ===== *)
theory Cursor
  imports Prelude
begin

text \<open>
  What a loop over an iterator relies on: the loops are written once over the three
  operations of an iterator, and the contract says which elements it has left. The
  iterators of the tracing buffer meet it, in both directions.
\<close>

section \<open>The loops\<close>

text \<open>
  The search loops of \<open>BufferIterator_NewRange\<close>: the first element with a property,
  or none once the iterator is out of bounds. The iterator is moved on also after the
  element that is found. The fuel bounds the number of turns.
\<close>

fun search_bound ::
  "('i \<Rightarrow> bool) \<Rightarrow> ('i \<Rightarrow> 'p res) \<Rightarrow> ('i \<Rightarrow> 'i res) \<Rightarrow> ('p \<Rightarrow> bool res) \<Rightarrow> nat \<Rightarrow> 'i \<Rightarrow> 'p option res" where
  "search_bound out elem step hit 0 it = Inl Diverges"
| "search_bound out elem step hit (Suc n) it =
     (if out it then Inr None
      else andthen (elem it) (\<lambda>cur. andthen (hit cur) (\<lambda>found. andthen (step it) (\<lambda>it.
        if found then Inr (Some cur) else search_bound out elem step hit n it))))"

text \<open>A loop that visits every element, as the callers of the iterators do.\<close>

fun visit_all :: "('i \<Rightarrow> bool) \<Rightarrow> ('i \<Rightarrow> 'p res) \<Rightarrow> ('i \<Rightarrow> 'i res) \<Rightarrow> nat \<Rightarrow> 'i \<Rightarrow> 'p list res" where
  "visit_all out elem step 0 it = Inl Diverges"
| "visit_all out elem step (Suc n) it =
     (if out it then Inr []
      else andthen (elem it) (\<lambda>cur. andthen (step it) (\<lambda>it.
        andthen (visit_all out elem step n it) (\<lambda>ps. Inr (cur # ps)))))"

section \<open>The contract\<close>

locale cursor =
  fixes out :: "'i \<Rightarrow> bool"
    and elem :: "'i \<Rightarrow> 'p res"
    and step :: "'i \<Rightarrow> 'i res"
    and valid :: "'i \<Rightarrow> bool"
    and left :: "'i \<Rightarrow> 'p list"
  assumes out_iff: "valid i \<Longrightarrow> out i \<longleftrightarrow> left i = []"
    and elem_hd: "valid i \<Longrightarrow> left i \<noteq> [] \<Longrightarrow> elem i = Inr (hd (left i))"
    and step_tl: "valid i \<Longrightarrow> left i \<noteq> [] \<Longrightarrow> \<exists>i'. step i = Inr i' \<and> valid i' \<and> left i' = tl (left i)"
begin

lemma visit_all_left:
  "valid i \<Longrightarrow> length (left i) < n \<Longrightarrow> visit_all out elem step n i = Inr (left i)"
proof (induction n arbitrary: i)
  case 0
  then show ?case by simp
next
  case (Suc n)
  show ?case
  proof (cases "left i = []")
    case True
    with Suc.prems show ?thesis by (simp add: out_iff)
  next
    case False
    obtain i' where i': "step i = Inr i'" "valid i'" "left i' = tl (left i)"
      using step_tl [OF Suc.prems(1) False] by blast
    have "length (left i') < n" using Suc.prems(2) False i'(3) by (cases "left i") auto
    with Suc.IH [OF i'(2)] i' False Suc.prems(1) show ?thesis
      by (simp add: out_iff elem_hd)
  qed
qed

lemma search_bound_first:
  "valid i \<Longrightarrow> length (left i) < n \<Longrightarrow> (\<And>p. p \<in> set (left i) \<Longrightarrow> hit p = Inr (Q p)) \<Longrightarrow>
   search_bound out elem step hit n i = Inr (find Q (left i))"
proof (induction n arbitrary: i)
  case 0
  then show ?case by simp
next
  case (Suc n)
  show ?case
  proof (cases "left i")
    case Nil
    with Suc.prems show ?thesis by (simp add: out_iff)
  next
    case (Cons p ps)
    obtain i' where i': "step i = Inr i'" "valid i'" "left i' = ps"
      using step_tl [OF Suc.prems(1)] Cons by auto
    have "search_bound out elem step hit n i' = Inr (find Q ps)"
      using Suc.IH [OF i'(2)] Suc.prems(2,3) Cons i'(3) by simp
    with i' Cons Suc.prems show ?thesis by (simp add: out_iff elem_hd)
  qed
qed

end

end
