(* ===== verification/BufferIterators.thy ===== *)
theory BufferIterators
  imports BufferProps Cursor
begin

text \<open>
  The iterators over a tracing buffer (\<open>BufferIterator_t\<close> of
  \<open>trunk/dependencies/extrae/src/tracer/wrappers/API/buffers.c\<close>). An iterator points
  to its buffer; here the buffer is an argument of each operation, and a null iterator is
  \<open>None\<close>. A pointer to an event is a position of the buffer, and \<open>NULL\<close> is
  \<open>None\<close>. A failing \<open>ASSERT\<close> ends the run with \<open>exit (-1)\<close>.
\<close>

record BufferIterator_t =
  outOfBounds :: bool
  CurrentElement :: "int option"
  StartBound :: int
  EndBound :: int

definition sizeof_BufferIterator_t :: nat where
  "sizeof_BufferIterator_t = 40"

definition new_Iterator :: "allocator \<Rightarrow> 'v Buffer_t \<Rightarrow> BufferIterator_t res" where
  "new_Iterator alloc b =
     andthen (guard (alloc sizeof_BufferIterator_t) (Exit (-1))) (\<lambda>_.
       Inr \<lparr>outOfBounds = Buffer_IsEmpty b, CurrentElement = None,
            StartBound = Buffer_GetHead b, EndBound = Buffer_GetTail b\<rparr>)"

definition BufferIterator_Copy ::
  "allocator \<Rightarrow> BufferIterator_t option \<Rightarrow> BufferIterator_t option res" where
  "BufferIterator_Copy alloc orig =
     (case orig of
        Some it \<Rightarrow> andthen (guard (alloc sizeof_BufferIterator_t) (Exit (-1))) (\<lambda>_.
          Inr (Some \<lparr>outOfBounds = outOfBounds it, CurrentElement = CurrentElement it,
                     StartBound = StartBound it, EndBound = EndBound it\<rparr>))
      | None \<Rightarrow> Inr None)"

definition BufferIterator_NewForward :: "allocator \<Rightarrow> 'v Buffer_t \<Rightarrow> BufferIterator_t res" where
  "BufferIterator_NewForward alloc b =
     andthen (new_Iterator alloc b) (\<lambda>it. Inr (it\<lparr>CurrentElement := Some (Buffer_GetHead b)\<rparr>))"

definition BufferIterator_NewBackward :: "allocator \<Rightarrow> 'v Buffer_t \<Rightarrow> BufferIterator_t res" where
  "BufferIterator_NewBackward alloc b =
     andthen (new_Iterator alloc b) (\<lambda>it.
       Inr (it\<lparr>CurrentElement := Some (fst (CIRCULAR_STEP (CurEvt b) (- 1) (FirstEvt b) (LastEvt b)))\<rparr>))"

definition BufferIterator_OutOfBounds :: "BufferIterator_t option \<Rightarrow> bool" where
  "BufferIterator_OutOfBounds it = (case it of Some it \<Rightarrow> outOfBounds it | None \<Rightarrow> True)"

text \<open>\<open>ASSERT_VALID_BOUNDS\<close>, then the pointer the operation follows.\<close>

definition valid_bounds :: "BufferIterator_t option \<Rightarrow> BufferIterator_t res" where
  "valid_bounds it =
     (case it of
        None \<Rightarrow> Inl (Exit (-1))
      | Some i \<Rightarrow> if BufferIterator_OutOfBounds it then Inl (Exit (-1)) else Inr i)"

definition current_of :: "BufferIterator_t \<Rightarrow> int res" where
  "current_of it = (case CurrentElement it of None \<Rightarrow> Inl NullPointer | Some p \<Rightarrow> Inr p)"

definition BufferIterator_Next :: "'v Buffer_t \<Rightarrow> BufferIterator_t option \<Rightarrow> BufferIterator_t option res" where
  "BufferIterator_Next b it =
     andthen (valid_bounds it) (\<lambda>it. andthen (current_of it) (\<lambda>p.
       let it = it\<lparr>CurrentElement := Some (Buffer_GetNext b p)\<rparr>
       in Inr (Some (it\<lparr>outOfBounds := (Buffer_GetNext b p = EndBound it)\<rparr>))))"

definition BufferIterator_Previous :: "'v Buffer_t \<Rightarrow> BufferIterator_t option \<Rightarrow> BufferIterator_t option res" where
  "BufferIterator_Previous b it =
     andthen (valid_bounds it) (\<lambda>it. andthen (current_of it) (\<lambda>p.
       let it = it\<lparr>outOfBounds := (p = StartBound it)\<rparr>
       in Inr (Some (if \<not> outOfBounds it
            then it\<lparr>CurrentElement := Some (fst (CIRCULAR_STEP p (- 1) (FirstEvt b) (LastEvt b)))\<rparr>
            else it))))"

definition BufferIterator_GetEvent :: "BufferIterator_t option \<Rightarrow> int res" where
  "BufferIterator_GetEvent it = andthen (valid_bounds it) current_of"

text \<open>
  A search meets every event once, so \<open>MaxEvents + 1\<close> turns are enough for a
  well-formed buffer.
\<close>

definition BufferIterator_NewRange ::
  "allocator \<Rightarrow> 'v Buffer_t \<Rightarrow> UINT64 \<Rightarrow> UINT64 \<Rightarrow> BufferIterator_t res" where
  "BufferIterator_NewRange alloc b start_time end_time =
     andthen (new_Iterator alloc b) (\<lambda>itrange.
     andthen (BufferIterator_NewForward alloc b) (\<lambda>itf.
     andthen (BufferIterator_NewBackward alloc b) (\<lambda>itb.
     andthen (search_bound BufferIterator_OutOfBounds BufferIterator_GetEvent (BufferIterator_Next b)
         (\<lambda>cur. andthen (event_at b cur) (\<lambda>e. Inr (Get_EvTime (Some e) \<ge> start_time)))
         (Suc (nat (MaxEvents b))) (Some itf)) (\<lambda>found_start.
     andthen (search_bound BufferIterator_OutOfBounds BufferIterator_GetEvent (BufferIterator_Previous b)
         (\<lambda>cur. andthen (event_at b cur) (\<lambda>e. Inr (Get_EvTime (Some e) \<le> end_time)))
         (Suc (nat (MaxEvents b))) (Some itb)) (\<lambda>found_end.
       let s = (case found_start of Some p \<Rightarrow> p | None \<Rightarrow> StartBound itrange);
           e = (case found_end of Some p \<Rightarrow> p | None \<Rightarrow> EndBound itrange)
       in Inr \<lparr>outOfBounds = (\<not> (found_start \<noteq> None \<and> found_end \<noteq> None)),
               CurrentElement = Some s, StartBound = s, EndBound = e\<rparr>)))))"

text \<open>The masks of the event an iterator is at.\<close>

definition at_iterator ::
  "('v Buffer_t \<Rightarrow> int \<Rightarrow> 'r res) \<Rightarrow> 'v Buffer_t \<Rightarrow> BufferIterator_t option \<Rightarrow> 'r res" where
  "at_iterator f b it = andthen (valid_bounds it) (\<lambda>it. andthen (current_of it) (f b))"

definition BufferIterator_MaskSet ::
  "'v Buffer_t \<Rightarrow> BufferIterator_t option \<Rightarrow> 32 word \<Rightarrow> 'v Buffer_t res" where
  "BufferIterator_MaskSet b it mask_id = at_iterator (\<lambda>b p. Mask_Set b p mask_id) b it"

definition BufferIterator_MaskSetAll :: "'v Buffer_t \<Rightarrow> BufferIterator_t option \<Rightarrow> 'v Buffer_t res" where
  "BufferIterator_MaskSetAll b it = at_iterator Mask_SetAll b it"

definition BufferIterator_MaskUnset ::
  "'v Buffer_t \<Rightarrow> BufferIterator_t option \<Rightarrow> 32 word \<Rightarrow> 'v Buffer_t res" where
  "BufferIterator_MaskUnset b it mask_id = at_iterator (\<lambda>b p. Mask_Unset b p mask_id) b it"

definition BufferIterator_MaskUnsetAll :: "'v Buffer_t \<Rightarrow> BufferIterator_t option \<Rightarrow> 'v Buffer_t res" where
  "BufferIterator_MaskUnsetAll b it = at_iterator Mask_UnsetAll b it"

definition BufferIterator_IsMaskSet ::
  "'v Buffer_t \<Rightarrow> BufferIterator_t option \<Rightarrow> 32 word \<Rightarrow> bool res" where
  "BufferIterator_IsMaskSet b it mask_id = at_iterator (\<lambda>b p. Mask_IsSet b p mask_id) b it"

definition BufferIterator_IsMaskUnset ::
  "'v Buffer_t \<Rightarrow> BufferIterator_t option \<Rightarrow> 32 word \<Rightarrow> bool res" where
  "BufferIterator_IsMaskUnset b it mask_id = at_iterator (\<lambda>b p. Mask_IsUnset b p mask_id) b it"

section \<open>Positions of the events\<close>

definition pos :: "'v Buffer_t \<Rightarrow> nat \<Rightarrow> int" where
  "pos b k = FirstEvt b + int (ring_ix b k)"

text \<open>The number of the event at a position.\<close>

definition num_at :: "'v Buffer_t \<Rightarrow> int \<Rightarrow> nat" where
  "num_at b p = nat ((p - HeadEvt b) mod MaxEvents b)"

lemma pos_facts:
  assumes "ring_inv b"
  shows "pos b 0 = HeadEvt b" "pos b (nat (FillCount b)) = CurEvt b"
    and "\<And>k. Buffer_GetNext b (pos b k) = pos b (Suc k)"
    and "\<And>k. fst (CIRCULAR_STEP (pos b (Suc k)) (- 1) (FirstEvt b) (LastEvt b)) = pos b k"
    and "\<And>k. k < nat (MaxEvents b) \<Longrightarrow> num_at b (pos b k) = k"
proof -
  obtain N h f where r: "MaxEvents b = int N" "LastEvt b = FirstEvt b + int N"
    "HeadEvt b = FirstEvt b + int h" "FillCount b = int f"
    "CurEvt b = FirstEvt b + int ((h + f) mod N)" "h < N" "\<forall>k. ring_ix b k = (h + k) mod N"
    using assms by (rule ring_invE)
  show "pos b 0 = HeadEvt b" "pos b (nat (FillCount b)) = CurEvt b"
    using r by (simp_all add: pos_def)
  have lt: "ring_ix b k < N" for k using r(6,7) by simp
  show "Buffer_GetNext b (pos b k) = pos b (Suc k)" for k
    using Buffer_GetNext_ring [OF r(2) lt [of k]] r(7) by (simp add: pos_def mod_Suc_eq)
  show "fst (CIRCULAR_STEP (pos b (Suc k)) (- 1) (FirstEvt b) (LastEvt b)) = pos b k" for k
  proof -
    have "ring_ix b (Suc k) = Suc (ring_ix b k) mod N" using r(7) by (simp add: mod_Suc_eq)
    then have "ring_ix b (Suc k) = (if Suc (ring_ix b k) = N then 0 else Suc (ring_ix b k))"
      using lt [of k] by (simp add: mod_Suc)
    then show ?thesis using lt [of k] r(2)
      by (auto simp: pos_def CIRCULAR_STEP_def Let_def)
  qed
  show "num_at b (pos b k) = k" if "k < nat (MaxEvents b)" for k
  proof -
    have "(int ((h + k) mod N) - int h) mod int N = (int h + int k - int h) mod int N"
      by (simp add: zmod_int mod_diff_left_eq)
    then show ?thesis using that r by (simp add: num_at_def pos_def)
  qed
qed

section \<open>The iterators meet the contract\<close>

text \<open>
  A forward iterator that ends at event number \<open>e\<close>, and a backward iterator: what
  makes them valid, and the positions they have left.
\<close>

definition forward_valid :: "'v Buffer_t \<Rightarrow> nat \<Rightarrow> BufferIterator_t option \<Rightarrow> bool" where
  "forward_valid b e it \<longleftrightarrow> ring_inv b \<and> e \<le> nat (FillCount b) \<and>
     (\<exists>i. it = Some i \<and> EndBound i = pos b e \<and>
       (outOfBounds i \<or> (\<exists>k<e. CurrentElement i = Some (pos b k))))"

definition forward_left :: "'v Buffer_t \<Rightarrow> nat \<Rightarrow> BufferIterator_t option \<Rightarrow> int list" where
  "forward_left b e it = (case it of None \<Rightarrow> [] | Some i \<Rightarrow>
     if outOfBounds i then [] else map (pos b) [num_at b (the (CurrentElement i))..<e])"

definition backward_valid :: "'v Buffer_t \<Rightarrow> BufferIterator_t option \<Rightarrow> bool" where
  "backward_valid b it \<longleftrightarrow> ring_inv b \<and>
     (\<exists>i. it = Some i \<and> StartBound i = HeadEvt b \<and>
       (outOfBounds i \<or> (\<exists>k<nat (FillCount b). CurrentElement i = Some (pos b k))))"

definition backward_left :: "'v Buffer_t \<Rightarrow> BufferIterator_t option \<Rightarrow> int list" where
  "backward_left b it = (case it of None \<Rightarrow> [] | Some i \<Rightarrow>
     if outOfBounds i then [] else rev (map (pos b) [0..<Suc (num_at b (the (CurrentElement i)))]))"

lemma FillCount_le: "ring_inv b \<Longrightarrow> nat (FillCount b) \<le> nat (MaxEvents b)"
  by (auto simp: ring_inv_def)

lemma pos_inj:
  assumes "ring_inv b" and "j < nat (MaxEvents b)" and "k < nat (MaxEvents b)" and "pos b j = pos b k"
  shows "j = k"
proof -
  have "num_at b (pos b j) = num_at b (pos b k)" by (simp only: assms(4))
  then show ?thesis by (simp only: pos_facts(5) [OF assms(1,2)] pos_facts(5) [OF assms(1,3)])
qed

lemma pos_Suc_end:
  assumes "ring_inv b" and "k < e" and "e \<le> nat (FillCount b)"
  shows "pos b (Suc k) = pos b e \<longleftrightarrow> Suc k = e"
proof -
  obtain N h f where r: "MaxEvents b = int N" "FillCount b = int f" "h < N" "f \<le> N"
    "\<forall>k. ring_ix b k = (h + k) mod N"
    using assms(1) by (rule ring_invE)
  then show ?thesis
    using mod_ring_distinct [of "Suc k" e N h] assms(2,3) by (cases "Suc k = e") (auto simp: pos_def)
qed

lemma forward_at:
  assumes "forward_valid b e it" and "forward_left b e it \<noteq> []"
  obtains i k where "it = Some i" "\<not> outOfBounds i" "EndBound i = pos b e" "k < e"
    "CurrentElement i = Some (pos b k)" "forward_left b e it = map (pos b) [k..<e]"
    "e \<le> nat (FillCount b)" "ring_inv b"
proof -
  obtain i where i: "it = Some i" "\<not> outOfBounds i" "EndBound i = pos b e"
    "ring_inv b" "e \<le> nat (FillCount b)"
    using assms by (auto simp: forward_valid_def forward_left_def split: if_splits)
  with assms(1) obtain k where k: "k < e" "CurrentElement i = Some (pos b k)"
    by (auto simp: forward_valid_def)
  with i FillCount_le [OF i(4)] have "num_at b (pos b k) = k" by (simp add: pos_facts(5))
  with i k that [of i k] show ?thesis by (simp add: forward_left_def)
qed

lemma backward_at:
  assumes "backward_valid b it" and "backward_left b it \<noteq> []"
  obtains i k where "it = Some i" "\<not> outOfBounds i" "StartBound i = pos b 0" "k < nat (FillCount b)"
    "CurrentElement i = Some (pos b k)" "backward_left b it = rev (map (pos b) [0..<Suc k])" "ring_inv b"
proof -
  obtain i where i: "it = Some i" "\<not> outOfBounds i" "StartBound i = pos b 0" "ring_inv b"
    using assms by (auto simp: backward_valid_def backward_left_def pos_facts(1) split: if_splits)
  with assms(1) obtain k where k: "k < nat (FillCount b)" "CurrentElement i = Some (pos b k)"
    by (auto simp: backward_valid_def)
  with FillCount_le [OF i(4)] have "num_at b (pos b k) = k" by (simp add: pos_facts(5) [OF i(4)])
  with i k that [of i k] show ?thesis by (simp add: backward_left_def)
qed

interpretation forward: cursor BufferIterator_OutOfBounds BufferIterator_GetEvent "BufferIterator_Next b"
  "forward_valid b e" "forward_left b e" for b :: "'v Buffer_t" and e :: nat
proof unfold_locales
  fix it
  assume v: "forward_valid b e it"
  show "BufferIterator_OutOfBounds it \<longleftrightarrow> forward_left b e it = []"
  proof (cases "forward_left b e it = []")
    case False
    with forward_at [OF v False] show ?thesis by (metis BufferIterator_OutOfBounds_def option.simps(5))
  next
    case True
    with v FillCount_le [of b] show ?thesis
      by (auto simp: forward_valid_def forward_left_def BufferIterator_OutOfBounds_def pos_facts(5)
          split: if_splits)
  qed
  assume ne: "forward_left b e it \<noteq> []"
  from forward_at [OF v ne] obtain i k where i: "it = Some i" "\<not> outOfBounds i" "EndBound i = pos b e"
    "k < e" "CurrentElement i = Some (pos b k)" "forward_left b e it = map (pos b) [k..<e]"
    "e \<le> nat (FillCount b)" "ring_inv b" .
  show "BufferIterator_GetEvent it = Inr (hd (forward_left b e it))"
    using i by (simp add: BufferIterator_GetEvent_def valid_bounds_def BufferIterator_OutOfBounds_def
        current_of_def upt_conv_Cons)
  let ?i = "i\<lparr>CurrentElement := Some (pos b (Suc k)), outOfBounds := (pos b (Suc k) = pos b e)\<rparr>"
  have "BufferIterator_Next b it = Inr (Some ?i)"
    using i by (simp add: BufferIterator_Next_def valid_bounds_def BufferIterator_OutOfBounds_def
        current_of_def pos_facts(3))
  moreover have "Suc k \<noteq> e \<Longrightarrow> num_at b (pos b (Suc k)) = Suc k"
    using i(4,7) FillCount_le [OF i(8)] by (intro pos_facts(5) [OF i(8)]) simp
  then have "forward_valid b e (Some ?i)" "forward_left b e (Some ?i) = tl (forward_left b e it)"
    using i pos_Suc_end [OF i(8,4,7)]
    by (auto simp: forward_valid_def forward_left_def map_tl [symmetric] simp flip: map_tl
        intro!: exI [of _ "Suc k"])
  ultimately show "\<exists>i'. BufferIterator_Next b it = Inr i' \<and> forward_valid b e i' \<and>
      forward_left b e i' = tl (forward_left b e it)" by blast
qed

interpretation backward: cursor BufferIterator_OutOfBounds BufferIterator_GetEvent "BufferIterator_Previous b"
  "backward_valid b" "backward_left b" for b :: "'v Buffer_t"
proof unfold_locales
  fix it
  assume v: "backward_valid b it"
  show "BufferIterator_OutOfBounds it \<longleftrightarrow> backward_left b it = []"
    using v by (auto simp: backward_valid_def backward_left_def BufferIterator_OutOfBounds_def split: if_splits)
  assume ne: "backward_left b it \<noteq> []"
  from backward_at [OF v ne] obtain i k where i: "it = Some i" "\<not> outOfBounds i" "StartBound i = pos b 0"
    "k < nat (FillCount b)" "CurrentElement i = Some (pos b k)"
    "backward_left b it = rev (map (pos b) [0..<Suc k])" "ring_inv b" .
  show "BufferIterator_GetEvent it = Inr (hd (backward_left b it))"
    using i by (simp add: BufferIterator_GetEvent_def valid_bounds_def BufferIterator_OutOfBounds_def
        current_of_def)
  have k: "k < nat (MaxEvents b)" using i(4) FillCount_le [OF i(7)] by simp
  show "\<exists>i'. BufferIterator_Previous b it = Inr i' \<and> backward_valid b i' \<and>
      backward_left b i' = tl (backward_left b it)"
  proof (cases k)
    case 0
    then show ?thesis
      using i by (simp add: BufferIterator_Previous_def valid_bounds_def BufferIterator_OutOfBounds_def
          current_of_def backward_valid_def backward_left_def pos_facts(1))
  next
    case (Suc j)
    have "0 < nat (MaxEvents b)" using k by simp
    then have "pos b k \<noteq> pos b 0" using pos_inj [OF i(7) k, of 0] Suc by auto
    moreover have "num_at b (pos b j) = j" using k Suc by (intro pos_facts(5) [OF i(7)]) simp
    ultimately show ?thesis
      using i Suc pos_facts(4) [OF i(7), of j]
      by (auto simp: BufferIterator_Previous_def valid_bounds_def BufferIterator_OutOfBounds_def
          current_of_def backward_valid_def backward_left_def pos_facts(1) intro!: exI [of _ j])
  qed
qed

section \<open>Passing over a buffer\<close>

definition iterate_forward :: "'v Buffer_t \<Rightarrow> BufferIterator_t \<Rightarrow> event_t list res" where
  "iterate_forward b it =
     andthen (visit_all BufferIterator_OutOfBounds BufferIterator_GetEvent (BufferIterator_Next b)
         (Suc (nat (MaxEvents b))) (Some it))
       (\<lambda>ps. foldr (\<lambda>p r. andthen (event_at b p) (\<lambda>e. andthen r (\<lambda>es. Inr (e # es)))) ps (Inr []))"

definition iterate_backward :: "'v Buffer_t \<Rightarrow> BufferIterator_t \<Rightarrow> event_t list res" where
  "iterate_backward b it =
     andthen (visit_all BufferIterator_OutOfBounds BufferIterator_GetEvent (BufferIterator_Previous b)
         (Suc (nat (MaxEvents b))) (Some it))
       (\<lambda>ps. foldr (\<lambda>p r. andthen (event_at b p) (\<lambda>e. andthen r (\<lambda>es. Inr (e # es)))) ps (Inr []))"

lemma event_at_pos:
  assumes "ring_inv b" and "k < nat (FillCount b)"
  shows "event_at b (pos b k) = Inr (ring_events b ! k)"
  using ring_cursor(1) [OF assms] ring_cells [OF assms] by (simp add: pos_def)

lemma events_at_pos:
  assumes "ring_inv b" and "\<And>k. k \<in> set ks \<Longrightarrow> k < nat (FillCount b)"
  shows "foldr (\<lambda>p r. andthen (event_at b p) (\<lambda>e. andthen r (\<lambda>es. Inr (e # es)))) (map (pos b) ks) (Inr []) =
    Inr (map ((!) (ring_events b)) ks)"
  using assms(2) by (induction ks) (simp_all add: event_at_pos [OF assms(1)])

lemma NewForward_valid:
  assumes "ring_inv b" and "\<And>n. alloc n"
  shows "\<exists>it. BufferIterator_NewForward alloc b = Inr it \<and> forward_valid b (nat (FillCount b)) (Some it) \<and>
    forward_left b (nat (FillCount b)) (Some it) = map (pos b) [0..<nat (FillCount b)]"
proof -
  have "0 \<le> FillCount b" "0 < nat (MaxEvents b)" using assms(1) by (auto simp: ring_inv_def)
  moreover from this have "num_at b (HeadEvt b) = 0"
    using pos_facts(5) [OF assms(1), of 0] by (simp add: pos_facts(1) [OF assms(1)])
  ultimately show ?thesis
    using assms pos_facts(1,2) [OF assms(1)]
    by (auto simp: BufferIterator_NewForward_def new_Iterator_def Buffer_GetHead_def Buffer_GetTail_def
        Buffer_IsEmpty_def forward_valid_def forward_left_def intro!: exI [of _ 0])
qed

lemma NewBackward_valid:
  assumes "ring_inv b" and "\<And>n. alloc n"
  shows "\<exists>it. BufferIterator_NewBackward alloc b = Inr it \<and> backward_valid b (Some it) \<and>
    backward_left b (Some it) = rev (map (pos b) [0..<nat (FillCount b)])"
proof (cases "FillCount b = 0")
  case True
  with assms show ?thesis
    by (auto simp: BufferIterator_NewBackward_def new_Iterator_def Buffer_GetHead_def Buffer_GetTail_def
        Buffer_IsEmpty_def backward_valid_def backward_left_def)
next
  case False
  then obtain k where k: "nat (FillCount b) = Suc k"
    using assms(1) by (cases "nat (FillCount b)") (auto simp: ring_inv_def)
  have "num_at b (pos b k) = k"
    using FillCount_le [OF assms(1)] k by (intro pos_facts(5) [OF assms(1)]) simp
  with False k assms pos_facts(4) [OF assms(1), of k] pos_facts(2) [OF assms(1)] show ?thesis
    by (auto simp: BufferIterator_NewBackward_def new_Iterator_def Buffer_GetHead_def Buffer_GetTail_def
        Buffer_IsEmpty_def backward_valid_def backward_left_def)
qed

lemma ring_events_nth: "map ((!) (ring_events b)) [0..<nat (FillCount b)] = ring_events b"
  using map_nth [of "ring_events b"] by (simp add: ring_events_def)

text \<open>
  C22. A forward iterator passes over the events of a well-formed buffer oldest first, a
  backward one newest first; both loops end, no assertion fails and no cell outside the
  ring is read, also when the ring wraps, is full or is empty.
\<close>

theorem iterators_enumerate:
  assumes "ring_inv b" and "\<And>n. alloc n"
  shows "andthen (BufferIterator_NewForward alloc b) (iterate_forward b) = Inr (ring_events b) \<and>
    andthen (BufferIterator_NewBackward alloc b) (iterate_backward b) = Inr (rev (ring_events b))"
proof
  let ?f = "nat (FillCount b)"
  obtain it where it: "BufferIterator_NewForward alloc b = Inr it" "forward_valid b ?f (Some it)"
    "forward_left b ?f (Some it) = map (pos b) [0..<?f]"
    using NewForward_valid [of b alloc, OF assms] by blast
  have "visit_all BufferIterator_OutOfBounds BufferIterator_GetEvent (BufferIterator_Next b)
      (Suc (nat (MaxEvents b))) (Some it) = Inr (map (pos b) [0..<?f])"
    using forward.visit_all_left [OF it(2)] it(3) FillCount_le [OF assms(1)] by (simp del: visit_all.simps)
  with it(1) events_at_pos [OF assms(1), of "[0..<?f]"]
  show "andthen (BufferIterator_NewForward alloc b) (iterate_forward b) = Inr (ring_events b)"
    by (simp add: iterate_forward_def ring_events_nth)
  obtain jt where jt: "BufferIterator_NewBackward alloc b = Inr jt" "backward_valid b (Some jt)"
    "backward_left b (Some jt) = map (pos b) (rev [0..<?f])"
    using NewBackward_valid [of b alloc, OF assms] by (auto simp: rev_map)
  have "visit_all BufferIterator_OutOfBounds BufferIterator_GetEvent (BufferIterator_Previous b)
      (Suc (nat (MaxEvents b))) (Some jt) = Inr (map (pos b) (rev [0..<?f]))"
    using backward.visit_all_left [OF jt(2)] jt(3) FillCount_le [OF assms(1)] by (simp del: visit_all.simps)
  with jt(1) events_at_pos [OF assms(1), of "rev [0..<?f]"]
  show "andthen (BufferIterator_NewBackward alloc b) (iterate_backward b) = Inr (rev (ring_events b))"
    by (simp add: iterate_backward_def ring_events_nth flip: rev_map)
qed

theorem iterators_enumerate_witness:
  "andthen (BufferIterator_NewForward (\<lambda>_. True) masked_buffer) (iterate_forward masked_buffer) =
     Inr (map plain_event [4, 8, 15, 16])"
  using iterators_enumerate [OF masked_buffer_ok(1), of "\<lambda>_. True"]
  by (simp add: masked_buffer_def ring_events_def ring_ix_def head_ix_def upt_rec)

section \<open>Ranges of time\<close>

lemma find_map_upt:
  "i < n \<Longrightarrow> P (g i) \<Longrightarrow> (\<And>k. k < i \<Longrightarrow> \<not> P (g k)) \<Longrightarrow> find P (map g [0..<n]) = Some (g i)"
  by (auto simp: find_Some_iff intro!: exI [of _ i])

lemma find_rev_map_upt:
  assumes "j < n" and "P (g j)" and "\<And>k. j < k \<Longrightarrow> k < n \<Longrightarrow> \<not> P (g k)"
  shows "find P (rev (map g [0..<n])) = Some (g j)"
  using assms by (auto simp: find_Some_iff rev_nth intro!: exI [of _ "n - Suc j"])

text \<open>Whether the event at a position satisfies a condition on its time.\<close>

definition time_at :: "'v Buffer_t \<Rightarrow> (UINT64 \<Rightarrow> bool) \<Rightarrow> int \<Rightarrow> bool" where
  "time_at b Q p = (case event_at b p of Inl x \<Rightarrow> False | Inr e \<Rightarrow> Q (ev_time e))"

lemma time_at_hit:
  assumes "ring_inv b" and "p \<in> set (map (pos b) [0..<nat (FillCount b)])"
  shows "andthen (event_at b p) (\<lambda>e. Inr (Q (Get_EvTime (Some e)))) = Inr (time_at b Q p)"
  using assms by (auto simp: time_at_def Get_EvTime_def event_at_pos)

lemma NewRange_bounds:
  assumes "ring_inv b" and "\<And>n. alloc n" and "i < nat (FillCount b)" and "j < nat (FillCount b)"
    and "start_time \<le> ev_time (ring_events b ! i)"
    and "\<And>k. k < i \<Longrightarrow> ev_time (ring_events b ! k) < start_time"
    and "ev_time (ring_events b ! j) \<le> end_time"
    and "\<And>k. j < k \<Longrightarrow> k < nat (FillCount b) \<Longrightarrow> end_time < ev_time (ring_events b ! k)"
  shows "BufferIterator_NewRange alloc b start_time end_time =
    Inr \<lparr>outOfBounds = False, CurrentElement = Some (pos b i), StartBound = pos b i, EndBound = pos b j\<rparr>"
proof -
  let ?f = "nat (FillCount b)" and ?n = "Suc (nat (MaxEvents b))"
  obtain it where it: "BufferIterator_NewForward alloc b = Inr it" "forward_valid b ?f (Some it)"
    "forward_left b ?f (Some it) = map (pos b) [0..<?f]"
    using NewForward_valid [of b alloc, OF assms(1,2)] by blast
  obtain jt where jt: "BufferIterator_NewBackward alloc b = Inr jt" "backward_valid b (Some jt)"
    "backward_left b (Some jt) = rev (map (pos b) [0..<?f])"
    using NewBackward_valid [of b alloc, OF assms(1,2)] by blast
  have len: "length (forward_left b ?f (Some it)) < ?n" "length (backward_left b (Some jt)) < ?n"
    using it(3) jt(3) FillCount_le [OF assms(1)] by simp_all
  have at: "time_at b Q (pos b k) = Q (ev_time (ring_events b ! k))" if "k < ?f" for Q k
    using that by (simp add: time_at_def event_at_pos [OF assms(1)])
  have "find (time_at b (\<lambda>t. start_time \<le> t)) (map (pos b) [0..<?f]) = Some (pos b i)"
    using assms(3,5,6) by (intro find_map_upt) (auto simp: at not_le)
  then have 1: "search_bound BufferIterator_OutOfBounds BufferIterator_GetEvent (BufferIterator_Next b)
      (\<lambda>cur. andthen (event_at b cur) (\<lambda>e. Inr (Get_EvTime (Some e) \<ge> start_time))) ?n (Some it) =
    Inr (Some (pos b i))"
    using forward.search_bound_first [OF it(2) len(1), of _ "time_at b (\<lambda>t. start_time \<le> t)",
        OF time_at_hit [OF assms(1)]] it(3) by simp
  have "find (time_at b (\<lambda>t. t \<le> end_time)) (rev (map (pos b) [0..<?f])) = Some (pos b j)"
    using assms(4,7,8) by (intro find_rev_map_upt) (auto simp: at not_le)
  then have 2: "search_bound BufferIterator_OutOfBounds BufferIterator_GetEvent (BufferIterator_Previous b)
      (\<lambda>cur. andthen (event_at b cur) (\<lambda>e. Inr (Get_EvTime (Some e) \<le> end_time))) ?n (Some jt) =
    Inr (Some (pos b j))"
    using backward.search_bound_first [OF jt(2) len(2), of _ "time_at b (\<lambda>t. t \<le> end_time)",
        OF time_at_hit [OF assms(1)]] jt(3) by simp
  have "\<exists>r. new_Iterator alloc b = Inr r" using assms(2) by (simp add: new_Iterator_def)
  with it(1) jt(1) 1 2 show ?thesis by (auto simp: BufferIterator_NewRange_def Let_def)
qed

text \<open>
  A range iterator starts at the oldest event that is not before the start time, and
  stops before the newest one that is not after the end time: the loop over it passes
  over the events between the two without the last, although that lies in the range.
\<close>

theorem NewRange_omits_last:
  assumes "ring_inv b" and "\<And>n. alloc n" and "i < j" and "j < nat (FillCount b)"
    and "start_time \<le> ev_time (ring_events b ! i)"
    and "\<And>k. k < i \<Longrightarrow> ev_time (ring_events b ! k) < start_time"
    and "ev_time (ring_events b ! j) \<le> end_time"
    and "\<And>k. j < k \<Longrightarrow> k < nat (FillCount b) \<Longrightarrow> end_time < ev_time (ring_events b ! k)"
  shows "andthen (BufferIterator_NewRange alloc b start_time end_time) (iterate_forward b) =
    Inr (map ((!) (ring_events b)) [i..<j])"
proof -
  let ?it = "\<lparr>outOfBounds = False, CurrentElement = Some (pos b i), StartBound = pos b i, EndBound = pos b j\<rparr>"
  have i: "i < nat (FillCount b)" using assms(3,4) by simp
  have valid: "forward_valid b j (Some ?it)"
    using assms(1,3,4) by (auto simp: forward_valid_def)
  have "num_at b (pos b i) = i"
    using i FillCount_le [OF assms(1)] by (intro pos_facts(5) [OF assms(1)]) simp
  then have left: "forward_left b j (Some ?it) = map (pos b) [i..<j]" by (simp add: forward_left_def)
  then have "length (forward_left b j (Some ?it)) < Suc (nat (MaxEvents b))"
    using assms(4) FillCount_le [OF assms(1)] by simp
  from forward.visit_all_left [OF valid this]
  have "iterate_forward b ?it = Inr (map ((!) (ring_events b)) [i..<j])"
    using events_at_pos [OF assms(1), of "[i..<j]"] assms(4)
    by (simp add: iterate_forward_def left del: visit_all.simps)
  with NewRange_bounds [OF assms(1,2) i assms(4-8)] show ?thesis by simp
qed

definition timed_event :: "UINT64 \<Rightarrow> event_t" where
  "timed_event t = (plain_event 1)\<lparr>ev_time := t\<rparr>"

definition timed_buffer :: "unit Buffer_t" where
  "timed_buffer = \<lparr>MaxEvents = 4, FillCount = 4, FirstEvt = 0, LastEvt = 4, HeadEvt = 2, CurEvt = 2,
     Events = map (\<lambda>t. Some (timed_event t)) [30, 40, 10, 20], fd = 3, Lock = False,
     Masks = replicate 4 0, FlushCallback = CALLBACK_FLUSH, NumberOfCachedEvents = 0,
     CachedEvents = [], VictimCache = None\<rparr>"

lemma timed_buffer_ok: "ring_inv timed_buffer" "FillCount timed_buffer = 4"
  "ring_events timed_buffer = map timed_event [10, 20, 30, 40]"
  by (simp_all add: timed_buffer_def ring_inv_def ring_ix_def head_ix_def ring_events_def upt_rec)

theorem NewRange_omits_last_witness:
  "andthen (BufferIterator_NewRange (\<lambda>_. True) timed_buffer 20 30) (iterate_forward timed_buffer) =
     Inr [timed_event 20]"
  using NewRange_omits_last [OF timed_buffer_ok(1), of "\<lambda>_. True" 1 2 20 30]
  by (simp add: timed_buffer_ok timed_event_def nth_Cons' upt_rec)

end
