(* ===== verification/Base64.thy ===== *)
theory Base64
  imports Prelude "HOL-Library.Word"
begin

text \<open>
  The base-64 encoding of the C binding, from
  \<open>trunk/compss/programming_model/bindings/c/src/bindinglib/base64.c\<close>: the encoder
  \<open>gs_b64_ntop\<close> and the decoder \<open>gs_b64_pton\<close>.

  A \<open>char\<close> is a byte, and is signed where the code computes with it, as on the
  platforms the binding is built for. The source of the encoder is the list of the
  \<open>srclength\<close> bytes it is given, the source of the decoder the bytes up to and with the
  terminator. A target is the list of the bytes it has; that of the decoder can be null.
  Sizes and indices are natural numbers; the result is converted to an \<open>int\<close> as a
  \<open>size_t\<close> is.
\<close>

type_synonym byte = "8 word"

definition Base64 :: "byte list" where
  "Base64 = map of_char ''ABCDEFGHIJKLMNOPQRSTUVWXYZabcdefghijklmnopqrstuvwxyz0123456789+/''"

definition Pad64 :: byte where
  "Pad64 = of_char CHR ''-''"

definition to_int :: "nat \<Rightarrow> int" where
  "to_int n = sint (of_nat n :: 32 word)"

section \<open>The encoder\<close>

text \<open>The digits of a group: \<open>input[i]\<close> is promoted to a signed integer.\<close>

definition digit0 :: "byte \<Rightarrow> int" where
  "digit0 x = drop_bit 2 (sint x)"

definition digit1 :: "byte \<Rightarrow> byte \<Rightarrow> int" where
  "digit1 x y = push_bit 4 (and (sint x) 0x03) + drop_bit 4 (sint y)"

definition digit2 :: "byte \<Rightarrow> byte \<Rightarrow> int" where
  "digit2 y z = push_bit 2 (and (sint y) 0x0f) + drop_bit 6 (sint z)"

definition digit3 :: "byte \<Rightarrow> int" where
  "digit3 z = and (sint z) 0x3f"

text \<open>\<open>target[datalength++] = Base64[output[i]]\<close>, for each digit in turn.\<close>

fun put_digits :: "int list \<Rightarrow> byte list \<Rightarrow> nat \<Rightarrow> (byte list \<times> nat) res" where
  "put_digits [] target datalength = Inr (target, datalength)"
| "put_digits (d # ds) target datalength =
     andthen (array_get (Base64 @ [0]) d) (\<lambda>c.
     andthen (array_set target (int datalength) c) (\<lambda>target.
       put_digits ds target (datalength + 1)))"

text \<open>
  The groups of three bytes. The result is the bytes left over, the target and its
  length, or \<open>None\<close> when the code returns \<open>-1\<close> because the target is full.
\<close>

fun ntop_groups :: "byte list \<Rightarrow> byte list \<Rightarrow> nat \<Rightarrow> nat \<Rightarrow> (byte list option \<times> byte list \<times> nat) res" where
  "ntop_groups (x # y # z # src) target targsize datalength =
     (let output = [digit0 x, digit1 x y, digit2 y z, digit3 z] in
      andthen (guard (list_all (\<lambda>d. d < 64) output) AssertFailed) (\<lambda>_.
        if datalength + 4 > targsize then Inr (None, target, datalength)
        else andthen (put_digits output target datalength) (\<lambda>(target, datalength).
          ntop_groups src target targsize datalength)))"
| "ntop_groups src target targsize datalength = Inr (Some src, target, datalength)"

definition ntop_pad :: "byte list \<Rightarrow> byte list \<Rightarrow> nat \<Rightarrow> nat \<Rightarrow> (bool \<times> byte list \<times> nat) res" where
  "ntop_pad src target targsize datalength =
     (let x = src ! 0;
          y = (if length src = 1 then 0 else src ! 1);
          output = [digit0 x, digit1 x y, digit2 y 0]
      in andthen (guard (list_all (\<lambda>d. d < 64) output) AssertFailed) (\<lambda>_.
        if datalength + 4 > targsize then Inr (False, target, datalength)
        else andthen (put_digits [digit0 x, digit1 x y] target datalength) (\<lambda>(target, datalength).
          andthen (if length src = 1
                   then andthen (array_set target (int datalength) Pad64) (\<lambda>target. Inr (target, datalength + 1))
                   else put_digits [digit2 y 0] target datalength) (\<lambda>(target, datalength).
          andthen (array_set target (int datalength) Pad64) (\<lambda>target.
            Inr (True, target, datalength + 1))))))"

definition gs_b64_ntop :: "byte list \<Rightarrow> byte list \<Rightarrow> nat \<Rightarrow> (int \<times> byte list) res" where
  "gs_b64_ntop src target targsize =
     andthen (ntop_groups src target targsize 0) (\<lambda>(left, target, datalength).
       case left of
         None \<Rightarrow> Inr (- 1, target)
       | Some src \<Rightarrow>
           andthen (if src \<noteq> [] then ntop_pad src target targsize datalength
                    else Inr (True, target, datalength)) (\<lambda>(fits, target, datalength).
             if \<not> fits then Inr (- 1, target)
             else if datalength \<ge> targsize then Inr (- 1, target)
             else andthen (array_set target (int datalength) 0) (\<lambda>target.
               Inr (to_int datalength, target))))"

section \<open>The decoder\<close>

text \<open>\<open>isspace\<close> of the C locale; an \<open>unsigned int\<close> comes from a signed \<open>char\<close>.\<close>

definition isspace :: "32 word \<Rightarrow> bool" where
  "isspace ch \<longleftrightarrow> ch \<in> {9, 10, 11, 12, 13, 32}"

definition get_ch :: "byte \<Rightarrow> 32 word" where
  "get_ch c = scast c"

definition strchr :: "byte list \<Rightarrow> 32 word \<Rightarrow> nat option" where
  "strchr s ch = first_index (\<lambda>c. c = ucast ch) s"

text \<open>
  One digit: the new target, index and state, or \<open>Inl\<close> of the target when the code
  returns \<open>-1\<close> because it is full.
\<close>

definition pton_digit ::
  "nat \<Rightarrow> byte list option \<Rightarrow> nat \<Rightarrow> nat \<Rightarrow> nat \<Rightarrow> (byte list option + byte list option \<times> nat \<times> nat) res" where
  "pton_digit p target targsize tarindex state =
     (let put = (\<lambda>t i v. array_set t (int i) (word_of_int v));
          join = (\<lambda>t i v. andthen (array_get t (int i)) (\<lambda>old. put t i (or (sint old) v)))
      in
      if state = 0 then
        (case target of
           None \<Rightarrow> Inr (Inr (target, tarindex, 1))
         | Some t \<Rightarrow> if tarindex \<ge> targsize then Inr (Inl target)
             else andthen (put t tarindex (push_bit 2 (int p))) (\<lambda>t. Inr (Inr (Some t, tarindex, 1))))
      else if state = 1 then
        (case target of
           None \<Rightarrow> Inr (Inr (target, tarindex + 1, 2))
         | Some t \<Rightarrow> if tarindex + 1 \<ge> targsize then Inr (Inl target)
             else andthen (join t tarindex (drop_bit 4 (int p))) (\<lambda>t.
                  andthen (put t (tarindex + 1) (push_bit 4 (and (int p) 0x0f))) (\<lambda>t.
                    Inr (Inr (Some t, tarindex + 1, 2)))))
      else if state = 2 then
        (case target of
           None \<Rightarrow> Inr (Inr (target, tarindex + 1, 3))
         | Some t \<Rightarrow> if tarindex + 1 \<ge> targsize then Inr (Inl target)
             else andthen (join t tarindex (drop_bit 2 (int p))) (\<lambda>t.
                  andthen (put t (tarindex + 1) (push_bit 6 (and (int p) 0x03))) (\<lambda>t.
                    Inr (Inr (Some t, tarindex + 1, 3)))))
      else if state = 3 then
        (case target of
           None \<Rightarrow> Inr (Inr (target, tarindex + 1, 0))
         | Some t \<Rightarrow> if tarindex \<ge> targsize then Inr (Inl target)
             else andthen (join t tarindex (int p)) (\<lambda>t. Inr (Inr (Some t, tarindex + 1, 0))))
      else Inr (Inr (target, tarindex, state)))"

fun pton_loop ::
  "byte list \<Rightarrow> byte list option \<Rightarrow> nat \<Rightarrow> nat \<Rightarrow> nat \<Rightarrow>
   (byte list option + 32 word \<times> byte list \<times> byte list option \<times> nat \<times> nat) res" where
  "pton_loop [] target targsize tarindex state = Inl OutOfBounds"
| "pton_loop (c # src) target targsize tarindex state =
     (let ch = get_ch c in
      if ch = 0 then Inr (Inr (ch, src, target, tarindex, state))
      else if isspace ch then pton_loop src target targsize tarindex state
      else if ch = ucast Pad64 then Inr (Inr (ch, src, target, tarindex, state))
      else case strchr Base64 ch of
             None \<Rightarrow> Inr (Inl target)
           | Some p \<Rightarrow> andthen (pton_digit p target targsize tarindex state) (\<lambda>r.
               case r of
                 Inl target \<Rightarrow> Inr (Inl target)
               | Inr (target, tarindex, state) \<Rightarrow> pton_loop src target targsize tarindex state))"

definition next_ch :: "byte list \<Rightarrow> (32 word \<times> byte list) res" where
  "next_ch src = (case src of [] \<Rightarrow> Inl OutOfBounds | c # src \<Rightarrow> Inr (get_ch c, src))"

text \<open>\<open>for (; ch != '\0'; ch = *src++)\<close>, until a character that is no space.\<close>

fun skip_spaces :: "32 word \<Rightarrow> byte list \<Rightarrow> (32 word \<times> byte list) res" where
  "skip_spaces ch [] = (if ch = 0 \<or> \<not> isspace ch then Inr (ch, []) else Inl OutOfBounds)"
| "skip_spaces ch (c # src) =
     (if ch = 0 \<or> \<not> isspace ch then Inr (ch, c # src) else skip_spaces (get_ch c) src)"

text \<open>The checks behind a first padding character; \<open>False\<close> stands for \<open>-1\<close>.\<close>

definition pton_last :: "32 word \<Rightarrow> byte list \<Rightarrow> byte list option \<Rightarrow> nat \<Rightarrow> bool res" where
  "pton_last ch src target tarindex =
     andthen (skip_spaces ch src) (\<lambda>(ch, src).
       if ch \<noteq> 0 then Inr False
       else case target of
              None \<Rightarrow> Inr True
            | Some t \<Rightarrow> andthen (array_get t (int tarindex)) (\<lambda>b. Inr (b = 0)))"

definition pton_end ::
  "32 word \<Rightarrow> byte list \<Rightarrow> byte list option \<Rightarrow> nat \<Rightarrow> nat \<Rightarrow> bool res" where
  "pton_end ch src target tarindex state =
     (if ch = ucast Pad64 then
        andthen (next_ch src) (\<lambda>(ch, src).
          if state = 0 \<or> state = 1 then Inr False
          else if state = 2 then
            andthen (skip_spaces ch src) (\<lambda>(ch, src).
              if ch \<noteq> ucast Pad64 then Inr False
              else andthen (next_ch src) (\<lambda>(ch, src). pton_last ch src target tarindex))
          else if state = 3 then pton_last ch src target tarindex
          else Inr True)
      else Inr (state = 0))"

definition gs_b64_pton :: "byte list \<Rightarrow> byte list option \<Rightarrow> nat \<Rightarrow> (int \<times> byte list option) res" where
  "gs_b64_pton src target targsize =
     andthen (pton_loop src target targsize 0 0) (\<lambda>r.
       case r of
         Inl target \<Rightarrow> Inr (- 1, target)
       | Inr (ch, src, target, tarindex, state) \<Rightarrow>
           andthen (pton_end ch src target tarindex state) (\<lambda>valid.
             if valid then Inr (to_int tarindex, target) else Inr (- 1, target)))"

end
