(* ===== verification/Base64Props.thy ===== *)
theory Base64Props
  imports Base64
begin

text \<open>
  The encoder and the decoder of \<open>base64.c\<close> against a reference: the encoding of RFC
  1521, over unsigned bytes, with the padding character of the code.
\<close>

section \<open>The reference\<close>

definition digit_char :: "nat \<Rightarrow> byte" where
  "digit_char d = Base64 ! d"

fun b64_ref :: "byte list \<Rightarrow> byte list" where
  "b64_ref (x # y # z # bs) =
     map digit_char [unat x div 4, unat x mod 4 * 16 + unat y div 16,
       unat y mod 16 * 4 + unat z div 64, unat z mod 64] @ b64_ref bs"
| "b64_ref [x, y] = map digit_char [unat x div 4, unat x mod 4 * 16 + unat y div 16, unat y mod 16 * 4] @ [Pad64]"
| "b64_ref [x] = map digit_char [unat x div 4, unat x mod 4 * 16] @ [Pad64, Pad64]"
| "b64_ref [] = []"

lemma length_b64_ref: "length (b64_ref bs) = 4 * ((length bs + 2) div 3)"
  by (induction bs rule: b64_ref.induct) (simp_all, presburger)

section \<open>Characters and digits\<close>

lemma length_Base64 [simp]: "length Base64 = 64"
  by (simp add: Base64_def)

lemma distinct_Base64: "distinct Base64"
  by (simp add: Base64_def)

lemma sint_7bit: "x < 128 \<Longrightarrow> sint (x :: byte) = int (unat x)"
proof -
  assume "x < 128"
  then have "- (2 ^ 7) \<le> uint x" "uint x < 2 ^ 7" by (auto simp: word_less_def intro: order.trans [of _ 0])
  then show ?thesis using signed_take_bit_int_eq_self [of 7 "uint x"] by (simp add: sint_uint)
qed

lemma and_masks: "and (a :: int) 3 = a mod 4" "and a 15 = a mod 16" "and a 63 = a mod 64"
  using take_bit_eq_mask [of 2 a] take_bit_eq_mask [of 4 a] take_bit_eq_mask [of 6 a]
  by (simp_all add: take_bit_eq_mod mask_eq_exp_minus_1)

lemma digits_7bit:
  assumes "x < 128" and "y < 128" and "z < 128"
  shows "digit0 x = int (unat x div 4)" "digit1 x y = int (unat x mod 4 * 16 + unat y div 16)"
    "digit2 y z = int (unat y mod 16 * 4 + unat z div 64)" "digit3 z = int (unat z mod 64)"
  using assms
  by (simp_all add: digit0_def digit1_def digit2_def digit3_def sint_7bit drop_bit_eq_div
      push_bit_eq_mult zdiv_int zmod_int and_masks)

lemma unat_byte: "unat (x :: byte) < 256"
  using unsigned_less [of x, where ?'a = nat] by simp

lemma digits_less:
  "unat (x :: byte) div 4 < 64" "unat x mod 4 * 16 + unat (y :: byte) div 16 < 64"
  "unat y mod 16 * 4 + unat (z :: byte) div 64 < 64" "unat z mod 64 < 64"
  "unat x mod 4 * 16 < 64" "unat y mod 16 * 4 < 64"
  using unat_byte [of x] unat_byte [of y] unat_byte [of z] by auto

lemma alphabet_facts:
  "list_all (\<lambda>c. get_ch c \<noteq> 0 \<and> \<not> isspace (get_ch c) \<and> get_ch c \<noteq> ucast Pad64 \<and> ucast (get_ch c) = c) Base64"
  by (simp add: Base64_def get_ch_def isspace_def Pad64_def)

lemma digit_char_facts:
  assumes "d < 64"
  shows "get_ch (digit_char d) \<noteq> 0" "\<not> isspace (get_ch (digit_char d))"
    "get_ch (digit_char d) \<noteq> ucast Pad64" "strchr Base64 (get_ch (digit_char d)) = Some d"
proof -
  have "digit_char d \<in> set Base64" using assms by (simp add: digit_char_def)
  with alphabet_facts have *: "get_ch (digit_char d) \<noteq> 0" "\<not> isspace (get_ch (digit_char d))"
    "get_ch (digit_char d) \<noteq> ucast Pad64" "ucast (get_ch (digit_char d)) = digit_char d"
    unfolding list_all_iff by blast+
  have "strchr Base64 (get_ch (digit_char d)) = Some d"
    unfolding strchr_def *(4) first_index_Some
    unfolding digit_char_def
    using assms by (auto simp: nth_eq_iff_index_eq [OF distinct_Base64])
  with * show "get_ch (digit_char d) \<noteq> 0" "\<not> isspace (get_ch (digit_char d))"
    "get_ch (digit_char d) \<noteq> ucast Pad64" "strchr Base64 (get_ch (digit_char d)) = Some d"
    by blast+
qed

section \<open>The encoder follows the reference on 7-bit bytes\<close>

text \<open>Storing consecutive cells.\<close>

definition overwrite :: "'a list \<Rightarrow> nat \<Rightarrow> 'a list \<Rightarrow> 'a list" where
  "overwrite t k xs = take k t @ xs @ drop (k + length xs) t"

lemma overwrite_Nil [simp]: "overwrite t k [] = t"
  by (simp add: overwrite_def)

lemma length_overwrite: "k + length xs \<le> length t \<Longrightarrow> length (overwrite t k xs) = length t"
  by (simp add: overwrite_def)

lemma overwrite_snoc:
  "k + length xs < length t \<Longrightarrow> (overwrite t k xs)[k + length xs := x] = overwrite t k (xs @ [x])"
  by (simp add: overwrite_def list_update_append Cons_nth_drop_Suc [symmetric])

lemma store_overwrite:
  "k + length xs < length t \<Longrightarrow>
   array_set (overwrite t k xs) (int (k + length xs)) x = Inr (overwrite t k (xs @ [x]))"
  by (simp only: array_set_in length_overwrite overwrite_snoc less_imp_le)

lemma overwrite_overwrite:
  "k + length xs + length ys \<le> length t \<Longrightarrow>
   overwrite (overwrite t k xs) (k + length xs) ys = overwrite t k (xs @ ys)"
  by (simp add: overwrite_def ac_simps)

lemma put_digits_overwrite:
  "list_all (\<lambda>d. d < 64) ds \<Longrightarrow> k + length ds \<le> length t \<Longrightarrow>
   put_digits (map int ds) t k = Inr (overwrite t k (map digit_char ds), k + length ds)"
proof (induction ds arbitrary: t k)
  case Nil
  then show ?case by simp
next
  case (Cons d ds)
  have "t[k := digit_char d] = overwrite t k [digit_char d]"
    using overwrite_snoc [of k "[]" t "digit_char d"] Cons.prems(2) by simp
  moreover have "overwrite (overwrite t k [digit_char d]) (Suc k) (map digit_char ds) =
      overwrite t k (map digit_char (d # ds))"
    using overwrite_overwrite [of k "[digit_char d]" "map digit_char ds" t] Cons.prems(2) by simp
  ultimately show ?case
    using Cons.prems Cons.IH [of "Suc k" "t[k := digit_char d]"] length_overwrite [of k "[digit_char d]" t]
    by (simp add: bounds_simps nth_append flip: digit_char_def)
qed

text \<open>The encoder from a position of the target on.\<close>

definition ntop_from :: "byte list \<Rightarrow> byte list \<Rightarrow> nat \<Rightarrow> nat \<Rightarrow> (int \<times> byte list) res" where
  "ntop_from src target targsize k =
     andthen (ntop_groups src target targsize k) (\<lambda>(left, target, datalength).
       case left of
         None \<Rightarrow> Inr (- 1, target)
       | Some src \<Rightarrow>
           andthen (if src \<noteq> [] then ntop_pad src target targsize datalength
                    else Inr (True, target, datalength)) (\<lambda>(fits, target, datalength).
             if \<not> fits then Inr (- 1, target)
             else if datalength \<ge> targsize then Inr (- 1, target)
             else andthen (array_set target (int datalength) 0) (\<lambda>target.
               Inr (to_int datalength, target))))"

lemma ntop_from_0: "gs_b64_ntop src target targsize = ntop_from src target targsize 0"
  by (simp add: gs_b64_ntop_def ntop_from_def)

lemma ntop_from_Cons:
  "ntop_from (x # y # z # bs) t targsize k =
     (let output = [digit0 x, digit1 x y, digit2 y z, digit3 z] in
      andthen (guard (list_all (\<lambda>d. d < 64) output) AssertFailed) (\<lambda>_.
        if k + 4 > targsize then Inr (- 1, t)
        else andthen (put_digits output t k) (\<lambda>(t, k). ntop_from bs t targsize k)))"
  by (simp add: ntop_from_def Let_def andthen_assoc split_def del: put_digits.simps)

lemma ntop_from_group:
  assumes "x < 128" "y < 128" "z < 128" "targsize \<le> length t"
  shows "ntop_from (x # y # z # bs) t targsize k =
    (if k + 4 > targsize then Inr (- 1, t)
     else ntop_from bs (overwrite t k (map digit_char [unat x div 4, unat x mod 4 * 16 + unat y div 16,
       unat y mod 16 * 4 + unat z div 64, unat z mod 64])) targsize (k + 4))"
proof -
  let ?ds = "[unat x div 4, unat x mod 4 * 16 + unat y div 16,
       unat y mod 16 * 4 + unat z div 64, unat z mod 64]"
  have less: "list_all (\<lambda>d. d < 64) ?ds" using digits_less by simp
  then have "list_all (\<lambda>d. d < 64) (map int ?ds)" by (simp only: list_all_iff set_map ball_simps) auto
  moreover have "k + 4 \<le> targsize \<Longrightarrow>
      put_digits (map int ?ds) t k = Inr (overwrite t k (map digit_char ?ds), k + 4)"
    using put_digits_overwrite [OF less, of k t] assms(4) by simp
  moreover have "[digit0 x, digit1 x y, digit2 y z, digit3 z] = map int ?ds"
    using assms(1-3) by (simp add: digits_7bit)
  ultimately show ?thesis
    by (simp only: ntop_from_Cons Let_def guard_simps andthen_simps not_le [symmetric] if_not_P split: if_splits)
      (auto simp only: prod.case andthen_simps)
qed

lemma ntop_from_Nil:
  assumes "targsize \<le> length t"
  shows "ntop_from [] t targsize k =
    (if k < targsize then Inr (to_int k, overwrite t k [0]) else Inr (- 1, t))"
  using assms overwrite_snoc [of k "[]" t 0] by (simp add: ntop_from_def bounds_simps)

text \<open>The end of the encoding: three or two digits, then the padding and the terminator.\<close>

lemma ntop_from_short:
  assumes "ntop_pad src t targsize k = (if k + 4 > targsize then Inr (False, t, k)
      else Inr (True, overwrite t k q, k + 4))"
    and "src = [x] \<or> src = [x, y]" and "length q = 4" and "targsize \<le> length t"
  shows "ntop_from src t targsize k =
    (if k + 4 < targsize then Inr (to_int (k + 4), overwrite t k (q @ [0]))
     else Inr (- 1, if k + 4 > targsize then t else overwrite t k q))"
proof -
  have groups: "ntop_groups src t targsize k = Inr (Some src, t, k)" "src \<noteq> []" using assms(2) by auto
  have "array_set (overwrite t k q) (int (k + 4)) 0 = Inr (overwrite t k (q @ [0]))" if "k + 4 < targsize"
    using that assms(3,4) overwrite_snoc [of k q t 0] length_overwrite [of k q t]
    by (simp add: array_set_in del: of_nat_add)
  with groups assms(1) show ?thesis by (simp add: ntop_from_def del: of_nat_add)
qed

lemma ntop_pad_one:
  assumes "x < 128" "targsize \<le> length t"
  shows "ntop_pad [x] t targsize k = (if k + 4 > targsize then Inr (False, t, k)
    else Inr (True, overwrite t k (b64_ref [x]), k + 4))"
proof -
  let ?ds = "[unat x div 4, unat x mod 4 * 16]"
  have d: "[digit0 x, digit1 x 0] = map int ?ds" "digit2 0 0 = 0" "list_all (\<lambda>d. d < 64) ?ds"
    using assms(1) digits_7bit [of x 0 0] digits_less(1) [of x] digits_less(5) [of x] by simp_all
  have "put_digits (map int ?ds) t k = Inr (overwrite t k (map digit_char ?ds), k + 2)"
    if "k + 4 \<le> targsize"
    using put_digits_overwrite [OF d(3), of k t] assms(2) that by simp
  moreover have "array_set (overwrite t k (map digit_char ?ds)) (int (k + 2)) Pad64 =
      Inr (overwrite t k (map digit_char ?ds @ [Pad64]))" if "k + 4 \<le> targsize"
    using store_overwrite [of k "map digit_char ?ds" t Pad64] assms(2) that by simp
  moreover have "array_set (overwrite t k (map digit_char ?ds @ [Pad64])) (int (k + 2 + 1)) Pad64 =
      Inr (overwrite t k ((map digit_char ?ds @ [Pad64]) @ [Pad64]))" if "k + 4 \<le> targsize"
    using store_overwrite [of k "map digit_char ?ds @ [Pad64]" t Pad64] assms(2) that by simp
  moreover have "list_all (\<lambda>d. d < 64) [digit0 x, digit1 x 0, digit2 0 0]"
    using d by (simp add: list_all_iff)
  ultimately show ?thesis
    by (simp add: ntop_pad_def Let_def d del: put_digits.simps list.map of_nat_add)
qed

lemma ntop_pad_two:
  assumes "x < 128" "y < 128" "targsize \<le> length t"
  shows "ntop_pad [x, y] t targsize k = (if k + 4 > targsize then Inr (False, t, k)
    else Inr (True, overwrite t k (b64_ref [x, y]), k + 4))"
proof -
  let ?ds = "[unat x div 4, unat x mod 4 * 16 + unat y div 16]"
  let ?d = "unat y mod 16 * 4"
  have d: "[digit0 x, digit1 x y] = map int ?ds" "digit2 y 0 = int ?d" "list_all (\<lambda>d. d < 64) ?ds" "?d < 64"
    using assms(1,2) digits_7bit [of x y 0] digits_less(1) [of x] digits_less(2) [of x y] digits_less(6) [of y] by simp_all
  have "put_digits (map int ?ds) t k = Inr (overwrite t k (map digit_char ?ds), k + 2)"
    if "k + 4 \<le> targsize"
    using put_digits_overwrite [OF d(3), of k t] assms(3) that by simp
  moreover have "put_digits [int ?d] (overwrite t k (map digit_char ?ds)) (k + 2) =
      Inr (overwrite t k (map digit_char ?ds @ [digit_char ?d]), k + 2 + 1)" if "k + 4 \<le> targsize"
    using put_digits_overwrite [of "[?d]" "k + 2" "overwrite t k (map digit_char ?ds)"] d(4) assms(3) that
      length_overwrite [of k "map digit_char ?ds" t]
      overwrite_overwrite [of k "map digit_char ?ds" "[digit_char ?d]" t]
    by simp
  moreover have "array_set (overwrite t k (map digit_char ?ds @ [digit_char ?d])) (int (k + 2 + 1)) Pad64 =
      Inr (overwrite t k ((map digit_char ?ds @ [digit_char ?d]) @ [Pad64]))" if "k + 4 \<le> targsize"
    using store_overwrite [of k "map digit_char ?ds @ [digit_char ?d]" t Pad64] assms(3) that by simp
  moreover have "list_all (\<lambda>d. d < 64) [digit0 x, digit1 x y, digit2 y 0]"
    using d by (simp add: list_all_iff)
  moreover have "map digit_char [unat x div 4, unat x mod 4 * 16 + unat y div 16, unat y mod 16 * 4] @ [Pad64] =
      map digit_char ?ds @ [digit_char ?d, Pad64]" by simp
  ultimately show ?thesis
    by (simp add: ntop_pad_def Let_def d del: put_digits.simps list.map of_nat_add)
qed

lemma ntop_from_ref:
  "list_all (\<lambda>b. b < 128) bs \<Longrightarrow> targsize \<le> length t \<Longrightarrow>
   (if k + length (b64_ref bs) < targsize
    then ntop_from bs t targsize k = Inr (to_int (k + length (b64_ref bs)), overwrite t k (b64_ref bs @ [0]))
    else \<exists>t'. ntop_from bs t targsize k = Inr (- 1, t') \<and> length t' = length t)"
proof (induction bs arbitrary: t k rule: b64_ref.induct)
  case (1 x y z bs)
  let ?q = "map digit_char [unat x div 4, unat x mod 4 * 16 + unat y div 16,
       unat y mod 16 * 4 + unat z div 64, unat z mod 64]"
  have b: "x < 128" "y < 128" "z < 128" "list_all (\<lambda>b. b < 128) bs" using "1.prems" by simp_all
  note group = ntop_from_group [OF b(1-3) "1.prems"(2), of bs k]
  have ref: "b64_ref (x # y # z # bs) = ?q @ b64_ref bs" by simp
  have len4: "length (b64_ref (x # y # z # bs)) = 4 + length (b64_ref bs)" by simp
  show ?case
  proof (cases "k + 4 > targsize")
    case True
    with group show ?thesis by (simp add: len4 del: b64_ref.simps)
  next
    case False
    have len: "length (overwrite t k ?q) = length t"
      using False "1.prems"(2) by (intro length_overwrite) simp
    have "overwrite (overwrite t k ?q) (k + 4) (b64_ref bs @ [0]) = overwrite t k (b64_ref (x # y # z # bs) @ [0])"
      if "k + 4 + length (b64_ref bs) < targsize"
    proof -
      have *: "k + length ?q + length (b64_ref bs @ [0]) \<le> length t" "k + length ?q = k + 4"
        using that "1.prems"(2) by simp_all
      from overwrite_overwrite [OF *(1)] show ?thesis unfolding *(2) ref append_assoc .
    qed
    with "1.IH" [OF b(4), of "overwrite t k ?q" "k + 4"] "1.prems"(2) len False group
    show ?thesis by (auto simp: len4 add.assoc simp del: b64_ref.simps)
  qed
next
  case (2 x y)
  have b: "x < 128" "y < 128" using "2.prems" by simp_all
  have four: "length (b64_ref [x, y]) = 4" by simp
  show ?case
    using ntop_from_short [OF ntop_pad_two [OF b "2.prems"(2)], of x y] "2.prems"(2) four
      length_overwrite [of k "b64_ref [x, y]" t]
    by (auto simp del: b64_ref.simps)
next
  case (3 x)
  have b: "x < 128" using "3.prems" by simp
  have four: "length (b64_ref [x]) = 4" by simp
  show ?case
    using ntop_from_short [OF ntop_pad_one [OF b "3.prems"(2)], of x] "3.prems"(2) four
      length_overwrite [of k "b64_ref [x]" t]
    by (auto simp del: b64_ref.simps)
next
  case 4
  then show ?case using ntop_from_Nil [of targsize t k] by simp
qed

section \<open>The decoder inverts the reference\<close>

text \<open>The bytes that a digit completes or begins.\<close>

lemma word_join:
  assumes "v < 2 ^ n"
  shows "word_of_int (or (sint (word_of_int (push_bit n a) :: byte)) (int v)) = (word_of_int (push_bit n a + int v) :: byte)"
proof -
  have "int v < 2 ^ n" using assms by simp
  then have "or (push_bit n a) (int v) = push_bit n a + int v"
    using concat_bit_eq [of n "int v" a] by (simp add: concat_bit_def take_bit_int_eq_self or.commute)
  moreover have "word_of_int (or (sint w) b) = or w (word_of_int b)" for w :: byte and b
    by (metis scast_eq scast_id word_wi_log_defs(3))
  ultimately show ?thesis by (simp only: word_wi_log_defs(3))
qed

lemma word_of_byte: "word_of_int (int (unat x)) = (x :: byte)"
  by simp

text \<open>One digit of the text, read in each of the four states.\<close>

definition read_digit ::
  "nat \<Rightarrow> byte list option \<Rightarrow> nat \<Rightarrow> nat \<Rightarrow> nat \<Rightarrow> byte list \<Rightarrow>
   (byte list option + 32 word \<times> byte list \<times> byte list option \<times> nat \<times> nat) res" where
  "read_digit p target targsize tarindex state src =
     andthen (pton_digit p target targsize tarindex state) (\<lambda>r.
       case r of
         Inl target \<Rightarrow> Inr (Inl target)
       | Inr (target, tarindex, state) \<Rightarrow> pton_loop src target targsize tarindex state)"

lemma pton_loop_digit:
  "d < 64 \<Longrightarrow> pton_loop (digit_char d # src) target targsize tarindex state =
    read_digit d target targsize tarindex state src"
  by (simp add: digit_char_facts Let_def read_digit_def)

lemma read_digit_0:
  "k < targsize \<Longrightarrow> targsize \<le> length t \<Longrightarrow>
   read_digit p (Some t) targsize k 0 src =
     pton_loop src (Some (t[k := word_of_int (push_bit 2 (int p))])) targsize k 1"
  by (simp add: read_digit_def pton_digit_def bounds_simps)

lemma read_digit_1:
  assumes "k + 1 < targsize" "targsize \<le> length t" "p div 16 < 4"
  shows "read_digit p (Some (t[k := word_of_int (push_bit 2 a)])) targsize k 1 src =
     pton_loop src (Some (t[k := word_of_int (push_bit 2 a + int (p div 16)),
       k + 1 := word_of_int (push_bit 4 (int (p mod 16)))])) targsize (k + 1) 2"
  using assms word_join [of "p div 16" 2 a]
  by (simp add: read_digit_def pton_digit_def bounds_simps Let_def array_get_def array_set_def in_range_def
      and_masks drop_bit_eq_div zdiv_int zmod_int nat_add_distrib)

lemma read_digit_2:
  assumes "k + 1 < targsize" "targsize \<le> length t" "p div 4 < 16"
  shows "read_digit p (Some (t[k := word_of_int (push_bit 4 a)])) targsize k 2 src =
     pton_loop src (Some (t[k := word_of_int (push_bit 4 a + int (p div 4)),
       k + 1 := word_of_int (push_bit 6 (int (p mod 4)))])) targsize (k + 1) 3"
  using assms word_join [of "p div 4" 4 a]
  by (simp add: read_digit_def pton_digit_def bounds_simps Let_def array_get_def array_set_def in_range_def
      and_masks drop_bit_eq_div zdiv_int zmod_int nat_add_distrib)

lemma read_digit_3:
  assumes "k < targsize" "targsize \<le> length t" "p < 64"
  shows "read_digit p (Some (t[k := word_of_int (push_bit 6 a)])) targsize k 3 src =
     pton_loop src (Some (t[k := word_of_int (push_bit 6 a + int p)])) targsize (k + 1) 0"
  using assms word_join [of p 6 a]
  by (simp add: read_digit_def pton_digit_def bounds_simps Let_def)

text \<open>The bytes behind the digits.\<close>

lemma byte_parts:
  "word_of_int (push_bit 2 (int (unat x div 4)) + int (unat x mod 4)) = (x :: byte)"
  "word_of_int (push_bit 4 (int (unat x div 16)) + int (unat x mod 16)) = (x :: byte)"
  "word_of_int (push_bit 6 (int (unat x div 64)) + int (unat x mod 64)) = (x :: byte)"
proof -
  have *: "push_bit n (int (a div 2 ^ n)) + int (a mod 2 ^ n) = int a" for n a
  proof -
    have "int (a div 2 ^ n * 2 ^ n + a mod 2 ^ n) = int a" by (simp only: div_mult_mod_eq)
    then show ?thesis by (simp only: push_bit_eq_mult of_nat_add of_nat_mult of_nat_power of_nat_numeral)
  qed
  show "word_of_int (push_bit 2 (int (unat x div 4)) + int (unat x mod 4)) = x"
    "word_of_int (push_bit 4 (int (unat x div 16)) + int (unat x mod 16)) = x"
    "word_of_int (push_bit 6 (int (unat x div 64)) + int (unat x mod 64)) = x"
    using * [of 2 "unat x"] * [of 4 "unat x"] * [of 6 "unat x"] by (simp_all del: of_nat_add)
qed

lemma digit_parts:
  "(unat (x :: byte) mod 4 * 16 + unat (y :: byte) div 16) div 16 = unat x mod 4"
  "(unat x mod 4 * 16 + unat y div 16) mod 16 = unat y div 16"
  "(unat y mod 16 * 4 + unat (z :: byte) div 64) div 4 = unat y mod 16"
  "(unat y mod 16 * 4 + unat z div 64) mod 4 = unat z div 64"
  using unat_byte [of y] unat_byte [of z] by auto

lemma pton_first_two:
  assumes "k + 1 < targsize" "targsize \<le> length t"
  shows "pton_loop (digit_char (unat x div 4) # digit_char (unat x mod 4 * 16 + unat (y :: byte) div 16) # src)
      (Some t) targsize k 0 =
    pton_loop src (Some (t[k := x, k + 1 := word_of_int (push_bit 4 (int (unat y div 16)))])) targsize (k + 1) 2"
proof -
  have k: "k < targsize" using assms(1) by simp
  have four: "unat x mod 4 < 4" by simp
  show ?thesis
    unfolding pton_loop_digit [OF digits_less(1)] read_digit_0 [OF k assms(2)]
      pton_loop_digit [OF digits_less(2)]
      read_digit_1 [OF assms, of "unat x mod 4 * 16 + unat y div 16", unfolded digit_parts, OF four]
      byte_parts ..
qed

lemma pton_third:
  assumes "k + 1 < targsize" "targsize \<le> length t"
  shows "pton_loop (digit_char (unat y mod 16 * 4 + unat (z :: byte) div 64) # src)
      (Some (t[k := word_of_int (push_bit 4 (int (unat y div 16)))])) targsize k 2 =
    pton_loop src (Some (t[k := y, k + 1 := word_of_int (push_bit 6 (int (unat z div 64)))])) targsize (k + 1) 3"
proof -
  have "unat y mod 16 < 16" by simp
  show ?thesis
    unfolding pton_loop_digit [OF digits_less(3)]
      read_digit_2 [OF assms, of "unat y mod 16 * 4 + unat z div 64", unfolded digit_parts, OF \<open>unat y mod 16 < 16\<close>]
      byte_parts ..
qed

lemma pton_fourth:
  assumes "k < targsize" "targsize \<le> length t"
  shows "pton_loop (digit_char (unat z mod 64) # src)
      (Some (t[k := word_of_int (push_bit 6 (int (unat z div 64)))])) targsize k 3 =
    pton_loop src (Some (t[k := z])) targsize (k + 1) 0"
  unfolding pton_loop_digit [OF digits_less(4)] read_digit_3 [OF assms digits_less(4)] byte_parts ..

lemma pton_group:
  assumes "k + 2 < targsize" "targsize \<le> length t"
  shows "pton_loop (map digit_char [unat x div 4, unat x mod 4 * 16 + unat y div 16,
       unat y mod 16 * 4 + unat z div 64, unat z mod 64] @ src) (Some t) targsize k 0 =
    pton_loop src (Some (t[k := x, k + 1 := y, k + 2 := z])) targsize (k + 3) 0"
proof -
  have "pton_loop (map digit_char [unat x div 4, unat x mod 4 * 16 + unat y div 16,
       unat y mod 16 * 4 + unat z div 64, unat z mod 64] @ src) (Some t) targsize k 0 =
    pton_loop (digit_char (unat y mod 16 * 4 + unat z div 64) # digit_char (unat z mod 64) # src)
      (Some (t[k := x, k + 1 := word_of_int (push_bit 4 (int (unat y div 16)))])) targsize (k + 1) 2"
    unfolding list.map append_Cons append_Nil by (rule pton_first_two) (use assms in simp_all)
  also have "\<dots> = pton_loop (digit_char (unat z mod 64) # src)
      (Some (t[k := x, k + 1 := y, k + 1 + 1 := word_of_int (push_bit 6 (int (unat z div 64)))])) targsize (k + 1 + 1) 3"
    by (rule pton_third) (use assms in simp_all)
  also have "\<dots> = pton_loop src (Some (t[k := x, k + 1 := y, k + 1 + 1 := z])) targsize (k + 1 + 1 + 1) 0"
    by (rule pton_fourth) (use assms in simp_all)
  finally show ?thesis by (simp only: add.assoc one_add_one numeral_plus_one semiring_norm)
qed

text \<open>The ends of the text: after the last group, one byte, two bytes.\<close>

lemma Pad64_facts: "get_ch Pad64 = ucast Pad64" "get_ch Pad64 \<noteq> 0" "\<not> isspace (get_ch Pad64)" "get_ch 0 = 0"
  by (simp_all add: Pad64_def get_ch_def isspace_def)

definition pton_from :: "byte list \<Rightarrow> byte list \<Rightarrow> nat \<Rightarrow> nat \<Rightarrow> nat \<Rightarrow> (int \<times> byte list option) res" where
  "pton_from src t targsize k state =
     andthen (pton_loop src (Some t) targsize k state) (\<lambda>r.
       case r of
         Inl target \<Rightarrow> Inr (- 1, target)
       | Inr (ch, src, target, tarindex, state) \<Rightarrow>
           andthen (pton_end ch src target tarindex state) (\<lambda>valid.
             if valid then Inr (to_int tarindex, target) else Inr (- 1, target)))"

lemma pton_from_end: "pton_from [0] t targsize k 0 = Inr (to_int k, Some t)"
  by (simp add: pton_from_def Pad64_facts pton_end_def Let_def) (simp add: Pad64_def)

lemma pton_from_pad1:
  "k < length t \<Longrightarrow> t ! k = 0 \<Longrightarrow> pton_from [Pad64, 0] t targsize k 3 = Inr (to_int k, Some t)"
  using Pad64_facts
  by (simp add: pton_from_def pton_end_def pton_last_def next_ch_def Let_def bounds_simps)

lemma pton_from_pad2:
  "k < length t \<Longrightarrow> t ! k = 0 \<Longrightarrow> pton_from [Pad64, Pad64, 0] t targsize k 2 = Inr (to_int k, Some t)"
  using Pad64_facts
  by (simp add: pton_from_def pton_end_def pton_last_def next_ch_def Let_def bounds_simps)

lemma zero_part: "word_of_int (push_bit n (int 0)) = (0 :: byte)"
  by simp

lemma pton_from_ref:
  "k + length bs < targsize \<Longrightarrow> targsize \<le> length t \<Longrightarrow>
   \<exists>t'. pton_from (b64_ref bs @ [0]) t targsize k 0 = Inr (to_int (k + length bs), Some t') \<and>
     take (k + length bs) t' = take k t @ bs \<and> length t' = length t"
proof (induction bs arbitrary: t k rule: b64_ref.induct)
  case (1 x y z bs)
  let ?t = "t[k := x, k + 1 := y, k + 2 := z]"
  have "k + 2 < targsize" using "1.prems"(1) by simp
  then have "pton_from (b64_ref (x # y # z # bs) @ [0]) t targsize k 0 = pton_from (b64_ref bs @ [0]) ?t targsize (k + 3) 0"
    unfolding pton_from_def b64_ref.simps append_assoc
    using pton_group [OF _ "1.prems"(2)] by presburger
  moreover obtain t' where t': "pton_from (b64_ref bs @ [0]) ?t targsize (k + 3) 0 =
      Inr (to_int (k + 3 + length bs), Some t')" "take (k + 3 + length bs) t' = take (k + 3) ?t @ bs"
    "length t' = length ?t"
    using "1.IH" [of "k + 3" ?t] "1.prems" by auto
  moreover have "take (k + 3) ?t = take k t @ [x, y, z]"
    using "1.prems" by (intro nth_equalityI) (auto simp: nth_append nth_list_update nth_Cons' min_def)
  moreover have "k + 3 + length bs = k + length (x # y # z # bs)" by simp
  ultimately show ?case
    by (intro exI [of _ t']) (simp only: append_assoc append_Cons append_Nil length_list_update simp_thms)
next
  case (2 x y)
  let ?t = "t[k := x, k + 1 := y, k + 1 + 1 := 0]"
  have k: "k + 1 < targsize" "k + 1 + 1 < targsize" using "2.prems"(1) by simp_all
  have len: "targsize \<le> length (t[k := x])" using "2.prems"(2) by simp
  have "pton_from (b64_ref [x, y] @ [0]) t targsize k 0 = pton_from [Pad64, 0] ?t targsize (k + 1 + 1) 3"
    unfolding pton_from_def b64_ref.simps list.map append_Cons append_Nil pton_first_two [OF k(1) "2.prems"(2)]
    using pton_third [OF k(2) len, of y 0 "[Pad64, 0]"] by (simp only: unsigned_0 div_0 add_0_right zero_part)
  also have "\<dots> = Inr (to_int (k + 1 + 1), Some ?t)"
    using k "2.prems"(2) by (intro pton_from_pad1) simp_all
  moreover have "take (k + 2) ?t = take k t @ [x, y]"
    using "2.prems" by (intro nth_equalityI) (auto simp: nth_append nth_list_update nth_Cons' min_def)
  ultimately show ?case by simp
next
  case (3 x)
  let ?t = "t[k := x, k + 1 := 0]"
  have k: "k + 1 < targsize" using "3.prems"(1) by simp
  have "pton_from (b64_ref [x] @ [0]) t targsize k 0 = pton_from [Pad64, Pad64, 0] ?t targsize (k + 1) 2"
    unfolding pton_from_def b64_ref.simps list.map append_Cons append_Nil
    using pton_first_two [OF k "3.prems"(2), of x 0 "[Pad64, Pad64, 0]"]
    by (simp only: unsigned_0 div_0 add_0_right zero_part)
  also have "\<dots> = Inr (to_int (k + 1), Some ?t)"
    using k "3.prems"(2) by (intro pton_from_pad2) simp_all
  moreover have "take (k + 1) ?t = take k t @ [x]"
    using "3.prems" by (intro nth_equalityI) (auto simp: nth_append nth_list_update nth_Cons' min_def)
  ultimately show ?case by simp
next
  case 4
  then show ?case using pton_from_end by simp
qed

section \<open>The properties\<close>

lemma to_int_small: "n < 2 ^ 31 \<Longrightarrow> to_int n = int n"
proof -
  assume "n < 2 ^ 31"
  then have "signed_take_bit 31 (int n) = int n" by (intro signed_take_bit_int_eq_self) auto
  then show "to_int n = int n" by (simp add: to_int_def signed_of_nat)
qed

text \<open>
  C21. The decoder inverts the base-64 encoding of RFC 1521 (with \<open>-\<close> as padding) for
  every byte string, bytes of 128 and more included: it returns the number of bytes and
  they are in the target, when that has room for one byte more.
\<close>

theorem pton_inverts_ref:
  assumes "length bs < targsize" and "targsize \<le> length t" and "length bs < 2 ^ 31"
  shows "\<exists>t'. gs_b64_pton (b64_ref bs @ [0]) (Some t) targsize = Inr (int (length bs), Some t') \<and>
    take (length bs) t' = bs \<and> length t' = length t"
  using pton_from_ref [of 0 bs targsize t] assms
  by (simp add: gs_b64_pton_def pton_from_def to_int_small)

theorem pton_inverts_ref_witness:
  "\<exists>t'. gs_b64_pton (b64_ref [255, 0, 128, 7] @ [0]) (Some [1, 1, 1, 1, 1]) 5 = Inr (4, Some t') \<and>
     take 4 t' = [255, 0, 128, 7]"
proof -
  have n: "length [255, 0, 128, 7 :: byte] = 4" "length [1, 1, 1, 1, 1 :: byte] = 5" by simp_all
  show ?thesis
    using pton_inverts_ref [of "[255, 0, 128, 7]" 5 "[1, 1, 1, 1, 1]", unfolded n] by (auto simp del: b64_ref.simps)
qed

text \<open>
  On bytes below 128 the encoder is the encoding of RFC 1521: it returns the length
  and stores the text with its terminator at the start of the target when that has room
  for them, and returns \<open>-1\<close> when it has not. No assertion fails and nothing outside the
  target is written.
\<close>

theorem ntop_7bit:
  assumes "list_all (\<lambda>b. b < 128) bs" and "targsize \<le> length t" and "length (b64_ref bs) < 2 ^ 31"
  shows "if length (b64_ref bs) < targsize
    then gs_b64_ntop bs t targsize = Inr (int (length (b64_ref bs)),
           b64_ref bs @ [0] @ drop (length (b64_ref bs) + 1) t)
    else \<exists>t'. gs_b64_ntop bs t targsize = Inr (- 1, t') \<and> length t' = length t"
  using ntop_from_ref [OF assms(1,2), of 0] assms(3)
  by (simp add: ntop_from_0 overwrite_def to_int_small split: if_splits)

theorem ntop_7bit_witness:
  "gs_b64_ntop [77, 97, 110, 77] (replicate 10 1) 10 =
     Inr (8, [84, 87, 70, 117, 84, 81, 45, 45, 0, 1])"
proof -
  have "b64_ref [77, 97, 110, 77] = [84, 87, 70, 117, 84, 81, 45, 45]"
    by (simp add: digit_char_def Base64_def Pad64_def)
  then show ?thesis
    using ntop_7bit [of "[77, 97, 110, 77]" 10 "replicate 10 1"] by (simp del: b64_ref.simps)
qed

text \<open>
  C15. Text that was encoded from bytes below 128 decodes to the same bytes.
\<close>

theorem base64_roundtrip:
  assumes "list_all (\<lambda>b. b < 128) bs" and "4 * ((length bs + 2) div 3) < targsize" and "targsize < 2 ^ 31"
    and "length t = targsize" and "length u = targsize"
  shows "\<exists>t' u'. gs_b64_ntop bs t targsize = Inr (int (4 * ((length bs + 2) div 3)), t') \<and>
    gs_b64_pton (take (4 * ((length bs + 2) div 3) + 1) t') (Some u) targsize = Inr (int (length bs), Some u') \<and>
    take (length bs) u' = bs"
proof -
  let ?n = "length (b64_ref bs)"
  have n: "?n = 4 * ((length bs + 2) div 3)" by (rule length_b64_ref)
  have "gs_b64_ntop bs t targsize = Inr (int ?n, b64_ref bs @ [0] @ drop (?n + 1) t)"
    using ntop_from_ref [OF assms(1), of targsize t 0] assms(2-4) n
    by (simp add: ntop_from_0 overwrite_def to_int_small)
  moreover have "take (?n + 1) (b64_ref bs @ [0] @ drop (?n + 1) t) = b64_ref bs @ [0]" by simp
  moreover have "length bs \<le> 4 * ((length bs + 2) div 3)" by presburger
  then have "length bs < targsize" using assms(2) by simp
  then have "\<exists>u'. gs_b64_pton (b64_ref bs @ [0]) (Some u) targsize = Inr (int (length bs), Some u') \<and>
      take (length bs) u' = bs"
    using pton_from_ref [of 0 bs targsize u] assms(3,5)
    by (auto simp: gs_b64_pton_def pton_from_def to_int_small)
  ultimately show ?thesis by (auto simp: n)
qed

theorem base64_roundtrip_witness:
  "\<exists>t' u'. gs_b64_ntop [72, 105] [0, 0, 0, 0, 0] 5 = Inr (4, t') \<and>
    gs_b64_pton (take 5 t') (Some [9, 9, 9, 9, 9]) 5 = Inr (2, Some u') \<and> take 2 u' = [72, 105]"
proof -
  have n: "length [72, 105 :: byte] = 2" "length [0, 0, 0, 0, 0 :: byte] = 5" "length [9, 9, 9, 9, 9 :: byte] = 5"
    by simp_all
  show ?thesis
    using base64_roundtrip [of "[72, 105]" 5 "[0, 0, 0, 0, 0]" "[9, 9, 9, 9, 9]", unfolded n] by simp
qed

lemma sint_byte: "- 128 \<le> sint (x :: byte)" "sint x < 128"
  using sint_range_size [of x] by (simp_all add: word_size)

lemma sint_high: "128 \<le> x \<Longrightarrow> sint (x :: byte) < 0"
proof -
  assume "128 \<le> x"
  then have "128 \<le> unat x" by (simp add: word_le_nat_alt)
  then have "unat x div 128 = 1" using unat_byte [of x] by arith
  then have "bit x 7" by (simp add: bit_iff_odd word_arith_nat_div bit_unsigned_iff)
  then show ?thesis by (simp add: sint_uint signed_take_bit_eq_if_negative bit_uint_iff)
qed

text \<open>The assertions of the encoder hold for every byte.\<close>

lemma digits_assert: "digit0 x < 64" "digit1 x y < 64" "digit2 y z < 64" "digit3 z < 64"
proof -
  have "sint z mod 64 < 64" "sint x mod 4 \<le> 3" "sint y mod 16 \<le> 15"
    using pos_mod_bound [of 64 "sint z"] pos_mod_bound [of 4 "sint x"] pos_mod_bound [of 16 "sint y"] by simp_all
  then show "digit0 x < 64" "digit1 x y < 64" "digit2 y z < 64" "digit3 z < 64"
    using sint_byte [of x] sint_byte [of y] sint_byte [of z]
    by (simp_all add: digit0_def digit1_def digit2_def digit3_def drop_bit_eq_div push_bit_eq_mult and_masks)
qed

lemma ntop_shape: "(bs = [] \<Longrightarrow> P) \<Longrightarrow> (\<And>y. bs = [y] \<Longrightarrow> P) \<Longrightarrow> (\<And>y z cs. bs = y # z # cs \<Longrightarrow> P) \<Longrightarrow> P"
  by (cases bs; cases "tl bs") auto

text \<open>
  A byte of 128 or more at the start of a group is negative as a \<open>char\<close>: the
  assertions pass and the encoder reads in front of its alphabet.
\<close>

theorem ntop_high_byte:
  assumes "128 \<le> x" and "4 \<le> targsize"
  shows "gs_b64_ntop (x # bs) t targsize = Inl OutOfBounds"
proof -
  have "digit0 x < 0" using sint_high [OF assms(1)] by (simp add: digit0_def)
  then have out: "put_digits (digit0 x # ds) t k = Inl OutOfBounds" for ds t k
    by (simp add: array_get_def in_range_def)
  have "ntop_groups (x # bs) t targsize 0 = Inl OutOfBounds \<or>
    ntop_groups (x # bs) t targsize 0 = Inr (Some (x # bs), t, 0)"
    using assms(2) digits_assert out by (cases bs rule: ntop_shape) (simp_all add: Let_def del: put_digits.simps)
  moreover have "ntop_pad (x # bs) t targsize 0 = Inl OutOfBounds"
    using assms(2) digits_assert out by (simp add: ntop_pad_def Let_def del: put_digits.simps)
  ultimately show ?thesis by (auto simp: gs_b64_ntop_def)
qed

theorem ntop_high_byte_witness: "gs_b64_ntop [195, 169] (replicate 8 0) 8 = Inl OutOfBounds"
  using ntop_high_byte [of 195 8 "[169]" "replicate 8 0"] by simp

end
