(* ===== verification/Idl.thy ===== *)
theory Idl
  imports Prelude
begin

text \<open>
  The interface description that the stub generators work on: the data types of
  \<open>trunk/compss/programming_model/bindings/bindings-common/src/param_metadata.h\<close> and the
  semantic actions of the parser, \<open>semantic.c\<close> of \<open>bindings/c/src/gsstubgen\<close> (the copy in
  \<open>compssgen\<close> is the same file).

  A linked list is a list; the pointers to the current function, argument and constraint are
  to the last elements of their lists, and null when these are empty, since every action
  that starts a list resets the pointer and every other one appends. A field that an action
  leaves as \<open>malloc\<close> gave it is \<open>None\<close> until it is set. Messages on the standard streams
  are left out; the flag they raise is kept.
\<close>

section \<open>Types\<close>

datatype dtype =
  boolean_dt | char_dt | byte_dt | short_dt | int_dt | long_dt | float_dt | double_dt |
  string_dt | file_dt | object_dt | psco_dt | external_psco_dt |
  wchar_dt | wstring_dt | longlong_dt | void_dt | any_dt | null_dt

datatype direction = in_dir | out_dir | inout_dir | null_dir

definition dtypes :: "dtype list" where
  "dtypes = [boolean_dt, char_dt, byte_dt, short_dt, int_dt, long_dt, float_dt, double_dt,
     string_dt, file_dt, object_dt, psco_dt, external_psco_dt,
     wchar_dt, wstring_dt, longlong_dt, void_dt, any_dt, null_dt]"

definition directions :: "direction list" where
  "directions = [in_dir, out_dir, inout_dir, null_dir]"

text \<open>The value of an enumerator is its place in the enumeration.\<close>

definition dt_code :: "dtype \<Rightarrow> nat" where
  "dt_code t = the (first_index (\<lambda>u. u = t) dtypes)"

definition dir_code :: "direction \<Rightarrow> nat" where
  "dir_code d = the (first_index (\<lambda>e. e = d) directions)"

instantiation dtype :: linorder
begin

definition less_eq_dtype :: "dtype \<Rightarrow> dtype \<Rightarrow> bool" where
  "less_eq_dtype t u \<longleftrightarrow> dt_code t \<le> dt_code u"

definition less_dtype :: "dtype \<Rightarrow> dtype \<Rightarrow> bool" where
  "less_dtype t u \<longleftrightarrow> dt_code t < dt_code u"

instance
proof
  fix t u v :: dtype
  show "t < u \<longleftrightarrow> t \<le> u \<and> \<not> u \<le> t" by (auto simp: less_eq_dtype_def less_dtype_def)
  show "t \<le> t" by (simp add: less_eq_dtype_def)
  show "t \<le> u \<or> u \<le> t" by (auto simp: less_eq_dtype_def)
  show "t \<le> u \<Longrightarrow> u \<le> v \<Longrightarrow> t \<le> v" by (simp add: less_eq_dtype_def)
  show "t \<le> u \<Longrightarrow> u \<le> t \<Longrightarrow> t = u"
    by (cases t; cases u) (simp_all add: less_eq_dtype_def dt_code_def dtypes_def)
qed

end

record argument =
  arg_name :: string
  arg_classname :: "string option"
  arg_type :: dtype
  arg_dir :: direction

text \<open>
  \<open>fn_classname\<close> is null (\<open>None\<close>) for a function that is no method;
  \<open>first_constraint\<close> is \<open>None\<close> while the pointer is uninitialised.
\<close>

record function_t =
  fn_name :: string
  access_static :: "int option"
  methodname :: string
  fn_classname :: "string option"
  return_typename :: "string option"
  return_type :: dtype
  arguments :: "argument list"
  argument_count :: int
  exec_arg_count :: int
  first_constraint :: "string list option"

record interface_t =
  if_name :: string
  if_functions :: "function_t list"

section \<open>The state of the parser\<close>

record parser =
  main_interface :: "interface_t option"
  has_errors :: bool
  function_count :: int
  current_function_name :: "string option"
  parsing_args :: bool
  idl_filename :: "string option"

definition initial_parser :: parser where
  "initial_parser = \<lparr>main_interface = None, has_errors = False, function_count = 0,
     current_function_name = None, parsing_args = False, idl_filename = None\<rparr>"

text \<open>Following \<open>main_interface\<close> and \<open>current_function\<close>.\<close>

definition the_interface :: "parser \<Rightarrow> stop \<Rightarrow> interface_t res" where
  "the_interface p e = (case main_interface p of None \<Rightarrow> Inl e | Some i \<Rightarrow> Inr i)"

definition current_function :: "parser \<Rightarrow> stop \<Rightarrow> function_t res" where
  "current_function p e =
     andthen (the_interface p e) (\<lambda>i. if if_functions i = [] then Inl e else Inr (last (if_functions i)))"

definition set_function :: "(function_t \<Rightarrow> function_t) \<Rightarrow> parser \<Rightarrow> parser" where
  "set_function f p =
     p\<lparr>main_interface := map_option
        (\<lambda>i. i\<lparr>if_functions := butlast (if_functions i) @ [f (last (if_functions i))]\<rparr>) (main_interface p)\<rparr>"

definition exists_function :: "parser \<Rightarrow> string \<Rightarrow> bool res" where
  "exists_function p name =
     andthen (the_interface p AssertFailed) (\<lambda>i. Inr (\<exists>f \<in> set (if_functions i). fn_name f = name))"

definition exists_argument :: "parser \<Rightarrow> string \<Rightarrow> bool res" where
  "exists_argument p name =
     andthen (current_function p AssertFailed) (\<lambda>f. Inr (\<exists>a \<in> set (arguments f). arg_name a = name))"

definition begin_interface :: "string \<Rightarrow> parser \<Rightarrow> parser res" where
  "begin_interface interface_name p =
     Inr (p\<lparr>has_errors := (has_errors p \<or> main_interface p \<noteq> None),
            main_interface := Some \<lparr>if_name = interface_name, if_functions = []\<rparr>\<rparr>)"

definition end_interface :: "parser \<Rightarrow> parser res" where
  "end_interface p = Inr p"

text \<open>
  The class and the method of a qualified name: the name is cut behind its last colon, and
  the class ends two characters before that (\<open>strrchr\<close>, then \<open>*p\<close> set to the terminator
  two places further back; a colon at the very start would make that a place before the
  string).
\<close>

definition last_colon :: "string \<Rightarrow> nat option" where
  "last_colon s = map_option (\<lambda>i. length s - Suc i) (first_index (\<lambda>c. c = CHR '':'') (rev s))"

definition split_name :: "string \<Rightarrow> (string option \<times> string) res" where
  "split_name s =
     (case last_colon s of
        None \<Rightarrow> Inr (None, s)
      | Some i \<Rightarrow> if i = 0 then Inl OutOfBounds else Inr (Some (take (i - 1) s), drop (Suc i) s))"

definition begin_function :: "string \<Rightarrow> parser \<Rightarrow> parser res" where
  "begin_function fn p =
     andthen (exists_function p fn) (\<lambda>dup.
     andthen (split_name fn) (\<lambda>(cls, meth).
       let new_function = \<lparr>fn_name = fn, access_static = None, methodname = meth,
             fn_classname = cls, return_typename = None, return_type = null_dt, arguments = [],
             argument_count = 0, exec_arg_count = 0, first_constraint = None\<rparr>
       in Inr (p\<lparr>has_errors := (has_errors p \<or> dup),
                 main_interface := map_option (\<lambda>i. i\<lparr>if_functions := if_functions i @ [new_function]\<rparr>)
                   (main_interface p),
                 function_count := function_count p + 1, current_function_name := Some fn\<rparr>)))"

definition add_static :: "int \<Rightarrow> parser \<Rightarrow> parser res" where
  "add_static val p =
     andthen (current_function p NullPointer) (\<lambda>f.
       Inr (set_function (\<lambda>f. f\<lparr>access_static := Some val\<rparr>) p))"

definition add_return_type :: "dtype \<Rightarrow> string \<Rightarrow> parser \<Rightarrow> parser res" where
  "add_return_type t tn p =
     andthen (current_function p AssertFailed) (\<lambda>f.
     andthen (guard (return_type f = null_dt) AssertFailed) (\<lambda>_.
       Inr (set_function (\<lambda>f. f\<lparr>return_type := t, return_typename := Some tn\<rparr>) p)))"

definition end_function :: "parser \<Rightarrow> parser res" where
  "end_function p =
     andthen (current_function p AssertFailed) (\<lambda>f. Inr (p\<lparr>current_function_name := None\<rparr>))"

text \<open>The class name an argument gets; for the other types the field is not set.\<close>

fun argument_classname :: "dtype \<Rightarrow> string \<Rightarrow> string option" where
  "argument_classname char_dt c = Some ''char''"
| "argument_classname wchar_dt c = Some ''char''"
| "argument_classname boolean_dt c = Some ''int''"
| "argument_classname short_dt c = Some ''short''"
| "argument_classname long_dt c = Some ''long''"
| "argument_classname longlong_dt c = Some ''long long''"
| "argument_classname int_dt c = Some ''int''"
| "argument_classname float_dt c = Some ''float''"
| "argument_classname double_dt c = Some ''double''"
| "argument_classname object_dt c = Some c"
| "argument_classname string_dt c = Some ''string''"
| "argument_classname wstring_dt c = Some ''string''"
| "argument_classname file_dt c = Some ''File''"
| "argument_classname _ c = None"

definition dir_weight :: "direction \<Rightarrow> int" where
  "dir_weight d = (case d of in_dir \<Rightarrow> 1 | out_dir \<Rightarrow> 1 | inout_dir \<Rightarrow> 2 | null_dir \<Rightarrow> 0)"

definition add_argument :: "direction \<Rightarrow> dtype \<Rightarrow> string \<Rightarrow> string \<Rightarrow> parser \<Rightarrow> parser res" where
  "add_argument dir dt cls name p =
     andthen (current_function p AssertFailed) (\<lambda>f.
     andthen (exists_argument p name) (\<lambda>dup.
       if dup then Inr (p\<lparr>has_errors := True\<rparr>)
       else if dt = void_dt then Inr (p\<lparr>has_errors := True\<rparr>)
       else
         let new_argument = \<lparr>arg_name = name, arg_classname = argument_classname dt cls,
               arg_type = dt, arg_dir = dir\<rparr>
         in Inr (set_function (\<lambda>f. f\<lparr>arguments := arguments f @ [new_argument],
              argument_count := argument_count f + 1,
              exec_arg_count := exec_arg_count f + dir_weight dir\<rparr>) p)))"

definition can_generate :: "parser \<Rightarrow> bool" where
  "can_generate p \<longleftrightarrow> \<not> has_errors p"

definition get_first_function :: "parser \<Rightarrow> function_t list res" where
  "get_first_function p = andthen (the_interface p AssertFailed) (\<lambda>i. Inr (if_functions i))"

definition begin_arguments :: "parser \<Rightarrow> parser res" where
  "begin_arguments p = Inr (p\<lparr>parsing_args := True\<rparr>)"

definition end_arguments :: "parser \<Rightarrow> parser res" where
  "end_arguments p = Inr (p\<lparr>parsing_args := False\<rparr>)"

text \<open>The message of \<open>add_constraint\<close> follows \<open>current_function\<close> before the assertion.\<close>

definition add_constraint :: "string \<Rightarrow> parser \<Rightarrow> parser res" where
  "add_constraint constr p =
     andthen (current_function p NullPointer) (\<lambda>f.
       Inr (set_function (\<lambda>f. f\<lparr>first_constraint :=
         Some (case first_constraint f of None \<Rightarrow> [constr] | Some cs \<Rightarrow> cs @ [constr])\<rparr>) p))"

definition get_next_argnum :: "parser \<Rightarrow> int res" where
  "get_next_argnum p = andthen (current_function p NullPointer) (\<lambda>f. Inr (argument_count f + 1))"

definition set_serious_error :: "parser \<Rightarrow> parser" where
  "set_serious_error p = p\<lparr>has_errors := True\<rparr>"

definition set_filename :: "string \<Rightarrow> parser \<Rightarrow> parser" where
  "set_filename fn p = p\<lparr>idl_filename := Some fn\<rparr>"

text \<open>
  The error action of \<open>corba-gram.y\<close>. Its test \<open>if (began_arguments)\<close> is of the function's
  address, so inside a function the number of the next argument is always asked for.
\<close>

definition yyerror :: "parser \<Rightarrow> parser res" where
  "yyerror p =
     andthen (case current_function_name p of
                None \<Rightarrow> Inr 0
              | Some n \<Rightarrow> get_next_argnum p) (\<lambda>_. Inr (set_serious_error p))"

section \<open>The actions of the grammar\<close>

text \<open>
  What the rules of \<open>corba-gram.y\<close> reduce: an interface with its prototypes, each with its
  arguments and its constraints, and the actions they run, in the order of the rules.
\<close>

datatype idl_argument = IdlArg direction dtype string string

datatype idl_return = ReturnType dtype | ReturnObject string | ReturnStaticObject string

record idl_prototype =
  proto_return :: idl_return
  proto_name :: string
  proto_args :: "idl_argument list"
  proto_constraints :: "string list"

type_synonym action = "parser \<Rightarrow> parser res"

fun run :: "action list \<Rightarrow> parser \<Rightarrow> parser res" where
  "run [] p = Inr p"
| "run (a # as) p = andthen (a p) (run as)"

fun argument_action :: "idl_argument \<Rightarrow> action" where
  "argument_action (IdlArg dir t cls name) = add_argument dir t cls name"

fun return_actions :: "idl_return \<Rightarrow> action list" where
  "return_actions (ReturnType t) = [add_static 0, add_return_type t '''']"
| "return_actions (ReturnObject c) = [add_static 0, add_return_type object_dt c]"
| "return_actions (ReturnStaticObject c) = [add_static 1, add_return_type object_dt c]"

definition prototype_actions :: "idl_prototype \<Rightarrow> action list" where
  "prototype_actions q =
     [begin_function (proto_name q)] @ return_actions (proto_return q) @ [begin_arguments] @
     map argument_action (proto_args q) @ [end_arguments, end_function] @
     map add_constraint (proto_constraints q)"

definition interface_actions :: "string \<Rightarrow> idl_prototype list \<Rightarrow> action list" where
  "interface_actions name qs =
     [begin_interface name] @ concat (map prototype_actions qs) @ [end_interface]"

end
