(* ===== verification/Emit.thy ===== *)
theory Emit
  imports Idl
begin

text \<open>
  Generated text. The generators write their files with \<open>fprintf\<close>; a file under
  construction is the list of the calls, each with its format, written as in the source, and
  its arguments. The text is what the calls print.

  Inside a format a backslash of the C literal is written as a caret, since an Isabelle
  string has no backslash, and an escaped quote is a plain one. An argument of \<open>%s\<close> that is
  a null or uninitialised pointer, or that was read outside a table, carries the way the run
  ends when it is printed.
\<close>

datatype fmt_arg = Str "string res" | Num int | Chr char

type_synonym emission = "string \<times> fmt_arg list"

definition escaped :: "char \<Rightarrow> char" where
  "escaped c = (if c = CHR ''n'' then CHR 0x0A else if c = CHR ''t'' then CHR 0x09 else
     if c = CHR ''^'' then CHR 0x5C else c)"

fun digits_of :: "nat \<Rightarrow> string" where
  "digits_of n = (if n < 10 then [char_of (48 + n)] else digits_of (n div 10) @ [char_of (48 + n mod 10)])"

declare digits_of.simps [simp del]

definition decimal :: "int \<Rightarrow> string" where
  "decimal i = (if i < 0 then CHR ''-'' # digits_of (nat (- i)) else digits_of (nat i))"

definition show_arg :: "char \<Rightarrow> fmt_arg \<Rightarrow> string res" where
  "show_arg d a =
     (case a of
        Str s \<Rightarrow> if d = CHR ''s'' then s else Inl Uninitialised
      | Num i \<Rightarrow> if d = CHR ''d'' \<or> d = CHR ''i'' then Inr (decimal i) else Inl Uninitialised
      | Chr c \<Rightarrow> if d = CHR ''c'' then Inr [c] else Inl Uninitialised)"

fun expand :: "string \<Rightarrow> fmt_arg list \<Rightarrow> string res" where
  "expand [] as = Inr []"
| "expand [c] as = Inr [c]"
| "expand (c # d # cs) as =
     (if c = CHR ''^'' then andthen (expand cs as) (\<lambda>t. Inr (escaped d # t))
      else if c = CHR ''%'' then
        if d = CHR ''%'' then andthen (expand cs as) (\<lambda>t. Inr (d # t))
        else (case as of
                [] \<Rightarrow> Inl Uninitialised
              | a # as \<Rightarrow> andthen (show_arg d a) (\<lambda>s. andthen (expand cs as) (\<lambda>t. Inr (s @ t))))
      else andthen (expand (d # cs) as) (\<lambda>t. Inr (c # t)))"

fun render :: "emission list \<Rightarrow> string res" where
  "render [] = Inr []"
| "render ((fmt, as) # es) =
     andthen (expand fmt as) (\<lambda>s. andthen (render es) (\<lambda>t. Inr (s @ t)))"

lemma render_append: "render (es @ fs) = andthen (render es) (\<lambda>s. andthen (render fs) (\<lambda>t. Inr (s @ t)))"
proof (induction es)
  case Nil
  show ?case by (cases "render fs") simp_all
next
  case (Cons e es)
  obtain fmt as where "e = (fmt, as)" by (cases e)
  with Cons show ?case
    by (cases "expand fmt as"; cases "render es"; cases "render fs") simp_all
qed

section \<open>Printing the parts of a function\<close>

definition name_of :: "argument \<Rightarrow> fmt_arg" where
  "name_of a = Str (Inr (arg_name a))"

definition pointer_text :: "stop \<Rightarrow> string option \<Rightarrow> fmt_arg" where
  "pointer_text e s = Str (case s of None \<Rightarrow> Inl e | Some t \<Rightarrow> Inr t)"

definition class_of :: "argument \<Rightarrow> fmt_arg" where
  "class_of a = pointer_text Uninitialised (arg_classname a)"

definition type_arg :: "dtype \<Rightarrow> fmt_arg" where
  "type_arg t = Num (int (dt_code t))"

definition dir_arg :: "direction \<Rightarrow> fmt_arg" where
  "dir_arg d = Num (int (dir_code d))"

definition text_of :: "string \<Rightarrow> fmt_arg" where
  "text_of s = Str (Inr s)"

definition fn_class :: "function_t \<Rightarrow> fmt_arg" where
  "fn_class f = pointer_text NullPointer (fn_classname f)"

definition fn_return :: "function_t \<Rightarrow> fmt_arg" where
  "fn_return f = pointer_text Uninitialised (return_typename f)"

definition table_text :: "string list \<Rightarrow> dtype \<Rightarrow> fmt_arg" where
  "table_text table t = Str (array_get table (int (dt_code t)))"

text \<open>
  \<open>func->classname != NULL && func->access_static == 0\<close>: a method that needs an object.
  The parser sets \<open>access_static\<close> for every function.
\<close>

definition is_method :: "function_t \<Rightarrow> bool" where
  "is_method f \<longleftrightarrow> fn_classname f \<noteq> None \<and> access_static f = Some 0"

text \<open>Emissions for each element of a list, with a separator between two.\<close>

fun separated :: "emission \<Rightarrow> ('a \<Rightarrow> emission list) \<Rightarrow> 'a list \<Rightarrow> emission list" where
  "separated sep g [] = []"
| "separated sep g [x] = g x"
| "separated sep g (x # y # xs) = g x @ [sep] @ separated sep g (y # xs)"

end
