(* ===== verification/Backendlib.thy ===== *)
theory Backendlib
  imports Idl
begin

text \<open>
  The file names of the generators and the backups they make:
  \<open>trunk/compss/programming_model/bindings/c/src/gsstubgen/backendlib.c\<close> (the copy in
  \<open>compssgen\<close> is the same file).

  The file system is the map from the names of the files to their texts. Which files can be
  opened for writing is an argument. A name is copied into a buffer of \<open>PATH_MAX\<close> bytes; the
  calls of \<open>strncat\<close> give the size of the buffer as the limit, so a name that does not fit
  with its suffix is written past the end.
\<close>

type_synonym files = "string \<rightharpoonup> string"

definition PATH_MAX :: nat where
  "PATH_MAX = 4096"

fun replace_char :: "string \<Rightarrow> char \<Rightarrow> char \<Rightarrow> string" where
  "replace_char [] old new = []"
| "replace_char (c # s) old new =
     (if c = old then new else c) # replace_char s old new"

text \<open>\<open>strncpy\<close> and \<open>strncat\<close> into a buffer of \<open>PATH_MAX\<close> bytes.\<close>

definition copy_append :: "string \<Rightarrow> string \<Rightarrow> string res" where
  "copy_append s suffix =
     (if length s + length suffix < PATH_MAX then Inr (s @ suffix) else Inl OutOfBounds)"

definition rename_if_clash :: "bool \<Rightarrow> string \<Rightarrow> files \<Rightarrow> files res" where
  "rename_if_clash do_backups origin fs =
     (case fs origin of
        Some text \<Rightarrow>
          if do_backups
          then andthen (copy_append origin ''~'') (\<lambda>dest. Inr ((fs(dest \<mapsto> text))(origin := None)))
          else Inr fs
      | None \<Rightarrow> Inr fs)"

text \<open>Opening for writing: the name of the file that is written, if it can be opened.\<close>

definition open_write :: "(string \<Rightarrow> bool) \<Rightarrow> string \<Rightarrow> files \<Rightarrow> files option" where
  "open_write can_write name fs = (if can_write name then Some (fs(name \<mapsto> [])) else None)"

definition create_without_overwrite ::
  "bool \<Rightarrow> (string \<Rightarrow> bool) \<Rightarrow> string \<Rightarrow> files \<Rightarrow> (string \<times> files) option" where
  "create_without_overwrite do_backups can_write origin fs =
     (let target = (if do_backups \<and> fs origin \<noteq> None then ''/dev/null'' else origin)
      in map_option (Pair target) (open_write can_write target fs))"

definition get_filename_base :: "string option \<Rightarrow> string res" where
  "get_filename_base filename =
     (case filename of
        None \<Rightarrow> Inl NullPointer
      | Some fn \<Rightarrow>
          (case first_index (\<lambda>c. c = CHR ''.'') (rev fn) of
             None \<Rightarrow> Inl NullPointer
           | Some i \<Rightarrow>
               let n = length fn - Suc i in if n < PATH_MAX then Inr (take n fn) else Inl OutOfBounds))"

end
