(* ===== verification/StubGen.thy ===== *)
theory StubGen
  imports Emit Backendlib
begin

text \<open>
  The stub generator of the C binding:
  \<open>trunk/compss/programming_model/bindings/c/src/gsstubgen/c-backend.c\<close>. Each function
  gives the calls of \<open>fprintf\<close> it makes, in order; a loop over the arguments or the
  functions is a \<open>concat\<close> of what its turns print.
\<close>

section \<open>Tables\<close>

definition c_types :: "string list" where
  "c_types = [''int'', ''char'', ''unsigned char'', ''short'', ''int'', ''long'', ''float'', ''double'', ''char *'', ''file'', ''void *'', ''void *'', ''void *'', ''char'', ''char *'', ''long long'', ''void'', ''void'', ''error'']"

definition c_out_types :: "string list" where
  "c_out_types = [''int'', ''char'', ''unsigned char'', ''short'', ''int'', ''long'', ''float'', ''double'', ''char *'', ''file'', ''void *'', ''void *'', ''void *'', ''char'', ''char *'', ''long long'', ''void'', ''void'', ''error'']"

text \<open>The types that the switches treat as one group.\<close>

definition scalar_dts :: "dtype list" where
  "scalar_dts = [char_dt, wchar_dt, boolean_dt, short_dt, long_dt, longlong_dt, int_dt, float_dt, double_dt]"

definition upper_or_underscore :: "string \<Rightarrow> emission list" where
  "upper_or_underscore name =
     map (\<lambda>c. let n = of_char c :: nat in
       if 97 \<le> n \<and> n \<le> 122 then (''%c'', [Chr (char_of (n - 32))])
       else if 65 \<le> n \<and> n \<le> 90 \<or> 48 \<le> n \<and> n \<le> 57 then (''%c'', [Chr c])
       else (''_'', [])) name"

section \<open>The prologue\<close>

definition stubs_prolog :: "string \<Rightarrow> string \<Rightarrow> emission list" where
  \<open>stubs_prolog filename includeName =
    [(''/* This file has been autogenerated from '%s'. */^n'', [text_of filename]),
      (''/* CHANGES TO THIS FILE WILL BE LOST */^n'', []),
      (''^n'', []),
      (''#include <stdio.h>^n'', []),
      (''#include <stdlib.h>^n'', []),
      (''#include <limits.h>^n'', []),
      (''#include <string.h>^n'', []),
      (''#include <fstream>^n'', []),
      (''#include <jni.h>^n'', []),
      (''#include <boost/archive/text_iarchive.hpp>^n'', []),
      (''#include <boost/archive/text_oarchive.hpp>^n'', []),
      (''#include <GS_compss.h>^n'', []),
      (''#include <param_metadata.h>^n'', []),
      (''#include "%s"^n'', [text_of includeName]),
      (''^n'', []),
      (''using namespace std;^n'', []),
      (''using namespace boost;^n'', []),
      (''^n'', [])]\<close>

definition worker_prolog :: "string \<Rightarrow> string \<Rightarrow> emission list" where
  \<open>worker_prolog filename includeName =
    [(''/* This file has been autogenerated from '%s'. */^n'', [text_of filename]),
      (''/* CHANGES TO THIS FILE WILL BE LOST */^n'', []),
      (''^n'', []),
      (''#include <stdio.h>^n'', []),
      (''#include <stdlib.h>^n'', []),
      (''#include <limits.h>^n'', []),
      (''#include <string.h>^n'', []),
      (''#include <fstream>^n'', []),
      (''#include <boost/archive/text_iarchive.hpp>^n'', []),
      (''#include <boost/archive/text_oarchive.hpp>^n'', []),
      (''#include "%s"^n'', [text_of includeName]),
      (''^n'', []),
      (''using namespace std;^n'', []),
      (''^n'', []),
      (''int main(int argc, char **argv) {^n'', []),
      (''^n'', []),
      (''^tprintf("^^n");^n'', []),
      (''^tprintf("----------------- C WORKER -----------------^^n");^n'', []),
      (''^tprintf("Total number of parameters: %%d^^n", argc);^n'', []),
      (''^tif (argc < MIN_NUM_INTERNAL_ARGS) {^n'', []),
      (''^t^tprintf("ERROR: Incorrect number of COMPSs internal parameters^^n");^n'', []),
      (''^t^tprintf("Aborting...^^n");^n'', []),
      (''^t^treturn -1;^n'', []),
      (''^t}^n'', []),
      (''^n'', []),
      (''^tprintf("Executable: %%s^^n", argv[0]);^n'', []),
      (''^tprintf("Tracing: %%s^^n", argv[1]);^n'', []),
      (''^tprintf("Task Id: %%s^^n", argv[2]);^n'', []),
      (''^tprintf("Worker Debug: %%s^^n", argv[3]);^n'', []),
      (''^tprintf("StorageConf: %%s^^n", argv[4]);^n'', []),
      (''^tprintf("MethodType: %%s^^n", argv[5]);^n'', []),
      (''^tprintf("ClassName: %%s^^n", argv[6]);^n'', []),
      (''^tprintf("MethodName: %%s^^n", argv[7]);^n'', []),
      (''^tprintf("NumSlaves: %%s^^n", argv[8]);^n'', []),
      (''^tint numSlaves=atoi(argv[8]);^n'', []),
      (''^tfor(int i = 0; i < numSlaves; ++i) {^n'', []),
      (''^t^tprintf("Slave %%d has name %%s^^n", i, argv[NUM_BASE_ARGS + i]);^n'', []),
      (''^t}^n'', []),
      (''^tint NUM_INTERNAL_ARGS=NUM_BASE_ARGS + numSlaves;^n'', []),
      (''^tprintf("NumComputingUnits: %%s^^n", argv[NUM_INTERNAL_ARGS++]);^n'', []),
      (''^tprintf("HasTarget: %%s^^n", argv[NUM_INTERNAL_ARGS++]);^n'', []),
      (''^tprintf("ReturnType: %%s^^n", argv[NUM_INTERNAL_ARGS++]);^n'', []),
      (''^tprintf("Num App Params: %%s^^n", argv[NUM_INTERNAL_ARGS++]);^n'', []),
      (''^tprintf("Application Arguments:^^n");^n'', []),
      (''^tfor(int i = NUM_INTERNAL_ARGS; i < argc; i++)^n'', []),
      (''^t^tprintf("^^t%%s^^n",argv[i]);^n'', []),
      (''^n'', []),
      (''^tenum operationCode opCod;^n'', []),
      (''^tchar *opName;^n'', []),
      (''^topName = strdup(argv[METHOD_NAME_POS]);^n'', []),
      (''^tprintf("OpName: %%s^^n", opName);^n'', []),
      (''^n'', []),
      (''^tfor(int i=0; i < N_OPS; i++) {^n'', []),
      (''^t^tif(strcmp(operationName[i], opName) == 0) {^n'', []),
      (''^t^t^topCod=(enum operationCode)i;^n'', []),
      (''^t^t^tbreak;^n'', []),
      (''^t^t}^n'', []),
      (''^t}^n'', []),
      (''^tprintf("OpCode: %%d^^n", (int)opCod);^n'', []),
      (''^n'', []),
      (''^tprintf("--------------------------------------------^^n");^n'', []),
      (''^tprintf("^^n");^n'', []),
      (''^tint arg_offset = NUM_INTERNAL_ARGS;^n'', []),
      (''^tswitch(opCod)^n'', []),
      (''^t {^n'', [])]\<close>

definition include_prolog :: "string \<Rightarrow> string \<Rightarrow> emission list" where
  \<open>include_prolog filename includeName =
    [(''/* This file must be #included in the actual implementation file. */^n'', []),
      (''/* This file has been autogenerated from '%s'. */^n'', [text_of filename]),
      (''/* CHANGES TO THIS FILE WILL BE LOST */^n'', []),
      (''^n'', []),
      (''#ifndef _GSS_'', [])] @
    upper_or_underscore includeName @
    [(''^n'', []),
      (''#define _GSS_'', [])] @
    upper_or_underscore includeName @
    [(''^n'', []),
      (''#include <GS_compss.h>^n'', []),
      (''#include <GS_templates.h>^n'', []),
      (''#include <param_metadata.h>^n'', []),
      (''^n'', []),
      (''typedef char* file;^n'', []),
      (''^n'', [])]\<close>

record outputs =
  stubsFile :: "emission list"
  workerFile :: "emission list"
  includeFile :: "emission list"
  const_file :: "emission list"

text \<open>One output file: its name, the backup of an older one, and opening it.\<close>

definition open_output ::
  "bool \<Rightarrow> (string \<Rightarrow> bool) \<Rightarrow> string \<Rightarrow> string \<Rightarrow> files \<Rightarrow> (string \<times> files) res" where
  "open_output do_backups can_write base suffix fs =
     andthen (copy_append base suffix) (\<lambda>name.
     andthen (rename_if_clash do_backups name fs) (\<lambda>fs.
       case open_write can_write name fs of None \<Rightarrow> Inl (Exit 1) | Some fs \<Rightarrow> Inr (name, fs)))"

definition generate_prolog ::
  "bool \<Rightarrow> (string \<Rightarrow> bool) \<Rightarrow> string option \<Rightarrow> files \<Rightarrow> (outputs \<times> string \<times> files) res" where
  "generate_prolog do_backups can_write filename fs =
     andthen (get_filename_base filename) (\<lambda>base.
     andthen (open_output do_backups can_write base ''-stubs.cc'' fs) (\<lambda>(n1, fs).
     andthen (open_output do_backups can_write base ''-worker.cc'' fs) (\<lambda>(n2, fs).
     andthen (open_output do_backups can_write base ''.h'' fs) (\<lambda>(includeName, fs).
     andthen (open_output do_backups can_write base ''-constraints'' fs) (\<lambda>(n4, fs).
       Inr (\<lparr>stubsFile = stubs_prolog (the filename) includeName,
             workerFile = worker_prolog (the filename) includeName,
             includeFile = include_prolog (the filename) includeName,
             const_file = []\<rparr>, includeName, fs))))))"

section \<open>The parts of a stub\<close>

text \<open>A function without constraints has an uninitialised pointer to them.\<close>

definition generate_constraints :: "function_t \<Rightarrow> emission list res" where
  \<open>generate_constraints f =
     (case first_constraint f of
        None \<Rightarrow> Inl Uninitialised
      | Some cs \<Rightarrow> Inr (separated ('', '', []) (\<lambda>c. [(''%s'', [text_of c])]) cs @ [(''^n'', [])]))\<close>

definition generate_enum :: "function_t list \<Rightarrow> emission list" where
  \<open>generate_enum fs =
     [(''enum operationCode {'', [])] @
     separated ('', '', [])
       (\<lambda>f. let func_name = replace_char (fn_name f) CHR '':'' CHR ''_'' in [(''%sOp'', [text_of func_name])]) fs @
     [(''};^n'', []),
      (''static const char *operationName[] = {'', [])] @
     separated ('', '', []) (\<lambda>f. [(''"%s"'', [text_of (fn_name f)])]) fs @
     [(''};^n'', []),
      (''static const int N_OPS=%d;^n'', [Num (int (length fs))]),
      (''static const int NUM_BASE_ARGS = 9;^n'', []),
      (''static const int MIN_NUM_INTERNAL_ARGS = 13;^n'', []),
      (''static const int METHOD_NAME_POS = 7;^n'', []),
      (''^n'', [])]\<close>

definition prototype_argument :: "argument \<Rightarrow> emission list" where
  \<open>prototype_argument a =
     (if arg_dir a = in_dir then
       (if arg_type a \<in> set scalar_dts then
         [(''%s %s'', [table_text c_out_types (arg_type a), name_of a])]
       else if arg_type a = object_dt then
         [(''%s *%s'', [class_of a, name_of a])]
       else if arg_type a \<in> set [string_dt, wstring_dt] then
         [(''%s %s'', [table_text c_out_types (arg_type a), name_of a])]
       else if arg_type a = file_dt then
         [(''%s %s'', [table_text c_out_types (arg_type a), name_of a])]
       else [])
     else
       (if arg_type a \<in> set scalar_dts then
         [(''%s *%s'', [table_text c_out_types (arg_type a), name_of a])]
       else if arg_type a = object_dt then
         [(''%s *%s'', [class_of a, name_of a])]
       else if arg_type a \<in> set [string_dt, wstring_dt] then
         [(''%s *%s'', [table_text c_out_types (arg_type a), name_of a])]
       else if arg_type a = file_dt then
         [(''%s %s'', [table_text c_out_types (arg_type a), name_of a])]
       else []))\<close>

definition generate_prototype :: "function_t \<Rightarrow> emission list" where
  \<open>generate_prototype f =
     (if return_type f \<noteq> void_dt then [(''%s %s('', [fn_return f, text_of (fn_name f)])]
      else [(''%s %s('', [table_text c_types (return_type f), text_of (fn_name f)])]) @
     separated ('', '', []) prototype_argument (arguments f) @
     [('')'', [])]\<close>

definition generate_class_includes :: "function_t \<Rightarrow> emission list" where
  \<open>generate_class_includes f =
     concat (map (\<lambda>a. if arg_type a = object_dt then [(''#include "%s.h";^n'', [class_of a])] else [])
       (arguments f))\<close>

definition buffer_size :: "function_t \<Rightarrow> int" where
  "buffer_size f =
     (let k = 0; k = (if is_method f then k + 3 else k);
          k = (if return_type f \<noteq> void_dt then k + 3 else k)
      in k + argument_count f * 3)"

definition generate_parameter_buffers :: "function_t \<Rightarrow> emission list" where
  \<open>generate_parameter_buffers f =
     [(''^t void *arrayObjs[%d];^n'', [Num (buffer_size f)]),
      (''^t int found;^n'', []),
      (''^n'', [])]\<close>

definition marshal_this :: "function_t \<Rightarrow> nat \<Rightarrow> emission list" where
  \<open>marshal_this f i =
     [(''^t char *this_filename;^n'', []),
      (''^t found = GS_register(this, (datatype)%d, inout_dir, "%s", this_filename);^n'', [type_arg object_dt, fn_class f]),
      (''^t if (!found) {^n'', []),
      (''^t^t ofstream this_ofs(this_filename, std::ofstream::trunc);^n'', []),
      (''^t^t archive::text_oarchive this_oa(this_ofs);^n'', []),
      (''^t^t this_oa << *this;^n'', []),
      (''^t^t this_ofs.flush();^n'', []),
      (''^t^t this_ofs.close();^n'', []),
      (''^t }^n'', []),
      (''^t arrayObjs[%d] = &this_filename;^n'', [Num (int i)]),
      (''^t int param%d = %d;^n'', [Num (int (i + 1)), type_arg file_dt]),
      (''^t arrayObjs[%d] = &param%d;^n'', [Num (int (i + 1)), Num (int (i + 1))]),
      (''^t int param%d = %d;^n'', [Num (int (i + 2)), dir_arg inout_dir]),
      (''^t arrayObjs[%d] = &param%d;^n'', [Num (int (i + 2)), Num (int (i + 2))]),
      (''^n'', [])]\<close>

definition marshal_return :: "function_t \<Rightarrow> nat \<Rightarrow> emission list" where
  \<open>marshal_return f i =
     [(''^t %s return_object;^n'', [fn_return f]),
      (''^t char *return_filename;^n'', []),
      (''^t found = GS_register(&return_object, (datatype)%d, null_dir, "%s", return_filename);^n'', [type_arg object_dt, fn_return f]),
      (''^t if (!found) {^n'', []),
      (''^t^t ofstream return_ofs(return_filename, std::ofstream::trunc);^n'', []),
      (''^t^t archive::text_oarchive return_oa(return_ofs);^n'', []),
      (''^t^t return_oa << return_object;^n'', []),
      (''^t^t return_ofs.flush();^n'', []),
      (''^t^t return_ofs.close();^n'', []),
      (''^t }^n'', []),
      (''^t arrayObjs[%d] = &return_filename;^n'', [Num (int i)]),
      (''^t int param%d = %d;^n'', [Num (int (i + 1)), type_arg file_dt]),
      (''^t arrayObjs[%d] = &param%d;^n'', [Num (int (i + 1)), Num (int (i + 1))]),
      (''^t int param%d = %d;^n'', [Num (int (i + 2)), dir_arg inout_dir]),
      (''^t arrayObjs[%d] = &param%d;^n'', [Num (int (i + 2)), Num (int (i + 2))]),
      (''^n'', [])]\<close>

definition marshal_argument :: "argument \<Rightarrow> nat \<Rightarrow> emission list" where
  \<open>marshal_argument a i =
     (if arg_dir a = out_dir \<or> arg_dir a = inout_dir then
       (if arg_type a \<in> set scalar_dts \<or> arg_type a = object_dt then
         [(''^t char *%s_filename;^n'', [name_of a]),
          (''^t found = GS_register(%s, (datatype)%d, (direction)%d, "%s", %s_filename);^n'', [name_of a, type_arg (arg_type a), dir_arg (arg_dir a), class_of a, name_of a]),
          (''^t if (!found) {^n'', []),
          (''^t^t ofstream %s_ofs(%s_filename, std::ofstream::trunc);^n'', [name_of a, name_of a]),
          (''^t^t archive::text_oarchive %s_oa(%s_ofs);^n'', [name_of a, name_of a]),
          (''^t^t %s_oa << *%s;^n'', [name_of a, name_of a]),
          (''^t^t %s_ofs.flush();^n'', [name_of a]),
          (''^t^t %s_ofs.close();^n'', [name_of a]),
          (''^t }^n'', []),
          (''^t arrayObjs[%d] = &%s_filename;^n'', [Num (int i), name_of a]),
          (''^t int param%d = %d;^n'', [Num (int (i + 1)), type_arg file_dt]),
          (''^t arrayObjs[%d] = &param%d;^n'', [Num (int (i + 1)), Num (int (i + 1))]),
          (''^t int param%d = %d;^n'', [Num (int (i + 2)), dir_arg inout_dir]),
          (''^t arrayObjs[%d] = &param%d;^n'', [Num (int (i + 2)), Num (int (i + 2))])]
       else if arg_type a \<in> set [string_dt, wstring_dt] then
         [(''^t char *%s_filename;^n'', [name_of a]),
          (''^t found = GS_register(%s, (datatype)%d, (direction)%d, "%s", %s_filename);^n'', [name_of a, dir_arg (arg_dir a), type_arg (arg_type a), class_of a, name_of a]),
          (''^t if (!found) {^n'', []),
          (''^t^t ofstream %s_ofs(%s_filename, std::ofstream::trunc);^n'', [name_of a, name_of a]),
          (''^t^t archive::text_oarchive %s_oa(%s_ofs);^n'', [name_of a, name_of a]),
          (''^t^t string %s_out_string (*%s);^n'', [name_of a, name_of a]),
          (''^t^t %s_oa << %s_out_string;^n'', [name_of a, name_of a]),
          (''^t^t %s_ofs.flush();^n'', [name_of a]),
          (''^t^t %s_ofs.close();^n'', [name_of a]),
          (''^t }^n'', []),
          (''^t arrayObjs[%d] = &%s_filename;^n'', [Num (int i), name_of a]),
          (''^t int param%d = %d;^n'', [Num (int (i + 1)), type_arg file_dt]),
          (''^t arrayObjs[%d] = &param%d;^n'', [Num (int (i + 1)), Num (int (i + 1))]),
          (''^t int param%d = %d;^n'', [Num (int (i + 2)), dir_arg inout_dir]),
          (''^t arrayObjs[%d] = &param%d;^n'', [Num (int (i + 2)), Num (int (i + 2))])]
       else if arg_type a = file_dt then
         [(''^t arrayObjs[%d] = &%s;^n'', [Num (int i), name_of a]),
          (''^t int param%d = %d;^n'', [Num (int (i + 1)), type_arg (arg_type a)]),
          (''^t arrayObjs[%d] = &param%d;^n'', [Num (int (i + 1)), Num (int (i + 1))]),
          (''^t int param%d = %d;^n'', [Num (int (i + 2)), dir_arg (arg_dir a)]),
          (''^t arrayObjs[%d] = &param%d;^n'', [Num (int (i + 2)), Num (int (i + 2))])]
       else [])
     else
       (if arg_type a = object_dt then
         [(''^t char *%s_filename;^n'', [name_of a]),
          (''^t found = GS_register(%s, (datatype)%d, (direction)%d, "%s", %s_filename);^n'', [name_of a, type_arg (arg_type a), dir_arg (arg_dir a), class_of a, name_of a]),
          (''^t if (!found) {^n'', []),
          (''^t^t ofstream %s_ofs(%s_filename, std::ofstream::trunc);^n'', [name_of a, name_of a]),
          (''^t^t archive::text_oarchive %s_oa(%s_ofs);^n'', [name_of a, name_of a]),
          (''^t^t %s_oa << %s;^n'', [name_of a, name_of a]),
          (''^t^t %s_ofs.flush();^n'', [name_of a]),
          (''^t^t %s_ofs.close();^n'', [name_of a]),
          (''^t }^n'', []),
          (''^t arrayObjs[%d] = &%s_filename;^n'', [Num (int i), name_of a]),
          (''^t int param%d = %d;^n'', [Num (int (i + 1)), type_arg file_dt]),
          (''^t arrayObjs[%d] = &param%d;^n'', [Num (int (i + 1)), Num (int (i + 1))]),
          (''^t int param%d = %d;^n'', [Num (int (i + 2)), dir_arg (arg_dir a)]),
          (''^t arrayObjs[%d] = &param%d;^n'', [Num (int (i + 2)), Num (int (i + 2))])]
       else [(''^t arrayObjs[%d] = &%s;^n'', [Num (int i), name_of a]),
          (''^t int param%d = %d;^n'', [Num (int (i + 1)), type_arg (arg_type a)]),
          (''^t arrayObjs[%d] = &param%d;^n'', [Num (int (i + 1)), Num (int (i + 1))]),
          (''^t int param%d = %d;^n'', [Num (int (i + 2)), dir_arg (arg_dir a)]),
          (''^t arrayObjs[%d] = &param%d;^n'', [Num (int (i + 2)), Num (int (i + 2))])]))\<close>

text \<open>The loop over the arguments: argument number \<open>j\<close> starts at entry \<open>3 * j\<close>.\<close>

fun marshal_arguments :: "argument list \<Rightarrow> nat \<Rightarrow> emission list" where
  \<open>marshal_arguments [] j = []\<close>
| \<open>marshal_arguments (a # as) j =
     marshal_argument a (j * 3) @ [(''^n'', [])] @ marshal_arguments as (j + 1)\<close>

definition generate_parameter_marshalling :: "function_t \<Rightarrow> emission list" where
  \<open>generate_parameter_marshalling f =
     (let j = 0;
          this_part = (if is_method f then marshal_this f (j * 3) else []);
          j = (if is_method f then j + 1 else j);
          return_part = (if return_type f \<noteq> void_dt then marshal_return f (j * 3) else []);
          j = (if return_type f \<noteq> void_dt then j + 1 else j)
      in this_part @ return_part @ marshal_arguments (arguments f) j @ [(''^n'', [])])\<close>

definition arg_count :: "function_t \<Rightarrow> int" where
  "arg_count f =
     (let n = argument_count f; n = (if is_method f then n + 1 else n)
      in if return_type f \<noteq> void_dt then n + 1 else n)"

definition generate_execute_call :: "function_t \<Rightarrow> emission list" where
  \<open>generate_execute_call f =
     [(''^t char *method_name = strdup("%s");^n'', [text_of (fn_name f)]),
      (''^t GS_ExecuteTask(0L, "%s", method_name, 0, %s, %d, (void**)arrayObjs);^n'', [text_of ''NULL'', text_of ''false'', Num (arg_count f)]),
      (''^n'', [])] @
     (if return_type f \<noteq> void_dt then
       [(''^n^t //Implicit synchronization^n'', []),
      (''^t debug_printf("[   BINDING]  -  @%%s  -  Implicit synchronization of return value^^n", method_name);^n'', []),
      (''^t compss_wait_on(return_object);^n'', []),
      (''^n^t return return_object;^n'', []),
      (''^n'', [])]
      else []) @
     [(''^t free(method_name);^n'', [])]\<close>

section \<open>A case of the worker\<close>

definition worker_declaration :: "argument \<Rightarrow> emission list" where
  \<open>worker_declaration a =
     (if arg_type a \<in> set [char_dt, wchar_dt] then
         [(''^t^t^t char %s;^n'', [name_of a])]
       else if arg_type a = boolean_dt then
         [(''^t^t^t int %s;^n'', [name_of a])]
       else if arg_type a = short_dt then
         [(''^t^t^t short %s;^n'', [name_of a])]
       else if arg_type a = long_dt then
         [(''^t^t^t long %s;^n'', [name_of a])]
       else if arg_type a = longlong_dt then
         [(''^t^t^t long long %s;^n'', [name_of a])]
       else if arg_type a = int_dt then
         [(''^t^t^t int %s;^n'', [name_of a])]
       else if arg_type a = float_dt then
         [(''^t^t^t float %s;^n'', [name_of a])]
       else if arg_type a = double_dt then
         [(''^t^t^t double %s;^n'', [name_of a])]
       else if arg_type a = file_dt then
         [(''^t^t^t char *%s;^n'', [name_of a])]
       else if arg_type a \<in> set [string_dt, wstring_dt] then
         [(''^t^t^t char *%s;^n'', [name_of a])]
       else if arg_type a = object_dt then
         [(''^t^t^t %s %s;^n'', [class_of a, name_of a])]
       else [])\<close>

definition worker_read_in :: "argument \<Rightarrow> emission list" where
  \<open>worker_read_in a =
     (if arg_type a \<in> set [char_dt, wchar_dt] then
         [(''^t^t^t arg_offset += 3;^n'', []),
          (''^t^t^t %s = argv[arg_offset][0];^n'', [name_of a]),
          (''^t^t^t arg_offset += 1;^n^n'', [])]
       else if arg_type a = boolean_dt then
         [(''^t^t^t arg_offset += 3;^n'', []),
          (''^t^t^t %s = argv[arg_offset]? 1 : 0;^n'', [name_of a]),
          (''^t^t^t arg_offset += 1;^n^n'', [])]
       else if arg_type a = short_dt then
         [(''^t^t^t arg_offset += 3;^n'', []),
          (''^t^t^t %s = atoi(argv[arg_offset]);^n'', [name_of a]),
          (''^t^t^t arg_offset += 1;^n^n'', [])]
       else if arg_type a = long_dt then
         [(''^t^t^t arg_offset += 3;^n'', []),
          (''^t^t^t %s = atol(argv[arg_offset]);^n'', [name_of a]),
          (''^t^t^t arg_offset += 1;^n^n'', [])]
       else if arg_type a = longlong_dt then
         [(''^t^t^t arg_offset += 3;^n'', []),
          (''^t^t^t %s = atoll(argv[arg_offset]);^n'', [name_of a]),
          (''^t^t^t arg_offset += 1;^n^n'', [])]
       else if arg_type a = int_dt then
         [(''^t^t^t arg_offset += 3;^n'', []),
          (''^t^t^t %s = atoi(argv[arg_offset]);^n'', [name_of a]),
          (''^t^t^t arg_offset += 1;^n^n'', [])]
       else if arg_type a = float_dt then
         [(''^t^t^t arg_offset += 3;^n'', []),
          (''^t^t^t %s = strtof(argv[arg_offset], NULL);^n'', [name_of a]),
          (''^t^t^t arg_offset += 1;^n^n'', [])]
       else if arg_type a = double_dt then
         [(''^t^t^t arg_offset += 3;^n'', []),
          (''^t^t^t %s = strtod(argv[arg_offset], NULL);^n'', [name_of a]),
          (''^t^t^t arg_offset += 1;^n^n'', [])]
       else if arg_type a = file_dt then
         [(''^t^t^t arg_offset += 3;^n'', []),
          (''^t^t^t %s = strdup(argv[arg_offset]);^n'', [name_of a]),
          (''^t^t^t arg_offset += 1;^n^n'', [])]
       else if arg_type a \<in> set [string_dt, wstring_dt] then
         [(''^t^t^t arg_offset += 3;^n'', []),
          (''^t^t^t int %s_nwords = atoi(argv[arg_offset]);^n'', [name_of a]),
          (''^t^t^t ^n'', []),
          (''^t^t^t int word_i;^n'', []),
          (''^t^t^t int %s_size = 0;^n'', [name_of a]),
          (''^t^t^t for (word_i=1; word_i<=%s_nwords; word_i++) {^n'', [name_of a]),
          (''^t^t^t^t %s_size += strlen(argv[arg_offset + word_i]);^n'', [name_of a]),
          (''^t^t^t }^n'', []),
          (''^t^t^t %s = (char *) malloc(%s_size + %s_nwords);^n'', [name_of a, name_of a, name_of a]),
          (''^t^t^t ^n'', []),
          (''^t^t^t for (word_i=1; word_i<=%s_nwords; word_i++) {^n'', [name_of a]),
          (''^t^t^t^t arg_offset += 1;^n'', []),
          (''^t^t^t^t if (word_i == 1)^n'', []),
          (''^t^t^t^t^t strcat(%s, argv[arg_offset]);^n'', [name_of a]),
          (''^t^t^t^t else {^n'', []),
          (''^t^t^t^t^t strcat(%s, " ");^n'', [name_of a]),
          (''^t^t^t^t^t strcat(%s, argv[arg_offset]);^n'', [name_of a]),
          (''^t^t^t^t }^n'', []),
          (''^t^t^t }^n^n'', [])]
       else if arg_type a = object_dt then
         [(''^t^t^t arg_offset += 3;^n'', []),
          (''^t^t^t char *%s_filename = strdup(argv[arg_offset]);^n'', [name_of a]),
          (''^t^t^t ifstream %s_ifs(%s_filename);^n'', [name_of a, name_of a]),
          (''^t^t^t archive::text_iarchive %s_ia(%s_ifs);^n'', [name_of a, name_of a]),
          (''^t^t^t %s_ia >> %s;^n'', [name_of a, name_of a]),
          (''^t^t^t %s_ifs.close();^n'', [name_of a]),
          (''^t^t^t arg_offset += 1;^n^n'', [])]
       else [])\<close>

definition worker_read_out :: "argument \<Rightarrow> emission list" where
  \<open>worker_read_out a =
     (if arg_type a \<in> set scalar_dts \<or> arg_type a = object_dt then
         [(''^t^t^t arg_offset += 3;^n'', []),
          (''^t^t^t char *%s_filename = strdup(argv[arg_offset]);^n'', [name_of a]),
          (''^t^t^t ifstream %s_ifs(%s_filename);^n'', [name_of a, name_of a]),
          (''^t^t^t archive::text_iarchive %s_ia(%s_ifs);^n'', [name_of a, name_of a]),
          (''^t^t^t %s_ia >> %s;^n'', [name_of a, name_of a]),
          (''^t^t^t %s_ifs.close();^n'', [name_of a]),
          (''^t^t^t arg_offset += 1;^n^n'', [])]
       else if arg_type a \<in> set [string_dt, wstring_dt] then
         [(''^t^t^t arg_offset += 3;^n'', []),
          (''^t^t^t char *%s_filename = strdup(argv[arg_offset]);^n'', [name_of a]),
          (''^t^t^t ifstream %s_ifs(%s_filename);^n'', [name_of a, name_of a]),
          (''^t^t^t archive::text_iarchive %s_ia(%s_ifs);^n'', [name_of a, name_of a]),
          (''^t^t^t string %s_in_string;^n'', [name_of a]),
          (''^t^t^t %s_ia >> %s_in_string;^n'', [name_of a, name_of a]),
          (''^t^t^t %s_ifs.close();^n'', [name_of a]),
          (''^t^t^t %s = strdup(%s_in_string.c_str());^n'', [name_of a, name_of a]),
          (''^t^t^t arg_offset += 1;^n^n'', [])]
       else if arg_type a = file_dt then
         [(''^t^t^t arg_offset += 3;^n'', []),
          (''^t^t^t %s = strdup(argv[arg_offset]);^n'', [name_of a]),
          (''^t^t^t arg_offset += 1;^n^n'', [])]
       else [])\<close>

definition worker_read :: "argument \<Rightarrow> emission list" where
  "worker_read a =
     (if arg_dir a = in_dir then worker_read_in a else []) @
     (if arg_dir a = inout_dir \<or> arg_dir a = out_dir then worker_read_out a else [])"

definition worker_pass :: "argument \<Rightarrow> emission list" where
  \<open>worker_pass a =
     (if arg_dir a = in_dir then
       (if arg_type a \<in> set scalar_dts then
         [(''%s'', [name_of a])]
       else if arg_type a = object_dt then
         [(''&%s'', [name_of a])]
       else if arg_type a \<in> set [string_dt, wstring_dt] then
         [(''%s'', [name_of a])]
       else if arg_type a = file_dt then
         [(''%s'', [name_of a])]
       else [])
     else
       (if arg_type a \<in> set scalar_dts then
         [(''&%s'', [name_of a])]
       else if arg_type a = object_dt then
         [(''&%s'', [name_of a])]
       else if arg_type a \<in> set [string_dt, wstring_dt] then
         [(''&%s'', [name_of a])]
       else if arg_type a = file_dt then
         [(''%s'', [name_of a])]
       else []))\<close>

definition worker_write :: "argument \<Rightarrow> emission list" where
  \<open>worker_write a =
     (if arg_dir a = out_dir \<or> arg_dir a = inout_dir then
       (if arg_type a \<in> set scalar_dts \<or> arg_type a = object_dt then
         [(''^t^t^t ofstream %s_ofs(%s_filename, std::ofstream::trunc);^n'', [name_of a, name_of a]),
          (''^t^t^t^t archive::text_oarchive %s_oa(%s_ofs);^n'', [name_of a, name_of a]),
          (''^t^t^t^t %s_oa << %s;^n'', [name_of a, name_of a]),
          (''^t^t^t^t %s_ofs.flush();^n'', [name_of a]),
          (''^t^t^t^t %s_ofs.close();^n'', [name_of a])]
       else if arg_type a \<in> set [string_dt, wstring_dt] then
         [(''^t^t^t^t ofstream %s_ofs(%s_filename, std::ofstream::trunc);^n'', [name_of a, name_of a]),
          (''^t^t^t^t archive::text_oarchive %s_oa(%s_ofs);^n'', [name_of a, name_of a]),
          (''^t^t^t^t string %s_out_string (%s);^n'', [name_of a, name_of a]),
          (''^t^t^t^t %s_oa << %s_out_string;^n'', [name_of a, name_of a]),
          (''^t^t^t^t %s_ofs.flush();^n'', [name_of a]),
          (''^t^t^t^t %s_ofs.close();^n'', [name_of a])]
       else [])
     else []) @ [(''^n'', [])]\<close>

definition worker_free :: "argument \<Rightarrow> emission list" where
  \<open>worker_free a =
     (if arg_type a = file_dt then
         [(''^t^t^t free(%s);^n'', [name_of a])]
       else if arg_type a \<in> set [string_dt, wstring_dt] then
         [(''^t^t^t free(%s);^n'', [name_of a])]
       else [])\<close>

definition worker_this :: "function_t \<Rightarrow> emission list" where
  \<open>worker_this f =
     [(''^t^t^t %s this_%s;^n'', [fn_class f, fn_class f]),
      (''^t^t^t ^n'', []),
      (''^t^t^t arg_offset += 1;^n'', []),
      (''^t^t^t char *this_filename = strdup(argv[arg_offset]);^n'', []),
      (''^t^t^t arg_offset += 1;^n'', []),
      (''^t^t^t ifstream this_ifs(this_filename);^n'', []),
      (''^t^t^t archive::text_iarchive this_ia(this_ifs);^n'', []),
      (''^t^t^t this_ia >> this_%s;^n'', [fn_class f]),
      (''^t^t^t this_ifs.close();^n^n'', [])]\<close>

definition worker_return :: "function_t \<Rightarrow> emission list" where
  \<open>worker_return f =
     [(''^t^t^t %s return_object;^n'', [fn_return f]),
      (''^t^t^t ^n'', []),
      (''^t^t^t arg_offset += 1;^n'', []),
      (''^t^t^t char *return_filename = strdup(argv[arg_offset]);^n'', []),
      (''^t^t^t arg_offset += 1;^n'', []),
      (''^t^t^t ifstream return_ifs(return_filename);^n'', []),
      (''^t^t^t archive::text_iarchive return_ia(return_ifs);^n'', []),
      (''^t^t^t return_ia >> return_object;^n'', []),
      (''^t^t^t return_ifs.close();^n^n'', [])]\<close>

definition worker_call :: "function_t \<Rightarrow> emission list" where
  \<open>worker_call f =
     (if is_method f then [(''^t^t^t this_%s.%s('', [fn_class f, text_of (methodname f)])]
      else if return_type f \<noteq> void_dt then [(''^t^t^t return_object = %s('', [text_of (fn_name f)])]
      else [(''^t^t^t %s('', [text_of (fn_name f)])])\<close>

definition worker_store_this :: "function_t \<Rightarrow> emission list" where
  \<open>worker_store_this f =
     [(''^t^t^t ofstream this_ofs(this_filename, std::ofstream::trunc);^n'', []),
      (''^t^t^t archive::text_oarchive this_oa(this_ofs);^n'', []),
      (''^t^t^t this_oa << this_%s;^n'', [fn_class f]),
      (''^t^t^t this_ofs.flush();^n'', []),
      (''^t^t^t this_ofs.close();^n'', [])]\<close>

definition worker_store_return :: "function_t \<Rightarrow> emission list" where
  \<open>worker_store_return f =
     [(''^t^t^t ofstream return_ofs(return_filename, std::ofstream::trunc);^n'', []),
      (''^t^t^t archive::text_oarchive return_oa(return_ofs);^n'', []),
      (''^t^t^t return_oa << return_object;^n'', []),
      (''^t^t^t return_ofs.flush();^n'', []),
      (''^t^t^t return_ofs.close();^n'', [])]\<close>

definition generate_worker_case :: "function_t \<Rightarrow> emission list" where
  \<open>generate_worker_case f =
     (let func_name = replace_char (fn_name f) CHR '':'' CHR ''_'' in
      [(''^t case %sOp:^n'', [text_of func_name]),
      (''^t^t {^n'', [])]) @
     (if is_method f then worker_this f else []) @
     (if return_type f \<noteq> void_dt then worker_return f else []) @
     concat (map worker_declaration (arguments f)) @
     [(''^t^t^t ^n'', [])] @
     concat (map worker_read (arguments f)) @
     worker_call f @
     separated ('', '', []) worker_pass (arguments f) @
     [('');^n'', []),
      (''^n'', [])] @
     (if is_method f then worker_store_this f else []) @
     (if return_type f \<noteq> void_dt then worker_store_return f else []) @
     concat (map worker_write (arguments f)) @
     concat (map worker_free (arguments f)) @
     [(''^t^t^t return 0;^n'', []),
      (''^t^t }^n'', []),
      (''^t^t break;^n'', [])]\<close>

section \<open>The files\<close>

text \<open>\<open>strstr (name, "::")\<close>\<close>

fun has_scope :: "string \<Rightarrow> bool" where
  "has_scope (c # d # s) \<longleftrightarrow> c = CHR '':'' \<and> d = CHR '':'' \<or> has_scope (d # s)"
| "has_scope s \<longleftrightarrow> False"

definition generate_function :: "function_t \<Rightarrow> outputs \<Rightarrow> outputs res" where
  \<open>generate_function f out =
     andthen (generate_constraints f) (\<lambda>constraints. Inr
       (out\<lparr>stubsFile := stubsFile out @ generate_prototype f @
               [(''^n'', []),
      (''{^n'', [])] @ generate_parameter_buffers f @ generate_parameter_marshalling f @
               generate_execute_call f @ [(''}^n'', []),
      (''^n'', [])],
            const_file := const_file out @ constraints,
            workerFile := workerFile out @ generate_worker_case f,
            includeFile := includeFile out @
              (if \<not> has_scope (fn_name f)
               then generate_class_includes f @ generate_prototype f @ [('';^n'', [])]
               else [])\<rparr>))\<close>

fun generate_functions :: "function_t list \<Rightarrow> outputs \<Rightarrow> outputs res" where
  "generate_functions [] out = Inr out"
| "generate_functions (f # fs) out = andthen (generate_function f out) (generate_functions fs)"

definition generate_body :: "string option \<Rightarrow> function_t list \<Rightarrow> outputs \<Rightarrow> outputs res" where
  \<open>generate_body filename fs out =
     andthen (get_filename_base filename) (\<lambda>base.
       generate_functions fs
         (out\<lparr>includeFile := includeFile out @ generate_enum fs @
                [(''/* Functions to be implemented. We sugest that you create a file */^n'', []),
      (''/* with name '%s-functions.cc' and implement them there. */^n'', [text_of base])],
              stubsFile := stubsFile out @ [(''^n'', [])]\<rparr>))\<close>

definition generate_epilogue :: "string \<Rightarrow> outputs \<Rightarrow> outputs" where
  \<open>generate_epilogue includeName out =
     out\<lparr>workerFile := workerFile out @
             [(''^t}^n'', []),
      (''^n'', []),
      (''^tprintf("Incorrect Operation Code. Aborting...^^n");^n'', []),
      (''^treturn -1;^n'', []),
      (''}^n'', [])],
         includeFile := includeFile out @
             [(''^n'', []),
      (''#endif /* _GSS_'', [])] @
             upper_or_underscore includeName @ [('' */^n'', [])]\<rparr>\<close>

text \<open>
  The program behind the parser (\<open>main.c\<close>): nothing is generated after an error, and the
  result is then 1.
\<close>

definition stub_main ::
  "bool \<Rightarrow> (string \<Rightarrow> bool) \<Rightarrow> parser \<Rightarrow> files \<Rightarrow> (int \<times> outputs option \<times> files) res" where
  "stub_main do_backups can_write p fs =
     (if can_generate p then
        andthen (generate_prolog do_backups can_write (idl_filename p) fs) (\<lambda>(out, includeName, fs).
        andthen (get_first_function p) (\<lambda>functions.
        andthen (generate_body (idl_filename p) functions out) (\<lambda>out.
          Inr (0, Some (generate_epilogue includeName out), fs))))
      else Inr (1, None, fs))"

end
