(* ===== verification/IdlProps.thy ===== *)
theory IdlProps
  imports Idl
begin

text \<open>
  What the semantic actions build: the interface as its rules describe it, and the flag
  that says whether code may be generated from it.
\<close>

section \<open>The intended functions\<close>

definition arg_ok :: "string list \<Rightarrow> dtype \<Rightarrow> string \<Rightarrow> bool" where
  "arg_ok names t name \<longleftrightarrow> name \<notin> set names \<and> t \<noteq> void_dt"

definition the_argument :: "idl_argument \<Rightarrow> argument" where
  "the_argument a = (case a of IdlArg dir t cls name \<Rightarrow>
     \<lparr>arg_name = name, arg_classname = argument_classname t cls, arg_type = t, arg_dir = dir\<rparr>)"

definition idl_name :: "idl_argument \<Rightarrow> string" where
  "idl_name a = (case a of IdlArg dir t cls name \<Rightarrow> name)"

definition idl_type :: "idl_argument \<Rightarrow> dtype" where
  "idl_type a = (case a of IdlArg dir t cls name \<Rightarrow> t)"

text \<open>The arguments that are kept, behind those already there.\<close>

fun kept_arguments :: "argument list \<Rightarrow> idl_argument list \<Rightarrow> argument list" where
  "kept_arguments acc [] = acc"
| "kept_arguments acc (a # as) =
     (if idl_name a \<in> arg_name ` set acc \<or> idl_type a = void_dt then kept_arguments acc as
      else kept_arguments (acc @ [the_argument a]) as)"

definition proper_arguments :: "idl_argument list \<Rightarrow> bool" where
  "proper_arguments as \<longleftrightarrow> distinct (map idl_name as) \<and> (\<forall>a \<in> set as. idl_type a \<noteq> void_dt)"

definition return_of :: "idl_return \<Rightarrow> dtype \<times> string \<times> int" where
  "return_of r = (case r of ReturnType t \<Rightarrow> (t, '''', 0) | ReturnObject c \<Rightarrow> (object_dt, c, 0)
     | ReturnStaticObject c \<Rightarrow> (object_dt, c, 1))"

definition the_function :: "idl_prototype \<Rightarrow> function_t" where
  "the_function q =
     (let as = kept_arguments [] (proto_args q);
          (cls, meth) = (case split_name (proto_name q) of Inl e \<Rightarrow> (None, '''') | Inr r \<Rightarrow> r);
          (t, tn, st) = return_of (proto_return q)
      in \<lparr>fn_name = proto_name q, access_static = Some st, methodname = meth, fn_classname = cls,
          return_typename = Some tn, return_type = t, arguments = as,
          argument_count = int (length as), exec_arg_count = sum_list (map (dir_weight \<circ> arg_dir) as),
          first_constraint = (if proto_constraints q = [] then None else Some (proto_constraints q))\<rparr>)"

lemma name_the_argument [simp]: "arg_name (the_argument a) = idl_name a" "arg_type (the_argument a) = idl_type a"
  by (simp_all add: the_argument_def idl_name_def idl_type_def split: idl_argument.splits)

lemma length_kept: "length (kept_arguments acc as) \<le> length acc + length as"
proof (induction as arbitrary: acc)
  case (Cons a as)
  show ?case using Cons.IH [of acc] Cons.IH [of "acc @ [the_argument a]"] by auto
qed simp

lemma kept_proper:
  "length (kept_arguments acc as) = length acc + length as \<longleftrightarrow>
     proper_arguments as \<and> set (map idl_name as) \<inter> arg_name ` set acc = {}"
proof (induction as arbitrary: acc)
  case Nil
  show ?case by (simp add: proper_arguments_def)
next
  case (Cons a as)
  have "length (kept_arguments acc as) < length acc + length (a # as)"
    using length_kept [of acc as] by simp
  then show ?case
    using Cons.IH [of "acc @ [the_argument a]"] by (auto simp: proper_arguments_def)
qed

lemma kept_all:
  "proper_arguments as \<Longrightarrow> set (map idl_name as) \<inter> arg_name ` set acc = {} \<Longrightarrow>
   kept_arguments acc as = acc @ map the_argument as"
  by (induction as arbitrary: acc) (auto simp: proper_arguments_def)

section \<open>The actions on the current function\<close>

lemma current_last:
  "main_interface p = Some \<lparr>if_name = n, if_functions = fs @ [f]\<rparr> \<Longrightarrow> current_function p e = Inr f"
  by (simp add: current_function_def the_interface_def)

lemma set_last:
  "main_interface p = Some \<lparr>if_name = n, if_functions = fs @ [f]\<rparr> \<Longrightarrow>
   set_function g p = p\<lparr>main_interface := Some \<lparr>if_name = n, if_functions = fs @ [g f]\<rparr>\<rparr>"
  by (simp add: set_function_def)

lemma run_append: "run (as @ bs) p = andthen (run as p) (run bs)"
proof (induction as arbitrary: p)
  case (Cons a as)
  then show ?case by (cases "a p") simp_all
qed simp

lemma add_argument_current:
  assumes "main_interface p = Some \<lparr>if_name = n, if_functions = fs @ [f]\<rparr>"
  shows "argument_action a p = Inr
    (if idl_name a \<in> arg_name ` set (arguments f) \<or> idl_type a = void_dt then p\<lparr>has_errors := True\<rparr>
     else p\<lparr>main_interface := Some \<lparr>if_name = n, if_functions = fs @
       [f\<lparr>arguments := arguments f @ [the_argument a], argument_count := argument_count f + 1,
          exec_arg_count := exec_arg_count f + dir_weight (arg_dir (the_argument a))\<rparr>]\<rparr>\<rparr>)"
  using assms
  by (cases a)
    (auto simp: add_argument_def exists_argument_def current_last set_last idl_name_def idl_type_def
      the_argument_def Let_def)

lemma run_then: "run as p = Inr q \<Longrightarrow> run (as @ bs) p = run bs q"
  by (simp add: run_append)

definition weight :: "argument list \<Rightarrow> int" where
  "weight as = sum_list (map (dir_weight \<circ> arg_dir) as)"

lemma weight_simps [simp]: "weight [] = 0" "weight (as @ bs) = weight as + weight bs"
  "weight [a] = dir_weight (arg_dir a)"
  by (simp_all add: weight_def)

definition with_arguments :: "function_t \<Rightarrow> argument list \<Rightarrow> function_t" where
  "with_arguments f as = f\<lparr>arguments := as, argument_count := int (length as), exec_arg_count := weight as\<rparr>"

lemma with_arguments_again [simp]:
  "with_arguments (with_arguments f as) bs = with_arguments f bs"
  "arguments (with_arguments f as) = as"
  by (simp_all add: with_arguments_def)

lemma run_arguments:
  "main_interface p = Some \<lparr>if_name = n, if_functions = fs @ [with_arguments f acc]\<rparr> \<Longrightarrow>
   run (map argument_action as) p = Inr
    (p\<lparr>main_interface := Some \<lparr>if_name = n, if_functions = fs @ [with_arguments f (kept_arguments acc as)]\<rparr>,
       has_errors := (has_errors p \<or> length (kept_arguments acc as) < length acc + length as)\<rparr>)"
proof (induction as arbitrary: p acc)
  case Nil
  then show ?case by simp
next
  case (Cons a as)
  show ?case
  proof (cases "idl_name a \<in> arg_name ` set acc \<or> idl_type a = void_dt")
    case True
    then have "argument_action a p = Inr (p\<lparr>has_errors := True\<rparr>)"
      using add_argument_current [OF Cons.prems, of a] by simp
    moreover have "length (kept_arguments acc as) < length acc + length (a # as)"
      using length_kept [of acc as] by simp
    ultimately show ?thesis
      using True Cons.IH [of "p\<lparr>has_errors := True\<rparr>" acc] Cons.prems by simp
  next
    case False
    let ?acc = "acc @ [the_argument a]"
    let ?p = "p\<lparr>main_interface := Some \<lparr>if_name = n, if_functions = fs @ [with_arguments f ?acc]\<rparr>\<rparr>"
    have "argument_action a p = Inr ?p"
      using add_argument_current [OF Cons.prems, of a] False by (simp add: with_arguments_def)
    then show ?thesis using False Cons.IH [of ?p ?acc] by simp
  qed
qed

definition with_constraints :: "function_t \<Rightarrow> string list \<Rightarrow> function_t" where
  "with_constraints f cs = (if cs = [] then f else f\<lparr>first_constraint :=
     Some ((case first_constraint f of None \<Rightarrow> [] | Some ds \<Rightarrow> ds) @ cs)\<rparr>)"

lemma run_constraints:
  "main_interface p = Some \<lparr>if_name = n, if_functions = fs @ [f]\<rparr> \<Longrightarrow>
   run (map add_constraint cs) p =
     Inr (p\<lparr>main_interface := Some \<lparr>if_name = n, if_functions = fs @ [with_constraints f cs]\<rparr>\<rparr>)"
proof (induction cs arbitrary: p f)
  case Nil
  then show ?case by (cases p) (simp add: with_constraints_def)
next
  case (Cons c cs)
  let ?f = "with_constraints f [c]"
  let ?p = "p\<lparr>main_interface := Some \<lparr>if_name = n, if_functions = fs @ [?f]\<rparr>\<rparr>"
  have "add_constraint c p = Inr ?p"
    using Cons.prems
    by (auto simp: add_constraint_def current_last set_last with_constraints_def split: option.splits)
  moreover have "with_constraints ?f cs = with_constraints f (c # cs)"
    by (simp add: with_constraints_def)
  ultimately show ?case using Cons.IH [of ?p ?f] by simp
qed

section \<open>A prototype\<close>

lemma run_prototype:
  assumes "main_interface p = Some \<lparr>if_name = n, if_functions = fs\<rparr>"
    and "split_name (proto_name q) = Inr (cls, meth)"
  shows "\<exists>p'. run (prototype_actions q) p = Inr p' \<and>
    main_interface p' = Some \<lparr>if_name = n, if_functions = fs @ [the_function q]\<rparr> \<and>
    function_count p' = function_count p + 1 \<and>
    (has_errors p' \<longleftrightarrow> has_errors p \<or> proto_name q \<in> fn_name ` set fs \<or> \<not> proper_arguments (proto_args q))"
proof -
  obtain t tn st where r: "return_of (proto_return q) = (t, tn, st)" by (cases "return_of (proto_return q)") auto
  let ?f = "\<lparr>fn_name = proto_name q, access_static = Some st, methodname = meth,
    fn_classname = cls, return_typename = Some tn, return_type = t, arguments = [],
    argument_count = 0, exec_arg_count = 0, first_constraint = None\<rparr>"
  let ?k = "kept_arguments [] (proto_args q)"
  let ?p1 = "p\<lparr>has_errors := (has_errors p \<or> (\<exists>f \<in> set fs. fn_name f = proto_name q)),
    main_interface := Some \<lparr>if_name = n, if_functions = fs @ [with_arguments ?f []]\<rparr>,
    function_count := function_count p + 1, current_function_name := Some (proto_name q), parsing_args := True\<rparr>"
  have 1: "run ([begin_function (proto_name q)] @ return_actions (proto_return q) @ [begin_arguments]) p = Inr ?p1"
    using assms r
    by (cases "proto_return q")
      (auto simp: begin_function_def exists_function_def the_interface_def add_static_def current_function_def
        set_function_def add_return_type_def begin_arguments_def return_of_def with_arguments_def)
  let ?p2 = "?p1\<lparr>main_interface := Some \<lparr>if_name = n, if_functions = fs @ [with_arguments ?f ?k]\<rparr>,
    has_errors := (has_errors ?p1 \<or> length ?k < length (proto_args q))\<rparr>"
  have 2: "run (map argument_action (proto_args q)) ?p1 = Inr ?p2"
    using run_arguments [of ?p1 n fs ?f "[]" "proto_args q"] by simp
  let ?p3 = "?p2\<lparr>parsing_args := False, current_function_name := None\<rparr>"
  have 3: "run [end_arguments, end_function] ?p2 = Inr ?p3"
    by (simp add: end_arguments_def end_function_def current_last)
  let ?p4 = "?p3\<lparr>main_interface := Some \<lparr>if_name = n, if_functions = fs @ [the_function q]\<rparr>\<rparr>"
  have "the_function q = with_constraints (with_arguments ?f ?k) (proto_constraints q)"
    using assms(2) r by (simp add: the_function_def with_constraints_def with_arguments_def weight_def Let_def)
  moreover have "main_interface ?p3 = Some \<lparr>if_name = n, if_functions = fs @ [with_arguments ?f ?k]\<rparr>"
    by simp
  ultimately have 4: "run (map add_constraint (proto_constraints q)) ?p3 = Inr ?p4"
    using run_constraints [of ?p3 n fs "with_arguments ?f ?k" "proto_constraints q"] by presburger
  have "prototype_actions q = ([begin_function (proto_name q)] @ return_actions (proto_return q) @ [begin_arguments]) @
      map argument_action (proto_args q) @ [end_arguments, end_function] @ map add_constraint (proto_constraints q)"
    by (simp add: prototype_actions_def)
  then have "run (prototype_actions q) p = Inr ?p4"
    by (simp only: run_then [OF 1] run_then [OF 2] run_then [OF 3] 4)
  moreover have "length ?k < length (proto_args q) \<longleftrightarrow> \<not> proper_arguments (proto_args q)"
    using kept_proper [of "[]" "proto_args q"] length_kept [of "[]" "proto_args q"] by auto
  moreover have "proto_name q \<in> fn_name ` set fs \<longleftrightarrow> (\<exists>f \<in> set fs. fn_name f = proto_name q)"
    by (metis (mono_tags, lifting) image_iff)
  ultimately show ?thesis by (intro exI [of _ ?p4]) simp
qed

section \<open>An interface\<close>

definition proper_names :: "idl_prototype list \<Rightarrow> bool" where
  "proper_names qs \<longleftrightarrow> list_all (\<lambda>q. case split_name (proto_name q) of Inl e \<Rightarrow> False | Inr r \<Rightarrow> True) qs"

definition proper_prototypes :: "idl_prototype list \<Rightarrow> bool" where
  "proper_prototypes qs \<longleftrightarrow> distinct (map proto_name qs) \<and> (\<forall>q \<in> set qs. proper_arguments (proto_args q))"

lemma fn_name_the_function [simp]: "fn_name (the_function q) = proto_name q"
  by (simp add: the_function_def Let_def split: prod.split)

lemma run_prototypes:
  "main_interface p = Some \<lparr>if_name = n, if_functions = fs\<rparr> \<Longrightarrow> proper_names qs \<Longrightarrow>
   \<exists>p'. run (concat (map prototype_actions qs)) p = Inr p' \<and>
     main_interface p' = Some \<lparr>if_name = n, if_functions = fs @ map the_function qs\<rparr> \<and>
     function_count p' = function_count p + int (length qs) \<and>
     (has_errors p' \<longleftrightarrow> has_errors p \<or>
        \<not> (proper_prototypes qs \<and> fn_name ` set fs \<inter> proto_name ` set qs = {}))"
proof (induction qs arbitrary: p fs)
  case Nil
  then show ?case by (simp add: proper_prototypes_def)
next
  case (Cons q qs)
  obtain cls meth where "split_name (proto_name q) = Inr (cls, meth)"
    using Cons.prems(2) by (auto simp: proper_names_def split: sum.splits)
  from run_prototype [OF Cons.prems(1) this] obtain p1 where 1: "run (prototype_actions q) p = Inr p1"
    "main_interface p1 = Some \<lparr>if_name = n, if_functions = fs @ [the_function q]\<rparr>"
    "function_count p1 = function_count p + 1"
    "has_errors p1 \<longleftrightarrow> has_errors p \<or> proto_name q \<in> fn_name ` set fs \<or> \<not> proper_arguments (proto_args q)"
    by blast
  have "proper_names qs" using Cons.prems(2) by (simp add: proper_names_def)
  from Cons.IH [OF 1(2) this] obtain p2 where 2: "run (concat (map prototype_actions qs)) p1 = Inr p2"
    "main_interface p2 = Some \<lparr>if_name = n, if_functions = (fs @ [the_function q]) @ map the_function qs\<rparr>"
    "function_count p2 = function_count p1 + int (length qs)"
    "has_errors p2 \<longleftrightarrow> has_errors p1 \<or>
       \<not> (proper_prototypes qs \<and> fn_name ` set (fs @ [the_function q]) \<inter> proto_name ` set qs = {})"
    by blast
  have "run (concat (map prototype_actions (q # qs))) p = Inr p2"
    using 1(1) 2(1) by (simp add: run_append)
  moreover have "has_errors p2 \<longleftrightarrow> has_errors p \<or>
      \<not> (proper_prototypes (q # qs) \<and> fn_name ` set fs \<inter> proto_name ` set (q # qs) = {})"
    using 1(4) 2(4) by (auto simp: proper_prototypes_def)
  ultimately show ?case using 1(3) 2(2,3) by (intro exI [of _ p2]) simp
qed

lemma run_interface:
  assumes "main_interface p = None" and "\<not> has_errors p" and "proper_names qs"
  shows "\<exists>p'. run (interface_actions name qs) p = Inr p' \<and>
    main_interface p' = Some \<lparr>if_name = name, if_functions = map the_function qs\<rparr> \<and>
    function_count p' = function_count p + int (length qs) \<and>
    (has_errors p' \<longleftrightarrow> \<not> proper_prototypes qs)"
proof -
  let ?p1 = "p\<lparr>main_interface := Some \<lparr>if_name = name, if_functions = []\<rparr>\<rparr>"
  have "begin_interface name p = Inr ?p1"
    using assms(1,2) by (cases p) (simp add: begin_interface_def)
  moreover from run_prototypes [of ?p1 name "[]" qs] assms(3) obtain p' where
    "run (concat (map prototype_actions qs)) ?p1 = Inr p'"
    "main_interface p' = Some \<lparr>if_name = name, if_functions = map the_function qs\<rparr>"
    "function_count p' = function_count p + int (length qs)"
    "has_errors p' \<longleftrightarrow> has_errors p \<or> \<not> proper_prototypes qs" by auto
  ultimately show ?thesis
    using assms(2) by (intro exI [of _ p']) (simp add: interface_actions_def run_append end_interface_def)
qed

text \<open>
  C16. Parsing one interface builds exactly what it describes: its functions in order, each
  with its class and method, return type, constraints, and the arguments that are not void
  and not named before, and counts that agree with these. Code may be generated exactly when
  no two functions and no two arguments of a function share a name and no argument is void.
\<close>

theorem parse_builds_interface:
  assumes "main_interface p = None" and "\<not> has_errors p" and "proper_names qs"
  shows "\<exists>p'. run (interface_actions name qs) p = Inr p' \<and>
    get_first_function p' = Inr (map the_function qs) \<and>
    function_count p' = function_count p + int (length qs) \<and>
    (can_generate p' \<longleftrightarrow> proper_prototypes qs)"
  using run_interface [OF assms, of name]
  by (auto simp: get_first_function_def the_interface_def can_generate_def)

definition example_prototypes :: "idl_prototype list" where
  "example_prototypes =
     [\<lparr>proto_return = ReturnType void_dt, proto_name = ''C::put'',
       proto_args = [IdlArg in_dir int_dt '''' ''n'', IdlArg inout_dir object_dt ''M'' ''m''], proto_constraints = []\<rparr>,
      \<lparr>proto_return = ReturnStaticObject ''M'', proto_name = ''get'',
       proto_args = [IdlArg in_dir int_dt '''' ''k'', IdlArg out_dir file_dt '''' ''k''],
       proto_constraints = [''mem'']\<rparr>]"

theorem parse_builds_interface_witness:
  "\<exists>p'. run (interface_actions ''demo'' example_prototypes) initial_parser = Inr p' \<and>
     get_first_function p' = Inr (map the_function example_prototypes) \<and>
     function_count p' = 2 \<and> \<not> can_generate p'"
proof -
  have "proper_names example_prototypes"
    by (simp add: proper_names_def example_prototypes_def split_name_def last_colon_def)
  moreover have "\<not> proper_prototypes example_prototypes"
    by (simp add: proper_prototypes_def example_prototypes_def proper_arguments_def idl_name_def)
  moreover have "length example_prototypes = 2" by (simp add: example_prototypes_def)
  ultimately show ?thesis
    using parse_builds_interface [of initial_parser example_prototypes "''demo''"]
    by (simp add: initial_parser_def)
qed

text \<open>
  An error action behind a second interface that follows an unfinished function: the
  function's name is still set but the function is gone, so the number of the next argument
  is asked of a null pointer.
\<close>

theorem yyerror_after_second_interface:
  assumes "main_interface p \<noteq> None" and "split_name fn = Inr (cls, meth)"
  shows "run [begin_function fn, end_interface, begin_interface name, yyerror] p = Inl NullPointer"
  using assms
  by (auto simp: begin_function_def exists_function_def the_interface_def end_interface_def
      begin_interface_def yyerror_def get_next_argnum_def current_function_def)

theorem yyerror_after_second_interface_witness:
  "run [begin_interface ''a'', begin_function ''f'', end_interface, begin_interface ''b'', yyerror]
     initial_parser = Inl NullPointer"
  using yyerror_after_second_interface [of "initial_parser\<lparr>main_interface := Some \<lparr>if_name = ''a'', if_functions = []\<rparr>\<rparr>"
      "''f''" None "''f''" "''b''"]
  by (simp add: begin_interface_def initial_parser_def split_name_def last_colon_def)

end
