(* ===== verification/StubLayout.thy ===== *)
theory StubLayout
  imports StubGen IdlProps
begin

text \<open>
  What the generated code does with the parameters of a task: the entries of
  \<open>arrayObjs\<close> that a stub fills, what it registers with the runtime, and the places of
  \<open>argv\<close> at which a worker looks for the values. The generated text is read by its
  formats.
\<close>

definition example_function :: function_t where
  "example_function =
     \<lparr>fn_name = ''f'', access_static = Some 0, methodname = ''f'', fn_classname = None,
      return_typename = Some '''', return_type = void_dt,
      arguments = [\<lparr>arg_name = ''s'', arg_classname = Some ''string'', arg_type = string_dt, arg_dir = in_dir\<rparr>,
                   \<lparr>arg_name = ''t'', arg_classname = Some ''string'', arg_type = string_dt, arg_dir = out_dir\<rparr>],
      argument_count = 2, exec_arg_count = 2, first_constraint = None\<rparr>"

section \<open>The entries of the parameter array\<close>

text \<open>The index that a line \<open>arrayObjs[i] = ...\<close> stores at.\<close>

definition store_of :: "emission \<Rightarrow> int list" where
  "store_of e =
     (if take 13 (fst e) = ''^t arrayObjs['' then (case snd e of Num i # _ \<Rightarrow> [i] | _ \<Rightarrow> []) else [])"

definition stores :: "emission list \<Rightarrow> int list" where
  "stores es = concat (map store_of es)"

lemma stores_simps [simp]:
  "stores [] = []" "stores (es @ fs) = stores es @ stores fs" "stores (e # es) = store_of e @ stores es"
  by (simp_all add: stores_def)

definition marshalled :: "argument \<Rightarrow> bool" where
  "marshalled a \<longleftrightarrow> arg_dir a \<notin> {out_dir, inout_dir} \<or>
     arg_type a \<in> set scalar_dts \<union> {object_dt, string_dt, wstring_dt, file_dt}"

lemma stores_argument:
  "stores (marshal_argument a i) =
     (if marshalled a then [int i, int i + 1, int i + 2] else [])"
  by (simp add: marshal_argument_def marshalled_def store_of_def)

lemma stores_this: "stores (marshal_this f i) = [int i, int i + 1, int i + 2]"
  by (simp add: marshal_this_def store_of_def)

lemma stores_return: "stores (marshal_return f i) = [int i, int i + 1, int i + 2]"
  by (simp add: marshal_return_def store_of_def)

lemma stores_arguments:
  "length (stores (marshal_arguments as j)) = 3 * length (filter marshalled as)"
  by (induction as j rule: marshal_arguments.induct) (simp_all add: stores_argument store_of_def)

lemma upto_3: "a \<le> b \<Longrightarrow> [a..b + 2] = a # (a + 1) # (a + 2) # [a + 3..b + 2]"
  by (simp add: upto_rec1 add.commute)

lemma upto_join: "0 \<le> (m::int) \<Longrightarrow> m \<le> n \<Longrightarrow> [0..m - 1] @ [m..n - 1] = [0..n - 1]"
  by (cases "m = n") (simp_all add: upto_split1 [of 0 m "n - 1"])

lemma stores_all:
  assumes "\<forall>a \<in> set as. marshalled a"
  shows "stores (marshal_arguments as j) = [3 * int j..3 * int (j + length as) - 1]"
  using assms
proof (induction as arbitrary: j)
  case (Cons a as)
  have "[3 * int j..3 * int (j + length (a # as)) - 1] =
      3 * int j # (3 * int j + 1) # (3 * int j + 2) # [3 * int (j + 1)..3 * int (j + 1 + length as) - 1]"
    using upto_3 [of "3 * int j" "3 * int (j + length as)"] by (simp add: algebra_simps)
  with Cons show ?case by (simp add: stores_argument store_of_def algebra_simps)
qed simp

definition leading :: "function_t \<Rightarrow> nat" where
  "leading f = (if is_method f then 1 else 0) + (if return_type f \<noteq> void_dt then 1 else 0)"

lemma buffer_size_leading: "buffer_size f = 3 * (int (leading f) + argument_count f)"
  by (simp add: buffer_size_def leading_def)

lemma arg_count_leading: "arg_count f = int (leading f) + argument_count f"
  by (simp add: arg_count_def leading_def)

lemma stores_marshalling:
  "stores (generate_parameter_marshalling f) =
     [0..3 * int (leading f) - 1] @ stores (marshal_arguments (arguments f) (leading f))"
  by (simp add: generate_parameter_marshalling_def Let_def leading_def stores_this stores_return
      store_of_def upto_rec1)

text \<open>
  C17. The stub of a function fills its parameter array, of three entries for each of the
  parameters it hands to the runtime (the object of a method and a result among them),
  exactly once and in order, if no output argument has a type the marshalling skips; with
  such an argument entries stay unset.
\<close>

theorem marshalling_fills_array:
  assumes "argument_count f = int (length (arguments f))"
  shows "buffer_size f = 3 * arg_count f \<and>
    (stores (generate_parameter_marshalling f) = [0..buffer_size f - 1] \<longleftrightarrow>
     (\<forall>a \<in> set (arguments f). marshalled a))"
proof -
  let ?S = "stores (generate_parameter_marshalling f)" and ?as = "arguments f"
  have len: "length ?S = 3 * leading f + 3 * length (filter marshalled ?as)"
    by (simp add: stores_marshalling stores_arguments)
  have "?S = [0..buffer_size f - 1]" if "\<forall>a \<in> set ?as. marshalled a"
    using assms that upto_join [of "3 * int (leading f)" "buffer_size f"]
    by (simp add: stores_marshalling stores_all buffer_size_leading algebra_simps)
  moreover have "\<forall>a \<in> set ?as. marshalled a" if "?S = [0..buffer_size f - 1]"
  proof -
    from that len have "length (filter marshalled ?as) = length ?as"
      using assms by (simp add: buffer_size_leading)
    then show ?thesis by (metis length_filter_less less_irrefl)
  qed
  ultimately show ?thesis by (auto simp: buffer_size_leading arg_count_leading)
qed

theorem marshalling_fills_array_witness:
  "argument_count example_function = int (length (arguments example_function)) \<and>
   stores (generate_parameter_marshalling example_function) = [0, 1, 2, 3, 4, 5]"
  using marshalling_fills_array [of example_function]
  by (simp add: example_function_def marshalled_def buffer_size_def is_method_def upto_rec1)

section \<open>What is registered with the runtime\<close>

text \<open>
  \<open>GS_register (value, datatype, direction, class, filename)\<close>: the numbers in the second
  and the third place.
\<close>

definition registered_of :: "emission \<Rightarrow> (int \<times> int) list" where
  "registered_of e =
     (if take 23 (fst e) = ''^t found = GS_register('' then
        (case snd e of [_, Num t, Num d, _, _] \<Rightarrow> [(t, d)] | _ \<Rightarrow> []) else [])"

definition registered :: "emission list \<Rightarrow> (int \<times> int) list" where
  "registered es = concat (map registered_of es)"

lemma registered_simps [simp]:
  "registered [] = []" "registered (es @ fs) = registered es @ registered fs"
  "registered (e # es) = registered_of e @ registered es"
  by (simp_all add: registered_def)

definition is_string :: "argument \<Rightarrow> bool" where
  "is_string a \<longleftrightarrow> arg_type a \<in> {string_dt, wstring_dt}"

lemma dt_code_eqs:
  "dt_code boolean_dt = 0" "dt_code char_dt = 1" "dt_code byte_dt = 2" "dt_code short_dt = 3"
  "dt_code int_dt = 4" "dt_code long_dt = 5" "dt_code float_dt = 6" "dt_code double_dt = 7"
  "dt_code string_dt = 8" "dt_code file_dt = 9" "dt_code object_dt = 10" "dt_code psco_dt = 11"
  "dt_code external_psco_dt = 12" "dt_code wchar_dt = 13" "dt_code wstring_dt = 14"
  "dt_code longlong_dt = 15" "dt_code void_dt = 16" "dt_code any_dt = 17" "dt_code null_dt = 18"
  by (simp_all add: dt_code_def dtypes_def)

lemma dir_code_eqs: "dir_code in_dir = 0" "dir_code out_dir = 1" "dir_code inout_dir = 2" "dir_code null_dir = 3"
  by (simp_all add: dir_code_def directions_def)

lemma dir_code_less: "dir_code d < 4"
  by (cases d) (simp_all add: dir_code_eqs)

text \<open>
  An output argument that is marshalled through a file is registered once. Its data type
  and its direction stand in their places for every type but the strings, whose direction is
  passed as the data type and whose data type as the direction, so the runtime is told a
  wrong type for each of them.
\<close>

theorem registered_types:
  assumes "arg_dir a \<in> {out_dir, inout_dir}" and "marshalled a" and "arg_type a \<noteq> file_dt"
  shows "\<exists>t d. registered (marshal_argument a i) = [(t, d)] \<and>
    (t = int (dt_code (arg_type a)) \<and> d = int (dir_code (arg_dir a)) \<longleftrightarrow> \<not> is_string a) \<and>
    (is_string a \<longrightarrow> t = int (dir_code (arg_dir a)) \<and> d = int (dt_code (arg_type a)))"
proof (cases "is_string a")
  case True
  then have "registered (marshal_argument a i) = [(int (dir_code (arg_dir a)), int (dt_code (arg_type a)))]"
    using assms(1) by (auto simp: marshal_argument_def is_string_def registered_of_def scalar_dts_def
        dir_arg_def type_arg_def)
  moreover have "dir_code (arg_dir a) \<noteq> dt_code (arg_type a)"
    using True dir_code_less [of "arg_dir a"] by (auto simp: is_string_def dt_code_eqs)
  ultimately show ?thesis using True by simp
next
  case False
  then have "registered (marshal_argument a i) = [(int (dt_code (arg_type a)), int (dir_code (arg_dir a)))]"
    using assms by (auto simp: marshal_argument_def is_string_def marshalled_def registered_of_def
        dir_arg_def type_arg_def)
  with False show ?thesis by simp
qed

theorem registered_types_witness:
  "\<exists>t d. registered (marshal_argument (arguments example_function ! 1) 3) = [(t, d)] \<and> t = 1 \<and> d = 8"
  using registered_types [of "arguments example_function ! 1" 3]
  by (simp add: example_function_def marshalled_def is_string_def dt_code_eqs dir_code_eqs)

section \<open>Where a worker looks for the values\<close>

text \<open>
  A parameter on the command line is its type, its stream, its prefix and its value
  (comment in \<open>generate_worker_case\<close>), and a string's value is the number of its words and
  the words (\<open>GATJob.java\<close>, \<open>ExternalExecutor.java\<close>).
\<close>

definition is_in_string :: "argument \<Rightarrow> bool" where
  "is_in_string a \<longleftrightarrow> arg_dir a = in_dir \<and> is_string a"

definition layout_length :: "nat \<Rightarrow> argument \<Rightarrow> nat" where
  "layout_length words a = 4 + (if is_in_string a then words else 0)"

text \<open>
  How far a generated line moves \<open>arg_offset\<close>: the line indented four times is the body of
  the loop over the words of a string.
\<close>

definition offset_step :: "nat \<Rightarrow> emission \<Rightarrow> nat" where
  "offset_step words e =
     (if fst e = ''^t^t^t arg_offset += 3;^n'' then 3
      else if fst e = ''^t^t^t arg_offset += 1;^n'' \<or> fst e = ''^t^t^t arg_offset += 1;^n^n'' then 1
      else if fst e = ''^t^t^t^t arg_offset += 1;^n'' then words
      else 0)"

definition advance :: "nat \<Rightarrow> emission list \<Rightarrow> nat" where
  "advance words es = sum_list (map (offset_step words) es)"

fun mentions :: "string \<Rightarrow> string \<Rightarrow> bool" where
  "mentions p [] = (p = [])"
| "mentions p (c # s) = (take (length p) (c # s) = p \<or> mentions p s)"

declare mentions.simps [simp del]

lemma mentions_formats [simp]:
  "mentions ''argv[arg_offset]'' ''^t^t^t %s = argv[arg_offset][0];^n''"
  "mentions ''argv[arg_offset]'' ''^t^t^t %s = argv[arg_offset]? 1 : 0;^n''"
  "mentions ''argv[arg_offset]'' ''^t^t^t %s = atoi(argv[arg_offset]);^n''"
  "mentions ''argv[arg_offset]'' ''^t^t^t %s = atol(argv[arg_offset]);^n''"
  "mentions ''argv[arg_offset]'' ''^t^t^t %s = atoll(argv[arg_offset]);^n''"
  "mentions ''argv[arg_offset]'' ''^t^t^t %s = strtof(argv[arg_offset], NULL);^n''"
  "mentions ''argv[arg_offset]'' ''^t^t^t %s = strtod(argv[arg_offset], NULL);^n''"
  "mentions ''argv[arg_offset]'' ''^t^t^t %s = strdup(argv[arg_offset]);^n''"
  "mentions ''argv[arg_offset]'' ''^t^t^t int %s_nwords = atoi(argv[arg_offset]);^n''"
  "mentions ''argv[arg_offset]'' ''^t^t^t char *%s_filename = strdup(argv[arg_offset]);^n''"
  "mentions ''argv[arg_offset]'' ''^t^t^t char *this_filename = strdup(argv[arg_offset]);^n''"
  "mentions ''argv[arg_offset]'' ''^t^t^t char *return_filename = strdup(argv[arg_offset]);^n''"
  "\<not> mentions ''argv[arg_offset]'' ''^t^t^t arg_offset += 3;^n''"
  "\<not> mentions ''argv[arg_offset]'' ''^t^t^t arg_offset += 1;^n''"
  "\<not> mentions ''argv[arg_offset]'' ''^t^t^t ^n''"
  "\<not> mentions ''argv[arg_offset]'' ''^t^t^t %s this_%s;^n''"
  "\<not> mentions ''argv[arg_offset]'' ''^t^t^t %s return_object;^n''"
  by code_simp+

definition first_read :: "nat \<Rightarrow> emission list \<Rightarrow> nat" where
  "first_read words es = advance words (takeWhile (\<lambda>e. \<not> mentions ''argv[arg_offset]'' (fst e)) es)"

lemma advance_simps [simp]:
  "advance w [] = 0" "advance w (e # es) = offset_step w e + advance w es"
  by (simp_all add: advance_def)

definition readable :: "argument \<Rightarrow> bool" where
  "readable a \<longleftrightarrow> arg_dir a \<noteq> null_dir \<and>
     arg_type a \<in> set scalar_dts \<union> {object_dt, string_dt, wstring_dt, file_dt}"

lemma advance_read:
  assumes "readable a"
  shows "advance w (worker_read a) = (if is_in_string a then 3 + w else 4)"
  using assms
  by (cases "arg_dir a"; cases "arg_type a")
     (simp_all add: worker_read_def worker_read_in_def worker_read_out_def readable_def is_in_string_def
       is_string_def offset_step_def scalar_dts_def)

lemma first_read_value:
  assumes "readable a"
  shows "first_read w (worker_read a) = 3"
  using assms
  by (cases "arg_dir a"; cases "arg_type a")
     (simp_all add: first_read_def worker_read_def worker_read_in_def worker_read_out_def readable_def
       offset_step_def scalar_dts_def)

lemma worker_this_reads: "first_read w (worker_this f) = 1" "advance w (worker_this f) = 2"
  by (simp_all add: first_read_def worker_this_def offset_step_def)

lemma worker_return_reads: "first_read w (worker_return f) = 1" "advance w (worker_return f) = 2"
  by (simp_all add: first_read_def worker_return_def offset_step_def)

text \<open>
  The parts of a worker case that read parameters, in their order, each with its number of
  words, and the places at which their first reads are, from an initial \<open>arg_offset\<close>.
\<close>

definition reading_parts :: "(argument \<Rightarrow> nat) \<Rightarrow> function_t \<Rightarrow> (nat \<times> emission list) list" where
  "reading_parts words f =
     (if is_method f then [(0, worker_this f)] else []) @
     (if return_type f \<noteq> void_dt then [(0, worker_return f)] else []) @
     map (\<lambda>a. (words a, worker_read a)) (arguments f)"

fun read_positions :: "(nat \<times> emission list) list \<Rightarrow> nat \<Rightarrow> nat list" where
  "read_positions [] offset = []"
| "read_positions ((w, es) # parts) offset =
     (offset + first_read w es) # read_positions parts (offset + advance w es)"

definition layout_lengths :: "(argument \<Rightarrow> nat) \<Rightarrow> function_t \<Rightarrow> nat list" where
  "layout_lengths words f =
     replicate (leading f) 4 @ map (\<lambda>a. layout_length (words a) a) (arguments f)"

fun value_positions :: "nat list \<Rightarrow> nat \<Rightarrow> nat list" where
  "value_positions [] offset = []"
| "value_positions (n # ns) offset = (offset + 3) # value_positions ns (offset + n)"

lemma argument_positions:
  assumes "\<forall>a \<in> set as. readable a"
  shows "read_positions (map (\<lambda>a. (words a, worker_read a)) as) n =
      value_positions (map (\<lambda>a. layout_length (words a) a) as) n \<longleftrightarrow>
    (\<forall>a \<in> set (butlast as). \<not> is_in_string a)"
  using assms
proof (induction as arbitrary: n)
  case (Cons a as)
  show ?case
  proof (cases as)
    case Nil
    with Cons.prems show ?thesis by (simp add: first_read_value)
  next
    case (Cons b bs)
    with Cons.IH [of "n + 4"] Cons.prems show ?thesis
      by (auto simp: first_read_value advance_read layout_length_def)
  qed
qed simp

text \<open>
  C18. For a function whose parameters all have a direction and one of the types a worker reads (numbers, characters,
  booleans, strings, files and objects; not bytes, persistent objects, \<open>void\<close> or \<open>any\<close>, for which the worker has no code and reads
  nothing), a worker reads every parameter where the command line has its value exactly when the
  function is no method, has no result, and none of its parameters but the last is an input
  string: the object and the result are looked for two places too early, and reading a string
  of \<open>n\<close> words moves on by \<open>n + 3\<close> places where it takes \<open>n + 4\<close>.
\<close>

theorem worker_finds_values:
  assumes "\<forall>a \<in> set (arguments f). readable a"
  shows "read_positions (reading_parts words f) n = value_positions (layout_lengths words f) n \<longleftrightarrow>
    \<not> is_method f \<and> return_type f = void_dt \<and> (\<forall>a \<in> set (butlast (arguments f)). \<not> is_in_string a)"
  using argument_positions [OF assms, of words n]
  by (simp add: reading_parts_def layout_lengths_def leading_def worker_this_reads worker_return_reads)

theorem worker_finds_values_witness:
  "read_positions (reading_parts (\<lambda>_. 2) example_function) 13 \<noteq>
   value_positions (layout_lengths (\<lambda>_. 2) example_function) 13"
  using worker_finds_values [of example_function "\<lambda>_. 2" 13]
  by (simp add: example_function_def readable_def is_in_string_def is_string_def)

end
