(* ===== verification/ConstraintsGen.thy ===== *)
theory ConstraintsGen
  imports StubGen
begin

text \<open>
  The generator of the constraint skeletons and their wrappers:
  \<open>trunk/compss/programming_model/bindings/c/src/gsstubgen/c-constraints-backend.c\<close>. Its three
  entry points are compiled with the stub generator and can be called by \<open>main\<close>, where the
  calls are at present inside a comment.
\<close>

definition old_c_types :: "string list" where
  "old_c_types = [''void'', ''char'', ''char'', ''int'', ''void *'', ''short'', ''long'', ''long long'',
     ''int'', ''float'', ''double'', ''file'', ''char *'', ''char *'', ''error'']"

record constraint_outputs =
  constraintsFile :: "emission list"
  wrapperFile :: "emission list"
  constraintsInclude :: "emission list"

text \<open>The test \<open>arg->dir == in_dir || arg->dir == inout_dir\<close> of every loop.\<close>

definition is_input :: "argument \<Rightarrow> bool" where
  "is_input a \<longleftrightarrow> arg_dir a = in_dir \<or> arg_dir a = inout_dir"

section \<open>The prologue\<close>

definition wrapper_prototypes :: "function_t list \<Rightarrow> emission list" where
  \<open>wrapper_prototypes fs =
     [(''// Prototypes^n'', [])] @
     concat (map (\<lambda>f. [(''ClassAd %s_constraints_wrapper(char **_parameters, int OpId, int nparams);^n'', [text_of (fn_name f)]),
      (''double %s_cost_wrapper(char **_parameters, int OpId, int nparams);^n'', [text_of (fn_name f)])]) fs) @
     [(''^n^n'', [])]\<close>

definition wrapper_pointers :: "emission list" where
  \<open>wrapper_pointers =
     [(''// Pointers to function tables^n'', []),
      (''constraints_wrapper * constraints_functions;^n'', []),
      (''cost_wrapper * cost_functions;^n^n'', [])]\<close>

fun init_loop :: "nat \<Rightarrow> function_t list \<Rightarrow> emission list" where
  \<open>init_loop i [] = []\<close>
| \<open>init_loop i (f # fs) =
     [(''   constraints_functions[%d] = &%s_constraints_wrapper;^n'', [Num (int i), text_of (fn_name f)]),
      (''   cost_functions[%d] = &%s_cost_wrapper;^n'', [Num (int i), text_of (fn_name f)])] @
     init_loop (i + 1) fs\<close>

definition initConstraints_function :: "int \<Rightarrow> function_t list \<Rightarrow> emission list" where
  \<open>initConstraints_function ops fs =
     [(''void initConstraints()^n'', []),
      (''{^n'', []),
      (''   int Ops = %d;^n^n'', [Num ops]),
      (''   // Allocate memory for function pointers^n'', []),
      (''   constraints_functions = new constraints_wrapper[Ops];^n'', []),
      (''   cost_functions = new cost_wrapper[Ops];^n^n'', [])] @
     init_loop 0 fs @
     [(''}^n'', []),
      (''^n^n'', [])]\<close>

definition finConstraints_function :: "emission list" where
  \<open>finConstraints_function =
     [(''void finConstraints()^n'', []),
      (''{^n'', []),
      (''   // Free memory allocated for function arrays^n'', []),
      (''   delete constraints_functions;^n'', []),
      (''   delete cost_functions;^n'', []),
      (''}^n'', []),
      (''^n^n'', [])]\<close>

definition constraints_prolog_text :: "string \<Rightarrow> string \<Rightarrow> emission list" where
  \<open>constraints_prolog_text filename includeName =
     [(''/* This file has been autogenerated from '%s'. */^n'', [text_of filename]),
      (''/* Generator component: $Id: c-constraints-backend.c,v 1.2 2004/11/19 10:00:34 perez Exp $ */^n'', []),
      (''/* You can customize this file to your needs */^n'', []),
      (''^n'', []),
      (''static const char gs_generator[]="$Id: c-constraints-backend.c,v 1.2 2004/11/19 10:00:34 perez Exp $";^n'', []),
      (''^n'', []),
      (''#include <string>^n'', []),
      (''#include "%s"^n'', [text_of includeName]),
      (''^n^n'', []),
      (''using namespace std;^n'', []),
      (''^n^n'', [])]\<close>

definition wrapper_prolog_text :: "string \<Rightarrow> string \<Rightarrow> emission list" where
  \<open>wrapper_prolog_text filename includeName =
     [(''/* This file has been autogenerated from '%s'. */^n'', [text_of filename]),
      (''/* Generator component: $Id: c-constraints-backend.c,v 1.2 2004/11/19 10:00:34 perez Exp $ */^n'', []),
      (''/* CHANGES TO THIS FILE WILL BE LOST */^n'', []),
      (''^n'', []),
      (''static const char gs_generator[]="$Id: c-constraints-backend.c,v 1.2 2004/11/19 10:00:34 perez Exp $";^n'', []),
      (''^n'', []),
      (''#include <stdio.h>^n'', []),
      (''#include <stdlib.h>^n'', []),
      (''#include <limits.h>^n'', []),
      (''#include <string.h>^n'', []),
      (''#include <string>^n'', []),
      (''#include <classad_distribution.h>^n'', []),
      (''#include <gs_base64.h>^n'', []),
      (''#include "%s"^n'', [text_of includeName]),
      (''^n^n'', []),
      (''using namespace std;^n'', []),
      (''^n^n'', []),
      (''typedef ClassAd (*constraints_wrapper) (char **_parameters, int OpId, int nparams);^n'', []),
      (''typedef double (*cost_wrapper) (char **_parameters, int OpId, int nparams);^n'', []),
      (''^n^n'', [])]\<close>

definition constraints_include_text :: "string \<Rightarrow> string \<Rightarrow> string \<Rightarrow> emission list" where
  \<open>constraints_include_text filename base includeName =
     [(''/* This file has been autogenerated from '%s'. */^n'', [text_of filename]),
      (''/* Generator component: $Id: c-constraints-backend.c,v 1.2 2004/11/19 10:00:34 jorgee Exp $ */^n'', []),
      (''/* CHANGES TO THIS FILE WILL BE LOST */^n'', []),
      (''^n'', []),
      (''#ifndef _GSS_'', [])] @
     upper_or_underscore includeName @
     [(''^n'', []),
      (''#define _GSS_'', [])] @
     upper_or_underscore includeName @
     [(''^n'', []),
      (''^n'', []),
      (''#include <string>^n'', []),
      (''^n'', []),
      (''using namespace std;'', []),
      (''^n'', []),
      (''typedef char* file;^n'', []),
      (''^n'', []),
      (''/* Functions to be implemented in file '%s_constraints.cc'. */^n'', [text_of base]),
      (''^n'', [])]\<close>

text \<open>
  The skeletons are not written over an older file of theirs: the result has the name of
  the file that is written instead.
\<close>

definition generate_c_constraints_prolog ::
  "bool \<Rightarrow> (string \<Rightarrow> bool) \<Rightarrow> parser \<Rightarrow> files \<Rightarrow> (constraint_outputs \<times> string \<times> string \<times> files) res" where
  "generate_c_constraints_prolog do_backups can_write p fs =
     andthen (get_filename_base (idl_filename p)) (\<lambda>base.
     andthen (copy_append base ''_constraints.cc'') (\<lambda>name.
     andthen (case create_without_overwrite do_backups can_write name fs of
                None \<Rightarrow> Inl (Exit 1) | Some r \<Rightarrow> Inr r) (\<lambda>(skeletons, fs).
     andthen (open_output do_backups can_write base ''_constraints_wrapper.cc'' fs) (\<lambda>(n2, fs).
     andthen (open_output do_backups can_write base ''_constraints.h'' fs) (\<lambda>(includeName, fs).
     andthen (get_first_function p) (\<lambda>functions.
       let filename = the (idl_filename p) in
       Inr (\<lparr>constraintsFile = constraints_prolog_text filename includeName,
             wrapperFile = wrapper_prolog_text filename includeName @ wrapper_prototypes functions @
               wrapper_pointers @ initConstraints_function (function_count p) functions @
               finConstraints_function,
             constraintsInclude = constraints_include_text filename base includeName\<rparr>,
            skeletons, includeName, fs)))))))"

section \<open>Prototypes and calls\<close>

text \<open>
  The two loops over the inputs, with \<open>is_first_arg\<close> as the argument \<open>first\<close>: a comma stands
  in front of every input but the first, and in front of that too for a description.
\<close>

fun call_parameters_loop :: "bool \<Rightarrow> string \<Rightarrow> argument list \<Rightarrow> emission list" where
  \<open>call_parameters_loop first suffix [] = []\<close>
| \<open>call_parameters_loop first suffix (a # as) =
     (if is_input a then
        (if \<not> first \<or> suffix = ''description'' then [('', '', [])] else []) @
        [(''%s'', [name_of a])] @
        call_parameters_loop False suffix as
      else call_parameters_loop first suffix as)\<close>

definition generate_c_constraints_call_parameters :: "string \<Rightarrow> function_t \<Rightarrow> emission list" where
  "generate_c_constraints_call_parameters suffix f = call_parameters_loop True suffix (arguments f)"

fun constraints_prototype_loop :: "bool \<Rightarrow> string \<Rightarrow> argument list \<Rightarrow> emission list" where
  \<open>constraints_prototype_loop first suffix [] = []\<close>
| \<open>constraints_prototype_loop first suffix (a # as) =
     (if is_input a then
        (if \<not> first \<or> suffix = ''description'' then [('', '', [])] else []) @
        [(''%s '', [table_text old_c_types (arg_type a)]),
      (''%s'', [name_of a])] @
        constraints_prototype_loop False suffix as
      else constraints_prototype_loop first suffix as)\<close>

definition generate_c_constraints_prototype :: "function_t \<Rightarrow> string \<Rightarrow> string \<Rightarrow> emission list" where
  \<open>generate_c_constraints_prototype f suffix return_text =
     [(''%s %s_%s('', [text_of return_text, text_of (fn_name f), text_of suffix])] @
     (if suffix = ''description'' then [(''int *numCPUs, char **jobType '', [])] else []) @
     constraints_prototype_loop True suffix (arguments f) @
     [('')'', [])]\<close>

definition generate_c_constraints_skeletons :: "function_t \<Rightarrow> emission list" where
  \<open>generate_c_constraints_skeletons f =
     generate_c_constraints_prototype f ''constraints'' ''string'' @
     [(''^n'', []),
      (''{^n'', []),
      (''   return "true";^n'', []),
      (''}^n'', []),
      (''^n^n'', [])] @
     generate_c_constraints_prototype f ''cost'' ''double'' @
     [(''^n'', []),
      (''{^n'', []),
      (''   return 1.0;^n'', []),
      (''}^n'', []),
      (''^n^n'', [])] @
     generate_c_constraints_prototype f ''description'' ''void'' @
     [(''^n'', []),
      (''{^n'', []),
      (''   *numCPUs = 1;^n'', []),
      (''   *jobType = "sequential";^n'', []),
      (''}^n'', []),
      (''^n^n'', [])]\<close>

section \<open>The wrappers\<close>

definition wrapper_buffer :: "argument \<Rightarrow> emission list" where
  \<open>wrapper_buffer a = (if is_input a then
     (if arg_type a \<in> set scalar_dts \<or> arg_type a = file_dt then
       [(''   char *buff_%s;^n'', [name_of a])]
     else if arg_type a = string_dt then
       [(''   char *base64buff_%s;^n'', [name_of a])]
     else []) else [])\<close>

definition wrapper_variable :: "argument \<Rightarrow> emission list" where
  \<open>wrapper_variable a = (if is_input a then
     (if arg_type a \<in> set [char_dt, wchar_dt] then
       [(''   char %s;^n'', [name_of a])]
     else if arg_type a = boolean_dt then
       [(''   int %s;^n'', [name_of a])]
     else if arg_type a = short_dt then
       [(''   short %s;^n'', [name_of a])]
     else if arg_type a = long_dt then
       [(''   long %s;^n'', [name_of a])]
     else if arg_type a = longlong_dt then
       [(''   long long %s;^n'', [name_of a])]
     else if arg_type a = int_dt then
       [(''   int %s;^n'', [name_of a])]
     else if arg_type a = float_dt then
       [(''   float %s;^n'', [name_of a])]
     else if arg_type a = double_dt then
       [(''   double %s;^n'', [name_of a])]
     else if arg_type a = file_dt then
       [(''   char *%s;^n'', [name_of a])]
     else if arg_type a = string_dt then
       [(''   char *%s;^n'', [name_of a])]
     else []) else [])\<close>

definition wrapper_allocate :: "argument \<Rightarrow> emission list" where
  \<open>wrapper_allocate a = (if is_input a then
     (if arg_type a = string_dt then
       [(''   %s = (char *)malloc(atoi(getenv("GS_GENLENGTH"))+1);^n'', [name_of a])]
     else []) else [])\<close>

definition wrapper_read_file :: "argument \<Rightarrow> emission list" where
  \<open>wrapper_read_file a = (if is_input a \<and> arg_type a = file_dt then
     [(''   buff_%s = *(_argp++);^n'', [name_of a])] else [])\<close>

definition wrapper_read_other :: "argument \<Rightarrow> emission list" where
  \<open>wrapper_read_other a = (if is_input a \<and> arg_type a \<noteq> file_dt then
     (if arg_type a \<in> set [char_dt, wchar_dt] then
       [(''   buff_%s = *(_argp++);^n'', [name_of a])]
     else if arg_type a = boolean_dt then
       [(''   buff_%s = *(_argp++);^n'', [name_of a])]
     else if arg_type a = short_dt then
       [(''   buff_%s = *(_argp++);^n'', [name_of a])]
     else if arg_type a = long_dt then
       [(''   buff_%s = *(_argp++);^n'', [name_of a])]
     else if arg_type a = longlong_dt then
       [(''   buff_%s = *(_argp++);^n'', [name_of a])]
     else if arg_type a = int_dt then
       [(''   buff_%s = *(_argp++);^n'', [name_of a])]
     else if arg_type a \<in> set [float_dt, double_dt] then
       [(''   buff_%s = *(_argp++);^n'', [name_of a])]
     else if arg_type a = file_dt then
       [(''   buff_%s = *(_argp++);^n'', [name_of a])]
     else if arg_type a = string_dt then
       [(''   base64buff_%s = *(_argp++);^n'', [name_of a])]
     else []) else [])\<close>

definition wrapper_convert :: "argument \<Rightarrow> emission list" where
  \<open>wrapper_convert a = (if is_input a then
     (if arg_type a \<in> set [char_dt, wchar_dt] then
       [(''   %s = buff_%s[0];^n'', [name_of a, name_of a])]
     else if arg_type a = boolean_dt then
       [(''   %s = atoi(buff_%s);^n'', [name_of a, name_of a])]
     else if arg_type a = short_dt then
       [(''   %s = atoi(buff_%s);^n'', [name_of a, name_of a])]
     else if arg_type a = long_dt then
       [(''   %s = atol(buff_%s);^n'', [name_of a, name_of a])]
     else if arg_type a = longlong_dt then
       [(''   %s = atoll(buff_%s);^n'', [name_of a, name_of a])]
     else if arg_type a = int_dt then
       [(''   %s = atoi(buff_%s);^n'', [name_of a, name_of a])]
     else if arg_type a \<in> set [float_dt, double_dt] then
       [(''   %s = strtod(buff_%s, NULL);^n'', [name_of a, name_of a])]
     else if arg_type a = file_dt then
       [(''   %s = buff_%s;^n'', [name_of a, name_of a])]
     else if arg_type a = string_dt then
       [(''   gs_b64_pton(base64buff_%s, %s, atoi(getenv("GS_GENLENGTH"))+1);^n'', [name_of a, name_of a])]
     else []) else [])\<close>

definition wrapper_free :: "argument \<Rightarrow> emission list" where
  \<open>wrapper_free a = (if is_input a \<and> arg_type a \<noteq> file_dt then
     (if arg_type a = string_dt then
       [(''   free(%s);^n'', [name_of a])]
     else []) else [])\<close>

definition wrapper_function_prolog :: "function_t \<Rightarrow> emission list" where
  \<open>wrapper_function_prolog f =
     [(''   char **_argp;^n'', []),
      (''^n'', []),
      (''   // Generic buffers^n'', [])] @
     concat (map wrapper_buffer (arguments f)) @
     [(''^n'', []),
      (''   // Real parameters^n'', [])] @
     concat (map wrapper_variable (arguments f)) @
     [(''^n'', []),
      (''   // Allocate buffers^n'', [])] @
     concat (map wrapper_allocate (arguments f)) @
     [(''^n'', []),
      (''   // Read parameters^n'', []),
      (''   _argp = _parameters;^n'', [])] @
     concat (map wrapper_read_file (arguments f)) @
     concat (map wrapper_read_other (arguments f)) @
     [(''^n'', []),
      (''   //Datatype conversion^n'', [])] @
     concat (map wrapper_convert (arguments f)) @
     [(''^n'', [])]\<close>

definition wrapper_function_epilogue :: "function_t \<Rightarrow> emission list" where
  \<open>wrapper_function_epilogue f =
     [(''   // Free buffers^n'', [])] @
     concat (map wrapper_free (arguments f)) @
     [(''^n'', [])]\<close>

definition constraints_wrapper :: "function_t \<Rightarrow> emission list" where
  \<open>constraints_wrapper f =
     [(''ClassAd %s_constraints_wrapper(char **_parameters, int OpId, int nparams) {^n'', [text_of (fn_name f)])] @
     wrapper_function_prolog f @
     [(''   ^n//Description function parameters^n'', []),
      (''   int numCPUs;^n'', []),
      (''   char *jobType;^n'', []),
      (''   %s_description( &numCPUs, &jobType '', [text_of (fn_name f)])] @
     generate_c_constraints_call_parameters ''description'' f @
     [('');^n'', []),
      (''   string _constraints = %s_constraints('', [text_of (fn_name f)])] @
     generate_c_constraints_call_parameters ''constraints'' f @
     [('');^n'', []),
      (''^n'', []),
      (''   ClassAd _ad;^n'', []),
      (''   ClassAdParser _parser;^n'', []),
      (''   _ad.Insert("Requirements", _parser.ParseExpression(_constraints));^n'', []),
      (''   _ad.InsertAttr("numCPUs", numCPUs);^n'', []),
      (''   _ad.InsertAttr("jobType", jobType);^n'', []),
      (''^n'', [])] @
     wrapper_function_epilogue f @
     [(''   return _ad;^n'', []),
      (''}^n'', []),
      (''^n^n'', [])]\<close>

definition cost_wrapper :: "function_t \<Rightarrow> emission list" where
  \<open>cost_wrapper f =
     [(''double %s_cost_wrapper(char **_parameters, int OpId, int nparams) {^n'', [text_of (fn_name f)])] @
     wrapper_function_prolog f @
     [(''   double _cost = %s_cost('', [text_of (fn_name f)])] @
     generate_c_constraints_call_parameters ''cost'' f @
     [('');^n'', []),
      (''^n'', [])] @
     wrapper_function_epilogue f @
     [(''   return _cost;^n'', []),
      (''}^n'', []),
      (''^n^n'', [])]\<close>

section \<open>The body and the epilogue\<close>

definition constraints_body_step :: "function_t \<Rightarrow> constraint_outputs \<Rightarrow> constraint_outputs" where
  \<open>constraints_body_step f out =
     out\<lparr>constraintsInclude := constraintsInclude out @
             generate_c_constraints_prototype f ''constraints'' ''string'' @ [('';^n'', [])] @
             generate_c_constraints_prototype f ''cost'' ''double'' @ [('';^n'', [])] @
             generate_c_constraints_prototype f ''description'' ''void'' @ [('';^n'', [])],
         constraintsFile := constraintsFile out @ generate_c_constraints_skeletons f,
         wrapperFile := wrapperFile out @ constraints_wrapper f @ cost_wrapper f\<rparr>\<close>

definition generate_c_constraints_body :: "function_t list \<Rightarrow> constraint_outputs \<Rightarrow> constraint_outputs" where
  "generate_c_constraints_body fs out = fold constraints_body_step fs out"

definition generate_c_constraints_epilogue :: "string \<Rightarrow> constraint_outputs \<Rightarrow> constraint_outputs" where
  \<open>generate_c_constraints_epilogue includeName out =
     out\<lparr>constraintsInclude := constraintsInclude out @
             [(''^n'', []),
      (''#endif /* _GSS_'', [])] @
             upper_or_underscore includeName @ [('' */^n'', [])]\<rparr>\<close>

end
