(* ===== verification/StubFiles.thy ===== *)
theory StubFiles
  imports StubGen IdlProps
begin

text \<open>
  The stub generator as a program: the text of a prototype, the output files and the backups
  of older ones, and the run from a parsed interface to the four files.
\<close>

section \<open>The text of a prototype\<close>

text \<open>The C type of each data type that a parameter can have, apart from the classes.\<close>

fun c_name :: "dtype \<Rightarrow> string" where
  "c_name boolean_dt = ''int''"
| "c_name char_dt = ''char''"
| "c_name wchar_dt = ''char''"
| "c_name short_dt = ''short''"
| "c_name int_dt = ''int''"
| "c_name long_dt = ''long''"
| "c_name longlong_dt = ''long long''"
| "c_name float_dt = ''float''"
| "c_name double_dt = ''double''"
| "c_name string_dt = ''char *''"
| "c_name wstring_dt = ''char *''"
| "c_name file_dt = ''file''"
| "c_name _ = ''void''"

definition declarable :: "dtype \<Rightarrow> bool" where
  "declarable t \<longleftrightarrow> t \<in> set scalar_dts \<union> {object_dt, string_dt, wstring_dt, file_dt}"

definition decl_text :: "idl_argument \<Rightarrow> string" where
  "decl_text a = (case a of IdlArg dir t cls name \<Rightarrow>
     if t = object_dt then cls @ '' *'' @ name
     else if dir = in_dir \<or> t = file_dt then c_name t @ '' '' @ name
     else c_name t @ '' *'' @ name)"

fun comma_list :: "string list \<Rightarrow> string" where
  "comma_list [] = []"
| "comma_list [s] = s"
| "comma_list (s # t # ss) = s @ '', '' @ comma_list (t # ss)"

text \<open>A result of a primitive type is left without its type.\<close>

fun result_text :: "idl_return \<Rightarrow> string" where
  "result_text (ReturnType t) = (if t = void_dt then ''void'' else '''')"
| "result_text (ReturnObject c) = c"
| "result_text (ReturnStaticObject c) = c"

lemma c_tables:
  "declarable t \<Longrightarrow> t \<noteq> object_dt \<Longrightarrow> table_text c_out_types t = Str (Inr (c_name t))"
  "table_text c_types void_dt = Str (Inr ''void'')"
  by (cases t; simp add: declarable_def scalar_dts_def table_text_def c_out_types_def array_get_def
      in_range_def dt_code_def dtypes_def)
     (simp add: table_text_def c_types_def array_get_def in_range_def dt_code_def dtypes_def)

lemma render_argument:
  assumes "declarable (idl_type a)"
  shows "render (prototype_argument (the_argument a)) = Inr (decl_text a)"
proof (cases a)
  case (IdlArg dir t cls name)
  have group: "t \<in> set scalar_dts \<or> t = object_dt \<or> t \<in> set [string_dt, wstring_dt] \<or> t = file_dt"
    using assms IdlArg by (auto simp: declarable_def idl_type_def)
  show ?thesis
  proof (cases "t = object_dt")
    case True
    with IdlArg show ?thesis
      by (simp add: prototype_argument_def the_argument_def decl_text_def scalar_dts_def name_of_def
          class_of_def pointer_text_def show_arg_def)
  next
    case False
    have "file_dt \<notin> set scalar_dts" "string_dt \<notin> set scalar_dts" "wstring_dt \<notin> set scalar_dts"
      by (simp_all add: scalar_dts_def)
    with IdlArg False group assms c_tables(1) [of t] show ?thesis
      by (auto simp: prototype_argument_def the_argument_def decl_text_def idl_type_def name_of_def
          show_arg_def)
  qed
qed

lemma render_separated:
  assumes "\<forall>a \<in> set as. declarable (idl_type a)"
  shows "render (separated ('', '', []) prototype_argument (map the_argument as)) =
    Inr (comma_list (map decl_text as))"
  using assms
  by (induction as rule: induct_list012) (simp_all add: render_append render_argument)

text \<open>
  The prototype printed for a parsed function declares its parameters in order, each with
  the C type of its data type, by value if it is an input that is no object and no file. A
  void function and one that returns an object get that type; a primitive result type is
  lost, and nothing stands in front of the name.
\<close>

theorem prototype_text:
  assumes "proper_arguments (proto_args q)" and "\<forall>a \<in> set (proto_args q). declarable (idl_type a)"
  shows "render (generate_prototype (the_function q)) =
    Inr (result_text (proto_return q) @ '' '' @ proto_name q @ ''('' @
      comma_list (map decl_text (proto_args q)) @ '')'')"
proof -
  have as: "arguments (the_function q) = map the_argument (proto_args q)"
    using kept_all [OF assms(1)] by (simp add: the_function_def Let_def split: prod.split)
  have ret: "return_type (the_function q) = fst (return_of (proto_return q))"
    "return_typename (the_function q) = Some (fst (snd (return_of (proto_return q))))"
    by (simp_all add: the_function_def Let_def split: prod.split)
  show ?thesis
    using assms(2)
    by (cases "proto_return q")
       (simp_all add: generate_prototype_def render_append render_separated as ret return_of_def
         fn_return_def pointer_text_def text_of_def show_arg_def c_tables(2))
qed

definition example_prototype :: idl_prototype where
  "example_prototype =
     \<lparr>proto_return = ReturnType int_dt, proto_name = ''sum'',
      proto_args = [IdlArg in_dir double_dt '''' ''x'', IdlArg inout_dir object_dt ''M'' ''m''],
      proto_constraints = []\<rparr>"

theorem prototype_text_witness:
  "proper_arguments (proto_args example_prototype) \<and>
   render (generate_prototype (the_function example_prototype)) = Inr '' sum(double x, M *m)''"
  using prototype_text [of example_prototype]
  by (simp add: example_prototype_def proper_arguments_def idl_name_def idl_type_def declarable_def
      scalar_dts_def decl_text_def)

section \<open>The output files\<close>

definition suffixes :: "string list" where
  "suffixes = [''-stubs.cc'', ''-worker.cc'', ''.h'', ''-constraints'']"

lemma rename_Inr:
  "rename_if_clash b name fs = Inr fs' \<longleftrightarrow>
     (b \<and> fs name \<noteq> None \<longrightarrow> length name + 1 < PATH_MAX) \<and>
     fs' = (if b \<and> fs name \<noteq> None then (fs(name @ ''~'' := fs name))(name := None) else fs)"
  by (auto simp: rename_if_clash_def copy_append_def split: option.splits)

lemma open_output_Inr:
  "open_output b cw base suffix fs = Inr (name, fs') \<longleftrightarrow>
     length base + length suffix < PATH_MAX \<and> name = base @ suffix \<and> cw name \<and>
     (b \<and> fs name \<noteq> None \<longrightarrow> length name + 1 < PATH_MAX) \<and>
     fs' = (if b \<and> fs name \<noteq> None then fs(name @ ''~'' := fs name, name \<mapsto> []) else fs(name \<mapsto> []))"
  by (auto simp: open_output_def copy_append_def andthen_Inr_iff rename_Inr open_write_def fun_upd_upd
      split: option.splits if_splits)

text \<open>
  When the generator has opened its files with backups, each of the four output files is
  empty, the text an output file had before is in the file of its name with a tilde, and no
  other file has changed.
\<close>

theorem prolog_keeps_texts:
  assumes "generate_prolog True cw (Some fn) fs = Inr (out, inc, fs')"
    and "get_filename_base (Some fn) = Inr base"
  shows "(\<forall>s \<in> set suffixes. fs' (base @ s) = Some [] \<and>
      (fs (base @ s) \<noteq> None \<longrightarrow> fs' (base @ s @ ''~'') = fs (base @ s))) \<and>
    (\<forall>n. n \<notin> (\<lambda>s. base @ s) ` set suffixes \<union> (\<lambda>s. base @ s @ ''~'') ` set suffixes \<longrightarrow> fs' n = fs n)"
proof -
  from assms obtain fs1 fs2 fs3 where
    "open_output True cw base ''-stubs.cc'' fs = Inr (base @ ''-stubs.cc'', fs1)"
    "open_output True cw base ''-worker.cc'' fs1 = Inr (base @ ''-worker.cc'', fs2)"
    "open_output True cw base ''.h'' fs2 = Inr (base @ ''.h'', fs3)"
    "open_output True cw base ''-constraints'' fs3 = Inr (base @ ''-constraints'', fs')"
    by (auto simp: generate_prolog_def andthen_Inr_iff open_output_Inr)
  then show ?thesis
    by (auto simp: open_output_Inr suffixes_def split: if_splits)
qed

theorem prolog_keeps_texts_witness:
  "\<exists>out inc fs'. generate_prolog True (\<lambda>_. True) (Some ''a.idl'') [''a.h'' \<mapsto> ''old''] = Inr (out, inc, fs') \<and>
     fs' ''a.h~'' = Some ''old''"
proof -
  have base: "get_filename_base (Some ''a.idl'') = Inr ''a''"
    by (simp add: get_filename_base_def PATH_MAX_def)
  then obtain out inc fs' where
    r: "generate_prolog True (\<lambda>_. True) (Some ''a.idl'') [''a.h'' \<mapsto> ''old''] = Inr (out, inc, fs')"
    by (simp add: generate_prolog_def open_output_def copy_append_def rename_if_clash_def open_write_def
        PATH_MAX_def)
  from prolog_keeps_texts [OF r base] r show ?thesis by (auto simp: suffixes_def)
qed

section \<open>From the interface to the files\<close>

lemma generate_functions_outcome:
  "if \<forall>f \<in> set fs. first_constraint f \<noteq> None then \<exists>out'. generate_functions fs out = Inr out'
   else generate_functions fs out = Inl Uninitialised"
proof (induction fs arbitrary: out)
  case (Cons f fs)
  show ?case
    using Cons.IH by (cases "first_constraint f") (simp_all add: generate_function_def generate_constraints_def)
qed simp

lemma base_of_idl:
  assumes "length base < PATH_MAX"
  shows "get_filename_base (Some (base @ ''.idl'')) = Inr base"
  using assms by (simp add: get_filename_base_def)

lemma prolog_returns:
  assumes "length base + 13 < PATH_MAX"
  shows "\<exists>out inc fs'. generate_prolog b (\<lambda>_. True) (Some (base @ ''.idl'')) fs = Inr (out, inc, fs')"
proof -
  have opens: "\<exists>fs'. open_output b (\<lambda>_. True) base s fs = Inr (base @ s, fs')"
    if "s \<in> set suffixes" for s fs
    using that assms by (auto simp: open_output_Inr suffixes_def PATH_MAX_def)
  from opens [of "''-stubs.cc''" fs] obtain fs1
    where 1: "open_output b (\<lambda>_. True) base ''-stubs.cc'' fs = Inr (base @ ''-stubs.cc'', fs1)"
    by (auto simp: suffixes_def)
  from opens [of "''-worker.cc''" fs1] obtain fs2
    where 2: "open_output b (\<lambda>_. True) base ''-worker.cc'' fs1 = Inr (base @ ''-worker.cc'', fs2)"
    by (auto simp: suffixes_def)
  from opens [of "''.h''" fs2] obtain fs3
    where 3: "open_output b (\<lambda>_. True) base ''.h'' fs2 = Inr (base @ ''.h'', fs3)"
    by (auto simp: suffixes_def)
  from opens [of "''-constraints''" fs3] obtain fs4
    where 4: "open_output b (\<lambda>_. True) base ''-constraints'' fs3 = Inr (base @ ''-constraints'', fs4)"
    by (auto simp: suffixes_def)
  show ?thesis
    using assms by (simp add: generate_prolog_def base_of_idl 1 2 3 4)
qed

lemma idl_filename_actions:
  "a \<in> set (return_actions r) \<Longrightarrow> a p = Inr p' \<Longrightarrow> idl_filename p' = idl_filename p"
  "argument_action x p = Inr p' \<Longrightarrow> idl_filename p' = idl_filename p"
  by (cases r; auto simp: add_static_def add_return_type_def set_function_def)
     (cases x; auto simp: add_argument_def set_function_def Let_def split: if_splits)

lemma idl_filename_run:
  "a p = Inr p' \<Longrightarrow> a \<in> set (interface_actions name qs) \<Longrightarrow> idl_filename p' = idl_filename p"
  by (auto simp: interface_actions_def prototype_actions_def begin_interface_def end_interface_def
      begin_function_def begin_arguments_def end_arguments_def end_function_def add_constraint_def
      set_function_def Let_def dest: idl_filename_actions split: if_splits prod.splits)

lemma run_keeps_filename:
  assumes "run as p = Inr p'" and "set as \<subseteq> set (interface_actions name qs)"
  shows "idl_filename p' = idl_filename p"
  using assms
proof (induction as arbitrary: p)
  case (Cons a as)
  from Cons.prems obtain q where "a p = Inr q" "run as q = Inr p'" by auto
  with Cons.IH [of q] Cons.prems(2) idl_filename_run [of a p q name qs] show ?case by auto
qed simp

text \<open>What the generator does with the parsed interface.\<close>

lemma stub_main_outcome:
  assumes "proper_names qs" and "proper_prototypes qs" and "length base + 13 < PATH_MAX"
    and "run (interface_actions name qs) (set_filename (base @ ''.idl'') initial_parser) = Inr p"
  shows "if \<forall>q \<in> set qs. proto_constraints q \<noteq> []
    then \<exists>out fs'. stub_main b (\<lambda>_. True) p fs = Inr (0, Some out, fs')
    else stub_main b (\<lambda>_. True) p fs = Inl Uninitialised"
proof -
  let ?p0 = "set_filename (base @ ''.idl'') initial_parser"
  have "main_interface ?p0 = None" "\<not> has_errors ?p0"
    by (simp_all add: set_filename_def initial_parser_def)
  from run_interface [OF this assms(1), of name] assms(2,4) have
    p: "get_first_function p = Inr (map the_function qs)" "can_generate p"
    by (auto simp: get_first_function_def the_interface_def can_generate_def)
  from run_keeps_filename [OF assms(4) subset_refl] have fn: "idl_filename p = Some (base @ ''.idl'')"
    by (simp add: set_filename_def)
  from prolog_returns [OF assms(3)] obtain out inc fs'
    where pro: "generate_prolog b (\<lambda>_. True) (Some (base @ ''.idl'')) fs = Inr (out, inc, fs')" by blast
  have constrained: "first_constraint (the_function q) \<noteq> None \<longleftrightarrow> proto_constraints q \<noteq> []" for q
    by (simp add: the_function_def Let_def split: prod.split)
  have body: "if \<forall>q \<in> set qs. proto_constraints q \<noteq> []
    then \<exists>out'. generate_body (Some (base @ ''.idl'')) (map the_function qs) out = Inr out'
    else generate_body (Some (base @ ''.idl'')) (map the_function qs) out = Inl Uninitialised"
    using generate_functions_outcome [of "map the_function qs"] constrained assms(3)
    by (simp add: generate_body_def base_of_idl)
  show ?thesis
    using body p fn pro by (auto simp: stub_main_def split: if_splits)
qed

text \<open>
  C20. A correct interface with properly named functions is parsed. The generator then, when the name of the interface file is
  short enough and all files can be written, produces its four files with result 0 if every function has a constraint;
  and otherwise it reads the list of constraints of a function without any, which is a pointer that was never set.
\<close>

theorem stub_main_needs_constraints:
  assumes "proper_names qs" and "proper_prototypes qs" and "length base + 13 < PATH_MAX"
  shows "\<exists>p. run (interface_actions name qs) (set_filename (base @ ''.idl'') initial_parser) = Inr p \<and>
    (if \<forall>q \<in> set qs. proto_constraints q \<noteq> []
     then \<exists>out fs'. stub_main b (\<lambda>_. True) p fs = Inr (0, Some out, fs')
     else stub_main b (\<lambda>_. True) p fs = Inl Uninitialised)"
proof -
  let ?p0 = "set_filename (base @ ''.idl'') initial_parser"
  have "main_interface ?p0 = None" "\<not> has_errors ?p0"
    by (simp_all add: set_filename_def initial_parser_def)
  from run_interface [OF this assms(1), of name] assms(2) obtain p where
    "run (interface_actions name qs) ?p0 = Inr p" by auto
  then show ?thesis using stub_main_outcome [OF assms] by blast
qed

text \<open>An interface whose function has no constraint, and the same with one.\<close>

definition constrained_prototype :: idl_prototype where
  "constrained_prototype = example_prototype\<lparr>proto_constraints := [''CPU'']\<rparr>"

lemma example_prototypes_proper:
  "proper_names [example_prototype]" "proper_prototypes [example_prototype]"
  "proper_names [constrained_prototype]" "proper_prototypes [constrained_prototype]" "length ''a'' + 13 < PATH_MAX"
  by (simp_all add: proper_names_def proper_prototypes_def constrained_prototype_def example_prototype_def split_name_def last_colon_def
      proper_arguments_def idl_name_def idl_type_def PATH_MAX_def)

theorem stub_main_needs_constraints_witness:
  "(\<exists>p. run (interface_actions ''I'' [example_prototype]) (set_filename (''a'' @ ''.idl'') initial_parser) = Inr p \<and>
     stub_main True (\<lambda>_. True) p Map.empty = Inl Uninitialised) \<and>
   (\<exists>p out fs'. run (interface_actions ''I'' [constrained_prototype]) (set_filename (''a'' @ ''.idl'') initial_parser) = Inr p \<and>
     stub_main True (\<lambda>_. True) p Map.empty = Inr (0, Some out, fs'))"
  using stub_main_needs_constraints [OF example_prototypes_proper(1,2,5), of "''I''" True Map.empty]
    stub_main_needs_constraints [OF example_prototypes_proper(3,4,5), of "''I''" True Map.empty]
  by (simp add: constrained_prototype_def) (simp add: example_prototype_def)

end
