(* ===== verification/ConstraintsProps.thy ===== *)
theory ConstraintsProps
  imports ConstraintsGen StubFiles "HOL-Library.Multiset"
begin

text \<open>
  The constraint skeletons and wrappers: the types of their prototypes, the parameters a
  wrapper reads, and what happens to a skeleton file that is already there.
\<close>

section \<open>The types of a skeleton\<close>

definition tabled :: "dtype \<Rightarrow> bool" where
  "tabled t \<longleftrightarrow> t \<notin> {longlong_dt, void_dt, any_dt, null_dt}"

lemma old_table:
  "(\<exists>s. array_get old_c_types (int (dt_code t)) = Inr s) \<longleftrightarrow> tabled t"
  by (cases t)
     (simp_all add: old_c_types_def array_get_def in_range_def dt_code_def dtypes_def tabled_def)

definition printable :: "emission list \<Rightarrow> bool" where
  "printable es \<longleftrightarrow> (\<exists>s. render es = Inr s)"

lemma printable_append [simp]: "printable (es @ fs) \<longleftrightarrow> printable es \<and> printable fs"
  by (auto simp: printable_def render_append andthen_Inr_iff)

lemma printable_Nil [simp]: "printable []"
  by (simp add: printable_def)

lemma printable_comma: "printable [('', '', [])]"
  by (simp add: printable_def)

lemma printable_input:
  "printable [(''%s '', [table_text old_c_types (arg_type a)]), (''%s'', [name_of a])] \<longleftrightarrow> tabled (arg_type a)"
  by (auto simp: printable_def table_text_def show_arg_def name_of_def andthen_Inr_iff simp flip: old_table)

lemma printable_prototype_loop:
  "printable (constraints_prototype_loop first suffix as) \<longleftrightarrow>
   (\<forall>a \<in> set as. is_input a \<longrightarrow> tabled (arg_type a))"
  by (induction as arbitrary: first)
     (auto simp: printable_comma printable_input simp del: append_Cons append_Nil)

text \<open>
  A prototype of the skeletons can be printed exactly when no input has one of the types
  behind the end of the type table; and of the types that stubs declare, only \<open>char\<close> is
  printed as its own C type, since the table follows an older order of the data types.
\<close>

theorem skeleton_types:
  "((\<exists>s. render (generate_c_constraints_prototype f suffix result) = Inr s) \<longleftrightarrow>
      (\<forall>a \<in> set (arguments f). is_input a \<longrightarrow> tabled (arg_type a))) \<and>
   (\<forall>t \<in> {t. declarable t \<and> t \<noteq> object_dt}.
      array_get old_c_types (int (dt_code t)) = Inr (c_name t) \<longleftrightarrow> t = char_dt)"
proof -
  have "array_get old_c_types (int (dt_code t)) = Inr (c_name t) \<longleftrightarrow> t = char_dt"
    if "declarable t" "t \<noteq> object_dt" for t
    using that by (cases t)
      (simp_all add: old_c_types_def array_get_def in_range_def dt_code_def dtypes_def declarable_def scalar_dts_def)
  moreover have "printable [(''%s %s_%s('', [text_of result, text_of (fn_name f), text_of suffix])]"
    "printable [('')'', [])]" "printable [(''int *numCPUs, char **jobType '', [])]"
    by (simp_all add: printable_def text_of_def show_arg_def)
  ultimately show ?thesis
    by (auto simp: generate_c_constraints_prototype_def printable_prototype_loop simp flip: printable_def
        simp del: append_Cons append_Nil)
qed

theorem skeleton_types_witness:
  "(\<exists>s. render (generate_c_constraints_prototype (the_function example_prototype) ''cost'' ''double'') = Inr s) \<and>
   array_get old_c_types (int (dt_code double_dt)) \<noteq> Inr ''double''"
proof -
  have "\<forall>a \<in> set (arguments (the_function example_prototype)). is_input a \<longrightarrow> tabled (arg_type a)"
    by (simp add: the_function_def example_prototype_def the_argument_def idl_name_def idl_type_def
      split_name_def last_colon_def return_of_def tabled_def)
  moreover have "declarable double_dt" by (simp add: declarable_def scalar_dts_def)
  ultimately show ?thesis
    using skeleton_types [of "the_function example_prototype" "''cost''" "''double''"]
    by (auto dest!: spec [where x = double_dt])
qed

section \<open>The parameters a wrapper reads\<close>

text \<open>The names a format of one argument is printed with, in order.\<close>

definition printed_with :: "string list \<Rightarrow> emission list \<Rightarrow> string list" where
  "printed_with fmts es =
     concat (map (\<lambda>e. if fst e \<in> set fmts then (case snd e of [Str (Inr s)] \<Rightarrow> [s] | _ \<Rightarrow> []) else []) es)"

lemma printed_with_simps [simp]:
  "printed_with fs [] = []" "printed_with fs (es @ es') = printed_with fs es @ printed_with fs es'"
  "printed_with fs (e # es) =
     (if fst e \<in> set fs then (case snd e of [Str (Inr s)] \<Rightarrow> [s] | _ \<Rightarrow> []) else []) @ printed_with fs es"
  by (simp_all add: printed_with_def)

abbreviation (input) argp_reads :: "emission list \<Rightarrow> string list" where
  "argp_reads \<equiv> printed_with [''   buff_%s = *(_argp++);^n'', ''   base64buff_%s = *(_argp++);^n'']"

abbreviation (input) declared_buffers :: "emission list \<Rightarrow> string list" where
  "declared_buffers \<equiv> printed_with [''   char *buff_%s;^n'', ''   char *base64buff_%s;^n'']"

lemma printed_with_parts:
  assumes "\<And>a. printed_with fs (g a) = (if P a then [arg_name a] else [])"
  shows "printed_with fs (concat (map g as)) = map arg_name (filter P as)"
  by (induction as) (simp_all add: assms)

definition wrapped_type :: "dtype \<Rightarrow> bool" where
  "wrapped_type t \<longleftrightarrow> t \<in> set scalar_dts \<or> t = string_dt"

lemma wrapper_reads:
  "argp_reads (wrapper_read_file a) = (if is_input a \<and> arg_type a = file_dt then [arg_name a] else [])"
  "argp_reads (wrapper_read_other a) = (if is_input a \<and> wrapped_type (arg_type a) then [arg_name a] else [])"
  "argp_reads (wrapper_buffer a) = []" "argp_reads (wrapper_variable a) = []"
  "argp_reads (wrapper_allocate a) = []" "argp_reads (wrapper_convert a) = []"
  by (simp_all add: wrapper_read_file_def wrapper_read_other_def wrapper_buffer_def wrapper_variable_def
      wrapper_allocate_def wrapper_convert_def wrapped_type_def scalar_dts_def name_of_def)

lemma buffer_declarations:
  "declared_buffers (wrapper_buffer a) =
     (if is_input a \<and> (arg_type a = file_dt \<or> wrapped_type (arg_type a)) then [arg_name a] else [])"
  "declared_buffers (wrapper_read_file a) = []" "declared_buffers (wrapper_read_other a) = []"
  "declared_buffers (wrapper_variable a) = []"
  "declared_buffers (wrapper_allocate a) = []" "declared_buffers (wrapper_convert a) = []"
  by (simp_all add: wrapper_read_file_def wrapper_read_other_def wrapper_buffer_def wrapper_variable_def
      wrapper_allocate_def wrapper_convert_def wrapped_type_def scalar_dts_def name_of_def)

lemma filter_split:
  "\<forall>x \<in> set xs. \<not> (P x \<and> Q x) \<Longrightarrow>
   mset (filter (\<lambda>x. P x \<or> Q x) xs) = mset (filter P xs) + mset (filter Q xs)"
  by (induction xs) auto

text \<open>
  A wrapper takes its inputs from the parameter vector one by one, the files before the
  others and each group in the order of the arguments, and every buffer it stores one in is
  declared, once.
\<close>

theorem wrapper_reads_inputs:
  "argp_reads (wrapper_function_prolog f) =
     map arg_name (filter (\<lambda>a. is_input a \<and> arg_type a = file_dt) (arguments f)) @
     map arg_name (filter (\<lambda>a. is_input a \<and> wrapped_type (arg_type a)) (arguments f)) \<and>
   mset (declared_buffers (wrapper_function_prolog f)) = mset (argp_reads (wrapper_function_prolog f))"
proof -
  let ?as = "arguments f"
  note parts = printed_with_parts [OF wrapper_reads(1)] printed_with_parts [OF wrapper_reads(2)]
    printed_with_parts [where P = "\<lambda>_. False" and as = ?as]
  have reads: "argp_reads (wrapper_function_prolog f) =
     map arg_name (filter (\<lambda>a. is_input a \<and> arg_type a = file_dt) ?as) @
     map arg_name (filter (\<lambda>a. is_input a \<and> wrapped_type (arg_type a)) ?as)"
    by (simp add: wrapper_function_prolog_def parts wrapper_reads)
  have decl: "declared_buffers (wrapper_function_prolog f) =
     map arg_name (filter (\<lambda>a. is_input a \<and> (arg_type a = file_dt \<or> wrapped_type (arg_type a))) ?as)"
    by (simp add: wrapper_function_prolog_def printed_with_parts [OF buffer_declarations(1)]
        printed_with_parts [where P = "\<lambda>_. False" and as = ?as] buffer_declarations)
  have "\<not> wrapped_type file_dt" by (simp add: wrapped_type_def scalar_dts_def)
  then have "mset (filter (\<lambda>a. is_input a \<and> (arg_type a = file_dt \<or> wrapped_type (arg_type a))) ?as) =
      mset (filter (\<lambda>a. is_input a \<and> arg_type a = file_dt) ?as) +
      mset (filter (\<lambda>a. is_input a \<and> wrapped_type (arg_type a)) ?as)"
    using filter_split [of ?as "\<lambda>a. is_input a \<and> arg_type a = file_dt"
        "\<lambda>a. is_input a \<and> wrapped_type (arg_type a)"]
    by (auto simp: conj_disj_distribL)
  with reads decl show ?thesis by (simp flip: image_mset_union)
qed

section \<open>A skeleton file that is already there\<close>

lemma null_device: "base @ ''_constraints.cc'' \<noteq> ''/dev/null''"
  using last_appendR [of "''_constraints.cc''" base] by auto

text \<open>
  With backups on, a constraint file that exists is neither overwritten nor renamed: the
  new skeletons go to the null device, and the two files of the wrapper are made anew.
\<close>

theorem skeletons_kept:
  assumes "generate_c_constraints_prolog True cw p fs = Inr (out, target, inc, fs')"
    and "get_filename_base (idl_filename p) = Inr base"
    and "fs (base @ ''_constraints.cc'') = Some text"
  shows "target = ''/dev/null'' \<and> inc = base @ ''_constraints.h'' \<and>
    fs' (base @ ''_constraints.cc'') = Some text \<and>
    fs' (base @ ''_constraints_wrapper.cc'') = Some [] \<and> fs' inc = Some []"
  using assms null_device [of base]
  by (auto simp: generate_c_constraints_prolog_def copy_append_def create_without_overwrite_def
      open_write_def open_output_Inr Let_def split: if_splits option.splits)

theorem skeletons_kept_witness:
  "\<exists>out target inc fs'. generate_c_constraints_prolog True (\<lambda>_. True)
       (initial_parser\<lparr>idl_filename := Some ''a.idl'', main_interface := Some \<lparr>if_name = ''I'', if_functions = []\<rparr>\<rparr>)
       [''a_constraints.cc'' \<mapsto> ''edited''] = Inr (out, target, inc, fs') \<and>
     target = ''/dev/null'' \<and> fs' ''a_constraints.cc'' = Some ''edited''"
proof -
  let ?p = "initial_parser\<lparr>idl_filename := Some ''a.idl'', main_interface := Some \<lparr>if_name = ''I'', if_functions = []\<rparr>\<rparr>"
  have base: "get_filename_base (idl_filename ?p) = Inr ''a''"
    by (simp add: get_filename_base_def PATH_MAX_def)
  then obtain out target inc fs' where
    r: "generate_c_constraints_prolog True (\<lambda>_. True) ?p [''a_constraints.cc'' \<mapsto> ''edited''] =
      Inr (out, target, inc, fs')"
    by (simp add: generate_c_constraints_prolog_def open_output_def copy_append_def rename_if_clash_def
        open_write_def create_without_overwrite_def get_first_function_def the_interface_def
        Let_def PATH_MAX_def)
  from skeletons_kept [OF r base] r show ?thesis by simp
qed

end
