(* ===== verification/ExecutorGen.thy ===== *)
theory ExecutorGen
  imports StubFiles
begin

text \<open>
  The generator for persistent workers, \<open>bindings/c/src/compssgen\<close> (\<open>c-backend.c\<close> and
  \<open>main.c\<close>): the stub generator with an executor, a function that the worker process calls, in
  the place of the worker program, and without the file of constraints. Its functions for the
  parts of a stub and of a worker case are those of \<open>gsstubgen\<close> line by line and are shared
  with \<open>StubGen\<close>; the prologue, the body, the epilogue and the program are its own.
\<close>

record executor_outputs =
  exec_stubs :: "emission list"
  exec_worker :: "emission list"
  exec_include :: "emission list"

definition executor_worker_prolog :: "string \<Rightarrow> string \<Rightarrow> emission list" where
  \<open>executor_worker_prolog filename includeName =
    [(''/* This file has been autogenerated from '%s'. */^n'', [text_of filename]),
      (''/* CHANGES TO THIS FILE WILL BE LOST */^n'', []),
      (''^n'', []),
      (''#include <stdio.h>^n'', []),
      (''#include <stdlib.h>^n'', []),
      (''#include <limits.h>^n'', []),
      (''#include <string.h>^n'', []),
      (''#include <fstream>^n'', []),
      (''#include <boost/archive/text_iarchive.hpp>^n'', []),
      (''#include <boost/archive/text_oarchive.hpp>^n'', []),
      (''#include "%s"^n'', [text_of includeName]),
      (''^n'', []),
      (''using namespace std;^n'', []),
      (''^n'', []),
      (''int execute(int argc, char **argv) {^n'', []),
      (''^n'', []),
      (''^tprintf("^^n");^n'', []),
      (''^tprintf("----------------- C WORKER -----------------^^n");^n'', []),
      (''^tprintf("Total number of parameters: %%d^^n", argc);^n'', []),
      (''^tif (argc < MIN_NUM_INTERNAL_ARGS) {^n'', []),
      (''^t^tprintf("ERROR: Incorrect number of COMPSs internal parameters^^n");^n'', []),
      (''^t^tprintf("Aborting...^^n");^n'', []),
      (''^t^treturn -1;^n'', []),
      (''^t}^n'', []),
      (''^n'', []),
      (''^tprintf("Executable: %%s^^n", argv[0]);^n'', []),
      (''^tprintf("Tracing: %%s^^n", argv[1]);^n'', []),
      (''^tprintf("Task Id: %%s^^n", argv[2]);^n'', []),
      (''^tprintf("Worker Debug: %%s^^n", argv[3]);^n'', []),
      (''^tprintf("StorageConf: %%s^^n", argv[4]);^n'', []),
      (''^tprintf("MethodType: %%s^^n", argv[5]);^n'', []),
      (''^tprintf("ClassName: %%s^^n", argv[6]);^n'', []),
      (''^tprintf("MethodName: %%s^^n", argv[7]);^n'', []),
      (''^tprintf("NumSlaves: %%s^^n", argv[8]);^n'', []),
      (''^tint numSlaves=atoi(argv[8]);^n'', []),
      (''^tfor(int i = 0; i < numSlaves; ++i) {^n'', []),
      (''^t^tprintf("Slave %%d has name %%s^^n", i, argv[NUM_BASE_ARGS + i]);^n'', []),
      (''^t}^n'', []),
      (''^tint NUM_INTERNAL_ARGS=NUM_BASE_ARGS + numSlaves;^n'', []),
      (''^tprintf("NumComputingUnits: %%s^^n", argv[NUM_INTERNAL_ARGS++]);^n'', []),
      (''^tprintf("HasTarget: %%s^^n", argv[NUM_INTERNAL_ARGS++]);^n'', []),
      (''^tprintf("ReturnType: %%s^^n", argv[NUM_INTERNAL_ARGS++]);^n'', []),
      (''^tprintf("Num App Params: %%s^^n", argv[NUM_INTERNAL_ARGS++]);^n'', []),
      (''^tprintf("Application Arguments:^^n");^n'', []),
      (''^tfor(int i = NUM_INTERNAL_ARGS; i < argc; i++)^n'', []),
      (''^t^tprintf("^^t%%s^^n",argv[i]);^n'', []),
      (''^n'', []),
      (''^tenum operationCode opCod;^n'', []),
      (''^tchar *opName;^n'', []),
      (''^topName = strdup(argv[METHOD_NAME_POS]);^n'', []),
      (''^tprintf("OpName: %%s^^n", opName);^n'', []),
      (''^n'', []),
      (''^tfor(int i=0; i < N_OPS; i++) {^n'', []),
      (''^t^tif(strcmp(operationName[i], opName) == 0) {^n'', []),
      (''^t^t^topCod=(enum operationCode)i;^n'', []),
      (''^t^t^tbreak;^n'', []),
      (''^t^t}^n'', []),
      (''^t}^n'', []),
      (''^tprintf("OpCode: %%d^^n", (int)opCod);^n'', []),
      (''^n'', []),
      (''^tprintf("--------------------------------------------^^n");^n'', []),
      (''^tprintf("^^n");^n'', []),
      (''^tint arg_offset = NUM_INTERNAL_ARGS;^n'', []),
      (''^tswitch(opCod)^n'', []),
      (''^t {^n'', [])]\<close>

definition executor_prolog ::
  "bool \<Rightarrow> (string \<Rightarrow> bool) \<Rightarrow> string option \<Rightarrow> files \<Rightarrow> (executor_outputs \<times> string \<times> files) res" where
  "executor_prolog do_backups can_write filename fs =
     andthen (get_filename_base filename) (\<lambda>base.
     andthen (open_output do_backups can_write base ''-stubs.cc'' fs) (\<lambda>(n1, fs).
     andthen (open_output do_backups can_write base ''-executor.cc'' fs) (\<lambda>(n2, fs).
     andthen (open_output do_backups can_write base ''.h'' fs) (\<lambda>(includeName, fs).
       Inr (\<lparr>exec_stubs = stubs_prolog (the filename) includeName,
             exec_worker = executor_worker_prolog (the filename) includeName,
             exec_include = include_prolog (the filename) includeName\<rparr>, includeName, fs)))))"

definition executor_function :: "function_t \<Rightarrow> executor_outputs \<Rightarrow> executor_outputs" where
  \<open>executor_function f out =
     out\<lparr>exec_stubs := exec_stubs out @ generate_prototype f @
             [(''^n'', []),
      (''{^n'', [])] @ generate_parameter_buffers f @ generate_parameter_marshalling f @
             generate_execute_call f @ [(''}^n'', []),
      (''^n'', [])],
         exec_worker := exec_worker out @ generate_worker_case f,
         exec_include := exec_include out @
           (if \<not> has_scope (fn_name f)
            then generate_class_includes f @ generate_prototype f @ [('';^n'', [])]
            else [])\<rparr>\<close>

definition executor_body :: "string option \<Rightarrow> function_t list \<Rightarrow> executor_outputs \<Rightarrow> executor_outputs res" where
  \<open>executor_body filename fs out =
     andthen (get_filename_base filename) (\<lambda>base.
       Inr (fold executor_function fs
         (out\<lparr>exec_include := exec_include out @ generate_enum fs @
                [(''/* Functions to be implemented. We sugest that you create a file */^n'', []),
      (''/* with name '%s-functions.cc' and implement them there. */^n'', [text_of base])],
              exec_stubs := exec_stubs out @ [(''^n'', [])]\<rparr>)))\<close>

definition executor_epilogue :: "string \<Rightarrow> executor_outputs \<Rightarrow> executor_outputs" where
  \<open>executor_epilogue includeName out =
     out\<lparr>exec_worker := exec_worker out @
             [(''^t}^n'', []),
      (''^n'', []),
      (''^tprintf("Incorrect Operation Code. Aborting...^^n");^n'', []),
      (''^treturn -1;^n'', []),
      (''}^n'', [])],
         exec_include := exec_include out @
             [(''^n'', []),
      (''#endif /* _GSS_'', [])] @
             upper_or_underscore includeName @ [('' */^n'', [])]\<rparr>\<close>

definition executor_main ::
  "bool \<Rightarrow> (string \<Rightarrow> bool) \<Rightarrow> parser \<Rightarrow> files \<Rightarrow> (int \<times> executor_outputs option \<times> files) res" where
  "executor_main do_backups can_write p fs =
     (if can_generate p then
        andthen (executor_prolog do_backups can_write (idl_filename p) fs) (\<lambda>(out, includeName, fs).
        andthen (get_first_function p) (\<lambda>functions.
        andthen (executor_body (idl_filename p) functions out) (\<lambda>out.
          Inr (0, Some (executor_epilogue includeName out), fs))))
      else Inr (1, None, fs))"

section \<open>Agreement with the stub generator\<close>

text \<open>
  The two state the same up to the line that opens the worker.
\<close>

definition opens_main :: emission where
  "opens_main = (''int main(int argc, char **argv) {^n'', [])"

definition opens_execute :: emission where
  "opens_execute = (''int execute(int argc, char **argv) {^n'', [])"

definition same_worker :: "emission list \<Rightarrow> emission list \<Rightarrow> bool" where
  "same_worker w w' \<longleftrightarrow> (\<exists>xs ys. w = xs @ opens_main # ys \<and> w' = xs @ opens_execute # ys)"

lemma same_worker_append [simp]: "same_worker w w' \<Longrightarrow> same_worker (w @ t) (w' @ t)"
proof -
  assume "same_worker w w'"
  then obtain xs ys where "w = xs @ opens_main # ys" "w' = xs @ opens_execute # ys"
    by (auto simp: same_worker_def)
  then have "w @ t = xs @ opens_main # (ys @ t)" "w' @ t = xs @ opens_execute # (ys @ t)" by simp_all
  then show ?thesis unfolding same_worker_def by blast
qed

definition same_program :: "outputs \<Rightarrow> executor_outputs \<Rightarrow> bool" where
  "same_program out out' \<longleftrightarrow>
     exec_stubs out' = stubsFile out \<and> exec_include out' = includeFile out \<and>
     same_worker (workerFile out) (exec_worker out')"

lemma same_worker_prolog:
  "same_worker (worker_prolog fn inc) (executor_worker_prolog fn inc)"
proof -
  have "worker_prolog fn inc = take 14 (worker_prolog fn inc) @ opens_main # drop 15 (worker_prolog fn inc)"
    by (simp add: worker_prolog_def opens_main_def)
  moreover have "executor_worker_prolog fn inc =
      take 14 (worker_prolog fn inc) @ opens_execute # drop 15 (worker_prolog fn inc)"
    by (simp add: worker_prolog_def executor_worker_prolog_def opens_execute_def)
  ultimately show ?thesis unfolding same_worker_def by blast
qed

lemma same_function:
  assumes "same_program out out'" and "generate_function f out = Inr out2"
  shows "same_program out2 (executor_function f out')"
  using assms by (auto simp: same_program_def generate_function_def executor_function_def)

lemma same_functions:
  "same_program out out' \<Longrightarrow> generate_functions fs out = Inr out2 \<Longrightarrow>
   same_program out2 (fold executor_function fs out')"
  by (induction fs arbitrary: out out') (auto intro: same_function)

lemma same_body:
  assumes "same_program out out'" and "generate_body fn fs out = Inr out2"
  shows "\<exists>out2'. executor_body fn fs out' = Inr out2' \<and> same_program out2 out2'"
proof -
  let ?start = "\<lambda>base. out\<lparr>includeFile := includeFile out @ generate_enum fs @
     [(''/* Functions to be implemented. We sugest that you create a file */^n'', []),
      (''/* with name '%s-functions.cc' and implement them there. */^n'', [text_of base])], stubsFile := stubsFile out @ [(''^n'', [])]\<rparr>"
  let ?start' = "\<lambda>base. out'\<lparr>exec_include := exec_include out' @ generate_enum fs @
     [(''/* Functions to be implemented. We sugest that you create a file */^n'', []),
      (''/* with name '%s-functions.cc' and implement them there. */^n'', [text_of base])], exec_stubs := exec_stubs out' @ [(''^n'', [])]\<rparr>"
  from assms(2) obtain base where base: "get_filename_base fn = Inr base"
    and fs: "generate_functions fs (?start base) = Inr out2"
    by (auto simp: generate_body_def)
  have "same_program (?start base) (?start' base)"
    using assms(1) by (simp add: same_program_def)
  from same_functions [OF this fs] show ?thesis by (simp add: executor_body_def base)
qed

lemma same_epilogue:
  "same_program out out' \<Longrightarrow> same_program (generate_epilogue inc out) (executor_epilogue inc out')"
  by (auto simp: same_program_def generate_epilogue_def executor_epilogue_def)

lemma executor_prolog_returns:
  assumes "length base + 13 < PATH_MAX"
  shows "\<exists>fs'. executor_prolog b (\<lambda>_. True) (Some (base @ ''.idl'')) fs =
    Inr (\<lparr>exec_stubs = stubs_prolog (base @ ''.idl'') (base @ ''.h''),
          exec_worker = executor_worker_prolog (base @ ''.idl'') (base @ ''.h''),
          exec_include = include_prolog (base @ ''.idl'') (base @ ''.h'')\<rparr>, base @ ''.h'', fs')"
proof -
  have opens: "\<exists>fs'. open_output b (\<lambda>_. True) base s fs = Inr (base @ s, fs')"
    if "length s \<le> 12" for s fs
    using that assms by (auto simp: open_output_Inr)
  from opens [of "''-stubs.cc''" fs] obtain fs1
    where 1: "open_output b (\<lambda>_. True) base ''-stubs.cc'' fs = Inr (base @ ''-stubs.cc'', fs1)" by auto
  from opens [of "''-executor.cc''" fs1] obtain fs2
    where 2: "open_output b (\<lambda>_. True) base ''-executor.cc'' fs1 = Inr (base @ ''-executor.cc'', fs2)" by auto
  from opens [of "''.h''" fs2] obtain fs3
    where 3: "open_output b (\<lambda>_. True) base ''.h'' fs2 = Inr (base @ ''.h'', fs3)" by auto
  show ?thesis
    using assms by (simp add: executor_prolog_def base_of_idl 1 2 3)
qed

lemma prolog_result:
  assumes "generate_prolog b cw (Some (base @ ''.idl'')) fs = Inr (out, inc, fs')"
  shows "inc = base @ ''.h'' \<and> stubsFile out = stubs_prolog (base @ ''.idl'') inc \<and>
    workerFile out = worker_prolog (base @ ''.idl'') inc \<and> includeFile out = include_prolog (base @ ''.idl'') inc"
proof -
  have "get_filename_base (Some (base @ ''.idl'')) = Inr bs \<Longrightarrow> bs = base" for bs
    by (auto simp: get_filename_base_def Let_def split: if_splits)
  with assms show ?thesis
    unfolding generate_prolog_def by (auto simp: open_output_Inr)
qed

text \<open>
  C33. On a correct interface with properly named functions, whose file has a short enough name and when all files can be written,
  the generator for persistent workers returns 0, with or without constraints. If every function has a constraint the stub
  generator succeeds too, and both print the same stubs and the same header, and the same worker but for the line that
  opens it; if not, the stub generator reads a pointer that was never set.
\<close>

theorem executor_agrees:
  assumes "proper_names qs" and "proper_prototypes qs" and "length base + 13 < PATH_MAX"
  shows "\<exists>p out' fs1. run (interface_actions name qs) (set_filename (base @ ''.idl'') initial_parser) = Inr p \<and>
    executor_main b (\<lambda>_. True) p fs = Inr (0, Some out', fs1) \<and>
    (if \<forall>q \<in> set qs. proto_constraints q \<noteq> []
     then \<exists>out fs2. stub_main b (\<lambda>_. True) p fs = Inr (0, Some out, fs2) \<and> same_program out out'
     else stub_main b (\<lambda>_. True) p fs = Inl Uninitialised)"
proof -
  let ?p0 = "set_filename (base @ ''.idl'') initial_parser"
  have "main_interface ?p0 = None" "\<not> has_errors ?p0"
    by (simp_all add: set_filename_def initial_parser_def)
  from run_interface [OF this assms(1), of name] assms(2) obtain p where
    p: "run (interface_actions name qs) ?p0 = Inr p"
    "get_first_function p = Inr (map the_function qs)" "can_generate p"
    by (auto simp: get_first_function_def the_interface_def can_generate_def)
  from run_keeps_filename [OF p(1) subset_refl] have fn: "idl_filename p = Some (base @ ''.idl'')"
    by (simp add: set_filename_def)
  let ?inc = "base @ ''.h''"
  define out0 where "out0 = \<lparr>exec_stubs = stubs_prolog (base @ ''.idl'') ?inc,
    exec_worker = executor_worker_prolog (base @ ''.idl'') ?inc, exec_include = include_prolog (base @ ''.idl'') ?inc\<rparr>"
  from executor_prolog_returns [OF assms(3)] obtain fs1 where
    pro: "executor_prolog b (\<lambda>_. True) (Some (base @ ''.idl'')) fs = Inr (out0, ?inc, fs1)"
    by (auto simp: out0_def)
  obtain out1 where body: "executor_body (Some (base @ ''.idl'')) (map the_function qs) out0 = Inr out1"
    using assms(3) by (simp add: executor_body_def base_of_idl)
  have same: "same_program out (executor_epilogue ?inc out1)"
    if "stub_main b (\<lambda>_. True) p fs = Inr (0, Some out, fs2)" for out fs2
  proof -
    from that p fn obtain o0 inc fs3 o1 where
      g: "generate_prolog b (\<lambda>_. True) (Some (base @ ''.idl'')) fs = Inr (o0, inc, fs3)"
      "generate_body (Some (base @ ''.idl'')) (map the_function qs) o0 = Inr o1" "out = generate_epilogue inc o1"
      by (auto simp: stub_main_def andthen_Inr_iff)
    from prolog_result [OF g(1)] have "inc = ?inc" "same_program o0 out0"
      using same_worker_prolog by (auto simp: same_program_def out0_def)
    with same_body [OF _ g(2)] body have "same_program o1 out1" by fastforce
    then have "same_program (generate_epilogue ?inc o1) (executor_epilogue ?inc out1)"
      by (rule same_epilogue)
    with g(3) \<open>inc = ?inc\<close> show ?thesis by simp
  qed
  have "executor_main b (\<lambda>_. True) p fs = Inr (0, Some (executor_epilogue ?inc out1), fs1)"
    using p fn pro body by (simp add: executor_main_def)
  moreover have "if \<forall>q \<in> set qs. proto_constraints q \<noteq> []
     then \<exists>out fs2. stub_main b (\<lambda>_. True) p fs = Inr (0, Some out, fs2) \<and> same_program out (executor_epilogue ?inc out1)
     else stub_main b (\<lambda>_. True) p fs = Inl Uninitialised"
    using stub_main_outcome [OF assms p(1), of b fs] same by (auto split: if_splits)
  ultimately show ?thesis using p(1) by blast
qed

theorem executor_agrees_witness:
  "\<exists>p out out' fs1 fs2. run (interface_actions ''I'' [constrained_prototype]) (set_filename (''a'' @ ''.idl'') initial_parser) = Inr p \<and>
     executor_main True (\<lambda>_. True) p Map.empty = Inr (0, Some out', fs1) \<and>
     stub_main True (\<lambda>_. True) p Map.empty = Inr (0, Some out, fs2) \<and> same_program out out'"
proof -
  have "\<forall>q \<in> set [constrained_prototype]. proto_constraints q \<noteq> []" by (simp add: constrained_prototype_def)
  with executor_agrees [OF example_prototypes_proper(3-5), of "''I''" True Map.empty] show ?thesis by auto
qed

end
