(* ===== verification/PyModule.thy ===== *)
theory PyModule
  imports Idl "HOL-Library.Word"
begin

text \<open>
  The Python extension that hands the tasks of a Python program to the runtime,
  \<open>trunk/compss/programming_model/bindings/python/src/ext/compssmodule.c\<close>: \<open>process_task\<close>, which
  packs the values of a task's parameters into one block of memory and passes the runtime three
  pointers for each of them, and \<open>register_core_element\<close>.

  The Python library is an argument, \<open>py_api\<close>: what its conversions return for an object. So are the
  sizes of the C types and what \<open>PyMem_Malloc\<close> answers. A block of memory is the list of its
  bytes; a byte that was stored is the value it is part of and its place in it.
\<close>

datatype 'd c_value = PtrV nat | IntV "32 word" | LongV "64 word" | DoubleV 'd

type_synonym 'd block = "('d c_value \<times> nat) option list"

record ('o, 'd) py_api =
  PyString_AsString :: "'o \<Rightarrow> nat"
  PyInt_AsLong :: "'o \<Rightarrow> int"
  PyLong_AsLong :: "'o \<Rightarrow> int"
  PyFloat_AsDouble :: "'o \<Rightarrow> 'd"
  PyMem_Malloc :: allocator

record c_sizes =
  sizeof_ptr :: nat
  sizeof_int :: nat
  sizeof_long :: nat
  sizeof_double :: nat

text \<open>Storing a value of a size at an offset of a block; the block is null if there was no memory.\<close>

definition store_value :: "'d block option \<Rightarrow> nat \<Rightarrow> nat \<Rightarrow> 'd c_value \<Rightarrow> 'd block option res" where
  "store_value mem off sz v =
     (case mem of
        None \<Rightarrow> Inl NullPointer
      | Some cells \<Rightarrow>
          if off + sz \<le> length cells
          then Inr (Some (take off cells @ map (\<lambda>k. Some (v, k)) [0..<sz] @ drop (off + sz) cells))
          else Inl OutOfBounds)"

definition c_int :: "int \<Rightarrow> int" where
  "c_int i = sint (word_of_int i :: 32 word)"

text \<open>\<open>(enum datatype) c_types[j]\<close>: the enumerator of a number, if it has one.\<close>

definition datatype_of :: "int \<Rightarrow> dtype option" where
  "datatype_of code = (if 0 \<le> code \<and> nat code < length dtypes then Some (dtypes ! nat code) else None)"

definition list_item :: "'o list \<Rightarrow> nat \<Rightarrow> 'o res" where
  "list_item xs j = (if j < length xs then Inr (xs ! j) else Inl NullPointer)"

text \<open>The two switches over the type of a parameter: its size, and the value that is stored.\<close>

definition value_size :: "c_sizes \<Rightarrow> int \<Rightarrow> nat" where
  "value_size s code =
     (case datatype_of code of
        Some file_dt \<Rightarrow> sizeof_ptr s
      | Some external_psco_dt \<Rightarrow> sizeof_ptr s
      | Some string_dt \<Rightarrow> sizeof_ptr s
      | Some int_dt \<Rightarrow> sizeof_int s
      | Some long_dt \<Rightarrow> sizeof_long s
      | Some double_dt \<Rightarrow> sizeof_double s
      | Some boolean_dt \<Rightarrow> sizeof_int s
      | _ \<Rightarrow> 0)"

definition c_value_of :: "('o, 'd) py_api \<Rightarrow> c_sizes \<Rightarrow> int \<Rightarrow> 'o \<Rightarrow> ('d c_value \<times> nat) option" where
  "c_value_of A s code val =
     (case datatype_of code of
        Some file_dt \<Rightarrow> Some (PtrV (PyString_AsString A val), sizeof_ptr s)
      | Some external_psco_dt \<Rightarrow> Some (PtrV (PyString_AsString A val), sizeof_ptr s)
      | Some string_dt \<Rightarrow> Some (PtrV (PyString_AsString A val), sizeof_ptr s)
      | Some int_dt \<Rightarrow> Some (IntV (word_of_int (PyInt_AsLong A val)), sizeof_int s)
      | Some long_dt \<Rightarrow> Some (LongV (word_of_int (PyLong_AsLong A val)), sizeof_long s)
      | Some double_dt \<Rightarrow> Some (DoubleV (PyFloat_AsDouble A val), sizeof_double s)
      | Some boolean_dt \<Rightarrow> Some (IntV (word_of_int (PyInt_AsLong A val)), sizeof_int s)
      | _ \<Rightarrow> None)"

text \<open>The entries of \<open>params\<close>: into the block of values, into \<open>c_types\<close>, into \<open>c_directions\<close>.\<close>

datatype param_ptr = ValuePtr nat | TypePtr nat | DirPtr nat

fun types_loop ::
  "('o, 'd) py_api \<Rightarrow> c_sizes \<Rightarrow> 'o list \<Rightarrow> 'o list \<Rightarrow> nat list \<Rightarrow> int list \<Rightarrow> int list \<Rightarrow> nat \<Rightarrow>
   (int list \<times> int list \<times> nat) res" where
  "types_loop A s types dirs [] c_types c_directions val_size = Inr (c_types, c_directions, val_size)"
| "types_loop A s types dirs (j # js) c_types c_directions val_size =
     andthen (list_item types j) (\<lambda>type.
     andthen (list_item dirs j) (\<lambda>direction.
       let code = c_int (PyInt_AsLong A type) in
       types_loop A s types dirs js (c_types @ [code])
         (c_directions @ [c_int (PyInt_AsLong A direction)]) (val_size + value_size s code)))"

fun params_loop ::
  "('o, 'd) py_api \<Rightarrow> c_sizes \<Rightarrow> int list \<Rightarrow> 'o list \<Rightarrow> nat list \<Rightarrow> 'd block option \<Rightarrow> nat \<Rightarrow>
   param_ptr option list \<Rightarrow> ('d block option \<times> param_ptr option list) res" where
  "params_loop A s c_types values [] mem c_values params = Inr (mem, params)"
| "params_loop A s c_types values (j # js) mem c_values params =
     (let pj = int (j * 3) in
      andthen (list_item values j) (\<lambda>val.
      andthen (array_set params pj (Some (ValuePtr c_values))) (\<lambda>params.
      andthen (array_get c_types (int j)) (\<lambda>code.
      andthen (case c_value_of A s code val of
                 None \<Rightarrow> Inr (mem, c_values)
               | Some (v, sz) \<Rightarrow> andthen (store_value mem c_values sz v) (\<lambda>mem. Inr (mem, c_values + sz)))
        (\<lambda>(mem, c_values).
      andthen (array_set params (pj + 1) (Some (TypePtr j))) (\<lambda>params.
      andthen (array_set params (pj + 2) (Some (DirPtr j))) (\<lambda>params.
        params_loop A s c_types values js mem c_values params)))))))"

text \<open>What the runtime is called with, and the reference counts of the three lists.\<close>

record 'd task_call =
  task_num_pars :: nat
  task_params :: "param_ptr option list"
  task_values :: "'d block option"
  task_types :: "int list"
  task_directions :: "int list"

record list_refs =
  refs_values :: int
  refs_types :: int
  refs_directions :: int

definition process_task ::
  "('o, 'd) py_api \<Rightarrow> c_sizes \<Rightarrow> 'o list \<Rightarrow> 'o list \<Rightarrow> 'o list \<Rightarrow> list_refs \<Rightarrow> ('d task_call \<times> list_refs) res" where
  "process_task A s values compss_types compss_directions refs =
     (let num_pars = length values in
      andthen (types_loop A s compss_types compss_directions [0..<num_pars] [] [] 0)
        (\<lambda>(c_types, c_directions, val_size).
      let mem = (if PyMem_Malloc A val_size then Some (replicate val_size None) else None) in
      andthen (params_loop A s c_types values [0..<num_pars] mem 0 (replicate (num_pars * 3) None))
        (\<lambda>(mem, params).
        Inr (\<lparr>task_num_pars = num_pars, task_params = params, task_values = mem,
               task_types = c_types, task_directions = c_directions\<rparr>,
             refs\<lparr>refs_values := refs_values refs - 1, refs_types := refs_types refs - 1,
                  refs_directions := refs_directions refs - 1\<rparr>))))"

text \<open>The arguments of an implementation type, copied as pointers to the characters of each string.\<close>

definition register_core_element :: "('o \<Rightarrow> nat) \<Rightarrow> allocator \<Rightarrow> c_sizes \<Rightarrow> 'o list \<Rightarrow> (nat \<times> nat list) res" where
  "register_core_element ob_sval alloc s typeArgs =
     (let num_params = length typeArgs in
      if alloc (num_params * sizeof_ptr s) then Inr (num_params, map ob_sval typeArgs)
      else if num_params = 0 then Inr (0, []) else Inl NullPointer)"

section \<open>What the runtime gets\<close>

definition codes :: "('o, 'd) py_api \<Rightarrow> 'o list \<Rightarrow> int list" where
  "codes A types = map (\<lambda>t. c_int (PyInt_AsLong A t)) types"

text \<open>The place of a value: behind the values of the parameters before it.\<close>

definition value_offset :: "c_sizes \<Rightarrow> int list \<Rightarrow> nat \<Rightarrow> nat" where
  "value_offset s cs j = sum_list (map (value_size s) (take j cs))"

definition supported :: "int \<Rightarrow> bool" where
  "supported code \<longleftrightarrow> (case datatype_of code of None \<Rightarrow> False | Some t \<Rightarrow>
     t \<in> {file_dt, external_psco_dt, string_dt, int_dt, long_dt, double_dt, boolean_dt})"

lemma c_value_of_size:
  "c_value_of A s code v = Some (x, sz) \<Longrightarrow> sz = value_size s code"
  by (auto simp: c_value_of_def value_size_def split: option.splits dtype.splits)

lemma c_value_of_None: "c_value_of A s code v = None \<Longrightarrow> value_size s code = 0"
  by (auto simp: c_value_of_def value_size_def split: option.splits dtype.splits)

lemma c_value_of_supported: "(\<exists>x. c_value_of A s code v = Some x) \<longleftrightarrow> supported code"
  by (auto simp: c_value_of_def supported_def split: option.splits dtype.splits)

lemma types_loop_codes:
  assumes "\<forall>j \<in> set js. j < length types \<and> j < length dirs"
  shows "types_loop A s types dirs js cts cds n =
    Inr (cts @ map (\<lambda>j. codes A types ! j) js, cds @ map (\<lambda>j. codes A dirs ! j) js,
         n + sum_list (map (\<lambda>j. value_size s (codes A types ! j)) js))"
  using assms
  by (induction js arbitrary: cts cds n) (simp_all add: list_item_def codes_def Let_def add.assoc)

section \<open>The block of values\<close>

definition loaded :: "'d block \<Rightarrow> nat \<Rightarrow> nat \<Rightarrow> 'd c_value \<Rightarrow> bool" where
  "loaded cells off sz v \<longleftrightarrow> off + sz \<le> length cells \<and> (\<forall>k < sz. cells ! (off + k) = Some (v, k))"

lemma store_loaded:
  assumes "off + sz \<le> length cells"
  shows "\<exists>cells'. store_value (Some cells) off sz v = Inr (Some cells') \<and> length cells' = length cells \<and>
    loaded cells' off sz v \<and> (\<forall>k < off. cells' ! k = cells ! k)"
  using assms by (auto simp: store_value_def loaded_def nth_append min_absorb2)

lemma loaded_cong:
  "loaded cells off sz v \<Longrightarrow> length cells' = length cells \<Longrightarrow> (\<forall>k < n. cells' ! k = cells ! k) \<Longrightarrow>
   off + sz \<le> n \<Longrightarrow> loaded cells' off sz v"
  by (simp add: loaded_def)

lemma value_offset_Suc:
  "j < length cs \<Longrightarrow> value_offset s cs (Suc j) = value_offset s cs j + value_size s (cs ! j)"
  by (simp add: value_offset_def take_Suc_conv_app_nth)

lemma value_offset_mono: "i \<le> j \<Longrightarrow> value_offset s cs i \<le> value_offset s cs j"
proof -
  assume "i \<le> j"
  then have "take j cs = take i cs @ take (j - i) (drop i cs)"
    by (metis le_add_diff_inverse take_add)
  then show ?thesis by (simp add: value_offset_def)
qed

text \<open>One turn of the loop: where the value goes and what stays.\<close>

lemma value_turn:
  assumes "off + value_size s code \<le> length cells"
  shows "\<exists>cells'. (case c_value_of A s code val of None \<Rightarrow> Inr (Some cells, off)
      | Some (v, sz) \<Rightarrow> andthen (store_value (Some cells) off sz v) (\<lambda>mem. Inr (mem, off + sz))) =
      Inr (Some cells', off + value_size s code) \<and> length cells' = length cells \<and>
    (\<forall>k < off. cells' ! k = cells ! k) \<and>
    (\<forall>v sz. c_value_of A s code val = Some (v, sz) \<longrightarrow> loaded cells' off sz v)"
proof (cases "c_value_of A s code val")
  case None
  then show ?thesis by (simp add: c_value_of_None)
next
  case (Some p)
  obtain v sz where p: "p = (v, sz)" by (cases p)
  with Some have sz: "sz = value_size s code" by (simp add: c_value_of_size)
  from store_loaded [of off sz cells v] assms sz Some p show ?thesis by auto
qed

definition entries_of :: "c_sizes \<Rightarrow> int list \<Rightarrow> param_ptr option list \<Rightarrow> nat \<Rightarrow> bool" where
  "entries_of s cs params j \<longleftrightarrow>
     params ! (3 * j) = Some (ValuePtr (value_offset s cs j)) \<and>
     params ! (3 * j + 1) = Some (TypePtr j) \<and> params ! (3 * j + 2) = Some (DirPtr j)"

lemma params_turn:
  assumes "j < length values" and "length cs = length values" and "length params = length values * 3"
    and "off + value_size s (cs ! j) \<le> length cells"
  shows "\<exists>cells'. params_loop A s cs values (j # js) (Some cells) off params =
      params_loop A s cs values js (Some cells') (off + value_size s (cs ! j))
        (params[3 * j := Some (ValuePtr off), 3 * j + 1 := Some (TypePtr j), 3 * j + 2 := Some (DirPtr j)]) \<and>
    length cells' = length cells \<and> (\<forall>k < off. cells' ! k = cells ! k) \<and>
    (\<forall>v sz. c_value_of A s (cs ! j) (values ! j) = Some (v, sz) \<longrightarrow> loaded cells' off sz v)"
proof -
  from value_turn [OF assms(4), of A "values ! j"] obtain cells' where c:
    "(case c_value_of A s (cs ! j) (values ! j) of None \<Rightarrow> Inr (Some cells, off)
      | Some (v, sz) \<Rightarrow> andthen (store_value (Some cells) off sz v) (\<lambda>mem. Inr (mem, off + sz))) =
      Inr (Some cells', off + value_size s (cs ! j))" "length cells' = length cells"
    "\<forall>k < off. cells' ! k = cells ! k"
    "\<forall>v sz. c_value_of A s (cs ! j) (values ! j) = Some (v, sz) \<longrightarrow> loaded cells' off sz v" by blast
  have "params_loop A s cs values (j # js) (Some cells) off params =
      params_loop A s cs values js (Some cells') (off + value_size s (cs ! j))
        (params[3 * j := Some (ValuePtr off), 3 * j + 1 := Some (TypePtr j), 3 * j + 2 := Some (DirPtr j)])"
    using assms(1-3)
    by (simp add: list_item_def array_set_def array_get_def in_range_def nat_add_distrib nat_mult_distrib
        mult.commute c(1))
  with c(2-4) show ?thesis by blast
qed

lemma params_loop_packs:
  assumes "length cs = length values" and "i \<le> length values" and "length params = length values * 3"
    and "length cells = value_offset s cs (length values)"
  shows "\<exists>cells' params'. params_loop A s cs values [i..<length values] (Some cells) (value_offset s cs i) params =
      Inr (Some cells', params') \<and> length cells' = length cells \<and> length params' = length params \<and>
    (\<forall>k < value_offset s cs i. cells' ! k = cells ! k) \<and> (\<forall>k < 3 * i. params' ! k = params ! k) \<and>
    (\<forall>j. i \<le> j \<and> j < length values \<longrightarrow> entries_of s cs params' j \<and>
      (\<forall>v sz. c_value_of A s (cs ! j) (values ! j) = Some (v, sz) \<longrightarrow>
        loaded cells' (value_offset s cs j) sz v))"
  using assms
proof (induction "length values - i" arbitrary: i cells params)
  case 0
  then show ?case by auto
next
  case (Suc n)
  let ?off = "value_offset s cs i"
  from Suc.hyps(2) have i: "i < length values" by simp
  have off: "?off + value_size s (cs ! i) = value_offset s cs (Suc i)"
    using value_offset_Suc [of i cs s] i Suc.prems(1) by simp
  then have room: "?off + value_size s (cs ! i) \<le> length cells"
    using value_offset_mono [of "Suc i" "length values" s cs] i Suc.prems(4) by simp
  let ?ps = "params[3 * i := Some (ValuePtr ?off), 3 * i + 1 := Some (TypePtr i), 3 * i + 2 := Some (DirPtr i)]"
  from params_turn [OF i Suc.prems(1,3) room, of A "[Suc i..<length values]"] off obtain cells1 where 1:
    "params_loop A s cs values (i # [Suc i..<length values]) (Some cells) ?off params =
      params_loop A s cs values [Suc i..<length values] (Some cells1) (value_offset s cs (Suc i)) ?ps"
    "length cells1 = length cells" "\<forall>k < ?off. cells1 ! k = cells ! k"
    "\<forall>v sz. c_value_of A s (cs ! i) (values ! i) = Some (v, sz) \<longrightarrow> loaded cells1 ?off sz v"
    by auto
  have IH: "n = length values - Suc i" "Suc i \<le> length values" "length ?ps = length values * 3"
      "length cells1 = value_offset s cs (length values)"
    using Suc.hyps(2) Suc.prems i 1(2) by simp_all
  from Suc.hyps(1) [OF IH(1) Suc.prems(1) IH(2-4)] obtain cells' params' where 2:
    "params_loop A s cs values [Suc i..<length values] (Some cells1) (value_offset s cs (Suc i)) ?ps =
      Inr (Some cells', params')" "length cells' = length cells1" "length params' = length ?ps"
    "\<forall>k < value_offset s cs (Suc i). cells' ! k = cells1 ! k" "\<forall>k < 3 * Suc i. params' ! k = ?ps ! k"
    "\<forall>j. Suc i \<le> j \<and> j < length values \<longrightarrow> entries_of s cs params' j \<and>
      (\<forall>v sz. c_value_of A s (cs ! j) (values ! j) = Some (v, sz) \<longrightarrow>
        loaded cells' (value_offset s cs j) sz v)"
    by blast
  have "entries_of s cs params' i"
    using 2(5) i Suc.prems(3) by (simp add: entries_of_def nth_list_update)
  moreover have "loaded cells' ?off sz v" if "c_value_of A s (cs ! i) (values ! i) = Some (v, sz)" for v sz
    using 1(4) that off c_value_of_size [OF that] 2(2,4)
    by (intro loaded_cong [of cells1 ?off sz v cells' "value_offset s cs (Suc i)"]) simp_all
  moreover have "\<forall>k < ?off. cells' ! k = cells ! k" "\<forall>k < 3 * i. params' ! k = params ! k"
    using 1(3) 2(4,5) off by simp_all
  ultimately show ?case
    using 1(1,2) 2(1-3,6) i
    by (intro exI [of _ cells'] exI [of _ params'])
       (auto simp: upt_conv_Cons Suc_le_eq dest: le_neq_implies_less)
qed

lemma process_task_result:
  assumes "length types = length values" and "length dirs = length values"
    and "PyMem_Malloc A (value_offset s (codes A types) (length values))"
  shows "\<exists>call cells. process_task A s values types dirs refs =
      Inr (call, \<lparr>refs_values = refs_values refs - 1, refs_types = refs_types refs - 1,
                  refs_directions = refs_directions refs - 1\<rparr>) \<and>
    task_num_pars call = length values \<and> task_types call = codes A types \<and>
    task_directions call = codes A dirs \<and> task_values call = Some cells \<and>
    length cells = value_offset s (codes A types) (length values) \<and>
    (\<forall>j < length values. entries_of s (codes A types) (task_params call) j \<and>
      (\<forall>v sz. c_value_of A s (codes A types ! j) (values ! j) = Some (v, sz) \<longrightarrow>
        loaded cells (value_offset s (codes A types) j) sz v))"
proof -
  let ?n = "length values" and ?cs = "codes A types"
  have len: "length ?cs = ?n" "length (codes A dirs) = ?n" using assms(1,2) by (simp_all add: codes_def)
  have map_nth_n: "map (\<lambda>j. xs ! j) [0..<?n] = xs" if "length xs = ?n" for xs :: "int list"
    using that map_nth [of xs] by simp
  have size: "sum_list (map (\<lambda>j. value_size s (?cs ! j)) [0..<?n]) = value_offset s ?cs ?n"
  proof -
    have "map (\<lambda>j. value_size s (?cs ! j)) [0..<?n] = map (value_size s) (map (\<lambda>j. ?cs ! j) [0..<?n])"
      by simp
    then show ?thesis by (simp add: value_offset_def map_nth_n [OF len(1)] len)
  qed
  have types: "types_loop A s types dirs [0..<?n] [] [] 0 = Inr (?cs, codes A dirs, value_offset s ?cs ?n)"
    using assms(1,2) by (simp add: types_loop_codes size map_nth_n [OF len(1)] map_nth_n [OF len(2)])
  from params_loop_packs [of ?cs "values" 0 "replicate (?n * 3) None" "replicate (value_offset s ?cs ?n) None" s A] len
  obtain cells params where
    "params_loop A s ?cs values [0..<?n] (Some (replicate (value_offset s ?cs ?n) None)) 0
       (replicate (?n * 3) None) = Inr (Some cells, params)"
    "length cells = value_offset s ?cs ?n"
    "\<forall>j < ?n. entries_of s ?cs params j \<and>
      (\<forall>v sz. c_value_of A s (?cs ! j) (values ! j) = Some (v, sz) \<longrightarrow> loaded cells (value_offset s ?cs j) sz v)"
    by (auto simp: value_offset_def)
  with types assms(3) show ?thesis
    by (simp add: process_task_def)
qed

text \<open>
  C34. A task of Python is handed over packed: the runtime gets the codes of the types and the
  directions, one block that the values fill exactly, and for each parameter the place of its
  value behind those of the parameters before it, where that value is stored whole, and the
  places of its type and direction. The three lists, which the call only borrows, lose a
  reference each.
\<close>

theorem process_task_packs:
  assumes "length types = length values" and "length dirs = length values"
    and "PyMem_Malloc A (value_offset s (codes A types) (length values))"
  shows "\<exists>call cells. process_task A s values types dirs refs =
      Inr (call, \<lparr>refs_values = refs_values refs - 1, refs_types = refs_types refs - 1,
                  refs_directions = refs_directions refs - 1\<rparr>) \<and>
    task_num_pars call = length values \<and> task_types call = codes A types \<and>
    task_directions call = codes A dirs \<and> task_values call = Some cells \<and>
    length cells = value_offset s (codes A types) (length values) \<and>
    (\<forall>j < length values. entries_of s (codes A types) (task_params call) j \<and>
      (\<forall>v sz. c_value_of A s (codes A types ! j) (values ! j) = Some (v, sz) \<longrightarrow>
        loaded cells (value_offset s (codes A types) j) sz v))"
  by (rule process_task_result [OF assms])

definition example_api :: "(int, int) py_api" where
  "example_api = \<lparr>PyString_AsString = nat, PyInt_AsLong = (\<lambda>i. i), PyLong_AsLong = (\<lambda>i. i),
     PyFloat_AsDouble = (\<lambda>i. i), PyMem_Malloc = (\<lambda>n. n \<le> 1000)\<rparr>"

definition lp64 :: c_sizes where
  "lp64 = \<lparr>sizeof_ptr = 8, sizeof_int = 4, sizeof_long = 8, sizeof_double = 8\<rparr>"

lemma example_codes: "codes example_api [4, 7, 5] = [4, 7, 5]"
  by (simp add: codes_def c_int_def example_api_def)

lemma example_offset: "value_offset lp64 [4, 7, 5] 3 = 20"
  by (simp add: value_offset_def value_size_def datatype_of_def dtypes_def lp64_def)

theorem process_task_packs_witness:
  "\<exists>call cells. process_task example_api lp64 [42, 5, 6] [4, 7, 5] [0, 0, 0]
       \<lparr>refs_values = 1, refs_types = 1, refs_directions = 1\<rparr> =
     Inr (call, \<lparr>refs_values = 0, refs_types = 0, refs_directions = 0\<rparr>) \<and>
     task_num_pars call = 3 \<and> task_values call = Some cells \<and> length cells = 20"
proof -
  let ?refs = "\<lparr>refs_values = 1, refs_types = 1, refs_directions = 1\<rparr>"
  have "length [42, 5, 6 :: int] = 3" by simp
  moreover have "PyMem_Malloc example_api (value_offset lp64 (codes example_api [4, 7, 5]) (length [42, 5, 6 :: int]))"
    by (simp only: example_codes \<open>length [42, 5, 6 :: int] = 3\<close> example_offset) (simp add: example_api_def)
  ultimately obtain call cells where
    "process_task example_api lp64 [42, 5, 6] [4, 7, 5] [0, 0, 0] ?refs =
      Inr (call, \<lparr>refs_values = 1 - 1, refs_types = 1 - 1, refs_directions = 1 - 1\<rparr>)"
    "task_num_pars call = 3" "task_values call = Some cells" "length cells = value_offset lp64 [4, 7, 5] 3"
    using process_task_packs [of "[4, 7, 5]" "[42, 5, 6]" "[0, 0, 0]" example_api lp64 ?refs]
    unfolding example_codes by (metis length_Cons list_refs.select_convs list.size(3))
  then show ?thesis by (simp add: example_offset)
qed

text \<open>
  A parameter of a type without a C value takes no place in the block: the runtime is
  given the place of the next parameter's value for it, or, for the last one, the place behind
  the block.
\<close>

theorem unsupported_parameter_aliases:
  assumes "length types = length values" and "length dirs = length values"
    and "PyMem_Malloc A (value_offset s (codes A types) (length values))"
    and "j < length values" and "\<not> supported (codes A types ! j)"
  shows "\<exists>call refs' cells off. process_task A s values types dirs refs = Inr (call, refs') \<and>
    task_values call = Some cells \<and> task_params call ! (3 * j) = Some (ValuePtr off) \<and>
    (if j + 1 < length values then task_params call ! (3 * (j + 1)) = Some (ValuePtr off)
     else off = length cells)"
proof -
  have "value_size s (codes A types ! j) = 0"
    using assms(5) c_value_of_supported [of A s "codes A types ! j" "values ! j"]
    by (cases "c_value_of A s (codes A types ! j) (values ! j)") (auto dest: c_value_of_None)
  with assms(1,4) have off: "value_offset s (codes A types) (Suc j) = value_offset s (codes A types) j"
    by (simp add: value_offset_Suc codes_def)
  from process_task_result [OF assms(1-3), of refs] obtain call refs' cells where r:
    "process_task A s values types dirs refs = Inr (call, refs')" "task_values call = Some cells"
    "length cells = value_offset s (codes A types) (length values)"
    "\<forall>j < length values. entries_of s (codes A types) (task_params call) j" by blast
  show ?thesis
  proof (cases "j + 1 < length values")
    case True
    with r assms(4) off show ?thesis by (auto simp: entries_of_def)
  next
    case False
    with assms(4) have "length values = Suc j" by simp
    with r assms(4) off show ?thesis by (auto simp: entries_of_def)
  qed
qed

theorem unsupported_parameter_aliases_witness:
  "\<exists>call refs' cells off. process_task example_api lp64 [42, 5] [6, 4] [0, 0]
       \<lparr>refs_values = 1, refs_types = 1, refs_directions = 1\<rparr> = Inr (call, refs') \<and>
     task_values call = Some cells \<and> task_params call ! 0 = Some (ValuePtr off) \<and>
     task_params call ! 3 = Some (ValuePtr off)"
proof -
  let ?refs = "\<lparr>refs_values = 1, refs_types = 1, refs_directions = 1\<rparr>"
  have "codes example_api [6, 4] = [6, 4]" by (simp add: codes_def c_int_def example_api_def)
  moreover have "value_offset lp64 [6, 4] 2 = 4" "\<not> supported 6"
    by (simp_all add: value_offset_def value_size_def datatype_of_def dtypes_def lp64_def supported_def)
  moreover have "PyMem_Malloc example_api 4" by (simp add: example_api_def)
  moreover have two: "length [42, 5 :: int] = 2" by simp
  ultimately have "\<exists>call refs' cells off. process_task example_api lp64 [42, 5] [6, 4] [0, 0] ?refs = Inr (call, refs') \<and>
    task_values call = Some cells \<and> task_params call ! (3 * 0) = Some (ValuePtr off) \<and>
    (if 0 + 1 < length [42, 5 :: int] then task_params call ! (3 * (0 + 1)) = Some (ValuePtr off)
     else off = length cells)"
    by (intro unsupported_parameter_aliases) (simp_all only: two list.size One_nat_def add_0, simp_all)
  then show ?thesis by (simp only: two if_True mult_0_right) simp
qed

end
