(* ===== verification/StateStack.thy ===== *)
theory StateStack
  imports Prelude "HOL-Library.Word"
begin

text \<open>
  The stack of states of a thread in the merger,
  \<open>trunk/dependencies/extrae/src/merger/paraver/paraver_state.c\<close> with the fields of \<open>thread_t\<close>
  (\<open>merger/common/object_tree.h\<close>) that it uses. A state is an \<open>unsigned\<close>, kept as an \<open>int\<close> of the
  same bits. A cell that was allocated and not written is \<open>None\<close>. The functions take the thread
  that \<open>GET_THREAD_INFO\<close> finds.
\<close>

type_synonym state_id = "32 word"

definition STATE_ANY :: state_id where
  "STATE_ANY = - 1"

definition STATE_IDLE :: state_id where
  "STATE_IDLE = 0"

definition STATE_RUNNING :: state_id where
  "STATE_RUNNING = 1"

definition STATE_STOPPED :: state_id where
  "STATE_STOPPED = 2"

definition STATE_NOT_TRACING :: state_id where
  "STATE_NOT_TRACING = 14"

definition STATE_PROFILING :: state_id where
  "STATE_PROFILING = 18"

definition STATE_ALLOCMEM :: state_id where
  "STATE_ALLOCMEM = 30"

definition STATE_FREEMEM :: state_id where
  "STATE_FREEMEM = 31"

definition MAX_STATES_ALLOCATION :: int where
  "MAX_STATES_ALLOCATION = 128"

record thread_states =
  State_Stack :: "state_id option list"
  nStates :: int
  nStates_Allocated :: int

definition Top_State :: "thread_states \<Rightarrow> state_id res" where
  "Top_State th =
     (if nStates th > 0
      then andthen (array_get (State_Stack th) (nStates th - 1))
             (\<lambda>c. case c of None \<Rightarrow> Inl Uninitialised | Some s \<Rightarrow> Inr s)
      else Inr STATE_IDLE)"

text \<open>The start of \<open>Push_State\<close> and \<open>Pop_State\<close>: a state "not tracing" on top is taken off.\<close>

definition leave_not_tracing :: "thread_states \<Rightarrow> (state_id \<times> thread_states) res" where
  "leave_not_tracing th =
     andthen (Top_State th) (\<lambda>top_state.
       if top_state = STATE_NOT_TRACING then
         if nStates th - 1 \<ge> 0 then
           let th = th\<lparr>nStates := nStates th - 1\<rparr> in
           andthen (Top_State th) (\<lambda>top_state. Inr (top_state, th))
         else Inr (STATE_IDLE, th)
       else Inr (top_state, th))"

definition states_grow :: "allocator \<Rightarrow> thread_states \<Rightarrow> thread_states res" where
  "states_grow alloc th =
     andthen (guard (alloc (nat (nStates_Allocated th + MAX_STATES_ALLOCATION) * 4)) (Exit (- 1))) (\<lambda>_.
       Inr (th\<lparr>State_Stack := State_Stack th @ replicate (nat MAX_STATES_ALLOCATION) None,
              nStates_Allocated := nStates_Allocated th + MAX_STATES_ALLOCATION\<rparr>))"

definition Push_State :: "allocator \<Rightarrow> state_id \<Rightarrow> thread_states \<Rightarrow> (state_id \<times> thread_states) res" where
  "Push_State alloc new_state th =
     andthen (leave_not_tracing th) (\<lambda>(top_state, th).
     andthen (if nStates th = nStates_Allocated th then states_grow alloc th else Inr th) (\<lambda>th.
     andthen (array_set (State_Stack th) (nStates th) (Some new_state)) (\<lambda>cells.
       Inr (new_state, th\<lparr>State_Stack := cells, nStates := nStates th + 1\<rparr>))))"

definition Pop_State :: "state_id \<Rightarrow> thread_states \<Rightarrow> (state_id \<times> thread_states) res" where
  "Pop_State old_state th =
     andthen (leave_not_tracing th) (\<lambda>(top_state, th).
       if old_state \<noteq> STATE_ANY \<and> top_state \<noteq> old_state then Inr (top_state, th)
       else if nStates th - 1 \<ge> 0 then
         let th = th\<lparr>nStates := nStates th - 1\<rparr> in
         andthen (array_get (State_Stack th) (nStates th)) (\<lambda>c.
           case c of None \<Rightarrow> Inl Uninitialised | Some s \<Rightarrow> Inr (s, th))
       else Inr (STATE_IDLE, th))"

definition Pop_State_On_Top :: "thread_states \<Rightarrow> (state_id \<times> thread_states) res" where
  "Pop_State_On_Top th =
     (if nStates th - 1 \<ge> 0 then
        let th = th\<lparr>nStates := nStates th - 1\<rparr> in
        andthen (Top_State th) (\<lambda>top_state. Inr (top_state, th))
      else Inr (STATE_IDLE, th))"

function Pop_Until_loop :: "state_id \<Rightarrow> state_id \<Rightarrow> thread_states \<Rightarrow> (state_id \<times> thread_states) res" where
  "Pop_Until_loop until_state top_state th =
     (if top_state \<noteq> until_state \<and> nStates th > 0
      then andthen (Pop_State_On_Top th) (\<lambda>p. Pop_Until_loop until_state (fst p) (snd p))
      else Inr (top_state, th))"
  by pat_completeness auto
termination
  by (relation "measure (\<lambda>(u, t, th). nat (nStates th))") (auto simp: Pop_State_On_Top_def Let_def split: if_splits)

declare Pop_Until_loop.simps [simp del]

definition Pop_Until :: "state_id \<Rightarrow> thread_states \<Rightarrow> (state_id \<times> thread_states) res" where
  "Pop_Until until_state th =
     andthen (Top_State th) (\<lambda>top_state. Pop_Until_loop until_state top_state th)"

definition Switch_State :: "allocator \<Rightarrow> state_id \<Rightarrow> bool \<Rightarrow> thread_states \<Rightarrow> (state_id \<times> thread_states) res" where
  "Switch_State alloc state condition th =
     (if condition then Push_State alloc state th else Pop_State state th)"

definition State_Excluded :: "state_id list \<Rightarrow> state_id \<Rightarrow> bool" where
  "State_Excluded excluded_states state \<longleftrightarrow> first_index (\<lambda>s. s = state) excluded_states \<noteq> None"

datatype trace_mode = Mode_Disabled | Mode_Detail | Mode_Bursts | Mode_Phase_Profile

definition Initialize_Trace_Mode_States ::
  "allocator \<Rightarrow> nat \<Rightarrow> trace_mode \<Rightarrow> thread_states \<Rightarrow> (state_id \<times> thread_states) res" where
  "Initialize_Trace_Mode_States alloc thread mode th =
     (let th = th\<lparr>nStates := 0\<rparr> in
      case mode of
        Mode_Bursts \<Rightarrow> Push_State alloc STATE_IDLE th
      | Mode_Phase_Profile \<Rightarrow> Push_State alloc STATE_PROFILING th
      | Mode_Disabled \<Rightarrow> Push_State alloc STATE_NOT_TRACING th
      | Mode_Detail \<Rightarrow>
          if thread > 1 then Push_State alloc STATE_IDLE th else Push_State alloc STATE_RUNNING th)"

text \<open>What \<open>Initialize_States\<close> does to the stack of one object.\<close>

definition initial_states :: "allocator \<Rightarrow> bool \<Rightarrow> thread_states \<Rightarrow> thread_states res" where
  "initial_states alloc skips_events th =
     andthen (Push_State alloc STATE_STOPPED th) (\<lambda>(_, th).
       if skips_events then
         andthen (Push_State alloc STATE_RUNNING th) (\<lambda>(_, th).
         andthen (Push_State alloc STATE_NOT_TRACING th) (\<lambda>(_, th). Inr th))
       else Inr th)"

section \<open>The invariant of a stack\<close>

definition states :: "thread_states \<Rightarrow> state_id list" where
  "states th = map the (take (nat (nStates th)) (State_Stack th))"

definition stack_ok :: "thread_states \<Rightarrow> bool" where
  "stack_ok th \<longleftrightarrow> 0 \<le> nStates th \<and> nStates th \<le> nStates_Allocated th \<and>
     nStates_Allocated th = int (length (State_Stack th)) \<and>
     None \<notin> set (take (nat (nStates th)) (State_Stack th))"

definition top_of :: "state_id list \<Rightarrow> state_id" where
  "top_of ss = (if ss = [] then STATE_IDLE else last ss)"

text \<open>What \<open>leave_not_tracing\<close> does to the list of states.\<close>

definition tracing_part :: "state_id list \<Rightarrow> state_id list" where
  "tracing_part ss = (if ss \<noteq> [] \<and> last ss = STATE_NOT_TRACING then butlast ss else ss)"

lemma states_length: "stack_ok th \<Longrightarrow> length (states th) = nat (nStates th)"
  by (auto simp: stack_ok_def states_def min_def)

lemma states_empty: "stack_ok th \<Longrightarrow> states th = [] \<longleftrightarrow> nStates th = 0"
  using states_length [of th] by (auto simp: stack_ok_def)

lemma cell_below:
  assumes "stack_ok th" and "0 \<le> k" and "k < nStates th"
  shows "array_get (State_Stack th) k = Inr (Some (states th ! nat k))"
proof -
  have k: "nat k < nat (nStates th)" "nat (nStates th) \<le> length (State_Stack th)"
    using assms by (auto simp: stack_ok_def)
  then have "take (nat (nStates th)) (State_Stack th) ! nat k \<in> set (take (nat (nStates th)) (State_Stack th))"
    by (intro nth_mem) simp
  with k have "State_Stack th ! nat k \<in> set (take (nat (nStates th)) (State_Stack th))" by simp
  with assms(1) have "State_Stack th ! nat k \<noteq> None" by (metis stack_ok_def)
  with assms k show ?thesis
    by (auto simp: array_get_def in_range_def states_def stack_ok_def)
qed

lemma Top_State_top: "stack_ok th \<Longrightarrow> Top_State th = Inr (top_of (states th))"
  using cell_below [of th "nStates th - 1"] states_empty [of th] states_length [of th]
  by (auto simp: Top_State_def top_of_def last_conv_nth nat_diff_distrib stack_ok_def)

lemma drop_top:
  assumes "stack_ok th" and "nStates th > 0"
  shows "stack_ok (th\<lparr>nStates := nStates th - 1\<rparr>)"
    and "states (th\<lparr>nStates := nStates th - 1\<rparr>) = butlast (states th)"
proof -
  have n: "nat (nStates th) = Suc (nat (nStates th - 1))" using assms(2) by simp
  have "set (take (nat (nStates th - 1)) (State_Stack th)) \<subseteq> set (take (nat (nStates th)) (State_Stack th))"
    using assms(2) by (intro set_take_subset_set_take) simp
  then show "stack_ok (th\<lparr>nStates := nStates th - 1\<rparr>)"
    using assms by (auto simp: stack_ok_def)
  show "states (th\<lparr>nStates := nStates th - 1\<rparr>) = butlast (states th)"
    using assms states_length [OF assms(1)]
    by (simp add: states_def butlast_conv_take take_map min_def stack_ok_def)
       (simp add: n)
qed

lemma leave_not_tracing_result:
  assumes "stack_ok th"
  obtains th' where "leave_not_tracing th = Inr (top_of (tracing_part (states th)), th')"
    and "stack_ok th'" and "states th' = tracing_part (states th)"
    and "nStates_Allocated th' = nStates_Allocated th"
proof (cases "states th \<noteq> [] \<and> last (states th) = STATE_NOT_TRACING")
  case True
  then have n: "nStates th > 0" using assms states_empty [OF assms] by (simp add: stack_ok_def)
  let ?th = "th\<lparr>nStates := nStates th - 1\<rparr>"
  have "leave_not_tracing th = Inr (top_of (tracing_part (states th)), ?th)"
    using True n Top_State_top [OF assms] Top_State_top [OF drop_top(1) [OF assms n]]
    by (simp add: leave_not_tracing_def top_of_def tracing_part_def drop_top(2) [OF assms n])
  then show ?thesis
    using True drop_top [OF assms n] by (intro that [of ?th]) (simp_all add: tracing_part_def)
next
  case False
  then have "top_of (states th) \<noteq> STATE_NOT_TRACING"
    by (auto simp: top_of_def STATE_IDLE_def STATE_NOT_TRACING_def)
  then have "leave_not_tracing th = Inr (top_of (tracing_part (states th)), th)"
    using False Top_State_top [OF assms] by (auto simp: leave_not_tracing_def tracing_part_def)
  moreover have "tracing_part (states th) = states th"
    using False by (auto simp: tracing_part_def)
  ultimately show ?thesis
    using assms by (intro that [of th]) simp_all
qed

lemma states_grow_result:
  assumes "stack_ok th" and "states_grow alloc th = Inr th'"
  shows "stack_ok th' \<and> states th' = states th \<and> nStates th' = nStates th \<and> nStates th' < nStates_Allocated th'"
  using assms by (auto simp: states_grow_def stack_ok_def states_def MAX_STATES_ALLOCATION_def)

lemma nStates_le: "stack_ok th \<Longrightarrow> nStates th \<le> nStates_Allocated th"
  by (simp add: stack_ok_def)

lemma Push_State_result:
  assumes "stack_ok th" and "Push_State alloc s th = Inr (r, th')"
  shows "stack_ok th' \<and> states th' = tracing_part (states th) @ [s] \<and> r = s"
proof -
  from leave_not_tracing_result [OF assms(1)] obtain th1 where
    1: "leave_not_tracing th = Inr (top_of (tracing_part (states th)), th1)" "stack_ok th1"
    "states th1 = tracing_part (states th)" .
  from assms(2) 1(1) obtain th2 cells where
    2: "(if nStates th1 = nStates_Allocated th1 then states_grow alloc th1 else Inr th1) = Inr th2"
    "array_set (State_Stack th2) (nStates th2) (Some s) = Inr cells"
    "th' = th2\<lparr>State_Stack := cells, nStates := nStates th2 + 1\<rparr>" "r = s"
    by (auto simp: Push_State_def)
  have 3: "stack_ok th2" "states th2 = states th1" "nStates th2 < nStates_Allocated th2"
    using 2(1) 1(2) states_grow_result [OF 1(2), of alloc th2] nStates_le [OF 1(2)] by (auto split: if_splits)
  then have n: "nat (nStates th2) < length (State_Stack th2)" "0 \<le> nStates th2"
    "nat (nStates th2 + 1) = Suc (nat (nStates th2))"
    by (auto simp: stack_ok_def)
  with 2(2) have cells: "cells = (State_Stack th2)[nat (nStates th2) := Some s]"
    by (simp add: array_set_def in_range_def)
  with n have "take (nat (nStates th2 + 1)) cells = take (nat (nStates th2)) (State_Stack th2) @ [Some s]"
    by (simp add: take_Suc_conv_app_nth)
  with 3 n cells show ?thesis
    using 1(3) by (auto simp: 2(3,4) stack_ok_def states_def)
qed

lemma Push_State_returns:
  assumes "stack_ok th" and "ample alloc"
  shows "\<exists>th'. Push_State alloc s th = Inr (s, th')"
proof -
  from leave_not_tracing_result [OF assms(1)] obtain th1 where
    1: "leave_not_tracing th = Inr (top_of (tracing_part (states th)), th1)" "stack_ok th1" .
  then show ?thesis
    using assms(2)
    by (auto simp: Push_State_def states_grow_def ample_def array_set_def in_range_def stack_ok_def
        MAX_STATES_ALLOCATION_def)
qed

lemma Pop_State_result:
  assumes "stack_ok th"
  shows "\<exists>th'. Pop_State s th = Inr (top_of (tracing_part (states th)), th') \<and> stack_ok th' \<and>
    states th' = (if s = STATE_ANY \<or> s = top_of (tracing_part (states th))
                  then butlast (tracing_part (states th)) else tracing_part (states th))"
proof -
  let ?ss = "tracing_part (states th)"
  from leave_not_tracing_result [OF assms] obtain th1 where
    1: "leave_not_tracing th = Inr (top_of ?ss, th1)" "stack_ok th1" "states th1 = ?ss" .
  show ?thesis
  proof (cases "s \<noteq> STATE_ANY \<and> top_of ?ss \<noteq> s")
    case True
    with 1 show ?thesis by (auto simp: Pop_State_def)
  next
    case False
    show ?thesis
    proof (cases "nStates th1 > 0")
      case True
      have "array_get (State_Stack th1) (nStates th1 - 1) = Inr (Some (top_of ?ss))"
        using cell_below [OF 1(2), of "nStates th1 - 1"] True 1(3) states_length [OF 1(2)] states_empty [OF 1(2)]
        by (auto simp: top_of_def last_conv_nth nat_diff_distrib)
      with True False 1 drop_top [OF 1(2) True] show ?thesis
        by (auto simp: Pop_State_def Let_def)
    next
      case empty: False
      with 1(2) states_empty [OF 1(2)] have "states th1 = []" by (simp add: stack_ok_def)
      with empty False 1 show ?thesis by (auto simp: Pop_State_def top_of_def)
    qed
  qed
qed

lemma Pop_Until_loop_result:
  assumes "stack_ok th" and "top_state = top_of (states th)"
  shows "\<exists>th' n. Pop_Until_loop u top_state th = Inr (top_of (states th'), th') \<and> stack_ok th' \<and>
    states th' = take n (states th) \<and> (states th' = [] \<or> top_of (states th') = u)"
  using assms
proof (induction u top_state th rule: Pop_Until_loop.induct)
  case (1 u top_state th)
  show ?case
  proof (cases "top_state \<noteq> u \<and> nStates th > 0")
    case True
    let ?th = "th\<lparr>nStates := nStates th - 1\<rparr>"
    from True have n: "nStates th > 0" by simp
    have on_top: "Pop_State_On_Top th = Inr (top_of (states ?th), ?th)"
      using n Top_State_top [OF drop_top(1) [OF "1.prems"(1) n]] by (simp add: Pop_State_On_Top_def Let_def)
    from "1.IH" [OF True on_top] drop_top(1) [OF "1.prems"(1) n] obtain th' m where r:
      "Pop_Until_loop u (top_of (states ?th)) ?th = Inr (top_of (states th'), th')" "stack_ok th'"
      "states th' = take m (states ?th)" "states th' = [] \<or> top_of (states th') = u"
      by (fastforce simp del: take_eq_Nil take_eq_Nil2)
    have "take m (butlast (states th)) = take (min m (length (states th) - 1)) (states th)"
      by (simp add: butlast_conv_take)
    with r True on_top drop_top(2) [OF "1.prems"(1) n] show ?thesis
      by (subst Pop_Until_loop.simps) auto
  next
    case False
    then have "Pop_Until_loop u top_state th = Inr (top_state, th)"
      by (subst Pop_Until_loop.simps) auto
    moreover have "states th = [] \<or> top_of (states th) = u"
      using False "1.prems" states_empty [OF "1.prems"(1)] by (auto simp: stack_ok_def)
    ultimately show ?thesis
      using "1.prems" by (intro exI [of _ th] exI [of _ "length (states th)"]) simp
  qed
qed

section \<open>Every stack the merger can reach\<close>

text \<open>
  The steps of a thread's stack: the calls the event handlers make. A thread starts with the
  empty stack.
\<close>

definition no_states :: thread_states where
  "no_states = \<lparr>State_Stack = [], nStates = 0, nStates_Allocated = 0\<rparr>"

inductive stack_step :: "allocator \<Rightarrow> thread_states \<Rightarrow> thread_states \<Rightarrow> bool" for alloc where
  push: "Push_State alloc s th = Inr (r, th') \<Longrightarrow> stack_step alloc th th'"
| pop: "Pop_State s th = Inr (r, th') \<Longrightarrow> stack_step alloc th th'"
| switch: "Switch_State alloc s c th = Inr (r, th') \<Longrightarrow> stack_step alloc th th'"
| pop_until: "Pop_Until s th = Inr (r, th') \<Longrightarrow> stack_step alloc th th'"
| set_mode: "Initialize_Trace_Mode_States alloc n mode th = Inr (r, th') \<Longrightarrow> stack_step alloc th th'"
| initial: "initial_states alloc skips th = Inr th' \<Longrightarrow> stack_step alloc th th'"

inductive reachable_stack :: "allocator \<Rightarrow> thread_states \<Rightarrow> bool" for alloc where
  start: "reachable_stack alloc no_states"
| step: "reachable_stack alloc th \<Longrightarrow> stack_step alloc th th' \<Longrightarrow> reachable_stack alloc th'"

inductive_cases stack_stepE: "stack_step alloc th th'"

definition tops_only :: "state_id list \<Rightarrow> bool" where
  "tops_only ss \<longleftrightarrow> STATE_NOT_TRACING \<notin> set (butlast ss)"

definition stack_inv :: "thread_states \<Rightarrow> bool" where
  "stack_inv th \<longleftrightarrow> stack_ok th \<and> tops_only (states th)"

lemma tops_only_tracing: "tops_only ss \<Longrightarrow> STATE_NOT_TRACING \<notin> set (tracing_part ss)"
  by (cases ss rule: rev_cases) (auto simp: tops_only_def tracing_part_def)

lemma tops_only_clean: "STATE_NOT_TRACING \<notin> set ss \<Longrightarrow> tops_only ss"
  by (auto simp: tops_only_def dest: in_set_butlastD)

lemma push_inv: "stack_inv th \<Longrightarrow> Push_State alloc s th = Inr (r, th') \<Longrightarrow> stack_inv th'"
  using Push_State_result [of th alloc s r th'] tops_only_tracing [of "states th"]
  by (auto simp: stack_inv_def tops_only_def)

lemma pop_inv:
  assumes "stack_inv th" and "Pop_State s th = Inr (r, th')"
  shows "stack_inv th'"
proof -
  have "STATE_NOT_TRACING \<notin> set (tracing_part (states th))"
    using assms(1) by (auto simp: stack_inv_def dest: tops_only_tracing)
  then have "tops_only (tracing_part (states th))" "tops_only (butlast (tracing_part (states th)))"
    by (auto intro!: tops_only_clean dest: in_set_butlastD)
  with assms Pop_State_result [of th s] show ?thesis
    by (auto simp: stack_inv_def split: if_splits)
qed

lemma pop_until_inv:
  assumes "stack_inv th" and "Pop_Until s th = Inr (r, th')"
  shows "stack_inv th'"
proof -
  from assms(1) have ok: "stack_ok th" "tops_only (states th)" by (simp_all add: stack_inv_def)
  from Pop_Until_loop_result [OF ok(1) refl, of s] assms(2) obtain n where
    "stack_ok th'" "states th' = take n (states th)"
    by (auto simp: Pop_Until_def Top_State_top [OF ok(1)])
  moreover have "tops_only (take n (states th))"
  proof (cases "n < length (states th)")
    case True
    then have "set (take n (states th)) \<subseteq> set (butlast (states th))"
      by (simp add: butlast_conv_take set_take_subset_set_take)
    with ok(2) show ?thesis by (intro tops_only_clean) (auto simp: tops_only_def)
  qed (use ok(2) in simp)
  ultimately show ?thesis by (simp add: stack_inv_def)
qed

lemma wiped_inv: "stack_ok th \<Longrightarrow> stack_inv (th\<lparr>nStates := 0\<rparr>)"
  by (auto simp: stack_inv_def stack_ok_def states_def tops_only_def)

lemma stack_step_inv:
  assumes "stack_step alloc th th'" and "stack_inv th"
  shows "stack_inv th'"
  using assms
proof cases
  case (set_mode n mode r)
  have "stack_inv (th\<lparr>nStates := 0\<rparr>)"
    using assms(2) by (intro wiped_inv) (simp add: stack_inv_def)
  with set_mode show ?thesis
    by (auto simp: Initialize_Trace_Mode_States_def Let_def intro: push_inv split: trace_mode.splits if_splits)
next
  case (initial skips)
  then show ?thesis
    using assms(2) by (auto simp: initial_states_def split: if_splits) (blast intro: push_inv)+
qed (auto simp: Switch_State_def intro: push_inv pop_inv pop_until_inv split: if_splits)

lemma reachable_stack_inv: "reachable_stack alloc th \<Longrightarrow> stack_inv th"
proof (induction rule: reachable_stack.induct)
  case start
  show ?case by (simp add: no_states_def stack_inv_def stack_ok_def states_def tops_only_def)
next
  case (step th th')
  then show ?case by (blast intro: stack_step_inv)
qed

lemma ample_all: "ample (\<lambda>_. True)"
  by (simp add: ample_def)

lemma push_next:
  assumes "stack_ok th"
  obtains th' where "Push_State (\<lambda>_. True) s th = Inr (s, th')" and "stack_ok th'"
    and "states th' = tracing_part (states th) @ [s]"
  using Push_State_returns [OF assms ample_all, of s] Push_State_result [OF assms] by blast

text \<open>
  C35. Whatever a thread's event handlers do with its stack (pushes, pops, switches, pops up to a
  state, the resets of a change of tracing mode, the initial states), the stack stays well formed:
  the count is not negative and within the allocation, every cell below it has been written, the
  state "not tracing" is nowhere but on top, and \<open>Top_State\<close> reads the last state pushed, or
  "idle" when there is none.
\<close>

theorem reachable_stack_well_formed:
  assumes "reachable_stack alloc th"
  shows "0 \<le> nStates th \<and> nStates th \<le> nStates_Allocated th \<and>
    nStates_Allocated th = int (length (State_Stack th)) \<and>
    None \<notin> set (take (nat (nStates th)) (State_Stack th)) \<and>
    STATE_NOT_TRACING \<notin> set (butlast (states th)) \<and>
    Top_State th = Inr (if nStates th = 0 then STATE_IDLE else last (states th))"
proof -
  have inv: "stack_ok th" "tops_only (states th)"
    using reachable_stack_inv [OF assms] by (simp_all add: stack_inv_def)
  from Top_State_top [OF inv(1)] states_empty [OF inv(1)]
  have "Top_State th = Inr (if nStates th = 0 then STATE_IDLE else last (states th))"
    by (simp add: top_of_def)
  with inv show ?thesis by (simp add: stack_ok_def tops_only_def)
qed

lemma reach_after_skipped_start:
  assumes "initial_states alloc True no_states = Inr th"
  shows "reachable_stack alloc th"
  using reachable_stack.step [OF reachable_stack.start stack_step.initial [OF assms]] .

theorem reachable_stack_well_formed_witness:
  "\<exists>th. initial_states (\<lambda>_. True) True no_states = Inr th \<and> nStates th = 3 \<and>
     Top_State th = Inr STATE_NOT_TRACING \<and> nStates th \<le> nStates_Allocated th"
proof -
  have 0: "stack_ok no_states" "states no_states = []"
    by (simp_all add: no_states_def stack_ok_def states_def)
  from push_next [OF 0(1)] obtain t1 where 1: "Push_State (\<lambda>_. True) STATE_STOPPED no_states = Inr (STATE_STOPPED, t1)"
    "stack_ok t1" "states t1 = [STATE_STOPPED]" by (metis 0(2) append_Nil tracing_part_def)
  from push_next [OF 1(2)] 1(3) obtain t2 where 2: "Push_State (\<lambda>_. True) STATE_RUNNING t1 = Inr (STATE_RUNNING, t2)"
    "stack_ok t2" "states t2 = [STATE_STOPPED, STATE_RUNNING]"
    by (auto simp: tracing_part_def STATE_STOPPED_def STATE_NOT_TRACING_def)
  from push_next [OF 2(2)] 2(3) obtain th where 3:
    "Push_State (\<lambda>_. True) STATE_NOT_TRACING t2 = Inr (STATE_NOT_TRACING, th)"
    "stack_ok th" "states th = [STATE_STOPPED, STATE_RUNNING, STATE_NOT_TRACING]"
    by (auto simp: tracing_part_def STATE_RUNNING_def STATE_NOT_TRACING_def)
  have th: "initial_states (\<lambda>_. True) True no_states = Inr th"
    using 1 2 3 by (simp add: initial_states_def)
  have "nStates th = 3" using states_length [OF 3(2)] 3(3) by simp
  with reachable_stack_well_formed [OF reach_after_skipped_start [OF th]] th 3(3) show ?thesis
    by auto
qed

section \<open>Balanced calls\<close>

text \<open>
  The events of a thread come in pairs: a begin event pushes a state and its end event pops it,
  and what happens in between is balanced too.
\<close>

type_synonym switch_event = "state_id \<times> bool"

inductive nested :: "switch_event list \<Rightarrow> bool" where
  none: "nested []"
| pair: "nested es \<Longrightarrow> s \<noteq> STATE_NOT_TRACING \<Longrightarrow> nested ((s, True) # es @ [(s, False)])"
| seq: "nested es \<Longrightarrow> nested es' \<Longrightarrow> nested (es @ es')"

fun switch_all :: "allocator \<Rightarrow> switch_event list \<Rightarrow> thread_states \<Rightarrow> thread_states res" where
  "switch_all alloc [] th = Inr th"
| "switch_all alloc ((s, c) # es) th = andthen (Switch_State alloc s c th) (\<lambda>(_, th). switch_all alloc es th)"

lemma switch_all_append:
  "switch_all alloc (es @ es') th = andthen (switch_all alloc es th) (switch_all alloc es')"
  by (induction alloc es th rule: switch_all.induct)
     (auto simp: andthen_assoc case_prod_unfold intro!: andthen_cong)

definition tracing :: "thread_states \<Rightarrow> bool" where
  "tracing th \<longleftrightarrow> stack_ok th \<and> tracing_part (states th) = states th"

lemma nested_restores:
  assumes "nested es" and "ample alloc" and "tracing th"
  shows "\<exists>th'. switch_all alloc es th = Inr th' \<and> tracing th' \<and> states th' = states th"
  using assms
proof (induction arbitrary: th rule: nested.induct)
  case (pair es s)
  from pair.prems obtain th1 where p: "Push_State alloc s th = Inr (s, th1)"
    using Push_State_returns [of th alloc s] by (auto simp: tracing_def)
  from Push_State_result [OF _ p] pair.prems(2) have th1: "stack_ok th1" "states th1 = states th @ [s]"
    by (auto simp: tracing_def)
  with pair.hyps(2) have "tracing th1" by (simp add: tracing_def tracing_part_def)
  from pair.IH [OF pair.prems(1) this] obtain th2 where
    th2: "switch_all alloc es th1 = Inr th2" "tracing th2" "states th2 = states th @ [s]"
    using th1(2) by auto
  with Pop_State_result [of th2 s] obtain th3 where
    th3: "Pop_State s th2 = Inr (s, th3)" "stack_ok th3" "states th3 = states th"
    by (auto simp: tracing_def top_of_def)
  with p th2 pair.prems(2) show ?case
    by (simp add: switch_all_append Switch_State_def tracing_def)
next
  case (seq es es')
  from seq.IH(1) [OF seq.prems] obtain th1 where
    th1: "switch_all alloc es th = Inr th1" "tracing th1" "states th1 = states th" by blast
  from seq.IH(2) [OF seq.prems(1) th1(2)] th1 show ?case by (auto simp: switch_all_append)
qed simp

text \<open>
  C36. Balanced pairs of events leave a thread's state as they found it: with memory for the stack,
  from any well-formed stack without "not tracing" on top, a nested sequence of state switches
  runs to its end, and afterwards the list of states is the one before it.
\<close>

theorem nested_switches_restore:
  assumes "nested es" and "ample alloc" and "stack_ok th" and "top_of (states th) \<noteq> STATE_NOT_TRACING"
  shows "\<exists>th'. switch_all alloc es th = Inr th' \<and> stack_ok th' \<and> states th' = states th \<and>
    Top_State th' = Top_State th"
proof -
  have "tracing_part (states th) = states th"
    using assms(4) by (auto simp: tracing_part_def top_of_def)
  with assms(3) have "tracing th" by (simp add: tracing_def)
  from nested_restores [OF assms(1,2) this] assms(3) show ?thesis
    by (auto simp: tracing_def Top_State_top)
qed

theorem nested_switches_restore_witness:
  "\<exists>th. switch_all (\<lambda>_. True) [(STATE_ALLOCMEM, True), (STATE_RUNNING, True), (STATE_RUNNING, False),
      (STATE_ALLOCMEM, False)] no_states = Inr th \<and> states th = []"
proof -
  have "nested ((STATE_RUNNING, True) # [] @ [(STATE_RUNNING, False)])"
    by (intro nested.pair nested.none) (simp add: STATE_RUNNING_def STATE_NOT_TRACING_def)
  then have "nested ((STATE_ALLOCMEM, True) # ((STATE_RUNNING, True) # [] @ [(STATE_RUNNING, False)]) @ [(STATE_ALLOCMEM, False)])"
    by (rule nested.pair) (simp add: STATE_ALLOCMEM_def STATE_NOT_TRACING_def)
  from nested_switches_restore [OF this ample_all, of no_states] show ?thesis
    by (auto simp: no_states_def stack_ok_def states_def top_of_def STATE_IDLE_def STATE_NOT_TRACING_def)
qed

end
