(* ===== verification/RecordFile.thy ===== *)
theory RecordFile
  imports Prelude
begin

text \<open>
  What the merger expects of a file of records: records are appended, the position of the next one
  can be asked for, and a record can be replaced at a position obtained before. \<open>ready\<close> says that
  the disk does not fail.
\<close>

locale record_file =
  fixes put :: "'t \<Rightarrow> 'r \<Rightarrow> 't res"
    and put_at :: "'t \<Rightarrow> 'r \<Rightarrow> int \<Rightarrow> 't res"
    and position :: "'t \<Rightarrow> int"
    and items :: "'t \<Rightarrow> 'r list"
    and inv :: "'t \<Rightarrow> bool"
    and ready :: "'t \<Rightarrow> bool"
    and proper :: "'r \<Rightarrow> bool"
    and width :: nat
  assumes put_items: "inv t \<Longrightarrow> proper r \<Longrightarrow> put t r = Inr t' \<Longrightarrow> inv t' \<and> items t' = items t @ [r]"
    and put_returns: "inv t \<Longrightarrow> proper r \<Longrightarrow> ready t \<Longrightarrow> \<exists>t'. put t r = Inr t' \<and> ready t'"
    and position_end: "inv t \<Longrightarrow> position t = int (width * length (items t))"
    and put_at_items: "inv t \<Longrightarrow> proper r \<Longrightarrow> k < length (items t) \<Longrightarrow> ready t \<Longrightarrow>
      put_at t r (int (width * k)) = Inr t' \<Longrightarrow> inv t' \<and> items t' = (items t)[k := r]"
    and put_at_returns: "inv t \<Longrightarrow> proper r \<Longrightarrow> k < length (items t) \<Longrightarrow> ready t \<Longrightarrow>
      \<exists>t'. put_at t r (int (width * k)) = Inr t' \<and> ready t'"
begin

lemma put_step:
  assumes "inv t" and "proper r" and "ready t"
  obtains t' where "put t r = Inr t'" and "inv t'" and "ready t'" and "items t' = items t @ [r]"
  using put_returns [OF assms] put_items [OF assms(1,2)] by blast

lemma put_at_step:
  assumes "inv t" and "proper r" and "ready t" and "k < length (items t)"
  obtains t' where "put_at t r (int (width * k)) = Inr t'" and "inv t'" and "ready t'"
    and "items t' = (items t)[k := r]"
  using put_at_returns [OF assms(1,2,4,3)] put_at_items [OF assms(1,2,4,3)] by blast

fun put_all :: "'t \<Rightarrow> 'r list \<Rightarrow> 't res" where
  "put_all t [] = Inr t"
| "put_all t (r # rs) = andthen (put t r) (\<lambda>t. put_all t rs)"

lemma put_all_items:
  assumes "inv t" and "\<forall>r \<in> set rs. proper r" and "ready t"
  shows "\<exists>t'. put_all t rs = Inr t' \<and> inv t' \<and> ready t' \<and> items t' = items t @ rs"
  using assms
proof (induction rs arbitrary: t)
  case (Cons r rs)
  then obtain t1 where t1: "put t r = Inr t1" "inv t1" "ready t1" "items t1 = items t @ [r]"
    by (auto intro: put_step [of t r])
  with Cons.IH [of t1] Cons.prems show ?case by auto
qed simp

text \<open>
  A record reserved at the position asked for, completed after others have been written, is in its
  place with the others after it.
\<close>

lemma reserve_and_complete:
  assumes "inv t" and "ready t" and "proper r0" and "proper r" and "\<forall>x \<in> set rs. proper x"
  shows "\<exists>t1 t2 t3. put t r0 = Inr t1 \<and> put_all t1 rs = Inr t2 \<and> put_at t2 r (position t) = Inr t3 \<and>
    inv t3 \<and> ready t3 \<and> items t3 = items t @ r # rs"
proof -
  from put_step [OF assms(1,3,2)] obtain t1 where
    1: "put t r0 = Inr t1" "inv t1" "ready t1" "items t1 = items t @ [r0]" .
  from put_all_items [OF 1(2) assms(5) 1(3)] obtain t2 where
    2: "put_all t1 rs = Inr t2" "inv t2" "ready t2" "items t2 = items t @ [r0] @ rs"
    using 1(4) by auto
  then have "length (items t) < length (items t2)" by simp
  from put_at_step [OF 2(2) assms(4) 2(3) this] obtain t3 where
    3: "put_at t2 r (int (width * length (items t))) = Inr t3" "inv t3" "ready t3"
    "items t3 = (items t2)[length (items t) := r]" .
  with 1 2 position_end [OF assms(1)] show ?thesis by auto
qed

end

end
