(* ===== verification/WriteFileBuffer.thy ===== *)
theory WriteFileBuffer
  imports EventRecord RecordFile
begin

text \<open>
  The merger's buffered files of fixed-size records,
  \<open>trunk/dependencies/extrae/src/merger/paraver/write_file_buffer.c\<close>.

  The descriptor is the file behind it: its bytes, the offset, and what the next calls of \<open>write\<close>
  do (\<open>None\<close> fails, \<open>Some n\<close> takes at most \<open>n\<close> bytes, all of it when the list is used up). \<open>lseek\<close>
  and \<open>ftruncate\<close> fail for a negative argument only. A write past the end fills the gap with
  zeros. The counts are naturals. The list of seen buffers is kept as its length.
\<close>

type_synonym byte = "8 word"

record tmp_file =
  file_bytes :: "byte list"
  file_offset :: nat
  write_answers :: "nat option list"

record WriteFileBuffer_t =
  Buffer :: "byte list"
  lastWrittenLocation :: nat
  sizeElement :: nat
  maxElements :: nat
  numElements :: nat
  FD :: tmp_file

section \<open>The descriptor\<close>

text \<open>\<open>splice xs p d\<close> is \<open>xs\<close> with the bytes from \<open>p\<close> on replaced by \<open>d\<close>.\<close>

definition splice :: "byte list \<Rightarrow> nat \<Rightarrow> byte list \<Rightarrow> byte list" where
  "splice xs p d = take p (xs @ replicate (p - length xs) 0) @ d @ drop (p + length d) xs"

definition fd_write :: "tmp_file \<Rightarrow> byte list \<Rightarrow> int \<times> tmp_file" where
  "fd_write f data =
     (let put = (\<lambda>d f. (int (length d), f\<lparr>file_bytes := (if d = [] then file_bytes f else splice (file_bytes f) (file_offset f) d),
                                  file_offset := file_offset f + length d\<rparr>))
      in case write_answers f of
           [] \<Rightarrow> put data f
         | None # as \<Rightarrow> (- 1, f\<lparr>write_answers := as\<rparr>)
         | Some n # as \<Rightarrow> put (take n data) (f\<lparr>write_answers := as\<rparr>))"

definition fd_seek_set :: "tmp_file \<Rightarrow> int \<Rightarrow> int \<times> tmp_file" where
  "fd_seek_set f p = (if p < 0 then (- 1, f) else (p, f\<lparr>file_offset := nat p\<rparr>))"

definition fd_seek_end :: "tmp_file \<Rightarrow> int \<times> tmp_file" where
  "fd_seek_end f = (int (length (file_bytes f)), f\<lparr>file_offset := length (file_bytes f)\<rparr>)"

definition fd_truncate :: "tmp_file \<Rightarrow> nat \<Rightarrow> tmp_file" where
  "fd_truncate f n = f\<lparr>file_bytes := take n (file_bytes f @ replicate (n - length (file_bytes f)) 0)\<rparr>"

text \<open>\<open>memcpy\<close> of \<open>n\<close> bytes to an offset of a block.\<close>

definition copy_into :: "byte list \<Rightarrow> nat \<Rightarrow> byte list \<Rightarrow> nat \<Rightarrow> byte list res" where
  "copy_into block p data n =
     (if p + n \<le> length block \<and> n \<le> length data
      then Inr (take p block @ take n data @ drop (p + n) block) else Inl OutOfBounds)"

section \<open>The operations\<close>

record wfb_platform =
  wfb_malloc :: allocator
  sizeof_wfb :: nat
  wfb_junk :: byte

definition WriteFileBuffer_new ::
  "wfb_platform \<Rightarrow> nat \<Rightarrow> tmp_file \<Rightarrow> string \<Rightarrow> nat \<Rightarrow> nat \<Rightarrow> (WriteFileBuffer_t \<times> nat) res" where
  "WriteFileBuffer_new P nSeenBuffers fd fname maxE sizeE =
     andthen (guard (wfb_malloc P (sizeof_wfb P)) (Exit (- 1))) (\<lambda>_.
     andthen (guard (wfb_malloc P (length fname + 1)) (Exit (- 1))) (\<lambda>_.
     andthen (guard (wfb_malloc P (maxE * sizeE)) (Exit (- 1))) (\<lambda>_.
     andthen (guard (wfb_malloc P (8 * (nSeenBuffers + 1))) (Exit (- 1))) (\<lambda>_.
       Inr (\<lparr>Buffer = replicate (maxE * sizeE) (wfb_junk P), lastWrittenLocation = 0, sizeElement = sizeE,
             maxElements = maxE, numElements = 0, FD = fd\<rparr>, nSeenBuffers + 1)))))"

definition WriteFileBuffer_getFD :: "WriteFileBuffer_t \<Rightarrow> tmp_file" where
  "WriteFileBuffer_getFD wfb = FD wfb"

definition WriteFileBuffer_flush :: "WriteFileBuffer_t \<Rightarrow> WriteFileBuffer_t res" where
  "WriteFileBuffer_flush wfb =
     (let total = numElements wfb * sizeElement wfb in
      andthen (guard (total \<le> length (Buffer wfb)) OutOfBounds) (\<lambda>_.
        let (res_write, fd) = fd_write (FD wfb) (take total (Buffer wfb)) in
        if res_write = - 1 then Inl (Exit (- 1))
        else if int total \<noteq> res_write then Inl (Exit (- 1))
        else let (last, fd) = fd_seek_end fd in
          Inr (wfb\<lparr>FD := fd, lastWrittenLocation := nat last, numElements := 0\<rparr>)))"

definition WriteFileBuffer_getPosition :: "WriteFileBuffer_t \<Rightarrow> int" where
  "WriteFileBuffer_getPosition wfb = int (lastWrittenLocation wfb + numElements wfb * sizeElement wfb)"

definition WriteFileBuffer_write :: "WriteFileBuffer_t \<Rightarrow> byte list \<Rightarrow> WriteFileBuffer_t res" where
  "WriteFileBuffer_write wfb data =
     andthen (copy_into (Buffer wfb) (numElements wfb * sizeElement wfb) data (sizeElement wfb)) (\<lambda>block.
       let wfb = wfb\<lparr>Buffer := block, numElements := numElements wfb + 1\<rparr> in
       if numElements wfb = maxElements wfb then WriteFileBuffer_flush wfb else Inr wfb)"

definition WriteFileBuffer_writeAt ::
  "WriteFileBuffer_t \<Rightarrow> byte list \<Rightarrow> int \<Rightarrow> WriteFileBuffer_t res" where
  "WriteFileBuffer_writeAt wfb data position =
     (if position < int (lastWrittenLocation wfb) then
        let (lseek_res, fd) = fd_seek_set (FD wfb) position in
        if lseek_res = - 1 then Inl (Exit (- 1))
        else andthen (guard (sizeElement wfb \<le> length data) OutOfBounds) (\<lambda>_.
          let (write_res, fd) = fd_write fd (take (sizeElement wfb) data) in
          if write_res = - 1 then Inl (Exit (- 1))
          else let (lseek_res, fd) = fd_seek_set fd (int (lastWrittenLocation wfb)) in
            if lseek_res = - 1 then Inl (Exit (- 1)) else Inr (wfb\<lparr>FD := fd\<rparr>))
      else if position + int (sizeElement wfb)
              > int (lastWrittenLocation wfb + sizeElement wfb * numElements wfb)
      then Inl (Exit (- 1))
      else andthen (copy_into (Buffer wfb) (nat position - lastWrittenLocation wfb) data (sizeElement wfb))
             (\<lambda>block. Inr (wfb\<lparr>Buffer := block\<rparr>)))"

definition WriteFileBuffer_removeLast :: "WriteFileBuffer_t \<Rightarrow> WriteFileBuffer_t" where
  "WriteFileBuffer_removeLast wfb =
     (if numElements wfb > 0 then wfb\<lparr>numElements := numElements wfb - 1\<rparr>
      else if lastWrittenLocation wfb \<ge> sizeElement wfb
      then wfb\<lparr>FD := fd_truncate (FD wfb) (lastWrittenLocation wfb - sizeElement wfb)\<rparr>
      else wfb)"

text \<open>What is left in the file when a buffer is deleted: its last flush.\<close>

definition WriteFileBuffer_delete :: "WriteFileBuffer_t \<Rightarrow> tmp_file res" where
  "WriteFileBuffer_delete wfb = andthen (WriteFileBuffer_flush wfb) (\<lambda>wfb. Inr (FD wfb))"

text \<open>\<open>Flush_FS\<close> (\<open>file_set.c\<close>) for the buffer of one file.\<close>

definition Flush_file :: "bool \<Rightarrow> WriteFileBuffer_t \<Rightarrow> WriteFileBuffer_t res" where
  "Flush_file remove_last wfb =
     WriteFileBuffer_flush (if remove_last then WriteFileBuffer_removeLast wfb else wfb)"

section \<open>The records of a file\<close>

definition chunks :: "nat \<Rightarrow> byte list \<Rightarrow> byte list list" where
  "chunks n xs = map (\<lambda>k. take n (drop (n * k) xs)) [0..<length xs div n]"

lemma length_chunks: "length (chunks n xs) = length xs div n"
  by (simp add: chunks_def)

lemma chunks_append:
  assumes "n > 0" and "length xs = n * m" and "length d = n"
  shows "chunks n (xs @ d) = chunks n xs @ [d]"
proof (rule nth_equalityI)
  have len: "length (xs @ d) div n = Suc m" "length xs div n = m"
    using assms by (simp_all add: div_add1_eq)
  then show "length (chunks n (xs @ d)) = length (chunks n xs @ [d])"
    by (simp add: length_chunks)
  fix k assume "k < length (chunks n (xs @ d))"
  with len have k: "k < Suc m" by (simp add: length_chunks)
  show "chunks n (xs @ d) ! k = (chunks n xs @ [d]) ! k"
  proof (cases "k = m")
    case True
    with assms len show ?thesis by (simp add: chunks_def nth_append)
  next
    case False
    with k have "k < m" by simp
    then have "n * k + n \<le> n * m" using mult_le_mono2 [of "Suc k" m n] by simp
    with assms len k False show ?thesis by (simp add: chunks_def nth_append)
  qed
qed

lemma chunks_splice:
  assumes "n > 0" and "length xs = n * m" and "length d = n" and "k < m"
  shows "chunks n (take (n * k) xs @ d @ drop (n * k + n) xs) = (chunks n xs)[k := d]"
proof (rule nth_equalityI)
  let ?ys = "take (n * k) xs @ d @ drop (n * k + n) xs"
  have bound: "n * k + n \<le> n * m" using mult_le_mono2 [of "Suc k" m n] assms(4) by simp
  then have len: "length ?ys = n * m" using assms by simp
  then show "length (chunks n ?ys) = length ((chunks n xs)[k := d])"
    using assms by (simp add: length_chunks)
  fix j assume "j < length (chunks n ?ys)"
  with len assms have j: "j < m" by (simp add: length_chunks)
  have at: "chunks n zs ! j = take n (drop (n * j) zs)" if "length zs = n * m" for zs
    using that j assms(1) by (simp add: chunks_def)
  show "chunks n ?ys ! j = (chunks n xs)[k := d] ! j"
  proof (cases j k rule: linorder_cases)
    case less
    then have "n * j + n \<le> n * k" using mult_le_mono2 [of "Suc j" k n] by simp
    then have "n \<le> n * k - n * j" by simp
    with assms bound have "take n (drop (n * j) ?ys) = take n (drop (n * j) xs)"
      by (simp add: min_def drop_take)
    with less show ?thesis by (simp add: at [OF len] at [OF assms(2)])
  next
    case equal
    then have "chunks n ?ys ! j = d"
      unfolding at [OF len] using assms bound by simp
    with equal assms show ?thesis by (simp add: length_chunks)
  next
    case greater
    then have "n * k + n \<le> n * j" using mult_le_mono2 [of "Suc k" j n] by simp
    then obtain e where e: "n * j = n * k + n + e" by (metis le_iff_add)
    then have "drop (n * j) ?ys = drop (n * j) xs"
      using assms bound by (simp add: add.commute)
    with greater show ?thesis by (simp add: at [OF len] at [OF assms(2)])
  qed
qed

section \<open>A buffer as a file of records\<close>

definition wfb_inv :: "WriteFileBuffer_t \<Rightarrow> bool" where
  "wfb_inv wfb \<longleftrightarrow> sizeElement wfb > 0 \<and> numElements wfb < maxElements wfb \<and>
     length (Buffer wfb) = maxElements wfb * sizeElement wfb \<and>
     lastWrittenLocation wfb = length (file_bytes (FD wfb)) \<and> file_offset (FD wfb) = lastWrittenLocation wfb \<and>
     sizeElement wfb dvd lastWrittenLocation wfb"

definition wfb_bytes :: "WriteFileBuffer_t \<Rightarrow> byte list" where
  "wfb_bytes wfb = file_bytes (FD wfb) @ take (numElements wfb * sizeElement wfb) (Buffer wfb)"

definition wfb_records :: "WriteFileBuffer_t \<Rightarrow> byte list list" where
  "wfb_records wfb = chunks (sizeElement wfb) (wfb_bytes wfb)"

definition wfb_ready :: "WriteFileBuffer_t \<Rightarrow> bool" where
  "wfb_ready wfb \<longleftrightarrow> write_answers (FD wfb) = []"

lemma wfb_room:
  assumes "wfb_inv wfb"
  shows "numElements wfb * sizeElement wfb + sizeElement wfb \<le> length (Buffer wfb)"
proof -
  from assms have "Suc (numElements wfb) \<le> maxElements wfb" by (simp add: wfb_inv_def)
  then have "Suc (numElements wfb) * sizeElement wfb \<le> maxElements wfb * sizeElement wfb" by (rule mult_le_mono1)
  with assms show ?thesis by (simp add: wfb_inv_def)
qed

lemma wfb_length:
  assumes "wfb_inv wfb"
  obtains m where "length (wfb_bytes wfb) = sizeElement wfb * m"
    and "length (wfb_records wfb) = m"
    and "lastWrittenLocation wfb = sizeElement wfb * (m - numElements wfb)" and "numElements wfb \<le> m"
proof -
  from assms have "sizeElement wfb dvd lastWrittenLocation wfb" unfolding wfb_inv_def by blast
  then obtain q where "lastWrittenLocation wfb = sizeElement wfb * q" ..
  moreover from this have "length (wfb_bytes wfb) = sizeElement wfb * (q + numElements wfb)"
    using assms wfb_room [OF assms] by (simp add: wfb_bytes_def wfb_inv_def min_def algebra_simps)
  ultimately show ?thesis
    using assms by (intro that [of "q + numElements wfb"]) (simp_all add: wfb_records_def length_chunks wfb_inv_def)
qed

lemma splice_end: "splice xs (length xs) d = xs @ d"
  by (simp add: splice_def)

lemma fd_write_all:
  assumes "fd_write f d = (int (length d), f')"
  shows "file_bytes f' = (if d = [] then file_bytes f else splice (file_bytes f) (file_offset f) d) \<and>
    file_offset f' = file_offset f + length d"
  using assms
  by (auto simp: fd_write_def Let_def min_def split: list.splits option.splits if_splits)

text \<open>A flush that succeeds moves the buffered bytes to the file and changes no record.\<close>

lemma flush_result:
  assumes "sizeElement wfb > 0" and "0 < maxElements wfb"
    and "length (Buffer wfb) = maxElements wfb * sizeElement wfb"
    and "lastWrittenLocation wfb = length (file_bytes (FD wfb))" and "file_offset (FD wfb) = lastWrittenLocation wfb"
    and "sizeElement wfb dvd lastWrittenLocation wfb" and "WriteFileBuffer_flush wfb = Inr wfb'"
  shows "wfb_inv wfb' \<and> file_bytes (FD wfb') = wfb_bytes wfb \<and> numElements wfb' = 0 \<and>
    sizeElement wfb' = sizeElement wfb"
proof -
  let ?total = "numElements wfb * sizeElement wfb"
  let ?d = "take ?total (Buffer wfb)"
  have total: "?total \<le> length (Buffer wfb)" using assms(7) by (auto simp: WriteFileBuffer_flush_def Let_def)
  then have len: "length ?d = ?total" by simp
  from assms(7) total obtain fd where fd: "fd_write (FD wfb) ?d = (int ?total, fd)"
    and wfb': "wfb' = wfb\<lparr>FD := fd\<lparr>file_offset := length (file_bytes fd)\<rparr>,
      lastWrittenLocation := length (file_bytes fd), numElements := 0\<rparr>"
    by (auto simp: WriteFileBuffer_flush_def Let_def fd_seek_end_def split: prod.splits if_splits)
  from fd_write_all [of "FD wfb" ?d fd] fd assms(4,5) have "file_bytes fd = file_bytes (FD wfb) @ ?d"
    unfolding len by (simp only: splice_end) (simp add: splice_end)
  with wfb' assms(1-6) total show ?thesis
    by (auto simp: wfb_inv_def wfb_bytes_def)
qed

lemma flush_returns:
  assumes "wfb_ready wfb" and "numElements wfb * sizeElement wfb \<le> length (Buffer wfb)"
  shows "\<exists>wfb'. WriteFileBuffer_flush wfb = Inr wfb' \<and> wfb_ready wfb'"
  using assms by (auto simp: WriteFileBuffer_flush_def Let_def fd_write_def wfb_ready_def fd_seek_end_def)

lemma write_result:
  assumes "wfb_inv wfb" and "length d = sizeElement wfb" and "WriteFileBuffer_write wfb d = Inr wfb'"
  shows "wfb_inv wfb' \<and> wfb_bytes wfb' = wfb_bytes wfb @ d \<and> sizeElement wfb' = sizeElement wfb"
proof -
  let ?p = "numElements wfb * sizeElement wfb"
  let ?block = "take ?p (Buffer wfb) @ d @ drop (?p + sizeElement wfb) (Buffer wfb)"
  let ?wfb = "wfb\<lparr>Buffer := ?block, numElements := numElements wfb + 1\<rparr>"
  note room = wfb_room [OF assms(1)]
  have bytes: "wfb_bytes ?wfb = wfb_bytes wfb @ d"
    using room assms(2) by (simp add: wfb_bytes_def add.commute)
  have len: "length ?block = length (Buffer wfb)" using room assms(2) by simp
  have w: "(if numElements ?wfb = maxElements ?wfb then WriteFileBuffer_flush ?wfb else Inr ?wfb) = Inr wfb'"
    using assms(2,3) room
    by (cases "Suc (numElements wfb) = maxElements wfb")
      (auto simp: WriteFileBuffer_write_def copy_into_def Let_def)
  show ?thesis
  proof (cases "numElements ?wfb = maxElements ?wfb")
    case True
    with w have "WriteFileBuffer_flush ?wfb = Inr wfb'" by simp
    from flush_result [OF _ _ _ _ _ _ this] assms(1) len bytes show ?thesis
      by (auto simp: wfb_inv_def wfb_bytes_def [of wfb'])
  next
    case False
    with w have "wfb' = ?wfb" by simp
    with False assms(1) len bytes show ?thesis by (auto simp: wfb_inv_def)
  qed
qed

lemma write_returns:
  assumes "wfb_inv wfb" and "length d = sizeElement wfb" and "wfb_ready wfb"
  shows "\<exists>wfb'. WriteFileBuffer_write wfb d = Inr wfb' \<and> wfb_ready wfb'"
proof -
  let ?p = "numElements wfb * sizeElement wfb"
  let ?wfb = "wfb\<lparr>Buffer := take ?p (Buffer wfb) @ d @ drop (?p + sizeElement wfb) (Buffer wfb),
    numElements := numElements wfb + 1\<rparr>"
  note room = wfb_room [OF assms(1)]
  have "wfb_ready ?wfb" using assms(3) by (simp add: wfb_ready_def)
  moreover have "numElements ?wfb * sizeElement ?wfb \<le> length (Buffer ?wfb)"
    using room assms(2) by simp
  ultimately have "\<exists>wfb'. WriteFileBuffer_flush ?wfb = Inr wfb' \<and> wfb_ready wfb'" by (rule flush_returns)
  with \<open>wfb_ready ?wfb\<close> show ?thesis
    using room assms(2) by (auto simp: WriteFileBuffer_write_def copy_into_def Let_def)
qed

lemma take_patch:
  assumes "q + s \<le> N" and "N \<le> length B" and "length d = s"
  shows "take N (take q B @ d @ drop (q + s) B) = take q (take N B) @ d @ drop (q + s) (take N B)"
proof -
  from assms have "min q N = q" "min q (length B) = q" "s \<le> N - q" by simp_all
  with assms(3) show ?thesis by (simp add: drop_take)
qed

lemma writeAt_bytes:
  assumes "wfb_inv wfb" and "length d = sizeElement wfb"
    and "p + sizeElement wfb \<le> length (wfb_bytes wfb)"
    and "p < lastWrittenLocation wfb \<Longrightarrow> p + sizeElement wfb \<le> lastWrittenLocation wfb"
    and "WriteFileBuffer_writeAt wfb d (int p) = Inr wfb'" and "wfb_ready wfb"
  shows "wfb_inv wfb' \<and> wfb_ready wfb' \<and> sizeElement wfb' = sizeElement wfb \<and>
    wfb_bytes wfb' = take p (wfb_bytes wfb) @ d @ drop (p + sizeElement wfb) (wfb_bytes wfb)"
proof (cases "p < lastWrittenLocation wfb")
  case True
  let ?f = "FD wfb"
  let ?bytes = "take p (file_bytes ?f) @ d @ drop (p + sizeElement wfb) (file_bytes ?f)"
  have last: "lastWrittenLocation wfb = length (file_bytes ?f)" using assms(1) by (simp add: wfb_inv_def)
  with True assms(4) have fit: "p + sizeElement wfb \<le> length (file_bytes ?f)" by simp
  then have "splice (file_bytes ?f) p d = ?bytes" by (simp add: splice_def assms(2))
  moreover have "d \<noteq> []" using assms(1,2) by (auto simp: wfb_inv_def)
  ultimately have "wfb' = wfb\<lparr>FD := ?f\<lparr>file_bytes := ?bytes, file_offset := lastWrittenLocation wfb\<rparr>\<rparr>"
    using True assms(2,5,6)
    by (simp add: WriteFileBuffer_writeAt_def fd_seek_set_def fd_write_def wfb_ready_def Let_def)
  moreover have "length ?bytes = length (file_bytes ?f)" using fit assms(2) by simp
  ultimately show ?thesis
    using assms(1,6) fit last by (simp add: wfb_inv_def wfb_bytes_def wfb_ready_def)
next
  case False
  have room: "numElements wfb * sizeElement wfb \<le> length (Buffer wfb)" using wfb_room [OF assms(1)] by simp
  have last: "lastWrittenLocation wfb = length (file_bytes (FD wfb))" using assms(1) by (simp add: wfb_inv_def)
  from False obtain q where q: "p = length (file_bytes (FD wfb)) + q" using last le_Suc_ex [of "length (file_bytes (FD wfb))" p] by auto
  have total: "q + sizeElement wfb \<le> numElements wfb * sizeElement wfb"
    using assms(3) room q by (simp add: wfb_bytes_def)
  with room have fit: "q + sizeElement wfb \<le> length (Buffer wfb)" by simp
  have lim: "\<not> int p + int (sizeElement wfb) > int (lastWrittenLocation wfb + sizeElement wfb * numElements wfb)"
    using total q last of_nat_mono [OF total, where 'a = int] by (simp add: mult.commute)
  have off: "nat (int p) - lastWrittenLocation wfb = q" using q last by simp
  have wfb': "wfb' = wfb\<lparr>Buffer := take q (Buffer wfb) @ d @ drop (q + sizeElement wfb) (Buffer wfb)\<rparr>"
    using assms(2,5) False lim off fit by (simp add: WriteFileBuffer_writeAt_def copy_into_def)
  have patched: "take (numElements wfb * sizeElement wfb) (Buffer wfb') =
      take q (take (numElements wfb * sizeElement wfb) (Buffer wfb)) @ d @
      drop (q + sizeElement wfb) (take (numElements wfb * sizeElement wfb) (Buffer wfb))"
    using take_patch [OF total room assms(2)] by (simp add: wfb')
  have "wfb_bytes wfb' = file_bytes (FD wfb) @ take (numElements wfb * sizeElement wfb) (Buffer wfb')"
    by (simp add: wfb' wfb_bytes_def)
  then have "wfb_bytes wfb' = take p (wfb_bytes wfb) @ d @ drop (p + sizeElement wfb) (wfb_bytes wfb)"
    unfolding patched by (simp add: q wfb_bytes_def)
  moreover have "wfb_inv wfb'"
    using assms(1,2) fit unfolding wfb' wfb_inv_def by auto
  ultimately show ?thesis
    using assms(6) by (simp add: wfb' wfb_ready_def)
qed

lemma records_append:
  assumes "wfb_inv wfb" and "wfb_bytes wfb' = wfb_bytes wfb @ d" and "sizeElement wfb' = sizeElement wfb"
    and "length d = sizeElement wfb"
  shows "wfb_records wfb' = wfb_records wfb @ [d]"
proof -
  from wfb_length [OF assms(1)] obtain m where "length (wfb_bytes wfb) = sizeElement wfb * m" by blast
  from chunks_append [OF _ this assms(4)] assms show ?thesis
    by (simp add: wfb_records_def wfb_inv_def)
qed

lemma writeAt_result:
  assumes "wfb_inv wfb" and "length d = sizeElement wfb" and "k < length (wfb_records wfb)"
    and "wfb_ready wfb" and "WriteFileBuffer_writeAt wfb d (int (sizeElement wfb * k)) = Inr wfb'"
  shows "wfb_inv wfb' \<and> wfb_ready wfb' \<and> sizeElement wfb' = sizeElement wfb \<and>
    wfb_records wfb' = (wfb_records wfb)[k := d]"
proof -
  let ?s = "sizeElement wfb"
  from wfb_length [OF assms(1)] obtain m where m: "length (wfb_bytes wfb) = ?s * m"
    "length (wfb_records wfb) = m" "lastWrittenLocation wfb = ?s * (m - numElements wfb)" by blast
  have k: "k < m" using assms(3) m(2) by simp
  have 1: "?s * k + ?s \<le> ?s * m" using mult_le_mono2 [of "Suc k" m ?s] k by simp
  have 2: "?s * k + ?s \<le> lastWrittenLocation wfb" if "?s * k < lastWrittenLocation wfb"
    using that m(3) mult_le_mono2 [of "Suc k" "m - numElements wfb" ?s] by simp
  from writeAt_bytes [OF assms(1,2) _ _ assms(5,4)] 1 2 m(1) have r: "wfb_inv wfb'" "wfb_ready wfb'"
    "sizeElement wfb' = ?s" "wfb_bytes wfb' = take (?s * k) (wfb_bytes wfb) @ d @ drop (?s * k + ?s) (wfb_bytes wfb)"
    by auto
  moreover have "?s > 0" using assms(1) by (simp add: wfb_inv_def)
  ultimately show ?thesis
    using chunks_splice [OF _ m(1) assms(2) k] by (simp add: wfb_records_def)
qed

lemma writeAt_returns:
  assumes "wfb_inv wfb" and "length d = sizeElement wfb" and "k < length (wfb_records wfb)" and "wfb_ready wfb"
  shows "\<exists>wfb'. WriteFileBuffer_writeAt wfb d (int (sizeElement wfb * k)) = Inr wfb'"
proof (cases "sizeElement wfb * k < lastWrittenLocation wfb")
  case True
  with assms(2,4) show ?thesis
    by (simp add: WriteFileBuffer_writeAt_def fd_seek_set_def fd_write_def wfb_ready_def Let_def del: of_nat_mult)
next
  case False
  let ?s = "sizeElement wfb" and ?last = "lastWrittenLocation wfb"
  from wfb_length [OF assms(1)] obtain m where m: "length (wfb_records wfb) = m"
    "?last = ?s * (m - numElements wfb)" "numElements wfb \<le> m" by blast
  then have total: "?last + ?s * numElements wfb = ?s * m"
    by (simp add: add_mult_distrib2 [symmetric])
  have "Suc k \<le> m" using assms(3) m(1) by simp
  then have "?s * k + ?s \<le> ?s * m" using mult_le_mono2 [of "Suc k" m ?s] by simp
  then have lim: "?s * k + ?s \<le> ?last + ?s * numElements wfb" using total by simp
  with False wfb_room [OF assms(1)] have fit: "?s * k - ?last + ?s \<le> length (Buffer wfb)"
    by (simp add: mult.commute)
  from lim have "\<not> int (?s * k) + int ?s > int (?last + ?s * numElements wfb)"
    by (simp only: of_nat_add [symmetric] of_nat_less_iff)
  with False fit assms(2) show ?thesis
    by (simp add: WriteFileBuffer_writeAt_def copy_into_def del: of_nat_mult of_nat_add)
qed

lemma position_result:
  assumes "wfb_inv wfb"
  shows "WriteFileBuffer_getPosition wfb = int (sizeElement wfb * length (wfb_records wfb))"
proof -
  from wfb_length [OF assms] obtain m where m: "length (wfb_records wfb) = m"
    "lastWrittenLocation wfb = sizeElement wfb * (m - numElements wfb)" "numElements wfb \<le> m" by blast
  have "lastWrittenLocation wfb + numElements wfb * sizeElement wfb =
      sizeElement wfb * ((m - numElements wfb) + numElements wfb)"
    by (simp only: m(2) add_mult_distrib2 mult.commute)
  also have "\<dots> = sizeElement wfb * m" using m(3) by simp
  finally show ?thesis by (simp only: WriteFileBuffer_getPosition_def m(1))
qed

definition sized_inv :: "nat \<Rightarrow> WriteFileBuffer_t \<Rightarrow> bool" where
  "sized_inv n wfb \<longleftrightarrow> wfb_inv wfb \<and> sizeElement wfb = n"

interpretation bytes: record_file WriteFileBuffer_write WriteFileBuffer_writeAt WriteFileBuffer_getPosition
  wfb_records "sized_inv n" wfb_ready "\<lambda>d. length d = n" n for n
proof unfold_locales
  fix w w' :: WriteFileBuffer_t and d :: "byte list"
  assume w: "sized_inv n w" and d: "length d = n"
  then have inv: "wfb_inv w" "length d = sizeElement w" and n: "n = sizeElement w" by (simp_all add: sized_inv_def)
  show "WriteFileBuffer_write w d = Inr w' \<Longrightarrow> sized_inv n w' \<and> wfb_records w' = wfb_records w @ [d]"
    using write_result [OF inv] records_append [OF inv(1) _ _ inv(2)] unfolding sized_inv_def n by blast
  show "wfb_ready w \<Longrightarrow> \<exists>w'. WriteFileBuffer_write w d = Inr w' \<and> wfb_ready w'"
    by (rule write_returns [OF inv])
  fix k assume k: "k < length (wfb_records w)" and ready: "wfb_ready w"
  note result = writeAt_result [OF inv k ready, folded n]
  show "WriteFileBuffer_writeAt w d (int (n * k)) = Inr w' \<Longrightarrow> sized_inv n w' \<and> wfb_records w' = (wfb_records w)[k := d]"
    using result unfolding sized_inv_def by blast
  show "\<exists>w'. WriteFileBuffer_writeAt w d (int (n * k)) = Inr w' \<and> wfb_ready w'"
    using writeAt_returns [OF inv k ready, folded n] result by blast
next
  fix w :: WriteFileBuffer_t
  show "sized_inv n w \<Longrightarrow> WriteFileBuffer_getPosition w = int (n * length (wfb_records w))"
    using position_result [of w] unfolding sized_inv_def by blast
qed

section \<open>Histories of a file\<close>

text \<open>A record of a history is replaced at the position it was given when it was appended.\<close>

datatype file_op = Append "byte list" | Replace nat "byte list" | Flush

fun run_file_op :: "file_op \<Rightarrow> WriteFileBuffer_t \<Rightarrow> WriteFileBuffer_t res" where
  "run_file_op (Append d) wfb = WriteFileBuffer_write wfb d"
| "run_file_op (Replace k d) wfb = WriteFileBuffer_writeAt wfb d (int (sizeElement wfb * k))"
| "run_file_op Flush wfb = WriteFileBuffer_flush wfb"

fun run_file_ops :: "file_op list \<Rightarrow> WriteFileBuffer_t \<Rightarrow> WriteFileBuffer_t res" where
  "run_file_ops [] wfb = Inr wfb"
| "run_file_ops (a # as) wfb = andthen (run_file_op a wfb) (run_file_ops as)"

fun apply_op :: "file_op \<Rightarrow> byte list list \<Rightarrow> byte list list" where
  "apply_op (Append d) rs = rs @ [d]"
| "apply_op (Replace k d) rs = rs[k := d]"
| "apply_op Flush rs = rs"

fun proper_op :: "nat \<Rightarrow> nat \<Rightarrow> file_op \<Rightarrow> bool" where
  "proper_op n m (Append d) \<longleftrightarrow> length d = n"
| "proper_op n m (Replace k d) \<longleftrightarrow> length d = n \<and> k < m"
| "proper_op n m Flush \<longleftrightarrow> True"

fun proper_ops :: "nat \<Rightarrow> byte list list \<Rightarrow> file_op list \<Rightarrow> bool" where
  "proper_ops n rs [] \<longleftrightarrow> True"
| "proper_ops n rs (a # as) \<longleftrightarrow> proper_op n (length rs) a \<and> proper_ops n (apply_op a rs) as"

lemma flush_step:
  assumes "wfb_inv wfb" and "wfb_ready wfb"
  obtains wfb' where "WriteFileBuffer_flush wfb = Inr wfb'" and "wfb_inv wfb'" and "wfb_ready wfb'"
    and "file_bytes (FD wfb') = wfb_bytes wfb" and "numElements wfb' = 0" and "sizeElement wfb' = sizeElement wfb"
proof -
  have "numElements wfb * sizeElement wfb \<le> length (Buffer wfb)" using wfb_room [OF assms(1)] by simp
  from flush_returns [OF assms(2) this] obtain wfb' where
    1: "WriteFileBuffer_flush wfb = Inr wfb'" "wfb_ready wfb'" by blast
  from assms(1) have "sizeElement wfb > 0" "0 < maxElements wfb"
    "length (Buffer wfb) = maxElements wfb * sizeElement wfb"
    "lastWrittenLocation wfb = length (file_bytes (FD wfb))" "file_offset (FD wfb) = lastWrittenLocation wfb"
    "sizeElement wfb dvd lastWrittenLocation wfb"
    unfolding wfb_inv_def by auto
  from flush_result [OF this 1(1)] 1 that show ?thesis by blast
qed

lemma flush_records:
  "numElements wfb' = 0 \<Longrightarrow> file_bytes (FD wfb') = wfb_bytes wfb \<Longrightarrow> sizeElement wfb' = sizeElement wfb \<Longrightarrow>
    wfb_records wfb' = wfb_records wfb"
  by (simp add: wfb_records_def wfb_bytes_def [of wfb'])

lemma run_file_op_step:
  assumes "sized_inv n wfb" and "wfb_ready wfb" and "proper_op n (length (wfb_records wfb)) a"
  obtains wfb' where "run_file_op a wfb = Inr wfb'" and "sized_inv n wfb'" and "wfb_ready wfb'"
    and "wfb_records wfb' = apply_op a (wfb_records wfb)"
proof (cases a)
  case (Append d)
  with assms(3) have "length d = n" by simp
  from bytes.put_step [OF assms(1) this assms(2)] Append show ?thesis by (metis apply_op.simps(1) run_file_op.simps(1) that)
next
  case (Replace k d)
  with assms(3) have d: "length d = n" "k < length (wfb_records wfb)" by simp_all
  have "sizeElement wfb = n" using assms(1) by (simp add: sized_inv_def)
  with bytes.put_at_step [OF assms(1) d(1) assms(2) d(2)] Replace show ?thesis
    by (metis apply_op.simps(2) run_file_op.simps(2) that)
next
  case Flush
  from assms(1) have "wfb_inv wfb" by (simp add: sized_inv_def)
  from flush_step [OF this assms(2)] flush_records Flush assms(1) show ?thesis
    by (metis apply_op.simps(3) run_file_op.simps(3) sized_inv_def that)
qed

lemma run_file_ops_result:
  assumes "sized_inv n wfb" and "wfb_ready wfb" and "proper_ops n (wfb_records wfb) as"
  shows "\<exists>wfb'. run_file_ops as wfb = Inr wfb' \<and> sized_inv n wfb' \<and> wfb_ready wfb' \<and>
    wfb_records wfb' = fold apply_op as (wfb_records wfb)"
  using assms
proof (induction as arbitrary: wfb)
  case (Cons a as)
  from Cons.prems(3) have "proper_op n (length (wfb_records wfb)) a" by simp
  from run_file_op_step [OF Cons.prems(1,2) this] obtain wfb1 where
    "run_file_op a wfb = Inr wfb1" "sized_inv n wfb1" "wfb_ready wfb1"
    "wfb_records wfb1 = apply_op a (wfb_records wfb)" .
  with Cons.IH [of wfb1] Cons.prems(3) show ?case by simp
qed simp

text \<open>
  C8. A buffered file is the file it stands for. Whatever the sizes of buffer and record, any sequence
  of appends, replacements of earlier records at the positions they were given, and flushes runs to
  its end when the disk takes what it is given, and what the file then holds once the buffer is
  deleted are the records of the same sequence on a plain list.
\<close>

theorem buffered_file_refines:
  assumes "wfb_inv wfb" and "wfb_ready wfb" and "proper_ops (sizeElement wfb) (wfb_records wfb) as"
  shows "\<exists>wfb' f. run_file_ops as wfb = Inr wfb' \<and> WriteFileBuffer_delete wfb' = Inr f \<and>
    chunks (sizeElement wfb) (file_bytes f) = fold apply_op as (wfb_records wfb)"
proof -
  from run_file_ops_result [of "sizeElement wfb" wfb as] assms obtain wfb' where
    1: "run_file_ops as wfb = Inr wfb'" "wfb_inv wfb'" "sizeElement wfb' = sizeElement wfb" "wfb_ready wfb'"
    "wfb_records wfb' = fold apply_op as (wfb_records wfb)"
    by (auto simp: sized_inv_def)
  from flush_step [OF 1(2,4)] obtain wfb2 where
    "WriteFileBuffer_flush wfb' = Inr wfb2" "file_bytes (FD wfb2) = wfb_bytes wfb'" .
  with 1 show ?thesis by (simp add: WriteFileBuffer_delete_def wfb_records_def)
qed

definition pair_buffer :: WriteFileBuffer_t where
  "pair_buffer = \<lparr>Buffer = replicate 4 0, lastWrittenLocation = 0, sizeElement = 2, maxElements = 2,
     numElements = 0, FD = \<lparr>file_bytes = [], file_offset = 0, write_answers = []\<rparr>\<rparr>"

lemma pair_buffer_ok: "wfb_inv pair_buffer" "wfb_ready pair_buffer" "wfb_records pair_buffer = []"
  by (simp_all add: pair_buffer_def wfb_inv_def wfb_ready_def wfb_records_def wfb_bytes_def chunks_def)

theorem buffered_file_refines_witness:
  "\<exists>wfb f. run_file_ops [Append [1, 2], Append [3, 4], Append [5, 6], Replace 0 [7, 8], Replace 2 [9, 9]] pair_buffer = Inr wfb \<and>
     WriteFileBuffer_delete wfb = Inr f \<and> chunks 2 (file_bytes f) = [[7, 8], [3, 4], [9, 9]]"
  using buffered_file_refines [OF pair_buffer_ok(1,2), of "[Append [1, 2], Append [3, 4], Append [5, 6], Replace 0 [7, 8], Replace 2 [9, 9]]"]
  unfolding pair_buffer_ok(3) by (simp add: pair_buffer_def)

section \<open>Removing the last record\<close>

text \<open>The file once it has been cut, before the flush that follows.\<close>

lemma chunks_take:
  assumes "n > 0" and "length xs = n * m"
  shows "chunks n (take (n * (m - 1)) xs) = take (m - 1) (chunks n xs)"
proof (cases m)
  case (Suc j)
  let ?xs = "take (n * j) xs"
  have 1: "length ?xs = n * j" and 2: "length (drop (n * j) xs) = n" using assms Suc by simp_all
  from chunks_append [OF assms(1) 1 2] 1 assms Suc show ?thesis
    by (simp add: length_chunks)
qed (use assms in \<open>simp add: chunks_def\<close>)

lemma buffered_bytes:
  assumes "numElements wfb * sizeElement wfb + sizeElement wfb \<le> length (Buffer wfb)" and "numElements wfb > 0"
    and "length (wfb_bytes wfb) = sizeElement wfb * m"
  shows "wfb_bytes (wfb\<lparr>numElements := numElements wfb - 1\<rparr>) = take (sizeElement wfb * (m - 1)) (wfb_bytes wfb)"
proof -
  from assms(2) obtain j where j: "numElements wfb = Suc j" by (cases "numElements wfb") simp_all
  have len: "length (file_bytes (FD wfb)) + (j * sizeElement wfb + sizeElement wfb) = sizeElement wfb * m"
    using assms(3) min_absorb2 [of "Suc j * sizeElement wfb" "length (Buffer wfb)"] assms(1)
    by (simp add: wfb_bytes_def j)
  then have "sizeElement wfb * (m - 1) = length (file_bytes (FD wfb)) + j * sizeElement wfb"
    by (simp add: diff_mult_distrib2)
  then show ?thesis by (simp add: wfb_bytes_def j)
qed

lemma remove_flushed:
  assumes "wfb_inv wfb" and "wfb_ready wfb" and "numElements wfb = 0" and "sizeElement wfb \<le> lastWrittenLocation wfb"
  shows "\<exists>wfb'. WriteFileBuffer_flush (WriteFileBuffer_removeLast wfb) = Inr wfb' \<and> wfb_inv wfb' \<and>
    wfb_bytes wfb' = take (lastWrittenLocation wfb - sizeElement wfb) (wfb_bytes wfb) \<and>
    sizeElement wfb' = sizeElement wfb"
proof -
  have last: "lastWrittenLocation wfb = length (file_bytes (FD wfb))" "sizeElement wfb dvd length (file_bytes (FD wfb))"
    using assms(1) by (auto simp: wfb_inv_def)
  then have "sizeElement wfb dvd length (file_bytes (FD wfb)) - sizeElement wfb" by (simp add: dvd_diff_nat)
  with assms last show ?thesis
    by (auto simp: WriteFileBuffer_removeLast_def WriteFileBuffer_flush_def fd_truncate_def fd_write_def
        fd_seek_end_def wfb_ready_def wfb_bytes_def wfb_inv_def Let_def min_def)
qed

text \<open>
  \<open>Flush_FS\<close> with \<open>remove_last\<close> drops exactly the last record of a file, whether it is still in
  the buffer or the buffer has just been flushed and the file is cut; without it, it drops none. A
  file without records stays empty.
\<close>

theorem Flush_file_drops_last:
  assumes "wfb_inv wfb" and "wfb_ready wfb"
  shows "\<exists>wfb'. Flush_file remove_last wfb = Inr wfb' \<and> wfb_inv wfb' \<and>
    wfb_records wfb' = (if remove_last then butlast (wfb_records wfb) else wfb_records wfb)"
proof (cases remove_last)
  case False
  from flush_step [OF assms] show ?thesis
    using False flush_records by (metis Flush_file_def)
next
  case True
  let ?s = "sizeElement wfb"
  have s: "?s > 0" using assms(1) by (simp add: wfb_inv_def)
  from wfb_length [OF assms(1)] obtain m where m: "length (wfb_bytes wfb) = ?s * m" "length (wfb_records wfb) = m"
    "lastWrittenLocation wfb = ?s * (m - numElements wfb)" by blast
  have short: "wfb_records wfb' = butlast (wfb_records wfb)"
    if "wfb_bytes wfb' = take (?s * (m - 1)) (wfb_bytes wfb)" "sizeElement wfb' = ?s" for wfb'
    using that m chunks_take [OF s m(1)] by (simp add: wfb_records_def length_chunks butlast_conv_take s)
  show ?thesis
  proof (cases "numElements wfb > 0")
    case buffered: True
    let ?w = "wfb\<lparr>numElements := numElements wfb - 1\<rparr>"
    have "wfb_inv ?w" "wfb_ready ?w" using assms buffered by (auto simp: wfb_inv_def wfb_ready_def)
    from flush_step [OF this] obtain wfb' where w': "WriteFileBuffer_flush ?w = Inr wfb'" "wfb_inv wfb'"
      "file_bytes (FD wfb') = wfb_bytes ?w" "numElements wfb' = 0" "sizeElement wfb' = ?s" by auto
    have "wfb_bytes ?w = take (?s * (m - 1)) (wfb_bytes wfb)"
      using wfb_room [OF assms(1)] buffered m(1) by (rule buffered_bytes)
    with short [of ?w] flush_records [OF w'(4,3)] w' True buffered show ?thesis
      by (simp add: Flush_file_def WriteFileBuffer_removeLast_def)
  next
    case flushed: False
    show ?thesis
    proof (cases "m = 0")
      case empty: True
      with m flushed have "WriteFileBuffer_removeLast wfb = wfb" using s by (simp add: WriteFileBuffer_removeLast_def)
      with flush_step [OF assms] flush_records m(2) empty True show ?thesis
        by (metis Flush_file_def butlast.simps(1) length_0_conv)
    next
      case False
      then have "?s \<le> lastWrittenLocation wfb" using m(3) flushed by simp
      from remove_flushed [OF assms _ this] flushed obtain wfb' where
        "WriteFileBuffer_flush (WriteFileBuffer_removeLast wfb) = Inr wfb'" "wfb_inv wfb'"
        "wfb_bytes wfb' = take (lastWrittenLocation wfb - ?s) (wfb_bytes wfb)" "sizeElement wfb' = ?s" by auto
      moreover have "lastWrittenLocation wfb - ?s = ?s * (m - 1)" using m(3) flushed by (simp add: diff_mult_distrib2)
      ultimately show ?thesis using short [of wfb'] True by (auto simp: Flush_file_def)
    qed
  qed
qed

theorem Flush_file_drops_last_witness:
  "\<exists>wfb. Flush_file True (pair_buffer\<lparr>Buffer := [1, 2, 3, 4], numElements := 1\<rparr>) = Inr wfb \<and> wfb_records wfb = []"
proof -
  let ?w = "pair_buffer\<lparr>Buffer := [1, 2, 3, 4], numElements := 1\<rparr>"
  have "wfb_inv ?w" "wfb_ready ?w" "wfb_records ?w = [[1, 2]]"
    by (simp_all add: pair_buffer_def wfb_inv_def wfb_ready_def wfb_records_def wfb_bytes_def chunks_def)
  with Flush_file_drops_last [of ?w True] show ?thesis by auto
qed

end
