(* ===== verification/PrvRecord.thy ===== *)
theory PrvRecord
  imports WriteFileBuffer
begin

text \<open>
  The records of a trace under construction, \<open>paraver_rec_t\<close> of
  \<open>trunk/dependencies/extrae/src/merger/paraver/file_set.h\<close>, and the bytes a C program with 4-byte
  \<open>int\<close> and 8-byte \<open>long long\<close> keeps them in: 80 bytes, little-endian, without padding.
\<close>

record paraver_rec_t =
  receive_logical :: UINT64
  receive_physical :: UINT64
  rec_value :: UINT64
  rec_time :: UINT64
  end_time :: UINT64
  rec_type :: INT32
  rec_event :: INT32
  rec_cpu :: INT32
  rec_ptask :: INT32
  rec_task :: INT32
  rec_thread :: INT32
  cpu_r :: INT32
  ptask_r :: INT32
  task_r :: INT32
  thread_r :: INT32

definition UNFINISHED_STATE :: INT32 where
  "UNFINISHED_STATE = - 1"

definition STATE :: INT32 where
  "STATE = 1"

definition EVENT :: INT32 where
  "EVENT = 2"

definition UNMATCHED_COMMUNICATION :: INT32 where
  "UNMATCHED_COMMUNICATION = - 3"

definition COMMUNICATION :: INT32 where
  "COMMUNICATION = 3"

definition PENDING_COMMUNICATION :: INT32 where
  "PENDING_COMMUNICATION = - 4"

lemmas record_types = UNFINISHED_STATE_def STATE_def EVENT_def UNMATCHED_COMMUNICATION_def
  COMMUNICATION_def PENDING_COMMUNICATION_def

section \<open>Little-endian words\<close>

definition le_bytes :: "nat \<Rightarrow> 'a::len word \<Rightarrow> byte list" where
  "le_bytes n w = map (\<lambda>i. ucast (drop_bit (8 * i) w)) [0..<n]"

fun from_le :: "byte list \<Rightarrow> 'a::len word" where
  "from_le [] = 0"
| "from_le (b # bs) = ucast b OR push_bit 8 (from_le bs)"

lemma length_le_bytes [simp]: "length (le_bytes n w) = n"
  by (simp add: le_bytes_def)

lemma bit_from_le:
  "bit (from_le bs :: 'a::len word) i \<longleftrightarrow> i < LENGTH('a) \<and> i < 8 * length bs \<and> bit (bs ! (i div 8)) (i mod 8)"
proof (induction bs arbitrary: i)
  case (Cons b bs)
  show ?case
  proof (cases "i < 8")
    case True
    then show ?thesis by (auto simp: bit_simps)
  next
    case False
    then have "i = (i - 8) + 8" by simp
    then have "i div 8 = Suc ((i - 8) div 8)" "i mod 8 = (i - 8) mod 8"
      by (metis add.commute div_add_self1 numeral_neq_zero plus_1_eq_Suc zero_neq_numeral, metis mod_add_self2)
    with False Cons.IH [of "i - 8"] show ?thesis
      by (auto simp: bit_simps dest: bit_imp_le_length)
  qed
qed simp

lemma from_le_bytes:
  fixes w :: "'a::len word"
  assumes "LENGTH('a) = 8 * n"
  shows "from_le (le_bytes n w) = w"
proof (rule bit_word_eqI)
  fix i assume "i < LENGTH('a)"
  with assms have "i div 8 < n" "i < 8 * n" by auto
  with assms show "bit (from_le (le_bytes n w) :: 'a word) i = bit w i"
    by (simp add: bit_from_le le_bytes_def bit_simps)
qed

section \<open>Encoding\<close>

definition sizeof_paraver_rec_t :: nat where
  "sizeof_paraver_rec_t = 80"

definition rec_bytes :: "paraver_rec_t \<Rightarrow> byte list" where
  "rec_bytes r =
     le_bytes 8 (receive_logical r) @ le_bytes 8 (receive_physical r) @ le_bytes 8 (rec_value r) @
     le_bytes 8 (rec_time r) @ le_bytes 8 (end_time r) @
     le_bytes 4 (rec_type r) @ le_bytes 4 (rec_event r) @
     le_bytes 4 (rec_cpu r) @ le_bytes 4 (rec_ptask r) @ le_bytes 4 (rec_task r) @ le_bytes 4 (rec_thread r) @
     le_bytes 4 (cpu_r r) @ le_bytes 4 (ptask_r r) @ le_bytes 4 (task_r r) @ le_bytes 4 (thread_r r)"

definition rec_of_bytes :: "byte list \<Rightarrow> paraver_rec_t" where
  "rec_of_bytes bs =
     (let long = (\<lambda>i. from_le (take 8 (drop i bs))); int = (\<lambda>i. from_le (take 4 (drop i bs))) in
      \<lparr>receive_logical = long 0, receive_physical = long 8, rec_value = long 16, rec_time = long 24, end_time = long 32,
       rec_type = int 40, rec_event = int 44, rec_cpu = int 48, rec_ptask = int 52, rec_task = int 56,
       rec_thread = int 60, cpu_r = int 64, ptask_r = int 68, task_r = int 72, thread_r = int 76\<rparr>)"

lemma length_rec_bytes [simp]: "length (rec_bytes r) = sizeof_paraver_rec_t"
  by (simp add: rec_bytes_def sizeof_paraver_rec_t_def)

lemma rec_of_rec_bytes [simp]: "rec_of_bytes (rec_bytes r) = r"
  by (simp add: rec_of_bytes_def rec_bytes_def from_le_bytes Let_def)

section \<open>A thread's file of records\<close>

definition write_rec :: "WriteFileBuffer_t \<Rightarrow> paraver_rec_t \<Rightarrow> WriteFileBuffer_t res" where
  "write_rec wfb r = WriteFileBuffer_write wfb (rec_bytes r)"

definition write_rec_at :: "WriteFileBuffer_t \<Rightarrow> paraver_rec_t \<Rightarrow> int \<Rightarrow> WriteFileBuffer_t res" where
  "write_rec_at wfb r position = WriteFileBuffer_writeAt wfb (rec_bytes r) position"

definition wfb_recs :: "WriteFileBuffer_t \<Rightarrow> paraver_rec_t list" where
  "wfb_recs wfb = map rec_of_bytes (wfb_records wfb)"

abbreviation rec_file_inv :: "WriteFileBuffer_t \<Rightarrow> bool" where
  "rec_file_inv \<equiv> sized_inv sizeof_paraver_rec_t"

interpretation recs: record_file write_rec write_rec_at WriteFileBuffer_getPosition wfb_recs rec_file_inv
  wfb_ready "\<lambda>r. True" sizeof_paraver_rec_t
proof unfold_locales
  fix w w' :: WriteFileBuffer_t and r :: paraver_rec_t
  assume w: "rec_file_inv w"
  show "write_rec w r = Inr w' \<Longrightarrow> rec_file_inv w' \<and> wfb_recs w' = wfb_recs w @ [r]"
    using bytes.put_items [OF w, of "rec_bytes r" w'] by (simp add: write_rec_def wfb_recs_def)
  show "wfb_ready w \<Longrightarrow> \<exists>w'. write_rec w r = Inr w' \<and> wfb_ready w'"
    using bytes.put_returns [OF w, of "rec_bytes r"] by (simp add: write_rec_def)
  show "WriteFileBuffer_getPosition w = int (sizeof_paraver_rec_t * length (wfb_recs w))"
    using bytes.position_end [OF w] by (simp add: wfb_recs_def)
  fix k assume k: "k < length (wfb_recs w)" and ready: "wfb_ready w"
  then have k': "k < length (wfb_records w)" by (simp add: wfb_recs_def)
  show "write_rec_at w r (int (sizeof_paraver_rec_t * k)) = Inr w' \<Longrightarrow>
      rec_file_inv w' \<and> wfb_recs w' = (wfb_recs w)[k := r]"
    using bytes.put_at_items [OF w length_rec_bytes k' ready, of r w']
    by (simp add: write_rec_at_def wfb_recs_def map_update)
  show "\<exists>w'. write_rec_at w r (int (sizeof_paraver_rec_t * k)) = Inr w' \<and> wfb_ready w'"
    using bytes.put_at_returns [OF w length_rec_bytes k' ready, of r] by (simp add: write_rec_at_def)
qed

end
