(* ===== verification/EventNumbers.thy ===== *)
theory EventNumbers
  imports Main
begin

text \<open>
  The numbers the tracer and the merger share: the event types of
  \<open>trunk/dependencies/extrae/src/common/events.h\<close> and \<open>common/openshmem_events.h\<close>, and the
  types and values of \<open>merger/paraver/MPI_EventEncoding.h\<close>.
\<close>

abbreviation (input) EVT_END :: "'a::zero" where "EVT_END \<equiv> 0"
abbreviation (input) EVT_BEGIN :: "'a::numeral" where "EVT_BEGIN \<equiv> 1"
abbreviation (input) MPI_SEND_VAL :: "'a::numeral" where "MPI_SEND_VAL \<equiv> 1"
abbreviation (input) MPI_RECV_VAL :: "'a::numeral" where "MPI_RECV_VAL \<equiv> 2"
abbreviation (input) MPI_ISEND_VAL :: "'a::numeral" where "MPI_ISEND_VAL \<equiv> 3"
abbreviation (input) MPI_IRECV_VAL :: "'a::numeral" where "MPI_IRECV_VAL \<equiv> 4"
abbreviation (input) MPI_WAIT_VAL :: "'a::numeral" where "MPI_WAIT_VAL \<equiv> 5"
abbreviation (input) MPI_WAITALL_VAL :: "'a::numeral" where "MPI_WAITALL_VAL \<equiv> 6"
abbreviation (input) MPI_BCAST_VAL :: "'a::numeral" where "MPI_BCAST_VAL \<equiv> 7"
abbreviation (input) MPI_BARRIER_VAL :: "'a::numeral" where "MPI_BARRIER_VAL \<equiv> 8"
abbreviation (input) MPI_REDUCE_VAL :: "'a::numeral" where "MPI_REDUCE_VAL \<equiv> 9"
abbreviation (input) MPI_ALLREDUCE_VAL :: "'a::numeral" where "MPI_ALLREDUCE_VAL \<equiv> 10"
abbreviation (input) MPI_ALLTOALL_VAL :: "'a::numeral" where "MPI_ALLTOALL_VAL \<equiv> 11"
abbreviation (input) MPI_ALLTOALLV_VAL :: "'a::numeral" where "MPI_ALLTOALLV_VAL \<equiv> 12"
abbreviation (input) MPI_GATHER_VAL :: "'a::numeral" where "MPI_GATHER_VAL \<equiv> 13"
abbreviation (input) MPI_GATHERV_VAL :: "'a::numeral" where "MPI_GATHERV_VAL \<equiv> 14"
abbreviation (input) MPI_SCATTER_VAL :: "'a::numeral" where "MPI_SCATTER_VAL \<equiv> 15"
abbreviation (input) MPI_SCATTERV_VAL :: "'a::numeral" where "MPI_SCATTERV_VAL \<equiv> 16"
abbreviation (input) MPI_ALLGATHER_VAL :: "'a::numeral" where "MPI_ALLGATHER_VAL \<equiv> 17"
abbreviation (input) MPI_ALLGATHERV_VAL :: "'a::numeral" where "MPI_ALLGATHERV_VAL \<equiv> 18"
abbreviation (input) MPI_COMM_RANK_VAL :: "'a::numeral" where "MPI_COMM_RANK_VAL \<equiv> 19"
abbreviation (input) MPI_COMM_SIZE_VAL :: "'a::numeral" where "MPI_COMM_SIZE_VAL \<equiv> 20"
abbreviation (input) MPI_COMM_CREATE_VAL :: "'a::numeral" where "MPI_COMM_CREATE_VAL \<equiv> 21"
abbreviation (input) MPI_COMM_DUP_VAL :: "'a::numeral" where "MPI_COMM_DUP_VAL \<equiv> 22"
abbreviation (input) MPI_COMM_SPLIT_VAL :: "'a::numeral" where "MPI_COMM_SPLIT_VAL \<equiv> 23"
abbreviation (input) MPI_COMM_GROUP_VAL :: "'a::numeral" where "MPI_COMM_GROUP_VAL \<equiv> 24"
abbreviation (input) MPI_COMM_FREE_VAL :: "'a::numeral" where "MPI_COMM_FREE_VAL \<equiv> 25"
abbreviation (input) MPI_COMM_REMOTE_GROUP_VAL :: "'a::numeral" where "MPI_COMM_REMOTE_GROUP_VAL \<equiv> 26"
abbreviation (input) MPI_COMM_REMOTE_SIZE_VAL :: "'a::numeral" where "MPI_COMM_REMOTE_SIZE_VAL \<equiv> 27"
abbreviation (input) MPI_COMM_TEST_INTER_VAL :: "'a::numeral" where "MPI_COMM_TEST_INTER_VAL \<equiv> 28"
abbreviation (input) MPI_COMM_COMPARE_VAL :: "'a::numeral" where "MPI_COMM_COMPARE_VAL \<equiv> 29"
abbreviation (input) MPI_SCAN_VAL :: "'a::numeral" where "MPI_SCAN_VAL \<equiv> 30"
abbreviation (input) MPI_INIT_VAL :: "'a::numeral" where "MPI_INIT_VAL \<equiv> 31"
abbreviation (input) MPI_FINALIZE_VAL :: "'a::numeral" where "MPI_FINALIZE_VAL \<equiv> 32"
abbreviation (input) MPI_BSEND_VAL :: "'a::numeral" where "MPI_BSEND_VAL \<equiv> 33"
abbreviation (input) MPI_SSEND_VAL :: "'a::numeral" where "MPI_SSEND_VAL \<equiv> 34"
abbreviation (input) MPI_RSEND_VAL :: "'a::numeral" where "MPI_RSEND_VAL \<equiv> 35"
abbreviation (input) MPI_IBSEND_VAL :: "'a::numeral" where "MPI_IBSEND_VAL \<equiv> 36"
abbreviation (input) MPI_ISSEND_VAL :: "'a::numeral" where "MPI_ISSEND_VAL \<equiv> 37"
abbreviation (input) MPI_IRSEND_VAL :: "'a::numeral" where "MPI_IRSEND_VAL \<equiv> 38"
abbreviation (input) MPI_TEST_VAL :: "'a::numeral" where "MPI_TEST_VAL \<equiv> 39"
abbreviation (input) MPI_CANCEL_VAL :: "'a::numeral" where "MPI_CANCEL_VAL \<equiv> 40"
abbreviation (input) MPI_SENDRECV_VAL :: "'a::numeral" where "MPI_SENDRECV_VAL \<equiv> 41"
abbreviation (input) MPI_SENDRECV_REPLACE_VAL :: "'a::numeral" where "MPI_SENDRECV_REPLACE_VAL \<equiv> 42"
abbreviation (input) MPI_CART_CREATE_VAL :: "'a::numeral" where "MPI_CART_CREATE_VAL \<equiv> 43"
abbreviation (input) MPI_CART_SHIFT_VAL :: "'a::numeral" where "MPI_CART_SHIFT_VAL \<equiv> 44"
abbreviation (input) MPI_CART_COORDS_VAL :: "'a::numeral" where "MPI_CART_COORDS_VAL \<equiv> 45"
abbreviation (input) MPI_CART_GET_VAL :: "'a::numeral" where "MPI_CART_GET_VAL \<equiv> 46"
abbreviation (input) MPI_CART_MAP_VAL :: "'a::numeral" where "MPI_CART_MAP_VAL \<equiv> 47"
abbreviation (input) MPI_CART_RANK_VAL :: "'a::numeral" where "MPI_CART_RANK_VAL \<equiv> 48"
abbreviation (input) MPI_CART_SUB_VAL :: "'a::numeral" where "MPI_CART_SUB_VAL \<equiv> 49"
abbreviation (input) MPI_CARTDIM_GET_VAL :: "'a::numeral" where "MPI_CARTDIM_GET_VAL \<equiv> 50"
abbreviation (input) MPI_DIMS_CREATE_VAL :: "'a::numeral" where "MPI_DIMS_CREATE_VAL \<equiv> 51"
abbreviation (input) MPI_GRAPH_GET_VAL :: "'a::numeral" where "MPI_GRAPH_GET_VAL \<equiv> 52"
abbreviation (input) MPI_GRAPH_MAP_VAL :: "'a::numeral" where "MPI_GRAPH_MAP_VAL \<equiv> 53"
abbreviation (input) MPI_GRAPH_CREATE_VAL :: "'a::numeral" where "MPI_GRAPH_CREATE_VAL \<equiv> 54"
abbreviation (input) MPI_GRAPH_NEIGHBORS_VAL :: "'a::numeral" where "MPI_GRAPH_NEIGHBORS_VAL \<equiv> 55"
abbreviation (input) MPI_GRAPHDIMS_GET_VAL :: "'a::numeral" where "MPI_GRAPHDIMS_GET_VAL \<equiv> 56"
abbreviation (input) MPI_GRAPH_NEIGHBORS_COUNT_VAL :: "'a::numeral" where "MPI_GRAPH_NEIGHBORS_COUNT_VAL \<equiv> 57"
abbreviation (input) MPI_TOPO_TEST_VAL :: "'a::numeral" where "MPI_TOPO_TEST_VAL \<equiv> 58"
abbreviation (input) MPI_WAITANY_VAL :: "'a::numeral" where "MPI_WAITANY_VAL \<equiv> 59"
abbreviation (input) MPI_WAITSOME_VAL :: "'a::numeral" where "MPI_WAITSOME_VAL \<equiv> 60"
abbreviation (input) MPI_PROBE_VAL :: "'a::numeral" where "MPI_PROBE_VAL \<equiv> 61"
abbreviation (input) MPI_IPROBE_VAL :: "'a::numeral" where "MPI_IPROBE_VAL \<equiv> 62"
abbreviation (input) MPI_WIN_CREATE_VAL :: "'a::numeral" where "MPI_WIN_CREATE_VAL \<equiv> 63"
abbreviation (input) MPI_WIN_FREE_VAL :: "'a::numeral" where "MPI_WIN_FREE_VAL \<equiv> 64"
abbreviation (input) MPI_PUT_VAL :: "'a::numeral" where "MPI_PUT_VAL \<equiv> 65"
abbreviation (input) MPI_GET_VAL :: "'a::numeral" where "MPI_GET_VAL \<equiv> 66"
abbreviation (input) MPI_ACCUMULATE_VAL :: "'a::numeral" where "MPI_ACCUMULATE_VAL \<equiv> 67"
abbreviation (input) MPI_WIN_FENCE_VAL :: "'a::numeral" where "MPI_WIN_FENCE_VAL \<equiv> 68"
abbreviation (input) MPI_WIN_START_VAL :: "'a::numeral" where "MPI_WIN_START_VAL \<equiv> 69"
abbreviation (input) MPI_WIN_COMPLETE_VAL :: "'a::numeral" where "MPI_WIN_COMPLETE_VAL \<equiv> 70"
abbreviation (input) MPI_WIN_POST_VAL :: "'a::numeral" where "MPI_WIN_POST_VAL \<equiv> 71"
abbreviation (input) MPI_WIN_WAIT_VAL :: "'a::numeral" where "MPI_WIN_WAIT_VAL \<equiv> 72"
abbreviation (input) MPI_WIN_TEST_VAL :: "'a::numeral" where "MPI_WIN_TEST_VAL \<equiv> 73"
abbreviation (input) MPI_WIN_LOCK_VAL :: "'a::numeral" where "MPI_WIN_LOCK_VAL \<equiv> 74"
abbreviation (input) MPI_WIN_UNLOCK_VAL :: "'a::numeral" where "MPI_WIN_UNLOCK_VAL \<equiv> 75"
abbreviation (input) MPI_PACK_VAL :: "'a::numeral" where "MPI_PACK_VAL \<equiv> 76"
abbreviation (input) MPI_UNPACK_VAL :: "'a::numeral" where "MPI_UNPACK_VAL \<equiv> 77"
abbreviation (input) MPI_OP_CREATE_VAL :: "'a::numeral" where "MPI_OP_CREATE_VAL \<equiv> 78"
abbreviation (input) MPI_OP_FREE_VAL :: "'a::numeral" where "MPI_OP_FREE_VAL \<equiv> 79"
abbreviation (input) MPI_REDUCE_SCATTER_VAL :: "'a::numeral" where "MPI_REDUCE_SCATTER_VAL \<equiv> 80"
abbreviation (input) MPI_ATTR_DELETE_VAL :: "'a::numeral" where "MPI_ATTR_DELETE_VAL \<equiv> 81"
abbreviation (input) MPI_ATTR_GET_VAL :: "'a::numeral" where "MPI_ATTR_GET_VAL \<equiv> 82"
abbreviation (input) MPI_ATTR_PUT_VAL :: "'a::numeral" where "MPI_ATTR_PUT_VAL \<equiv> 83"
abbreviation (input) MPI_GROUP_DIFFERENCE_VAL :: "'a::numeral" where "MPI_GROUP_DIFFERENCE_VAL \<equiv> 84"
abbreviation (input) MPI_GROUP_EXCL_VAL :: "'a::numeral" where "MPI_GROUP_EXCL_VAL \<equiv> 85"
abbreviation (input) MPI_GROUP_FREE_VAL :: "'a::numeral" where "MPI_GROUP_FREE_VAL \<equiv> 86"
abbreviation (input) MPI_GROUP_INCL_VAL :: "'a::numeral" where "MPI_GROUP_INCL_VAL \<equiv> 87"
abbreviation (input) MPI_GROUP_INTERSECTION_VAL :: "'a::numeral" where "MPI_GROUP_INTERSECTION_VAL \<equiv> 88"
abbreviation (input) MPI_GROUP_RANK_VAL :: "'a::numeral" where "MPI_GROUP_RANK_VAL \<equiv> 89"
abbreviation (input) MPI_GROUP_RANGE_EXCL_VAL :: "'a::numeral" where "MPI_GROUP_RANGE_EXCL_VAL \<equiv> 90"
abbreviation (input) MPI_GROUP_RANGE_INCL_VAL :: "'a::numeral" where "MPI_GROUP_RANGE_INCL_VAL \<equiv> 91"
abbreviation (input) MPI_GROUP_SIZE_VAL :: "'a::numeral" where "MPI_GROUP_SIZE_VAL \<equiv> 92"
abbreviation (input) MPI_GROUP_TRANSLATE_RANKS_VAL :: "'a::numeral" where "MPI_GROUP_TRANSLATE_RANKS_VAL \<equiv> 93"
abbreviation (input) MPI_GROUP_UNION_VAL :: "'a::numeral" where "MPI_GROUP_UNION_VAL \<equiv> 94"
abbreviation (input) MPI_GROUP_COMPARE_VAL :: "'a::numeral" where "MPI_GROUP_COMPARE_VAL \<equiv> 95"
abbreviation (input) MPI_INTERCOMM_CREATE_VAL :: "'a::numeral" where "MPI_INTERCOMM_CREATE_VAL \<equiv> 96"
abbreviation (input) MPI_INTERCOMM_MERGE_VAL :: "'a::numeral" where "MPI_INTERCOMM_MERGE_VAL \<equiv> 97"
abbreviation (input) MPI_KEYVAL_FREE_VAL :: "'a::numeral" where "MPI_KEYVAL_FREE_VAL \<equiv> 98"
abbreviation (input) MPI_KEYVAL_CREATE_VAL :: "'a::numeral" where "MPI_KEYVAL_CREATE_VAL \<equiv> 99"
abbreviation (input) MPI_ABORT_VAL :: "'a::numeral" where "MPI_ABORT_VAL \<equiv> 100"
abbreviation (input) MPI_ERROR_CLASS_VAL :: "'a::numeral" where "MPI_ERROR_CLASS_VAL \<equiv> 101"
abbreviation (input) MPI_ERRHANDLER_CREATE_VAL :: "'a::numeral" where "MPI_ERRHANDLER_CREATE_VAL \<equiv> 102"
abbreviation (input) MPI_ERRHANDLER_FREE_VAL :: "'a::numeral" where "MPI_ERRHANDLER_FREE_VAL \<equiv> 103"
abbreviation (input) MPI_ERRHANDLER_GET_VAL :: "'a::numeral" where "MPI_ERRHANDLER_GET_VAL \<equiv> 104"
abbreviation (input) MPI_ERROR_STRING_VAL :: "'a::numeral" where "MPI_ERROR_STRING_VAL \<equiv> 105"
abbreviation (input) MPI_ERRHANDLER_SET_VAL :: "'a::numeral" where "MPI_ERRHANDLER_SET_VAL \<equiv> 106"
abbreviation (input) MPI_GET_PROCESSOR_NAME_VAL :: "'a::numeral" where "MPI_GET_PROCESSOR_NAME_VAL \<equiv> 107"
abbreviation (input) MPI_INITIALIZED_VAL :: "'a::numeral" where "MPI_INITIALIZED_VAL \<equiv> 108"
abbreviation (input) MPI_WTICK_VAL :: "'a::numeral" where "MPI_WTICK_VAL \<equiv> 109"
abbreviation (input) MPI_WTIME_VAL :: "'a::numeral" where "MPI_WTIME_VAL \<equiv> 110"
abbreviation (input) MPI_ADDRESS_VAL :: "'a::numeral" where "MPI_ADDRESS_VAL \<equiv> 111"
abbreviation (input) MPI_BSEND_INIT_VAL :: "'a::numeral" where "MPI_BSEND_INIT_VAL \<equiv> 112"
abbreviation (input) MPI_BUFFER_ATTACH_VAL :: "'a::numeral" where "MPI_BUFFER_ATTACH_VAL \<equiv> 113"
abbreviation (input) MPI_BUFFER_DETACH_VAL :: "'a::numeral" where "MPI_BUFFER_DETACH_VAL \<equiv> 114"
abbreviation (input) MPI_REQUEST_FREE_VAL :: "'a::numeral" where "MPI_REQUEST_FREE_VAL \<equiv> 115"
abbreviation (input) MPI_RECV_INIT_VAL :: "'a::numeral" where "MPI_RECV_INIT_VAL \<equiv> 116"
abbreviation (input) MPI_SEND_INIT_VAL :: "'a::numeral" where "MPI_SEND_INIT_VAL \<equiv> 117"
abbreviation (input) MPI_GET_COUNT_VAL :: "'a::numeral" where "MPI_GET_COUNT_VAL \<equiv> 118"
abbreviation (input) MPI_GET_ELEMENTS_VAL :: "'a::numeral" where "MPI_GET_ELEMENTS_VAL \<equiv> 119"
abbreviation (input) MPI_PACK_SIZE_VAL :: "'a::numeral" where "MPI_PACK_SIZE_VAL \<equiv> 120"
abbreviation (input) MPI_RSEND_INIT_VAL :: "'a::numeral" where "MPI_RSEND_INIT_VAL \<equiv> 121"
abbreviation (input) MPI_SSEND_INIT_VAL :: "'a::numeral" where "MPI_SSEND_INIT_VAL \<equiv> 122"
abbreviation (input) MPI_START_VAL :: "'a::numeral" where "MPI_START_VAL \<equiv> 123"
abbreviation (input) MPI_STARTALL_VAL :: "'a::numeral" where "MPI_STARTALL_VAL \<equiv> 124"
abbreviation (input) MPI_TESTALL_VAL :: "'a::numeral" where "MPI_TESTALL_VAL \<equiv> 125"
abbreviation (input) MPI_TESTANY_VAL :: "'a::numeral" where "MPI_TESTANY_VAL \<equiv> 126"
abbreviation (input) MPI_TEST_CANCELLED_VAL :: "'a::numeral" where "MPI_TEST_CANCELLED_VAL \<equiv> 127"
abbreviation (input) MPI_TESTSOME_VAL :: "'a::numeral" where "MPI_TESTSOME_VAL \<equiv> 128"
abbreviation (input) MPI_TYPE_COMMIT_VAL :: "'a::numeral" where "MPI_TYPE_COMMIT_VAL \<equiv> 129"
abbreviation (input) MPI_TYPE_CONTIGUOUS_VAL :: "'a::numeral" where "MPI_TYPE_CONTIGUOUS_VAL \<equiv> 130"
abbreviation (input) MPI_TYPE_EXTENT_VAL :: "'a::numeral" where "MPI_TYPE_EXTENT_VAL \<equiv> 131"
abbreviation (input) MPI_TYPE_FREE_VAL :: "'a::numeral" where "MPI_TYPE_FREE_VAL \<equiv> 132"
abbreviation (input) MPI_TYPE_HINDEXED_VAL :: "'a::numeral" where "MPI_TYPE_HINDEXED_VAL \<equiv> 133"
abbreviation (input) MPI_TYPE_HVECTOR_VAL :: "'a::numeral" where "MPI_TYPE_HVECTOR_VAL \<equiv> 134"
abbreviation (input) MPI_TYPE_INDEXED_VAL :: "'a::numeral" where "MPI_TYPE_INDEXED_VAL \<equiv> 135"
abbreviation (input) MPI_TYPE_LB_VAL :: "'a::numeral" where "MPI_TYPE_LB_VAL \<equiv> 136"
abbreviation (input) MPI_TYPE_SIZE_VAL :: "'a::numeral" where "MPI_TYPE_SIZE_VAL \<equiv> 137"
abbreviation (input) MPI_TYPE_STRUCT_VAL :: "'a::numeral" where "MPI_TYPE_STRUCT_VAL \<equiv> 138"
abbreviation (input) MPI_TYPE_UB_VAL :: "'a::numeral" where "MPI_TYPE_UB_VAL \<equiv> 139"
abbreviation (input) MPI_TYPE_VECTOR_VAL :: "'a::numeral" where "MPI_TYPE_VECTOR_VAL \<equiv> 140"
abbreviation (input) MPI_FILE_OPEN_VAL :: "'a::numeral" where "MPI_FILE_OPEN_VAL \<equiv> 141"
abbreviation (input) MPI_FILE_CLOSE_VAL :: "'a::numeral" where "MPI_FILE_CLOSE_VAL \<equiv> 142"
abbreviation (input) MPI_FILE_READ_VAL :: "'a::numeral" where "MPI_FILE_READ_VAL \<equiv> 143"
abbreviation (input) MPI_FILE_READ_ALL_VAL :: "'a::numeral" where "MPI_FILE_READ_ALL_VAL \<equiv> 144"
abbreviation (input) MPI_FILE_WRITE_VAL :: "'a::numeral" where "MPI_FILE_WRITE_VAL \<equiv> 145"
abbreviation (input) MPI_FILE_WRITE_ALL_VAL :: "'a::numeral" where "MPI_FILE_WRITE_ALL_VAL \<equiv> 146"
abbreviation (input) MPI_FILE_READ_AT_VAL :: "'a::numeral" where "MPI_FILE_READ_AT_VAL \<equiv> 147"
abbreviation (input) MPI_FILE_READ_AT_ALL_VAL :: "'a::numeral" where "MPI_FILE_READ_AT_ALL_VAL \<equiv> 148"
abbreviation (input) MPI_FILE_WRITE_AT_VAL :: "'a::numeral" where "MPI_FILE_WRITE_AT_VAL \<equiv> 149"
abbreviation (input) MPI_FILE_WRITE_AT_ALL_VAL :: "'a::numeral" where "MPI_FILE_WRITE_AT_ALL_VAL \<equiv> 150"
abbreviation (input) MPI_COMM_SPAWN_VAL :: "'a::numeral" where "MPI_COMM_SPAWN_VAL \<equiv> 151"
abbreviation (input) MPI_COMM_SPAWN_MULTIPLE_VAL :: "'a::numeral" where "MPI_COMM_SPAWN_MULTIPLE_VAL \<equiv> 152"
abbreviation (input) MPI_REQUEST_GET_STATUS_VAL :: "'a::numeral" where "MPI_REQUEST_GET_STATUS_VAL \<equiv> 153"
abbreviation (input) MPI_IREDUCE_VAL :: "'a::numeral" where "MPI_IREDUCE_VAL \<equiv> 154"
abbreviation (input) MPI_IALLREDUCE_VAL :: "'a::numeral" where "MPI_IALLREDUCE_VAL \<equiv> 155"
abbreviation (input) MPI_IBARRIER_VAL :: "'a::numeral" where "MPI_IBARRIER_VAL \<equiv> 156"
abbreviation (input) MPI_IBCAST_VAL :: "'a::numeral" where "MPI_IBCAST_VAL \<equiv> 157"
abbreviation (input) MPI_IALLTOALL_VAL :: "'a::numeral" where "MPI_IALLTOALL_VAL \<equiv> 158"
abbreviation (input) MPI_IALLTOALLV_VAL :: "'a::numeral" where "MPI_IALLTOALLV_VAL \<equiv> 159"
abbreviation (input) MPI_IALLGATHER_VAL :: "'a::numeral" where "MPI_IALLGATHER_VAL \<equiv> 160"
abbreviation (input) MPI_IALLGATHERV_VAL :: "'a::numeral" where "MPI_IALLGATHERV_VAL \<equiv> 161"
abbreviation (input) MPI_IGATHER_VAL :: "'a::numeral" where "MPI_IGATHER_VAL \<equiv> 162"
abbreviation (input) MPI_IGATHERV_VAL :: "'a::numeral" where "MPI_IGATHERV_VAL \<equiv> 163"
abbreviation (input) MPI_ISCATTER_VAL :: "'a::numeral" where "MPI_ISCATTER_VAL \<equiv> 164"
abbreviation (input) MPI_ISCATTERV_VAL :: "'a::numeral" where "MPI_ISCATTERV_VAL \<equiv> 165"
abbreviation (input) MPI_IREDUCESCAT_VAL :: "'a::numeral" where "MPI_IREDUCESCAT_VAL \<equiv> 166"
abbreviation (input) MPI_ISCAN_VAL :: "'a::numeral" where "MPI_ISCAN_VAL \<equiv> 167"
abbreviation (input) ONLINE_EV :: "'a::numeral" where "ONLINE_EV \<equiv> 50000"
abbreviation (input) SAMPLING_EV :: "'a::numeral" where "SAMPLING_EV \<equiv> 30000000"
abbreviation (input) SAMPLING_LINE_EV :: "'a::numeral" where "SAMPLING_LINE_EV \<equiv> 30000100"
abbreviation (input) HWC_SET_OVERFLOW_EV :: "'a::numeral" where "HWC_SET_OVERFLOW_EV \<equiv> 31000000"
abbreviation (input) SAMPLING_ADDRESS_LD_EV :: "'a::numeral" where "SAMPLING_ADDRESS_LD_EV \<equiv> 32000000"
abbreviation (input) SAMPLING_ADDRESS_ST_EV :: "'a::numeral" where "SAMPLING_ADDRESS_ST_EV \<equiv> 32000001"
abbreviation (input) SAMPLING_ADDRESS_MEM_LEVEL_EV :: "'a::numeral" where "SAMPLING_ADDRESS_MEM_LEVEL_EV \<equiv> 32000002"
abbreviation (input) SAMPLING_ADDRESS_TLB_LEVEL_EV :: "'a::numeral" where "SAMPLING_ADDRESS_TLB_LEVEL_EV \<equiv> 32000004"
abbreviation (input) SAMPLING_ADDRESS_REFERENCE_COST_EV :: "'a::numeral" where "SAMPLING_ADDRESS_REFERENCE_COST_EV \<equiv> 32000006"
abbreviation (input) SAMPLING_ADDRESS_ALLOCATED_OBJECT_EV :: "'a::numeral" where "SAMPLING_ADDRESS_ALLOCATED_OBJECT_EV \<equiv> 32000007"
abbreviation (input) SAMPLING_ADDRESS_STATIC_OBJECT_EV :: "'a::numeral" where "SAMPLING_ADDRESS_STATIC_OBJECT_EV \<equiv> 32000008"
abbreviation (input) SAMPLING_ADDRESS_ALLOCATED_OBJECT_CALLER_EV :: "'a::numeral" where "SAMPLING_ADDRESS_ALLOCATED_OBJECT_CALLER_EV \<equiv> 32000100"
abbreviation (input) SYSCALL_EV :: "'a::numeral" where "SYSCALL_EV \<equiv> 40000000"
abbreviation (input) APPL_EV :: "'a::numeral" where "APPL_EV \<equiv> 40000001"
abbreviation (input) TRACE_INIT_EV :: "'a::numeral" where "TRACE_INIT_EV \<equiv> 40000002"
abbreviation (input) FLUSH_EV :: "'a::numeral" where "FLUSH_EV \<equiv> 40000003"
abbreviation (input) READ_EV :: "'a::numeral" where "READ_EV \<equiv> 40000004"
abbreviation (input) WRITE_EV :: "'a::numeral" where "WRITE_EV \<equiv> 40000005"
abbreviation (input) USER_EV :: "'a::numeral" where "USER_EV \<equiv> 40000006"
abbreviation (input) HWC_DEF_EV :: "'a::numeral" where "HWC_DEF_EV \<equiv> 40000007"
abbreviation (input) HWC_CHANGE_EV :: "'a::numeral" where "HWC_CHANGE_EV \<equiv> 40000008"
abbreviation (input) HWC_EV :: "'a::numeral" where "HWC_EV \<equiv> 40000009"
abbreviation (input) TRACING_EV :: "'a::numeral" where "TRACING_EV \<equiv> 40000012"
abbreviation (input) SET_TRACE_EV :: "'a::numeral" where "SET_TRACE_EV \<equiv> 40000014"
abbreviation (input) CPU_BURST_EV :: "'a::numeral" where "CPU_BURST_EV \<equiv> 40000015"
abbreviation (input) RUSAGE_EV :: "'a::numeral" where "RUSAGE_EV \<equiv> 40000016"
abbreviation (input) MPI_STATS_EV :: "'a::numeral" where "MPI_STATS_EV \<equiv> 40000017"
abbreviation (input) TRACING_MODE_EV :: "'a::numeral" where "TRACING_MODE_EV \<equiv> 40000018"
abbreviation (input) MEMUSAGE_EV :: "'a::numeral" where "MEMUSAGE_EV \<equiv> 40000020"
abbreviation (input) USER_SEND_EV :: "'a::numeral" where "USER_SEND_EV \<equiv> 40000021"
abbreviation (input) USER_RECV_EV :: "'a::numeral" where "USER_RECV_EV \<equiv> 40000022"
abbreviation (input) RESUME_VIRTUAL_THREAD_EV :: "'a::numeral" where "RESUME_VIRTUAL_THREAD_EV \<equiv> 40000023"
abbreviation (input) SUSPEND_VIRTUAL_THREAD_EV :: "'a::numeral" where "SUSPEND_VIRTUAL_THREAD_EV \<equiv> 40000024"
abbreviation (input) REGISTER_STACKED_TYPE_EV :: "'a::numeral" where "REGISTER_STACKED_TYPE_EV \<equiv> 40000025"
abbreviation (input) REGISTER_CODELOCATION_TYPE_EV :: "'a::numeral" where "REGISTER_CODELOCATION_TYPE_EV \<equiv> 40000026"
abbreviation (input) FORK_EV :: "'a::numeral" where "FORK_EV \<equiv> 40000027"
abbreviation (input) WAIT_EV :: "'a::numeral" where "WAIT_EV \<equiv> 40000028"
abbreviation (input) WAITPID_EV :: "'a::numeral" where "WAITPID_EV \<equiv> 40000029"
abbreviation (input) EXEC_EV :: "'a::numeral" where "EXEC_EV \<equiv> 40000031"
abbreviation (input) GETCPU_EV :: "'a::numeral" where "GETCPU_EV \<equiv> 40000033"
abbreviation (input) SYSTEM_EV :: "'a::numeral" where "SYSTEM_EV \<equiv> 40000034"
abbreviation (input) PID_EV :: "'a::numeral" where "PID_EV \<equiv> 40000036"
abbreviation (input) PPID_EV :: "'a::numeral" where "PPID_EV \<equiv> 40000037"
abbreviation (input) FORK_DEPTH_EV :: "'a::numeral" where "FORK_DEPTH_EV \<equiv> 40000038"
abbreviation (input) LIBRARY_EV :: "'a::numeral" where "LIBRARY_EV \<equiv> 40000039"
abbreviation (input) DYNAMIC_MEM_EV :: "'a::numeral" where "DYNAMIC_MEM_EV \<equiv> 40000040"
abbreviation (input) MALLOC_EV :: "'a::numeral" where "MALLOC_EV \<equiv> 40000040"
abbreviation (input) DYNAMIC_MEM_REQUESTED_SIZE_EV :: "'a::numeral" where "DYNAMIC_MEM_REQUESTED_SIZE_EV \<equiv> 40000041"
abbreviation (input) FREE_EV :: "'a::numeral" where "FREE_EV \<equiv> 40000041"
abbreviation (input) CALLOC_EV :: "'a::numeral" where "CALLOC_EV \<equiv> 40000042"
abbreviation (input) DYNAMIC_MEM_POINTER_IN_EV :: "'a::numeral" where "DYNAMIC_MEM_POINTER_IN_EV \<equiv> 40000042"
abbreviation (input) DYNAMIC_MEM_POINTER_OUT_EV :: "'a::numeral" where "DYNAMIC_MEM_POINTER_OUT_EV \<equiv> 40000043"
abbreviation (input) REALLOC_EV :: "'a::numeral" where "REALLOC_EV \<equiv> 40000043"
abbreviation (input) POSIX_MEMALIGN_EV :: "'a::numeral" where "POSIX_MEMALIGN_EV \<equiv> 40000044"
abbreviation (input) MEMKIND_MALLOC_EV :: "'a::numeral" where "MEMKIND_MALLOC_EV \<equiv> 40000045"
abbreviation (input) MEMKIND_CALLOC_EV :: "'a::numeral" where "MEMKIND_CALLOC_EV \<equiv> 40000046"
abbreviation (input) MEMKIND_REALLOC_EV :: "'a::numeral" where "MEMKIND_REALLOC_EV \<equiv> 40000047"
abbreviation (input) MEMKIND_POSIX_MEMALIGN_EV :: "'a::numeral" where "MEMKIND_POSIX_MEMALIGN_EV \<equiv> 40000048"
abbreviation (input) MEMKIND_FREE_EV :: "'a::numeral" where "MEMKIND_FREE_EV \<equiv> 40000049"
abbreviation (input) FREAD_EV :: "'a::numeral" where "FREAD_EV \<equiv> 40000051"
abbreviation (input) FWRITE_EV :: "'a::numeral" where "FWRITE_EV \<equiv> 40000052"
abbreviation (input) PREAD_EV :: "'a::numeral" where "PREAD_EV \<equiv> 40000053"
abbreviation (input) PWRITE_EV :: "'a::numeral" where "PWRITE_EV \<equiv> 40000054"
abbreviation (input) READV_EV :: "'a::numeral" where "READV_EV \<equiv> 40000055"
abbreviation (input) WRITEV_EV :: "'a::numeral" where "WRITEV_EV \<equiv> 40000056"
abbreviation (input) PREADV_EV :: "'a::numeral" where "PREADV_EV \<equiv> 40000057"
abbreviation (input) PWRITEV_EV :: "'a::numeral" where "PWRITEV_EV \<equiv> 40000058"
abbreviation (input) OPEN_EV :: "'a::numeral" where "OPEN_EV \<equiv> 40000060"
abbreviation (input) FOPEN_EV :: "'a::numeral" where "FOPEN_EV \<equiv> 40000061"
abbreviation (input) CPU_EVENT_INTERVAL_EV :: "'a::numeral" where "CPU_EVENT_INTERVAL_EV \<equiv> 40000133"
abbreviation (input) MEMKIND_PARTITION_EV :: "'a::numeral" where "MEMKIND_PARTITION_EV \<equiv> 40001000"
abbreviation (input) JAVA_JVMTI_GARBAGECOLLECTOR_EV :: "'a::numeral" where "JAVA_JVMTI_GARBAGECOLLECTOR_EV \<equiv> 48000001"
abbreviation (input) JAVA_JVMTI_EXCEPTION_EV :: "'a::numeral" where "JAVA_JVMTI_EXCEPTION_EV \<equiv> 48000002"
abbreviation (input) JAVA_JVMTI_OBJECT_ALLOC_EV :: "'a::numeral" where "JAVA_JVMTI_OBJECT_ALLOC_EV \<equiv> 48000003"
abbreviation (input) JAVA_JVMTI_OBJECT_FREE_EV :: "'a::numeral" where "JAVA_JVMTI_OBJECT_FREE_EV \<equiv> 48000004"
abbreviation (input) MPITYPE_PTOP :: "'a::numeral" where "MPITYPE_PTOP \<equiv> 50000001"
abbreviation (input) MPI_INIT_EV :: "'a::numeral" where "MPI_INIT_EV \<equiv> 50000001"
abbreviation (input) MPI_MIN_EV :: "'a::numeral" where "MPI_MIN_EV \<equiv> 50000001"
abbreviation (input) MPITYPE_COLLECTIVE :: "'a::numeral" where "MPITYPE_COLLECTIVE \<equiv> 50000002"
abbreviation (input) MPI_BSEND_EV :: "'a::numeral" where "MPI_BSEND_EV \<equiv> 50000002"
abbreviation (input) MPITYPE_COMM :: "'a::numeral" where "MPITYPE_COMM \<equiv> 50000003"
abbreviation (input) MPITYPE_GROUP :: "'a::numeral" where "MPITYPE_GROUP \<equiv> 50000003"
abbreviation (input) MPITYPE_OTHER :: "'a::numeral" where "MPITYPE_OTHER \<equiv> 50000003"
abbreviation (input) MPITYPE_TOPOLOGIES :: "'a::numeral" where "MPITYPE_TOPOLOGIES \<equiv> 50000003"
abbreviation (input) MPITYPE_TYPE :: "'a::numeral" where "MPITYPE_TYPE \<equiv> 50000003"
abbreviation (input) MPI_SSEND_EV :: "'a::numeral" where "MPI_SSEND_EV \<equiv> 50000003"
abbreviation (input) MPITYPE_RMA :: "'a::numeral" where "MPITYPE_RMA \<equiv> 50000004"
abbreviation (input) MPI_BARRIER_EV :: "'a::numeral" where "MPI_BARRIER_EV \<equiv> 50000004"
abbreviation (input) MPITYPE_IO :: "'a::numeral" where "MPITYPE_IO \<equiv> 50000005"
abbreviation (input) MPI_BCAST_EV :: "'a::numeral" where "MPI_BCAST_EV \<equiv> 50000005"
abbreviation (input) MPI_SENDRECV_EV :: "'a::numeral" where "MPI_SENDRECV_EV \<equiv> 50000017"
abbreviation (input) MPI_SEND_EV :: "'a::numeral" where "MPI_SEND_EV \<equiv> 50000018"
abbreviation (input) MPI_RECV_EV :: "'a::numeral" where "MPI_RECV_EV \<equiv> 50000019"
abbreviation (input) MPI_IBSEND_EV :: "'a::numeral" where "MPI_IBSEND_EV \<equiv> 50000020"
abbreviation (input) MPI_ISSEND_EV :: "'a::numeral" where "MPI_ISSEND_EV \<equiv> 50000021"
abbreviation (input) MPI_ISEND_EV :: "'a::numeral" where "MPI_ISEND_EV \<equiv> 50000022"
abbreviation (input) MPI_IRECV_EV :: "'a::numeral" where "MPI_IRECV_EV \<equiv> 50000023"
abbreviation (input) MPI_TEST_EV :: "'a::numeral" where "MPI_TEST_EV \<equiv> 50000026"
abbreviation (input) MPI_WAIT_EV :: "'a::numeral" where "MPI_WAIT_EV \<equiv> 50000027"
abbreviation (input) MPI_CANCEL_EV :: "'a::numeral" where "MPI_CANCEL_EV \<equiv> 50000030"
abbreviation (input) MPI_RSEND_EV :: "'a::numeral" where "MPI_RSEND_EV \<equiv> 50000031"
abbreviation (input) MPI_IRSEND_EV :: "'a::numeral" where "MPI_IRSEND_EV \<equiv> 50000032"
abbreviation (input) MPI_ALLTOALL_EV :: "'a::numeral" where "MPI_ALLTOALL_EV \<equiv> 50000033"
abbreviation (input) MPI_ALLTOALLV_EV :: "'a::numeral" where "MPI_ALLTOALLV_EV \<equiv> 50000034"
abbreviation (input) MPI_ALLREDUCE_EV :: "'a::numeral" where "MPI_ALLREDUCE_EV \<equiv> 50000035"
abbreviation (input) MPI_REDUCE_EV :: "'a::numeral" where "MPI_REDUCE_EV \<equiv> 50000038"
abbreviation (input) MPI_WAITALL_EV :: "'a::numeral" where "MPI_WAITALL_EV \<equiv> 50000039"
abbreviation (input) MPI_IRECVED_EV :: "'a::numeral" where "MPI_IRECVED_EV \<equiv> 50000040"
abbreviation (input) MPI_GATHER_EV :: "'a::numeral" where "MPI_GATHER_EV \<equiv> 50000041"
abbreviation (input) MPI_GATHERV_EV :: "'a::numeral" where "MPI_GATHERV_EV \<equiv> 50000042"
abbreviation (input) MPI_SCATTER_EV :: "'a::numeral" where "MPI_SCATTER_EV \<equiv> 50000043"
abbreviation (input) MPI_SCATTERV_EV :: "'a::numeral" where "MPI_SCATTERV_EV \<equiv> 50000044"
abbreviation (input) MPI_FINALIZE_EV :: "'a::numeral" where "MPI_FINALIZE_EV \<equiv> 50000045"
abbreviation (input) MPI_COMM_RANK_EV :: "'a::numeral" where "MPI_COMM_RANK_EV \<equiv> 50000046"
abbreviation (input) MPI_COMM_SIZE_EV :: "'a::numeral" where "MPI_COMM_SIZE_EV \<equiv> 50000047"
abbreviation (input) MPI_COMM_CREATE_EV :: "'a::numeral" where "MPI_COMM_CREATE_EV \<equiv> 50000048"
abbreviation (input) MPI_COMM_DUP_EV :: "'a::numeral" where "MPI_COMM_DUP_EV \<equiv> 50000049"
abbreviation (input) MPI_COMM_SPLIT_EV :: "'a::numeral" where "MPI_COMM_SPLIT_EV \<equiv> 50000050"
abbreviation (input) MPI_ALLGATHER_EV :: "'a::numeral" where "MPI_ALLGATHER_EV \<equiv> 50000052"
abbreviation (input) MPI_ALLGATHERV_EV :: "'a::numeral" where "MPI_ALLGATHERV_EV \<equiv> 50000053"
abbreviation (input) MPI_RANK_CREACIO_COMM_EV :: "'a::numeral" where "MPI_RANK_CREACIO_COMM_EV \<equiv> 50000051"
abbreviation (input) MPI_COMM_SPAWN_EV :: "'a::numeral" where "MPI_COMM_SPAWN_EV \<equiv> 50000054"
abbreviation (input) MPI_COMM_SPAWN_MULTIPLE_EV :: "'a::numeral" where "MPI_COMM_SPAWN_MULTIPLE_EV \<equiv> 50000055"
abbreviation (input) MPI_CART_CREATE_EV :: "'a::numeral" where "MPI_CART_CREATE_EV \<equiv> 50000058"
abbreviation (input) MPI_CART_SUB_EV :: "'a::numeral" where "MPI_CART_SUB_EV \<equiv> 50000059"
abbreviation (input) MPI_CART_COORDS_EV :: "'a::numeral" where "MPI_CART_COORDS_EV \<equiv> 50000060"
abbreviation (input) MPI_ALIAS_COMM_CREATE_EV :: "'a::numeral" where "MPI_ALIAS_COMM_CREATE_EV \<equiv> 50000061"
abbreviation (input) MPI_REDUCESCAT_EV :: "'a::numeral" where "MPI_REDUCESCAT_EV \<equiv> 50000062"
abbreviation (input) MPI_SCAN_EV :: "'a::numeral" where "MPI_SCAN_EV \<equiv> 50000063"
abbreviation (input) MPI_PROBE_EV :: "'a::numeral" where "MPI_PROBE_EV \<equiv> 50000065"
abbreviation (input) MPI_IPROBE_EV :: "'a::numeral" where "MPI_IPROBE_EV \<equiv> 50000066"
abbreviation (input) MPI_COMM_FREE_EV :: "'a::numeral" where "MPI_COMM_FREE_EV \<equiv> 50000067"
abbreviation (input) MPI_WAITANY_EV :: "'a::numeral" where "MPI_WAITANY_EV \<equiv> 50000068"
abbreviation (input) MPI_WAITSOME_EV :: "'a::numeral" where "MPI_WAITSOME_EV \<equiv> 50000069"
abbreviation (input) MPI_PERSIST_REQ_EV :: "'a::numeral" where "MPI_PERSIST_REQ_EV \<equiv> 50000070"
abbreviation (input) MPI_START_EV :: "'a::numeral" where "MPI_START_EV \<equiv> 50000071"
abbreviation (input) MPI_STARTALL_EV :: "'a::numeral" where "MPI_STARTALL_EV \<equiv> 50000072"
abbreviation (input) MPI_REQUEST_FREE_EV :: "'a::numeral" where "MPI_REQUEST_FREE_EV \<equiv> 50000073"
abbreviation (input) MPI_RECV_INIT_EV :: "'a::numeral" where "MPI_RECV_INIT_EV \<equiv> 50000074"
abbreviation (input) MPI_SEND_INIT_EV :: "'a::numeral" where "MPI_SEND_INIT_EV \<equiv> 50000075"
abbreviation (input) MPI_BSEND_INIT_EV :: "'a::numeral" where "MPI_BSEND_INIT_EV \<equiv> 50000076"
abbreviation (input) MPI_RSEND_INIT_EV :: "'a::numeral" where "MPI_RSEND_INIT_EV \<equiv> 50000077"
abbreviation (input) MPI_SSEND_INIT_EV :: "'a::numeral" where "MPI_SSEND_INIT_EV \<equiv> 50000078"
abbreviation (input) MPI_REQUEST_GET_STATUS_EV :: "'a::numeral" where "MPI_REQUEST_GET_STATUS_EV \<equiv> 50000079"
abbreviation (input) MPI_TEST_COUNTER_EV :: "'a::numeral" where "MPI_TEST_COUNTER_EV \<equiv> 50000080"
abbreviation (input) MPI_SENDRECV_REPLACE_EV :: "'a::numeral" where "MPI_SENDRECV_REPLACE_EV \<equiv> 50000081"
abbreviation (input) MPI_TESTALL_EV :: "'a::numeral" where "MPI_TESTALL_EV \<equiv> 50000082"
abbreviation (input) MPI_TESTANY_EV :: "'a::numeral" where "MPI_TESTANY_EV \<equiv> 50000083"
abbreviation (input) MPI_TESTSOME_EV :: "'a::numeral" where "MPI_TESTSOME_EV \<equiv> 50000084"
abbreviation (input) MPI_INTERCOMM_CREATE_EV :: "'a::numeral" where "MPI_INTERCOMM_CREATE_EV \<equiv> 50000085"
abbreviation (input) MPI_INTERCOMM_MERGE_EV :: "'a::numeral" where "MPI_INTERCOMM_MERGE_EV \<equiv> 50000086"
abbreviation (input) MPI_FILE_OPEN_EV :: "'a::numeral" where "MPI_FILE_OPEN_EV \<equiv> 50000100"
abbreviation (input) MPI_FILE_CLOSE_EV :: "'a::numeral" where "MPI_FILE_CLOSE_EV \<equiv> 50000101"
abbreviation (input) MPI_FILE_READ_EV :: "'a::numeral" where "MPI_FILE_READ_EV \<equiv> 50000102"
abbreviation (input) MPI_FILE_READ_ALL_EV :: "'a::numeral" where "MPI_FILE_READ_ALL_EV \<equiv> 50000103"
abbreviation (input) MPI_FILE_WRITE_EV :: "'a::numeral" where "MPI_FILE_WRITE_EV \<equiv> 50000104"
abbreviation (input) MPI_FILE_WRITE_ALL_EV :: "'a::numeral" where "MPI_FILE_WRITE_ALL_EV \<equiv> 50000105"
abbreviation (input) MPI_FILE_READ_AT_EV :: "'a::numeral" where "MPI_FILE_READ_AT_EV \<equiv> 50000106"
abbreviation (input) MPI_FILE_READ_AT_ALL_EV :: "'a::numeral" where "MPI_FILE_READ_AT_ALL_EV \<equiv> 50000107"
abbreviation (input) MPI_FILE_WRITE_AT_EV :: "'a::numeral" where "MPI_FILE_WRITE_AT_EV \<equiv> 50000108"
abbreviation (input) MPI_FILE_WRITE_AT_ALL_EV :: "'a::numeral" where "MPI_FILE_WRITE_AT_ALL_EV \<equiv> 50000109"
abbreviation (input) MPI_IO_SIZE_EV :: "'a::numeral" where "MPI_IO_SIZE_EV \<equiv> 50000110"
abbreviation (input) MPI_GET_EV :: "'a::numeral" where "MPI_GET_EV \<equiv> 50000200"
abbreviation (input) MPI_PUT_EV :: "'a::numeral" where "MPI_PUT_EV \<equiv> 50000201"
abbreviation (input) MPI_WIN_CREATE_EV :: "'a::numeral" where "MPI_WIN_CREATE_EV \<equiv> 50000202"
abbreviation (input) MPI_WIN_FENCE_EV :: "'a::numeral" where "MPI_WIN_FENCE_EV \<equiv> 50000203"
abbreviation (input) MPI_WIN_START_EV :: "'a::numeral" where "MPI_WIN_START_EV \<equiv> 50000204"
abbreviation (input) MPI_WIN_FREE_EV :: "'a::numeral" where "MPI_WIN_FREE_EV \<equiv> 50000205"
abbreviation (input) MPI_WIN_POST_EV :: "'a::numeral" where "MPI_WIN_POST_EV \<equiv> 50000206"
abbreviation (input) MPI_WIN_COMPLETE_EV :: "'a::numeral" where "MPI_WIN_COMPLETE_EV \<equiv> 50000207"
abbreviation (input) MPI_WIN_WAIT_EV :: "'a::numeral" where "MPI_WIN_WAIT_EV \<equiv> 50000208"
abbreviation (input) MPI_IREDUCE_EV :: "'a::numeral" where "MPI_IREDUCE_EV \<equiv> 50000210"
abbreviation (input) MPI_IALLREDUCE_EV :: "'a::numeral" where "MPI_IALLREDUCE_EV \<equiv> 50000211"
abbreviation (input) MPI_IBARRIER_EV :: "'a::numeral" where "MPI_IBARRIER_EV \<equiv> 50000212"
abbreviation (input) MPI_IBCAST_EV :: "'a::numeral" where "MPI_IBCAST_EV \<equiv> 50000213"
abbreviation (input) MPI_IALLTOALL_EV :: "'a::numeral" where "MPI_IALLTOALL_EV \<equiv> 50000214"
abbreviation (input) MPI_IALLTOALLV_EV :: "'a::numeral" where "MPI_IALLTOALLV_EV \<equiv> 50000215"
abbreviation (input) MPI_IALLGATHER_EV :: "'a::numeral" where "MPI_IALLGATHER_EV \<equiv> 50000216"
abbreviation (input) MPI_IALLGATHERV_EV :: "'a::numeral" where "MPI_IALLGATHERV_EV \<equiv> 50000217"
abbreviation (input) MPI_IGATHER_EV :: "'a::numeral" where "MPI_IGATHER_EV \<equiv> 50000218"
abbreviation (input) MPI_IGATHERV_EV :: "'a::numeral" where "MPI_IGATHERV_EV \<equiv> 50000219"
abbreviation (input) MPI_ISCATTER_EV :: "'a::numeral" where "MPI_ISCATTER_EV \<equiv> 50000220"
abbreviation (input) MPI_ISCATTERV_EV :: "'a::numeral" where "MPI_ISCATTERV_EV \<equiv> 50000221"
abbreviation (input) MPI_IREDUCESCAT_EV :: "'a::numeral" where "MPI_IREDUCESCAT_EV \<equiv> 50000222"
abbreviation (input) MPI_ISCAN_EV :: "'a::numeral" where "MPI_ISCAN_EV \<equiv> 50000223"
abbreviation (input) MPI_IPROBE_COUNTER_EV :: "'a::numeral" where "MPI_IPROBE_COUNTER_EV \<equiv> 50000300"
abbreviation (input) MPI_TIME_OUTSIDE_IPROBES_EV :: "'a::numeral" where "MPI_TIME_OUTSIDE_IPROBES_EV \<equiv> 50000301"
abbreviation (input) MPI_REQUEST_GET_STATUS_COUNTER_EV :: "'a::numeral" where "MPI_REQUEST_GET_STATUS_COUNTER_EV \<equiv> 50000302"
abbreviation (input) MPI_TIME_OUTSIDE_MPI_REQUEST_GET_STATUS_EV :: "'a::numeral" where "MPI_TIME_OUTSIDE_MPI_REQUEST_GET_STATUS_EV \<equiv> 50000303"
abbreviation (input) MPITYPE_RMA_SIZE :: "'a::numeral" where "MPITYPE_RMA_SIZE \<equiv> 50001000"
abbreviation (input) MPI_RMA_SIZE :: "'a::numeral" where "MPI_RMA_SIZE \<equiv> 50001000"
abbreviation (input) MPI_GLOBAL_OP_SENDSIZE :: "'a::numeral" where "MPI_GLOBAL_OP_SENDSIZE \<equiv> 50100001"
abbreviation (input) MPI_GLOBAL_OP_RECVSIZE :: "'a::numeral" where "MPI_GLOBAL_OP_RECVSIZE \<equiv> 50100002"
abbreviation (input) MPI_GLOBAL_OP_ROOT :: "'a::numeral" where "MPI_GLOBAL_OP_ROOT \<equiv> 50100003"
abbreviation (input) MPI_GLOBAL_OP_COMM :: "'a::numeral" where "MPI_GLOBAL_OP_COMM \<equiv> 50100004"
abbreviation (input) MPI_MAX_EV :: "'a::numeral" where "MPI_MAX_EV \<equiv> 50999999"
abbreviation (input) START_PES_EV :: "'a::numeral" where "START_PES_EV \<equiv> 52000000"
abbreviation (input) SHMEM_MY_PE_EV :: "'a::numeral" where "SHMEM_MY_PE_EV \<equiv> 52000001"
abbreviation (input) MY_PE_EV :: "'a::numeral" where "MY_PE_EV \<equiv> 52000002"
abbreviation (input) SHMEM_N_PES_EV :: "'a::numeral" where "SHMEM_N_PES_EV \<equiv> 52000003"
abbreviation (input) NUM_PES_EV :: "'a::numeral" where "NUM_PES_EV \<equiv> 52000004"
abbreviation (input) SHMEM_PE_ACCESSIBLE_EV :: "'a::numeral" where "SHMEM_PE_ACCESSIBLE_EV \<equiv> 52000005"
abbreviation (input) SHMEM_ADDR_ACCESSIBLE_EV :: "'a::numeral" where "SHMEM_ADDR_ACCESSIBLE_EV \<equiv> 52000006"
abbreviation (input) SHMEM_PTR_EV :: "'a::numeral" where "SHMEM_PTR_EV \<equiv> 52000007"
abbreviation (input) SHMALLOC_EV :: "'a::numeral" where "SHMALLOC_EV \<equiv> 52000008"
abbreviation (input) SHFREE_EV :: "'a::numeral" where "SHFREE_EV \<equiv> 52000009"
abbreviation (input) SHREALLOC_EV :: "'a::numeral" where "SHREALLOC_EV \<equiv> 52000010"
abbreviation (input) SHMEMALIGN_EV :: "'a::numeral" where "SHMEMALIGN_EV \<equiv> 52000011"
abbreviation (input) SHMEM_DOUBLE_PUT_EV :: "'a::numeral" where "SHMEM_DOUBLE_PUT_EV \<equiv> 52000012"
abbreviation (input) SHMEM_FLOAT_PUT_EV :: "'a::numeral" where "SHMEM_FLOAT_PUT_EV \<equiv> 52000013"
abbreviation (input) SHMEM_INT_PUT_EV :: "'a::numeral" where "SHMEM_INT_PUT_EV \<equiv> 52000014"
abbreviation (input) SHMEM_LONG_PUT_EV :: "'a::numeral" where "SHMEM_LONG_PUT_EV \<equiv> 52000015"
abbreviation (input) SHMEM_LONGDOUBLE_PUT_EV :: "'a::numeral" where "SHMEM_LONGDOUBLE_PUT_EV \<equiv> 52000016"
abbreviation (input) SHMEM_LONGLONG_PUT_EV :: "'a::numeral" where "SHMEM_LONGLONG_PUT_EV \<equiv> 52000017"
abbreviation (input) SHMEM_PUT32_EV :: "'a::numeral" where "SHMEM_PUT32_EV \<equiv> 52000018"
abbreviation (input) SHMEM_PUT64_EV :: "'a::numeral" where "SHMEM_PUT64_EV \<equiv> 52000019"
abbreviation (input) SHMEM_PUT128_EV :: "'a::numeral" where "SHMEM_PUT128_EV \<equiv> 52000020"
abbreviation (input) SHMEM_PUTMEM_EV :: "'a::numeral" where "SHMEM_PUTMEM_EV \<equiv> 52000021"
abbreviation (input) SHMEM_SHORT_PUT_EV :: "'a::numeral" where "SHMEM_SHORT_PUT_EV \<equiv> 52000022"
abbreviation (input) SHMEM_CHAR_P_EV :: "'a::numeral" where "SHMEM_CHAR_P_EV \<equiv> 52000023"
abbreviation (input) SHMEM_SHORT_P_EV :: "'a::numeral" where "SHMEM_SHORT_P_EV \<equiv> 52000024"
abbreviation (input) SHMEM_INT_P_EV :: "'a::numeral" where "SHMEM_INT_P_EV \<equiv> 52000025"
abbreviation (input) SHMEM_LONG_P_EV :: "'a::numeral" where "SHMEM_LONG_P_EV \<equiv> 52000026"
abbreviation (input) SHMEM_LONGLONG_P_EV :: "'a::numeral" where "SHMEM_LONGLONG_P_EV \<equiv> 52000027"
abbreviation (input) SHMEM_FLOAT_P_EV :: "'a::numeral" where "SHMEM_FLOAT_P_EV \<equiv> 52000028"
abbreviation (input) SHMEM_DOUBLE_P_EV :: "'a::numeral" where "SHMEM_DOUBLE_P_EV \<equiv> 52000029"
abbreviation (input) SHMEM_LONGDOUBLE_P_EV :: "'a::numeral" where "SHMEM_LONGDOUBLE_P_EV \<equiv> 52000030"
abbreviation (input) SHMEM_DOUBLE_IPUT_EV :: "'a::numeral" where "SHMEM_DOUBLE_IPUT_EV \<equiv> 52000031"
abbreviation (input) SHMEM_FLOAT_IPUT_EV :: "'a::numeral" where "SHMEM_FLOAT_IPUT_EV \<equiv> 52000032"
abbreviation (input) SHMEM_INT_IPUT_EV :: "'a::numeral" where "SHMEM_INT_IPUT_EV \<equiv> 52000033"
abbreviation (input) SHMEM_IPUT32_EV :: "'a::numeral" where "SHMEM_IPUT32_EV \<equiv> 52000034"
abbreviation (input) SHMEM_IPUT64_EV :: "'a::numeral" where "SHMEM_IPUT64_EV \<equiv> 52000035"
abbreviation (input) SHMEM_IPUT128_EV :: "'a::numeral" where "SHMEM_IPUT128_EV \<equiv> 52000036"
abbreviation (input) SHMEM_LONG_IPUT_EV :: "'a::numeral" where "SHMEM_LONG_IPUT_EV \<equiv> 52000037"
abbreviation (input) SHMEM_LONGDOUBLE_IPUT_EV :: "'a::numeral" where "SHMEM_LONGDOUBLE_IPUT_EV \<equiv> 52000038"
abbreviation (input) SHMEM_LONGLONG_IPUT_EV :: "'a::numeral" where "SHMEM_LONGLONG_IPUT_EV \<equiv> 52000039"
abbreviation (input) SHMEM_SHORT_IPUT_EV :: "'a::numeral" where "SHMEM_SHORT_IPUT_EV \<equiv> 52000040"
abbreviation (input) SHMEM_DOUBLE_GET_EV :: "'a::numeral" where "SHMEM_DOUBLE_GET_EV \<equiv> 52000041"
abbreviation (input) SHMEM_FLOAT_GET_EV :: "'a::numeral" where "SHMEM_FLOAT_GET_EV \<equiv> 52000042"
abbreviation (input) SHMEM_GET32_EV :: "'a::numeral" where "SHMEM_GET32_EV \<equiv> 52000043"
abbreviation (input) SHMEM_GET64_EV :: "'a::numeral" where "SHMEM_GET64_EV \<equiv> 52000044"
abbreviation (input) SHMEM_GET128_EV :: "'a::numeral" where "SHMEM_GET128_EV \<equiv> 52000045"
abbreviation (input) SHMEM_GETMEM_EV :: "'a::numeral" where "SHMEM_GETMEM_EV \<equiv> 52000046"
abbreviation (input) SHMEM_INT_GET_EV :: "'a::numeral" where "SHMEM_INT_GET_EV \<equiv> 52000047"
abbreviation (input) SHMEM_LONG_GET_EV :: "'a::numeral" where "SHMEM_LONG_GET_EV \<equiv> 52000048"
abbreviation (input) SHMEM_LONGDOUBLE_GET_EV :: "'a::numeral" where "SHMEM_LONGDOUBLE_GET_EV \<equiv> 52000049"
abbreviation (input) SHMEM_LONGLONG_GET_EV :: "'a::numeral" where "SHMEM_LONGLONG_GET_EV \<equiv> 52000050"
abbreviation (input) SHMEM_SHORT_GET_EV :: "'a::numeral" where "SHMEM_SHORT_GET_EV \<equiv> 52000051"
abbreviation (input) SHMEM_CHAR_G_EV :: "'a::numeral" where "SHMEM_CHAR_G_EV \<equiv> 52000052"
abbreviation (input) SHMEM_SHORT_G_EV :: "'a::numeral" where "SHMEM_SHORT_G_EV \<equiv> 52000053"
abbreviation (input) SHMEM_INT_G_EV :: "'a::numeral" where "SHMEM_INT_G_EV \<equiv> 52000054"
abbreviation (input) SHMEM_LONG_G_EV :: "'a::numeral" where "SHMEM_LONG_G_EV \<equiv> 52000055"
abbreviation (input) SHMEM_LONGLONG_G_EV :: "'a::numeral" where "SHMEM_LONGLONG_G_EV \<equiv> 52000056"
abbreviation (input) SHMEM_FLOAT_G_EV :: "'a::numeral" where "SHMEM_FLOAT_G_EV \<equiv> 52000057"
abbreviation (input) SHMEM_DOUBLE_G_EV :: "'a::numeral" where "SHMEM_DOUBLE_G_EV \<equiv> 52000058"
abbreviation (input) SHMEM_LONGDOUBLE_G_EV :: "'a::numeral" where "SHMEM_LONGDOUBLE_G_EV \<equiv> 52000059"
abbreviation (input) SHMEM_DOUBLE_IGET_EV :: "'a::numeral" where "SHMEM_DOUBLE_IGET_EV \<equiv> 52000060"
abbreviation (input) SHMEM_FLOAT_IGET_EV :: "'a::numeral" where "SHMEM_FLOAT_IGET_EV \<equiv> 52000061"
abbreviation (input) SHMEM_IGET32_EV :: "'a::numeral" where "SHMEM_IGET32_EV \<equiv> 52000062"
abbreviation (input) SHMEM_IGET64_EV :: "'a::numeral" where "SHMEM_IGET64_EV \<equiv> 52000063"
abbreviation (input) SHMEM_IGET128_EV :: "'a::numeral" where "SHMEM_IGET128_EV \<equiv> 52000064"
abbreviation (input) SHMEM_INT_IGET_EV :: "'a::numeral" where "SHMEM_INT_IGET_EV \<equiv> 52000065"
abbreviation (input) SHMEM_LONG_IGET_EV :: "'a::numeral" where "SHMEM_LONG_IGET_EV \<equiv> 52000066"
abbreviation (input) SHMEM_LONGDOUBLE_IGET_EV :: "'a::numeral" where "SHMEM_LONGDOUBLE_IGET_EV \<equiv> 52000067"
abbreviation (input) SHMEM_LONGLONG_IGET_EV :: "'a::numeral" where "SHMEM_LONGLONG_IGET_EV \<equiv> 52000068"
abbreviation (input) SHMEM_SHORT_IGET_EV :: "'a::numeral" where "SHMEM_SHORT_IGET_EV \<equiv> 52000069"
abbreviation (input) SHMEM_INT_ADD_EV :: "'a::numeral" where "SHMEM_INT_ADD_EV \<equiv> 52000070"
abbreviation (input) SHMEM_LONG_ADD_EV :: "'a::numeral" where "SHMEM_LONG_ADD_EV \<equiv> 52000071"
abbreviation (input) SHMEM_LONGLONG_ADD_EV :: "'a::numeral" where "SHMEM_LONGLONG_ADD_EV \<equiv> 52000072"
abbreviation (input) SHMEM_INT_CSWAP_EV :: "'a::numeral" where "SHMEM_INT_CSWAP_EV \<equiv> 52000073"
abbreviation (input) SHMEM_LONG_CSWAP_EV :: "'a::numeral" where "SHMEM_LONG_CSWAP_EV \<equiv> 52000074"
abbreviation (input) SHMEM_LONGLONG_CSWAP_EV :: "'a::numeral" where "SHMEM_LONGLONG_CSWAP_EV \<equiv> 52000075"
abbreviation (input) SHMEM_DOUBLE_SWAP_EV :: "'a::numeral" where "SHMEM_DOUBLE_SWAP_EV \<equiv> 52000076"
abbreviation (input) SHMEM_FLOAT_SWAP_EV :: "'a::numeral" where "SHMEM_FLOAT_SWAP_EV \<equiv> 52000077"
abbreviation (input) SHMEM_INT_SWAP_EV :: "'a::numeral" where "SHMEM_INT_SWAP_EV \<equiv> 52000078"
abbreviation (input) SHMEM_LONG_SWAP_EV :: "'a::numeral" where "SHMEM_LONG_SWAP_EV \<equiv> 52000079"
abbreviation (input) SHMEM_LONGLONG_SWAP_EV :: "'a::numeral" where "SHMEM_LONGLONG_SWAP_EV \<equiv> 52000080"
abbreviation (input) SHMEM_SWAP_EV :: "'a::numeral" where "SHMEM_SWAP_EV \<equiv> 52000081"
abbreviation (input) SHMEM_INT_FINC_EV :: "'a::numeral" where "SHMEM_INT_FINC_EV \<equiv> 52000082"
abbreviation (input) SHMEM_LONG_FINC_EV :: "'a::numeral" where "SHMEM_LONG_FINC_EV \<equiv> 52000083"
abbreviation (input) SHMEM_LONGLONG_FINC_EV :: "'a::numeral" where "SHMEM_LONGLONG_FINC_EV \<equiv> 52000084"
abbreviation (input) SHMEM_INT_INC_EV :: "'a::numeral" where "SHMEM_INT_INC_EV \<equiv> 52000085"
abbreviation (input) SHMEM_LONG_INC_EV :: "'a::numeral" where "SHMEM_LONG_INC_EV \<equiv> 52000086"
abbreviation (input) SHMEM_LONGLONG_INC_EV :: "'a::numeral" where "SHMEM_LONGLONG_INC_EV \<equiv> 52000087"
abbreviation (input) SHMEM_INT_FADD_EV :: "'a::numeral" where "SHMEM_INT_FADD_EV \<equiv> 52000088"
abbreviation (input) SHMEM_LONG_FADD_EV :: "'a::numeral" where "SHMEM_LONG_FADD_EV \<equiv> 52000089"
abbreviation (input) SHMEM_LONGLONG_FADD_EV :: "'a::numeral" where "SHMEM_LONGLONG_FADD_EV \<equiv> 52000090"
abbreviation (input) SHMEM_BARRIER_ALL_EV :: "'a::numeral" where "SHMEM_BARRIER_ALL_EV \<equiv> 52000091"
abbreviation (input) SHMEM_BARRIER_EV :: "'a::numeral" where "SHMEM_BARRIER_EV \<equiv> 52000092"
abbreviation (input) SHMEM_BROADCAST32_EV :: "'a::numeral" where "SHMEM_BROADCAST32_EV \<equiv> 52000093"
abbreviation (input) SHMEM_BROADCAST64_EV :: "'a::numeral" where "SHMEM_BROADCAST64_EV \<equiv> 52000094"
abbreviation (input) SHMEM_COLLECT32_EV :: "'a::numeral" where "SHMEM_COLLECT32_EV \<equiv> 52000095"
abbreviation (input) SHMEM_COLLECT64_EV :: "'a::numeral" where "SHMEM_COLLECT64_EV \<equiv> 52000096"
abbreviation (input) SHMEM_FCOLLECT32_EV :: "'a::numeral" where "SHMEM_FCOLLECT32_EV \<equiv> 52000097"
abbreviation (input) SHMEM_FCOLLECT64_EV :: "'a::numeral" where "SHMEM_FCOLLECT64_EV \<equiv> 52000098"
abbreviation (input) SHMEM_INT_AND_TO_ALL_EV :: "'a::numeral" where "SHMEM_INT_AND_TO_ALL_EV \<equiv> 52000099"
abbreviation (input) SHMEM_LONG_AND_TO_ALL_EV :: "'a::numeral" where "SHMEM_LONG_AND_TO_ALL_EV \<equiv> 52000100"
abbreviation (input) SHMEM_LONGLONG_AND_TO_ALL_EV :: "'a::numeral" where "SHMEM_LONGLONG_AND_TO_ALL_EV \<equiv> 52000101"
abbreviation (input) SHMEM_SHORT_AND_TO_ALL_EV :: "'a::numeral" where "SHMEM_SHORT_AND_TO_ALL_EV \<equiv> 52000102"
abbreviation (input) SHMEM_DOUBLE_MAX_TO_ALL_EV :: "'a::numeral" where "SHMEM_DOUBLE_MAX_TO_ALL_EV \<equiv> 52000103"
abbreviation (input) SHMEM_FLOAT_MAX_TO_ALL_EV :: "'a::numeral" where "SHMEM_FLOAT_MAX_TO_ALL_EV \<equiv> 52000104"
abbreviation (input) SHMEM_INT_MAX_TO_ALL_EV :: "'a::numeral" where "SHMEM_INT_MAX_TO_ALL_EV \<equiv> 52000105"
abbreviation (input) SHMEM_LONG_MAX_TO_ALL_EV :: "'a::numeral" where "SHMEM_LONG_MAX_TO_ALL_EV \<equiv> 52000106"
abbreviation (input) SHMEM_LONGDOUBLE_MAX_TO_ALL_EV :: "'a::numeral" where "SHMEM_LONGDOUBLE_MAX_TO_ALL_EV \<equiv> 52000107"
abbreviation (input) SHMEM_LONGLONG_MAX_TO_ALL_EV :: "'a::numeral" where "SHMEM_LONGLONG_MAX_TO_ALL_EV \<equiv> 52000108"
abbreviation (input) SHMEM_SHORT_MAX_TO_ALL_EV :: "'a::numeral" where "SHMEM_SHORT_MAX_TO_ALL_EV \<equiv> 52000109"
abbreviation (input) SHMEM_DOUBLE_MIN_TO_ALL_EV :: "'a::numeral" where "SHMEM_DOUBLE_MIN_TO_ALL_EV \<equiv> 52000110"
abbreviation (input) SHMEM_INT_WAIT_EV :: "'a::numeral" where "SHMEM_INT_WAIT_EV \<equiv> 52000111"
abbreviation (input) SHMEM_INT_WAIT_UNTIL_EV :: "'a::numeral" where "SHMEM_INT_WAIT_UNTIL_EV \<equiv> 52000112"
abbreviation (input) SHMEM_LONG_WAIT_EV :: "'a::numeral" where "SHMEM_LONG_WAIT_EV \<equiv> 52000113"
abbreviation (input) SHMEM_LONG_WAIT_UNTIL_EV :: "'a::numeral" where "SHMEM_LONG_WAIT_UNTIL_EV \<equiv> 52000114"
abbreviation (input) SHMEM_LONGLONG_WAIT_EV :: "'a::numeral" where "SHMEM_LONGLONG_WAIT_EV \<equiv> 52000115"
abbreviation (input) SHMEM_LONGLONG_WAIT_UNTIL_EV :: "'a::numeral" where "SHMEM_LONGLONG_WAIT_UNTIL_EV \<equiv> 52000116"
abbreviation (input) SHMEM_SHORT_WAIT_EV :: "'a::numeral" where "SHMEM_SHORT_WAIT_EV \<equiv> 52000117"
abbreviation (input) SHMEM_SHORT_WAIT_UNTIL_EV :: "'a::numeral" where "SHMEM_SHORT_WAIT_UNTIL_EV \<equiv> 52000118"
abbreviation (input) SHMEM_WAIT_EV :: "'a::numeral" where "SHMEM_WAIT_EV \<equiv> 52000119"
abbreviation (input) SHMEM_WAIT_UNTIL_EV :: "'a::numeral" where "SHMEM_WAIT_UNTIL_EV \<equiv> 52000120"
abbreviation (input) SHMEM_FENCE_EV :: "'a::numeral" where "SHMEM_FENCE_EV \<equiv> 52000121"
abbreviation (input) SHMEM_QUIET_EV :: "'a::numeral" where "SHMEM_QUIET_EV \<equiv> 52000122"
abbreviation (input) SHMEM_CLEAR_LOCK_EV :: "'a::numeral" where "SHMEM_CLEAR_LOCK_EV \<equiv> 52000123"
abbreviation (input) SHMEM_SET_LOCK_EV :: "'a::numeral" where "SHMEM_SET_LOCK_EV \<equiv> 52000124"
abbreviation (input) SHMEM_TEST_LOCK_EV :: "'a::numeral" where "SHMEM_TEST_LOCK_EV \<equiv> 52000125"
abbreviation (input) SHMEM_CLEAR_CACHE_INV_EV :: "'a::numeral" where "SHMEM_CLEAR_CACHE_INV_EV \<equiv> 52000126"
abbreviation (input) SHMEM_SET_CACHE_INV_EV :: "'a::numeral" where "SHMEM_SET_CACHE_INV_EV \<equiv> 52000127"
abbreviation (input) SHMEM_CLEAR_CACHE_LINE_INV_EV :: "'a::numeral" where "SHMEM_CLEAR_CACHE_LINE_INV_EV \<equiv> 52000128"
abbreviation (input) SHMEM_SET_CACHE_LINE_INV_EV :: "'a::numeral" where "SHMEM_SET_CACHE_LINE_INV_EV \<equiv> 52000129"
abbreviation (input) SHMEM_UDCFLUSH_EV :: "'a::numeral" where "SHMEM_UDCFLUSH_EV \<equiv> 52000130"
abbreviation (input) SHMEM_UDCFLUSH_LINE_EV :: "'a::numeral" where "SHMEM_UDCFLUSH_LINE_EV \<equiv> 52000131"
abbreviation (input) PAR_EV :: "'a::numeral" where "PAR_EV \<equiv> 60000001"
abbreviation (input) WSH_EV :: "'a::numeral" where "WSH_EV \<equiv> 60000002"
abbreviation (input) BARRIEROMP_EV :: "'a::numeral" where "BARRIEROMP_EV \<equiv> 60000005"
abbreviation (input) NAMEDCRIT_EV :: "'a::numeral" where "NAMEDCRIT_EV \<equiv> 60000006"
abbreviation (input) UNNAMEDCRIT_EV :: "'a::numeral" where "UNNAMEDCRIT_EV \<equiv> 60000007"
abbreviation (input) WORK_EV :: "'a::numeral" where "WORK_EV \<equiv> 60000011"
abbreviation (input) JOIN_EV :: "'a::numeral" where "JOIN_EV \<equiv> 60000016"
abbreviation (input) OMPFUNC_EV :: "'a::numeral" where "OMPFUNC_EV \<equiv> 60000018"
abbreviation (input) USRFUNC_EV :: "'a::numeral" where "USRFUNC_EV \<equiv> 60000019"
abbreviation (input) PTHREAD_FUNC_EV :: "'a::numeral" where "PTHREAD_FUNC_EV \<equiv> 60000020"
abbreviation (input) TASK_EV :: "'a::numeral" where "TASK_EV \<equiv> 60000021"
abbreviation (input) TASKWAIT_EV :: "'a::numeral" where "TASKWAIT_EV \<equiv> 60000022"
abbreviation (input) TASKFUNC_EV :: "'a::numeral" where "TASKFUNC_EV \<equiv> 60000023"
abbreviation (input) TASKGROUP_START_EV :: "'a::numeral" where "TASKGROUP_START_EV \<equiv> 60000025"
abbreviation (input) TASKGROUP_END_EV :: "'a::numeral" where "TASKGROUP_END_EV \<equiv> 60000026"
abbreviation (input) TASKID_EV :: "'a::numeral" where "TASKID_EV \<equiv> 60000028"
abbreviation (input) OMPSETNUMTHREADS_EV :: "'a::numeral" where "OMPSETNUMTHREADS_EV \<equiv> 60000030"
abbreviation (input) OMPGETNUMTHREADS_EV :: "'a::numeral" where "OMPGETNUMTHREADS_EV \<equiv> 60000031"
abbreviation (input) OMPT_CRITICAL_EV :: "'a::numeral" where "OMPT_CRITICAL_EV \<equiv> 60000050"
abbreviation (input) OMPT_ATOMIC_EV :: "'a::numeral" where "OMPT_ATOMIC_EV \<equiv> 60000051"
abbreviation (input) OMPT_LOOP_EV :: "'a::numeral" where "OMPT_LOOP_EV \<equiv> 60000052"
abbreviation (input) OMPT_WORKSHARE_EV :: "'a::numeral" where "OMPT_WORKSHARE_EV \<equiv> 60000053"
abbreviation (input) OMPT_SECTIONS_EV :: "'a::numeral" where "OMPT_SECTIONS_EV \<equiv> 60000054"
abbreviation (input) OMPT_SINGLE_EV :: "'a::numeral" where "OMPT_SINGLE_EV \<equiv> 60000055"
abbreviation (input) OMPT_MASTER_EV :: "'a::numeral" where "OMPT_MASTER_EV \<equiv> 60000056"
abbreviation (input) OMPT_TASKGROUP_IN_EV :: "'a::numeral" where "OMPT_TASKGROUP_IN_EV \<equiv> 60000057"
abbreviation (input) OMPT_DEPENDENCE_EV :: "'a::numeral" where "OMPT_DEPENDENCE_EV \<equiv> 60000058"
abbreviation (input) OMPT_TASKFUNC_EV :: "'a::numeral" where "OMPT_TASKFUNC_EV \<equiv> 60000059"
abbreviation (input) OMP_STATS_EV :: "'a::numeral" where "OMP_STATS_EV \<equiv> 60000060"
abbreviation (input) TASKFUNC_LINE_EV :: "'a::numeral" where "TASKFUNC_LINE_EV \<equiv> 60000123"
abbreviation (input) PTHREAD_EXIT_EV :: "'a::numeral" where "PTHREAD_EXIT_EV \<equiv> 61000001"
abbreviation (input) PTHREAD_CREATE_EV :: "'a::numeral" where "PTHREAD_CREATE_EV \<equiv> 61000002"
abbreviation (input) PTHREAD_JOIN_EV :: "'a::numeral" where "PTHREAD_JOIN_EV \<equiv> 61000003"
abbreviation (input) PTHREAD_DETACH_EV :: "'a::numeral" where "PTHREAD_DETACH_EV \<equiv> 61000004"
abbreviation (input) PTHREAD_RWLOCK_WR_EV :: "'a::numeral" where "PTHREAD_RWLOCK_WR_EV \<equiv> 61000005"
abbreviation (input) PTHREAD_RWLOCK_RD_EV :: "'a::numeral" where "PTHREAD_RWLOCK_RD_EV \<equiv> 61000006"
abbreviation (input) PTHREAD_RWLOCK_UNLOCK_EV :: "'a::numeral" where "PTHREAD_RWLOCK_UNLOCK_EV \<equiv> 61000007"
abbreviation (input) PTHREAD_MUTEX_LOCK_EV :: "'a::numeral" where "PTHREAD_MUTEX_LOCK_EV \<equiv> 61000008"
abbreviation (input) PTHREAD_MUTEX_UNLOCK_EV :: "'a::numeral" where "PTHREAD_MUTEX_UNLOCK_EV \<equiv> 61000009"
abbreviation (input) PTHREAD_COND_SIGNAL_EV :: "'a::numeral" where "PTHREAD_COND_SIGNAL_EV \<equiv> 61000010"
abbreviation (input) PTHREAD_COND_BROADCAST_EV :: "'a::numeral" where "PTHREAD_COND_BROADCAST_EV \<equiv> 61000011"
abbreviation (input) PTHREAD_COND_WAIT_EV :: "'a::numeral" where "PTHREAD_COND_WAIT_EV \<equiv> 61000012"
abbreviation (input) PTHREAD_BARRIER_WAIT_EV :: "'a::numeral" where "PTHREAD_BARRIER_WAIT_EV \<equiv> 61000013"
abbreviation (input) CUDALAUNCH_EV :: "'a::numeral" where "CUDALAUNCH_EV \<equiv> 63100001"
abbreviation (input) CUDACONFIGCALL_EV :: "'a::numeral" where "CUDACONFIGCALL_EV \<equiv> 63100002"
abbreviation (input) CUDAMEMCPY_EV :: "'a::numeral" where "CUDAMEMCPY_EV \<equiv> 63100003"
abbreviation (input) CUDATHREADBARRIER_EV :: "'a::numeral" where "CUDATHREADBARRIER_EV \<equiv> 63100004"
abbreviation (input) CUDASTREAMBARRIER_EV :: "'a::numeral" where "CUDASTREAMBARRIER_EV \<equiv> 63100005"
abbreviation (input) CUDASTREAMCREATE_EV :: "'a::numeral" where "CUDASTREAMCREATE_EV \<equiv> 63100006"
abbreviation (input) CUDAMEMCPYASYNC_EV :: "'a::numeral" where "CUDAMEMCPYASYNC_EV \<equiv> 63100007"
abbreviation (input) CUDADEVICERESET_EV :: "'a::numeral" where "CUDADEVICERESET_EV \<equiv> 63100008"
abbreviation (input) CUDATHREADEXIT_EV :: "'a::numeral" where "CUDATHREADEXIT_EV \<equiv> 63100009"
abbreviation (input) CUDAKERNEL_GPU_EV :: "'a::numeral" where "CUDAKERNEL_GPU_EV \<equiv> 63200001"
abbreviation (input) CUDACONFIGKERNEL_GPU_EV :: "'a::numeral" where "CUDACONFIGKERNEL_GPU_EV \<equiv> 63200002"
abbreviation (input) CUDAMEMCPY_GPU_EV :: "'a::numeral" where "CUDAMEMCPY_GPU_EV \<equiv> 63200003"
abbreviation (input) CUDATHREADBARRIER_GPU_EV :: "'a::numeral" where "CUDATHREADBARRIER_GPU_EV \<equiv> 63200004"
abbreviation (input) CUDAMEMCPYASYNC_GPU_EV :: "'a::numeral" where "CUDAMEMCPYASYNC_GPU_EV \<equiv> 63200007"
abbreviation (input) OPENCL_CLCREATEBUFFER_EV :: "'a::numeral" where "OPENCL_CLCREATEBUFFER_EV \<equiv> 64000001"
abbreviation (input) OPENCL_CLCREATECOMMANDQUEUE_EV :: "'a::numeral" where "OPENCL_CLCREATECOMMANDQUEUE_EV \<equiv> 64000002"
abbreviation (input) OPENCL_CLCREATECONTEXT_EV :: "'a::numeral" where "OPENCL_CLCREATECONTEXT_EV \<equiv> 64000003"
abbreviation (input) OPENCL_CLCREATECONTEXTFROMTYPE_EV :: "'a::numeral" where "OPENCL_CLCREATECONTEXTFROMTYPE_EV \<equiv> 64000004"
abbreviation (input) OPENCL_CLCREATESUBBUFFER_EV :: "'a::numeral" where "OPENCL_CLCREATESUBBUFFER_EV \<equiv> 64000005"
abbreviation (input) OPENCL_CLCREATEKERNEL_EV :: "'a::numeral" where "OPENCL_CLCREATEKERNEL_EV \<equiv> 64000006"
abbreviation (input) OPENCL_CLCREATEKERNELSINPROGRAM_EV :: "'a::numeral" where "OPENCL_CLCREATEKERNELSINPROGRAM_EV \<equiv> 64000007"
abbreviation (input) OPENCL_CLSETKERNELARG_EV :: "'a::numeral" where "OPENCL_CLSETKERNELARG_EV \<equiv> 64000008"
abbreviation (input) OPENCL_CLCREATEPROGRAMWITHSOURCE_EV :: "'a::numeral" where "OPENCL_CLCREATEPROGRAMWITHSOURCE_EV \<equiv> 64000009"
abbreviation (input) OPENCL_CLCREATEPROGRAMWITHBINARY_EV :: "'a::numeral" where "OPENCL_CLCREATEPROGRAMWITHBINARY_EV \<equiv> 64000010"
abbreviation (input) OPENCL_CLCREATEPROGRAMWITHBUILTINKERNELS_EV :: "'a::numeral" where "OPENCL_CLCREATEPROGRAMWITHBUILTINKERNELS_EV \<equiv> 64000011"
abbreviation (input) OPENCL_CLENQUEUEFILLBUFFER_EV :: "'a::numeral" where "OPENCL_CLENQUEUEFILLBUFFER_EV \<equiv> 64000012"
abbreviation (input) OPENCL_CLENQUEUECOPYBUFFER_EV :: "'a::numeral" where "OPENCL_CLENQUEUECOPYBUFFER_EV \<equiv> 64000013"
abbreviation (input) OPENCL_CLENQUEUECOPYBUFFERRECT_EV :: "'a::numeral" where "OPENCL_CLENQUEUECOPYBUFFERRECT_EV \<equiv> 64000014"
abbreviation (input) OPENCL_CLENQUEUENDRANGEKERNEL_EV :: "'a::numeral" where "OPENCL_CLENQUEUENDRANGEKERNEL_EV \<equiv> 64000015"
abbreviation (input) OPENCL_CLENQUEUETASK_EV :: "'a::numeral" where "OPENCL_CLENQUEUETASK_EV \<equiv> 64000016"
abbreviation (input) OPENCL_CLENQUEUENATIVEKERNEL_EV :: "'a::numeral" where "OPENCL_CLENQUEUENATIVEKERNEL_EV \<equiv> 64000017"
abbreviation (input) OPENCL_CLENQUEUEREADBUFFER_EV :: "'a::numeral" where "OPENCL_CLENQUEUEREADBUFFER_EV \<equiv> 64000018"
abbreviation (input) OPENCL_CLENQUEUEREADBUFFERRECT_EV :: "'a::numeral" where "OPENCL_CLENQUEUEREADBUFFERRECT_EV \<equiv> 64000019"
abbreviation (input) OPENCL_CLENQUEUEWRITEBUFFER_EV :: "'a::numeral" where "OPENCL_CLENQUEUEWRITEBUFFER_EV \<equiv> 64000020"
abbreviation (input) OPENCL_CLENQUEUEWRITEBUFFERRECT_EV :: "'a::numeral" where "OPENCL_CLENQUEUEWRITEBUFFERRECT_EV \<equiv> 64000021"
abbreviation (input) OPENCL_CLBUILDPROGRAM_EV :: "'a::numeral" where "OPENCL_CLBUILDPROGRAM_EV \<equiv> 64000022"
abbreviation (input) OPENCL_CLCOMPILEPROGRAM_EV :: "'a::numeral" where "OPENCL_CLCOMPILEPROGRAM_EV \<equiv> 64000023"
abbreviation (input) OPENCL_CLLINKPROGRAM_EV :: "'a::numeral" where "OPENCL_CLLINKPROGRAM_EV \<equiv> 64000024"
abbreviation (input) OPENCL_CLFINISH_EV :: "'a::numeral" where "OPENCL_CLFINISH_EV \<equiv> 64000025"
abbreviation (input) OPENCL_CLFLUSH_EV :: "'a::numeral" where "OPENCL_CLFLUSH_EV \<equiv> 64000026"
abbreviation (input) OPENCL_CLWAITFOREVENTS_EV :: "'a::numeral" where "OPENCL_CLWAITFOREVENTS_EV \<equiv> 64000027"
abbreviation (input) OPENCL_CLENQUEUEMARKERWITHWAITLIST_EV :: "'a::numeral" where "OPENCL_CLENQUEUEMARKERWITHWAITLIST_EV \<equiv> 64000028"
abbreviation (input) OPENCL_CLENQUEUEBARRIERWITHWAITLIST_EV :: "'a::numeral" where "OPENCL_CLENQUEUEBARRIERWITHWAITLIST_EV \<equiv> 64000029"
abbreviation (input) OPENCL_CLENQUEUEMAPBUFFER_EV :: "'a::numeral" where "OPENCL_CLENQUEUEMAPBUFFER_EV \<equiv> 64000030"
abbreviation (input) OPENCL_CLENQUEUEUNMAPMEMOBJECT_EV :: "'a::numeral" where "OPENCL_CLENQUEUEUNMAPMEMOBJECT_EV \<equiv> 64000031"
abbreviation (input) OPENCL_CLENQUEUEMIGRATEMEMOBJECTS_EV :: "'a::numeral" where "OPENCL_CLENQUEUEMIGRATEMEMOBJECTS_EV \<equiv> 64000032"
abbreviation (input) OPENCL_CLENQUEUEMARKER_EV :: "'a::numeral" where "OPENCL_CLENQUEUEMARKER_EV \<equiv> 64000033"
abbreviation (input) OPENCL_CLENQUEUEBARRIER_EV :: "'a::numeral" where "OPENCL_CLENQUEUEBARRIER_EV \<equiv> 64000034"
abbreviation (input) OPENCL_CLRETAINCOMMANDQUEUE_EV :: "'a::numeral" where "OPENCL_CLRETAINCOMMANDQUEUE_EV \<equiv> 64000035"
abbreviation (input) OPENCL_CLRELEASECOMMANDQUEUE_EV :: "'a::numeral" where "OPENCL_CLRELEASECOMMANDQUEUE_EV \<equiv> 64000036"
abbreviation (input) OPENCL_CLRETAINCONTEXT_EV :: "'a::numeral" where "OPENCL_CLRETAINCONTEXT_EV \<equiv> 64000037"
abbreviation (input) OPENCL_CLRELEASECONTEXT_EV :: "'a::numeral" where "OPENCL_CLRELEASECONTEXT_EV \<equiv> 64000038"
abbreviation (input) OPENCL_CLRETAINDEVICE_EV :: "'a::numeral" where "OPENCL_CLRETAINDEVICE_EV \<equiv> 64000039"
abbreviation (input) OPENCL_CLRELEASEDEVICE_EV :: "'a::numeral" where "OPENCL_CLRELEASEDEVICE_EV \<equiv> 64000040"
abbreviation (input) OPENCL_CLRETAINEVENT_EV :: "'a::numeral" where "OPENCL_CLRETAINEVENT_EV \<equiv> 64000041"
abbreviation (input) OPENCL_CLRELEASEEVENT_EV :: "'a::numeral" where "OPENCL_CLRELEASEEVENT_EV \<equiv> 64000042"
abbreviation (input) OPENCL_CLRETAINKERNEL_EV :: "'a::numeral" where "OPENCL_CLRETAINKERNEL_EV \<equiv> 64000043"
abbreviation (input) OPENCL_CLRELEASEKERNEL_EV :: "'a::numeral" where "OPENCL_CLRELEASEKERNEL_EV \<equiv> 64000044"
abbreviation (input) OPENCL_CLRETAINMEMOBJECT_EV :: "'a::numeral" where "OPENCL_CLRETAINMEMOBJECT_EV \<equiv> 64000045"
abbreviation (input) OPENCL_CLRELEASEMEMOBJECT_EV :: "'a::numeral" where "OPENCL_CLRELEASEMEMOBJECT_EV \<equiv> 64000046"
abbreviation (input) OPENCL_CLRETAINPROGRAM_EV :: "'a::numeral" where "OPENCL_CLRETAINPROGRAM_EV \<equiv> 64000047"
abbreviation (input) OPENCL_CLRELEASEPROGRAM_EV :: "'a::numeral" where "OPENCL_CLRELEASEPROGRAM_EV \<equiv> 64000048"
abbreviation (input) OPENCL_CLENQUEUEREADBUFFER_ASYNC_EV :: "'a::numeral" where "OPENCL_CLENQUEUEREADBUFFER_ASYNC_EV \<equiv> 64000049"
abbreviation (input) OPENCL_CLENQUEUEREADBUFFERRECT_ASYNC_EV :: "'a::numeral" where "OPENCL_CLENQUEUEREADBUFFERRECT_ASYNC_EV \<equiv> 64000050"
abbreviation (input) OPENCL_CLENQUEUEWRITEBUFFER_ASYNC_EV :: "'a::numeral" where "OPENCL_CLENQUEUEWRITEBUFFER_ASYNC_EV \<equiv> 64000051"
abbreviation (input) OPENCL_CLENQUEUEWRITEBUFFERRECT_ASYNC_EV :: "'a::numeral" where "OPENCL_CLENQUEUEWRITEBUFFERRECT_ASYNC_EV \<equiv> 64000052"
abbreviation (input) OPENCL_CLENQUEUEFILLBUFFER_ACC_EV :: "'a::numeral" where "OPENCL_CLENQUEUEFILLBUFFER_ACC_EV \<equiv> 64100012"
abbreviation (input) OPENCL_CLENQUEUECOPYBUFFER_ACC_EV :: "'a::numeral" where "OPENCL_CLENQUEUECOPYBUFFER_ACC_EV \<equiv> 64100013"
abbreviation (input) OPENCL_CLENQUEUECOPYBUFFERRECT_ACC_EV :: "'a::numeral" where "OPENCL_CLENQUEUECOPYBUFFERRECT_ACC_EV \<equiv> 64100014"
abbreviation (input) OPENCL_CLENQUEUENDRANGEKERNEL_ACC_EV :: "'a::numeral" where "OPENCL_CLENQUEUENDRANGEKERNEL_ACC_EV \<equiv> 64100015"
abbreviation (input) OPENCL_CLENQUEUETASK_ACC_EV :: "'a::numeral" where "OPENCL_CLENQUEUETASK_ACC_EV \<equiv> 64100016"
abbreviation (input) OPENCL_CLENQUEUENATIVEKERNEL_ACC_EV :: "'a::numeral" where "OPENCL_CLENQUEUENATIVEKERNEL_ACC_EV \<equiv> 64100017"
abbreviation (input) OPENCL_CLENQUEUEREADBUFFER_ACC_EV :: "'a::numeral" where "OPENCL_CLENQUEUEREADBUFFER_ACC_EV \<equiv> 64100018"
abbreviation (input) OPENCL_CLENQUEUEREADBUFFERRECT_ACC_EV :: "'a::numeral" where "OPENCL_CLENQUEUEREADBUFFERRECT_ACC_EV \<equiv> 64100019"
abbreviation (input) OPENCL_CLENQUEUEWRITEBUFFER_ACC_EV :: "'a::numeral" where "OPENCL_CLENQUEUEWRITEBUFFER_ACC_EV \<equiv> 64100020"
abbreviation (input) OPENCL_CLENQUEUEWRITEBUFFERRECT_ACC_EV :: "'a::numeral" where "OPENCL_CLENQUEUEWRITEBUFFERRECT_ACC_EV \<equiv> 64100021"
abbreviation (input) OPENCL_CLENQUEUEMARKERWITHWAITLIST_ACC_EV :: "'a::numeral" where "OPENCL_CLENQUEUEMARKERWITHWAITLIST_ACC_EV \<equiv> 64100028"
abbreviation (input) OPENCL_CLENQUEUEBARRIERWITHWAITLIST_ACC_EV :: "'a::numeral" where "OPENCL_CLENQUEUEBARRIERWITHWAITLIST_ACC_EV \<equiv> 64100029"
abbreviation (input) OPENCL_CLENQUEUEMAPBUFFER_ACC_EV :: "'a::numeral" where "OPENCL_CLENQUEUEMAPBUFFER_ACC_EV \<equiv> 64100030"
abbreviation (input) OPENCL_CLENQUEUEUNMAPMEMOBJECT_ACC_EV :: "'a::numeral" where "OPENCL_CLENQUEUEUNMAPMEMOBJECT_ACC_EV \<equiv> 64100031"
abbreviation (input) OPENCL_CLENQUEUEMIGRATEMEMOBJECTS_ACC_EV :: "'a::numeral" where "OPENCL_CLENQUEUEMIGRATEMEMOBJECTS_ACC_EV \<equiv> 64100032"
abbreviation (input) OPENCL_CLENQUEUEMARKER_ACC_EV :: "'a::numeral" where "OPENCL_CLENQUEUEMARKER_ACC_EV \<equiv> 64100033"
abbreviation (input) OPENCL_CLENQUEUEBARRIER_ACC_EV :: "'a::numeral" where "OPENCL_CLENQUEUEBARRIER_ACC_EV \<equiv> 64100034"
abbreviation (input) OPENCL_CLENQUEUEREADBUFFER_ASYNC_ACC_EV :: "'a::numeral" where "OPENCL_CLENQUEUEREADBUFFER_ASYNC_ACC_EV \<equiv> 64100049"
abbreviation (input) OPENCL_CLENQUEUEREADBUFFERRECT_ASYNC_ACC_EV :: "'a::numeral" where "OPENCL_CLENQUEUEREADBUFFERRECT_ASYNC_ACC_EV \<equiv> 64100050"
abbreviation (input) OPENCL_CLENQUEUEWRITEBUFFER_ASYNC_ACC_EV :: "'a::numeral" where "OPENCL_CLENQUEUEWRITEBUFFER_ASYNC_ACC_EV \<equiv> 64100051"
abbreviation (input) OPENCL_CLENQUEUEWRITEBUFFERRECT_ASYNC_ACC_EV :: "'a::numeral" where "OPENCL_CLENQUEUEWRITEBUFFERRECT_ASYNC_ACC_EV \<equiv> 64100052"
abbreviation (input) CALLER_EV :: "'a::numeral" where "CALLER_EV \<equiv> 70000000"
abbreviation (input) CALLER_LINE_EV :: "'a::numeral" where "CALLER_LINE_EV \<equiv> 80000000"

definition MAX_CALLERS :: nat where
  "MAX_CALLERS = 100"

end
