(* ===== verification/EventTypes.thy ===== *)
theory EventTypes
  imports EventRecord EventNumbers
begin

text \<open>
  The classes of event types, \<open>trunk/dependencies/extrae/src/common/events.c\<close>. The numbers are
  those of \<open>common/events.h\<close> and \<open>common/openshmem_events.h\<close>.
\<close>

definition mpi_events :: "32 word list" where
  "mpi_events =
    [MPI_BSEND_EV, MPI_SSEND_EV, MPI_BARRIER_EV, MPI_BCAST_EV,
     MPI_SEND_EV, MPI_RECV_EV, MPI_SENDRECV_EV, MPI_SENDRECV_REPLACE_EV,
     MPI_IBSEND_EV, MPI_ISSEND_EV, MPI_ISEND_EV, MPI_IRECV_EV,
     MPI_TEST_EV, MPI_WAIT_EV, MPI_CANCEL_EV, MPI_RSEND_EV,
     MPI_IRSEND_EV, MPI_ALLTOALL_EV, MPI_ALLTOALLV_EV, MPI_ALLREDUCE_EV,
     MPI_REDUCE_EV, MPI_WAITALL_EV, MPI_TESTANY_EV, MPI_TESTALL_EV,
     MPI_TESTSOME_EV, MPI_PROBE_EV, MPI_IPROBE_EV, MPI_GATHER_EV,
     MPI_GATHERV_EV, MPI_SCATTER_EV, MPI_SCATTERV_EV, MPI_REDUCESCAT_EV,
     MPI_SCAN_EV, MPI_WAITANY_EV, MPI_WAITSOME_EV, MPI_FINALIZE_EV,
     MPI_INIT_EV, MPI_ALLGATHER_EV, MPI_ALLGATHERV_EV, MPI_PERSIST_REQ_EV,
     MPI_START_EV, MPI_STARTALL_EV, MPI_REQUEST_FREE_EV, MPI_RECV_INIT_EV,
     MPI_SEND_INIT_EV, MPI_BSEND_INIT_EV, MPI_RSEND_INIT_EV, MPI_SSEND_INIT_EV,
     MPI_COMM_RANK_EV, MPI_COMM_SIZE_EV, MPI_IPROBE_COUNTER_EV, MPI_TIME_OUTSIDE_IPROBES_EV,
     MPI_TEST_COUNTER_EV, MPI_FILE_OPEN_EV, MPI_FILE_CLOSE_EV, MPI_FILE_READ_EV,
     MPI_FILE_READ_ALL_EV, MPI_FILE_WRITE_EV, MPI_FILE_WRITE_ALL_EV, MPI_FILE_READ_AT_EV,
     MPI_FILE_READ_AT_ALL_EV, MPI_FILE_WRITE_AT_EV, MPI_FILE_WRITE_AT_ALL_EV, MPI_IRECVED_EV,
     MPI_GET_EV, MPI_PUT_EV, MPI_COMM_CREATE_EV, MPI_COMM_DUP_EV,
     MPI_COMM_SPLIT_EV, MPI_CART_CREATE_EV, MPI_CART_SUB_EV, MPI_COMM_FREE_EV,
     MPI_COMM_SPAWN_EV, MPI_COMM_SPAWN_MULTIPLE_EV, MPI_REQUEST_GET_STATUS_EV, MPI_REQUEST_GET_STATUS_COUNTER_EV,
     MPI_TIME_OUTSIDE_MPI_REQUEST_GET_STATUS_EV, MPI_WIN_CREATE_EV, MPI_WIN_FENCE_EV, MPI_WIN_START_EV,
     MPI_WIN_FREE_EV, MPI_WIN_POST_EV, MPI_WIN_COMPLETE_EV, MPI_WIN_WAIT_EV,
     MPI_INTERCOMM_CREATE_EV, MPI_INTERCOMM_MERGE_EV, MPI_IREDUCE_EV, MPI_IALLREDUCE_EV,
     MPI_IBARRIER_EV, MPI_IBCAST_EV, MPI_IALLTOALL_EV, MPI_IALLTOALLV_EV,
     MPI_IALLGATHER_EV, MPI_IALLGATHERV_EV, MPI_IGATHER_EV, MPI_IGATHERV_EV,
     MPI_ISCATTER_EV, MPI_ISCATTERV_EV, MPI_IREDUCESCAT_EV, MPI_ISCAN_EV]"

definition misc_events :: "32 word list" where
  "misc_events =
    [FLUSH_EV, OPEN_EV, FOPEN_EV, READ_EV,
     WRITE_EV, FREAD_EV, FWRITE_EV, PREAD_EV,
     PWRITE_EV, READV_EV, WRITEV_EV, PREADV_EV,
     PWRITEV_EV, APPL_EV, USER_EV, HWC_DEF_EV,
     HWC_CHANGE_EV, HWC_EV, TRACING_EV, SET_TRACE_EV,
     CALLER_EV, CPU_BURST_EV, RUSAGE_EV, MEMUSAGE_EV,
     MPI_STATS_EV, USRFUNC_EV, SAMPLING_EV, SAMPLING_ADDRESS_LD_EV,
     SAMPLING_ADDRESS_ST_EV, SAMPLING_ADDRESS_MEM_LEVEL_EV, SAMPLING_ADDRESS_TLB_LEVEL_EV, SAMPLING_ADDRESS_REFERENCE_COST_EV,
     HWC_SET_OVERFLOW_EV, TRACING_MODE_EV, ONLINE_EV, USER_SEND_EV,
     USER_RECV_EV, RESUME_VIRTUAL_THREAD_EV, SUSPEND_VIRTUAL_THREAD_EV, TRACE_INIT_EV,
     REGISTER_STACKED_TYPE_EV, REGISTER_CODELOCATION_TYPE_EV, FORK_EV, WAIT_EV,
     WAITPID_EV, EXEC_EV, GETCPU_EV, CPU_EVENT_INTERVAL_EV,
     SYSTEM_EV, MALLOC_EV, FREE_EV, CALLOC_EV,
     REALLOC_EV, POSIX_MEMALIGN_EV, MEMKIND_MALLOC_EV, MEMKIND_CALLOC_EV,
     MEMKIND_REALLOC_EV, MEMKIND_POSIX_MEMALIGN_EV, MEMKIND_FREE_EV, MEMKIND_PARTITION_EV,
     SYSCALL_EV]"

definition omp_events :: "32 word list" where
  "omp_events =
    [OMPFUNC_EV, PAR_EV, WSH_EV, BARRIEROMP_EV,
     UNNAMEDCRIT_EV, NAMEDCRIT_EV, WORK_EV, JOIN_EV,
     OMPSETNUMTHREADS_EV, OMPGETNUMTHREADS_EV, TASK_EV, TASKWAIT_EV,
     TASKFUNC_EV, TASKFUNC_LINE_EV, OMPT_CRITICAL_EV, OMPT_ATOMIC_EV,
     OMPT_LOOP_EV, OMPT_WORKSHARE_EV, OMPT_SECTIONS_EV, OMPT_SINGLE_EV,
     OMPT_MASTER_EV, TASKGROUP_START_EV, TASKGROUP_END_EV, TASKID_EV,
     OMPT_TASKGROUP_IN_EV, OMPT_DEPENDENCE_EV, OMPT_TASKFUNC_EV, OMP_STATS_EV]"

definition pthread_events :: "32 word list" where
  "pthread_events =
    [PTHREAD_CREATE_EV, PTHREAD_JOIN_EV, PTHREAD_DETACH_EV, PTHREAD_FUNC_EV,
     PTHREAD_RWLOCK_WR_EV, PTHREAD_RWLOCK_RD_EV, PTHREAD_RWLOCK_UNLOCK_EV, PTHREAD_MUTEX_LOCK_EV,
     PTHREAD_MUTEX_UNLOCK_EV, PTHREAD_COND_SIGNAL_EV, PTHREAD_COND_BROADCAST_EV, PTHREAD_COND_WAIT_EV,
     PTHREAD_EXIT_EV, PTHREAD_BARRIER_WAIT_EV]"

definition java_events :: "32 word list" where
  "java_events =
    [JAVA_JVMTI_GARBAGECOLLECTOR_EV, JAVA_JVMTI_EXCEPTION_EV, JAVA_JVMTI_OBJECT_ALLOC_EV, JAVA_JVMTI_OBJECT_FREE_EV]"

definition cuda_events :: "32 word list" where
  "cuda_events =
    [CUDALAUNCH_EV, CUDACONFIGCALL_EV, CUDAMEMCPY_EV, CUDAMEMCPYASYNC_EV,
     CUDATHREADBARRIER_EV, CUDASTREAMBARRIER_EV, CUDASTREAMCREATE_EV, CUDADEVICERESET_EV,
     CUDATHREADEXIT_EV, CUDAKERNEL_GPU_EV, CUDACONFIGKERNEL_GPU_EV, CUDAMEMCPY_GPU_EV,
     CUDAMEMCPYASYNC_GPU_EV, CUDATHREADBARRIER_GPU_EV]"

definition opencl_events :: "32 word list" where
  "opencl_events =
    [OPENCL_CLCREATEBUFFER_EV, OPENCL_CLCREATECOMMANDQUEUE_EV, OPENCL_CLCREATECONTEXT_EV, OPENCL_CLCREATECONTEXTFROMTYPE_EV,
     OPENCL_CLCREATESUBBUFFER_EV, OPENCL_CLCREATEKERNEL_EV, OPENCL_CLCREATEKERNELSINPROGRAM_EV, OPENCL_CLSETKERNELARG_EV,
     OPENCL_CLCREATEPROGRAMWITHSOURCE_EV, OPENCL_CLCREATEPROGRAMWITHBINARY_EV, OPENCL_CLCREATEPROGRAMWITHBUILTINKERNELS_EV, OPENCL_CLENQUEUEFILLBUFFER_EV,
     OPENCL_CLENQUEUECOPYBUFFER_EV, OPENCL_CLENQUEUECOPYBUFFERRECT_EV, OPENCL_CLENQUEUENDRANGEKERNEL_EV, OPENCL_CLENQUEUETASK_EV,
     OPENCL_CLENQUEUENATIVEKERNEL_EV, OPENCL_CLENQUEUEREADBUFFER_EV, OPENCL_CLENQUEUEREADBUFFERRECT_EV, OPENCL_CLENQUEUEWRITEBUFFER_EV,
     OPENCL_CLENQUEUEWRITEBUFFERRECT_EV, OPENCL_CLBUILDPROGRAM_EV, OPENCL_CLCOMPILEPROGRAM_EV, OPENCL_CLLINKPROGRAM_EV,
     OPENCL_CLFINISH_EV, OPENCL_CLFLUSH_EV, OPENCL_CLWAITFOREVENTS_EV, OPENCL_CLENQUEUEMARKERWITHWAITLIST_EV,
     OPENCL_CLENQUEUEBARRIERWITHWAITLIST_EV, OPENCL_CLENQUEUEMAPBUFFER_EV, OPENCL_CLENQUEUEUNMAPMEMOBJECT_EV, OPENCL_CLENQUEUEMIGRATEMEMOBJECTS_EV,
     OPENCL_CLENQUEUEMARKER_EV, OPENCL_CLENQUEUEBARRIER_EV, OPENCL_CLENQUEUEFILLBUFFER_ACC_EV, OPENCL_CLENQUEUECOPYBUFFER_ACC_EV,
     OPENCL_CLENQUEUECOPYBUFFERRECT_ACC_EV, OPENCL_CLENQUEUENDRANGEKERNEL_ACC_EV, OPENCL_CLENQUEUETASK_ACC_EV, OPENCL_CLENQUEUENATIVEKERNEL_ACC_EV,
     OPENCL_CLENQUEUEREADBUFFER_ACC_EV, OPENCL_CLENQUEUEREADBUFFERRECT_ACC_EV, OPENCL_CLENQUEUEWRITEBUFFER_ACC_EV, OPENCL_CLENQUEUEWRITEBUFFERRECT_ACC_EV,
     OPENCL_CLENQUEUEMARKERWITHWAITLIST_ACC_EV, OPENCL_CLENQUEUEBARRIERWITHWAITLIST_ACC_EV, OPENCL_CLENQUEUEMAPBUFFER_ACC_EV, OPENCL_CLENQUEUEUNMAPMEMOBJECT_ACC_EV,
     OPENCL_CLENQUEUEMIGRATEMEMOBJECTS_ACC_EV, OPENCL_CLENQUEUEMARKER_ACC_EV, OPENCL_CLENQUEUEBARRIER_ACC_EV, OPENCL_CLRETAINCOMMANDQUEUE_EV,
     OPENCL_CLRELEASECOMMANDQUEUE_EV, OPENCL_CLRETAINCONTEXT_EV, OPENCL_CLRELEASECONTEXT_EV, OPENCL_CLRETAINDEVICE_EV,
     OPENCL_CLRELEASEDEVICE_EV, OPENCL_CLRETAINEVENT_EV, OPENCL_CLRELEASEEVENT_EV, OPENCL_CLRETAINKERNEL_EV,
     OPENCL_CLRELEASEKERNEL_EV, OPENCL_CLRETAINMEMOBJECT_EV, OPENCL_CLRELEASEMEMOBJECT_EV, OPENCL_CLRETAINPROGRAM_EV,
     OPENCL_CLRELEASEPROGRAM_EV, OPENCL_CLENQUEUEREADBUFFER_ASYNC_EV, OPENCL_CLENQUEUEREADBUFFERRECT_ASYNC_EV, OPENCL_CLENQUEUEWRITEBUFFER_ASYNC_EV,
     OPENCL_CLENQUEUEWRITEBUFFERRECT_ASYNC_EV, OPENCL_CLENQUEUEREADBUFFER_ASYNC_ACC_EV, OPENCL_CLENQUEUEREADBUFFERRECT_ASYNC_ACC_EV, OPENCL_CLENQUEUEWRITEBUFFER_ASYNC_ACC_EV,
     OPENCL_CLENQUEUEWRITEBUFFERRECT_ASYNC_ACC_EV]"

definition openshmem_events :: "32 word list" where
  "openshmem_events =
    [START_PES_EV, SHMEM_MY_PE_EV, MY_PE_EV, SHMEM_N_PES_EV,
     NUM_PES_EV, SHMEM_PE_ACCESSIBLE_EV, SHMEM_ADDR_ACCESSIBLE_EV, SHMEM_PTR_EV,
     SHMALLOC_EV, SHFREE_EV, SHREALLOC_EV, SHMEMALIGN_EV,
     SHMEM_DOUBLE_PUT_EV, SHMEM_FLOAT_PUT_EV, SHMEM_INT_PUT_EV, SHMEM_LONG_PUT_EV,
     SHMEM_LONGDOUBLE_PUT_EV, SHMEM_LONGLONG_PUT_EV, SHMEM_PUT32_EV, SHMEM_PUT64_EV,
     SHMEM_PUT128_EV, SHMEM_PUTMEM_EV, SHMEM_SHORT_PUT_EV, SHMEM_CHAR_P_EV,
     SHMEM_SHORT_P_EV, SHMEM_INT_P_EV, SHMEM_LONG_P_EV, SHMEM_LONGLONG_P_EV,
     SHMEM_FLOAT_P_EV, SHMEM_DOUBLE_P_EV, SHMEM_LONGDOUBLE_P_EV, SHMEM_DOUBLE_IPUT_EV,
     SHMEM_FLOAT_IPUT_EV, SHMEM_INT_IPUT_EV, SHMEM_IPUT32_EV, SHMEM_IPUT64_EV,
     SHMEM_IPUT128_EV, SHMEM_LONG_IPUT_EV, SHMEM_LONGDOUBLE_IPUT_EV, SHMEM_LONGLONG_IPUT_EV,
     SHMEM_SHORT_IPUT_EV, SHMEM_DOUBLE_GET_EV, SHMEM_FLOAT_GET_EV, SHMEM_GET32_EV,
     SHMEM_GET64_EV, SHMEM_GET128_EV, SHMEM_GETMEM_EV, SHMEM_INT_GET_EV,
     SHMEM_LONG_GET_EV, SHMEM_LONGDOUBLE_GET_EV, SHMEM_LONGLONG_GET_EV, SHMEM_SHORT_GET_EV,
     SHMEM_CHAR_G_EV, SHMEM_SHORT_G_EV, SHMEM_INT_G_EV, SHMEM_LONG_G_EV,
     SHMEM_LONGLONG_G_EV, SHMEM_FLOAT_G_EV, SHMEM_DOUBLE_G_EV, SHMEM_LONGDOUBLE_G_EV,
     SHMEM_DOUBLE_IGET_EV, SHMEM_FLOAT_IGET_EV, SHMEM_IGET32_EV, SHMEM_IGET64_EV,
     SHMEM_IGET128_EV, SHMEM_INT_IGET_EV, SHMEM_LONG_IGET_EV, SHMEM_LONGDOUBLE_IGET_EV,
     SHMEM_LONGLONG_IGET_EV, SHMEM_SHORT_IGET_EV, SHMEM_INT_ADD_EV, SHMEM_LONG_ADD_EV,
     SHMEM_LONGLONG_ADD_EV, SHMEM_INT_CSWAP_EV, SHMEM_LONG_CSWAP_EV, SHMEM_LONGLONG_CSWAP_EV,
     SHMEM_DOUBLE_SWAP_EV, SHMEM_FLOAT_SWAP_EV, SHMEM_INT_SWAP_EV, SHMEM_LONG_SWAP_EV,
     SHMEM_LONGLONG_SWAP_EV, SHMEM_SWAP_EV, SHMEM_INT_FINC_EV, SHMEM_LONG_FINC_EV,
     SHMEM_LONGLONG_FINC_EV, SHMEM_INT_INC_EV, SHMEM_LONG_INC_EV, SHMEM_LONGLONG_INC_EV,
     SHMEM_INT_FADD_EV, SHMEM_LONG_FADD_EV, SHMEM_LONGLONG_FADD_EV, SHMEM_BARRIER_ALL_EV,
     SHMEM_BARRIER_EV, SHMEM_BROADCAST32_EV, SHMEM_BROADCAST64_EV, SHMEM_COLLECT32_EV,
     SHMEM_COLLECT64_EV, SHMEM_FCOLLECT32_EV, SHMEM_FCOLLECT64_EV, SHMEM_INT_AND_TO_ALL_EV,
     SHMEM_LONG_AND_TO_ALL_EV, SHMEM_LONGLONG_AND_TO_ALL_EV, SHMEM_SHORT_AND_TO_ALL_EV, SHMEM_DOUBLE_MAX_TO_ALL_EV,
     SHMEM_FLOAT_MAX_TO_ALL_EV, SHMEM_INT_MAX_TO_ALL_EV, SHMEM_LONG_MAX_TO_ALL_EV, SHMEM_LONGDOUBLE_MAX_TO_ALL_EV,
     SHMEM_LONGLONG_MAX_TO_ALL_EV, SHMEM_SHORT_MAX_TO_ALL_EV, SHMEM_DOUBLE_MIN_TO_ALL_EV, SHMEM_INT_WAIT_EV,
     SHMEM_INT_WAIT_UNTIL_EV, SHMEM_LONG_WAIT_EV, SHMEM_LONG_WAIT_UNTIL_EV, SHMEM_LONGLONG_WAIT_EV,
     SHMEM_LONGLONG_WAIT_UNTIL_EV, SHMEM_SHORT_WAIT_EV, SHMEM_SHORT_WAIT_UNTIL_EV, SHMEM_WAIT_EV,
     SHMEM_WAIT_UNTIL_EV, SHMEM_FENCE_EV, SHMEM_QUIET_EV, SHMEM_CLEAR_LOCK_EV,
     SHMEM_SET_LOCK_EV, SHMEM_TEST_LOCK_EV, SHMEM_CLEAR_CACHE_INV_EV, SHMEM_SET_CACHE_INV_EV,
     SHMEM_CLEAR_CACHE_LINE_INV_EV, SHMEM_SET_CACHE_LINE_INV_EV, SHMEM_UDCFLUSH_EV, SHMEM_UDCFLUSH_LINE_EV]"

text \<open>\<open>for (evt = 0; evt < N; evt++) if (events[evt] == EvType) return TRUE; return FALSE;\<close>\<close>

definition listed :: "32 word list \<Rightarrow> 32 word \<Rightarrow> bool" where
  "listed events EvType \<longleftrightarrow> first_index (\<lambda>e. e = EvType) events \<noteq> None"

definition IsMPI :: "32 word \<Rightarrow> bool" where
  "IsMPI EvType \<longleftrightarrow> listed mpi_events EvType"

definition IsMISC :: "32 word \<Rightarrow> bool" where
  "IsMISC EvType \<longleftrightarrow>
     EvType \<ge> CALLER_EV \<and> EvType \<le> CALLER_EV + of_nat MAX_CALLERS \<or>
     EvType \<ge> SAMPLING_EV \<and> EvType \<le> SAMPLING_EV + of_nat MAX_CALLERS \<or>
     listed misc_events EvType"

definition IsOpenMP :: "32 word \<Rightarrow> bool" where
  "IsOpenMP EvType \<longleftrightarrow> listed omp_events EvType"

definition IsPthread :: "32 word \<Rightarrow> bool" where
  "IsPthread EvType \<longleftrightarrow> listed pthread_events EvType"

definition IsJava :: "32 word \<Rightarrow> bool" where
  "IsJava EvType \<longleftrightarrow> listed java_events EvType"

definition IsCUDA :: "32 word \<Rightarrow> bool" where
  "IsCUDA EvType \<longleftrightarrow> listed cuda_events EvType"

definition IsOpenCL :: "32 word \<Rightarrow> bool" where
  "IsOpenCL EvType \<longleftrightarrow> listed opencl_events EvType"

definition IsOPENSHMEM :: "32 word \<Rightarrow> bool" where
  "IsOPENSHMEM EvType \<longleftrightarrow> listed openshmem_events EvType"

definition IsBurst :: "32 word \<Rightarrow> bool" where
  "IsBurst EvType \<longleftrightarrow> EvType = CPU_BURST_EV"

definition IsHwcChange :: "32 word \<Rightarrow> bool" where
  "IsHwcChange EvType \<longleftrightarrow> EvType = HWC_CHANGE_EV"

definition collective_events :: "32 word list" where
  "collective_events =
    [MPI_BARRIER_EV, MPI_BCAST_EV, MPI_ALLTOALL_EV,
     MPI_ALLTOALLV_EV, MPI_REDUCE_EV, MPI_ALLREDUCE_EV,
     MPI_GATHER_EV, MPI_GATHERV_EV, MPI_ALLGATHER_EV,
     MPI_ALLGATHERV_EV, MPI_SCATTER_EV, MPI_SCATTERV_EV,
     MPI_REDUCESCAT_EV, MPI_SCAN_EV]"

definition IsMPICollective :: "32 word \<Rightarrow> bool" where
  "IsMPICollective EvType \<longleftrightarrow> EvType \<in> set collective_events"

datatype EventType_t = MPI_TYPE | MPI_COMM_ALIAS_TYPE | MISC_TYPE | OPENMP_TYPE | PTHREAD_TYPE | CUDA_TYPE |
  OPENCL_TYPE | OPENSHMEM_TYPE | JAVA_TYPE

definition getEventType :: "32 word \<Rightarrow> EventType_t option" where
  "getEventType EvType =
     (if IsMPI EvType then Some MPI_TYPE
      else if IsMISC EvType then Some MISC_TYPE
      else if IsOpenMP EvType then Some OPENMP_TYPE
      else if IsPthread EvType then Some PTHREAD_TYPE
      else if IsCUDA EvType then Some CUDA_TYPE
      else if IsOpenCL EvType then Some OPENCL_TYPE
      else if IsOPENSHMEM EvType then Some OPENSHMEM_TYPE
      else if IsJava EvType then Some JAVA_TYPE
      else if EvType = MPI_ALIAS_COMM_CREATE_EV then Some MPI_COMM_ALIAS_TYPE
      else None)"

section \<open>The classes are disjoint\<close>

lemma listed_set: "listed events e \<longleftrightarrow> e \<in> set events"
  by (auto simp: listed_def first_index_None)

text \<open>The million an event type lies in.\<close>

definition in_million :: "int list \<Rightarrow> 32 word list \<Rightarrow> bool" where
  "in_million ms events \<longleftrightarrow> list_all (\<lambda>e. uint e div 1000000 \<in> set ms) events"

lemma in_millionD: "in_million ms events \<Longrightarrow> listed events e \<Longrightarrow> uint e div 1000000 \<in> set ms"
  by (auto simp: in_million_def listed_set list_all_iff)

lemma millions:
  "in_million [50] mpi_events"
  "in_million [0, 30, 31, 32, 40, 60, 70] misc_events"
  "in_million [60] omp_events"
  "in_million [60, 61] pthread_events"
  "in_million [48] java_events"
  "in_million [63] cuda_events"
  "in_million [64] opencl_events"
  "in_million [52] openshmem_events"
  by (simp_all add: in_million_def mpi_events_def misc_events_def omp_events_def pthread_events_def java_events_def
      cuda_events_def opencl_events_def openshmem_events_def)

text \<open>The three classes with events in the sixtieth million share none.\<close>

definition only_in_60 :: "32 word list \<Rightarrow> 32 word list \<Rightarrow> bool" where
  "only_in_60 es events \<longleftrightarrow> list_all (\<lambda>e. uint e div 1000000 = 60 \<longrightarrow> e \<in> set es) events"

lemma only_in_60D: "only_in_60 es events \<Longrightarrow> listed events e \<Longrightarrow> uint e div 1000000 = 60 \<Longrightarrow> e \<in> set es"
  by (auto simp: only_in_60_def listed_set list_all_iff)

lemma sixtieth:
  "only_in_60 [USRFUNC_EV] misc_events"
  "only_in_60 [PTHREAD_FUNC_EV] pthread_events"
  by (simp_all add: only_in_60_def misc_events_def pthread_events_def)

lemma not_omp: "\<not> listed omp_events USRFUNC_EV" "\<not> listed omp_events PTHREAD_FUNC_EV"
  by (simp_all add: listed_set omp_events_def)

lemma misc_million:
  assumes "IsMISC e"
  shows "uint e div 1000000 \<in> {0, 30, 31, 32, 40, 60, 70}" and "uint e div 1000000 = 60 \<longrightarrow> e = USRFUNC_EV"
proof -
  consider "uint e div 1000000 = 70" | "uint e div 1000000 = 30" | "listed misc_events e"
    using assms by (auto simp: IsMISC_def MAX_CALLERS_def word_le_def)
  then have "uint e div 1000000 \<in> {0, 30, 31, 32, 40, 60, 70} \<and> (uint e div 1000000 = 60 \<longrightarrow> e = USRFUNC_EV)"
  proof cases
    case 3
    from in_millionD [OF millions(2) 3] only_in_60D [OF sixtieth(1) 3] show ?thesis by auto
  qed auto
  then show "uint e div 1000000 \<in> {0, 30, 31, 32, 40, 60, 70}" and "uint e div 1000000 = 60 \<longrightarrow> e = USRFUNC_EV" by blast+
qed

definition classes :: "32 word \<Rightarrow> EventType_t list" where
  "classes e =
     concat (map (\<lambda>(b, c). if b then [c] else [])
       [(IsMPI e, MPI_TYPE), (IsMISC e, MISC_TYPE), (IsOpenMP e, OPENMP_TYPE), (IsPthread e, PTHREAD_TYPE),
        (IsCUDA e, CUDA_TYPE), (IsOpenCL e, OPENCL_TYPE), (IsOPENSHMEM e, OPENSHMEM_TYPE), (IsJava e, JAVA_TYPE)])"

lemma class_million:
  "IsMPI e \<Longrightarrow> uint e div 1000000 = 50"
  "IsOpenMP e \<Longrightarrow> uint e div 1000000 = 60"
  "IsPthread e \<Longrightarrow> uint e div 1000000 = 61 \<or> uint e div 1000000 = 60 \<and> e = PTHREAD_FUNC_EV"
  "IsJava e \<Longrightarrow> uint e div 1000000 = 48"
  "IsCUDA e \<Longrightarrow> uint e div 1000000 = 63"
  "IsOpenCL e \<Longrightarrow> uint e div 1000000 = 64"
  "IsOPENSHMEM e \<Longrightarrow> uint e div 1000000 = 52"
  using millions [THEN in_millionD, of e] only_in_60D [OF sixtieth(2), of e]
  by (auto simp: IsMPI_def IsOpenMP_def IsPthread_def IsJava_def IsCUDA_def IsOpenCL_def IsOPENSHMEM_def)

lemma omp_not_others: "IsOpenMP e \<Longrightarrow> \<not> IsMISC e \<and> \<not> IsPthread e"
  using not_omp class_million(2,3) [of e] misc_million(2) [of e] by (auto simp: IsOpenMP_def)

lemma misc_not_pthread: "IsMISC e \<Longrightarrow> \<not> IsPthread e"
  using class_million(3) [of e] misc_million [of e] by auto

text \<open>
  C37. Every event type has one meaning: whatever the 32-bit number, at most one of the eight class
  tests holds of it, so that the order \<open>getEventType\<close> asks them in does not matter, and its answer
  is that class.
\<close>

theorem event_classes_disjoint:
  "length (classes e) \<le> 1 \<and>
   getEventType e = (case classes e of c # _ \<Rightarrow> Some c
     | [] \<Rightarrow> if e = MPI_ALIAS_COMM_CREATE_EV then Some MPI_COMM_ALIAS_TYPE else None)"
proof -
  have "length (classes e) \<le> 1"
    using class_million [of e] misc_million(1) [of e] omp_not_others [of e] misc_not_pthread [of e]
    by (cases "IsMISC e"; cases "IsOpenMP e"; cases "IsPthread e") (auto simp: classes_def)
  moreover have "getEventType e = (case classes e of c # _ \<Rightarrow> Some c
     | [] \<Rightarrow> if e = MPI_ALIAS_COMM_CREATE_EV then Some MPI_COMM_ALIAS_TYPE else None)"
    by (simp add: classes_def getEventType_def)
  ultimately show ?thesis ..
qed

end
