(* ===== verification/MpiEvents.thy ===== *)
theory MpiEvents
  imports Emit EventTypes
begin

text \<open>
  The MPI operations of a Paraver trace,
  \<open>trunk/dependencies/extrae/src/merger/paraver/mpi_prv_events.c\<close>. A row of the table gives the
  event type in the intermediate files, the type and the value in the trace; the numbers are those
  of \<open>common/events.h\<close> and \<open>merger/paraver/MPI_EventEncoding.h\<close>. The
  flags that say which operations the trace has (\<open>utilitzada\<close>) are a list beside the table.
\<close>

definition event_mpit2prv :: "(int \<times> int \<times> int) list" where
  "event_mpit2prv =
    [(MPI_ALLGATHER_EV, MPITYPE_COLLECTIVE, MPI_ALLGATHER_VAL),
     (MPI_ALLGATHERV_EV, MPITYPE_COLLECTIVE, MPI_ALLGATHERV_VAL),
     (MPI_ALLREDUCE_EV, MPITYPE_COLLECTIVE, MPI_ALLREDUCE_VAL),
     (MPI_ALLTOALL_EV, MPITYPE_COLLECTIVE, MPI_ALLTOALL_VAL),
     (MPI_ALLTOALLV_EV, MPITYPE_COLLECTIVE, MPI_ALLTOALLV_VAL),
     (MPI_BARRIER_EV, MPITYPE_COLLECTIVE, MPI_BARRIER_VAL),
     (MPI_BCAST_EV, MPITYPE_COLLECTIVE, MPI_BCAST_VAL),
     (MPI_GATHER_EV, MPITYPE_COLLECTIVE, MPI_GATHER_VAL),
     (MPI_GATHERV_EV, MPITYPE_COLLECTIVE, MPI_GATHERV_VAL),
     (- 1, MPITYPE_OTHER, MPI_OP_CREATE_VAL),
     (- 1, MPITYPE_OTHER, MPI_OP_FREE_VAL),
     (MPI_REDUCESCAT_EV, MPITYPE_COLLECTIVE, MPI_REDUCE_SCATTER_VAL),
     (MPI_REDUCE_EV, MPITYPE_COLLECTIVE, MPI_REDUCE_VAL),
     (MPI_SCAN_EV, MPITYPE_COLLECTIVE, MPI_SCAN_VAL),
     (MPI_SCATTER_EV, MPITYPE_COLLECTIVE, MPI_SCATTER_VAL),
     (MPI_SCATTERV_EV, MPITYPE_COLLECTIVE, MPI_SCATTERV_VAL),
     (- 1, MPITYPE_OTHER, MPI_ATTR_DELETE_VAL),
     (- 1, MPITYPE_OTHER, MPI_ATTR_GET_VAL),
     (- 1, MPITYPE_OTHER, MPI_ATTR_PUT_VAL),
     (MPI_COMM_CREATE_EV, MPITYPE_COMM, MPI_COMM_CREATE_VAL),
     (MPI_COMM_DUP_EV, MPITYPE_COMM, MPI_COMM_DUP_VAL),
     (MPI_COMM_FREE_EV, MPITYPE_COMM, MPI_COMM_FREE_VAL),
     (- 1, MPITYPE_COMM, MPI_COMM_GROUP_VAL),
     (MPI_COMM_RANK_EV, MPITYPE_COMM, MPI_COMM_RANK_VAL),
     (- 1, MPITYPE_COMM, MPI_COMM_REMOTE_GROUP_VAL),
     (- 1, MPITYPE_COMM, MPI_COMM_REMOTE_SIZE_VAL),
     (MPI_COMM_SIZE_EV, MPITYPE_COMM, MPI_COMM_SIZE_VAL),
     (MPI_COMM_SPLIT_EV, MPITYPE_COMM, MPI_COMM_SPLIT_VAL),
     (- 1, MPITYPE_COMM, MPI_COMM_TEST_INTER_VAL),
     (- 1, MPITYPE_COMM, MPI_COMM_COMPARE_VAL),
     (- 1, MPITYPE_GROUP, MPI_GROUP_DIFFERENCE_VAL),
     (- 1, MPITYPE_GROUP, MPI_GROUP_EXCL_VAL),
     (- 1, MPITYPE_GROUP, MPI_GROUP_FREE_VAL),
     (- 1, MPITYPE_GROUP, MPI_GROUP_INCL_VAL),
     (- 1, MPITYPE_GROUP, MPI_GROUP_INTERSECTION_VAL),
     (- 1, MPITYPE_GROUP, MPI_GROUP_RANK_VAL),
     (- 1, MPITYPE_GROUP, MPI_GROUP_RANGE_EXCL_VAL),
     (- 1, MPITYPE_GROUP, MPI_GROUP_RANGE_INCL_VAL),
     (- 1, MPITYPE_GROUP, MPI_GROUP_SIZE_VAL),
     (- 1, MPITYPE_GROUP, MPI_GROUP_TRANSLATE_RANKS_VAL),
     (- 1, MPITYPE_GROUP, MPI_GROUP_UNION_VAL),
     (- 1, MPITYPE_GROUP, MPI_GROUP_COMPARE_VAL),
     (MPI_INTERCOMM_CREATE_EV, MPITYPE_COMM, MPI_INTERCOMM_CREATE_VAL),
     (MPI_INTERCOMM_CREATE_VAL, MPITYPE_COMM, MPI_INTERCOMM_MERGE_VAL),
     (- 1, MPITYPE_OTHER, MPI_KEYVAL_FREE_VAL),
     (- 1, MPITYPE_OTHER, MPI_KEYVAL_CREATE_VAL),
     (- 1, MPITYPE_OTHER, MPI_ABORT_VAL),
     (- 1, MPITYPE_OTHER, MPI_ERROR_CLASS_VAL),
     (- 1, MPITYPE_OTHER, MPI_ERRHANDLER_CREATE_VAL),
     (- 1, MPITYPE_OTHER, MPI_ERRHANDLER_FREE_VAL),
     (- 1, MPITYPE_OTHER, MPI_ERRHANDLER_GET_VAL),
     (- 1, MPITYPE_OTHER, MPI_ERROR_STRING_VAL),
     (- 1, MPITYPE_OTHER, MPI_ERRHANDLER_SET_VAL),
     (MPI_FINALIZE_EV, MPITYPE_OTHER, MPI_FINALIZE_VAL),
     (- 1, MPITYPE_OTHER, MPI_GET_PROCESSOR_NAME_VAL),
     (MPI_INIT_EV, MPITYPE_OTHER, MPI_INIT_VAL),
     (- 1, MPITYPE_OTHER, MPI_INITIALIZED_VAL),
     (- 1, MPITYPE_OTHER, MPI_WTICK_VAL),
     (- 1, MPITYPE_OTHER, MPI_WTIME_VAL),
     (- 1, MPITYPE_OTHER, MPI_ADDRESS_VAL),
     (MPI_BSEND_EV, MPITYPE_PTOP, MPI_BSEND_VAL),
     (MPI_BSEND_INIT_EV, MPITYPE_PTOP, MPI_BSEND_INIT_VAL),
     (- 1, MPITYPE_OTHER, MPI_BUFFER_ATTACH_VAL),
     (- 1, MPITYPE_OTHER, MPI_BUFFER_DETACH_VAL),
     (MPI_CANCEL_EV, MPITYPE_PTOP, MPI_CANCEL_VAL),
     (MPI_REQUEST_FREE_EV, MPITYPE_OTHER, MPI_REQUEST_FREE_VAL),
     (MPI_RECV_INIT_EV, MPITYPE_PTOP, MPI_RECV_INIT_VAL),
     (MPI_SEND_INIT_EV, MPITYPE_PTOP, MPI_SEND_INIT_VAL),
     (- 1, MPITYPE_OTHER, MPI_GET_COUNT_VAL),
     (- 1, MPITYPE_OTHER, MPI_GET_ELEMENTS_VAL),
     (MPI_IBSEND_EV, MPITYPE_PTOP, MPI_IBSEND_VAL),
     (MPI_IPROBE_EV, MPITYPE_PTOP, MPI_IPROBE_VAL),
     (MPI_IRECV_EV, MPITYPE_PTOP, MPI_IRECV_VAL),
     (MPI_IRSEND_EV, MPITYPE_PTOP, MPI_IRSEND_VAL),
     (MPI_ISEND_EV, MPITYPE_PTOP, MPI_ISEND_VAL),
     (MPI_ISSEND_EV, MPITYPE_PTOP, MPI_ISSEND_VAL),
     (- 1, MPITYPE_OTHER, MPI_PACK_VAL),
     (- 1, MPITYPE_OTHER, MPI_PACK_SIZE_VAL),
     (MPI_PROBE_EV, MPITYPE_PTOP, MPI_PROBE_VAL),
     (MPI_RECV_EV, MPITYPE_PTOP, MPI_RECV_VAL),
     (MPI_RSEND_EV, MPITYPE_PTOP, MPI_RSEND_VAL),
     (MPI_RSEND_INIT_EV, MPITYPE_PTOP, MPI_RSEND_INIT_VAL),
     (MPI_SEND_EV, MPITYPE_PTOP, MPI_SEND_VAL),
     (MPI_SENDRECV_EV, MPITYPE_PTOP, MPI_SENDRECV_VAL),
     (MPI_SENDRECV_REPLACE_EV, MPITYPE_PTOP, MPI_SENDRECV_REPLACE_VAL),
     (MPI_SSEND_EV, MPITYPE_PTOP, MPI_SSEND_VAL),
     (MPI_SSEND_INIT_EV, MPITYPE_PTOP, MPI_SSEND_INIT_VAL),
     (MPI_START_EV, MPITYPE_OTHER, MPI_START_VAL),
     (MPI_STARTALL_EV, MPITYPE_OTHER, MPI_STARTALL_VAL),
     (MPI_TEST_EV, MPITYPE_OTHER, MPI_TEST_VAL),
     (MPI_TESTALL_EV, MPITYPE_OTHER, MPI_TESTALL_VAL),
     (MPI_TESTANY_EV, MPITYPE_OTHER, MPI_TESTANY_VAL),
     (- 1, MPITYPE_OTHER, MPI_TEST_CANCELLED_VAL),
     (MPI_TESTSOME_EV, MPITYPE_OTHER, MPI_TESTSOME_VAL),
     (- 1, MPITYPE_TYPE, MPI_TYPE_COMMIT_VAL),
     (- 1, MPITYPE_TYPE, MPI_TYPE_CONTIGUOUS_VAL),
     (- 1, MPITYPE_TYPE, MPI_TYPE_EXTENT_VAL),
     (- 1, MPITYPE_TYPE, MPI_TYPE_FREE_VAL),
     (- 1, MPITYPE_TYPE, MPI_TYPE_HINDEXED_VAL),
     (- 1, MPITYPE_TYPE, MPI_TYPE_HVECTOR_VAL),
     (- 1, MPITYPE_TYPE, MPI_TYPE_INDEXED_VAL),
     (- 1, MPITYPE_TYPE, MPI_TYPE_LB_VAL),
     (- 1, MPITYPE_TYPE, MPI_TYPE_SIZE_VAL),
     (- 1, MPITYPE_TYPE, MPI_TYPE_STRUCT_VAL),
     (- 1, MPITYPE_TYPE, MPI_TYPE_UB_VAL),
     (- 1, MPITYPE_TYPE, MPI_TYPE_VECTOR_VAL),
     (- 1, MPITYPE_OTHER, MPI_UNPACK_VAL),
     (MPI_WAIT_EV, MPITYPE_PTOP, MPI_WAIT_VAL),
     (MPI_WAITALL_EV, MPITYPE_PTOP, MPI_WAITALL_VAL),
     (MPI_WAITANY_EV, MPITYPE_PTOP, MPI_WAITANY_VAL),
     (MPI_WAITSOME_EV, MPITYPE_PTOP, MPI_WAITSOME_VAL),
     (MPI_CART_COORDS_EV, MPITYPE_TOPOLOGIES, MPI_CART_COORDS_VAL),
     (MPI_CART_CREATE_EV, MPITYPE_TOPOLOGIES, MPI_CART_CREATE_VAL),
     (- 1, MPITYPE_TOPOLOGIES, MPI_CART_GET_VAL),
     (- 1, MPITYPE_TOPOLOGIES, MPI_CART_MAP_VAL),
     (- 1, MPITYPE_TOPOLOGIES, MPI_CART_RANK_VAL),
     (- 1, MPITYPE_TOPOLOGIES, MPI_CART_SHIFT_VAL),
     (MPI_CART_SUB_EV, MPITYPE_TOPOLOGIES, MPI_CART_SUB_VAL),
     (- 1, MPITYPE_TOPOLOGIES, MPI_CARTDIM_GET_VAL),
     (- 1, MPITYPE_TOPOLOGIES, MPI_DIMS_CREATE_VAL),
     (- 1, MPITYPE_TOPOLOGIES, MPI_GRAPH_GET_VAL),
     (- 1, MPITYPE_TOPOLOGIES, MPI_GRAPH_MAP_VAL),
     (- 1, MPITYPE_TOPOLOGIES, MPI_GRAPH_NEIGHBORS_VAL),
     (- 1, MPITYPE_TOPOLOGIES, MPI_GRAPH_CREATE_VAL),
     (- 1, MPITYPE_TOPOLOGIES, MPI_GRAPHDIMS_GET_VAL),
     (- 1, MPITYPE_TOPOLOGIES, MPI_GRAPH_NEIGHBORS_COUNT_VAL),
     (- 1, MPITYPE_TOPOLOGIES, MPI_TOPO_TEST_VAL),
     (MPI_WIN_CREATE_EV, MPITYPE_RMA, MPI_WIN_CREATE_VAL),
     (MPI_WIN_FREE_EV, MPITYPE_RMA, MPI_WIN_FREE_VAL),
     (MPI_PUT_EV, MPITYPE_RMA, MPI_PUT_VAL),
     (MPI_GET_EV, MPITYPE_RMA, MPI_GET_VAL),
     (- 1, MPITYPE_RMA, MPI_ACCUMULATE_VAL),
     (MPI_WIN_FENCE_EV, MPITYPE_RMA, MPI_WIN_FENCE_VAL),
     (MPI_WIN_START_EV, MPITYPE_RMA, MPI_WIN_START_VAL),
     (MPI_WIN_COMPLETE_EV, MPITYPE_RMA, MPI_WIN_COMPLETE_VAL),
     (MPI_WIN_POST_EV, MPITYPE_RMA, MPI_WIN_POST_VAL),
     (MPI_WIN_WAIT_EV, MPITYPE_RMA, MPI_WIN_WAIT_VAL),
     (- 1, MPITYPE_RMA, MPI_WIN_TEST_VAL),
     (- 1, MPITYPE_RMA, MPI_WIN_LOCK_VAL),
     (- 1, MPITYPE_RMA, MPI_WIN_UNLOCK_VAL),
     (MPI_FILE_OPEN_EV, MPITYPE_IO, MPI_FILE_OPEN_VAL),
     (MPI_FILE_CLOSE_EV, MPITYPE_IO, MPI_FILE_CLOSE_VAL),
     (MPI_FILE_READ_EV, MPITYPE_IO, MPI_FILE_READ_VAL),
     (MPI_FILE_READ_ALL_EV, MPITYPE_IO, MPI_FILE_READ_ALL_VAL),
     (MPI_FILE_WRITE_EV, MPITYPE_IO, MPI_FILE_WRITE_VAL),
     (MPI_FILE_WRITE_ALL_EV, MPITYPE_IO, MPI_FILE_WRITE_ALL_VAL),
     (MPI_FILE_READ_AT_EV, MPITYPE_IO, MPI_FILE_READ_AT_VAL),
     (MPI_FILE_READ_AT_ALL_EV, MPITYPE_IO, MPI_FILE_READ_AT_ALL_VAL),
     (MPI_FILE_WRITE_AT_EV, MPITYPE_IO, MPI_FILE_WRITE_AT_VAL),
     (MPI_FILE_WRITE_AT_ALL_EV, MPITYPE_IO, MPI_FILE_WRITE_AT_ALL_VAL),
     (MPI_COMM_SPAWN_EV, MPITYPE_COMM, MPI_COMM_SPAWN_VAL),
     (MPI_COMM_SPAWN_MULTIPLE_EV, MPITYPE_COMM, MPI_COMM_SPAWN_MULTIPLE_VAL),
     (MPI_REQUEST_GET_STATUS_EV, MPITYPE_OTHER, MPI_REQUEST_GET_STATUS_VAL),
     (MPI_IREDUCE_EV, MPITYPE_COLLECTIVE, MPI_IREDUCE_VAL),
     (MPI_IALLREDUCE_EV, MPITYPE_COLLECTIVE, MPI_IALLREDUCE_VAL),
     (MPI_IBARRIER_EV, MPITYPE_COLLECTIVE, MPI_IBARRIER_VAL),
     (MPI_IBCAST_EV, MPITYPE_COLLECTIVE, MPI_IBCAST_VAL),
     (MPI_IALLTOALL_EV, MPITYPE_COLLECTIVE, MPI_IALLTOALL_VAL),
     (MPI_IALLTOALLV_EV, MPITYPE_COLLECTIVE, MPI_IALLTOALLV_VAL),
     (MPI_IALLGATHER_EV, MPITYPE_COLLECTIVE, MPI_IALLGATHER_VAL),
     (MPI_IALLGATHERV_EV, MPITYPE_COLLECTIVE, MPI_IALLGATHERV_VAL),
     (MPI_IGATHER_EV, MPITYPE_COLLECTIVE, MPI_IGATHER_VAL),
     (MPI_IGATHERV_EV, MPITYPE_COLLECTIVE, MPI_IGATHERV_VAL),
     (MPI_ISCATTER_EV, MPITYPE_COLLECTIVE, MPI_ISCATTER_VAL),
     (MPI_ISCATTERV_EV, MPITYPE_COLLECTIVE, MPI_ISCATTERV_VAL),
     (MPI_IREDUCESCAT_EV, MPITYPE_COLLECTIVE, MPI_IREDUCESCAT_VAL),
     (MPI_ISCAN_EV, MPITYPE_COLLECTIVE, MPI_ISCAN_VAL)]"

definition mpi_prv_val_label :: "(int \<times> string) list" where
  "mpi_prv_val_label =
    [(MPI_SEND_VAL, ''MPI_Send''),
     (MPI_RECV_VAL, ''MPI_Recv''),
     (MPI_ISEND_VAL, ''MPI_Isend''),
     (MPI_IRECV_VAL, ''MPI_Irecv''),
     (MPI_WAIT_VAL, ''MPI_Wait''),
     (MPI_WAITALL_VAL, ''MPI_Waitall''),
     (MPI_BCAST_VAL, ''MPI_Bcast''),
     (MPI_BARRIER_VAL, ''MPI_Barrier''),
     (MPI_REDUCE_VAL, ''MPI_Reduce''),
     (MPI_ALLREDUCE_VAL, ''MPI_Allreduce''),
     (MPI_ALLTOALL_VAL, ''MPI_Alltoall''),
     (MPI_ALLTOALLV_VAL, ''MPI_Alltoallv''),
     (MPI_GATHER_VAL, ''MPI_Gather''),
     (MPI_GATHERV_VAL, ''MPI_Gatherv''),
     (MPI_SCATTER_VAL, ''MPI_Scatter''),
     (MPI_SCATTERV_VAL, ''MPI_Scatterv''),
     (MPI_ALLGATHER_VAL, ''MPI_Allgather''),
     (MPI_ALLGATHERV_VAL, ''MPI_Allgatherv''),
     (MPI_COMM_RANK_VAL, ''MPI_Comm_rank''),
     (MPI_COMM_SIZE_VAL, ''MPI_Comm_size''),
     (MPI_COMM_CREATE_VAL, ''MPI_Comm_create''),
     (MPI_COMM_DUP_VAL, ''MPI_Comm_dup''),
     (MPI_COMM_SPLIT_VAL, ''MPI_Comm_split''),
     (MPI_COMM_SPAWN_VAL, ''MPI_Comm_spawn''),
     (MPI_COMM_SPAWN_MULTIPLE_VAL, ''MPI_Comm_spawn_multiple''),
     (MPI_COMM_GROUP_VAL, ''MPI_Comm_group''),
     (MPI_COMM_FREE_VAL, ''MPI_Comm_free''),
     (MPI_COMM_REMOTE_GROUP_VAL, ''MPI_Comm_remote_group''),
     (MPI_COMM_REMOTE_SIZE_VAL, ''MPI_Comm_remote_size''),
     (MPI_COMM_TEST_INTER_VAL, ''MPI_Comm_test_inter''),
     (MPI_COMM_COMPARE_VAL, ''MPI_Comm_compare''),
     (MPI_SCAN_VAL, ''MPI_Scan''),
     (MPI_INIT_VAL, ''MPI_Init''),
     (MPI_FINALIZE_VAL, ''MPI_Finalize''),
     (MPI_BSEND_VAL, ''MPI_Bsend''),
     (MPI_SSEND_VAL, ''MPI_Ssend''),
     (MPI_RSEND_VAL, ''MPI_Rsend''),
     (MPI_IBSEND_VAL, ''MPI_Ibsend''),
     (MPI_ISSEND_VAL, ''MPI_Issend''),
     (MPI_IRSEND_VAL, ''MPI_Irsend''),
     (MPI_TEST_VAL, ''MPI_Test''),
     (MPI_CANCEL_VAL, ''MPI_Cancel''),
     (MPI_SENDRECV_VAL, ''MPI_Sendrecv''),
     (MPI_SENDRECV_REPLACE_VAL, ''MPI_Sendrecv_replace''),
     (MPI_CART_CREATE_VAL, ''MPI_Cart_create''),
     (MPI_CART_SHIFT_VAL, ''MPI_Cart_shift''),
     (MPI_CART_COORDS_VAL, ''MPI_Cart_coords''),
     (MPI_CART_GET_VAL, ''MPI_Cart_get''),
     (MPI_CART_MAP_VAL, ''MPI_Cart_map''),
     (MPI_CART_RANK_VAL, ''MPI_Cart_rank''),
     (MPI_CART_SUB_VAL, ''MPI_Cart_sub''),
     (MPI_CARTDIM_GET_VAL, ''MPI_Cartdim_get''),
     (MPI_DIMS_CREATE_VAL, ''MPI_Dims_create''),
     (MPI_GRAPH_GET_VAL, ''MPI_Graph_get''),
     (MPI_GRAPH_MAP_VAL, ''MPI_Graph_map''),
     (MPI_GRAPH_CREATE_VAL, ''MPI_Graph_create''),
     (MPI_GRAPH_NEIGHBORS_VAL, ''MPI_Graph_neighbors''),
     (MPI_GRAPHDIMS_GET_VAL, ''MPI_Graphdims_get''),
     (MPI_GRAPH_NEIGHBORS_COUNT_VAL, ''MPI_Graph_neighbors_count''),
     (MPI_TOPO_TEST_VAL, ''MPI_Topo_test''),
     (MPI_WAITANY_VAL, ''MPI_Waitany''),
     (MPI_WAITSOME_VAL, ''MPI_Waitsome''),
     (MPI_PROBE_VAL, ''MPI_Probe''),
     (MPI_REQUEST_GET_STATUS_VAL, ''MPI_Request_get_status''),
     (MPI_IPROBE_VAL, ''MPI_Iprobe''),
     (MPI_WIN_CREATE_VAL, ''MPI_Win_create''),
     (MPI_WIN_FREE_VAL, ''MPI_Win_free''),
     (MPI_PUT_VAL, ''MPI_Put''),
     (MPI_GET_VAL, ''MPI_Get''),
     (MPI_ACCUMULATE_VAL, ''MPI_Accumulate''),
     (MPI_WIN_FENCE_VAL, ''MPI_Win_fence''),
     (MPI_WIN_START_VAL, ''MPI_Win_complete''),
     (MPI_WIN_COMPLETE_VAL, ''MPI_Win_start''),
     (MPI_WIN_POST_VAL, ''MPI_Win_post''),
     (MPI_WIN_WAIT_VAL, ''MPI_Win_wait''),
     (MPI_WIN_TEST_VAL, ''MPI_Win_test''),
     (MPI_WIN_LOCK_VAL, ''MPI_Win_lock''),
     (MPI_WIN_UNLOCK_VAL, ''MPI_Win_unlock''),
     (MPI_PACK_VAL, ''MPI_Pack''),
     (MPI_UNPACK_VAL, ''MPI_Unpack''),
     (MPI_OP_CREATE_VAL, ''MPI_Op_create''),
     (MPI_OP_FREE_VAL, ''MPI_Op_free''),
     (MPI_REDUCE_SCATTER_VAL, ''MPI_Reduce_scatter''),
     (MPI_ATTR_DELETE_VAL, ''MPI_Attr_delete''),
     (MPI_ATTR_GET_VAL, ''MPI_Attr_get''),
     (MPI_ATTR_PUT_VAL, ''MPI_Attr_put''),
     (MPI_GROUP_DIFFERENCE_VAL, ''MPI_Group_difference''),
     (MPI_GROUP_EXCL_VAL, ''MPI_Group_excl''),
     (MPI_GROUP_FREE_VAL, ''MPI_Group_free''),
     (MPI_GROUP_INCL_VAL, ''MPI_Group_incl''),
     (MPI_GROUP_INTERSECTION_VAL, ''MPI_Group_intersection''),
     (MPI_GROUP_RANK_VAL, ''MPI_Group_rank''),
     (MPI_GROUP_RANGE_EXCL_VAL, ''MPI_Group_range_excl''),
     (MPI_GROUP_RANGE_INCL_VAL, ''MPI_Group_range_incl''),
     (MPI_GROUP_SIZE_VAL, ''MPI_Group_size''),
     (MPI_GROUP_TRANSLATE_RANKS_VAL, ''MPI_Group_translate_ranks''),
     (MPI_GROUP_UNION_VAL, ''MPI_Group_union''),
     (MPI_GROUP_COMPARE_VAL, ''MPI_Group_compare''),
     (MPI_INTERCOMM_CREATE_VAL, ''MPI_Intercomm_create''),
     (MPI_INTERCOMM_MERGE_VAL, ''MPI_Intercomm_merge''),
     (MPI_KEYVAL_FREE_VAL, ''MPI_Keyval_free''),
     (MPI_KEYVAL_CREATE_VAL, ''MPI_Keyval_create''),
     (MPI_ABORT_VAL, ''MPI_Abort''),
     (MPI_ERROR_CLASS_VAL, ''MPI_Error_class''),
     (MPI_ERRHANDLER_CREATE_VAL, ''MPI_Errhandler_create''),
     (MPI_ERRHANDLER_FREE_VAL, ''MPI_Errhandler_free''),
     (MPI_ERRHANDLER_GET_VAL, ''MPI_Errhandler_get''),
     (MPI_ERROR_STRING_VAL, ''MPI_Error_string''),
     (MPI_ERRHANDLER_SET_VAL, ''MPI_Errhandler_set''),
     (MPI_GET_PROCESSOR_NAME_VAL, ''MPI_Get_processor_name''),
     (MPI_INITIALIZED_VAL, ''MPI_Initialized''),
     (MPI_WTICK_VAL, ''MPI_Wtick''),
     (MPI_WTIME_VAL, ''MPI_Wtime''),
     (MPI_ADDRESS_VAL, ''MPI_Address''),
     (MPI_BSEND_INIT_VAL, ''MPI_Bsend_init''),
     (MPI_BUFFER_ATTACH_VAL, ''MPI_Buffer_attach''),
     (MPI_BUFFER_DETACH_VAL, ''MPI_Buffer_detach''),
     (MPI_REQUEST_FREE_VAL, ''MPI_Request_free''),
     (MPI_RECV_INIT_VAL, ''MPI_Recv_init''),
     (MPI_SEND_INIT_VAL, ''MPI_Send_init''),
     (MPI_GET_COUNT_VAL, ''MPI_Get_count''),
     (MPI_GET_ELEMENTS_VAL, ''MPI_Get_elements''),
     (MPI_PACK_SIZE_VAL, ''MPI_Pack_size''),
     (MPI_RSEND_INIT_VAL, ''MPI_Rsend_init''),
     (MPI_SSEND_INIT_VAL, ''MPI_Ssend_init''),
     (MPI_START_VAL, ''MPI_Start''),
     (MPI_STARTALL_VAL, ''MPI_Startall''),
     (MPI_TESTALL_VAL, ''MPI_Testall''),
     (MPI_TESTANY_VAL, ''MPI_Testany''),
     (MPI_TEST_CANCELLED_VAL, ''MPI_Test_cancelled''),
     (MPI_TESTSOME_VAL, ''MPI_Testsome''),
     (MPI_TYPE_COMMIT_VAL, ''MPI_Type_commit''),
     (MPI_TYPE_CONTIGUOUS_VAL, ''MPI_Type_contiguous''),
     (MPI_TYPE_EXTENT_VAL, ''MPI_Type_extent''),
     (MPI_TYPE_FREE_VAL, ''MPI_Type_free''),
     (MPI_TYPE_HINDEXED_VAL, ''MPI_Type_hindexed''),
     (MPI_TYPE_HVECTOR_VAL, ''MPI_Type_hvector''),
     (MPI_TYPE_INDEXED_VAL, ''MPI_Type_indexed''),
     (MPI_TYPE_LB_VAL, ''MPI_Type_lb''),
     (MPI_TYPE_SIZE_VAL, ''MPI_Type_size''),
     (MPI_TYPE_STRUCT_VAL, ''MPI_Type_struct''),
     (MPI_TYPE_UB_VAL, ''MPI_Type_ub''),
     (MPI_TYPE_VECTOR_VAL, ''MPI_Type_vector''),
     (MPI_FILE_OPEN_VAL, ''MPI_File_open''),
     (MPI_FILE_CLOSE_VAL, ''MPI_File_close''),
     (MPI_FILE_READ_VAL, ''MPI_File_read''),
     (MPI_FILE_READ_ALL_VAL, ''MPI_File_read_all''),
     (MPI_FILE_WRITE_VAL, ''MPI_File_write''),
     (MPI_FILE_WRITE_ALL_VAL, ''MPI_File_write_all''),
     (MPI_FILE_READ_AT_VAL, ''MPI_File_read_at''),
     (MPI_FILE_READ_AT_ALL_VAL, ''MPI_File_read_at_all''),
     (MPI_FILE_WRITE_AT_VAL, ''MPI_File_write_at''),
     (MPI_FILE_WRITE_AT_ALL_VAL, ''MPI_File_write_at_all''),
     (MPI_IREDUCE_VAL, ''MPI_Ireduce''),
     (MPI_IALLREDUCE_VAL, ''MPI_Iallreduce''),
     (MPI_IBARRIER_VAL, ''MPI_Ibarrier''),
     (MPI_IBCAST_VAL, ''MPI_Ibcast''),
     (MPI_IALLTOALL_VAL, ''MPI_Ialltoall''),
     (MPI_IALLTOALLV_VAL, ''MPI_Ialltoallv''),
     (MPI_IALLGATHER_VAL, ''MPI_Iallgather''),
     (MPI_IALLGATHER_VAL, ''MPI_Iallgatherv''),
     (MPI_IGATHER_VAL, ''MPI_Igather''),
     (MPI_IGATHERV_VAL, ''MPI_Igatherv''),
     (MPI_ISCATTER_VAL, ''MPI_Iscatter''),
     (MPI_ISCATTERV_VAL, ''MPI_Iscatterv''),
     (MPI_IREDUCESCAT_VAL, ''MPI_Ireduce_scatter''),
     (MPI_ISCAN_VAL, ''MPI_Iscan'')]"

definition busca_event_mpit :: "int \<Rightarrow> int" where
  "busca_event_mpit tmpit =
     (case first_index (\<lambda>r. fst r = tmpit) event_mpit2prv of None \<Rightarrow> - 1 | Some i \<Rightarrow> int i)"

definition Enable_MPI_Operation :: "int \<Rightarrow> bool list \<Rightarrow> bool list res" where
  "Enable_MPI_Operation op used =
     (let index = busca_event_mpit op in if index \<ge> 0 then array_set used index True else Inr used)"

definition get_mpi_prv_val_label :: "int \<Rightarrow> string option" where
  "get_mpi_prv_val_label v =
     (case first_index (\<lambda>r. fst r = v) mpi_prv_val_label of
        None \<Rightarrow> None | Some i \<Rightarrow> Some (snd (mpi_prv_val_label ! i)))"

definition Translate_MPI_MPIT2PRV :: "int \<Rightarrow> 64 word \<Rightarrow> int \<times> 64 word" where
  "Translate_MPI_MPIT2PRV typempit valuempit =
     (let index = busca_event_mpit typempit in
      if index \<ge> 0 then
        (fst (snd (event_mpit2prv ! nat index)),
         if valuempit \<noteq> 0 then word_of_int (snd (snd (event_mpit2prv ! nat index))) else 0)
      else (typempit, valuempit))"

section \<open>The description of the trace's MPI events\<close>

text \<open>The groups: type, label and colour. The last three rows are zero.\<close>

definition prv_block_groups :: "(int \<times> string option \<times> int) list" where
  "prv_block_groups =
     [(MPITYPE_PTOP, Some ''MPI Point-to-point'', 9), (MPITYPE_COLLECTIVE, Some ''MPI Collective Comm'', 9),
      (MPITYPE_OTHER, Some ''MPI Other'', 9), (MPITYPE_RMA, Some ''MPI One-sided'', 9), (MPITYPE_IO, Some ''MPI I/O'', 9),
      (0, None, 0), (0, None, 0), (0, None, 0)]"

definition pointer_arg :: "string option \<Rightarrow> fmt_arg" where
  "pointer_arg s = Str (case s of None \<Rightarrow> Inl NullPointer | Some t \<Rightarrow> Inr t)"

text \<open>The rows of a group that are in use.\<close>

definition group_rows :: "bool list \<Rightarrow> int \<Rightarrow> (int \<times> int \<times> int) list" where
  "group_rows used type = map fst (filter (\<lambda>(r, u). type = fst (snd r) \<and> u) (zip event_mpit2prv used))"

definition enabled_group :: "bool list \<Rightarrow> int \<times> string option \<times> int \<Rightarrow> emission list" where
  "enabled_group used g = (case g of (type, label, flag_color) \<Rightarrow>
     let rows = group_rows used type in
     if rows = [] then []
     else [(''%s^n'', [Str (Inr ''EVENT_TYPE'')]), (''%d   %d    %s^n'', [Num flag_color, Num type, pointer_arg label]),
           (''%s^n'', [Str (Inr ''VALUES'')])] @
       map (\<lambda>r. (''%d   %s^n'', [Num (snd (snd r)), pointer_arg (get_mpi_prv_val_label (snd (snd r)))])) rows @
       [(''%d   %s^n'', [Num 0, Str (Inr ''Outside MPI'')]), (''^n^n'', [])] @
       (if type = MPITYPE_RMA
        then [(''%s^n'', [Str (Inr ''EVENT_TYPE'')]),
              (''%d   %d    %s^n^n^n'', [Num flag_color, Num MPITYPE_RMA_SIZE, Str (Inr ''MPI One-sided size'')])]
        else []))"

definition MPITEvent_WriteEnabled_MPI_Operations :: "bool list \<Rightarrow> emission list" where
  "MPITEvent_WriteEnabled_MPI_Operations used = concat (map (enabled_group used) prv_block_groups)"

section \<open>Operations and their Paraver events\<close>

lemma table_length: "length event_mpit2prv = 167"
  by (simp add: event_mpit2prv_def)

lemma paraver_events_distinct: "distinct (map snd event_mpit2prv)"
  by (simp add: event_mpit2prv_def)

lemma busca_row:
  assumes "busca_event_mpit t \<ge> 0"
  obtains i where "busca_event_mpit t = int i" and "i < length event_mpit2prv" and "fst (event_mpit2prv ! i) = t"
  using assms by (auto simp: busca_event_mpit_def first_index_Some split: option.splits)

definition in_range_val :: "int \<times> int \<times> int \<Rightarrow> bool" where
  "in_range_val r \<longleftrightarrow> 0 \<le> snd (snd r) \<and> snd (snd r) < 1000"

lemma values_small: "list_all in_range_val event_mpit2prv"
  by (simp add: event_mpit2prv_def in_range_val_def)

lemma small_inj:
  assumes "word_of_int (snd (snd r)) = (word_of_int (snd (snd q)) :: 64 word)" and "in_range_val r" and "in_range_val q"
  shows "snd (snd r) = snd (snd q)"
proof -
  have "take_bit 64 (snd (snd r)) = take_bit 64 (snd (snd q))"
    using assms(1) by (simp add: word_of_int_eq_iff)
  with assms(2,3) show ?thesis by (simp add: in_range_val_def take_bit_int_eq_self)
qed

definition untranslated :: "32 word list" where
  "untranslated = [MPI_PERSIST_REQ_EV, MPI_IPROBE_COUNTER_EV, MPI_TIME_OUTSIDE_IPROBES_EV, MPI_TEST_COUNTER_EV,
     MPI_IRECVED_EV, MPI_REQUEST_GET_STATUS_COUNTER_EV, MPI_TIME_OUTSIDE_MPI_REQUEST_GET_STATUS_EV,
     MPI_INTERCOMM_MERGE_EV]"

lemma first_index_key: "first_index (\<lambda>r. fst r = k) xs \<noteq> None \<longleftrightarrow> k \<in> set (map fst xs)"
  unfolding first_index_None by force

lemma has_row: "busca_event_mpit t \<ge> 0 \<longleftrightarrow> t \<in> set (map fst event_mpit2prv)"
  unfolding first_index_key [symmetric] by (simp add: busca_event_mpit_def split: option.splits)

lemma untranslated_numbers:
  "filter (\<lambda>e. \<not> List.member (map fst event_mpit2prv) e) (map uint mpi_events) = map uint untranslated"
  by code_simp

lemma untranslated_events: "filter (\<lambda>e. busca_event_mpit (uint e) < 0) mpi_events = untranslated"
proof -
  have "map uint (filter (\<lambda>e. busca_event_mpit (uint e) < 0) mpi_events) =
      filter (\<lambda>e. \<not> List.member (map fst event_mpit2prv) e) (map uint mpi_events)"
    using has_row by (simp add: filter_map comp_def not_le [symmetric])
  also have "\<dots> = map uint untranslated" by (rule untranslated_numbers)
  finally show ?thesis by (rule map_injective [of uint]) (simp add: inj_on_def word_uint_eq_iff)
qed

text \<open>
  C38. The MPI events of the tracer get different Paraver events, or pass through: of the hundred
  MPI event types exactly eight have no row in the table and keep their type and value, the other
  ninety-two keep the value 0 and turn any other into a value that tells the operation, and two
  event types with a row are never turned into the same type and value.
\<close>

theorem MPI_translation:
  "filter (\<lambda>e. busca_event_mpit (uint e) < 0) mpi_events = untranslated \<and>
   (busca_event_mpit t < 0 \<longrightarrow> Translate_MPI_MPIT2PRV t v = (t, v)) \<and>
   snd (Translate_MPI_MPIT2PRV t 0) = 0 \<and>
   (busca_event_mpit t \<ge> 0 \<and> busca_event_mpit u \<ge> 0 \<and> t \<noteq> u \<longrightarrow>
     Translate_MPI_MPIT2PRV t 1 \<noteq> Translate_MPI_MPIT2PRV u 1)"
proof -
  have "Translate_MPI_MPIT2PRV t 1 \<noteq> Translate_MPI_MPIT2PRV u 1"
    if "busca_event_mpit t \<ge> 0" "busca_event_mpit u \<ge> 0" "t \<noteq> u"
  proof -
    from busca_row [OF that(1)] obtain i where
      i: "busca_event_mpit t = int i" "i < length event_mpit2prv" "fst (event_mpit2prv ! i) = t" .
    from busca_row [OF that(2)] obtain j where
      j: "busca_event_mpit u = int j" "j < length event_mpit2prv" "fst (event_mpit2prv ! j) = u" .
    have "i \<noteq> j" using i(3) j(3) that(3) by blast
    with i(2) j(2) have "snd (event_mpit2prv ! i) \<noteq> snd (event_mpit2prv ! j)"
      using paraver_events_distinct by (simp add: distinct_conv_nth)
    moreover have "in_range_val (event_mpit2prv ! i)" "in_range_val (event_mpit2prv ! j)"
      using values_small i(2) j(2) by (auto simp: list_all_length)
    ultimately show ?thesis
      using i(1) j(1) by (auto simp: Translate_MPI_MPIT2PRV_def prod_eq_iff dest: small_inj)
  qed
  then show ?thesis
    using untranslated_events by (simp add: Translate_MPI_MPIT2PRV_def Let_def)
qed

theorem MPI_translation_witness:
  "Translate_MPI_MPIT2PRV MPI_INTERCOMM_MERGE_EV 1 = (MPI_INTERCOMM_MERGE_EV, 1) \<and>
   Translate_MPI_MPIT2PRV MPI_BARRIER_EV 1 \<noteq> Translate_MPI_MPIT2PRV MPI_BCAST_EV 1"
proof -
  have "busca_event_mpit MPI_INTERCOMM_MERGE_EV < 0" "busca_event_mpit MPI_BARRIER_EV \<ge> 0" "busca_event_mpit MPI_BCAST_EV \<ge> 0"
    by (simp_all add: busca_event_mpit_def event_mpit2prv_def)
  with MPI_translation [of MPI_INTERCOMM_MERGE_EV 1 0] MPI_translation [of MPI_BARRIER_EV 1 MPI_BCAST_EV]
  show ?thesis by simp
qed

section \<open>Labels\<close>

lemma labels: "list_all (\<lambda>r. snd (snd r) = MPI_IALLGATHERV_VAL \<or> get_mpi_prv_val_label (snd (snd r)) \<noteq> None) event_mpit2prv"
proof -
  have "get_mpi_prv_val_label v \<noteq> None \<longleftrightarrow> v \<in> set (map fst mpi_prv_val_label)" for v
    unfolding first_index_key [symmetric] by (simp add: get_mpi_prv_val_label_def split: option.splits)
  then show ?thesis by (simp add: event_mpit2prv_def mpi_prv_val_label_def)
qed

lemma render_Cons: "render (e # es) = andthen (expand (fst e) (snd e)) (\<lambda>s. andthen (render es) (\<lambda>t. Inr (s @ t)))"
  by (cases e) simp

lemma render_ok_append: "render (es @ fs) = Inr t \<longleftrightarrow> (\<exists>s u. render es = Inr s \<and> render fs = Inr u \<and> t = s @ u)"
  by (cases "render es"; cases "render fs") (auto simp: render_append)

definition renders :: "emission list \<Rightarrow> bool" where
  "renders es \<longleftrightarrow> (\<exists>t. render es = Inr t)"

lemma renders_simps [simp]:
  "renders []"
  "renders (es @ fs) \<longleftrightarrow> renders es \<and> renders fs"
  "renders ((f, as) # es) \<longleftrightarrow> (\<exists>t. expand f as = Inr t) \<and> renders es"
  by (auto simp: renders_def render_ok_append andthen_Inr_iff)

lemma renders_concat: "renders (concat ess) \<longleftrightarrow> (\<forall>es \<in> set ess. renders es)"
  by (induction ess) auto

lemma renders_map: "renders (map f xs) \<longleftrightarrow> (\<forall>x \<in> set xs. renders [f x])"
proof (induction xs)
  case (Cons x xs)
  have "renders (f x # map f xs) \<longleftrightarrow> renders [f x] \<and> renders (map f xs)"
    by (cases "f x") simp
  with Cons show ?case by simp
qed simp

definition iallgatherv_row :: "int \<times> int \<times> int" where
  "iallgatherv_row = (MPI_IALLGATHERV_EV, MPITYPE_COLLECTIVE, MPI_IALLGATHERV_VAL)"

lemma no_group_zero: "list_all (\<lambda>r. fst (snd r) \<noteq> 0) event_mpit2prv"
  by (simp add: event_mpit2prv_def)

lemma row_of_iallgatherv: "list_all (\<lambda>r. snd (snd r) = MPI_IALLGATHERV_VAL \<longrightarrow> r = iallgatherv_row) event_mpit2prv"
  by (simp add: event_mpit2prv_def iallgatherv_row_def)

lemma no_label: "get_mpi_prv_val_label MPI_IALLGATHERV_VAL = None"
  by (simp add: get_mpi_prv_val_label_def mpi_prv_val_label_def)

lemma group_rows_in: "r \<in> set (group_rows used type) \<Longrightarrow> r \<in> set event_mpit2prv \<and> fst (snd r) = type"
  by (auto simp: group_rows_def dest: set_zip_leftD)

lemma renders_row:
  assumes "r \<in> set event_mpit2prv"
  shows "renders [(''%d   %s^n'', [Num (snd (snd r)), pointer_arg (get_mpi_prv_val_label (snd (snd r)))])] \<longleftrightarrow>
    r \<noteq> iallgatherv_row"
proof (cases "r = iallgatherv_row")
  case True
  then show ?thesis
    by (simp add: iallgatherv_row_def no_label pointer_arg_def show_arg_def)
next
  case False
  with assms labels row_of_iallgatherv have "get_mpi_prv_val_label (snd (snd r)) \<noteq> None"
    by (auto simp: list_all_iff)
  with False show ?thesis by (auto simp: pointer_arg_def show_arg_def escaped_def)
qed

lemma renders_group:
  assumes "label \<noteq> None \<or> type = 0"
  shows "renders (enabled_group used (type, label, colour)) \<longleftrightarrow> iallgatherv_row \<notin> set (group_rows used type)"
proof (cases "group_rows used type = []")
  case False
  have "type \<noteq> 0"
  proof
    assume "type = 0"
    with False obtain r where "r \<in> set (group_rows used 0)" by (cases "group_rows used 0") auto
    then have "r \<in> set event_mpit2prv" "fst (snd r) = 0" by (auto dest: group_rows_in)
    with no_group_zero show False by (auto simp: list_all_iff)
  qed
  with assms obtain l where l: "label = Some l" by auto
  have "renders (map (\<lambda>r. (''%d   %s^n'', [Num (snd (snd r)), pointer_arg (get_mpi_prv_val_label (snd (snd r)))])) (group_rows used type))
      \<longleftrightarrow> iallgatherv_row \<notin> set (group_rows used type)"
    unfolding renders_map using renders_row group_rows_in by blast
  with False show ?thesis
    by (simp add: enabled_group_def Let_def l pointer_arg_def show_arg_def escaped_def)
qed (simp add: enabled_group_def)

text \<open>
  C39. The description of a trace's MPI events is written exactly when the trace has no
  \<open>MPI_Iallgatherv\<close>: every other operation in use has a label, but the row that should give
  \<open>MPI_Iallgatherv\<close> its own repeats the value of \<open>MPI_Iallgather\<close>, so that the search for its label
  finds none and a null pointer is printed.
\<close>

theorem description_needs_labels:
  "(\<exists>text. render (MPITEvent_WriteEnabled_MPI_Operations used) = Inr text) \<longleftrightarrow>
   iallgatherv_row \<notin> set (group_rows used MPITYPE_COLLECTIVE)"
proof -
  have other: "iallgatherv_row \<notin> set (group_rows used type)" if "type \<noteq> MPITYPE_COLLECTIVE" for type
    using that group_rows_in [of iallgatherv_row used type] by (auto simp: iallgatherv_row_def)
  have "renders (MPITEvent_WriteEnabled_MPI_Operations used) \<longleftrightarrow>
      (\<forall>g \<in> set prv_block_groups. renders (enabled_group used g))"
    by (simp add: MPITEvent_WriteEnabled_MPI_Operations_def renders_concat)
  also have "\<dots> \<longleftrightarrow> iallgatherv_row \<notin> set (group_rows used MPITYPE_COLLECTIVE)"
    by (simp add: prv_block_groups_def renders_group other)
  finally show ?thesis by (simp add: renders_def)
qed

end
