(* ===== verification/ParaverGenerator.thy ===== *)
theory ParaverGenerator
  imports PrvRecord StateStack MpiEvents
begin

text \<open>
  How the merger builds the records of a thread,
  \<open>trunk/dependencies/extrae/src/merger/paraver/paraver_generator.c\<close>: events are appended to the
  thread's file; a state is reserved as an unfinished record when it starts and completed at its
  position when the next one does.

  The functions take the thread (\<open>thread_t\<close> of \<open>object_tree.h\<close>) that the code looks up, and the
  options of the merger. \<open>stack_junk\<close> is what the stack holds in the fields of a local record that
  the code does not assign.
\<close>

record merge_options =
  JointStates :: bool
  Last_State :: bool
  excluded_states :: "state_id list"
  EnabledTasks :: "bool list list"
  stack_junk :: paraver_rec_t

record object_id =
  id_cpu :: INT32
  id_ptask :: INT32
  id_task :: INT32
  id_thread :: INT32

record thread_t =
  thread_stack :: thread_states
  virtual_thread :: INT32
  incomplete_state_offset :: int
  incomplete_state_record :: paraver_rec_t
  wfb :: WriteFileBuffer_t

definition task_enabled :: "merge_options \<Rightarrow> INT32 \<Rightarrow> INT32 \<Rightarrow> bool res" where
  "task_enabled opts ptask task =
     andthen (array_get (EnabledTasks opts) (uint (ptask - 1))) (\<lambda>tasks. array_get tasks (uint (task - 1)))"

section \<open>States\<close>

text \<open>The completion of the previous state; the result says whether the function returns there.\<close>

definition complete_state ::
  "merge_options \<Rightarrow> state_id \<Rightarrow> UINT64 \<Rightarrow> thread_t \<Rightarrow> (bool \<times> thread_t) res" where
  "complete_state opts current_state current_time th =
     (if incomplete_state_offset th \<noteq> - 1 then
        if JointStates opts \<and> \<not> Last_State opts \<and> rec_value (incomplete_state_record th) = ucast current_state
        then Inr (True, th)
        else if \<not> State_Excluded (excluded_states opts) (ucast (rec_value (incomplete_state_record th))) then
          let r = (incomplete_state_record th)\<lparr>end_time := current_time\<rparr> in
          andthen (write_rec_at (wfb th) r (incomplete_state_offset th)) (\<lambda>w.
            Inr (False, th\<lparr>incomplete_state_record := r, wfb := w\<rparr>))
        else Inr (False, th)
      else Inr (False, th))"

definition trace_paraver_state_noahead :: "merge_options \<Rightarrow> UINT64 \<Rightarrow> thread_t \<Rightarrow> thread_t res" where
  "trace_paraver_state_noahead opts current_time th =
     andthen (Top_State (thread_stack th)) (\<lambda>current_state.
     andthen (complete_state opts current_state current_time th) (\<lambda>(_, th). Inr th))"

definition trace_paraver_state :: "merge_options \<Rightarrow> object_id \<Rightarrow> UINT64 \<Rightarrow> thread_t \<Rightarrow> thread_t res" where
  "trace_paraver_state opts ob current_time th =
     andthen (Top_State (thread_stack th)) (\<lambda>current_state.
     andthen (complete_state opts current_state current_time th) (\<lambda>(return, th).
       if return then Inr th
       else
         let r = (incomplete_state_record th)\<lparr>rec_type := STATE, rec_cpu := id_cpu ob, rec_ptask := id_ptask ob,
               rec_task := id_task ob, rec_thread := virtual_thread th, rec_time := current_time,
               rec_value := ucast current_state\<rparr>;
             th = th\<lparr>incomplete_state_record := r\<rparr> in
         if \<not> State_Excluded (excluded_states opts) current_state then
           let fake_record = (stack_junk opts)\<lparr>rec_type := UNFINISHED_STATE, rec_ptask := id_ptask ob,
                 rec_task := id_task ob, rec_thread := id_thread ob, rec_time := current_time\<rparr>;
               th = th\<lparr>incomplete_state_offset := WriteFileBuffer_getPosition (wfb th)\<rparr> in
           andthen (write_rec (wfb th) fake_record) (\<lambda>w. Inr (th\<lparr>wfb := w\<rparr>))
         else Inr th))"

section \<open>Events\<close>

definition trace_paraver_event ::
  "merge_options \<Rightarrow> object_id \<Rightarrow> UINT64 \<Rightarrow> INT32 \<Rightarrow> UINT64 \<Rightarrow> thread_t \<Rightarrow> thread_t res" where
  "trace_paraver_event opts ob time type v th =
     andthen (task_enabled opts (id_ptask ob) (id_task ob)) (\<lambda>enabled.
       if \<not> enabled then Inr th
       else
         let (tipus, valor) =
               (if type \<ge> MPI_MIN_EV \<and> type \<le> MPI_MAX_EV then Translate_MPI_MPIT2PRV (sint type) v
                else (sint type, v));
             r = (stack_junk opts)\<lparr>rec_type := EVENT, rec_cpu := id_cpu ob, rec_ptask := id_ptask ob,
               rec_task := id_task ob, rec_thread := virtual_thread th, rec_time := time,
               rec_event := word_of_int tipus, rec_value := valor\<rparr> in
         andthen (write_rec (wfb th) r) (\<lambda>w. Inr (th\<lparr>wfb := w\<rparr>)))"

definition trace_enter_global_op ::
  "merge_options \<Rightarrow> object_id \<Rightarrow> UINT64 \<Rightarrow> INT32 \<Rightarrow> INT32 \<Rightarrow> INT32 \<Rightarrow> INT32 \<Rightarrow> thread_t \<Rightarrow> thread_t res" where
  "trace_enter_global_op opts ob time com_id send_size recv_size is_root th =
     andthen (trace_paraver_event opts ob time MPI_GLOBAL_OP_SENDSIZE (ucast send_size) th) (\<lambda>th.
     andthen (trace_paraver_event opts ob time MPI_GLOBAL_OP_RECVSIZE (ucast recv_size) th) (\<lambda>th.
     andthen (trace_paraver_event opts ob time MPI_GLOBAL_OP_COMM (ucast com_id) th) (\<lambda>th.
       if is_root \<noteq> 0 then trace_paraver_event opts ob time MPI_GLOBAL_OP_ROOT (ucast is_root) th else Inr th)))"

section \<open>Communications\<close>

text \<open>Sender and receiver: the object, its virtual thread, and the logical and physical times.\<close>

record comm_end =
  comm_object :: object_id
  vthread :: INT32
  log_time :: UINT64
  phy_time :: UINT64

definition trace_paraver_unmatched_communication ::
  "merge_options \<Rightarrow> comm_end \<Rightarrow> object_id \<Rightarrow> INT32 \<Rightarrow> INT32 \<Rightarrow> thread_t \<Rightarrow> thread_t res" where
  "trace_paraver_unmatched_communication opts s r sz tag th =
     andthen (task_enabled opts (id_ptask (comm_object s)) (id_task (comm_object s))) (\<lambda>enabled.
       if \<not> enabled then Inr th
       else
         let ob = comm_object s;
             c = (stack_junk opts)\<lparr>rec_type := UNMATCHED_COMMUNICATION, rec_cpu := id_cpu ob, rec_ptask := id_ptask ob,
               rec_task := id_task ob, rec_thread := vthread s, rec_time := log_time s, end_time := phy_time s,
               rec_event := sz, rec_value := ucast tag, cpu_r := id_cpu r, ptask_r := id_ptask r,
               task_r := id_task r, thread_r := id_thread r\<rparr> in
         andthen (write_rec (wfb th) c) (\<lambda>w. Inr (th\<lparr>wfb := w\<rparr>)))"

definition trace_paraver_communication ::
  "merge_options \<Rightarrow> comm_end \<Rightarrow> comm_end \<Rightarrow> INT32 \<Rightarrow> INT32 \<Rightarrow> bool \<Rightarrow> int \<Rightarrow> thread_t \<Rightarrow> thread_t res" where
  "trace_paraver_communication opts s r sz tag giveOffset position th =
     andthen (task_enabled opts (id_ptask (comm_object s)) (id_task (comm_object s))) (\<lambda>sender.
     andthen (if sender then Inr True else task_enabled opts (id_ptask (comm_object r)) (id_task (comm_object r))) (\<lambda>enabled.
       if \<not> enabled then Inr th
       else
         let ob = comm_object s; to = comm_object r;
             c = (stack_junk opts)\<lparr>rec_type := COMMUNICATION, rec_cpu := id_cpu ob, rec_ptask := id_ptask ob,
               rec_task := id_task ob, rec_thread := vthread s, rec_time := log_time s, end_time := phy_time s,
               rec_event := sz, rec_value := ucast tag, cpu_r := id_cpu to, ptask_r := id_ptask to,
               task_r := id_task to, thread_r := vthread r,
               receive_logical := log_time r, receive_physical := phy_time r\<rparr> in
         andthen (if \<not> giveOffset then write_rec (wfb th) c else write_rec_at (wfb th) c position)
           (\<lambda>w. Inr (th\<lparr>wfb := w\<rparr>))))"

end
