(* ===== verification/ParaverStates.thy ===== *)
theory ParaverStates
  imports ParaverGenerator
begin

text \<open>
  The states of a thread in its file: each state record runs from the mark that started it to the
  next one, whatever is written in between. The specification works on the list of marks, the pairs
  of the state on top of the stack and the time at every call of \<open>trace_paraver_state\<close>.
\<close>

type_synonym mark = "state_id \<times> UINT64"

section \<open>The specification\<close>

text \<open>Marks of a state that is already running are left out when states are joined.\<close>

fun joined :: "mark list \<Rightarrow> mark list" where
  "joined ((s, t) # (s', t') # ms) = (if s = s' then joined ((s, t) # ms) else (s, t) # joined ((s', t') # ms))"
| "joined ms = ms"

fun tiles :: "mark list \<Rightarrow> UINT64 \<Rightarrow> (state_id \<times> UINT64 \<times> UINT64) list" where
  "tiles [] e = []"
| "tiles [(s, t)] e = [(s, t, e)]"
| "tiles ((s, t) # (s', t') # ms) e = (s, t, t') # tiles ((s', t') # ms) e"

definition shown :: "merge_options \<Rightarrow> state_id \<Rightarrow> bool" where
  "shown opts s \<longleftrightarrow> \<not> State_Excluded (excluded_states opts) s"

definition spec_tiles :: "merge_options \<Rightarrow> mark list \<Rightarrow> UINT64 \<Rightarrow> (state_id \<times> UINT64 \<times> UINT64) list" where
  "spec_tiles opts ms e =
     filter (\<lambda>(s, _). shown opts s) (tiles (if JointStates opts then joined ms else ms) e)"

text \<open>The states of a file, and whether it has none that is unfinished.\<close>

definition is_state :: "paraver_rec_t \<Rightarrow> bool" where
  "is_state r \<longleftrightarrow> rec_type r = STATE"

definition finished :: "paraver_rec_t list \<Rightarrow> bool" where
  "finished rs \<longleftrightarrow> (\<forall>r \<in> set rs. rec_type r \<noteq> UNFINISHED_STATE)"

definition tile_of :: "paraver_rec_t \<Rightarrow> state_id \<times> UINT64 \<times> UINT64" where
  "tile_of r = (ucast (rec_value r), rec_time r, end_time r)"

definition state_tiles :: "paraver_rec_t list \<Rightarrow> (state_id \<times> UINT64 \<times> UINT64) list" where
  "state_tiles rs = map tile_of (filter is_state rs)"

lemma state_tiles_simps [simp]:
  "state_tiles [] = []"
  "state_tiles (rs @ qs) = state_tiles rs @ state_tiles qs"
  "state_tiles (r # rs) = (if is_state r then [tile_of r] else []) @ state_tiles rs"
  by (simp_all add: state_tiles_def)

section \<open>The specification, one mark at a time\<close>

text \<open>The closed tiles and the mark that is open.\<close>

type_synonym tiling = "(state_id \<times> UINT64 \<times> UINT64) list \<times> mark option"

definition close_tile :: "merge_options \<Rightarrow> tiling \<Rightarrow> UINT64 \<Rightarrow> (state_id \<times> UINT64 \<times> UINT64) list" where
  "close_tile opts w t =
     (case snd w of None \<Rightarrow> fst w
      | Some (s0, t0) \<Rightarrow> fst w @ (if shown opts s0 then [(s0, t0, t)] else []))"

definition add_mark :: "merge_options \<Rightarrow> tiling \<Rightarrow> mark \<Rightarrow> tiling" where
  "add_mark opts w m =
     (if JointStates opts \<and> map_option fst (snd w) = Some (fst m) then w
      else (close_tile opts w (snd m), Some m))"

definition spec_from :: "merge_options \<Rightarrow> tiling \<Rightarrow> mark list \<Rightarrow> UINT64 \<Rightarrow> (state_id \<times> UINT64 \<times> UINT64) list" where
  "spec_from opts w ms e = close_tile opts (foldl (add_mark opts) w ms) e"

lemma joined_head: "\<exists>q. joined ((s, t) # ms) = (s, t) # q"
proof (induction ms arbitrary: t)
  case (Cons m ms)
  obtain s' t' where "m = (s', t')" by (cases m)
  with Cons.IH [of t] show ?case by (cases "s = s'") simp_all
qed simp

lemma spec_from_open:
  "spec_from opts (cl, Some (s, t)) ms e = cl @ spec_tiles opts ((s, t) # ms) e"
proof (induction ms arbitrary: cl s t)
  case Nil
  show ?case by (simp add: spec_from_def spec_tiles_def close_tile_def)
next
  case (Cons m ms)
  obtain s' t' where m: "m = (s', t')" by (cases m)
  show ?case
  proof (cases "JointStates opts \<and> s = s'")
    case True
    then have "spec_from opts (cl, Some (s, t)) (m # ms) e = spec_from opts (cl, Some (s, t)) ms e"
      by (simp add: spec_from_def add_mark_def m)
    with Cons.IH [of cl s t] True m show ?thesis by (simp add: spec_tiles_def)
  next
    case False
    then have "add_mark opts (cl, Some (s, t)) m = (cl @ (if shown opts s then [(s, t, t')] else []), Some (s', t'))"
      by (auto simp: add_mark_def m close_tile_def)
    then have "spec_from opts (cl, Some (s, t)) (m # ms) e =
        (cl @ (if shown opts s then [(s, t, t')] else [])) @ spec_tiles opts ((s', t') # ms) e"
      using Cons.IH [of "cl @ (if shown opts s then [(s, t, t')] else [])" s' t'] by (simp add: spec_from_def)
    moreover have "spec_tiles opts ((s, t) # m # ms) e =
        (if shown opts s then [(s, t, t')] else []) @ spec_tiles opts ((s', t') # ms) e"
    proof (cases "JointStates opts")
      case True
      with False have "joined ((s, t) # m # ms) = (s, t) # joined ((s', t') # ms)" by (simp add: m)
      moreover obtain q where "joined ((s', t') # ms) = (s', t') # q" using joined_head by blast
      ultimately show ?thesis using True by (simp add: spec_tiles_def)
    qed (simp add: spec_tiles_def m)
    ultimately show ?thesis by simp
  qed
qed

lemma spec_from_start: "spec_from opts ([], None) ms e = spec_tiles opts ms e"
proof (cases ms)
  case (Cons m ms')
  then have "spec_from opts ([], None) ms e = spec_from opts ([], Some m) ms' e"
    by (simp add: spec_from_def add_mark_def close_tile_def)
  with Cons spec_from_open [of opts "[]" "fst m" "snd m" ms' e] show ?thesis by simp
qed (simp add: spec_from_def spec_tiles_def close_tile_def)

section \<open>The place of an open state\<close>

definition slot :: "paraver_rec_t list \<Rightarrow> nat \<Rightarrow> (state_id \<times> UINT64 \<times> UINT64) list \<Rightarrow> bool" where
  "slot rs k cl \<longleftrightarrow> k < length rs \<and> state_tiles (take k rs) = cl \<and> state_tiles (drop (Suc k) rs) = [] \<and>
     finished (take k rs) \<and> finished (drop (Suc k) rs)"

definition plain :: "paraver_rec_t \<Rightarrow> bool" where
  "plain r \<longleftrightarrow> rec_type r \<noteq> STATE \<and> rec_type r \<noteq> UNFINISHED_STATE"

lemma slot_append: "slot rs k cl \<Longrightarrow> plain r \<Longrightarrow> slot (rs @ [r]) k cl"
  by (auto simp: slot_def plain_def is_state_def finished_def)

lemma slot_new: "finished rs \<Longrightarrow> state_tiles rs = cl \<Longrightarrow> slot (rs @ [r]) (length rs) cl"
  by (simp add: slot_def finished_def)

lemma slot_fill:
  assumes "slot rs k cl" and "rec_type r = STATE"
  shows "state_tiles (rs[k := r]) = cl @ [tile_of r] \<and> finished (rs[k := r])"
  using assms by (auto simp: slot_def upd_conv_take_nth_drop is_state_def finished_def record_types)

lemma ucast_state: "ucast (ucast (s :: state_id) :: UINT64) = s"
  by (rule bit_word_eqI) (simp add: bit_simps)

lemma ucast_state_eq: "(ucast s :: UINT64) = ucast s' \<longleftrightarrow> s = s'" for s s' :: state_id
  by (metis ucast_state)

section \<open>The merger in step with the specification\<close>

definition in_step :: "merge_options \<Rightarrow> thread_t \<Rightarrow> tiling \<Rightarrow> bool" where
  "in_step opts th w \<longleftrightarrow> rec_file_inv (wfb th) \<and> wfb_ready (wfb th) \<and> stack_ok (thread_stack th) \<and>
     (case snd w of
        None \<Rightarrow> incomplete_state_offset th = - 1 \<and> finished (wfb_recs (wfb th)) \<and> state_tiles (wfb_recs (wfb th)) = fst w
      | Some (s, t) \<Rightarrow>
          rec_value (incomplete_state_record th) = ucast s \<and> rec_type (incomplete_state_record th) = STATE \<and>
          (if shown opts s
           then rec_time (incomplete_state_record th) = t \<and>
             (\<exists>k. incomplete_state_offset th = int (sizeof_paraver_rec_t * k) \<and> slot (wfb_recs (wfb th)) k (fst w))
           else finished (wfb_recs (wfb th)) \<and> state_tiles (wfb_recs (wfb th)) = fst w))"

text \<open>A record that is no state leaves the tiling as it is.\<close>

lemma write_plain:
  assumes "in_step opts th w" and "plain r"
  obtains f where "write_rec (wfb th) r = Inr f" and "in_step opts (th\<lparr>wfb := f\<rparr>) w"
proof -
  from assms(1) have "rec_file_inv (wfb th)" "wfb_ready (wfb th)" by (simp_all add: in_step_def)
  from recs.put_step [OF this(1) TrueI this(2)] obtain f where
    f: "write_rec (wfb th) r = Inr f" "rec_file_inv f" "wfb_ready f" "wfb_recs f = wfb_recs (wfb th) @ [r]" .
  have keep: "finished (rs @ [r]) = finished rs" "state_tiles (rs @ [r]) = state_tiles rs" for rs
    using assms(2) by (auto simp: finished_def plain_def is_state_def)
  have "in_step opts (th\<lparr>wfb := f\<rparr>) w"
  proof (cases "snd w")
    case None
    with assms(1) f(2-4) show ?thesis by (simp add: in_step_def keep del: state_tiles_simps)
  next
    case (Some m)
    obtain s t where m: "m = (s, t)" by (cases m)
    have "\<exists>k. off = int (sizeof_paraver_rec_t * k) \<and> slot (wfb_recs f) k cl"
      if "\<exists>k. off = int (sizeof_paraver_rec_t * k) \<and> slot (wfb_recs (wfb th)) k cl" for off cl
      using that f(4) slot_append [OF _ assms(2)] by metis
    with assms(1) f(2-4) Some m show ?thesis
      by (simp add: in_step_def keep del: state_tiles_simps of_nat_mult split: if_splits)
  qed
  with f(1) that show ?thesis by blast
qed

text \<open>Completing the open state, when the function does not return early.\<close>

lemma complete_open:
  assumes "in_step opts th w"
    and "\<not> (JointStates opts \<and> \<not> Last_State opts' \<and> map_option fst (snd w) = Some s \<and> incomplete_state_offset th \<noteq> - 1)"
    and "opts' = opts\<lparr>Last_State := Last_State opts'\<rparr>"
  obtains th' where "complete_state opts' s t th = Inr (False, th')"
    and "rec_file_inv (wfb th')" and "wfb_ready (wfb th')" and "thread_stack th' = thread_stack th"
    and "finished (wfb_recs (wfb th'))" and "state_tiles (wfb_recs (wfb th')) = close_tile opts w t"
    and "incomplete_state_offset th' = incomplete_state_offset th"
proof (cases "snd w")
  case None
  with assms that [of th] show ?thesis
    by (auto simp: in_step_def complete_state_def close_tile_def)
next
  case (Some m)
  obtain s0 t0 where m: "m = (s0, t0)" by (cases m)
  have same: "excluded_states opts' = excluded_states opts" "JointStates opts' = JointStates opts"
    using assms(3) by (metis merge_options.select_convs merge_options.update_convs merge_options.surjective)+
  let ?r = "(incomplete_state_record th)\<lparr>end_time := t\<rparr>"
  have v: "rec_value (incomplete_state_record th) = ucast s0" "rec_type (incomplete_state_record th) = STATE"
    using assms(1) Some m by (simp_all add: in_step_def)
  show ?thesis
  proof (cases "shown opts s0")
    case True
    with assms(1) Some m obtain k where
      k: "incomplete_state_offset th = int (sizeof_paraver_rec_t * k)" "slot (wfb_recs (wfb th)) k (fst w)"
      and t0: "rec_time (incomplete_state_record th) = t0"
      and fl: "rec_file_inv (wfb th)" "wfb_ready (wfb th)"
      by (auto simp: in_step_def)
    from k(2) have "k < length (wfb_recs (wfb th))" by (simp add: slot_def)
    from recs.put_at_step [OF fl(1) TrueI fl(2) this] obtain f where
      f: "write_rec_at (wfb th) ?r (int (sizeof_paraver_rec_t * k)) = Inr f" "rec_file_inv f" "wfb_ready f"
      "wfb_recs f = (wfb_recs (wfb th))[k := ?r]" .
    have off: "incomplete_state_offset th \<noteq> - 1"
      unfolding k(1) using of_nat_0_le_iff [of "sizeof_paraver_rec_t * k", where 'a = int] by linarith
    have "complete_state opts' s t th = Inr (False, th\<lparr>incomplete_state_record := ?r, wfb := f\<rparr>)"
      using assms(2) Some m off k(1) f(1) True v(1)
      by (auto simp: complete_state_def same ucast_state ucast_state_eq shown_def)
    moreover have "state_tiles (wfb_recs f) = close_tile opts w t \<and> finished (wfb_recs f)"
      using slot_fill [OF k(2), of ?r] v t0 True f(4) Some m
      by (simp add: close_tile_def tile_of_def ucast_state)
    ultimately show ?thesis
      using f(2,3) by (intro that [of "th\<lparr>incomplete_state_record := ?r, wfb := f\<rparr>"]) simp_all
  next
    case False
    with assms Some m v(1) have "complete_state opts' s t th = Inr (False, th)"
      by (auto simp: complete_state_def same ucast_state ucast_state_eq shown_def)
    with assms(1) Some m False show ?thesis
      by (intro that [of th]) (auto simp: in_step_def close_tile_def)
  qed
qed

lemma start_state:
  assumes "rec_file_inv (wfb th)" and "wfb_ready (wfb th)" and "stack_ok (thread_stack th)"
    and "finished (wfb_recs (wfb th))" and "state_tiles (wfb_recs (wfb th)) = cl"
    and "rec_value r = ucast s" and "rec_type r = STATE" and "rec_time r = t" and "rec_type q = UNFINISHED_STATE"
  shows "\<exists>th'. (if \<not> State_Excluded (excluded_states opts) s then
      andthen (write_rec (wfb th) q) (\<lambda>w. Inr (th\<lparr>incomplete_state_record := r,
        incomplete_state_offset := WriteFileBuffer_getPosition (wfb th), wfb := w\<rparr>))
      else Inr (th\<lparr>incomplete_state_record := r\<rparr>)) = Inr th' \<and>
    in_step opts th' (cl, Some (s, t)) \<and> thread_stack th' = thread_stack th"
proof (cases "shown opts s")
  case True
  from recs.put_step [OF assms(1) TrueI assms(2)] obtain f where
    f: "write_rec (wfb th) q = Inr f" "rec_file_inv f" "wfb_ready f" "wfb_recs f = wfb_recs (wfb th) @ [q]" .
  let ?th = "th\<lparr>incomplete_state_record := r, incomplete_state_offset := WriteFileBuffer_getPosition (wfb th), wfb := f\<rparr>"
  have "slot (wfb_recs f) (length (wfb_recs (wfb th))) cl"
    unfolding f(4) using assms(4,5) by (rule slot_new)
  then have "in_step opts ?th (cl, Some (s, t))"
    using True assms(3,6-8) f(2,3) recs.position_end [OF assms(1)]
    by (auto simp: in_step_def simp del: of_nat_mult)
  with f(1) True show ?thesis by (simp add: shown_def)
next
  case False
  then show ?thesis using assms by (auto simp: in_step_def shown_def)
qed

lemma position_nonneg: "int a * int b \<noteq> - 1" "- 1 \<noteq> int a * int b"
proof -
  have "0 \<le> int a * int b" by simp
  then show "int a * int b \<noteq> - 1" "- 1 \<noteq> int a * int b" by linarith+
qed

lemma mark_step:
  assumes "in_step opts th w" and "\<not> Last_State opts"
  shows "\<exists>th'. trace_paraver_state opts ob t th = Inr th' \<and> thread_stack th' = thread_stack th \<and>
    in_step opts th' (add_mark opts w (top_of (states (thread_stack th)), t))"
proof -
  let ?s = "top_of (states (thread_stack th))"
  have ok: "stack_ok (thread_stack th)" using assms(1) by (simp add: in_step_def)
  note top = Top_State_top [OF ok]
  show ?thesis
  proof (cases "JointStates opts \<and> map_option fst (snd w) = Some ?s \<and> incomplete_state_offset th \<noteq> - 1")
    case True
    then obtain t0 where "snd w = Some (?s, t0)" by auto
    with assms(1) have "rec_value (incomplete_state_record th) = ucast ?s" by (simp add: in_step_def)
    with True assms show ?thesis
      by (auto simp: trace_paraver_state_def top complete_state_def add_mark_def)
  next
    case False
    from complete_open [OF assms(1), of opts ?s t] False assms(2) obtain th1 where
      1: "complete_state opts ?s t th = Inr (False, th1)" "rec_file_inv (wfb th1)" "wfb_ready (wfb th1)"
      "thread_stack th1 = thread_stack th" "finished (wfb_recs (wfb th1))"
      "state_tiles (wfb_recs (wfb th1)) = close_tile opts w t" by auto
    let ?r = "(incomplete_state_record th1)\<lparr>rec_type := STATE, rec_cpu := id_cpu ob, rec_ptask := id_ptask ob,
               rec_task := id_task ob, rec_thread := virtual_thread th1, rec_time := t, rec_value := ucast ?s\<rparr>"
    let ?q = "(stack_junk opts)\<lparr>rec_type := UNFINISHED_STATE, rec_ptask := id_ptask ob,
                 rec_task := id_task ob, rec_thread := id_thread ob, rec_time := t\<rparr>"
    from start_state [OF 1(2,3) _ 1(5,6), of ?r ?s t ?q opts] ok 1(4) obtain th2 where
      2: "(if \<not> State_Excluded (excluded_states opts) ?s then
        andthen (write_rec (wfb th1) ?q) (\<lambda>w. Inr (th1\<lparr>incomplete_state_record := ?r,
          incomplete_state_offset := WriteFileBuffer_getPosition (wfb th1), wfb := w\<rparr>))
        else Inr (th1\<lparr>incomplete_state_record := ?r\<rparr>)) = Inr th2"
      "in_step opts th2 (close_tile opts w t, Some (?s, t))" "thread_stack th2 = thread_stack th1"
      by auto
    have run: "trace_paraver_state opts ob t th = Inr th2"
      using 1(1) 2(1) by (cases "State_Excluded (excluded_states opts) ?s") (simp_all add: trace_paraver_state_def top Let_def)
    show ?thesis
    proof (cases "JointStates opts \<and> map_option fst (snd w) = Some ?s")
      case joint: True
      with False have off: "incomplete_state_offset th = - 1" by blast
      from joint obtain t0 where w: "snd w = Some (?s, t0)" by auto
      have hidden: "\<not> shown opts ?s"
        using assms(1) w off position_nonneg by (auto simp: in_step_def)
      have "in_step opts th2 w"
        using 2(2) w hidden by (simp add: in_step_def close_tile_def)
      with joint run 2(3) 1(4) show ?thesis by (simp add: add_mark_def)
    next
      case False
      with run 2 1(4) show ?thesis by (auto simp: add_mark_def)
    qed
  qed
qed

lemma finish_step:
  assumes "in_step opts th w"
  shows "\<exists>th'. trace_paraver_state_noahead (opts\<lparr>Last_State := True\<rparr>) t th = Inr th' \<and>
    rec_file_inv (wfb th') \<and> wfb_ready (wfb th') \<and>
    finished (wfb_recs (wfb th')) \<and> state_tiles (wfb_recs (wfb th')) = close_tile opts w t"
proof -
  have ok: "stack_ok (thread_stack th)" using assms by (simp add: in_step_def)
  let ?opts = "opts\<lparr>Last_State := True\<rparr>"
  from complete_open [OF assms, of ?opts "top_of (states (thread_stack th))" t] obtain th' where
    "complete_state ?opts (top_of (states (thread_stack th))) t th = Inr (False, th')"
    "rec_file_inv (wfb th')" "wfb_ready (wfb th')" "finished (wfb_recs (wfb th'))"
    "state_tiles (wfb_recs (wfb th')) = close_tile opts w t" by auto
  then show ?thesis by (simp add: trace_paraver_state_noahead_def Top_State_top [OF ok])
qed

section \<open>The history of a thread\<close>

datatype thread_call =
    Mark UINT64
  | Emit UINT64 INT32 UINT64
  | Comm comm_end comm_end INT32 INT32
  | Unmatched comm_end object_id INT32 INT32
  | Switch state_id bool

definition on_stack :: "(thread_states \<Rightarrow> (state_id \<times> thread_states) res) \<Rightarrow> thread_t \<Rightarrow> thread_t res" where
  "on_stack f th = andthen (f (thread_stack th)) (\<lambda>(_, st). Inr (th\<lparr>thread_stack := st\<rparr>))"

fun run_call :: "allocator \<Rightarrow> merge_options \<Rightarrow> object_id \<Rightarrow> thread_call \<Rightarrow> thread_t \<Rightarrow> thread_t res" where
  "run_call alloc opts ob (Mark t) th = trace_paraver_state opts ob t th"
| "run_call alloc opts ob (Emit t type v) th = trace_paraver_event opts ob t type v th"
| "run_call alloc opts ob (Comm s r sz tag) th = trace_paraver_communication opts s r sz tag False 0 th"
| "run_call alloc opts ob (Unmatched s r sz tag) th = trace_paraver_unmatched_communication opts s r sz tag th"
| "run_call alloc opts ob (Switch s c) th = on_stack (Switch_State alloc s c) th"

fun run_calls :: "allocator \<Rightarrow> merge_options \<Rightarrow> object_id \<Rightarrow> thread_call list \<Rightarrow> thread_t \<Rightarrow> thread_t res" where
  "run_calls alloc opts ob [] th = Inr th"
| "run_calls alloc opts ob (c # cs) th = andthen (run_call alloc opts ob c th) (run_calls alloc opts ob cs)"

text \<open>The marks of a history, from the stack of states alone.\<close>

fun marks :: "allocator \<Rightarrow> thread_call list \<Rightarrow> thread_states \<Rightarrow> mark list" where
  "marks alloc [] st = []"
| "marks alloc (Mark t # cs) st = (top_of (states st), t) # marks alloc cs st"
| "marks alloc (Switch s c # cs) st =
     (case Switch_State alloc s c st of Inl _ \<Rightarrow> [] | Inr (_, st) \<Rightarrow> marks alloc cs st)"
| "marks alloc (_ # cs) st = marks alloc cs st"

definition known_task :: "merge_options \<Rightarrow> object_id \<Rightarrow> bool" where
  "known_task opts ob \<longleftrightarrow> (\<exists>b. task_enabled opts (id_ptask ob) (id_task ob) = Inr b)"

fun proper_call :: "merge_options \<Rightarrow> object_id \<Rightarrow> thread_call \<Rightarrow> bool" where
  "proper_call opts ob (Emit t type v) \<longleftrightarrow> known_task opts ob"
| "proper_call opts ob (Comm s r sz tag) \<longleftrightarrow> known_task opts (comm_object s) \<and> known_task opts (comm_object r)"
| "proper_call opts ob (Unmatched s r sz tag) \<longleftrightarrow> known_task opts (comm_object s)"
| "proper_call opts ob c \<longleftrightarrow> True"

text \<open>A call that writes a record which is no state, or none, keeps the merger in step.\<close>

lemma plain_call:
  assumes "in_step opts th w" and "plain r"
  shows "\<exists>th'. andthen (write_rec (wfb th) r) (\<lambda>w. Inr (th\<lparr>wfb := w\<rparr>)) = Inr th' \<and>
    in_step opts th' w \<and> thread_stack th' = thread_stack th"
proof -
  from write_plain [OF assms] obtain f where "write_rec (wfb th) r = Inr f" "in_step opts (th\<lparr>wfb := f\<rparr>) w" .
  then show ?thesis by simp
qed

lemma other_call_step:
  assumes "in_step opts th w" and "proper_call opts ob c" and "\<And>t. c \<noteq> Mark t" and "\<And>s b. c \<noteq> Switch s b"
  shows "\<exists>th'. run_call alloc opts ob c th = Inr th' \<and> in_step opts th' w \<and> thread_stack th' = thread_stack th"
proof (cases c)
  case (Emit t type v)
  with assms(2) obtain b where "task_enabled opts (id_ptask ob) (id_task ob) = Inr b" by (auto simp: known_task_def)
  with Emit assms(1) show ?thesis
    by (cases b) (auto simp: trace_paraver_event_def plain_def record_types split: prod.splits intro!: plain_call)
next
  case (Comm s r sz tag)
  with assms(2) obtain b b' where "task_enabled opts (id_ptask (comm_object s)) (id_task (comm_object s)) = Inr b"
    "task_enabled opts (id_ptask (comm_object r)) (id_task (comm_object r)) = Inr b'" by (auto simp: known_task_def)
  with Comm assms(1) show ?thesis
    by (cases b; cases b')
      (auto simp: trace_paraver_communication_def Let_def plain_def record_types intro!: plain_call)
next
  case (Unmatched s r sz tag)
  with assms(2) obtain b where "task_enabled opts (id_ptask (comm_object s)) (id_task (comm_object s)) = Inr b"
    by (auto simp: known_task_def)
  with Unmatched assms(1) show ?thesis
    by (cases b) (auto simp: trace_paraver_unmatched_communication_def Let_def plain_def record_types intro!: plain_call)
qed (use assms(3,4) in auto)

lemma switch_step:
  assumes "in_step opts th w" and "ample alloc"
  shows "\<exists>st r. Switch_State alloc s c (thread_stack th) = Inr (r, st) \<and> in_step opts (th\<lparr>thread_stack := st\<rparr>) w"
proof -
  have ok: "stack_ok (thread_stack th)" using assms(1) by (simp add: in_step_def)
  obtain st r where st: "Switch_State alloc s c (thread_stack th) = Inr (r, st)" "stack_ok st"
    using Push_State_returns [OF ok assms(2), of s] Push_State_result [OF ok, of alloc s] Pop_State_result [OF ok, of s]
    by (cases c) (auto simp: Switch_State_def)
  from assms(1) st(2) have "in_step opts (th\<lparr>thread_stack := st\<rparr>) w"
    by (cases "snd w") (auto simp: in_step_def)
  with st(1) show ?thesis by blast
qed

lemma run_calls_in_step:
  assumes "in_step opts th w" and "ample alloc" and "\<not> Last_State opts" and "list_all (proper_call opts ob) cs"
  shows "\<exists>th'. run_calls alloc opts ob cs th = Inr th' \<and>
    in_step opts th' (foldl (add_mark opts) w (marks alloc cs (thread_stack th)))"
  using assms
proof (induction cs arbitrary: th w)
  case (Cons c cs)
  note IH = Cons.IH [OF _ Cons.prems(2,3)]
  show ?case
  proof (cases "(\<exists>t. c = Mark t) \<or> (\<exists>s b. c = Switch s b)")
    case False
    with other_call_step [OF Cons.prems(1), of ob c alloc] Cons.prems(4) obtain th1 where
      "run_call alloc opts ob c th = Inr th1" "in_step opts th1 w" "thread_stack th1 = thread_stack th" by auto
    moreover have "marks alloc (c # cs) (thread_stack th) = marks alloc cs (thread_stack th)"
      using False by (cases c) auto
    ultimately show ?thesis using IH [of th1 w] Cons.prems(4) by auto
  next
    case True
    then consider t where "c = Mark t" | s b where "c = Switch s b" by blast
    then show ?thesis
    proof cases
      case 1
      with mark_step [OF Cons.prems(1,3), of ob t] IH Cons.prems(4) show ?thesis by fastforce
    next
      case 2
      from switch_step [OF Cons.prems(1,2), of s b] obtain st r where
        st: "Switch_State alloc s b (thread_stack th) = Inr (r, st)" "in_step opts (th\<lparr>thread_stack := st\<rparr>) w" by blast
      with IH [OF st(2)] 2 Cons.prems(4) show ?thesis by (simp add: on_stack_def)
    qed
  qed
qed simp

text \<open>
  C3. The states of a trace tile time. Take a thread whose file is empty, and any history of state
  switches, state marks, events and communications, then the last mark at the time the merge ends.
  With memory for the stack and a disk that does not fail, the calls all return; the file has no
  unfinished state left; and its state records, in order, are the intervals from each mark to the
  next, the last one up to the end, with the state on top of the stack at the mark: without the marks
  of an already running state when states are joined, and without the excluded states.
\<close>

theorem states_tile_time:
  assumes "rec_file_inv (wfb th)" and "wfb_ready (wfb th)" and "wfb_recs (wfb th) = []" and "stack_ok (thread_stack th)"
    and "incomplete_state_offset th = - 1" and "ample alloc" and "\<not> Last_State opts"
    and "list_all (proper_call opts ob) cs"
  shows "\<exists>th1 th2. run_calls alloc opts ob cs th = Inr th1 \<and>
    trace_paraver_state_noahead (opts\<lparr>Last_State := True\<rparr>) e th1 = Inr th2 \<and>
    finished (wfb_recs (wfb th2)) \<and>
    state_tiles (wfb_recs (wfb th2)) = spec_tiles opts (marks alloc cs (thread_stack th)) e"
proof -
  have "in_step opts th ([], None)" using assms(1-5) by (simp add: in_step_def finished_def)
  from run_calls_in_step [OF this assms(6-8)] obtain th1 where
    1: "run_calls alloc opts ob cs th = Inr th1"
    "in_step opts th1 (foldl (add_mark opts) ([], None) (marks alloc cs (thread_stack th)))" by blast
  from finish_step [OF 1(2), of e] 1(1) spec_from_start [of opts "marks alloc cs (thread_stack th)" e]
  show ?thesis by (auto simp: spec_from_def)
qed

definition zero_rec :: paraver_rec_t where
  "zero_rec = rec_of_bytes (replicate sizeof_paraver_rec_t 0)"

definition fresh_thread :: thread_t where
  "fresh_thread = \<lparr>thread_stack = no_states, virtual_thread = 1, incomplete_state_offset = - 1,
     incomplete_state_record = zero_rec,
     wfb = \<lparr>Buffer = replicate (2 * sizeof_paraver_rec_t) 0, lastWrittenLocation = 0, sizeElement = sizeof_paraver_rec_t,
       maxElements = 2, numElements = 0, FD = \<lparr>file_bytes = [], file_offset = 0, write_answers = []\<rparr>\<rparr>\<rparr>"

lemma fresh_thread_ok:
  "rec_file_inv (wfb fresh_thread)" "wfb_ready (wfb fresh_thread)" "wfb_recs (wfb fresh_thread) = []"
  "stack_ok (thread_stack fresh_thread)" "incomplete_state_offset fresh_thread = - 1"
  by (simp_all add: fresh_thread_def sized_inv_def wfb_inv_def wfb_ready_def wfb_recs_def wfb_records_def chunks_def
      wfb_bytes_def sizeof_paraver_rec_t_def no_states_def stack_ok_def)

definition joining :: merge_options where
  "joining = \<lparr>JointStates = True, Last_State = False, excluded_states = [STATE_IDLE], EnabledTasks = [[True]],
     stack_junk = zero_rec\<rparr>"

definition short_history :: "thread_call list" where
  "short_history = [Mark 0, Switch STATE_RUNNING True, Mark 10, Mark 15, Switch STATE_ALLOCMEM True, Mark 20,
     Switch STATE_ALLOCMEM False, Mark 30]"

lemma short_marks:
  "marks (\<lambda>_. True) short_history no_states =
     [(STATE_IDLE, 0), (STATE_RUNNING, 10), (STATE_RUNNING, 15), (STATE_ALLOCMEM, 20), (STATE_RUNNING, 30)]"
  by code_simp

theorem states_tile_time_witness:
  "\<exists>th1 th2. run_calls (\<lambda>_. True) joining (object_id.make 1 1 1 1) short_history fresh_thread = Inr th1 \<and>
     trace_paraver_state_noahead (joining\<lparr>Last_State := True\<rparr>) 40 th1 = Inr th2 \<and>
     state_tiles (wfb_recs (wfb th2)) = [(STATE_RUNNING, 10, 20), (STATE_ALLOCMEM, 20, 30), (STATE_RUNNING, 30, 40)]"
proof -
  have "spec_tiles joining (marks (\<lambda>_. True) short_history (thread_stack fresh_thread)) 40 =
      [(STATE_RUNNING, 10, 20), (STATE_ALLOCMEM, 20, 30), (STATE_RUNNING, 30, 40)]"
    using short_marks
    by (simp add: fresh_thread_def spec_tiles_def joining_def shown_def State_Excluded_def
        STATE_IDLE_def STATE_RUNNING_def STATE_ALLOCMEM_def)
  moreover have "list_all (proper_call joining (object_id.make 1 1 1 1)) short_history" by (simp add: short_history_def)
  moreover have "\<not> Last_State joining" by (simp add: joining_def)
  ultimately show ?thesis
    using states_tile_time [OF fresh_thread_ok ample_all, of joining "object_id.make 1 1 1 1" short_history 40] by fastforce
qed

end
