(* ===== verification/SlotTable.thy ===== *)
theory SlotTable
  imports Prelude "HOL-Library.Multiset"
begin

text \<open>
  Tables of slots, as the merger keeps the live objects and the task dependencies of a task: an
  array that grows by a fixed step, each slot with a flag that says whether it is in use, and a
  count of the used ones. A new entry goes to the first free slot.

  The locale is what the event handlers rely on: which entries a table holds after an insertion.
  Both tables interpret it.
\<close>

section \<open>The arrays\<close>

definition used :: "('s \<Rightarrow> bool) \<Rightarrow> 's list \<Rightarrow> 's list" where
  "used in_use xs = filter in_use xs"

text \<open>\<open>for (u = 0; u < allocated; u++) if (!in_use) \<dots> break\<close>\<close>

definition first_free :: "('s \<Rightarrow> bool) \<Rightarrow> 's list \<Rightarrow> nat option" where
  "first_free in_use xs = first_index (\<lambda>s. \<not> in_use s) xs"

lemma used_simps [simp]:
  "used f [] = []" "used f (xs @ ys) = used f xs @ used f ys"
  by (simp_all add: used_def)

lemma first_free_None: "first_free f xs = None \<longleftrightarrow> length (used f xs) = length xs"
  by (auto simp: first_free_def first_index_None used_def)
     (metis length_filter_less less_irrefl)

lemma first_free_Some:
  "first_free f xs = Some u \<Longrightarrow> u < length xs \<and> \<not> f (xs ! u) \<and> (\<forall>k < u. f (xs ! k))"
  by (simp add: first_free_def first_index_Some)

lemma used_update:
  assumes "u < length xs"
  shows "used f (xs[u := s]) = used f (take u xs) @ (if f s then [s] else []) @ used f (drop (Suc u) xs)"
  using assms by (simp add: upd_conv_take_nth_drop used_def)

lemma used_take_drop:
  assumes "u < length xs"
  shows "used f xs = used f (take u xs) @ (if f (xs ! u) then [xs ! u] else []) @ used f (drop (Suc u) xs)"
  using used_update [OF assms, of f "xs ! u"] by simp

lemma mset_used_fill:
  assumes "u < length xs" and "\<not> f (xs ! u)" and "f s"
  shows "mset (used f (xs[u := s])) = add_mset s (mset (used f xs))"
  using assms used_take_drop [OF assms(1), of f] by (simp add: used_update)

lemma mset_used_free:
  assumes "u < length xs" and "f (xs ! u)" and "\<not> f s"
  shows "mset (used f xs) = add_mset (xs ! u) (mset (used f (xs[u := s])))"
  using assms used_take_drop [OF assms(1), of f] by (simp add: used_update)

lemma sum_mset_update:
  "c < length bs \<Longrightarrow> sum_list (map mset (bs[c := b])) + mset (bs ! c) = sum_list (map mset bs) + mset b"
proof (induction bs arbitrary: c)
  case (Cons a bs)
  then show ?case by (cases c) (auto simp: ac_simps)
qed simp

lemma sum_mset_empty: "sum_list (map mset (map (\<lambda>_. []) xs)) = {#}"
  by (induction xs) auto

lemma distinct_concat_nth:
  "distinct (concat bs) \<Longrightarrow> c < length bs \<Longrightarrow> distinct (bs ! c)"
  by (auto simp: distinct_concat_iff)

lemma distinct_concat_disjoint:
  "distinct (concat bs) \<Longrightarrow> c < length bs \<Longrightarrow> e < length bs \<Longrightarrow> c \<noteq> e \<Longrightarrow> set (bs ! c) \<inter> set (bs ! e) = {}"
proof (induction bs arbitrary: c e)
  case (Cons b bs)
  have "set b \<inter> set (bs ! k) = {}" if "k < length bs" for k
    using Cons.prems(1) that by (auto dest: nth_mem)
  with Cons show ?case by (cases c; cases e) auto
qed simp

section \<open>The interface\<close>

locale slot_table =
  fixes add :: "'t \<Rightarrow> 'x \<Rightarrow> 't res"
    and items :: "'t \<Rightarrow> 'x multiset"
    and inv :: "'t \<Rightarrow> bool"
    and proper :: "'x \<Rightarrow> bool"
    and room :: "nat \<Rightarrow> bool"
  assumes add_returns: "inv t \<Longrightarrow> proper x \<Longrightarrow> room (size (items t)) \<Longrightarrow> \<exists>t'. add t x = Inr t'"
    and add_items: "inv t \<Longrightarrow> proper x \<Longrightarrow> add t x = Inr t' \<Longrightarrow> items t' = add_mset x (items t)"
    and add_inv: "inv t \<Longrightarrow> add t x = Inr t' \<Longrightarrow> inv t'"
    and room_less: "room n \<Longrightarrow> m \<le> n \<Longrightarrow> room m"
begin

text \<open>An insertion into a table with room, as one step.\<close>

lemma add_step:
  assumes "inv t" and "proper x" and "room (size (items t))"
  obtains t' where "add t x = Inr t'" and "inv t'" and "items t' = add_mset x (items t)"
  using add_returns [OF assms] add_items [OF assms(1,2)] add_inv [OF assms(1)] by blast

fun add_all :: "'t \<Rightarrow> 'x list \<Rightarrow> 't res" where
  "add_all t [] = Inr t"
| "add_all t (x # xs) = andthen (add t x) (\<lambda>t. add_all t xs)"

lemma add_all_items:
  assumes "inv t" and "\<forall>x \<in> set xs. proper x" and "room (size (items t) + length xs)"
  shows "\<exists>t'. add_all t xs = Inr t' \<and> inv t' \<and> items t' = items t + mset xs"
  using assms
proof (induction xs arbitrary: t)
  case (Cons x xs)
  from Cons.prems room_less [of "size (items t) + length (x # xs)" "size (items t)"]
  obtain t1 where t1: "add t x = Inr t1" "inv t1" "items t1 = add_mset x (items t)"
    by (auto intro: add_step [of t x])
  with Cons.IH [of t1] Cons.prems show ?case by simp
qed simp

end

end
