(* ===== verification/TraceMacros.thy ===== *)
theory TraceMacros
  imports EventTypes EventRecord
begin

text \<open>
  The settings that the tracer's wrappers read, and the macros of
  \<open>trunk/dependencies/extrae/src/tracer/trace_macros.h\<close> and \<open>trace_macros_omp.h\<close> that build an event and
  insert it into the buffer of the thread. A macro gives the events it inserts.

  \<open>base_event\<close> holds what a macro does not assign: the counters and the rest of the parameters.
  \<open>TracingBitmap_TASKID\<close> is the entry of the bitmap for the task itself.
\<close>

record trace_options =
  mpitrace_on :: bool
  tracejant :: bool
  TracingBitmap_TASKID :: bool
  base_event :: event_t

definition counted_event :: "'a trace_options_scheme \<Rightarrow> UINT64 \<Rightarrow> INT32 \<Rightarrow> UINT64 \<Rightarrow> event_t" where
  "counted_event opts evttime evttype evtvalue =
     (base_event opts)\<lparr>ev_time := evttime, ev_event := evttype, ev_value := evtvalue\<rparr>"

definition TRACE_EVENT :: "'a trace_options_scheme \<Rightarrow> UINT64 \<Rightarrow> INT32 \<Rightarrow> UINT64 \<Rightarrow> event_t list" where
  "TRACE_EVENT opts evttime evttype evtvalue =
     (if tracejant opts \<and> TracingBitmap_TASKID opts then [counted_event opts evttime evttype evtvalue] else [])"

text \<open>The parameter of a \<open>misc_param\<close> and the first one of an \<open>omp_param\<close> take the bytes of the target and the size.\<close>

definition misc_event :: "'a trace_options_scheme \<Rightarrow> UINT64 \<Rightarrow> INT32 \<Rightarrow> UINT64 \<Rightarrow> UINT64 \<Rightarrow> event_t" where
  "misc_event opts evttime evttype evtvalue evtparam =
     (base_event opts)\<lparr>ev_time := evttime, ev_event := evttype, ev_value := evtvalue,
        ev_param := (ev_param (base_event opts))\<lparr>param_target := ucast evtparam,
                      param_size := ucast (drop_bit 32 evtparam)\<rparr>\<rparr>"

definition TRACE_MISCEVENT :: "'a trace_options_scheme \<Rightarrow> UINT64 \<Rightarrow> INT32 \<Rightarrow> UINT64 \<Rightarrow> UINT64 \<Rightarrow> event_t list" where
  "TRACE_MISCEVENT opts evttime evttype evtvalue evtparam =
     (if tracejant opts \<and> TracingBitmap_TASKID opts then [misc_event opts evttime evttype evtvalue evtparam] else [])"

end
