(* ===== verification/MallocWrapper.thy ===== *)
theory MallocWrapper
  imports SlotTable TraceMacros
begin

text \<open>
  The tracer's wrappers of the allocation functions and the probes they call,
  \<open>trunk/dependencies/extrae/src/tracer/wrappers/MALLOC/malloc_wrapper.c\<close> and \<open>malloc_probe.c\<close>.

  A wrapper takes what the real function returned (its behaviour is the C library's) and gives the
  events it traces and the new table of traced pointers; 0 is the null pointer. The caller
  addresses, an option of the tracer, are off. \<open>abort\<close> ends the run as a failed assertion does.
  The counts of the table are naturals.
\<close>

type_synonym pointer = "64 word"

record tracer_options = trace_options +
  EXTRAE_INITIALIZED :: bool
  trace_malloc :: bool
  trace_malloc_allocate :: bool
  trace_malloc_free :: bool
  trace_malloc_allocate_threshold :: UINT64
  inInstrumentation :: bool
  hooked :: bool
  tracer_malloc :: allocator

section \<open>Probes\<close>

definition probing :: "tracer_options \<Rightarrow> event_t list \<Rightarrow> event_t list" where
  "probing opts evs = (if mpitrace_on opts \<and> trace_malloc opts then evs else [])"

definition Probe_Malloc_Entry :: "tracer_options \<Rightarrow> UINT64 \<Rightarrow> UINT64 \<Rightarrow> event_t list" where
  "Probe_Malloc_Entry opts t s = probing opts (TRACE_MISCEVENT opts t MALLOC_EV 1 s)"

definition Probe_Malloc_Exit :: "tracer_options \<Rightarrow> UINT64 \<Rightarrow> pointer \<Rightarrow> event_t list" where
  "Probe_Malloc_Exit opts t p = probing opts (TRACE_MISCEVENT opts t MALLOC_EV 0 p)"

definition Probe_Free_Entry :: "tracer_options \<Rightarrow> UINT64 \<Rightarrow> pointer \<Rightarrow> event_t list" where
  "Probe_Free_Entry opts t p = probing opts (TRACE_MISCEVENT opts t FREE_EV 1 p)"

definition Probe_Free_Exit :: "tracer_options \<Rightarrow> UINT64 \<Rightarrow> event_t list" where
  "Probe_Free_Exit opts t = probing opts (TRACE_MISCEVENT opts t FREE_EV 0 0)"

text \<open>The wrapper of \<open>calloc\<close> is disabled in the source; its probes are not.\<close>

definition Probe_Calloc_Entry :: "tracer_options \<Rightarrow> UINT64 \<Rightarrow> UINT64 \<Rightarrow> UINT64 \<Rightarrow> event_t list" where
  "Probe_Calloc_Entry opts t s1 s2 = probing opts (TRACE_MISCEVENT opts t CALLOC_EV 1 (s1 * s2))"

definition Probe_Calloc_Exit :: "tracer_options \<Rightarrow> UINT64 \<Rightarrow> pointer \<Rightarrow> event_t list" where
  "Probe_Calloc_Exit opts t p = probing opts (TRACE_MISCEVENT opts t CALLOC_EV 0 p)"

definition Probe_Realloc_Entry :: "tracer_options \<Rightarrow> UINT64 \<Rightarrow> pointer \<Rightarrow> UINT64 \<Rightarrow> event_t list" where
  "Probe_Realloc_Entry opts t p s =
     probing opts (TRACE_MISCEVENT opts t REALLOC_EV 1 p @ TRACE_MISCEVENT opts t REALLOC_EV (1 + 1) s)"

definition Probe_Realloc_Exit :: "tracer_options \<Rightarrow> UINT64 \<Rightarrow> pointer \<Rightarrow> event_t list" where
  "Probe_Realloc_Exit opts t p = probing opts (TRACE_MISCEVENT opts t REALLOC_EV 0 p)"

definition Probe_posix_memalign_Entry :: "tracer_options \<Rightarrow> UINT64 \<Rightarrow> UINT64 \<Rightarrow> event_t list" where
  "Probe_posix_memalign_Entry opts t s = probing opts (TRACE_MISCEVENT opts t POSIX_MEMALIGN_EV 1 s)"

definition Probe_posix_memalign_Exit :: "tracer_options \<Rightarrow> UINT64 \<Rightarrow> pointer \<Rightarrow> event_t list" where
  "Probe_posix_memalign_Exit opts t p = probing opts (TRACE_MISCEVENT opts t POSIX_MEMALIGN_EV 0 p)"

definition Probe_memkind_malloc_Entry :: "tracer_options \<Rightarrow> UINT64 \<Rightarrow> UINT64 \<Rightarrow> UINT64 \<Rightarrow> event_t list" where
  "Probe_memkind_malloc_Entry opts t kind s =
     probing opts (TRACE_MISCEVENT opts t MEMKIND_MALLOC_EV 1 s @ TRACE_MISCEVENT opts t MEMKIND_PARTITION_EV kind 0)"

definition Probe_memkind_malloc_Exit :: "tracer_options \<Rightarrow> UINT64 \<Rightarrow> pointer \<Rightarrow> event_t list" where
  "Probe_memkind_malloc_Exit opts t p =
     probing opts (TRACE_MISCEVENT opts t MEMKIND_MALLOC_EV 0 p @ TRACE_MISCEVENT opts t MEMKIND_PARTITION_EV 0 0)"

definition Probe_memkind_calloc_Entry ::
  "tracer_options \<Rightarrow> UINT64 \<Rightarrow> UINT64 \<Rightarrow> UINT64 \<Rightarrow> UINT64 \<Rightarrow> event_t list" where
  "Probe_memkind_calloc_Entry opts t kind num s =
     probing opts (TRACE_MISCEVENT opts t MEMKIND_CALLOC_EV 1 (num * s) @ TRACE_MISCEVENT opts t MEMKIND_PARTITION_EV kind 0)"

definition Probe_memkind_calloc_Exit :: "tracer_options \<Rightarrow> UINT64 \<Rightarrow> pointer \<Rightarrow> event_t list" where
  "Probe_memkind_calloc_Exit opts t p =
     probing opts (TRACE_MISCEVENT opts t MEMKIND_CALLOC_EV 0 p @ TRACE_MISCEVENT opts t MEMKIND_PARTITION_EV 0 0)"

definition Probe_memkind_posix_memalign_Entry ::
  "tracer_options \<Rightarrow> UINT64 \<Rightarrow> UINT64 \<Rightarrow> UINT64 \<Rightarrow> event_t list" where
  "Probe_memkind_posix_memalign_Entry opts t kind s =
     probing opts (TRACE_MISCEVENT opts t MEMKIND_POSIX_MEMALIGN_EV 1 s @ TRACE_MISCEVENT opts t MEMKIND_PARTITION_EV kind 0)"

definition Probe_memkind_posix_memalign_Exit :: "tracer_options \<Rightarrow> UINT64 \<Rightarrow> pointer \<Rightarrow> event_t list" where
  "Probe_memkind_posix_memalign_Exit opts t p =
     probing opts (TRACE_MISCEVENT opts t MEMKIND_POSIX_MEMALIGN_EV 0 p @ TRACE_MISCEVENT opts t MEMKIND_PARTITION_EV 0 0)"

definition Probe_memkind_realloc_Entry ::
  "tracer_options \<Rightarrow> UINT64 \<Rightarrow> UINT64 \<Rightarrow> pointer \<Rightarrow> UINT64 \<Rightarrow> event_t list" where
  "Probe_memkind_realloc_Entry opts t kind p s =
     probing opts (TRACE_MISCEVENT opts t MEMKIND_REALLOC_EV 1 p @ TRACE_MISCEVENT opts t MEMKIND_REALLOC_EV (1 + 1) s @
       TRACE_MISCEVENT opts t MEMKIND_PARTITION_EV kind 0)"

definition Probe_memkind_realloc_Exit :: "tracer_options \<Rightarrow> UINT64 \<Rightarrow> pointer \<Rightarrow> event_t list" where
  "Probe_memkind_realloc_Exit opts t p =
     probing opts (TRACE_MISCEVENT opts t MEMKIND_REALLOC_EV 0 p @ TRACE_MISCEVENT opts t MEMKIND_PARTITION_EV 0 0)"

definition Probe_memkind_free_Entry :: "tracer_options \<Rightarrow> UINT64 \<Rightarrow> UINT64 \<Rightarrow> pointer \<Rightarrow> event_t list" where
  "Probe_memkind_free_Entry opts t kind p =
     probing opts (TRACE_MISCEVENT opts t MEMKIND_FREE_EV 1 p @ TRACE_MISCEVENT opts t MEMKIND_PARTITION_EV kind 0)"

definition Probe_memkind_free_Exit :: "tracer_options \<Rightarrow> UINT64 \<Rightarrow> event_t list" where
  "Probe_memkind_free_Exit opts t =
     probing opts (TRACE_MISCEVENT opts t MEMKIND_FREE_EV 0 0 @ TRACE_MISCEVENT opts t MEMKIND_PARTITION_EV 0 0)"

section \<open>The traced pointers\<close>

record malloc_table =
  mallocentries :: "pointer list"
  nmallocentries_allocated :: nat
  nmallocentries :: nat

definition NMALLOCENTRIES_MALLOC :: nat where
  "NMALLOCENTRIES_MALLOC = 16 * 1024"

definition no_entries :: malloc_table where
  "no_entries = \<lparr>mallocentries = [], nmallocentries_allocated = 0, nmallocentries = 0\<rparr>"

definition malloctrace_grow :: "allocator \<Rightarrow> malloc_table \<Rightarrow> malloc_table res" where
  "malloctrace_grow alloc m =
     andthen (guard (alloc ((nmallocentries_allocated m + NMALLOCENTRIES_MALLOC) * 8)) AssertFailed) (\<lambda>_.
       Inr (m\<lparr>mallocentries := mallocentries m @ replicate NMALLOCENTRIES_MALLOC 0,
              nmallocentries_allocated := nmallocentries_allocated m + NMALLOCENTRIES_MALLOC\<rparr>))"

definition Extrae_malloctrace_add :: "allocator \<Rightarrow> malloc_table \<Rightarrow> pointer \<Rightarrow> malloc_table res" where
  "Extrae_malloctrace_add alloc m p =
     (if p \<noteq> 0 then
        andthen (if nmallocentries m = nmallocentries_allocated m then malloctrace_grow alloc m else Inr m) (\<lambda>m.
          case first_free (\<lambda>q. q \<noteq> 0) (take (nmallocentries_allocated m) (mallocentries m)) of
            None \<Rightarrow> Inr m
          | Some u \<Rightarrow> Inr (m\<lparr>mallocentries := (mallocentries m)[u := p], nmallocentries := nmallocentries m + 1\<rparr>))
      else Inr m)"

definition Extrae_malloctrace_remove :: "malloc_table \<Rightarrow> pointer \<Rightarrow> bool \<times> malloc_table" where
  "Extrae_malloctrace_remove m p =
     (if p \<noteq> 0 then
        case first_index (\<lambda>q. q = p) (take (nmallocentries_allocated m) (mallocentries m)) of
          None \<Rightarrow> (False, m)
        | Some u \<Rightarrow> (True, m\<lparr>mallocentries := (mallocentries m)[u := 0], nmallocentries := nmallocentries m - 1\<rparr>)
      else (False, m))"

section \<open>Wrappers\<close>

definition can_allocate :: "tracer_options \<Rightarrow> UINT64 \<Rightarrow> bool" where
  "can_allocate opts s \<longleftrightarrow> EXTRAE_INITIALIZED opts \<and> mpitrace_on opts \<and> trace_malloc opts \<and>
     trace_malloc_allocate opts \<and> s \<ge> trace_malloc_allocate_threshold opts \<and> \<not> inInstrumentation opts"

definition can_free :: "tracer_options \<Rightarrow> bool" where
  "can_free opts \<longleftrightarrow> EXTRAE_INITIALIZED opts \<and> mpitrace_on opts \<and> trace_malloc opts \<and> \<not> inInstrumentation opts"

type_synonym traced = "event_t list \<times> malloc_table"

text \<open>
  The shape the wrappers of an allocation share: the probe before, the real function, the pointer
  added to the table, the probe after; or the real function alone.
\<close>

definition wrapped ::
  "tracer_options \<Rightarrow> bool \<Rightarrow> event_t list \<Rightarrow> (malloc_table \<Rightarrow> malloc_table res) \<Rightarrow> event_t list \<Rightarrow> malloc_table \<Rightarrow> traced res" where
  "wrapped opts canInstrument entry note_pointer exit m =
     (if hooked opts \<and> canInstrument then andthen (note_pointer m) (\<lambda>m. Inr (entry @ exit, m))
      else if hooked opts then Inr ([], m)
      else Inl AssertFailed)"

definition malloc_wrapper :: "tracer_options \<Rightarrow> UINT64 \<Rightarrow> UINT64 \<Rightarrow> UINT64 \<Rightarrow> pointer \<Rightarrow> malloc_table \<Rightarrow> traced res" where
  "malloc_wrapper opts t0 t1 s p m =
     wrapped opts (can_allocate opts s) (Probe_Malloc_Entry opts t0 s)
       (\<lambda>m. if p \<noteq> 0 then Extrae_malloctrace_add (tracer_malloc opts) m p else Inr m)
       (Probe_Malloc_Exit opts t1 p) m"

definition free_wrapper :: "tracer_options \<Rightarrow> UINT64 \<Rightarrow> UINT64 \<Rightarrow> pointer \<Rightarrow> malloc_table \<Rightarrow> traced res" where
  "free_wrapper opts t0 t1 p m =
     (let (present, m) = Extrae_malloctrace_remove m p in
      wrapped opts (trace_malloc_free opts \<and> can_free opts \<and> present) (Probe_Free_Entry opts t0 p) Inr
        (Probe_Free_Exit opts t1) m)"

definition realloc_wrapper ::
  "tracer_options \<Rightarrow> UINT64 \<Rightarrow> UINT64 \<Rightarrow> pointer \<Rightarrow> UINT64 \<Rightarrow> pointer \<Rightarrow> malloc_table \<Rightarrow> traced res" where
  "realloc_wrapper opts t0 t1 p s q m =
     wrapped opts (can_allocate opts s) (Probe_Realloc_Entry opts t0 p s)
       (\<lambda>m. if q \<noteq> 0 then Extrae_malloctrace_add (tracer_malloc opts) (snd (Extrae_malloctrace_remove m p)) q else Inr m)
       (Probe_Realloc_Exit opts t1 q) m"

text \<open>\<open>posix_memalign\<close> returns 0 when it has stored a pointer in \<open>*memptr\<close>; \<open>p\<close> is what is there.\<close>

definition posix_memalign_wrapper ::
  "tracer_options \<Rightarrow> UINT64 \<Rightarrow> UINT64 \<Rightarrow> UINT64 \<Rightarrow> int \<Rightarrow> pointer \<Rightarrow> malloc_table \<Rightarrow> traced res" where
  "posix_memalign_wrapper opts t0 t1 s res p m =
     wrapped opts (can_allocate opts s) (Probe_posix_memalign_Entry opts t0 s)
       (\<lambda>m. if res = 0 then Extrae_malloctrace_add (tracer_malloc opts) m p else Inr m)
       (Probe_memkind_malloc_Exit opts t1 p) m"

definition memkind_malloc_wrapper ::
  "tracer_options \<Rightarrow> UINT64 \<Rightarrow> UINT64 \<Rightarrow> UINT64 \<Rightarrow> UINT64 \<Rightarrow> pointer \<Rightarrow> malloc_table \<Rightarrow> traced res" where
  "memkind_malloc_wrapper opts t0 t1 kind s p m =
     wrapped opts (can_allocate opts s) (Probe_memkind_malloc_Entry opts t0 kind s)
       (\<lambda>m. if p \<noteq> 0 then Extrae_malloctrace_add (tracer_malloc opts) m p else Inr m)
       (Probe_memkind_malloc_Exit opts t1 p) m"

definition memkind_calloc_wrapper ::
  "tracer_options \<Rightarrow> UINT64 \<Rightarrow> UINT64 \<Rightarrow> UINT64 \<Rightarrow> UINT64 \<Rightarrow> UINT64 \<Rightarrow> pointer \<Rightarrow> malloc_table \<Rightarrow> traced res" where
  "memkind_calloc_wrapper opts t0 t1 kind num s p m =
     wrapped opts (can_allocate opts s) (Probe_memkind_calloc_Entry opts t0 kind num s)
       (\<lambda>m. if p \<noteq> 0 then Extrae_malloctrace_add (tracer_malloc opts) m p else Inr m)
       (Probe_memkind_calloc_Exit opts t1 p) m"

definition memkind_realloc_wrapper ::
  "tracer_options \<Rightarrow> UINT64 \<Rightarrow> UINT64 \<Rightarrow> UINT64 \<Rightarrow> pointer \<Rightarrow> UINT64 \<Rightarrow> pointer \<Rightarrow> malloc_table \<Rightarrow> traced res" where
  "memkind_realloc_wrapper opts t0 t1 kind p s q m =
     wrapped opts (can_allocate opts s) (Probe_memkind_realloc_Entry opts t0 kind p s)
       (\<lambda>m. if q \<noteq> 0 then Extrae_malloctrace_add (tracer_malloc opts) (snd (Extrae_malloctrace_remove m p)) q else Inr m)
       (Probe_memkind_realloc_Exit opts t1 q) m"

definition memkind_posix_memalign_wrapper ::
  "tracer_options \<Rightarrow> UINT64 \<Rightarrow> UINT64 \<Rightarrow> UINT64 \<Rightarrow> UINT64 \<Rightarrow> int \<Rightarrow> pointer \<Rightarrow> malloc_table \<Rightarrow> traced res" where
  "memkind_posix_memalign_wrapper opts t0 t1 kind s res p m =
     wrapped opts (can_allocate opts s) (Probe_memkind_posix_memalign_Entry opts t0 kind s)
       (\<lambda>m. if res = 0 then Extrae_malloctrace_add (tracer_malloc opts) m p else Inr m)
       (Probe_memkind_posix_memalign_Exit opts t1 p) m"

definition memkind_free_wrapper ::
  "tracer_options \<Rightarrow> UINT64 \<Rightarrow> UINT64 \<Rightarrow> UINT64 \<Rightarrow> pointer \<Rightarrow> malloc_table \<Rightarrow> traced res" where
  "memkind_free_wrapper opts t0 t1 kind p m =
     (let (present, m) = Extrae_malloctrace_remove m p in
      wrapped opts (trace_malloc_free opts \<and> can_free opts \<and> present) (Probe_memkind_free_Entry opts t0 kind p) Inr
        (Probe_memkind_free_Exit opts t1) m)"

section \<open>The table as an instance of the interface\<close>

definition table_inv :: "malloc_table \<Rightarrow> bool" where
  "table_inv m \<longleftrightarrow> length (mallocentries m) = nmallocentries_allocated m \<and>
     nmallocentries m = length (used (\<lambda>q. q \<noteq> 0) (mallocentries m))"

definition pointers :: "malloc_table \<Rightarrow> pointer multiset" where
  "pointers m = mset (used (\<lambda>q. q \<noteq> 0) (mallocentries m))"

lemma table_all: "table_inv m \<Longrightarrow> take (nmallocentries_allocated m) (mallocentries m) = mallocentries m"
  by (simp add: table_inv_def)

lemma table_grow:
  assumes "malloctrace_grow alloc m = Inr m'" and "table_inv m"
  shows "table_inv m' \<and> pointers m' = pointers m \<and> nmallocentries m' < nmallocentries_allocated m'"
proof -
  have [simp]: "used (\<lambda>q. q \<noteq> 0) (replicate n (0 :: pointer)) = []" for n by (simp add: used_def)
  have "nmallocentries m \<le> nmallocentries_allocated m"
    using assms(2) length_filter_le [of "\<lambda>q. q \<noteq> 0" "mallocentries m"] by (simp add: table_inv_def used_def)
  with assms show ?thesis
    by (auto simp: malloctrace_grow_def table_inv_def pointers_def NMALLOCENTRIES_MALLOC_def)
qed

lemma table_add:
  assumes "Extrae_malloctrace_add alloc m p = Inr m'" and "table_inv m"
  shows "table_inv m' \<and> pointers m' = (if p = 0 then pointers m else add_mset p (pointers m))"
proof (cases "p = 0")
  case False
  let ?fill = "\<lambda>m. case first_free (\<lambda>q. q \<noteq> 0) (take (nmallocentries_allocated m) (mallocentries m)) of
            None \<Rightarrow> Inr m
          | Some u \<Rightarrow> Inr (m\<lparr>mallocentries := (mallocentries m)[u := p], nmallocentries := nmallocentries m + 1\<rparr>)"
  from assms(1) False have
    "andthen (if nmallocentries m = nmallocentries_allocated m then malloctrace_grow alloc m else Inr m) ?fill = Inr m'"
    by (simp add: Extrae_malloctrace_add_def)
  then obtain m1 where
    1: "(if nmallocentries m = nmallocentries_allocated m then malloctrace_grow alloc m else Inr m) = Inr m1"
    and 2: "?fill m1 = (Inr m' :: malloc_table res)" by (rule andthen_Inr_E)
  have "nmallocentries m \<le> nmallocentries_allocated m"
    using assms(2) length_filter_le [of "\<lambda>q. q \<noteq> 0" "mallocentries m"] by (simp add: table_inv_def used_def)
  with 1 assms(2) table_grow have m1: "table_inv m1" "pointers m1 = pointers m" "nmallocentries m1 < nmallocentries_allocated m1"
    by (auto split: if_splits)
  then obtain u where u: "first_free (\<lambda>q. q \<noteq> 0) (mallocentries m1) = Some u"
    by (cases "first_free (\<lambda>q. q \<noteq> 0) (mallocentries m1)") (auto simp: first_free_None table_inv_def)
  note at = first_free_Some [OF u]
  from 2 u m1(1) have m': "m' = m1\<lparr>mallocentries := (mallocentries m1)[u := p], nmallocentries := nmallocentries m1 + 1\<rparr>"
    by (simp add: table_all)
  have "mset (used (\<lambda>q. q \<noteq> 0) ((mallocentries m1)[u := p])) = add_mset p (mset (used (\<lambda>q. q \<noteq> 0) (mallocentries m1)))"
    using at False by (intro mset_used_fill) simp_all
  moreover from this have "length (used (\<lambda>q. q \<noteq> 0) ((mallocentries m1)[u := p])) = Suc (length (used (\<lambda>q. q \<noteq> 0) (mallocentries m1)))"
    by (metis size_add_mset size_mset)
  ultimately show ?thesis
    using m1(1,2) False by (simp add: m' table_inv_def pointers_def)
qed (use assms in \<open>simp add: Extrae_malloctrace_add_def\<close>)

lemma table_remove:
  assumes "table_inv m" and "p \<noteq> 0"
  shows "fst (Extrae_malloctrace_remove m p) \<longleftrightarrow> p \<in># pointers m"
    and "table_inv (snd (Extrae_malloctrace_remove m p))"
    and "pointers (snd (Extrae_malloctrace_remove m p)) = pointers m - {#p#}"
proof -
  have "(fst (Extrae_malloctrace_remove m p) \<longleftrightarrow> p \<in># pointers m) \<and> table_inv (snd (Extrae_malloctrace_remove m p)) \<and>
    pointers (snd (Extrae_malloctrace_remove m p)) = pointers m - {#p#}"
  proof (cases "first_index (\<lambda>q. q = p) (mallocentries m)")
    case None
    then have "p \<notin># pointers m" by (auto simp: first_index_None pointers_def used_def)
    with None assms show ?thesis by (simp add: Extrae_malloctrace_remove_def table_all diff_single_trivial)
  next
    case (Some u)
    then have at: "u < length (mallocentries m)" "mallocentries m ! u = p" by (simp_all add: first_index_Some)
    with assms(2) have m: "mset (used (\<lambda>q. q \<noteq> 0) (mallocentries m)) =
        add_mset p (mset (used (\<lambda>q. q \<noteq> 0) ((mallocentries m)[u := 0])))"
      using mset_used_free [of u "mallocentries m" "\<lambda>q. q \<noteq> 0" 0] by simp
    then have "length (used (\<lambda>q. q \<noteq> 0) (mallocentries m)) = Suc (length (used (\<lambda>q. q \<noteq> 0) ((mallocentries m)[u := 0])))"
      by (metis size_add_mset size_mset)
    with assms Some m show ?thesis
      by (simp add: Extrae_malloctrace_remove_def table_all table_inv_def pointers_def)
  qed
  then show "fst (Extrae_malloctrace_remove m p) \<longleftrightarrow> p \<in># pointers m"
    and "table_inv (snd (Extrae_malloctrace_remove m p))"
    and "pointers (snd (Extrae_malloctrace_remove m p)) = pointers m - {#p#}" by blast+
qed

definition table_room :: "allocator \<Rightarrow> nat \<Rightarrow> bool" where
  "table_room alloc n \<longleftrightarrow> (\<forall>m \<le> n. alloc ((m + NMALLOCENTRIES_MALLOC) * 8))"

interpretation traced: slot_table "Extrae_malloctrace_add alloc" pointers table_inv "\<lambda>p. p \<noteq> 0" "table_room alloc" for alloc
proof unfold_locales
  fix m m' :: malloc_table and p :: pointer
  show "table_inv m \<Longrightarrow> p \<noteq> 0 \<Longrightarrow> table_room alloc (size (pointers m)) \<Longrightarrow> \<exists>m'. Extrae_malloctrace_add alloc m p = Inr m'"
    by (auto simp: Extrae_malloctrace_add_def malloctrace_grow_def table_room_def table_inv_def pointers_def split: option.splits)
  show "table_inv m \<Longrightarrow> p \<noteq> 0 \<Longrightarrow> Extrae_malloctrace_add alloc m p = Inr m' \<Longrightarrow> pointers m' = add_mset p (pointers m)"
    using table_add by simp
  show "table_inv m \<Longrightarrow> Extrae_malloctrace_add alloc m p = Inr m' \<Longrightarrow> table_inv m'"
    using table_add by simp
next
  show "table_room alloc n \<Longrightarrow> m \<le> n \<Longrightarrow> table_room alloc m" for n m
    by (auto simp: table_room_def)
qed

end
