(* ===== verification/AddressSpace.thy ===== *)
theory AddressSpace
  imports SlotTable EventRecord EventNumbers
begin

text \<open>
  The table of the memory objects of a task,
  \<open>trunk/dependencies/extrae/src/merger/common/address_space.c\<close>: regions of addresses, each with
  the callers that allocated it. What \<open>realloc\<close> leaves in a new slot is an argument. The two
  counters are naturals: they agree with the code's below \<open>2 ^ 32\<close> regions.
\<close>

definition ADDRESS_SPACE_ALLOC_SIZE :: nat where
  "ADDRESS_SPACE_ALLOC_SIZE = 256"

record AddressSpaceRegion =
  AddressBegin :: UINT64
  AddressEnd :: UINT64
  CallerAddresses :: "UINT64 list"
  CallerType :: INT32
  region_in_use :: bool

record AddressSpace =
  Regions :: "AddressSpaceRegion list"
  nRegions :: nat
  aRegions :: nat

record space_platform =
  space_malloc :: allocator
  sizeof_region :: nat
  sizeof_space :: nat
  region_junk :: AddressSpaceRegion

definition AddressSpace_create :: "space_platform \<Rightarrow> AddressSpace res" where
  "AddressSpace_create P =
     andthen (guard (space_malloc P (sizeof_space P)) (Exit (- 1))) (\<lambda>_.
       Inr \<lparr>Regions = [], nRegions = 0, aRegions = 0\<rparr>)"

definition AddressSpace_grow :: "space_platform \<Rightarrow> AddressSpace \<Rightarrow> AddressSpace res" where
  "AddressSpace_grow P as =
     andthen (guard (space_malloc P ((nRegions as + ADDRESS_SPACE_ALLOC_SIZE) * sizeof_region P)) (Exit (- 1))) (\<lambda>_.
       Inr (as\<lparr>Regions := Regions as @
                replicate ADDRESS_SPACE_ALLOC_SIZE (region_junk P\<lparr>region_in_use := False\<rparr>),
              aRegions := aRegions as + ADDRESS_SPACE_ALLOC_SIZE\<rparr>))"

definition AddressSpace_add ::
  "space_platform \<Rightarrow> AddressSpace \<Rightarrow> UINT64 \<Rightarrow> UINT64 \<Rightarrow> UINT64 list \<Rightarrow> INT32 \<Rightarrow> AddressSpace res" where
  "AddressSpace_add P as abegin aend callers ctype =
     andthen (if nRegions as = aRegions as then AddressSpace_grow P as else Inr as) (\<lambda>as.
       case first_free region_in_use (take (aRegions as) (Regions as)) of
         None \<Rightarrow> Inr as
       | Some u \<Rightarrow>
           andthen (guard (MAX_CALLERS \<le> length callers) OutOfBounds) (\<lambda>_.
             Inr (as\<lparr>Regions := (Regions as)[u := \<lparr>AddressBegin = abegin, AddressEnd = aend,
                         CallerAddresses = take MAX_CALLERS callers, CallerType = ctype, region_in_use = True\<rparr>],
                    nRegions := nRegions as + 1\<rparr>)))"

definition AddressSpace_remove :: "AddressSpace \<Rightarrow> UINT64 \<Rightarrow> AddressSpace" where
  "AddressSpace_remove as abegin =
     (case first_index (\<lambda>r. region_in_use r \<and> AddressBegin r = abegin) (take (aRegions as) (Regions as)) of
        None \<Rightarrow> as
      | Some u \<Rightarrow> as\<lparr>Regions := (Regions as)[u := \<lparr>AddressBegin = 0, AddressEnd = 0,
                       CallerAddresses = replicate MAX_CALLERS 0, CallerType = 0, region_in_use = False\<rparr>],
                     nRegions := nRegions as - 1\<rparr>)"

text \<open>The result of a search: the callers and the type of the first region that has the address.\<close>

definition AddressSpace_search :: "AddressSpace \<Rightarrow> UINT64 \<Rightarrow> (UINT64 list \<times> INT32) option" where
  "AddressSpace_search as a =
     (case first_index (\<lambda>r. region_in_use r \<and> AddressBegin r \<le> a \<and> a \<le> AddressEnd r)
             (take (aRegions as) (Regions as)) of
        None \<Rightarrow> None
      | Some u \<Rightarrow> Some (CallerAddresses (Regions as ! u), CallerType (Regions as ! u)))"

section \<open>The regions of a table\<close>

type_synonym object_info = "UINT64 \<times> UINT64 \<times> UINT64 list \<times> INT32"

definition region_info :: "AddressSpaceRegion \<Rightarrow> object_info" where
  "region_info r = (AddressBegin r, AddressEnd r, CallerAddresses r, CallerType r)"

definition objects :: "AddressSpace \<Rightarrow> object_info multiset" where
  "objects as = image_mset region_info (mset (used region_in_use (Regions as)))"

definition space_inv :: "AddressSpace \<Rightarrow> bool" where
  "space_inv as \<longleftrightarrow> length (Regions as) = aRegions as \<and> nRegions as = length (used region_in_use (Regions as))"

lemma space_count: "space_inv as \<Longrightarrow> nRegions as = size (objects as)"
  by (simp add: space_inv_def objects_def)

lemma space_count_le: "space_inv as \<Longrightarrow> nRegions as \<le> aRegions as"
  using length_filter_le [of region_in_use "Regions as"] by (simp add: space_inv_def used_def)

lemma create_inv:
  "AddressSpace_create P = Inr as \<Longrightarrow> space_inv as \<and> objects as = {#}"
  by (auto simp: AddressSpace_create_def space_inv_def objects_def)

lemma grow_inv:
  assumes "AddressSpace_grow P as = Inr as'" and "space_inv as"
  shows "space_inv as' \<and> objects as' = objects as \<and> nRegions as' < aRegions as'"
proof -
  have [simp]: "used region_in_use (replicate n (region_junk P\<lparr>region_in_use := False\<rparr>)) = []" for n
    by (simp add: used_def)
  have "nRegions as \<le> aRegions as"
    using assms(2) by (rule space_count_le)
  then show ?thesis
    using assms by (auto simp: AddressSpace_grow_def space_inv_def objects_def ADDRESS_SPACE_ALLOC_SIZE_def)
qed

definition add_object :: "space_platform \<Rightarrow> AddressSpace \<Rightarrow> object_info \<Rightarrow> AddressSpace res" where
  "add_object P as x = (case x of (b, e, callers, t) \<Rightarrow> AddressSpace_add P as b e callers t)"

lemma add_cases:
  assumes "AddressSpace_add P as b e callers t = Inr as'" and "space_inv as"
  shows "space_inv as' \<and> MAX_CALLERS \<le> length callers \<and>
    objects as' = add_mset (b, e, take MAX_CALLERS callers, t) (objects as)"
proof -
  from assms(1) obtain as1 where as1:
    "(if nRegions as = aRegions as then AddressSpace_grow P as else Inr as) = Inr as1"
    and r: "(case first_free region_in_use (take (aRegions as1) (Regions as1)) of
         None \<Rightarrow> Inr as1
       | Some u \<Rightarrow>
           andthen (guard (MAX_CALLERS \<le> length callers) OutOfBounds) (\<lambda>_.
             Inr (as1\<lparr>Regions := (Regions as1)[u := \<lparr>AddressBegin = b, AddressEnd = e,
                         CallerAddresses = take MAX_CALLERS callers, CallerType = t, region_in_use = True\<rparr>],
                    nRegions := nRegions as1 + 1\<rparr>))) = Inr as'"
    by (auto simp: AddressSpace_add_def)
  have inv1: "space_inv as1" "objects as1 = objects as" "nRegions as1 < aRegions as1"
    using as1 assms(2) grow_inv [of P as as1] space_count_le [OF assms(2)] by (auto split: if_splits)
  then have all: "take (aRegions as1) (Regions as1) = Regions as1" by (simp add: space_inv_def)
  from inv1 obtain u where u: "first_free region_in_use (Regions as1) = Some u"
    by (cases "first_free region_in_use (Regions as1)") (auto simp: first_free_None space_inv_def)
  note at = first_free_Some [OF u]
  let ?r = "\<lparr>AddressBegin = b, AddressEnd = e, CallerAddresses = take MAX_CALLERS callers, CallerType = t, region_in_use = True\<rparr>"
  from r u all have c: "MAX_CALLERS \<le> length callers"
    and as': "as' = as1\<lparr>Regions := (Regions as1)[u := ?r], nRegions := nRegions as1 + 1\<rparr>"
    by auto
  have m: "mset (used region_in_use ((Regions as1)[u := ?r])) = add_mset ?r (mset (used region_in_use (Regions as1)))"
    using at by (intro mset_used_fill) simp_all
  then have "length (used region_in_use ((Regions as1)[u := ?r])) = Suc (length (used region_in_use (Regions as1)))"
    by (metis size_add_mset size_mset)
  with inv1 c m show ?thesis
    by (simp add: as' space_inv_def objects_def region_info_def)
qed

lemma add_returns:
  assumes "space_inv as" and "space_malloc P ((size (objects as) + ADDRESS_SPACE_ALLOC_SIZE) * sizeof_region P)"
    and "MAX_CALLERS \<le> length callers"
  shows "\<exists>as'. AddressSpace_add P as b e callers t = Inr as'"
  using assms space_count [OF assms(1)]
  by (auto simp: AddressSpace_add_def AddressSpace_grow_def split: option.splits)

section \<open>Removing and searching\<close>

lemma first_index_used:
  assumes "first_index (\<lambda>r. region_in_use r \<and> Q r) xs = Some u"
  shows "u < length xs" and "region_in_use (xs ! u)" and "Q (xs ! u)"
    and "filter Q (used region_in_use xs) =
      xs ! u # filter Q (used region_in_use (drop (Suc u) xs))"
proof -
  show u: "u < length xs" "region_in_use (xs ! u)" "Q (xs ! u)"
    using assms by (simp_all add: first_index_Some)
  have "\<not> (region_in_use r \<and> Q r)" if "r \<in> set (take u xs)" for r
    using assms that by (auto simp: first_index_Some in_set_conv_nth)
  then have "filter Q (used region_in_use (take u xs)) = []"
    by (auto simp: used_def filter_empty_conv)
  then show "filter Q (used region_in_use xs) = xs ! u # filter Q (used region_in_use (drop (Suc u) xs))"
    using used_take_drop [OF u(1), of region_in_use] u by simp
qed

lemma remove_inv:
  assumes "space_inv as"
  shows "space_inv (AddressSpace_remove as b)"
    and "(\<forall>x \<in># objects as. fst x \<noteq> b) \<and> objects (AddressSpace_remove as b) = objects as \<or>
      (\<exists>x. fst x = b \<and> objects as = add_mset x (objects (AddressSpace_remove as b)))"
proof -
  have all: "take (aRegions as) (Regions as) = Regions as" using assms by (simp add: space_inv_def)
  let ?Q = "\<lambda>r. region_in_use r \<and> AddressBegin r = b"
  have "space_inv (AddressSpace_remove as b) \<and>
    ((\<forall>x \<in># objects as. fst x \<noteq> b) \<and> objects (AddressSpace_remove as b) = objects as \<or>
      (\<exists>x. fst x = b \<and> objects as = add_mset x (objects (AddressSpace_remove as b))))"
  proof (cases "first_index ?Q (Regions as)")
    case None
    then have "\<forall>x \<in># objects as. fst x \<noteq> b"
      by (auto simp: first_index_None objects_def used_def region_info_def)
    with None assms show ?thesis by (simp add: AddressSpace_remove_def all)
  next
    case (Some u)
    note at = first_index_used(1-3) [OF Some]
    let ?r = "\<lparr>AddressBegin = 0, AddressEnd = 0, CallerAddresses = replicate MAX_CALLERS 0, CallerType = 0, region_in_use = False\<rparr>"
    have m: "mset (used region_in_use (Regions as)) =
        add_mset (Regions as ! u) (mset (used region_in_use ((Regions as)[u := ?r])))"
      using at by (intro mset_used_free) simp_all
    then have "length (used region_in_use (Regions as)) = Suc (length (used region_in_use ((Regions as)[u := ?r])))"
      by (metis size_add_mset size_mset)
    with assms m at(3) Some show ?thesis
      by (auto simp: AddressSpace_remove_def all space_inv_def objects_def region_info_def)
  qed
  then show "space_inv (AddressSpace_remove as b)"
    and "(\<forall>x \<in># objects as. fst x \<noteq> b) \<and> objects (AddressSpace_remove as b) = objects as \<or>
      (\<exists>x. fst x = b \<and> objects as = add_mset x (objects (AddressSpace_remove as b)))" by blast+
qed

definition covers :: "object_info \<Rightarrow> UINT64 \<Rightarrow> bool" where
  "covers x a \<longleftrightarrow> fst x \<le> a \<and> a \<le> fst (snd x)"

lemma search_result:
  assumes "space_inv as"
  shows "case AddressSpace_search as a of
      None \<Rightarrow> \<forall>x \<in># objects as. \<not> covers x a
    | Some (callers, t) \<Rightarrow> \<exists>b e. (b, e, callers, t) \<in># objects as \<and> covers (b, e, callers, t) a"
proof -
  have all: "take (aRegions as) (Regions as) = Regions as" using assms by (simp add: space_inv_def)
  let ?Q = "\<lambda>r. AddressBegin r \<le> a \<and> a \<le> AddressEnd r"
  show ?thesis
  proof (cases "first_index (\<lambda>r. region_in_use r \<and> ?Q r) (Regions as)")
    case None
    then have "\<forall>x \<in># objects as. \<not> covers x a"
      by (auto simp: first_index_None objects_def used_def covers_def region_info_def)
    with None show ?thesis by (simp add: AddressSpace_search_def all)
  next
    case (Some u)
    note at = first_index_used(1-3) [OF Some]
    from at have "Regions as ! u \<in> set (used region_in_use (Regions as))"
      by (simp add: used_def)
    then have "region_info (Regions as ! u) \<in># objects as"
      by (auto simp: objects_def)
    with Some at show ?thesis
      by (auto simp: AddressSpace_search_def all region_info_def covers_def)
  qed
qed

section \<open>The table as an instance of the interface\<close>

definition space_room :: "space_platform \<Rightarrow> nat \<Rightarrow> bool" where
  "space_room P n \<longleftrightarrow> (\<forall>m \<le> n. space_malloc P ((m + ADDRESS_SPACE_ALLOC_SIZE) * sizeof_region P))"

definition full_callers :: "object_info \<Rightarrow> bool" where
  "full_callers x \<longleftrightarrow> length (fst (snd (snd x))) = MAX_CALLERS"

interpretation space: slot_table "add_object P" objects space_inv full_callers "space_room P" for P
proof unfold_locales
  fix as as' :: AddressSpace and x :: object_info
  obtain b e callers t where x: "x = (b, e, callers, t)" by (cases x)
  show "space_inv as \<Longrightarrow> full_callers x \<Longrightarrow> space_room P (size (objects as)) \<Longrightarrow> \<exists>as'. add_object P as x = Inr as'"
    using add_returns [of as P callers b e t] by (simp add: x add_object_def full_callers_def space_room_def)
  show "space_inv as \<Longrightarrow> full_callers x \<Longrightarrow> add_object P as x = Inr as' \<Longrightarrow> objects as' = add_mset x (objects as)"
    using add_cases [of P as b e callers t as'] by (simp add: x add_object_def full_callers_def)
  show "space_inv as \<Longrightarrow> add_object P as x = Inr as' \<Longrightarrow> space_inv as'"
    using add_cases [of P as b e callers t as'] by (simp add: x add_object_def)
next
  show "space_room P n \<Longrightarrow> m \<le> n \<Longrightarrow> space_room P m" for n m
    by (auto simp: space_room_def)
qed

end
