(* ===== verification/DynamicMemory.thy ===== *)
theory DynamicMemory
  imports MallocWrapper AddressSpace ParaverStates
begin

text \<open>
  How the merger follows the memory of a task: the handler of the allocation events,
  \<open>DynamicMemory_Event\<close> of \<open>trunk/dependencies/extrae/src/merger/paraver/misc_prv_semantics.c\<close>, and
  what it makes of the events the wrappers trace. The state is the address space of a task and one
  of its threads.
\<close>

record mem_thread =
  prv_thread :: thread_t
  AddressSpace_size :: UINT64
  AddressSpace_timeCreation :: UINT64
  AddressSpace_calleraddresses :: "UINT64 list"
  AddressSpace_callertype :: INT32

record mem_task =
  task_space :: AddressSpace
  task_thread :: mem_thread

record mem_platform =
  space_of :: space_platform
  state_alloc :: allocator
  prv_options :: merge_options
  mem_object :: object_id

definition Get_State :: "INT32 \<Rightarrow> state_id res" where
  "Get_State EvType =
     (if EvType \<in> {MALLOC_EV, MEMKIND_MALLOC_EV, MEMKIND_POSIX_MEMALIGN_EV, POSIX_MEMALIGN_EV, REALLOC_EV,
                   MEMKIND_REALLOC_EV, CALLOC_EV, MEMKIND_CALLOC_EV} then Inr STATE_ALLOCMEM
      else if EvType \<in> {FREE_EV, MEMKIND_FREE_EV} then Inr STATE_FREEMEM
      else Inl (Exit (- 1)))"

definition MISC_event_GetValueForDynamicMemory :: "INT32 \<Rightarrow> UINT64" where
  "MISC_event_GetValueForDynamicMemory type =
     (if type = MALLOC_EV then 1
      else if type = FREE_EV then 2
      else if type = REALLOC_EV then 3
      else if type = CALLOC_EV then 4
      else if type = POSIX_MEMALIGN_EV then 5
      else if type = MEMKIND_MALLOC_EV then 6
      else if type = MEMKIND_CALLOC_EV then 7
      else if type = MEMKIND_REALLOC_EV then 8
      else if type = MEMKIND_POSIX_MEMALIGN_EV then 9
      else if type = MEMKIND_FREE_EV then 10
      else 0)"

definition prv_event :: "mem_platform \<Rightarrow> UINT64 \<Rightarrow> INT32 \<Rightarrow> UINT64 \<Rightarrow> mem_thread \<Rightarrow> mem_thread res" where
  "prv_event P t type v th =
     andthen (trace_paraver_event (prv_options P) (mem_object P) t type v (prv_thread th)) (\<lambda>pt.
       Inr (th\<lparr>prv_thread := pt\<rparr>))"

text \<open>The loop over the callers from the \<open>u\<close>-th on.\<close>

fun caller_events :: "mem_platform \<Rightarrow> nat \<Rightarrow> UINT64 list \<Rightarrow> mem_thread \<Rightarrow> mem_thread res" where
  "caller_events P u [] th = Inr th"
| "caller_events P u (a # as) th =
     andthen (if a \<noteq> 0
              then prv_event P (AddressSpace_timeCreation th) (SAMPLING_ADDRESS_ALLOCATED_OBJECT_CALLER_EV + of_nat u) a th
              else Inr th) (\<lambda>th. caller_events P (u + 1) as th)"

definition add_region :: "mem_platform \<Rightarrow> UINT64 \<Rightarrow> mem_task \<Rightarrow> mem_task res" where
  "add_region P p tk =
     (let th = task_thread tk in
      andthen (AddressSpace_add (space_of P) (task_space tk) p (p + AddressSpace_size th)
                (AddressSpace_calleraddresses th) (AddressSpace_callertype th)) (\<lambda>as.
        Inr (tk\<lparr>task_space := as\<rparr>)))"

text \<open>The part of the handler that depends on the type of the event.\<close>

definition follow_memory :: "mem_platform \<Rightarrow> UINT64 \<Rightarrow> INT32 \<Rightarrow> UINT64 \<Rightarrow> UINT64 \<Rightarrow> mem_task \<Rightarrow> mem_task res" where
  "follow_memory P time EvType EvParam EvValue tk =
     (let isBegin = (EvValue = 1); th = task_thread tk in
      if EvType = MALLOC_EV \<or> EvType = MEMKIND_MALLOC_EV \<or> EvType = MEMKIND_POSIX_MEMALIGN_EV \<or> EvType = POSIX_MEMALIGN_EV then
        if isBegin then
          andthen (prv_event P time DYNAMIC_MEM_REQUESTED_SIZE_EV EvParam th) (\<lambda>th.
            Inr (tk\<lparr>task_thread := th\<lparr>AddressSpace_size := EvParam, AddressSpace_timeCreation := time\<rparr>\<rparr>))
        else
          andthen (caller_events P 0 (take MAX_CALLERS (AddressSpace_calleraddresses th)) th) (\<lambda>th.
          andthen (prv_event P (AddressSpace_timeCreation th) SAMPLING_ADDRESS_ALLOCATED_OBJECT_EV 0 th) (\<lambda>th.
          andthen (prv_event P time DYNAMIC_MEM_POINTER_OUT_EV EvParam th) (\<lambda>th.
            add_region P EvParam (tk\<lparr>task_thread := th\<rparr>))))
      else if EvType = FREE_EV \<or> EvType = MEMKIND_FREE_EV then
        if isBegin then
          andthen (prv_event P time DYNAMIC_MEM_POINTER_IN_EV EvParam th) (\<lambda>th.
            Inr (tk\<lparr>task_thread := th, task_space := AddressSpace_remove (task_space tk) EvParam\<rparr>))
        else Inr tk
      else if EvType = REALLOC_EV \<or> EvType = MEMKIND_REALLOC_EV then
        if EvValue = 1 then
          andthen (prv_event P time DYNAMIC_MEM_POINTER_IN_EV EvParam th) (\<lambda>th.
            Inr (tk\<lparr>task_thread := th\<lparr>AddressSpace_size := EvParam\<rparr>\<rparr>))
        else if EvValue = 1 + 1 then
          andthen (prv_event P time DYNAMIC_MEM_REQUESTED_SIZE_EV EvParam th) (\<lambda>th.
            Inr (tk\<lparr>task_thread := th, task_space := AddressSpace_remove (task_space tk) EvParam\<rparr>))
        else
          andthen (prv_event P time DYNAMIC_MEM_POINTER_OUT_EV EvParam th) (\<lambda>th.
            add_region P EvParam (tk\<lparr>task_thread := th\<rparr>))
      else if EvType = CALLOC_EV \<or> EvType = MEMKIND_CALLOC_EV then
        if isBegin then
          andthen (prv_event P time DYNAMIC_MEM_REQUESTED_SIZE_EV EvParam th) (\<lambda>th.
            Inr (tk\<lparr>task_thread := th\<lparr>AddressSpace_size := EvParam\<rparr>\<rparr>))
        else
          andthen (prv_event P time DYNAMIC_MEM_POINTER_OUT_EV EvParam th) (\<lambda>th.
            add_region P EvParam (tk\<lparr>task_thread := th\<rparr>))
      else Inr tk)"

text \<open>The states and the event that close the handler, for a begin or an end.\<close>

definition mark_memory :: "mem_platform \<Rightarrow> UINT64 \<Rightarrow> INT32 \<Rightarrow> UINT64 \<Rightarrow> mem_thread \<Rightarrow> mem_thread res" where
  "mark_memory P time EvType EvValue th =
     (if EvValue = 1 \<or> EvValue = 0 then
        andthen (Get_State EvType) (\<lambda>state.
        andthen (on_stack (Switch_State (state_alloc P) state (EvValue = 1)) (prv_thread th)) (\<lambda>pt.
        andthen (trace_paraver_state (prv_options P) (mem_object P) time pt) (\<lambda>pt.
          prv_event P time DYNAMIC_MEM_EV (if EvValue = 1 then MISC_event_GetValueForDynamicMemory EvType else 0)
            (th\<lparr>prv_thread := pt\<rparr>))))
      else Inr th)"

definition Get_EvParam :: "event_t \<Rightarrow> UINT64" where
  "Get_EvParam e = ucast (Get_EvTarget e) OR push_bit 32 (ucast (Get_EvSize e))"

definition DynamicMemory_Event :: "mem_platform \<Rightarrow> event_t \<Rightarrow> UINT64 \<Rightarrow> mem_task \<Rightarrow> mem_task res" where
  "DynamicMemory_Event P event time tk =
     (let EvType = Get_EvEvent event; EvParam = Get_EvParam event; EvValue = Get_EvValue event in
      andthen (follow_memory P time EvType EvParam EvValue tk) (\<lambda>tk.
      andthen (mark_memory P time EvType EvValue (task_thread tk)) (\<lambda>th.
        Inr (tk\<lparr>task_thread := (if EvValue \<noteq> 1
               then th\<lparr>AddressSpace_calleraddresses := replicate MAX_CALLERS 0\<rparr> else th)\<rparr>))))"

definition DynamicMemory_Partition_Event :: "mem_platform \<Rightarrow> event_t \<Rightarrow> UINT64 \<Rightarrow> mem_task \<Rightarrow> mem_task res" where
  "DynamicMemory_Partition_Event P event time tk =
     andthen (prv_event P time MEMKIND_PARTITION_EV (Get_EvValue event) (task_thread tk)) (\<lambda>th.
       Inr (tk\<lparr>task_thread := th\<rparr>))"

text \<open>The rows of the semantics table for the allocation events, each event at its own time.\<close>

definition memory_event :: "mem_platform \<Rightarrow> event_t \<Rightarrow> mem_task \<Rightarrow> mem_task res" where
  "memory_event P event tk =
     (if Get_EvEvent event = MEMKIND_PARTITION_EV then DynamicMemory_Partition_Event P event (ev_time event) tk
      else DynamicMemory_Event P event (ev_time event) tk)"

fun memory_events :: "mem_platform \<Rightarrow> event_t list \<Rightarrow> mem_task \<Rightarrow> mem_task res" where
  "memory_events P [] tk = Inr tk"
| "memory_events P (e # es) tk = andthen (memory_event P e tk) (memory_events P es)"

section \<open>The effect of one event\<close>

definition regions :: "mem_task \<Rightarrow> (UINT64 \<times> UINT64) multiset" where
  "regions tk = image_mset (\<lambda>x. (fst x, fst (snd x))) (objects (task_space tk))"

definition some_step :: "merge_options \<Rightarrow> thread_t \<Rightarrow> bool" where
  "some_step opts th \<longleftrightarrow> (\<exists>w. in_step opts th w)"

lemma some_stepI: "in_step opts th w \<Longrightarrow> some_step opts th"
  unfolding some_step_def by blast

definition thread_ok :: "mem_platform \<Rightarrow> mem_thread \<Rightarrow> bool" where
  "thread_ok P th \<longleftrightarrow> some_step (prv_options P) (prv_thread th) \<and> length (AddressSpace_calleraddresses th) = MAX_CALLERS"

definition mem_ok :: "mem_platform \<Rightarrow> mem_task \<Rightarrow> bool" where
  "mem_ok P tk \<longleftrightarrow> thread_ok P (task_thread tk) \<and> space_inv (task_space tk)"

definition platform_ok :: "mem_platform \<Rightarrow> bool" where
  "platform_ok P \<longleftrightarrow> ample (state_alloc P) \<and> ample (space_malloc (space_of P)) \<and> \<not> Last_State (prv_options P) \<and>
     known_task (prv_options P) (mem_object P)"

definition only_prv :: "mem_platform \<Rightarrow> mem_thread \<Rightarrow> mem_thread res \<Rightarrow> bool" where
  "only_prv P th r \<longleftrightarrow> (\<exists>pt. r = Inr (th\<lparr>prv_thread := pt\<rparr>) \<and> thread_ok P (th\<lparr>prv_thread := pt\<rparr>))"

lemma prv_event_ok:
  assumes "platform_ok P" and "thread_ok P th"
  shows "only_prv P th (prv_event P t type v th)"
proof -
  from assms(2) obtain w where w: "in_step (prv_options P) (prv_thread th) w"
    unfolding thread_ok_def some_step_def by blast
  from assms(1) have "proper_call (prv_options P) (mem_object P) (Emit t type v)" by (simp add: platform_ok_def)
  from other_call_step [OF w this] obtain pt where
    "trace_paraver_event (prv_options P) (mem_object P) t type v (prv_thread th) = Inr pt" "in_step (prv_options P) pt w"
    by auto
  with assms(2) some_stepI [OF this(2)] show ?thesis by (auto simp: only_prv_def prv_event_def thread_ok_def)
qed

lemma only_prv_bind:
  assumes "only_prv P th r" and "\<And>pt. thread_ok P (th\<lparr>prv_thread := pt\<rparr>) \<Longrightarrow> only_prv P (th\<lparr>prv_thread := pt\<rparr>) (f (th\<lparr>prv_thread := pt\<rparr>))"
  shows "only_prv P th (andthen r f)"
  using assms by (fastforce simp: only_prv_def)

lemma caller_events_ok:
  assumes "platform_ok P" and "thread_ok P th"
  shows "only_prv P th (caller_events P u as th)"
  using assms(2)
proof (induction as arbitrary: u th)
  case Nil
  then show ?case by (auto simp: only_prv_def intro!: exI [of _ "prv_thread th"])
next
  case (Cons a as)
  have "only_prv P th (if a \<noteq> 0 then prv_event P t ty a th else Inr th)" for t ty
    using prv_event_ok [OF assms(1) Cons.prems] Cons.prems
    by (auto simp: only_prv_def intro!: exI [of _ "prv_thread th"])
  then show ?case unfolding caller_events.simps by (rule only_prv_bind) (rule Cons.IH)
qed

lemma mark_memory_ok:
  assumes "platform_ok P" and "thread_ok P th" and "Get_State EvType = Inr s"
  shows "only_prv P th (mark_memory P time EvType EvValue th)"
proof (cases "EvValue = 1 \<or> EvValue = 0")
  case True
  from assms(2) obtain w where w: "in_step (prv_options P) (prv_thread th) w"
    unfolding thread_ok_def some_step_def by blast
  from assms(1) have p: "ample (state_alloc P)" "\<not> Last_State (prv_options P)" by (simp_all add: platform_ok_def)
  from switch_step [OF w p(1), of s "EvValue = 1"] obtain st where
    st: "on_stack (Switch_State (state_alloc P) s (EvValue = 1)) (prv_thread th) = Inr ((prv_thread th)\<lparr>thread_stack := st\<rparr>)"
    "in_step (prv_options P) ((prv_thread th)\<lparr>thread_stack := st\<rparr>) w" by (auto simp: on_stack_def)
  from mark_step [OF st(2) p(2), of "mem_object P" time] obtain pt w' where
    pt: "trace_paraver_state (prv_options P) (mem_object P) time ((prv_thread th)\<lparr>thread_stack := st\<rparr>) = Inr pt"
    "in_step (prv_options P) pt w'" by blast
  have "thread_ok P (th\<lparr>prv_thread := pt\<rparr>)" using some_stepI [OF pt(2)] assms(2) by (simp add: thread_ok_def)
  from prv_event_ok [OF assms(1) this] True st(1) pt(1) assms(3) show ?thesis
    by (auto simp: mark_memory_def only_prv_def)
next
  case False
  with assms(2) show ?thesis by (auto simp: mark_memory_def only_prv_def intro!: exI [of _ "prv_thread th"])
qed

text \<open>The handler, once what its first part does is known.\<close>

lemma event_after_follow:
  assumes "platform_ok P" and "follow_memory P t (Get_EvEvent e) (Get_EvParam e) (Get_EvValue e) tk = Inr tk1"
    and "mem_ok P tk1" and "Get_State (Get_EvEvent e) = Inr s"
  shows "\<exists>tk'. DynamicMemory_Event P e t tk = Inr tk' \<and> mem_ok P tk' \<and> regions tk' = regions tk1 \<and>
    AddressSpace_size (task_thread tk') = AddressSpace_size (task_thread tk1)"
proof -
  from mark_memory_ok [OF assms(1) _ assms(4), of "task_thread tk1" t "Get_EvValue e"] assms(3) obtain pt where
    "mark_memory P t (Get_EvEvent e) (Get_EvValue e) (task_thread tk1) = Inr ((task_thread tk1)\<lparr>prv_thread := pt\<rparr>)"
    "thread_ok P ((task_thread tk1)\<lparr>prv_thread := pt\<rparr>)" by (auto simp: mem_ok_def only_prv_def)
  with assms(2,3) show ?thesis
    by (auto simp: DynamicMemory_Event_def Let_def mem_ok_def regions_def thread_ok_def)
qed

definition allocates :: "INT32 \<Rightarrow> bool" where
  "allocates type \<longleftrightarrow> type \<in> {MALLOC_EV, MEMKIND_MALLOC_EV, MEMKIND_POSIX_MEMALIGN_EV, POSIX_MEMALIGN_EV, CALLOC_EV, MEMKIND_CALLOC_EV}"

definition reallocates :: "INT32 \<Rightarrow> bool" where
  "reallocates type \<longleftrightarrow> type \<in> {REALLOC_EV, MEMKIND_REALLOC_EV}"

definition frees :: "INT32 \<Rightarrow> bool" where
  "frees type \<longleftrightarrow> type \<in> {FREE_EV, MEMKIND_FREE_EV}"

lemma Get_State_memory:
  "allocates type \<or> reallocates type \<or> frees type \<Longrightarrow> \<exists>s. Get_State type = Inr s"
  by (auto simp: allocates_def reallocates_def frees_def Get_State_def)

lemma size_event:
  assumes "platform_ok P" and "mem_ok P tk" and "allocates (Get_EvEvent e) \<or> reallocates (Get_EvEvent e)" and "Get_EvValue e = 1"
  shows "\<exists>tk'. DynamicMemory_Event P e t tk = Inr tk' \<and> mem_ok P tk' \<and> regions tk' = regions tk \<and>
    AddressSpace_size (task_thread tk') = Get_EvParam e"
proof -
  have ok: "thread_ok P (task_thread tk)" using assms(2) by (simp add: mem_ok_def)
  have ev: "\<exists>pt. prv_event P t ty v (task_thread tk) = Inr ((task_thread tk)\<lparr>prv_thread := pt\<rparr>) \<and>
      thread_ok P ((task_thread tk)\<lparr>prv_thread := pt\<rparr>)" for ty v
    using prv_event_ok [OF assms(1) ok, of t ty v] by (simp add: only_prv_def)
  have "\<exists>tk1. follow_memory P t (Get_EvEvent e) (Get_EvParam e) (Get_EvValue e) tk = Inr tk1 \<and> mem_ok P tk1 \<and>
      regions tk1 = regions tk \<and> AddressSpace_size (task_thread tk1) = Get_EvParam e"
    using assms(2,3,4) ev [of DYNAMIC_MEM_REQUESTED_SIZE_EV "Get_EvParam e"] ev [of DYNAMIC_MEM_POINTER_IN_EV "Get_EvParam e"]
    by (auto simp: follow_memory_def allocates_def reallocates_def mem_ok_def regions_def thread_ok_def)
  with event_after_follow [OF assms(1)] Get_State_memory [of "Get_EvEvent e"] assms(3) show ?thesis by metis
qed

definition removed :: "UINT64 \<Rightarrow> (UINT64 \<times> UINT64) multiset \<Rightarrow> (UINT64 \<times> UINT64) multiset \<Rightarrow> bool" where
  "removed p R R' \<longleftrightarrow> (\<forall>x \<in># R. fst x \<noteq> p) \<and> R' = R \<or> (\<exists>x. fst x = p \<and> R = add_mset x R')"

lemma remove_regions:
  assumes "space_inv (task_space tk)"
  shows "removed p (regions tk) (regions (tk\<lparr>task_space := AddressSpace_remove (task_space tk) p\<rparr>))"
  using remove_inv(2) [OF assms, of p] by (auto simp: removed_def regions_def)

lemma add_region_ok:
  assumes "platform_ok P" and "mem_ok P tk"
  shows "\<exists>tk'. add_region P p tk = Inr tk' \<and> mem_ok P tk' \<and> task_thread tk' = task_thread tk \<and>
    regions tk' = add_mset (p, p + AddressSpace_size (task_thread tk)) (regions tk)"
proof -
  let ?th = "task_thread tk"
  have inv: "space_inv (task_space tk)" "length (AddressSpace_calleraddresses ?th) = MAX_CALLERS"
    using assms(2) by (simp_all add: mem_ok_def thread_ok_def)
  have "\<exists>as. AddressSpace_add (space_of P) (task_space tk) p (p + AddressSpace_size ?th)
      (AddressSpace_calleraddresses ?th) (AddressSpace_callertype ?th) = Inr as"
    using assms(1) inv by (intro add_returns) (simp_all add: platform_ok_def ample_def)
  then obtain as where as: "AddressSpace_add (space_of P) (task_space tk) p (p + AddressSpace_size ?th)
      (AddressSpace_calleraddresses ?th) (AddressSpace_callertype ?th) = Inr as" ..
  from add_cases [OF as inv(1)] as assms(2) show ?thesis
    by (auto simp: add_region_def mem_ok_def regions_def)
qed

text \<open>The event of a free, of the null pointer's end, and of an end of an allocation.\<close>

lemma remove_event:
  assumes "platform_ok P" and "mem_ok P tk"
    and "frees (Get_EvEvent e) \<and> Get_EvValue e = 1 \<or> reallocates (Get_EvEvent e) \<and> Get_EvValue e = 1 + 1"
  shows "\<exists>tk'. DynamicMemory_Event P e t tk = Inr tk' \<and> mem_ok P tk' \<and> removed (Get_EvParam e) (regions tk) (regions tk') \<and>
    AddressSpace_size (task_thread tk') = AddressSpace_size (task_thread tk)"
proof -
  have ok: "thread_ok P (task_thread tk)" "space_inv (task_space tk)" using assms(2) by (simp_all add: mem_ok_def)
  have ev: "\<exists>pt. prv_event P t ty v (task_thread tk) = Inr ((task_thread tk)\<lparr>prv_thread := pt\<rparr>) \<and>
      thread_ok P ((task_thread tk)\<lparr>prv_thread := pt\<rparr>)" for ty v
    using prv_event_ok [OF assms(1) ok(1), of t ty v] by (simp add: only_prv_def)
  have r: "removed p (regions tk) (regions (tk\<lparr>task_thread := th, task_space := AddressSpace_remove (task_space tk) p\<rparr>))" for th p
    using remove_regions [OF ok(2), of p] by (simp add: regions_def)
  have "\<exists>tk1. follow_memory P t (Get_EvEvent e) (Get_EvParam e) (Get_EvValue e) tk = Inr tk1 \<and> mem_ok P tk1 \<and>
      removed (Get_EvParam e) (regions tk) (regions tk1) \<and> AddressSpace_size (task_thread tk1) = AddressSpace_size (task_thread tk)"
    using assms(3) ok(2) r remove_inv(1) [OF ok(2)]
      ev [of DYNAMIC_MEM_REQUESTED_SIZE_EV "Get_EvParam e"] ev [of DYNAMIC_MEM_POINTER_IN_EV "Get_EvParam e"]
    by (auto simp: follow_memory_def frees_def reallocates_def mem_ok_def)
  then obtain tk1 where 1: "follow_memory P t (Get_EvEvent e) (Get_EvParam e) (Get_EvValue e) tk = Inr tk1" "mem_ok P tk1"
    "removed (Get_EvParam e) (regions tk) (regions tk1)" "AddressSpace_size (task_thread tk1) = AddressSpace_size (task_thread tk)"
    by blast
  from Get_State_memory [of "Get_EvEvent e"] assms(3) obtain s where "Get_State (Get_EvEvent e) = Inr s" by blast
  from event_after_follow [OF assms(1) 1(1,2) this] 1(3,4) show ?thesis by metis
qed

lemma free_end_event:
  assumes "platform_ok P" and "mem_ok P tk" and "frees (Get_EvEvent e)" and "Get_EvValue e = 0"
  shows "\<exists>tk'. DynamicMemory_Event P e t tk = Inr tk' \<and> mem_ok P tk' \<and> regions tk' = regions tk"
proof -
  have "follow_memory P t (Get_EvEvent e) (Get_EvParam e) (Get_EvValue e) tk = Inr tk"
    using assms(3,4) by (auto simp: follow_memory_def frees_def)
  moreover from Get_State_memory [of "Get_EvEvent e"] assms(3) obtain s where "Get_State (Get_EvEvent e) = Inr s" by blast
  ultimately show ?thesis using event_after_follow [OF assms(1) _ assms(2)] by blast
qed

lemma add_event:
  assumes "platform_ok P" and "mem_ok P tk" and "allocates (Get_EvEvent e) \<or> reallocates (Get_EvEvent e)" and "Get_EvValue e = 0"
  shows "\<exists>tk'. DynamicMemory_Event P e t tk = Inr tk' \<and> mem_ok P tk' \<and>
    regions tk' = add_mset (Get_EvParam e, Get_EvParam e + AddressSpace_size (task_thread tk)) (regions tk)"
proof -
  let ?th = "task_thread tk" and ?p = "Get_EvParam e"
  have ok: "thread_ok P ?th" "space_inv (task_space tk)" using assms(2) by (simp_all add: mem_ok_def)
  have pointer_out: "only_prv P th (prv_event P t DYNAMIC_MEM_POINTER_OUT_EV ?p th)" if "thread_ok P th" for th
    by (rule prv_event_ok [OF assms(1) that])
  have callers: "only_prv P ?th (andthen (caller_events P 0 (take MAX_CALLERS (AddressSpace_calleraddresses ?th)) ?th) (\<lambda>th.
      andthen (prv_event P (AddressSpace_timeCreation th) SAMPLING_ADDRESS_ALLOCATED_OBJECT_EV 0 th)
        (prv_event P t DYNAMIC_MEM_POINTER_OUT_EV ?p)))"
    by (intro only_prv_bind caller_events_ok prv_event_ok assms(1) ok(1))
  define pre where "pre = (if Get_EvEvent e = MALLOC_EV \<or> Get_EvEvent e = MEMKIND_MALLOC_EV \<or> Get_EvEvent e = MEMKIND_POSIX_MEMALIGN_EV \<or>
      Get_EvEvent e = POSIX_MEMALIGN_EV
    then andthen (caller_events P 0 (take MAX_CALLERS (AddressSpace_calleraddresses ?th)) ?th) (\<lambda>th.
      andthen (prv_event P (AddressSpace_timeCreation th) SAMPLING_ADDRESS_ALLOCATED_OBJECT_EV 0 th)
        (prv_event P t DYNAMIC_MEM_POINTER_OUT_EV ?p))
    else prv_event P t DYNAMIC_MEM_POINTER_OUT_EV ?p ?th)"
  have "only_prv P ?th pre" using callers pointer_out [OF ok(1)] by (simp add: pre_def)
  then obtain pt where pt: "pre = Inr (?th\<lparr>prv_thread := pt\<rparr>)" "thread_ok P (?th\<lparr>prv_thread := pt\<rparr>)"
    by (auto simp: only_prv_def)
  have f: "follow_memory P t (Get_EvEvent e) ?p (Get_EvValue e) tk = andthen pre (\<lambda>th. add_region P ?p (tk\<lparr>task_thread := th\<rparr>))"
    using assms(3,4) by (auto simp: follow_memory_def pre_def allocates_def reallocates_def andthen_assoc Let_def)
  have "mem_ok P (tk\<lparr>task_thread := ?th\<lparr>prv_thread := pt\<rparr>\<rparr>)" using pt(2) ok(2) by (simp add: mem_ok_def)
  from add_region_ok [OF assms(1) this, of ?p] obtain tk1 where
    1: "follow_memory P t (Get_EvEvent e) ?p (Get_EvValue e) tk = Inr tk1" "mem_ok P tk1"
    "regions tk1 = add_mset (?p, ?p + AddressSpace_size ?th) (regions tk)"
    using f pt(1) by (auto simp: regions_def)
  from Get_State_memory [of "Get_EvEvent e"] assms(3) obtain s where "Get_State (Get_EvEvent e) = Inr s" by blast
  from event_after_follow [OF assms(1) 1(1,2) this] 1(3) show ?thesis by metis
qed

lemma partition_event:
  assumes "platform_ok P" and "mem_ok P tk"
  shows "\<exists>tk'. DynamicMemory_Partition_Event P e t tk = Inr tk' \<and> mem_ok P tk' \<and> regions tk' = regions tk \<and>
    AddressSpace_size (task_thread tk') = AddressSpace_size (task_thread tk)"
  using prv_event_ok [OF assms(1), of "task_thread tk" t MEMKIND_PARTITION_EV "Get_EvValue e"] assms(2)
  by (auto simp: DynamicMemory_Partition_Event_def only_prv_def mem_ok_def regions_def)

end
