(* ===== verification/MemoryTrace.thy ===== *)
theory MemoryTrace
  imports DynamicMemory
begin

text \<open>
  From the calls of a program to the address space of the merger: the wrappers trace the calls, the
  merger follows the events. The specification keeps the traced blocks that are live, with the
  sizes the program asked for.
\<close>

datatype mem_call =
    Malloc UINT64 pointer
  | Posix_memalign UINT64 int pointer
  | Memkind_malloc UINT64 UINT64 pointer
  | Memkind_calloc UINT64 UINT64 UINT64 pointer
  | Memkind_posix_memalign UINT64 UINT64 int pointer
  | Free pointer
  | Memkind_free UINT64 pointer
  | Realloc pointer UINT64 pointer
  | Memkind_realloc UINT64 pointer UINT64 pointer

fun wrapper :: "tracer_options \<Rightarrow> UINT64 \<Rightarrow> UINT64 \<Rightarrow> mem_call \<Rightarrow> malloc_table \<Rightarrow> traced res" where
  "wrapper opts t0 t1 (Malloc s p) m = malloc_wrapper opts t0 t1 s p m"
| "wrapper opts t0 t1 (Posix_memalign s r p) m = posix_memalign_wrapper opts t0 t1 s r p m"
| "wrapper opts t0 t1 (Memkind_malloc k s p) m = memkind_malloc_wrapper opts t0 t1 k s p m"
| "wrapper opts t0 t1 (Memkind_calloc k n s p) m = memkind_calloc_wrapper opts t0 t1 k n s p m"
| "wrapper opts t0 t1 (Memkind_posix_memalign k s r p) m = memkind_posix_memalign_wrapper opts t0 t1 k s r p m"
| "wrapper opts t0 t1 (Free p) m = free_wrapper opts t0 t1 p m"
| "wrapper opts t0 t1 (Memkind_free k p) m = memkind_free_wrapper opts t0 t1 k p m"
| "wrapper opts t0 t1 (Realloc p s q) m = realloc_wrapper opts t0 t1 p s q m"
| "wrapper opts t0 t1 (Memkind_realloc k p s q) m = memkind_realloc_wrapper opts t0 t1 k p s q m"

text \<open>A history: the calls with the times before and after each.\<close>

type_synonym history = "(UINT64 \<times> UINT64 \<times> mem_call) list"

fun trace_history :: "tracer_options \<Rightarrow> history \<Rightarrow> malloc_table \<Rightarrow> traced res" where
  "trace_history opts [] m = Inr ([], m)"
| "trace_history opts ((t0, t1, c) # h) m =
     andthen (wrapper opts t0 t1 c m) (\<lambda>(es, m).
     andthen (trace_history opts h m) (\<lambda>(fs, m). Inr (es @ fs, m)))"

section \<open>The blocks of a program\<close>

type_synonym blocks = "(pointer \<times> UINT64) list"

text \<open>The block a successful call gives, with the size that is compared with the threshold.\<close>

fun new_block :: "mem_call \<Rightarrow> (UINT64 \<times> pointer \<times> UINT64) option" where
  "new_block (Malloc s p) = Some (s, p, s)"
| "new_block (Posix_memalign s r p) = Some (s, p, s)"
| "new_block (Memkind_malloc k s p) = Some (s, p, s)"
| "new_block (Memkind_calloc k n s p) = Some (s, p, n * s)"
| "new_block (Memkind_posix_memalign k s r p) = Some (s, p, s)"
| "new_block c = None"

fun old_block :: "mem_call \<Rightarrow> pointer option" where
  "old_block (Free p) = Some p"
| "old_block (Memkind_free k p) = Some p"
| "old_block c = None"

definition after_call :: "tracer_options \<Rightarrow> mem_call \<Rightarrow> blocks \<Rightarrow> blocks" where
  "after_call opts c live =
     (case new_block c of
        Some (asked, p, s) \<Rightarrow> if can_allocate opts asked then (p, s) # live else live
      | None \<Rightarrow> (case old_block c of None \<Rightarrow> live | Some p \<Rightarrow> filter (\<lambda>b. fst b \<noteq> p) live))"

fun result_ok :: "mem_call \<Rightarrow> bool" where
  "result_ok (Posix_memalign s r p) \<longleftrightarrow> r = 0"
| "result_ok (Memkind_posix_memalign k s r p) \<longleftrightarrow> r = 0"
| "result_ok (Realloc p s q) \<longleftrightarrow> False"
| "result_ok (Memkind_realloc k p s q) \<longleftrightarrow> False"
| "result_ok c \<longleftrightarrow> True"

text \<open>Calls that succeed, with a pointer that no live block has, and no \<open>realloc\<close>.\<close>

definition sane_call :: "mem_call \<Rightarrow> blocks \<Rightarrow> bool" where
  "sane_call c live \<longleftrightarrow> result_ok c \<and>
     (case new_block c of None \<Rightarrow> True | Some (asked, p, s) \<Rightarrow> p \<noteq> 0 \<and> p \<notin> fst ` set live)"

fun sane :: "tracer_options \<Rightarrow> history \<Rightarrow> blocks \<Rightarrow> bool" where
  "sane opts [] live \<longleftrightarrow> True"
| "sane opts ((t0, t1, c) # h) live \<longleftrightarrow> sane_call c live \<and> sane opts h (after_call opts c live)"

fun live_after :: "tracer_options \<Rightarrow> history \<Rightarrow> blocks \<Rightarrow> blocks" where
  "live_after opts [] live = live"
| "live_after opts ((t0, t1, c) # h) live = live_after opts h (after_call opts c live)"

definition extents :: "blocks \<Rightarrow> (UINT64 \<times> UINT64) multiset" where
  "extents live = mset (map (\<lambda>(p, s). (p, p + s)) live)"

lemma removed_extents:
  assumes "removed p (extents live) R" and "distinct (map fst live)"
  shows "R = extents (filter (\<lambda>b. fst b \<noteq> p) live)"
proof (cases "p \<in> fst ` set live")
  case False
  then have "filter (\<lambda>b. fst b \<noteq> p) live = live" by (auto simp: filter_id_conv)
  moreover have "\<forall>x \<in># extents live. fst x \<noteq> p" using False by (force simp: extents_def)
  ultimately show ?thesis using assms(1) by (auto simp: removed_def)
next
  case True
  then obtain s where s: "(p, s) \<in> set live" by auto
  then obtain as bs where live: "live = as @ (p, s) # bs" by (meson split_list)
  with assms(2) have out: "\<forall>b \<in> set as \<union> set bs. fst b \<noteq> p" by force
  then have f: "filter (\<lambda>b. fst b \<noteq> p) live = as @ bs" by (auto simp: live filter_id_conv)
  have e: "extents live = add_mset (p, p + s) (extents (as @ bs))" by (simp add: extents_def live)
  have "\<forall>x \<in># extents (as @ bs). fst x \<noteq> p" using out by (force simp: extents_def)
  moreover from assms(1) e obtain x where x: "fst x = p" "extents live = add_mset x R"
    by (auto simp: removed_def)
  ultimately have "x = (p, p + s)" by (metis e union_single_eq_member insert_noteq_member)
  with x(2) e f show ?thesis by simp
qed

section \<open>The events of a call\<close>

lemma Get_EvParam_misc [simp]: "Get_EvParam (misc_event opts t type v p) = p"
  by (rule bit_word_eqI)
    (auto simp: Get_EvParam_def misc_event_def Get_EvTarget_def Get_EvSize_def bit_simps)

lemma misc_event_fields [simp]:
  "Get_EvEvent (misc_event opts t type v p) = type" "Get_EvValue (misc_event opts t type v p) = v"
  by (simp_all add: misc_event_def Get_EvEvent_def Get_EvValue_def)

lemma memory_events_append: "memory_events P (es @ fs) tk = andthen (memory_events P es tk) (memory_events P fs)"
  by (induction P es tk rule: memory_events.induct) (auto simp: andthen_assoc intro!: andthen_cong)

definition partitions :: "event_t list \<Rightarrow> bool" where
  "partitions es \<longleftrightarrow> list_all (\<lambda>e. Get_EvEvent e = MEMKIND_PARTITION_EV) es"

lemma partitions_ok:
  assumes "platform_ok P" and "mem_ok P tk" and "partitions es"
  shows "\<exists>tk'. memory_events P es tk = Inr tk' \<and> mem_ok P tk' \<and> regions tk' = regions tk \<and>
    AddressSpace_size (task_thread tk') = AddressSpace_size (task_thread tk)"
  using assms(2,3)
proof (induction es arbitrary: tk)
  case (Cons e es)
  from partition_event [OF assms(1) Cons.prems(1), of e "ev_time e"] obtain tk1 where
    "DynamicMemory_Partition_Event P e (ev_time e) tk = Inr tk1" "mem_ok P tk1" "regions tk1 = regions tk"
    "AddressSpace_size (task_thread tk1) = AddressSpace_size (task_thread tk)" by blast
  with Cons.IH [of tk1] Cons.prems(2) show ?case by (auto simp: memory_event_def partitions_def)
qed simp

lemma not_partition: "allocates type \<or> reallocates type \<or> frees type \<Longrightarrow> type \<noteq> MEMKIND_PARTITION_EV"
  by (auto simp: allocates_def reallocates_def frees_def)

lemma block_added:
  assumes "platform_ok P" and "mem_ok P tk" and "allocates a" and "allocates b" and "partitions es" and "partitions fs"
  shows "\<exists>tk'. memory_events P (misc_event opts t0 a 1 s # es @ misc_event opts t1 b 0 p # fs) tk = Inr tk' \<and> mem_ok P tk' \<and>
    regions tk' = add_mset (p, p + s) (regions tk)"
proof -
  let ?b = "misc_event opts t0 a 1 s" and ?e = "misc_event opts t1 b 0 p"
  from size_event [OF assms(1,2), of ?b "ev_time ?b"] assms(3) obtain tk1 where
    1: "memory_event P ?b tk = Inr tk1" "mem_ok P tk1" "regions tk1 = regions tk" "AddressSpace_size (task_thread tk1) = s"
    by (auto simp: memory_event_def not_partition)
  from partitions_ok [OF assms(1) 1(2) assms(5)] obtain tk2 where
    2: "memory_events P es tk1 = Inr tk2" "mem_ok P tk2" "regions tk2 = regions tk1" "AddressSpace_size (task_thread tk2) = s"
    using 1(4) by auto
  from add_event [OF assms(1) 2(2), of ?e "ev_time ?e"] assms(4) obtain tk3 where
    3: "memory_event P ?e tk2 = Inr tk3" "mem_ok P tk3" "regions tk3 = add_mset (p, p + s) (regions tk2)"
    using 2(4) by (auto simp: memory_event_def not_partition)
  from partitions_ok [OF assms(1) 3(2) assms(6)] obtain tk4 where
    "memory_events P fs tk3 = Inr tk4" "mem_ok P tk4" "regions tk4 = regions tk3" by blast
  with 1 2 3 show ?thesis by (simp add: memory_events_append)
qed

lemma block_removed:
  assumes "platform_ok P" and "mem_ok P tk" and "frees a" and "partitions es" and "partitions fs"
  shows "\<exists>tk'. memory_events P (misc_event opts t0 a 1 p # es @ misc_event opts t1 a 0 0 # fs) tk = Inr tk' \<and> mem_ok P tk' \<and>
    removed p (regions tk) (regions tk')"
proof -
  let ?b = "misc_event opts t0 a 1 p" and ?e = "misc_event opts t1 a 0 0"
  from remove_event [OF assms(1,2), of ?b "ev_time ?b"] assms(3) obtain tk1 where
    1: "memory_event P ?b tk = Inr tk1" "mem_ok P tk1" "removed p (regions tk) (regions tk1)"
    by (auto simp: memory_event_def not_partition)
  from partitions_ok [OF assms(1) 1(2) assms(4)] obtain tk2 where
    2: "memory_events P es tk1 = Inr tk2" "mem_ok P tk2" "regions tk2 = regions tk1" by auto
  from free_end_event [OF assms(1) 2(2), of ?e "ev_time ?e"] assms(3) obtain tk3 where
    3: "memory_event P ?e tk2 = Inr tk3" "mem_ok P tk3" "regions tk3 = regions tk2"
    by (auto simp: memory_event_def not_partition)
  from partitions_ok [OF assms(1) 3(2) assms(5)] obtain tk4 where
    "memory_events P fs tk3 = Inr tk4" "mem_ok P tk4" "regions tk4 = regions tk3" by blast
  with 1 2 3 show ?thesis by (simp add: memory_events_append)
qed

section \<open>One call\<close>

definition tracing_on :: "tracer_options \<Rightarrow> bool" where
  "tracing_on opts \<longleftrightarrow> EXTRAE_INITIALIZED opts \<and> mpitrace_on opts \<and> tracejant opts \<and> TracingBitmap_TASKID opts \<and> trace_malloc opts \<and>
     trace_malloc_allocate opts \<and> trace_malloc_free opts \<and> \<not> inInstrumentation opts \<and> hooked opts \<and>
     ample (tracer_malloc opts)"

definition follows :: "mem_platform \<Rightarrow> blocks \<Rightarrow> malloc_table \<Rightarrow> mem_task \<Rightarrow> bool" where
  "follows P live m tk \<longleftrightarrow> table_inv m \<and> mem_ok P tk \<and> distinct (map fst live) \<and> 0 \<notin> fst ` set live \<and>
     pointers m = mset (map fst live) \<and> regions tk = extents live"

text \<open>An allocating wrapper, from the facts its probes give.\<close>

lemma alloc_call:
  assumes "platform_ok P" and "tracing_on opts" and "follows P live m tk" and "p \<noteq> 0" and "p \<notin> fst ` set live"
    and "w = wrapped opts (can_allocate opts asked) entry (\<lambda>m. Extrae_malloctrace_add (tracer_malloc opts) m p) exit m"
    and "entry = misc_event opts t0 a 1 s # es" and "exit = misc_event opts t1 b 0 p # fs"
    and "allocates a" and "allocates b" and "partitions es" and "partitions fs"
  shows "\<exists>evs m' tk'. w = Inr (evs, m') \<and> memory_events P evs tk = Inr tk' \<and>
    follows P (if can_allocate opts asked then (p, s) # live else live) m' tk'"
proof (cases "can_allocate opts asked")
  case True
  have inv: "table_inv m" "mem_ok P tk" using assms(3) by (simp_all add: follows_def)
  have "table_room (tracer_malloc opts) n" for n using assms(2) by (simp add: tracing_on_def ample_def table_room_def)
  from traced.add_step [OF inv(1) assms(4) this] obtain m' where
    m': "Extrae_malloctrace_add (tracer_malloc opts) m p = Inr m'" "table_inv m'" "pointers m' = add_mset p (pointers m)" .
  from block_added [OF assms(1) inv(2) assms(9-12), of opts t0 s t1 p] obtain tk' where
    tk': "memory_events P (entry @ exit) tk = Inr tk'" "mem_ok P tk'" "regions tk' = add_mset (p, p + s) (regions tk)"
    by (auto simp: assms(7,8))
  have "w = Inr (entry @ exit, m')" using True assms(2,6) m'(1) by (simp add: wrapped_def tracing_on_def)
  moreover have "follows P ((p, s) # live) m' tk'"
    using assms(3-5) m'(2,3) tk'(2,3) by (auto simp: follows_def extents_def)
  ultimately show ?thesis using True tk'(1) by auto
next
  case False
  with assms(2,3,6) show ?thesis by (auto simp: wrapped_def tracing_on_def)
qed

lemma pointers_without:
  "distinct (map fst live) \<Longrightarrow> mset (map fst live) - {#p#} = mset (map fst (filter (\<lambda>b. fst b \<noteq> p) live))"
proof (induction live)
  case (Cons b live)
  then show ?case
    by (cases "fst b = p") (auto simp: filter_id_conv add_mset_remove_trivial_If)
qed simp

lemma free_call:
  assumes "platform_ok P" and "tracing_on opts" and "follows P live m tk"
    and "w = (let (present, m) = Extrae_malloctrace_remove m p in
      wrapped opts (trace_malloc_free opts \<and> can_free opts \<and> present) entry Inr exit m)"
    and "entry = misc_event opts t0 a 1 p # es" and "exit = misc_event opts t1 a 0 0 # fs"
    and "frees a" and "partitions es" and "partitions fs"
  shows "\<exists>evs m' tk'. w = Inr (evs, m') \<and> memory_events P evs tk = Inr tk' \<and>
    follows P (filter (\<lambda>b. fst b \<noteq> p) live) m' tk'"
proof (cases "p = 0")
  case True
  have "filter (\<lambda>b. fst b \<noteq> p) live = live"
    using assms(3) True by (force simp: follows_def filter_id_conv)
  with True assms(2,3,4) show ?thesis
    by (auto simp: wrapped_def tracing_on_def Extrae_malloctrace_remove_def)
next
  case False
  let ?m = "snd (Extrae_malloctrace_remove m p)"
  have f: "table_inv m" "mem_ok P tk" "distinct (map fst live)" "pointers m = mset (map fst live)" "regions tk = extents live"
    using assms(3) by (simp_all add: follows_def)
  note removed_pointer = table_remove [OF f(1) False]
  have ps: "pointers ?m = mset (map fst (filter (\<lambda>b. fst b \<noteq> p) live))"
    by (simp only: removed_pointer(3) f(4) pointers_without [OF f(3)])
  have present: "fst (Extrae_malloctrace_remove m p) \<longleftrightarrow> p \<in> fst ` set live"
    using removed_pointer(1) f(4) by simp
  show ?thesis
  proof (cases "p \<in> fst ` set live")
    case live: True
    from block_removed [OF assms(1) f(2) assms(7-9), of opts t0 p t1] obtain tk' where
      tk': "memory_events P (entry @ exit) tk = Inr tk'" "mem_ok P tk'" "removed p (regions tk) (regions tk')"
      by (auto simp: assms(5,6))
    have "w = Inr (entry @ exit, ?m)"
      using live present assms(2,4) by (simp add: wrapped_def tracing_on_def can_free_def case_prod_unfold)
    moreover have "regions tk' = extents (filter (\<lambda>b. fst b \<noteq> p) live)"
      using removed_extents [of p live "regions tk'"] tk'(3) f(3,5) by simp
    moreover have "distinct (map fst (filter (\<lambda>b. fst b \<noteq> p) live))" using f(3) by (rule distinct_map_filter)
    ultimately show ?thesis
      using assms(3) removed_pointer(2) ps tk'(1,2) by (auto simp: follows_def)
  next
    case False
    have "filter (\<lambda>b. fst b \<noteq> p) live = live" using False by (auto simp: filter_id_conv)
    moreover have "w = Inr ([], ?m)"
      using False present assms(2,4) by (simp add: wrapped_def tracing_on_def case_prod_unfold)
    ultimately show ?thesis using assms(3) removed_pointer(2) ps by (auto simp: follows_def)
  qed
qed

lemma sane_call_step:
  assumes "platform_ok P" and "tracing_on opts" and "follows P live m tk" and "sane_call c live"
  shows "\<exists>evs m' tk'. wrapper opts t0 t1 c m = Inr (evs, m') \<and> memory_events P evs tk = Inr tk' \<and>
    follows P (after_call opts c live) m' tk'"
proof -
  have on: "mpitrace_on opts" "trace_malloc opts" "tracejant opts" "TracingBitmap_TASKID opts" using assms(2) by (simp_all add: tracing_on_def)
  note probes = on probing_def TRACE_MISCEVENT_def partitions_def allocates_def frees_def
  note alloc = alloc_call [OF assms(1-3)] and rel = free_call [OF assms(1-3)]
  show ?thesis
  proof (cases c)
    case (Malloc s p)
    with assms(4) have p: "p \<noteq> 0" "p \<notin> fst ` set live" by (simp_all add: sane_call_def)
    show ?thesis
      using alloc [OF p, of "wrapper opts t0 t1 c m" s "Probe_Malloc_Entry opts t0 s" "Probe_Malloc_Exit opts t1 p" t0 MALLOC_EV s "[]" t1 MALLOC_EV "[]"] p
      by (simp add: Malloc malloc_wrapper_def Probe_Malloc_Entry_def Probe_Malloc_Exit_def probes after_call_def)
  next
    case (Posix_memalign s r p)
    with assms(4) have p: "p \<noteq> 0" "p \<notin> fst ` set live" "r = 0" by (simp_all add: sane_call_def)
    show ?thesis
      using alloc [OF p(1,2), of "wrapper opts t0 t1 c m" s "Probe_posix_memalign_Entry opts t0 s" "Probe_memkind_malloc_Exit opts t1 p"
          t0 POSIX_MEMALIGN_EV s "[]" t1 MEMKIND_MALLOC_EV "[misc_event opts t1 MEMKIND_PARTITION_EV 0 0]"] p
      by (simp add: Posix_memalign posix_memalign_wrapper_def Probe_posix_memalign_Entry_def Probe_memkind_malloc_Exit_def probes after_call_def)
  next
    case (Memkind_malloc k s p)
    with assms(4) have p: "p \<noteq> 0" "p \<notin> fst ` set live" by (simp_all add: sane_call_def)
    show ?thesis
      using alloc [OF p, of "wrapper opts t0 t1 c m" s "Probe_memkind_malloc_Entry opts t0 k s" "Probe_memkind_malloc_Exit opts t1 p"
          t0 MEMKIND_MALLOC_EV s "[misc_event opts t0 MEMKIND_PARTITION_EV k 0]" t1 MEMKIND_MALLOC_EV "[misc_event opts t1 MEMKIND_PARTITION_EV 0 0]"] p
      by (simp add: Memkind_malloc memkind_malloc_wrapper_def Probe_memkind_malloc_Entry_def Probe_memkind_malloc_Exit_def probes after_call_def)
  next
    case (Memkind_calloc k n s p)
    with assms(4) have p: "p \<noteq> 0" "p \<notin> fst ` set live" by (simp_all add: sane_call_def)
    show ?thesis
      using alloc [OF p, of "wrapper opts t0 t1 c m" s "Probe_memkind_calloc_Entry opts t0 k n s" "Probe_memkind_calloc_Exit opts t1 p"
          t0 MEMKIND_CALLOC_EV "n * s" "[misc_event opts t0 MEMKIND_PARTITION_EV k 0]" t1 MEMKIND_CALLOC_EV "[misc_event opts t1 MEMKIND_PARTITION_EV 0 0]"] p
      by (simp add: Memkind_calloc memkind_calloc_wrapper_def Probe_memkind_calloc_Entry_def Probe_memkind_calloc_Exit_def probes after_call_def)
  next
    case (Memkind_posix_memalign k s r p)
    with assms(4) have p: "p \<noteq> 0" "p \<notin> fst ` set live" "r = 0" by (simp_all add: sane_call_def)
    show ?thesis
      using alloc [OF p(1,2), of "wrapper opts t0 t1 c m" s "Probe_memkind_posix_memalign_Entry opts t0 k s" "Probe_memkind_posix_memalign_Exit opts t1 p"
          t0 MEMKIND_POSIX_MEMALIGN_EV s "[misc_event opts t0 MEMKIND_PARTITION_EV k 0]" t1 MEMKIND_POSIX_MEMALIGN_EV "[misc_event opts t1 MEMKIND_PARTITION_EV 0 0]"] p
      by (simp add: Memkind_posix_memalign memkind_posix_memalign_wrapper_def Probe_memkind_posix_memalign_Entry_def
          Probe_memkind_posix_memalign_Exit_def probes after_call_def)
  next
    case (Free p)
    show ?thesis
      using rel [of "wrapper opts t0 t1 c m" p "Probe_Free_Entry opts t0 p" "Probe_Free_Exit opts t1" t0 FREE_EV "[]" t1 "[]"]
      by (simp add: Free free_wrapper_def Probe_Free_Entry_def Probe_Free_Exit_def probes after_call_def)
  next
    case (Memkind_free k p)
    show ?thesis
      using rel [of "wrapper opts t0 t1 c m" p "Probe_memkind_free_Entry opts t0 k p" "Probe_memkind_free_Exit opts t1" t0 MEMKIND_FREE_EV
          "[misc_event opts t0 MEMKIND_PARTITION_EV k 0]" t1 "[misc_event opts t1 MEMKIND_PARTITION_EV 0 0]"]
      by (simp add: Memkind_free memkind_free_wrapper_def Probe_memkind_free_Entry_def Probe_memkind_free_Exit_def probes after_call_def)
  qed (use assms(4) in \<open>simp_all add: sane_call_def\<close>)
qed

section \<open>Histories\<close>

lemma history_followed:
  assumes "platform_ok P" and "tracing_on opts" and "follows P live m tk" and "sane opts h live"
  shows "\<exists>evs m' tk'. trace_history opts h m = Inr (evs, m') \<and> memory_events P evs tk = Inr tk' \<and>
    follows P (live_after opts h live) m' tk'"
  using assms(3,4)
proof (induction h arbitrary: live m tk)
  case (Cons x h)
  obtain t0 t1 c where x: "x = (t0, t1, c)" by (cases x)
  from sane_call_step [OF assms(1,2) Cons.prems(1), of c t0 t1] Cons.prems(2) x obtain evs1 m1 tk1 where
    1: "wrapper opts t0 t1 c m = Inr (evs1, m1)" "memory_events P evs1 tk = Inr tk1"
    "follows P (after_call opts c live) m1 tk1" by auto
  from Cons.IH [OF 1(3)] Cons.prems(2) x obtain evs2 m2 tk2 where
    2: "trace_history opts h m1 = Inr (evs2, m2)" "memory_events P evs2 tk1 = Inr tk2"
    "follows P (live_after opts h (after_call opts c live)) m2 tk2" by auto
  from 1 2 show ?case by (auto simp: x memory_events_append)
qed simp

definition fresh_task :: "mem_thread \<Rightarrow> mem_task" where
  "fresh_task th = \<lparr>task_space = \<lparr>Regions = [], nRegions = 0, aRegions = 0\<rparr>, task_thread = th\<rparr>"

lemma fresh_follows:
  assumes "thread_ok P th"
  shows "follows P [] no_entries (fresh_task th)"
  using assms
  by (simp add: follows_def fresh_task_def mem_ok_def space_inv_def regions_def objects_def extents_def no_entries_def
      table_inv_def pointers_def)

lemma search_extents:
  assumes "mem_ok P tk" and "regions tk = extents live"
  shows "AddressSpace_search (task_space tk) a \<noteq> None \<longleftrightarrow> (\<exists>(p, s) \<in> set live. p \<le> a \<and> a \<le> p + s)"
proof -
  have inv: "space_inv (task_space tk)" using assms(1) by (simp add: mem_ok_def)
  have "AddressSpace_search (task_space tk) a \<noteq> None \<longleftrightarrow> (\<exists>x \<in># objects (task_space tk). covers x a)"
    using search_result [OF inv, of a] by (auto split: option.splits)
  also have "\<dots> \<longleftrightarrow> (\<exists>x \<in># regions tk. fst x \<le> a \<and> a \<le> snd x)"
    by (auto simp: regions_def covers_def)
  also have "\<dots> \<longleftrightarrow> (\<exists>(p, s) \<in> set live. p \<le> a \<and> a \<le> p + s)"
    by (auto simp: assms(2) extents_def case_prod_unfold)
  finally show ?thesis .
qed

text \<open>
  C7. The merger knows the memory of a program. Take any history of allocations that succeed, each
  with a pointer no live block has, and of frees, with \<open>malloc\<close>, \<open>posix_memalign\<close> and the
  \<open>memkind\<close> functions mixed, under any threshold. The wrappers trace it and the merger runs over all
  its events; the tracer's table then has exactly the pointers of the live blocks whose request
  reached the threshold, and an address that is sampled is attributed to an object exactly when it
  lies in one of those blocks or right behind its end, for the sizes that were asked for.
\<close>

theorem memory_followed:
  assumes "platform_ok P" and "tracing_on opts" and "thread_ok P th" and "sane opts h []"
  shows "\<exists>evs m tk. trace_history opts h no_entries = Inr (evs, m) \<and> memory_events P evs (fresh_task th) = Inr tk \<and>
    pointers m = mset (map fst (live_after opts h [])) \<and>
    (\<forall>a. AddressSpace_search (task_space tk) a \<noteq> None \<longleftrightarrow>
      (\<exists>(p, s) \<in> set (live_after opts h []). p \<le> a \<and> a \<le> p + s))"
proof -
  from history_followed [OF assms(1,2) fresh_follows [OF assms(3)] assms(4)] obtain evs m tk where
    "trace_history opts h no_entries = Inr (evs, m)" "memory_events P evs (fresh_task th) = Inr tk"
    "follows P (live_after opts h []) m tk" by blast
  then show ?thesis using search_extents [of P tk] by (auto simp: follows_def)
qed

definition sample_platform :: mem_platform where
  "sample_platform = \<lparr>space_of = \<lparr>space_malloc = \<lambda>_. True, sizeof_region = 832, sizeof_space = 16,
       region_junk = \<lparr>AddressBegin = 0, AddressEnd = 0, CallerAddresses = [], CallerType = 0, region_in_use = False\<rparr>\<rparr>,
     state_alloc = \<lambda>_. True, prv_options = joining, mem_object = object_id.make 1 1 1 1\<rparr>"

definition sample_thread :: mem_thread where
  "sample_thread = \<lparr>prv_thread = fresh_thread, AddressSpace_size = 0, AddressSpace_timeCreation = 0,
     AddressSpace_calleraddresses = replicate MAX_CALLERS 0, AddressSpace_callertype = 0\<rparr>"

definition sample_options :: tracer_options where
  "sample_options = \<lparr>mpitrace_on = True, tracejant = True, TracingBitmap_TASKID = True,
     base_event = \<lparr>ev_param = \<lparr>param_target = 0, param_size = 0, param_tag = 0, param_comm = 0, param_aux = 0\<rparr>,
       ev_value = 0, ev_time = 0, ev_HWCValues = [], ev_event = 0, ev_HWCReadSet = 0\<rparr>,
     EXTRAE_INITIALIZED = True, trace_malloc = True, trace_malloc_allocate = True, trace_malloc_free = True,
     trace_malloc_allocate_threshold = 1024, inInstrumentation = False, hooked = True, tracer_malloc = \<lambda>_. True\<rparr>"

lemma sample_platform_ok: "platform_ok sample_platform"
  by (simp add: platform_ok_def sample_platform_def ample_def joining_def known_task_def task_enabled_def
      object_id.make_def array_get_def in_range_def exI [of _ True])

lemma sample_thread_ok: "thread_ok sample_platform sample_thread"
proof -
  have "in_step joining fresh_thread ([], None)"
    using fresh_thread_ok by (simp add: in_step_def finished_def)
  from some_stepI [OF this] show ?thesis
    by (simp add: thread_ok_def sample_thread_def sample_platform_def)
qed

lemma sample_tracing: "tracing_on sample_options"
  by (simp add: tracing_on_def sample_options_def ample_def)

theorem memory_followed_witness:
  "\<exists>evs m tk. trace_history sample_options [(1, 2, Malloc 4096 0x1000), (3, 4, Malloc 16 0x9000), (5, 6, Posix_memalign 2048 0 0x4000),
       (7, 8, Free 0x1000)] no_entries = Inr (evs, m) \<and>
     memory_events sample_platform evs (fresh_task sample_thread) = Inr tk \<and> pointers m = {#0x4000#} \<and>
     AddressSpace_search (task_space tk) 0x4400 \<noteq> None \<and> AddressSpace_search (task_space tk) 0x1400 = None"
proof -
  define h where "h = [(1 :: UINT64, 2 :: UINT64, Malloc 4096 0x1000), (3, 4, Malloc 16 0x9000),
    (5, 6, Posix_memalign 2048 0 0x4000), (7, 8, Free 0x1000)]"
  have live: "live_after sample_options h [] = [(0x4000, 2048)]" and "sane sample_options h []"
    by (simp_all add: h_def sane_call_def after_call_def can_allocate_def sample_options_def)
  from memory_followed [OF sample_platform_ok sample_tracing sample_thread_ok this(2)] obtain evs m tk where
    r: "trace_history sample_options h no_entries = Inr (evs, m)"
    "memory_events sample_platform evs (fresh_task sample_thread) = Inr tk" "pointers m = {#0x4000#}"
    and s: "\<forall>a. AddressSpace_search (task_space tk) a \<noteq> None \<longleftrightarrow> 0x4000 \<le> a \<and> a \<le> 0x4000 + 2048"
    unfolding live by auto
  from s have "AddressSpace_search (task_space tk) 0x4400 \<noteq> None" "AddressSpace_search (task_space tk) 0x1400 = None"
    by (auto dest: spec [of _ "0x4400"] spec [of _ "0x1400"])
  with r show ?thesis unfolding h_def by blast
qed

section \<open>What a realloc does\<close>

text \<open>
  C40. A traced \<open>realloc\<close> leaves the wrong memory behind. The probe sends the old pointer with the
  begin event and the size with the next one, the merger takes the first for the size and the second
  for the pointer: whatever it knew, it forgets a block that begins at the address of the size, not
  the old one, and the new block at \<open>q\<close> gets the old pointer for its size.
\<close>

theorem realloc_swaps_pointer_and_size:
  assumes "platform_ok P" and "mem_ok P tk" and "tracing_on opts" and "can_allocate opts s" and "table_inv m" and "q \<noteq> 0"
  shows "\<exists>evs m' tk' R. wrapper opts ta tb (Realloc p s q) m = Inr (evs, m') \<and> memory_events P evs tk = Inr tk' \<and>
    removed s (regions tk) R \<and> regions tk' = add_mset (q, q + p) R"
proof -
  let ?m = "snd (Extrae_malloctrace_remove m p)"
  let ?b = "misc_event opts ta REALLOC_EV 1 p" and ?c = "misc_event opts ta REALLOC_EV (1 + 1) s"
    and ?e = "misc_event opts tb REALLOC_EV 0 q"
  have "table_inv ?m"
    using table_remove(2) [OF assms(5)] assms(5) by (cases "p = 0") (simp_all add: Extrae_malloctrace_remove_def)
  moreover have "table_room (tracer_malloc opts) n" for n using assms(3) by (simp add: tracing_on_def ample_def table_room_def)
  ultimately obtain m' where "Extrae_malloctrace_add (tracer_malloc opts) ?m q = Inr m'"
    using traced.add_returns [of ?m q] assms(6) by blast
  then have run: "wrapper opts ta tb (Realloc p s q) m = Inr ([?b, ?c, ?e], m')"
    using assms(3,4,6)
    by (simp add: realloc_wrapper_def wrapped_def tracing_on_def Probe_Realloc_Entry_def Probe_Realloc_Exit_def
        probing_def TRACE_MISCEVENT_def)
  have r: "reallocates REALLOC_EV" by (simp add: reallocates_def)
  from size_event [OF assms(1,2), of ?b "ev_time ?b"] r obtain tk1 where
    1: "memory_event P ?b tk = Inr tk1" "mem_ok P tk1" "regions tk1 = regions tk" "AddressSpace_size (task_thread tk1) = p"
    by (auto simp: memory_event_def)
  from remove_event [OF assms(1) 1(2), of ?c "ev_time ?c"] r obtain tk2 where
    2: "memory_event P ?c tk1 = Inr tk2" "mem_ok P tk2" "removed s (regions tk1) (regions tk2)"
    "AddressSpace_size (task_thread tk2) = p"
    using 1(4) by (auto simp: memory_event_def)
  from add_event [OF assms(1) 2(2), of ?e "ev_time ?e"] r obtain tk3 where
    3: "memory_event P ?e tk2 = Inr tk3" "regions tk3 = add_mset (q, q + p) (regions tk2)"
    using 2(4) by (auto simp: memory_event_def)
  have "memory_events P [?b, ?c, ?e] tk = Inr tk3" using 1(1) 2(1) 3(1) by simp
  with run 2(3) 3(2) 1(3) show ?thesis by metis
qed

theorem realloc_swaps_pointer_and_size_witness:
  "\<exists>evs m tk. wrapper sample_options 1 2 (Realloc 0x1000 8192 0x4000) no_entries = Inr (evs, m) \<and>
     memory_events sample_platform evs (fresh_task sample_thread) = Inr tk \<and> regions tk = {#(0x4000, 0x5000)#}"
proof -
  have "can_allocate sample_options 8192" by (simp add: can_allocate_def sample_options_def)
  moreover have f: "mem_ok sample_platform (fresh_task sample_thread)" "table_inv no_entries" "regions (fresh_task sample_thread) = {#}"
    using fresh_follows [OF sample_thread_ok] by (simp_all add: follows_def extents_def)
  ultimately show ?thesis
    using realloc_swaps_pointer_and_size [OF sample_platform_ok f(1) sample_tracing _ f(2), where s = 8192 and q = "0x4000" and p = "0x1000" and ta = 1 and tb = 2]
    by (auto simp: f(3) removed_def)
qed

end
