(* ===== verification/ParaverMerge.thy ===== *)
theory ParaverMerge
  imports PrvRecord MpiEvents
begin

text \<open>
  The last phase of the merger: the files of records of all threads become one trace in the order of
  time. \<open>Read_PRV_LocalFile\<close> and \<open>GetNextParaver_Rec\<close> of
  \<open>trunk/dependencies/extrae/src/merger/paraver/file_set.c\<close> read the files in blocks and give the
  next record; the writers of \<open>paraver_generator.c\<close> print it. The merger is the one without MPI and
  without BFD.

  A file is the records behind its descriptor's offset, the count of those still to be read, and the
  mapped records from \<open>current_p\<close> to \<open>last_mapped_p\<close>. The trace is the list of its lines; writing to
  it does not fail. The alias of a communicator is an argument.
\<close>

record prv_file =
  source :: "paraver_rec_t list"
  remaining_records :: nat
  mapped :: "paraver_rec_t list"
  mapped_records :: nat
  has_block :: bool

record prv_set =
  prv_files :: "prv_file list"
  records_per_block :: nat

section \<open>Reading\<close>

definition Read_PRV_LocalFile :: "allocator \<Rightarrow> nat \<Rightarrow> prv_file \<Rightarrow> prv_file res" where
  "Read_PRV_LocalFile alloc block_size f =
     (let nrecords = min block_size (remaining_records f);
          f = (if nrecords \<noteq> mapped_records f
               then f\<lparr>has_block := alloc (nrecords * sizeof_paraver_rec_t), mapped_records := nrecords\<rparr> else f) in
      if \<not> has_block f then Inl (Exit 0)
      else Inr (f\<lparr>mapped := take nrecords (source f), source := drop nrecords (source f),
                  remaining_records := remaining_records f - nrecords\<rparr>))"

text \<open>The first loop of \<open>GetNextParaver_Rec\<close>.\<close>

fun reload :: "allocator \<Rightarrow> nat \<Rightarrow> prv_file list \<Rightarrow> prv_file list res" where
  "reload alloc block_size [] = Inr []"
| "reload alloc block_size (f # fs) =
     andthen (if mapped f = [] \<and> remaining_records f > 0 then Read_PRV_LocalFile alloc block_size f else Inr f) (\<lambda>f.
     andthen (reload alloc block_size fs) (\<lambda>fs. Inr (f # fs)))"

definition head :: "'a list \<Rightarrow> 'a option" where
  "head xs = (case xs of [] \<Rightarrow> None | x # _ \<Rightarrow> Some x)"

text \<open>The second loop: the earliest current record and its file; of two at the same time the greater type.\<close>

fun pick :: "nat \<Rightarrow> paraver_rec_t option list \<Rightarrow> (nat \<times> paraver_rec_t) option \<Rightarrow> (nat \<times> paraver_rec_t) option" where
  "pick i [] best = best"
| "pick i (c # cs) best =
     pick (i + 1) cs
       (case c of None \<Rightarrow> best
        | Some current \<Rightarrow>
            (case best of None \<Rightarrow> Some (i, current)
             | Some (j, least) \<Rightarrow>
                 if rec_time least > rec_time current then Some (i, current)
                 else if rec_time least = rec_time current \<and> rec_type least <s rec_type current then Some (i, current)
                 else best))"

definition GetNextParaver_Rec :: "allocator \<Rightarrow> prv_set \<Rightarrow> (paraver_rec_t option \<times> prv_set) res" where
  "GetNextParaver_Rec alloc S =
     andthen (guard (prv_files S \<noteq> []) Uninitialised) (\<lambda>_.
     andthen (reload alloc (records_per_block S) (prv_files S)) (\<lambda>fs.
       case pick 0 (map (\<lambda>f. head (mapped f)) fs) None of
         None \<Rightarrow> Inr (None, S\<lparr>prv_files := fs\<rparr>)
       | Some (j, r) \<Rightarrow> Inr (Some r, S\<lparr>prv_files := fs[j := (fs ! j)\<lparr>mapped := tl (mapped (fs ! j))\<rparr>]\<rparr>)))"

section \<open>The lines of a trace\<close>

datatype prv_line =
    State_line INT32 INT32 INT32 INT32 UINT64 UINT64 INT32
  | Event_line INT32 INT32 INT32 INT32 UINT64 "(INT32 \<times> UINT64) list"
  | Comm_line paraver_rec_t

definition show_int :: "INT32 \<Rightarrow> string" where
  "show_int w = decimal (sint w)"

definition show_long :: "UINT64 \<Rightarrow> string" where
  "show_long w = decimal (uint w)"

text \<open>The fields of a line, separated by colons.\<close>

fun colons :: "string list \<Rightarrow> string" where
  "colons [] = []"
| "colons [s] = s"
| "colons (s # ss) = s @ '':'' @ colons ss"

fun line_text :: "prv_line \<Rightarrow> string" where
  "line_text (State_line cpu ptask task thread ini_time e state) =
     colons [''1'', show_int cpu, show_int ptask, show_int task, show_int thread, show_long ini_time, show_long e,
       show_int state] @ [CHR 0x0A]"
| "line_text (Event_line cpu ptask task thread time evs) =
     colons ([''2'', show_int cpu, show_int ptask, show_int task, show_int thread, show_long time] @
       concat (map (\<lambda>(type, v). [show_int type, show_long v]) evs)) @ [CHR 0x0A]"
| "line_text (Comm_line r) =
     colons [''3'', show_int (rec_cpu r), show_int (rec_ptask r), show_int (rec_task r), show_int (rec_thread r),
       show_long (rec_time r), show_long (end_time r), show_int (cpu_r r), show_int (ptask_r r), show_int (task_r r),
       show_int (thread_r r), show_long (receive_logical r), show_long (receive_physical r), show_int (rec_event r),
       show_int (ucast (rec_value r))] @ [CHR 0x0A]"

definition paraver_state :: "paraver_rec_t \<Rightarrow> prv_line list" where
  "paraver_state r =
     (if rec_time r < end_time r
      then [State_line (rec_cpu r) (rec_ptask r) (rec_task r) (rec_thread r) (rec_time r) (end_time r) (ucast (rec_value r))]
      else [])"

definition paraver_multi_event :: "INT32 \<Rightarrow> INT32 \<Rightarrow> INT32 \<Rightarrow> INT32 \<Rightarrow> UINT64 \<Rightarrow> (INT32 \<times> UINT64) list \<Rightarrow> prv_line list" where
  "paraver_multi_event cpu ptask task thread time evs =
     (if length evs = 0 then [] else [Event_line cpu ptask task thread time evs])"

definition paraver_communication :: "paraver_rec_t \<Rightarrow> prv_line list" where
  "paraver_communication r = [Comm_line r]"

section \<open>Every reading step uses up a record\<close>

definition unread :: "prv_set \<Rightarrow> nat" where
  "unread S = sum_list (map (\<lambda>f. length (mapped f) + remaining_records f) (prv_files S))"

lemma read_unread:
  "Read_PRV_LocalFile alloc n f = Inr f' \<Longrightarrow> mapped f = [] \<Longrightarrow>
    length (mapped f') + remaining_records f' \<le> length (mapped f) + remaining_records f"
  by (auto simp: Read_PRV_LocalFile_def Let_def split: if_splits)

lemma reload_unread:
  "reload alloc n fs = Inr fs' \<Longrightarrow>
    sum_list (map (\<lambda>f. length (mapped f) + remaining_records f) fs') \<le> sum_list (map (\<lambda>f. length (mapped f) + remaining_records f) fs)"
proof (induction fs arbitrary: fs')
  case (Cons f fs)
  then obtain f1 fs1 where
    1: "(if mapped f = [] \<and> remaining_records f > 0 then Read_PRV_LocalFile alloc n f else Inr f) = Inr f1"
    "reload alloc n fs = Inr fs1" "fs' = f1 # fs1" by auto
  have "length (mapped f1) + remaining_records f1 \<le> length (mapped f) + remaining_records f"
    using 1(1) read_unread [of alloc n f f1] by (auto split: if_splits)
  with Cons.IH [OF 1(2)] 1(3) show ?case by simp
qed simp

lemma pick_found:
  assumes "pick i cs best = Some (j, r)"
  shows "best = Some (j, r) \<or> i \<le> j \<and> j < i + length cs \<and> cs ! (j - i) = Some r"
  using assms
proof (induction i cs best rule: pick.induct)
  case (2 i c cs best)
  then show ?case
    by (fastforce simp: nth_Cons' split: option.splits prod.splits if_splits)
qed simp

lemma sum_list_update_less:
  "j < length fs \<Longrightarrow> (g x :: nat) < g (fs ! j) \<Longrightarrow> sum_list (map g (fs[j := x])) < sum_list (map g fs)"
proof (induction fs arbitrary: j)
  case (Cons f fs)
  then show ?case by (cases j) auto
qed simp

lemma next_unread:
  assumes "GetNextParaver_Rec alloc S = Inr (Some r, S')"
  shows "unread S' < unread S"
proof -
  from assms obtain fs j where
    1: "reload alloc (records_per_block S) (prv_files S) = Inr fs"
    "pick 0 (map (\<lambda>f. head (mapped f)) fs) None = Some (j, r)"
    "S' = S\<lparr>prv_files := fs[j := (fs ! j)\<lparr>mapped := tl (mapped (fs ! j))\<rparr>]\<rparr>"
    by (auto simp: GetNextParaver_Rec_def split: option.splits)
  from pick_found [OF 1(2)] have j: "j < length fs" "head (mapped (fs ! j)) = Some r" by auto
  let ?g = "\<lambda>f. length (mapped f) + remaining_records f"
  from j(2) have "?g ((fs ! j)\<lparr>mapped := tl (mapped (fs ! j))\<rparr>) < ?g (fs ! j)"
    by (cases "mapped (fs ! j)") (simp_all add: head_def)
  from sum_list_update_less [OF j(1), of ?g, OF this] reload_unread [OF 1(1)] 1(3) show ?thesis
    by (simp add: unread_def)
qed

lemma next_end_unread:
  assumes "GetNextParaver_Rec alloc S = Inr (None, S')"
  shows "unread S' \<le> unread S"
  using assms reload_unread [of alloc "records_per_block S" "prv_files S"]
  by (auto simp: GetNextParaver_Rec_def unread_def split: option.splits)

section \<open>Joining\<close>

record join_state =
  prv_set_of :: prv_set
  out_lines :: "prv_line list"
  num_incomplete_state :: nat
  num_unmatched_comm :: nat
  num_pending_comm :: nat

definition MAX_EVENT_COUNT_IN_MULTI_EVENT :: nat where
  "MAX_EVENT_COUNT_IN_MULTI_EVENT = 1024"

definition caller_event :: "INT32 \<Rightarrow> bool" where
  "caller_event e \<longleftrightarrow> \<not> e <s SAMPLING_ADDRESS_ALLOCATED_OBJECT_CALLER_EV \<and>
     e <s SAMPLING_ADDRESS_ALLOCATED_OBJECT_CALLER_EV + of_nat MAX_CALLERS"

type_synonym comm_alias = "UINT64 \<Rightarrow> INT32 \<Rightarrow> INT32 \<Rightarrow> UINT64"

definition event_value :: "comm_alias \<Rightarrow> paraver_rec_t \<Rightarrow> UINT64" where
  "event_value alies r =
     (if rec_event r = MPI_GLOBAL_OP_COMM then alies (scast (ucast (rec_value r) :: INT32)) (rec_ptask r) (rec_task r)
      else rec_value r)"

definition same_event :: "paraver_rec_t \<Rightarrow> paraver_rec_t \<Rightarrow> bool" where
  "same_event prev cur \<longleftrightarrow> rec_cpu prev = rec_cpu cur \<and> rec_ptask prev = rec_ptask cur \<and> rec_task prev = rec_task cur \<and>
     rec_thread prev = rec_thread cur \<and> rec_time prev = rec_time cur \<and> rec_type cur = EVENT"

text \<open>The loop of \<open>paraver_build_multi_event\<close>; \<open>evs\<close> are the pairs of \<open>events\<close> and \<open>values\<close> so far.\<close>

function multi_event_loop ::
  "allocator \<Rightarrow> comm_alias \<Rightarrow> paraver_rec_t \<Rightarrow> (INT32 \<times> UINT64) list \<Rightarrow> paraver_rec_t option \<Rightarrow> prv_set \<Rightarrow>
    ((INT32 \<times> UINT64) list \<times> paraver_rec_t option \<times> prv_set) res" where
  "multi_event_loop alloc alies prev evs cur S =
     (case cur of
        None \<Rightarrow> Inr (evs, None, S)
      | Some r \<Rightarrow>
          if same_event prev r \<and> length evs < MAX_EVENT_COUNT_IN_MULTI_EVENT then
            andthen (GetNextParaver_Rec alloc S) (\<lambda>p.
              multi_event_loop alloc alies prev
                (if caller_event (rec_event r) then evs else evs @ [(rec_event r, event_value alies r)]) (fst p) (snd p))
          else Inr (evs, cur, S))"
  by pat_completeness auto

definition left_over :: "paraver_rec_t option \<Rightarrow> prv_set \<Rightarrow> nat" where
  "left_over cur S = 2 * unread S + (if cur = None then 0 else 1)"

lemma next_left_over:
  assumes "GetNextParaver_Rec alloc S = Inr (c, S')"
  shows "left_over c S' < left_over (Some r) S"
  using assms next_unread [of alloc S _ S'] next_end_unread [of alloc S S']
  by (cases c) (fastforce simp: left_over_def)+

termination multi_event_loop
  by (relation "measure (\<lambda>(alloc, alies, prev, evs, cur, S). left_over cur S)") (auto dest: next_left_over)

declare multi_event_loop.simps [simp del]

definition paraver_build_multi_event ::
  "allocator \<Rightarrow> comm_alias \<Rightarrow> paraver_rec_t \<Rightarrow> prv_set \<Rightarrow> (prv_line list \<times> paraver_rec_t option \<times> prv_set) res" where
  "paraver_build_multi_event alloc alies current S =
     andthen (multi_event_loop alloc alies current [] (Some current) S) (\<lambda>(evs, cur, S).
       Inr (paraver_multi_event (rec_cpu current) (rec_ptask current) (rec_task current) (rec_thread current)
              (rec_time current) evs, cur, S))"

text \<open>One turn of the loop of \<open>Paraver_JoinFiles_Master\<close>: the next current record and the new state.\<close>

definition next_record :: "allocator \<Rightarrow> join_state \<Rightarrow> (paraver_rec_t option \<times> join_state) res" where
  "next_record alloc J =
     andthen (GetNextParaver_Rec alloc (prv_set_of J)) (\<lambda>(c, S). Inr (c, J\<lparr>prv_set_of := S\<rparr>))"

definition join_step ::
  "allocator \<Rightarrow> comm_alias \<Rightarrow> paraver_rec_t \<Rightarrow> join_state \<Rightarrow> (paraver_rec_t option \<times> join_state) res" where
  "join_step alloc alies current J =
     (if rec_type current = UNFINISHED_STATE then
        next_record alloc (J\<lparr>num_incomplete_state := num_incomplete_state J + 1\<rparr>)
      else if rec_type current = STATE then
        next_record alloc (J\<lparr>out_lines := out_lines J @ paraver_state current\<rparr>)
      else if rec_type current = EVENT then
        andthen (paraver_build_multi_event alloc alies current (prv_set_of J)) (\<lambda>(ls, c, S).
          Inr (c, J\<lparr>out_lines := out_lines J @ ls, prv_set_of := S\<rparr>))
      else if rec_type current = UNMATCHED_COMMUNICATION then
        next_record alloc (J\<lparr>num_unmatched_comm := num_unmatched_comm J + 1\<rparr>)
      else if rec_type current = PENDING_COMMUNICATION then
        next_record alloc (J\<lparr>num_pending_comm := num_pending_comm J + 1\<rparr>)
      else if rec_type current = COMMUNICATION then
        next_record alloc (J\<lparr>out_lines := out_lines J @ paraver_communication current\<rparr>)
      else Inl (Exit (- 1)))"

lemma multi_event_left_over:
  "multi_event_loop alloc alies prev evs cur S = Inr (evs', c, S') \<Longrightarrow> left_over c S' \<le> left_over cur S"
proof (induction alloc alies prev evs cur S rule: multi_event_loop.induct)
  case (1 alloc alies prev evs cur S)
  show ?case
  proof (cases cur)
    case None
    with "1.prems" show ?thesis by (simp add: multi_event_loop.simps)
  next
    case (Some r)
    show ?thesis
    proof (cases "same_event prev r \<and> length evs < MAX_EVENT_COUNT_IN_MULTI_EVENT")
      case True
      with "1.prems" Some obtain p where p: "GetNextParaver_Rec alloc S = Inr p"
        "multi_event_loop alloc alies prev
          (if caller_event (rec_event r) then evs else evs @ [(rec_event r, event_value alies r)]) (fst p) (snd p) = Inr (evs', c, S')"
        by (subst (asm) multi_event_loop.simps) auto
      with "1.IH" [OF Some True p] next_left_over [of alloc S "fst p" "snd p" r] Some show ?thesis by simp
    next
      case False
      with "1.prems" Some show ?thesis by (subst (asm) multi_event_loop.simps) auto
    qed
  qed
qed

lemma multi_event_progress:
  assumes "paraver_build_multi_event alloc alies r S = Inr (ls, c, S')" and "rec_type r = EVENT"
  shows "left_over c S' < left_over (Some r) S"
proof -
  from assms(1) obtain evs where
    "multi_event_loop alloc alies r [] (Some r) S = Inr (evs, c, S')" by (auto simp: paraver_build_multi_event_def)
  then obtain p evs1 where "GetNextParaver_Rec alloc S = Inr p"
    "multi_event_loop alloc alies r evs1 (fst p) (snd p) = Inr (evs, c, S')"
    using assms(2) by (subst (asm) multi_event_loop.simps) (auto simp: same_event_def MAX_EVENT_COUNT_IN_MULTI_EVENT_def)
  with multi_event_left_over [of alloc alies r evs1 "fst p" "snd p" evs c S'] next_left_over [of alloc S "fst p" "snd p" r]
  show ?thesis by simp
qed

lemma join_step_progress:
  "join_step alloc alies r J = Inr (c, J') \<Longrightarrow> left_over c (prv_set_of J') < left_over (Some r) (prv_set_of J)"
  using multi_event_progress [of alloc alies r "prv_set_of J" _ c]
  by (auto simp: join_step_def next_record_def split: if_splits dest: next_left_over)

function join_loop :: "allocator \<Rightarrow> comm_alias \<Rightarrow> paraver_rec_t option \<Rightarrow> join_state \<Rightarrow> join_state res" where
  "join_loop alloc alies cur J =
     (case cur of None \<Rightarrow> Inr J
      | Some r \<Rightarrow> andthen (join_step alloc alies r J) (\<lambda>p. join_loop alloc alies (fst p) (snd p)))"
  by pat_completeness auto
termination
  by (relation "measure (\<lambda>(alloc, alies, cur, J). left_over cur (prv_set_of J))") (auto dest: join_step_progress)

declare join_loop.simps [simp del]

text \<open>The loop is a \<open>do\<close>: it looks at the type of the first record without asking whether there is one.\<close>

definition Paraver_JoinFiles_Master :: "allocator \<Rightarrow> comm_alias \<Rightarrow> prv_set \<Rightarrow> join_state res" where
  "Paraver_JoinFiles_Master alloc alies S =
     andthen (GetNextParaver_Rec alloc S) (\<lambda>(current, S).
       case current of
         None \<Rightarrow> Inl NullPointer
       | Some r \<Rightarrow> join_loop alloc alies (Some r)
           \<lparr>prv_set_of = S, out_lines = [], num_incomplete_state = 0, num_unmatched_comm = 0, num_pending_comm = 0\<rparr>)"

end
