(* ===== verification/ParaverOrder.thy ===== *)
theory ParaverOrder
  imports ParaverMerge "HOL-Library.Multiset"
begin

text \<open>
  What the last phase of the merger computes: the blocks do not show, the records come in the order
  of time, none is lost, and the trace is what printing that one sequence gives.
\<close>

section \<open>The sequence of records\<close>

definition abs_next :: "paraver_rec_t list list \<Rightarrow> paraver_rec_t option \<times> paraver_rec_t list list" where
  "abs_next ps =
     (case pick 0 (map head ps) None of None \<Rightarrow> (None, ps) | Some (j, r) \<Rightarrow> (Some r, ps[j := tl (ps ! j)]))"

lemma head_Some: "head xs = Some x \<longleftrightarrow> xs \<noteq> [] \<and> hd xs = x"
  by (cases xs) (auto simp: head_def)

lemma head_None [simp]: "head xs = None \<longleftrightarrow> xs = []"
  by (cases xs) (auto simp: head_def)

lemma abs_next_Some:
  assumes "abs_next ps = (Some r, qs)"
  obtains j where "j < length ps" and "ps ! j = r # tl (ps ! j)" and "qs = ps[j := tl (ps ! j)]"
    and "pick 0 (map head ps) None = Some (j, r)"
proof -
  from assms obtain j where j: "pick 0 (map head ps) None = Some (j, r)" "qs = ps[j := tl (ps ! j)]"
    by (auto simp: abs_next_def split: option.splits)
  from pick_found [OF j(1)] have "j < length ps" "head (ps ! j) = Some r" by auto
  then have "ps ! j = r # tl (ps ! j)" by (cases "ps ! j") (simp_all add: head_def)
  with \<open>j < length ps\<close> j show ?thesis by (intro that)
qed

lemma abs_next_length:
  "abs_next ps = (Some r, qs) \<Longrightarrow> sum_list (map length qs) < sum_list (map length ps)"
  by (erule abs_next_Some) (metis length_Cons lessI sum_list_update_less)

lemma abs_next_length': "(Some r, qs) = abs_next ps \<Longrightarrow> sum_list (map length qs) < sum_list (map length ps)"
  using abs_next_length by metis

function merged :: "paraver_rec_t list list \<Rightarrow> paraver_rec_t list" where
  "merged ps = (case abs_next ps of (None, _) \<Rightarrow> [] | (Some r, qs) \<Rightarrow> r # merged qs)"
  by pat_completeness auto
termination
  by (relation "measure (\<lambda>ps. sum_list (map length ps))") (auto dest: abs_next_length')

declare merged.simps [simp del]

section \<open>The earliest record\<close>

lemma pick_least:
  assumes "pick i cs best = Some (j, r)"
  shows "(\<forall>c \<in> set cs. \<forall>q. c = Some q \<longrightarrow> rec_time r \<le> rec_time q) \<and> (\<forall>k q. best = Some (k, q) \<longrightarrow> rec_time r \<le> rec_time q)"
  using assms
proof (induction i cs best rule: pick.induct)
  case (2 i c cs best)
  then show ?case
    by (fastforce split: option.splits prod.splits if_splits)
qed simp

lemma pick_none: "pick i cs best = None \<longleftrightarrow> best = None \<and> (\<forall>c \<in> set cs. c = None)"
  by (induction i cs best rule: pick.induct) (auto split: option.splits prod.splits)

lemma pick_heads_none: "pick 0 (map head ps) None = None \<longleftrightarrow> (\<forall>p \<in> set ps. p = [])"
  by (auto simp: pick_none)

lemma merged_end: "abs_next ps = (None, qs) \<longleftrightarrow> qs = ps \<and> (\<forall>p \<in> set ps. p = [])"
proof (cases "pick 0 (map head ps) None")
  case None
  then show ?thesis using pick_heads_none [of ps] by (auto simp: abs_next_def)
next
  case (Some x)
  then have "\<not> (\<forall>p \<in> set ps. p = [])" using pick_heads_none [of ps] by simp
  with Some show ?thesis by (auto simp: abs_next_def split: prod.splits)
qed

lemma mset_all_empty: "\<forall>p \<in> set ps. p = [] \<Longrightarrow> sum_list (map mset ps) = {#}"
  by (induction ps) auto

lemma in_sum_msets: "q \<in># sum_list (map mset ps) \<longleftrightarrow> (\<exists>p \<in> set ps. q \<in> set p)"
  by (induction ps) auto

definition in_time :: "paraver_rec_t list \<Rightarrow> bool" where
  "in_time rs \<longleftrightarrow> sorted_wrt (\<lambda>r q. rec_time r \<le> rec_time q) rs"

lemma in_time_head: "in_time (r # rs) \<Longrightarrow> q \<in> set (r # rs) \<Longrightarrow> rec_time r \<le> rec_time q"
  by (auto simp: in_time_def)

lemma mset_update: "j < length ps \<Longrightarrow> sum_list (map mset ps) = mset (ps ! j) + sum_list (map mset (ps[j := []]))"
proof (induction ps arbitrary: j)
  case (Cons p ps)
  then show ?case by (cases j) (auto simp: ac_simps)
qed simp

lemma mset_step:
  assumes "j < length ps" and "ps ! j = r # tl (ps ! j)"
  shows "sum_list (map mset ps) = add_mset r (sum_list (map mset (ps[j := tl (ps ! j)])))"
proof -
  have "sum_list (map mset ps) = mset (r # tl (ps ! j)) + sum_list (map mset (ps[j := []]))"
    using mset_update [OF assms(1)] assms(2) by simp
  moreover have "sum_list (map mset (ps[j := tl (ps ! j)])) = mset (tl (ps ! j)) + sum_list (map mset (ps[j := []]))"
    using mset_update [of j "ps[j := tl (ps ! j)]"] assms(1) by simp
  ultimately show ?thesis by simp
qed

lemma merged_mset: "mset (merged ps) = sum_list (map mset ps)"
proof (induction ps rule: merged.induct)
  case (1 ps)
  show ?case
  proof (cases "fst (abs_next ps)")
    case None
    then obtain qs where "abs_next ps = (None, qs)" by (cases "abs_next ps") auto
    moreover from this have "sum_list (map mset ps) = {#}"
      using merged_end [of ps qs] mset_all_empty by blast
    ultimately show ?thesis by (subst merged.simps) simp
  next
    case (Some r)
    then obtain qs where qs: "abs_next ps = (Some r, qs)" by (cases "abs_next ps") auto
    from abs_next_Some [OF qs] obtain j where "j < length ps" "ps ! j = r # tl (ps ! j)" "qs = ps[j := tl (ps ! j)]" .
    with mset_step [of j ps r] "1.IH" [OF qs [symmetric]] qs show ?thesis
      by (subst merged.simps) simp
  qed
qed

lemma merged_sorted: "\<forall>p \<in> set ps. in_time p \<Longrightarrow> in_time (merged ps)"
proof (induction ps rule: merged.induct)
  case (1 ps)
  show ?case
  proof (cases "fst (abs_next ps)")
    case None
    then obtain qs where "abs_next ps = (None, qs)" by (cases "abs_next ps") auto
    then show ?thesis by (subst merged.simps) (simp add: in_time_def)
  next
    case (Some r)
    then obtain qs where qs: "abs_next ps = (Some r, qs)" by (cases "abs_next ps") auto
    from abs_next_Some [OF qs] obtain j where
      j: "j < length ps" "ps ! j = r # tl (ps ! j)" "qs = ps[j := tl (ps ! j)]" "pick 0 (map head ps) None = Some (j, r)" .
    have "in_time (tl (ps ! j))"
      using "1.prems" j(1,2) nth_mem [OF j(1)] by (metis in_time_def sorted_wrt.simps(2))
    then have "\<forall>p \<in> set qs. in_time p"
      using "1.prems" j(3) set_update_subset_insert by fastforce
    with "1.IH" [OF qs [symmetric]] have sorted: "in_time (merged qs)" by simp
    have "rec_time r \<le> rec_time q" if q: "q \<in> set (merged qs)" for q
    proof -
      have "q \<in># sum_list (map mset ps)"
        using q merged_mset [of qs] mset_step [OF j(1,2)] j(3) by (metis insert_iff set_mset_add_mset_insert set_mset_mset)
      then obtain p where p: "p \<in> set ps" "q \<in> set p" by (auto simp: in_sum_msets)
      from p(2) obtain x xs where x: "p = x # xs" by (metis list.set_cases)
      with p(1) have "Some x \<in> set (map head ps)" by (force simp: head_def)
      with pick_least [OF j(4)] have "rec_time r \<le> rec_time x" by blast
      also have "rec_time x \<le> rec_time q" using in_time_head [of x xs q] "1.prems" p x by blast
      finally show ?thesis .
    qed
    with sorted qs show ?thesis by (subst merged.simps) (simp add: in_time_def)
  qed
qed

section \<open>The blocks do not show\<close>

text \<open>The records of a file that are still to come, and the files as they are opened.\<close>

definition pending :: "prv_file \<Rightarrow> paraver_rec_t list" where
  "pending f = mapped f @ take (remaining_records f) (source f)"

definition file_ok :: "prv_file \<Rightarrow> bool" where
  "file_ok f \<longleftrightarrow> remaining_records f \<le> length (source f) \<and> (mapped_records f > 0 \<longrightarrow> has_block f)"

definition set_ok :: "prv_set \<Rightarrow> bool" where
  "set_ok S \<longleftrightarrow> prv_files S \<noteq> [] \<and> list_all file_ok (prv_files S) \<and> records_per_block S > 0"

definition pendings :: "prv_set \<Rightarrow> paraver_rec_t list list" where
  "pendings S = map pending (prv_files S)"

definition opened :: "paraver_rec_t list \<Rightarrow> prv_file" where
  "opened rs = \<lparr>source = rs, remaining_records = length rs, mapped = [], mapped_records = 0, has_block = False\<rparr>"

definition ample_memory :: "allocator \<Rightarrow> bool" where
  "ample_memory alloc \<longleftrightarrow> (\<forall>n. alloc n)"

lemma read_block:
  assumes "ample_memory alloc" and "file_ok f" and "mapped f = []" and "remaining_records f > 0" and "n > 0"
  shows "\<exists>f'. Read_PRV_LocalFile alloc n f = Inr f' \<and> file_ok f' \<and> pending f' = pending f \<and> mapped f' \<noteq> []"
proof -
  let ?k = "min n (remaining_records f)"
  have k: "take ?k (source f) @ take (remaining_records f - ?k) (drop ?k (source f)) = take (remaining_records f) (source f)"
    by (metis add_diff_inverse_nat min.cobounded2 not_less take_add)
  have "take ?k (source f) \<noteq> []" using assms by (auto simp: file_ok_def)
  with assms k show ?thesis
    by (auto simp: ample_memory_def Read_PRV_LocalFile_def Let_def file_ok_def pending_def simp del: take_eq_Nil)
qed

definition block_loaded :: "prv_file \<Rightarrow> bool" where
  "block_loaded f \<longleftrightarrow> file_ok f \<and> (mapped f = [] \<longrightarrow> remaining_records f = 0)"

lemma reload_blocks:
  assumes "ample_memory alloc" and "n > 0" and "list_all file_ok fs"
  shows "\<exists>fs'. reload alloc n fs = Inr fs' \<and> map pending fs' = map pending fs \<and> list_all block_loaded fs'"
  using assms(3)
proof (induction fs)
  case (Cons f fs)
  then obtain fs' where fs': "reload alloc n fs = Inr fs'" "map pending fs' = map pending fs" "list_all block_loaded fs'" by auto
  show ?case
  proof (cases "mapped f = [] \<and> remaining_records f > 0")
    case True
    with read_block [OF assms(1) _ _ _ assms(2), of f] Cons.prems obtain f' where
      f': "Read_PRV_LocalFile alloc n f = Inr f'" "file_ok f'" "pending f' = pending f" "mapped f' \<noteq> []" by auto
    then have "block_loaded f'" by (simp add: block_loaded_def)
    with f' fs' True show ?thesis by auto
  next
    case False
    then have "block_loaded f" using Cons.prems by (auto simp: block_loaded_def)
    with False fs' show ?thesis by auto
  qed
qed simp

lemma block_loaded_head: "block_loaded f \<Longrightarrow> head (pending f) = head (mapped f)"
  by (cases "mapped f") (simp_all add: block_loaded_def pending_def head_def)

lemma block_loaded_tl: "block_loaded f \<Longrightarrow> mapped f \<noteq> [] \<Longrightarrow> file_ok (f\<lparr>mapped := tl (mapped f)\<rparr>) \<and> pending (f\<lparr>mapped := tl (mapped f)\<rparr>) = tl (pending f)"
  by (simp add: block_loaded_def file_ok_def pending_def)

lemma next_refines:
  assumes "ample_memory alloc" and "set_ok S"
  shows "\<exists>S'. GetNextParaver_Rec alloc S = Inr (fst (abs_next (pendings S)), S') \<and>
    pendings S' = snd (abs_next (pendings S)) \<and> set_ok S'"
proof -
  from reload_blocks [OF assms(1), of "records_per_block S" "prv_files S"] assms(2) obtain fs where
    fs: "reload alloc (records_per_block S) (prv_files S) = Inr fs" "map pending fs = pendings S" "list_all block_loaded fs"
    by (auto simp: set_ok_def pendings_def)
  have ne: "prv_files S \<noteq> []" "fs \<noteq> []" using assms(2) fs(2) by (auto simp: set_ok_def pendings_def)
  have ok: "list_all file_ok fs" using fs(3) by (auto simp: block_loaded_def list_all_iff)
  have heads: "map head (pendings S) = map (\<lambda>f. head (mapped f)) fs"
    using fs(3) block_loaded_head unfolding fs(2) [symmetric] by (auto simp: list_all_iff)
  show ?thesis
  proof (cases "pick 0 (map (\<lambda>f. head (mapped f)) fs) None")
    case None
    with fs ne ok heads assms(2) show ?thesis
      by (simp add: GetNextParaver_Rec_def abs_next_def set_ok_def pendings_def)
  next
    case (Some jr)
    obtain j r where jr: "jr = (j, r)" by (cases jr)
    from pick_found [OF Some [unfolded jr]] have j: "j < length fs" "head (mapped (fs ! j)) = Some r" by auto
    then have "block_loaded (fs ! j)" "mapped (fs ! j) \<noteq> []" using fs(3) by (auto simp: list_all_length head_Some)
    note tl = block_loaded_tl [OF this]
    let ?fs = "fs[j := (fs ! j)\<lparr>mapped := tl (mapped (fs ! j))\<rparr>]"
    have "list_all file_ok ?fs" using ok tl by (auto simp: list_all_iff dest!: set_update_subset_insert [THEN subsetD])
    moreover have "map pending ?fs = (pendings S)[j := tl (pendings S ! j)]"
      using tl j(1) by (simp add: map_update fs(2) [symmetric])
    ultimately show ?thesis
      using fs ne heads assms(2) Some jr j(1) by (simp add: GetNextParaver_Rec_def abs_next_def set_ok_def pendings_def)
  qed
qed

text \<open>The records to come, the current one first.\<close>

definition to_come :: "paraver_rec_t option \<Rightarrow> prv_set \<Rightarrow> paraver_rec_t list" where
  "to_come cur S = (case cur of None \<Rightarrow> [] | Some r \<Rightarrow> r # merged (pendings S))"

lemma next_to_come:
  assumes "ample_memory alloc" and "set_ok S"
  shows "\<exists>c S'. GetNextParaver_Rec alloc S = Inr (c, S') \<and> set_ok S' \<and> to_come c S' = merged (pendings S)"
proof -
  from next_refines [OF assms] obtain S' where S': "GetNextParaver_Rec alloc S = Inr (fst (abs_next (pendings S)), S')"
    "pendings S' = snd (abs_next (pendings S))" "set_ok S'" by auto
  have "to_come (fst (abs_next (pendings S))) S' = merged (pendings S)"
    using S'(2) by (subst merged.simps) (simp add: to_come_def split: prod.splits option.splits)
  with S' show ?thesis by blast
qed

section \<open>The trace of a sequence\<close>

text \<open>The events a line takes from the records, and the records it leaves.\<close>

fun event_run ::
  "comm_alias \<Rightarrow> paraver_rec_t \<Rightarrow> (INT32 \<times> UINT64) list \<Rightarrow> paraver_rec_t list \<Rightarrow> (INT32 \<times> UINT64) list \<times> paraver_rec_t list" where
  "event_run alies prev evs [] = (evs, [])"
| "event_run alies prev evs (r # rs) =
     (if same_event prev r \<and> length evs < MAX_EVENT_COUNT_IN_MULTI_EVENT
      then event_run alies prev (if caller_event (rec_event r) then evs else evs @ [(rec_event r, event_value alies r)]) rs
      else (evs, r # rs))"

lemma event_run_rest:
  "\<exists>used. rs = used @ snd (event_run alies prev evs rs) \<and> (\<forall>r \<in> set used. rec_type r = EVENT)"
proof (induction alies prev evs rs rule: event_run.induct)
  case (2 alies prev evs r rs)
  show ?case
  proof (cases "same_event prev r \<and> length evs < MAX_EVENT_COUNT_IN_MULTI_EVENT")
    case True
    with "2.IH" obtain used where "r # rs = (r # used) @ snd (event_run alies prev evs (r # rs))" "\<forall>q \<in> set used. rec_type q = EVENT"
      by auto
    moreover have "rec_type r = EVENT" using True by (simp add: same_event_def)
    ultimately show ?thesis by (metis set_ConsD)
  next
    case False
    then show ?thesis by auto
  qed
qed simp

lemma event_run_length: "length (snd (event_run alies prev evs rs)) \<le> length rs"
  using event_run_rest [of rs alies prev evs] by (metis le_add2 length_append)

lemma event_run_first:
  "rec_type r = EVENT \<Longrightarrow> length (snd (event_run alies r [] (r # rs))) \<le> length rs"
  using event_run_length by (simp add: same_event_def MAX_EVENT_COUNT_IN_MULTI_EVENT_def)

text \<open>The lines of a sequence of records.\<close>

function trace_of :: "comm_alias \<Rightarrow> paraver_rec_t list \<Rightarrow> prv_line list" where
  "trace_of alies [] = []"
| "trace_of alies (r # rs) =
     (if rec_type r = STATE then paraver_state r @ trace_of alies rs
      else if rec_type r = COMMUNICATION then paraver_communication r @ trace_of alies rs
      else if rec_type r = EVENT then
        (let p = event_run alies r [] (r # rs) in
         paraver_multi_event (rec_cpu r) (rec_ptask r) (rec_task r) (rec_thread r) (rec_time r) (fst p) @ trace_of alies (snd p))
      else trace_of alies rs)"
  by pat_completeness auto
termination
  by (relation "measure (\<lambda>(alies, rs). length rs)") (auto simp: le_imp_less_Suc [OF event_run_first] simp del: event_run.simps)

declare trace_of.simps(2) [simp del]

definition known_type :: "paraver_rec_t \<Rightarrow> bool" where
  "known_type r \<longleftrightarrow> rec_type r \<in> {UNFINISHED_STATE, STATE, EVENT, UNMATCHED_COMMUNICATION, PENDING_COMMUNICATION, COMMUNICATION}"

definition of_type :: "INT32 \<Rightarrow> paraver_rec_t list \<Rightarrow> nat" where
  "of_type t rs = length (filter (\<lambda>r. rec_type r = t) rs)"

lemma of_type_simps [simp]:
  "of_type t [] = 0"
  "of_type t (r # rs) = (if rec_type r = t then 1 else 0) + of_type t rs"
  by (simp_all add: of_type_def)

lemma of_type_event_run:
  "t \<noteq> EVENT \<Longrightarrow> of_type t (snd (event_run alies prev evs rs)) = of_type t rs"
proof -
  assume "t \<noteq> EVENT"
  moreover obtain used where used: "rs = used @ snd (event_run alies prev evs rs)" "\<forall>r \<in> set used. rec_type r = EVENT"
    using event_run_rest by blast
  ultimately have "of_type t used = 0" by (auto simp: of_type_def filter_empty_conv)
  moreover have "of_type t rs = of_type t used + of_type t (snd (event_run alies prev evs rs))"
    by (subst used(1)) (simp add: of_type_def)
  ultimately show ?thesis by simp
qed

lemma known_event_run:
  "list_all known_type rs \<Longrightarrow> list_all known_type (snd (event_run alies prev evs rs))"
  using event_run_rest [of rs alies prev evs] by (metis list_all_append)

section \<open>The merger prints the sequence\<close>

lemma multi_event_refines:
  assumes "ample_memory alloc" and "set_ok S"
  shows "\<exists>c S'. multi_event_loop alloc alies prev evs cur S = Inr (fst (event_run alies prev evs (to_come cur S)), c, S') \<and>
    set_ok S' \<and> to_come c S' = snd (event_run alies prev evs (to_come cur S))"
  using assms
proof (induction alloc alies prev evs cur S rule: multi_event_loop.induct)
  case (1 alloc alies prev evs cur S)
  show ?case
  proof (cases cur)
    case None
    with "1.prems" show ?thesis by (simp add: multi_event_loop.simps to_come_def)
  next
    case (Some r)
    show ?thesis
    proof (cases "same_event prev r \<and> length evs < MAX_EVENT_COUNT_IN_MULTI_EVENT")
      case True
      obtain c S1 where c: "GetNextParaver_Rec alloc S = Inr (c, S1)" "set_ok S1" "to_come c S1 = merged (pendings S)"
        using next_to_come [OF "1.prems"] by blast
      let ?evs = "if caller_event (rec_event r) then evs else evs @ [(rec_event r, event_value alies r)]"
      have "event_run alies prev evs (to_come cur S) = event_run alies prev ?evs (to_come c S1)"
        using True Some c(3) by (simp add: to_come_def [of "Some r"])
      moreover have "multi_event_loop alloc alies prev evs cur S = multi_event_loop alloc alies prev ?evs c S1"
        by (subst multi_event_loop.simps) (use Some True c(1) in simp)
      moreover note "1.IH" [OF Some True c(1)]
      ultimately show ?thesis using "1.prems"(1) c(2) by simp
    next
      case False
      then have "multi_event_loop alloc alies prev evs cur S = Inr (evs, cur, S)"
        by (subst multi_event_loop.simps) (use Some in auto)
      moreover have "event_run alies prev evs (to_come cur S) = (evs, to_come cur S)"
        using Some False by (auto simp: to_come_def)
      ultimately show ?thesis using "1.prems"(2) by simp
    qed
  qed
qed

definition joined_to :: "comm_alias \<Rightarrow> paraver_rec_t list \<Rightarrow> join_state \<Rightarrow> join_state \<Rightarrow> bool" where
  "joined_to alies rs J J' \<longleftrightarrow>
     out_lines J' = out_lines J @ trace_of alies rs \<and>
     num_incomplete_state J' = num_incomplete_state J + of_type UNFINISHED_STATE rs \<and>
     num_unmatched_comm J' = num_unmatched_comm J + of_type UNMATCHED_COMMUNICATION rs \<and>
     num_pending_comm J' = num_pending_comm J + of_type PENDING_COMMUNICATION rs"

definition join_ready :: "join_state \<Rightarrow> paraver_rec_t list \<Rightarrow> paraver_rec_t option \<Rightarrow> bool" where
  "join_ready J rs cur \<longleftrightarrow> set_ok (prv_set_of J) \<and> to_come cur (prv_set_of J) = rs \<and> list_all known_type rs"

lemma next_record_ready:
  assumes "ample_memory alloc" and "join_ready J (r # rs) (Some r)"
  shows "\<exists>c S. next_record alloc J = Inr (c, J\<lparr>prv_set_of := S\<rparr>) \<and> join_ready (J\<lparr>prv_set_of := S\<rparr>) rs c"
proof -
  from assms(2) have "set_ok (prv_set_of J)" by (simp add: join_ready_def)
  from next_to_come [OF assms(1) this] obtain c S where
    "GetNextParaver_Rec alloc (prv_set_of J) = Inr (c, S)" "set_ok S" "to_come c S = merged (pendings (prv_set_of J))"
    by blast
  with assms(2) show ?thesis by (auto simp: next_record_def join_ready_def to_come_def)
qed

lemma join_ready_counts [simp]:
  "join_ready (J\<lparr>num_incomplete_state := n\<rparr>) rs c = join_ready J rs c"
  "join_ready (J\<lparr>num_unmatched_comm := n\<rparr>) rs c = join_ready J rs c"
  "join_ready (J\<lparr>num_pending_comm := n\<rparr>) rs c = join_ready J rs c"
  "join_ready (J\<lparr>out_lines := ls\<rparr>) rs c = join_ready J rs c"
  by (simp_all add: join_ready_def)

lemma step_events:
  assumes "ample_memory alloc" and "join_ready J (r # rs) (Some r)" and "rec_type r = EVENT"
  shows "\<exists>c J1 qs. join_step alloc alies r J = Inr (c, J1) \<and> join_ready J1 qs c \<and>
    (\<forall>J'. joined_to alies qs J1 J' \<longrightarrow> joined_to alies (r # rs) J J')"
proof -
  let ?p = "event_run alies r [] (r # rs)"
  have ok: "set_ok (prv_set_of J)" "to_come (Some r) (prv_set_of J) = r # rs" "list_all known_type (r # rs)"
    using assms(2) by (simp_all add: join_ready_def)
  from multi_event_refines [OF assms(1) ok(1), of alies r "[]" "Some r"] ok(2) obtain c S' where
    c: "multi_event_loop alloc alies r [] (Some r) (prv_set_of J) = Inr (fst ?p, c, S')" "set_ok S'" "to_come c S' = snd ?p"
    by auto
  let ?ls = "paraver_multi_event (rec_cpu r) (rec_ptask r) (rec_task r) (rec_thread r) (rec_time r) (fst ?p)"
  have "join_step alloc alies r J = Inr (c, J\<lparr>out_lines := out_lines J @ ?ls, prv_set_of := S'\<rparr>)"
    using assms(3) c(1) by (simp add: join_step_def paraver_build_multi_event_def record_types)
  moreover have "join_ready (J\<lparr>out_lines := out_lines J @ ?ls, prv_set_of := S'\<rparr>) (snd ?p) c"
    using c(2,3) known_event_run [OF ok(3), of alies r "[]"] by (simp add: join_ready_def del: event_run.simps)
  moreover have "trace_of alies (r # rs) = ?ls @ trace_of alies (snd ?p)"
    using assms(3) by (simp add: trace_of.simps(2) Let_def record_types del: event_run.simps)
  ultimately show ?thesis
    using of_type_event_run [of _ alies r "[]" "r # rs"]
    by (intro exI conjI) (auto simp: joined_to_def record_types simp del: event_run.simps of_type_simps)
qed

lemma step_refines:
  assumes "ample_memory alloc" and "join_ready J (r # rs) (Some r)"
  shows "\<exists>c J1 qs. join_step alloc alies r J = Inr (c, J1) \<and> join_ready J1 qs c \<and>
    (\<forall>J'. joined_to alies qs J1 J' \<longrightarrow> joined_to alies (r # rs) J J')"
proof (cases "rec_type r = EVENT")
  case True
  with assms show ?thesis by (rule step_events)
next
  case False
  let ?J = "if rec_type r = UNFINISHED_STATE then J\<lparr>num_incomplete_state := num_incomplete_state J + 1\<rparr>
    else if rec_type r = STATE then J\<lparr>out_lines := out_lines J @ paraver_state r\<rparr>
    else if rec_type r = UNMATCHED_COMMUNICATION then J\<lparr>num_unmatched_comm := num_unmatched_comm J + 1\<rparr>
    else if rec_type r = PENDING_COMMUNICATION then J\<lparr>num_pending_comm := num_pending_comm J + 1\<rparr>
    else J\<lparr>out_lines := out_lines J @ paraver_communication r\<rparr>"
  have known: "known_type r" using assms(2) by (simp add: join_ready_def)
  with False have "join_step alloc alies r J = next_record alloc ?J"
    by (auto simp: join_step_def known_type_def)
  moreover have "join_ready ?J (r # rs) (Some r)" using assms(2) by simp
  from next_record_ready [OF assms(1) this] obtain c S where
    "next_record alloc ?J = Inr (c, ?J\<lparr>prv_set_of := S\<rparr>)" "join_ready (?J\<lparr>prv_set_of := S\<rparr>) rs c" by blast
  moreover have "joined_to alies rs (?J\<lparr>prv_set_of := S\<rparr>) J' \<Longrightarrow> joined_to alies (r # rs) J J'" for J'
    using False known
    by (auto simp: joined_to_def trace_of.simps(2) known_type_def record_types split: if_splits)
  ultimately show ?thesis by metis
qed

lemma join_loop_refines:
  assumes "ample_memory alloc" and "join_ready J rs cur"
  shows "\<exists>J'. join_loop alloc alies cur J = Inr J' \<and> joined_to alies rs J J'"
  using assms
proof (induction alloc alies cur J arbitrary: rs rule: join_loop.induct)
  case (1 alloc alies cur J)
  show ?case
  proof (cases cur)
    case None
    with "1.prems"(2) show ?thesis
      by (subst join_loop.simps) (auto simp: join_ready_def to_come_def joined_to_def)
  next
    case (Some r)
    with "1.prems"(2) obtain qs where "rs = r # qs" by (auto simp: join_ready_def to_come_def)
    with step_refines [of alloc J r qs alies] "1.prems" Some obtain c J1 ps where
      s: "join_step alloc alies r J = Inr (c, J1)" "join_ready J1 ps c"
        "\<forall>J'. joined_to alies ps J1 J' \<longrightarrow> joined_to alies rs J J'" by blast
    have "join_loop alloc alies cur J = join_loop alloc alies c J1"
      by (subst join_loop.simps) (use Some s(1) in simp)
    with "1.IH" [OF Some s(1), of ps] "1.prems"(1) s(2,3) show ?thesis by auto
  qed
qed

lemma joining_refines:
  assumes "ample_memory alloc" and "set_ok S" and "merged (pendings S) \<noteq> []" and "list_all known_type (merged (pendings S))"
  shows "\<exists>J. Paraver_JoinFiles_Master alloc alies S = Inr J \<and> joined_to alies (merged (pendings S))
    \<lparr>prv_set_of = S, out_lines = [], num_incomplete_state = 0, num_unmatched_comm = 0, num_pending_comm = 0\<rparr> J"
proof -
  from next_to_come [OF assms(1,2)] obtain c S1 where
    c: "GetNextParaver_Rec alloc S = Inr (c, S1)" "set_ok S1" "to_come c S1 = merged (pendings S)" by blast
  with assms(3) obtain r where r: "c = Some r" by (cases c) (auto simp: to_come_def)
  let ?J = "\<lambda>S. \<lparr>prv_set_of = S, out_lines = [], num_incomplete_state = 0, num_unmatched_comm = 0, num_pending_comm = 0\<rparr>"
  have "join_ready (?J S1) (merged (pendings S)) c" using c assms(4) by (simp add: join_ready_def)
  from join_loop_refines [OF assms(1) this, of alies] obtain J where
    "join_loop alloc alies c (?J S1) = Inr J" "joined_to alies (merged (pendings S)) (?J S1) J" by blast
  with c(1) r show ?thesis by (simp add: Paraver_JoinFiles_Master_def joined_to_def)
qed

text \<open>With no record at all the first look at its type follows a null pointer.\<close>

lemma joining_nothing:
  assumes "ample_memory alloc" and "set_ok S" and "merged (pendings S) = []"
  shows "Paraver_JoinFiles_Master alloc alies S = Inl NullPointer"
proof -
  from next_to_come [OF assms(1,2)] obtain c S1 where
    "GetNextParaver_Rec alloc S = Inr (c, S1)" "to_come c S1 = []" using assms(3) by auto
  then show ?thesis by (cases c) (simp_all add: Paraver_JoinFiles_Master_def to_come_def)
qed

text \<open>All that \<open>GetNextParaver_Rec\<close> gives, called until it gives nothing.\<close>

function read_all :: "allocator \<Rightarrow> prv_set \<Rightarrow> paraver_rec_t list res" where
  "read_all alloc S =
     andthen (GetNextParaver_Rec alloc S) (\<lambda>p.
       case fst p of None \<Rightarrow> Inr []
       | Some r \<Rightarrow> andthen (read_all alloc (snd p)) (\<lambda>rs. Inr (r # rs)))"
  by pat_completeness auto
termination
  by (relation "measure (\<lambda>(alloc, S). unread S)") (auto intro: next_unread)

declare read_all.simps [simp del]

lemma read_all_merged: "ample_memory alloc \<Longrightarrow> set_ok S \<Longrightarrow> read_all alloc S = Inr (merged (pendings S))"
proof (induction alloc S rule: read_all.induct)
  case (1 alloc S)
  from next_to_come [OF "1.prems"] obtain c S' where
    c: "GetNextParaver_Rec alloc S = Inr (c, S')" "set_ok S'" "to_come c S' = merged (pendings S)" by blast
  show ?case
  proof (cases c)
    case None
    with c show ?thesis by (subst read_all.simps) (simp add: to_come_def)
  next
    case (Some r)
    with "1.IH" [OF c(1), of r] "1.prems"(1) c(2) have "read_all alloc S' = Inr (merged (pendings S'))" by simp
    with c Some show ?thesis by (subst read_all.simps) (simp add: to_come_def)
  qed
qed

section \<open>An example\<close>

definition example_state :: "nat \<Rightarrow> nat \<Rightarrow> paraver_rec_t" where
  "example_state a b =
     \<lparr>receive_logical = 0, receive_physical = 0, rec_value = 1, rec_time = of_nat a, end_time = of_nat b, rec_type = STATE,
      rec_event = 0, rec_cpu = 1, rec_ptask = 1, rec_task = 1, rec_thread = 1, cpu_r = 0, ptask_r = 0, task_r = 0, thread_r = 0\<rparr>"

definition example_event :: "nat \<Rightarrow> paraver_rec_t" where
  "example_event a = (example_state a 0)\<lparr>rec_type := EVENT, rec_event := 50000001\<rparr>"

definition example_set :: "nat \<Rightarrow> prv_set" where
  "example_set n =
     \<lparr>prv_files = [opened [example_state 0 10, example_event 20], opened [example_event 20, example_state 20 30]],
      records_per_block = n\<rparr>"

lemma example_merged:
  "merged (pendings (example_set 1)) = [example_state 0 10, example_event 20, example_event 20, example_state 20 30]"
  by code_simp

lemma example_ok: "set_ok (example_set 1)" "ample_memory (\<lambda>_. True)"
  by (simp_all add: set_ok_def example_set_def file_ok_def opened_def ample_memory_def)

section \<open>Properties\<close>

text \<open>C9. The join always comes to an end, and what it writes does not depend on the blocks the files
  are read in: with memory for the blocks, files that hold the records they announce, at least one
  record, and only the six types of record, \<open>Paraver_JoinFiles_Master\<close> returns; the lines it has written
  are those of the sequence of records merged by time and type, with the events of one object and one
  time on one line of at most 1,024; and it has counted each unfinished state, each unmatched and each
  pending communication.\<close>

theorem join_writes_merged_trace:
  assumes "ample_memory alloc" and "set_ok S" and "merged (pendings S) \<noteq> []" and "list_all known_type (merged (pendings S))"
  shows "\<exists>J. Paraver_JoinFiles_Master alloc alies S = Inr J \<and> out_lines J = trace_of alies (merged (pendings S)) \<and>
    num_incomplete_state J = of_type UNFINISHED_STATE (merged (pendings S)) \<and>
    num_unmatched_comm J = of_type UNMATCHED_COMMUNICATION (merged (pendings S)) \<and>
    num_pending_comm J = of_type PENDING_COMMUNICATION (merged (pendings S))"
  using joining_refines [OF assms, of alies] by (auto simp: joined_to_def)

theorem join_writes_merged_trace_witness:
  "\<exists>J. Paraver_JoinFiles_Master (\<lambda>_. True) (\<lambda>_ _ _. 0) (example_set 1) = Inr J \<and>
    out_lines J = [State_line 1 1 1 1 0 10 1, Event_line 1 1 1 1 20 [(50000001, 1), (50000001, 1)], State_line 1 1 1 1 20 30 1]"
proof -
  have "list_all known_type (merged (pendings (example_set 1)))"
    unfolding example_merged by code_simp
  moreover have "merged (pendings (example_set 1)) \<noteq> []" unfolding example_merged by simp
  moreover have "trace_of (\<lambda>_ _ _. 0) (merged (pendings (example_set 1))) =
      [State_line 1 1 1 1 0 10 1, Event_line 1 1 1 1 20 [(50000001, 1), (50000001, 1)], State_line 1 1 1 1 20 30 1]"
    unfolding example_merged by code_simp
  ultimately show ?thesis
    using join_writes_merged_trace [OF example_ok(2,1), of "\<lambda>_ _ _. 0"] by auto
qed

text \<open>C10. The records of all files come out of \<open>GetNextParaver_Rec\<close>, each exactly once, and by time
  when each file is: called until it gives nothing, it ends after giving all of them, whatever the size
  of the blocks.\<close>

theorem every_record_in_time:
  assumes "ample_memory alloc" and "set_ok S"
  shows "\<exists>rs. read_all alloc S = Inr rs \<and> mset rs = sum_list (map (\<lambda>f. mset (pending f)) (prv_files S)) \<and>
    (list_all (\<lambda>f. in_time (pending f)) (prv_files S) \<longrightarrow> in_time rs)"
  using read_all_merged [OF assms] merged_mset [of "pendings S"] merged_sorted [of "pendings S"]
  by (auto simp: pendings_def comp_def list_all_iff)

theorem every_record_in_time_witness:
  "\<exists>rs. read_all (\<lambda>_. True) (example_set 1) = Inr rs \<and> size (mset rs) = 4 \<and> in_time rs"
proof -
  have "list_all (\<lambda>f. in_time (pending f)) (prv_files (example_set 1))"
    by (simp add: example_set_def in_time_def pending_def opened_def example_event_def example_state_def)
  moreover have "size (sum_list (map (\<lambda>f. mset (pending f)) (prv_files (example_set 1)))) = 4"
    by (simp add: example_set_def pending_def opened_def)
  ultimately show ?thesis
    using every_record_in_time [OF example_ok(2,1)] by (metis size_mset)
qed

end
