(* ===== verification/RequestTable.thy ===== *)
theory RequestTable
  imports Prelude "HOL-Library.Multiset"
begin

text \<open>
  What the MPI wrappers rely on when they keep data of a pending operation under its key: an entry
  can be added as long as no more are pending than the table has spare cells, a search finds one of
  the entries of a key, and a removal takes one out.

  The lemmas of the locale say what this gives for keys that are not reused while they are pending:
  the table is a finite map.
\<close>

locale request_table =
  fixes add :: "'d \<Rightarrow> 't \<Rightarrow> (bool \<times> 't) res"
    and search :: "'t \<Rightarrow> 'k \<Rightarrow> 'd option res"
    and remove :: "'k \<Rightarrow> 't \<Rightarrow> (bool \<times> 't) res"
    and items :: "'t \<Rightarrow> 'd multiset"
    and inv :: "'t \<Rightarrow> bool"
    and key :: "'d \<Rightarrow> 'k"
    and spare :: "'t \<Rightarrow> nat"
  assumes add_entry: "inv t \<Longrightarrow> size (items t) \<le> spare t \<Longrightarrow>
      \<exists>t'. add d t = Inr (False, t') \<and> inv t' \<and> items t' = add_mset d (items t) \<and> spare t' = spare t"
    and search_entry: "inv t \<Longrightarrow>
      (\<exists>d. search t k = Inr (Some d) \<and> d \<in># items t \<and> key d = k) \<or>
      (search t k = Inr None \<and> k \<notin> key ` set_mset (items t))"
    and remove_entry: "inv t \<Longrightarrow>
      (\<exists>d t'. remove k t = Inr (False, t') \<and> inv t' \<and> key d = k \<and> items t = add_mset d (items t') \<and> spare t' = spare t) \<or>
      (remove k t = Inr (True, t) \<and> k \<notin> key ` set_mset (items t))"
begin

text \<open>The table holds a map: one entry for each of its keys.\<close>

definition holds :: "'t \<Rightarrow> ('k \<Rightarrow> 'd option) \<Rightarrow> bool" where
  "holds t m \<longleftrightarrow> inv t \<and> finite (dom m) \<and> (\<forall>k d. m k = Some d \<longrightarrow> key d = k) \<and> items t = mset_set (ran m)"

lemma holds_entry: "holds t m \<Longrightarrow> d \<in># items t \<longleftrightarrow> m (key d) = Some d"
proof -
  assume h: "holds t m"
  then have "finite (ran m)" by (auto simp: holds_def finite_ran)
  moreover have "d \<in> ran m \<longleftrightarrow> m (key d) = Some d" using h by (auto simp: holds_def ran_def)
  ultimately show ?thesis using h by (simp add: holds_def)
qed

lemma holds_keys: "holds t m \<Longrightarrow> key ` set_mset (items t) = dom m"
proof -
  assume h: "holds t m"
  then have "set_mset (items t) = ran m" by (simp add: holds_def finite_ran)
  with h show ?thesis by (force simp: holds_def ran_def)
qed

lemma holds_size: "holds t m \<Longrightarrow> size (items t) = card (dom m)"
proof -
  assume h: "holds t m"
  then have "inj_on key (ran m)" by (auto simp: holds_def inj_on_def ran_def)
  moreover have "key ` ran m = dom m" using holds_keys [OF h] h by (simp add: holds_def finite_ran)
  ultimately have "card (ran m) = card (dom m)" by (metis card_image)
  with h show ?thesis by (simp add: holds_def)
qed

lemma holds_empty: "inv t \<Longrightarrow> items t = {#} \<Longrightarrow> holds t (\<lambda>_. None)"
  by (simp add: holds_def ran_def)

lemma holds_search: "holds t m \<Longrightarrow> search t k = Inr (m k)"
proof -
  assume h: "holds t m"
  then have "inv t" by (simp add: holds_def)
  from search_entry [OF this, of k] show ?thesis
  proof
    assume "\<exists>d. search t k = Inr (Some d) \<and> d \<in># items t \<and> key d = k"
    with holds_entry [OF h] show ?thesis by auto
  next
    assume "search t k = Inr None \<and> k \<notin> key ` set_mset (items t)"
    with holds_keys [OF h] show ?thesis by (auto simp: domIff)
  qed
qed

lemma holds_add:
  assumes "holds t m" and "m (key d) = None" and "card (dom m) \<le> spare t"
  shows "\<exists>t'. add d t = Inr (False, t') \<and> holds t' (m(key d \<mapsto> d)) \<and> spare t' = spare t"
proof -
  have "inv t" "size (items t) \<le> spare t" using assms holds_size by (auto simp: holds_def)
  from add_entry [OF this, of d] obtain t' where
    t': "add d t = Inr (False, t')" "inv t'" "items t' = add_mset d (items t)" "spare t' = spare t" by blast
  have "d \<notin> ran m" using assms(1,2) by (auto simp: holds_def ran_def)
  moreover have "ran (m(key d \<mapsto> d)) = insert d (ran m)" using assms(2) by simp
  ultimately have "items t' = mset_set (ran (m(key d \<mapsto> d)))"
    using t'(3) assms(1) by (simp add: holds_def finite_ran)
  with t' assms(1) show ?thesis by (auto simp: holds_def)
qed

lemma holds_remove:
  assumes "holds t m"
  shows "\<exists>t'. remove k t = Inr (m k = None, t') \<and> holds t' (m(k := None)) \<and> spare t' = spare t"
proof -
  have "inv t" using assms by (simp add: holds_def)
  from remove_entry [OF this, of k] show ?thesis
  proof (elim disjE exE conjE)
    fix d t'
    assume t': "remove k t = Inr (False, t')" "inv t'" "key d = k" "items t = add_mset d (items t')" "spare t' = spare t"
    have k: "m k = Some d" using holds_entry [OF assms, of d] t'(3,4) by simp
    have fin: "finite (ran m)" using assms by (simp add: holds_def finite_ran)
    have "ran (m(k := None)) = ran m - {d}"
    proof (intro set_eqI iffI)
      fix x assume "x \<in> ran (m(k := None))"
      then obtain a where "m a = Some x" "a \<noteq> k" by (auto simp: ran_def split: if_splits)
      with assms t'(3) show "x \<in> ran m - {d}" by (auto simp: holds_def intro: ranI)
    next
      fix x assume x: "x \<in> ran m - {d}"
      then obtain a where a: "m a = Some x" by (auto simp: ran_def)
      with k x have "(m(k := None)) a = Some x" by auto
      then show "x \<in> ran (m(k := None))" by (rule ranI)
    qed
    moreover have "items t' = mset_set (ran m) - {#d#}" using assms t'(4) by (metis add_mset_remove_trivial holds_def)
    ultimately have "items t' = mset_set (ran (m(k := None)))" using fin k by (simp add: mset_set_Diff ranI)
    with t' assms k show ?thesis by (auto simp: holds_def)
  next
    assume a: "remove k t = Inr (True, t)" "k \<notin> key ` set_mset (items t)"
    then have "m k = None" using holds_keys [OF assms] by (auto simp: domIff)
    with a(1) assms show ?thesis by (simp add: fun_upd_idem)
  qed
qed

end

end
