(* ===== verification/HashTable.thy ===== *)
theory HashTable
  imports SlotTable RequestTable "HOL-Library.Word"
begin

text \<open>
  The table of the pending MPI requests of a process,
  \<open>trunk/dependencies/extrae/src/tracer/wrappers/MPI/hash_table.c\<close>: an array of cells, and an array
  of overflow cells that are linked into one list per cell, or into the list of the free ones.

  The arrays have the lengths the table was made with, which in the code are the constants
  \<open>HASH_TABLE_SIZE\<close> and \<open>HASH_OVERFLOW_SIZE\<close>. A request of the MPI library is the number it is cast to.
  The operations that lock the mutex of the table run one at a time here. The fuel of a walk along a
  list is one more than there are overflow cells.
\<close>

type_synonym request = "64 word"

record hash_data_t =
  hash_key :: request
  hash_group :: "64 word"
  hash_commid :: "64 word"
  hash_partner :: "32 word"
  hash_tag :: "32 word"
  hash_size :: "32 word"

record hash_tbl_t =
  ovf_link :: int
  tbl_data :: hash_data_t

record hash_ovf_t =
  ovf_next :: int
  ovf_data :: hash_data_t

record hash_t =
  hash_cells :: "hash_tbl_t list"
  hash_overflow :: "hash_ovf_t list"
  ovf_free :: int

definition HASH_NULL :: int where
  "HASH_NULL = - 1"

definition HASH_FREE :: int where
  "HASH_FREE = - 2"

definition HASH_TABLE_SIZE :: nat where
  "HASH_TABLE_SIZE = 458879"

definition HASH_OVERFLOW_SIZE :: nat where
  "HASH_OVERFLOW_SIZE = (HASH_TABLE_SIZE * 15) div 100"

definition HASH_FUNCTION :: "hash_t \<Rightarrow> request \<Rightarrow> int" where
  "HASH_FUNCTION h x = uint x mod int (length (hash_cells h))"

section \<open>Operations\<close>

definition hash_init :: "hash_t \<Rightarrow> hash_t res" where
  "hash_init h =
     andthen (array_get (hash_overflow h) (int (length (hash_overflow h)) - 1)) (\<lambda>last_cell.
       Inr (h\<lparr>hash_cells := map (\<lambda>c. c\<lparr>ovf_link := HASH_FREE\<rparr>) (hash_cells h),
              hash_overflow := map (\<lambda>i. (hash_overflow h ! i)\<lparr>ovf_next := int i + 1\<rparr>) [0..<length (hash_overflow h) - 1] @
                [last_cell\<lparr>ovf_next := HASH_NULL\<rparr>],
              ovf_free := 0\<rparr>))"

text \<open>The result of \<open>hash_add\<close> and \<open>hash_remove\<close> is true when they fail.\<close>

definition hash_add :: "hash_data_t \<Rightarrow> hash_t \<Rightarrow> (bool \<times> hash_t) res" where
  "hash_add d h =
     (let cell = HASH_FUNCTION h (hash_key d) in
      andthen (array_get (hash_cells h) cell) (\<lambda>c.
        if ovf_link c = HASH_FREE then
          andthen (array_set (hash_cells h) cell (c\<lparr>ovf_link := HASH_NULL, tbl_data := d\<rparr>)) (\<lambda>cs.
            Inr (False, h\<lparr>hash_cells := cs\<rparr>))
        else if ovf_free h = HASH_NULL then Inr (True, h)
        else
          let free = ovf_free h in
          andthen (array_get (hash_overflow h) free) (\<lambda>o1.
          andthen (array_set (hash_overflow h) free (o1\<lparr>ovf_next := ovf_link c, ovf_data := d\<rparr>)) (\<lambda>os.
          andthen (array_set (hash_cells h) cell (c\<lparr>ovf_link := free\<rparr>)) (\<lambda>cs.
            Inr (False, h\<lparr>hash_cells := cs, hash_overflow := os, ovf_free := ovf_next o1\<rparr>))))))"

fun search_overflow :: "nat \<Rightarrow> hash_t \<Rightarrow> int \<Rightarrow> request \<Rightarrow> hash_data_t option res" where
  "search_overflow 0 h ovf key = Inl Diverges"
| "search_overflow (Suc n) h ovf key =
     (if ovf \<noteq> HASH_NULL then
        andthen (array_get (hash_overflow h) ovf) (\<lambda>c.
          if hash_key (ovf_data c) = key then Inr (Some (ovf_data c)) else search_overflow n h (ovf_next c) key)
      else Inr None)"

definition hash_search :: "hash_t \<Rightarrow> request \<Rightarrow> hash_data_t option res" where
  "hash_search h key =
     andthen (array_get (hash_cells h) (HASH_FUNCTION h key)) (\<lambda>c.
       if ovf_link c = HASH_FREE then Inr None
       else if hash_key (tbl_data c) = key then Inr (Some (tbl_data c))
       else search_overflow (length (hash_overflow h) + 1) h (ovf_link c) key)"

text \<open>The overflow cell with the key and the one before it, \<open>HASH_NULL\<close> for none.\<close>

fun remove_search :: "nat \<Rightarrow> hash_t \<Rightarrow> int \<Rightarrow> int \<Rightarrow> request \<Rightarrow> (int \<times> int) res" where
  "remove_search 0 h prev ovf key = Inl Diverges"
| "remove_search (Suc n) h prev ovf key =
     (if ovf \<noteq> HASH_NULL then
        andthen (array_get (hash_overflow h) ovf) (\<lambda>c.
          if hash_key (ovf_data c) \<noteq> key then remove_search n h ovf (ovf_next c) key else Inr (prev, ovf))
      else Inr (prev, ovf))"

text \<open>Putting an overflow cell on the free list.\<close>

definition free_overflow :: "int \<Rightarrow> hash_t \<Rightarrow> hash_t res" where
  "free_overflow ovf h =
     andthen (array_get (hash_overflow h) ovf) (\<lambda>o1.
     andthen (array_set (hash_overflow h) ovf (o1\<lparr>ovf_next := ovf_free h\<rparr>)) (\<lambda>os.
       Inr (h\<lparr>hash_overflow := os, ovf_free := ovf\<rparr>)))"

definition hash_remove :: "request \<Rightarrow> hash_t \<Rightarrow> (bool \<times> hash_t) res" where
  "hash_remove key h =
     (let cell = HASH_FUNCTION h key in
      andthen (array_get (hash_cells h) cell) (\<lambda>c.
        if ovf_link c = HASH_FREE then Inr (True, h)
        else if hash_key (tbl_data c) = key then
          let ovf = ovf_link c in
          if ovf \<noteq> HASH_NULL then
            andthen (array_get (hash_overflow h) ovf) (\<lambda>o1.
            andthen (array_set (hash_cells h) cell (c\<lparr>tbl_data := ovf_data o1, ovf_link := ovf_next o1\<rparr>)) (\<lambda>cs.
            andthen (free_overflow ovf (h\<lparr>hash_cells := cs\<rparr>)) (\<lambda>h. Inr (False, h))))
          else
            andthen (array_set (hash_cells h) cell (c\<lparr>ovf_link := HASH_FREE\<rparr>)) (\<lambda>cs.
              Inr (False, h\<lparr>hash_cells := cs\<rparr>))
        else
          andthen (remove_search (length (hash_overflow h) + 1) h HASH_NULL (ovf_link c) key) (\<lambda>(prev, ovf).
            if ovf = HASH_NULL then Inr (True, h)
            else
              andthen (array_get (hash_overflow h) ovf) (\<lambda>o1.
              andthen (if prev = HASH_NULL then
                         andthen (array_set (hash_cells h) cell (c\<lparr>ovf_link := ovf_next o1\<rparr>)) (\<lambda>cs.
                           Inr (h\<lparr>hash_cells := cs\<rparr>))
                       else
                         andthen (array_get (hash_overflow h) prev) (\<lambda>p1.
                         andthen (array_set (hash_overflow h) prev (p1\<lparr>ovf_next := ovf_next o1\<rparr>)) (\<lambda>os.
                           Inr (h\<lparr>hash_overflow := os\<rparr>)))) (\<lambda>h.
              andthen (free_overflow ovf h) (\<lambda>h. Inr (False, h)))))))"

section \<open>Lists of overflow cells\<close>

fun linked :: "hash_ovf_t list \<Rightarrow> int \<Rightarrow> nat list \<Rightarrow> bool" where
  "linked os p [] \<longleftrightarrow> p = HASH_NULL"
| "linked os p (a # as) \<longleftrightarrow> p = int a \<and> a < length os \<and> linked os (ovf_next (os ! a)) as"

lemma linked_update: "a \<notin> set as \<Longrightarrow> linked (os[a := x]) p as = linked os p as"
  by (induction os p as rule: linked.induct) auto

lemma linked_bounds: "linked os p as \<Longrightarrow> set as \<subseteq> {..<length os}"
  by (induction os p as rule: linked.induct) auto

lemma linked_null: "linked os HASH_NULL as \<longleftrightarrow> as = []"
  by (cases as) (auto simp: HASH_NULL_def)

lemma linked_not_null: "linked os p as \<Longrightarrow> p \<noteq> HASH_NULL \<longleftrightarrow> as \<noteq> []"
  by (cases as) (auto simp: HASH_NULL_def)

lemma linked_not_free: "linked os p as \<Longrightarrow> p \<noteq> HASH_FREE"
  by (cases as) (auto simp: HASH_NULL_def HASH_FREE_def)

lemma linked_append: "linked os p (as @ b # bs) \<Longrightarrow> linked os (int b) (b # bs)"
  by (induction os p as rule: linked.induct) auto

text \<open>The cells met from a link, for at most as many steps as given.\<close>

fun walk :: "nat \<Rightarrow> hash_ovf_t list \<Rightarrow> int \<Rightarrow> nat list" where
  "walk 0 os p = []"
| "walk (Suc n) os p = (if p < 0 \<or> nat p \<ge> length os then [] else nat p # walk n os (ovf_next (os ! nat p)))"

lemma walk_linked: "linked os p as \<Longrightarrow> length as \<le> n \<Longrightarrow> walk n os p = as"
proof (induction os p as arbitrary: n rule: linked.induct)
  case (1 os p)
  then show ?case by (cases n) (auto simp: HASH_NULL_def)
next
  case (2 os p a as)
  then show ?case by (cases n) auto
qed

lemma search_linked:
  "linked (hash_overflow h) p as \<Longrightarrow> length as < n \<Longrightarrow>
    search_overflow n h p key = Inr (find (\<lambda>d. hash_key d = key) (map (\<lambda>a. ovf_data (hash_overflow h ! a)) as))"
proof (induction "hash_overflow h" p as arbitrary: n rule: linked.induct)
  case (1 p)
  then show ?case by (cases n) auto
next
  case (2 p a as)
  then show ?case by (cases n) (auto simp: bounds_simps HASH_NULL_def)
qed

lemma remove_search_linked:
  "linked (hash_overflow h) p as \<Longrightarrow> length as < n \<Longrightarrow>
    (case first_index (\<lambda>a. hash_key (ovf_data (hash_overflow h ! a)) = key) as of
       None \<Rightarrow> \<exists>q. remove_search n h prev p key = Inr (q, HASH_NULL)
     | Some i \<Rightarrow> remove_search n h prev p key = Inr (if i = 0 then prev else int (as ! (i - 1)), int (as ! i)))"
proof (induction "hash_overflow h" p as arbitrary: n prev rule: linked.induct)
  case (1 p)
  then show ?case by (cases n) auto
next
  case (2 p a as)
  then obtain m where m: "n = Suc m" by (cases n) auto
  show ?case
  proof (cases "hash_key (ovf_data (hash_overflow h ! a)) = key")
    case True
    with 2 m show ?thesis by (simp add: bounds_simps HASH_NULL_def)
  next
    case False
    with 2(1) [of m "int a"] 2(2,3) m show ?thesis
      by (auto simp: bounds_simps HASH_NULL_def split: option.splits if_splits)
  qed
qed

section \<open>The contents\<close>

definition bucket :: "hash_ovf_t list \<Rightarrow> hash_tbl_t \<Rightarrow> hash_data_t list" where
  "bucket os c =
     (if ovf_link c = HASH_FREE then []
      else tbl_data c # map (\<lambda>a. ovf_data (os ! a)) (walk (length os) os (ovf_link c)))"

definition buckets :: "hash_t \<Rightarrow> hash_data_t list list" where
  "buckets h = map (bucket (hash_overflow h)) (hash_cells h)"

definition requests :: "hash_t \<Rightarrow> hash_data_t multiset" where
  "requests h = sum_list (map mset (buckets h))"

text \<open>The lists of the cells and the free list share out the overflow cells.\<close>

definition chain_ok :: "hash_ovf_t list \<Rightarrow> hash_tbl_t \<Rightarrow> nat list \<Rightarrow> bool" where
  "chain_ok os c as \<longleftrightarrow> (if ovf_link c = HASH_FREE then as = [] else linked os (ovf_link c) as)"

definition well_linked :: "hash_t \<Rightarrow> nat list list \<Rightarrow> nat list \<Rightarrow> bool" where
  "well_linked h rows fl \<longleftrightarrow>
     length rows = length (hash_cells h) \<and>
     (\<forall>c < length (hash_cells h). chain_ok (hash_overflow h) (hash_cells h ! c) (rows ! c)) \<and>
     linked (hash_overflow h) (ovf_free h) fl \<and>
     mset fl + sum_list (map mset rows) = mset [0..<length (hash_overflow h)]"

definition placed :: "hash_t \<Rightarrow> bool" where
  "placed h \<longleftrightarrow> hash_cells h \<noteq> [] \<and>
     (\<forall>c < length (buckets h). \<forall>d \<in> set (buckets h ! c). HASH_FUNCTION h (hash_key d) = int c)"

definition table_ok :: "hash_t \<Rightarrow> bool" where
  "table_ok h \<longleftrightarrow> placed h \<and> (\<exists>rows fl. well_linked h rows fl)"

lemma buckets_length [simp]: "length (buckets h) = length (hash_cells h)"
  by (simp add: buckets_def)

lemma linked_cong:
  assumes "length os' = length os"
  shows "(\<And>a. a \<in> set as \<Longrightarrow> os' ! a = os ! a) \<Longrightarrow> linked os' p as = linked os p as"
proof (induction as arbitrary: p)
  case (Cons a as)
  have "linked os' (ovf_next (os ! a)) as = linked os (ovf_next (os ! a)) as" by (rule Cons.IH) (simp add: Cons.prems)
  moreover have "os' ! a = os ! a" by (simp add: Cons.prems)
  ultimately show ?case using assms by simp
qed simp

lemma chain_ok_cong:
  "length os' = length os \<Longrightarrow> (\<And>a. a \<in> set as \<Longrightarrow> os' ! a = os ! a) \<Longrightarrow> chain_ok os' c as = chain_ok os c as"
  using linked_cong [of os' os as "ovf_link c"] by (simp only: chain_ok_def)

text \<open>A list of distinct overflow cells gives the bucket.\<close>

definition chain_data :: "hash_ovf_t list \<Rightarrow> nat list \<Rightarrow> hash_data_t list" where
  "chain_data os as = map (\<lambda>a. ovf_data (os ! a)) as"

lemma chain_data_cong:
  "(\<And>e. e \<in> set as \<Longrightarrow> ovf_data (os' ! e) = ovf_data (os ! e)) \<Longrightarrow> chain_data os' as = chain_data os as"
  by (simp add: chain_data_def)

lemma chain_data_update [simp]: "a \<notin> set as \<Longrightarrow> chain_data (os[a := x]) as = chain_data os as"
  by (rule chain_data_cong) (metis nth_list_update_neq)

lemma bucket_chain:
  assumes "chain_ok os c as" and "distinct as"
  shows "bucket os c = (if ovf_link c = HASH_FREE then [] else tbl_data c # chain_data os as)"
proof (cases "ovf_link c = HASH_FREE")
  case True
  then show ?thesis by (simp add: bucket_def)
next
  case False
  with assms(1) have l: "linked os (ovf_link c) as" by (simp add: chain_ok_def)
  have "length as \<le> length os"
    using card_mono [OF finite_lessThan linked_bounds [OF l]] distinct_card [OF assms(2)] by simp
  from walk_linked [OF l this] False show ?thesis by (simp add: bucket_def chain_data_def)
qed

lemma well_linked_distinct:
  assumes "well_linked h rows fl"
  shows "distinct fl" and "distinct (concat rows)" and "set fl \<inter> set (concat rows) = {}"
proof -
  have "mset (fl @ concat rows) = mset [0..<length (hash_overflow h)]"
    using assms by (simp add: well_linked_def mset_concat)
  then have "distinct (fl @ concat rows)" by (metis mset_eq_imp_distinct_iff distinct_upt)
  then show "distinct fl" "distinct (concat rows)" "set fl \<inter> set (concat rows) = {}" by auto
qed

lemma well_linked_chain:
  assumes "well_linked h rows fl" and "c < length (hash_cells h)"
  shows "distinct (rows ! c)" and "set fl \<inter> set (rows ! c) = {}"
    and "chain_ok (hash_overflow h) (hash_cells h ! c) (rows ! c)"
proof -
  have c: "c < length rows" using assms by (simp add: well_linked_def)
  then show "distinct (rows ! c)" using well_linked_distinct(2) [OF assms(1)] distinct_concat_nth by blast
  have "set (rows ! c) \<subseteq> set (concat rows)" using nth_mem [OF c] by auto
  then show "set fl \<inter> set (rows ! c) = {}" using well_linked_distinct(3) [OF assms(1)] by blast
  show "chain_ok (hash_overflow h) (hash_cells h ! c) (rows ! c)" using assms by (simp add: well_linked_def)
qed

text \<open>One operation changes the list of one cell and the free list, and only their overflow cells.\<close>

lemma relink:
  assumes ok: "well_linked h rows fl" and c: "c < length (hash_cells h)"
    and len: "length os' = length (hash_overflow h)"
    and same: "\<And>a. a \<notin> set fl \<Longrightarrow> a \<notin> set (rows ! c) \<Longrightarrow> os' ! a = hash_overflow h ! a"
    and chain: "chain_ok os' cell' as'" and free: "linked os' free' fl'"
    and owned: "mset fl' + mset as' = mset fl + mset (rows ! c)"
  shows "well_linked (h\<lparr>hash_cells := (hash_cells h)[c := cell'], hash_overflow := os', ovf_free := free'\<rparr>) (rows[c := as']) fl'"
    and "buckets (h\<lparr>hash_cells := (hash_cells h)[c := cell'], hash_overflow := os', ovf_free := free'\<rparr>) =
      (buckets h)[c := bucket os' cell']"
proof -
  have lens: "length rows = length (hash_cells h)" using ok by (simp add: well_linked_def)
  have untouched: "os' ! a = hash_overflow h ! a" if "e < length (hash_cells h)" "e \<noteq> c" "a \<in> set (rows ! e)" for e a
  proof (rule same)
    show "a \<notin> set fl" using well_linked_chain(2) [OF ok that(1)] that(3) by auto
    show "a \<notin> set (rows ! c)"
      using distinct_concat_disjoint [OF well_linked_distinct(2) [OF ok], of e c] that c lens by auto
  qed
  have rows: "chain_ok os' (hash_cells h ! e) (rows ! e)" if "e < length (hash_cells h)" "e \<noteq> c" for e
    using well_linked_chain(3) [OF ok that(1)] chain_ok_cong [OF len untouched [OF that]] by simp
  have "mset fl' + sum_list (map mset (rows[c := as'])) = mset fl + sum_list (map mset rows)"
  proof -
    have "sum_list (map mset (rows[c := as'])) + mset (rows ! c) = sum_list (map mset rows) + mset as'"
      using sum_mset_update [of c rows as'] c lens by simp
    then have "(mset fl' + sum_list (map mset (rows[c := as']))) + mset (rows ! c) = (mset fl' + mset as') + sum_list (map mset rows)"
      by (simp add: ac_simps)
    also have "\<dots> = (mset fl + sum_list (map mset rows)) + mset (rows ! c)"
      unfolding owned by (simp add: ac_simps)
    finally show ?thesis by simp
  qed
  then show "well_linked (h\<lparr>hash_cells := (hash_cells h)[c := cell'], hash_overflow := os', ovf_free := free'\<rparr>) (rows[c := as']) fl'"
    using ok rows chain free len c by (auto simp: well_linked_def nth_list_update)
  show "buckets (h\<lparr>hash_cells := (hash_cells h)[c := cell'], hash_overflow := os', ovf_free := free'\<rparr>) = (buckets h)[c := bucket os' cell']"
  proof (rule nth_equalityI)
    fix e assume e: "e < length (buckets (h\<lparr>hash_cells := (hash_cells h)[c := cell'], hash_overflow := os', ovf_free := free'\<rparr>))"
    then have e: "e < length (hash_cells h)" by simp
    show "buckets (h\<lparr>hash_cells := (hash_cells h)[c := cell'], hash_overflow := os', ovf_free := free'\<rparr>) ! e = (buckets h)[c := bucket os' cell'] ! e"
    proof (cases "e = c")
      case True
      with e show ?thesis by (simp add: buckets_def)
    next
      case False
      have "chain_data os' (rows ! e) = chain_data (hash_overflow h) (rows ! e)"
        using untouched [OF e False] by (simp add: chain_data_def)
      then have "bucket os' (hash_cells h ! e) = bucket (hash_overflow h) (hash_cells h ! e)"
        using bucket_chain rows [OF e False] well_linked_chain [OF ok e] by metis
      with e False show ?thesis by (simp add: buckets_def)
    qed
  qed simp
qed

lemma bucket_nth:
  assumes "well_linked h rows fl" and "c < length (hash_cells h)"
  shows "buckets h ! c =
    (if ovf_link (hash_cells h ! c) = HASH_FREE then []
     else tbl_data (hash_cells h ! c) # chain_data (hash_overflow h) (rows ! c))"
  using bucket_chain [OF well_linked_chain(3) [OF assms] well_linked_chain(1) [OF assms]] assms(2)
  by (simp add: buckets_def)

section \<open>Cells and keys\<close>

lemma key_cell:
  assumes "hash_cells h \<noteq> []"
  obtains c where "HASH_FUNCTION h key = int c" and "c < length (hash_cells h)"
proof -
  have "0 \<le> HASH_FUNCTION h key" "HASH_FUNCTION h key < int (length (hash_cells h))"
    using assms by (simp_all add: HASH_FUNCTION_def)
  then show ?thesis using that [of "nat (HASH_FUNCTION h key)"] by simp
qed

lemma placed_other:
  assumes "placed h" and "HASH_FUNCTION h key = int c" and "e < length (hash_cells h)" and "e \<noteq> c" and "d \<in> set (buckets h ! e)"
  shows "hash_key d \<noteq> key"
  using assms by (auto simp: placed_def)

lemma placed_update:
  assumes "placed h" and "buckets h' = (buckets h)[c := b]" and "c < length (hash_cells h)"
    and "length (hash_cells h') = length (hash_cells h)"
    and "\<And>d. d \<in> set b \<Longrightarrow> d \<in> set (buckets h ! c) \<or> HASH_FUNCTION h (hash_key d) = int c"
  shows "placed h'"
  using assms by (fastforce simp: placed_def HASH_FUNCTION_def nth_list_update)

lemma requests_update:
  assumes "buckets h' = (buckets h)[c := b]" and "c < length (hash_cells h)"
  shows "requests h' + mset (buckets h ! c) = requests h + mset b"
  using sum_mset_update [of c "buckets h" b] assms by (simp add: requests_def)

section \<open>What the operations do to a bucket\<close>

fun bucket_add :: "hash_data_t \<Rightarrow> hash_data_t list \<Rightarrow> hash_data_t list" where
  "bucket_add d [] = [d]"
| "bucket_add d (m # ds) = m # d # ds"

fun drop_first :: "('a \<Rightarrow> bool) \<Rightarrow> 'a list \<Rightarrow> 'a list" where
  "drop_first P [] = []"
| "drop_first P (x # xs) = (if P x then xs else x # drop_first P xs)"

definition changed :: "hash_t \<Rightarrow> hash_t \<Rightarrow> nat \<Rightarrow> hash_data_t list \<Rightarrow> bool" where
  "changed h h' c b \<longleftrightarrow> table_ok h' \<and> buckets h' = (buckets h)[c := b] \<and>
     length (hash_cells h') = length (hash_cells h) \<and> length (hash_overflow h') = length (hash_overflow h)"

lemma changedI:
  assumes "well_linked h rows fl" and "placed h" and "c < length (hash_cells h)"
    and "length os' = length (hash_overflow h)"
    and "\<And>a. a \<notin> set fl \<Longrightarrow> a \<notin> set (rows ! c) \<Longrightarrow> os' ! a = hash_overflow h ! a"
    and "chain_ok os' cell' as'" and "linked os' free' fl'"
    and "mset fl' + mset as' = mset fl + mset (rows ! c)"
    and "bucket os' cell' = b"
    and "\<And>d. d \<in> set b \<Longrightarrow> d \<in> set (buckets h ! c) \<or> HASH_FUNCTION h (hash_key d) = int c"
  shows "changed h (h\<lparr>hash_cells := (hash_cells h)[c := cell'], hash_overflow := os', ovf_free := free'\<rparr>) c b"
proof -
  let ?h = "h\<lparr>hash_cells := (hash_cells h)[c := cell'], hash_overflow := os', ovf_free := free'\<rparr>"
  note r = relink [OF assms(1,3-8)]
  have b: "buckets ?h = (buckets h)[c := b]" using r(2) assms(9) by simp
  have "placed ?h" by (rule placed_update [OF assms(2) b assms(3) _ assms(10)]) simp
  with r(1) b assms(4) show ?thesis unfolding changed_def table_ok_def by auto
qed

lemma table_okE:
  assumes "table_ok h"
  obtains c rows fl where "placed h" and "well_linked h rows fl" and "HASH_FUNCTION h key = int c"
    and "c < length (hash_cells h)"
proof -
  from assms obtain rows fl where ok: "placed h" "well_linked h rows fl" by (auto simp: table_ok_def)
  then have "hash_cells h \<noteq> []" by (simp add: placed_def)
  then obtain c where "HASH_FUNCTION h key = int c" "c < length (hash_cells h)" by (rule key_cell)
  with ok show ?thesis by (intro that)
qed

lemma hash_add_room:
  assumes ok: "well_linked h rows fl" and pl: "placed h"
    and c: "HASH_FUNCTION h (hash_key d) = int c" "c < length (hash_cells h)"
    and room: "ovf_link (hash_cells h ! c) \<noteq> HASH_FREE" "ovf_free h \<noteq> HASH_NULL"
  shows "\<exists>h'. hash_add d h = Inr (False, h') \<and> changed h h' c (bucket_add d (buckets h ! c))"
proof -
  let ?os = "hash_overflow h" and ?cell = "hash_cells h ! c" and ?as = "rows ! c"
  from ok room(2) obtain a fl' where fl: "fl = a # fl'" "ovf_free h = int a" "a < length ?os" "linked ?os (ovf_next (?os ! a)) fl'"
    by (cases fl) (auto simp: well_linked_def)
  have notin: "a \<notin> set fl'" "a \<notin> set ?as"
    using well_linked_distinct(1) [OF ok] well_linked_chain(2) [OF ok c(2)] fl(1) by auto
  let ?os' = "?os[a := (?os ! a)\<lparr>ovf_next := ovf_link ?cell, ovf_data := d\<rparr>]"
  let ?cell' = "?cell\<lparr>ovf_link := int a\<rparr>"
  have l: "linked ?os (ovf_link ?cell) ?as" using well_linked_chain(3) [OF ok c(2)] room(1) by (simp add: chain_ok_def)
  then have chain: "chain_ok ?os' ?cell' (a # ?as)"
    using fl(3) notin(2) by (simp add: chain_ok_def HASH_FREE_def linked_update)
  have "distinct (a # ?as)" using notin(2) well_linked_chain(1) [OF ok c(2)] by simp
  then have "bucket ?os' ?cell' = tbl_data ?cell # d # chain_data ?os ?as"
    using bucket_chain [OF chain] fl(3) notin(2) by (auto simp: chain_data_def HASH_FREE_def nth_list_update)
  then have "bucket ?os' ?cell' = bucket_add d (buckets h ! c)"
    using bucket_nth [OF ok c(2)] room(1) by simp
  then have "changed h (h\<lparr>hash_cells := (hash_cells h)[c := ?cell'], hash_overflow := ?os', ovf_free := ovf_next (?os ! a)\<rparr>) c
      (bucket_add d (buckets h ! c))"
  proof (rule changedI [OF ok pl c(2) _ _ chain, rotated 4])
    show "linked ?os' (ovf_next (?os ! a)) fl'" using fl(4) notin(1) by (simp add: linked_update)
    show "mset fl' + mset (a # ?as) = mset fl + mset ?as" by (simp add: fl(1))
    show "e \<in> set (bucket_add d (buckets h ! c)) \<Longrightarrow> e \<in> set (buckets h ! c) \<or> HASH_FUNCTION h (hash_key e) = int c" for e
      using c(1) by (cases "buckets h ! c") auto
  qed (use fl(1) in \<open>auto simp: nth_list_update\<close>)
  moreover have "hash_add d h = Inr (False, h\<lparr>hash_cells := (hash_cells h)[c := ?cell'], hash_overflow := ?os', ovf_free := ovf_next (?os ! a)\<rparr>)"
    using c room fl by (simp add: hash_add_def Let_def bounds_simps)
  ultimately show ?thesis by blast
qed

text \<open>An empty cell, and a full table.\<close>

lemma hash_add_empty:
  assumes ok: "well_linked h rows fl" and pl: "placed h"
    and c: "HASH_FUNCTION h (hash_key d) = int c" "c < length (hash_cells h)"
    and empty: "ovf_link (hash_cells h ! c) = HASH_FREE"
  shows "\<exists>h'. hash_add d h = Inr (False, h') \<and> changed h h' c (bucket_add d (buckets h ! c))"
proof -
  let ?os = "hash_overflow h" and ?cell' = "(hash_cells h ! c)\<lparr>ovf_link := HASH_NULL, tbl_data := d\<rparr>"
  have rows: "rows ! c = []" using well_linked_chain(3) [OF ok c(2)] empty by (simp add: chain_ok_def)
  have b: "buckets h ! c = []" using bucket_nth [OF ok c(2)] empty by simp
  have chain: "chain_ok ?os ?cell' []" by (simp add: chain_ok_def)
  have "changed h (h\<lparr>hash_cells := (hash_cells h)[c := ?cell'], hash_overflow := ?os, ovf_free := ovf_free h\<rparr>) c (bucket_add d (buckets h ! c))"
  proof (rule changedI [OF ok pl c(2) _ _ chain])
    show "linked ?os (ovf_free h) fl" using ok by (simp add: well_linked_def)
    show "bucket ?os ?cell' = bucket_add d (buckets h ! c)"
      using bucket_chain [OF chain] b by (simp add: chain_data_def HASH_FREE_def HASH_NULL_def)
    show "e \<in> set (bucket_add d (buckets h ! c)) \<Longrightarrow> e \<in> set (buckets h ! c) \<or> HASH_FUNCTION h (hash_key e) = int c" for e
      using c(1) b by auto
  qed (simp_all add: rows)
  moreover have "hash_add d h = Inr (False, h\<lparr>hash_cells := (hash_cells h)[c := ?cell'], hash_overflow := ?os, ovf_free := ovf_free h\<rparr>)"
    using c empty by (simp add: hash_add_def Let_def bounds_simps)
  ultimately show ?thesis by blast
qed

lemma hash_add_spec:
  assumes "table_ok h"
  obtains c where "HASH_FUNCTION h (hash_key d) = int c" and "c < length (hash_cells h)"
    and "if buckets h ! c \<noteq> [] \<and> ovf_free h = HASH_NULL then hash_add d h = Inr (True, h)
         else \<exists>h'. hash_add d h = Inr (False, h') \<and> changed h h' c (bucket_add d (buckets h ! c))"
proof -
  from assms obtain c rows fl where ok: "placed h" "well_linked h rows fl"
    and c: "HASH_FUNCTION h (hash_key d) = int c" "c < length (hash_cells h)" by (rule table_okE)
  have b: "buckets h ! c = [] \<longleftrightarrow> ovf_link (hash_cells h ! c) = HASH_FREE" using bucket_nth [OF ok(2) c(2)] by simp
  have "if buckets h ! c \<noteq> [] \<and> ovf_free h = HASH_NULL then hash_add d h = Inr (True, h)
     else \<exists>h'. hash_add d h = Inr (False, h') \<and> changed h h' c (bucket_add d (buckets h ! c))"
  proof (cases "ovf_link (hash_cells h ! c) = HASH_FREE")
    case True
    with hash_add_empty [OF ok(2,1) c] b show ?thesis by simp
  next
    case False
    show ?thesis
    proof (cases "ovf_free h = HASH_NULL")
      case True
      with False b c show ?thesis by (simp add: hash_add_def Let_def bounds_simps)
    next
      case free: False
      with hash_add_room [OF ok(2,1) c False free] show ?thesis by simp
    qed
  qed
  with c show ?thesis by (rule that)
qed

section \<open>Searching\<close>

lemma hash_search_spec:
  assumes "table_ok h"
  obtains c where "HASH_FUNCTION h key = int c" and "c < length (hash_cells h)"
    and "hash_search h key = Inr (find (\<lambda>d. hash_key d = key) (buckets h ! c))"
proof -
  from assms obtain c rows fl where ok: "placed h" "well_linked h rows fl"
    and c: "HASH_FUNCTION h key = int c" "c < length (hash_cells h)" by (rule table_okE)
  note b = bucket_nth [OF ok(2) c(2)]
  have "hash_search h key = Inr (find (\<lambda>d. hash_key d = key) (buckets h ! c))"
  proof (cases "ovf_link (hash_cells h ! c) = HASH_FREE")
    case True
    with b c show ?thesis by (simp add: hash_search_def bounds_simps)
  next
    case False
    then have l: "linked (hash_overflow h) (ovf_link (hash_cells h ! c)) (rows ! c)"
      using well_linked_chain(3) [OF ok(2) c(2)] by (simp add: chain_ok_def)
    have "length (rows ! c) \<le> length (hash_overflow h)"
      using card_mono [OF finite_lessThan linked_bounds [OF l]] distinct_card [OF well_linked_chain(1) [OF ok(2) c(2)]] by simp
    then have "search_overflow (length (hash_overflow h) + 1) h (ovf_link (hash_cells h ! c)) key =
        Inr (find (\<lambda>d. hash_key d = key) (chain_data (hash_overflow h) (rows ! c)))"
      using search_linked [OF l] by (simp add: chain_data_def del: search_overflow.simps)
    with False b c show ?thesis
      by (simp add: hash_search_def bounds_simps del: search_overflow.simps)
  qed
  with c show ?thesis by (rule that)
qed

section \<open>Removing\<close>

lemma linked_free_overflow:
  "linked os p fl \<Longrightarrow> a < length os \<Longrightarrow> a \<notin> set fl \<Longrightarrow> linked (os[a := x\<lparr>ovf_next := p\<rparr>]) (int a) (a # fl)"
  by (simp add: linked_update)

lemma hash_remove_main:
  assumes ok: "well_linked h rows fl" and pl: "placed h"
    and c: "HASH_FUNCTION h key = int c" "c < length (hash_cells h)"
    and used: "ovf_link (hash_cells h ! c) \<noteq> HASH_FREE" and key: "hash_key (tbl_data (hash_cells h ! c)) = key"
  shows "\<exists>h'. hash_remove key h = Inr (False, h') \<and> changed h h' c (tl (buckets h ! c))"
proof -
  let ?os = "hash_overflow h" and ?cell = "hash_cells h ! c"
  have l: "linked ?os (ovf_link ?cell) (rows ! c)" using well_linked_chain(3) [OF ok c(2)] used by (simp add: chain_ok_def)
  have free: "linked ?os (ovf_free h) fl" using ok by (simp add: well_linked_def)
  note b = bucket_nth [OF ok c(2)]
  have sub: "d \<in> set (tl (buckets h ! c)) \<Longrightarrow> d \<in> set (buckets h ! c) \<or> HASH_FUNCTION h (hash_key d) = int c" for d
    by (cases "buckets h ! c") auto
  show ?thesis
  proof (cases "rows ! c")
    case Nil
    let ?cell' = "?cell\<lparr>ovf_link := HASH_FREE\<rparr>"
    have "changed h (h\<lparr>hash_cells := (hash_cells h)[c := ?cell'], hash_overflow := ?os, ovf_free := ovf_free h\<rparr>) c (tl (buckets h ! c))"
    proof (rule changedI [OF ok pl c(2) _ _ _ free _ _ sub])
      show "chain_ok ?os ?cell' []" by (simp add: chain_ok_def)
      show "bucket ?os ?cell' = tl (buckets h ! c)" using b used Nil by (simp add: bucket_def chain_data_def)
    qed (simp_all add: Nil)
    moreover have "hash_remove key h = Inr (False, h\<lparr>hash_cells := (hash_cells h)[c := ?cell'], hash_overflow := ?os, ovf_free := ovf_free h\<rparr>)"
      using c used key l Nil by (simp add: hash_remove_def Let_def bounds_simps)
    ultimately show ?thesis by blast
  next
    case (Cons a as)
    with l have a: "ovf_link ?cell = int a" "a < length ?os" "linked ?os (ovf_next (?os ! a)) as" by auto
    have notin: "a \<notin> set as" "a \<notin> set fl" "distinct as"
      using well_linked_chain(1,2) [OF ok c(2)] Cons by auto
    let ?cell' = "?cell\<lparr>tbl_data := ovf_data (?os ! a), ovf_link := ovf_next (?os ! a)\<rparr>"
    let ?os' = "?os[a := (?os ! a)\<lparr>ovf_next := ovf_free h\<rparr>]"
    have chain: "chain_ok ?os' ?cell' as"
      using a(3) notin(1) linked_not_free [OF a(3)] by (simp add: chain_ok_def linked_update)
    have "changed h (h\<lparr>hash_cells := (hash_cells h)[c := ?cell'], hash_overflow := ?os', ovf_free := int a\<rparr>) c (tl (buckets h ! c))"
    proof (rule changedI [OF ok pl c(2) _ _ chain _ _ _ sub])
      show "linked ?os' (int a) (a # fl)" by (rule linked_free_overflow [OF free a(2) notin(2)])
      show "bucket ?os' ?cell' = tl (buckets h ! c)"
        using bucket_chain [OF chain notin(3)] b used Cons notin(1) linked_not_free [OF a(3)]
        by (simp add: chain_data_def [of _ "a # as"] chain_data_def [of "hash_overflow h" as, symmetric])
    qed (use Cons in \<open>auto simp: nth_list_update\<close>)
    moreover have "hash_remove key h = Inr (False, h\<lparr>hash_cells := (hash_cells h)[c := ?cell'], hash_overflow := ?os', ovf_free := int a\<rparr>)"
      using c used key a by (simp add: hash_remove_def free_overflow_def Let_def bounds_simps HASH_NULL_def)
    ultimately show ?thesis by blast
  qed
qed

lemma linked_splice:
  "linked os p (zs @ q # a # ys) \<Longrightarrow> distinct (zs @ q # a # ys) \<Longrightarrow>
    linked (os[q := (os ! q)\<lparr>ovf_next := ovf_next (os ! a)\<rparr>]) p (zs @ q # ys)"
  by (induction zs arbitrary: p) (auto simp: linked_update)

lemma drop_first_remove: "drop_first P xs = (case first_index P xs of None \<Rightarrow> xs | Some i \<Rightarrow> remove_nth i xs)"
  by (induction xs) (auto simp: remove_nth_def split: option.splits)

lemma drop_first_subset: "set (drop_first P xs) \<subseteq> set xs"
  by (induction xs) auto

text \<open>Taking the overflow cell behind \<open>xs\<close> out of a list.\<close>

definition unlink :: "nat list \<Rightarrow> nat \<Rightarrow> hash_ovf_t list \<Rightarrow> hash_ovf_t list" where
  "unlink xs a os = (if xs = [] then os else os[last xs := (os ! last xs)\<lparr>ovf_next := ovf_next (os ! a)\<rparr>])"

lemma unlink_linked:
  assumes "linked os p (xs @ a # ys)" and "distinct (xs @ a # ys)"
  shows "linked (unlink xs a os) (if xs = [] then ovf_next (os ! a) else p) (xs @ ys)"
proof (cases xs rule: rev_cases)
  case Nil
  with assms show ?thesis by (simp add: unlink_def)
next
  case (snoc zs q)
  with linked_splice [of os p zs q a ys] assms show ?thesis by (simp add: unlink_def)
qed

lemma unlink_other: "e \<notin> set xs \<Longrightarrow> unlink xs a os ! e = os ! e"
  by (cases xs rule: rev_cases) (auto simp: unlink_def nth_list_update)

lemma unlink_length [simp]: "length (unlink xs a os) = length os"
  by (simp add: unlink_def)

lemma unlink_data: "ovf_data (unlink xs a os ! e) = ovf_data (os ! e)"
proof (cases "last xs < length os \<and> e = last xs")
  case True
  then show ?thesis by (auto simp: unlink_def)
next
  case False
  then show ?thesis by (auto simp: unlink_def nth_list_update list_update_beyond not_less)
qed

lemma hash_remove_overflow:
  assumes ok: "well_linked h rows fl" and pl: "placed h"
    and c: "HASH_FUNCTION h key = int c" "c < length (hash_cells h)"
    and used: "ovf_link (hash_cells h ! c) \<noteq> HASH_FREE" and key: "hash_key (tbl_data (hash_cells h ! c)) \<noteq> key"
    and row: "rows ! c = xs @ a # ys"
    and found: "first_index (\<lambda>a. hash_key (ovf_data (hash_overflow h ! a)) = key) (rows ! c) = Some (length xs)"
  shows "\<exists>h'. hash_remove key h = Inr (False, h') \<and> changed h h' c (drop_first (\<lambda>d. hash_key d = key) (buckets h ! c))"
proof -
  let ?os = "hash_overflow h" and ?cell = "hash_cells h ! c"
  have l: "linked ?os (ovf_link ?cell) (xs @ a # ys)" using well_linked_chain(3) [OF ok c(2)] used row by (simp add: chain_ok_def)
  have dist: "distinct (xs @ a # ys)" "set fl \<inter> set (xs @ a # ys) = {}" using well_linked_chain [OF ok c(2)] row by auto
  have free: "linked ?os (ovf_free h) fl" using ok by (simp add: well_linked_def)
  have bounds: "\<forall>e \<in> set (xs @ a # ys). e < length ?os" using linked_bounds [OF l] by auto
  let ?cell' = "if xs = [] then ?cell\<lparr>ovf_link := ovf_next (?os ! a)\<rparr> else ?cell"
  let ?os1 = "unlink xs a ?os"
  let ?os' = "?os1[a := (?os1 ! a)\<lparr>ovf_next := ovf_free h\<rparr>]"
  have rest: "linked ?os (ovf_next (?os ! a)) ys" using linked_append [OF l] by simp
  have "linked ?os1 (if xs = [] then ovf_next (?os ! a) else ovf_link ?cell) (xs @ ys)" by (rule unlink_linked [OF l dist(1)])
  then have "linked ?os' (ovf_link ?cell') (xs @ ys)" using dist(1) by (simp add: linked_update split: if_splits)
  moreover have "ovf_link ?cell' \<noteq> HASH_FREE" using used linked_not_free [OF rest] by simp
  ultimately have chain: "chain_ok ?os' ?cell' (xs @ ys)" by (simp add: chain_ok_def)
  have "chain_data ?os1 (xs @ ys) = chain_data ?os (xs @ ys)" by (rule chain_data_cong) (rule unlink_data)
  then have "chain_data ?os' (xs @ ys) = chain_data ?os (xs @ ys)" using dist(1) by simp
  then have b': "bucket ?os' ?cell' = tbl_data ?cell # chain_data ?os (xs @ ys)"
    using bucket_chain [OF chain] dist(1) \<open>ovf_link ?cell' \<noteq> HASH_FREE\<close> by simp
  have "first_index (\<lambda>d. hash_key d = key) (chain_data ?os (rows ! c)) = Some (length xs)"
    using found by (simp only: chain_data_def first_index_map)
  then have "drop_first (\<lambda>d. hash_key d = key) (chain_data ?os (rows ! c)) = chain_data ?os (xs @ ys)"
    by (simp add: drop_first_remove remove_nth_def) (simp add: chain_data_def row)
  then have b: "bucket ?os' ?cell' = drop_first (\<lambda>d. hash_key d = key) (buckets h ! c)"
    using bucket_nth [OF ok c(2)] used key b' by simp
  have "changed h (h\<lparr>hash_cells := (hash_cells h)[c := ?cell'], hash_overflow := ?os', ovf_free := int a\<rparr>) c
      (drop_first (\<lambda>d. hash_key d = key) (buckets h ! c))"
  proof (rule changedI [OF ok pl c(2) _ _ chain _ _ b])
    show "?os' ! e = ?os ! e" if "e \<notin> set fl" "e \<notin> set (rows ! c)" for e
      using that row unlink_other [of e xs a ?os] by (auto simp: nth_list_update)
    have "linked ?os1 (ovf_free h) fl = linked ?os (ovf_free h) fl"
      by (rule linked_cong) (use dist(2) in \<open>auto intro!: unlink_other\<close>)
    with free linked_free_overflow [of ?os1 "ovf_free h" fl a "?os1 ! a"] bounds dist(2)
    show "linked ?os' (int a) (a # fl)" by auto
    show "mset (a # fl) + mset (xs @ ys) = mset fl + mset (rows ! c)" by (simp add: row)
    show "d \<in> set (drop_first (\<lambda>d. hash_key d = key) (buckets h ! c)) \<Longrightarrow> d \<in> set (buckets h ! c) \<or> HASH_FUNCTION h (hash_key d) = int c" for d
      using drop_first_subset by fast
  qed simp
  moreover have "hash_remove key h = Inr (False, h\<lparr>hash_cells := (hash_cells h)[c := ?cell'], hash_overflow := ?os', ovf_free := int a\<rparr>)"
  proof -
    have "length (rows ! c) \<le> length ?os"
      using card_mono [OF finite_lessThan linked_bounds [OF l]] distinct_card [OF dist(1)] row by simp
    with remove_search_linked [OF l, where n = "length ?os + 1" and key = key and prev = HASH_NULL] found row
    have s: "remove_search (length ?os + 1) h HASH_NULL (ovf_link ?cell) key =
        Inr (if xs = [] then HASH_NULL else int ((xs @ a # ys) ! (length xs - 1)), int a)"
      by (simp del: remove_search.simps)
    show ?thesis
    proof (cases xs rule: rev_cases)
      case Nil
      with s c used key bounds show ?thesis
        by (simp add: hash_remove_def free_overflow_def unlink_def Let_def bounds_simps HASH_NULL_def del: remove_search.simps)
    next
      case (snoc zs q)
      with s have s': "remove_search (length ?os + 1) h HASH_NULL (ovf_link ?cell) key = Inr (int q, int a)"
        by (simp add: nth_append del: remove_search.simps)
      from snoc s' c used key bounds show ?thesis
        by (simp add: hash_remove_def free_overflow_def unlink_def Let_def bounds_simps HASH_NULL_def del: remove_search.simps)
    qed
  qed
  ultimately show ?thesis by blast
qed

lemma first_index_split: "first_index P as = Some i \<Longrightarrow> \<exists>xs a ys. as = xs @ a # ys \<and> i = length xs"
  by (metis first_index_Some id_take_nth_drop length_take min.absorb4)

lemma hash_remove_missing:
  assumes ok: "well_linked h rows fl" and pl: "placed h"
    and c: "HASH_FUNCTION h key = int c" "c < length (hash_cells h)"
    and used: "ovf_link (hash_cells h ! c) \<noteq> HASH_FREE" and key: "hash_key (tbl_data (hash_cells h ! c)) \<noteq> key"
    and found: "first_index (\<lambda>a. hash_key (ovf_data (hash_overflow h ! a)) = key) (rows ! c) = None"
  shows "hash_remove key h = Inr (True, h)"
proof -
  let ?os = "hash_overflow h" and ?cell = "hash_cells h ! c"
  have l: "linked ?os (ovf_link ?cell) (rows ! c)" using well_linked_chain(3) [OF ok c(2)] used by (simp add: chain_ok_def)
  have "length (rows ! c) \<le> length ?os"
    using card_mono [OF finite_lessThan linked_bounds [OF l]] distinct_card [OF well_linked_chain(1) [OF ok c(2)]] by simp
  with remove_search_linked [OF l, where n = "length ?os + 1" and key = key and prev = HASH_NULL] found
  obtain q where "remove_search (length ?os + 1) h HASH_NULL (ovf_link ?cell) key = Inr (q, HASH_NULL)"
    by (auto simp del: remove_search.simps)
  with c used key show ?thesis by (simp add: hash_remove_def Let_def bounds_simps del: remove_search.simps)
qed

lemma hash_remove_spec:
  assumes "table_ok h"
  obtains c where "HASH_FUNCTION h key = int c" and "c < length (hash_cells h)"
    and "if find (\<lambda>d. hash_key d = key) (buckets h ! c) = None then hash_remove key h = Inr (True, h)
         else \<exists>h'. hash_remove key h = Inr (False, h') \<and> changed h h' c (drop_first (\<lambda>d. hash_key d = key) (buckets h ! c))"
proof -
  from assms obtain c rows fl where ok: "placed h" "well_linked h rows fl"
    and c: "HASH_FUNCTION h key = int c" "c < length (hash_cells h)" by (rule table_okE)
  note b = bucket_nth [OF ok(2) c(2)]
  let ?P = "\<lambda>d. hash_key d = key"
  have "if find ?P (buckets h ! c) = None then hash_remove key h = Inr (True, h)
    else \<exists>h'. hash_remove key h = Inr (False, h') \<and> changed h h' c (drop_first ?P (buckets h ! c))"
  proof (cases "ovf_link (hash_cells h ! c) = HASH_FREE")
    case True
    with b c show ?thesis by (simp add: hash_remove_def Let_def bounds_simps)
  next
    case used: False
    show ?thesis
    proof (cases "hash_key (tbl_data (hash_cells h ! c)) = key")
      case True
      with hash_remove_main [OF ok(2,1) c used True] b used show ?thesis by simp
    next
      case key: False
      let ?i = "first_index (\<lambda>a. hash_key (ovf_data (hash_overflow h ! a)) = key) (rows ! c)"
      have f: "find ?P (buckets h ! c) = None \<longleftrightarrow> ?i = None"
        using b used key by (simp add: find_None_iff first_index_None chain_data_def)
      show ?thesis
      proof (cases ?i)
        case None
        with f hash_remove_missing [OF ok(2,1) c used key None] show ?thesis by simp
      next
        case (Some i)
        then obtain xs a ys where xs: "rows ! c = xs @ a # ys" "i = length xs" using first_index_split by metis
        have "find ?P (buckets h ! c) \<noteq> None" using f Some by (metis option.distinct(1))
        with hash_remove_overflow [OF ok(2,1) c used key xs(1)] Some xs(2) show ?thesis by auto
      qed
    qed
  qed
  with c show ?thesis by (rule that)
qed

section \<open>Initialisation\<close>

lemma linked_upto:
  assumes "\<And>i. Suc i < length os \<Longrightarrow> ovf_next (os ! i) = int i + 1" and "\<And>i. Suc i = length os \<Longrightarrow> ovf_next (os ! i) = HASH_NULL"
  shows "k < length os \<Longrightarrow> linked os (int k) [k..<length os]"
proof (induction "length os - k" arbitrary: k rule: less_induct)
  case less
  show ?case
  proof (cases "Suc k < length os")
    case True
    with less(1) [of "Suc k"] have "linked os (ovf_next (os ! k)) [Suc k..<length os]" by (simp add: assms(1) algebra_simps)
    with less(2) show ?thesis by (simp add: upt_conv_Cons)
  next
    case False
    with less(2) have "Suc k = length os" by simp
    with assms(2) show ?thesis by (simp add: upt_conv_Cons)
  qed
qed

lemma hash_init_ok:
  assumes "hash_cells h \<noteq> []" and "hash_overflow h \<noteq> []"
  shows "\<exists>h'. hash_init h = Inr h' \<and> table_ok h' \<and> requests h' = {#} \<and>
    length (hash_cells h') = length (hash_cells h) \<and> length (hash_overflow h') = length (hash_overflow h)"
proof -
  let ?n = "length (hash_overflow h) - 1"
  have n: "length (hash_overflow h) = Suc ?n" using assms(2) by simp
  let ?os = "map (\<lambda>i. (hash_overflow h ! i)\<lparr>ovf_next := int i + 1\<rparr>) [0..<?n] @ [(hash_overflow h ! ?n)\<lparr>ovf_next := HASH_NULL\<rparr>]"
  let ?h = "h\<lparr>hash_cells := map (\<lambda>c. c\<lparr>ovf_link := HASH_FREE\<rparr>) (hash_cells h), hash_overflow := ?os, ovf_free := 0\<rparr>"
  have len: "length ?os = length (hash_overflow h)" using n by simp
  have "array_get (hash_overflow h) (int (length (hash_overflow h)) - 1) = Inr (hash_overflow h ! ?n)"
    using n array_get_in [of ?n "hash_overflow h"] by (simp add: of_nat_diff)
  then have init: "hash_init h = Inr ?h" by (simp add: hash_init_def)
  have "linked ?os (int 0) [0..<length ?os]" by (rule linked_upto) (auto simp: nth_append)
  then have free: "linked ?os 0 [0..<length ?os]" by simp
  have empty: "buckets ?h = map (\<lambda>_. []) (hash_cells h)" by (simp add: buckets_def bucket_def)
  have "well_linked ?h (map (\<lambda>_. []) (hash_cells h)) [0..<length ?os]"
    using free sum_mset_empty [of "hash_cells h"] by (simp add: well_linked_def chain_ok_def del: map_map)
  moreover have "placed ?h" using assms(1) empty by (simp add: placed_def)
  moreover have "requests ?h = {#}" unfolding requests_def empty by (rule sum_mset_empty)
  ultimately show ?thesis using init len by (auto simp: table_ok_def)
qed

section \<open>The requests of a table\<close>

lemma requests_concat: "requests h = mset (concat (buckets h))"
  by (simp add: requests_def mset_concat)

lemma in_requests: "d \<in># requests h \<longleftrightarrow> (\<exists>c < length (hash_cells h). d \<in> set (buckets h ! c))"
  by (simp add: requests_concat) (metis buckets_length in_set_conv_nth)

lemma find_request:
  assumes "table_ok h" and "HASH_FUNCTION h key = int c" and "c < length (hash_cells h)"
  shows "case find (\<lambda>d. hash_key d = key) (buckets h ! c) of
      None \<Rightarrow> key \<notin> hash_key ` set_mset (requests h)
    | Some d \<Rightarrow> d \<in># requests h \<and> hash_key d = key"
proof (cases "find (\<lambda>d. hash_key d = key) (buckets h ! c)")
  case None
  have "hash_key d \<noteq> key" if "e < length (hash_cells h)" "d \<in> set (buckets h ! e)" for d e
    using that None placed_other [of h key c e d] assms by (cases "e = c") (auto simp: find_None_iff table_ok_def)
  then have "key \<notin> hash_key ` set_mset (requests h)" by (metis imageE in_requests)
  with None show ?thesis by simp
next
  case (Some d)
  then have "d \<in> set (buckets h ! c)" "hash_key d = key" by (auto simp: find_Some_iff)
  with assms(3) Some show ?thesis by (auto simp: in_requests)
qed

lemma mset_drop_first:
  "find P xs = Some x \<Longrightarrow> mset xs = add_mset x (mset (drop_first P xs))"
  by (induction xs) (auto split: if_splits)

text \<open>An overflow cell is used only for a request that shares its cell with another one.\<close>

lemma full_table:
  assumes "table_ok h" and "ovf_free h = HASH_NULL" and "c < length (hash_cells h)" and "buckets h ! c \<noteq> []"
  shows "size (requests h) > length (hash_overflow h)"
proof -
  from assms(1) obtain rows fl where ok: "well_linked h rows fl" by (auto simp: table_ok_def)
  then have len: "length rows = length (hash_cells h)" by (simp add: well_linked_def)
  have "fl = []" using ok assms(2) by (simp add: well_linked_def linked_null)
  then have "mset (concat rows) = mset [0..<length (hash_overflow h)]" using ok by (simp add: well_linked_def mset_concat)
  then have "length (concat rows) = length (hash_overflow h)" by (metis length_upt mset_eq_length minus_nat.diff_0)
  then have total: "sum_list (map length rows) = length (hash_overflow h)" by (simp add: length_concat)
  have each: "length (rows ! e) \<le> length (buckets h ! e) \<and> (buckets h ! e \<noteq> [] \<longrightarrow> length (rows ! e) < length (buckets h ! e))"
    if "e < length (hash_cells h)" for e
    using bucket_nth [OF ok that] well_linked_chain(3) [OF ok that] by (simp add: chain_ok_def chain_data_def)
  have "sum_list (map length rows) = (\<Sum>e < length (hash_cells h). length (rows ! e))"
    by (simp add: sum_list_sum_nth len atLeast0LessThan)
  also have "\<dots> < (\<Sum>e < length (hash_cells h). length (buckets h ! e))"
    by (rule sum_strict_mono_ex1) (use each assms(3,4) in auto)
  also have "\<dots> = size (requests h)"
    by (simp add: requests_concat length_concat sum_list_sum_nth atLeast0LessThan)
  finally show ?thesis using total by simp
qed

section \<open>The table as a request table\<close>

lemma add_request:
  assumes "table_ok h" and "size (requests h) \<le> length (hash_overflow h)"
  shows "\<exists>h'. hash_add d h = Inr (False, h') \<and> table_ok h' \<and> requests h' = add_mset d (requests h) \<and>
    length (hash_overflow h') = length (hash_overflow h)"
proof -
  from hash_add_spec [OF assms(1), of d] obtain c where c: "c < length (hash_cells h)"
    and s: "if buckets h ! c \<noteq> [] \<and> ovf_free h = HASH_NULL then hash_add d h = Inr (True, h)
      else \<exists>h'. hash_add d h = Inr (False, h') \<and> changed h h' c (bucket_add d (buckets h ! c))" by blast
  have "\<not> (buckets h ! c \<noteq> [] \<and> ovf_free h = HASH_NULL)" using full_table [OF assms(1) _ c] assms(2) by auto
  with s obtain h' where h': "hash_add d h = Inr (False, h')" "changed h h' c (bucket_add d (buckets h ! c))" by auto
  have "mset (bucket_add d (buckets h ! c)) = add_mset d (mset (buckets h ! c))" by (cases "buckets h ! c") auto
  then have "requests h' = add_mset d (requests h)"
    using requests_update [of h' h c "bucket_add d (buckets h ! c)"] h'(2) c by (simp add: changed_def)
  with h' show ?thesis by (auto simp: changed_def)
qed

lemma search_request:
  assumes "table_ok h"
  shows "(\<exists>d. hash_search h k = Inr (Some d) \<and> d \<in># requests h \<and> hash_key d = k) \<or>
    (hash_search h k = Inr None \<and> k \<notin> hash_key ` set_mset (requests h))"
proof -
  from hash_search_spec [OF assms, of k] obtain c where c: "HASH_FUNCTION h k = int c" "c < length (hash_cells h)"
    "hash_search h k = Inr (find (\<lambda>d. hash_key d = k) (buckets h ! c))" .
  from find_request [OF assms c(1,2)] c(3) show ?thesis by (auto split: option.splits)
qed

lemma remove_request:
  assumes "table_ok h"
  shows "(\<exists>d h'. hash_remove k h = Inr (False, h') \<and> table_ok h' \<and> hash_key d = k \<and> requests h = add_mset d (requests h') \<and>
      length (hash_overflow h') = length (hash_overflow h)) \<or>
    (hash_remove k h = Inr (True, h) \<and> k \<notin> hash_key ` set_mset (requests h))"
proof -
  let ?P = "\<lambda>d. hash_key d = k"
  from hash_remove_spec [OF assms, of k] obtain c where c: "HASH_FUNCTION h k = int c" "c < length (hash_cells h)"
    and s: "if find ?P (buckets h ! c) = None then hash_remove k h = Inr (True, h)
      else \<exists>h'. hash_remove k h = Inr (False, h') \<and> changed h h' c (drop_first ?P (buckets h ! c))" .
  note f = find_request [OF assms c]
  show ?thesis
  proof (cases "find ?P (buckets h ! c)")
    case None
    with s f show ?thesis by simp
  next
    case (Some d)
    with s obtain h' where h': "hash_remove k h = Inr (False, h')" "changed h h' c (drop_first ?P (buckets h ! c))" by auto
    have "requests h' + mset (buckets h ! c) = requests h + mset (drop_first ?P (buckets h ! c))"
      using requests_update [of h' h c "drop_first ?P (buckets h ! c)"] h'(2) c(2) by (simp add: changed_def)
    then have "requests h = add_mset d (requests h')" using mset_drop_first [OF Some] by simp
    with h' Some f show ?thesis by (auto simp: changed_def)
  qed
qed

interpretation pending: request_table hash_add hash_search hash_remove requests table_ok hash_key "\<lambda>h. length (hash_overflow h)"
  by unfold_locales (simp_all add: add_request search_request remove_request)

end
