(* ===== verification/MpiTrace.thy ===== *)
theory MpiTrace
  imports TraceMacros HashTable
begin

text \<open>
  What the MPI wrappers of the tracer share: the statistics of \<open>tracer/stats/MPI/mpi_stats.c\<close> and
  \<open>mpi_utils.c\<close>, the macros of \<open>tracer/trace_macros_mpi.h\<close> in the detail mode, the persistent requests of
  \<open>wrappers/MPI/persistent_requests.c\<close> and the translation of ranks of \<open>wrappers/MPI/mpi_wrapper.c\<close>
  (all under \<open>trunk/dependencies/extrae/src\<close>).

  The MPI library is not in the repository. \<open>mpi_lib\<close> holds its constants and its local queries, which are
  functions of their arguments and may fail; what a call that communicates gave is an argument of the
  wrapper. A handle is the number it is cast to. A call whose result goes to \<open>MPI_CHECK\<close> ends the
  program when it failed.
\<close>

type_synonym MPI_Comm = "64 word"
type_synonym MPI_Group = "64 word"
type_synonym MPI_Datatype = "64 word"

record mpi_status =
  MPI_SOURCE :: INT32
  MPI_TAG :: INT32
  PMPI_Get_count :: "MPI_Datatype \<Rightarrow> INT32 option"
  PMPI_Test_cancelled :: bool

record mpi_lib =
  MPI_COMM_WORLD :: MPI_Comm
  MPI_GROUP_NULL :: MPI_Group
  MPI_BYTE :: MPI_Datatype
  MPI_PROC_NULL :: INT32
  MPI_ANY_SOURCE :: INT32
  MPI_ANY_TAG :: INT32
  MPI_UNDEFINED :: INT32
  PMPI_Type_size :: "MPI_Datatype \<Rightarrow> INT32 option"
  PMPI_Comm_test_inter :: "MPI_Comm \<Rightarrow> bool option"
  PMPI_Comm_get_parent :: MPI_Comm
  PMPI_Comm_group :: "MPI_Comm \<Rightarrow> MPI_Group option"
  PMPI_Comm_remote_group :: "MPI_Comm \<Rightarrow> MPI_Group option"
  PMPI_Group_translate_ranks :: "MPI_Group \<Rightarrow> INT32 \<Rightarrow> INT32 option"
  PMPI_Group_free :: "MPI_Group \<Rightarrow> unit option"
  ParentWorldRanks :: "INT32 list option"
  PMPI_Comm_rank :: "MPI_Comm \<Rightarrow> INT32 option"
  PMPI_Comm_size :: "MPI_Comm \<Rightarrow> INT32 option"

definition MPI_SUCCESS :: INT32 where
  "MPI_SUCCESS = 0"

definition MPI_CHECK :: "'a option \<Rightarrow> 'a res" where
  "MPI_CHECK q = (case q of None \<Rightarrow> Inl (Exit 1) | Some x \<Rightarrow> Inr x)"

lemma MPI_CHECK_simps [simp]: "MPI_CHECK (Some x) = Inr x" "MPI_CHECK None = Inl (Exit 1)"
  by (simp_all add: MPI_CHECK_def)

section \<open>Statistics\<close>

record mpi_stats_t =
  ntasks :: INT32
  P2P_Bytes_Sent :: INT32
  P2P_Bytes_Recv :: INT32
  COLLECTIVE_Bytes_Sent :: INT32
  COLLECTIVE_Bytes_Recv :: INT32
  P2P_Communications :: INT32
  COLLECTIVE_Communications :: INT32
  MPI_Others_count :: INT32
  Elapsed_Time_In_MPI :: UINT64
  P2P_Communications_In :: INT32
  P2P_Communications_Out :: INT32
  P2P_Partner_In :: "INT32 list"
  P2P_Partner_Out :: "INT32 list"
  Elapsed_Time_In_P2P_MPI :: UINT64
  Elapsed_Time_In_COLLECTIVE_MPI :: UINT64

definition MPI_P2P_EVENT_TYPES :: "INT32 list" where
  "MPI_P2P_EVENT_TYPES =
    [MPI_BSEND_EV, MPI_SSEND_EV, MPI_SEND_EV, MPI_SENDRECV_EV, MPI_SENDRECV_REPLACE_EV, MPI_RECV_EV,
     MPI_IBSEND_EV, MPI_ISSEND_EV, MPI_ISEND_EV, MPI_IRECV_EV, MPI_IRECVED_EV, MPI_TEST_EV, MPI_TESTALL_EV,
     MPI_TESTANY_EV, MPI_TESTSOME_EV, MPI_TEST_COUNTER_EV, MPI_WAIT_EV, MPI_RSEND_EV, MPI_IRSEND_EV,
     MPI_WAITALL_EV, MPI_WAITANY_EV, MPI_WAITSOME_EV, MPI_ALIAS_COMM_CREATE_EV, MPI_PERSIST_REQ_EV,
     MPI_RECV_INIT_EV, MPI_SEND_INIT_EV, MPI_BSEND_INIT_EV, MPI_RSEND_INIT_EV, MPI_SSEND_INIT_EV,
     MPI_START_EV, MPI_STARTALL_EV, MPI_PROBE_EV, MPI_IPROBE_EV, MPI_IPROBE_COUNTER_EV, MPI_IBSEND_EV,
     MPI_ISSEND_EV, MPI_ISEND_EV, MPI_IRECV_EV, MPI_IRSEND_EV]"

definition MPI_COLLECTIVE_EVENT_TYPES :: "INT32 list" where
  "MPI_COLLECTIVE_EVENT_TYPES =
    [MPI_BARRIER_EV, MPI_BCAST_EV, MPI_IRECV_EV, MPI_ALLTOALL_EV, MPI_ALLTOALLV_EV, MPI_ALLREDUCE_EV,
     MPI_REDUCE_EV, MPI_GATHER_EV, MPI_GATHERV_EV, MPI_SCATTER_EV, MPI_SCATTERV_EV, MPI_COMM_SPAWN_EV,
     MPI_COMM_SPAWN_MULTIPLE_EV, MPI_ALLGATHER_EV, MPI_ALLGATHERV_EV, MPI_REDUCESCAT_EV, MPI_SCAN_EV,
     MPI_TIME_OUTSIDE_IPROBES_EV]"

definition isMPI_P2P :: "INT32 \<Rightarrow> bool" where
  "isMPI_P2P t \<longleftrightarrow> t \<in> set MPI_P2P_EVENT_TYPES"

definition isMPI_Global :: "INT32 \<Rightarrow> bool" where
  "isMPI_Global t \<longleftrightarrow> t \<in> set MPI_COLLECTIVE_EVENT_TYPES"

definition mpi_stats_reset :: "mpi_stats_t \<Rightarrow> mpi_stats_t" where
  "mpi_stats_reset s =
     s\<lparr>P2P_Bytes_Sent := 0, P2P_Bytes_Recv := 0, COLLECTIVE_Bytes_Sent := 0, COLLECTIVE_Bytes_Recv := 0,
       P2P_Communications := 0, COLLECTIVE_Communications := 0, MPI_Others_count := 0, Elapsed_Time_In_MPI := 0,
       P2P_Communications_In := 0, P2P_Communications_Out := 0, Elapsed_Time_In_P2P_MPI := 0,
       Elapsed_Time_In_COLLECTIVE_MPI := 0, P2P_Partner_In := replicate (nat (sint (ntasks s))) 0,
       P2P_Partner_Out := replicate (nat (sint (ntasks s))) 0\<rparr>"

definition sizeof_mpi_stats_t :: nat where
  "sizeof_mpi_stats_t = 80"

text \<open>The memory comes with what it held, which is the argument.\<close>

definition mpi_stats_init :: "allocator \<Rightarrow> mpi_stats_t \<Rightarrow> INT32 \<Rightarrow> mpi_stats_t res" where
  "mpi_stats_init alloc junk num_tasks =
     (if \<not> alloc sizeof_mpi_stats_t then Inl (Exit (- 1))
      else if \<not> alloc (nat (sint num_tasks) * 4) then Inl (Exit (- 1))
      else Inr (mpi_stats_reset (junk\<lparr>ntasks := num_tasks\<rparr>)))"

definition add_partners :: "nat \<Rightarrow> INT32 list \<Rightarrow> INT32 list \<Rightarrow> INT32 list res" where
  "add_partners n xs ys =
     (if n \<le> length xs \<and> n \<le> length ys then Inr (map2 (+) (take n xs) (take n ys) @ drop n xs) else Inl OutOfBounds)"

definition mpi_stats_sum :: "mpi_stats_t option \<Rightarrow> mpi_stats_t option \<Rightarrow> mpi_stats_t option res" where
  "mpi_stats_sum base extra = (case (base, extra) of
     (Some b, Some e) \<Rightarrow>
       andthen (add_partners (nat (sint (ntasks b))) (P2P_Partner_In b) (P2P_Partner_In e)) (\<lambda>partners_in.
       andthen (add_partners (nat (sint (ntasks b))) (P2P_Partner_Out b) (P2P_Partner_Out e)) (\<lambda>partners_out.
         Inr (Some (b\<lparr>P2P_Bytes_Sent := P2P_Bytes_Sent b + P2P_Bytes_Sent e,
           P2P_Bytes_Recv := P2P_Bytes_Recv b + P2P_Bytes_Recv e,
           COLLECTIVE_Bytes_Sent := COLLECTIVE_Bytes_Sent b + COLLECTIVE_Bytes_Sent e,
           COLLECTIVE_Bytes_Recv := COLLECTIVE_Bytes_Recv b + COLLECTIVE_Bytes_Recv e,
           P2P_Communications := P2P_Communications b + P2P_Communications e,
           COLLECTIVE_Communications := COLLECTIVE_Communications b + COLLECTIVE_Communications e,
           MPI_Others_count := MPI_Others_count b + MPI_Others_count e,
           Elapsed_Time_In_MPI := Elapsed_Time_In_MPI b + Elapsed_Time_In_MPI e,
           P2P_Communications_In := P2P_Communications_In b + P2P_Communications_In e,
           P2P_Communications_Out := P2P_Communications_Out b + P2P_Communications_Out e,
           Elapsed_Time_In_P2P_MPI := Elapsed_Time_In_P2P_MPI b + Elapsed_Time_In_P2P_MPI e,
           Elapsed_Time_In_COLLECTIVE_MPI := Elapsed_Time_In_COLLECTIVE_MPI b + Elapsed_Time_In_COLLECTIVE_MPI e,
           P2P_Partner_In := partners_in, P2P_Partner_Out := partners_out\<rparr>))))
   | _ \<Rightarrow> Inr base)"

text \<open>Counting a partner; a rank of another communicator may be out of range, which is only reported above.\<close>

definition count_partner :: "mpi_lib \<Rightarrow> mpi_stats_t \<Rightarrow> INT32 \<Rightarrow> INT32 list \<Rightarrow> INT32 list res" where
  "count_partner lib s partner counts =
     (if partner \<noteq> MPI_PROC_NULL lib \<and> partner \<noteq> MPI_ANY_SOURCE lib \<and> partner \<noteq> MPI_UNDEFINED lib
        \<and> partner <s ntasks s
      then andthen (array_get counts (sint partner)) (\<lambda>k. array_set counts (sint partner) (k + 1))
      else Inr counts)"

definition count_input :: "mpi_lib \<Rightarrow> INT32 \<Rightarrow> INT32 \<Rightarrow> mpi_stats_t \<Rightarrow> mpi_stats_t res" where
  "count_input lib partner inputSize s =
     (if inputSize \<noteq> 0 then
        andthen (count_partner lib s partner (P2P_Partner_In s)) (\<lambda>counts.
          Inr (s\<lparr>P2P_Bytes_Recv := P2P_Bytes_Recv s + inputSize,
                 P2P_Communications_In := P2P_Communications_In s + 1, P2P_Partner_In := counts\<rparr>))
      else Inr s)"

definition count_output :: "mpi_lib \<Rightarrow> INT32 \<Rightarrow> INT32 \<Rightarrow> mpi_stats_t \<Rightarrow> mpi_stats_t res" where
  "count_output lib partner outputSize s =
     (if outputSize \<noteq> 0 then
        andthen (count_partner lib s partner (P2P_Partner_Out s)) (\<lambda>counts.
          Inr (s\<lparr>P2P_Bytes_Sent := P2P_Bytes_Sent s + outputSize,
                 P2P_Communications_Out := P2P_Communications_Out s + 1, P2P_Partner_Out := counts\<rparr>))
      else Inr s)"

definition updateStats_P2P :: "mpi_lib \<Rightarrow> INT32 \<Rightarrow> INT32 \<Rightarrow> INT32 \<Rightarrow> mpi_stats_t option \<Rightarrow> mpi_stats_t option res" where
  "updateStats_P2P lib partner inputSize outputSize stats = (case stats of
     None \<Rightarrow> Inr None
   | Some s \<Rightarrow>
       andthen (count_input lib partner inputSize (s\<lparr>P2P_Communications := P2P_Communications s + 1\<rparr>)) (\<lambda>s.
       andthen (count_output lib partner outputSize s) (\<lambda>s. Inr (Some s))))"

definition updateStats_OTHER :: "mpi_stats_t option \<Rightarrow> mpi_stats_t option res" where
  "updateStats_OTHER stats = (case stats of
     None \<Rightarrow> Inl NullPointer
   | Some s \<Rightarrow> Inr (Some (s\<lparr>MPI_Others_count := MPI_Others_count s + 1\<rparr>)))"

definition mpi_stats_update_elapsed_time :: "INT32 \<Rightarrow> UINT64 \<Rightarrow> mpi_stats_t option \<Rightarrow> mpi_stats_t option res" where
  "mpi_stats_update_elapsed_time EvtType elapsedTime stats = (case stats of
     None \<Rightarrow> Inl NullPointer
   | Some s \<Rightarrow>
       let s = s\<lparr>Elapsed_Time_In_MPI := Elapsed_Time_In_MPI s + elapsedTime\<rparr> in
       Inr (Some (
         if isMPI_P2P EvtType then s\<lparr>Elapsed_Time_In_P2P_MPI := Elapsed_Time_In_P2P_MPI s + elapsedTime\<rparr>
         else if isMPI_Global EvtType
         then s\<lparr>Elapsed_Time_In_COLLECTIVE_MPI := Elapsed_Time_In_COLLECTIVE_MPI s + elapsedTime\<rparr>
         else s)))"

definition updateStats_COLLECTIVE :: "INT32 \<Rightarrow> INT32 \<Rightarrow> mpi_stats_t option \<Rightarrow> mpi_stats_t option res" where
  "updateStats_COLLECTIVE inputSize outputSize stats = (case stats of
     None \<Rightarrow> Inl NullPointer
   | Some s \<Rightarrow>
       let s = s\<lparr>COLLECTIVE_Communications := COLLECTIVE_Communications s + 1\<rparr>;
           s = (if inputSize \<noteq> 0 then s\<lparr>COLLECTIVE_Bytes_Recv := COLLECTIVE_Bytes_Recv s + inputSize\<rparr> else s);
           s = (if outputSize \<noteq> 0 then s\<lparr>COLLECTIVE_Bytes_Sent := COLLECTIVE_Bytes_Sent s + outputSize\<rparr> else s)
       in Inr (Some s))"

definition mpi_stats_get_num_partners :: "mpi_stats_t \<Rightarrow> INT32 list \<Rightarrow> nat res" where
  "mpi_stats_get_num_partners s counts =
     (let n = nat (sint (ntasks s)) in
      if n \<le> length counts then Inr (length (filter (\<lambda>k. 0 <s k) (take n counts))) else Inl OutOfBounds)"

section \<open>The state of the wrappers\<close>

record persistent_req_t =
  pr_req :: request
  pr_datatype :: MPI_Datatype
  pr_comm :: MPI_Comm
  pr_tipus :: INT32
  pr_count :: INT32
  pr_task :: INT32
  pr_tag :: INT32

text \<open>The static variables of the test and probe wrappers: how many of them failed since the last event, and when.\<close>

record soft_counter =
  soft_count :: INT32
  elapsed_outside :: UINT64
  last_exit :: UINT64

record mpi_state =
  recv_requests :: hash_t
  PR_queue :: "persistent_req_t list"
  mpi_stats :: "mpi_stats_t option"
  last_mpi_begin_time :: UINT64
  last_mpi_exit_time :: UINT64
  MPI_Deepness :: INT32
  Test_counter :: INT32
  Testall_counter :: INT32
  Testany_counter :: INT32
  Testsome_counter :: INT32
  Iprobe_counter :: soft_counter
  get_status_counter :: soft_counter
  traced :: "event_t list"

record mpi_options = trace_options +
  tracejant_mpi :: bool
  TracingBitmap :: "INT32 list"

section \<open>Macros\<close>

definition TRACING_BITMAP_VALID_EVTYPE :: "INT32 \<Rightarrow> bool" where
  "TRACING_BITMAP_VALID_EVTYPE t \<longleftrightarrow>
     t = MPI_BSEND_EV \<or> t = MPI_SSEND_EV \<or> t = MPI_RSEND_EV \<or> t = MPI_SEND_EV \<or> t = MPI_IRECVED_EV \<or> t = MPI_RECV_EV"

definition TRACING_BITMAP_VALID_EVTARGET :: "mpi_lib \<Rightarrow> 64 word \<Rightarrow> bool" where
  "TRACING_BITMAP_VALID_EVTARGET lib target \<longleftrightarrow>
     target \<noteq> scast (MPI_ANY_SOURCE lib) \<and> target \<noteq> scast (MPI_PROC_NULL lib) \<and> target \<noteq> scast (MPI_UNDEFINED lib)"

definition mpi_event :: "mpi_options \<Rightarrow> UINT64 \<Rightarrow> INT32 \<Rightarrow> UINT64 \<Rightarrow> 64 word \<Rightarrow> INT32 \<Rightarrow> INT32 \<Rightarrow> 64 word \<Rightarrow> 64 word \<Rightarrow> event_t" where
  "mpi_event opts evttime evttype evtvalue evttarget evtsize evttag evtcomm evtaux =
     (base_event opts)\<lparr>ev_time := evttime, ev_event := evttype, ev_value := evtvalue,
        ev_param := \<lparr>param_target = ucast evttarget, param_size = evtsize, param_tag = evttag,
                      param_comm = ucast evtcomm, param_aux = evtaux\<rparr>\<rparr>"

text \<open>Whether an event of a type and a target is traced: the task is, or the target of the message.\<close>

definition traceja_event :: "mpi_lib \<Rightarrow> mpi_options \<Rightarrow> INT32 \<Rightarrow> 64 word \<Rightarrow> bool res" where
  "traceja_event lib opts evttype evttarget =
     (if TRACING_BITMAP_VALID_EVTYPE evttype \<and> TRACING_BITMAP_VALID_EVTARGET lib evttarget
      then andthen (array_get (TracingBitmap opts) (sint evttarget)) (\<lambda>b. Inr (TracingBitmap_TASKID opts \<or> b \<noteq> 0))
      else Inr (TracingBitmap_TASKID opts))"

definition insert_event :: "event_t list \<Rightarrow> mpi_state \<Rightarrow> mpi_state" where
  "insert_event evs st = st\<lparr>traced := traced st @ evs\<rparr>"

definition NORMAL_MODE_TRACE_MPIEVENT ::
  "mpi_lib \<Rightarrow> mpi_options \<Rightarrow> UINT64 \<Rightarrow> INT32 \<Rightarrow> UINT64 \<Rightarrow> 64 word \<Rightarrow> INT32 \<Rightarrow> INT32 \<Rightarrow> 64 word \<Rightarrow> 64 word \<Rightarrow> mpi_state \<Rightarrow> mpi_state res" where
  "NORMAL_MODE_TRACE_MPIEVENT lib opts evttime evttype evtvalue evttarget evtsize evttag evtcomm evtaux st =
     (if tracejant_mpi opts then
        andthen (traceja_event lib opts evttype evttarget) (\<lambda>b.
          Inr (if b then insert_event [mpi_event opts evttime evttype evtvalue evttarget evtsize evttag evtcomm evtaux] st else st))
      else Inr st)"

definition TRACE_MPIEVENT ::
  "mpi_lib \<Rightarrow> mpi_options \<Rightarrow> UINT64 \<Rightarrow> INT32 \<Rightarrow> UINT64 \<Rightarrow> 64 word \<Rightarrow> INT32 \<Rightarrow> INT32 \<Rightarrow> 64 word \<Rightarrow> 64 word \<Rightarrow> mpi_state \<Rightarrow> mpi_state res" where
  "TRACE_MPIEVENT lib opts evttime evttype evtvalue evttarget evtsize evttag evtcomm evtaux st =
     (if tracejant opts then
        andthen (NORMAL_MODE_TRACE_MPIEVENT lib opts evttime evttype evtvalue evttarget evtsize evttag evtcomm evtaux st) (\<lambda>st.
          if evtvalue = EVT_BEGIN then
            Inr (st\<lparr>MPI_Deepness := MPI_Deepness st + 1, last_mpi_begin_time := evttime\<rparr>)
          else if evtvalue = EVT_END then
            andthen (mpi_stats_update_elapsed_time evttype (evttime - last_mpi_begin_time st) (mpi_stats st)) (\<lambda>stats.
              Inr (st\<lparr>MPI_Deepness := MPI_Deepness st - 1, last_mpi_exit_time := evttime, mpi_stats := stats\<rparr>))
          else Inr st)
      else Inr st)"

definition TRACE_MPIEVENT_NOHWC ::
  "mpi_lib \<Rightarrow> mpi_options \<Rightarrow> UINT64 \<Rightarrow> INT32 \<Rightarrow> UINT64 \<Rightarrow> 64 word \<Rightarrow> INT32 \<Rightarrow> INT32 \<Rightarrow> 64 word \<Rightarrow> 64 word \<Rightarrow> mpi_state \<Rightarrow> mpi_state res" where
  "TRACE_MPIEVENT_NOHWC lib opts evttime evttype evtvalue evttarget evtsize evttag evtcomm evtaux st =
     (if tracejant opts \<and> tracejant_mpi opts then
        andthen (traceja_event lib opts evttype evttarget) (\<lambda>b.
          Inr (if b then insert_event [mpi_event opts evttime evttype evtvalue evttarget evtsize evttag evtcomm evtaux] st else st))
      else Inr st)"

section \<open>Ranks\<close>

definition world_rank_of_parent :: "mpi_lib \<Rightarrow> INT32 \<Rightarrow> INT32 res" where
  "world_rank_of_parent lib dest =
     (case ParentWorldRanks lib of None \<Rightarrow> Inr dest | Some ranks \<Rightarrow> array_get ranks (sint dest))"

text \<open>The argument that says whether it is a send has no influence; the result is always \<open>MPI_SUCCESS\<close>.\<close>

definition get_rank_obj_C :: "mpi_lib \<Rightarrow> MPI_Comm \<Rightarrow> INT32 \<Rightarrow> INT32 res" where
  "get_rank_obj_C lib comm dest =
     (if comm = MPI_COMM_WORLD lib \<or> dest = MPI_PROC_NULL lib \<or> dest = MPI_ANY_SOURCE lib then Inr dest
      else
        andthen (MPI_CHECK (PMPI_Comm_test_inter lib comm)) (\<lambda>inter.
          if inter then (if comm = PMPI_Comm_get_parent lib then world_rank_of_parent lib dest else Inr dest)
          else
            andthen (MPI_CHECK (PMPI_Comm_group lib comm)) (\<lambda>group.
            andthen (MPI_CHECK (PMPI_Group_translate_ranks lib group dest)) (\<lambda>receiver.
            andthen (MPI_CHECK (PMPI_Group_free lib group)) (\<lambda>_. Inr receiver)))))"

text \<open>The sender of a message in the whole program, its size and its tag.\<close>

definition get_Irank_obj_C :: "mpi_lib \<Rightarrow> hash_data_t \<Rightarrow> mpi_status \<Rightarrow> (INT32 \<times> INT32 \<times> INT32) res" where
  "get_Irank_obj_C lib hash_req status =
     andthen (MPI_CHECK (PMPI_Get_count status (MPI_BYTE lib))) (\<lambda>recved_count.
       let size = (if recved_count \<noteq> MPI_UNDEFINED lib then recved_count else 0) in
       andthen (if MPI_GROUP_NULL lib \<noteq> hash_group hash_req
                then MPI_CHECK (PMPI_Group_translate_ranks lib (hash_group hash_req) (MPI_SOURCE status))
                else Inr (MPI_SOURCE status)) (\<lambda>src_world.
         Inr (src_world, size, MPI_TAG status)))"

text \<open>The group a receive is remembered with.\<close>

definition request_group :: "mpi_lib \<Rightarrow> MPI_Comm \<Rightarrow> MPI_Group res" where
  "request_group lib comm =
     (if comm = MPI_COMM_WORLD lib then Inr (MPI_GROUP_NULL lib)
      else
        andthen (MPI_CHECK (PMPI_Comm_test_inter lib comm)) (\<lambda>inter.
          MPI_CHECK ((if inter then PMPI_Comm_remote_group lib else PMPI_Comm_group lib) comm)))"

section \<open>Persistent requests\<close>

text \<open>
  The queue is a doubly linked list through a head; here it is the list of its elements from
  \<open>next\<close> to \<open>prev\<close> of the head. \<open>INSERT_ITEM_INCREASING\<close> looks for the place from the end.
\<close>

definition INSERT_ITEM_INCREASING :: "persistent_req_t list \<Rightarrow> persistent_req_t \<Rightarrow> persistent_req_t list" where
  "INSERT_ITEM_INCREASING q p =
     (let larger = takeWhile (\<lambda>r. \<not> pr_req r \<le> pr_req p) (rev q) in
      take (length q - length larger) q @ p # rev larger)"

definition PR_QueueSearch :: "persistent_req_t list \<Rightarrow> request \<Rightarrow> nat option" where
  "PR_QueueSearch q reqid = first_index (\<lambda>r. pr_req r = reqid) q"

definition PR_Busca_request :: "persistent_req_t list \<Rightarrow> request \<Rightarrow> persistent_req_t option" where
  "PR_Busca_request q reqid = (case PR_QueueSearch q reqid of None \<Rightarrow> None | Some i \<Rightarrow> Some (q ! i))"

definition PR_Elimina_request :: "persistent_req_t list \<Rightarrow> request \<Rightarrow> persistent_req_t list" where
  "PR_Elimina_request q reqid = (case PR_QueueSearch q reqid of None \<Rightarrow> q | Some i \<Rightarrow> remove_nth i q)"

definition sizeof_persistent_req_t :: nat where
  "sizeof_persistent_req_t = 40"

definition sizeof_PR_Queue_t :: nat where
  "sizeof_PR_Queue_t = 24"

definition PR_NewRequest ::
  "allocator \<Rightarrow> INT32 \<Rightarrow> INT32 \<Rightarrow> MPI_Datatype \<Rightarrow> INT32 \<Rightarrow> INT32 \<Rightarrow> MPI_Comm \<Rightarrow> request \<Rightarrow> persistent_req_t list \<Rightarrow> persistent_req_t list" where
  "PR_NewRequest alloc tipus cnt datatype task tag comm req q =
     (if \<not> alloc sizeof_persistent_req_t then q
      else if \<not> alloc sizeof_PR_Queue_t then q
      else INSERT_ITEM_INCREASING q
        \<lparr>pr_req = req, pr_datatype = datatype, pr_comm = comm, pr_tipus = tipus, pr_count = cnt, pr_task = task, pr_tag = tag\<rparr>)"

definition remember_receive :: "hash_data_t \<Rightarrow> mpi_state \<Rightarrow> mpi_state res" where
  "remember_receive d st = andthen (hash_add d (recv_requests st)) (\<lambda>(failed, h). Inr (st\<lparr>recv_requests := h\<rparr>))"

definition Traceja_Persistent_Request :: "mpi_lib \<Rightarrow> mpi_options \<Rightarrow> request \<Rightarrow> UINT64 \<Rightarrow> mpi_state \<Rightarrow> mpi_state res" where
  "Traceja_Persistent_Request lib opts reqid temps st = (case PR_Busca_request (PR_queue st) reqid of
     None \<Rightarrow> Inr st
   | Some p \<Rightarrow>
       andthen (MPI_CHECK (PMPI_Type_size lib (pr_datatype p))) (\<lambda>size.
       andthen (get_rank_obj_C lib (pr_comm p) (pr_task p)) (\<lambda>src_world.
       andthen (if pr_tipus p = MPI_IRECV_EV then
                  andthen (request_group lib (pr_comm p)) (\<lambda>group.
                    remember_receive \<lparr>hash_key = reqid, hash_group = group, hash_commid = pr_comm p, hash_partner = pr_task p,
                      hash_tag = pr_tag p, hash_size = pr_count p * size\<rparr> st)
                else Inr st) (\<lambda>st.
         TRACE_MPIEVENT_NOHWC lib opts temps MPI_PERSIST_REQ_EV (scast (pr_tipus p)) (scast src_world) size (pr_tag p)
           (pr_comm p) (pr_req p) st))))"

end
