(* ===== verification/MpiP2p.thy ===== *)
theory MpiP2p
  imports MpiTrace
begin

text \<open>
  The wrappers of the point-to-point operations,
  \<open>trunk/dependencies/extrae/src/tracer/wrappers/MPI/mpi_wrapper_p2p_c.c\<close>, and of the persistent requests
  in \<open>mpi_wrapper.c\<close>, with the tracer in the detail mode.

  A wrapper is given the two readings of the clock, what the MPI library answered to the call it wraps
  (the result, and the request, the status, the flag or the indices it stored), and the state. It gives
  the result that the program sees, and the new state. A test or wait stores its answer in the
  program's memory too, which is not part of the state. Sizes are \<open>int\<close>s and wrap around.
\<close>

type_synonym wrapped_call = "mpi_state \<Rightarrow> (INT32 \<times> mpi_state) res"

definition MAX_WAIT_REQUESTS :: nat where
  "MAX_WAIT_REQUESTS = 16384"

text \<open>The bytes of one element: asked for unless there are none, and then 0 or, in some wrappers, not set.\<close>

definition type_size :: "mpi_lib \<Rightarrow> bool \<Rightarrow> INT32 \<Rightarrow> MPI_Datatype \<Rightarrow> INT32 option res" where
  "type_size lib zeroed cnt datatype =
     (if cnt \<noteq> 0 then andthen (MPI_CHECK (PMPI_Type_size lib datatype)) (\<lambda>size. Inr (Some size))
      else Inr (if zeroed then Some 0 else None))"

definition read_local :: "'a option \<Rightarrow> 'a res" where
  "read_local v = (case v of None \<Rightarrow> Inl Uninitialised | Some x \<Rightarrow> Inr x)"

definition with_stats :: "(mpi_stats_t option \<Rightarrow> mpi_stats_t option res) \<Rightarrow> mpi_state \<Rightarrow> mpi_state res" where
  "with_stats f st = andthen (f (mpi_stats st)) (\<lambda>s. Inr (st\<lparr>mpi_stats := s\<rparr>))"

section \<open>Sending\<close>

definition send_wrapper ::
  "INT32 \<Rightarrow> bool \<Rightarrow> mpi_lib \<Rightarrow> mpi_options \<Rightarrow> UINT64 \<Rightarrow> UINT64 \<Rightarrow> INT32 \<Rightarrow> MPI_Datatype \<Rightarrow> INT32 \<Rightarrow> INT32 \<Rightarrow> MPI_Comm \<Rightarrow> INT32 \<Rightarrow> wrapped_call" where
  "send_wrapper ev zeroed lib opts t0 t1 cnt datatype dest tag comm ret st =
     andthen (type_size lib zeroed cnt datatype) (\<lambda>size0.
     andthen (get_rank_obj_C lib comm dest) (\<lambda>receiver.
     andthen (read_local size0) (\<lambda>size0.
       let size = size0 * cnt in
       andthen (TRACE_MPIEVENT lib opts t0 ev EVT_BEGIN (scast receiver) size tag comm 0 st) (\<lambda>st.
       andthen (TRACE_MPIEVENT lib opts t1 ev EVT_END (scast receiver) size tag comm 0 st) (\<lambda>st.
       andthen (with_stats (updateStats_P2P lib receiver 0 size) st) (\<lambda>st. Inr (ret, st)))))))"

definition MPI_Bsend_C_Wrapper where "MPI_Bsend_C_Wrapper = send_wrapper MPI_BSEND_EV True"
definition MPI_Ssend_C_Wrapper where "MPI_Ssend_C_Wrapper = send_wrapper MPI_SSEND_EV False"
definition MPI_Rsend_C_Wrapper where "MPI_Rsend_C_Wrapper = send_wrapper MPI_RSEND_EV True"
definition MPI_Send_C_Wrapper where "MPI_Send_C_Wrapper = send_wrapper MPI_SEND_EV True"
definition MPI_Ibsend_C_Wrapper where "MPI_Ibsend_C_Wrapper = send_wrapper MPI_IBSEND_EV True"
definition MPI_Isend_C_Wrapper where "MPI_Isend_C_Wrapper = send_wrapper MPI_ISEND_EV True"
definition MPI_Issend_C_Wrapper where "MPI_Issend_C_Wrapper = send_wrapper MPI_ISSEND_EV True"
definition MPI_Irsend_C_Wrapper where "MPI_Irsend_C_Wrapper = send_wrapper MPI_IRSEND_EV True"

section \<open>Receiving\<close>

definition MPI_Recv_C_Wrapper ::
  "mpi_lib \<Rightarrow> mpi_options \<Rightarrow> UINT64 \<Rightarrow> UINT64 \<Rightarrow> INT32 \<Rightarrow> MPI_Datatype \<Rightarrow> INT32 \<Rightarrow> INT32 \<Rightarrow> MPI_Comm \<Rightarrow> INT32 \<times> mpi_status \<Rightarrow> wrapped_call" where
  "MPI_Recv_C_Wrapper lib opts t0 t1 cnt datatype source tag comm ans st =
     (case ans of (ierror, status) \<Rightarrow>
     andthen (type_size lib True cnt datatype) (\<lambda>size0.
     andthen (read_local size0) (\<lambda>size0.
     andthen (get_rank_obj_C lib comm source) (\<lambda>src_world.
     andthen (TRACE_MPIEVENT lib opts t0 MPI_RECV_EV EVT_BEGIN (scast src_world) (cnt * size0) tag comm 0 st) (\<lambda>st.
     andthen (MPI_CHECK (PMPI_Get_count status datatype)) (\<lambda>recved_count.
       let size = (if recved_count \<noteq> MPI_UNDEFINED lib then size0 * recved_count else 0);
           sender_src = (if source = MPI_ANY_SOURCE lib then MPI_SOURCE status else source);
           sended_tag = (if tag = MPI_ANY_TAG lib then MPI_TAG status else tag) in
       andthen (get_rank_obj_C lib comm sender_src) (\<lambda>src_world.
       andthen (TRACE_MPIEVENT lib opts t1 MPI_RECV_EV EVT_END (scast src_world) size sended_tag comm 0 st) (\<lambda>st.
       andthen (with_stats (updateStats_P2P lib source size 0) st) (\<lambda>st. Inr (ierror, st))))))))))"

definition MPI_Irecv_C_Wrapper ::
  "mpi_lib \<Rightarrow> mpi_options \<Rightarrow> UINT64 \<Rightarrow> UINT64 \<Rightarrow> INT32 \<Rightarrow> MPI_Datatype \<Rightarrow> INT32 \<Rightarrow> INT32 \<Rightarrow> MPI_Comm \<Rightarrow> INT32 \<times> request \<Rightarrow> wrapped_call" where
  "MPI_Irecv_C_Wrapper lib opts t0 t1 cnt datatype source tag comm ans st =
     (case ans of (ierror, req) \<Rightarrow>
     andthen (type_size lib True cnt datatype) (\<lambda>size0.
     andthen (read_local size0) (\<lambda>size.
     andthen (get_rank_obj_C lib comm source) (\<lambda>src_world.
     andthen (TRACE_MPIEVENT lib opts t0 MPI_IRECV_EV EVT_BEGIN (scast src_world) (cnt * size) tag comm 0 st) (\<lambda>st.
     andthen (request_group lib comm) (\<lambda>group.
     andthen (remember_receive \<lparr>hash_key = req, hash_group = group, hash_commid = comm, hash_partner = source,
                hash_tag = tag, hash_size = cnt * size\<rparr> st) (\<lambda>st.
     andthen (TRACE_MPIEVENT lib opts t1 MPI_IRECV_EV EVT_END (scast src_world) (cnt * size) tag comm req st) (\<lambda>st.
       Inr (ierror, st)))))))))"

definition MPI_Probe_C_Wrapper :: "mpi_lib \<Rightarrow> mpi_options \<Rightarrow> UINT64 \<Rightarrow> UINT64 \<Rightarrow> MPI_Comm \<Rightarrow> INT32 \<Rightarrow> wrapped_call" where
  "MPI_Probe_C_Wrapper lib opts t0 t1 comm ierror st =
     andthen (TRACE_MPIEVENT lib opts t0 MPI_PROBE_EV EVT_BEGIN 0 0 0 comm 0 st) (\<lambda>st.
     andthen (TRACE_MPIEVENT lib opts t1 MPI_PROBE_EV EVT_END 0 0 0 comm 0 st) (\<lambda>st.
     andthen (with_stats updateStats_OTHER st) (\<lambda>st. Inr (ierror, st))))"

text \<open>The time that passed outside of the failed calls is summed up until one succeeds.\<close>

definition outside_time :: "UINT64 \<Rightarrow> UINT64 \<Rightarrow> soft_counter \<Rightarrow> soft_counter" where
  "outside_time begin_time end_time c =
     c\<lparr>elapsed_outside := (if soft_count c = 0 then 0 else elapsed_outside c + (begin_time - last_exit c)),
       last_exit := end_time\<rparr>"

definition Normal_MPI_Iprobe_C_Wrapper ::
  "mpi_lib \<Rightarrow> mpi_options \<Rightarrow> UINT64 \<Rightarrow> UINT64 \<Rightarrow> MPI_Comm \<Rightarrow> INT32 \<times> bool \<Rightarrow> wrapped_call" where
  "Normal_MPI_Iprobe_C_Wrapper lib opts begin_time end_time comm ans st =
     (case ans of (ierror, flag) \<Rightarrow>
      let c = outside_time begin_time end_time (Iprobe_counter st); st = st\<lparr>Iprobe_counter := c\<rparr> in
      if tracejant_mpi opts then
        if flag then
          let st = (if soft_count c \<noteq> 0
                    then insert_event (TRACE_EVENT opts begin_time MPI_TIME_OUTSIDE_IPROBES_EV (elapsed_outside c) @
                                       TRACE_EVENT opts begin_time MPI_IPROBE_COUNTER_EV (scast (soft_count c))) st
                    else st) in
          andthen (TRACE_MPIEVENT lib opts begin_time MPI_IPROBE_EV EVT_BEGIN 0 0 0 comm 0 st) (\<lambda>st.
          andthen (TRACE_MPIEVENT lib opts end_time MPI_IPROBE_EV EVT_END 0 0 0 comm 0 st) (\<lambda>st.
            Inr (ierror, st\<lparr>Iprobe_counter := c\<lparr>soft_count := 0\<rparr>\<rparr>)))
        else
          let st = (if soft_count c = 0 then insert_event (TRACE_EVENT opts begin_time MPI_IPROBE_COUNTER_EV 0) st else st) in
          Inr (ierror, st\<lparr>Iprobe_counter := c\<lparr>soft_count := soft_count c + 1\<rparr>\<rparr>)
      else Inr (ierror, st))"

definition Normal_MPI_Request_get_status ::
  "mpi_lib \<Rightarrow> mpi_options \<Rightarrow> UINT64 \<Rightarrow> UINT64 \<Rightarrow> INT32 \<times> bool \<Rightarrow> wrapped_call" where
  "Normal_MPI_Request_get_status lib opts begin_time end_time ans st =
     (case ans of (ierror, flag) \<Rightarrow>
      let c = outside_time begin_time end_time (get_status_counter st); st = st\<lparr>get_status_counter := c\<rparr> in
      if tracejant_mpi opts then
        if flag then
          let st = (if soft_count c \<noteq> 0
                    then insert_event (TRACE_EVENT opts begin_time MPI_TIME_OUTSIDE_MPI_REQUEST_GET_STATUS_EV (elapsed_outside c) @
                                       TRACE_EVENT opts begin_time MPI_REQUEST_GET_STATUS_COUNTER_EV (scast (soft_count c))) st
                    else st) in
          andthen (TRACE_MPIEVENT lib opts begin_time MPI_REQUEST_GET_STATUS_EV EVT_BEGIN 0 0 0 0 0 st) (\<lambda>st.
          andthen (TRACE_MPIEVENT lib opts end_time MPI_REQUEST_GET_STATUS_EV EVT_END 0 0 0 0 0 st) (\<lambda>st.
            Inr (ierror, st\<lparr>get_status_counter := c\<lparr>soft_count := 0\<rparr>\<rparr>)))
        else
          let st = (if soft_count c = 0 then insert_event (TRACE_EVENT opts begin_time MPI_REQUEST_GET_STATUS_COUNTER_EV 0) st else st) in
          Inr (ierror, st\<lparr>get_status_counter := c\<lparr>soft_count := soft_count c + 1\<rparr>\<rparr>)
      else Inr (ierror, st))"

section \<open>Completing requests\<close>

text \<open>
  What every test and wait does with a completed request that was remembered. \<open>loc\<close> are the variables
  \<open>src_world\<close> and \<open>size\<close>, which keep their values when the request was cancelled, from one request
  to the next.
\<close>

type_synonym source_size = "INT32 \<times> INT32"

definition completed :: "mpi_lib \<Rightarrow> mpi_options \<Rightarrow> bool \<Rightarrow> UINT64 \<Rightarrow> hash_data_t \<Rightarrow> mpi_status \<Rightarrow> source_size \<Rightarrow> mpi_state \<Rightarrow> (source_size \<times> mpi_state) res" where
  "completed lib opts stats temps_final d status loc st =
     andthen (if \<not> PMPI_Test_cancelled status then
                andthen (get_Irank_obj_C lib d status) (\<lambda>(src_world, size, tag).
                andthen (if hash_group d \<noteq> MPI_GROUP_NULL lib then MPI_CHECK (PMPI_Group_free lib (hash_group d)) else Inr ()) (\<lambda>_.
                andthen (if stats then with_stats (updateStats_P2P lib src_world size 0) st else Inr st) (\<lambda>st.
                  Inr ((src_world, size), st))))
              else Inr (loc, st)) (\<lambda>((src_world, size), st).
     andthen (TRACE_MPIEVENT_NOHWC lib opts temps_final MPI_IRECVED_EV (if PMPI_Test_cancelled status then 1 else 0)
                (scast src_world) size (hash_tag d) (hash_commid d) (hash_key d) st) (\<lambda>st.
     andthen (hash_remove (hash_key d) (recv_requests st)) (\<lambda>(failed, h).
       Inr ((src_world, size), st\<lparr>recv_requests := h\<rparr>))))"

definition complete_one :: "mpi_lib \<Rightarrow> mpi_options \<Rightarrow> UINT64 \<Rightarrow> request \<Rightarrow> mpi_status \<Rightarrow> source_size \<Rightarrow> mpi_state \<Rightarrow> (source_size \<times> mpi_state) res" where
  "complete_one lib opts temps_final req status loc st =
     andthen (hash_search (recv_requests st) req) (\<lambda>found. case found of
       None \<Rightarrow> Inr (loc, st)
     | Some d \<Rightarrow> completed lib opts True temps_final d status loc st)"

text \<open>\<open>for (ireq = 0; ireq < count; ireq++)\<close>\<close>

fun complete_all :: "mpi_lib \<Rightarrow> mpi_options \<Rightarrow> UINT64 \<Rightarrow> (request \<times> mpi_status) list \<Rightarrow> source_size \<Rightarrow> mpi_state \<Rightarrow> mpi_state res" where
  "complete_all lib opts temps_final [] loc st = Inr st"
| "complete_all lib opts temps_final ((req, status) # rs) loc st =
     andthen (complete_one lib opts temps_final req status loc st) (\<lambda>(loc, st).
       complete_all lib opts temps_final rs loc st)"

text \<open>The requests are copied to an array of \<open>MAX_WAIT_REQUESTS\<close> on the stack, however many there are.\<close>

definition save_requests :: "request list \<Rightarrow> request list res" where
  "save_requests reqs = (if length reqs \<le> MAX_WAIT_REQUESTS then Inr reqs else Inl OutOfBounds)"

text \<open>The pairs of a saved request and its status, for the positions from 0, or for the indices given.\<close>

definition all_statuses :: "request list \<Rightarrow> mpi_status list \<Rightarrow> (request \<times> mpi_status) list res" where
  "all_statuses reqs statuses = (if length statuses < length reqs then Inl OutOfBounds else Inr (zip reqs statuses))"

fun chosen_statuses :: "request list \<Rightarrow> INT32 list \<Rightarrow> mpi_status list \<Rightarrow> (request \<times> mpi_status) list res" where
  "chosen_statuses reqs [] statuses = Inr []"
| "chosen_statuses reqs (i # is) [] = Inl OutOfBounds"
| "chosen_statuses reqs (i # is) (s # ss) =
     andthen (array_get reqs (sint i)) (\<lambda>req.
     andthen (chosen_statuses reqs is ss) (\<lambda>rs. Inr ((req, s) # rs)))"

definition some_statuses :: "request list \<Rightarrow> INT32 \<Rightarrow> INT32 list \<Rightarrow> mpi_status list \<Rightarrow> (request \<times> mpi_status) list res" where
  "some_statuses reqs outcount indices statuses =
     (if length indices < nat (sint outcount) then Inl OutOfBounds
      else chosen_statuses reqs (take (nat (sint outcount)) indices) statuses)"

definition no_source :: source_size where
  "no_source = (- 1, 0)"

section \<open>Waiting\<close>

definition wait_wrapper ::
  "INT32 \<Rightarrow> mpi_lib \<Rightarrow> mpi_options \<Rightarrow> UINT64 \<Rightarrow> UINT64 \<Rightarrow> request list \<Rightarrow> (request list \<Rightarrow> (request \<times> mpi_status) list res) \<Rightarrow> INT32 \<Rightarrow> wrapped_call" where
  "wait_wrapper ev lib opts t0 t1 reqs done_reqs ierror st =
     andthen (TRACE_MPIEVENT lib opts t0 ev EVT_BEGIN 0 0 0 0 0 st) (\<lambda>st.
     andthen (save_requests reqs) (\<lambda>save_reqs.
     andthen (if ierror = MPI_SUCCESS then
                andthen (done_reqs save_reqs) (\<lambda>rs. complete_all lib opts t1 rs no_source st)
              else Inr st) (\<lambda>st.
     andthen (TRACE_MPIEVENT lib opts t1 ev EVT_END 0 0 0 0 0 st) (\<lambda>st. Inr (ierror, st)))))"

definition MPI_Wait_C_Wrapper ::
  "mpi_lib \<Rightarrow> mpi_options \<Rightarrow> UINT64 \<Rightarrow> UINT64 \<Rightarrow> request \<Rightarrow> INT32 \<times> mpi_status \<Rightarrow> wrapped_call" where
  "MPI_Wait_C_Wrapper lib opts t0 t1 req ans st =
     (case ans of (ierror, status) \<Rightarrow>
     andthen (TRACE_MPIEVENT lib opts t0 MPI_WAIT_EV EVT_BEGIN 0 0 0 0 0 st) (\<lambda>st.
     andthen (if ierror = MPI_SUCCESS then
                andthen (complete_one lib opts t1 req status no_source st) (\<lambda>(loc, st). Inr st)
              else Inr st) (\<lambda>st.
     andthen (TRACE_MPIEVENT lib opts t1 MPI_WAIT_EV EVT_END 0 0 0 0 0 st) (\<lambda>st. Inr (ierror, st)))))"

definition MPI_Waitall_C_Wrapper ::
  "mpi_lib \<Rightarrow> mpi_options \<Rightarrow> UINT64 \<Rightarrow> UINT64 \<Rightarrow> request list \<Rightarrow> INT32 \<times> mpi_status list \<Rightarrow> wrapped_call" where
  "MPI_Waitall_C_Wrapper lib opts t0 t1 reqs ans =
     (case ans of (ierror, statuses) \<Rightarrow>
      wait_wrapper MPI_WAITALL_EV lib opts t0 t1 reqs (\<lambda>save_reqs. all_statuses save_reqs statuses) ierror)"

definition MPI_Waitany_C_Wrapper ::
  "mpi_lib \<Rightarrow> mpi_options \<Rightarrow> UINT64 \<Rightarrow> UINT64 \<Rightarrow> request list \<Rightarrow> INT32 \<times> INT32 \<times> mpi_status \<Rightarrow> wrapped_call" where
  "MPI_Waitany_C_Wrapper lib opts t0 t1 reqs ans =
     (case ans of (ierror, index, status) \<Rightarrow>
      wait_wrapper MPI_WAITANY_EV lib opts t0 t1 reqs
        (\<lambda>save_reqs. if index \<noteq> MPI_UNDEFINED lib then chosen_statuses save_reqs [index] [status] else Inr []) ierror)"

text \<open>The number of completed requests may be \<open>MPI_UNDEFINED\<close>, which is negative.\<close>

definition MPI_Waitsome_C_Wrapper ::
  "mpi_lib \<Rightarrow> mpi_options \<Rightarrow> UINT64 \<Rightarrow> UINT64 \<Rightarrow> request list \<Rightarrow> INT32 \<times> INT32 \<times> INT32 list \<times> mpi_status list \<Rightarrow> wrapped_call" where
  "MPI_Waitsome_C_Wrapper lib opts t0 t1 reqs ans =
     (case ans of (ierror, outcount, indices, statuses) \<Rightarrow>
      wait_wrapper MPI_WAITSOME_EV lib opts t0 t1 reqs
        (\<lambda>save_reqs. some_statuses save_reqs outcount indices statuses) ierror)"

section \<open>Testing\<close>

text \<open>
  A test that completes nothing is not traced but counted; the one that does traces the count.
\<close>

definition failed_test :: "mpi_options \<Rightarrow> UINT64 \<Rightarrow> INT32 \<Rightarrow> mpi_state \<Rightarrow> mpi_state" where
  "failed_test opts t0 counter st =
     (if counter = 0 then insert_event (TRACE_EVENT opts t0 MPI_TEST_COUNTER_EV 0) st else st)"

definition test_count :: "mpi_options \<Rightarrow> UINT64 \<Rightarrow> INT32 \<Rightarrow> mpi_state \<Rightarrow> mpi_state" where
  "test_count opts t0 counter st =
     (if counter \<noteq> 0 then insert_event (TRACE_EVENT opts t0 MPI_TEST_COUNTER_EV (scast counter)) st else st)"

definition Normal_MPI_Test_C_Wrapper ::
  "mpi_lib \<Rightarrow> mpi_options \<Rightarrow> UINT64 \<Rightarrow> UINT64 \<Rightarrow> request \<Rightarrow> INT32 \<times> bool \<times> mpi_status \<Rightarrow> wrapped_call" where
  "Normal_MPI_Test_C_Wrapper lib opts t0 t1 req ans st =
     (case ans of (ierror, flag, status) \<Rightarrow>
     andthen (if ierror = MPI_SUCCESS \<and> flag then hash_search (recv_requests st) req else Inr None) (\<lambda>found. case found of
       Some d \<Rightarrow>
         andthen (TRACE_MPIEVENT lib opts t0 MPI_TEST_EV EVT_BEGIN (hash_key d) 0 0 0 0 (test_count opts t0 (Test_counter st) st)) (\<lambda>st.
         andthen (completed lib opts False t1 d status no_source (st\<lparr>Test_counter := 0\<rparr>)) (\<lambda>(loc, st).
         andthen (TRACE_MPIEVENT lib opts t1 MPI_TEST_EV EVT_END 0 0 0 0 0 st) (\<lambda>st. Inr (ierror, st))))
     | None \<Rightarrow> Inr (ierror, (failed_test opts t0 (Test_counter st) st)\<lparr>Test_counter := Test_counter st + 1\<rparr>)))"

text \<open>The tests of several requests; \<open>upd\<close> sets the counter of the wrapper.\<close>

definition test_wrapper ::
  "INT32 \<Rightarrow> (mpi_state \<Rightarrow> INT32) \<Rightarrow> (INT32 \<Rightarrow> mpi_state \<Rightarrow> mpi_state) \<Rightarrow>
   mpi_lib \<Rightarrow> mpi_options \<Rightarrow> UINT64 \<Rightarrow> UINT64 \<Rightarrow> request list \<Rightarrow> (request list \<Rightarrow> (request \<times> mpi_status) list res) \<Rightarrow> bool \<Rightarrow> INT32 \<Rightarrow> wrapped_call" where
  "test_wrapper ev counter upd lib opts t0 t1 reqs done_reqs some_done ierror st =
     andthen (save_requests reqs) (\<lambda>save_reqs.
     if ierror = MPI_SUCCESS \<and> some_done then
       andthen (TRACE_MPIEVENT lib opts t0 ev EVT_BEGIN 0 0 0 0 0 st) (\<lambda>st.
       andthen (done_reqs save_reqs) (\<lambda>rs.
       andthen (complete_all lib opts t1 rs no_source (upd 0 (test_count opts t0 (counter st) st))) (\<lambda>st.
       andthen (TRACE_MPIEVENT lib opts t1 ev EVT_END 0 0 0 0 0 st) (\<lambda>st. Inr (ierror, st)))))
     else Inr (ierror, upd (counter st + 1) (failed_test opts t0 (counter st) st)))"

definition MPI_Testall_C_Wrapper ::
  "mpi_lib \<Rightarrow> mpi_options \<Rightarrow> UINT64 \<Rightarrow> UINT64 \<Rightarrow> request list \<Rightarrow> INT32 \<times> bool \<times> mpi_status list \<Rightarrow> wrapped_call" where
  "MPI_Testall_C_Wrapper lib opts t0 t1 reqs ans =
     (case ans of (ierror, flag, statuses) \<Rightarrow>
      test_wrapper MPI_TESTALL_EV Testall_counter (\<lambda>n. Testall_counter_update (\<lambda>_. n)) lib opts t0 t1 reqs
        (\<lambda>save_reqs. all_statuses save_reqs statuses) flag ierror)"

definition MPI_Testany_C_Wrapper ::
  "mpi_lib \<Rightarrow> mpi_options \<Rightarrow> UINT64 \<Rightarrow> UINT64 \<Rightarrow> request list \<Rightarrow> INT32 \<times> INT32 \<times> bool \<times> mpi_status \<Rightarrow> wrapped_call" where
  "MPI_Testany_C_Wrapper lib opts t0 t1 reqs ans =
     (case ans of (ierror, index, flag, status) \<Rightarrow>
      test_wrapper MPI_TESTANY_EV Testany_counter (\<lambda>n. Testany_counter_update (\<lambda>_. n)) lib opts t0 t1 reqs
        (\<lambda>save_reqs. chosen_statuses save_reqs [index] [status]) (index \<noteq> MPI_UNDEFINED lib \<and> flag) ierror)"

text \<open>The wrapper of \<open>MPI_Testsome\<close> calls \<open>PMPI_Waitsome\<close>, and so waits.\<close>

definition MPI_Testsome_C_Wrapper ::
  "mpi_lib \<Rightarrow> mpi_options \<Rightarrow> UINT64 \<Rightarrow> UINT64 \<Rightarrow> request list \<Rightarrow> INT32 \<times> INT32 \<times> INT32 list \<times> mpi_status list \<Rightarrow> wrapped_call" where
  "MPI_Testsome_C_Wrapper lib opts t0 t1 reqs ans =
     (case ans of (ierror, outcount, indices, statuses) \<Rightarrow>
      test_wrapper MPI_TESTSOME_EV Testsome_counter (\<lambda>n. Testsome_counter_update (\<lambda>_. n)) lib opts t0 t1 reqs
        (\<lambda>save_reqs. some_statuses save_reqs outcount indices statuses) (0 <s outcount) ierror)"

section \<open>Persistent requests\<close>

definition init_wrapper ::
  "INT32 \<Rightarrow> INT32 \<Rightarrow> allocator \<Rightarrow> mpi_lib \<Rightarrow> mpi_options \<Rightarrow> UINT64 \<Rightarrow> UINT64 \<Rightarrow> INT32 \<Rightarrow> MPI_Datatype \<Rightarrow> INT32 \<Rightarrow> INT32 \<Rightarrow> MPI_Comm \<Rightarrow> INT32 \<times> request \<Rightarrow> wrapped_call" where
  "init_wrapper ev tipus alloc lib opts t0 t1 cnt datatype task tag comm ans st =
     (case ans of (ierror, req) \<Rightarrow>
     andthen (TRACE_MPIEVENT lib opts t0 ev EVT_BEGIN 0 0 0 0 0 st) (\<lambda>st.
       let st = st\<lparr>PR_queue := PR_NewRequest alloc tipus cnt datatype task tag comm req (PR_queue st)\<rparr> in
     andthen (TRACE_MPIEVENT lib opts t1 ev EVT_END 0 0 0 0 0 st) (\<lambda>st.
     andthen (with_stats updateStats_OTHER st) (\<lambda>st. Inr (ierror, st)))))"

definition MPI_Recv_init_C_Wrapper where "MPI_Recv_init_C_Wrapper = init_wrapper MPI_RECV_INIT_EV MPI_IRECV_EV"
definition MPI_Send_init_C_Wrapper where "MPI_Send_init_C_Wrapper = init_wrapper MPI_SEND_INIT_EV MPI_ISEND_EV"
definition MPI_Bsend_init_C_Wrapper where "MPI_Bsend_init_C_Wrapper = init_wrapper MPI_BSEND_INIT_EV MPI_IBSEND_EV"
definition MPI_Rsend_init_C_Wrapper where "MPI_Rsend_init_C_Wrapper = init_wrapper MPI_RSEND_INIT_EV MPI_IRSEND_EV"
definition MPI_Ssend_init_C_Wrapper where "MPI_Ssend_init_C_Wrapper = init_wrapper MPI_SSEND_INIT_EV MPI_ISSEND_EV"

text \<open>Each start is traced with the reading of the clock before the call.\<close>

definition MPI_Start_C_Wrapper :: "mpi_lib \<Rightarrow> mpi_options \<Rightarrow> UINT64 \<Rightarrow> UINT64 \<Rightarrow> request \<Rightarrow> INT32 \<Rightarrow> wrapped_call" where
  "MPI_Start_C_Wrapper lib opts t0 t1 req ierror st =
     andthen (TRACE_MPIEVENT lib opts t0 MPI_START_EV EVT_BEGIN 0 0 0 0 0 st) (\<lambda>st.
     andthen (Traceja_Persistent_Request lib opts req t0 st) (\<lambda>st.
     andthen (TRACE_MPIEVENT lib opts t1 MPI_START_EV EVT_END 0 0 0 0 0 st) (\<lambda>st. Inr (ierror, st))))"

fun start_all :: "mpi_lib \<Rightarrow> mpi_options \<Rightarrow> UINT64 \<Rightarrow> request list \<Rightarrow> mpi_state \<Rightarrow> mpi_state res" where
  "start_all lib opts t [] st = Inr st"
| "start_all lib opts t (req # reqs) st =
     andthen (Traceja_Persistent_Request lib opts req t st) (\<lambda>st. start_all lib opts t reqs st)"

definition MPI_Startall_C_Wrapper :: "mpi_lib \<Rightarrow> mpi_options \<Rightarrow> UINT64 \<Rightarrow> UINT64 \<Rightarrow> request list \<Rightarrow> INT32 \<Rightarrow> wrapped_call" where
  "MPI_Startall_C_Wrapper lib opts t0 t1 reqs ierror st =
     andthen (TRACE_MPIEVENT lib opts t0 MPI_STARTALL_EV EVT_BEGIN 0 0 0 0 0 st) (\<lambda>st.
     andthen (save_requests reqs) (\<lambda>save_reqs.
     andthen (start_all lib opts t0 save_reqs st) (\<lambda>st.
     andthen (TRACE_MPIEVENT lib opts t1 MPI_STARTALL_EV EVT_END 0 0 0 0 0 st) (\<lambda>st. Inr (ierror, st)))))"

definition MPI_Request_free_C_Wrapper :: "mpi_lib \<Rightarrow> mpi_options \<Rightarrow> UINT64 \<Rightarrow> UINT64 \<Rightarrow> request \<Rightarrow> INT32 \<Rightarrow> wrapped_call" where
  "MPI_Request_free_C_Wrapper lib opts t0 t1 req ierror st =
     andthen (TRACE_MPIEVENT lib opts t0 MPI_REQUEST_FREE_EV EVT_BEGIN 0 0 0 0 0 st) (\<lambda>st.
       let st = st\<lparr>PR_queue := PR_Elimina_request (PR_queue st) req\<rparr> in
     andthen (TRACE_MPIEVENT lib opts t1 MPI_REQUEST_FREE_EV EVT_END 0 0 0 0 0 st) (\<lambda>st.
     andthen (with_stats updateStats_OTHER st) (\<lambda>st. Inr (ierror, st))))"

definition MPI_Cancel_C_Wrapper :: "mpi_lib \<Rightarrow> mpi_options \<Rightarrow> UINT64 \<Rightarrow> UINT64 \<Rightarrow> request \<Rightarrow> request \<Rightarrow> INT32 \<Rightarrow> wrapped_call" where
  "MPI_Cancel_C_Wrapper lib opts t0 t1 req req' ierror st =
     andthen (TRACE_MPIEVENT lib opts t0 MPI_CANCEL_EV EVT_BEGIN req 0 0 0 0 st) (\<lambda>st.
     andthen (TRACE_MPIEVENT lib opts t1 MPI_CANCEL_EV EVT_END req' 0 0 0 0 st) (\<lambda>st.
     andthen (with_stats updateStats_OTHER st) (\<lambda>st. Inr (ierror, st))))"

section \<open>Sending and receiving at once\<close>

definition sendrecv_wrapper ::
  "INT32 \<Rightarrow> mpi_lib \<Rightarrow> mpi_options \<Rightarrow> UINT64 \<Rightarrow> UINT64 \<Rightarrow> INT32 \<Rightarrow> INT32 option \<Rightarrow> INT32 \<Rightarrow> INT32 \<Rightarrow> INT32 option \<Rightarrow> MPI_Datatype \<Rightarrow> INT32 \<Rightarrow> INT32 \<Rightarrow>
   MPI_Comm \<Rightarrow> INT32 \<times> mpi_status \<Rightarrow> wrapped_call" where
  "sendrecv_wrapper ev lib opts t0 t1 RecvRank DataSendSize sendcount sendtag DataRecvSize recvtype source recvtag comm ans st =
     (case ans of (ierror, status) \<Rightarrow>
     andthen (read_local DataSendSize) (\<lambda>DataSendSize.
       let DataSend = sendcount * DataSendSize in
     andthen (TRACE_MPIEVENT lib opts t0 ev EVT_BEGIN (scast RecvRank) DataSend sendtag comm 0 st) (\<lambda>st.
     andthen (MPI_CHECK (PMPI_Get_count status recvtype)) (\<lambda>cnt.
     andthen (if cnt \<noteq> MPI_UNDEFINED lib then andthen (read_local DataRecvSize) (\<lambda>s. Inr (s * cnt)) else Inr 0) (\<lambda>DataSize.
       let SendRank = (if source = MPI_ANY_SOURCE lib then MPI_SOURCE status else source);
           Tag = (if recvtag = MPI_ANY_TAG lib then MPI_TAG status else recvtag) in
     andthen (get_rank_obj_C lib comm SendRank) (\<lambda>SourceRank.
     andthen (TRACE_MPIEVENT lib opts t1 ev EVT_END (scast SourceRank) DataSize Tag comm 0 st) (\<lambda>st.
     andthen (with_stats (updateStats_P2P lib SourceRank DataSize DataSend) st) (\<lambda>st. Inr (ierror, st)))))))))"

definition MPI_Sendrecv_C_Wrapper ::
  "mpi_lib \<Rightarrow> mpi_options \<Rightarrow> UINT64 \<Rightarrow> UINT64 \<Rightarrow> INT32 \<Rightarrow> MPI_Datatype \<Rightarrow> INT32 \<Rightarrow> INT32 \<Rightarrow> INT32 \<Rightarrow> MPI_Datatype \<Rightarrow> INT32 \<Rightarrow> INT32 \<Rightarrow>
   MPI_Comm \<Rightarrow> INT32 \<times> mpi_status \<Rightarrow> wrapped_call" where
  "MPI_Sendrecv_C_Wrapper lib opts t0 t1 sendcount sendtype dest sendtag recvcount recvtype source recvtag comm ans st =
     andthen (get_rank_obj_C lib comm dest) (\<lambda>RecvRank.
     andthen (type_size lib False sendcount sendtype) (\<lambda>DataSendSize.
     andthen (type_size lib False recvcount recvtype) (\<lambda>DataRecvSize.
       sendrecv_wrapper MPI_SENDRECV_EV lib opts t0 t1 RecvRank DataSendSize sendcount sendtag DataRecvSize recvtype source recvtag comm ans st)))"

definition MPI_Sendrecv_replace_C_Wrapper ::
  "mpi_lib \<Rightarrow> mpi_options \<Rightarrow> UINT64 \<Rightarrow> UINT64 \<Rightarrow> INT32 \<Rightarrow> MPI_Datatype \<Rightarrow> INT32 \<Rightarrow> INT32 \<Rightarrow> INT32 \<Rightarrow> INT32 \<Rightarrow>
   MPI_Comm \<Rightarrow> INT32 \<times> mpi_status \<Rightarrow> wrapped_call" where
  "MPI_Sendrecv_replace_C_Wrapper lib opts t0 t1 cnt type dest sendtag source recvtag comm ans st =
     andthen (get_rank_obj_C lib comm dest) (\<lambda>RecvRank.
     andthen (type_size lib False cnt type) (\<lambda>DataSendSize.
       sendrecv_wrapper MPI_SENDRECV_REPLACE_EV lib opts t0 t1 RecvRank DataSendSize cnt sendtag DataSendSize type source recvtag comm ans st))"

end
