(* ===== verification/HashTableProps.thy ===== *)
theory HashTableProps
  imports HashTable
begin

text \<open>
  Runs of operations on the table of the pending requests: what is true of every table that the
  program can reach, and what the answers of a run are when no request is pending twice.
\<close>

section \<open>Runs\<close>

datatype table_op = Put hash_data_t | Look request | Take request

datatype answer = Failed bool | Found "hash_data_t option"

definition table_step :: "table_op \<Rightarrow> hash_t \<Rightarrow> (answer \<times> hash_t) res" where
  "table_step p h = (case p of
     Put d \<Rightarrow> andthen (hash_add d h) (\<lambda>(b, h). Inr (Failed b, h))
   | Look k \<Rightarrow> andthen (hash_search h k) (\<lambda>d. Inr (Found d, h))
   | Take k \<Rightarrow> andthen (hash_remove k h) (\<lambda>(b, h). Inr (Failed b, h)))"

fun table_run :: "table_op list \<Rightarrow> hash_t \<Rightarrow> (answer list \<times> hash_t) res" where
  "table_run [] h = Inr ([], h)"
| "table_run (p # ps) h =
     andthen (table_step p h) (\<lambda>(a, h). andthen (table_run ps h) (\<lambda>(as, h). Inr (a # as, h)))"

definition table_new :: "hash_tbl_t list \<Rightarrow> hash_ovf_t list \<Rightarrow> hash_t res" where
  "table_new cs os = hash_init \<lparr>hash_cells = cs, hash_overflow = os, ovf_free = 0\<rparr>"

section \<open>Links and sizes\<close>

text \<open>Every link is the index of an overflow cell or one of the two constants.\<close>

definition links_in_range :: "hash_t \<Rightarrow> bool" where
  "links_in_range h \<longleftrightarrow>
     (\<forall>c \<in> set (hash_cells h). ovf_link c = HASH_FREE \<or> ovf_link c = HASH_NULL \<or> in_range (ovf_link c) (hash_overflow h)) \<and>
     (\<forall>c \<in> set (hash_overflow h). ovf_next c = HASH_NULL \<or> in_range (ovf_next c) (hash_overflow h)) \<and>
     (ovf_free h = HASH_NULL \<or> in_range (ovf_free h) (hash_overflow h))"

lemma linked_first: "linked os p as \<Longrightarrow> p = HASH_NULL \<or> in_range p os"
  by (cases as) (auto simp: bounds_simps)

lemma linked_all:
  "linked os p as \<Longrightarrow> a \<in> set as \<Longrightarrow> ovf_next (os ! a) = HASH_NULL \<or> in_range (ovf_next (os ! a)) os"
  by (induction os p as rule: linked.induct) (auto dest: linked_first)

lemma well_linked_covers:
  assumes "well_linked h rows fl" and "a < length (hash_overflow h)"
  obtains "a \<in> set fl" | c where "c < length (hash_cells h)" and "a \<in> set (rows ! c)"
proof -
  from assms(1) have len: "length rows = length (hash_cells h)"
    and all: "mset fl + mset (concat rows) = mset [0..<length (hash_overflow h)]" by (simp_all add: well_linked_def mset_concat)
  have "a \<in># mset fl + mset (concat rows)" using assms(2) by (simp only: all) simp
  then have "a \<in> set fl \<or> (\<exists>r \<in> set rows. a \<in> set r)" by auto
  with len that show ?thesis by (metis in_set_conv_nth)
qed

lemma table_links: "table_ok h \<Longrightarrow> links_in_range h"
proof -
  assume "table_ok h"
  then obtain rows fl where ok: "well_linked h rows fl" by (auto simp: table_ok_def)
  then have chains: "chain_ok (hash_overflow h) (hash_cells h ! c) (rows ! c)" if "c < length (hash_cells h)" for c
    using that by (simp add: well_linked_def)
  from ok have free: "linked (hash_overflow h) (ovf_free h) fl" by (simp add: well_linked_def)
  have cells: "ovf_link c = HASH_FREE \<or> ovf_link c = HASH_NULL \<or> in_range (ovf_link c) (hash_overflow h)"
    if "c \<in> set (hash_cells h)" for c
  proof -
    from that obtain i where i: "i < length (hash_cells h)" "c = hash_cells h ! i" by (metis in_set_conv_nth)
    from chains [OF i(1)] i(2) show ?thesis by (auto simp: chain_ok_def split: if_splits dest: linked_first)
  qed
  have "ovf_next (hash_overflow h ! a) = HASH_NULL \<or> in_range (ovf_next (hash_overflow h ! a)) (hash_overflow h)"
    if "a < length (hash_overflow h)" for a
    using ok that
  proof (cases rule: well_linked_covers)
    case 1
    with free show ?thesis by (rule linked_all)
  next
    case (2 c)
    with chains [of c] have "linked (hash_overflow h) (ovf_link (hash_cells h ! c)) (rows ! c)"
      by (auto simp: chain_ok_def split: if_splits)
    from this 2(2) show ?thesis by (rule linked_all)
  qed
  with cells linked_first [OF free] show ?thesis unfolding links_in_range_def by (metis in_set_conv_nth)
qed

lemma requests_bound:
  assumes "table_ok h"
  shows "size (requests h) \<le> length (hash_cells h) + length (hash_overflow h)"
proof -
  from assms obtain rows fl where ok: "well_linked h rows fl" by (auto simp: table_ok_def)
  then have len: "length rows = length (hash_cells h)"
    and all: "mset fl + mset (concat rows) = mset [0..<length (hash_overflow h)]" by (simp_all add: well_linked_def mset_concat)
  have "size (mset (concat rows)) \<le> size (mset [0..<length (hash_overflow h)])" by (simp only: all [symmetric]) simp
  then have total: "sum_list (map length rows) \<le> length (hash_overflow h)" by (simp add: length_concat)
  have each: "length (buckets h ! e) \<le> 1 + length (rows ! e)" if "e < length (hash_cells h)" for e
    using bucket_nth [OF ok that] by (simp add: chain_data_def split: if_splits)
  have "size (requests h) = (\<Sum>e < length (hash_cells h). length (buckets h ! e))"
    by (simp add: requests_concat length_concat sum_list_sum_nth atLeast0LessThan)
  also have "\<dots> \<le> (\<Sum>e < length (hash_cells h). 1 + length (rows ! e))" by (rule sum_mono) (use each in simp)
  also have "\<dots> = length (hash_cells h) + sum_list (map length rows)"
    unfolding sum.distrib by (simp add: sum_list_sum_nth len atLeast0LessThan)
  finally show ?thesis using total by simp
qed

section \<open>Every run ends\<close>

definition same_size :: "hash_t \<Rightarrow> hash_t \<Rightarrow> bool" where
  "same_size h h' \<longleftrightarrow> length (hash_cells h') = length (hash_cells h) \<and> length (hash_overflow h') = length (hash_overflow h)"

lemma table_step_total:
  assumes "table_ok h"
  shows "\<exists>a h'. table_step p h = Inr (a, h') \<and> table_ok h' \<and> same_size h h' \<and>
    (\<forall>d. p = Put d \<longrightarrow> a = Failed True \<longrightarrow> length (hash_overflow h) < size (requests h))"
proof (cases p)
  case (Put d)
  from hash_add_spec [OF assms, of d] obtain c where c: "c < length (hash_cells h)"
    and s: "if buckets h ! c \<noteq> [] \<and> ovf_free h = HASH_NULL then hash_add d h = Inr (True, h)
      else \<exists>h'. hash_add d h = Inr (False, h') \<and> changed h h' c (bucket_add d (buckets h ! c))" by blast
  show ?thesis
  proof (cases "buckets h ! c \<noteq> [] \<and> ovf_free h = HASH_NULL")
    case True
    with s have "hash_add d h = Inr (True, h)" by simp
    with full_table [OF assms _ c] True assms Put show ?thesis by (auto simp: table_step_def same_size_def)
  next
    case False
    with s obtain h' where "hash_add d h = Inr (False, h')" "changed h h' c (bucket_add d (buckets h ! c))" by auto
    with Put show ?thesis by (auto simp: table_step_def same_size_def changed_def)
  qed
next
  case (Look k)
  with search_request [OF assms, of k] assms show ?thesis by (auto simp: table_step_def same_size_def)
next
  case (Take k)
  from hash_remove_spec [OF assms, of k] obtain c where
    s: "if find (\<lambda>d. hash_key d = k) (buckets h ! c) = None then hash_remove k h = Inr (True, h)
      else \<exists>h'. hash_remove k h = Inr (False, h') \<and> changed h h' c (drop_first (\<lambda>d. hash_key d = k) (buckets h ! c))" .
  with Take assms show ?thesis by (cases "find (\<lambda>d. hash_key d = k) (buckets h ! c)")
      (auto simp: table_step_def same_size_def changed_def)
qed

lemma table_run_total:
  "table_ok h \<Longrightarrow> \<exists>as h'. table_run ps h = Inr (as, h') \<and> table_ok h' \<and> same_size h h'"
proof (induction ps arbitrary: h)
  case Nil
  then show ?case by (simp add: same_size_def)
next
  case (Cons p ps)
  from table_step_total [OF Cons.prems, of p] obtain a h1 where
    h1: "table_step p h = Inr (a, h1)" "table_ok h1" "same_size h h1" by blast
  from Cons.IH [OF h1(2)] obtain as h2 where "table_run ps h1 = Inr (as, h2)" "table_ok h2" "same_size h1 h2" by blast
  with h1 show ?case by (auto simp: same_size_def)
qed

lemma table_new_ok:
  assumes "cs \<noteq> []" and "os \<noteq> []"
  obtains h where "table_new cs os = Inr h" and "table_ok h" and "requests h = {#}"
    and "length (hash_cells h) = length cs" and "length (hash_overflow h) = length os"
  using hash_init_ok [of "\<lparr>hash_cells = cs, hash_overflow = os, ovf_free = 0\<rparr>"] assms that by (auto simp: table_new_def)

text \<open>
  C27. Whatever operations a program makes on a new table, in whatever order, none of them follows a
  link outside the overflow cells or goes round a list for ever: the run ends, every link is in
  range, and the table holds at most as many requests as it has cells. An operation that comes then
  also ends, and an insertion is refused only if more requests are pending than there are overflow
  cells.
\<close>

theorem operations_stay_in_table:
  assumes "cs \<noteq> []" and "os \<noteq> []" and "table_new cs os = Inr h0"
  shows "\<exists>as h. table_run ps h0 = Inr (as, h) \<and> links_in_range h \<and>
    size (requests h) \<le> length cs + length os \<and>
    (\<forall>d. \<exists>b h'. hash_add d h = Inr (b, h') \<and> (b \<longrightarrow> length os < size (requests h)))"
proof -
  from table_new_ok [OF assms(1,2)] assms(3) have h0: "table_ok h0" "length (hash_cells h0) = length cs"
    "length (hash_overflow h0) = length os" by auto
  from table_run_total [OF h0(1)] obtain as h where
    h: "table_run ps h0 = Inr (as, h)" "table_ok h" "same_size h0 h" by blast
  have "\<exists>b h'. hash_add d h = Inr (b, h') \<and> (b \<longrightarrow> length os < size (requests h))" for d
    using table_step_total [OF h(2), of "Put d"] h(3) h0(3) by (auto simp: table_step_def same_size_def)
  with h requests_bound [OF h(2)] table_links [OF h(2)] h0 show ?thesis by (simp add: same_size_def)
qed

section \<open>The table is a finite map\<close>

text \<open>
  The same operations on a map. A run of them is \<open>orderly\<close> for a number of overflow cells when
  no request is put that is pending, and one is put only while at most that number is pending.
\<close>

fun map_step :: "table_op \<Rightarrow> (request \<Rightarrow> hash_data_t option) \<Rightarrow> answer \<times> (request \<Rightarrow> hash_data_t option)" where
  "map_step (Put d) m = (Failed False, m(hash_key d \<mapsto> d))"
| "map_step (Look k) m = (Found (m k), m)"
| "map_step (Take k) m = (Failed (m k = None), m(k := None))"

fun map_run :: "table_op list \<Rightarrow> (request \<Rightarrow> hash_data_t option) \<Rightarrow> answer list" where
  "map_run [] m = []"
| "map_run (p # ps) m = fst (map_step p m) # map_run ps (snd (map_step p m))"

definition orderly_step :: "nat \<Rightarrow> table_op \<Rightarrow> request list \<Rightarrow> bool" where
  "orderly_step n p ks = (case p of Put d \<Rightarrow> hash_key d \<notin> set ks \<and> length ks \<le> n | _ \<Rightarrow> True)"

fun pending_keys :: "table_op \<Rightarrow> request list \<Rightarrow> request list" where
  "pending_keys (Put d) ks = hash_key d # ks"
| "pending_keys (Look k) ks = ks"
| "pending_keys (Take k) ks = removeAll k ks"

fun orderly :: "nat \<Rightarrow> table_op list \<Rightarrow> request list \<Rightarrow> bool" where
  "orderly n [] ks = True"
| "orderly n (p # ps) ks \<longleftrightarrow> orderly_step n p ks \<and> orderly n ps (pending_keys p ks)"

lemma map_step_keys: "dom m = set ks \<Longrightarrow> dom (snd (map_step p m)) = set (pending_keys p ks)"
  by (cases p) auto

lemma pending_keys_distinct: "distinct ks \<Longrightarrow> orderly_step n p ks \<Longrightarrow> distinct (pending_keys p ks)"
  by (cases p) (auto simp: orderly_step_def distinct_removeAll)

lemma table_step_refines:
  assumes "pending.holds h m" and "dom m = set ks" and "distinct ks" and "orderly_step (length (hash_overflow h)) p ks"
  shows "\<exists>h'. table_step p h = Inr (fst (map_step p m), h') \<and> pending.holds h' (snd (map_step p m)) \<and>
    length (hash_overflow h') = length (hash_overflow h)"
proof (cases p)
  case (Put d)
  have "card (dom m) \<le> length (hash_overflow h)" "m (hash_key d) = None"
    using assms Put by (auto simp: orderly_step_def distinct_card domIff)
  from pending.holds_add [OF assms(1) this(2) this(1)] Put show ?thesis by (auto simp: table_step_def)
next
  case (Look k)
  with pending.holds_search [OF assms(1), of k] assms(1) show ?thesis by (simp add: table_step_def)
next
  case (Take k)
  from pending.holds_remove [OF assms(1), of k] obtain h' where "hash_remove k h = Inr (m k = None, h')"
    "pending.holds h' (m(k := None))" "length (hash_overflow h') = length (hash_overflow h)" by blast
  with Take show ?thesis by (simp add: table_step_def)
qed

lemma table_run_refines:
  "pending.holds h m \<Longrightarrow> dom m = set ks \<Longrightarrow> distinct ks \<Longrightarrow> orderly (length (hash_overflow h)) ps ks \<Longrightarrow>
    \<exists>h'. table_run ps h = Inr (map_run ps m, h')"
proof (induction ps arbitrary: h m ks)
  case (Cons p ps)
  from Cons.prems(4) have o: "orderly_step (length (hash_overflow h)) p ks"
    "orderly (length (hash_overflow h)) ps (pending_keys p ks)" by simp_all
  from table_step_refines [OF Cons.prems(1-3) o(1)] obtain h1 where
    h1: "table_step p h = Inr (fst (map_step p m), h1)" "pending.holds h1 (snd (map_step p m))"
    "length (hash_overflow h1) = length (hash_overflow h)" by blast
  from Cons.IH [OF h1(2) map_step_keys [OF Cons.prems(2)] pending_keys_distinct [OF Cons.prems(3) o(1)]] o(2) h1(1,3)
  show ?case by auto
qed simp

text \<open>
  C5. As long as a program does not put a request that is pending, and puts one only while at most
  as many are pending as there are overflow cells, a new table answers every operation as a finite
  map from requests to their data does, whatever requests share a cell.
\<close>

theorem table_is_finite_map:
  assumes "cs \<noteq> []" and "os \<noteq> []" and "table_new cs os = Inr h0" and "orderly (length os) ps []"
  shows "\<exists>h. table_run ps h0 = Inr (map_run ps (\<lambda>_. None), h)"
proof -
  from table_new_ok [OF assms(1,2)] assms(3) have h0: "table_ok h0" "requests h0 = {#}" "length (hash_overflow h0) = length os" by auto
  from pending.holds_empty [OF h0(1,2)] have "pending.holds h0 (\<lambda>_. None)" .
  from table_run_refines [OF this, of "[]" ps] assms(4) h0(3) show ?thesis by simp
qed

section \<open>Witnesses\<close>

definition some_data :: "nat \<Rightarrow> hash_data_t" where
  "some_data k = \<lparr>hash_key = of_nat k, hash_group = 0, hash_commid = 0, hash_partner = 1, hash_tag = 2, hash_size = 3\<rparr>"

definition some_cells :: "hash_tbl_t list" where
  "some_cells = replicate 5 \<lparr>ovf_link = 0, tbl_data = some_data 0\<rparr>"

definition some_overflow :: "hash_ovf_t list" where
  "some_overflow = replicate 2 \<lparr>ovf_next = 0, ovf_data = some_data 0\<rparr>"

text \<open>Three requests in one cell, a fourth that is refused, and the removal of the one in the middle.\<close>

definition some_ops :: "table_op list" where
  "some_ops = [Put (some_data 3), Put (some_data 8), Put (some_data 13), Put (some_data 18), Take 8, Look 13, Look 8]"

definition some_table :: hash_t where
  "some_table = \<lparr>hash_cells = replicate 5 \<lparr>ovf_link = HASH_FREE, tbl_data = some_data 0\<rparr>,
     hash_overflow = [\<lparr>ovf_next = 1, ovf_data = some_data 0\<rparr>, \<lparr>ovf_next = HASH_NULL, ovf_data = some_data 0\<rparr>], ovf_free = 0\<rparr>"

lemma some_table_new: "table_new some_cells some_overflow = Inr some_table"
  by code_simp

theorem operations_stay_in_table_witness:
  "\<exists>as h. table_run some_ops some_table = Inr (as, h) \<and> links_in_range h \<and> size (requests h) \<le> 7"
  using operations_stay_in_table [OF _ _ some_table_new, of some_ops]
  by (auto simp: some_cells_def some_overflow_def)

lemma some_answers:
  "table_run some_ops some_table = Inr (fst (projr (table_run some_ops some_table)), snd (projr (table_run some_ops some_table)))
    \<and> fst (projr (table_run some_ops some_table)) =
      [Failed False, Failed False, Failed False, Failed True, Failed False, Found (Some (some_data 13)), Found None]"
  by code_simp

theorem table_is_finite_map_witness:
  "\<exists>h. table_run [Put (some_data 3), Put (some_data 8), Take 3, Put (some_data 13), Look 8, Take 3] some_table =
     Inr ([Failed False, Failed False, Failed False, Failed False, Found (Some (some_data 8)), Failed True], h)"
  using table_is_finite_map [OF _ _ some_table_new,
      of "[Put (some_data 3), Put (some_data 8), Take 3, Put (some_data 13), Look 8, Take 3]"]
  by (simp add: some_cells_def some_overflow_def some_data_def orderly_step_def)

end
