(* ===== verification/MpiP2pProps.thy ===== *)
theory MpiP2pProps
  imports MpiP2p HashTableProps
begin

text \<open>
  What the traced events of the point-to-point wrappers say of the receives of a program: which are
  reported as received, with which sender, size and tag, and that none is reported twice.
\<close>

section \<open>Circumstances\<close>

text \<open>
  The program is traced, the local queries of the MPI library succeed, and every rank in a status is
  one of the program. Then no wrapper ends the program.
\<close>

definition tracing :: "mpi_options \<Rightarrow> bool" where
  "tracing opts \<longleftrightarrow> tracejant opts \<and> tracejant_mpi opts \<and> TracingBitmap_TASKID opts"

definition known_rank :: "mpi_lib \<Rightarrow> mpi_options \<Rightarrow> INT32 \<Rightarrow> bool" where
  "known_rank lib opts r \<longleftrightarrow> r = MPI_PROC_NULL lib \<or> r = MPI_ANY_SOURCE lib \<or> r = MPI_UNDEFINED lib \<or>
     in_range (sint r) (TracingBitmap opts)"

definition known_size :: "mpi_lib \<Rightarrow> INT32 \<Rightarrow> MPI_Datatype \<Rightarrow> bool" where
  "known_size lib cnt datatype \<longleftrightarrow> cnt = 0 \<or> PMPI_Type_size lib datatype \<noteq> None"

definition known_comm :: "mpi_lib \<Rightarrow> MPI_Comm \<Rightarrow> bool" where
  "known_comm lib comm \<longleftrightarrow> comm = MPI_COMM_WORLD lib \<or>
     (PMPI_Comm_test_inter lib comm \<noteq> None \<and> PMPI_Comm_group lib comm \<noteq> None \<and> PMPI_Comm_remote_group lib comm \<noteq> None)"

definition lib_ok :: "mpi_lib \<Rightarrow> mpi_options \<Rightarrow> bool" where
  "lib_ok lib opts \<longleftrightarrow> known_rank lib opts (- 1) \<and> ParentWorldRanks lib = None \<and>
     (\<forall>g. PMPI_Group_free lib g \<noteq> None) \<and>
     (\<forall>g r. \<exists>q. PMPI_Group_translate_ranks lib g r = Some q \<and> known_rank lib opts q)"

definition status_ok :: "mpi_lib \<Rightarrow> mpi_options \<Rightarrow> mpi_status \<Rightarrow> bool" where
  "status_ok lib opts s \<longleftrightarrow> PMPI_Get_count s (MPI_BYTE lib) \<noteq> None \<and> known_rank lib opts (MPI_SOURCE s)"

definition stats_ok :: "mpi_state \<Rightarrow> bool" where
  "stats_ok st \<longleftrightarrow> (case mpi_stats st of None \<Rightarrow> False
     | Some s \<Rightarrow> nat (sint (ntasks s)) \<le> length (P2P_Partner_In s) \<and> nat (sint (ntasks s)) \<le> length (P2P_Partner_Out s))"

section \<open>The reports in a trace\<close>

datatype receipt = Receipt request INT32 INT32 "(INT32 \<times> INT32) option"

definition receipt_of :: "event_t \<Rightarrow> receipt" where
  "receipt_of e = Receipt (param_aux (ev_param e)) (param_tag (ev_param e)) (param_comm (ev_param e))
     (if ev_value e = 0 then Some (param_target (ev_param e), param_size (ev_param e)) else None)"

definition receipts :: "event_t list \<Rightarrow> receipt list" where
  "receipts evs = map receipt_of (filter (\<lambda>e. ev_event e = MPI_IRECVED_EV) evs)"

lemma receipts_simps [simp]: "receipts [] = []" "receipts (xs @ ys) = receipts xs @ receipts ys"
  by (simp_all add: receipts_def)

lemma receipts_TRACE_EVENT [simp]: "t \<noteq> MPI_IRECVED_EV \<Longrightarrow> receipts (TRACE_EVENT opts time t v) = []"
  by (simp add: TRACE_EVENT_def counted_event_def receipts_def)

definition sender :: "mpi_lib \<Rightarrow> hash_data_t \<Rightarrow> mpi_status \<Rightarrow> INT32" where
  "sender lib d s = (if hash_group d = MPI_GROUP_NULL lib then MPI_SOURCE s
     else the (PMPI_Group_translate_ranks lib (hash_group d) (MPI_SOURCE s)))"

definition received_bytes :: "mpi_lib \<Rightarrow> mpi_status \<Rightarrow> INT32" where
  "received_bytes lib s =
     (let n = the (PMPI_Get_count s (MPI_BYTE lib)) in if n = MPI_UNDEFINED lib then 0 else n)"

text \<open>The report of a receive: what was asked for, and who sent how much unless it was cancelled.\<close>

definition report :: "mpi_lib \<Rightarrow> hash_data_t \<Rightarrow> mpi_status \<Rightarrow> receipt" where
  "report lib d s = Receipt (hash_key d) (hash_tag d) (ucast (hash_commid d))
     (if PMPI_Test_cancelled s then None else Some (sender lib d s, received_bytes lib s))"

text \<open>Completed requests are reported if they are receives that are pending, which they then are no more.\<close>

type_synonym pending_map = "request \<Rightarrow> hash_data_t option"

fun finish :: "mpi_lib \<Rightarrow> (request \<times> mpi_status) list \<Rightarrow> pending_map \<Rightarrow> receipt list \<times> pending_map" where
  "finish lib [] m = ([], m)"
| "finish lib ((r, s) # rs) m =
     (let (later, m') = finish lib rs (m(r := None)) in
      (case m r of None \<Rightarrow> later | Some d \<Rightarrow> report lib d s # later, m'))"

section \<open>Steps\<close>

definition reports :: "mpi_state \<Rightarrow> receipt list \<Rightarrow> pending_map \<Rightarrow> mpi_state \<Rightarrow> bool" where
  "reports st evs m st' \<longleftrightarrow> pending.holds (recv_requests st') m \<and> stats_ok st' \<and>
     receipts (traced st') = receipts (traced st) @ evs \<and>
     length (hash_overflow (recv_requests st')) = length (hash_overflow (recv_requests st))"

definition quiet :: "mpi_state \<Rightarrow> mpi_state \<Rightarrow> bool" where
  "quiet st st' \<longleftrightarrow> recv_requests st' = recv_requests st \<and> stats_ok st' \<and> receipts (traced st') = receipts (traced st)"

lemma reports_quiet: "reports st evs m st1 \<Longrightarrow> quiet st1 st2 \<Longrightarrow> reports st evs m st2"
  by (simp add: reports_def quiet_def)

lemma quiet_reports: "quiet st st1 \<Longrightarrow> reports st1 evs m st2 \<Longrightarrow> reports st evs m st2"
  by (simp add: reports_def quiet_def)

lemma reports_trans: "reports st evs m st1 \<Longrightarrow> reports st1 evs' m' st2 \<Longrightarrow> reports st (evs @ evs') m' st2"
  by (simp add: reports_def)

lemma quiet_trans: "quiet st st1 \<Longrightarrow> quiet st1 st2 \<Longrightarrow> quiet st st2"
  by (simp add: quiet_def)

lemma reports_none: "pending.holds (recv_requests st) m \<Longrightarrow> quiet st st' \<Longrightarrow> reports st [] m st'"
  by (simp add: reports_def quiet_def)

lemma valid_target: "TRACING_BITMAP_VALID_EVTARGET lib (scast r) \<longleftrightarrow>
    r \<noteq> MPI_ANY_SOURCE lib \<and> r \<noteq> MPI_PROC_NULL lib \<and> r \<noteq> MPI_UNDEFINED lib"
proof -
  have "(scast r :: 64 word) = scast q \<longleftrightarrow> r = q" for q :: INT32
  proof
    assume "(scast r :: 64 word) = scast q"
    then have "sint (scast r :: 64 word) = sint (scast q :: 64 word)" by simp
    then have "sint r = sint q" by (simp add: sint_up_scast is_up)
    then show "r = q" by (rule signed_word_eqI)
  qed simp
  then show ?thesis by (simp add: TRACING_BITMAP_VALID_EVTARGET_def)
qed

lemma traceja_event_other: "\<not> TRACING_BITMAP_VALID_EVTYPE t \<Longrightarrow> traceja_event lib opts t target = Inr (TracingBitmap_TASKID opts)"
  by (simp add: traceja_event_def)

lemma traceja_event_known:
  assumes "known_rank lib opts r"
  shows "\<exists>b. traceja_event lib opts t (scast r) = Inr b \<and> (TracingBitmap_TASKID opts \<longrightarrow> b)"
proof (cases "TRACING_BITMAP_VALID_EVTYPE t \<and> TRACING_BITMAP_VALID_EVTARGET lib (scast r)")
  case True
  have "sint (scast r :: 64 word) = sint r" by (simp add: sint_up_scast is_up)
  moreover have "in_range (sint r) (TracingBitmap opts)" using True assms by (simp add: valid_target known_rank_def)
  ultimately show ?thesis using True by (simp add: traceja_event_def array_get_def)
next
  case False
  then have "traceja_event lib opts t (scast r) = Inr (TracingBitmap_TASKID opts)" by (simp only: traceja_event_def if_False)
  then show ?thesis by simp
qed

lemma elapsed_ok: "stats_ok st \<Longrightarrow> \<exists>s. mpi_stats_update_elapsed_time t d (mpi_stats st) = Inr (Some s) \<and>
    (\<forall>st'. mpi_stats st' = Some s \<longrightarrow> stats_ok st')"
  by (auto simp: stats_ok_def mpi_stats_update_elapsed_time_def Let_def split: option.splits)

lemma insert_event_simps [simp]:
  "recv_requests (insert_event evs st) = recv_requests st" "mpi_stats (insert_event evs st) = mpi_stats st"
  "traced (insert_event evs st) = traced st @ evs" "PR_queue (insert_event evs st) = PR_queue st"
  by (simp_all add: insert_event_def)

lemma mpi_event_not_received: "t \<noteq> MPI_IRECVED_EV \<Longrightarrow> receipts [mpi_event opts time t v target sz tag comm aux] = []"
  by (simp add: mpi_event_def receipts_def)

text \<open>An event of another type is traced, or not, and reports nothing.\<close>

lemma trace_quiet:
  assumes "tracing opts" and "stats_ok st" and "t \<noteq> MPI_IRECVED_EV" and "v = 0 \<or> v = 1"
    and "traceja_event lib opts t target = Inr b"
  shows "\<exists>st'. TRACE_MPIEVENT lib opts time t v target sz tag comm aux st = Inr st' \<and> quiet st st'"
proof -
  let ?st = "if b then insert_event [mpi_event opts time t v target sz tag comm aux] st else st"
  have n: "NORMAL_MODE_TRACE_MPIEVENT lib opts time t v target sz tag comm aux st = Inr ?st"
    using assms by (simp add: NORMAL_MODE_TRACE_MPIEVENT_def tracing_def)
  have q: "quiet st ?st" using assms(2,3) by (simp add: quiet_def mpi_event_not_received stats_ok_def)
  then have ok: "stats_ok ?st" by (simp add: quiet_def)
  show ?thesis
  proof (cases "v = 0")
    case False
    then show ?thesis using n q assms by (auto simp: TRACE_MPIEVENT_def tracing_def quiet_def stats_ok_def)
  next
    case True
    from elapsed_ok [OF ok, of t "time - last_mpi_begin_time ?st"] obtain s where
      s: "mpi_stats_update_elapsed_time t (time - last_mpi_begin_time ?st) (mpi_stats ?st) = Inr (Some s)"
      "\<And>st'. mpi_stats st' = Some s \<Longrightarrow> stats_ok st'" by blast
    with n q assms(1) True show ?thesis by (auto simp: TRACE_MPIEVENT_def tracing_def quiet_def)
  qed
qed

lemma trace_other:
  "tracing opts \<Longrightarrow> stats_ok st \<Longrightarrow> \<not> TRACING_BITMAP_VALID_EVTYPE t \<Longrightarrow> v = 0 \<or> v = 1 \<Longrightarrow>
    \<exists>st'. TRACE_MPIEVENT lib opts time t v target sz tag comm aux st = Inr st' \<and> quiet st st'"
  by (rule trace_quiet [OF _ _ _ _ traceja_event_other]) (auto simp: TRACING_BITMAP_VALID_EVTYPE_def)

lemma trace_appended:
  assumes "tracing opts" and "stats_ok st" and "v = 0 \<or> v = 1" and "traceja_event lib opts t target = Inr True"
  shows "\<exists>st'. TRACE_MPIEVENT lib opts time t v target sz tag comm aux st = Inr st' \<and> stats_ok st' \<and>
    traced st' = traced st @ [mpi_event opts time t v target sz tag comm aux]"
proof -
  let ?st = "insert_event [mpi_event opts time t v target sz tag comm aux] st"
  have n: "NORMAL_MODE_TRACE_MPIEVENT lib opts time t v target sz tag comm aux st = Inr ?st"
    using assms by (simp add: NORMAL_MODE_TRACE_MPIEVENT_def tracing_def)
  have ok: "stats_ok ?st" using assms(2) by (simp add: stats_ok_def)
  show ?thesis
  proof (cases "v = 0")
    case False
    then show ?thesis using n ok assms(1,3) by (auto simp: TRACE_MPIEVENT_def tracing_def stats_ok_def)
  next
    case True
    from elapsed_ok [OF ok, of t "time - last_mpi_begin_time ?st"] obtain s where
      "mpi_stats_update_elapsed_time t (time - last_mpi_begin_time ?st) (mpi_stats ?st) = Inr (Some s)"
      "\<And>st'. mpi_stats st' = Some s \<Longrightarrow> stats_ok st'" by blast
    with n assms(1) True show ?thesis by (auto simp: TRACE_MPIEVENT_def tracing_def)
  qed
qed

section \<open>Completed requests\<close>

lemma count_partner_ok:
  assumes "known_rank lib opts r" and "nat (sint (ntasks s)) \<le> length counts"
  shows "\<exists>counts'. count_partner lib s r counts = Inr counts' \<and> length counts' = length counts"
proof (cases "r \<noteq> MPI_PROC_NULL lib \<and> r \<noteq> MPI_ANY_SOURCE lib \<and> r \<noteq> MPI_UNDEFINED lib \<and> r <s ntasks s")
  case True
  then have "0 \<le> sint r" "sint r < sint (ntasks s)" using assms(1) by (auto simp: known_rank_def in_range_def word_sless_alt)
  then have "in_range (sint r) counts" using assms(2) by (simp add: in_range_def nat_less_iff)
  with True show ?thesis by (simp add: count_partner_def array_get_def array_set_def)
qed (auto simp: count_partner_def)

definition partners_ok :: "mpi_stats_t \<Rightarrow> bool" where
  "partners_ok s \<longleftrightarrow> nat (sint (ntasks s)) \<le> length (P2P_Partner_In s) \<and> nat (sint (ntasks s)) \<le> length (P2P_Partner_Out s)"

lemma stats_ok_alt: "stats_ok st \<longleftrightarrow> (\<exists>s. mpi_stats st = Some s \<and> partners_ok s)"
  by (auto simp: stats_ok_def partners_ok_def split: option.splits)

lemma count_input_ok: "partners_ok s \<Longrightarrow> known_rank lib opts r \<Longrightarrow> \<exists>s'. count_input lib r a s = Inr s' \<and> partners_ok s'"
  using count_partner_ok [of lib opts r s "P2P_Partner_In s"] by (auto simp: count_input_def partners_ok_def)

lemma count_output_ok: "partners_ok s \<Longrightarrow> known_rank lib opts r \<Longrightarrow> \<exists>s'. count_output lib r a s = Inr s' \<and> partners_ok s'"
  using count_partner_ok [of lib opts r s "P2P_Partner_Out s"] by (auto simp: count_output_def partners_ok_def)

lemma stats_quiet:
  assumes "stats_ok st" and "known_rank lib opts r"
  shows "\<exists>st'. with_stats (updateStats_P2P lib r a b) st = Inr st' \<and> quiet st st'"
proof -
  from assms(1) obtain s where s: "mpi_stats st = Some s" "partners_ok s" by (auto simp: stats_ok_alt)
  then have "partners_ok (s\<lparr>P2P_Communications := P2P_Communications s + 1\<rparr>)" by (simp add: partners_ok_def)
  from count_input_ok [OF this assms(2), of a] obtain s1 where
    s1: "count_input lib r a (s\<lparr>P2P_Communications := P2P_Communications s + 1\<rparr>) = Inr s1" "partners_ok s1" by blast
  from count_output_ok [OF s1(2) assms(2), of b] obtain s2 where "count_output lib r b s1 = Inr s2" "partners_ok s2" by blast
  with s s1 show ?thesis by (simp add: with_stats_def updateStats_P2P_def quiet_def stats_ok_alt)
qed

lemma Irank_ok:
  assumes "lib_ok lib opts" and "status_ok lib opts s"
  shows "get_Irank_obj_C lib d s = Inr (sender lib d s, received_bytes lib s, MPI_TAG s) \<and> known_rank lib opts (sender lib d s)"
proof -
  obtain q where "PMPI_Group_translate_ranks lib (hash_group d) (MPI_SOURCE s) = Some q" "known_rank lib opts q"
    using assms(1) unfolding lib_ok_def by blast
  with assms(2) show ?thesis
    by (auto simp: get_Irank_obj_C_def sender_def received_bytes_def status_ok_def Let_def)
qed

lemma received_event:
  assumes "tracing opts" and "known_rank lib opts r"
  shows "\<exists>st'. TRACE_MPIEVENT_NOHWC lib opts time MPI_IRECVED_EV v (scast r) sz tag comm aux st = Inr st' \<and>
    recv_requests st' = recv_requests st \<and> mpi_stats st' = mpi_stats st \<and>
    receipts (traced st') = receipts (traced st) @ [Receipt aux tag (ucast comm) (if v = 0 then Some (r, sz) else None)]"
proof -
  obtain b where "traceja_event lib opts MPI_IRECVED_EV (scast r) = Inr b" b using traceja_event_known [OF assms(2)] assms(1)
    unfolding tracing_def by blast
  moreover have "ucast (scast r :: 64 word) = r" by (rule bit_word_eqI) (simp add: bit_simps)
  ultimately show ?thesis using assms(1)
    by (simp add: TRACE_MPIEVENT_NOHWC_def tracing_def mpi_event_def receipts_def receipt_of_def)
qed

text \<open>The variables for the sender and the size when a request has been looked at.\<close>

definition loc_after :: "mpi_lib \<Rightarrow> hash_data_t \<Rightarrow> mpi_status \<Rightarrow> source_size \<Rightarrow> source_size" where
  "loc_after lib d s loc = (if PMPI_Test_cancelled s then loc else (sender lib d s, received_bytes lib s))"

lemma completed_ok:
  assumes "tracing opts" and "lib_ok lib opts" and "status_ok lib opts s" and "stats_ok st" and "known_rank lib opts (fst loc)"
    and "pending.holds (recv_requests st) m" and "hash_key d = r"
  shows "\<exists>loc' st'. completed lib opts b time d s loc st = Inr (loc', st') \<and> known_rank lib opts (fst loc') \<and>
    reports st [report lib d s] (m(r := None)) st'"
proof -
  let ?loc = "loc_after lib d s loc"
  have loc: "known_rank lib opts (fst ?loc)" using assms(5) Irank_ok [OF assms(2,3)] by (simp add: loc_after_def)
  obtain u where u: "PMPI_Group_free lib (hash_group d) = Some u" using assms(2) unfolding lib_ok_def by fastforce
  obtain st1 where st1: "(if b then with_stats (updateStats_P2P lib (sender lib d s) (received_bytes lib s) 0) st else Inr st) = Inr st1"
    "quiet st st1"
    using stats_quiet [OF assms(4), of lib opts "sender lib d s"] Irank_ok [OF assms(2,3), of d] assms(4)
    by (cases b) (auto simp: quiet_def)
  let ?st1 = "if PMPI_Test_cancelled s then st else st1"
  have q: "quiet st ?st1" using st1(2) assms(4) by (simp add: quiet_def)
  let ?v = "if PMPI_Test_cancelled s then 1 else (0 :: UINT64)"
  obtain st2 where st2: "TRACE_MPIEVENT_NOHWC lib opts time MPI_IRECVED_EV ?v (scast (fst ?loc)) (snd ?loc)
      (hash_tag d) (hash_commid d) (hash_key d) ?st1 = Inr st2" "recv_requests st2 = recv_requests ?st1" "mpi_stats st2 = mpi_stats ?st1"
    "receipts (traced st2) = receipts (traced ?st1) @ [Receipt (hash_key d) (hash_tag d) (ucast (hash_commid d)) (if ?v = 0 then Some ?loc else None)]"
    using received_event [OF assms(1) loc, of time ?v "snd ?loc" "hash_tag d" "hash_commid d" "hash_key d" ?st1] by auto
  have "pending.holds (recv_requests st2) m" using assms(6) q st2(2) by (simp add: quiet_def)
  from pending.holds_remove [OF this, of r] obtain h where h: "hash_remove r (recv_requests st2) = Inr (m r = None, h)"
    "pending.holds h (m(r := None))" "length (hash_overflow h) = length (hash_overflow (recv_requests st2))" by blast
  have "completed lib opts b time d s loc st = Inr (?loc, st2\<lparr>recv_requests := h\<rparr>)"
  proof (cases "PMPI_Test_cancelled s")
    case True
    with st2(1) h(1) assms(7) show ?thesis by (cases loc) (simp add: completed_def loc_after_def)
  next
    case False
    with st2(1) h(1) st1(1) assms(7) u Irank_ok [OF assms(2,3), of d] show ?thesis by (simp add: completed_def loc_after_def)
  qed
  moreover have "reports st [report lib d s] (m(r := None)) (st2\<lparr>recv_requests := h\<rparr>)"
    using h q st2 by (auto simp: reports_def quiet_def stats_ok_def report_def loc_after_def split: if_splits)
  ultimately show ?thesis using loc by blast
qed

lemma complete_one_ok:
  assumes "tracing opts" and "lib_ok lib opts" and "status_ok lib opts s" and "stats_ok st" and "known_rank lib opts (fst loc)"
    and "pending.holds (recv_requests st) m"
  shows "\<exists>loc' st'. complete_one lib opts time r s loc st = Inr (loc', st') \<and> known_rank lib opts (fst loc') \<and>
    reports st (fst (finish lib [(r, s)] m)) (m(r := None)) st'"
proof (cases "m r")
  case None
  then have "m(r := None) = m" by auto
  with None show ?thesis using pending.holds_search [OF assms(6), of r] assms(4,5,6)
    by (simp add: complete_one_def reports_def)
next
  case (Some d)
  then have "hash_key d = r" using assms(6) by (auto simp: pending.holds_def)
  from completed_ok [OF assms this, of True time] Some pending.holds_search [OF assms(6), of r] show ?thesis
    by (simp add: complete_one_def)
qed

lemma finish_Cons: "finish lib (x # rs) m =
   (fst (finish lib [x] m) @ fst (finish lib rs (m(fst x := None))), snd (finish lib rs (m(fst x := None))))"
  by (cases x) (simp split: option.splits prod.splits)

lemma complete_all_ok:
  "tracing opts \<Longrightarrow> lib_ok lib opts \<Longrightarrow> (\<forall>(r, s) \<in> set rs. status_ok lib opts s) \<Longrightarrow> stats_ok st \<Longrightarrow>
   known_rank lib opts (fst loc) \<Longrightarrow> pending.holds (recv_requests st) m \<Longrightarrow>
   \<exists>st'. complete_all lib opts time rs loc st = Inr st' \<and> reports st (fst (finish lib rs m)) (snd (finish lib rs m)) st'"
proof (induction rs arbitrary: loc st m)
  case Nil
  then show ?case by (simp add: reports_def)
next
  case (Cons x rs)
  obtain r s where x: "x = (r, s)" by (cases x)
  with Cons.prems have "status_ok lib opts s" by simp
  from complete_one_ok [OF Cons.prems(1,2) this Cons.prems(4,5,6), of time r] obtain loc1 st1 where
    st1: "complete_one lib opts time r s loc st = Inr (loc1, st1)" "known_rank lib opts (fst loc1)"
    "reports st (fst (finish lib [(r, s)] m)) (m(r := None)) st1" by blast
  then have ok: "stats_ok st1" "pending.holds (recv_requests st1) (m(r := None))" by (simp_all add: reports_def)
  from Cons.prems(3) have "\<forall>(r, s) \<in> set rs. status_ok lib opts s" by simp
  from Cons.IH [OF Cons.prems(1,2) this ok(1) st1(2) ok(2)] obtain st2 where
    "complete_all lib opts time rs loc1 st1 = Inr st2"
    and "reports st1 (fst (finish lib rs (m(r := None)))) (snd (finish lib rs (m(r := None)))) st2" by blast
  with st1 have "reports st (fst (finish lib [x] m) @ fst (finish lib rs (m(fst x := None)))) (snd (finish lib rs (m(fst x := None)))) st2"
    unfolding x fst_conv by (blast intro: reports_trans)
  then have "reports st (fst (finish lib (x # rs) m)) (snd (finish lib (x # rs) m)) st2"
    by (simp only: finish_Cons [of lib x rs] fst_conv snd_conv)
  moreover have "complete_all lib opts time (x # rs) loc st = Inr st2"
    using st1(1) \<open>complete_all lib opts time rs loc1 st1 = Inr st2\<close> by (simp add: x)
  ultimately show ?case by blast
qed

section \<open>Wrappers\<close>

lemma rank_ok:
  assumes "lib_ok lib opts" and "known_comm lib comm" and "known_rank lib opts r"
  shows "\<exists>q. get_rank_obj_C lib comm r = Inr q \<and> known_rank lib opts q"
proof -
  obtain u where u: "PMPI_Group_free lib g = Some u" for g using assms(1) unfolding lib_ok_def by fastforce
  have "\<forall>g. \<exists>q. PMPI_Group_translate_ranks lib g r = Some q \<and> known_rank lib opts q" using assms(1) unfolding lib_ok_def by blast
  then obtain q where q: "PMPI_Group_translate_ranks lib g r = Some (q g)" "known_rank lib opts (q g)" for g by metis
  have "ParentWorldRanks lib = None" using assms(1) by (simp add: lib_ok_def)
  with assms(2,3) u q show ?thesis by (auto simp: get_rank_obj_C_def known_comm_def world_rank_of_parent_def)
qed

lemma group_ok: "known_comm lib comm \<Longrightarrow> \<exists>g. request_group lib comm = Inr g"
  by (auto simp: known_comm_def request_group_def)

lemma type_size_ok: "known_size lib cnt datatype \<Longrightarrow> \<exists>z. type_size lib True cnt datatype = Inr (Some z)"
  by (auto simp: known_size_def type_size_def)

lemma send_ok:
  assumes "tracing opts" and "lib_ok lib opts" and "stats_ok st" and "ev \<noteq> MPI_IRECVED_EV"
    and "known_size lib cnt datatype" and "known_comm lib comm" and "known_rank lib opts dest"
  shows "\<exists>st'. send_wrapper ev True lib opts t0 t1 cnt datatype dest tag comm ret st = Inr (ret, st') \<and> quiet st st'"
proof -
  from type_size_ok [OF assms(5)] obtain z where z: "type_size lib True cnt datatype = Inr (Some z)" ..
  from rank_ok [OF assms(2,6,7)] obtain q where q: "get_rank_obj_C lib comm dest = Inr q" "known_rank lib opts q" by blast
  obtain b where b: "traceja_event lib opts ev (scast q) = Inr b" using traceja_event_known [OF q(2)] by blast
  from trace_quiet [OF assms(1,3,4) _ b, of 1] obtain st1 where
    st1: "TRACE_MPIEVENT lib opts t0 ev 1 (scast q) (z * cnt) tag comm 0 st = Inr st1" "quiet st st1" by blast
  then have "stats_ok st1" by (simp add: quiet_def)
  from trace_quiet [OF assms(1) this assms(4) _ b, of 0] obtain st2 where
    st2: "TRACE_MPIEVENT lib opts t1 ev 0 (scast q) (z * cnt) tag comm 0 st1 = Inr st2" "quiet st1 st2" by blast
  then have "stats_ok st2" by (simp add: quiet_def)
  from stats_quiet [OF this q(2), of 0 "z * cnt"] obtain st3 where
    "with_stats (updateStats_P2P lib q 0 (z * cnt)) st2 = Inr st3" "quiet st2 st3" by blast
  with z q st1 st2 show ?thesis by (auto simp: send_wrapper_def read_local_def intro: quiet_trans)
qed

text \<open>What a receive is remembered as.\<close>

definition posted :: "mpi_lib \<Rightarrow> INT32 \<Rightarrow> MPI_Datatype \<Rightarrow> INT32 \<Rightarrow> INT32 \<Rightarrow> MPI_Comm \<Rightarrow> request \<Rightarrow> hash_data_t" where
  "posted lib cnt datatype source tag comm req =
     \<lparr>hash_key = req, hash_group = projr (request_group lib comm), hash_commid = comm, hash_partner = source, hash_tag = tag,
      hash_size = cnt * the (projr (type_size lib True cnt datatype))\<rparr>"

lemma Irecv_ok:
  assumes "tracing opts" and "lib_ok lib opts" and "stats_ok st" and "pending.holds (recv_requests st) m"
    and "known_size lib cnt datatype" and "known_comm lib comm" and "known_rank lib opts source"
    and "m req = None" and "card (dom m) \<le> length (hash_overflow (recv_requests st))"
  shows "\<exists>st'. MPI_Irecv_C_Wrapper lib opts t0 t1 cnt datatype source tag comm (e, req) st = Inr (e, st') \<and>
    reports st [] (m(req \<mapsto> posted lib cnt datatype source tag comm req)) st'"
proof -
  let ?d = "posted lib cnt datatype source tag comm req"
  from type_size_ok [OF assms(5)] obtain z where z: "type_size lib True cnt datatype = Inr (Some z)" ..
  from rank_ok [OF assms(2,6,7)] obtain q where q: "get_rank_obj_C lib comm source = Inr q" by blast
  from group_ok [OF assms(6)] obtain g where g: "request_group lib comm = Inr g" ..
  have ev: "\<not> TRACING_BITMAP_VALID_EVTYPE MPI_IRECV_EV" by (simp add: TRACING_BITMAP_VALID_EVTYPE_def)
  from trace_other [OF assms(1,3) ev, of 1] obtain st1 where
    st1: "TRACE_MPIEVENT lib opts t0 MPI_IRECV_EV 1 (scast q) (cnt * z) tag comm 0 st = Inr st1" "quiet st st1" by blast
  have key: "hash_key ?d = req" by (simp add: posted_def)
  have "pending.holds (recv_requests st1) m" "card (dom m) \<le> length (hash_overflow (recv_requests st1))"
    using assms(4,9) st1(2) by (simp_all add: quiet_def)
  from pending.holds_add [OF this(1) _ this(2), of ?d] assms(8) key obtain h where
    h: "hash_add ?d (recv_requests st1) = Inr (False, h)" "pending.holds h (m(req \<mapsto> ?d))"
    "length (hash_overflow h) = length (hash_overflow (recv_requests st1))" by auto
  have "stats_ok (st1\<lparr>recv_requests := h\<rparr>)" using st1(2) by (simp add: quiet_def stats_ok_alt)
  from trace_other [OF assms(1) this ev, of 0] obtain st2 where
    st2: "TRACE_MPIEVENT lib opts t1 MPI_IRECV_EV 0 (scast q) (cnt * z) tag comm req (st1\<lparr>recv_requests := h\<rparr>) = Inr st2"
    "quiet (st1\<lparr>recv_requests := h\<rparr>) st2" by blast
  have "?d = \<lparr>hash_key = req, hash_group = g, hash_commid = comm, hash_partner = source, hash_tag = tag, hash_size = cnt * z\<rparr>"
    using g z by (simp add: posted_def)
  with z q g st1 st2 h have "MPI_Irecv_C_Wrapper lib opts t0 t1 cnt datatype source tag comm (e, req) st = Inr (e, st2)"
    by (simp add: MPI_Irecv_C_Wrapper_def read_local_def remember_receive_def)
  moreover have "reports st [] (m(req \<mapsto> ?d)) st2" using st1(2) st2(2) h by (simp add: reports_def quiet_def)
  ultimately show ?thesis by blast
qed

lemma no_source_known: "lib_ok lib opts \<Longrightarrow> known_rank lib opts (fst no_source)"
  by (simp add: lib_ok_def no_source_def)

text \<open>A wait: the event of its begin, the completed requests, the event of its end.\<close>

lemma wait_ok:
  assumes "tracing opts" and "lib_ok lib opts" and "stats_ok st" and "pending.holds (recv_requests st) m"
    and "\<not> TRACING_BITMAP_VALID_EVTYPE ev" and "length reqs \<le> MAX_WAIT_REQUESTS"
    and "done_reqs reqs = Inr rs" and "\<forall>(r, s) \<in> set rs. status_ok lib opts s"
  shows "\<exists>st'. wait_wrapper ev lib opts t0 t1 reqs done_reqs MPI_SUCCESS st = Inr (MPI_SUCCESS, st') \<and>
    reports st (fst (finish lib rs m)) (snd (finish lib rs m)) st'"
proof -
  from trace_other [OF assms(1,3,5), of 1] obtain st1 where
    st1: "TRACE_MPIEVENT lib opts t0 ev 1 0 0 0 0 0 st = Inr st1" "quiet st st1" by blast
  then have "stats_ok st1" "pending.holds (recv_requests st1) m" using assms(4) by (simp_all add: quiet_def)
  from complete_all_ok [OF assms(1,2,8) this(1) no_source_known [OF assms(2)] this(2), of t1] obtain st2 where
    st2: "complete_all lib opts t1 rs no_source st1 = Inr st2"
    "reports st1 (fst (finish lib rs m)) (snd (finish lib rs m)) st2" by blast
  then have "stats_ok st2" by (simp add: reports_def)
  from trace_other [OF assms(1) this assms(5), of 0] obtain st3 where
    "TRACE_MPIEVENT lib opts t1 ev 0 0 0 0 0 0 st2 = Inr st3" "quiet st2 st3" by blast
  with st1 st2 assms(6,7) show ?thesis
    by (auto simp: wait_wrapper_def save_requests_def intro: reports_quiet quiet_reports)
qed

text \<open>A test that completes something, and one that does not.\<close>

definition counter_update :: "(INT32 \<Rightarrow> mpi_state \<Rightarrow> mpi_state) \<Rightarrow> bool" where
  "counter_update upd \<longleftrightarrow> (\<forall>n st. recv_requests (upd n st) = recv_requests st \<and> mpi_stats (upd n st) = mpi_stats st \<and>
     traced (upd n st) = traced st)"

lemma counter_quiet: "counter_update upd \<Longrightarrow> stats_ok st \<Longrightarrow> quiet st (upd n st)"
  by (simp add: counter_update_def quiet_def stats_ok_alt)

lemma test_count_quiet: "stats_ok st \<Longrightarrow> quiet st (test_count opts t c st)"
  by (simp add: test_count_def quiet_def stats_ok_alt)

lemma failed_test_quiet: "stats_ok st \<Longrightarrow> quiet st (failed_test opts t c st)"
  by (simp add: failed_test_def quiet_def stats_ok_alt)

lemma test_ok:
  assumes "tracing opts" and "lib_ok lib opts" and "stats_ok st" and "pending.holds (recv_requests st) m"
    and "\<not> TRACING_BITMAP_VALID_EVTYPE ev" and "length reqs \<le> MAX_WAIT_REQUESTS" and "counter_update upd"
    and "b \<Longrightarrow> done_reqs reqs = Inr rs" and "\<not> b \<Longrightarrow> rs = []" and "\<forall>(r, s) \<in> set rs. status_ok lib opts s"
  shows "\<exists>st'. test_wrapper ev counter upd lib opts t0 t1 reqs done_reqs b MPI_SUCCESS st = Inr (MPI_SUCCESS, st') \<and>
    reports st (fst (finish lib rs m)) (snd (finish lib rs m)) st'"
proof (cases b)
  case False
  have "quiet st (upd (counter st + 1) (failed_test opts t0 (counter st) st))"
    using counter_quiet [OF assms(7)] failed_test_quiet [OF assms(3)] by (meson quiet_def quiet_trans)
  with False assms(4,6,9) show ?thesis by (simp add: test_wrapper_def save_requests_def reports_none)
next
  case True
  from trace_other [OF assms(1,3,5), of 1] obtain st1 where
    st1: "TRACE_MPIEVENT lib opts t0 ev 1 0 0 0 0 0 st = Inr st1" "quiet st st1" by blast
  let ?st1 = "upd 0 (test_count opts t0 (counter st1) st1)"
  have "stats_ok st1" using st1(2) by (simp add: quiet_def)
  then have q: "quiet st ?st1" using counter_quiet [OF assms(7)] test_count_quiet st1(2) by (meson quiet_def quiet_trans)
  then have "stats_ok ?st1" "pending.holds (recv_requests ?st1) m" using assms(4) by (simp_all add: quiet_def)
  from complete_all_ok [OF assms(1,2,10) this(1) no_source_known [OF assms(2)] this(2), of t1] obtain st2 where
    st2: "complete_all lib opts t1 rs no_source ?st1 = Inr st2"
    "reports ?st1 (fst (finish lib rs m)) (snd (finish lib rs m)) st2" by blast
  then have "stats_ok st2" by (simp add: reports_def)
  from trace_other [OF assms(1) this assms(5), of 0] obtain st3 where
    "TRACE_MPIEVENT lib opts t1 ev 0 0 0 0 0 0 st2 = Inr st3" "quiet st2 st3" by blast
  with True st1 st2 q assms(6,8) show ?thesis
    by (auto simp: test_wrapper_def save_requests_def intro: reports_quiet quiet_reports)
qed

lemma Wait_ok:
  assumes "tracing opts" and "lib_ok lib opts" and "stats_ok st" and "pending.holds (recv_requests st) m" and "status_ok lib opts s"
  shows "\<exists>st'. MPI_Wait_C_Wrapper lib opts t0 t1 r (MPI_SUCCESS, s) st = Inr (MPI_SUCCESS, st') \<and>
    reports st (fst (finish lib [(r, s)] m)) (snd (finish lib [(r, s)] m)) st'"
proof -
  have same: "MPI_Wait_C_Wrapper lib opts t0 t1 r (MPI_SUCCESS, s) st =
      wait_wrapper MPI_WAIT_EV lib opts t0 t1 [r] (\<lambda>rs. Inr [(r, s)]) MPI_SUCCESS st"
    by (simp add: MPI_Wait_C_Wrapper_def wait_wrapper_def save_requests_def MAX_WAIT_REQUESTS_def split_def)
  have "\<not> TRACING_BITMAP_VALID_EVTYPE MPI_WAIT_EV" by (simp add: TRACING_BITMAP_VALID_EVTYPE_def)
  from wait_ok [OF assms(1-4) this, of "[r]" "\<lambda>rs. Inr [(r, s)]" "[(r, s)]"] assms(5)
  show ?thesis unfolding same by (simp add: MAX_WAIT_REQUESTS_def)
qed

lemma Test_ok:
  assumes "tracing opts" and "lib_ok lib opts" and "stats_ok st" and "pending.holds (recv_requests st) m" and "status_ok lib opts s"
    and "rs = (if flag then [(r, s)] else [])"
  shows "\<exists>st'. Normal_MPI_Test_C_Wrapper lib opts t0 t1 r (MPI_SUCCESS, flag, s) st = Inr (MPI_SUCCESS, st') \<and>
    reports st (fst (finish lib rs m)) (snd (finish lib rs m)) st'"
proof (cases "flag \<and> m r \<noteq> None")
  case False
  let ?st = "(failed_test opts t0 (Test_counter st) st)\<lparr>Test_counter := Test_counter st + 1\<rparr>"
  have none: "finish lib rs m = ([], m)" using False assms(6) by (auto simp: fun_upd_idem)
  have "quiet st ?st" using failed_test_quiet [OF assms(3)] by (simp add: quiet_def stats_ok_alt)
  moreover have "Normal_MPI_Test_C_Wrapper lib opts t0 t1 r (MPI_SUCCESS, flag, s) st = Inr (MPI_SUCCESS, ?st)"
    using False pending.holds_search [OF assms(4), of r] by (auto simp: Normal_MPI_Test_C_Wrapper_def)
  ultimately show ?thesis using reports_none [OF assms(4)] none by simp
next
  case True
  then obtain d where d: "m r = Some d" by auto
  then have key: "hash_key d = r" using assms(4) by (auto simp: pending.holds_def)
  have ev: "\<not> TRACING_BITMAP_VALID_EVTYPE MPI_TEST_EV" by (simp add: TRACING_BITMAP_VALID_EVTYPE_def)
  have q0: "quiet st (test_count opts t0 (Test_counter st) st)" by (rule test_count_quiet [OF assms(3)])
  then have "stats_ok (test_count opts t0 (Test_counter st) st)" by (simp add: quiet_def)
  from trace_other [OF assms(1) this ev, of 1] obtain st1 where
    st1: "TRACE_MPIEVENT lib opts t0 MPI_TEST_EV 1 (hash_key d) 0 0 0 0 (test_count opts t0 (Test_counter st) st) = Inr st1"
    "quiet (test_count opts t0 (Test_counter st) st) st1" by blast
  let ?st1 = "st1\<lparr>Test_counter := 0\<rparr>"
  have q1: "quiet st ?st1" using quiet_trans [OF q0 st1(2)] by (simp add: quiet_def stats_ok_alt)
  then have "stats_ok ?st1" "pending.holds (recv_requests ?st1) m" using assms(4) by (simp_all add: quiet_def)
  from completed_ok [OF assms(1,2,5) this(1) no_source_known [OF assms(2)] this(2) key, of False t1] obtain loc st2 where
    st2: "completed lib opts False t1 d s no_source ?st1 = Inr (loc, st2)" "reports ?st1 [report lib d s] (m(r := None)) st2" by blast
  then have "stats_ok st2" by (simp add: reports_def)
  from trace_other [OF assms(1) this ev, of 0] obtain st3 where
    "TRACE_MPIEVENT lib opts t1 MPI_TEST_EV 0 0 0 0 0 0 st2 = Inr st3" "quiet st2 st3" by blast
  with True d st1 st2 q1 assms(6) pending.holds_search [OF assms(4), of r] show ?thesis
    by (auto simp: Normal_MPI_Test_C_Wrapper_def intro: reports_quiet quiet_reports)
qed

section \<open>Programs\<close>

text \<open>A call and what the MPI library answered to it, every call being a success.\<close>

datatype p2p_call =
    Send INT32 MPI_Datatype INT32 INT32 MPI_Comm
  | Isend INT32 MPI_Datatype INT32 INT32 MPI_Comm
  | Irecv INT32 MPI_Datatype INT32 INT32 MPI_Comm request
  | Wait request mpi_status
  | Waitall "request list" "mpi_status list"
  | Waitany "request list" INT32 mpi_status
  | Waitsome "request list" INT32 "INT32 list" "mpi_status list"
  | Test request bool mpi_status
  | Testall "request list" bool "mpi_status list"
  | Testany "request list" INT32 bool mpi_status
  | Testsome "request list" INT32 "INT32 list" "mpi_status list"

type_synonym p2p_program = "(UINT64 \<times> UINT64 \<times> p2p_call) list"

fun do_call :: "mpi_lib \<Rightarrow> mpi_options \<Rightarrow> UINT64 \<Rightarrow> UINT64 \<Rightarrow> p2p_call \<Rightarrow> wrapped_call" where
  "do_call lib opts t0 t1 (Send n ty dest tag comm) = MPI_Send_C_Wrapper lib opts t0 t1 n ty dest tag comm MPI_SUCCESS"
| "do_call lib opts t0 t1 (Isend n ty dest tag comm) = MPI_Isend_C_Wrapper lib opts t0 t1 n ty dest tag comm MPI_SUCCESS"
| "do_call lib opts t0 t1 (Irecv n ty source tag comm r) = MPI_Irecv_C_Wrapper lib opts t0 t1 n ty source tag comm (MPI_SUCCESS, r)"
| "do_call lib opts t0 t1 (Wait r s) = MPI_Wait_C_Wrapper lib opts t0 t1 r (MPI_SUCCESS, s)"
| "do_call lib opts t0 t1 (Waitall rs ss) = MPI_Waitall_C_Wrapper lib opts t0 t1 rs (MPI_SUCCESS, ss)"
| "do_call lib opts t0 t1 (Waitany rs i s) = MPI_Waitany_C_Wrapper lib opts t0 t1 rs (MPI_SUCCESS, i, s)"
| "do_call lib opts t0 t1 (Waitsome rs n is ss) = MPI_Waitsome_C_Wrapper lib opts t0 t1 rs (MPI_SUCCESS, n, is, ss)"
| "do_call lib opts t0 t1 (Test r b s) = Normal_MPI_Test_C_Wrapper lib opts t0 t1 r (MPI_SUCCESS, b, s)"
| "do_call lib opts t0 t1 (Testall rs b ss) = MPI_Testall_C_Wrapper lib opts t0 t1 rs (MPI_SUCCESS, b, ss)"
| "do_call lib opts t0 t1 (Testany rs i b s) = MPI_Testany_C_Wrapper lib opts t0 t1 rs (MPI_SUCCESS, i, b, s)"
| "do_call lib opts t0 t1 (Testsome rs n is ss) = MPI_Testsome_C_Wrapper lib opts t0 t1 rs (MPI_SUCCESS, n, is, ss)"

fun do_program :: "mpi_lib \<Rightarrow> mpi_options \<Rightarrow> p2p_program \<Rightarrow> mpi_state \<Rightarrow> mpi_state res" where
  "do_program lib opts [] st = Inr st"
| "do_program lib opts ((t0, t1, c) # cs) st =
     andthen (do_call lib opts t0 t1 c st) (\<lambda>(ret, st). do_program lib opts cs st)"

text \<open>What MPI says of the same calls: which requests they complete, and with which statuses.\<close>

definition picked :: "request list \<Rightarrow> INT32 \<Rightarrow> INT32 list \<Rightarrow> mpi_status list \<Rightarrow> (request \<times> mpi_status) list" where
  "picked rs n is ss = zip (map (\<lambda>i. rs ! nat (sint i)) (take (nat (sint n)) is)) ss"

fun completes :: "mpi_lib \<Rightarrow> p2p_call \<Rightarrow> (request \<times> mpi_status) list" where
  "completes lib (Wait r s) = [(r, s)]"
| "completes lib (Waitall rs ss) = zip rs ss"
| "completes lib (Waitany rs i s) = (if i = MPI_UNDEFINED lib then [] else [(rs ! nat (sint i), s)])"
| "completes lib (Waitsome rs n is ss) = picked rs n is ss"
| "completes lib (Test r b s) = (if b then [(r, s)] else [])"
| "completes lib (Testall rs b ss) = (if b then zip rs ss else [])"
| "completes lib (Testany rs i b s) = (if i \<noteq> MPI_UNDEFINED lib \<and> b then [(rs ! nat (sint i), s)] else [])"
| "completes lib (Testsome rs n is ss) = picked rs n is ss"
| "completes lib _ = []"

definition after_call :: "mpi_lib \<Rightarrow> p2p_call \<Rightarrow> pending_map \<Rightarrow> receipt list \<times> pending_map" where
  "after_call lib c m = (case c of
     Irecv n ty source tag comm r \<Rightarrow> ([], m(r \<mapsto> posted lib n ty source tag comm r))
   | _ \<Rightarrow> finish lib (completes lib c) m)"

fun expected :: "mpi_lib \<Rightarrow> p2p_program \<Rightarrow> pending_map \<Rightarrow> receipt list" where
  "expected lib [] m = []"
| "expected lib ((t0, t1, c) # cs) m = fst (after_call lib c m) @ expected lib cs (snd (after_call lib c m))"

text \<open>
  The library gives a new receive a request that is not pending and does not run out of overflow cells
  of the table; it knows the sizes and the communicators it is asked for, and answers with as many
  indices and statuses as it says, each index one of an array that fits \<open>MAX_WAIT_REQUESTS\<close>.
\<close>

definition indices_ok :: "request list \<Rightarrow> INT32 \<Rightarrow> INT32 list \<Rightarrow> mpi_status list \<Rightarrow> bool" where
  "indices_ok rs n is ss \<longleftrightarrow> nat (sint n) \<le> length is \<and> nat (sint n) \<le> length ss \<and>
     (\<forall>i \<in> set (take (nat (sint n)) is). in_range (sint i) rs)"

fun call_ok :: "mpi_lib \<Rightarrow> mpi_options \<Rightarrow> nat \<Rightarrow> p2p_call \<Rightarrow> pending_map \<Rightarrow> bool" where
  "call_ok lib opts k (Send n ty dest tag comm) m \<longleftrightarrow> known_size lib n ty \<and> known_comm lib comm \<and> known_rank lib opts dest"
| "call_ok lib opts k (Isend n ty dest tag comm) m \<longleftrightarrow> known_size lib n ty \<and> known_comm lib comm \<and> known_rank lib opts dest"
| "call_ok lib opts k (Irecv n ty source tag comm r) m \<longleftrightarrow> known_size lib n ty \<and> known_comm lib comm \<and>
     known_rank lib opts source \<and> m r = None \<and> card (dom m) \<le> k"
| "call_ok lib opts k (Wait r s) m \<longleftrightarrow> status_ok lib opts s"
| "call_ok lib opts k (Waitall rs ss) m \<longleftrightarrow> length rs \<le> MAX_WAIT_REQUESTS \<and> length ss = length rs \<and> (\<forall>s \<in> set ss. status_ok lib opts s)"
| "call_ok lib opts k (Waitany rs i s) m \<longleftrightarrow> length rs \<le> MAX_WAIT_REQUESTS \<and> (i = MPI_UNDEFINED lib \<or> in_range (sint i) rs) \<and> status_ok lib opts s"
| "call_ok lib opts k (Waitsome rs n is ss) m \<longleftrightarrow> length rs \<le> MAX_WAIT_REQUESTS \<and> indices_ok rs n is ss \<and> (\<forall>s \<in> set ss. status_ok lib opts s)"
| "call_ok lib opts k (Test r b s) m \<longleftrightarrow> status_ok lib opts s"
| "call_ok lib opts k (Testall rs b ss) m \<longleftrightarrow> length rs \<le> MAX_WAIT_REQUESTS \<and> (b \<longrightarrow> length ss = length rs) \<and> (\<forall>s \<in> set ss. status_ok lib opts s)"
| "call_ok lib opts k (Testany rs i b s) m \<longleftrightarrow> length rs \<le> MAX_WAIT_REQUESTS \<and> (i = MPI_UNDEFINED lib \<or> in_range (sint i) rs) \<and> status_ok lib opts s"
| "call_ok lib opts k (Testsome rs n is ss) m \<longleftrightarrow> length rs \<le> MAX_WAIT_REQUESTS \<and> indices_ok rs n is ss \<and> (\<forall>s \<in> set ss. status_ok lib opts s)"

fun program_ok :: "mpi_lib \<Rightarrow> mpi_options \<Rightarrow> nat \<Rightarrow> p2p_program \<Rightarrow> pending_map \<Rightarrow> bool" where
  "program_ok lib opts k [] m = True"
| "program_ok lib opts k ((t0, t1, c) # cs) m \<longleftrightarrow> call_ok lib opts k c m \<and> program_ok lib opts k cs (snd (after_call lib c m))"

lemma chosen_picked:
  "length is \<le> length ss \<Longrightarrow> (\<forall>i \<in> set is. in_range (sint i) rs) \<Longrightarrow>
    chosen_statuses rs is ss = Inr (zip (map (\<lambda>i. rs ! nat (sint i)) is) ss)"
  by (induction rs "is" ss rule: chosen_statuses.induct) (auto simp: array_get_def)

lemma some_picked: "indices_ok rs n is ss \<Longrightarrow> some_statuses rs n is ss = Inr (picked rs n is ss)"
  using chosen_picked [of "take (nat (sint n)) is" ss rs] by (simp add: some_statuses_def indices_ok_def picked_def)

lemma picked_statuses: "(r, s) \<in> set (picked rs n is ss) \<Longrightarrow> s \<in> set ss"
  by (auto simp: picked_def dest: set_zip_rightD)

lemma picked_none: "\<not> 0 <s n \<Longrightarrow> picked rs n is ss = []"
  by (simp add: picked_def word_sless_alt)

lemma counters:
  "counter_update (\<lambda>n. Testall_counter_update (\<lambda>_. n))" "counter_update (\<lambda>n. Testany_counter_update (\<lambda>_. n))"
  "counter_update (\<lambda>n. Testsome_counter_update (\<lambda>_. n))"
  by (simp_all add: counter_update_def)

lemma do_call_ok:
  assumes "tracing opts" and "lib_ok lib opts" and "stats_ok st" and "pending.holds (recv_requests st) m"
    and "call_ok lib opts (length (hash_overflow (recv_requests st))) c m"
  shows "\<exists>st'. do_call lib opts t0 t1 c st = Inr (MPI_SUCCESS, st') \<and> reports st (fst (after_call lib c m)) (snd (after_call lib c m)) st'"
proof (cases c)
  case (Send n ty dest tag comm)
  with assms(5) send_ok [OF assms(1-3), of MPI_SEND_EV n ty comm dest t0 t1 tag] reports_none [OF assms(4)]
  show ?thesis by (fastforce simp: MPI_Send_C_Wrapper_def after_call_def)
next
  case (Isend n ty dest tag comm)
  with assms(5) send_ok [OF assms(1-3), of MPI_ISEND_EV n ty comm dest t0 t1 tag] reports_none [OF assms(4)]
  show ?thesis by (fastforce simp: MPI_Isend_C_Wrapper_def after_call_def)
next
  case (Irecv n ty source tag comm r)
  with assms(5) Irecv_ok [OF assms(1-4), of n ty comm source r] show ?thesis by (simp add: after_call_def)
next
  case (Wait r s)
  with assms(5) Wait_ok [OF assms(1-4), of s] show ?thesis by (simp only: do_call.simps after_call_def p2p_call.case completes.simps call_ok.simps)
next
  case (Waitall rs ss)
  have ev: "\<not> TRACING_BITMAP_VALID_EVTYPE MPI_WAITALL_EV" by (simp add: TRACING_BITMAP_VALID_EVTYPE_def)
  from Waitall assms(5) have ok: "length rs \<le> MAX_WAIT_REQUESTS" "all_statuses rs ss = Inr (zip rs ss)"
    "\<forall>(r, s) \<in> set (zip rs ss). status_ok lib opts s" by (auto simp: all_statuses_def dest: set_zip_rightD)
  show ?thesis using wait_ok [OF assms(1-4) ev ok(1), of "\<lambda>rs. all_statuses rs ss", OF ok(2,3)]
    by (simp add: Waitall MPI_Waitall_C_Wrapper_def after_call_def)
next
  case (Waitany rs i s)
  have ev: "\<not> TRACING_BITMAP_VALID_EVTYPE MPI_WAITANY_EV" by (simp add: TRACING_BITMAP_VALID_EVTYPE_def)
  let ?f = "\<lambda>rs. if i \<noteq> MPI_UNDEFINED lib then chosen_statuses rs [i] [s] else Inr []"
  from Waitany assms(5) have ok: "length rs \<le> MAX_WAIT_REQUESTS" "?f rs = Inr (completes lib c)"
    "\<forall>(r, s) \<in> set (completes lib c). status_ok lib opts s" by (auto simp: array_get_def)
  show ?thesis using wait_ok [OF assms(1-4) ev ok(1), of ?f, OF ok(2,3)]
    by (simp add: Waitany MPI_Waitany_C_Wrapper_def after_call_def del: chosen_statuses.simps)
next
  case (Waitsome rs n "is" ss)
  have ev: "\<not> TRACING_BITMAP_VALID_EVTYPE MPI_WAITSOME_EV" by (simp add: TRACING_BITMAP_VALID_EVTYPE_def)
  from Waitsome assms(5) have ok: "length rs \<le> MAX_WAIT_REQUESTS" "some_statuses rs n is ss = Inr (picked rs n is ss)"
    "\<forall>(r, s) \<in> set (picked rs n is ss). status_ok lib opts s" by (auto simp: some_picked dest: picked_statuses)
  show ?thesis using wait_ok [OF assms(1-4) ev ok(1), of "\<lambda>rs. some_statuses rs n is ss", OF ok(2,3)]
    by (simp add: Waitsome MPI_Waitsome_C_Wrapper_def after_call_def)
next
  case (Test r b s)
  with assms(5) Test_ok [OF assms(1-4), of s _ b r] show ?thesis
    by (simp only: do_call.simps after_call_def p2p_call.case completes.simps call_ok.simps)
next
  case (Testall rs b ss)
  have ev: "\<not> TRACING_BITMAP_VALID_EVTYPE MPI_TESTALL_EV" by (simp add: TRACING_BITMAP_VALID_EVTYPE_def)
  from Testall assms(5) have ok: "length rs \<le> MAX_WAIT_REQUESTS" "b \<Longrightarrow> all_statuses rs ss = Inr (if b then zip rs ss else [])"
    "\<not> b \<Longrightarrow> (if b then zip rs ss else []) = []"
    "\<forall>(r, s) \<in> set (if b then zip rs ss else []). status_ok lib opts s" by (auto simp: all_statuses_def dest: set_zip_rightD)
  show ?thesis using test_ok [OF assms(1-4) ev ok(1) counters(1), of b "\<lambda>rs. all_statuses rs ss", OF ok(2-4)]
    by (simp add: Testall MPI_Testall_C_Wrapper_def after_call_def)
next
  case (Testany rs i b s)
  have ev: "\<not> TRACING_BITMAP_VALID_EVTYPE MPI_TESTANY_EV" by (simp add: TRACING_BITMAP_VALID_EVTYPE_def)
  let ?b = "i \<noteq> MPI_UNDEFINED lib \<and> b"
  from Testany assms(5) have ok: "length rs \<le> MAX_WAIT_REQUESTS" "?b \<Longrightarrow> chosen_statuses rs [i] [s] = Inr (completes lib c)"
    "\<not> ?b \<Longrightarrow> completes lib c = []" "\<forall>(r, s) \<in> set (completes lib c). status_ok lib opts s" by (auto simp: array_get_def)
  show ?thesis using test_ok [OF assms(1-4) ev ok(1) counters(2), of ?b "\<lambda>rs. chosen_statuses rs [i] [s]", OF ok(2-4)]
    by (simp add: Testany MPI_Testany_C_Wrapper_def after_call_def del: chosen_statuses.simps)
next
  case (Testsome rs n "is" ss)
  have ev: "\<not> TRACING_BITMAP_VALID_EVTYPE MPI_TESTSOME_EV" by (simp add: TRACING_BITMAP_VALID_EVTYPE_def)
  from Testsome assms(5) have ok: "length rs \<le> MAX_WAIT_REQUESTS" "0 <s n \<Longrightarrow> some_statuses rs n is ss = Inr (picked rs n is ss)"
    "\<not> 0 <s n \<Longrightarrow> picked rs n is ss = []"
    "\<forall>(r, s) \<in> set (picked rs n is ss). status_ok lib opts s" by (auto simp: some_picked picked_none dest: picked_statuses)
  show ?thesis using test_ok [OF assms(1-4) ev ok(1) counters(3), of "0 <s n" "\<lambda>rs. some_statuses rs n is ss", OF ok(2-4)]
    by (simp add: Testsome MPI_Testsome_C_Wrapper_def after_call_def)
qed

lemma do_program_ok:
  "tracing opts \<Longrightarrow> lib_ok lib opts \<Longrightarrow> stats_ok st \<Longrightarrow> pending.holds (recv_requests st) m \<Longrightarrow>
   program_ok lib opts (length (hash_overflow (recv_requests st))) cs m \<Longrightarrow>
   \<exists>st'. do_program lib opts cs st = Inr st' \<and> receipts (traced st') = receipts (traced st) @ expected lib cs m"
proof (induction cs arbitrary: st m)
  case (Cons x cs)
  obtain t0 t1 c where x: "x = (t0, t1, c)" by (cases x)
  from Cons.prems(5) x have "call_ok lib opts (length (hash_overflow (recv_requests st))) c m" by simp
  from do_call_ok [OF Cons.prems(1-4) this, of t0 t1] obtain st1 where
    st1: "do_call lib opts t0 t1 c st = Inr (MPI_SUCCESS, st1)" "reports st (fst (after_call lib c m)) (snd (after_call lib c m)) st1" by blast
  then have "stats_ok st1" "pending.holds (recv_requests st1) (snd (after_call lib c m))"
    "program_ok lib opts (length (hash_overflow (recv_requests st1))) cs (snd (after_call lib c m))"
    using Cons.prems(5) x by (simp_all add: reports_def)
  from Cons.IH [OF Cons.prems(1,2) this] st1 x show ?case by (auto simp: reports_def)
qed simp

text \<open>
  C4. A traced program that sends, receives without blocking, and waits for and tests its requests in
  any of the ways of MPI, runs to its end, and the \<open>MPI_IRECVED_EV\<close> events in its trace are the receives
  that MPI completed: one for each, in the order of their completion, with the request, the tag and
  the communicator the receive was posted with, and with the sender and the bytes of its status, or
  marked as cancelled. Completed sends and requests that are completed again are not reported.
\<close>

theorem receives_reported_once:
  assumes "tracing opts" and "lib_ok lib opts" and "stats_ok st" and "cs \<noteq> []" and "os \<noteq> []"
    and "table_new cs os = Inr (recv_requests st)" and "program_ok lib opts (length os) prog (\<lambda>_. None)"
  shows "\<exists>st'. do_program lib opts prog st = Inr st' \<and>
    receipts (traced st') = receipts (traced st) @ expected lib prog (\<lambda>_. None)"
proof -
  from table_new_ok [OF assms(4,5)] assms(6) have h: "table_ok (recv_requests st)" "requests (recv_requests st) = {#}"
    "length (hash_overflow (recv_requests st)) = length os" by auto
  from do_program_ok [OF assms(1-3) pending.holds_empty [OF h(1,2)]] assms(7) h(3) show ?thesis by simp
qed

section \<open>Arrays and variables of the wrappers\<close>

text \<open>
  C28. The wrappers of the waits and tests of several requests copy them to an array of
  \<open>MAX_WAIT_REQUESTS\<close> elements. With more requests all six write behind it, whatever the MPI library would
  answer, after no more than a warning; with as many or fewer, each of the six returns when the call succeeds and the library
  answers what MPI promises: a status for every request, or indices of the array with a status each. The process is traced, the
  library answers the local queries, and the table of the pending requests and the statistics are in order.
\<close>

theorem many_requests_overflow:
  assumes "tracing opts" and "lib_ok lib opts" and "stats_ok st" and "pending.holds (recv_requests st) m"
  shows "(MAX_WAIT_REQUESTS < length reqs \<longrightarrow>
      MPI_Waitall_C_Wrapper lib opts t0 t1 reqs (e, ss) st = Inl OutOfBounds \<and>
      MPI_Waitany_C_Wrapper lib opts t0 t1 reqs (e, i, s) st = Inl OutOfBounds \<and>
      MPI_Waitsome_C_Wrapper lib opts t0 t1 reqs (e, n, is, ss) st = Inl OutOfBounds \<and>
      MPI_Testall_C_Wrapper lib opts t0 t1 reqs (e, b, ss) st = Inl OutOfBounds \<and>
      MPI_Testany_C_Wrapper lib opts t0 t1 reqs (e, i, b, s) st = Inl OutOfBounds \<and>
      MPI_Testsome_C_Wrapper lib opts t0 t1 reqs (e, n, is, ss) st = Inl OutOfBounds) \<and>
    (length reqs \<le> MAX_WAIT_REQUESTS \<longrightarrow>
      (length ss = length reqs \<and> (\<forall>s \<in> set ss. status_ok lib opts s) \<longrightarrow>
        (\<exists>st'. MPI_Waitall_C_Wrapper lib opts t0 t1 reqs (MPI_SUCCESS, ss) st = Inr (MPI_SUCCESS, st')) \<and>
        (\<exists>st'. MPI_Testall_C_Wrapper lib opts t0 t1 reqs (MPI_SUCCESS, b, ss) st = Inr (MPI_SUCCESS, st'))) \<and>
      ((i = MPI_UNDEFINED lib \<or> in_range (sint i) reqs) \<and> status_ok lib opts s \<longrightarrow>
        (\<exists>st'. MPI_Waitany_C_Wrapper lib opts t0 t1 reqs (MPI_SUCCESS, i, s) st = Inr (MPI_SUCCESS, st')) \<and>
        (\<exists>st'. MPI_Testany_C_Wrapper lib opts t0 t1 reqs (MPI_SUCCESS, i, b, s) st = Inr (MPI_SUCCESS, st'))) \<and>
      (indices_ok reqs n is ss \<and> (\<forall>s \<in> set ss. status_ok lib opts s) \<longrightarrow>
        (\<exists>st'. MPI_Waitsome_C_Wrapper lib opts t0 t1 reqs (MPI_SUCCESS, n, is, ss) st = Inr (MPI_SUCCESS, st')) \<and>
        (\<exists>st'. MPI_Testsome_C_Wrapper lib opts t0 t1 reqs (MPI_SUCCESS, n, is, ss) st = Inr (MPI_SUCCESS, st'))))"
proof (rule conjI; rule impI)
  have ev: "\<not> TRACING_BITMAP_VALID_EVTYPE MPI_WAITALL_EV" "\<not> TRACING_BITMAP_VALID_EVTYPE MPI_WAITANY_EV"
    "\<not> TRACING_BITMAP_VALID_EVTYPE MPI_WAITSOME_EV" by (simp_all add: TRACING_BITMAP_VALID_EVTYPE_def)
  assume "MAX_WAIT_REQUESTS < length reqs"
  with trace_other [OF assms(1,3) ev(1), of 1 lib t0 0 0 0 0 0] trace_other [OF assms(1,3) ev(2), of 1 lib t0 0 0 0 0 0]
    trace_other [OF assms(1,3) ev(3), of 1 lib t0 0 0 0 0 0]
  show "MPI_Waitall_C_Wrapper lib opts t0 t1 reqs (e, ss) st = Inl OutOfBounds \<and>
      MPI_Waitany_C_Wrapper lib opts t0 t1 reqs (e, i, s) st = Inl OutOfBounds \<and>
      MPI_Waitsome_C_Wrapper lib opts t0 t1 reqs (e, n, is, ss) st = Inl OutOfBounds \<and>
      MPI_Testall_C_Wrapper lib opts t0 t1 reqs (e, b, ss) st = Inl OutOfBounds \<and>
      MPI_Testany_C_Wrapper lib opts t0 t1 reqs (e, i, b, s) st = Inl OutOfBounds \<and>
      MPI_Testsome_C_Wrapper lib opts t0 t1 reqs (e, n, is, ss) st = Inl OutOfBounds"
    by (auto simp: MPI_Waitall_C_Wrapper_def MPI_Waitany_C_Wrapper_def MPI_Waitsome_C_Wrapper_def wait_wrapper_def
        MPI_Testall_C_Wrapper_def MPI_Testany_C_Wrapper_def MPI_Testsome_C_Wrapper_def test_wrapper_def save_requests_def)
next
  assume fits: "length reqs \<le> MAX_WAIT_REQUESTS"
  have returns: "\<exists>st'. do_call lib opts t0 t1 c st = Inr (MPI_SUCCESS, st')"
    if "call_ok lib opts (length (hash_overflow (recv_requests st))) c m" for c using do_call_ok [OF assms that] by blast
  show "(length ss = length reqs \<and> (\<forall>s \<in> set ss. status_ok lib opts s) \<longrightarrow>
        (\<exists>st'. MPI_Waitall_C_Wrapper lib opts t0 t1 reqs (MPI_SUCCESS, ss) st = Inr (MPI_SUCCESS, st')) \<and>
        (\<exists>st'. MPI_Testall_C_Wrapper lib opts t0 t1 reqs (MPI_SUCCESS, b, ss) st = Inr (MPI_SUCCESS, st'))) \<and>
      ((i = MPI_UNDEFINED lib \<or> in_range (sint i) reqs) \<and> status_ok lib opts s \<longrightarrow>
        (\<exists>st'. MPI_Waitany_C_Wrapper lib opts t0 t1 reqs (MPI_SUCCESS, i, s) st = Inr (MPI_SUCCESS, st')) \<and>
        (\<exists>st'. MPI_Testany_C_Wrapper lib opts t0 t1 reqs (MPI_SUCCESS, i, b, s) st = Inr (MPI_SUCCESS, st'))) \<and>
      (indices_ok reqs n is ss \<and> (\<forall>s \<in> set ss. status_ok lib opts s) \<longrightarrow>
        (\<exists>st'. MPI_Waitsome_C_Wrapper lib opts t0 t1 reqs (MPI_SUCCESS, n, is, ss) st = Inr (MPI_SUCCESS, st')) \<and>
        (\<exists>st'. MPI_Testsome_C_Wrapper lib opts t0 t1 reqs (MPI_SUCCESS, n, is, ss) st = Inr (MPI_SUCCESS, st')))"
    using fits returns [of "Waitall reqs ss"] returns [of "Testall reqs b ss"] returns [of "Waitany reqs i s"]
      returns [of "Testany reqs i b s"] returns [of "Waitsome reqs n is ss"] returns [of "Testsome reqs n is ss"]
    by (intro conjI impI) simp_all
qed

text \<open>The wrappers of the sends that set the size to 0 when there are no elements, with the types of their events.\<close>

definition zeroing_sends where
  "zeroing_sends =
     [(MPI_SEND_EV, MPI_Send_C_Wrapper), (MPI_BSEND_EV, MPI_Bsend_C_Wrapper), (MPI_RSEND_EV, MPI_Rsend_C_Wrapper),
      (MPI_ISEND_EV, MPI_Isend_C_Wrapper), (MPI_IBSEND_EV, MPI_Ibsend_C_Wrapper), (MPI_ISSEND_EV, MPI_Issend_C_Wrapper),
      (MPI_IRSEND_EV, MPI_Irsend_C_Wrapper)]"

lemma empty_send_traced:
  assumes "tracing opts" and "stats_ok st" and "get_rank_obj_C lib comm dest = Inr q" and "known_rank lib opts q"
  shows "\<exists>st'. send_wrapper ev True lib opts t0 t1 0 ty dest tag comm ret st = Inr (ret, st') \<and>
    traced st' = traced st @ [mpi_event opts t0 ev EVT_BEGIN (scast q) 0 tag comm 0, mpi_event opts t1 ev EVT_END (scast q) 0 tag comm 0]"
proof -
  from traceja_event_known [OF assms(4), of ev] assms(1) have b: "traceja_event lib opts ev (scast q) = Inr True"
    by (auto simp: tracing_def)
  from trace_appended [OF assms(1,2) _ b, of EVT_BEGIN t0 0 tag comm 0] obtain st1 where
    1: "TRACE_MPIEVENT lib opts t0 ev EVT_BEGIN (scast q) 0 tag comm 0 st = Inr st1" "stats_ok st1"
      "traced st1 = traced st @ [mpi_event opts t0 ev EVT_BEGIN (scast q) 0 tag comm 0]" by auto
  from trace_appended [OF assms(1) 1(2) _ b, of EVT_END t1 0 tag comm 0] obtain st2 where
    2: "TRACE_MPIEVENT lib opts t1 ev EVT_END (scast q) 0 tag comm 0 st1 = Inr st2" "stats_ok st2"
      "traced st2 = traced st1 @ [mpi_event opts t1 ev EVT_END (scast q) 0 tag comm 0]" by auto
  from stats_quiet [OF 2(2) assms(4), of 0 0] obtain st3 where "with_stats (updateStats_P2P lib q 0 0) st2 = Inr st3" by blast
  moreover from this have "traced st3 = traced st2" by (auto simp: with_stats_def)
  ultimately show ?thesis using 1(1,3) 2(1,3) assms(3) by (simp add: send_wrapper_def type_size_def read_local_def)
qed

text \<open>
  C29. A send of no elements is traced with size 0, at its beginning and at its end, by the wrappers of \<open>MPI_Send\<close>, \<open>MPI_Bsend\<close>,
  \<open>MPI_Rsend\<close> and of the sends that do not block; that of \<open>MPI_Ssend\<close>, and those of \<open>MPI_Sendrecv\<close> and
  \<open>MPI_Sendrecv_replace\<close> when they send nothing, read a size that was never set. The process is traced, and the library knows
  the communicator and the rank of the receiver.
\<close>

theorem empty_send_size:
  assumes "tracing opts" and "lib_ok lib opts" and "stats_ok st" and "known_comm lib comm" and "known_rank lib opts dest"
  shows "MPI_Ssend_C_Wrapper lib opts t0 t1 0 ty dest tag comm ret st = Inl Uninitialised \<and>
    MPI_Sendrecv_replace_C_Wrapper lib opts t0 t1 0 ty dest tag source tag' comm ans st = Inl Uninitialised \<and>
    (known_size lib k ty' \<longrightarrow>
      MPI_Sendrecv_C_Wrapper lib opts t0 t1 0 ty dest tag k ty' source tag' comm ans st = Inl Uninitialised) \<and>
    (\<exists>q. get_rank_obj_C lib comm dest = Inr q \<and>
      (\<forall>(ev, wrapper) \<in> set zeroing_sends. \<exists>st'. wrapper lib opts t0 t1 0 ty dest tag comm ret st = Inr (ret, st') \<and>
        traced st' = traced st @
          [mpi_event opts t0 ev EVT_BEGIN (scast q) 0 tag comm 0, mpi_event opts t1 ev EVT_END (scast q) 0 tag comm 0]))"
proof -
  from rank_ok [OF assms(2,4,5)] obtain q where q: "get_rank_obj_C lib comm dest = Inr q" "known_rank lib opts q" by blast
  then have "MPI_Ssend_C_Wrapper lib opts t0 t1 0 ty dest tag comm ret st = Inl Uninitialised"
    by (simp add: MPI_Ssend_C_Wrapper_def send_wrapper_def type_size_def read_local_def)
  moreover have "MPI_Sendrecv_replace_C_Wrapper lib opts t0 t1 0 ty dest tag source tag' comm ans st = Inl Uninitialised"
    using q(1) by (auto simp: MPI_Sendrecv_replace_C_Wrapper_def sendrecv_wrapper_def type_size_def read_local_def split: prod.splits)
  moreover have "MPI_Sendrecv_C_Wrapper lib opts t0 t1 0 ty dest tag k ty' source tag' comm ans st = Inl Uninitialised"
    if "known_size lib k ty'"
    using that q(1) by (auto simp: MPI_Sendrecv_C_Wrapper_def sendrecv_wrapper_def type_size_def read_local_def known_size_def
        split: prod.splits)
  moreover have "\<forall>(ev, wrapper) \<in> set zeroing_sends. \<exists>st'. wrapper lib opts t0 t1 0 ty dest tag comm ret st = Inr (ret, st') \<and>
        traced st' = traced st @
          [mpi_event opts t0 ev EVT_BEGIN (scast q) 0 tag comm 0, mpi_event opts t1 ev EVT_END (scast q) 0 tag comm 0]"
    using empty_send_traced [OF assms(1,3) q, of _ t0 t1 ty tag ret]
    by (simp add: zeroing_sends_def MPI_Send_C_Wrapper_def MPI_Bsend_C_Wrapper_def MPI_Rsend_C_Wrapper_def MPI_Isend_C_Wrapper_def
        MPI_Ibsend_C_Wrapper_def MPI_Issend_C_Wrapper_def MPI_Irsend_C_Wrapper_def)
  ultimately show ?thesis using q(1) by blast
qed

section \<open>Witnesses\<close>

definition some_lib :: mpi_lib where
  "some_lib = \<lparr>MPI_COMM_WORLD = 1, MPI_GROUP_NULL = 0, MPI_BYTE = 1, MPI_PROC_NULL = - 1, MPI_ANY_SOURCE = - 2, MPI_ANY_TAG = - 1,
     MPI_UNDEFINED = - 32766, PMPI_Type_size = (\<lambda>ty. Some 8), PMPI_Comm_test_inter = (\<lambda>c. Some False),
     PMPI_Comm_get_parent = 0, PMPI_Comm_group = (\<lambda>c. Some 5), PMPI_Comm_remote_group = (\<lambda>c. Some 5),
     PMPI_Group_translate_ranks = (\<lambda>g r. Some (if r = 0 then 1 else 0)), PMPI_Group_free = (\<lambda>g. Some ()),
     ParentWorldRanks = None, PMPI_Comm_rank = (\<lambda>c. Some 0), PMPI_Comm_size = (\<lambda>c. Some 2)\<rparr>"

definition some_mpi_options :: mpi_options where
  "some_mpi_options = \<lparr>mpitrace_on = True, tracejant = True, TracingBitmap_TASKID = True,
     base_event = \<lparr>ev_param = \<lparr>param_target = 0, param_size = 0, param_tag = 0, param_comm = 0, param_aux = 0\<rparr>,
       ev_value = 0, ev_time = 0, ev_HWCValues = [], ev_event = 0, ev_HWCReadSet = 0\<rparr>,
     tracejant_mpi = True, TracingBitmap = [1, 1]\<rparr>"

definition some_stats :: mpi_stats_t where
  "some_stats = \<lparr>ntasks = 2, P2P_Bytes_Sent = 0, P2P_Bytes_Recv = 0, COLLECTIVE_Bytes_Sent = 0, COLLECTIVE_Bytes_Recv = 0,
     P2P_Communications = 0, COLLECTIVE_Communications = 0, MPI_Others_count = 0, Elapsed_Time_In_MPI = 0,
     P2P_Communications_In = 0, P2P_Communications_Out = 0, P2P_Partner_In = [0, 0], P2P_Partner_Out = [0, 0],
     Elapsed_Time_In_P2P_MPI = 0, Elapsed_Time_In_COLLECTIVE_MPI = 0\<rparr>"

definition no_calls :: soft_counter where
  "no_calls = \<lparr>soft_count = 0, elapsed_outside = 0, last_exit = 0\<rparr>"

definition some_mpi_state :: mpi_state where
  "some_mpi_state = \<lparr>recv_requests = some_table, PR_queue = [], mpi_stats = Some some_stats, last_mpi_begin_time = 0,
     last_mpi_exit_time = 0, MPI_Deepness = 0, Test_counter = 0, Testall_counter = 0, Testany_counter = 0, Testsome_counter = 0,
     Iprobe_counter = no_calls, get_status_counter = no_calls, traced = []\<rparr>"

definition some_status :: "INT32 \<Rightarrow> bool \<Rightarrow> mpi_status" where
  "some_status source cancelled = \<lparr>MPI_SOURCE = source, MPI_TAG = 9, PMPI_Get_count = (\<lambda>ty. Some 16), PMPI_Test_cancelled = cancelled\<rparr>"

text \<open>Three receives in one cell of the table, one of them of another communicator and one cancelled.\<close>

definition some_program :: p2p_program where
  "some_program =
    [(1, 2, Irecv 2 1 0 7 1 103), (3, 4, Irecv 2 1 (- 2) 8 2 108), (5, 6, Irecv 2 1 1 9 1 113), (7, 8, Isend 2 1 1 7 1),
     (9, 10, Test 108 False (some_status 0 False)), (11, 12, Waitall [113, 55, 108] [some_status 0 True, some_status 1 False, some_status 0 False]),
     (13, 14, Waitany [113, 103] 1 (some_status 1 False)), (15, 16, Wait 103 (some_status 1 False))]"

lemma some_world: "tracing some_mpi_options" "lib_ok some_lib some_mpi_options" "stats_ok some_mpi_state"
  by (simp_all add: tracing_def some_mpi_options_def lib_ok_def known_rank_def some_lib_def in_range_def stats_ok_def
      some_mpi_state_def some_stats_def)

lemma some_status_ok: "r = 0 \<or> r = 1 \<Longrightarrow> status_ok some_lib some_mpi_options (some_status r b)"
  by (auto simp: status_ok_def some_status_def known_rank_def in_range_def some_mpi_options_def)

lemma some_comm: "known_comm some_lib c"
  by (simp add: known_comm_def some_lib_def del: not_None_eq)

lemma some_program_ok: "program_ok some_lib some_mpi_options 2 some_program (\<lambda>_. None)"
  by (simp add: some_program_def some_status_ok some_comm after_call_def known_size_def known_rank_def posted_def
      in_range_def MAX_WAIT_REQUESTS_def) (simp add: some_lib_def some_mpi_options_def in_range_def)

theorem receives_reported_once_witness:
  "\<exists>st'. do_program some_lib some_mpi_options some_program some_mpi_state = Inr st' \<and>
     receipts (traced st') = [Receipt 113 9 1 None, Receipt 108 8 2 (Some (1, 16)), Receipt 103 7 1 (Some (1, 16))]"
proof -
  have "table_new some_cells some_overflow = Inr (recv_requests some_mpi_state)" by (simp add: some_mpi_state_def some_table_new)
  from receives_reported_once [OF some_world _ _ this, of some_program] some_program_ok
  have "\<exists>st'. do_program some_lib some_mpi_options some_program some_mpi_state = Inr st' \<and>
     receipts (traced st') = receipts (traced some_mpi_state) @ expected some_lib some_program (\<lambda>_. None)"
    by (simp add: some_cells_def some_overflow_def)
  moreover have "expected some_lib some_program (\<lambda>_. None) =
      [Receipt 113 9 1 None, Receipt 108 8 2 (Some (1, 16)), Receipt 103 7 1 (Some (1, 16))]"
    by (simp add: some_program_def after_call_def posted_def report_def sender_def received_bytes_def some_status_def
        request_group_def) (simp add: some_lib_def)
  ultimately show ?thesis by (simp add: some_mpi_state_def)
qed

lemma some_table_holds: "pending.holds (recv_requests some_mpi_state) (\<lambda>_. None)"
proof -
  from table_new_ok [of some_cells some_overflow] some_table_new have "table_ok some_table" "requests some_table = {#}"
    by (auto simp: some_cells_def some_overflow_def)
  then show ?thesis using pending.holds_empty by (simp add: some_mpi_state_def)
qed

theorem many_requests_overflow_witness:
  "MPI_Testsome_C_Wrapper some_lib some_mpi_options 1 2 (replicate 16385 7) (MPI_SUCCESS, 0, [], []) some_mpi_state = Inl OutOfBounds \<and>
   (\<exists>st'. MPI_Waitall_C_Wrapper some_lib some_mpi_options 1 2 [7] (MPI_SUCCESS, [some_status 1 False]) some_mpi_state = Inr (MPI_SUCCESS, st'))"
  using many_requests_overflow [OF some_world some_table_holds, where reqs = "replicate 16385 7" and ss = "[]"]
    many_requests_overflow [OF some_world some_table_holds, where reqs = "[7]" and ss = "[some_status 1 False]"]
  by (simp add: MAX_WAIT_REQUESTS_def some_status_ok)

theorem empty_send_size_witness:
  "MPI_Ssend_C_Wrapper some_lib some_mpi_options 1 2 0 1 1 7 1 MPI_SUCCESS some_mpi_state = Inl Uninitialised \<and>
   (\<exists>st'. MPI_Send_C_Wrapper some_lib some_mpi_options 1 2 0 1 1 7 1 MPI_SUCCESS some_mpi_state = Inr (MPI_SUCCESS, st') \<and>
      traced st' = [mpi_event some_mpi_options 1 MPI_SEND_EV EVT_BEGIN 1 0 7 1 0, mpi_event some_mpi_options 2 MPI_SEND_EV EVT_END 1 0 7 1 0])"
proof -
  have "known_rank some_lib some_mpi_options 1" by (simp add: known_rank_def some_mpi_options_def in_range_def)
  moreover have "get_rank_obj_C some_lib 1 1 = Inr 1" by (simp add: get_rank_obj_C_def some_lib_def)
  ultimately show ?thesis using empty_send_size [OF some_world some_comm, of 1 1 2 1 7 1 MPI_SUCCESS]
    by (simp add: zeroing_sends_def) (simp add: some_mpi_state_def)
qed

end
