(* ===== verification/MpiColl.thy ===== *)
theory MpiColl
  imports MpiP2p
begin

text \<open>
  The wrappers of the collective operations,
  \<open>trunk/dependencies/extrae/src/tracer/wrappers/MPI/mpi_wrapper_coll_c.c\<close> and \<open>mpi_wrapper_coll_f.c\<close>, with the
  tracer in the detail mode. They are given what \<open>MpiP2p\<close> describes; \<open>g\<close> is the number of the global
  operation (\<open>Extrae_MPI_getCurrentOpGlobal\<close>). The operations of a pair that differ in \<open>I\<close> only, one of which does
  not block, have the same text but for the type of the event, and so have most of the wrappers for C and
  for Fortran, whose names begin with \<open>PMPI\<close>. \<open>zeroed\<close> says that the size of a datatype that is not asked for is
  set to 0: the wrappers for Fortran do it, those for C do not.

  An array of counts is null or a list. The arguments of \<open>TRACE_MPIEVENT\<close> are evaluated if the event is traced.
\<close>

section \<open>Sizes\<close>

type_synonym counts = "INT32 list option"

definition element_size :: "mpi_lib \<Rightarrow> bool \<Rightarrow> bool \<Rightarrow> MPI_Datatype \<Rightarrow> INT32 option res" where
  "element_size lib zeroed needed datatype =
     (if needed then andthen (MPI_CHECK (PMPI_Type_size lib datatype)) (\<lambda>sz. Inr (Some sz))
      else Inr (if zeroed then Some 0 else None))"

definition bytes_for :: "INT32 \<Rightarrow> INT32 option \<Rightarrow> INT32 res" where
  "bytes_for n sz = andthen (read_local sz) (\<lambda>sz. Inr (n * sz))"

text \<open>\<open>for (proc = 0; proc < csize; proc++) total += counts[proc]\<close>\<close>

definition total :: "INT32 \<Rightarrow> counts \<Rightarrow> INT32 res" where
  "total csize counts = (case counts of
     None \<Rightarrow> Inr 0
   | Some cs \<Rightarrow> if nat (sint csize) \<le> length cs then Inr (sum_list (take (nat (sint csize)) cs)) else Inl OutOfBounds)"

definition own_count :: "INT32 \<Rightarrow> counts \<Rightarrow> INT32 res" where
  "own_count me counts = (case counts of None \<Rightarrow> Inl NullPointer | Some cs \<Rightarrow> array_get cs (sint me))"

definition communicator :: "mpi_lib \<Rightarrow> MPI_Comm \<Rightarrow> (INT32 \<times> INT32) res" where
  "communicator lib comm =
     andthen (MPI_CHECK (PMPI_Comm_rank lib comm)) (\<lambda>me.
     andthen (MPI_CHECK (PMPI_Comm_size lib comm)) (\<lambda>csize. Inr (me, csize)))"

definition collective_stats :: "INT32 res \<Rightarrow> INT32 res \<Rightarrow> mpi_state \<Rightarrow> mpi_state res" where
  "collective_stats received sent st =
     andthen received (\<lambda>inputSize. andthen sent (\<lambda>outputSize. with_stats (updateStats_COLLECTIVE inputSize outputSize) st))"

definition if_traced :: "mpi_options \<Rightarrow> 'a::zero res \<Rightarrow> 'a res" where
  "if_traced opts x = (if tracejant opts \<and> tracejant_mpi opts \<and> TracingBitmap_TASKID opts then x else Inr 0)"

definition as_long :: "INT32 res \<Rightarrow> 64 word res" where
  "as_long x = andthen x (\<lambda>n. Inr (scast n))"

text \<open>The two events, around the call, and the statistics: the end of every wrapper.\<close>

definition collective ::
  "INT32 \<Rightarrow> INT32 \<Rightarrow> mpi_lib \<Rightarrow> mpi_options \<Rightarrow> 64 word \<Rightarrow> UINT64 \<Rightarrow> UINT64 \<Rightarrow> MPI_Comm \<Rightarrow> INT32 \<Rightarrow> INT32 \<Rightarrow>
   64 word res \<Rightarrow> INT32 res \<Rightarrow> 64 word res \<Rightarrow> (mpi_state \<Rightarrow> mpi_state res) \<Rightarrow> INT32 \<Rightarrow> wrapped_call" where
  "collective ev ev_end lib opts g t0 t1 comm me csize target sz aux stats ret st =
     andthen (if_traced opts target) (\<lambda>target.
     andthen (if_traced opts sz) (\<lambda>sz.
     andthen (if_traced opts aux) (\<lambda>aux.
     andthen (TRACE_MPIEVENT lib opts t0 ev EVT_BEGIN target sz me comm aux st) (\<lambda>st.
     andthen (TRACE_MPIEVENT lib opts t1 ev_end EVT_END 0 csize 0 comm g st) (\<lambda>st.
     andthen (stats st) (\<lambda>st. Inr (ret, st)))))))"

lemma ucast_scast: "ucast (scast (n :: INT32) :: 64 word) = n"
  by (rule bit_word_eqI) (auto simp: bit_ucast_iff bit_signed_iff)

section \<open>Reductions, barriers and broadcasts\<close>

definition reduce_wrapper ::
  "INT32 \<Rightarrow> mpi_lib \<Rightarrow> mpi_options \<Rightarrow> 64 word \<Rightarrow> UINT64 \<Rightarrow> UINT64 \<Rightarrow> INT32 \<Rightarrow> MPI_Datatype \<Rightarrow> 64 word \<Rightarrow> INT32 \<Rightarrow> MPI_Comm \<Rightarrow> INT32 \<Rightarrow> wrapped_call" where
  "reduce_wrapper ev lib opts g t0 t1 cnt datatype op root comm ret st =
     andthen (communicator lib comm) (\<lambda>(me, csize).
     andthen (element_size lib False (cnt \<noteq> 0) datatype) (\<lambda>sz.
     andthen (bytes_for cnt sz) (\<lambda>sz.
       collective ev ev lib opts g t0 t1 comm me csize (Inr op) (Inr sz) (Inr (scast root))
         (if me = root then collective_stats (Inr sz) (Inr 0) else collective_stats (Inr 0) (Inr sz)) ret st)))"

definition MPI_Reduce_C_Wrapper where "MPI_Reduce_C_Wrapper = reduce_wrapper MPI_REDUCE_EV"
definition MPI_Ireduce_C_Wrapper where "MPI_Ireduce_C_Wrapper = reduce_wrapper MPI_IREDUCE_EV"
definition PMPI_Reduce_Wrapper where "PMPI_Reduce_Wrapper = reduce_wrapper MPI_REDUCE_EV"
definition PMPI_Ireduce_Wrapper where "PMPI_Ireduce_Wrapper = reduce_wrapper MPI_IREDUCE_EV"

definition allreduce_wrapper ::
  "INT32 \<Rightarrow> mpi_lib \<Rightarrow> mpi_options \<Rightarrow> 64 word \<Rightarrow> UINT64 \<Rightarrow> UINT64 \<Rightarrow> INT32 \<Rightarrow> MPI_Datatype \<Rightarrow> 64 word \<Rightarrow> MPI_Comm \<Rightarrow> INT32 \<Rightarrow> wrapped_call" where
  "allreduce_wrapper ev lib opts g t0 t1 cnt datatype op comm ret st =
     andthen (communicator lib comm) (\<lambda>(me, csize).
     andthen (element_size lib False (cnt \<noteq> 0) datatype) (\<lambda>sz.
     andthen (bytes_for cnt sz) (\<lambda>sz.
       collective ev ev lib opts g t0 t1 comm me csize (Inr op) (Inr sz) (Inr 0)
         (collective_stats (Inr sz) (Inr sz)) ret st)))"

definition MPI_Allreduce_C_Wrapper where "MPI_Allreduce_C_Wrapper = allreduce_wrapper MPI_ALLREDUCE_EV"
definition MPI_Iallreduce_C_Wrapper where "MPI_Iallreduce_C_Wrapper = allreduce_wrapper MPI_IALLREDUCE_EV"
definition PMPI_AllReduce_Wrapper where "PMPI_AllReduce_Wrapper = allreduce_wrapper MPI_ALLREDUCE_EV"
definition PMPI_IallReduce_Wrapper where "PMPI_IallReduce_Wrapper = allreduce_wrapper MPI_IALLREDUCE_EV"

definition barrier_wrapper ::
  "INT32 \<Rightarrow> mpi_lib \<Rightarrow> mpi_options \<Rightarrow> 64 word \<Rightarrow> UINT64 \<Rightarrow> UINT64 \<Rightarrow> MPI_Comm \<Rightarrow> INT32 \<Rightarrow> wrapped_call" where
  "barrier_wrapper ev lib opts g t0 t1 comm ret st =
     andthen (communicator lib comm) (\<lambda>(me, csize).
       collective ev ev lib opts g t0 t1 comm me csize (Inr 0) (Inr 0) (Inr 0) (collective_stats (Inr 0) (Inr 0)) ret st)"

definition MPI_Barrier_C_Wrapper where "MPI_Barrier_C_Wrapper = barrier_wrapper MPI_BARRIER_EV"
definition MPI_Ibarrier_C_Wrapper where "MPI_Ibarrier_C_Wrapper = barrier_wrapper MPI_IBARRIER_EV"
definition PMPI_Barrier_Wrapper where "PMPI_Barrier_Wrapper = barrier_wrapper MPI_BARRIER_EV"
definition PMPI_Ibarrier_Wrapper where "PMPI_Ibarrier_Wrapper = barrier_wrapper MPI_IBARRIER_EV"

definition bcast_wrapper ::
  "INT32 \<Rightarrow> mpi_lib \<Rightarrow> mpi_options \<Rightarrow> 64 word \<Rightarrow> UINT64 \<Rightarrow> UINT64 \<Rightarrow> INT32 \<Rightarrow> MPI_Datatype \<Rightarrow> INT32 \<Rightarrow> MPI_Comm \<Rightarrow> INT32 \<Rightarrow> wrapped_call" where
  "bcast_wrapper ev lib opts g t0 t1 cnt datatype root comm ret st =
     andthen (element_size lib False (cnt \<noteq> 0) datatype) (\<lambda>sz.
     andthen (bytes_for cnt sz) (\<lambda>sz.
     andthen (communicator lib comm) (\<lambda>(me, csize).
       collective ev ev lib opts g t0 t1 comm me csize (Inr (scast root)) (Inr sz) (Inr 0)
         (if me = root then collective_stats (Inr 0) (Inr sz) else collective_stats (Inr sz) (Inr 0)) ret st)))"

text \<open>For Fortran the communicator is asked about first.\<close>

definition bcast_f_wrapper ::
  "INT32 \<Rightarrow> mpi_lib \<Rightarrow> mpi_options \<Rightarrow> 64 word \<Rightarrow> UINT64 \<Rightarrow> UINT64 \<Rightarrow> INT32 \<Rightarrow> MPI_Datatype \<Rightarrow> INT32 \<Rightarrow> MPI_Comm \<Rightarrow> INT32 \<Rightarrow> wrapped_call" where
  "bcast_f_wrapper ev lib opts g t0 t1 cnt datatype root comm ret st =
     andthen (communicator lib comm) (\<lambda>(me, csize).
     andthen (element_size lib False (cnt \<noteq> 0) datatype) (\<lambda>sz.
     andthen (bytes_for cnt sz) (\<lambda>sz.
       collective ev ev lib opts g t0 t1 comm me csize (Inr (scast root)) (Inr sz) (Inr 0)
         (if me = root then collective_stats (Inr 0) (Inr sz) else collective_stats (Inr sz) (Inr 0)) ret st)))"

definition MPI_BCast_C_Wrapper where "MPI_BCast_C_Wrapper = bcast_wrapper MPI_BCAST_EV"
definition MPI_Ibcast_C_Wrapper where "MPI_Ibcast_C_Wrapper = bcast_wrapper MPI_IBCAST_EV"
definition PMPI_BCast_Wrapper where "PMPI_BCast_Wrapper = bcast_f_wrapper MPI_BCAST_EV"
definition PMPI_Ibcast_Wrapper where "PMPI_Ibcast_Wrapper = bcast_f_wrapper MPI_IBCAST_EV"

section \<open>Exchanges\<close>

definition alltoall_wrapper ::
  "INT32 \<Rightarrow> bool \<Rightarrow> mpi_lib \<Rightarrow> mpi_options \<Rightarrow> 64 word \<Rightarrow> UINT64 \<Rightarrow> UINT64 \<Rightarrow> INT32 \<Rightarrow> MPI_Datatype \<Rightarrow> INT32 \<Rightarrow> MPI_Datatype \<Rightarrow> MPI_Comm \<Rightarrow> INT32 \<Rightarrow> wrapped_call" where
  "alltoall_wrapper ev zeroed lib opts g t0 t1 sendcount sendtype recvcount recvtype comm ret st =
     andthen (element_size lib zeroed (sendcount \<noteq> 0) sendtype) (\<lambda>sendsize.
     andthen (element_size lib zeroed (recvcount \<noteq> 0) recvtype) (\<lambda>recvsize.
     andthen (communicator lib comm) (\<lambda>(me, csize).
       collective ev ev lib opts g t0 t1 comm me csize (as_long (bytes_for recvcount recvsize)) (bytes_for sendcount sendsize) (Inr 0)
         (collective_stats (bytes_for recvcount recvsize) (bytes_for sendcount sendsize)) ret st)))"

definition MPI_Alltoall_C_Wrapper where "MPI_Alltoall_C_Wrapper = alltoall_wrapper MPI_ALLTOALL_EV False"
definition MPI_Ialltoall_C_Wrapper where "MPI_Ialltoall_C_Wrapper = alltoall_wrapper MPI_IALLTOALL_EV False"
definition PMPI_AllToAll_Wrapper where "PMPI_AllToAll_Wrapper = alltoall_wrapper MPI_ALLTOALL_EV True"
definition PMPI_IallToAll_Wrapper where "PMPI_IallToAll_Wrapper = alltoall_wrapper MPI_IALLTOALL_EV True"

definition alltoallv_wrapper ::
  "INT32 \<Rightarrow> bool \<Rightarrow> mpi_lib \<Rightarrow> mpi_options \<Rightarrow> 64 word \<Rightarrow> UINT64 \<Rightarrow> UINT64 \<Rightarrow> counts \<Rightarrow> MPI_Datatype \<Rightarrow> counts \<Rightarrow> MPI_Datatype \<Rightarrow> MPI_Comm \<Rightarrow> INT32 \<Rightarrow> wrapped_call" where
  "alltoallv_wrapper ev zeroed lib opts g t0 t1 sendcounts sendtype recvcounts recvtype comm ret st =
     andthen (element_size lib zeroed (sendcounts \<noteq> None) sendtype) (\<lambda>sendsize.
     andthen (element_size lib zeroed (recvcounts \<noteq> None) recvtype) (\<lambda>recvsize.
     andthen (communicator lib comm) (\<lambda>(me, csize).
     andthen (total csize sendcounts) (\<lambda>sendc.
     andthen (total csize recvcounts) (\<lambda>recvc.
       collective ev ev lib opts g t0 t1 comm me csize (as_long (bytes_for recvc recvsize)) (bytes_for sendc sendsize) (Inr 0)
         (collective_stats (bytes_for recvc recvsize) (bytes_for sendc sendsize)) ret st)))))"

definition MPI_Alltoallv_C_Wrapper where "MPI_Alltoallv_C_Wrapper = alltoallv_wrapper MPI_ALLTOALLV_EV False"
definition MPI_Ialltoallv_C_Wrapper where "MPI_Ialltoallv_C_Wrapper = alltoallv_wrapper MPI_IALLTOALLV_EV False"
definition PMPI_AllToAllV_Wrapper where "PMPI_AllToAllV_Wrapper = alltoallv_wrapper MPI_ALLTOALLV_EV True"
definition PMPI_IallToAllV_Wrapper where "PMPI_IallToAllV_Wrapper = alltoallv_wrapper MPI_IALLTOALLV_EV True"

definition allgather_wrapper ::
  "INT32 \<Rightarrow> bool \<Rightarrow> mpi_lib \<Rightarrow> mpi_options \<Rightarrow> 64 word \<Rightarrow> UINT64 \<Rightarrow> UINT64 \<Rightarrow> INT32 \<Rightarrow> MPI_Datatype \<Rightarrow> INT32 \<Rightarrow> MPI_Datatype \<Rightarrow> MPI_Comm \<Rightarrow> INT32 \<Rightarrow> wrapped_call" where
  "allgather_wrapper ev zeroed lib opts g t0 t1 sendcount sendtype recvcount recvtype comm ret st =
     andthen (element_size lib zeroed (sendcount \<noteq> 0) sendtype) (\<lambda>sendsize.
     andthen (element_size lib zeroed (recvcount \<noteq> 0) recvtype) (\<lambda>recvsize.
     andthen (communicator lib comm) (\<lambda>(me, csize).
       let received = bytes_for (recvcount * csize) recvsize; sent = bytes_for sendcount sendsize in
       collective ev ev lib opts g t0 t1 comm me csize (Inr 0) sent (as_long received) (collective_stats received sent) ret st)))"

definition MPI_Allgather_C_Wrapper where "MPI_Allgather_C_Wrapper = allgather_wrapper MPI_ALLGATHER_EV False"
definition MPI_Iallgather_C_Wrapper where "MPI_Iallgather_C_Wrapper = allgather_wrapper MPI_IALLGATHER_EV False"
definition PMPI_Allgather_Wrapper where "PMPI_Allgather_Wrapper = allgather_wrapper MPI_ALLGATHER_EV True"
definition PMPI_Iallgather_Wrapper where "PMPI_Iallgather_Wrapper = allgather_wrapper MPI_IALLGATHER_EV True"

text \<open>For Fortran the pointer to the count is compared with null, and never is.\<close>

definition allgatherv_wrapper ::
  "INT32 \<Rightarrow> bool \<Rightarrow> mpi_lib \<Rightarrow> mpi_options \<Rightarrow> 64 word \<Rightarrow> UINT64 \<Rightarrow> UINT64 \<Rightarrow> INT32 \<Rightarrow> MPI_Datatype \<Rightarrow> counts \<Rightarrow> MPI_Datatype \<Rightarrow> MPI_Comm \<Rightarrow> INT32 \<Rightarrow> wrapped_call" where
  "allgatherv_wrapper ev fortran lib opts g t0 t1 sendcount sendtype recvcounts recvtype comm ret st =
     andthen (element_size lib fortran (fortran \<or> sendcount \<noteq> 0) sendtype) (\<lambda>sendsize.
     andthen (element_size lib fortran (recvcounts \<noteq> None) recvtype) (\<lambda>recvsize.
     andthen (communicator lib comm) (\<lambda>(me, csize).
     andthen (total csize recvcounts) (\<lambda>recvc.
       let received = bytes_for recvc recvsize; sent = bytes_for sendcount sendsize in
       collective ev ev lib opts g t0 t1 comm me csize (Inr 0) sent (as_long received) (collective_stats received sent) ret st))))"

definition MPI_Allgatherv_C_Wrapper where "MPI_Allgatherv_C_Wrapper = allgatherv_wrapper MPI_ALLGATHERV_EV False"
definition MPI_Iallgatherv_C_Wrapper where "MPI_Iallgatherv_C_Wrapper = allgatherv_wrapper MPI_IALLGATHERV_EV False"
definition PMPI_Allgatherv_Wrapper where "PMPI_Allgatherv_Wrapper = allgatherv_wrapper MPI_ALLGATHERV_EV True"
definition PMPI_Iallgatherv_Wrapper where "PMPI_Iallgatherv_Wrapper = allgatherv_wrapper MPI_IALLGATHERV_EV True"

section \<open>Gathers and scatters\<close>

definition gather_wrapper ::
  "INT32 \<Rightarrow> bool \<Rightarrow> mpi_lib \<Rightarrow> mpi_options \<Rightarrow> 64 word \<Rightarrow> UINT64 \<Rightarrow> UINT64 \<Rightarrow> INT32 \<Rightarrow> MPI_Datatype \<Rightarrow> INT32 \<Rightarrow> MPI_Datatype \<Rightarrow> INT32 \<Rightarrow> MPI_Comm \<Rightarrow> INT32 \<Rightarrow> wrapped_call" where
  "gather_wrapper ev zeroed lib opts g t0 t1 sendcount sendtype recvcount recvtype root comm ret st =
     andthen (element_size lib zeroed (sendcount \<noteq> 0) sendtype) (\<lambda>sendsize.
     andthen (element_size lib zeroed (recvcount \<noteq> 0) recvtype) (\<lambda>recvsize.
     andthen (communicator lib comm) (\<lambda>(me, csize).
       let received = bytes_for (recvcount * csize) recvsize; sent = bytes_for sendcount sendsize in
       collective ev ev lib opts g t0 t1 comm me csize (Inr (scast root)) sent (if me = root then as_long received else Inr 0)
         (if me = root then collective_stats received (Inr 0) else collective_stats (Inr 0) sent) ret st)))"

definition MPI_Gather_C_Wrapper where "MPI_Gather_C_Wrapper = gather_wrapper MPI_GATHER_EV False"
definition MPI_Igather_C_Wrapper where "MPI_Igather_C_Wrapper = gather_wrapper MPI_IGATHER_EV False"
definition PMPI_Gather_Wrapper where "PMPI_Gather_Wrapper = gather_wrapper MPI_GATHER_EV True"
definition PMPI_Igather_Wrapper where "PMPI_Igather_Wrapper = gather_wrapper MPI_IGATHER_EV True"

text \<open>For Fortran the end of the gather that does not block is traced as that of the one that does.\<close>

definition gatherv_wrapper ::
  "INT32 \<Rightarrow> INT32 \<Rightarrow> bool \<Rightarrow> mpi_lib \<Rightarrow> mpi_options \<Rightarrow> 64 word \<Rightarrow> UINT64 \<Rightarrow> UINT64 \<Rightarrow> INT32 \<Rightarrow> MPI_Datatype \<Rightarrow> counts \<Rightarrow> MPI_Datatype \<Rightarrow> INT32 \<Rightarrow> MPI_Comm \<Rightarrow> INT32 \<Rightarrow> wrapped_call" where
  "gatherv_wrapper ev ev_end zeroed lib opts g t0 t1 sendcount sendtype recvcounts recvtype root comm ret st =
     andthen (element_size lib zeroed (sendcount \<noteq> 0) sendtype) (\<lambda>sendsize.
     andthen (element_size lib False (recvcounts \<noteq> None) recvtype) (\<lambda>recvsize.
     andthen (communicator lib comm) (\<lambda>(me, csize).
     andthen (if me = root then total csize recvcounts else Inr 0) (\<lambda>recvc.
       let received = bytes_for recvc recvsize; sent = bytes_for sendcount sendsize in
       collective ev ev_end lib opts g t0 t1 comm me csize (Inr (scast root)) sent (if me = root then as_long received else Inr 0)
         (if me = root then collective_stats received (Inr 0) else collective_stats (Inr 0) sent) ret st))))"

definition MPI_Gatherv_C_Wrapper where "MPI_Gatherv_C_Wrapper = gatherv_wrapper MPI_GATHERV_EV MPI_GATHERV_EV False"
definition MPI_Igatherv_C_Wrapper where "MPI_Igatherv_C_Wrapper = gatherv_wrapper MPI_IGATHERV_EV MPI_IGATHERV_EV False"
definition PMPI_GatherV_Wrapper where "PMPI_GatherV_Wrapper = gatherv_wrapper MPI_GATHERV_EV MPI_GATHERV_EV True"
definition PMPI_IgatherV_Wrapper where "PMPI_IgatherV_Wrapper = gatherv_wrapper MPI_IGATHERV_EV MPI_GATHERV_EV True"

definition scatter_wrapper ::
  "INT32 \<Rightarrow> bool \<Rightarrow> mpi_lib \<Rightarrow> mpi_options \<Rightarrow> 64 word \<Rightarrow> UINT64 \<Rightarrow> UINT64 \<Rightarrow> INT32 \<Rightarrow> MPI_Datatype \<Rightarrow> INT32 \<Rightarrow> MPI_Datatype \<Rightarrow> INT32 \<Rightarrow> MPI_Comm \<Rightarrow> INT32 \<Rightarrow> wrapped_call" where
  "scatter_wrapper ev zeroed lib opts g t0 t1 sendcount sendtype recvcount recvtype root comm ret st =
     andthen (element_size lib zeroed (sendcount \<noteq> 0) sendtype) (\<lambda>sendsize.
     andthen (element_size lib zeroed (recvcount \<noteq> 0) recvtype) (\<lambda>recvsize.
     andthen (communicator lib comm) (\<lambda>(me, csize).
       let received = bytes_for recvcount recvsize; sent = bytes_for (sendcount * csize) sendsize in
       collective ev ev lib opts g t0 t1 comm me csize (Inr (scast root)) (if me = root then sent else Inr 0) (as_long received)
         (if me = root then collective_stats (Inr 0) sent else collective_stats received (Inr 0)) ret st)))"

definition MPI_Scatter_C_Wrapper where "MPI_Scatter_C_Wrapper = scatter_wrapper MPI_SCATTER_EV False"
definition MPI_Iscatter_C_Wrapper where "MPI_Iscatter_C_Wrapper = scatter_wrapper MPI_ISCATTER_EV False"
definition PMPI_Scatter_Wrapper where "PMPI_Scatter_Wrapper = scatter_wrapper MPI_SCATTER_EV True"
definition PMPI_Iscatter_Wrapper where "PMPI_Iscatter_Wrapper = scatter_wrapper MPI_ISCATTER_EV True"

definition scatterv_wrapper ::
  "INT32 \<Rightarrow> bool \<Rightarrow> mpi_lib \<Rightarrow> mpi_options \<Rightarrow> 64 word \<Rightarrow> UINT64 \<Rightarrow> UINT64 \<Rightarrow> counts \<Rightarrow> MPI_Datatype \<Rightarrow> INT32 \<Rightarrow> MPI_Datatype \<Rightarrow> INT32 \<Rightarrow> MPI_Comm \<Rightarrow> INT32 \<Rightarrow> wrapped_call" where
  "scatterv_wrapper ev zeroed lib opts g t0 t1 sendcounts sendtype recvcount recvtype root comm ret st =
     andthen (element_size lib zeroed (sendcounts \<noteq> None) sendtype) (\<lambda>sendsize.
     andthen (element_size lib zeroed (recvcount \<noteq> 0) recvtype) (\<lambda>recvsize.
     andthen (communicator lib comm) (\<lambda>(me, csize).
     andthen (if me = root then total csize sendcounts else Inr 0) (\<lambda>sendc.
       let received = bytes_for recvcount recvsize; sent = bytes_for sendc sendsize in
       collective ev ev lib opts g t0 t1 comm me csize (Inr (scast root)) (if me = root then sent else Inr 0) (as_long received)
         (if me = root then collective_stats (Inr 0) sent else collective_stats received (Inr 0)) ret st))))"

definition MPI_Scatterv_C_Wrapper where "MPI_Scatterv_C_Wrapper = scatterv_wrapper MPI_SCATTERV_EV False"
definition MPI_Iscatterv_C_Wrapper where "MPI_Iscatterv_C_Wrapper = scatterv_wrapper MPI_ISCATTERV_EV False"
definition PMPI_ScatterV_Wrapper where "PMPI_ScatterV_Wrapper = scatterv_wrapper MPI_SCATTERV_EV True"
definition PMPI_IscatterV_Wrapper where "PMPI_IscatterV_Wrapper = scatterv_wrapper MPI_ISCATTERV_EV True"

section \<open>Reductions with a scatter, and scans\<close>

text \<open>For Fortran the bytes of the whole vector and those received are not traced, but the size of an element.\<close>

definition reduce_scatter_wrapper ::
  "INT32 \<Rightarrow> bool \<Rightarrow> mpi_lib \<Rightarrow> mpi_options \<Rightarrow> 64 word \<Rightarrow> UINT64 \<Rightarrow> UINT64 \<Rightarrow> counts \<Rightarrow> MPI_Datatype \<Rightarrow> 64 word \<Rightarrow> MPI_Comm \<Rightarrow> INT32 \<Rightarrow> wrapped_call" where
  "reduce_scatter_wrapper ev fortran lib opts g t0 t1 recvcounts datatype op comm ret st =
     andthen (MPI_CHECK (PMPI_Comm_rank lib comm)) (\<lambda>me.
     andthen (element_size lib fortran (recvcounts \<noteq> None) datatype) (\<lambda>sz.
     andthen (MPI_CHECK (PMPI_Comm_size lib comm)) (\<lambda>csize.
     andthen (total csize recvcounts) (\<lambda>sendcount.
       let sent = bytes_for sendcount sz; received = andthen (own_count me recvcounts) (\<lambda>n. bytes_for n sz) in
       collective ev ev lib opts g t0 t1 comm me csize (Inr op) (if fortran then read_local sz else sent)
         (if fortran then Inr 0 else as_long received)
         (if me = 0 then collective_stats sent sent else collective_stats received sent) ret st))))"

definition MPI_Reduce_Scatter_C_Wrapper where "MPI_Reduce_Scatter_C_Wrapper = reduce_scatter_wrapper MPI_REDUCESCAT_EV False"
definition MPI_Ireduce_Scatter_C_Wrapper where "MPI_Ireduce_Scatter_C_Wrapper = reduce_scatter_wrapper MPI_IREDUCESCAT_EV False"
definition PMPI_Reduce_Scatter_Wrapper where "PMPI_Reduce_Scatter_Wrapper = reduce_scatter_wrapper MPI_REDUCESCAT_EV True"
definition PMPI_Ireduce_Scatter_Wrapper where "PMPI_Ireduce_Scatter_Wrapper = reduce_scatter_wrapper MPI_IREDUCESCAT_EV True"

text \<open>A wrapper that traces a beginning and an end, and counts.\<close>

definition plain_wrapper :: "INT32 \<Rightarrow> INT32 \<Rightarrow> mpi_lib \<Rightarrow> mpi_options \<Rightarrow> UINT64 \<Rightarrow> UINT64 \<Rightarrow> INT32 \<Rightarrow> wrapped_call" where
  "plain_wrapper ev ev_end lib opts t0 t1 ret st =
     andthen (TRACE_MPIEVENT lib opts t0 ev EVT_BEGIN 0 0 0 0 0 st) (\<lambda>st.
     andthen (TRACE_MPIEVENT lib opts t1 ev_end EVT_END 0 0 0 0 0 st) (\<lambda>st.
     andthen (with_stats updateStats_OTHER st) (\<lambda>st. Inr (ret, st))))"

definition MPI_Comm_rank_C_Wrapper where "MPI_Comm_rank_C_Wrapper = plain_wrapper MPI_COMM_RANK_EV MPI_COMM_RANK_EV"

text \<open>
  The scans for C ask for the rank with \<open>MPI_Comm_rank\<close>, which is the tracer's own: it is traced and counted
  before the scan is. \<open>ta\<close> is the reading of the clock at its beginning; the one at its end, \<open>t0\<close>, is the last
  before the event of the scan. What the interface of \<open>MPI_Comm_rank\<close> does around its wrapper (room in the
  buffer, the mode of tracing) is left out, as for all wrappers.
\<close>

definition traced_rank :: "mpi_lib \<Rightarrow> mpi_options \<Rightarrow> UINT64 \<Rightarrow> UINT64 \<Rightarrow> MPI_Comm \<Rightarrow> mpi_state \<Rightarrow> (INT32 \<times> mpi_state) res" where
  "traced_rank lib opts ta t0 comm st =
     andthen (MPI_Comm_rank_C_Wrapper lib opts ta t0 MPI_SUCCESS st) (\<lambda>(ierror, st).
     andthen (MPI_CHECK (PMPI_Comm_rank lib comm)) (\<lambda>me. Inr (me, st)))"

definition scan_as ::
  "INT32 \<Rightarrow> bool \<Rightarrow> mpi_lib \<Rightarrow> mpi_options \<Rightarrow> 64 word \<Rightarrow> UINT64 \<Rightarrow> UINT64 \<Rightarrow> INT32 \<Rightarrow> MPI_Datatype \<Rightarrow> 64 word \<Rightarrow> MPI_Comm \<Rightarrow> INT32 \<Rightarrow> INT32 \<Rightarrow> wrapped_call" where
  "scan_as ev zeroed lib opts g t0 t1 cnt datatype op comm ret me st =
     andthen (element_size lib zeroed (cnt \<noteq> 0) datatype) (\<lambda>sz.
     andthen (MPI_CHECK (PMPI_Comm_size lib comm)) (\<lambda>csize.
       collective ev ev lib opts g t0 t1 comm me csize (Inr op) (bytes_for cnt sz) (Inr 0)
         (\<lambda>st. andthen (if me \<noteq> csize - 1 then collective_stats (Inr 0) (bytes_for cnt sz) st else Inr st) (\<lambda>st.
                if me \<noteq> 0 then collective_stats (bytes_for cnt sz) (Inr 0) st else Inr st)) ret st))"

definition scan_wrapper ::
  "INT32 \<Rightarrow> mpi_lib \<Rightarrow> mpi_options \<Rightarrow> 64 word \<Rightarrow> UINT64 \<Rightarrow> UINT64 \<Rightarrow> UINT64 \<Rightarrow> INT32 \<Rightarrow> MPI_Datatype \<Rightarrow> 64 word \<Rightarrow> MPI_Comm \<Rightarrow> INT32 \<Rightarrow> wrapped_call" where
  "scan_wrapper ev lib opts g ta t0 t1 cnt datatype op comm ret st =
     andthen (traced_rank lib opts ta t0 comm st) (\<lambda>(me, st). scan_as ev False lib opts g t0 t1 cnt datatype op comm ret me st)"

definition MPI_Scan_C_Wrapper where "MPI_Scan_C_Wrapper = scan_wrapper MPI_SCAN_EV"
definition MPI_Iscan_C_Wrapper where "MPI_Iscan_C_Wrapper = scan_wrapper MPI_ISCAN_EV"

definition scan_f_wrapper ::
  "INT32 \<Rightarrow> mpi_lib \<Rightarrow> mpi_options \<Rightarrow> 64 word \<Rightarrow> UINT64 \<Rightarrow> UINT64 \<Rightarrow> INT32 \<Rightarrow> MPI_Datatype \<Rightarrow> 64 word \<Rightarrow> MPI_Comm \<Rightarrow> INT32 \<Rightarrow> wrapped_call" where
  "scan_f_wrapper ev lib opts g t0 t1 cnt datatype op comm ret st =
     andthen (MPI_CHECK (PMPI_Comm_rank lib comm)) (\<lambda>me. scan_as ev True lib opts g t0 t1 cnt datatype op comm ret me st)"

definition PMPI_Scan_Wrapper where "PMPI_Scan_Wrapper = scan_f_wrapper MPI_SCAN_EV"
definition PMPI_Iscan_Wrapper where "PMPI_Iscan_Wrapper = scan_f_wrapper MPI_ISCAN_EV"

end
