(* ===== verification/TimeSync.thy ===== *)
theory TimeSync
  imports EventRecord
begin

text \<open>
  The synchronisation of the tasks' clocks, \<open>trunk/dependencies/extrae/src/common/timesync.c\<close>: the
  merger gives the module the time of the first event and of a common point of every task, and the
  module computes what to add to the times of each task.

  The static tables are the fields of \<open>time_sync\<close>, \<open>None\<close> before they are
  allocated and after they are freed; \<open>TotalNodes\<close> is the length of \<open>NodeList\<close>.
  The arithmetic is that of 64-bit words. A task is \<open>(application, task)\<close>, both from 0.
\<close>

record SyncInfo_t =
  si_init :: bool
  si_init_time :: UINT64
  si_sync_time :: UINT64
  si_node_id :: int

record time_sync =
  LatencyTable :: "INT64 list list option"
  SyncInfo :: "SyncInfo_t list list option"
  TotalAppsToSync :: int
  TotalTasksToSync :: "int list option"
  NodeList :: "string list"
  TimeSync_Initialized :: bool

definition no_sync :: time_sync where
  "no_sync = \<lparr>LatencyTable = None, SyncInfo = None, TotalAppsToSync = 0, TotalTasksToSync = None,
     NodeList = [], TimeSync_Initialized = False\<rparr>"

datatype sync_strategy = TS_NODE | TS_TASK | TS_DEFAULT | TS_NOSYNC

section \<open>The tables\<close>

definition Get_NodeId :: "allocator \<Rightarrow> string \<Rightarrow> time_sync \<Rightarrow> (int \<times> time_sync) res" where
  "Get_NodeId alloc node ts =
     (case first_index (\<lambda>n. n = node) (NodeList ts) of
        Some i \<Rightarrow> Inr (int i, ts)
      | None \<Rightarrow>
          andthen (guard (alloc (8 * (length (NodeList ts) + 1))) NullPointer) (\<lambda>_.
          andthen (guard (alloc (length node + 1)) NullPointer) (\<lambda>_.
            Inr (int (length (NodeList ts)), ts\<lparr>NodeList := NodeList ts @ [node]\<rparr>))))"

text \<open>The bytes of an array of \<open>n\<close> elements, converted to \<open>size_t\<close>.\<close>

definition array_bytes :: "nat \<Rightarrow> int \<Rightarrow> nat" where
  "array_bytes element n = unat (word_of_int (int element * n) :: 64 word)"

fun allocate_rows :: "allocator \<Rightarrow> nat \<Rightarrow> int list \<Rightarrow> unit res" where
  "allocate_rows alloc element [] = Inr ()"
| "allocate_rows alloc element (n # ns) =
     andthen (guard (alloc (array_bytes element n)) AssertFailed) (\<lambda>_. allocate_rows alloc element ns)"

definition TimeSync_Initialize :: "allocator \<Rightarrow> int \<Rightarrow> int list option \<Rightarrow> time_sync \<Rightarrow> time_sync res" where
  "TimeSync_Initialize alloc num_appls num_tasks ts =
     andthen (guard (num_appls > 0) AssertFailed) (\<lambda>_.
     case num_tasks of
       None \<Rightarrow> Inl AssertFailed
     | Some num_tasks \<Rightarrow>
         andthen (guard (alloc (array_bytes 4 num_appls)) AssertFailed) (\<lambda>_.
         andthen (guard (num_appls \<le> int (length num_tasks)) OutOfBounds) (\<lambda>_.
           let tasks = take (nat num_appls) num_tasks in
           andthen (guard (alloc (array_bytes 8 num_appls)) AssertFailed) (\<lambda>_.
           andthen (allocate_rows alloc 8 tasks) (\<lambda>_.
           andthen (guard (alloc (array_bytes 8 num_appls)) AssertFailed) (\<lambda>_.
           andthen (allocate_rows alloc 32 tasks) (\<lambda>_.
             Inr (ts\<lparr>
               LatencyTable := Some (map (\<lambda>n. replicate (nat n) 0) tasks),
               SyncInfo := Some (map (\<lambda>n. replicate (nat n)
                 \<lparr>si_init = False, si_init_time = 0, si_sync_time = 0, si_node_id = 0\<rparr>) tasks),
               TotalAppsToSync := num_appls, TotalTasksToSync := Some tasks,
               TimeSync_Initialized := True\<rparr>)))))))) "

definition TimeSync_CleanUp :: "time_sync \<Rightarrow> time_sync" where
  "TimeSync_CleanUp ts =
     ts\<lparr>SyncInfo := None, LatencyTable := None, NodeList := [], TotalAppsToSync := 0, TotalTasksToSync := None\<rparr>"

definition followed :: "'a option \<Rightarrow> 'a res" where
  "followed p = (case p of None \<Rightarrow> Inl NullPointer | Some x \<Rightarrow> Inr x)"

definition table_get :: "'a list list option \<Rightarrow> int \<Rightarrow> int \<Rightarrow> 'a res" where
  "table_get table i j = andthen (followed table) (\<lambda>rows. andthen (array_get rows i) (\<lambda>row. array_get row j))"

definition table_set :: "'a list list option \<Rightarrow> int \<Rightarrow> int \<Rightarrow> 'a \<Rightarrow> 'a list list option res" where
  "table_set table i j x =
     andthen (followed table) (\<lambda>rows. andthen (array_get rows i) (\<lambda>row.
     andthen (array_set row j x) (\<lambda>row. andthen (array_set rows i row) (\<lambda>rows. Inr (Some rows)))))"

definition TimeSync_SetInitialTime ::
  "allocator \<Rightarrow> int \<Rightarrow> int \<Rightarrow> UINT64 \<Rightarrow> UINT64 \<Rightarrow> string \<Rightarrow> time_sync \<Rightarrow> time_sync res" where
  "TimeSync_SetInitialTime alloc app task init_time sync_time node ts =
     andthen (guard (TimeSync_Initialized ts \<and> app \<ge> 0 \<and> app < TotalAppsToSync ts \<and> task \<ge> 0) AssertFailed) (\<lambda>_.
     andthen (followed (TotalTasksToSync ts)) (\<lambda>tasks.
     andthen (array_get tasks app) (\<lambda>n.
     andthen (guard (task < n) AssertFailed) (\<lambda>_.
     andthen (Get_NodeId alloc node ts) (\<lambda>(node_id, ts).
     andthen (table_set (SyncInfo ts) app task
        \<lparr>si_init = True, si_init_time = init_time, si_sync_time = sync_time, si_node_id = node_id\<rparr>) (\<lambda>table.
       Inr (ts\<lparr>SyncInfo := table\<rparr>)))))))"

section \<open>The latencies\<close>

text \<open>
  The two nested loops over the applications and their tasks go through the pairs of
  \<open>all_tasks\<close> in this order.
\<close>

fun each_task :: "('i \<Rightarrow> 's \<Rightarrow> 's res) \<Rightarrow> 'i list \<Rightarrow> 's \<Rightarrow> 's res" where
  "each_task body [] s = Inr s"
| "each_task body (i # is) s = andthen (body i s) (each_task body is)"

definition all_tasks :: "time_sync \<Rightarrow> (int \<times> int) list res" where
  "all_tasks ts =
     (if TotalAppsToSync ts \<le> 0 then Inr []
      else andthen (followed (TotalTasksToSync ts)) (\<lambda>tasks.
        andthen (guard (TotalAppsToSync ts \<le> int (length tasks)) OutOfBounds) (\<lambda>_.
          Inr (concat (map (\<lambda>i. map (Pair i) [0..tasks ! nat i - 1]) [0..TotalAppsToSync ts - 1])))))"

definition latencies :: "((int \<times> int) \<Rightarrow> SyncInfo_t \<Rightarrow> UINT64 \<Rightarrow> UINT64 res) \<Rightarrow> (int \<times> int) list \<Rightarrow> time_sync \<Rightarrow> time_sync res" where
  "latencies f tasks ts =
     each_task (\<lambda>(i, j) ts.
       andthen (table_get (SyncInfo ts) i j) (\<lambda>s.
       andthen (table_get (LatencyTable ts) i j) (\<lambda>l.
       andthen (f (i, j) s l) (\<lambda>l.
       andthen (table_set (LatencyTable ts) i j l) (\<lambda>table. Inr (ts\<lparr>LatencyTable := table\<rparr>)))))) tasks ts"

definition per_task_latencies :: "(int \<times> int) list \<Rightarrow> time_sync \<Rightarrow> time_sync res" where
  "per_task_latencies tasks ts =
     andthen (each_task (\<lambda>(i, j) m. andthen (table_get (SyncInfo ts) i j) (\<lambda>s. Inr (max m (si_sync_time s)))) tasks 0)
       (\<lambda>max_sync_time. latencies (\<lambda>_ s _. Inr (max_sync_time - si_sync_time s)) tasks ts)"

definition per_node_latencies :: "allocator \<Rightarrow> (int \<times> int) list \<Rightarrow> time_sync \<Rightarrow> time_sync res" where
  "per_node_latencies alloc tasks ts =
     andthen (guard (NodeList ts = [] \<or> alloc (8 * length (NodeList ts))) NullPointer) (\<lambda>_.
     andthen (each_task (\<lambda>(i, j) per_node.
         andthen (table_get (SyncInfo ts) i j) (\<lambda>s.
         andthen (array_get per_node (si_node_id s)) (\<lambda>m.
           array_set per_node (si_node_id s) (max m (si_sync_time s))))) tasks (replicate (length (NodeList ts)) 0))
       (\<lambda>per_node.
         let max_sync_time = fold max per_node 0 in
         latencies (\<lambda>_ s _. andthen (array_get per_node (si_node_id s)) (\<lambda>m. Inr (max_sync_time - m))) tasks ts))"

text \<open>The result is the value returned, 1 or 0.\<close>

definition TimeSync_CalculateLatencies :: "allocator \<Rightarrow> sync_strategy \<Rightarrow> time_sync \<Rightarrow> (int \<times> time_sync) res" where
  "TimeSync_CalculateLatencies alloc strategy ts =
     andthen (all_tasks ts) (\<lambda>tasks.
     andthen (each_task (\<lambda>(i, j) ok. if \<not> ok then Inr ok
         else andthen (table_get (SyncInfo ts) i j) (\<lambda>s. Inr (si_init s))) tasks True)
       (\<lambda>initialised.
         if \<not> initialised then Inr (0, ts)
         else
           andthen (case strategy of
               TS_TASK \<Rightarrow> per_task_latencies tasks ts
             | TS_NODE \<Rightarrow> per_node_latencies alloc tasks ts
             | TS_DEFAULT \<Rightarrow> per_node_latencies alloc tasks ts
             | TS_NOSYNC \<Rightarrow> Inr ts) (\<lambda>ts.
           andthen (table_get (SyncInfo ts) 0 0) (\<lambda>s.
           andthen (table_get (LatencyTable ts) 0 0) (\<lambda>l.
           andthen (each_task (\<lambda>(i, j) m.
               andthen (table_get (SyncInfo ts) i j) (\<lambda>s.
               andthen (table_get (LatencyTable ts) i j) (\<lambda>l. Inr (min m (si_init_time s + l))))) tasks (si_init_time s + l))
             (\<lambda>min_init_time.
           andthen (latencies (\<lambda>_ _ l. Inr (l - min_init_time)) tasks ts) (\<lambda>ts. Inr (1, ts))))))))"

definition TimeSync :: "time_sync \<Rightarrow> int \<Rightarrow> int \<Rightarrow> UINT64 \<Rightarrow> UINT64 res" where
  "TimeSync ts app task time = andthen (table_get (LatencyTable ts) app task) (\<lambda>l. Inr (time + l))"

definition TimeDesync :: "time_sync \<Rightarrow> int \<Rightarrow> int \<Rightarrow> UINT64 \<Rightarrow> UINT64 res" where
  "TimeDesync ts app task time = andthen (table_get (LatencyTable ts) app task) (\<lambda>l. Inr (time - l))"


section \<open>Loops over the tables\<close>

type_synonym place = "int \<times> int"

definition in_table :: "'a list list \<Rightarrow> place \<Rightarrow> bool" where
  "in_table T p \<longleftrightarrow> in_range (fst p) T \<and> in_range (snd p) (T ! nat (fst p))"

definition at_place :: "'a list list \<Rightarrow> place \<Rightarrow> 'a" where
  "at_place T p = T ! nat (fst p) ! nat (snd p)"

definition put_cell :: "'a list list \<Rightarrow> place \<Rightarrow> 'a \<Rightarrow> 'a list list" where
  "put_cell T p x = T[nat (fst p) := (T ! nat (fst p))[nat (snd p) := x]]"

lemma table_get_cell: "in_table T p \<Longrightarrow> table_get (Some T) (fst p) (snd p) = Inr (at_place T p)"
  by (simp add: table_get_def followed_def in_table_def at_place_def array_get_def)

lemma table_get_pair: "in_table T (i, j) \<Longrightarrow> table_get (Some T) i j = Inr (at_place T (i, j))"
  using table_get_cell [of T "(i, j)"] by simp

lemma table_set_put: "in_table T p \<Longrightarrow> table_set (Some T) (fst p) (snd p) x = Inr (Some (put_cell T p x))"
  by (simp add: table_set_def followed_def in_table_def put_cell_def array_get_def array_set_def)

lemma table_set_pair: "in_table T (i, j) \<Longrightarrow> table_set (Some T) i j x = Inr (Some (put_cell T (i, j) x))"
  using table_set_put [of T "(i, j)"] by simp

lemma in_table_put [simp]: "in_table (put_cell T p x) q = in_table T q"
  by (cases "nat (fst p) = nat (fst q)") (auto simp: in_table_def put_cell_def in_range_def)

lemma cell_put_cell: "in_table T p \<Longrightarrow> in_table T q \<Longrightarrow> at_place (put_cell T p x) q = (if p = q then x else at_place T q)"
  by (cases p; cases q) (auto simp: in_table_def put_cell_def at_place_def in_range_def nth_list_update nat_eq_iff)

lemma each_task_total:
  "\<forall>i \<in> set is. \<forall>s. body i s = Inr (g i s) \<Longrightarrow> each_task body is s = Inr (fold g is s)"
  by (induction "is" arbitrary: s) auto

lemma latencies_result:
  assumes "LatencyTable ts = Some T" and "SyncInfo ts = Some S"
    and "\<forall>p \<in> set ps. in_table T p \<and> in_table S p" and "distinct ps"
    and "\<forall>p \<in> set ps. \<forall>l. f p (at_place S p) l = Inr (g p l)"
  shows "\<exists>T'. latencies f ps ts = Inr (ts\<lparr>LatencyTable := Some T'\<rparr>) \<and> (\<forall>q. in_table T' q = in_table T q) \<and>
    (\<forall>q. in_table T q \<longrightarrow> at_place T' q = (if q \<in> set ps then g q (at_place T q) else at_place T q))"
  using assms
proof (induction ps arbitrary: ts T)
  case Nil
  then show ?case by (intro exI [of _ T]) (simp add: latencies_def)
next
  case (Cons p ps)
  let ?T = "put_cell T p (g p (at_place T p))"
  have here: "in_table T p" "in_table S p" using Cons.prems(3) by auto
  have step: "latencies f (p # ps) ts = latencies f ps (ts\<lparr>LatencyTable := Some ?T\<rparr>)"
    using Cons.prems(1,2,5) here
    by (cases p) (simp add: latencies_def table_get_pair table_set_pair)
  obtain T' where T': "latencies f ps (ts\<lparr>LatencyTable := Some ?T\<rparr>) = Inr (ts\<lparr>LatencyTable := Some T'\<rparr>)"
    "\<forall>q. in_table T' q = in_table T q"
    "\<forall>q. in_table T q \<longrightarrow> at_place T' q = (if q \<in> set ps then g q (at_place ?T q) else at_place ?T q)"
    using Cons.IH [of "ts\<lparr>LatencyTable := Some ?T\<rparr>" ?T] Cons.prems by auto
  have "\<forall>q. in_table T q \<longrightarrow> at_place T' q = (if q \<in> set (p # ps) then g q (at_place T q) else at_place T q)"
    using T'(3) Cons.prems(4) here(1) by (auto simp: cell_put_cell)
  with step T' show ?case by auto
qed

lemma fold_max_Max: "fold (\<lambda>p m. max m (h p)) ps (m :: 64 word) = Max (insert m (h ` set ps))"
proof (induction ps arbitrary: m)
  case (Cons p ps)
  then show ?case by (cases "ps = []") (simp_all add: max.assoc max.left_commute max.commute)
qed simp

lemma fold_min_Min: "fold (\<lambda>p m. min m (h p)) ps (m :: 64 word) = Min (insert m (h ` set ps))"
proof (induction ps arbitrary: m)
  case (Cons p ps)
  then show ?case by (cases "ps = []") (simp_all add: min.assoc min.left_commute min.commute)
qed simp

text \<open>The latest point of each node.\<close>

definition latest_per_node :: "SyncInfo_t list list \<Rightarrow> place list \<Rightarrow> UINT64 list \<Rightarrow> UINT64 list res" where
  "latest_per_node S = each_task (\<lambda>(i, j) per_node.
     andthen (table_get (Some S) i j) (\<lambda>s.
     andthen (array_get per_node (si_node_id s)) (\<lambda>m.
       array_set per_node (si_node_id s) (max m (si_sync_time s)))))"

lemma latest_per_node_result:
  assumes "\<forall>p \<in> set ps. in_table S p \<and> in_range (si_node_id (at_place S p)) M"
  shows "\<exists>M'. latest_per_node S ps M = Inr M' \<and> length M' = length M \<and>
    (\<forall>k < length M. M ! k \<le> M' ! k \<and>
       (M' ! k = M ! k \<or> (\<exists>p \<in> set ps. si_node_id (at_place S p) = int k \<and> M' ! k = si_sync_time (at_place S p)))) \<and>
    (\<forall>p \<in> set ps. si_sync_time (at_place S p) \<le> M' ! nat (si_node_id (at_place S p)))"
  using assms
proof (induction ps arbitrary: M)
  case Nil
  then show ?case by (simp add: latest_per_node_def)
next
  case (Cons p ps)
  let ?k = "nat (si_node_id (at_place S p))"
  let ?M = "M[?k := max (M ! ?k) (si_sync_time (at_place S p))]"
  have k: "?k < length M" "si_node_id (at_place S p) = int ?k" using Cons.prems by (auto simp: in_range_def)
  have step: "latest_per_node S (p # ps) M = latest_per_node S ps ?M"
    using Cons.prems
    by (cases p) (simp add: latest_per_node_def table_get_pair array_get_def array_set_def)
  obtain M' where M': "latest_per_node S ps ?M = Inr M'" "length M' = length M"
    "\<forall>j < length M. ?M ! j \<le> M' ! j \<and>
       (M' ! j = ?M ! j \<or> (\<exists>q \<in> set ps. si_node_id (at_place S q) = int j \<and> M' ! j = si_sync_time (at_place S q)))"
    "\<forall>q \<in> set ps. si_sync_time (at_place S q) \<le> M' ! nat (si_node_id (at_place S q))"
    using Cons.IH [of ?M] Cons.prems by auto
  have "max (M ! ?k) (si_sync_time (at_place S p)) \<le> M' ! ?k" using M'(3) k(1) by force
  then have "si_sync_time (at_place S p) \<le> M' ! ?k" by simp
  moreover have "M ! j \<le> M' ! j \<and>
      (M' ! j = M ! j \<or> (\<exists>q \<in> set (p # ps). si_node_id (at_place S q) = int j \<and> M' ! j = si_sync_time (at_place S q)))"
    if "j < length M" for j
  proof (cases "j = ?k")
    case True
    have "?M ! ?k = max (M ! ?k) (si_sync_time (at_place S p))" using k(1) by simp
    moreover have "?M ! ?k \<le> M' ! ?k \<and> (M' ! ?k = ?M ! ?k \<or>
      (\<exists>q \<in> set ps. si_node_id (at_place S q) = int ?k \<and> M' ! ?k = si_sync_time (at_place S q)))"
      using M'(3) k(1) by blast
    ultimately show ?thesis using True k(2) by (auto simp: max_def split: if_splits)
  next
    case False
    with M'(3) that show ?thesis by auto
  qed
  ultimately show ?case using step M'(1,2,4) by auto
qed


section \<open>The tables of a synchronisation\<close>

definition tasks_of :: "int list \<Rightarrow> place list" where
  "tasks_of ns = concat (map (\<lambda>i. map (Pair i) [0..ns ! nat i - 1]) [0..int (length ns) - 1])"

lemma tasks_of_iff: "(i, j) \<in> set (tasks_of ns) \<longleftrightarrow> in_range i ns \<and> 0 \<le> j \<and> j < ns ! nat i"
  by (auto simp: tasks_of_def in_range_def image_iff intro!: bexI [of _ i])

lemma distinct_blocks: "distinct is \<Longrightarrow> distinct (concat (map (\<lambda>i. map (Pair i) (f i)) is)) \<longleftrightarrow> (\<forall>i \<in> set is. distinct (f i))"
  by (induction "is") (auto simp: distinct_map inj_on_def)

lemma distinct_tasks_of: "distinct (tasks_of ns)"
  by (simp add: tasks_of_def distinct_blocks)

lemma in_fresh_table: "in_table (map (\<lambda>n. replicate (nat n) x) ns) p \<longleftrightarrow> p \<in> set (tasks_of ns)"
  by (cases p) (auto simp: in_table_def tasks_of_iff in_range_def)

lemma cell_fresh_table: "p \<in> set (tasks_of ns) \<Longrightarrow> at_place (map (\<lambda>n. replicate (nat n) x) ns) p = x"
  by (cases p) (auto simp: at_place_def tasks_of_iff in_range_def)

definition sync_tables :: "int list \<Rightarrow> time_sync \<Rightarrow> INT64 list list \<Rightarrow> SyncInfo_t list list \<Rightarrow> bool" where
  "sync_tables ns ts T S \<longleftrightarrow> LatencyTable ts = Some T \<and> SyncInfo ts = Some S \<and> TotalTasksToSync ts = Some ns \<and>
     TotalAppsToSync ts = int (length ns) \<and> TimeSync_Initialized ts \<and>
     (\<forall>p. in_table T p \<longleftrightarrow> p \<in> set (tasks_of ns)) \<and> (\<forall>p. in_table S p \<longleftrightarrow> p \<in> set (tasks_of ns)) \<and>
     distinct (NodeList ts)"

lemma sync_tables_tasks: "sync_tables ns ts T S \<Longrightarrow> all_tasks ts = Inr (tasks_of ns)"
  by (auto simp: sync_tables_def all_tasks_def followed_def tasks_of_def)

record sync_entry =
  en_app :: int
  en_task :: int
  en_init :: UINT64
  en_sync :: UINT64
  en_node :: string

definition en_place :: "sync_entry \<Rightarrow> place" where
  "en_place e = (en_app e, en_task e)"

fun set_times :: "allocator \<Rightarrow> sync_entry list \<Rightarrow> time_sync \<Rightarrow> time_sync res" where
  "set_times alloc [] ts = Inr ts"
| "set_times alloc (e # es) ts =
     andthen (TimeSync_SetInitialTime alloc (en_app e) (en_task e) (en_init e) (en_sync e) (en_node e) ts)
       (set_times alloc es)"

definition entered :: "time_sync \<Rightarrow> SyncInfo_t list list \<Rightarrow> sync_entry \<Rightarrow> bool" where
  "entered ts S e \<longleftrightarrow> (\<exists>k < length (NodeList ts). NodeList ts ! k = en_node e \<and>
     at_place S (en_place e) = \<lparr>si_init = True, si_init_time = en_init e, si_sync_time = en_sync e, si_node_id = int k\<rparr>)"

lemma enteredE:
  assumes "entered ts S e"
  obtains k where "k < length (NodeList ts)" and "NodeList ts ! k = en_node e"
    and "si_node_id (at_place S (en_place e)) = int k" and "si_init (at_place S (en_place e))"
    and "si_init_time (at_place S (en_place e)) = en_init e" and "si_sync_time (at_place S (en_place e)) = en_sync e"
  using assms by (auto simp: entered_def)

definition extended_by :: "'a list \<Rightarrow> 'a list \<Rightarrow> bool" where
  "extended_by xs ys \<longleftrightarrow> (\<exists>zs. ys = xs @ zs)"

lemma Get_NodeId_result:
  assumes "ample alloc" and "distinct (NodeList ts)"
  shows "\<exists>k nodes. Get_NodeId alloc node ts = Inr (int k, ts\<lparr>NodeList := nodes\<rparr>) \<and> k < length nodes \<and>
    nodes ! k = node \<and> distinct nodes \<and> extended_by (NodeList ts) nodes"
proof (cases "first_index (\<lambda>n. n = node) (NodeList ts)")
  case None
  then have "node \<notin> set (NodeList ts)" by (auto simp: first_index_None)
  with None assms show ?thesis
    by (intro exI [of _ "length (NodeList ts)"] exI [of _ "NodeList ts @ [node]"]) (simp add: Get_NodeId_def extended_by_def ample_def)
next
  case (Some k)
  then have "k < length (NodeList ts)" "NodeList ts ! k = node" by (simp_all add: first_index_Some)
  with Some assms show ?thesis
    by (intro exI [of _ k] exI [of _ "NodeList ts"]) (simp add: Get_NodeId_def extended_by_def)
qed

lemma entered_grown:
  "entered ts S e \<Longrightarrow> extended_by (NodeList ts) (NodeList ts') \<Longrightarrow> at_place S' (en_place e) = at_place S (en_place e) \<Longrightarrow> entered ts' S' e"
  by (auto simp: entered_def extended_by_def nth_append)

lemma SetInitialTime_result:
  assumes "sync_tables ns ts T S" and "ample alloc" and "en_place e \<in> set (tasks_of ns)"
  shows "\<exists>ts' S'. TimeSync_SetInitialTime alloc (en_app e) (en_task e) (en_init e) (en_sync e) (en_node e) ts = Inr ts' \<and>
    sync_tables ns ts' T S' \<and> entered ts' S' e \<and> extended_by (NodeList ts) (NodeList ts') \<and>
    (\<forall>p \<in> set (tasks_of ns). p \<noteq> en_place e \<longrightarrow> at_place S' p = at_place S p)"
proof -
  obtain k nodes where k: "Get_NodeId alloc (en_node e) ts = Inr (int k, ts\<lparr>NodeList := nodes\<rparr>)" "k < length nodes"
    "nodes ! k = en_node e" "distinct nodes" "extended_by (NodeList ts) nodes"
    using Get_NodeId_result [of alloc ts "en_node e"] assms(1,2) by (auto simp: sync_tables_def)
  let ?x = "\<lparr>si_init = True, si_init_time = en_init e, si_sync_time = en_sync e, si_node_id = int k\<rparr>"
  let ?S = "put_cell S (en_place e) ?x"
  have place: "in_table S (en_app e, en_task e)" "in_range (en_app e) ns" "0 \<le> en_task e" "en_task e < ns ! nat (en_app e)"
    using assms(1,3) by (auto simp: sync_tables_def en_place_def tasks_of_iff)
  have "TimeSync_SetInitialTime alloc (en_app e) (en_task e) (en_init e) (en_sync e) (en_node e) ts =
      Inr (ts\<lparr>NodeList := nodes, SyncInfo := Some ?S\<rparr>)"
    using assms(1) place k(1) table_set_pair [OF place(1)]
    by (auto simp: TimeSync_SetInitialTime_def sync_tables_def followed_def array_get_def in_range_def en_place_def)
  moreover have "sync_tables ns (ts\<lparr>NodeList := nodes, SyncInfo := Some ?S\<rparr>) T ?S"
    using assms(1) k(4) by (simp add: sync_tables_def)
  moreover have "entered (ts\<lparr>NodeList := nodes, SyncInfo := Some ?S\<rparr>) ?S e"
    using k(2,3) place(1) by (auto simp: entered_def en_place_def cell_put_cell)
  moreover have "\<forall>p \<in> set (tasks_of ns). p \<noteq> en_place e \<longrightarrow> at_place ?S p = at_place S p"
    using assms(1) place(1) by (auto simp: sync_tables_def en_place_def cell_put_cell split: if_splits)
  moreover have "extended_by (NodeList ts) (NodeList (ts\<lparr>NodeList := nodes, SyncInfo := Some ?S\<rparr>))" using k(5) by simp
  ultimately show ?thesis by blast
qed

lemma set_times_result:
  assumes "sync_tables ns ts T S" and "ample alloc" and "\<forall>e \<in> set es. en_place e \<in> set (tasks_of ns)"
    and "distinct (map en_place es)"
  shows "\<exists>ts' S'. set_times alloc es ts = Inr ts' \<and> sync_tables ns ts' T S' \<and> extended_by (NodeList ts) (NodeList ts') \<and>
    (\<forall>e \<in> set es. entered ts' S' e) \<and> (\<forall>p \<in> set (tasks_of ns). p \<notin> en_place ` set es \<longrightarrow> at_place S' p = at_place S p)"
  using assms
proof (induction es arbitrary: ts S)
  case Nil
  then show ?case by (intro exI [of _ ts] exI [of _ S]) (simp add: extended_by_def)
next
  case (Cons e es)
  have "en_place e \<in> set (tasks_of ns)" using Cons.prems(3) by simp
  from SetInitialTime_result [OF Cons.prems(1,2) this] obtain ts1 S1 where
    1: "TimeSync_SetInitialTime alloc (en_app e) (en_task e) (en_init e) (en_sync e) (en_node e) ts = Inr ts1"
      "sync_tables ns ts1 T S1" "entered ts1 S1 e" "extended_by (NodeList ts) (NodeList ts1)"
      "\<forall>p \<in> set (tasks_of ns). p \<noteq> en_place e \<longrightarrow> at_place S1 p = at_place S p" by blast
  from Cons.IH [OF 1(2) Cons.prems(2)] Cons.prems(3,4) obtain ts2 S2 where
    2: "set_times alloc es ts1 = Inr ts2" "sync_tables ns ts2 T S2" "extended_by (NodeList ts1) (NodeList ts2)"
      "\<forall>e \<in> set es. entered ts2 S2 e" "\<forall>p \<in> set (tasks_of ns). p \<notin> en_place ` set es \<longrightarrow> at_place S2 p = at_place S1 p" by auto
  have "entered ts2 S2 e"
    using entered_grown [OF 1(3) 2(3)] 2(5) Cons.prems(3,4) by auto
  moreover have "extended_by (NodeList ts) (NodeList ts2)" using 1(4) 2(3) by (auto simp: extended_by_def)
  ultimately show ?case using 1(1,5) 2 by auto
qed

lemma Initialize_result:
  assumes "ns \<noteq> []" and "ample alloc"
  shows "\<exists>ts' S. TimeSync_Initialize alloc (int (length ns)) (Some ns) no_sync = Inr ts' \<and>
    sync_tables ns ts' (map (\<lambda>n. replicate (nat n) 0) ns) S"
proof -
  have rows: "allocate_rows alloc k xs = Inr ()" for k xs
    using assms(2) by (induction xs) (auto simp: ample_def)
  show ?thesis using assms
    by (auto simp: TimeSync_Initialize_def ample_def rows sync_tables_def in_fresh_table no_sync_def)
qed


section \<open>What the latencies do\<close>

text \<open>
  What is added to the times of a task before all are moved to the left: the time from its
  synchronisation point, or from the last one of its node, to the last one of all.
\<close>

definition place_ahead :: "sync_strategy \<Rightarrow> SyncInfo_t list list \<Rightarrow> place set \<Rightarrow> place \<Rightarrow> UINT64" where
  "place_ahead strategy S P p =
     (case strategy of
        TS_TASK \<Rightarrow> Max ((\<lambda>q. si_sync_time (at_place S q)) ` P) - si_sync_time (at_place S p)
      | TS_NOSYNC \<Rightarrow> 0
      | _ \<Rightarrow> Max ((\<lambda>q. si_sync_time (at_place S q)) ` P) -
          Max ((\<lambda>q. si_sync_time (at_place S q)) ` {q \<in> P. si_node_id (at_place S q) = si_node_id (at_place S p)}))"

lemma per_task_ahead:
  assumes "sync_tables ns ts T S" and "tasks_of ns \<noteq> []"
  shows "\<exists>T'. per_task_latencies (tasks_of ns) ts = Inr (ts\<lparr>LatencyTable := Some T'\<rparr>) \<and>
    (\<forall>p. in_table T' p = in_table T p) \<and>
    (\<forall>p \<in> set (tasks_of ns). at_place T' p = place_ahead TS_TASK S (set (tasks_of ns)) p)"
proof -
  let ?ps = "tasks_of ns"
  let ?h = "\<lambda>p. si_sync_time (at_place S p)"
  let ?m = "Max (?h ` set ?ps)"
  have tables: "LatencyTable ts = Some T" "SyncInfo ts = Some S" "\<forall>p \<in> set ?ps. in_table T p \<and> in_table S p"
    using assms(1) by (auto simp: sync_tables_def)
  have "each_task (\<lambda>(i, j) m. andthen (table_get (SyncInfo ts) i j) (\<lambda>s. Inr (max m (si_sync_time s)))) ?ps 0 =
      Inr (fold (\<lambda>p m. max m (?h p)) ?ps 0)"
    by (rule each_task_total) (use tables in \<open>auto simp: table_get_pair\<close>)
  also have "fold (\<lambda>p m. max m (?h p)) ?ps 0 = ?m" using assms(2) by (simp add: fold_max_Max)
  finally have first: "each_task (\<lambda>(i, j) m. andthen (table_get (SyncInfo ts) i j) (\<lambda>s. Inr (max m (si_sync_time s)))) ?ps 0 = Inr ?m" .
  obtain T' where "latencies (\<lambda>_ s _. Inr (?m - si_sync_time s)) ?ps ts = Inr (ts\<lparr>LatencyTable := Some T'\<rparr>)"
    "\<forall>q. in_table T' q = in_table T q"
    "\<forall>q. in_table T q \<longrightarrow> at_place T' q = (if q \<in> set ?ps then ?m - ?h q else at_place T q)"
    using latencies_result [OF tables distinct_tasks_of, of "\<lambda>_ s _. Inr (?m - si_sync_time s)" "\<lambda>q _. ?m - ?h q"] by auto
  with first tables show ?thesis
    by (intro exI [of _ T']) (auto simp: per_task_latencies_def place_ahead_def)
qed

text \<open>The table of the nodes holds the last synchronisation point of each node that has a task.\<close>

lemma latest_of_node:
  assumes "\<forall>k < length M. M ! k = 0 \<or> (\<exists>p \<in> set ps. node p = int k \<and> M ! k = h p)"
    and "\<forall>p \<in> set ps. 0 \<le> node p \<and> nat (node p) < length M \<and> (h p :: 64 word) \<le> M ! nat (node p)" and "q \<in> set ps"
  shows "M ! nat (node q) = Max (h ` {p \<in> set ps. node p = node q})"
proof -
  let ?k = "nat (node q)"
  have k: "?k < length M" "int ?k = node q" using assms(2,3) by auto
  have "h p \<le> M ! ?k" if "p \<in> set ps" "node p = node q" for p using assms(2) that by auto
  moreover have "M ! ?k \<in> h ` {p \<in> set ps. node p = node q}"
  proof (cases "M ! ?k = 0")
    case True
    with assms(2,3) have "h q = M ! ?k" by (metis word_le_0_iff)
    with assms(3) show ?thesis by (intro image_eqI [of _ _ q]) simp_all
  next
    case False
    with assms(1) k obtain p where "p \<in> set ps" "node p = node q" "M ! ?k = h p" by auto
    then show ?thesis by (intro image_eqI [of _ _ p]) simp_all
  qed
  ultimately show ?thesis by (intro Max_eqI [symmetric]) auto
qed

lemma latest_of_all:
  assumes "\<forall>k < length M. M ! k = 0 \<or> (\<exists>p \<in> set ps. node p = int k \<and> M ! k = h p)"
    and "\<forall>p \<in> set ps. 0 \<le> node p \<and> nat (node p) < length M \<and> (h p :: 64 word) \<le> M ! nat (node p)" and "ps \<noteq> []"
  shows "fold max M 0 = Max (h ` set ps)"
proof -
  have "fold max M 0 = Max (insert 0 (set M))" using Max.set_eq_fold [of 0 M] by simp
  also have "\<dots> = Max (h ` set ps)"
  proof (rule antisym)
    show "Max (insert 0 (set M)) \<le> Max (h ` set ps)"
    proof (rule Max.boundedI)
      fix x assume "x \<in> insert 0 (set M)"
      then consider "x = 0" | k where "k < length M" "x = M ! k" by (auto simp: in_set_conv_nth)
      then show "x \<le> Max (h ` set ps)" using assms(1) by cases (auto intro: Max_ge)
    qed simp_all
    show "Max (h ` set ps) \<le> Max (insert 0 (set M))"
    proof (rule Max.boundedI)
      fix x assume "x \<in> h ` set ps"
      then obtain p where "p \<in> set ps" "x = h p" by auto
      then have "x \<le> M ! nat (node p)" "M ! nat (node p) \<in> set M" using assms(2) by auto
      then show "x \<le> Max (insert 0 (set M))" by (meson Max_ge finite_insert finite_set insertI2 order_trans)
    qed (use assms(3) in simp_all)
  qed
  finally show ?thesis .
qed

lemma per_node_ahead:
  assumes "sync_tables ns ts T S" and "ample alloc" and "tasks_of ns \<noteq> []"
    and ids: "\<forall>p \<in> set (tasks_of ns). in_range (si_node_id (at_place S p)) (NodeList ts)"
    and strategy: "strategy = TS_NODE \<or> strategy = TS_DEFAULT"
  shows "\<exists>T'. per_node_latencies alloc (tasks_of ns) ts = Inr (ts\<lparr>LatencyTable := Some T'\<rparr>) \<and>
    (\<forall>p. in_table T' p = in_table T p) \<and>
    (\<forall>p \<in> set (tasks_of ns). at_place T' p = place_ahead strategy S (set (tasks_of ns)) p)"
proof -
  let ?ps = "tasks_of ns"
  let ?zeros = "replicate (length (NodeList ts)) (0 :: UINT64)"
  have tables: "LatencyTable ts = Some T" "SyncInfo ts = Some S" "\<forall>p \<in> set ?ps. in_table T p \<and> in_table S p"
    using assms(1) by (auto simp: sync_tables_def)
  have "\<forall>p \<in> set ?ps. in_table S p \<and> in_range (si_node_id (at_place S p)) ?zeros"
    using tables(3) ids by (auto simp: in_range_def)
  from latest_per_node_result [OF this] obtain M where M: "latest_per_node S ?ps ?zeros = Inr M"
    "length M = length (NodeList ts)"
    "\<forall>k < length M. M ! k = 0 \<or> (\<exists>p \<in> set ?ps. si_node_id (at_place S p) = int k \<and> M ! k = si_sync_time (at_place S p))"
    "\<forall>p \<in> set ?ps. si_sync_time (at_place S p) \<le> M ! nat (si_node_id (at_place S p))" by auto
  have above: "\<forall>p \<in> set ?ps. 0 \<le> si_node_id (at_place S p) \<and> nat (si_node_id (at_place S p)) < length M \<and>
      si_sync_time (at_place S p) \<le> M ! nat (si_node_id (at_place S p))"
    using M(2,4) ids by (auto simp: in_range_def)
  have ahead: "fold max M 0 - M ! nat (si_node_id (at_place S p)) = place_ahead strategy S (set ?ps) p" if "p \<in> set ?ps" for p
    using strategy latest_of_node [OF M(3) above that] latest_of_all [OF M(3) above assms(3)]
    by (auto simp: place_ahead_def)
  have f: "\<forall>p \<in> set ?ps. \<forall>l. andthen (array_get M (si_node_id (at_place S p))) (\<lambda>m. Inr (fold max M 0 - m)) =
      Inr (place_ahead strategy S (set ?ps) p)"
    using ids M(2) ahead by (auto simp: array_get_def in_range_def)
  obtain T' where T': "latencies (\<lambda>_ s _. andthen (array_get M (si_node_id s)) (\<lambda>m. Inr (fold max M 0 - m))) ?ps ts =
      Inr (ts\<lparr>LatencyTable := Some T'\<rparr>)"
    "\<forall>q. in_table T' q = in_table T q"
    "\<forall>q. in_table T q \<longrightarrow> at_place T' q = (if q \<in> set ?ps then place_ahead strategy S (set ?ps) q else at_place T q)"
    using latencies_result [OF tables distinct_tasks_of,
      of "\<lambda>_ s _. andthen (array_get M (si_node_id s)) (\<lambda>m. Inr (fold max M 0 - m))" "\<lambda>q _. place_ahead strategy S (set ?ps) q"] f by auto
  have "per_node_latencies alloc ?ps ts = Inr (ts\<lparr>LatencyTable := Some T'\<rparr>)"
    using M(1) T'(1) assms(2) tables(2) by (simp add: per_node_latencies_def latest_per_node_def ample_def Let_def)
  with T'(2,3) tables(3) show ?thesis by (intro exI [of _ T']) auto
qed

lemma strategy_ahead:
  assumes "sync_tables ns ts T S" and "ample alloc" and "tasks_of ns \<noteq> []"
    and "\<forall>p \<in> set (tasks_of ns). in_range (si_node_id (at_place S p)) (NodeList ts)"
    and "\<forall>p \<in> set (tasks_of ns). at_place T p = 0"
  shows "\<exists>T'. (case strategy of
               TS_TASK \<Rightarrow> per_task_latencies (tasks_of ns) ts
             | TS_NODE \<Rightarrow> per_node_latencies alloc (tasks_of ns) ts
             | TS_DEFAULT \<Rightarrow> per_node_latencies alloc (tasks_of ns) ts
             | TS_NOSYNC \<Rightarrow> Inr ts) = Inr (ts\<lparr>LatencyTable := Some T'\<rparr>) \<and>
    (\<forall>p. in_table T' p = in_table T p) \<and>
    (\<forall>p \<in> set (tasks_of ns). at_place T' p = place_ahead strategy S (set (tasks_of ns)) p)"
proof (cases strategy)
  case TS_NOSYNC
  then show ?thesis using assms(1,5)
    by (intro exI [of _ T]) (simp add: sync_tables_def place_ahead_def)
qed (use per_task_ahead [OF assms(1,3)] per_node_ahead [OF assms(1-4)] in simp_all)

lemma Calculate_result:
  assumes tables: "sync_tables ns ts T S" and "ample alloc" and "(0, 0) \<in> set (tasks_of ns)"
    and "\<forall>p \<in> set (tasks_of ns). in_range (si_node_id (at_place S p)) (NodeList ts)"
    and "\<forall>p \<in> set (tasks_of ns). at_place T p = 0" and init: "\<forall>p \<in> set (tasks_of ns). si_init (at_place S p)"
  shows "\<exists>ts' T'. TimeSync_CalculateLatencies alloc strategy ts = Inr (1, ts') \<and> LatencyTable ts' = Some T' \<and>
    (\<forall>p \<in> set (tasks_of ns). in_table T' p \<and> at_place T' p = place_ahead strategy S (set (tasks_of ns)) p -
       Min ((\<lambda>q. si_init_time (at_place S q) + place_ahead strategy S (set (tasks_of ns)) q) ` set (tasks_of ns)))"
proof -
  let ?ps = "tasks_of ns"
  have "?ps \<noteq> []" using assms(3) by auto
  from strategy_ahead [OF tables assms(2) this assms(4,5), of strategy] obtain T1 where 1: "(case strategy of
               TS_TASK \<Rightarrow> per_task_latencies ?ps ts
             | TS_NODE \<Rightarrow> per_node_latencies alloc ?ps ts
             | TS_DEFAULT \<Rightarrow> per_node_latencies alloc ?ps ts
             | TS_NOSYNC \<Rightarrow> Inr ts) = Inr (ts\<lparr>LatencyTable := Some T1\<rparr>)"
    "\<forall>p. in_table T1 p = in_table T p" "\<forall>p \<in> set ?ps. at_place T1 p = place_ahead strategy S (set ?ps) p" by blast
  let ?ts = "ts\<lparr>LatencyTable := Some T1\<rparr>"
  let ?h = "\<lambda>p. si_init_time (at_place S p) + at_place T1 p"
  let ?m = "fold (\<lambda>p m. min m (?h p)) ?ps (?h (0, 0))"
  have S: "SyncInfo ts = Some S" and in_S: "\<forall>p \<in> set ?ps. in_table S p \<and> in_table T1 p"
    using tables 1(2) by (auto simp: sync_tables_def)
  have "each_task (\<lambda>(i, j) ok. if \<not> ok then Inr ok
         else andthen (table_get (SyncInfo ts) i j) (\<lambda>s. Inr (si_init s))) ps True = Inr True" if "set ps \<subseteq> set ?ps" for ps
    using that in_S init by (induction ps) (auto simp: S table_get_pair)
  then have ok: "each_task (\<lambda>(i, j) ok. if \<not> ok then Inr ok
         else andthen (table_get (SyncInfo ts) i j) (\<lambda>s. Inr (si_init s))) ?ps True = Inr True" by simp
  have earliest: "each_task (\<lambda>(i, j) m.
               andthen (table_get (SyncInfo ts) i j) (\<lambda>s.
               andthen (table_get (Some T1) i j) (\<lambda>l. Inr (min m (si_init_time s + l))))) ?ps (?h (0, 0)) = Inr ?m"
    by (rule each_task_total) (use in_S in \<open>auto simp: S table_get_pair\<close>)
  have zero: "in_table S (0, 0)" "in_table T1 (0, 0)" using in_S assms(3) by auto
  obtain T2 where T2: "latencies (\<lambda>_ _ l. Inr (l - ?m)) ?ps ?ts = Inr (?ts\<lparr>LatencyTable := Some T2\<rparr>)"
    "\<forall>q. in_table T2 q = in_table T1 q"
    "\<forall>q. in_table T1 q \<longrightarrow> at_place T2 q = (if q \<in> set ?ps then at_place T1 q - ?m else at_place T1 q)"
    using latencies_result [of ?ts T1 S ?ps "\<lambda>_ _ l. Inr (l - ?m)" "\<lambda>_ l. l - ?m"] in_S S distinct_tasks_of by auto
  have "TimeSync_CalculateLatencies alloc strategy ts = Inr (1, ?ts\<lparr>LatencyTable := Some T2\<rparr>)"
    using sync_tables_tasks [OF tables] ok 1(1) earliest T2(1) zero
    by (simp add: TimeSync_CalculateLatencies_def S table_get_pair)
  moreover have "?m = Min (?h ` set ?ps)" using assms(3) by (simp add: fold_min_Min insert_absorb)
  moreover have "?h ` set ?ps = (\<lambda>q. si_init_time (at_place S q) + place_ahead strategy S (set ?ps) q) ` set ?ps"
    using 1(3) by simp
  moreover have "\<forall>p \<in> set ?ps. in_table T2 p \<and> at_place T2 p = place_ahead strategy S (set ?ps) p - ?m"
  proof
    fix p assume "p \<in> set ?ps"
    then show "in_table T2 p \<and> at_place T2 p = place_ahead strategy S (set ?ps) p - ?m"
      using spec [OF T2(2), of p] spec [OF T2(3), of p] in_S 1(3) by simp
  qed
  ultimately show ?thesis
    by (intro exI [of _ "?ts\<lparr>LatencyTable := Some T2\<rparr>"] exI [of _ T2]) simp
qed

section \<open>The reference\<close>

text \<open>
  The same over the times that were given: what is added to the times of a task before all are moved to
  the left, and the earliest start, which is moved to 0.
\<close>

definition ahead :: "sync_strategy \<Rightarrow> sync_entry list \<Rightarrow> sync_entry \<Rightarrow> UINT64" where
  "ahead strategy es e =
     (case strategy of
        TS_TASK \<Rightarrow> Max (en_sync ` set es) - en_sync e
      | TS_NOSYNC \<Rightarrow> 0
      | _ \<Rightarrow> Max (en_sync ` set es) - Max (en_sync ` {e' \<in> set es. en_node e' = en_node e}))"

definition earliest_start :: "sync_strategy \<Rightarrow> sync_entry list \<Rightarrow> UINT64" where
  "earliest_start strategy es = Min ((\<lambda>e. en_init e + ahead strategy es e) ` set es)"

lemma entered_times: "entered ts S e \<Longrightarrow>
    si_init_time (at_place S (en_place e)) = en_init e \<and> si_sync_time (at_place S (en_place e)) = en_sync e"
  by (meson enteredE)

lemma entered_nodes:
  assumes "distinct (NodeList ts)" and "entered ts S e" and "entered ts S e'"
  shows "si_node_id (at_place S (en_place e')) = si_node_id (at_place S (en_place e)) \<longleftrightarrow> en_node e' = en_node e"
proof -
  obtain k where "k < length (NodeList ts)" "NodeList ts ! k = en_node e" "si_node_id (at_place S (en_place e)) = int k"
    by (rule enteredE [OF assms(2)])
  moreover obtain k' where "k' < length (NodeList ts)" "NodeList ts ! k' = en_node e'" "si_node_id (at_place S (en_place e')) = int k'"
    by (rule enteredE [OF assms(3)])
  ultimately show ?thesis using assms(1) by (simp add: nth_eq_iff_index_eq [symmetric])
qed

lemma ahead_of_entry:
  assumes "set (map en_place es) = P" and "distinct (NodeList ts)" and "\<forall>e \<in> set es. entered ts S e" and "e \<in> set es"
  shows "place_ahead strategy S P (en_place e) = ahead strategy es e"
proof -
  let ?h = "\<lambda>q. si_sync_time (at_place S q)"
  have shown: "?h (en_place e') = en_sync e'" if "e' \<in> set es" for e' using that assms(3) entered_times by blast
  have P: "P = en_place ` set es" using assms(1) by auto
  have all: "?h ` P = en_sync ` set es" unfolding P image_image by (rule image_cong) (simp_all add: shown)
  have "{q \<in> P. si_node_id (at_place S q) = si_node_id (at_place S (en_place e))} = en_place ` {e' \<in> set es. en_node e' = en_node e}"
    using entered_nodes [OF assms(2)] assms(3,4) unfolding P by blast
  then have node: "?h ` {q \<in> P. si_node_id (at_place S q) = si_node_id (at_place S (en_place e))} =
      en_sync ` {e' \<in> set es. en_node e' = en_node e}"
    by (simp only: image_image) (rule image_cong; simp add: shown)
  show ?thesis using shown [OF assms(4)] by (cases strategy) (simp_all add: place_ahead_def ahead_def all node)
qed

text \<open>What the module computes for tasks that were all given their times.\<close>

lemma latencies_computed:
  assumes "ample alloc" and "ns \<noteq> []" and "ns ! 0 > 0"
    and "distinct (map en_place es)" and "set (map en_place es) = set (tasks_of ns)"
  shows "\<exists>ts0 ts1 ts. TimeSync_Initialize alloc (int (length ns)) (Some ns) no_sync = Inr ts0 \<and>
    set_times alloc es ts0 = Inr ts1 \<and> TimeSync_CalculateLatencies alloc strategy ts1 = Inr (1, ts) \<and>
    (\<forall>e \<in> set es. \<forall>time.
       TimeSync ts (en_app e) (en_task e) time = Inr (time + (ahead strategy es e - earliest_start strategy es)) \<and>
       TimeDesync ts (en_app e) (en_task e) time = Inr (time - (ahead strategy es e - earliest_start strategy es)))"
proof -
  let ?ps = "tasks_of ns"
  obtain ts0 S0 where 0: "TimeSync_Initialize alloc (int (length ns)) (Some ns) no_sync = Inr ts0"
    "sync_tables ns ts0 (map (\<lambda>n. replicate (nat n) 0) ns) S0" using Initialize_result [OF assms(2,1)] by blast
  obtain ts1 S where 1: "set_times alloc es ts0 = Inr ts1" "sync_tables ns ts1 (map (\<lambda>n. replicate (nat n) 0) ns) S"
    "\<forall>e \<in> set es. entered ts1 S e"
    using set_times_result [OF 0(2) assms(1) _ assms(4)] assms(5) by auto
  have "in_range (si_node_id (at_place S (en_place e))) (NodeList ts1) \<and> si_init (at_place S (en_place e))" if "e \<in> set es" for e
    using 1(3) that by (auto simp: in_range_def elim!: enteredE)
  then have "\<forall>p \<in> set (map en_place es). in_range (si_node_id (at_place S p)) (NodeList ts1) \<and> si_init (at_place S p)" by simp
  then have set: "\<forall>p \<in> set ?ps. in_range (si_node_id (at_place S p)) (NodeList ts1)" "\<forall>p \<in> set ?ps. si_init (at_place S p)"
    unfolding assms(5) by simp_all
  have fresh: "\<forall>p \<in> set ?ps. at_place (map (\<lambda>n. replicate (nat n) (0 :: INT64)) ns) p = 0" by (simp add: cell_fresh_table)
  have "(0, 0) \<in> set ?ps" using assms(2,3) by (auto simp: tasks_of_iff in_range_def)
  from Calculate_result [OF 1(2) assms(1) this set(1) fresh set(2), of strategy] obtain ts T where
    2: "TimeSync_CalculateLatencies alloc strategy ts1 = Inr (1, ts)" "LatencyTable ts = Some T"
      "\<forall>p \<in> set ?ps. in_table T p \<and> at_place T p = place_ahead strategy S (set ?ps) p -
         Min ((\<lambda>q. si_init_time (at_place S q) + place_ahead strategy S (set ?ps) q) ` set ?ps)" by blast
  have "distinct (NodeList ts1)" using 1(2) by (simp add: sync_tables_def)
  note entry = ahead_of_entry [OF assms(5) this 1(3)]
  have times: "si_init_time (at_place S (en_place e)) = en_init e" if "e \<in> set es" for e
    using that 1(3) entered_times by blast
  have "set ?ps = en_place ` set es" using assms(5) by simp
  then have "(\<lambda>q. si_init_time (at_place S q) + place_ahead strategy S (set ?ps) q) ` set ?ps =
      (\<lambda>e. en_init e + ahead strategy es e) ` set es"
    by (simp only: image_image) (rule image_cong; use entry times in simp)
  then have m: "Min ((\<lambda>q. si_init_time (at_place S q) + place_ahead strategy S (set ?ps) q) ` set ?ps) = earliest_start strategy es"
    unfolding earliest_start_def by (rule arg_cong)
  have "TimeSync ts (en_app e) (en_task e) time = Inr (time + (ahead strategy es e - earliest_start strategy es)) \<and>
      TimeDesync ts (en_app e) (en_task e) time = Inr (time - (ahead strategy es e - earliest_start strategy es))"
    if "e \<in> set es" for e time
  proof -
    have "en_place e \<in> set ?ps" using that assms(5) by auto
    with 2(3) have "in_table T (en_place e)" "at_place T (en_place e) = ahead strategy es e - earliest_start strategy es"
      by (simp_all only: m entry [OF that])
    with table_get_cell [of T "en_place e"] 2(2) show ?thesis by (simp add: TimeSync_def TimeDesync_def en_place_def)
  qed
  with 0(1) 1(1) 2(1) show ?thesis by blast
qed

text \<open>What follows for the times of the tasks.\<close>

lemma earliest_start_attained: "es \<noteq> [] \<Longrightarrow> \<exists>e \<in> set es. en_init e + ahead strategy es e = earliest_start strategy es"
proof -
  assume "es \<noteq> []"
  then have "earliest_start strategy es \<in> (\<lambda>e. en_init e + ahead strategy es e) ` set es"
    unfolding earliest_start_def by (intro Min_in) simp_all
  then obtain e where "earliest_start strategy es = en_init e + ahead strategy es e" "e \<in> set es" by (rule imageE)
  then show ?thesis by (intro bexI [of _ e]) simp_all
qed

lemma ahead_task: "en_sync e + (ahead TS_TASK es e - m) = Max (en_sync ` set es) - m"
  by (simp add: ahead_def)

lemma ahead_last_of_node:
  assumes "strategy = TS_NODE \<or> strategy = TS_DEFAULT" and "e \<in> set es"
    and "\<forall>e' \<in> set es. en_node e' = en_node e \<longrightarrow> en_sync e' \<le> en_sync e"
  shows "en_sync e + (ahead strategy es e - m) = Max (en_sync ` set es) - m"
proof -
  have "Max (en_sync ` {e' \<in> set es. en_node e' = en_node e}) = en_sync e"
    using assms(2,3) by (intro Max_eqI) auto
  with assms(1) show ?thesis by (auto simp: ahead_def)
qed

lemma ahead_same_node:
  "strategy = TS_NODE \<or> strategy = TS_DEFAULT \<Longrightarrow> en_node e' = en_node e \<Longrightarrow> ahead strategy es e' = ahead strategy es e"
  by (auto simp: ahead_def)

text \<open>
  C6. The synchronisation of the clocks. When every task of every application is given its times
  once, the module computes the latencies and from then on adds one constant per task to its times: with the
  strategy of tasks the time from its synchronisation point to the last one of all, with the strategy of nodes the time from the
  last point of its node to the last one of all, without synchronisation nothing; and less, for all tasks, the earliest start
  among the times shifted so (64-bit arithmetic). So the first event of some task is at time 0; with the strategy
  of tasks, all tasks reach their synchronisation point at the same time; with the strategy of
  nodes, the last tasks of each node to reach it do, and the tasks of a node are shifted alike; and desynchronising undoes the
  synchronisation of every time. Memory is not short, and the first application has a task.
\<close>

theorem clocks_synchronised:
  assumes "ample alloc" and "ns \<noteq> []" and "ns ! 0 > 0"
    and "distinct (map en_place es)" and "set (map en_place es) = set (tasks_of ns)"
  shows "\<exists>ts0 ts1 ts. TimeSync_Initialize alloc (int (length ns)) (Some ns) no_sync = Inr ts0 \<and>
    set_times alloc es ts0 = Inr ts1 \<and> TimeSync_CalculateLatencies alloc strategy ts1 = Inr (1, ts) \<and>
    (\<forall>e \<in> set es. \<forall>time. TimeSync ts (en_app e) (en_task e) time =
       Inr (time + (ahead strategy es e - earliest_start strategy es))) \<and>
    (\<exists>e \<in> set es. TimeSync ts (en_app e) (en_task e) (en_init e) = Inr 0) \<and>
    (strategy = TS_TASK \<longrightarrow> (\<exists>t. \<forall>e \<in> set es. TimeSync ts (en_app e) (en_task e) (en_sync e) = Inr t)) \<and>
    (strategy = TS_NODE \<or> strategy = TS_DEFAULT \<longrightarrow>
      (\<exists>t. \<forall>e \<in> set es. (\<forall>e' \<in> set es. en_node e' = en_node e \<longrightarrow> en_sync e' \<le> en_sync e) \<longrightarrow>
         TimeSync ts (en_app e) (en_task e) (en_sync e) = Inr t) \<and>
      (\<forall>e \<in> set es. \<forall>e' \<in> set es. en_node e' = en_node e \<longrightarrow>
         (\<forall>time. TimeSync ts (en_app e') (en_task e') time = TimeSync ts (en_app e) (en_task e) time))) \<and>
    (\<forall>e \<in> set es. \<forall>time. \<exists>t. TimeSync ts (en_app e) (en_task e) time = Inr t \<and>
       TimeDesync ts (en_app e) (en_task e) t = Inr time)"
proof -
  let ?m = "earliest_start strategy es"
  from latencies_computed [OF assms, of strategy] obtain ts0 ts1 ts where
    run: "TimeSync_Initialize alloc (int (length ns)) (Some ns) no_sync = Inr ts0" "set_times alloc es ts0 = Inr ts1"
      "TimeSync_CalculateLatencies alloc strategy ts1 = Inr (1, ts)"
    and D: "\<forall>e \<in> set es. \<forall>time. TimeSync ts (en_app e) (en_task e) time = Inr (time + (ahead strategy es e - ?m)) \<and>
       TimeDesync ts (en_app e) (en_task e) time = Inr (time - (ahead strategy es e - ?m))" by blast
  have "(0, 0) \<in> set (tasks_of ns)" using assms(2,3) by (auto simp: tasks_of_iff in_range_def)
  then have "es \<noteq> []" using assms(5) by auto
  from earliest_start_attained [OF this] obtain e where "e \<in> set es" "en_init e + ahead strategy es e = ?m" by blast
  with D have init: "\<exists>e \<in> set es. TimeSync ts (en_app e) (en_task e) (en_init e) = Inr 0"
    by (intro bexI [of _ e]) (simp_all add: add_diff_eq)
  have exact: "\<forall>e \<in> set es. \<forall>time. TimeSync ts (en_app e) (en_task e) time = Inr (time + (ahead strategy es e - ?m))"
    using D by blast
  have task: "strategy = TS_TASK \<longrightarrow> (\<exists>t. \<forall>e \<in> set es. TimeSync ts (en_app e) (en_task e) (en_sync e) = Inr t)"
    by (intro impI exI [of _ "Max (en_sync ` set es) - ?m"]) (simp add: exact ahead_task)
  have nodes: "strategy = TS_NODE \<or> strategy = TS_DEFAULT \<longrightarrow>
      (\<exists>t. \<forall>e \<in> set es. (\<forall>e' \<in> set es. en_node e' = en_node e \<longrightarrow> en_sync e' \<le> en_sync e) \<longrightarrow>
         TimeSync ts (en_app e) (en_task e) (en_sync e) = Inr t) \<and>
      (\<forall>e \<in> set es. \<forall>e' \<in> set es. en_node e' = en_node e \<longrightarrow>
         (\<forall>time. TimeSync ts (en_app e') (en_task e') time = TimeSync ts (en_app e) (en_task e) time))"
    by (intro impI conjI exI [of _ "Max (en_sync ` set es) - ?m"] ballI allI)
      (simp_all add: exact ahead_last_of_node, metis ahead_same_node)
  have undone: "\<forall>e \<in> set es. \<forall>time. \<exists>t. TimeSync ts (en_app e) (en_task e) time = Inr t \<and>
      TimeDesync ts (en_app e) (en_task e) t = Inr time" using D by simp
  show ?thesis by (intro exI conjI) (rule run exact init task nodes undone)+
qed

text \<open>Two tasks on one node and one on another.\<close>

definition three_tasks :: "sync_entry list" where
  "three_tasks =
     [\<lparr>en_app = 0, en_task = 0, en_init = 20, en_sync = 80, en_node = ''node1''\<rparr>,
      \<lparr>en_app = 0, en_task = 1, en_init = 10, en_sync = 30, en_node = ''node1''\<rparr>,
      \<lparr>en_app = 1, en_task = 0, en_init = 5, en_sync = 75, en_node = ''node2''\<rparr>]"

theorem clocks_synchronised_witness:
  "\<exists>ts0 ts1 ts t. TimeSync_Initialize (\<lambda>_. True) 2 (Some [2, 1]) no_sync = Inr ts0 \<and>
    set_times (\<lambda>_. True) three_tasks ts0 = Inr ts1 \<and> TimeSync_CalculateLatencies (\<lambda>_. True) TS_TASK ts1 = Inr (1, ts) \<and>
    TimeSync ts 0 0 80 = Inr t \<and> TimeSync ts 0 1 30 = Inr t \<and> TimeSync ts 1 0 75 = Inr t"
proof -
  have "tasks_of [2, 1] = [(0, 0), (0, 1), (1, 0)]" by code_simp
  then have "distinct (map en_place three_tasks)" "set (map en_place three_tasks) = set (tasks_of [2, 1])"
    by (auto simp: three_tasks_def en_place_def)
  from clocks_synchronised [OF _ _ _ this, of "\<lambda>_. True" TS_TASK] show ?thesis
    by (auto simp: ample_def three_tasks_def)
qed

end
