(* ===== verification/Intercommunicators.thy ===== *)
theory Intercommunicators
  imports EventRecord
begin

text \<open>
  The links between the applications that spawn one another,
  \<open>trunk/dependencies/extrae/src/merger/common/intercommunicators.c\<close>: which application a message
  on a communicator goes to.

  The two global tables are the fields of \<open>intercomms\<close>. A group of \<open>IntercommTable\<close> is the
  list of its links, a link the pair of the task and communicator it leaves from and the group it goes to; the count of
  links and of groups are the lengths. The file that names the links is read into the group and the links by the caller.
\<close>

type_synonym spawn_link = "(int \<times> int) \<times> int"

record intercomms =
  AppToSpawnGroupTable :: "(int \<times> int) list"
  IntercommTable :: "spawn_link list list option"

definition no_intercomms :: intercomms where
  "no_intercomms = \<lparr>AppToSpawnGroupTable = [], IntercommTable = None\<rparr>"

definition intercommunicators_map_ptask_to_spawn_group :: "allocator \<Rightarrow> int \<Rightarrow> int \<Rightarrow> intercomms \<Rightarrow> intercomms res" where
  "intercommunicators_map_ptask_to_spawn_group alloc SpawnGroup ptask ic =
     andthen (guard (alloc ((length (AppToSpawnGroupTable ic) + 1) * 8)) AssertFailed) (\<lambda>_.
       Inr (ic\<lparr>AppToSpawnGroupTable := AppToSpawnGroupTable ic @ [(ptask, SpawnGroup)]\<rparr>))"

text \<open>A loop over the new groups asks for the whole table each time.\<close>

definition intercommunicators_allocate_links :: "allocator \<Rightarrow> int \<Rightarrow> intercomms \<Rightarrow> intercomms res" where
  "intercommunicators_allocate_links alloc SpawnGroup ic =
     andthen (case IntercommTable ic of
         Some groups \<Rightarrow> Inr groups
       | None \<Rightarrow> andthen (guard (alloc 16) NullPointer) (\<lambda>_. Inr []))
     (\<lambda>groups.
       if SpawnGroup > int (length groups) then
         andthen (guard (alloc (nat SpawnGroup * 16)) AssertFailed) (\<lambda>_.
           Inr (ic\<lparr>IntercommTable := Some (groups @ replicate (nat SpawnGroup - length groups) [])\<rparr>))
       else Inr (ic\<lparr>IntercommTable := Some groups\<rparr>))"

definition intercommunicators_new_link :: "allocator \<Rightarrow> int \<Rightarrow> int \<Rightarrow> int \<Rightarrow> int \<Rightarrow> intercomms \<Rightarrow> intercomms res" where
  "intercommunicators_new_link alloc from_spawn_group from_task from_comm to_spawn_group ic =
     (case IntercommTable ic of
        None \<Rightarrow> Inl NullPointer
      | Some groups \<Rightarrow>
          andthen (array_get groups (from_spawn_group - 1)) (\<lambda>group.
          andthen (guard (alloc ((length group + 1) * 12)) AssertFailed) (\<lambda>_.
          andthen (array_set groups (from_spawn_group - 1) (group @ [((from_task, from_comm), to_spawn_group)])) (\<lambda>groups.
            Inr (ic\<lparr>IntercommTable := Some groups\<rparr>)))))"

fun new_links :: "allocator \<Rightarrow> int \<Rightarrow> spawn_link list \<Rightarrow> intercomms \<Rightarrow> intercomms res" where
  "new_links alloc SpawnGroup [] ic = Inr ic"
| "new_links alloc SpawnGroup (((from_task, from_comm), to_spawn_group) # links) ic =
     andthen (intercommunicators_new_link alloc SpawnGroup from_task from_comm to_spawn_group ic)
       (new_links alloc SpawnGroup links)"

definition intercommunicators_load :: "allocator \<Rightarrow> int \<Rightarrow> spawn_link list \<Rightarrow> int \<Rightarrow> intercomms \<Rightarrow> intercomms res" where
  "intercommunicators_load alloc SpawnGroup links ptask ic =
     andthen (intercommunicators_map_ptask_to_spawn_group alloc SpawnGroup ptask ic) (\<lambda>ic.
     andthen (intercommunicators_allocate_links alloc SpawnGroup ic) (new_links alloc SpawnGroup links))"

section \<open>Looking up\<close>

definition get_spawn_group :: "int \<Rightarrow> intercomms \<Rightarrow> int" where
  "get_spawn_group ptask ic = (case map_of (AppToSpawnGroupTable ic) ptask of None \<Rightarrow> - 1 | Some g \<Rightarrow> g)"

definition get_ptask :: "int \<Rightarrow> intercomms \<Rightarrow> int" where
  "get_ptask spawn_group ic =
     (case map_of (map (\<lambda>(p, g). (g, p)) (AppToSpawnGroupTable ic)) spawn_group of None \<Rightarrow> - 1 | Some p \<Rightarrow> p)"

definition find_link :: "int \<Rightarrow> int \<Rightarrow> int \<Rightarrow> intercomms \<Rightarrow> int res" where
  "find_link from_spawn_group from_task from_comm ic =
     (case IntercommTable ic of
        None \<Rightarrow> Inl NullPointer
      | Some groups \<Rightarrow>
          if groups = [] then Inr (- 1)
          else andthen (array_get groups (from_spawn_group - 1)) (\<lambda>group.
            Inr (case map_of group (from_task - 1, from_comm) of None \<Rightarrow> - 1 | Some g \<Rightarrow> g)))"

definition intercommunicators_get_target_ptask :: "int \<Rightarrow> int \<Rightarrow> int \<Rightarrow> intercomms \<Rightarrow> int res" where
  "intercommunicators_get_target_ptask from_ptask from_task from_comm ic =
     (let from_spawn_group = get_spawn_group from_ptask ic in
      if from_spawn_group = - 1 then Inr from_ptask
      else
        andthen (find_link from_spawn_group from_task from_comm ic) (\<lambda>to_spawn_group.
          if to_spawn_group = - 1 then Inr from_ptask
          else
            let to_ptask = get_ptask to_spawn_group ic in
            if to_ptask = - 1 then Inr from_ptask else Inr to_ptask))"

end
