(* ===== verification/MpiSemantics.thy ===== *)
theory MpiSemantics
  imports CommQueues ParaverStates TimeSync Intercommunicators
begin

text \<open>
  How the merger translates the MPI events of a trace: the handlers of
  \<open>trunk/dependencies/extrae/src/merger/paraver/mpi_prv_semantics.c\<close>, with
  \<open>paraver/trace_communication.c\<close> and the matching switches of \<open>paraver/file_set.c\<close>.

  The merger is the sequential one. A handler takes the event with the events that follow it
  in the thread's file, its time, and the object (cpu, application, task and thread, from 1) it belongs
  to. \<open>merge_run\<close> is the table of the applications (\<open>ApplicationTable\<close>), and
  \<open>merge_env\<close> what does not change during a merge: the options, the clocks, the
  links between the applications, and the applications and tasks (from 1) of the files merged.
  \<open>MPI_PROC_NULL\<close> and \<open>MPI_ANY_TAG\<close> are \<open>-1\<close>, or the values of \<open>mpi.h\<close>.
\<close>

record thread_info =
  paraver_thread :: thread_t
  running_cpu :: INT32
  Send_Rec :: event_ptr
  Recv_Rec :: event_ptr

record task_info =
  task_threads :: "thread_info list"
  MatchingComms :: bool
  match_zone :: INT32
  recv_queue :: "RecvData_t new_queue"
  send_queue :: "SendData_t new_queue"

record merge_run =
  ptasks :: "task_info list list"
  MPI_SoftCounters_used :: "bool list"

record merge_env =
  env_alloc :: allocator
  env_options :: merge_options
  env_any_tag :: INT32
  env_proc_null :: INT32
  env_clock :: time_sync
  env_links :: intercomms
  env_files :: "(INT32 \<times> INT32) list"
  SkipSendRecvComms :: bool
  circular_buffer :: bool
  circular_skip_matches :: bool

section \<open>The object table\<close>

definition task_at :: "INT32 \<Rightarrow> INT32 \<Rightarrow> merge_run \<Rightarrow> task_info res" where
  "task_at ptask task r =
     andthen (array_get (ptasks r) (uint (ptask - 1))) (\<lambda>tasks. array_get tasks (uint (task - 1)))"

definition put_task :: "INT32 \<Rightarrow> INT32 \<Rightarrow> task_info \<Rightarrow> merge_run \<Rightarrow> merge_run res" where
  "put_task ptask task tk r =
     andthen (array_get (ptasks r) (uint (ptask - 1))) (\<lambda>tasks.
     andthen (array_set tasks (uint (task - 1)) tk) (\<lambda>tasks.
     andthen (array_set (ptasks r) (uint (ptask - 1)) tasks) (\<lambda>ps. Inr (r\<lparr>ptasks := ps\<rparr>))))"

definition thread_at :: "INT32 \<Rightarrow> INT32 \<Rightarrow> INT32 \<Rightarrow> merge_run \<Rightarrow> thread_info res" where
  "thread_at ptask task thread r =
     andthen (task_at ptask task r) (\<lambda>tk. array_get (task_threads tk) (uint (thread - 1)))"

definition change_task :: "INT32 \<Rightarrow> INT32 \<Rightarrow> (task_info \<Rightarrow> task_info res) \<Rightarrow> merge_run \<Rightarrow> merge_run res" where
  "change_task ptask task f r =
     andthen (task_at ptask task r) (\<lambda>tk. andthen (f tk) (\<lambda>tk. put_task ptask task tk r))"

definition change_thread ::
  "INT32 \<Rightarrow> INT32 \<Rightarrow> INT32 \<Rightarrow> (thread_info \<Rightarrow> thread_info res) \<Rightarrow> merge_run \<Rightarrow> merge_run res" where
  "change_thread ptask task thread f =
     change_task ptask task (\<lambda>tk.
       andthen (array_get (task_threads tk) (uint (thread - 1))) (\<lambda>th.
       andthen (f th) (\<lambda>th.
       andthen (array_set (task_threads tk) (uint (thread - 1)) th) (\<lambda>ths. Inr (tk\<lparr>task_threads := ths\<rparr>)))))"

text \<open>A function of \<open>paraver_generator.c\<close> or of the state stack, on the thread it looks up.\<close>

definition on_thread :: "object_id \<Rightarrow> (thread_t \<Rightarrow> thread_t res) \<Rightarrow> merge_run \<Rightarrow> merge_run res" where
  "on_thread ob f =
     change_thread (id_ptask ob) (id_task ob) (id_thread ob) (\<lambda>th.
       andthen (f (paraver_thread th)) (\<lambda>p. Inr (th\<lparr>paraver_thread := p\<rparr>)))"

definition switch_to :: "merge_env \<Rightarrow> object_id \<Rightarrow> state_id \<Rightarrow> bool \<Rightarrow> merge_run \<Rightarrow> merge_run res" where
  "switch_to env ob s condition = on_thread ob (on_stack (Switch_State (env_alloc env) s condition))"

definition mark_time :: "merge_env \<Rightarrow> object_id \<Rightarrow> UINT64 \<Rightarrow> merge_run \<Rightarrow> merge_run res" where
  "mark_time env ob current_time = on_thread ob (trace_paraver_state (env_options env) ob current_time)"

definition show_event :: "merge_env \<Rightarrow> object_id \<Rightarrow> UINT64 \<Rightarrow> INT32 \<Rightarrow> UINT64 \<Rightarrow> merge_run \<Rightarrow> merge_run res" where
  "show_event env ob current_time type v = on_thread ob (trace_paraver_event (env_options env) ob current_time type v)"

definition set_Send_Rec :: "object_id \<Rightarrow> event_t \<Rightarrow> merge_run \<Rightarrow> merge_run res" where
  "set_Send_Rec ob e = change_thread (id_ptask ob) (id_task ob) (id_thread ob) (\<lambda>th. Inr (th\<lparr>Send_Rec := Some e\<rparr>))"

definition set_Recv_Rec :: "object_id \<Rightarrow> event_t \<Rightarrow> merge_run \<Rightarrow> merge_run res" where
  "set_Recv_Rec ob e = change_thread (id_ptask ob) (id_task ob) (id_thread ob) (\<lambda>th. Inr (th\<lparr>Recv_Rec := Some e\<rparr>))"

section \<open>The switches of the matching\<close>

definition isTaskInMyGroup :: "merge_env \<Rightarrow> INT32 \<Rightarrow> INT32 \<Rightarrow> bool" where
  "isTaskInMyGroup env ptask task \<longleftrightarrow> list_ex (\<lambda>(p, t). p - 1 = ptask \<and> t - 1 = task) (env_files env)"

definition MatchComms_ChangeZone :: "INT32 \<Rightarrow> INT32 \<Rightarrow> merge_run \<Rightarrow> merge_run res" where
  "MatchComms_ChangeZone ptask task = change_task ptask task (\<lambda>tk. Inr (tk\<lparr>match_zone := match_zone tk + 1\<rparr>))"

definition MatchComms_GetZone :: "INT32 \<Rightarrow> INT32 \<Rightarrow> merge_run \<Rightarrow> INT32 res" where
  "MatchComms_GetZone ptask task r = andthen (task_at ptask task r) (\<lambda>tk. Inr (match_zone tk))"

definition MatchComms_On :: "INT32 \<Rightarrow> INT32 \<Rightarrow> merge_run \<Rightarrow> merge_run res" where
  "MatchComms_On ptask task r =
     andthen (MatchComms_ChangeZone ptask task r) (change_task ptask task (\<lambda>tk. Inr (tk\<lparr>MatchingComms := True\<rparr>)))"

definition MatchComms_Off :: "INT32 \<Rightarrow> INT32 \<Rightarrow> merge_run \<Rightarrow> merge_run res" where
  "MatchComms_Off ptask task r =
     andthen (MatchComms_ChangeZone ptask task r) (change_task ptask task (\<lambda>tk.
       case (CommunicationQueues_Clear (Some (send_queue tk)), CommunicationQueues_Clear (Some (recv_queue tk))) of
         (Some s, Some q) \<Rightarrow> Inr (tk\<lparr>MatchingComms := False, send_queue := s, recv_queue := q\<rparr>)
       | _ \<Rightarrow> Inl NullPointer))"

definition MatchComms_Enabled :: "INT32 \<Rightarrow> INT32 \<Rightarrow> merge_run \<Rightarrow> bool res" where
  "MatchComms_Enabled ptask task r = andthen (task_at ptask task r) (\<lambda>tk. Inr (MatchingComms tk))"

text \<open>The event of the completion of a receive, in the thread's file from the current event on.\<close>

definition Search_MPI_IRECVED :: "event_t list \<Rightarrow> INT64 \<Rightarrow> event_ptr" where
  "Search_MPI_IRECVED events request =
     (case find (\<lambda>e. Get_EvEvent e = MPI_IRECVED_EV \<and> Get_EvAux e = request) events of
        Some irecved \<Rightarrow> if (ucast (Get_EvValue irecved) :: INT32) \<noteq> 0 then None else Some irecved
      | None \<Rightarrow> None)"

section \<open>A communication\<close>

definition TIMESYNC :: "merge_env \<Rightarrow> INT32 \<Rightarrow> INT32 \<Rightarrow> UINT64 \<Rightarrow> UINT64 res" where
  "TIMESYNC env ptask task time = TimeSync (env_clock env) (sint (ptask - 1)) (sint (task - 1)) time"

definition trace_communicationAt ::
  "merge_env \<Rightarrow> INT32 \<Rightarrow> INT32 \<Rightarrow> INT32 \<Rightarrow> INT32 \<Rightarrow> INT32 \<Rightarrow> INT32 \<Rightarrow> INT32 \<Rightarrow> INT32 \<Rightarrow>
   event_ptr \<Rightarrow> event_ptr \<Rightarrow> event_ptr \<Rightarrow> event_ptr \<Rightarrow> bool \<Rightarrow> int \<Rightarrow> merge_run \<Rightarrow> merge_run res" where
  "trace_communicationAt env ptask_s task_s thread_s vthread_s ptask_to task_to thread_to vthread_to
       begin_s end_s begin_r end_r atposition position r =
     andthen (thread_at ptask_to task_to thread_to r) (\<lambda>thread_r_info.
     andthen (thread_at ptask_s task_s thread_s r) (\<lambda>thread_s_info.
     andthen (TIMESYNC env ptask_s task_s (Get_EvTime begin_s)) (\<lambda>log_s.
     andthen (TIMESYNC env ptask_s task_s (Get_EvTime end_s)) (\<lambda>phy_s.
     andthen (TIMESYNC env ptask_to task_to (Get_EvTime begin_r)) (\<lambda>log_r.
     andthen (TIMESYNC env ptask_to task_to (Get_EvTime end_r)) (\<lambda>phy_r.
     andthen (followed end_r) (\<lambda>e.
       let sender = \<lparr>id_cpu = running_cpu thread_s_info, id_ptask = ptask_s, id_task = task_s, id_thread = thread_s\<rparr>;
           receiver = \<lparr>id_cpu = running_cpu thread_r_info, id_ptask = ptask_to, id_task = task_to, id_thread = thread_to\<rparr> in
       on_thread sender (trace_paraver_communication (env_options env)
         \<lparr>comm_object = sender, vthread = vthread_s, log_time = log_s, phy_time = phy_s\<rparr>
         \<lparr>comm_object = receiver, vthread = vthread_to, log_time = log_r, phy_time = phy_r\<rparr>
         (Get_EvSize e) (Get_EvTag e) atposition position) r)))))))"

text \<open>The variables the extractions fill; they are read only after that.\<close>

definition not_extracted :: extracted where
  "not_extracted = \<lparr>out_begin = None, out_end = None, out_position = 0, out_thread = 0, out_vthread = 0\<rparr>"

definition target_ptask :: "merge_env \<Rightarrow> object_id \<Rightarrow> INT32 \<Rightarrow> INT32 res" where
  "target_ptask env ob comm =
     andthen (intercommunicators_get_target_ptask (sint (id_ptask ob)) (sint (id_task ob)) (sint comm) (env_links env))
       (\<lambda>p. Inr (word_of_int p))"

text \<open>
  The end of a send: it is matched with a pending receive of its target, or queued with the place of the record
  that says it is unmatched. The handlers of the sends share these lines.
\<close>

definition send_matched :: "merge_env \<Rightarrow> object_id \<Rightarrow> UINT64 \<Rightarrow> event_ptr \<Rightarrow> event_t \<Rightarrow> merge_run \<Rightarrow> merge_run res" where
  "send_matched env ob current_time begin_s e r =
     andthen (target_ptask env ob (Get_EvComm e)) (\<lambda>target.
     if \<not> isTaskInMyGroup env (target - 1) (Get_EvTarget e) then Inr r
     else
       andthen (task_at target (Get_EvTarget e + 1) r) (\<lambda>partner.
       andthen (CommunicationQueues_ExtractRecv (env_any_tag env) (recv_queue partner) (id_task ob - 1) (Get_EvTag e)
          not_extracted 0) (\<lambda>(out, q).
       andthen (put_task target (Get_EvTarget e + 1) (partner\<lparr>recv_queue := q\<rparr>) r) (\<lambda>r.
       andthen (thread_at (id_ptask ob) (id_task ob) (id_thread ob) r) (\<lambda>th.
         if out_begin out = None \<or> out_end out = None then
           let p = paraver_thread th; position = WriteFileBuffer_getPosition (wfb p) in
           andthen (change_task (id_ptask ob) (id_task ob) (\<lambda>tk.
               andthen (CommunicationQueues_QueueSend (env_alloc env) (send_queue tk) begin_s (Some e) position
                   (id_thread ob) (virtual_thread p) (Get_EvTarget e) (Get_EvTag e) 0)
                 (\<lambda>q. Inr (tk\<lparr>send_queue := q\<rparr>))) r)
             (on_thread ob (trace_paraver_unmatched_communication (env_options env)
               \<lparr>comm_object = ob\<lparr>id_cpu := 1\<rparr>, vthread = virtual_thread p, log_time = current_time, phy_time = Get_EvTime (Some e)\<rparr>
               \<lparr>id_cpu = 1, id_ptask = target, id_task = Get_EvTarget e + 1, id_thread = 1\<rparr>
               (Get_EvSize e) (Get_EvTag e)))
         else
           trace_communicationAt env (id_ptask ob) (id_task ob) (id_thread ob) (virtual_thread (paraver_thread th))
             target (1 + Get_EvTarget e) (out_thread out) (out_vthread out)
             begin_s (Some e) (out_begin out) (out_end out) False 0 r)))))"

definition match_send :: "merge_env \<Rightarrow> object_id \<Rightarrow> UINT64 \<Rightarrow> event_ptr \<Rightarrow> event_t \<Rightarrow> merge_run \<Rightarrow> merge_run res" where
  "match_send env ob current_time begin_s e r =
     andthen (MatchComms_Enabled (id_ptask ob) (id_task ob) r) (\<lambda>enabled.
       if enabled \<and> env_proc_null env \<noteq> Get_EvTarget e then send_matched env ob current_time begin_s e r else Inr r)"

text \<open>
  The end of a receive, in the handlers of the receives: \<open>missing\<close> is their test of what the queue of the
  sender gave, \<open>e\<close> the event the sender and the tag are taken from, \<open>queued\<close> the one they
  are queued with, and \<open>ptask_of\<close> the application the sender's queue is looked up in.
\<close>

definition receive_matched ::
  "merge_env \<Rightarrow> object_id \<Rightarrow> (event_ptr \<Rightarrow> event_ptr \<Rightarrow> bool) \<Rightarrow> (INT32 \<Rightarrow> INT32) \<Rightarrow> event_t \<Rightarrow> INT32 \<Rightarrow>
   event_ptr \<Rightarrow> event_t \<Rightarrow> merge_run \<Rightarrow> merge_run res" where
  "receive_matched env ob missing ptask_of queued target begin_r e r =
     (if \<not> isTaskInMyGroup env (target - 1) (Get_EvTarget e) then Inr r
      else
       andthen (task_at (ptask_of target) (Get_EvTarget e + 1) r) (\<lambda>partner.
       andthen (CommunicationQueues_ExtractSend (env_any_tag env) (send_queue partner) (id_task ob - 1) (Get_EvTag e)
          not_extracted 0) (\<lambda>(out, q).
       andthen (put_task (ptask_of target) (Get_EvTarget e + 1) (partner\<lparr>send_queue := q\<rparr>) r) (\<lambda>r.
       andthen (thread_at (id_ptask ob) (id_task ob) (id_thread ob) r) (\<lambda>th.
         if missing (out_begin out) (out_end out) then
           change_task (id_ptask ob) (id_task ob) (\<lambda>tk.
             andthen (CommunicationQueues_QueueRecv (env_alloc env) (recv_queue tk) begin_r (Some e)
                 (id_thread ob) (virtual_thread (paraver_thread th)) (Get_EvTarget queued) (Get_EvTag queued) 0)
               (\<lambda>q. Inr (tk\<lparr>recv_queue := q\<rparr>))) r
         else if out_begin out \<noteq> None \<and> out_end out \<noteq> None then
           trace_communicationAt env target (1 + Get_EvTarget e) (out_thread out) (out_vthread out)
             (id_ptask ob) (id_task ob) (id_thread ob) (virtual_thread (paraver_thread th))
             (out_begin out) (out_end out) begin_r (Some e) True (out_position out) r
         else Inr r)))))"

definition match_receive ::
  "merge_env \<Rightarrow> object_id \<Rightarrow> (event_ptr \<Rightarrow> event_ptr \<Rightarrow> bool) \<Rightarrow> event_ptr \<Rightarrow> event_t \<Rightarrow> INT32 \<Rightarrow> merge_run \<Rightarrow> merge_run res" where
  "match_receive env ob missing begin_r e comm r =
     (if env_proc_null env \<noteq> Get_EvTarget e then
        andthen (target_ptask env ob comm) (\<lambda>target.
          receive_matched env ob missing (\<lambda>target. target) e target begin_r e r)
      else Inr r)"

definition either_null :: "event_ptr \<Rightarrow> event_ptr \<Rightarrow> bool" where
  "either_null b e \<longleftrightarrow> b = None \<or> e = None"

definition both_null :: "event_ptr \<Rightarrow> event_ptr \<Rightarrow> bool" where
  "both_null b e \<longleftrightarrow> b = None \<and> e = None"

section \<open>States and software counters\<close>

abbreviation (input) STATE_WAITMESS :: state_id where "STATE_WAITMESS \<equiv> 3"
abbreviation (input) STATE_SEND :: state_id where "STATE_SEND \<equiv> 4"
abbreviation (input) STATE_BARRIER :: state_id where "STATE_BARRIER \<equiv> 5"
abbreviation (input) STATE_PROBE :: state_id where "STATE_PROBE \<equiv> 6"
abbreviation (input) STATE_TWRECV :: state_id where "STATE_TWRECV \<equiv> 8"
abbreviation (input) STATE_ISEND :: state_id where "STATE_ISEND \<equiv> 10"
abbreviation (input) STATE_IWAITMESS :: state_id where "STATE_IWAITMESS \<equiv> 11"
abbreviation (input) STATE_IRECV :: state_id where "STATE_IRECV \<equiv> 11"
abbreviation (input) STATE_IO :: state_id where "STATE_IO \<equiv> 12"
abbreviation (input) STATE_BCAST :: state_id where "STATE_BCAST \<equiv> 13"
abbreviation (input) STATE_INITFINI :: state_id where "STATE_INITFINI \<equiv> 15"
abbreviation (input) STATE_MIXED :: state_id where "STATE_MIXED \<equiv> 15"
abbreviation (input) STATE_SENDRECVOP :: state_id where "STATE_SENDRECVOP \<equiv> 16"
abbreviation (input) STATE_MEMORY_XFER :: state_id where "STATE_MEMORY_XFER \<equiv> 17"

definition Get_State :: "INT32 \<Rightarrow> state_id res" where
  "Get_State EvType =
     (if EvType \<in> {MPI_INIT_EV, MPI_FINALIZE_EV}
      then Inr STATE_INITFINI
     else if EvType \<in> {MPI_FILE_OPEN_EV, MPI_FILE_CLOSE_EV, MPI_FILE_READ_EV, MPI_FILE_READ_ALL_EV, MPI_FILE_WRITE_EV,
        MPI_FILE_WRITE_ALL_EV, MPI_FILE_READ_AT_EV, MPI_FILE_READ_AT_ALL_EV, MPI_FILE_WRITE_AT_EV,
        MPI_FILE_WRITE_AT_ALL_EV}
      then Inr STATE_IO
     else if EvType \<in> {MPI_WIN_FREE_EV, MPI_WIN_START_EV, MPI_REQUEST_FREE_EV, MPI_COMM_RANK_EV, MPI_COMM_SIZE_EV,
        MPI_COMM_CREATE_EV, MPI_COMM_FREE_EV, MPI_COMM_DUP_EV, MPI_COMM_SPLIT_EV, MPI_COMM_SPAWN_EV,
        MPI_COMM_SPAWN_MULTIPLE_EV, MPI_CART_CREATE_EV, MPI_CART_SUB_EV, MPI_CANCEL_EV,
        MPI_REQUEST_GET_STATUS_EV, MPI_INTERCOMM_CREATE_EV, MPI_INTERCOMM_MERGE_EV, MPI_WIN_POST_EV,
        MPI_WIN_COMPLETE_EV, MPI_WIN_CREATE_EV}
      then Inr STATE_MIXED
     else if EvType \<in> {MPI_PROBE_EV, MPI_IPROBE_EV}
      then Inr STATE_PROBE
     else if EvType \<in> {MPI_TEST_EV, MPI_TESTALL_EV, MPI_TESTSOME_EV, MPI_TESTANY_EV, MPI_WAIT_EV, MPI_WAITALL_EV,
        MPI_WAITSOME_EV, MPI_WAITANY_EV, MPI_WIN_WAIT_EV}
      then Inr STATE_TWRECV
     else if EvType \<in> {MPI_SEND_EV, MPI_RSEND_EV, MPI_SSEND_EV, MPI_BSEND_EV}
      then Inr STATE_SEND
     else if EvType \<in> {MPI_ISEND_EV, MPI_IRSEND_EV, MPI_ISSEND_EV, MPI_IBSEND_EV}
      then Inr STATE_ISEND
     else if EvType \<in> {MPI_BARRIER_EV, MPI_IBARRIER_EV}
      then Inr STATE_BARRIER
     else if EvType \<in> {MPI_REDUCE_EV, MPI_ALLREDUCE_EV, MPI_BCAST_EV, MPI_ALLTOALL_EV, MPI_ALLTOALLV_EV,
        MPI_ALLGATHER_EV, MPI_ALLGATHERV_EV, MPI_GATHER_EV, MPI_GATHERV_EV, MPI_SCATTER_EV,
        MPI_SCATTERV_EV, MPI_REDUCESCAT_EV, MPI_SCAN_EV, MPI_IREDUCE_EV, MPI_IALLREDUCE_EV,
        MPI_IBCAST_EV, MPI_IALLTOALL_EV, MPI_IALLTOALLV_EV, MPI_IALLGATHER_EV, MPI_IALLGATHERV_EV,
        MPI_IGATHER_EV, MPI_IGATHERV_EV, MPI_ISCATTER_EV, MPI_ISCATTERV_EV, MPI_IREDUCESCAT_EV,
        MPI_ISCAN_EV}
      then Inr STATE_BCAST
     else if EvType \<in> {MPI_WIN_FENCE_EV, MPI_GET_EV, MPI_PUT_EV}
      then Inr STATE_MEMORY_XFER
     else Inl (Exit (- 1)))"

text \<open>The counters that the description of the trace has to name.\<close>

abbreviation (input) IPROBE_CNT_INDEX :: int where "IPROBE_CNT_INDEX \<equiv> 0"
abbreviation (input) TIME_OUTSIDE_IPROBES_INDEX :: int where "TIME_OUTSIDE_IPROBES_INDEX \<equiv> 1"
abbreviation (input) TEST_CNT_INDEX :: int where "TEST_CNT_INDEX \<equiv> 2"
abbreviation (input) COLLECTIVE_INDEX :: int where "COLLECTIVE_INDEX \<equiv> 3"
abbreviation (input) MPI_REQUEST_GET_STATUS_CNT_INDEX :: int where "MPI_REQUEST_GET_STATUS_CNT_INDEX \<equiv> 4"
abbreviation (input) TIME_OUTSIDE_MPI_REQUEST_GET_STATUS_INDEX :: int where "TIME_OUTSIDE_MPI_REQUEST_GET_STATUS_INDEX \<equiv> 5"
abbreviation (input) IO_INDEX :: int where "IO_INDEX \<equiv> 6"

definition Enable_MPI_Soft_Counter :: "INT32 \<Rightarrow> bool list \<Rightarrow> bool list res" where
  "Enable_MPI_Soft_Counter EvType used =
     (if EvType = MPI_IPROBE_COUNTER_EV then array_set used IPROBE_CNT_INDEX True
     else if EvType = MPI_TIME_OUTSIDE_IPROBES_EV then array_set used TIME_OUTSIDE_IPROBES_INDEX True
     else if EvType = MPI_TEST_COUNTER_EV then array_set used TEST_CNT_INDEX True
     else if EvType = MPI_REQUEST_GET_STATUS_COUNTER_EV then array_set used MPI_REQUEST_GET_STATUS_CNT_INDEX True
     else if EvType = MPI_TIME_OUTSIDE_MPI_REQUEST_GET_STATUS_EV then array_set used TIME_OUTSIDE_MPI_REQUEST_GET_STATUS_INDEX True
     else if EvType \<in> {MPI_REDUCE_EV, MPI_ALLREDUCE_EV, MPI_BARRIER_EV, MPI_BCAST_EV, MPI_ALLTOALL_EV,
        MPI_ALLTOALLV_EV, MPI_ALLGATHER_EV, MPI_ALLGATHERV_EV, MPI_GATHER_EV, MPI_GATHERV_EV,
        MPI_SCATTER_EV, MPI_SCATTERV_EV, MPI_REDUCESCAT_EV, MPI_SCAN_EV, MPI_IREDUCE_EV,
        MPI_IALLREDUCE_EV, MPI_IBARRIER_EV, MPI_IBCAST_EV, MPI_IALLTOALL_EV, MPI_IALLTOALLV_EV,
        MPI_IALLGATHER_EV, MPI_IALLGATHERV_EV, MPI_IGATHER_EV, MPI_IGATHERV_EV, MPI_ISCATTER_EV,
        MPI_ISCATTERV_EV, MPI_IREDUCESCAT_EV, MPI_ISCAN_EV} then array_set used COLLECTIVE_INDEX True
     else if EvType \<in> {MPI_FILE_READ_EV, MPI_FILE_READ_ALL_EV, MPI_FILE_WRITE_EV, MPI_FILE_WRITE_ALL_EV,
        MPI_FILE_READ_AT_EV, MPI_FILE_READ_AT_ALL_EV, MPI_FILE_WRITE_AT_EV, MPI_FILE_WRITE_AT_ALL_EV} then array_set used IO_INDEX True
     else Inr used)"

definition enable_counter :: "INT32 \<Rightarrow> merge_run \<Rightarrow> merge_run res" where
  "enable_counter EvType r =
     andthen (Enable_MPI_Soft_Counter EvType (MPI_SoftCounters_used r)) (\<lambda>used. Inr (r\<lparr>MPI_SoftCounters_used := used\<rparr>))"

section \<open>The handlers\<close>

text \<open>\<open>EvValue\<close> is an \<open>unsigned int\<close>.\<close>

definition short_value :: "event_t \<Rightarrow> INT32" where
  "short_value e = ucast (Get_EvValue e)"

type_synonym mpi_event_handler =
  "merge_env \<Rightarrow> event_t \<Rightarrow> event_t list \<Rightarrow> UINT64 \<Rightarrow> object_id \<Rightarrow> merge_run \<Rightarrow> merge_run res"

text \<open>The lines most handlers have in common: the change of state, the time of the state, the event.\<close>

definition show_state_and_event ::
  "merge_env \<Rightarrow> object_id \<Rightarrow> UINT64 \<Rightarrow> state_id \<Rightarrow> event_t \<Rightarrow> merge_run \<Rightarrow> merge_run res" where
  "show_state_and_event env ob current_time state e r =
     andthen (switch_to env ob state (short_value e = EVT_BEGIN) r) (\<lambda>r.
     andthen (mark_time env ob current_time r)
       (show_event env ob current_time (Get_EvEvent e) (ucast (short_value e))))"

definition Any_Send_Event :: mpi_event_handler where
  "Any_Send_Event env e rest current_time ob r =
     andthen (Get_State (Get_EvEvent e)) (\<lambda>state.
     andthen (show_state_and_event env ob current_time state e r) (\<lambda>r.
       if short_value e = EVT_BEGIN then set_Send_Rec ob e r
       else if short_value e = EVT_END then
         andthen (thread_at (id_ptask ob) (id_task ob) (id_thread ob) r) (\<lambda>th.
           match_send env ob current_time (Send_Rec th) e r)
       else Inr r))"

definition SendRecv_Event :: mpi_event_handler where
  "SendRecv_Event env e rest current_time ob r =
     andthen (switch_to env ob STATE_SENDRECVOP (Get_EvValue e = EVT_BEGIN) r) (\<lambda>r.
     andthen (mark_time env ob current_time r) (\<lambda>r.
     andthen (show_event env ob current_time (Get_EvEvent e) (Get_EvValue e) r) (\<lambda>r.
       if SkipSendRecvComms env then Inr r
       else if Get_EvValue e = EVT_BEGIN then
         andthen (set_Send_Rec ob e r) (match_send env ob current_time (Some e) e)
       else if Get_EvValue e = EVT_END then
         andthen (set_Recv_Rec ob e r) (\<lambda>r.
         andthen (MatchComms_Enabled (id_ptask ob) (id_task ob) r) (\<lambda>enabled.
         andthen (thread_at (id_ptask ob) (id_task ob) (id_thread ob) r) (\<lambda>th.
           if enabled then match_receive env ob both_null (Send_Rec th) e (Get_EvComm e) r else Inr r)))
       else Inr r)))"

definition Recv_Event :: mpi_event_handler where
  "Recv_Event env e rest current_time ob r =
     andthen (switch_to env ob STATE_WAITMESS (short_value e = EVT_BEGIN) r) (\<lambda>r.
     andthen (if short_value e = EVT_BEGIN then set_Recv_Rec ob e r
       else
         andthen (MatchComms_Enabled (id_ptask ob) (id_task ob) r) (\<lambda>enabled.
         andthen (thread_at (id_ptask ob) (id_task ob) (id_thread ob) r) (\<lambda>th.
           if enabled then match_receive env ob either_null (Recv_Rec th) e (Get_EvComm e) r else Inr r))) (\<lambda>r.
     andthen (mark_time env ob current_time r)
       (show_event env ob current_time (Get_EvEvent e) (ucast (short_value e)))))"

definition IRecv_Event :: mpi_event_handler where
  "IRecv_Event env e rest current_time ob r =
     andthen (switch_to env ob STATE_IWAITMESS (short_value e = EVT_BEGIN) r) (\<lambda>r.
     andthen (if short_value e = EVT_END then
         andthen (MatchComms_Enabled (id_ptask ob) (id_task ob) r) (\<lambda>enabled.
           if \<not> enabled then Inr r
           else case Search_MPI_IRECVED (e # rest) (Get_EvAux e) of
             None \<Rightarrow> Inr r
           | Some receive \<Rightarrow> match_receive env ob either_null (Some e) receive (Get_EvComm e) r)
       else Inr r) (\<lambda>r.
     andthen (mark_time env ob current_time r)
       (show_event env ob current_time (Get_EvEvent e) (ucast (short_value e)))))"

text \<open>
  The request of a persistent operation that is started. A receive is looked for in the queue of the
  task's own application, and queued with the sender and tag of the request.
\<close>

definition MPI_PersistentRequest_Event :: mpi_event_handler where
  "MPI_PersistentRequest_Event env e rest current_time ob r =
     andthen (mark_time env ob current_time r) (\<lambda>r.
     andthen (if Get_EvValue e = MPI_ISEND_EV then
         andthen (set_Send_Rec ob e r) (match_send env ob current_time (Some e) e)
       else Inr r) (\<lambda>r.
       if Get_EvValue e = MPI_IRECV_EV then
         andthen (set_Recv_Rec ob e r) (\<lambda>r.
         andthen (MatchComms_Enabled (id_ptask ob) (id_task ob) r) (\<lambda>enabled.
           if \<not> enabled then Inr r
           else case Search_MPI_IRECVED (e # rest) (Get_EvAux e) of
             None \<Rightarrow> Inr r
           | Some receive \<Rightarrow>
               andthen (target_ptask env ob (Get_EvComm e)) (\<lambda>target.
                 if env_proc_null env \<noteq> Get_EvTarget receive then
                   receive_matched env ob either_null (\<lambda>_. id_ptask ob) e target (Some e) receive r
                 else Inr r)))
       else Inr r))"

definition MPI_PersistentRequest_Init_Event :: mpi_event_handler where
  "MPI_PersistentRequest_Init_Event env e rest current_time ob r =
     show_state_and_event env ob current_time
       (if Get_EvEvent e = MPI_RECV_INIT_EV then STATE_IRECV else STATE_ISEND) e r"

definition MPI_PersistentRequest_Free_Event :: mpi_event_handler where
  "MPI_PersistentRequest_Free_Event env e rest current_time ob r =
     show_state_and_event env ob current_time STATE_TWRECV e r"

definition MPI_Start_Event :: mpi_event_handler where
  "MPI_Start_Event env e rest current_time ob r =
     andthen (show_state_and_event env ob current_time STATE_MIXED e r) (\<lambda>r.
       if short_value e = EVT_BEGIN then andthen (set_Send_Rec ob e r) (set_Recv_Rec ob e) else Inr r)"

text \<open>The counter handlers that show the value, as 32 bits, and the elapsed times, as 64.\<close>

definition MPI_SoftwareCounter_Event :: mpi_event_handler where
  "MPI_SoftwareCounter_Event env e rest current_time ob r =
     andthen (mark_time env ob current_time r) (\<lambda>r.
     andthen (show_event env ob current_time (Get_EvEvent e) (ucast (short_value e)) r) (enable_counter (Get_EvEvent e)))"

definition MPI_ElapsedTime_Event :: mpi_event_handler where
  "MPI_ElapsedTime_Event env e rest current_time ob r =
     andthen (mark_time env ob current_time r) (\<lambda>r.
     andthen (show_event env ob current_time (Get_EvEvent e) (Get_EvValue e) r) (enable_counter (Get_EvEvent e)))"

section \<open>Collective and other operations\<close>

definition Get_GlobalOP_CommID :: "event_t \<Rightarrow> INT32" where
  "Get_GlobalOP_CommID current = Get_EvComm current"

definition Get_GlobalOP_isRoot :: "event_t \<Rightarrow> INT32 \<Rightarrow> bool" where
  "Get_GlobalOP_isRoot current task =
     (if Get_EvEvent current \<in> {MPI_REDUCE_EV, MPI_IREDUCE_EV} then Get_EvAux current = scast (Get_EvTag current)
      else if Get_EvEvent current \<in> {MPI_BCAST_EV, MPI_IBCAST_EV} then Get_EvTarget current = Get_EvTag current
      else if Get_EvEvent current \<in> {MPI_GATHER_EV, MPI_IGATHER_EV, MPI_GATHERV_EV, MPI_IGATHERV_EV, MPI_SCATTER_EV,
        MPI_ISCATTER_EV, MPI_SCATTERV_EV, MPI_ISCATTERV_EV} then Get_EvTarget current = task - 1
      else if Get_EvEvent current \<in> {MPI_REDUCESCAT_EV, MPI_IREDUCESCAT_EV} then Get_EvTarget current = 0
      else False)"

definition Get_GlobalOP_SendSize :: "event_t \<Rightarrow> bool \<Rightarrow> INT32" where
  "Get_GlobalOP_SendSize current is_root =
     (if Get_EvEvent current \<in> {MPI_BARRIER_EV, MPI_IBARRIER_EV} then 0
      else if Get_EvEvent current \<in> {MPI_REDUCE_EV, MPI_IREDUCE_EV} then (if is_root then 0 else Get_EvSize current)
      else if Get_EvEvent current \<in> {MPI_BCAST_EV, MPI_IBCAST_EV} then (if \<not> is_root then 0 else Get_EvSize current)
      else Get_EvSize current)"

definition Get_GlobalOP_RecvSize :: "event_t \<Rightarrow> bool \<Rightarrow> INT32" where
  "Get_GlobalOP_RecvSize current is_root =
     (if Get_EvEvent current \<in> {MPI_BARRIER_EV, MPI_IBARRIER_EV} then 0
      else if Get_EvEvent current \<in> {MPI_REDUCE_EV, MPI_IREDUCE_EV} then (if \<not> is_root then 0 else Get_EvSize current)
      else if Get_EvEvent current \<in> {MPI_BCAST_EV, MPI_IBCAST_EV} then (if is_root then 0 else Get_EvSize current)
      else if Get_EvEvent current \<in> {MPI_REDUCESCAT_EV, MPI_IREDUCESCAT_EV}
        then (if is_root then Get_EvSize current else ucast (Get_EvAux current))
      else if Get_EvEvent current \<in> {MPI_SCAN_EV, MPI_ISCAN_EV, MPI_ALLREDUCE_EV, MPI_IALLREDUCE_EV} then Get_EvSize current
      else ucast (Get_EvAux current))"

definition GlobalOP_event :: mpi_event_handler where
  "GlobalOP_event env e rest current_time ob r =
     andthen (MatchComms_Enabled (id_ptask ob) (id_task ob) r) (\<lambda>enabled.
     andthen (array_get (ptasks r) (uint (id_ptask ob - 1))) (\<lambda>tasks.
     andthen (if circular_buffer env \<and> circular_skip_matches env \<and> \<not> enabled \<and> short_value e = EVT_END \<and>
          Get_EvSize e = of_nat (length tasks)
        then MatchComms_On (id_ptask ob) (id_task ob) r else Inr r) (\<lambda>r.
     andthen (Get_State (Get_EvEvent e)) (\<lambda>state.
     andthen (show_state_and_event env ob current_time state e r) (\<lambda>r.
       if short_value e = EVT_BEGIN then
         let is_root = Get_GlobalOP_isRoot e (id_task ob) in
         andthen (on_thread ob (trace_enter_global_op (env_options env) ob current_time (Get_GlobalOP_CommID e)
             (Get_GlobalOP_SendSize e is_root) (Get_GlobalOP_RecvSize e is_root) (if is_root then 1 else 0)) r)
           (enable_counter (Get_EvEvent e))
       else Inr r)))))"

text \<open>\<open>MPI_Init\<close> leaves the task outside the tracing when the matching starts later.\<close>

definition Other_MPI_Event :: mpi_event_handler where
  "Other_MPI_Event env e rest current_time ob r =
     andthen (Get_State (Get_EvEvent e)) (\<lambda>state.
     andthen (switch_to env ob state (short_value e = EVT_BEGIN) r) (\<lambda>r.
     andthen (if Get_EvEvent e = MPI_INIT_EV \<and> short_value e = EVT_END \<and> circular_buffer env \<and> circular_skip_matches env
        then on_thread ob (on_stack (Push_State (env_alloc env) STATE_NOT_TRACING)) r else Inr r) (\<lambda>r.
     andthen (mark_time env ob current_time r) (\<lambda>r.
     andthen (show_event env ob current_time (Get_EvEvent e) (ucast (short_value e)) r) (\<lambda>r.
       if Get_EvEvent e = MPI_INIT_EV \<and> short_value e = EVT_BEGIN then
         andthen (show_event env ob current_time PID_EV (ucast (Get_EvTarget e)) r) (\<lambda>r.
         andthen (show_event env ob current_time PPID_EV (ucast (Get_EvSize e)) r) (\<lambda>r.
           show_event env ob current_time FORK_DEPTH_EV (ucast (Get_EvTag e)) r))
       else Inr r)))))"

definition MPIIO_Event :: mpi_event_handler where
  "MPIIO_Event env e rest current_time ob r =
     andthen (Get_State (Get_EvEvent e)) (\<lambda>state.
     andthen (show_state_and_event env ob current_time state e r) (\<lambda>r.
     andthen (show_event env ob current_time MPI_IO_SIZE_EV (scast (Get_EvSize e)) r)
       (enable_counter (Get_EvEvent e))))"

definition MPI_RMA_Event :: mpi_event_handler where
  "MPI_RMA_Event env e rest current_time ob r =
     andthen (Get_State (Get_EvEvent e)) (\<lambda>state.
     andthen (switch_to env ob state (Get_EvValue e = EVT_BEGIN) r) (\<lambda>r.
     andthen (mark_time env ob current_time r) (\<lambda>r.
     andthen (show_event env ob current_time (Get_EvEvent e) (Get_EvValue e) r) (\<lambda>r.
       if Get_EvSize e \<noteq> 0 then show_event env ob current_time MPI_RMA_SIZE (ucast (Get_EvSize e)) r else Inr r))))"

section \<open>The table of the handlers\<close>

datatype mpi_handler =
    H_Any_Send_Event
  | H_SendRecv_Event
  | H_Recv_Event
  | H_IRecv_Event
  | H_GlobalOP_event
  | H_Other_MPI_Event
  | H_SkipHandler
  | H_MPI_PersistentRequest_Init_Event
  | H_MPI_PersistentRequest_Event
  | H_MPI_Start_Event
  | H_MPI_PersistentRequest_Free_Event
  | H_MPI_Request_get_status_SoftwareCounter_Event
  | H_MPI_ElapsedTimeOutsideRequest_get_status_Event
  | H_MPI_IProbeSoftwareCounter_Event
  | H_MPI_ElapsedTimeOutsideIProbes_Event
  | H_MPI_TestSoftwareCounter_Event
  | H_MPIIO_Event
  | H_MPI_RMA_Event

definition PRV_MPI_Event_Handlers :: "(INT32 \<times> mpi_handler) list" where
  "PRV_MPI_Event_Handlers =
    [(MPI_SEND_EV, H_Any_Send_Event),
     (MPI_BSEND_EV, H_Any_Send_Event),
     (MPI_SSEND_EV, H_Any_Send_Event),
     (MPI_RSEND_EV, H_Any_Send_Event),
     (MPI_IBSEND_EV, H_Any_Send_Event),
     (MPI_ISSEND_EV, H_Any_Send_Event),
     (MPI_IRSEND_EV, H_Any_Send_Event),
     (MPI_ISEND_EV, H_Any_Send_Event),
     (MPI_SENDRECV_EV, H_SendRecv_Event),
     (MPI_SENDRECV_REPLACE_EV, H_SendRecv_Event),
     (MPI_RECV_EV, H_Recv_Event),
     (MPI_IRECV_EV, H_IRecv_Event),
     (MPI_REDUCE_EV, H_GlobalOP_event),
     (MPI_ALLREDUCE_EV, H_GlobalOP_event),
     (MPI_PROBE_EV, H_Other_MPI_Event),
     (MPI_REQUEST_GET_STATUS_EV, H_Other_MPI_Event),
     (MPI_IPROBE_EV, H_Other_MPI_Event),
     (MPI_BARRIER_EV, H_GlobalOP_event),
     (MPI_CANCEL_EV, H_Other_MPI_Event),
     (MPI_TEST_EV, H_Other_MPI_Event),
     (MPI_TESTALL_EV, H_Other_MPI_Event),
     (MPI_TESTANY_EV, H_Other_MPI_Event),
     (MPI_TESTSOME_EV, H_Other_MPI_Event),
     (MPI_WAIT_EV, H_Other_MPI_Event),
     (MPI_WAITALL_EV, H_Other_MPI_Event),
     (MPI_WAITANY_EV, H_Other_MPI_Event),
     (MPI_WAITSOME_EV, H_Other_MPI_Event),
     (MPI_IRECVED_EV, H_SkipHandler),
     (MPI_BCAST_EV, H_GlobalOP_event),
     (MPI_ALLTOALL_EV, H_GlobalOP_event),
     (MPI_ALLTOALLV_EV, H_GlobalOP_event),
     (MPI_ALLGATHER_EV, H_GlobalOP_event),
     (MPI_ALLGATHERV_EV, H_GlobalOP_event),
     (MPI_GATHER_EV, H_GlobalOP_event),
     (MPI_GATHERV_EV, H_GlobalOP_event),
     (MPI_SCATTER_EV, H_GlobalOP_event),
     (MPI_SCATTERV_EV, H_GlobalOP_event),
     (MPI_REDUCESCAT_EV, H_GlobalOP_event),
     (MPI_SCAN_EV, H_GlobalOP_event),
     (MPI_INIT_EV, H_Other_MPI_Event),
     (MPI_FINALIZE_EV, H_Other_MPI_Event),
     (MPI_RECV_INIT_EV, H_MPI_PersistentRequest_Init_Event),
     (MPI_SEND_INIT_EV, H_MPI_PersistentRequest_Init_Event),
     (MPI_BSEND_INIT_EV, H_MPI_PersistentRequest_Init_Event),
     (MPI_RSEND_INIT_EV, H_MPI_PersistentRequest_Init_Event),
     (MPI_SSEND_INIT_EV, H_MPI_PersistentRequest_Init_Event),
     (MPI_PERSIST_REQ_EV, H_MPI_PersistentRequest_Event),
     (MPI_START_EV, H_MPI_Start_Event),
     (MPI_STARTALL_EV, H_MPI_Start_Event),
     (MPI_REQUEST_FREE_EV, H_MPI_PersistentRequest_Free_Event),
     (MPI_COMM_RANK_EV, H_Other_MPI_Event),
     (MPI_COMM_SIZE_EV, H_Other_MPI_Event),
     (MPI_COMM_CREATE_EV, H_Other_MPI_Event),
     (MPI_COMM_FREE_EV, H_Other_MPI_Event),
     (MPI_COMM_SPLIT_EV, H_Other_MPI_Event),
     (MPI_COMM_SPAWN_EV, H_Other_MPI_Event),
     (MPI_COMM_SPAWN_MULTIPLE_EV, H_Other_MPI_Event),
     (MPI_COMM_DUP_EV, H_Other_MPI_Event),
     (MPI_CART_CREATE_EV, H_Other_MPI_Event),
     (MPI_CART_SUB_EV, H_Other_MPI_Event),
     (MPI_INTERCOMM_CREATE_EV, H_Other_MPI_Event),
     (MPI_INTERCOMM_MERGE_EV, H_Other_MPI_Event),
     (MPI_REQUEST_GET_STATUS_COUNTER_EV, H_MPI_Request_get_status_SoftwareCounter_Event),
     (MPI_TIME_OUTSIDE_MPI_REQUEST_GET_STATUS_EV, H_MPI_ElapsedTimeOutsideRequest_get_status_Event),
     (MPI_IPROBE_COUNTER_EV, H_MPI_IProbeSoftwareCounter_Event),
     (MPI_TIME_OUTSIDE_IPROBES_EV, H_MPI_ElapsedTimeOutsideIProbes_Event),
     (MPI_TEST_COUNTER_EV, H_MPI_TestSoftwareCounter_Event),
     (MPI_FILE_OPEN_EV, H_Other_MPI_Event),
     (MPI_FILE_CLOSE_EV, H_Other_MPI_Event),
     (MPI_FILE_READ_EV, H_MPIIO_Event),
     (MPI_FILE_READ_ALL_EV, H_MPIIO_Event),
     (MPI_FILE_WRITE_EV, H_MPIIO_Event),
     (MPI_FILE_WRITE_ALL_EV, H_MPIIO_Event),
     (MPI_FILE_READ_AT_EV, H_MPIIO_Event),
     (MPI_FILE_READ_AT_ALL_EV, H_MPIIO_Event),
     (MPI_FILE_WRITE_AT_EV, H_MPIIO_Event),
     (MPI_FILE_WRITE_AT_ALL_EV, H_MPIIO_Event),
     (MPI_PUT_EV, H_MPI_RMA_Event),
     (MPI_GET_EV, H_MPI_RMA_Event),
     (MPI_WIN_CREATE_EV, H_MPI_RMA_Event),
     (MPI_WIN_FENCE_EV, H_MPI_RMA_Event),
     (MPI_WIN_START_EV, H_MPI_RMA_Event),
     (MPI_WIN_FREE_EV, H_MPI_RMA_Event),
     (MPI_WIN_POST_EV, H_MPI_RMA_Event),
     (MPI_WIN_COMPLETE_EV, H_MPI_RMA_Event),
     (MPI_WIN_WAIT_EV, H_MPI_RMA_Event),
     (MPI_IREDUCE_EV, H_GlobalOP_event),
     (MPI_IALLREDUCE_EV, H_GlobalOP_event),
     (MPI_IBARRIER_EV, H_GlobalOP_event),
     (MPI_IBCAST_EV, H_GlobalOP_event),
     (MPI_IALLTOALL_EV, H_GlobalOP_event),
     (MPI_IALLTOALLV_EV, H_GlobalOP_event),
     (MPI_IALLGATHER_EV, H_GlobalOP_event),
     (MPI_IALLGATHERV_EV, H_GlobalOP_event),
     (MPI_IGATHER_EV, H_GlobalOP_event),
     (MPI_IGATHERV_EV, H_GlobalOP_event),
     (MPI_ISCATTER_EV, H_GlobalOP_event),
     (MPI_ISCATTERV_EV, H_GlobalOP_event),
     (MPI_IREDUCESCAT_EV, H_GlobalOP_event),
     (MPI_ISCAN_EV, H_GlobalOP_event)]"

fun run_handler :: "mpi_handler \<Rightarrow> mpi_event_handler" where
  "run_handler H_Any_Send_Event = Any_Send_Event"
| "run_handler H_SendRecv_Event = SendRecv_Event"
| "run_handler H_Recv_Event = Recv_Event"
| "run_handler H_IRecv_Event = IRecv_Event"
| "run_handler H_GlobalOP_event = GlobalOP_event"
| "run_handler H_Other_MPI_Event = Other_MPI_Event"
| "run_handler H_SkipHandler = (\<lambda>env e rest current_time ob r. Inr r)"
| "run_handler H_MPI_PersistentRequest_Init_Event = MPI_PersistentRequest_Init_Event"
| "run_handler H_MPI_PersistentRequest_Event = MPI_PersistentRequest_Event"
| "run_handler H_MPI_Start_Event = MPI_Start_Event"
| "run_handler H_MPI_PersistentRequest_Free_Event = MPI_PersistentRequest_Free_Event"
| "run_handler H_MPI_Request_get_status_SoftwareCounter_Event = MPI_SoftwareCounter_Event"
| "run_handler H_MPI_ElapsedTimeOutsideRequest_get_status_Event = MPI_ElapsedTime_Event"
| "run_handler H_MPI_IProbeSoftwareCounter_Event = MPI_SoftwareCounter_Event"
| "run_handler H_MPI_ElapsedTimeOutsideIProbes_Event = MPI_ElapsedTime_Event"
| "run_handler H_MPI_TestSoftwareCounter_Event = MPI_SoftwareCounter_Event"
| "run_handler H_MPIIO_Event = MPIIO_Event"
| "run_handler H_MPI_RMA_Event = MPI_RMA_Event"

definition handle_mpi_event :: mpi_event_handler where
  "handle_mpi_event env e rest current_time ob r =
     (case map_of PRV_MPI_Event_Handlers (Get_EvEvent e) of
        Some h \<Rightarrow> run_handler h env e rest current_time ob r
      | None \<Rightarrow> Inr r)"

end
