(* ===== verification/MpiCollProps.thy ===== *)
theory MpiCollProps
  imports MpiColl MpiP2pProps MpiSemantics
begin

text \<open>
  What the wrappers of the collective operations leave: the two events, the sizes that the merger
  reads from the first of them, and the statistics.
\<close>

section \<open>The operations\<close>

datatype collective_op =
  Reduce INT32 MPI_Datatype "64 word" INT32
| Allreduce INT32 MPI_Datatype "64 word"
| Barrier
| Bcast INT32 MPI_Datatype INT32
| Alltoall INT32 MPI_Datatype INT32 MPI_Datatype
| Alltoallv counts MPI_Datatype counts MPI_Datatype
| Allgather INT32 MPI_Datatype INT32 MPI_Datatype
| Allgatherv INT32 MPI_Datatype counts MPI_Datatype
| Gather INT32 MPI_Datatype INT32 MPI_Datatype INT32
| Gatherv INT32 MPI_Datatype counts MPI_Datatype INT32
| Scatter INT32 MPI_Datatype INT32 MPI_Datatype INT32
| Scatterv counts MPI_Datatype INT32 MPI_Datatype INT32
| Reduce_scatter counts MPI_Datatype "64 word"
| Scan INT32 MPI_Datatype "64 word"

datatype language = C | Fortran

text \<open>The wrapper for each language, and the one of the operation that does not block.\<close>

definition wrapper_of :: "language \<Rightarrow> bool \<Rightarrow> 'a \<Rightarrow> 'a \<Rightarrow> 'a \<Rightarrow> 'a \<Rightarrow> 'a" where
  "wrapper_of lang blocking c ic f i_f = (case lang of C \<Rightarrow> if blocking then c else ic | Fortran \<Rightarrow> if blocking then f else i_f)"

text \<open>\<open>ta\<close> is the reading of the clock before the scans for C ask for the rank.\<close>

fun call_collective ::
  "language \<Rightarrow> bool \<Rightarrow> collective_op \<Rightarrow> mpi_lib \<Rightarrow> mpi_options \<Rightarrow> 64 word \<Rightarrow> UINT64 \<Rightarrow> UINT64 \<Rightarrow> UINT64 \<Rightarrow> MPI_Comm \<Rightarrow> INT32 \<Rightarrow> wrapped_call" where
  "call_collective lang b (Reduce n ty op root) lib opts g ta t0 t1 comm =
     wrapper_of lang b MPI_Reduce_C_Wrapper MPI_Ireduce_C_Wrapper PMPI_Reduce_Wrapper PMPI_Ireduce_Wrapper
       lib opts g t0 t1 n ty op root comm"
| "call_collective lang b (Allreduce n ty op) lib opts g ta t0 t1 comm =
     wrapper_of lang b MPI_Allreduce_C_Wrapper MPI_Iallreduce_C_Wrapper PMPI_AllReduce_Wrapper PMPI_IallReduce_Wrapper
       lib opts g t0 t1 n ty op comm"
| "call_collective lang b Barrier lib opts g ta t0 t1 comm =
     wrapper_of lang b MPI_Barrier_C_Wrapper MPI_Ibarrier_C_Wrapper PMPI_Barrier_Wrapper PMPI_Ibarrier_Wrapper
       lib opts g t0 t1 comm"
| "call_collective lang b (Bcast n ty root) lib opts g ta t0 t1 comm =
     wrapper_of lang b MPI_BCast_C_Wrapper MPI_Ibcast_C_Wrapper PMPI_BCast_Wrapper PMPI_Ibcast_Wrapper
       lib opts g t0 t1 n ty root comm"
| "call_collective lang b (Alltoall n ty m ty') lib opts g ta t0 t1 comm =
     wrapper_of lang b MPI_Alltoall_C_Wrapper MPI_Ialltoall_C_Wrapper PMPI_AllToAll_Wrapper PMPI_IallToAll_Wrapper
       lib opts g t0 t1 n ty m ty' comm"
| "call_collective lang b (Alltoallv ns ty ms ty') lib opts g ta t0 t1 comm =
     wrapper_of lang b MPI_Alltoallv_C_Wrapper MPI_Ialltoallv_C_Wrapper PMPI_AllToAllV_Wrapper PMPI_IallToAllV_Wrapper
       lib opts g t0 t1 ns ty ms ty' comm"
| "call_collective lang b (Allgather n ty m ty') lib opts g ta t0 t1 comm =
     wrapper_of lang b MPI_Allgather_C_Wrapper MPI_Iallgather_C_Wrapper PMPI_Allgather_Wrapper PMPI_Iallgather_Wrapper
       lib opts g t0 t1 n ty m ty' comm"
| "call_collective lang b (Allgatherv n ty ms ty') lib opts g ta t0 t1 comm =
     wrapper_of lang b MPI_Allgatherv_C_Wrapper MPI_Iallgatherv_C_Wrapper PMPI_Allgatherv_Wrapper PMPI_Iallgatherv_Wrapper
       lib opts g t0 t1 n ty ms ty' comm"
| "call_collective lang b (Gather n ty m ty' root) lib opts g ta t0 t1 comm =
     wrapper_of lang b MPI_Gather_C_Wrapper MPI_Igather_C_Wrapper PMPI_Gather_Wrapper PMPI_Igather_Wrapper
       lib opts g t0 t1 n ty m ty' root comm"
| "call_collective lang b (Gatherv n ty ms ty' root) lib opts g ta t0 t1 comm =
     wrapper_of lang b MPI_Gatherv_C_Wrapper MPI_Igatherv_C_Wrapper PMPI_GatherV_Wrapper PMPI_IgatherV_Wrapper
       lib opts g t0 t1 n ty ms ty' root comm"
| "call_collective lang b (Scatter n ty m ty' root) lib opts g ta t0 t1 comm =
     wrapper_of lang b MPI_Scatter_C_Wrapper MPI_Iscatter_C_Wrapper PMPI_Scatter_Wrapper PMPI_Iscatter_Wrapper
       lib opts g t0 t1 n ty m ty' root comm"
| "call_collective lang b (Scatterv ns ty m ty' root) lib opts g ta t0 t1 comm =
     wrapper_of lang b MPI_Scatterv_C_Wrapper MPI_Iscatterv_C_Wrapper PMPI_ScatterV_Wrapper PMPI_IscatterV_Wrapper
       lib opts g t0 t1 ns ty m ty' root comm"
| "call_collective lang b (Reduce_scatter ms ty op) lib opts g ta t0 t1 comm =
     wrapper_of lang b MPI_Reduce_Scatter_C_Wrapper MPI_Ireduce_Scatter_C_Wrapper PMPI_Reduce_Scatter_Wrapper PMPI_Ireduce_Scatter_Wrapper
       lib opts g t0 t1 ms ty op comm"
| "call_collective lang b (Scan n ty op) lib opts g ta t0 t1 comm =
     wrapper_of lang b (\<lambda>lib opts g. MPI_Scan_C_Wrapper lib opts g ta) (\<lambda>lib opts g. MPI_Iscan_C_Wrapper lib opts g ta)
       PMPI_Scan_Wrapper PMPI_Iscan_Wrapper lib opts g t0 t1 n ty op comm"

section \<open>What an operation sends and receives\<close>

definition sz_of :: "mpi_lib \<Rightarrow> MPI_Datatype \<Rightarrow> INT32" where
  "sz_of lib ty = the (PMPI_Type_size lib ty)"

definition elements :: "INT32 \<Rightarrow> counts \<Rightarrow> INT32" where
  "elements csize ns = sum_list (take (nat (sint csize)) (the ns))"

definition share :: "INT32 \<Rightarrow> counts \<Rightarrow> INT32" where
  "share me ns = the ns ! nat (sint me)"

fun bytes_sent :: "mpi_lib \<Rightarrow> INT32 \<Rightarrow> INT32 \<Rightarrow> collective_op \<Rightarrow> INT32" where
  "bytes_sent lib me csize (Reduce n ty op root) = (if me = root then 0 else n * sz_of lib ty)"
| "bytes_sent lib me csize (Allreduce n ty op) = n * sz_of lib ty"
| "bytes_sent lib me csize Barrier = 0"
| "bytes_sent lib me csize (Bcast n ty root) = (if me = root then n * sz_of lib ty else 0)"
| "bytes_sent lib me csize (Alltoall n ty m ty') = n * csize * sz_of lib ty"
| "bytes_sent lib me csize (Alltoallv ns ty ms ty') = elements csize ns * sz_of lib ty"
| "bytes_sent lib me csize (Allgather n ty m ty') = n * sz_of lib ty"
| "bytes_sent lib me csize (Allgatherv n ty ms ty') = n * sz_of lib ty"
| "bytes_sent lib me csize (Gather n ty m ty' root) = n * sz_of lib ty"
| "bytes_sent lib me csize (Gatherv n ty ms ty' root) = n * sz_of lib ty"
| "bytes_sent lib me csize (Scatter n ty m ty' root) = (if me = root then n * csize * sz_of lib ty else 0)"
| "bytes_sent lib me csize (Scatterv ns ty m ty' root) = (if me = root then elements csize ns * sz_of lib ty else 0)"
| "bytes_sent lib me csize (Reduce_scatter ms ty op) = elements csize ms * sz_of lib ty"
| "bytes_sent lib me csize (Scan n ty op) = n * sz_of lib ty"

fun bytes_received :: "mpi_lib \<Rightarrow> INT32 \<Rightarrow> INT32 \<Rightarrow> collective_op \<Rightarrow> INT32" where
  "bytes_received lib me csize (Reduce n ty op root) = (if me = root then n * sz_of lib ty else 0)"
| "bytes_received lib me csize (Allreduce n ty op) = n * sz_of lib ty"
| "bytes_received lib me csize Barrier = 0"
| "bytes_received lib me csize (Bcast n ty root) = (if me = root then 0 else n * sz_of lib ty)"
| "bytes_received lib me csize (Alltoall n ty m ty') = m * csize * sz_of lib ty'"
| "bytes_received lib me csize (Alltoallv ns ty ms ty') = elements csize ms * sz_of lib ty'"
| "bytes_received lib me csize (Allgather n ty m ty') = m * csize * sz_of lib ty'"
| "bytes_received lib me csize (Allgatherv n ty ms ty') = elements csize ms * sz_of lib ty'"
| "bytes_received lib me csize (Gather n ty m ty' root) = (if me = root then m * csize * sz_of lib ty' else 0)"
| "bytes_received lib me csize (Gatherv n ty ms ty' root) = (if me = root then elements csize ms * sz_of lib ty' else 0)"
| "bytes_received lib me csize (Scatter n ty m ty' root) = m * sz_of lib ty'"
| "bytes_received lib me csize (Scatterv ns ty m ty' root) = m * sz_of lib ty'"
| "bytes_received lib me csize (Reduce_scatter ms ty op) = share me ms * sz_of lib ty"
| "bytes_received lib me csize (Scan n ty op) = n * sz_of lib ty"

text \<open>The rank an operation names as its root.\<close>

fun root_of :: "collective_op \<Rightarrow> INT32 option" where
  "root_of (Reduce n ty op root) = Some root"
| "root_of (Bcast n ty root) = Some root"
| "root_of (Gather n ty m ty' root) = Some root"
| "root_of (Gatherv n ty ms ty' root) = Some root"
| "root_of (Scatter n ty m ty' root) = Some root"
| "root_of (Scatterv ns ty m ty' root) = Some root"
| "root_of _ = None"

fun event_of :: "bool \<Rightarrow> collective_op \<Rightarrow> INT32" where
  "event_of b (Reduce n ty op root) = (if b then MPI_REDUCE_EV else MPI_IREDUCE_EV)"
| "event_of b (Allreduce n ty op) = (if b then MPI_ALLREDUCE_EV else MPI_IALLREDUCE_EV)"
| "event_of b Barrier = (if b then MPI_BARRIER_EV else MPI_IBARRIER_EV)"
| "event_of b (Bcast n ty root) = (if b then MPI_BCAST_EV else MPI_IBCAST_EV)"
| "event_of b (Alltoall n ty m ty') = (if b then MPI_ALLTOALL_EV else MPI_IALLTOALL_EV)"
| "event_of b (Alltoallv ns ty ms ty') = (if b then MPI_ALLTOALLV_EV else MPI_IALLTOALLV_EV)"
| "event_of b (Allgather n ty m ty') = (if b then MPI_ALLGATHER_EV else MPI_IALLGATHER_EV)"
| "event_of b (Allgatherv n ty ms ty') = (if b then MPI_ALLGATHERV_EV else MPI_IALLGATHERV_EV)"
| "event_of b (Gather n ty m ty' root) = (if b then MPI_GATHER_EV else MPI_IGATHER_EV)"
| "event_of b (Gatherv n ty ms ty' root) = (if b then MPI_GATHERV_EV else MPI_IGATHERV_EV)"
| "event_of b (Scatter n ty m ty' root) = (if b then MPI_SCATTER_EV else MPI_ISCATTER_EV)"
| "event_of b (Scatterv ns ty m ty' root) = (if b then MPI_SCATTERV_EV else MPI_ISCATTERV_EV)"
| "event_of b (Reduce_scatter ms ty op) = (if b then MPI_REDUCESCAT_EV else MPI_IREDUCESCAT_EV)"
| "event_of b (Scan n ty op) = (if b then MPI_SCAN_EV else MPI_ISCAN_EV)"

text \<open>The sizes of the datatypes are known, nothing is empty, and every array has a count for each process.\<close>

definition sized :: "mpi_lib \<Rightarrow> INT32 \<Rightarrow> MPI_Datatype \<Rightarrow> bool" where
  "sized lib n ty \<longleftrightarrow> n \<noteq> 0 \<and> PMPI_Type_size lib ty \<noteq> None"

definition sizedv :: "mpi_lib \<Rightarrow> INT32 \<Rightarrow> INT32 \<Rightarrow> counts \<Rightarrow> MPI_Datatype \<Rightarrow> bool" where
  "sizedv lib me csize ns ty \<longleftrightarrow> PMPI_Type_size lib ty \<noteq> None \<and>
     (case ns of None \<Rightarrow> False | Some ms \<Rightarrow> nat (sint csize) \<le> length ms \<and> in_range (sint me) ms)"

fun well_sized :: "mpi_lib \<Rightarrow> INT32 \<Rightarrow> INT32 \<Rightarrow> collective_op \<Rightarrow> bool" where
  "well_sized lib me csize (Reduce n ty op root) = sized lib n ty"
| "well_sized lib me csize (Allreduce n ty op) = sized lib n ty"
| "well_sized lib me csize Barrier = True"
| "well_sized lib me csize (Bcast n ty root) = sized lib n ty"
| "well_sized lib me csize (Alltoall n ty m ty') = (sized lib n ty \<and> sized lib m ty')"
| "well_sized lib me csize (Alltoallv ns ty ms ty') = (sizedv lib me csize ns ty \<and> sizedv lib me csize ms ty')"
| "well_sized lib me csize (Allgather n ty m ty') = (sized lib n ty \<and> sized lib m ty')"
| "well_sized lib me csize (Allgatherv n ty ms ty') = (sized lib n ty \<and> sizedv lib me csize ms ty')"
| "well_sized lib me csize (Gather n ty m ty' root) = (sized lib n ty \<and> sized lib m ty')"
| "well_sized lib me csize (Gatherv n ty ms ty' root) = (sized lib n ty \<and> sizedv lib me csize ms ty')"
| "well_sized lib me csize (Scatter n ty m ty' root) = (sized lib n ty \<and> sized lib m ty')"
| "well_sized lib me csize (Scatterv ns ty m ty' root) = (sizedv lib me csize ns ty \<and> sized lib m ty')"
| "well_sized lib me csize (Reduce_scatter ms ty op) = sizedv lib me csize ms ty"
| "well_sized lib me csize (Scan n ty op) = sized lib n ty"

section \<open>The arguments of the two events\<close>

fun sent_field :: "language \<Rightarrow> mpi_lib \<Rightarrow> INT32 \<Rightarrow> INT32 \<Rightarrow> collective_op \<Rightarrow> INT32" where
  "sent_field lang lib me csize (Reduce n ty op root) = n * sz_of lib ty"
| "sent_field lang lib me csize (Bcast n ty root) = n * sz_of lib ty"
| "sent_field lang lib me csize (Alltoall n ty m ty') = n * sz_of lib ty"
| "sent_field lang lib me csize (Reduce_scatter ms ty op) =
     (if lang = Fortran then sz_of lib ty else bytes_sent lib me csize (Reduce_scatter ms ty op))"
| "sent_field lang lib me csize o' = bytes_sent lib me csize o'"

fun target_field :: "mpi_lib \<Rightarrow> INT32 \<Rightarrow> INT32 \<Rightarrow> collective_op \<Rightarrow> 64 word" where
  "target_field lib me csize (Reduce n ty op root) = op"
| "target_field lib me csize (Allreduce n ty op) = op"
| "target_field lib me csize (Reduce_scatter ms ty op) = op"
| "target_field lib me csize (Scan n ty op) = op"
| "target_field lib me csize (Alltoall n ty m ty') = scast (m * sz_of lib ty')"
| "target_field lib me csize (Alltoallv ns ty ms ty') = scast (bytes_received lib me csize (Alltoallv ns ty ms ty'))"
| "target_field lib me csize o' = (case root_of o' of None \<Rightarrow> 0 | Some root \<Rightarrow> scast root)"

fun aux_field :: "language \<Rightarrow> mpi_lib \<Rightarrow> INT32 \<Rightarrow> INT32 \<Rightarrow> collective_op \<Rightarrow> 64 word" where
  "aux_field lang lib me csize (Reduce n ty op root) = scast root"
| "aux_field lang lib me csize (Allreduce n ty op) = 0"
| "aux_field lang lib me csize (Scan n ty op) = 0"
| "aux_field lang lib me csize Barrier = 0"
| "aux_field lang lib me csize (Bcast n ty root) = 0"
| "aux_field lang lib me csize (Alltoall n ty m ty') = 0"
| "aux_field lang lib me csize (Alltoallv ns ty ms ty') = 0"
| "aux_field lang lib me csize (Reduce_scatter ms ty op) =
     (if lang = Fortran then 0 else scast (bytes_received lib me csize (Reduce_scatter ms ty op)))"
| "aux_field lang lib me csize o' = scast (bytes_received lib me csize o')"

text \<open>What is counted, as received and as sent bytes: nothing for one direction at the root of a gather or scatter.\<close>

fun counted :: "mpi_lib \<Rightarrow> INT32 \<Rightarrow> INT32 \<Rightarrow> collective_op \<Rightarrow> (INT32 \<times> INT32) list" where
  "counted lib me csize (Gather n ty m ty' root) =
     (let o' = Gather n ty m ty' root in if me = root then [(bytes_received lib me csize o', 0)] else [(0, bytes_sent lib me csize o')])"
| "counted lib me csize (Gatherv n ty ms ty' root) =
     (let o' = Gatherv n ty ms ty' root in if me = root then [(bytes_received lib me csize o', 0)] else [(0, bytes_sent lib me csize o')])"
| "counted lib me csize (Scatter n ty m ty' root) =
     (let o' = Scatter n ty m ty' root in if me = root then [(0, bytes_sent lib me csize o')] else [(bytes_received lib me csize o', 0)])"
| "counted lib me csize (Scatterv ns ty m ty' root) =
     (let o' = Scatterv ns ty m ty' root in if me = root then [(0, bytes_sent lib me csize o')] else [(bytes_received lib me csize o', 0)])"
| "counted lib me csize (Reduce_scatter ms ty op) =
     (let o' = Reduce_scatter ms ty op in
      if me = 0 then [(bytes_sent lib me csize o', bytes_sent lib me csize o')] else [(bytes_received lib me csize o', bytes_sent lib me csize o')])"
| "counted lib me csize (Alltoall n ty m ty') = [(m * sz_of lib ty', n * sz_of lib ty)]"
| "counted lib me csize (Scan n ty op) =
     (if me \<noteq> csize - 1 then [(0, n * sz_of lib ty)] else []) @ (if me \<noteq> 0 then [(n * sz_of lib ty, 0)] else [])"
| "counted lib me csize o' = [(bytes_received lib me csize o', bytes_sent lib me csize o')]"

fun count_all :: "(INT32 \<times> INT32) list \<Rightarrow> mpi_state \<Rightarrow> mpi_state res" where
  "count_all [] st = Inr st"
| "count_all ((i, out) # xs) st = andthen (with_stats (updateStats_COLLECTIVE i out) st) (count_all xs)"

definition end_event :: "language \<Rightarrow> bool \<Rightarrow> collective_op \<Rightarrow> INT32" where
  "end_event lang b o' = (case o' of Gatherv n ty ms ty' root \<Rightarrow> event_of (b \<or> lang = Fortran) o' | _ \<Rightarrow> event_of b o')"

lemma sized_simps:
  "sized lib n ty \<Longrightarrow> PMPI_Type_size lib ty = Some (sz_of lib ty)"
  "\<not> sized lib 0 ty"
  "sizedv lib me csize ns ty \<Longrightarrow> PMPI_Type_size lib ty = Some (sz_of lib ty)"
  "\<not> sizedv lib me csize None ty"
  "sizedv lib me csize ns ty \<Longrightarrow> total csize ns = Inr (elements csize ns)"
  "sizedv lib me csize ns ty \<Longrightarrow> own_count me ns = Inr (share me ns)"
  by (auto simp: sized_def sizedv_def sz_of_def total_def elements_def own_count_def share_def array_get_def split: option.splits)

lemma collective_stats_Inr: "collective_stats (Inr i) (Inr out) = with_stats (updateStats_COLLECTIVE i out)"
  by (simp add: collective_stats_def fun_eq_iff)

lemma andthen_Inr_right: "andthen x Inr = x"
  by (cases x) simp_all

lemma count_all_Nil: "count_all [] = Inr"
  by (simp add: fun_eq_iff)

lemma count_all_one: "count_all [(i, out)] = with_stats (updateStats_COLLECTIVE i out)"
  by (simp add: fun_eq_iff count_all_Nil andthen_Inr_right del: count_all.simps(1))

lemma count_all_two: "count_all [(i, out), (i', out')] =
     (\<lambda>st. andthen (with_stats (updateStats_COLLECTIVE i out) st) (with_stats (updateStats_COLLECTIVE i' out')))"
proof
  fix st
  show "count_all [(i, out), (i', out')] st =
      andthen (with_stats (updateStats_COLLECTIVE i out) st) (with_stats (updateStats_COLLECTIVE i' out'))"
    unfolding count_all.simps(2) [of i out "[(i', out')]"] count_all_one ..
qed

lemma communicator_known: "PMPI_Comm_rank lib comm = Some me \<Longrightarrow> PMPI_Comm_size lib comm = Some csize \<Longrightarrow>
    communicator lib comm = Inr (me, csize)"
  by (simp add: communicator_def)

lemmas size_simps = communicator_known element_size_def sized_simps bytes_for_def read_local_def as_long_def
  collective_stats_Inr andthen_Inr_right count_all_Nil count_all_one count_all_two

text \<open>What every wrapper does once the sizes are known: it ends with the two events and the statistics.\<close>

definition is_scan :: "collective_op \<Rightarrow> bool" where
  "is_scan o' \<longleftrightarrow> (case o' of Scan n ty op \<Rightarrow> True | _ \<Rightarrow> False)"

definition rank_asked :: "language \<Rightarrow> collective_op \<Rightarrow> mpi_lib \<Rightarrow> mpi_options \<Rightarrow> UINT64 \<Rightarrow> UINT64 \<Rightarrow> mpi_state \<Rightarrow> mpi_state res" where
  "rank_asked lang o' lib opts ta t0 st =
     (if lang = C \<and> is_scan o' then andthen (MPI_Comm_rank_C_Wrapper lib opts ta t0 MPI_SUCCESS st) (\<lambda>(ierror, st). Inr st) else Inr st)"

definition events_and_stats ::
  "language \<Rightarrow> bool \<Rightarrow> collective_op \<Rightarrow> mpi_lib \<Rightarrow> mpi_options \<Rightarrow> 64 word \<Rightarrow> UINT64 \<Rightarrow> UINT64 \<Rightarrow> UINT64 \<Rightarrow> MPI_Comm \<Rightarrow> INT32 \<Rightarrow> INT32 \<Rightarrow> INT32 \<Rightarrow> wrapped_call" where
  "events_and_stats lang b o' lib opts g ta t0 t1 comm me csize ret st =
     andthen (rank_asked lang o' lib opts ta t0 st)
      (collective (event_of b o') (end_event lang b o') lib opts g t0 t1 comm me csize (Inr (target_field lib me csize o'))
        (Inr (sent_field lang lib me csize o')) (Inr (aux_field lang lib me csize o')) (count_all (counted lib me csize o')) ret)"

lemma no_rank_asked: "\<not> is_scan o' \<Longrightarrow> rank_asked lang o' lib opts ta t0 st = Inr st" "rank_asked Fortran o' lib opts ta t0 st = Inr st"
  by (simp_all add: rank_asked_def)

lemmas known_simps = size_simps events_and_stats_def end_event_def wrapper_of_def rank_asked_def is_scan_def

lemma call_Reduce:
  assumes "PMPI_Comm_rank lib comm = Some me" and "PMPI_Comm_size lib comm = Some csize" and "well_sized lib me csize (Reduce n ty op root)"
  shows "call_collective lang b (Reduce n ty op root) lib opts g ta t0 t1 comm ret st = events_and_stats lang b (Reduce n ty op root) lib opts g ta t0 t1 comm me csize ret st"
  using assms by (cases lang; cases b) (auto simp: known_simps MPI_Reduce_C_Wrapper_def MPI_Ireduce_C_Wrapper_def PMPI_Reduce_Wrapper_def PMPI_Ireduce_Wrapper_def
      reduce_wrapper_def Let_def simp del: count_all.simps)

lemma call_Allreduce:
  assumes "PMPI_Comm_rank lib comm = Some me" and "PMPI_Comm_size lib comm = Some csize" and "well_sized lib me csize (Allreduce n ty op)"
  shows "call_collective lang b (Allreduce n ty op) lib opts g ta t0 t1 comm ret st = events_and_stats lang b (Allreduce n ty op) lib opts g ta t0 t1 comm me csize ret st"
  using assms by (cases lang; cases b) (auto simp: known_simps MPI_Allreduce_C_Wrapper_def MPI_Iallreduce_C_Wrapper_def PMPI_AllReduce_Wrapper_def PMPI_IallReduce_Wrapper_def
      allreduce_wrapper_def Let_def simp del: count_all.simps)

lemma call_Barrier:
  assumes "PMPI_Comm_rank lib comm = Some me" and "PMPI_Comm_size lib comm = Some csize" and "well_sized lib me csize Barrier"
  shows "call_collective lang b Barrier lib opts g ta t0 t1 comm ret st = events_and_stats lang b Barrier lib opts g ta t0 t1 comm me csize ret st"
  using assms by (cases lang; cases b) (auto simp: known_simps MPI_Barrier_C_Wrapper_def MPI_Ibarrier_C_Wrapper_def PMPI_Barrier_Wrapper_def PMPI_Ibarrier_Wrapper_def
      barrier_wrapper_def Let_def simp del: count_all.simps)

lemma call_Bcast:
  assumes "PMPI_Comm_rank lib comm = Some me" and "PMPI_Comm_size lib comm = Some csize" and "well_sized lib me csize (Bcast n ty root)"
  shows "call_collective lang b (Bcast n ty root) lib opts g ta t0 t1 comm ret st = events_and_stats lang b (Bcast n ty root) lib opts g ta t0 t1 comm me csize ret st"
  using assms by (cases lang; cases b) (auto simp: known_simps MPI_BCast_C_Wrapper_def MPI_Ibcast_C_Wrapper_def PMPI_BCast_Wrapper_def PMPI_Ibcast_Wrapper_def
      bcast_wrapper_def bcast_f_wrapper_def Let_def simp del: count_all.simps)

lemma call_Alltoall:
  assumes "PMPI_Comm_rank lib comm = Some me" and "PMPI_Comm_size lib comm = Some csize" and "well_sized lib me csize (Alltoall n ty m ty')"
  shows "call_collective lang b (Alltoall n ty m ty') lib opts g ta t0 t1 comm ret st = events_and_stats lang b (Alltoall n ty m ty') lib opts g ta t0 t1 comm me csize ret st"
  using assms by (cases lang; cases b) (auto simp: known_simps MPI_Alltoall_C_Wrapper_def MPI_Ialltoall_C_Wrapper_def PMPI_AllToAll_Wrapper_def PMPI_IallToAll_Wrapper_def
      alltoall_wrapper_def Let_def simp del: count_all.simps)

lemma call_Alltoallv:
  assumes "PMPI_Comm_rank lib comm = Some me" and "PMPI_Comm_size lib comm = Some csize" and "well_sized lib me csize (Alltoallv ns ty ms ty')"
  shows "call_collective lang b (Alltoallv ns ty ms ty') lib opts g ta t0 t1 comm ret st = events_and_stats lang b (Alltoallv ns ty ms ty') lib opts g ta t0 t1 comm me csize ret st"
  using assms by (cases lang; cases b) (auto simp: known_simps MPI_Alltoallv_C_Wrapper_def MPI_Ialltoallv_C_Wrapper_def PMPI_AllToAllV_Wrapper_def PMPI_IallToAllV_Wrapper_def
      alltoallv_wrapper_def Let_def simp del: count_all.simps)

lemma call_Allgather:
  assumes "PMPI_Comm_rank lib comm = Some me" and "PMPI_Comm_size lib comm = Some csize" and "well_sized lib me csize (Allgather n ty m ty')"
  shows "call_collective lang b (Allgather n ty m ty') lib opts g ta t0 t1 comm ret st = events_and_stats lang b (Allgather n ty m ty') lib opts g ta t0 t1 comm me csize ret st"
  using assms by (cases lang; cases b) (auto simp: known_simps MPI_Allgather_C_Wrapper_def MPI_Iallgather_C_Wrapper_def PMPI_Allgather_Wrapper_def PMPI_Iallgather_Wrapper_def
      allgather_wrapper_def Let_def simp del: count_all.simps)

lemma call_Allgatherv:
  assumes "PMPI_Comm_rank lib comm = Some me" and "PMPI_Comm_size lib comm = Some csize" and "well_sized lib me csize (Allgatherv n ty ms ty')"
  shows "call_collective lang b (Allgatherv n ty ms ty') lib opts g ta t0 t1 comm ret st = events_and_stats lang b (Allgatherv n ty ms ty') lib opts g ta t0 t1 comm me csize ret st"
  using assms by (cases lang; cases b) (auto simp: known_simps MPI_Allgatherv_C_Wrapper_def MPI_Iallgatherv_C_Wrapper_def PMPI_Allgatherv_Wrapper_def PMPI_Iallgatherv_Wrapper_def
      allgatherv_wrapper_def Let_def simp del: count_all.simps)

lemma call_Gather:
  assumes "PMPI_Comm_rank lib comm = Some me" and "PMPI_Comm_size lib comm = Some csize" and "well_sized lib me csize (Gather n ty m ty' root)"
  shows "call_collective lang b (Gather n ty m ty' root) lib opts g ta t0 t1 comm ret st = events_and_stats lang b (Gather n ty m ty' root) lib opts g ta t0 t1 comm me csize ret st"
  using assms by (cases lang; cases b) (auto simp: known_simps MPI_Gather_C_Wrapper_def MPI_Igather_C_Wrapper_def PMPI_Gather_Wrapper_def PMPI_Igather_Wrapper_def
      gather_wrapper_def Let_def simp del: count_all.simps)

lemma call_Gatherv:
  assumes "PMPI_Comm_rank lib comm = Some me" and "PMPI_Comm_size lib comm = Some csize" and "well_sized lib me csize (Gatherv n ty ms ty' root)"
  shows "call_collective lang b (Gatherv n ty ms ty' root) lib opts g ta t0 t1 comm ret st = events_and_stats lang b (Gatherv n ty ms ty' root) lib opts g ta t0 t1 comm me csize ret st"
  using assms by (cases lang; cases b) (auto simp: known_simps MPI_Gatherv_C_Wrapper_def MPI_Igatherv_C_Wrapper_def PMPI_GatherV_Wrapper_def PMPI_IgatherV_Wrapper_def
      gatherv_wrapper_def Let_def simp del: count_all.simps)

lemma call_Scatter:
  assumes "PMPI_Comm_rank lib comm = Some me" and "PMPI_Comm_size lib comm = Some csize" and "well_sized lib me csize (Scatter n ty m ty' root)"
  shows "call_collective lang b (Scatter n ty m ty' root) lib opts g ta t0 t1 comm ret st = events_and_stats lang b (Scatter n ty m ty' root) lib opts g ta t0 t1 comm me csize ret st"
  using assms by (cases lang; cases b) (auto simp: known_simps MPI_Scatter_C_Wrapper_def MPI_Iscatter_C_Wrapper_def PMPI_Scatter_Wrapper_def PMPI_Iscatter_Wrapper_def
      scatter_wrapper_def Let_def simp del: count_all.simps)

lemma call_Scatterv:
  assumes "PMPI_Comm_rank lib comm = Some me" and "PMPI_Comm_size lib comm = Some csize" and "well_sized lib me csize (Scatterv ns ty m ty' root)"
  shows "call_collective lang b (Scatterv ns ty m ty' root) lib opts g ta t0 t1 comm ret st = events_and_stats lang b (Scatterv ns ty m ty' root) lib opts g ta t0 t1 comm me csize ret st"
  using assms by (cases lang; cases b) (auto simp: known_simps MPI_Scatterv_C_Wrapper_def MPI_Iscatterv_C_Wrapper_def PMPI_ScatterV_Wrapper_def PMPI_IscatterV_Wrapper_def
      scatterv_wrapper_def Let_def simp del: count_all.simps)

lemma call_Reduce_scatter:
  assumes "PMPI_Comm_rank lib comm = Some me" and "PMPI_Comm_size lib comm = Some csize" and "well_sized lib me csize (Reduce_scatter ms ty op)"
  shows "call_collective lang b (Reduce_scatter ms ty op) lib opts g ta t0 t1 comm ret st = events_and_stats lang b (Reduce_scatter ms ty op) lib opts g ta t0 t1 comm me csize ret st"
  using assms by (cases lang; cases b) (auto simp: known_simps MPI_Reduce_Scatter_C_Wrapper_def MPI_Ireduce_Scatter_C_Wrapper_def PMPI_Reduce_Scatter_Wrapper_def PMPI_Ireduce_Scatter_Wrapper_def
      reduce_scatter_wrapper_def Let_def simp del: count_all.simps)

lemma call_Scan:
  assumes "PMPI_Comm_rank lib comm = Some me" and "PMPI_Comm_size lib comm = Some csize" and "well_sized lib me csize (Scan n ty op)"
  shows "call_collective lang b (Scan n ty op) lib opts g ta t0 t1 comm ret st = events_and_stats lang b (Scan n ty op) lib opts g ta t0 t1 comm me csize ret st"
  using assms by (cases lang; cases b; cases "MPI_Comm_rank_C_Wrapper lib opts ta t0 MPI_SUCCESS st")
    (auto simp: known_simps MPI_Scan_C_Wrapper_def MPI_Iscan_C_Wrapper_def PMPI_Scan_Wrapper_def PMPI_Iscan_Wrapper_def
      scan_wrapper_def scan_f_wrapper_def scan_as_def traced_rank_def Let_def simp del: count_all.simps)

lemmas call_defs =
  MPI_Alltoall_C_Wrapper_def MPI_Ialltoall_C_Wrapper_def PMPI_AllToAll_Wrapper_def PMPI_IallToAll_Wrapper_def alltoall_wrapper_def
  MPI_Allgather_C_Wrapper_def MPI_Iallgather_C_Wrapper_def PMPI_Allgather_Wrapper_def PMPI_Iallgather_Wrapper_def allgather_wrapper_def
  MPI_Gather_C_Wrapper_def MPI_Igather_C_Wrapper_def PMPI_Gather_Wrapper_def PMPI_Igather_Wrapper_def gather_wrapper_def
  MPI_Scatter_C_Wrapper_def MPI_Iscatter_C_Wrapper_def PMPI_Scatter_Wrapper_def PMPI_Iscatter_Wrapper_def scatter_wrapper_def
  MPI_Scan_C_Wrapper_def MPI_Iscan_C_Wrapper_def PMPI_Scan_Wrapper_def PMPI_Iscan_Wrapper_def scan_wrapper_def
  scan_f_wrapper_def scan_as_def

lemma call_collective_events:
  assumes "PMPI_Comm_rank lib comm = Some me" and "PMPI_Comm_size lib comm = Some csize" and "well_sized lib me csize o'"
  shows "call_collective lang b o' lib opts g ta t0 t1 comm ret st = events_and_stats lang b o' lib opts g ta t0 t1 comm me csize ret st"
  using assms by (cases o') (simp_all only: call_Reduce call_Allreduce call_Barrier call_Bcast call_Alltoall call_Alltoallv call_Allgather call_Allgatherv call_Gather call_Gatherv call_Scatter call_Scatterv call_Reduce_scatter call_Scan)

section \<open>The state behind a wrapper\<close>

definition counts_more :: "mpi_stats_t \<Rightarrow> (INT32 \<times> INT32) list \<Rightarrow> mpi_stats_t \<Rightarrow> bool" where
  "counts_more s xs s' \<longleftrightarrow>
     COLLECTIVE_Communications s' = COLLECTIVE_Communications s + of_nat (length xs) \<and>
     COLLECTIVE_Bytes_Recv s' = COLLECTIVE_Bytes_Recv s + sum_list (map fst xs) \<and>
     COLLECTIVE_Bytes_Sent s' = COLLECTIVE_Bytes_Sent s + sum_list (map snd xs) \<and> MPI_Others_count s' = MPI_Others_count s"

lemma counts_more_Cons: "counts_more s [x] s' \<Longrightarrow> counts_more s' xs s'' \<Longrightarrow> counts_more s (x # xs) s''"
  by (simp add: counts_more_def)

lemma count_one_ok:
  assumes "mpi_stats st = Some s"
  shows "\<exists>st' s'. with_stats (updateStats_COLLECTIVE i out) st = Inr st' \<and> traced st' = traced st \<and> mpi_stats st' = Some s' \<and>
    counts_more s [(i, out)] s'"
  using assms by (simp add: with_stats_def updateStats_COLLECTIVE_def counts_more_def Let_def)

lemma count_all_ok:
  "mpi_stats st = Some s \<Longrightarrow>
    \<exists>st' s'. count_all xs st = Inr st' \<and> traced st' = traced st \<and> mpi_stats st' = Some s' \<and> counts_more s xs s'"
proof (induction xs arbitrary: st s)
  case Nil
  then show ?case by (simp add: counts_more_def)
next
  case (Cons x xs)
  obtain i out where x: "x = (i, out)" by (cases x)
  from count_one_ok [OF Cons.prems, of i out] obtain st1 s1 where
    1: "with_stats (updateStats_COLLECTIVE i out) st = Inr st1" "traced st1 = traced st" "mpi_stats st1 = Some s1"
      "counts_more s [(i, out)] s1" by blast
  from Cons.IH [OF 1(3)] obtain st2 s2 where
    2: "count_all xs st1 = Inr st2" "traced st2 = traced st1" "mpi_stats st2 = Some s2" "counts_more s1 xs s2" by blast
  from counts_more_Cons [OF 1(4) 2(4)] have "counts_more s (x # xs) s2" unfolding x .
  moreover have "count_all (x # xs) st = Inr st2" unfolding x by (simp add: 1(1) 2(1))
  ultimately show ?case using 1(2) 2(2,3) by simp
qed

lemma elapsed_counts_nothing:
  "\<exists>s'. mpi_stats_update_elapsed_time t d (Some s) = Inr (Some s') \<and> counts_more s [] s'"
  by (simp add: mpi_stats_update_elapsed_time_def counts_more_def Let_def)

text \<open>The two traced events, with a state that has counted nothing yet.\<close>

lemma collective_traced:
  assumes "MpiP2pProps.tracing opts" and "mpi_stats st = Some s" and "\<not> TRACING_BITMAP_VALID_EVTYPE t" and "v = 0 \<or> v = 1"
  shows "\<exists>st' s'. TRACE_MPIEVENT lib opts time t v target sz tag comm aux st = Inr st' \<and>
    traced st' = traced st @ [mpi_event opts time t v target sz tag comm aux] \<and> mpi_stats st' = Some s' \<and> counts_more s [] s'"
proof -
  let ?st = "insert_event [mpi_event opts time t v target sz tag comm aux] st"
  have n: "NORMAL_MODE_TRACE_MPIEVENT lib opts time t v target sz tag comm aux st = Inr ?st"
    using assms(1) by (simp add: NORMAL_MODE_TRACE_MPIEVENT_def MpiP2pProps.tracing_def traceja_event_other [OF assms(3)])
  from elapsed_counts_nothing [of t "time - last_mpi_begin_time ?st" s] obtain s' where
    "mpi_stats_update_elapsed_time t (time - last_mpi_begin_time ?st) (Some s) = Inr (Some s')" "counts_more s [] s'" by blast
  then show ?thesis using n assms by (auto simp: TRACE_MPIEVENT_def MpiP2pProps.tracing_def counts_more_def)
qed

lemma event_of_other: "\<not> TRACING_BITMAP_VALID_EVTYPE (event_of b o')"
  by (cases o') (simp_all add: TRACING_BITMAP_VALID_EVTYPE_def)

lemma end_event_other: "\<not> TRACING_BITMAP_VALID_EVTYPE (end_event lang b o')"
  unfolding end_event_def by (cases o'; simp add: event_of_other del: event_of.simps)

definition first_event :: "language \<Rightarrow> bool \<Rightarrow> mpi_options \<Rightarrow> mpi_lib \<Rightarrow> UINT64 \<Rightarrow> MPI_Comm \<Rightarrow> INT32 \<Rightarrow> INT32 \<Rightarrow> collective_op \<Rightarrow> event_t" where
  "first_event lang b opts lib t0 comm me csize o' =
     mpi_event opts t0 (event_of b o') EVT_BEGIN (target_field lib me csize o') (sent_field lang lib me csize o') me comm
       (aux_field lang lib me csize o')"

definition last_event :: "language \<Rightarrow> bool \<Rightarrow> mpi_options \<Rightarrow> UINT64 \<Rightarrow> MPI_Comm \<Rightarrow> INT32 \<Rightarrow> 64 word \<Rightarrow> collective_op \<Rightarrow> event_t" where
  "last_event lang b opts t1 comm csize g o' = mpi_event opts t1 (end_event lang b o') EVT_END 0 csize 0 comm g"

lemma collective_ok:
  assumes "MpiP2pProps.tracing opts" and "mpi_stats st = Some s"
    and "\<not> TRACING_BITMAP_VALID_EVTYPE ev" and "\<not> TRACING_BITMAP_VALID_EVTYPE ev_end"
  shows "\<exists>st' s'. collective ev ev_end lib opts g t0 t1 comm me csize (Inr target) (Inr sz) (Inr aux) (count_all xs) ret st = Inr (ret, st') \<and>
    traced st' = traced st @ [mpi_event opts t0 ev EVT_BEGIN target sz me comm aux, mpi_event opts t1 ev_end EVT_END 0 csize 0 comm g] \<and>
    mpi_stats st' = Some s' \<and> counts_more s xs s'"
proof -
  from collective_traced [OF assms(1-3)] obtain st1 s1 where
    1: "TRACE_MPIEVENT lib opts t0 ev EVT_BEGIN target sz me comm aux st = Inr st1"
      "traced st1 = traced st @ [mpi_event opts t0 ev EVT_BEGIN target sz me comm aux]" "mpi_stats st1 = Some s1" "counts_more s [] s1"
    by blast
  from collective_traced [OF assms(1) 1(3) assms(4)] obtain st2 s2 where
    2: "TRACE_MPIEVENT lib opts t1 ev_end EVT_END 0 csize 0 comm g st1 = Inr st2"
      "traced st2 = traced st1 @ [mpi_event opts t1 ev_end EVT_END 0 csize 0 comm g]" "mpi_stats st2 = Some s2" "counts_more s1 [] s2"
    by blast
  from count_all_ok [OF 2(3)] obtain st3 s3 where
    3: "count_all xs st2 = Inr st3" "traced st3 = traced st2" "mpi_stats st3 = Some s3" "counts_more s2 xs s3" by blast
  have "counts_more s xs s3" using 1(4) 2(4) 3(4) by (simp add: counts_more_def)
  moreover have "collective ev ev_end lib opts g t0 t1 comm me csize (Inr target) (Inr sz) (Inr aux) (count_all xs) ret st = Inr (ret, st3)"
    using assms(1) by (simp add: collective_def if_traced_def MpiP2pProps.tracing_def 1(1) 2(1) 3(1))
  ultimately show ?thesis using 1(2) 2(2) 3(2,3) by simp
qed

text \<open>The events of the question for the rank.\<close>

definition rank_events :: "language \<Rightarrow> mpi_options \<Rightarrow> UINT64 \<Rightarrow> UINT64 \<Rightarrow> collective_op \<Rightarrow> event_t list" where
  "rank_events lang opts ta t0 o' =
     (if lang = C \<and> is_scan o'
      then [mpi_event opts ta MPI_COMM_RANK_EV EVT_BEGIN 0 0 0 0 0, mpi_event opts t0 MPI_COMM_RANK_EV EVT_END 0 0 0 0 0] else [])"

definition others :: "language \<Rightarrow> collective_op \<Rightarrow> INT32" where
  "others lang o' = (if lang = C \<and> is_scan o' then 1 else 0)"

lemma rank_asked_ok:
  assumes "MpiP2pProps.tracing opts" and "mpi_stats st = Some s"
  shows "\<exists>st' s'. rank_asked lang o' lib opts ta t0 st = Inr st' \<and> traced st' = traced st @ rank_events lang opts ta t0 o' \<and>
    mpi_stats st' = Some s' \<and> counts_more (s\<lparr>MPI_Others_count := MPI_Others_count s + others lang o'\<rparr>) [] s'"
proof (cases "lang = C \<and> is_scan o'")
  case True
  have rank_event: "\<not> TRACING_BITMAP_VALID_EVTYPE MPI_COMM_RANK_EV" by (simp add: TRACING_BITMAP_VALID_EVTYPE_def)
  from collective_traced [OF assms rank_event, of EVT_BEGIN lib ta 0 0 0 0 0] obtain st1 s1 where
    1: "TRACE_MPIEVENT lib opts ta MPI_COMM_RANK_EV EVT_BEGIN 0 0 0 0 0 st = Inr st1"
      "traced st1 = traced st @ [mpi_event opts ta MPI_COMM_RANK_EV EVT_BEGIN 0 0 0 0 0]" "mpi_stats st1 = Some s1" "counts_more s [] s1"
    by auto
  from collective_traced [OF assms(1) 1(3) rank_event, of EVT_END lib t0 0 0 0 0 0] obtain st2 s2 where
    2: "TRACE_MPIEVENT lib opts t0 MPI_COMM_RANK_EV EVT_END 0 0 0 0 0 st1 = Inr st2"
      "traced st2 = traced st1 @ [mpi_event opts t0 MPI_COMM_RANK_EV EVT_END 0 0 0 0 0]" "mpi_stats st2 = Some s2" "counts_more s1 [] s2"
    by auto
  have "rank_asked lang o' lib opts ta t0 st = Inr (st2\<lparr>mpi_stats := Some (s2\<lparr>MPI_Others_count := MPI_Others_count s2 + 1\<rparr>)\<rparr>)"
    using True 1(1) 2(1,3) by (simp add: rank_asked_def MPI_Comm_rank_C_Wrapper_def plain_wrapper_def with_stats_def updateStats_OTHER_def)
  then show ?thesis using True 1(2,4) 2(2,4) by (simp add: rank_events_def others_def counts_more_def)
qed (use assms(2) in \<open>auto simp: rank_asked_def rank_events_def others_def counts_more_def\<close>)

lemma call_collective_ok:
  assumes "MpiP2pProps.tracing opts" and "mpi_stats st = Some s"
    and "PMPI_Comm_rank lib comm = Some me" and "PMPI_Comm_size lib comm = Some csize" and "well_sized lib me csize o'"
  shows "\<exists>st' s'. call_collective lang b o' lib opts g ta t0 t1 comm ret st = Inr (ret, st') \<and>
    traced st' = traced st @ rank_events lang opts ta t0 o' @
      [first_event lang b opts lib t0 comm me csize o', last_event lang b opts t1 comm csize g o'] \<and>
    mpi_stats st' = Some s' \<and> counts_more (s\<lparr>MPI_Others_count := MPI_Others_count s + others lang o'\<rparr>) (counted lib me csize o') s'"
proof -
  from rank_asked_ok [OF assms(1,2)] obtain st1 s1 where
    1: "rank_asked lang o' lib opts ta t0 st = Inr st1" "traced st1 = traced st @ rank_events lang opts ta t0 o'" "mpi_stats st1 = Some s1"
      "counts_more (s\<lparr>MPI_Others_count := MPI_Others_count s + others lang o'\<rparr>) [] s1" by blast
  from collective_ok [OF assms(1) 1(3) event_of_other [of b o'] end_event_other [of lang b o'],
      where target = "target_field lib me csize o'" and sz = "sent_field lang lib me csize o'"
        and aux = "aux_field lang lib me csize o'" and xs = "counted lib me csize o'"] obtain st2 s2 where
    2: "collective (event_of b o') (end_event lang b o') lib opts g t0 t1 comm me csize (Inr (target_field lib me csize o'))
        (Inr (sent_field lang lib me csize o')) (Inr (aux_field lang lib me csize o')) (count_all (counted lib me csize o')) ret st1 = Inr (ret, st2)"
      "traced st2 = traced st1 @ [first_event lang b opts lib t0 comm me csize o', last_event lang b opts t1 comm csize g o']"
      "mpi_stats st2 = Some s2" "counts_more s1 (counted lib me csize o') s2"
    unfolding first_event_def last_event_def by blast
  have "call_collective lang b o' lib opts g ta t0 t1 comm ret st = Inr (ret, st2)"
    unfolding call_collective_events [OF assms(3-5)] events_and_stats_def by (simp add: 1(1) 2(1))
  then show ?thesis using 1(2,4) 2(2-4) by (simp add: counts_more_def)
qed

section \<open>The sizes in the trace\<close>

text \<open>
  What the merger takes for the bytes sent and received: of an exchange of equal parts those for one partner, and
  none received in any exchange of all with all; of a reduction with a scatter from Fortran the size of
  an element, and none received. With an operation whose handle has a lower half of 0 the merger takes the process for the
  root of the reduction with a scatter, and what is received for what is sent.
\<close>

definition sent_seen :: "language \<Rightarrow> mpi_lib \<Rightarrow> INT32 \<Rightarrow> INT32 \<Rightarrow> collective_op \<Rightarrow> INT32" where
  "sent_seen lang lib me csize o' =
     (case o' of
        Alltoall n ty m ty' \<Rightarrow> n * sz_of lib ty
      | Reduce_scatter ms ty op \<Rightarrow> if lang = Fortran then sz_of lib ty else bytes_sent lib me csize o'
      | _ \<Rightarrow> bytes_sent lib me csize o')"

definition received_seen :: "language \<Rightarrow> mpi_lib \<Rightarrow> INT32 \<Rightarrow> INT32 \<Rightarrow> collective_op \<Rightarrow> INT32" where
  "received_seen lang lib me csize o' =
     (case o' of
        Alltoall n ty m ty' \<Rightarrow> 0
      | Alltoallv ns ty ms ty' \<Rightarrow> 0
      | Reduce_scatter ms ty op \<Rightarrow>
          if ucast op = (0 :: INT32) then sent_seen lang lib me csize o'
          else if lang = Fortran then 0 else bytes_received lib me csize o'
      | _ \<Rightarrow> bytes_received lib me csize o')"

lemma first_event_fields:
  "ev_time (first_event lang b opts lib t0 comm me csize o') = t0"
  "Get_EvEvent (first_event lang b opts lib t0 comm me csize o') = event_of b o'"
  "Get_EvValue (first_event lang b opts lib t0 comm me csize o') = EVT_BEGIN"
  "Get_EvTarget (first_event lang b opts lib t0 comm me csize o') = ucast (target_field lib me csize o')"
  "Get_EvSize (first_event lang b opts lib t0 comm me csize o') = sent_field lang lib me csize o'"
  "Get_EvTag (first_event lang b opts lib t0 comm me csize o') = me"
  "Get_EvComm (first_event lang b opts lib t0 comm me csize o') = ucast comm"
  "Get_EvAux (first_event lang b opts lib t0 comm me csize o') = aux_field lang lib me csize o'"
  by (simp_all add: first_event_def mpi_event_def Get_EvEvent_def Get_EvValue_def Get_EvTarget_def Get_EvSize_def Get_EvTag_def
      Get_EvComm_def Get_EvAux_def)

lemma scast_eq: "(scast (n :: INT32) :: 64 word) = scast m \<longleftrightarrow> n = m"
  by (metis ucast_scast)

lemmas merged_simps = first_event_fields Get_GlobalOP_SendSize_def Get_GlobalOP_RecvSize_def Get_GlobalOP_isRoot_def
  sent_seen_def received_seen_def ucast_scast scast_eq

lemma merged_sizes:
  "Get_GlobalOP_SendSize (first_event lang b opts lib t0 comm me csize o')
      (Get_GlobalOP_isRoot (first_event lang b opts lib t0 comm me csize o') task) = sent_seen lang lib me csize o'"
  "Get_GlobalOP_RecvSize (first_event lang b opts lib t0 comm me csize o')
      (Get_GlobalOP_isRoot (first_event lang b opts lib t0 comm me csize o') task) = received_seen lang lib me csize o'"
  by (cases o'; auto simp: merged_simps)+

lemma last_event_fields:
  "ev_time (last_event lang b opts t1 comm csize g o') = t1"
  "Get_EvEvent (last_event lang b opts t1 comm csize g o') = end_event lang b o'"
  "Get_EvValue (last_event lang b opts t1 comm csize g o') = EVT_END"
  "Get_EvSize (last_event lang b opts t1 comm csize g o') = csize"
  "Get_EvAux (last_event lang b opts t1 comm csize g o') = g"
  by (simp_all add: last_event_def mpi_event_def Get_EvEvent_def Get_EvValue_def Get_EvSize_def Get_EvAux_def)

text \<open>
  C12. A traced collective operation, of either language and blocking or not, leaves two events: at the
  beginning and at the end, the second with the number of processes and of the global operation; the gather of different
  counts from Fortran that does not block ends as the one that does, and a scan from C leaves
  before them the two events of the question for the rank, which is traced itself. From the first the merger reads the
  communicator, the bytes this process sends and those it receives, with these exceptions: of
  \<open>MPI_Alltoall\<close> it sees the bytes sent to one partner, and it takes an exchange of all with all to receive
  nothing; of a reduction with a scatter from Fortran it sees the size of an element and nothing received; and
  of a reduction with a scatter whose operation has a handle with a lower half of 0 it takes the bytes sent for those received.

  The tracer traces the process, the library gives the rank and the size of the communicator and the sizes of the
  datatypes, no count is 0, and every array of counts is there with a count for each process.
\<close>

theorem collective_sizes_recovered:
  assumes "MpiP2pProps.tracing opts" and "mpi_stats st = Some s"
    and "PMPI_Comm_rank lib comm = Some me" and "PMPI_Comm_size lib comm = Some csize" and "well_sized lib me csize o'"
  shows "\<exists>st' e e'. call_collective lang b o' lib opts g ta t0 t1 comm ret st = Inr (ret, st') \<and>
    traced st' = traced st @ rank_events lang opts ta t0 o' @ [e, e'] \<and>
    ev_time e = t0 \<and> Get_EvEvent e = event_of b o' \<and> Get_EvValue e = EVT_BEGIN \<and> Get_GlobalOP_CommID e = ucast comm \<and>
    Get_GlobalOP_SendSize e (Get_GlobalOP_isRoot e task) = sent_seen lang lib me csize o' \<and>
    Get_GlobalOP_RecvSize e (Get_GlobalOP_isRoot e task) = received_seen lang lib me csize o' \<and>
    ev_time e' = t1 \<and> Get_EvEvent e' = end_event lang b o' \<and> Get_EvValue e' = EVT_END \<and> Get_EvSize e' = csize \<and> Get_EvAux e' = g"
proof -
  from call_collective_ok [OF assms] obtain st' where
    "call_collective lang b o' lib opts g ta t0 t1 comm ret st = Inr (ret, st')"
    "traced st' = traced st @ rank_events lang opts ta t0 o' @
       [first_event lang b opts lib t0 comm me csize o', last_event lang b opts t1 comm csize g o']" by blast
  then show ?thesis
    by (intro exI [of _ st'] exI [of _ "first_event lang b opts lib t0 comm me csize o'"]
        exI [of _ "last_event lang b opts t1 comm csize g o'"])
      (simp add: first_event_fields last_event_fields Get_GlobalOP_CommID_def merged_sizes)
qed

section \<open>The statistics\<close>

fun own_sent :: "mpi_lib \<Rightarrow> INT32 \<Rightarrow> INT32 \<Rightarrow> collective_op \<Rightarrow> INT32" where
  "own_sent lib me csize (Gather n ty m ty' root) = (if me = root then 0 else n * sz_of lib ty)"
| "own_sent lib me csize (Gatherv n ty ms ty' root) = (if me = root then 0 else n * sz_of lib ty)"
| "own_sent lib me csize (Alltoall n ty m ty') = n * sz_of lib ty"
| "own_sent lib me csize (Scan n ty op) = (if me = csize - 1 then 0 else n * sz_of lib ty)"
| "own_sent lib me csize o' = bytes_sent lib me csize o'"

fun own_received :: "mpi_lib \<Rightarrow> INT32 \<Rightarrow> INT32 \<Rightarrow> collective_op \<Rightarrow> INT32" where
  "own_received lib me csize (Scatter n ty m ty' root) = (if me = root then 0 else m * sz_of lib ty')"
| "own_received lib me csize (Scatterv ns ty m ty' root) = (if me = root then 0 else m * sz_of lib ty')"
| "own_received lib me csize (Alltoall n ty m ty') = m * sz_of lib ty'"
| "own_received lib me csize (Scan n ty op) = (if me = 0 then 0 else n * sz_of lib ty)"
| "own_received lib me csize (Reduce_scatter ms ty op) = (if me = 0 then elements csize ms else share me ms) * sz_of lib ty"
| "own_received lib me csize o' = bytes_received lib me csize o'"

fun operations :: "INT32 \<Rightarrow> INT32 \<Rightarrow> collective_op \<Rightarrow> INT32" where
  "operations me csize (Scan n ty op) = (if me = csize - 1 then 0 else 1) + (if me = 0 then 0 else 1)"
| "operations me csize o' = 1"

lemma counted_alt:
  "of_nat (length (counted lib me csize o')) = operations me csize o'"
  "sum_list (map fst (counted lib me csize o')) = own_received lib me csize o'"
  "sum_list (map snd (counted lib me csize o')) = own_sent lib me csize o'"
  by (cases o'; simp add: Let_def)+

text \<open>
  C30. The statistics of the process grow by one collective operation and by the bytes it sends and receives, with these
  exceptions. The root of a gather or a scatter does not count its own part; \<open>MPI_Alltoall\<close> counts
  the bytes for one partner only; rank 0 counts the whole vector of a reduction with a scatter as received; and a scan counts
  as an operation for each of its neighbours, twice inside and not at all if the process is alone, with the bytes sent if there
  is a next process and those received if there is one before. A scan from C counts one other operation too, the question for the
  rank. The conditions are those of the sizes in the trace.
\<close>

theorem collective_statistics:
  assumes "MpiP2pProps.tracing opts" and "mpi_stats st = Some s"
    and "PMPI_Comm_rank lib comm = Some me" and "PMPI_Comm_size lib comm = Some csize" and "well_sized lib me csize o'"
  shows "\<exists>st' s'. call_collective lang b o' lib opts g ta t0 t1 comm ret st = Inr (ret, st') \<and> mpi_stats st' = Some s' \<and>
    COLLECTIVE_Communications s' = COLLECTIVE_Communications s + operations me csize o' \<and>
    COLLECTIVE_Bytes_Recv s' = COLLECTIVE_Bytes_Recv s + own_received lib me csize o' \<and>
    COLLECTIVE_Bytes_Sent s' = COLLECTIVE_Bytes_Sent s + own_sent lib me csize o' \<and>
    MPI_Others_count s' = MPI_Others_count s + others lang o'"
proof -
  from call_collective_ok [OF assms] obtain st' s' where
    "call_collective lang b o' lib opts g ta t0 t1 comm ret st = Inr (ret, st')" "mpi_stats st' = Some s'"
    "counts_more (s\<lparr>MPI_Others_count := MPI_Others_count s + others lang o'\<rparr>) (counted lib me csize o') s'" by blast
  then show ?thesis by (auto simp: counts_more_def counted_alt)
qed

section \<open>The two languages\<close>

definition languages_differ :: "bool \<Rightarrow> collective_op \<Rightarrow> bool" where
  "languages_differ b o' \<longleftrightarrow>
     (case o' of Reduce_scatter ms ty op \<Rightarrow> True | Gatherv n ty ms ty' root \<Rightarrow> \<not> b | _ \<Rightarrow> False)"

text \<open>
  C31. The wrappers for Fortran do what those for C do, whatever is traced, with these exceptions: the reductions with a
  scatter and the gather of different counts that does not block, which are left out, and the scans, where the wrapper for C
  first traces and counts a question for the rank and then does what that for Fortran does. The library gives the rank and the
  size of the communicator and the sizes of the datatypes, no count is 0, and every array of counts has a count for each process.
\<close>

theorem languages_agree:
  assumes "PMPI_Comm_rank lib comm = Some me" and "PMPI_Comm_size lib comm = Some csize" and "well_sized lib me csize o'"
    and "\<not> languages_differ b o'"
  shows "call_collective C b o' lib opts g ta t0 t1 comm ret st =
    (if is_scan o'
     then andthen (MPI_Comm_rank_C_Wrapper lib opts ta t0 MPI_SUCCESS st)
       (\<lambda>(ierror, st). call_collective Fortran b o' lib opts g ta t0 t1 comm ret st)
     else call_collective Fortran b o' lib opts g ta t0 t1 comm ret st)"
proof -
  let ?call = "\<lambda>lang. collective (event_of b o') (end_event lang b o') lib opts g t0 t1 comm me csize (Inr (target_field lib me csize o'))
        (Inr (sent_field lang lib me csize o')) (Inr (aux_field lang lib me csize o')) (count_all (counted lib me csize o')) ret"
  have fortran: "call_collective Fortran b o' lib opts g ta t0 t1 comm ret st = ?call Fortran st" for st
    by (simp add: call_collective_events [OF assms(1-3)] events_and_stats_def no_rank_asked)
  have "sent_field Fortran lib me csize o' = sent_field C lib me csize o'" "aux_field Fortran lib me csize o' = aux_field C lib me csize o'"
    "end_event Fortran b o' = end_event C b o'"
    using assms(4) by (cases o'; auto simp: languages_differ_def end_event_def)+
  then have "?call Fortran = ?call C" by simp
  then show ?thesis
    by (cases "MPI_Comm_rank_C_Wrapper lib opts ta t0 MPI_SUCCESS st")
      (auto simp: fortran call_collective_events [OF assms(1-3)] events_and_stats_def rank_asked_def)
qed

text \<open>Of Fortran the gather of different counts that does not block ends with an event that did not begin.\<close>

lemma Igatherv_ends_otherwise:
  "end_event Fortran False (Gatherv n ty ms ty' root) \<noteq> event_of False (Gatherv n ty ms ty' root)"
  by (simp add: end_event_def)

section \<open>Empty operations\<close>

definition empty_operation :: "collective_op \<Rightarrow> bool" where
  "empty_operation o' \<longleftrightarrow>
     (case o' of Alltoall n ty m ty' \<Rightarrow> n = 0 \<and> m = 0 | Allgather n ty m ty' \<Rightarrow> n = 0 \<and> m = 0
      | Gather n ty m ty' root \<Rightarrow> n = 0 \<and> m = 0 | Scatter n ty m ty' root \<Rightarrow> n = 0 \<and> m = 0 | Scan n ty op \<Rightarrow> n = 0 | _ \<Rightarrow> False)"

lemma empty_call:
  assumes "PMPI_Comm_rank lib comm = Some me" and "PMPI_Comm_size lib comm = Some csize" and "empty_operation o'"
  shows "call_collective Fortran b o' lib opts g ta t0 t1 comm ret st = events_and_stats Fortran b o' lib opts g ta t0 t1 comm me csize ret st"
  using assms by (cases o'; cases b) (auto simp: empty_operation_def known_simps call_defs Let_def simp del: count_all.simps)

lemma empty_fields: "empty_operation o' \<Longrightarrow> sent_field lang lib me csize o' = 0 \<and> aux_field lang lib me csize o' = 0 \<and> end_event lang b o' = event_of b o'"
  by (cases o') (auto simp: empty_operation_def end_event_def)

lemma rank_wrapper_result: "MPI_Comm_rank_C_Wrapper lib opts ta t0 ret st = Inr (r, st') \<Longrightarrow> r = ret"
  by (auto simp: MPI_Comm_rank_C_Wrapper_def plain_wrapper_def andthen_Inr_iff)

lemma empty_call_C:
  assumes "MpiP2pProps.tracing opts" and "mpi_stats st = Some s" and "PMPI_Comm_rank lib comm = Some me" and "PMPI_Comm_size lib comm = Some csize" and "empty_operation o'"
  shows "call_collective C b o' lib opts g ta t0 t1 comm ret st = Inl Uninitialised"
proof -
  have "\<exists>st'. rank_asked C (Scan 0 0 0) lib opts ta t0 st = Inr st'" using rank_asked_ok [OF assms(1,2)] by blast
  then obtain st' where "MPI_Comm_rank_C_Wrapper lib opts ta t0 MPI_SUCCESS st = Inr (MPI_SUCCESS, st')"
    by (cases "MPI_Comm_rank_C_Wrapper lib opts ta t0 MPI_SUCCESS st") (auto simp: rank_asked_def is_scan_def dest: rank_wrapper_result)
  then show ?thesis using assms by (cases o'; cases b) (auto simp: empty_operation_def wrapper_of_def call_defs size_simps collective_def if_traced_def
      MpiP2pProps.tracing_def Let_def traced_rank_def is_scan_def)
qed

text \<open>
  C32. The wrappers for C of an exchange, a gather, a scatter or a scan of no elements, on a traced process, read a size that was never
  set, a scan after it has asked for the rank, while those for Fortran trace that nothing is exchanged.
\<close>

theorem empty_collectives:
  assumes "MpiP2pProps.tracing opts" and "mpi_stats st = Some s"
    and "PMPI_Comm_rank lib comm = Some me" and "PMPI_Comm_size lib comm = Some csize" and "empty_operation o'"
  shows "call_collective C b o' lib opts g ta t0 t1 comm ret st = Inl Uninitialised \<and>
    (\<exists>st' e e'. call_collective Fortran b o' lib opts g ta t0 t1 comm ret st = Inr (ret, st') \<and> traced st' = traced st @ [e, e'] \<and>
      Get_EvEvent e = event_of b o' \<and> Get_EvSize e = 0 \<and> Get_EvAux e = 0)"
proof -
  from collective_ok [OF assms(1,2) event_of_other event_of_other] obtain st' where
    "call_collective Fortran b o' lib opts g ta t0 t1 comm ret st = Inr (ret, st')"
    "traced st' = traced st @ [mpi_event opts t0 (event_of b o') EVT_BEGIN (target_field lib me csize o') 0 me comm 0,
      mpi_event opts t1 (event_of b o') EVT_END 0 csize 0 comm g]"
    unfolding empty_call [OF assms(3-5)] events_and_stats_def no_rank_asked(2) andthen_simps empty_fields [OF assms(5), THEN conjunct1]
      empty_fields [OF assms(5), THEN conjunct2, THEN conjunct1] empty_fields [OF assms(5), THEN conjunct2, THEN conjunct2] by blast
  then show ?thesis using empty_call_C [OF assms] by (auto simp: mpi_event_def Get_EvEvent_def Get_EvSize_def Get_EvAux_def)
qed

section \<open>Witnesses\<close>

definition some_collective :: collective_op where
  "some_collective = Gatherv 3 1 (Some [3, 4]) 1 0"

lemma some_collective_known:
  "MpiP2pProps.tracing some_mpi_options" "mpi_stats some_mpi_state = Some some_stats" "PMPI_Comm_rank some_lib 1 = Some 0"
  "PMPI_Comm_size some_lib 1 = Some 2" "well_sized some_lib 0 2 some_collective"
  "empty_operation (Scan 0 1 5)"
  by (simp_all add: some_world some_mpi_state_def some_lib_def some_collective_def sized_def sizedv_def in_range_def empty_operation_def)

theorem collective_sizes_recovered_witness:
  "\<exists>st' e e'. call_collective Fortran False some_collective some_lib some_mpi_options 7 0 1 2 1 MPI_SUCCESS some_mpi_state =
      Inr (MPI_SUCCESS, st') \<and> traced st' = [e, e'] \<and>
    Get_GlobalOP_SendSize e (Get_GlobalOP_isRoot e 1) = 24 \<and> Get_GlobalOP_RecvSize e (Get_GlobalOP_isRoot e 1) = 56"
proof -
  have sizes: "sent_seen Fortran some_lib 0 2 some_collective = 24" "received_seen Fortran some_lib 0 2 some_collective = 56"
    "rank_events Fortran some_mpi_options 0 1 some_collective = []"
    by (simp_all add: some_collective_def sent_seen_def received_seen_def sz_of_def some_lib_def elements_def rank_events_def)
  from collective_sizes_recovered [OF some_collective_known(1-5), of Fortran False 7 0 1 2 MPI_SUCCESS 1] show ?thesis
    unfolding sizes some_mpi_state_def by auto
qed

theorem collective_statistics_witness:
  "\<exists>st' s'. call_collective C True some_collective some_lib some_mpi_options 7 0 1 2 1 MPI_SUCCESS some_mpi_state = Inr (MPI_SUCCESS, st') \<and>
    mpi_stats st' = Some s' \<and> COLLECTIVE_Communications s' = 1 \<and> COLLECTIVE_Bytes_Recv s' = 56 \<and> COLLECTIVE_Bytes_Sent s' = 0"
proof -
  have own: "operations 0 2 some_collective = 1" "own_received some_lib 0 2 some_collective = 56" "own_sent some_lib 0 2 some_collective = 0"
    by (simp_all add: some_collective_def sz_of_def some_lib_def elements_def)
  from collective_statistics [OF some_collective_known(1-5), of C True 7 0 1 2 MPI_SUCCESS] show ?thesis
    unfolding own by (auto simp: some_stats_def)
qed

theorem languages_agree_witness:
  "call_collective C True (Scan 3 1 5) some_lib some_mpi_options 7 0 1 2 1 MPI_SUCCESS some_mpi_state =
    andthen (MPI_Comm_rank_C_Wrapper some_lib some_mpi_options 0 1 MPI_SUCCESS some_mpi_state)
      (\<lambda>(ierror, st). call_collective Fortran True (Scan 3 1 5) some_lib some_mpi_options 7 0 1 2 1 MPI_SUCCESS st)"
  using languages_agree [OF some_collective_known(3,4), of "Scan 3 1 5" True some_mpi_options 7 0 1 2 MPI_SUCCESS some_mpi_state]
  by (simp add: languages_differ_def is_scan_def sized_def some_lib_def)

theorem empty_collectives_witness:
  "call_collective C True (Scan 0 1 5) some_lib some_mpi_options 7 0 1 2 1 MPI_SUCCESS some_mpi_state = Inl Uninitialised"
  using empty_collectives [OF some_collective_known(1-4,6), of True 7 0 1 2 MPI_SUCCESS] by simp

end
