(* ===== verification/MatchSpec.thy ===== *)
theory MatchSpec
  imports Prelude
begin

text \<open>
  The matching of sends and receives, abstractly. Every send and receive goes over a channel: who
  sends, who receives, and the tag. A machine sees them in any order; it keeps what has no
  partner yet, and pairs a send or receive with the oldest one that waits on its channel. The sends and the
  receives are numbered in the order they are seen.
\<close>

datatype ('s, 'r) comm_op = Send 's | Recv 'r

record ('s, 'r) matching =
  all_sends :: "'s list"
  all_recvs :: "'r list"
  waiting_sends :: "nat list"
  waiting_recvs :: "nat list"
  pairs :: "(nat \<times> nat) list"

definition no_matching :: "('s, 'r) matching" where
  "no_matching = \<lparr>all_sends = [], all_recvs = [], waiting_sends = [], waiting_recvs = [], pairs = []\<rparr>"

fun match_op :: "('s \<Rightarrow> 'c) \<Rightarrow> ('r \<Rightarrow> 'c) \<Rightarrow> ('s, 'r) comm_op \<Rightarrow> ('s, 'r) matching \<Rightarrow> ('s, 'r) matching" where
  "match_op sc rc (Send s) w =
     (case first_index (\<lambda>j. rc (all_recvs w ! j) = sc s) (waiting_recvs w) of
        Some k \<Rightarrow> w\<lparr>all_sends := all_sends w @ [s], waiting_recvs := remove_nth k (waiting_recvs w),
          pairs := pairs w @ [(length (all_sends w), waiting_recvs w ! k)]\<rparr>
      | None \<Rightarrow> w\<lparr>all_sends := all_sends w @ [s], waiting_sends := waiting_sends w @ [length (all_sends w)]\<rparr>)"
| "match_op sc rc (Recv r) w =
     (case first_index (\<lambda>i. sc (all_sends w ! i) = rc r) (waiting_sends w) of
        Some k \<Rightarrow> w\<lparr>all_recvs := all_recvs w @ [r], waiting_sends := remove_nth k (waiting_sends w),
          pairs := pairs w @ [(waiting_sends w ! k, length (all_recvs w))]\<rparr>
      | None \<Rightarrow> w\<lparr>all_recvs := all_recvs w @ [r], waiting_recvs := waiting_recvs w @ [length (all_recvs w)]\<rparr>)"

section \<open>What is on a channel\<close>

definition numbers_on :: "('a \<Rightarrow> 'c) \<Rightarrow> 'a list \<Rightarrow> 'c \<Rightarrow> nat list" where
  "numbers_on ch xs c = filter (\<lambda>i. ch (xs ! i) = c) [0..<length xs]"

definition rank :: "('a \<Rightarrow> 'c) \<Rightarrow> 'a list \<Rightarrow> nat \<Rightarrow> nat" where
  "rank ch xs i = length (filter (\<lambda>x. ch x = ch (xs ! i)) (take i xs))"

lemma numbers_on_append:
  "numbers_on ch (xs @ [x]) c = numbers_on ch xs c @ (if ch x = c then [length xs] else [])"
proof -
  have "filter (\<lambda>i. ch ((xs @ [x]) ! i) = c) [0..<length xs] = filter (\<lambda>i. ch (xs ! i) = c) [0..<length xs]"
    by (rule filter_cong) (auto simp: nth_append)
  then show ?thesis by (simp add: numbers_on_def)
qed

lemma numbers_on_bound: "i \<in> set (numbers_on ch xs c) \<longleftrightarrow> i < length xs \<and> ch (xs ! i) = c"
  by (auto simp: numbers_on_def)

lemma length_filter_numbers: "length (numbers_on ch xs c) = length (filter (\<lambda>x. ch x = c) xs)"
proof (induction xs rule: rev_induct)
  case Nil
  show ?case by (simp add: numbers_on_def)
qed (simp add: numbers_on_append)

lemma rank_numbers:
  "i < length xs \<Longrightarrow> rank ch xs i < length (numbers_on ch xs (ch (xs ! i))) \<and>
    numbers_on ch xs (ch (xs ! i)) ! rank ch xs i = i"
proof (induction xs rule: rev_induct)
  case (snoc x xs)
  show ?case
  proof (cases "i < length xs")
    case True
    with snoc show ?thesis by (auto simp: numbers_on_append rank_def nth_append)
  next
    case False
    with snoc.prems have "i = length xs" by simp
    then show ?thesis
      by (simp add: numbers_on_append rank_def nth_append length_filter_numbers [of ch xs "ch x", symmetric])
  qed
qed simp

lemma numbers_rank:
  assumes "k < length (numbers_on ch xs c)"
  shows "rank ch xs (numbers_on ch xs c ! k) = k"
proof -
  let ?i = "numbers_on ch xs c ! k"
  have i: "?i < length xs" "ch (xs ! ?i) = c" using nth_mem [OF assms] by (auto simp: numbers_on_bound)
  moreover have "distinct (numbers_on ch xs c)" by (simp add: numbers_on_def)
  ultimately show ?thesis using rank_numbers [OF i(1), of ch] assms nth_eq_iff_index_eq by metis
qed

section \<open>Matching is by rank\<close>

text \<open>The sends and receives seen, those that wait, and the pairs.\<close>

definition by_rank :: "('s \<Rightarrow> 'c) \<Rightarrow> ('r \<Rightarrow> 'c) \<Rightarrow> 's list \<Rightarrow> 'r list \<Rightarrow> nat list \<Rightarrow> nat list \<Rightarrow> (nat \<times> nat) set \<Rightarrow> bool" where
  "by_rank sc rc S R ps pr P \<longleftrightarrow>
     (\<forall>i \<in> set ps. i < length S) \<and> (\<forall>j \<in> set pr. j < length R) \<and>
     (\<forall>c. filter (\<lambda>i. sc (S ! i) = c) ps = drop (length (numbers_on rc R c)) (numbers_on sc S c)) \<and>
     (\<forall>c. filter (\<lambda>j. rc (R ! j) = c) pr = drop (length (numbers_on sc S c)) (numbers_on rc R c)) \<and>
     P = {(i, j). i < length S \<and> j < length R \<and> sc (S ! i) = rc (R ! j) \<and> rank sc S i = rank rc R j}"

lemma by_rank_swap: "by_rank sc rc S R ps pr P \<Longrightarrow> by_rank rc sc R S pr ps (P\<inverse>)"
  by (auto simp: by_rank_def)

lemma rank_append: "i < length xs \<Longrightarrow> rank ch (xs @ [x]) i = rank ch xs i"
  by (simp add: rank_def nth_append)

lemma rank_last: "rank ch (xs @ [x]) (length xs) = length (numbers_on ch xs (ch x))"
  by (simp add: rank_def length_filter_numbers)

lemma filter_shorter:
  "\<forall>i \<in> set ps. i < length xs \<Longrightarrow> filter (\<lambda>i. ch ((xs @ [x]) ! i) = c) ps = filter (\<lambda>i. ch (xs ! i) = c) ps"
  by (rule filter_cong) (auto simp: nth_append)

text \<open>The pairs that a new element brings.\<close>

lemma new_pairs:
  "{(i, j). i < length (S @ [x]) \<and> j < length R \<and> sc ((S @ [x]) ! i) = rc (R ! j) \<and> rank sc (S @ [x]) i = rank rc R j} =
   {(i, j). i < length S \<and> j < length R \<and> sc (S ! i) = rc (R ! j) \<and> rank sc S i = rank rc R j} \<union>
   {(length S, j) |j. j < length R \<and> rc (R ! j) = sc x \<and> rank rc R j = length (numbers_on sc S (sc x))}"
  by (auto simp: nth_append rank_append rank_last less_Suc_eq split: if_splits)

lemma by_rank_waits:
  assumes inv: "by_rank sc rc S R ps pr P" and none: "first_index (\<lambda>j. rc (R ! j) = sc x) pr = None"
  shows "by_rank sc rc (S @ [x]) R (ps @ [length S]) pr P"
proof -
  have "filter (\<lambda>j. rc (R ! j) = sc x) pr = []" using none by (auto simp: first_index_None filter_empty_conv)
  then have few: "length (numbers_on rc R (sc x)) \<le> length (numbers_on sc S (sc x))" using inv by (auto simp: by_rank_def)
  have "\<not> (j < length R \<and> rc (R ! j) = sc x \<and> rank rc R j = length (numbers_on sc S (sc x)))" for j
    using rank_numbers [of j R rc] few by auto
  then have "P = {(i, j). i < length (S @ [x]) \<and> j < length R \<and> sc ((S @ [x]) ! i) = rc (R ! j) \<and> rank sc (S @ [x]) i = rank rc R j}"
    using inv unfolding new_pairs by (auto simp: by_rank_def)
  with inv few show ?thesis
    by (auto simp: by_rank_def filter_shorter numbers_on_append)
qed

lemma by_rank_pairs:
  assumes inv: "by_rank sc rc S R ps pr P" and some: "first_index (\<lambda>j. rc (R ! j) = sc x) pr = Some k"
  shows "by_rank sc rc (S @ [x]) R ps (remove_nth k pr) (insert (length S, pr ! k) P)"
proof -
  let ?n = "length (numbers_on sc S (sc x))"
  have k: "k < length pr" "rc (R ! (pr ! k)) = sc x" using some by (auto simp: first_index_Some)
  have waiting: "pr ! k # filter (\<lambda>j. rc (R ! j) = sc x) (remove_nth k pr) = drop ?n (numbers_on rc R (sc x))"
    using filter_first_index [OF some] inv by (simp add: by_rank_def)
  then have many: "?n < length (numbers_on rc R (sc x))" by (metis drop_all linorder_not_le list.distinct(1))
  have first: "numbers_on rc R (sc x) ! ?n = pr ! k"
    using waiting many by (metis hd_drop_conv_nth list.sel(1))
  have rest: "filter (\<lambda>j. rc (R ! j) = sc x) (remove_nth k pr) = drop (Suc ?n) (numbers_on rc R (sc x))"
    using waiting by (metis drop_Suc list.sel(3) tl_drop)
  have others: "filter (\<lambda>j. rc (R ! j) = c) (remove_nth k pr) = filter (\<lambda>j. rc (R ! j) = c) pr" if "c \<noteq> sc x" for c
    using k that by (subst (2) id_take_nth_drop [of k pr]) (auto simp: remove_nth_def)
  have "j < length R \<and> rc (R ! j) = sc x \<and> rank rc R j = ?n \<longleftrightarrow> j = pr ! k" for j
    using rank_numbers [of j R rc] numbers_rank [OF many] first many nth_mem [OF many]
    by (auto simp: numbers_on_bound)
  then have "insert (length S, pr ! k) P =
      {(i, j). i < length (S @ [x]) \<and> j < length R \<and> sc ((S @ [x]) ! i) = rc (R ! j) \<and> rank sc (S @ [x]) i = rank rc R j}"
    using inv unfolding new_pairs by (auto simp: by_rank_def)
  moreover have "filter (\<lambda>i. sc ((S @ [x]) ! i) = c) ps = drop (length (numbers_on rc R c)) (numbers_on sc (S @ [x]) c)" for c
    using inv many by (auto simp: by_rank_def filter_shorter numbers_on_append)
  moreover have "filter (\<lambda>j. rc (R ! j) = c) (remove_nth k pr) = drop (length (numbers_on sc (S @ [x]) c)) (numbers_on rc R c)" for c
    using inv rest others [of c] by (cases "c = sc x") (auto simp: by_rank_def numbers_on_append)
  moreover have "\<forall>j \<in> set (remove_nth k pr). j < length R"
    using inv by (auto simp: by_rank_def remove_nth_def dest: in_set_takeD in_set_dropD)
  moreover have "\<forall>i \<in> set ps. i < length (S @ [x])" using inv by (auto simp: by_rank_def)
  ultimately show ?thesis unfolding by_rank_def by blast
qed

definition matching_inv :: "('s \<Rightarrow> 'c) \<Rightarrow> ('r \<Rightarrow> 'c) \<Rightarrow> ('s, 'r) matching \<Rightarrow> bool" where
  "matching_inv sc rc w \<longleftrightarrow>
     by_rank sc rc (all_sends w) (all_recvs w) (waiting_sends w) (waiting_recvs w) (set (pairs w))"

lemma converse_insert: "(insert (a, b) P)\<inverse> = insert (b, a) (P\<inverse>)"
  by auto

lemma match_op_inv: "matching_inv sc rc w \<Longrightarrow> matching_inv sc rc (match_op sc rc op w)"
proof (cases op)
  case (Send s)
  assume inv: "matching_inv sc rc w"
  from Send inv show ?thesis
    using by_rank_pairs [of sc rc "all_sends w" "all_recvs w" "waiting_sends w" "waiting_recvs w" "set (pairs w)" s]
      by_rank_waits [of sc rc "all_sends w" "all_recvs w" "waiting_sends w" "waiting_recvs w" "set (pairs w)" s]
    by (auto simp: matching_inv_def split: option.split)
next
  case (Recv r)
  assume "matching_inv sc rc w"
  then have inv: "by_rank rc sc (all_recvs w) (all_sends w) (waiting_recvs w) (waiting_sends w) ((set (pairs w))\<inverse>)"
    unfolding matching_inv_def by (rule by_rank_swap)
  have "by_rank rc sc (all_recvs (match_op sc rc op w)) (all_sends (match_op sc rc op w))
      (waiting_recvs (match_op sc rc op w)) (waiting_sends (match_op sc rc op w)) ((set (pairs (match_op sc rc op w)))\<inverse>)"
    using Recv by_rank_pairs [OF inv, of r] by_rank_waits [OF inv, of r]
    by (auto simp: converse_insert split: option.split)
  from by_rank_swap [OF this] show ?thesis by (simp add: matching_inv_def)
qed

lemma no_matching_inv: "matching_inv sc rc no_matching"
  by (simp add: matching_inv_def by_rank_def no_matching_def numbers_on_def)

lemma match_ops_inv: "matching_inv sc rc w \<Longrightarrow> matching_inv sc rc (fold (match_op sc rc) ops w)"
  by (induction ops arbitrary: w) (simp_all add: match_op_inv)

text \<open>In particular a send has at most one partner, and nothing that waits has one.\<close>

lemma rank_inj:
  "i < length xs \<Longrightarrow> j < length xs \<Longrightarrow> ch (xs ! i) = ch (xs ! j) \<Longrightarrow> rank ch xs i = rank ch xs j \<Longrightarrow> i = j"
  using rank_numbers by metis

lemma pair_unique:
  assumes "matching_inv sc rc w" and "(i, j) \<in> set (pairs w)" and "(i, j') \<in> set (pairs w)"
  shows "j = j'"
  using assms rank_inj [of j "all_recvs w" j' rc] by (auto simp: matching_inv_def by_rank_def)

lemma waiting_unpaired:
  assumes "matching_inv sc rc w" and "i \<in> set (waiting_sends w)"
  shows "(i, j) \<notin> set (pairs w)"
proof
  let ?S = "all_sends w" and ?R = "all_recvs w" and ?c = "sc (all_sends w ! i)"
  assume "(i, j) \<in> set (pairs w)"
  with assms(1) have j: "i < length ?S" "j < length ?R" "?c = rc (?R ! j)" "rank sc ?S i = rank rc ?R j"
    by (auto simp: matching_inv_def by_rank_def)
  have "filter (\<lambda>i. sc (?S ! i) = ?c) (waiting_sends w) = drop (length (numbers_on rc ?R ?c)) (numbers_on sc ?S ?c)"
    using assms(1) unfolding matching_inv_def by_rank_def by blast
  moreover have "i \<in> set (filter (\<lambda>i. sc (?S ! i) = ?c) (waiting_sends w))" using assms(2) by simp
  ultimately have "i \<in> set (drop (length (numbers_on rc ?R ?c)) (numbers_on sc ?S ?c))" by simp
  then obtain k where k: "length (numbers_on rc ?R ?c) \<le> k" "k < length (numbers_on sc ?S ?c)" "numbers_on sc ?S ?c ! k = i"
    by (auto simp: in_set_conv_nth) (metis add.commute le_add1 less_diff_conv)
  then have "rank sc ?S i = k" using numbers_rank by metis
  with j rank_numbers [OF j(2), of rc] k(1) show False by simp
qed

end
