(* ===== verification/MpiThreads.thy ===== *)
theory MpiThreads
  imports MpiSemantics MatchSpec
begin

text \<open>
  What the handlers of \<open>MpiSemantics\<close> do to the parts of the merger's state: queues that have room,
  threads whose communication records are numbered, and the object table of one application.
\<close>

section \<open>Queues with room\<close>

definition roomy :: "int \<Rightarrow> 'a new_queue \<Rightarrow> bool" where
  "roomy room q \<longleftrightarrow> queue_inv q \<and> room \<le> ElementsPerAllocation q \<and> (ElementsAllocated q = 0 \<or> room \<le> ElementsAllocated q)"

lemma roomy_spare:
  assumes "roomy room q" and "queue_elems q \<noteq> []" and "int (length (queue_elems q)) < room"
  shows "has_spare q"
  using assms by (auto simp: roomy_def has_spare_def queue_inv_def length_queue_elems queue_elems_def)

lemma roomy_add:
  assumes "roomy room q" and "ample alloc"
  shows "\<exists>q'. NewQueue_add alloc q d = Inr q' \<and> roomy room q' \<and> queue_elems q' = queue_elems q @ [d]"
proof -
  have inv: "queue_inv q" using assms(1) by (simp add: roomy_def)
  have in_cells: "in_range (NumOfElements q) (Data q @ replicate m None)" if "0 < m \<or> NumOfElements q < ElementsAllocated q" for m
    using inv that by (auto simp: queue_inv_def in_range_def)
  have "\<exists>q'. NewQueue_add alloc q d = Inr q' \<and> ElementsPerAllocation q' = ElementsPerAllocation q \<and>
      (ElementsAllocated q' = 0 \<or> room \<le> ElementsAllocated q')"
  proof (cases "NumOfElements q = ElementsAllocated q")
    case True
    let ?n = "ElementsAllocated q + ElementsPerAllocation q"
    have cells: "take (nat ?n) (Data q) = Data q" "0 < nat ?n - length (Data q)"
      using inv by (auto simp: queue_inv_def)
    have "in_range (NumOfElements q) (take (nat ?n) (Data q) @ replicate (nat ?n - length (Data q)) None)"
      unfolding cells(1) by (rule in_cells) (use cells(2) in simp)
    with True assms show ?thesis
      by (auto simp: NewQueue_add_def NewQueue_grow_def ample_def array_set_def Let_def roomy_def queue_inv_def)
  next
    case False
    with inv have "NumOfElements q < ElementsAllocated q" by (simp add: queue_inv_def)
    with in_cells [of 0] False assms(1) show ?thesis
      by (auto simp: NewQueue_add_def array_set_def roomy_def)
  qed
  with NewQueue_add_correct [OF inv] assms(1) show ?thesis by (auto simp: roomy_def)
qed

lemma copy_down_room: "copy_down q i = Inr q' \<Longrightarrow>
    ElementsAllocated q' = ElementsAllocated q \<and> ElementsPerAllocation q' = ElementsPerAllocation q"
  by (auto simp: copy_down_def)

lemma delete_shift_room: "delete_shift q n i = Inr q' \<Longrightarrow>
    ElementsAllocated q' = ElementsAllocated q \<and> ElementsPerAllocation q' = ElementsPerAllocation q"
proof (induction q n i arbitrary: q' rule: delete_shift.induct)
  case (1 q n i)
  show ?case
  proof (cases "i < n - 1")
    case True
    with "1.prems" obtain x where "copy_down q (i + 1) = Inr x" "delete_shift x n (i + 1) = Inr q'"
      by (subst (asm) delete_shift.simps) auto
    with "1.IH" [OF True this] copy_down_room show ?thesis by metis
  next
    case False
    with "1.prems" show ?thesis by (subst (asm) delete_shift.simps) simp
  qed
qed

lemma delete_room: "NewQueue_delete q p = Inr q' \<Longrightarrow>
    ElementsAllocated q' = ElementsAllocated q \<and> ElementsPerAllocation q' = ElementsPerAllocation q"
  by (auto simp: NewQueue_delete_def Let_def dest!: copy_down_room delete_shift_room split: option.splits if_splits)

lemma roomy_ExtractSend:
  assumes "roomy room q" and "first_index (matches_send any_tag receiver tag key) (queue_elems q) = Some i"
    and "int (length (queue_elems q)) < room"
  shows "\<exists>q'. CommunicationQueues_ExtractSend any_tag q receiver tag out key = Inr (send_result out (queue_elems q ! i), q') \<and>
    roomy room q' \<and> queue_elems q' = remove_nth i (queue_elems q)"
proof -
  have inv: "queue_inv q" using assms(1) by (simp add: roomy_def)
  have spare: "has_spare q" using roomy_spare [OF assms(1) _ assms(3)] assms(2) by (cases "queue_elems q") auto
  obtain q' where q': "CommunicationQueues_ExtractSend any_tag q receiver tag out key = Inr (send_result out (queue_elems q ! i), q')"
    "queue_inv q'" "queue_elems q' = remove_nth i (queue_elems q)"
    using extract_send_step [OF inv assms(2)] spare by blast
  moreover from q'(1) have "ElementsAllocated q' = ElementsAllocated q \<and> ElementsPerAllocation q' = ElementsPerAllocation q"
    by (auto simp: CommunicationQueues_ExtractSend_def Let_def dest!: delete_room split: option.splits)
  ultimately show ?thesis using assms(1) by (auto simp: roomy_def)
qed

lemma roomy_ExtractRecv:
  assumes "roomy room q" and "first_index (matches_recv any_tag sender tag key) (queue_elems q) = Some i"
    and "int (length (queue_elems q)) < room" and "\<And>d. d \<in> set (queue_elems q) \<Longrightarrow> recv_end d \<noteq> None"
  shows "\<exists>q'. CommunicationQueues_ExtractRecv any_tag q sender tag out key = Inr (recv_result out (queue_elems q ! i), q') \<and>
    roomy room q' \<and> queue_elems q' = remove_nth i (queue_elems q)"
proof -
  have inv: "queue_inv q" using assms(1) by (simp add: roomy_def)
  have spare: "has_spare q" using roomy_spare [OF assms(1) _ assms(3)] assms(2) by (cases "queue_elems q") auto
  obtain q' where q': "CommunicationQueues_ExtractRecv any_tag q sender tag out key = Inr (recv_result out (queue_elems q ! i), q')"
    "queue_inv q'" "queue_elems q' = remove_nth i (queue_elems q)"
    using extract_recv_step [OF inv assms(4,2)] spare by blast
  moreover from q'(1) have "ElementsAllocated q' = ElementsAllocated q \<and> ElementsPerAllocation q' = ElementsPerAllocation q"
    by (auto simp: CommunicationQueues_ExtractRecv_def Let_def dest!: delete_room split: option.splits)
  ultimately show ?thesis using assms(1) by (auto simp: roomy_def)
qed

lemma extract_recv_missing:
  assumes "queue_inv q" and "first_index (matches_recv any_tag sender tag key) (queue_elems q) = None"
    and "\<And>d. d \<in> set (queue_elems q) \<Longrightarrow> recv_end d \<noteq> None"
  shows "CommunicationQueues_ExtractRecv any_tag q sender tag out key = Inr (out\<lparr>out_begin := None, out_end := None\<rparr>, q)"
  using nq.extract_missing [where compare = "CompareRecv_cbk any_tag"
      and ref = "\<lparr>ref_key = key, ref_tag = tag, ref_target = sender\<rparr>"
      and P = "matches_recv any_tag sender tag key", OF assms(1) CompareRecv_cbk_matches assms(2)] assms(3)
  by (simp add: CommunicationQueues_ExtractRecv_def)

section \<open>Part of a queue\<close>

lemma first_index_cong: "(\<And>x. x \<in> set xs \<Longrightarrow> P x = Q x) \<Longrightarrow> first_index P xs = first_index Q xs"
  by (induction xs) auto

lemma first_index_filter:
  assumes "first_index P xs = Some k" and "\<And>x. x \<in> set xs \<Longrightarrow> P x \<Longrightarrow> Q x"
  shows "\<exists>k'. first_index P (filter Q xs) = Some k' \<and> k' < length (filter Q xs) \<and> filter Q xs ! k' = xs ! k \<and>
    remove_nth k' (filter Q xs) = filter Q (remove_nth k xs)"
  using assms
proof (induction xs arbitrary: k)
  case (Cons x xs)
  show ?case
  proof (cases "P x")
    case True
    with Cons.prems show ?thesis by (intro exI [of _ 0]) (auto simp: remove_nth_def)
  next
    case False
    with Cons.prems obtain l where l: "first_index P xs = Some l" "k = Suc l" by auto
    from Cons.IH [OF l(1)] Cons.prems(2) obtain k' where "first_index P (filter Q xs) = Some k'" "k' < length (filter Q xs)"
      "filter Q xs ! k' = xs ! l" "remove_nth k' (filter Q xs) = filter Q (remove_nth l xs)" by auto
    with False l(2) show ?thesis
      by (cases "Q x") (auto simp: remove_nth_def intro!: exI [of _ "Suc k'"] exI [of _ k'])
  qed
qed simp

lemma first_index_related:
  assumes "list_all2 R xs ys" and "\<And>x y. x \<in> set xs \<Longrightarrow> y \<in> set ys \<Longrightarrow> R x y \<Longrightarrow> P x = Q y"
  shows "first_index P xs = first_index Q ys"
  using assms by (induction xs ys rule: list_all2_induct) auto

lemma related_remove: "list_all2 R xs ys \<Longrightarrow> list_all2 R (remove_nth k xs) (remove_nth k ys)"
  by (auto simp: remove_nth_def intro!: list_all2_appendI list_all2_takeI list_all2_dropI)

lemma first_index_filter_None: "first_index P xs = None \<Longrightarrow> first_index P (filter Q xs) = None"
  by (auto simp: first_index_None)

lemma filter_remove_other: "k < length xs \<Longrightarrow> \<not> Q (xs ! k) \<Longrightarrow> filter Q (remove_nth k xs) = filter Q xs"
  by (subst (2) id_take_nth_drop [of k xs]) (auto simp: remove_nth_def)

section \<open>Threads with numbered communications\<close>

definition is_comm :: "paraver_rec_t \<Rightarrow> bool" where
  "is_comm r \<longleftrightarrow> rec_type r = COMMUNICATION \<or> rec_type r = UNMATCHED_COMMUNICATION"

text \<open>
  A label for every record of the file: the number of the send it is of, or none. The record of a send is what
  \<open>rend\<close> says, and the open state is a record of no send.
\<close>

definition fits :: "(nat \<Rightarrow> paraver_rec_t) \<Rightarrow> nat option \<Rightarrow> paraver_rec_t \<Rightarrow> bool" where
  "fits rend l r \<longleftrightarrow> (case l of None \<Rightarrow> \<not> is_comm r | Some i \<Rightarrow> r = rend i)"

lemma fits_simps [simp]:
  "fits rend None r \<longleftrightarrow> \<not> is_comm r"
  "fits rend (Some i) r \<longleftrightarrow> r = rend i"
  by (simp_all add: fits_def)

definition numbered :: "nat option list \<Rightarrow> (nat \<Rightarrow> paraver_rec_t) \<Rightarrow> thread_t \<Rightarrow> bool" where
  "numbered L rend th \<longleftrightarrow> rec_file_inv (wfb th) \<and> wfb_ready (wfb th) \<and> stack_ok (thread_stack th) \<and>
     list_all2 (fits rend) L (wfb_recs (wfb th)) \<and>
     (incomplete_state_offset th = - 1 \<or> rec_type (incomplete_state_record th) = STATE \<and>
      (\<exists>k < length L. incomplete_state_offset th = int (sizeof_paraver_rec_t * k) \<and> L ! k = None))"

definition sends_in :: "nat option list \<Rightarrow> nat list" where
  "sends_in L = List.map_filter (\<lambda>l. l) L"

lemma sends_in_simps [simp]:
  "sends_in [] = []"
  "sends_in (L @ L') = sends_in L @ sends_in L'"
  "sends_in [None] = []"
  "sends_in [Some i] = [i]"
  by (simp_all add: sends_in_def List.map_filter_def)

lemma sends_in_none [simp]: "sends_in (replicate n None) = []"
  by (simp add: sends_in_def List.map_filter_def)

lemma in_sends_in: "i \<in> set (sends_in L) \<longleftrightarrow> Some i \<in> set L"
  by (force simp: sends_in_def List.map_filter_def image_iff)

lemma numbered_comms:
  assumes "numbered L rend th" and "\<forall>i. is_comm (rend i)"
  shows "filter is_comm (wfb_recs (wfb th)) = map rend (sends_in L)"
proof -
  have "filter is_comm rs = map rend (sends_in L)" if "list_all2 (fits rend) L rs" for rs
    using that
  proof (induction L rs rule: list_all2_induct)
    case (Cons l L r rs)
    then show ?case using assms(2) by (cases l) (simp_all add: sends_in_def List.map_filter_def)
  qed simp
  with assms(1) show ?thesis by (simp add: numbered_def)
qed

text \<open>A call that adds records of no send.\<close>

definition quiet :: "(thread_t \<Rightarrow> thread_t res) \<Rightarrow> bool" where
  "quiet f \<longleftrightarrow> (\<forall>L rend th. numbered L rend th \<longrightarrow>
     (\<exists>th' n. f th = Inr th' \<and> numbered (L @ replicate n None) rend th' \<and> virtual_thread th' = virtual_thread th))"

lemma quietE:
  assumes "quiet f" and "numbered L rend th"
  obtains th' n where "f th = Inr th'" and "numbered (L @ replicate n None) rend th'" and "virtual_thread th' = virtual_thread th"
  using assms unfolding quiet_def by blast

lemma numbered_stack: "numbered L rend th \<Longrightarrow> stack_ok (thread_stack th)"
  by (simp add: numbered_def)

lemma quiet_none: "quiet Inr"
  unfolding quiet_def by (metis append_Nil2 replicate_0)

lemma quiet_then:
  assumes "quiet f" and "quiet g"
  shows "quiet (\<lambda>th. andthen (f th) g)"
  unfolding quiet_def
proof (intro allI impI)
  fix L rend th assume "numbered L rend th"
  from quietE [OF assms(1) this] obtain th1 n where
    1: "f th = Inr th1" "numbered (L @ replicate n None) rend th1" "virtual_thread th1 = virtual_thread th" .
  from quietE [OF assms(2) 1(2)] obtain th2 m where
    "g th1 = Inr th2" "numbered ((L @ replicate n None) @ replicate m None) rend th2" "virtual_thread th2 = virtual_thread th1" .
  with 1 show "\<exists>th' n. andthen (f th) g = Inr th' \<and> numbered (L @ replicate n None) rend th' \<and> virtual_thread th' = virtual_thread th"
    by (intro exI [of _ th2] exI [of _ "n + m"]) (simp add: replicate_add)
qed

lemma numbered_cong:
  assumes "numbered L rend th" and "\<And>i. Some i \<in> set L \<Longrightarrow> rend' i = rend i"
  shows "numbered L rend' th"
proof -
  have "list_all2 (fits rend) L (wfb_recs (wfb th))" using assms(1) by (simp add: numbered_def)
  then have "list_all2 (fits rend') L (wfb_recs (wfb th))"
    using assms(2) by (auto simp: list_all2_conv_all_nth fits_def split: option.splits) (metis nth_mem)+
  with assms(1) show ?thesis by (simp add: numbered_def)
qed

lemma sends_in_inj:
  assumes "distinct (sends_in L)" and "p < length L" and "q < length L" and "L ! p = Some i" and "L ! q = Some i"
  shows "p = q"
  using assms
proof (induction L arbitrary: p q)
  case (Cons l L)
  have again: "i \<in> set (sends_in L)" if "q < length L" "L ! q = Some i" for q
    using that by (metis in_sends_in nth_mem)
  from Cons.prems(1) have "distinct (sends_in L)" "\<And>i. l = Some i \<Longrightarrow> i \<notin> set (sends_in L)"
    by (cases l; simp add: sends_in_def List.map_filter_def)+
  with Cons.prems(2-) Cons.IH again show ?case by (cases p; cases q) auto
qed simp

lemma numbered_write:
  assumes "numbered L rend th" and "fits rend l r"
  obtains f where "write_rec (wfb th) r = Inr f" and "numbered (L @ [l]) rend (th\<lparr>wfb := f\<rparr>)"
proof -
  from assms(1) have "rec_file_inv (wfb th)" "wfb_ready (wfb th)" by (simp_all add: numbered_def)
  from recs.put_step [OF this(1) TrueI this(2)] obtain f where
    f: "write_rec (wfb th) r = Inr f" "rec_file_inv f" "wfb_ready f" "wfb_recs f = wfb_recs (wfb th) @ [r]" .
  have "numbered (L @ [l]) rend (th\<lparr>wfb := f\<rparr>)"
    using assms f(2-4) unfolding numbered_def by (auto simp: nth_append less_Suc_eq intro!: list_all2_appendI)
  with f(1) show ?thesis by (rule that)
qed

lemma numbered_write_at:
  assumes "numbered L rend th" and "k < length L"
    and "fits rend' (L ! k) r"
    and "\<And>p i. p < length L \<Longrightarrow> p \<noteq> k \<Longrightarrow> L ! p = Some i \<Longrightarrow> rend' i = rend i"
  obtains f where "write_rec_at (wfb th) r (int (sizeof_paraver_rec_t * k)) = Inr f" and "numbered L rend' (th\<lparr>wfb := f\<rparr>)"
proof -
  have all: "list_all2 (fits rend) L (wfb_recs (wfb th))" using assms(1) by (simp add: numbered_def)
  with assms(1,2) have "rec_file_inv (wfb th)" "wfb_ready (wfb th)" "k < length (wfb_recs (wfb th))"
    by (simp_all add: numbered_def list_all2_lengthD)
  from recs.put_at_step [OF this(1) TrueI this(2,3)] obtain f where
    f: "write_rec_at (wfb th) r (int (sizeof_paraver_rec_t * k)) = Inr f" "rec_file_inv f" "wfb_ready f"
      "wfb_recs f = (wfb_recs (wfb th))[k := r]" .
  have "fits rend' (L ! p) (wfb_recs f ! p)" if p: "p < length L" for p
  proof (cases "p = k")
    case True
    with assms(3) p f(4) all show ?thesis by (simp add: list_all2_lengthD)
  next
    case False
    have "fits rend (L ! p) (wfb_recs (wfb th) ! p)" using all p by (simp add: list_all2_nthD)
    with False f(4) assms(4) [OF p False] show ?thesis by (cases "L ! p") simp_all
  qed
  then have "list_all2 (fits rend') L (wfb_recs f)"
    using all f(4) by (simp add: list_all2_conv_all_nth)
  then have "numbered L rend' (th\<lparr>wfb := f\<rparr>)"
    using assms(1) f(2,3) by (simp add: numbered_def)
  with f(1) show ?thesis by (rule that)
qed

lemma quiet_write:
  assumes "\<And>th. \<not> is_comm (r th)"
  shows "quiet (\<lambda>th. andthen (write_rec (wfb th) (r th)) (\<lambda>w. Inr (th\<lparr>wfb := w\<rparr>)))"
  unfolding quiet_def
proof (intro allI impI)
  fix L rend th assume "numbered L rend th"
  moreover have "fits rend None (r th)" using assms by simp
  ultimately obtain f where "write_rec (wfb th) (r th) = Inr f" "numbered (L @ [None]) rend (th\<lparr>wfb := f\<rparr>)"
    by (rule numbered_write)
  then show "\<exists>th' n. andthen (write_rec (wfb th) (r th)) (\<lambda>w. Inr (th\<lparr>wfb := w\<rparr>)) = Inr th' \<and>
      numbered (L @ replicate n None) rend th' \<and> virtual_thread th' = virtual_thread th"
    by (intro exI [of _ "th\<lparr>wfb := f\<rparr>"] exI [of _ 1]) simp
qed

lemma quiet_stack:
  assumes "\<And>st. stack_ok st \<Longrightarrow> \<exists>s st'. f st = Inr (s, st') \<and> stack_ok st'"
  shows "quiet (on_stack f)"
  unfolding quiet_def
proof (intro allI impI)
  fix L rend th assume num: "numbered L rend th"
  from assms [OF numbered_stack [OF num]] obtain s st where st: "f (thread_stack th) = Inr (s, st)" "stack_ok st" by blast
  then have "on_stack f th = Inr (th\<lparr>thread_stack := st\<rparr>)" by (simp add: on_stack_def)
  moreover have "numbered L rend (th\<lparr>thread_stack := st\<rparr>)" using num st(2) by (simp add: numbered_def)
  ultimately show "\<exists>th' n. on_stack f th = Inr th' \<and> numbered (L @ replicate n None) rend th' \<and> virtual_thread th' = virtual_thread th"
    by (intro exI [of _ "th\<lparr>thread_stack := st\<rparr>"] exI [of _ 0]) simp
qed

lemma quiet_push: "ample alloc \<Longrightarrow> quiet (on_stack (Push_State alloc s))"
  using Push_State_returns Push_State_result by (intro quiet_stack) metis

lemma quiet_switch: "ample alloc \<Longrightarrow> quiet (on_stack (Switch_State alloc s c))"
  using Push_State_returns Push_State_result Pop_State_result
  by (intro quiet_stack) (cases c; simp add: Switch_State_def; metis)

lemma quiet_event:
  assumes "known_task opts ob"
  shows "quiet (trace_paraver_event opts ob t type v)"
proof -
  from assms obtain b where b: "task_enabled opts (id_ptask ob) (id_task ob) = Inr b" by (auto simp: known_task_def)
  show ?thesis
  proof (cases b)
    case True
    have "quiet (\<lambda>th. andthen (write_rec (wfb th) ((stack_junk opts)\<lparr>rec_type := EVENT, rec_cpu := id_cpu ob,
        rec_ptask := id_ptask ob, rec_task := id_task ob, rec_thread := virtual_thread th, rec_time := t,
        rec_event := word_of_int tipus, rec_value := valor\<rparr>)) (\<lambda>w. Inr (th\<lparr>wfb := w\<rparr>)))" for tipus valor
      by (rule quiet_write) (simp add: is_comm_def record_types)
    moreover obtain tipus valor where
      "(if type \<ge> MPI_MIN_EV \<and> type \<le> MPI_MAX_EV then Translate_MPI_MPIT2PRV (sint type) v else (sint type, v)) = (tipus, valor)"
      by fastforce
    then have "trace_paraver_event opts ob t type v = (\<lambda>th. andthen (write_rec (wfb th) ((stack_junk opts)\<lparr>rec_type := EVENT,
        rec_cpu := id_cpu ob, rec_ptask := id_ptask ob, rec_task := id_task ob, rec_thread := virtual_thread th, rec_time := t,
        rec_event := word_of_int tipus, rec_value := valor\<rparr>)) (\<lambda>w. Inr (th\<lparr>wfb := w\<rparr>)))"
      using b True by (intro ext) (simp only: trace_paraver_event_def andthen_simps Let_def, simp)
    ultimately show ?thesis by simp
  next
    case False
    then have "trace_paraver_event opts ob t type v = Inr" using b by (intro ext) (simp add: trace_paraver_event_def)
    then show ?thesis using quiet_none by simp
  qed
qed

lemma quiet_global_op:
  assumes "known_task opts ob"
  shows "quiet (trace_enter_global_op opts ob t c s v root)"
proof -
  have "quiet (\<lambda>th. if root \<noteq> 0 then trace_paraver_event opts ob t MPI_GLOBAL_OP_ROOT (ucast root) th else Inr th)"
    using quiet_event [OF assms] quiet_none by (cases "root \<noteq> 0") simp_all
  then have "quiet (\<lambda>th. andthen (trace_paraver_event opts ob t MPI_GLOBAL_OP_SENDSIZE (ucast s) th) (\<lambda>th.
     andthen (trace_paraver_event opts ob t MPI_GLOBAL_OP_RECVSIZE (ucast v) th) (\<lambda>th.
     andthen (trace_paraver_event opts ob t MPI_GLOBAL_OP_COMM (ucast c) th) (\<lambda>th.
       if root \<noteq> 0 then trace_paraver_event opts ob t MPI_GLOBAL_OP_ROOT (ucast root) th else Inr th))))"
    by (intro quiet_then quiet_event [OF assms])
  moreover have "trace_enter_global_op opts ob t c s v root = (\<lambda>th. andthen (trace_paraver_event opts ob t MPI_GLOBAL_OP_SENDSIZE (ucast s) th) (\<lambda>th.
     andthen (trace_paraver_event opts ob t MPI_GLOBAL_OP_RECVSIZE (ucast v) th) (\<lambda>th.
     andthen (trace_paraver_event opts ob t MPI_GLOBAL_OP_COMM (ucast c) th) (\<lambda>th.
       if root \<noteq> 0 then trace_paraver_event opts ob t MPI_GLOBAL_OP_ROOT (ucast root) th else Inr th))))"
    by (intro ext) (simp add: trace_enter_global_op_def)
  ultimately show ?thesis by simp
qed

text \<open>The completion of a state, and the start of one.\<close>

lemma complete_numbered:
  assumes "numbered L rend th"
  shows "\<exists>return th'. complete_state opts s t th = Inr (return, th') \<and> numbered L rend th' \<and>
    virtual_thread th' = virtual_thread th \<and> thread_stack th' = thread_stack th"
proof (cases "incomplete_state_offset th \<noteq> - 1 \<and>
    \<not> (JointStates opts \<and> \<not> Last_State opts \<and> rec_value (incomplete_state_record th) = ucast s) \<and>
    \<not> State_Excluded (excluded_states opts) (ucast (rec_value (incomplete_state_record th)))")
  case True
  let ?r = "(incomplete_state_record th)\<lparr>end_time := t\<rparr>"
  from True assms obtain k where k: "k < length L" "incomplete_state_offset th = int (sizeof_paraver_rec_t * k)" "L ! k = None"
    "rec_type (incomplete_state_record th) = STATE" by (auto simp: numbered_def)
  then have "fits rend (L ! k) ?r" by (simp add: is_comm_def record_types)
  from numbered_write_at [OF assms k(1) this] obtain f where
    f: "write_rec_at (wfb th) ?r (int (sizeof_paraver_rec_t * k)) = Inr f" "numbered L rend (th\<lparr>wfb := f\<rparr>)" by blast
  have "complete_state opts s t th = Inr (False, th\<lparr>incomplete_state_record := ?r, wfb := f\<rparr>)"
    using True k(2) f(1) by (auto simp: complete_state_def Let_def)
  moreover have "numbered L rend (th\<lparr>incomplete_state_record := ?r, wfb := f\<rparr>)"
    using f(2) by (simp add: numbered_def)
  ultimately show ?thesis by auto
next
  case False
  with assms show ?thesis by (auto simp: complete_state_def)
qed

lemma start_numbered:
  assumes "numbered L rend th"
  shows "\<exists>th' n. (let r = (incomplete_state_record th)\<lparr>rec_type := STATE, rec_cpu := id_cpu ob, rec_ptask := id_ptask ob,
               rec_task := id_task ob, rec_thread := virtual_thread th, rec_time := t,
               rec_value := ucast s\<rparr>;
             th = th\<lparr>incomplete_state_record := r\<rparr> in
         if \<not> State_Excluded (excluded_states opts) s then
           let fake_record = (stack_junk opts)\<lparr>rec_type := UNFINISHED_STATE, rec_ptask := id_ptask ob,
                 rec_task := id_task ob, rec_thread := id_thread ob, rec_time := t\<rparr>;
               th = th\<lparr>incomplete_state_offset := WriteFileBuffer_getPosition (wfb th)\<rparr> in
           andthen (write_rec (wfb th) fake_record) (\<lambda>w. Inr (th\<lparr>wfb := w\<rparr>))
         else Inr th) = Inr th' \<and> numbered (L @ replicate n None) rend th' \<and> virtual_thread th' = virtual_thread th"
proof -
  let ?r = "(incomplete_state_record th)\<lparr>rec_type := STATE, rec_cpu := id_cpu ob, rec_ptask := id_ptask ob,
               rec_task := id_task ob, rec_thread := virtual_thread th, rec_time := t, rec_value := ucast s\<rparr>"
  let ?fake = "(stack_junk opts)\<lparr>rec_type := UNFINISHED_STATE, rec_ptask := id_ptask ob,
                 rec_task := id_task ob, rec_thread := id_thread ob, rec_time := t\<rparr>"
  show ?thesis
  proof (cases "State_Excluded (excluded_states opts) s")
    case True
    moreover have "numbered L rend (th\<lparr>incomplete_state_record := ?r\<rparr>)" using assms by (auto simp: numbered_def)
    ultimately show ?thesis
      by (intro exI [of _ "th\<lparr>incomplete_state_record := ?r\<rparr>"] exI [of _ 0]) (simp add: Let_def)
  next
    case False
    have "fits rend None ?fake" by (simp add: is_comm_def record_types)
    from numbered_write [OF assms this] obtain f where
      f: "write_rec (wfb th) ?fake = Inr f" "numbered (L @ [None]) rend (th\<lparr>wfb := f\<rparr>)" .
    have "WriteFileBuffer_getPosition (wfb th) = int (sizeof_paraver_rec_t * length L)"
      using assms recs.position_end [of "wfb th"] by (auto simp: numbered_def dest!: list_all2_lengthD)
    then have "numbered (L @ [None]) rend
        (th\<lparr>incomplete_state_record := ?r, incomplete_state_offset := WriteFileBuffer_getPosition (wfb th), wfb := f\<rparr>)"
      using f(2) by (auto simp: numbered_def intro!: exI [of _ "length L"])
    with False f(1) show ?thesis
      by (intro exI [of _ "th\<lparr>incomplete_state_record := ?r, incomplete_state_offset := WriteFileBuffer_getPosition (wfb th), wfb := f\<rparr>"]
          exI [of _ 1]) (simp add: Let_def)
  qed
qed

lemma quiet_state: "quiet (trace_paraver_state opts ob t)"
  unfolding quiet_def
proof (intro allI impI)
  fix L rend th assume num: "numbered L rend th"
  let ?s = "top_of (states (thread_stack th))"
  from complete_numbered [OF num, of opts ?s t] obtain return th1 where
    1: "complete_state opts ?s t th = Inr (return, th1)" "numbered L rend th1" "virtual_thread th1 = virtual_thread th" by blast
  show "\<exists>th' n. trace_paraver_state opts ob t th = Inr th' \<and> numbered (L @ replicate n None) rend th' \<and>
      virtual_thread th' = virtual_thread th"
  proof (cases return)
    case True
    with 1 show ?thesis
      by (intro exI [of _ th1] exI [of _ 0]) (simp add: trace_paraver_state_def Top_State_top [OF numbered_stack [OF num]])
  next
    case False
    from start_numbered [OF 1(2), where ob = ob and t = t and s = ?s and opts = opts] False 1(1,3) show ?thesis
      by (simp add: trace_paraver_state_def Top_State_top [OF numbered_stack [OF num]])
  qed
qed

end
