(* ===== verification/MpiMatching.thy ===== *)
theory MpiMatching
  imports MpiThreads
begin

text \<open>
  The handlers of \<open>MpiSemantics\<close> match messages as the machine of \<open>MatchSpec\<close> does: a merge of one application is
  followed event by event, with the queues, the labels of the records and the pointers to the last
  events as the abstract state says. Tasks and threads are counted from 0 here.
\<close>

section \<open>The table of one application\<close>

definition obj :: "INT32 \<Rightarrow> nat \<Rightarrow> nat \<Rightarrow> object_id" where
  "obj cpu t th = \<lparr>id_cpu = cpu, id_ptask = 1, id_task = of_nat (Suc t), id_thread = of_nat (Suc th)\<rparr>"

lemma obj_simps [simp]:
  "id_cpu (obj cpu t th) = cpu" "id_ptask (obj cpu t th) = 1" "id_task (obj cpu t th) = of_nat (Suc t)"
  "id_thread (obj cpu t th) = of_nat (Suc th)"
  by (simp_all add: obj_def)

lemma uint_index: "n < 2 ^ 31 \<Longrightarrow> uint ((of_nat (Suc n) :: INT32) - 1) = int n"
  by (simp add: uint_nat unat_of_nat)

lemma task_at_index: "ptasks r = [tasks] \<Longrightarrow> t < length tasks \<Longrightarrow> t < 2 ^ 31 \<Longrightarrow> task_at 1 (of_nat (Suc t)) r = Inr (tasks ! t)"
  unfolding task_at_def uint_index by (simp add: array_get_def in_range_def)

lemma put_task_index: "ptasks r = [tasks] \<Longrightarrow> t < length tasks \<Longrightarrow> t < 2 ^ 31 \<Longrightarrow>
    put_task 1 (of_nat (Suc t)) tk r = Inr (r\<lparr>ptasks := [tasks[t := tk]]\<rparr>)"
  unfolding put_task_def uint_index by (simp add: array_get_def array_set_def in_range_def)

lemma thread_at_index: "ptasks r = [tasks] \<Longrightarrow> t < length tasks \<Longrightarrow> t < 2 ^ 31 \<Longrightarrow>
    th < length (task_threads (tasks ! t)) \<Longrightarrow> th < 2 ^ 31 \<Longrightarrow>
    thread_at 1 (of_nat (Suc t)) (of_nat (Suc th)) r = Inr (task_threads (tasks ! t) ! th)"
  by (simp only: thread_at_def task_at_index andthen_simps uint_index array_get_in)

lemma change_task_index: "ptasks r = [tasks] \<Longrightarrow> t < length tasks \<Longrightarrow> t < 2 ^ 31 \<Longrightarrow>
    change_task 1 (of_nat (Suc t)) f r = andthen (f (tasks ! t)) (\<lambda>tk. Inr (r\<lparr>ptasks := [tasks[t := tk]]\<rparr>))"
  by (simp only: change_task_def task_at_index put_task_index andthen_simps)

definition put_thread :: "nat \<Rightarrow> thread_info \<Rightarrow> task_info \<Rightarrow> task_info" where
  "put_thread th x tk = tk\<lparr>task_threads := (task_threads tk)[th := x]\<rparr>"

lemma change_thread_index: "ptasks r = [tasks] \<Longrightarrow> t < length tasks \<Longrightarrow> t < 2 ^ 31 \<Longrightarrow>
    th < length (task_threads (tasks ! t)) \<Longrightarrow> th < 2 ^ 31 \<Longrightarrow>
    change_thread 1 (of_nat (Suc t)) (of_nat (Suc th)) f r =
      andthen (f (task_threads (tasks ! t) ! th)) (\<lambda>x. Inr (r\<lparr>ptasks := [tasks[t := put_thread th x (tasks ! t)]]\<rparr>))"
  by (simp only: change_thread_def change_task_index andthen_simps uint_index array_get_in array_set_in put_thread_def andthen_assoc)

lemma on_thread_index: "ptasks r = [tasks] \<Longrightarrow> t < length tasks \<Longrightarrow> t < 2 ^ 31 \<Longrightarrow>
    th < length (task_threads (tasks ! t)) \<Longrightarrow> th < 2 ^ 31 \<Longrightarrow>
    on_thread (obj cpu t th) f r =
      andthen (f (paraver_thread (task_threads (tasks ! t) ! th)))
        (\<lambda>p. Inr (r\<lparr>ptasks := [tasks[t := put_thread th ((task_threads (tasks ! t) ! th)\<lparr>paraver_thread := p\<rparr>) (tasks ! t)]]\<rparr>))"
  by (simp only: on_thread_def obj_simps change_thread_index andthen_assoc andthen_simps)

section \<open>Messages\<close>

text \<open>A send or a receive: where it is made, its begin, the event of its end, and the time that is handled at.\<close>

record message =
  m_task :: nat
  m_thread :: nat
  m_begin :: event_ptr
  m_event :: event_t
  m_now :: UINT64

type_synonym channel = "INT32 \<times> INT32 \<times> INT32"

definition send_channel :: "message \<Rightarrow> channel" where
  "send_channel m = (of_nat (m_task m), Get_EvTarget (m_event m), Get_EvTag (m_event m))"

definition recv_channel :: "message \<Rightarrow> channel" where
  "recv_channel m = (Get_EvTarget (m_event m), of_nat (m_task m), Get_EvTag (m_event m))"

text \<open>What does not change: the sizes, the cpus and the virtual threads, and the room of the queues.\<close>

record shape =
  n_tasks :: nat
  n_threads :: "nat \<Rightarrow> nat"
  cpu_of :: "nat \<Rightarrow> nat \<Rightarrow> INT32"
  vthread_of :: "nat \<Rightarrow> nat \<Rightarrow> INT32"
  queue_room :: int

definition place :: "shape \<Rightarrow> nat \<Rightarrow> nat \<Rightarrow> bool" where
  "place W t th \<longleftrightarrow> t < n_tasks W \<and> th < n_threads W t \<and> t < 2 ^ 31 \<and> th < 2 ^ 31"

definition message_ok :: "merge_env \<Rightarrow> shape \<Rightarrow> message \<Rightarrow> bool" where
  "message_ok env W m \<longleftrightarrow> place W (m_task m) (m_thread m) \<and> m_begin m \<noteq> None \<and>
     unat (Get_EvTarget (m_event m)) < n_tasks W \<and> Get_EvTag (m_event m) \<noteq> env_any_tag env"

definition env_ok :: "merge_env \<Rightarrow> shape \<Rightarrow> bool" where
  "env_ok env W \<longleftrightarrow> ample (env_alloc env) \<and> n_tasks W \<le> 2 ^ 31 \<and> AppToSpawnGroupTable (env_links env) = [] \<and>
     (\<forall>t < n_tasks W. isTaskInMyGroup env 0 (of_nat t) \<and> (\<forall>x. \<exists>y. TIMESYNC env 1 (of_nat (Suc t)) x = Inr y) \<and>
        task_enabled (env_options env) 1 (of_nat (Suc t)) = Inr True)"

definition synced :: "merge_env \<Rightarrow> nat \<Rightarrow> event_ptr \<Rightarrow> UINT64" where
  "synced env t p = (case TIMESYNC env 1 (of_nat (Suc t)) (Get_EvTime p) of Inr x \<Rightarrow> x | Inl _ \<Rightarrow> 0)"

lemma env_time: "env_ok env W \<Longrightarrow> t < n_tasks W \<Longrightarrow> TIMESYNC env 1 (of_nat (Suc t)) (Get_EvTime p) = Inr (synced env t p)"
  by (auto simp: env_ok_def synced_def split: sum.splits) (metis sum.distinct(1))

text \<open>The record of a matched and of an unmatched send.\<close>

definition comm_end_of :: "merge_env \<Rightarrow> shape \<Rightarrow> message \<Rightarrow> comm_end" where
  "comm_end_of env W m =
     \<lparr>comm_object = obj (cpu_of W (m_task m) (m_thread m)) (m_task m) (m_thread m),
      vthread = vthread_of W (m_task m) (m_thread m),
      log_time = synced env (m_task m) (m_begin m), phy_time = synced env (m_task m) (Some (m_event m))\<rparr>"

definition matched_rec :: "merge_env \<Rightarrow> shape \<Rightarrow> message \<Rightarrow> message \<Rightarrow> paraver_rec_t" where
  "matched_rec env W s r =
     (let a = comm_end_of env W s; b = comm_end_of env W r in
      (stack_junk (env_options env))\<lparr>rec_type := COMMUNICATION, rec_cpu := id_cpu (comm_object a), rec_ptask := 1,
        rec_task := id_task (comm_object a), rec_thread := vthread a, rec_time := log_time a, end_time := phy_time a,
        rec_event := Get_EvSize (m_event r), rec_value := ucast (Get_EvTag (m_event r)),
        cpu_r := id_cpu (comm_object b), ptask_r := 1, task_r := id_task (comm_object b), thread_r := vthread b,
        receive_logical := log_time b, receive_physical := phy_time b\<rparr>)"

definition unmatched_rec :: "merge_env \<Rightarrow> shape \<Rightarrow> message \<Rightarrow> paraver_rec_t" where
  "unmatched_rec env W s =
     (stack_junk (env_options env))\<lparr>rec_type := UNMATCHED_COMMUNICATION, rec_cpu := 1, rec_ptask := 1,
       rec_task := of_nat (Suc (m_task s)), rec_thread := vthread_of W (m_task s) (m_thread s), rec_time := m_now s,
       end_time := Get_EvTime (Some (m_event s)), rec_event := Get_EvSize (m_event s), rec_value := ucast (Get_EvTag (m_event s)),
       cpu_r := 1, ptask_r := 1, task_r := Get_EvTarget (m_event s) + 1, thread_r := 1\<rparr>"

type_synonym messages = "(message, message) matching"

definition send_rec :: "merge_env \<Rightarrow> shape \<Rightarrow> messages \<Rightarrow> nat \<Rightarrow> paraver_rec_t" where
  "send_rec env W w i =
     (case map_of (pairs w) i of
        Some j \<Rightarrow> matched_rec env W (all_sends w ! i) (all_recvs w ! j)
      | None \<Rightarrow> unmatched_rec env W (all_sends w ! i))"

lemma is_comm_send_rec: "is_comm (send_rec env W w i)"
  by (auto simp: send_rec_def matched_rec_def unmatched_rec_def is_comm_def Let_def record_types split: option.split)

text \<open>The entries of the queues.\<close>

definition send_entry :: "shape \<Rightarrow> nat \<Rightarrow> message \<Rightarrow> SendData_t" where
  "send_entry W p m =
     \<lparr>send_begin = m_begin m, send_end = Some (m_event m), send_position = int (sizeof_paraver_rec_t * p), send_key = 0,
      send_partner = Get_EvTarget (m_event m), send_thread = of_nat (Suc (m_thread m)),
      send_vthread = vthread_of W (m_task m) (m_thread m), send_tag = Get_EvTag (m_event m)\<rparr>"

definition recv_entry :: "shape \<Rightarrow> message \<Rightarrow> RecvData_t" where
  "recv_entry W m =
     \<lparr>recv_begin = m_begin m, recv_end = Some (m_event m), recv_key = 0, recv_partner = Get_EvTarget (m_event m),
      recv_thread = of_nat (Suc (m_thread m)), recv_vthread = vthread_of W (m_task m) (m_thread m),
      recv_tag = Get_EvTag (m_event m)\<rparr>"

section \<open>The simulation\<close>

record followed_run =
  seen :: messages
  last_send :: "nat \<Rightarrow> nat \<Rightarrow> event_ptr"
  last_recv :: "nat \<Rightarrow> nat \<Rightarrow> event_ptr"

type_synonym labelling = "nat \<Rightarrow> nat \<Rightarrow> nat option list"

definition sends_of :: "messages \<Rightarrow> nat \<Rightarrow> nat \<Rightarrow> nat list" where
  "sends_of w t th = filter (\<lambda>i. m_task (all_sends w ! i) = t \<and> m_thread (all_sends w ! i) = th) [0..<length (all_sends w)]"

definition thread_sim ::
  "merge_env \<Rightarrow> shape \<Rightarrow> followed_run \<Rightarrow> nat \<Rightarrow> nat \<Rightarrow> nat option list \<Rightarrow> thread_info \<Rightarrow> bool" where
  "thread_sim env W a t th L x \<longleftrightarrow> numbered L (send_rec env W (seen a)) (paraver_thread x) \<and>
     sends_in L = sends_of (seen a) t th \<and> running_cpu x = cpu_of W t th \<and>
     virtual_thread (paraver_thread x) = vthread_of W t th \<and> Send_Rec x = last_send a t th \<and> Recv_Rec x = last_recv a t th"

definition queued_send :: "shape \<Rightarrow> messages \<Rightarrow> (nat \<Rightarrow> nat option list) \<Rightarrow> SendData_t \<Rightarrow> nat \<Rightarrow> bool" where
  "queued_send W w L d i \<longleftrightarrow> (\<exists>p < length (L (m_thread (all_sends w ! i))).
     d = send_entry W p (all_sends w ! i) \<and> L (m_thread (all_sends w ! i)) ! p = Some i)"

definition queues_sim :: "shape \<Rightarrow> messages \<Rightarrow> nat \<Rightarrow> (nat \<Rightarrow> nat option list) \<Rightarrow> task_info \<Rightarrow> bool" where
  "queues_sim W w t L tk \<longleftrightarrow> MatchingComms tk \<and> roomy (queue_room W) (send_queue tk) \<and> roomy (queue_room W) (recv_queue tk) \<and>
     list_all2 (queued_send W w L) (queue_elems (send_queue tk)) (filter (\<lambda>i. m_task (all_sends w ! i) = t) (waiting_sends w)) \<and>
     queue_elems (recv_queue tk) =
       map (\<lambda>j. recv_entry W (all_recvs w ! j)) (filter (\<lambda>j. m_task (all_recvs w ! j) = t) (waiting_recvs w))"

definition task_sim :: "merge_env \<Rightarrow> shape \<Rightarrow> followed_run \<Rightarrow> nat \<Rightarrow> (nat \<Rightarrow> nat option list) \<Rightarrow> task_info \<Rightarrow> bool" where
  "task_sim env W a t L tk \<longleftrightarrow> queues_sim W (seen a) t L tk \<and> length (task_threads tk) = n_threads W t \<and>
     (\<forall>th < n_threads W t. thread_sim env W a t th (L th) (task_threads tk ! th))"

definition seen_ok :: "merge_env \<Rightarrow> shape \<Rightarrow> messages \<Rightarrow> bool" where
  "seen_ok env W w \<longleftrightarrow> matching_inv send_channel recv_channel w \<and>
     (\<forall>m \<in> set (all_sends w) \<union> set (all_recvs w). message_ok env W m)"

definition sim :: "merge_env \<Rightarrow> shape \<Rightarrow> followed_run \<Rightarrow> labelling \<Rightarrow> merge_run \<Rightarrow> bool" where
  "sim env W a Lab r \<longleftrightarrow> seen_ok env W (seen a) \<and> length (MPI_SoftCounters_used r) = 7 \<and>
     (\<exists>tasks. ptasks r = [tasks] \<and> length tasks = n_tasks W \<and> (\<forall>t < n_tasks W. task_sim env W a t (Lab t) (tasks ! t)))"

end
