(* ===== verification/MpiSim.thy ===== *)
theory MpiSim
  imports MpiMatching
begin

text \<open>
  The steps of the simulation of \<open>MpiMatching\<close>: what a handler's calls do to the state related to an abstract one.
\<close>

lemma simE:
  assumes "sim env W a Lab r"
  obtains tasks where "ptasks r = [tasks]" and "length tasks = n_tasks W"
    and "\<And>t. t < n_tasks W \<Longrightarrow> task_sim env W a t (Lab t) (tasks ! t)"
    and "seen_ok env W (seen a)" and "length (MPI_SoftCounters_used r) = 7"
  using assms by (auto simp: sim_def)

lemma placeD:
  assumes "place W t th" and "length tasks = n_tasks W" and "task_sim env W a t L (tasks ! t)"
  shows "t < length tasks" and "t < 2 ^ 31" and "th < length (task_threads (tasks ! t))" and "th < 2 ^ 31"
  using assms by (auto simp: place_def task_sim_def)

lemma list_all2_more: "list_all2 P xs ys \<Longrightarrow> (\<And>x y. x \<in> set xs \<Longrightarrow> y \<in> set ys \<Longrightarrow> P x y \<Longrightarrow> Q x y) \<Longrightarrow> list_all2 Q xs ys"
  by (induction xs ys rule: list_all2_induct) auto

text \<open>A change of one thread that adds records of no send.\<close>

definition extended :: "labelling \<Rightarrow> nat \<Rightarrow> nat \<Rightarrow> nat option list \<Rightarrow> labelling" where
  "extended Lab t th ls = Lab(t := (Lab t)(th := Lab t th @ ls))"

lemma extended_simps [simp]:
  "extended Lab t th ls t th = Lab t th @ ls"
  "t' \<noteq> t \<Longrightarrow> extended Lab t th ls t' = Lab t'"
  "th' \<noteq> th \<Longrightarrow> extended Lab t th ls t' th' = Lab t' th'"
  by (simp_all add: extended_def)

lemma queued_send_extended: "queued_send W w (Lab t) d i \<Longrightarrow> queued_send W w (extended Lab t' th ls t) d i"
  by (cases "t' = t"; cases "m_thread (all_sends w ! i) = th")
    (auto simp: queued_send_def nth_append intro: trans_less_add1)

lemma queues_extended: "queues_sim W w t (Lab t) tk \<Longrightarrow> queues_sim W w t (extended Lab t' th ls t) tk"
  unfolding queues_sim_def by (blast intro: list_all2_more queued_send_extended)

lemma queues_put_thread [simp]: "queues_sim W w t L (put_thread th x tk) = queues_sim W w t L tk"
  by (simp add: queues_sim_def put_thread_def)

lemma task_put_thread:
  assumes "task_sim env W a t L tk" and "th < n_threads W t"
    and "queues_sim W (seen a') t L' tk" and "thread_sim env W a' t th (L' th) x"
    and "\<And>th'. th' \<noteq> th \<Longrightarrow> th' < n_threads W t \<Longrightarrow> thread_sim env W a t th' (L th') (task_threads tk ! th') \<Longrightarrow>
      thread_sim env W a' t th' (L' th') (task_threads tk ! th')"
  shows "task_sim env W a' t L' (put_thread th x tk)"
  using assms by (auto simp: task_sim_def put_thread_def queues_sim_def nth_list_update)

lemma sim_put_thread:
  assumes "sim env W a Lab r" and "place W t th" and "ptasks r = [tasks]"
    and "thread_sim env W a' t th (Lab t th @ replicate n None) x"
    and "seen a' = seen a"
    and "\<And>t' th'. (t', th') \<noteq> (t, th) \<Longrightarrow> last_send a' t' th' = last_send a t' th' \<and> last_recv a' t' th' = last_recv a t' th'"
  shows "sim env W a' (extended Lab t th (replicate n None)) (r\<lparr>ptasks := [tasks[t := put_thread th x (tasks ! t)]]\<rparr>)"
proof -
  from assms(1,3) have len: "length tasks = n_tasks W" and all: "\<And>t. t < n_tasks W \<Longrightarrow> task_sim env W a t (Lab t) (tasks ! t)"
    and rest: "seen_ok env W (seen a)" "length (MPI_SoftCounters_used r) = 7" by (auto elim: simE)
  have other: "thread_sim env W a' t' th' L y" if "thread_sim env W a t' th' L y" "(t', th') \<noteq> (t, th)" for t' th' L y
    using that assms(5) assms(6) [OF that(2)] by (simp add: thread_sim_def)
  have "task_sim env W a' t' (extended Lab t th (replicate n None) t') (tasks[t := put_thread th x (tasks ! t)] ! t')"
    if t': "t' < n_tasks W" for t'
  proof (cases "t' = t")
    case True
    have "task_sim env W a' t (extended Lab t th (replicate n None) t) (put_thread th x (tasks ! t))"
    proof (rule task_put_thread)
      show "task_sim env W a t (Lab t) (tasks ! t)" using all t' True by simp
      then show "queues_sim W (seen a') t (extended Lab t th (replicate n None) t) (tasks ! t)"
        using assms(5) by (simp add: task_sim_def queues_extended)
    qed (use assms(2,4) other in \<open>auto simp: place_def\<close>)
    with True t' len show ?thesis by simp
  next
    case False
    then have "thread_sim env W a' t' th' L y" if "thread_sim env W a t' th' L y" for th' L y using other [OF that] by simp
    with False t' len all [OF t'] assms(5) show ?thesis by (auto simp: task_sim_def)
  qed
  with len rest assms(5) show ?thesis by (simp add: sim_def)
qed

lemma sim_on_thread:
  assumes "sim env W a Lab r" and "place W t th" and "quiet f"
  shows "\<exists>r' Lab'. on_thread (obj cpu t th) f r = Inr r' \<and> sim env W a Lab' r'"
proof -
  from assms(1) obtain tasks where tasks: "ptasks r = [tasks]" "length tasks = n_tasks W"
    "\<And>t. t < n_tasks W \<Longrightarrow> task_sim env W a t (Lab t) (tasks ! t)" by (auto elim: simE)
  have here: "task_sim env W a t (Lab t) (tasks ! t)" using tasks(3) assms(2) by (simp add: place_def)
  note p = placeD [OF assms(2) tasks(2) here]
  let ?x = "task_threads (tasks ! t) ! th"
  have x: "thread_sim env W a t th (Lab t th) ?x" using here assms(2) by (simp add: task_sim_def place_def)
  then have "numbered (Lab t th) (send_rec env W (seen a)) (paraver_thread ?x)" by (simp add: thread_sim_def)
  from quietE [OF assms(3) this] obtain y n where y: "f (paraver_thread ?x) = Inr y"
    "numbered (Lab t th @ replicate n None) (send_rec env W (seen a)) y" "virtual_thread y = virtual_thread (paraver_thread ?x)" .
  have "thread_sim env W a t th (Lab t th @ replicate n None) (?x\<lparr>paraver_thread := y\<rparr>)"
    using x y(2,3) by (simp add: thread_sim_def)
  from sim_put_thread [OF assms(1,2) tasks(1) this refl] on_thread_index [OF tasks(1) p, of cpu f] y(1)
  show ?thesis by auto
qed

lemma sim_switch:
  "sim env W a Lab r \<Longrightarrow> place W t th \<Longrightarrow> env_ok env W \<Longrightarrow>
   \<exists>r' Lab'. switch_to env (obj cpu t th) s c r = Inr r' \<and> sim env W a Lab' r'"
  unfolding switch_to_def by (rule sim_on_thread) (simp_all add: quiet_switch env_ok_def)

lemma sim_push:
  "sim env W a Lab r \<Longrightarrow> place W t th \<Longrightarrow> env_ok env W \<Longrightarrow>
   \<exists>r' Lab'. on_thread (obj cpu t th) (on_stack (Push_State (env_alloc env) s)) r = Inr r' \<and> sim env W a Lab' r'"
  by (rule sim_on_thread) (simp_all add: quiet_push env_ok_def)

lemma sim_mark:
  "sim env W a Lab r \<Longrightarrow> place W t th \<Longrightarrow>
   \<exists>r' Lab'. mark_time env (obj cpu t th) now r = Inr r' \<and> sim env W a Lab' r'"
  unfolding mark_time_def by (rule sim_on_thread) (simp_all add: quiet_state)

lemma known_obj: "env_ok env W \<Longrightarrow> place W t th \<Longrightarrow> known_task (env_options env) (obj cpu t th)"
  by (auto simp: env_ok_def place_def known_task_def)

lemma sim_event:
  "sim env W a Lab r \<Longrightarrow> place W t th \<Longrightarrow> env_ok env W \<Longrightarrow>
   \<exists>r' Lab'. show_event env (obj cpu t th) now type v r = Inr r' \<and> sim env W a Lab' r'"
  unfolding show_event_def by (rule sim_on_thread) (simp_all add: quiet_event known_obj)

lemma sim_global_op:
  "sim env W a Lab r \<Longrightarrow> place W t th \<Longrightarrow> env_ok env W \<Longrightarrow>
   \<exists>r' Lab'. on_thread (obj cpu t th) (trace_enter_global_op (env_options env) (obj cpu t th) now c s v root) r = Inr r' \<and>
     sim env W a Lab' r'"
  by (rule sim_on_thread) (simp_all add: quiet_global_op known_obj)

lemma sim_counter:
  assumes "sim env W a Lab r"
  shows "\<exists>r'. enable_counter e r = Inr r' \<and> sim env W a Lab r'"
proof -
  have "length (MPI_SoftCounters_used r) = 7" using assms by (simp add: sim_def)
  then have "\<exists>used. Enable_MPI_Soft_Counter e (MPI_SoftCounters_used r) = Inr used \<and> length used = 7"
    by (simp add: Enable_MPI_Soft_Counter_def array_set_def in_range_def)
  with assms show ?thesis by (auto simp: enable_counter_def sim_def)
qed

definition with_send :: "nat \<Rightarrow> nat \<Rightarrow> event_t \<Rightarrow> followed_run \<Rightarrow> followed_run" where
  "with_send t th e a = a\<lparr>last_send := (last_send a)(t := (last_send a t)(th := Some e))\<rparr>"

definition with_recv :: "nat \<Rightarrow> nat \<Rightarrow> event_t \<Rightarrow> followed_run \<Rightarrow> followed_run" where
  "with_recv t th e a = a\<lparr>last_recv := (last_recv a)(t := (last_recv a t)(th := Some e))\<rparr>"

lemma seen_with [simp]: "seen (with_send t th e a) = seen a" "seen (with_recv t th e a) = seen a"
  by (simp_all add: with_send_def with_recv_def)

lemma others_with_send: "(t', th') \<noteq> (t, th) \<Longrightarrow>
    last_send (with_send t th e a) t' th' = last_send a t' th' \<and> last_recv (with_send t th e a) t' th' = last_recv a t' th'"
  by (auto simp: with_send_def)

lemma others_with_recv: "(t', th') \<noteq> (t, th) \<Longrightarrow>
    last_send (with_recv t th e a) t' th' = last_send a t' th' \<and> last_recv (with_recv t th e a) t' th' = last_recv a t' th'"
  by (auto simp: with_recv_def)

lemma sim_set:
  assumes "sim env W a Lab r" and "place W t th"
  shows "\<exists>r' Lab'. set_Send_Rec (obj cpu t th) e r = Inr r' \<and> sim env W (with_send t th e a) Lab' r'"
    and "\<exists>r' Lab'. set_Recv_Rec (obj cpu t th) e r = Inr r' \<and> sim env W (with_recv t th e a) Lab' r'"
proof -
  from assms(1) obtain tasks where tasks: "ptasks r = [tasks]" "length tasks = n_tasks W"
    "\<And>t. t < n_tasks W \<Longrightarrow> task_sim env W a t (Lab t) (tasks ! t)" by (auto elim: simE)
  have here: "task_sim env W a t (Lab t) (tasks ! t)" using tasks(3) assms(2) by (simp add: place_def)
  note p = placeD [OF assms(2) tasks(2) here]
  let ?x = "task_threads (tasks ! t) ! th"
  have x: "thread_sim env W a t th (Lab t th @ replicate 0 None) ?x" using here assms(2) by (simp add: task_sim_def place_def)
  have "thread_sim env W (with_send t th e a) t th (Lab t th @ replicate 0 None) (?x\<lparr>Send_Rec := Some e\<rparr>)"
    using x by (simp add: thread_sim_def with_send_def)
  from sim_put_thread [OF assms(1,2) tasks(1) this seen_with(1) others_with_send]
  show "\<exists>r' Lab'. set_Send_Rec (obj cpu t th) e r = Inr r' \<and> sim env W (with_send t th e a) Lab' r'"
    using change_thread_index [OF tasks(1) p] by (auto simp: set_Send_Rec_def)
  have "thread_sim env W (with_recv t th e a) t th (Lab t th @ replicate 0 None) (?x\<lparr>Recv_Rec := Some e\<rparr>)"
    using x by (simp add: thread_sim_def with_recv_def)
  from sim_put_thread [OF assms(1,2) tasks(1) this seen_with(2) others_with_recv]
  show "\<exists>r' Lab'. set_Recv_Rec (obj cpu t th) e r = Inr r' \<and> sim env W (with_recv t th e a) Lab' r'"
    using change_thread_index [OF tasks(1) p] by (auto simp: set_Recv_Rec_def)
qed

end
