(* ===== verification/MpiPairing.thy ===== *)
theory MpiPairing
  imports MpiSim
begin

text \<open>
  The two ends of a message in the simulation of \<open>MpiMatching\<close>: a send and a receive that the handlers match are
  the next step of the machine of \<open>MatchSpec\<close>.
\<close>

section \<open>Addresses\<close>

lemma no_links: "env_ok env W \<Longrightarrow> target_ptask env (obj cpu t th) comm = Inr 1"
  by (simp add: target_ptask_def env_ok_def intercommunicators_get_target_ptask_def get_spawn_group_def)

lemma task_word: "t < 2 ^ 31 \<Longrightarrow> unat (of_nat t :: INT32) = t"
  by (simp add: unat_of_nat)

lemma task_words: "a < 2 ^ 31 \<Longrightarrow> b < 2 ^ 31 \<Longrightarrow> (of_nat a :: INT32) = of_nat b \<longleftrightarrow> a = b"
  using task_word by metis

text \<open>The task that a message is for, or from.\<close>

definition peer :: "message \<Rightarrow> nat" where
  "peer m = unat (Get_EvTarget (m_event m))"

lemma peer_words:
  "Get_EvTarget (m_event m) = of_nat (peer m)"
  "Get_EvTarget (m_event m) + 1 = of_nat (Suc (peer m))"
  "1 + Get_EvTarget (m_event m) = of_nat (Suc (peer m))"
  by (simp_all add: peer_def)

lemma message_okD:
  assumes "message_ok env W m"
  shows "place W (m_task m) (m_thread m)" "m_begin m \<noteq> None" "peer m < n_tasks W" "Get_EvTag (m_event m) \<noteq> env_any_tag env"
  using assms by (simp_all add: message_ok_def peer_def)

lemma same_channel:
  assumes "env_ok env W" and "message_ok env W s" and "message_ok env W r"
  shows "send_channel s = recv_channel r \<longleftrightarrow>
    m_task r = peer s \<and> m_task s = peer r \<and> Get_EvTag (m_event s) = Get_EvTag (m_event r)"
proof -
  have "n_tasks W \<le> 2 ^ 31" using assms(1) by (simp add: env_ok_def)
  then have "m_task s < 2 ^ 31" "m_task r < 2 ^ 31" "peer s < 2 ^ 31" "peer r < 2 ^ 31"
    using assms(2,3) message_okD [OF assms(2)] message_okD [OF assms(3)] by (auto simp: place_def)
  then show ?thesis unfolding send_channel_def recv_channel_def peer_words by (auto simp: task_words)
qed

section \<open>A record of a communication\<close>

definition table_ok :: "shape \<Rightarrow> task_info list \<Rightarrow> bool" where
  "table_ok W ts \<longleftrightarrow> length ts = n_tasks W \<and> (\<forall>t < n_tasks W. length (task_threads (ts ! t)) = n_threads W t \<and>
     (\<forall>th < n_threads W t. running_cpu (task_threads (ts ! t) ! th) = cpu_of W t th))"

lemma table_okD:
  assumes "table_ok W ts" and "place W t th"
  shows "t < length ts" "t < 2 ^ 31" "th < length (task_threads (ts ! t))" "th < 2 ^ 31"
    "running_cpu (task_threads (ts ! t) ! th) = cpu_of W t th"
  using assms by (auto simp: table_ok_def place_def)

lemma communication_written:
  assumes "table_ok W ts" and "ptasks r = [ts]" and "env_ok env W" and "message_ok env W s" and "message_ok env W q"
  shows "trace_communicationAt env 1 (of_nat (Suc (m_task s))) (of_nat (Suc (m_thread s))) (vthread_of W (m_task s) (m_thread s))
      1 (of_nat (Suc (m_task q))) (of_nat (Suc (m_thread q))) (vthread_of W (m_task q) (m_thread q))
      (m_begin s) (Some (m_event s)) (m_begin q) (Some (m_event q)) at pos r =
    (let x = task_threads (ts ! m_task s) ! m_thread s; p = paraver_thread x in
     andthen (if \<not> at then write_rec (wfb p) (matched_rec env W s q) else write_rec_at (wfb p) (matched_rec env W s q) pos)
       (\<lambda>w. Inr (r\<lparr>ptasks := [ts[m_task s := put_thread (m_thread s) (x\<lparr>paraver_thread := p\<lparr>wfb := w\<rparr>\<rparr>) (ts ! m_task s)]]\<rparr>)))"
proof -
  note s = table_okD [OF assms(1) message_okD(1) [OF assms(4)]] and q = table_okD [OF assms(1) message_okD(1) [OF assms(5)]]
  have n: "m_task s < n_tasks W" "m_task q < n_tasks W" using s(1) q(1) assms(1) by (simp_all add: table_ok_def)
  have cpu_s: "running_cpu (task_threads (ts ! m_task s) ! m_thread s) = cpu_of W (m_task s) (m_thread s)" using s(5) .
  have cpu_q: "running_cpu (task_threads (ts ! m_task q) ! m_thread q) = cpu_of W (m_task q) (m_thread q)" using q(5) .
  have enabled: "task_enabled (env_options env) 1 (of_nat (Suc (m_task s))) = Inr True"
    using assms(3) n(1) by (auto simp: env_ok_def)
  have ob: "\<lparr>id_cpu = c, id_ptask = 1, id_task = of_nat (Suc t), id_thread = of_nat (Suc th)\<rparr> = obj c t th" for c t th
    by (simp add: obj_def)
  show ?thesis
    unfolding trace_communicationAt_def thread_at_index [OF assms(2) q(1-4)] thread_at_index [OF assms(2) s(1-4)]
      env_time [OF assms(3) n(1)] env_time [OF assms(3) n(2)] andthen_simps cpu_s cpu_q ob Let_def
      on_thread_index [OF assms(2) s(1-4)] followed_def option.case trace_paraver_communication_def
    by (cases at) (simp_all add: enabled comm_end_of_def matched_rec_def Let_def andthen_assoc del: of_nat_Suc)
qed

section \<open>The records after a step of the machine\<close>

abbreviation (input) next_send :: "message \<Rightarrow> messages \<Rightarrow> messages" where
  "next_send m \<equiv> match_op send_channel recv_channel (Send m)"

abbreviation (input) next_recv :: "message \<Rightarrow> messages \<Rightarrow> messages" where
  "next_recv m \<equiv> match_op send_channel recv_channel (Recv m)"

lemma pair_bounds: "seen_ok env W w \<Longrightarrow> (i, j) \<in> set (pairs w) \<Longrightarrow> i < length (all_sends w) \<and> j < length (all_recvs w)"
  by (auto simp: seen_ok_def matching_inv_def by_rank_def)

lemma waiting_bounds:
  assumes "seen_ok env W w"
  shows "i \<in> set (waiting_sends w) \<Longrightarrow> i < length (all_sends w)" and "j \<in> set (waiting_recvs w) \<Longrightarrow> j < length (all_recvs w)"
  using assms by (auto simp: seen_ok_def matching_inv_def by_rank_def)

lemma unpaired: "seen_ok env W w \<Longrightarrow> length (all_sends w) \<le> i \<or> i \<in> set (waiting_sends w) \<Longrightarrow> map_of (pairs w) i = None"
  using pair_bounds [of env W w i] waiting_unpaired [of send_channel recv_channel w i]
  by (cases "map_of (pairs w) i") (auto simp: seen_ok_def dest!: map_of_SomeD)

lemma paired_bounds: "seen_ok env W w \<Longrightarrow> map_of (pairs w) i = Some j \<Longrightarrow> i < length (all_sends w) \<and> j < length (all_recvs w)"
  by (auto dest: map_of_SomeD pair_bounds)

lemma seen_ok_step:
  assumes "seen_ok env W w" and "message_ok env W m"
  shows "seen_ok env W (next_send m w)" and "seen_ok env W (next_recv m w)"
  using assms match_op_inv [of send_channel recv_channel w "Send m"] match_op_inv [of send_channel recv_channel w "Recv m"]
  by (auto simp: seen_ok_def split: option.splits)

lemma rec_after_send: "seen_ok env W w \<Longrightarrow> i < length (all_sends w) \<Longrightarrow> send_rec env W (next_send m w) i = send_rec env W w i"
  by (auto simp: send_rec_def nth_append map_add_def split: option.splits)

lemma rec_of_send:
  assumes "seen_ok env W w"
  shows "send_rec env W (next_send m w) (length (all_sends w)) =
    (case first_index (\<lambda>j. recv_channel (all_recvs w ! j) = send_channel m) (waiting_recvs w) of
       Some k \<Rightarrow> matched_rec env W m (all_recvs w ! (waiting_recvs w ! k)) | None \<Rightarrow> unmatched_rec env W m)"
  using unpaired [OF assms, of "length (all_sends w)"]
  by (auto simp: send_rec_def map_add_def split: option.splits)

lemma rec_after_recv:
  assumes "seen_ok env W w" and "i < length (all_sends w)"
    and "\<And>k. first_index (\<lambda>i. send_channel (all_sends w ! i) = recv_channel m) (waiting_sends w) = Some k \<Longrightarrow> i \<noteq> waiting_sends w ! k"
  shows "send_rec env W (next_recv m w) i = send_rec env W w i"
  using assms(2,3) paired_bounds [OF assms(1), of i]
  by (auto simp: send_rec_def nth_append map_add_def split: option.splits)

lemma rec_of_recv:
  assumes "seen_ok env W w"
    and "first_index (\<lambda>i. send_channel (all_sends w ! i) = recv_channel m) (waiting_sends w) = Some k"
  shows "send_rec env W (next_recv m w) (waiting_sends w ! k) = matched_rec env W (all_sends w ! (waiting_sends w ! k)) m"
proof -
  have k: "k < length (waiting_sends w)" using assms(2) by (simp add: first_index_Some)
  then have "waiting_sends w ! k < length (all_sends w)" "map_of (pairs w) (waiting_sends w ! k) = None"
    using waiting_bounds(1) [OF assms(1)] unpaired [OF assms(1)] by simp_all
  with assms(2) show ?thesis by (simp add: send_rec_def map_add_def)
qed

lemma all_after [simp]:
  "all_sends (next_send m w) = all_sends w @ [m]" "all_recvs (next_send m w) = all_recvs w"
  "all_sends (next_recv m w) = all_sends w" "all_recvs (next_recv m w) = all_recvs w @ [m]"
  by (auto split: option.splits)

lemma sends_of_send: "sends_of (next_send m w) t th =
    sends_of w t th @ (if m_task m = t \<and> m_thread m = th then [length (all_sends w)] else [])"
proof -
  have "filter (\<lambda>i. m_task ((all_sends w @ [m]) ! i) = t \<and> m_thread ((all_sends w @ [m]) ! i) = th) [0..<length (all_sends w)] =
      filter (\<lambda>i. m_task (all_sends w ! i) = t \<and> m_thread (all_sends w ! i) = th) [0..<length (all_sends w)]"
    by (rule filter_cong) (auto simp: nth_append)
  then show ?thesis unfolding sends_of_def all_after by (auto simp: nth_append)
qed

lemma sends_of_recv: "sends_of (next_recv m w) t th = sends_of w t th"
  unfolding sends_of_def all_after ..

declare match_op.simps [simp del]

section \<open>Putting the relation together\<close>

lemma simI:
  assumes "seen_ok env W (seen a)" and "length (MPI_SoftCounters_used r) = 7" and "ptasks r = [ts]" and "table_ok W ts"
    and "\<And>t. t < n_tasks W \<Longrightarrow> queues_sim W (seen a) t (Lab t) (ts ! t)"
    and "\<And>t th. t < n_tasks W \<Longrightarrow> th < n_threads W t \<Longrightarrow> thread_sim env W a t th (Lab t th) (task_threads (ts ! t) ! th)"
  shows "sim env W a Lab r"
  using assms by (auto simp: sim_def task_sim_def table_ok_def)

lemma sim_parts:
  assumes "sim env W a Lab r" and "ptasks r = [ts]"
  shows "table_ok W ts" and "t < n_tasks W \<Longrightarrow> queues_sim W (seen a) t (Lab t) (ts ! t)"
    and "t < n_tasks W \<Longrightarrow> th < n_threads W t \<Longrightarrow> thread_sim env W a t th (Lab t th) (task_threads (ts ! t) ! th)"
    and "seen_ok env W (seen a)" and "length (MPI_SoftCounters_used r) = 7"
  using assms by (auto simp: sim_def task_sim_def table_ok_def thread_sim_def)

lemma thread_sim_kept:
  assumes "thread_sim env W a t th L x" and "sends_of w t th = sends_of (seen a) t th"
    and "\<And>i. i \<in> set (sends_of (seen a) t th) \<Longrightarrow> send_rec env W w i = send_rec env W (seen a) i"
  shows "thread_sim env W (a\<lparr>seen := w\<rparr>) t th L x"
proof -
  have num: "numbered L (send_rec env W (seen a)) (paraver_thread x)" "sends_in L = sends_of (seen a) t th"
    using assms(1) by (simp_all add: thread_sim_def)
  have "numbered L (send_rec env W w) (paraver_thread x)"
    by (rule numbered_cong [OF num(1)]) (use assms(3) num(2) in \<open>metis in_sends_in\<close>)
  with assms(1,2) show ?thesis by (simp add: thread_sim_def)
qed

lemma table_ok_queues:
  "table_ok W ts \<Longrightarrow> task_threads tk = task_threads (ts ! t) \<Longrightarrow> table_ok W (ts[t := tk])"
  by (cases "t < length ts") (auto simp: table_ok_def nth_list_update)

lemma table_ok_put_thread:
  "table_ok W ts \<Longrightarrow> place W t th \<Longrightarrow> running_cpu x = cpu_of W t th \<Longrightarrow> table_ok W (ts[t := put_thread th x (ts ! t)])"
  by (auto simp: table_ok_def place_def put_thread_def nth_list_update)

section \<open>The queues after a step\<close>

lemma sends_queue_kept:
  assumes "list_all2 (queued_send W w (Lab t)) xs (filter (\<lambda>i. m_task (all_sends w ! i) = t) is)"
    and "\<And>i. i \<in> set is \<Longrightarrow> i < length (all_sends w)" and "all_sends w' = all_sends w @ ms"
  shows "list_all2 (queued_send W w' (extended Lab t' th ls t)) xs (filter (\<lambda>i. m_task (all_sends w' ! i) = t) is)"
proof -
  have "filter (\<lambda>i. m_task (all_sends w' ! i) = t) is = filter (\<lambda>i. m_task (all_sends w ! i) = t) is"
    using assms(2,3) by (intro filter_cong) (auto simp: nth_append)
  moreover have "queued_send W w' (extended Lab t' th ls t) d i"
    if "queued_send W w (Lab t) d i" "i \<in> set (filter (\<lambda>i. m_task (all_sends w ! i) = t) is)" for d i
  proof -
    have "all_sends w' ! i = all_sends w ! i" using that(2) assms(2,3) by (auto simp: nth_append)
    moreover have "queued_send W w (extended Lab t' th ls t) d i" using that(1) by (rule queued_send_extended [where Lab = Lab and t = t])
    ultimately show ?thesis by (simp add: queued_send_def)
  qed
  ultimately show ?thesis using assms(1) by (auto intro: list_all2_more)
qed

definition recvs_queue :: "shape \<Rightarrow> messages \<Rightarrow> nat \<Rightarrow> nat list \<Rightarrow> RecvData_t list" where
  "recvs_queue W w t is = map (\<lambda>j. recv_entry W (all_recvs w ! j)) (filter (\<lambda>j. m_task (all_recvs w ! j) = t) is)"

lemma recvs_queue_kept:
  assumes "\<And>j. j \<in> set is \<Longrightarrow> j < length (all_recvs w)" and "all_recvs w' = all_recvs w @ ms"
  shows "recvs_queue W w' t is = recvs_queue W w t is"
  using assms unfolding recvs_queue_def by (intro map_cong filter_cong) (auto simp: nth_append)

lemma queues_sim_alt: "queues_sim W w t L tk \<longleftrightarrow>
    MatchingComms tk \<and> roomy (queue_room W) (send_queue tk) \<and> roomy (queue_room W) (recv_queue tk) \<and>
    list_all2 (queued_send W w L) (queue_elems (send_queue tk)) (filter (\<lambda>i. m_task (all_sends w ! i) = t) (waiting_sends w)) \<and>
    queue_elems (recv_queue tk) = recvs_queue W w t (waiting_recvs w)"
  by (simp add: queues_sim_def recvs_queue_def)

section \<open>A send\<close>

definition same_threads :: "task_info list \<Rightarrow> task_info list \<Rightarrow> bool" where
  "same_threads ts ts' \<longleftrightarrow> map task_threads ts' = map task_threads ts"

lemma same_threads_nth: "same_threads ts ts' \<Longrightarrow> t < length ts \<Longrightarrow> task_threads (ts' ! t) = task_threads (ts ! t)"
  unfolding same_threads_def by (metis length_map nth_map)

lemma same_threads_length: "same_threads ts ts' \<Longrightarrow> length ts' = length ts"
  unfolding same_threads_def by (metis length_map)

lemma same_threads_table: "same_threads ts ts' \<Longrightarrow> table_ok W ts \<Longrightarrow> table_ok W ts'"
  by (auto simp: table_ok_def same_threads_nth same_threads_length)

lemma same_threads_update: "task_threads tk = task_threads (ts ! t) \<Longrightarrow> same_threads ts (ts[t := tk])"
  unfolding same_threads_def map_update by (cases "t < length ts") (auto simp: list_update_same_conv intro!: list_update_beyond)

lemma sends_of_bound: "i \<in> set (sends_of w t th) \<longleftrightarrow>
    i < length (all_sends w) \<and> m_task (all_sends w ! i) = t \<and> m_thread (all_sends w ! i) = th"
  by (auto simp: sends_of_def)

text \<open>The sender's thread takes the record of the send, whatever it is.\<close>

lemma send_recorded:
  assumes "sim env W a Lab r" and "ptasks r = [ts]" and "message_ok env W m" and "same_threads ts ts1"
    and "rc = send_rec env W (next_send m (seen a)) (length (all_sends (seen a)))"
  defines "x \<equiv> task_threads (ts1 ! m_task m) ! m_thread m"
  obtains f where "write_rec (wfb (paraver_thread x)) rc = Inr f"
    and "\<And>t th. t < n_tasks W \<Longrightarrow> th < n_threads W t \<Longrightarrow>
      thread_sim env W (a\<lparr>seen := next_send m (seen a)\<rparr>) t th
        (extended Lab (m_task m) (m_thread m) [Some (length (all_sends (seen a)))] t th)
        (task_threads (ts1[m_task m := put_thread (m_thread m) (x\<lparr>paraver_thread := (paraver_thread x)\<lparr>wfb := f\<rparr>\<rparr>) (ts1 ! m_task m)] ! t) ! th)"
proof -
  let ?w = "seen a" and ?w' = "next_send m (seen a)" and ?n = "length (all_sends (seen a))"
  let ?t = "m_task m" and ?th = "m_thread m"
  note parts = sim_parts [OF assms(1,2)]
  note place = table_okD [OF parts(1) message_okD(1) [OF assms(3)]]
  have len: "length ts = n_tasks W" using parts(1) by (simp add: table_ok_def)
  have len1: "length ts1 = n_tasks W" using len same_threads_length [OF assms(4)] by simp
  have here: "?t < n_tasks W" "?th < n_threads W ?t" using message_okD(1) [OF assms(3)] by (simp_all add: place_def)
  have threads: "task_threads (ts1 ! t) = task_threads (ts ! t)" if "t < n_tasks W" for t
    using same_threads_nth [OF assms(4)] that len by simp
  have kept: "send_rec env W ?w' i = send_rec env W ?w i" if "i \<in> set (sends_of ?w t th)" for i t th
    using rec_after_send [OF parts(4)] that by (simp add: sends_of_bound)
  have x: "thread_sim env W a ?t ?th (Lab ?t ?th) x"
    using parts(3) [OF here] threads here(1) by (simp add: x_def)
  then have num: "numbered (Lab ?t ?th) (send_rec env W ?w) (paraver_thread x)" "sends_in (Lab ?t ?th) = sends_of ?w ?t ?th"
    by (simp_all add: thread_sim_def)
  have "numbered (Lab ?t ?th) (send_rec env W ?w') (paraver_thread x)"
    by (rule numbered_cong [OF num(1)]) (use kept num(2) in \<open>metis in_sends_in\<close>)
  moreover have "fits (send_rec env W ?w') (Some ?n) rc" using assms(5) by simp
  ultimately obtain f where f: "write_rec (wfb (paraver_thread x)) rc = Inr f"
    "numbered (Lab ?t ?th @ [Some ?n]) (send_rec env W ?w') ((paraver_thread x)\<lparr>wfb := f\<rparr>)" by (rule numbered_write)
  show ?thesis
  proof (rule that [OF f(1)])
    fix t th assume t: "t < n_tasks W" "th < n_threads W t"
    let ?y = "x\<lparr>paraver_thread := (paraver_thread x)\<lparr>wfb := f\<rparr>\<rparr>"
    let ?ts = "ts1[?t := put_thread ?th ?y (ts1 ! ?t)]"
    show "thread_sim env W (a\<lparr>seen := ?w'\<rparr>) t th (extended Lab ?t ?th [Some ?n] t th) (task_threads (?ts ! t) ! th)"
    proof (cases "t = ?t \<and> th = ?th")
      case True
      with place(3) threads [OF here(1)] len1 here(1) have "task_threads (?ts ! t) ! th = ?y"
        by (simp add: put_thread_def)
      moreover have "thread_sim env W (a\<lparr>seen := ?w'\<rparr>) ?t ?th (Lab ?t ?th @ [Some ?n]) ?y"
        using x f(2) num(2) by (simp add: thread_sim_def sends_of_send)
      ultimately show ?thesis using True by simp
    next
      case False
      then have "task_threads (?ts ! t) ! th = task_threads (ts ! t) ! th"
        using t threads len1 by (cases "t = ?t") (simp_all add: put_thread_def)
      moreover have "extended Lab ?t ?th [Some ?n] t th = Lab t th" using False by (cases "t = ?t") auto
      moreover have "thread_sim env W (a\<lparr>seen := ?w'\<rparr>) t th (Lab t th) (task_threads (ts ! t) ! th)"
        by (rule thread_sim_kept [OF parts(3) [OF t] _ kept]) (use False in \<open>auto simp: sends_of_send\<close>)
      ultimately show ?thesis by simp
    qed
  qed
qed


text \<open>The pending receive that the send finds.\<close>

lemma receive_found:
  assumes "sim env W a Lab r" and "ptasks r = [ts]" and "env_ok env W" and "message_ok env W m"
    and "int (length (waiting_recvs (seen a))) < queue_room W"
  defines "found \<equiv> first_index (\<lambda>j. recv_channel (all_recvs (seen a) ! j) = send_channel m) (waiting_recvs (seen a))"
  shows "\<exists>out q. CommunicationQueues_ExtractRecv (env_any_tag env) (recv_queue (ts ! peer m)) (of_nat (m_task m))
      (Get_EvTag (m_event m)) not_extracted 0 = Inr (out, q) \<and> roomy (queue_room W) q \<and>
    (case found of
       None \<Rightarrow> out_begin out = None \<and> q = recv_queue (ts ! peer m)
     | Some k \<Rightarrow> out = recv_result not_extracted (recv_entry W (all_recvs (seen a) ! (waiting_recvs (seen a) ! k))) \<and>
         queue_elems q = recvs_queue W (seen a) (peer m) (remove_nth k (waiting_recvs (seen a))))"
proof -
  let ?w = "seen a" and ?d = "peer m"
  note parts = sim_parts [OF assms(1,2)]
  have d: "?d < n_tasks W" using message_okD(3) [OF assms(4)] .
  let ?q = "recv_queue (ts ! ?d)" and ?is = "filter (\<lambda>j. m_task (all_recvs ?w ! j) = ?d) (waiting_recvs ?w)"
  from parts(2) [OF d] have q: "roomy (queue_room W) ?q" "queue_elems ?q = map (\<lambda>j. recv_entry W (all_recvs ?w ! j)) ?is"
    by (simp_all add: queues_sim_def)
  have msg: "message_ok env W (all_recvs ?w ! j)" if "j \<in> set (waiting_recvs ?w)" for j
    using waiting_bounds(2) [OF parts(4) that] parts(4) by (simp add: seen_ok_def)
  have same: "matches_recv (env_any_tag env) (of_nat (m_task m)) (Get_EvTag (m_event m)) 0 (recv_entry W (all_recvs ?w ! j)) =
      (recv_channel (all_recvs ?w ! j) = send_channel m)" if "j \<in> set ?is" for j
  proof -
    have j: "j \<in> set (waiting_recvs ?w)" "m_task (all_recvs ?w ! j) = ?d" using that by simp_all
    have "n_tasks W \<le> 2 ^ 31" using assms(3) by (simp add: env_ok_def)
    then have small: "m_task m < 2 ^ 31" "peer (all_recvs ?w ! j) < 2 ^ 31"
      using message_okD(1) [OF assms(4)] message_okD(3) [OF msg [OF j(1)]] by (auto simp: place_def)
    have "recv_channel (all_recvs ?w ! j) = send_channel m \<longleftrightarrow>
        m_task m = peer (all_recvs ?w ! j) \<and> Get_EvTag (m_event m) = Get_EvTag (m_event (all_recvs ?w ! j))"
      using same_channel [OF assms(3,4) msg [OF j(1)]] j(2) by auto
    also have "\<dots> \<longleftrightarrow> of_nat (m_task m) = Get_EvTarget (m_event (all_recvs ?w ! j)) \<and>
        Get_EvTag (m_event m) = Get_EvTag (m_event (all_recvs ?w ! j))"
      unfolding peer_words using small by (simp add: task_words)
    finally show ?thesis using message_okD(4) [OF msg [OF j(1)]] by (auto simp: matches_recv_def recv_entry_def)
  qed
  have search: "first_index (matches_recv (env_any_tag env) (of_nat (m_task m)) (Get_EvTag (m_event m)) 0) (queue_elems ?q) =
      first_index (\<lambda>j. recv_channel (all_recvs ?w ! j) = send_channel m) ?is"
    unfolding q(2) first_index_map by (rule first_index_cong) (rule same)
  have ends: "\<And>d. d \<in> set (queue_elems ?q) \<Longrightarrow> recv_end d \<noteq> None" unfolding q(2) by (auto simp: recv_entry_def)
  show ?thesis
  proof (cases found)
    case None
    then have "first_index (\<lambda>j. recv_channel (all_recvs ?w ! j) = send_channel m) ?is = None"
      unfolding found_def by (rule first_index_filter_None)
    with search have none: "first_index (matches_recv (env_any_tag env) (of_nat (m_task m)) (Get_EvTag (m_event m)) 0) (queue_elems ?q) = None"
      by simp
    have "queue_inv ?q" using q(1) by (simp add: roomy_def)
    from extract_recv_missing [OF this none ends] None q(1) show ?thesis by simp
  next
    case (Some k)
    have "m_task (all_recvs ?w ! j) = ?d" if "j \<in> set (waiting_recvs ?w)" "recv_channel (all_recvs ?w ! j) = send_channel m" for j
      using same_channel [OF assms(3,4) msg [OF that(1)]] that(2) by simp
    from first_index_filter [OF Some [unfolded found_def], of "\<lambda>j. m_task (all_recvs ?w ! j) = ?d", OF this] obtain k' where
      k': "first_index (\<lambda>j. recv_channel (all_recvs ?w ! j) = send_channel m) ?is = Some k'" "k' < length ?is"
        "?is ! k' = waiting_recvs ?w ! k"
        "remove_nth k' ?is = filter (\<lambda>j. m_task (all_recvs ?w ! j) = ?d) (remove_nth k (waiting_recvs ?w))" by blast
    have "length ?is \<le> length (waiting_recvs ?w)" by (rule length_filter_le)
    then have "int (length (queue_elems ?q)) < queue_room W" using assms(5) unfolding q(2) length_map by linarith
    from roomy_ExtractRecv [OF q(1) search [unfolded k'(1)] this ends, of not_extracted] obtain q' where
      "CommunicationQueues_ExtractRecv (env_any_tag env) ?q (of_nat (m_task m)) (Get_EvTag (m_event m)) not_extracted 0 =
        Inr (recv_result not_extracted (queue_elems ?q ! k'), q')" "roomy (queue_room W) q'"
      "queue_elems q' = remove_nth k' (queue_elems ?q)" by blast
    with q(2) k' Some show ?thesis by (simp add: recvs_queue_def map_remove_nth [symmetric])
  qed
qed

lemma queues_of_receivers:
  assumes "seen_ok env W w" and "k < length (waiting_recvs w)" and "t \<noteq> m_task (all_recvs w ! (waiting_recvs w ! k))"
  shows "recvs_queue W w t (remove_nth k (waiting_recvs w)) = recvs_queue W w t (waiting_recvs w)"
  unfolding recvs_queue_def using assms(2,3) by (simp add: filter_remove_other)

lemma next_send_simps:
  "first_index (\<lambda>j. recv_channel (all_recvs w ! j) = send_channel m) (waiting_recvs w) = None \<Longrightarrow>
     waiting_recvs (next_send m w) = waiting_recvs w \<and> waiting_sends (next_send m w) = waiting_sends w @ [length (all_sends w)]"
  "first_index (\<lambda>j. recv_channel (all_recvs w ! j) = send_channel m) (waiting_recvs w) = Some k \<Longrightarrow>
     waiting_recvs (next_send m w) = remove_nth k (waiting_recvs w) \<and> waiting_sends (next_send m w) = waiting_sends w"
  by (simp_all add: match_op.simps)

lemma remove_nth_subset: "x \<in> set (remove_nth k xs) \<Longrightarrow> x \<in> set xs"
  by (auto simp: remove_nth_def dest: in_set_takeD in_set_dropD)

text \<open>The sender finds a receive.\<close>

lemma send_pairs:
  assumes "sim env W a Lab r" and "env_ok env W" and "message_ok env W m" and "int (length (waiting_recvs (seen a))) < queue_room W"
    and "first_index (\<lambda>j. recv_channel (all_recvs (seen a) ! j) = send_channel m) (waiting_recvs (seen a)) = Some k"
  shows "\<exists>r' Lab'. send_matched env (obj cpu (m_task m) (m_thread m)) (m_now m) (m_begin m) (m_event m) r = Inr r' \<and>
    sim env W (a\<lparr>seen := next_send m (seen a)\<rparr>) Lab' r'"
proof -
  let ?w = "seen a" and ?w' = "next_send m (seen a)" and ?t = "m_task m" and ?th = "m_thread m" and ?d = "peer m"
  let ?n = "length (all_sends (seen a))" and ?p = "all_recvs (seen a) ! (waiting_recvs (seen a) ! k)"
  from assms(1) obtain ts where ts: "ptasks r = [ts]" by (auto elim: simE)
  note parts = sim_parts [OF assms(1) ts]
  have len: "length ts = n_tasks W" using parts(1) by (simp add: table_ok_def)
  have d: "?d < length ts" "?d < 2 ^ 31" using message_okD(3) [OF assms(3)] len assms(2) by (auto simp: env_ok_def)
  from receive_found [OF assms(1) ts assms(2,3,4)] assms(5) obtain q where q:
    "CommunicationQueues_ExtractRecv (env_any_tag env) (recv_queue (ts ! ?d)) (of_nat ?t) (Get_EvTag (m_event m)) not_extracted 0 =
      Inr (recv_result not_extracted (recv_entry W ?p), q)" "roomy (queue_room W) q"
    "queue_elems q = recvs_queue W ?w ?d (remove_nth k (waiting_recvs ?w))" by auto
  have k: "k < length (waiting_recvs ?w)" "recv_channel ?p = send_channel m" using assms(5) by (simp_all add: first_index_Some)
  have p_ok: "message_ok env W ?p" using waiting_bounds(2) [OF parts(4)] parts(4) k(1) by (simp add: seen_ok_def)
  have p_task: "m_task ?p = ?d" using same_channel [OF assms(2,3) p_ok] k(2) by simp
  let ?ts1 = "ts[?d := (ts ! ?d)\<lparr>recv_queue := q\<rparr>]" and ?r1 = "r\<lparr>ptasks := [ts[?d := (ts ! ?d)\<lparr>recv_queue := q\<rparr>]]\<rparr>"
  have same: "same_threads ts ?ts1" by (rule same_threads_update) simp
  have table1: "table_ok W ?ts1" using same_threads_table [OF same parts(1)] .
  note here = table_okD [OF table1 message_okD(1) [OF assms(3)]]
  have n: "?t < n_tasks W" "?th < n_threads W ?t" using message_okD(1) [OF assms(3)] by (simp_all add: place_def)
  let ?x = "task_threads (?ts1 ! ?t) ! ?th"
  have rc: "matched_rec env W m ?p = send_rec env W ?w' ?n" using rec_of_send [OF parts(4), of m] assms(5) by simp
  obtain f where f: "write_rec (wfb (paraver_thread ?x)) (matched_rec env W m ?p) = Inr f"
    "\<And>t th. t < n_tasks W \<Longrightarrow> th < n_threads W t \<Longrightarrow>
      thread_sim env W (a\<lparr>seen := ?w'\<rparr>) t th (extended Lab ?t ?th [Some ?n] t th)
        (task_threads (?ts1[?t := put_thread ?th (?x\<lparr>paraver_thread := (paraver_thread ?x)\<lparr>wfb := f\<rparr>\<rparr>) (?ts1 ! ?t)] ! t) ! th)"
    using send_recorded [OF assms(1) ts assms(3) same rc] by blast
  let ?y = "?x\<lparr>paraver_thread := (paraver_thread ?x)\<lparr>wfb := f\<rparr>\<rparr>" 
  let ?ts2 = "?ts1[?t := put_thread ?th ?y (?ts1 ! ?t)]"
  have vt: "virtual_thread (paraver_thread ?x) = vthread_of W ?t ?th"
    using parts(3) [OF n] same_threads_nth [OF same, of ?t] n(1) len by (simp add: thread_sim_def)
  have in_group: "isTaskInMyGroup env (1 - 1) (Get_EvTarget (m_event m))"
    using assms(2) message_okD(3) [OF assms(3)] unfolding peer_words by (simp add: env_ok_def)
  have "send_matched env (obj cpu ?t ?th) (m_now m) (m_begin m) (m_event m) r = Inr (r\<lparr>ptasks := [?ts2]\<rparr>)"
  proof -
    have r1: "ptasks ?r1 = [?ts1]" by simp
    have put: "put_task 1 (of_nat (Suc ?d)) ((ts ! ?d)\<lparr>recv_queue := q\<rparr>) r = Inr ?r1" by (rule put_task_index [OF ts d])
    have word: "of_nat (Suc ?t) - 1 = (of_nat ?t :: INT32)" by simp
    obtain b where b: "m_begin ?p = Some b" using message_okD(2) [OF p_ok] by blast
    show ?thesis
      unfolding send_matched_def no_links [OF assms(2)] andthen_simps obj_simps peer_words(2,3) task_at_index [OF ts d] word
        q(1) prod.case put thread_at_index [OF r1 here(1-4)]
      using in_group communication_written [OF table1 r1 assms(2,3) p_ok, of False 0] f(1) p_task b
      by (simp add: recv_result_def not_extracted_def recv_entry_def vt Let_def del: of_nat_Suc)
  qed
  moreover have "sim env W (a\<lparr>seen := ?w'\<rparr>) (extended Lab ?t ?th [Some ?n]) (r\<lparr>ptasks := [?ts2]\<rparr>)"
  proof (rule simI)
    show "table_ok W ?ts2"
      using here(5) by (intro table_ok_put_thread [OF table1 message_okD(1) [OF assms(3)]]) simp
    show "seen_ok env W (seen (a\<lparr>seen := ?w'\<rparr>))" using seen_ok_step(1) [OF parts(4) assms(3)] by simp
    fix t assume t: "t < n_tasks W"
    have "queues_sim W ?w' t (extended Lab ?t ?th [Some ?n] t) (?ts1 ! t)"
    proof -
      have old: "queues_sim W ?w t (Lab t) (ts ! t)" using parts(2) [OF t] .
      have "list_all2 (queued_send W ?w' (extended Lab ?t ?th [Some ?n] t)) (queue_elems (send_queue (ts ! t)))
          (filter (\<lambda>i. m_task (all_sends ?w' ! i) = t) (waiting_sends ?w))"
        by (rule sends_queue_kept [where Lab = Lab and w = ?w and ms = "[m]"])
          (use old waiting_bounds(1) [OF parts(4)] in \<open>simp_all add: queues_sim_def\<close>)
      moreover have "recvs_queue W ?w' t (remove_nth k (waiting_recvs ?w)) = recvs_queue W ?w t (remove_nth k (waiting_recvs ?w))"
        by (rule recvs_queue_kept [where ms = "[]"]) (use waiting_bounds(2) [OF parts(4) remove_nth_subset] in simp_all)
      ultimately show ?thesis
        using old q(2,3) d queues_of_receivers [OF parts(4) k(1), of t] p_task next_send_simps(2) [OF assms(5)]
        by (cases "t = ?d") (auto simp: queues_sim_alt)
    qed
    then show "queues_sim W (seen (a\<lparr>seen := ?w'\<rparr>)) t (extended Lab ?t ?th [Some ?n] t) (?ts2 ! t)"
      using here(1) by (cases "t = ?t") simp_all
  qed (use parts(5) f(2) in simp_all)
  ultimately show ?thesis by blast
qed

text \<open>The send is queued, with the place of its record.\<close>

lemma task_threads_queue [simp]: "task_threads (tk\<lparr>send_queue := q\<rparr>) = task_threads tk" "task_threads (tk\<lparr>recv_queue := q'\<rparr>) = task_threads tk"
  by simp_all

lemma send_waits:
  assumes "sim env W a Lab r" and "env_ok env W" and "message_ok env W m" and "int (length (waiting_recvs (seen a))) < queue_room W"
    and "first_index (\<lambda>j. recv_channel (all_recvs (seen a) ! j) = send_channel m) (waiting_recvs (seen a)) = None"
  shows "\<exists>r' Lab'. send_matched env (obj cpu (m_task m) (m_thread m)) (m_now m) (m_begin m) (m_event m) r = Inr r' \<and>
    sim env W (a\<lparr>seen := next_send m (seen a)\<rparr>) Lab' r'"
proof -
  let ?w = "seen a" and ?w' = "next_send m (seen a)" and ?t = "m_task m" and ?th = "m_thread m" and ?d = "peer m"
  let ?n = "length (all_sends (seen a))"
  from assms(1) obtain ts where ts: "ptasks r = [ts]" by (auto elim: simE)
  note parts = sim_parts [OF assms(1) ts]
  have len: "length ts = n_tasks W" using parts(1) by (simp add: table_ok_def)
  have d: "?d < length ts" "?d < 2 ^ 31" using message_okD(3) [OF assms(3)] len assms(2) by (auto simp: env_ok_def)
  from receive_found [OF assms(1) ts assms(2,3,4)] assms(5) obtain out where out:
    "CommunicationQueues_ExtractRecv (env_any_tag env) (recv_queue (ts ! ?d)) (of_nat ?t) (Get_EvTag (m_event m)) not_extracted 0 =
      Inr (out, recv_queue (ts ! ?d))" "out_begin out = None" by auto
  note here = table_okD [OF parts(1) message_okD(1) [OF assms(3)]]
  have n: "?t < n_tasks W" "?th < n_threads W ?t" using message_okD(1) [OF assms(3)] by (simp_all add: place_def)
  let ?x = "task_threads (ts ! ?t) ! ?th"
  have x: "thread_sim env W a ?t ?th (Lab ?t ?th) ?x" using parts(3) [OF n] .
  let ?entry = "send_entry W (length (Lab ?t ?th)) m"
  have position: "WriteFileBuffer_getPosition (wfb (paraver_thread ?x)) = int (sizeof_paraver_rec_t * length (Lab ?t ?th))"
    using x recs.position_end [of "wfb (paraver_thread ?x)"] by (auto simp: thread_sim_def numbered_def dest!: list_all2_lengthD)
  have vt: "virtual_thread (paraver_thread ?x) = vthread_of W ?t ?th" using x by (simp add: thread_sim_def)
  have "roomy (queue_room W) (send_queue (ts ! ?t))" "ample (env_alloc env)"
    using parts(2) [OF n(1)] assms(2) by (simp_all add: queues_sim_def env_ok_def)
  from roomy_add [OF this, of ?entry] obtain q where q: "NewQueue_add (env_alloc env) (send_queue (ts ! ?t)) ?entry = Inr q"
    "roomy (queue_room W) q" "queue_elems q = queue_elems (send_queue (ts ! ?t)) @ [?entry]" by blast
  let ?ts1 = "ts[?t := (ts ! ?t)\<lparr>send_queue := q\<rparr>]"
  have same: "same_threads ts ?ts1" by (rule same_threads_update) simp
  have table1: "table_ok W ?ts1" using same_threads_table [OF same parts(1)] .
  have x1: "task_threads (?ts1 ! ?t) ! ?th = ?x" using here(1) by simp
  have rc: "unmatched_rec env W m = send_rec env W ?w' ?n" using rec_of_send [OF parts(4), of m] assms(5) by simp
  obtain f where f: "write_rec (wfb (paraver_thread ?x)) (unmatched_rec env W m) = Inr f"
    "\<And>t th. t < n_tasks W \<Longrightarrow> th < n_threads W t \<Longrightarrow>
      thread_sim env W (a\<lparr>seen := ?w'\<rparr>) t th (extended Lab ?t ?th [Some ?n] t th)
        (task_threads (?ts1[?t := put_thread ?th (?x\<lparr>paraver_thread := (paraver_thread ?x)\<lparr>wfb := f\<rparr>\<rparr>) (?ts1 ! ?t)] ! t) ! th)"
    using send_recorded [OF assms(1) ts assms(3) same rc] unfolding x1 by blast
  let ?y = "?x\<lparr>paraver_thread := (paraver_thread ?x)\<lparr>wfb := f\<rparr>\<rparr>"
  let ?ts2 = "?ts1[?t := put_thread ?th ?y (?ts1 ! ?t)]"
  have "send_matched env (obj cpu ?t ?th) (m_now m) (m_begin m) (m_event m) r = Inr (r\<lparr>ptasks := [?ts2]\<rparr>)"
  proof -
    have in_group: "isTaskInMyGroup env (1 - 1) (Get_EvTarget (m_event m))"
      using assms(2) message_okD(3) [OF assms(3)] unfolding peer_words by (simp add: env_ok_def)
    have put: "put_task 1 (of_nat (Suc ?d)) ((ts ! ?d)\<lparr>recv_queue := recv_queue (ts ! ?d)\<rparr>) r = Inr r"
      unfolding put_task_index [OF ts d] using ts by simp
    have word: "of_nat (Suc ?t) - 1 = (of_nat ?t :: INT32)" by simp
    have queued: "CommunicationQueues_QueueSend (env_alloc env) (send_queue (ts ! ?t)) (m_begin m) (Some (m_event m))
        (int (sizeof_paraver_rec_t * length (Lab ?t ?th))) (of_nat (Suc ?th)) (vthread_of W ?t ?th) (Get_EvTarget (m_event m))
        (Get_EvTag (m_event m)) 0 = Inr q"
      using q(1) by (simp add: CommunicationQueues_QueueSend_def send_entry_def)
    have enabled: "task_enabled (env_options env) 1 (of_nat (Suc ?t)) = Inr True" using assms(2) n(1) by (auto simp: env_ok_def)
    have r1: "ptasks (r\<lparr>ptasks := [?ts1]\<rparr>) = [?ts1]" by simp
    note here1 = table_okD(1-4) [OF table1 message_okD(1) [OF assms(3)]]
    have written: "trace_paraver_unmatched_communication (env_options env)
        \<lparr>comm_object = (obj cpu ?t ?th)\<lparr>id_cpu := 1\<rparr>, vthread = vthread_of W ?t ?th, log_time = m_now m,
         phy_time = Get_EvTime (Some (m_event m))\<rparr>
        \<lparr>id_cpu = 1, id_ptask = 1, id_task = of_nat (Suc ?d), id_thread = 1\<rparr> (Get_EvSize (m_event m)) (Get_EvTag (m_event m))
        (paraver_thread ?x) = Inr ((paraver_thread ?x)\<lparr>wfb := f\<rparr>)"
      using f(1) enabled
      by (simp add: trace_paraver_unmatched_communication_def unmatched_rec_def peer_words(2) Let_def obj_def del: of_nat_Suc)
    show ?thesis
      unfolding send_matched_def no_links [OF assms(2)] andthen_simps obj_simps peer_words(2,3) task_at_index [OF ts d] word
        out(1) prod.case put thread_at_index [OF ts here(1-4)] vt position Let_def change_task_index [OF ts here(1,2)] queued
        on_thread_index [OF r1 here1] x1 written
      using in_group out(2) by simp
  qed
  moreover have "sim env W (a\<lparr>seen := ?w'\<rparr>) (extended Lab ?t ?th [Some ?n]) (r\<lparr>ptasks := [?ts2]\<rparr>)"
  proof (rule simI)
    show "table_ok W ?ts2"
      using here(5) by (intro table_ok_put_thread [OF table1 message_okD(1) [OF assms(3)]]) simp
    show "seen_ok env W (seen (a\<lparr>seen := ?w'\<rparr>))" using seen_ok_step(1) [OF parts(4) assms(3)] by simp
    fix t assume t: "t < n_tasks W"
    have "queues_sim W ?w' t (extended Lab ?t ?th [Some ?n] t) (?ts1 ! t)"
    proof -
      have old: "queues_sim W ?w t (Lab t) (ts ! t)" using parts(2) [OF t] .
      have sends: "list_all2 (queued_send W ?w' (extended Lab ?t ?th [Some ?n] t)) (queue_elems (send_queue (ts ! t)))
          (filter (\<lambda>i. m_task (all_sends ?w' ! i) = t) (waiting_sends ?w))"
        by (rule sends_queue_kept [where Lab = Lab and w = ?w and ms = "[m]"])
          (use old waiting_bounds(1) [OF parts(4)] in \<open>simp_all add: queues_sim_def\<close>)
      have new: "queued_send W ?w' (extended Lab ?t ?th [Some ?n] ?t) ?entry ?n"
        unfolding queued_send_def by (rule exI [of _ "length (Lab ?t ?th)"]) simp
      have "recvs_queue W ?w' t (waiting_recvs ?w) = recvs_queue W ?w t (waiting_recvs ?w)"
        by (rule recvs_queue_kept [where ms = "[]"]) (use waiting_bounds(2) [OF parts(4)] in auto)
      then show ?thesis
        using old q(2,3) here(1) sends new next_send_simps(1) [OF assms(5)]
        by (cases "t = ?t") (auto simp: queues_sim_alt intro!: list_all2_appendI)
    qed
    then show "queues_sim W (seen (a\<lparr>seen := ?w'\<rparr>)) t (extended Lab ?t ?th [Some ?n] t) (?ts2 ! t)"
      using here(1) by (cases "t = ?t") simp_all
  qed (use parts(5) f(2) in simp_all)
  ultimately show ?thesis by blast
qed

lemma sim_send_matched:
  assumes "sim env W a Lab r" and "env_ok env W" and "message_ok env W m" and "int (length (waiting_recvs (seen a))) < queue_room W"
  shows "\<exists>r' Lab'. send_matched env (obj cpu (m_task m) (m_thread m)) (m_now m) (m_begin m) (m_event m) r = Inr r' \<and>
    sim env W (a\<lparr>seen := next_send m (seen a)\<rparr>) Lab' r'"
  using send_waits [OF assms] send_pairs [OF assms]
  by (cases "first_index (\<lambda>j. recv_channel (all_recvs (seen a) ! j) = send_channel m) (waiting_recvs (seen a))") simp_all

end
