(* ===== verification/MpiReceive.thy ===== *)
theory MpiReceive
  imports MpiPairing
begin

text \<open>
  The receiving end of \<open>MpiPairing\<close>: a receive completes the record of the oldest send that waits for it, in
  the sender's file, or is queued.
\<close>

lemma next_recv_simps:
  "first_index (\<lambda>i. send_channel (all_sends w ! i) = recv_channel m) (waiting_sends w) = None \<Longrightarrow>
     waiting_sends (next_recv m w) = waiting_sends w \<and> waiting_recvs (next_recv m w) = waiting_recvs w @ [length (all_recvs w)]"
  "first_index (\<lambda>i. send_channel (all_sends w ! i) = recv_channel m) (waiting_sends w) = Some k \<Longrightarrow>
     waiting_sends (next_recv m w) = remove_nth k (waiting_sends w) \<and> waiting_recvs (next_recv m w) = waiting_recvs w"
  by (simp_all add: match_op.simps)

lemma sends_queue_same:
  assumes "list_all2 (queued_send W w L) xs (filter (\<lambda>i. m_task (all_sends w ! i) = t) is)"
    and "\<And>i. i \<in> set is \<Longrightarrow> i < length (all_sends w)" and "all_sends w' = all_sends w"
  shows "list_all2 (queued_send W w' L) xs (filter (\<lambda>i. m_task (all_sends w' ! i) = t) is)"
  using assms by (auto simp: queued_send_def intro: list_all2_more)

text \<open>The waiting send that the receive finds.\<close>

lemma send_found:
  assumes "sim env W a Lab r" and "ptasks r = [ts]" and "env_ok env W" and "message_ok env W m"
    and "int (length (waiting_sends (seen a))) < queue_room W"
  defines "found \<equiv> first_index (\<lambda>i. send_channel (all_sends (seen a) ! i) = recv_channel m) (waiting_sends (seen a))"
  shows "\<exists>out q. CommunicationQueues_ExtractSend (env_any_tag env) (send_queue (ts ! peer m)) (of_nat (m_task m))
      (Get_EvTag (m_event m)) not_extracted 0 = Inr (out, q) \<and> roomy (queue_room W) q \<and>
    (case found of
       None \<Rightarrow> out_begin out = None \<and> out_end out = None \<and> q = send_queue (ts ! peer m)
     | Some k \<Rightarrow> (\<exists>d. out = send_result not_extracted d \<and> queued_send W (seen a) (Lab (peer m)) d (waiting_sends (seen a) ! k)) \<and>
         list_all2 (queued_send W (seen a) (Lab (peer m))) (queue_elems q)
           (filter (\<lambda>i. m_task (all_sends (seen a) ! i) = peer m) (remove_nth k (waiting_sends (seen a)))))"
proof -
  let ?w = "seen a" and ?d = "peer m"
  note parts = sim_parts [OF assms(1,2)]
  have d: "?d < n_tasks W" using message_okD(3) [OF assms(4)] .
  let ?q = "send_queue (ts ! ?d)" and ?is = "filter (\<lambda>i. m_task (all_sends ?w ! i) = ?d) (waiting_sends ?w)"
  from parts(2) [OF d] have q: "roomy (queue_room W) ?q" "list_all2 (queued_send W ?w (Lab ?d)) (queue_elems ?q) ?is"
    by (simp_all add: queues_sim_def)
  have msg: "message_ok env W (all_sends ?w ! i)" if "i \<in> set (waiting_sends ?w)" for i
    using waiting_bounds(1) [OF parts(4) that] parts(4) by (simp add: seen_ok_def)
  have same: "matches_send (env_any_tag env) (of_nat (m_task m)) (Get_EvTag (m_event m)) 0 x =
      (send_channel (all_sends ?w ! i) = recv_channel m)" if "i \<in> set ?is" "queued_send W ?w (Lab ?d) x i" for x i
  proof -
    have i: "i \<in> set (waiting_sends ?w)" "m_task (all_sends ?w ! i) = ?d" using that(1) by simp_all
    have "n_tasks W \<le> 2 ^ 31" using assms(3) by (simp add: env_ok_def)
    then have small: "m_task m < 2 ^ 31" "peer (all_sends ?w ! i) < 2 ^ 31"
      using message_okD(1) [OF assms(4)] message_okD(3) [OF msg [OF i(1)]] by (auto simp: place_def)
    have "send_channel (all_sends ?w ! i) = recv_channel m \<longleftrightarrow>
        m_task m = peer (all_sends ?w ! i) \<and> Get_EvTag (m_event (all_sends ?w ! i)) = Get_EvTag (m_event m)"
      using same_channel [OF assms(3) msg [OF i(1)] assms(4)] i(2) by auto
    also have "\<dots> \<longleftrightarrow> of_nat (m_task m) = Get_EvTarget (m_event (all_sends ?w ! i)) \<and>
        Get_EvTag (m_event (all_sends ?w ! i)) = Get_EvTag (m_event m)"
      unfolding peer_words using small by (simp add: task_words)
    finally show ?thesis
      using message_okD(4) [OF assms(4)] that(2) by (auto simp: matches_send_def queued_send_def send_entry_def)
  qed
  have search: "first_index (matches_send (env_any_tag env) (of_nat (m_task m)) (Get_EvTag (m_event m)) 0) (queue_elems ?q) =
      first_index (\<lambda>i. send_channel (all_sends ?w ! i) = recv_channel m) ?is"
    by (rule first_index_related [OF q(2)]) (rule same)
  show ?thesis
  proof (cases found)
    case None
    then have "first_index (\<lambda>i. send_channel (all_sends ?w ! i) = recv_channel m) ?is = None"
      unfolding found_def by (rule first_index_filter_None)
    with search have none: "first_index (matches_send (env_any_tag env) (of_nat (m_task m)) (Get_EvTag (m_event m)) 0) (queue_elems ?q) = None"
      by simp
    have "queue_inv ?q" using q(1) by (simp add: roomy_def)
    from extract_send_missing [OF this none] None q(1) show ?thesis by simp
  next
    case (Some k)
    have "m_task (all_sends ?w ! i) = ?d" if "i \<in> set (waiting_sends ?w)" "send_channel (all_sends ?w ! i) = recv_channel m" for i
      using same_channel [OF assms(3) msg [OF that(1)] assms(4)] that(2) by simp
    from first_index_filter [OF Some [unfolded found_def], of "\<lambda>i. m_task (all_sends ?w ! i) = ?d", OF this] obtain k' where
      k': "first_index (\<lambda>i. send_channel (all_sends ?w ! i) = recv_channel m) ?is = Some k'" "k' < length ?is"
        "?is ! k' = waiting_sends ?w ! k"
        "remove_nth k' ?is = filter (\<lambda>i. m_task (all_sends ?w ! i) = ?d) (remove_nth k (waiting_sends ?w))" by blast
    have lens: "length (queue_elems ?q) = length ?is" using q(2) by (rule list_all2_lengthD)
    have "length ?is \<le> length (waiting_sends ?w)" by (rule length_filter_le)
    then have "int (length (queue_elems ?q)) < queue_room W" using assms(5) unfolding lens by linarith
    from roomy_ExtractSend [OF q(1) search [unfolded k'(1)] this, of not_extracted] obtain q' where q':
      "CommunicationQueues_ExtractSend (env_any_tag env) ?q (of_nat (m_task m)) (Get_EvTag (m_event m)) not_extracted 0 =
        Inr (send_result not_extracted (queue_elems ?q ! k'), q')" "roomy (queue_room W) q'"
      "queue_elems q' = remove_nth k' (queue_elems ?q)" by blast
    have "queued_send W ?w (Lab ?d) (queue_elems ?q ! k') (waiting_sends ?w ! k)"
      using list_all2_nthD2 [OF q(2) k'(2)] k'(3) by simp
    with related_remove [OF q(2), of k'] q' k'(4) Some show ?thesis by auto
  qed
qed

definition missing_ok :: "(event_ptr \<Rightarrow> event_ptr \<Rightarrow> bool) \<Rightarrow> bool" where
  "missing_ok missing \<longleftrightarrow> missing None None \<and> (\<forall>b e. \<not> missing (Some b) (Some e))"

lemma missing_tests: "missing_ok either_null" "missing_ok both_null"
  by (simp_all add: missing_ok_def either_null_def both_null_def)

text \<open>The sender's thread gets the completed record in the place of the unmatched one.\<close>

lemma receive_recorded:
  assumes "sim env W a Lab r" and "ptasks r = [ts]" and "message_ok env W m" and "same_threads ts ts1"
    and found: "first_index (\<lambda>i. send_channel (all_sends (seen a) ! i) = recv_channel m) (waiting_sends (seen a)) = Some k"
  defines "i \<equiv> waiting_sends (seen a) ! k"
  defines "s \<equiv> all_sends (seen a) ! i"
  defines "x \<equiv> task_threads (ts1 ! m_task s) ! m_thread s"
  assumes p: "p < length (Lab (m_task s) (m_thread s))" "Lab (m_task s) (m_thread s) ! p = Some i"
  obtains f where "write_rec_at (wfb (paraver_thread x)) (matched_rec env W s m) (int (sizeof_paraver_rec_t * p)) = Inr f"
    and "\<And>t th. t < n_tasks W \<Longrightarrow> th < n_threads W t \<Longrightarrow>
      thread_sim env W (a\<lparr>seen := next_recv m (seen a)\<rparr>) t th (Lab t th)
        (task_threads (ts1[m_task s := put_thread (m_thread s) (x\<lparr>paraver_thread := (paraver_thread x)\<lparr>wfb := f\<rparr>\<rparr>) (ts1 ! m_task s)] ! t) ! th)"
proof -
  let ?w = "seen a" and ?w' = "next_recv m (seen a)" and ?t = "m_task s" and ?th = "m_thread s"
  note parts = sim_parts [OF assms(1,2)]
  have k: "k < length (waiting_sends ?w)" using found by (simp add: first_index_Some)
  then have i: "i < length (all_sends ?w)" using waiting_bounds(1) [OF parts(4)] by (simp add: i_def)
  have s_ok: "message_ok env W s" using i parts(4) by (simp add: s_def seen_ok_def)
  have len: "length ts1 = n_tasks W"
    using parts(1) same_threads_length [OF assms(4)] by (simp add: table_ok_def)
  have here: "?t < n_tasks W" "?th < n_threads W ?t" using message_okD(1) [OF s_ok] by (simp_all add: place_def)
  have threads: "task_threads (ts1 ! t) = task_threads (ts ! t)" if "t < n_tasks W" for t
    using same_threads_nth [OF assms(4)] that parts(1) by (simp add: table_ok_def)
  note place = table_okD [OF same_threads_table [OF assms(4) parts(1)] message_okD(1) [OF s_ok]]
  have kept: "send_rec env W ?w' j = send_rec env W ?w j" if "j < length (all_sends ?w)" "j \<noteq> i" for j
    by (rule rec_after_recv [OF parts(4) that(1)]) (use that(2) found in \<open>simp add: i_def\<close>)
  have x: "thread_sim env W a ?t ?th (Lab ?t ?th) x"
    using parts(3) [OF here] threads here(1) by (simp add: x_def)
  then have num: "numbered (Lab ?t ?th) (send_rec env W ?w) (paraver_thread x)" "sends_in (Lab ?t ?th) = sends_of ?w ?t ?th"
    by (simp_all add: thread_sim_def)
  have "fits (send_rec env W ?w') (Lab ?t ?th ! p) (matched_rec env W s m)"
    using p(2) rec_of_recv [OF parts(4) found] by (simp add: i_def s_def)
  moreover have "send_rec env W ?w' j = send_rec env W ?w j"
    if "p' < length (Lab ?t ?th)" "p' \<noteq> p" "Lab ?t ?th ! p' = Some j" for p' j
  proof -
    have "j \<in> set (sends_of ?w ?t ?th)" using that(1,3) num(2) by (metis in_sends_in nth_mem)
    moreover have "j \<noteq> i"
      using sends_in_inj [of "Lab ?t ?th" p' p i] that p num(2) by (auto simp: sends_of_def)
    ultimately show ?thesis using kept by (simp add: sends_of_bound)
  qed
  ultimately obtain f where f: "write_rec_at (wfb (paraver_thread x)) (matched_rec env W s m) (int (sizeof_paraver_rec_t * p)) = Inr f"
    "numbered (Lab ?t ?th) (send_rec env W ?w') ((paraver_thread x)\<lparr>wfb := f\<rparr>)"
    by (rule numbered_write_at [OF num(1) p(1)])
  show ?thesis
  proof (rule that [OF f(1)])
    fix t th assume t: "t < n_tasks W" "th < n_threads W t"
    let ?y = "x\<lparr>paraver_thread := (paraver_thread x)\<lparr>wfb := f\<rparr>\<rparr>"
    let ?ts = "ts1[?t := put_thread ?th ?y (ts1 ! ?t)]"
    show "thread_sim env W (a\<lparr>seen := ?w'\<rparr>) t th (Lab t th) (task_threads (?ts ! t) ! th)"
    proof (cases "t = ?t \<and> th = ?th")
      case True
      with place(1,3) have "task_threads (?ts ! t) ! th = ?y" by (simp add: put_thread_def)
      moreover have "thread_sim env W (a\<lparr>seen := ?w'\<rparr>) ?t ?th (Lab ?t ?th) ?y"
        using x f(2) num(2) by (simp add: thread_sim_def sends_of_recv)
      ultimately show ?thesis using True by simp
    next
      case False
      then have "task_threads (?ts ! t) ! th = task_threads (ts ! t) ! th"
        using t threads len by (cases "t = ?t") (simp_all add: put_thread_def)
      moreover have "thread_sim env W (a\<lparr>seen := ?w'\<rparr>) t th (Lab t th) (task_threads (ts ! t) ! th)"
      proof (rule thread_sim_kept [OF parts(3) [OF t] sends_of_recv])
        fix j assume "j \<in> set (sends_of ?w t th)"
        then have "j < length (all_sends ?w)" "j \<noteq> i" using False by (auto simp: sends_of_bound s_def)
        then show "send_rec env W ?w' j = send_rec env W ?w j" by (rule kept)
      qed
      ultimately show ?thesis by simp
    qed
  qed
qed

lemma receive_pairs:
  assumes "sim env W a Lab r" and "env_ok env W" and "message_ok env W m" and "int (length (waiting_sends (seen a))) < queue_room W"
    and "missing_ok missing"
    and found: "first_index (\<lambda>i. send_channel (all_sends (seen a) ! i) = recv_channel m) (waiting_sends (seen a)) = Some k"
  shows "\<exists>r' Lab'. receive_matched env (obj cpu (m_task m) (m_thread m)) missing (\<lambda>target. target) (m_event m) 1
      (m_begin m) (m_event m) r = Inr r' \<and> sim env W (a\<lparr>seen := next_recv m (seen a)\<rparr>) Lab' r'"
proof -
  let ?w = "seen a" and ?w' = "next_recv m (seen a)" and ?t = "m_task m" and ?th = "m_thread m" and ?d = "peer m"
  let ?i = "waiting_sends (seen a) ! k" and ?s = "all_sends (seen a) ! (waiting_sends (seen a) ! k)"
  from assms(1) obtain ts where ts: "ptasks r = [ts]" by (auto elim: simE)
  note parts = sim_parts [OF assms(1) ts]
  have len: "length ts = n_tasks W" using parts(1) by (simp add: table_ok_def)
  have d: "?d < length ts" "?d < 2 ^ 31" using message_okD(3) [OF assms(3)] len assms(2) by (auto simp: env_ok_def)
  have k: "k < length (waiting_sends ?w)" "send_channel ?s = recv_channel m" using found by (simp_all add: first_index_Some)
  have s_ok: "message_ok env W ?s" using waiting_bounds(1) [OF parts(4)] parts(4) k(1) by (simp add: seen_ok_def)
  have s_task: "m_task ?s = ?d" using same_channel [OF assms(2) s_ok assms(3)] k(2) by simp
  from send_found [OF assms(1) ts assms(2,3,4)] found obtain e q where q:
    "CommunicationQueues_ExtractSend (env_any_tag env) (send_queue (ts ! ?d)) (of_nat ?t) (Get_EvTag (m_event m)) not_extracted 0 =
      Inr (send_result not_extracted e, q)" "roomy (queue_room W) q" "queued_send W ?w (Lab ?d) e ?i"
    "list_all2 (queued_send W ?w (Lab ?d)) (queue_elems q) (filter (\<lambda>i. m_task (all_sends ?w ! i) = ?d) (remove_nth k (waiting_sends ?w)))"
    by auto
  from q(3) obtain p where p: "p < length (Lab (m_task ?s) (m_thread ?s))" "e = send_entry W p ?s"
    "Lab (m_task ?s) (m_thread ?s) ! p = Some ?i" unfolding s_task by (auto simp: queued_send_def)
  let ?ts1 = "ts[?d := (ts ! ?d)\<lparr>send_queue := q\<rparr>]" and ?r1 = "r\<lparr>ptasks := [ts[?d := (ts ! ?d)\<lparr>send_queue := q\<rparr>]]\<rparr>"
  have same: "same_threads ts ?ts1" by (rule same_threads_update) simp
  have table1: "table_ok W ?ts1" using same_threads_table [OF same parts(1)] .
  note here = table_okD [OF table1 message_okD(1) [OF assms(3)]] and there = table_okD [OF table1 message_okD(1) [OF s_ok]]
  have n: "?t < n_tasks W" "?th < n_threads W ?t" using message_okD(1) [OF assms(3)] by (simp_all add: place_def)
  have vt: "virtual_thread (paraver_thread (task_threads (?ts1 ! ?t) ! ?th)) = vthread_of W ?t ?th"
    using parts(3) [OF n] same_threads_nth [OF same, of ?t] n(1) len by (simp add: thread_sim_def)
  let ?x = "task_threads (?ts1 ! m_task ?s) ! m_thread ?s"
  obtain f where f: "write_rec_at (wfb (paraver_thread ?x)) (matched_rec env W ?s m) (int (sizeof_paraver_rec_t * p)) = Inr f"
    "\<And>t th. t < n_tasks W \<Longrightarrow> th < n_threads W t \<Longrightarrow>
      thread_sim env W (a\<lparr>seen := ?w'\<rparr>) t th (Lab t th)
        (task_threads (?ts1[m_task ?s := put_thread (m_thread ?s) (?x\<lparr>paraver_thread := (paraver_thread ?x)\<lparr>wfb := f\<rparr>\<rparr>) (?ts1 ! m_task ?s)] ! t) ! th)"
    using receive_recorded [OF assms(1) ts assms(3) same found p(1,3)] by blast
  let ?y = "?x\<lparr>paraver_thread := (paraver_thread ?x)\<lparr>wfb := f\<rparr>\<rparr>"
  let ?ts2 = "?ts1[m_task ?s := put_thread (m_thread ?s) ?y (?ts1 ! m_task ?s)]"
  have "receive_matched env (obj cpu ?t ?th) missing (\<lambda>target. target) (m_event m) 1 (m_begin m) (m_event m) r =
      Inr (r\<lparr>ptasks := [?ts2]\<rparr>)"
  proof -
    have in_group: "isTaskInMyGroup env (1 - 1) (Get_EvTarget (m_event m))"
      using assms(2) message_okD(3) [OF assms(3)] unfolding peer_words by (simp add: env_ok_def)
    have r1: "ptasks ?r1 = [?ts1]" by simp
    have put: "put_task 1 (of_nat (Suc ?d)) ((ts ! ?d)\<lparr>send_queue := q\<rparr>) r = Inr ?r1" by (rule put_task_index [OF ts d])
    have word: "of_nat (Suc ?t) - 1 = (of_nat ?t :: INT32)" by simp
    obtain b where b: "m_begin ?s = Some b" using message_okD(2) [OF s_ok] by blast
    have out: "out_begin (send_result not_extracted e) = Some b" "out_end (send_result not_extracted e) = Some (m_event ?s)"
      "out_position (send_result not_extracted e) = int (sizeof_paraver_rec_t * p)"
      "out_thread (send_result not_extracted e) = of_nat (Suc (m_thread ?s))"
      "out_vthread (send_result not_extracted e) = vthread_of W ?d (m_thread ?s)"
      by (simp_all add: send_result_def p(2) send_entry_def b s_task)
    have not_missing: "\<not> missing (Some b) (Some (m_event ?s))" using assms(5) by (simp add: missing_ok_def)
    show ?thesis
      unfolding receive_matched_def andthen_simps obj_simps peer_words(2,3) task_at_index [OF ts d] word
        q(1) prod.case put thread_at_index [OF r1 here(1-4)] out vt
      using in_group communication_written [OF table1 r1 assms(2) s_ok assms(3), of True "int (sizeof_paraver_rec_t * p)"]
        f(1) s_task b not_missing
      by (simp add: Let_def del: of_nat_Suc)
  qed
  moreover have "sim env W (a\<lparr>seen := ?w'\<rparr>) Lab (r\<lparr>ptasks := [?ts2]\<rparr>)"
  proof (rule simI)
    show "table_ok W ?ts2"
      using there(5) by (intro table_ok_put_thread [OF table1 message_okD(1) [OF s_ok]]) simp
    show "seen_ok env W (seen (a\<lparr>seen := ?w'\<rparr>))" using seen_ok_step(2) [OF parts(4) assms(3)] by simp
    fix t assume t: "t < n_tasks W"
    have "queues_sim W ?w' t (Lab t) (?ts1 ! t)"
    proof -
      have old: "queues_sim W ?w t (Lab t) (ts ! t)" using parts(2) [OF t] .
      have bounds: "\<And>i. i \<in> set (remove_nth k (waiting_sends ?w)) \<Longrightarrow> i < length (all_sends ?w)"
        by (rule waiting_bounds(1) [OF parts(4) remove_nth_subset])
      have recvs: "recvs_queue W ?w' t (waiting_recvs ?w) = recvs_queue W ?w t (waiting_recvs ?w)"
        by (rule recvs_queue_kept [where ms = "[m]"]) (use waiting_bounds(2) [OF parts(4)] in simp_all)
      note after = next_recv_simps(2) [OF found]
      show ?thesis
      proof (cases "t = ?d")
        case True
        have "list_all2 (queued_send W ?w' (Lab ?d)) (queue_elems q)
            (filter (\<lambda>i. m_task (all_sends ?w' ! i) = ?d) (remove_nth k (waiting_sends ?w)))"
          by (rule sends_queue_same [where w = ?w]) (use q(4) bounds in simp_all)
        then have "list_all2 (queued_send W ?w' (Lab t)) (queue_elems (send_queue (?ts1 ! t)))
            (filter (\<lambda>i. m_task (all_sends ?w' ! i) = t) (remove_nth k (waiting_sends ?w)))"
          unfolding True using d(1) by simp
        moreover have "MatchingComms (?ts1 ! t)" "roomy (queue_room W) (send_queue (?ts1 ! t))"
          "roomy (queue_room W) (recv_queue (?ts1 ! t))" "queue_elems (recv_queue (?ts1 ! t)) = recvs_queue W ?w t (waiting_recvs ?w)"
          using old q(2) d(1) unfolding True queues_sim_alt by simp_all
        ultimately show ?thesis unfolding queues_sim_alt after [THEN conjunct1] after [THEN conjunct2] recvs by blast
      next
        case False
        have eq: "filter (\<lambda>i. m_task (all_sends ?w ! i) = t) (remove_nth k (waiting_sends ?w)) =
            filter (\<lambda>i. m_task (all_sends ?w ! i) = t) (waiting_sends ?w)"
          by (rule filter_remove_other [OF k(1)]) (use False s_task in simp)
        have "list_all2 (queued_send W ?w (Lab t)) (queue_elems (send_queue (ts ! t)))
            (filter (\<lambda>i. m_task (all_sends ?w ! i) = t) (remove_nth k (waiting_sends ?w)))"
          unfolding eq using old unfolding queues_sim_alt by blast
        from sends_queue_same [OF this bounds, where w' = ?w']
        have "list_all2 (queued_send W ?w' (Lab t)) (queue_elems (send_queue (ts ! t)))
            (filter (\<lambda>i. m_task (all_sends ?w' ! i) = t) (remove_nth k (waiting_sends ?w)))" by simp
        moreover have "?ts1 ! t = ts ! t" using False by simp
        ultimately show ?thesis using old unfolding queues_sim_alt after [THEN conjunct1] after [THEN conjunct2] recvs by simp
      qed
    qed
    then show "queues_sim W (seen (a\<lparr>seen := ?w'\<rparr>)) t (Lab t) (?ts2 ! t)"
      using there(1) by (cases "t = m_task ?s") simp_all
  qed (use parts(5) f(2) in simp_all)
  ultimately show ?thesis by blast
qed

lemma receive_waits:
  assumes "sim env W a Lab r" and "env_ok env W" and "message_ok env W m" and "int (length (waiting_sends (seen a))) < queue_room W"
    and "missing_ok missing"
    and none: "first_index (\<lambda>i. send_channel (all_sends (seen a) ! i) = recv_channel m) (waiting_sends (seen a)) = None"
  shows "\<exists>r' Lab'. receive_matched env (obj cpu (m_task m) (m_thread m)) missing (\<lambda>target. target) (m_event m) 1
      (m_begin m) (m_event m) r = Inr r' \<and> sim env W (a\<lparr>seen := next_recv m (seen a)\<rparr>) Lab' r'"
proof -
  let ?w = "seen a" and ?w' = "next_recv m (seen a)" and ?t = "m_task m" and ?th = "m_thread m" and ?d = "peer m"
  from assms(1) obtain ts where ts: "ptasks r = [ts]" by (auto elim: simE)
  note parts = sim_parts [OF assms(1) ts]
  have len: "length ts = n_tasks W" using parts(1) by (simp add: table_ok_def)
  have d: "?d < length ts" "?d < 2 ^ 31" using message_okD(3) [OF assms(3)] len assms(2) by (auto simp: env_ok_def)
  from send_found [OF assms(1) ts assms(2,3,4)] none obtain out where out:
    "CommunicationQueues_ExtractSend (env_any_tag env) (send_queue (ts ! ?d)) (of_nat ?t) (Get_EvTag (m_event m)) not_extracted 0 =
      Inr (out, send_queue (ts ! ?d))" "out_begin out = None" "out_end out = None" by auto
  note here = table_okD [OF parts(1) message_okD(1) [OF assms(3)]]
  have n: "?t < n_tasks W" "?th < n_threads W ?t" using message_okD(1) [OF assms(3)] by (simp_all add: place_def)
  have vt: "virtual_thread (paraver_thread (task_threads (ts ! ?t) ! ?th)) = vthread_of W ?t ?th"
    using parts(3) [OF n] by (simp add: thread_sim_def)
  have "roomy (queue_room W) (recv_queue (ts ! ?t))" "ample (env_alloc env)"
    using parts(2) [OF n(1)] assms(2) by (simp_all add: queues_sim_def env_ok_def)
  from roomy_add [OF this, of "recv_entry W m"] obtain q where q:
    "NewQueue_add (env_alloc env) (recv_queue (ts ! ?t)) (recv_entry W m) = Inr q"
    "roomy (queue_room W) q" "queue_elems q = queue_elems (recv_queue (ts ! ?t)) @ [recv_entry W m]" by blast
  let ?ts1 = "ts[?t := (ts ! ?t)\<lparr>recv_queue := q\<rparr>]"
  have same: "same_threads ts ?ts1" by (rule same_threads_update) simp
  have table1: "table_ok W ?ts1" using same_threads_table [OF same parts(1)] .
  have "receive_matched env (obj cpu ?t ?th) missing (\<lambda>target. target) (m_event m) 1 (m_begin m) (m_event m) r =
      Inr (r\<lparr>ptasks := [?ts1]\<rparr>)"
  proof -
    have in_group: "isTaskInMyGroup env (1 - 1) (Get_EvTarget (m_event m))"
      using assms(2) message_okD(3) [OF assms(3)] unfolding peer_words by (simp add: env_ok_def)
    have put: "put_task 1 (of_nat (Suc ?d)) ((ts ! ?d)\<lparr>send_queue := send_queue (ts ! ?d)\<rparr>) r = Inr r"
      unfolding put_task_index [OF ts d] using ts by simp
    have word: "of_nat (Suc ?t) - 1 = (of_nat ?t :: INT32)" by simp
    have queued: "CommunicationQueues_QueueRecv (env_alloc env) (recv_queue (ts ! ?t)) (m_begin m) (Some (m_event m))
        (of_nat (Suc ?th)) (vthread_of W ?t ?th) (Get_EvTarget (m_event m)) (Get_EvTag (m_event m)) 0 = Inr q"
      using q(1) by (simp add: CommunicationQueues_QueueRecv_def recv_entry_def)
    have missing: "missing None None" using assms(5) by (simp add: missing_ok_def)
    show ?thesis
      unfolding receive_matched_def andthen_simps obj_simps peer_words(2,3) task_at_index [OF ts d] word
        out prod.case put thread_at_index [OF ts here(1-4)] vt change_task_index [OF ts here(1,2)] queued
      using in_group missing by simp
  qed
  moreover have "sim env W (a\<lparr>seen := ?w'\<rparr>) Lab (r\<lparr>ptasks := [?ts1]\<rparr>)"
  proof (rule simI)
    show "table_ok W ?ts1" by (rule table1)
    show "seen_ok env W (seen (a\<lparr>seen := ?w'\<rparr>))" using seen_ok_step(2) [OF parts(4) assms(3)] by simp
    fix t assume t: "t < n_tasks W"
    have old: "queues_sim W ?w t (Lab t) (ts ! t)" using parts(2) [OF t] .
    have "list_all2 (queued_send W ?w (Lab t)) (queue_elems (send_queue (ts ! t)))
        (filter (\<lambda>i. m_task (all_sends ?w ! i) = t) (waiting_sends ?w))" using old unfolding queues_sim_alt by blast
    from sends_queue_same [OF this waiting_bounds(1) [OF parts(4)], where w' = ?w']
    have sends: "list_all2 (queued_send W ?w' (Lab t)) (queue_elems (send_queue (ts ! t)))
        (filter (\<lambda>i. m_task (all_sends ?w' ! i) = t) (waiting_sends ?w))" by simp
    have recvs: "recvs_queue W ?w' t (waiting_recvs ?w) = recvs_queue W ?w t (waiting_recvs ?w)"
      by (rule recvs_queue_kept [where ms = "[m]"]) (use waiting_bounds(2) [OF parts(4)] in simp_all)
    have new: "recvs_queue W ?w' t (is @ [length (all_recvs ?w)]) =
        recvs_queue W ?w' t is @ (if ?t = t then [recv_entry W m] else [])" for "is"
      by (simp add: recvs_queue_def)
    note after = next_recv_simps(1) [OF none]
    have queues: "MatchingComms (?ts1 ! t)" "roomy (queue_room W) (send_queue (?ts1 ! t))" "roomy (queue_room W) (recv_queue (?ts1 ! t))"
      "send_queue (?ts1 ! t) = send_queue (ts ! t)"
      "queue_elems (recv_queue (?ts1 ! t)) = queue_elems (recv_queue (ts ! t)) @ (if ?t = t then [recv_entry W m] else [])"
      using old q(2,3) here(1) by (cases "?t = t"; simp add: queues_sim_alt)+
    have "queue_elems (recv_queue (ts ! t)) = recvs_queue W ?w t (waiting_recvs ?w)" using old unfolding queues_sim_alt by blast
    then show "queues_sim W (seen (a\<lparr>seen := ?w'\<rparr>)) t (Lab t) (?ts1 ! t)"
      using queues sends unfolding queues_sim_alt by (simp add: after new recvs)
  next
    fix t th assume t: "t < n_tasks W" "th < n_threads W t"
    have "thread_sim env W (a\<lparr>seen := ?w'\<rparr>) t th (Lab t th) (task_threads (ts ! t) ! th)"
    proof (rule thread_sim_kept [OF parts(3) [OF t] sends_of_recv])
      fix i assume "i \<in> set (sends_of ?w t th)"
      then show "send_rec env W ?w' i = send_rec env W ?w i"
        using rec_after_recv [OF parts(4), of i m] none by (simp add: sends_of_bound)
    qed
    then show "thread_sim env W (a\<lparr>seen := ?w'\<rparr>) t th (Lab t th) (task_threads (?ts1 ! t) ! th)"
      using same_threads_nth [OF same] t(1) len by simp
  qed (use parts(5) in simp_all)
  ultimately show ?thesis by blast
qed

lemma sim_receive_matched:
  assumes "sim env W a Lab r" and "env_ok env W" and "message_ok env W m" and "int (length (waiting_sends (seen a))) < queue_room W"
    and "missing_ok missing"
  shows "\<exists>r' Lab'. receive_matched env (obj cpu (m_task m) (m_thread m)) missing (\<lambda>target. target) (m_event m) 1
      (m_begin m) (m_event m) r = Inr r' \<and> sim env W (a\<lparr>seen := next_recv m (seen a)\<rparr>) Lab' r'"
  using receive_waits [OF assms] receive_pairs [OF assms]
  by (cases "first_index (\<lambda>i. send_channel (all_sends (seen a) ! i) = recv_channel m) (waiting_sends (seen a))") simp_all

end
