(* ===== verification/MpiHandlers.thy ===== *)
theory MpiHandlers
  imports MpiReceive
begin

text \<open>
  Every handler of \<open>PRV_MPI_Event_Handlers\<close> is a step of the simulation of \<open>MpiMatching\<close>: the events
  that begin a send or receive change the pointers of the thread, those that end one are the next message of the
  machine of \<open>MatchSpec\<close>, and the other handlers leave the messages alone. No handler of the table lacks a state.
\<close>

section \<open>Events\<close>

text \<open>An event of a thread (counted from 0), with those that follow it in its file, handled at a time.\<close>

record placed_event =
  pe_event :: event_t
  pe_rest :: "event_t list"
  pe_now :: UINT64
  pe_cpu :: INT32
  pe_task :: nat
  pe_thread :: nat

definition ev_handler :: "placed_event \<Rightarrow> mpi_handler option" where
  "ev_handler x = map_of PRV_MPI_Event_Handlers (Get_EvEvent (pe_event x))"

definition merge_event :: "merge_env \<Rightarrow> placed_event \<Rightarrow> merge_run \<Rightarrow> merge_run res" where
  "merge_event env x r =
     handle_mpi_event env (pe_event x) (pe_rest x) (pe_now x) (obj (pe_cpu x) (pe_task x) (pe_thread x)) r"

fun merge_events :: "merge_env \<Rightarrow> placed_event list \<Rightarrow> merge_run \<Rightarrow> merge_run res" where
  "merge_events env [] r = Inr r"
| "merge_events env (x # xs) r = andthen (merge_event env x r) (merge_events env xs)"

section \<open>The messages of the events\<close>

text \<open>The events that a thread remembers as the begin of its last send and receive.\<close>

definition begins_send :: "merge_env \<Rightarrow> placed_event \<Rightarrow> bool" where
  "begins_send env x \<longleftrightarrow>
     (case ev_handler x of
        Some H_Any_Send_Event \<Rightarrow> short_value (pe_event x) = EVT_BEGIN
      | Some H_SendRecv_Event \<Rightarrow> \<not> SkipSendRecvComms env \<and> Get_EvValue (pe_event x) = EVT_BEGIN
      | Some H_MPI_Start_Event \<Rightarrow> short_value (pe_event x) = EVT_BEGIN
      | Some H_MPI_PersistentRequest_Event \<Rightarrow> Get_EvValue (pe_event x) = MPI_ISEND_EV
      | _ \<Rightarrow> False)"

definition begins_recv :: "merge_env \<Rightarrow> placed_event \<Rightarrow> bool" where
  "begins_recv env x \<longleftrightarrow>
     (case ev_handler x of
        Some H_SendRecv_Event \<Rightarrow> \<not> SkipSendRecvComms env \<and> Get_EvValue (pe_event x) \<noteq> EVT_BEGIN \<and> Get_EvValue (pe_event x) = EVT_END
      | Some H_Recv_Event \<Rightarrow> short_value (pe_event x) = EVT_BEGIN
      | Some H_MPI_Start_Event \<Rightarrow> short_value (pe_event x) = EVT_BEGIN
      | _ \<Rightarrow> False)"

definition with_begins :: "merge_env \<Rightarrow> placed_event \<Rightarrow> followed_run \<Rightarrow> followed_run" where
  "with_begins env x a =
     (let a = (if begins_send env x then with_send (pe_task x) (pe_thread x) (pe_event x) a else a) in
      if begins_recv env x then with_recv (pe_task x) (pe_thread x) (pe_event x) a else a)"

definition message_of :: "placed_event \<Rightarrow> event_ptr \<Rightarrow> event_t \<Rightarrow> message" where
  "message_of x b e = \<lparr>m_task = pe_task x, m_thread = pe_thread x, m_begin = b, m_event = e, m_now = pe_now x\<rparr>"

definition unless_null :: "merge_env \<Rightarrow> event_t \<Rightarrow> 'a \<Rightarrow> 'a list" where
  "unless_null env e m = (if env_proc_null env \<noteq> Get_EvTarget e then [m] else [])"

text \<open>What the event sends or receives, with the begins as they are once they are updated.\<close>

definition comms_of :: "merge_env \<Rightarrow> placed_event \<Rightarrow> followed_run \<Rightarrow> (message, message) comm_op list" where
  "comms_of env x a =
     (let e = pe_event x; sent = last_send a (pe_task x) (pe_thread x); received = last_recv a (pe_task x) (pe_thread x) in
      case ev_handler x of
        Some H_Any_Send_Event \<Rightarrow>
          if short_value e = EVT_END then unless_null env e (Send (message_of x sent e)) else []
      | Some H_SendRecv_Event \<Rightarrow>
          if SkipSendRecvComms env then []
          else if Get_EvValue e = EVT_BEGIN then unless_null env e (Send (message_of x (Some e) e))
          else if Get_EvValue e = EVT_END then unless_null env e (Recv (message_of x sent e))
          else []
      | Some H_Recv_Event \<Rightarrow>
          if short_value e = EVT_BEGIN then [] else unless_null env e (Recv (message_of x received e))
      | Some H_IRecv_Event \<Rightarrow>
          if short_value e = EVT_END then
            (case Search_MPI_IRECVED (e # pe_rest x) (Get_EvAux e) of
               Some receive \<Rightarrow> unless_null env receive (Recv (message_of x (Some e) receive))
             | None \<Rightarrow> [])
          else []
      | Some H_MPI_PersistentRequest_Event \<Rightarrow>
          if Get_EvValue e = MPI_ISEND_EV then unless_null env e (Send (message_of x (Some e) e)) else []
      | _ \<Rightarrow> [])"

text \<open>A persistent receive is left out: its handler does not follow the rule of the others.\<close>

definition followed_event :: "shape \<Rightarrow> placed_event \<Rightarrow> bool" where
  "followed_event W x \<longleftrightarrow> place W (pe_task x) (pe_thread x) \<and>
     \<not> (ev_handler x = Some H_MPI_PersistentRequest_Event \<and> Get_EvValue (pe_event x) = MPI_IRECV_EV)"

abbreviation (input) matched_op :: "(message, message) comm_op \<Rightarrow> messages \<Rightarrow> messages" where
  "matched_op \<equiv> match_op send_channel recv_channel"

definition follow :: "merge_env \<Rightarrow> placed_event \<Rightarrow> followed_run \<Rightarrow> followed_run" where
  "follow env x a = (let a = with_begins env x a in a\<lparr>seen := fold matched_op (comms_of env x a) (seen a)\<rparr>)"

section \<open>One handler\<close>

text \<open>The result of a step, related to an abstract state.\<close>

definition reaches :: "merge_env \<Rightarrow> shape \<Rightarrow> followed_run \<Rightarrow> merge_run res \<Rightarrow> bool" where
  "reaches env W a x \<longleftrightarrow> (\<exists>r Lab. x = Inr r \<and> sim env W a Lab r)"

lemma reachesI: "sim env W a Lab r \<Longrightarrow> reaches env W a (Inr r)"
  by (auto simp: reaches_def)

lemma reaches_then:
  assumes "reaches env W a x" and "\<And>r Lab. sim env W a Lab r \<Longrightarrow> reaches env W a' (f r)"
  shows "reaches env W a' (andthen x f)"
  using assms by (auto simp: reaches_def)

lemma reaches_if: "(c \<Longrightarrow> reaches env W a x) \<Longrightarrow> (\<not> c \<Longrightarrow> reaches env W a y) \<Longrightarrow> reaches env W a (if c then x else y)"
  by simp

definition room_for :: "shape \<Rightarrow> messages \<Rightarrow> bool" where
  "room_for W w \<longleftrightarrow> int (length (waiting_sends w)) < queue_room W \<and> int (length (waiting_recvs w)) < queue_room W"

fun op_message :: "(message, message) comm_op \<Rightarrow> message" where
  "op_message (Send m) = m"
| "op_message (Recv m) = m"

lemma sim_reaches:
  assumes "sim env W a Lab r" and "place W t th"
  shows "env_ok env W \<Longrightarrow> reaches env W a (switch_to env (obj cpu t th) s c r)"
    and "env_ok env W \<Longrightarrow> reaches env W a (on_thread (obj cpu t th) (on_stack (Push_State (env_alloc env) s)) r)"
    and "reaches env W a (mark_time env (obj cpu t th) now r)"
    and "env_ok env W \<Longrightarrow> reaches env W a (show_event env (obj cpu t th) now type v r)"
    and "env_ok env W \<Longrightarrow>
      reaches env W a (on_thread (obj cpu t th) (trace_enter_global_op (env_options env) (obj cpu t th) now comm sz rz root) r)"
    and "reaches env W a (enable_counter type r)"
    and "reaches env W (with_send t th e a) (set_Send_Rec (obj cpu t th) e r)"
    and "reaches env W (with_recv t th e a) (set_Recv_Rec (obj cpu t th) e r)"
  using sim_switch [OF assms, of cpu s c] sim_push [OF assms, of cpu s] sim_mark [OF assms, of cpu now]
    sim_event [OF assms, of cpu now type v] sim_global_op [OF assms, of cpu now comm sz rz root]
    sim_counter [OF assms(1), of type] sim_set [OF assms, of cpu e]
  unfolding reaches_def by blast+

lemma sim_enabled:
  assumes "sim env W a Lab r" and "place W t th"
  shows "MatchComms_Enabled 1 (of_nat (Suc t)) r = Inr True"
proof -
  from assms(1) obtain tasks where tasks: "ptasks r = [tasks]" "length tasks = n_tasks W"
    "\<And>t. t < n_tasks W \<Longrightarrow> task_sim env W a t (Lab t) (tasks ! t)" by (auto elim: simE)
  have here: "task_sim env W a t (Lab t) (tasks ! t)" using tasks(3) assms(2) by (simp add: place_def)
  note p = placeD [OF assms(2) tasks(2) here]
  from here show ?thesis
    by (simp add: MatchComms_Enabled_def task_at_index [OF tasks(1) p(1,2)] task_sim_def queues_sim_def del: of_nat_Suc)
qed

lemma sim_thread_at:
  assumes "sim env W a Lab r" and "place W t th"
  shows "\<exists>x. thread_at 1 (of_nat (Suc t)) (of_nat (Suc th)) r = Inr x \<and> Send_Rec x = last_send a t th \<and> Recv_Rec x = last_recv a t th"
proof -
  from assms(1) obtain tasks where tasks: "ptasks r = [tasks]" "length tasks = n_tasks W"
    "\<And>t. t < n_tasks W \<Longrightarrow> task_sim env W a t (Lab t) (tasks ! t)" by (auto elim: simE)
  have here: "task_sim env W a t (Lab t) (tasks ! t)" using tasks(3) assms(2) by (simp add: place_def)
  note p = placeD [OF assms(2) tasks(2) here]
  from here assms(2) show ?thesis
    by (simp add: thread_at_index [OF tasks(1) p] task_sim_def place_def thread_sim_def del: of_nat_Suc)
qed

lemma sim_match_send:
  assumes "sim env W a Lab r" and "env_ok env W" and "place W (m_task m) (m_thread m)" and "room_for W (seen a)"
    and "\<And>op. op \<in> set (unless_null env (m_event m) (Send m)) \<Longrightarrow> message_ok env W (op_message op)"
  shows "reaches env W (a\<lparr>seen := fold matched_op (unless_null env (m_event m) (Send m)) (seen a)\<rparr>)
    (match_send env (obj cpu (m_task m) (m_thread m)) (m_now m) (m_begin m) (m_event m) r)"
proof (cases "env_proc_null env = Get_EvTarget (m_event m)")
  case True
  then show ?thesis using reachesI [OF assms(1)]
    by (simp add: match_send_def sim_enabled [OF assms(1,3)] unless_null_def del: of_nat_Suc)
next
  case False
  then have "message_ok env W m" using assms(5) [of "Send m"] by (simp add: unless_null_def)
  from sim_send_matched [OF assms(1,2) this, of cpu] assms(4) False show ?thesis
    by (simp add: match_send_def sim_enabled [OF assms(1,3)] unless_null_def room_for_def reaches_def del: of_nat_Suc)
qed

lemma sim_match_receive:
  assumes "sim env W a Lab r" and "env_ok env W" and "room_for W (seen a)" and "missing_ok missing"
    and "\<And>op. op \<in> set (unless_null env (m_event m) (Recv m)) \<Longrightarrow> message_ok env W (op_message op)"
  shows "reaches env W (a\<lparr>seen := fold matched_op (unless_null env (m_event m) (Recv m)) (seen a)\<rparr>)
    (match_receive env (obj cpu (m_task m) (m_thread m)) missing (m_begin m) (m_event m) comm r)"
proof (cases "env_proc_null env = Get_EvTarget (m_event m)")
  case True
  then show ?thesis using reachesI [OF assms(1)] by (simp add: match_receive_def unless_null_def)
next
  case False
  then have "message_ok env W m" using assms(5) [of "Recv m"] by (simp add: unless_null_def)
  from sim_receive_matched [OF assms(1,2) this _ assms(4), of cpu] assms(3) False no_links [OF assms(2), of cpu "m_task m" "m_thread m" comm]
  show ?thesis
    by (simp add: match_receive_def unless_null_def room_for_def reaches_def del: of_nat_Suc)
qed


section \<open>The states of the table\<close>

definition needs_state :: "mpi_handler \<Rightarrow> bool" where
  "needs_state h \<longleftrightarrow> h = H_Any_Send_Event \<or> h = H_GlobalOP_event \<or> h = H_Other_MPI_Event \<or> h = H_MPIIO_Event \<or> h = H_MPI_RMA_Event"


lemma table_states: "list_all (\<lambda>(ev, h). needs_state h \<longrightarrow> (\<exists>s. Get_State ev = Inr s)) PRV_MPI_Event_Handlers"
  unfolding PRV_MPI_Event_Handlers_def list.pred_inject prod.case needs_state_def
  by (simp add: Get_State_def)


lemma state_of:
  assumes "ev_handler x = Some h" and "needs_state h"
  shows "\<exists>s. Get_State (Get_EvEvent (pe_event x)) = Inr s"
  using assms table_states by (auto simp: ev_handler_def list_all_iff dest!: map_of_SomeD)

section \<open>The handlers\<close>

lemma sim_show_state_and_event:
  assumes "sim env W a Lab r" and "place W t th" and "env_ok env W"
  shows "reaches env W a (show_state_and_event env (obj cpu t th) now s e r)"
  unfolding show_state_and_event_def
  by (rule reaches_then [OF sim_reaches(1) [OF assms]], rule reaches_then [OF sim_reaches(3) [OF _ assms(2)]], assumption,
      rule sim_reaches(4) [OF _ assms(2,3)])

text \<open>What a handler is given, and what it gives.\<close>

definition given :: "merge_env \<Rightarrow> shape \<Rightarrow> placed_event \<Rightarrow> followed_run \<Rightarrow> bool" where
  "given env W x a \<longleftrightarrow> env_ok env W \<and> followed_event W x \<and> room_for W (seen a) \<and>
     (\<forall>op \<in> set (comms_of env x (with_begins env x a)). message_ok env W (op_message op))"

abbreviation (input) ev_object :: "placed_event \<Rightarrow> object_id" where
  "ev_object x \<equiv> obj (pe_cpu x) (pe_task x) (pe_thread x)"

lemma givenD:
  assumes "given env W x a"
  shows "env_ok env W" "place W (pe_task x) (pe_thread x)" "room_for W (seen a)"
    "\<And>op. op \<in> set (comms_of env x (with_begins env x a)) \<Longrightarrow> message_ok env W (op_message op)"
    "ev_handler x = Some H_MPI_PersistentRequest_Event \<Longrightarrow> Get_EvValue (pe_event x) \<noteq> MPI_IRECV_EV"
  using assms by (auto simp: given_def followed_event_def)

lemma last_with [simp]:
  "last_send (with_send t th e a) t th = Some e" "last_recv (with_send t th e a) = last_recv a"
  "last_send (with_recv t th e a) = last_send a" "last_recv (with_recv t th e a) t th = Some e"
  by (simp_all add: with_send_def with_recv_def)

lemma message_of_simps [simp]:
  "m_task (message_of x b e) = pe_task x" "m_thread (message_of x b e) = pe_thread x" "m_begin (message_of x b e) = b"
  "m_event (message_of x b e) = e" "m_now (message_of x b e) = pe_now x"
  by (simp_all add: message_of_def)

lemma begin_not_end: "EVT_BEGIN \<noteq> (EVT_END :: INT32)" "EVT_BEGIN \<noteq> (EVT_END :: UINT64)"
  by simp_all

text \<open>A handler of no message: it has no begins and nothing to match.\<close>

definition silent :: "placed_event \<Rightarrow> bool" where
  "silent x \<longleftrightarrow> (\<forall>h. ev_handler x = Some h \<longrightarrow> h \<notin> {H_Any_Send_Event, H_SendRecv_Event, H_Recv_Event, H_IRecv_Event,
     H_MPI_Start_Event, H_MPI_PersistentRequest_Event})"

lemma follow_silent: "silent x \<Longrightarrow> follow env x a = a"
  by (cases "ev_handler x"; cases "the (ev_handler x)")
    (simp_all add: silent_def follow_def with_begins_def begins_send_def begins_recv_def comms_of_def)

lemma event_unfold: "merge_event env x r =
    (case ev_handler x of Some h \<Rightarrow> run_handler h env (pe_event x) (pe_rest x) (pe_now x) (ev_object x) r | None \<Rightarrow> Inr r)"
  by (simp add: merge_event_def handle_mpi_event_def ev_handler_def)

lemma silent_event:
  assumes "sim env W a Lab r" and "given env W x a" and "silent x"
  shows "reaches env W a (merge_event env x r)"
proof (cases "ev_handler x")
  case None
  then show ?thesis using reachesI [OF assms(1)] by (simp add: event_unfold)
next
  case (Some h)
  note g = givenD [OF assms(2)]
  note steps = sim_reaches [OF _ g(2)] sim_show_state_and_event [OF _ g(2,1)]
  note leads = reaches_then reaches_if reachesI steps g(1)
  obtain s where s: "needs_state h \<Longrightarrow> Get_State (Get_EvEvent (pe_event x)) = Inr s"
    using state_of [OF Some] by blast
  have tasks: "\<exists>tasks. array_get (ptasks r) (uint ((1::INT32) - 1)) = Inr tasks"
    using assms(1) by (auto simp: sim_def array_get_def in_range_def)
  show ?thesis
  proof (cases h)
    case H_GlobalOP_event
    with Some s tasks show ?thesis
      by (auto simp: event_unfold GlobalOP_event_def needs_state_def sim_enabled [OF assms(1) g(2)] Let_def simp del: of_nat_Suc
          intro!: leads intro: assms(1))
  next
    case H_Other_MPI_Event
    with Some s show ?thesis
      by (auto simp: event_unfold Other_MPI_Event_def needs_state_def simp del: of_nat_Suc intro!: leads intro: assms(1))
  next
    case H_MPIIO_Event
    with Some s show ?thesis
      by (auto simp: event_unfold MPIIO_Event_def needs_state_def simp del: of_nat_Suc intro!: leads intro: assms(1))
  next
    case H_MPI_RMA_Event
    with Some s show ?thesis
      by (auto simp: event_unfold MPI_RMA_Event_def needs_state_def simp del: of_nat_Suc intro!: leads intro: assms(1))
  qed (use Some assms(1,3) in \<open>auto simp: silent_def event_unfold MPI_PersistentRequest_Init_Event_def
      MPI_PersistentRequest_Free_Event_def MPI_SoftwareCounter_Event_def MPI_ElapsedTime_Event_def
      simp del: of_nat_Suc intro!: leads intro: assms(1)\<close>)
qed


text \<open>The handlers that send or receive, after the state and the event are shown.\<close>

lemma reaches_with: "sim env W (with_begins env x a) Lab r \<Longrightarrow> comms_of env x (with_begins env x a) = [] \<Longrightarrow> reaches env W (follow env x a) (Inr r)"
  by (auto simp: follow_def intro: reachesI)

lemma seen_begins [simp]: "seen (with_begins env x a) = seen a"
  by (simp add: with_begins_def Let_def)

lemma follow_send:
  assumes "given env W x a" and "sim env W (with_begins env x a) Lab r"
    and "comms_of env x (with_begins env x a) = unless_null env e (Send (message_of x b e))"
  shows "reaches env W (follow env x a) (match_send env (ev_object x) (pe_now x) b e r)"
  using sim_match_send [OF assms(2) givenD(1) [OF assms(1)], of "message_of x b e" "pe_cpu x"] givenD [OF assms(1)] assms(3)
  by (simp add: follow_def)

lemma follow_receive:
  assumes "given env W x a" and "sim env W (with_begins env x a) Lab r"
    and "comms_of env x (with_begins env x a) = unless_null env e (Recv (message_of x b e))" and "missing_ok missing"
  shows "reaches env W (follow env x a) (match_receive env (ev_object x) missing b e comm r)"
  using sim_match_receive [OF assms(2) givenD(1) [OF assms(1)] _ assms(4), of "message_of x b e" "pe_cpu x" comm] givenD [OF assms(1)] assms(3)
  by (simp add: follow_def)

lemmas begins = with_begins_def begins_send_def begins_recv_def comms_of_def Let_def

lemma Any_Send_followed:
  assumes "sim env W a Lab r" and "given env W x a" and h: "ev_handler x = Some H_Any_Send_Event"
  shows "reaches env W (follow env x a) (merge_event env x r)"
proof -
  note g = givenD [OF assms(2)]
  let ?e = "pe_event x" and ?ob = "ev_object x"
  obtain s where s: "Get_State (Get_EvEvent ?e) = Inr s" using state_of [OF h] by (auto simp: needs_state_def)
  have "reaches env W (follow env x a)
      (if short_value ?e = EVT_BEGIN then set_Send_Rec ?ob ?e r
       else if short_value ?e = EVT_END then
         andthen (thread_at (id_ptask ?ob) (id_task ?ob) (id_thread ?ob) r) (\<lambda>th.
           match_send env ?ob (pe_now x) (Send_Rec th) ?e r)
       else Inr r)" if r: "sim env W a Lab r" for r Lab
  proof -
    consider (early) "short_value ?e = EVT_BEGIN" | (late) "short_value ?e \<noteq> EVT_BEGIN" "short_value ?e = EVT_END"
      | (none) "short_value ?e \<noteq> EVT_BEGIN" "short_value ?e \<noteq> EVT_END" by blast
    then show ?thesis
    proof cases
      case early
      then have "follow env x a = with_send (pe_task x) (pe_thread x) ?e a" using h by (simp add: follow_def begins)
      with early sim_reaches(7) [OF r g(2)] show ?thesis by simp
    next
      case late
      obtain th where th: "thread_at 1 (of_nat (Suc (pe_task x))) (of_nat (Suc (pe_thread x))) r = Inr th"
        "Send_Rec th = last_send a (pe_task x) (pe_thread x)" using sim_thread_at [OF r g(2)] by blast
      have a: "with_begins env x a = a" using late h by (simp add: begins)
      with late h have "comms_of env x (with_begins env x a) = unless_null env ?e (Send (message_of x (Send_Rec th) ?e))"
        by (simp add: comms_of_def Let_def th(2))
      from follow_send [OF assms(2) _ this] r a late th(1) show ?thesis by (simp del: of_nat_Suc)
    next
      case none
      then have "follow env x a = a" using h by (simp add: follow_def begins)
      with none reachesI [OF r] show ?thesis by simp
    qed
  qed
  with reaches_then [OF sim_show_state_and_event [OF assms(1) g(2,1)]] h s show ?thesis
    by (simp add: event_unfold Any_Send_Event_def)
qed

lemma SendRecv_followed:
  assumes "sim env W a Lab r" and "given env W x a" and h: "ev_handler x = Some H_SendRecv_Event"
  shows "reaches env W (follow env x a) (merge_event env x r)"
proof -
  note g = givenD [OF assms(2)]
  let ?e = "pe_event x" and ?ob = "ev_object x"
  have "reaches env W (follow env x a)
      (if SkipSendRecvComms env then Inr r
       else if Get_EvValue ?e = EVT_BEGIN then
         andthen (set_Send_Rec ?ob ?e r) (match_send env ?ob (pe_now x) (Some ?e) ?e)
       else if Get_EvValue ?e = EVT_END then
         andthen (set_Recv_Rec ?ob ?e r) (\<lambda>r.
         andthen (MatchComms_Enabled (id_ptask ?ob) (id_task ?ob) r) (\<lambda>enabled.
         andthen (thread_at (id_ptask ?ob) (id_task ?ob) (id_thread ?ob) r) (\<lambda>th.
           if enabled then match_receive env ?ob both_null (Send_Rec th) ?e (Get_EvComm ?e) r else Inr r)))
       else Inr r)" if r: "sim env W a Lab r" for r Lab
  proof -
    consider (none) "SkipSendRecvComms env \<or> Get_EvValue ?e \<noteq> EVT_BEGIN \<and> Get_EvValue ?e \<noteq> EVT_END"
      | (early) "\<not> SkipSendRecvComms env" "Get_EvValue ?e = EVT_BEGIN"
      | (late) "\<not> SkipSendRecvComms env" "Get_EvValue ?e \<noteq> EVT_BEGIN" "Get_EvValue ?e = EVT_END" by blast
    then show ?thesis
    proof cases
      case none
      then have "follow env x a = a" using h by (auto simp: follow_def begins)
      with none reachesI [OF r] show ?thesis by auto
    next
      case early
      have a: "with_begins env x a = with_send (pe_task x) (pe_thread x) ?e a" using early h by (simp add: begins)
      have "comms_of env x (with_begins env x a) = unless_null env ?e (Send (message_of x (Some ?e) ?e))"
        using early h by (simp add: comms_of_def Let_def)
      from follow_send [OF assms(2) _ this] early a reaches_then [OF sim_reaches(7) [OF r g(2)]]
      show ?thesis by simp
    next
      case late
      have a: "with_begins env x a = with_recv (pe_task x) (pe_thread x) ?e a" using late h by (simp add: begins)
      have ops: "comms_of env x (with_begins env x a) =
          unless_null env ?e (Recv (message_of x (last_send a (pe_task x) (pe_thread x)) ?e))"
        using late h a by (simp add: comms_of_def Let_def)
      have "reaches env W (follow env x a) (andthen (MatchComms_Enabled 1 (of_nat (Suc (pe_task x))) r) (\<lambda>enabled.
         andthen (thread_at 1 (of_nat (Suc (pe_task x))) (of_nat (Suc (pe_thread x))) r) (\<lambda>th.
           if enabled then match_receive env ?ob both_null (Send_Rec th) ?e (Get_EvComm ?e) r else Inr r)))"
        if r: "sim env W (with_recv (pe_task x) (pe_thread x) ?e a) Lab r" for r Lab
      proof -
        obtain th where th: "thread_at 1 (of_nat (Suc (pe_task x))) (of_nat (Suc (pe_thread x))) r = Inr th"
          "Send_Rec th = last_send a (pe_task x) (pe_thread x)" using sim_thread_at [OF r g(2)] by auto
        from follow_receive [OF assms(2) _ ops missing_tests(2)] r a th sim_enabled [OF r g(2)]
        show ?thesis by (simp del: of_nat_Suc)
      qed
      with late reaches_then [OF sim_reaches(8) [OF r g(2)]] show ?thesis by (simp del: of_nat_Suc)
    qed
  qed
  note tail = this
  show ?thesis unfolding event_unfold h option.case run_handler.simps SendRecv_Event_def
    by (rule reaches_then [OF sim_reaches(1) [OF assms(1) g(2,1)]], rule reaches_then [OF sim_reaches(3) [OF _ g(2)]], assumption,
        rule reaches_then [OF sim_reaches(4) [OF _ g(2,1)]], assumption, rule tail)
qed


lemma Recv_followed:
  assumes "sim env W a Lab r" and "given env W x a" and h: "ev_handler x = Some H_Recv_Event"
  shows "reaches env W (follow env x a) (merge_event env x r)"
proof -
  note g = givenD [OF assms(2)]
  let ?e = "pe_event x" and ?ob = "ev_object x"
  have middle: "reaches env W (follow env x a)
      (if short_value ?e = EVT_BEGIN then set_Recv_Rec ?ob ?e r
       else
         andthen (MatchComms_Enabled (id_ptask ?ob) (id_task ?ob) r) (\<lambda>enabled.
         andthen (thread_at (id_ptask ?ob) (id_task ?ob) (id_thread ?ob) r) (\<lambda>th.
           if enabled then match_receive env ?ob either_null (Recv_Rec th) ?e (Get_EvComm ?e) r else Inr r)))"
    if r: "sim env W a Lab r" for r Lab
  proof (cases "short_value ?e = EVT_BEGIN")
    case True
    then have "follow env x a = with_recv (pe_task x) (pe_thread x) ?e a" using h by (simp add: follow_def begins)
    with True sim_reaches(8) [OF r g(2)] show ?thesis by simp
  next
    case False
    obtain th where th: "thread_at 1 (of_nat (Suc (pe_task x))) (of_nat (Suc (pe_thread x))) r = Inr th"
      "Recv_Rec th = last_recv a (pe_task x) (pe_thread x)" using sim_thread_at [OF r g(2)] by blast
    have a: "with_begins env x a = a" using False h by (simp add: begins)
    with False h have "comms_of env x (with_begins env x a) = unless_null env ?e (Recv (message_of x (Recv_Rec th) ?e))"
      by (simp add: comms_of_def Let_def th(2))
    from follow_receive [OF assms(2) _ this missing_tests(1)] r a False th(1) sim_enabled [OF r g(2)]
    show ?thesis by (simp del: of_nat_Suc)
  qed
  show ?thesis unfolding event_unfold h option.case run_handler.simps Recv_Event_def
    by (rule reaches_then [OF sim_reaches(1) [OF assms(1) g(2,1)]], rule reaches_then [OF middle], assumption,
        rule reaches_then [OF sim_reaches(3) [OF _ g(2)]], assumption, rule sim_reaches(4) [OF _ g(2,1)])
qed

lemma IRecv_followed:
  assumes "sim env W a Lab r" and "given env W x a" and h: "ev_handler x = Some H_IRecv_Event"
  shows "reaches env W (follow env x a) (merge_event env x r)"
proof -
  note g = givenD [OF assms(2)]
  let ?e = "pe_event x" and ?ob = "ev_object x"
  have a: "with_begins env x a = a" using h by (simp add: begins)
  have middle: "reaches env W (follow env x a)
      (if short_value ?e = EVT_END then
         andthen (MatchComms_Enabled (id_ptask ?ob) (id_task ?ob) r) (\<lambda>enabled.
           if \<not> enabled then Inr r
           else case Search_MPI_IRECVED (?e # pe_rest x) (Get_EvAux ?e) of
             None \<Rightarrow> Inr r
           | Some receive \<Rightarrow> match_receive env ?ob either_null (Some ?e) receive (Get_EvComm ?e) r)
       else Inr r)"
    if r: "sim env W a Lab r" for r Lab
  proof -
    consider (early) "short_value ?e \<noteq> EVT_END" | (never) "Search_MPI_IRECVED (?e # pe_rest x) (Get_EvAux ?e) = None"
      | (late) receive where "short_value ?e = EVT_END" "Search_MPI_IRECVED (?e # pe_rest x) (Get_EvAux ?e) = Some receive" by blast
    then show ?thesis
    proof cases
      case early
      then have "comms_of env x a = []" using h by (simp add: comms_of_def Let_def)
      with reaches_with [of env W x a Lab r] a r early show ?thesis by simp
    next
      case never
      then have "comms_of env x a = []" using h by (simp add: comms_of_def Let_def)
      with reaches_with [of env W x a Lab r] a r never sim_enabled [OF r g(2)] show ?thesis by (simp del: of_nat_Suc)
    next
      case late
      then have "comms_of env x (with_begins env x a) = unless_null env receive (Recv (message_of x (Some ?e) receive))"
        using h by (simp add: comms_of_def Let_def)
      from follow_receive [OF assms(2) _ this missing_tests(1)] r a late sim_enabled [OF r g(2)]
      show ?thesis by (simp del: of_nat_Suc)
    qed
  qed
  show ?thesis unfolding event_unfold h option.case run_handler.simps IRecv_Event_def
    by (rule reaches_then [OF sim_reaches(1) [OF assms(1) g(2,1)]], rule reaches_then [OF middle], assumption,
        rule reaches_then [OF sim_reaches(3) [OF _ g(2)]], assumption, rule sim_reaches(4) [OF _ g(2,1)])
qed

lemma Start_followed:
  assumes "sim env W a Lab r" and "given env W x a" and h: "ev_handler x = Some H_MPI_Start_Event"
  shows "reaches env W (follow env x a) (merge_event env x r)"
proof -
  note g = givenD [OF assms(2)]
  let ?e = "pe_event x" and ?ob = "ev_object x"
  have "reaches env W (follow env x a)
      (if short_value ?e = EVT_BEGIN then andthen (set_Send_Rec ?ob ?e r) (set_Recv_Rec ?ob ?e) else Inr r)"
    if r: "sim env W a Lab r" for r Lab
  proof (cases "short_value ?e = EVT_BEGIN")
    case True
    then have "follow env x a = with_recv (pe_task x) (pe_thread x) ?e (with_send (pe_task x) (pe_thread x) ?e a)"
      using h by (simp add: follow_def begins)
    with True reaches_then [OF sim_reaches(7) [OF r g(2)] sim_reaches(8) [OF _ g(2)]] show ?thesis by simp
  next
    case False
    then have "follow env x a = a" using h by (simp add: follow_def begins)
    with False reachesI [OF r] show ?thesis by simp
  qed
  note tail = this
  show ?thesis unfolding event_unfold h option.case run_handler.simps MPI_Start_Event_def
    by (rule reaches_then [OF sim_show_state_and_event [OF assms(1) g(2,1)]], rule tail)
qed

lemma Persistent_followed:
  assumes "sim env W a Lab r" and "given env W x a" and h: "ev_handler x = Some H_MPI_PersistentRequest_Event"
  shows "reaches env W (follow env x a) (merge_event env x r)"
proof -
  note g = givenD [OF assms(2)]
  let ?e = "pe_event x" and ?ob = "ev_object x"
  have "reaches env W (follow env x a) (if Get_EvValue ?e = MPI_ISEND_EV then
         andthen (set_Send_Rec ?ob ?e r) (match_send env ?ob (pe_now x) (Some ?e) ?e) else Inr r)"
    if r: "sim env W a Lab r" for r Lab
  proof (cases "Get_EvValue ?e = MPI_ISEND_EV")
    case True
    have a: "with_begins env x a = with_send (pe_task x) (pe_thread x) ?e a" using True h by (simp add: begins)
    have "comms_of env x (with_begins env x a) = unless_null env ?e (Send (message_of x (Some ?e) ?e))"
      using True h by (simp add: comms_of_def Let_def)
    from follow_send [OF assms(2) _ this] True a reaches_then [OF sim_reaches(7) [OF r g(2)]]
    show ?thesis by simp
  next
    case False
    then have "follow env x a = a" using h by (simp add: follow_def begins)
    with False reachesI [OF r] show ?thesis by simp
  qed
  note tail = this
  have last: "reaches env W (follow env x a) (f r) \<Longrightarrow> reaches env W (follow env x a) (if Get_EvValue ?e = MPI_IRECV_EV then g r else f r)" for f g r
    using g(5) [OF h] by simp
  show ?thesis unfolding event_unfold h option.case run_handler.simps MPI_PersistentRequest_Event_def
    by (rule reaches_then [OF sim_reaches(3) [OF assms(1) g(2)]], rule reaches_then [OF tail], assumption,
        rule last, rule reachesI)
qed

lemma event_followed:
  assumes "sim env W a Lab r" and "given env W x a"
  shows "reaches env W (follow env x a) (merge_event env x r)"
proof (cases "silent x")
  case True
  with silent_event [OF assms] follow_silent show ?thesis by metis
next
  case False
  with Any_Send_followed [OF assms] SendRecv_followed [OF assms] Recv_followed [OF assms] IRecv_followed [OF assms]
    Start_followed [OF assms] Persistent_followed [OF assms] show ?thesis by (auto simp: silent_def)
qed

end
