(* ===== verification/MpiRun.thy ===== *)
theory MpiRun
  imports MpiHandlers
begin

text \<open>
  The merger follows the MPI events of an application's files through the handler table. Whatever the
  order they come in, the communication records it leaves are those of one rule: the sends and the receives of
  a channel (sender, receiver, tag) are paired by their rank on it.
\<close>

section \<open>A run of events\<close>

fun comms :: "merge_env \<Rightarrow> placed_event list \<Rightarrow> followed_run \<Rightarrow> (message, message) comm_op list" where
  "comms env [] a = []"
| "comms env (x # xs) a = comms_of env x (with_begins env x a) @ comms env xs (with_begins env x a)"

fun never_full :: "shape \<Rightarrow> messages \<Rightarrow> (message, message) comm_op list \<Rightarrow> bool" where
  "never_full W w [] = room_for W w"
| "never_full W w (op # ops) = (room_for W w \<and> never_full W (matched_op op w) ops)"

lemma never_full_append: "never_full W w (ops @ ops') \<Longrightarrow> room_for W w \<and> never_full W (fold matched_op ops w) ops'"
  by (induction ops arbitrary: w) (auto elim: never_full.elims)

lemma with_begins_seen: "with_begins env x (a\<lparr>seen := w\<rparr>) = (with_begins env x a)\<lparr>seen := w\<rparr>"
  by (simp add: with_begins_def with_send_def with_recv_def Let_def)

lemma comms_of_seen [simp]: "comms_of env x (a\<lparr>seen := w\<rparr>) = comms_of env x a"
  by (simp add: comms_of_def Let_def)

lemma comms_seen [simp]: "comms env xs (a\<lparr>seen := w\<rparr>) = comms env xs a"
  by (induction xs arbitrary: a) (simp_all add: with_begins_seen)

lemma run_followed:
  assumes "env_ok env W" and "sim env W a Lab r" and "\<forall>x \<in> set xs. followed_event W x"
    and "\<forall>op \<in> set (comms env xs a). message_ok env W (op_message op)" and "never_full W (seen a) (comms env xs a)"
  shows "\<exists>r' a' Lab'. merge_events env xs r = Inr r' \<and> sim env W a' Lab' r' \<and>
    seen a' = fold matched_op (comms env xs a) (seen a)"
  using assms(2-)
proof (induction xs arbitrary: a Lab r)
  case Nil
  then show ?case by auto
next
  case (Cons x xs)
  have "given env W x a"
    using assms(1) Cons.prems(2,3) never_full_append [OF Cons.prems(4) [unfolded comms.simps]] by (simp add: given_def)
  from event_followed [OF Cons.prems(1) this] obtain r1 Lab1 where
    1: "merge_event env x r = Inr r1" "sim env W (follow env x a) Lab1 r1" by (auto simp: reaches_def)
  have a: "comms env xs (follow env x a) = comms env xs (with_begins env x a)"
    "seen (follow env x a) = fold matched_op (comms_of env x (with_begins env x a)) (seen a)"
    by (simp_all add: follow_def Let_def)
  from Cons.IH [OF 1(2)] Cons.prems(2,3) never_full_append [OF Cons.prems(4) [unfolded comms.simps]] 1(1)
  show ?case by (auto simp: a)
qed

section \<open>Before the first message\<close>

definition no_events :: followed_run where
  "no_events = \<lparr>seen = no_matching, last_send = (\<lambda>_ _. None), last_recv = (\<lambda>_ _. None)\<rparr>"

definition fresh_queues :: "shape \<Rightarrow> task_info \<Rightarrow> bool" where
  "fresh_queues W tk \<longleftrightarrow> MatchingComms tk \<and> roomy (queue_room W) (send_queue tk) \<and> roomy (queue_room W) (recv_queue tk) \<and>
     queue_elems (send_queue tk) = [] \<and> queue_elems (recv_queue tk) = []"

definition fresh_info :: "shape \<Rightarrow> nat \<Rightarrow> nat \<Rightarrow> thread_info \<Rightarrow> bool" where
  "fresh_info W t th x \<longleftrightarrow> (let p = paraver_thread x in
     rec_file_inv (wfb p) \<and> wfb_ready (wfb p) \<and> wfb_recs (wfb p) = [] \<and> stack_ok (thread_stack p) \<and>
     incomplete_state_offset p = - 1 \<and> running_cpu x = cpu_of W t th \<and> virtual_thread p = vthread_of W t th \<and>
     Send_Rec x = None \<and> Recv_Rec x = None)"

definition fresh_run :: "shape \<Rightarrow> merge_run \<Rightarrow> bool" where
  "fresh_run W r \<longleftrightarrow> length (MPI_SoftCounters_used r) = 7 \<and> length (ptasks r) = 1 \<and> length (hd (ptasks r)) = n_tasks W \<and>
     (\<forall>t < n_tasks W. let tk = hd (ptasks r) ! t in fresh_queues W tk \<and> length (task_threads tk) = n_threads W t \<and>
        (\<forall>th < n_threads W t. fresh_info W t th (task_threads tk ! th)))"

lemma fresh_sim:
  assumes "fresh_run W r"
  shows "sim env W no_events (\<lambda>_ _. []) r"
proof -
  from assms obtain tasks where tasks: "ptasks r = [tasks]" "length tasks = n_tasks W"
    by (cases "ptasks r") (auto simp: fresh_run_def)
  have "task_sim env W no_events t (\<lambda>_. []) (tasks ! t)" if "t < n_tasks W" for t
  proof -
    have here: "fresh_queues W (tasks ! t)" "length (task_threads (tasks ! t)) = n_threads W t"
      "\<forall>th < n_threads W t. fresh_info W t th (task_threads (tasks ! t) ! th)"
      using assms that tasks(1) by (auto simp: fresh_run_def Let_def)
    have "thread_sim env W no_events t th [] (task_threads (tasks ! t) ! th)" if "th < n_threads W t" for th
      using here(3) that
      by (auto simp: fresh_info_def thread_sim_def numbered_def sends_of_def no_events_def no_matching_def Let_def)
    with here(1,2) show ?thesis
      by (simp add: task_sim_def queues_sim_def fresh_queues_def no_events_def no_matching_def)
  qed
  moreover have "seen_ok env W no_matching" by (simp add: seen_ok_def no_matching_inv) (simp add: no_matching_def)
  ultimately show ?thesis using tasks assms by (simp add: sim_def fresh_run_def no_events_def)
qed

section \<open>The rule of the records\<close>

text \<open>The k-th send of a channel goes with the k-th receive of the channel.\<close>

definition rank_rec :: "merge_env \<Rightarrow> shape \<Rightarrow> message list \<Rightarrow> message list \<Rightarrow> nat \<Rightarrow> paraver_rec_t" where
  "rank_rec env W S R i =
     (let received = filter (\<lambda>r. recv_channel r = send_channel (S ! i)) R; k = rank send_channel S i in
      if k < length received then matched_rec env W (S ! i) (received ! k) else unmatched_rec env W (S ! i))"

fun sends_among :: "(message, message) comm_op list \<Rightarrow> message list" where
  "sends_among [] = []"
| "sends_among (Send m # ops) = m # sends_among ops"
| "sends_among (Recv m # ops) = sends_among ops"

fun recvs_among :: "(message, message) comm_op list \<Rightarrow> message list" where
  "recvs_among [] = []"
| "recvs_among (Send m # ops) = recvs_among ops"
| "recvs_among (Recv m # ops) = m # recvs_among ops"

lemma all_after_ops:
  "all_sends (fold matched_op ops w) = all_sends w @ sends_among ops"
  "all_recvs (fold matched_op ops w) = all_recvs w @ recvs_among ops"
  by (induction ops arbitrary: w rule: sends_among.induct) simp_all

lemma filter_numbers: "map ((!) xs) (numbers_on ch xs c) = filter (\<lambda>x. ch x = c) xs"
proof (induction xs rule: rev_induct)
  case Nil
  show ?case by (simp add: numbers_on_def)
next
  case (snoc x xs)
  have "map ((!) (xs @ [x])) (numbers_on ch xs c) = map ((!) xs) (numbers_on ch xs c)"
    by (rule map_cong) (auto simp: numbers_on_bound nth_append)
  with snoc show ?case by (simp add: numbers_on_append)
qed

lemma paired_by_rank:
  assumes "matching_inv send_channel recv_channel w" and "i < length (all_sends w)"
  shows "send_rec env W w i = rank_rec env W (all_sends w) (all_recvs w) i"
proof -
  let ?S = "all_sends w" and ?R = "all_recvs w"
  let ?c = "send_channel (?S ! i)" and ?k = "rank send_channel ?S i"
  let ?on = "numbers_on recv_channel ?R ?c"
  have pairs: "(i, j) \<in> set (pairs w) \<longleftrightarrow> j < length ?R \<and> ?c = recv_channel (?R ! j) \<and> ?k = rank recv_channel ?R j" for j
    using assms by (auto simp: matching_inv_def by_rank_def)
  have received: "filter (\<lambda>r. recv_channel r = ?c) ?R = map ((!) ?R) ?on" by (simp add: filter_numbers)
  show ?thesis
  proof (cases "map_of (pairs w) i")
    case None
    have "\<not> ?k < length ?on"
    proof
      assume k: "?k < length ?on"
      have "?on ! ?k < length ?R" "recv_channel (?R ! (?on ! ?k)) = ?c" using nth_mem [OF k] by (simp_all add: numbers_on_bound)
      with numbers_rank [OF k] have "(i, ?on ! ?k) \<in> set (pairs w)" by (simp add: pairs)
      with None show False by (auto simp: map_of_eq_None_iff image_iff)
    qed
    with None show ?thesis by (simp add: send_rec_def rank_rec_def received)
  next
    case (Some j)
    then have j: "j < length ?R" "?c = recv_channel (?R ! j)" "?k = rank recv_channel ?R j"
      using pairs [of j] by (auto dest: map_of_SomeD)
    from rank_numbers [OF j(1), of recv_channel] have "?k < length ?on" "?on ! ?k = j" by (simp_all add: j(2,3))
    with Some show ?thesis by (simp add: send_rec_def rank_rec_def received)
  qed
qed

text \<open>The communication records of a thread.\<close>

definition comm_records :: "merge_run \<Rightarrow> nat \<Rightarrow> nat \<Rightarrow> paraver_rec_t list" where
  "comm_records r t th = filter is_comm (wfb_recs (wfb (paraver_thread (task_threads (hd (ptasks r) ! t) ! th))))"

definition rule_records :: "merge_env \<Rightarrow> shape \<Rightarrow> (message, message) comm_op list \<Rightarrow> nat \<Rightarrow> nat \<Rightarrow> paraver_rec_t list" where
  "rule_records env W ops t th =
     (let S = sends_among ops in
      map (rank_rec env W S (recvs_among ops)) (filter (\<lambda>i. m_task (S ! i) = t \<and> m_thread (S ! i) = th) [0..<length S]))"

lemma merged_records:
  assumes "env_ok env W" and "fresh_run W r" and "\<forall>x \<in> set xs. followed_event W x" and "ops = comms env xs no_events"
    and "\<forall>op \<in> set ops. message_ok env W (op_message op)" and "never_full W no_matching ops"
  shows "\<exists>r'. merge_events env xs r = Inr r' \<and> (\<forall>t th. place W t th \<longrightarrow> comm_records r' t th = rule_records env W ops t th)"
proof -
  have start: "seen no_events = no_matching" by (simp add: no_events_def)
  from run_followed [OF assms(1) fresh_sim [OF assms(2)] assms(3)] assms(4-6) obtain r' a Lab where
    r': "merge_events env xs r = Inr r'" "sim env W a Lab r'" "seen a = fold matched_op ops no_matching"
    by (auto simp: start)
  obtain tasks where tasks: "ptasks r' = [tasks]"
    "\<And>t. t < n_tasks W \<Longrightarrow> task_sim env W a t (Lab t) (tasks ! t)" using r'(2) by (auto elim: simE)
  have all: "all_sends (seen a) = sends_among ops" "all_recvs (seen a) = recvs_among ops"
    by (simp_all add: r'(3) all_after_ops) (simp_all add: no_matching_def)
  have inv: "matching_inv send_channel recv_channel (seen a)" unfolding r'(3) by (rule match_ops_inv [OF no_matching_inv])
  have "comm_records r' t th = rule_records env W ops t th" if "place W t th" for t th
  proof -
    have "thread_sim env W a t th (Lab t th) (task_threads (tasks ! t) ! th)"
      using tasks(2) that by (simp add: place_def task_sim_def)
    then have "comm_records r' t th = map (send_rec env W (seen a)) (sends_of (seen a) t th)"
      using numbered_comms is_comm_send_rec unfolding comm_records_def tasks(1) thread_sim_def list.sel by metis
    also have "\<dots> = map (rank_rec env W (sends_among ops) (recvs_among ops)) (sends_of (seen a) t th)"
      using paired_by_rank [OF inv] by (auto simp: all sends_of_bound intro!: map_cong)
    finally show ?thesis by (simp add: rule_records_def sends_of_def all Let_def)
  qed
  with r'(1) show ?thesis by blast
qed


section \<open>The order of the tasks\<close>

definition of_task :: "nat \<Rightarrow> message list \<Rightarrow> message list" where
  "of_task t ms = filter (\<lambda>m. m_task m = t) ms"

lemma rank_rec_append: "i < length S \<Longrightarrow> rank_rec env W (S @ [x]) R i = rank_rec env W S R i"
  by (simp add: rank_rec_def rank_append nth_append Let_def)

lemma rank_rec_last:
  "rank_rec env W (S @ [x]) R (length S) =
    (let received = filter (\<lambda>r. recv_channel r = send_channel x) R; k = length (filter (\<lambda>y. send_channel y = send_channel x) S) in
     if k < length received then matched_rec env W x (received ! k) else unmatched_rec env W x)"
  by (simp add: rank_rec_def rank_def Let_def)

lemma filter_numbers_append:
  "filter (\<lambda>i. P ((S @ [x]) ! i)) [0..<length (S @ [x])] = filter (\<lambda>i. P (S ! i)) [0..<length S] @ (if P x then [length S] else [])"
proof -
  have "filter (\<lambda>i. P ((S @ [x]) ! i)) [0..<length S] = filter (\<lambda>i. P (S ! i)) [0..<length S]"
    by (rule filter_cong) (auto simp: nth_append)
  then show ?thesis by simp
qed

lemma channel_task:
  "m_task x < 2 ^ 31 \<Longrightarrow> m_task y < 2 ^ 31 \<Longrightarrow> send_channel y = send_channel x \<Longrightarrow> m_task y = m_task x"
  by (simp add: send_channel_def task_words)

lemma own_sends:
  assumes "\<forall>m \<in> set S. m_task m < 2 ^ 31"
  shows "map (rank_rec env W S R) (filter (\<lambda>i. m_task (S ! i) = t \<and> m_thread (S ! i) = th) [0..<length S]) =
    map (rank_rec env W (of_task t S) R) (filter (\<lambda>i. m_thread (of_task t S ! i) = th) [0..<length (of_task t S)])"
  using assms
proof (induction S rule: rev_induct)
  case (snoc x S)
  have same: "map (rank_rec env W (T @ [x]) R) (filter (\<lambda>i. P (T ! i)) [0..<length T]) =
      map (rank_rec env W T R) (filter (\<lambda>i. P (T ! i)) [0..<length T])" for T P
    by (rule map_cong) (auto simp: rank_rec_append)
  note sames = same [of _ "\<lambda>m. m_task m = t \<and> m_thread m = th"] same [of _ "\<lambda>m. m_thread m = th"]
  note add = filter_numbers_append [of "\<lambda>m. m_task m = t \<and> m_thread m = th"] filter_numbers_append [of "\<lambda>m. m_thread m = th"]
  show ?case
  proof (cases "m_task x = t")
    case True
    then have "of_task t (S @ [x]) = of_task t S @ [x]" by (simp add: of_task_def)
    moreover have "filter (\<lambda>y. send_channel y = send_channel x) (of_task t S) = filter (\<lambda>y. send_channel y = send_channel x) S"
      using snoc.prems channel_task [of x] True by (auto simp: of_task_def intro!: filter_cong)
    ultimately show ?thesis using snoc by (simp only: add) (simp add: sames rank_rec_last True)
  next
    case False
    then have "of_task t (S @ [x]) = of_task t S" by (simp add: of_task_def)
    with snoc False show ?thesis by (simp only: add) (simp add: sames)
  qed
qed (simp add: of_task_def)

lemma own_recvs:
  assumes "\<forall>m \<in> set R. m_task m < 2 ^ 31"
  shows "filter (\<lambda>r. recv_channel r = c) R = filter (\<lambda>r. recv_channel r = c) (of_task (unat (fst (snd c))) R)"
proof -
  have "m_task r = unat (fst (snd c))" if "r \<in> set R" "recv_channel r = c" for r
    using that(2) task_word [of "m_task r"] assms that(1) by (auto simp: recv_channel_def)
  then show ?thesis by (auto simp: of_task_def intro!: filter_cong)
qed

lemma rank_rec_recvs:
  assumes "\<forall>m \<in> set R \<union> set R'. m_task m < 2 ^ 31" and "\<And>t. of_task t R = of_task t R'"
  shows "rank_rec env W S R i = rank_rec env W S R' i"
proof -
  have "filter (\<lambda>r. recv_channel r = c) R = filter (\<lambda>r. recv_channel r = c) R'" for c
    using own_recvs [of R c] own_recvs [of R' c] assms by simp
  then show ?thesis by (simp add: rank_rec_def)
qed

text \<open>The messages of a task are those of its own events.\<close>

definition event_of :: "nat \<Rightarrow> placed_event list \<Rightarrow> placed_event list" where
  "event_of t xs = filter (\<lambda>x. pe_task x = t) xs"

lemma unless_null_task: "op \<in> set (unless_null env e m) \<Longrightarrow> op = m"
  by (simp add: unless_null_def split: if_splits)

lemma comms_of_task: "list_all (\<lambda>op. m_task (op_message op) = pe_task x) (comms_of env x a)"
proof (cases "ev_handler x")
  case (Some h)
  obtain found where "Search_MPI_IRECVED (pe_event x # pe_rest x) (Get_EvAux (pe_event x)) = found" by blast
  with Some show ?thesis
    by (cases h; cases found) (simp_all add: comms_of_def Let_def unless_null_def)
qed (simp add: comms_of_def)

definition same_begins :: "nat \<Rightarrow> followed_run \<Rightarrow> followed_run \<Rightarrow> bool" where
  "same_begins t a b \<longleftrightarrow> last_send a t = last_send b t \<and> last_recv a t = last_recv b t"

lemma begins_other: "pe_task x \<noteq> t \<Longrightarrow> same_begins t (with_begins env x a) a"
  by (simp add: same_begins_def with_begins_def with_send_def with_recv_def Let_def)

lemma begins_own: "same_begins t a b \<Longrightarrow> pe_task x = t \<Longrightarrow>
    same_begins t (with_begins env x a) (with_begins env x b) \<and> comms_of env x a = comms_of env x b"
  by (simp add: same_begins_def with_begins_def with_send_def with_recv_def comms_of_def Let_def)

lemma own_comms_same: "same_begins t a b \<Longrightarrow> comms env (event_of t xs) a = comms env (event_of t xs) b"
proof (induction xs arbitrary: a b)
  case (Cons x xs)
  show ?case
  proof (cases "pe_task x = t")
    case True
    with Cons begins_own [OF Cons.prems True, of env]
      begins_own [of t "with_begins env x a" "with_begins env x b" x env]
    show ?thesis by (simp add: event_of_def)
  next
    case False
    with Cons show ?thesis by (simp add: event_of_def)
  qed
qed (simp add: event_of_def)

lemma own_comms: "filter (\<lambda>op. m_task (op_message op) = t) (comms env xs a) = comms env (event_of t xs) a"
proof (induction xs arbitrary: a)
  case (Cons x xs)
  have "filter (\<lambda>op. m_task (op_message op) = t) (comms_of env x b) = (if pe_task x = t then comms_of env x b else [])" for b
    using comms_of_task [where env = env and x = x and a = b] by (auto simp: filter_empty_conv filter_id_conv list_all_iff)
  moreover have "comms env (event_of t xs) (with_begins env x a) = comms env (event_of t xs) a" if "pe_task x \<noteq> t"
    using own_comms_same begins_other that by blast
  ultimately show ?case using Cons by (simp add: event_of_def)
qed (simp add: event_of_def)

lemma own_messages:
  "of_task t (sends_among ops) = sends_among (filter (\<lambda>op. m_task (op_message op) = t) ops)"
  "of_task t (recvs_among ops) = recvs_among (filter (\<lambda>op. m_task (op_message op) = t) ops)"
  by (induction ops rule: sends_among.induct) (simp_all add: of_task_def)

lemma among_messages: "m \<in> set (sends_among ops) \<union> set (recvs_among ops) \<Longrightarrow> \<exists>op \<in> set ops. m = op_message op"
  by (induction ops rule: sends_among.induct) auto

lemma rule_order:
  assumes "\<And>t. event_of t xs = event_of t ys"
    and "\<forall>op \<in> set (comms env xs a) \<union> set (comms env ys a). message_ok env W (op_message op)"
  shows "rule_records env W (comms env xs a) t th = rule_records env W (comms env ys a) t th"
proof -
  let ?xs = "comms env xs a" and ?ys = "comms env ys a"
  have "m_task m < 2 ^ 31" if "m \<in> set (sends_among ?xs) \<union> set (recvs_among ?xs) \<union> set (sends_among ?ys) \<union> set (recvs_among ?ys)" for m
  proof -
    from that among_messages [of m ?xs] among_messages [of m ?ys] obtain op where "op \<in> set ?xs \<union> set ?ys" "m = op_message op" by blast
    with assms(2) show ?thesis by (auto simp: message_ok_def place_def)
  qed
  note small = this
  have own: "filter (\<lambda>op. m_task (op_message op) = t) ?xs = filter (\<lambda>op. m_task (op_message op) = t) ?ys" for t
    using assms(1) by (simp add: own_comms)
  have recvs: "of_task t (recvs_among ?xs) = of_task t (recvs_among ?ys)" for t by (simp add: own_messages own)
  have "rank_rec env W S (recvs_among ?xs) = rank_rec env W S (recvs_among ?ys)" for S
    using small by (intro ext rank_rec_recvs recvs) auto
  moreover have "of_task t (sends_among ?xs) = of_task t (sends_among ?ys)" by (simp add: own_messages own)
  ultimately show ?thesis unfolding rule_records_def Let_def using small by (subst (1 2) own_sends) auto
qed


section \<open>The properties\<close>

text \<open>
  C1. Merging the MPI events of an application's files ends, and leaves in the file of every thread exactly one
  communication record for each of its sends, in the order of the sends. The k-th send of a channel (sender,
  receiver, tag) is recorded with the k-th receive of that channel, with the synchronised times, cpus and virtual
  threads of both ends, whichever of the two the merger meets first; a send whose channel has fewer receives is recorded
  as unmatched.

  This is for one application, of at most \<open>2 ^ 31\<close> tasks, whose tasks are all enabled and read by this merger process,
  with the latencies of their clocks known, no intercommunicators and enough memory, for a merge that starts with empty
  queues and files, and for events of the following kind. There is no completion of a persistent
  receive (\<open>MPI_PERSIST_REQ_EV\<close> with the value \<open>MPI_IRECV_EV\<close>): the handler queues it with the target and
  the tag of the request, which may be wildcards, and the rule does not hold for it. Every send and
  receive ends after a begin event of its thread, names a task of the application, and has a tag
  other than the wildcard. The queues must not fill: a queue that is full may lose messages.
\<close>

theorem communications_paired_by_rank:
  assumes "env_ok env W" and "fresh_run W r" and "\<forall>x \<in> set xs. followed_event W x"
    and "\<forall>op \<in> set (comms env xs no_events). message_ok env W (op_message op)"
    and "never_full W no_matching (comms env xs no_events)"
  shows "\<exists>r'. merge_events env xs r = Inr r' \<and>
    (\<forall>t th. place W t th \<longrightarrow> comm_records r' t th = rule_records env W (comms env xs no_events) t th)"
  using merged_records [OF assms(1-3) refl assms(4,5)] .

text \<open>
  C11. The order in which the merger interleaves the events of different tasks does not matter to the communications:
  two merges that give every task its events in the same order end, and leave the same communication
  records in every thread's file. The conditions are those of the pairing by rank: one application whose tasks are all enabled and
  read by this process, the latencies of the clocks known, no intercommunicators, enough memory, empty queues and files at the start,
  no completion of a persistent receive (which may be
  queued with a wildcard for its source, and then takes whichever send comes first), no wildcard for a tag, every message
  with a begin event and a partner in the application, and queues that never fill in either merge.
\<close>

theorem merge_order_irrelevant:
  assumes "env_ok env W" and "fresh_run W r" and "\<forall>x \<in> set xs \<union> set ys. followed_event W x"
    and "\<And>t. filter (\<lambda>x. pe_task x = t) xs = filter (\<lambda>x. pe_task x = t) ys"
    and "\<forall>op \<in> set (comms env xs no_events) \<union> set (comms env ys no_events). message_ok env W (op_message op)"
    and "never_full W no_matching (comms env xs no_events)" and "never_full W no_matching (comms env ys no_events)"
  shows "\<exists>r1 r2. merge_events env xs r = Inr r1 \<and> merge_events env ys r = Inr r2 \<and>
    (\<forall>t th. place W t th \<longrightarrow> comm_records r1 t th = comm_records r2 t th)"
proof -
  from assms have "rule_records env W (comms env xs no_events) t th = rule_records env W (comms env ys no_events) t th" for t th
    by (intro rule_order) (auto simp: event_of_def)
  then show ?thesis
    using merged_records [OF assms(1,2) _ refl _ assms(6)] merged_records [OF assms(1,2) _ refl _ assms(7)] assms(3,5)
    by (metis UnCI)
qed

text \<open>A run: task 0 sends to task 1, which receives.\<close>

definition two_env :: merge_env where
  "two_env = \<lparr>env_alloc = (\<lambda>_. True), env_options = joining\<lparr>EnabledTasks := [[True, True]]\<rparr>, env_any_tag = - 1,
     env_proc_null = - 1, env_clock = no_sync\<lparr>LatencyTable := Some [[5, 7]]\<rparr>, env_links = no_intercomms,
     env_files = [(1, 1), (1, 2)], SkipSendRecvComms = False, circular_buffer = False, circular_skip_matches = False\<rparr>"

definition two_tasks :: shape where
  "two_tasks = \<lparr>n_tasks = 2, n_threads = (\<lambda>_. 1), cpu_of = (\<lambda>_ _. 1), vthread_of = (\<lambda>_ _. 1), queue_room = 100\<rparr>"

definition fresh_queue :: "'a new_queue" where
  "fresh_queue = \<lparr>Data = [], SizeOfElement = 40, NumOfElements = 0, ElementsPerAllocation = 1024, ElementsAllocated = 0\<rparr>"

definition two_fresh :: merge_run where
  "two_fresh =
     (let tk = \<lparr>task_threads = [\<lparr>paraver_thread = fresh_thread, running_cpu = 1, Send_Rec = None, Recv_Rec = None\<rparr>],
         MatchingComms = True, match_zone = 0, recv_queue = fresh_queue, send_queue = fresh_queue\<rparr> in
      \<lparr>ptasks = [[tk, tk]], MPI_SoftCounters_used = replicate 7 False\<rparr>)"

definition mpi_ev :: "INT32 \<Rightarrow> UINT64 \<Rightarrow> UINT64 \<Rightarrow> INT32 \<Rightarrow> event_t" where
  "mpi_ev type v time partner =
     \<lparr>ev_param = \<lparr>param_target = partner, param_size = 4, param_tag = 9, param_comm = 1, param_aux = 0\<rparr>,
      ev_value = v, ev_time = time, ev_HWCValues = [], ev_event = type, ev_HWCReadSet = 0\<rparr>"

definition at_task :: "nat \<Rightarrow> event_t \<Rightarrow> placed_event" where
  "at_task t e = \<lparr>pe_event = e, pe_rest = [], pe_now = Get_EvTime (Some e), pe_cpu = 1, pe_task = t, pe_thread = 0\<rparr>"

definition the_send :: "placed_event list" where
  "the_send = [at_task 0 (mpi_ev MPI_SEND_EV 1 10 0), at_task 0 (mpi_ev MPI_SEND_EV 0 20 1)]"

definition the_receive :: "placed_event list" where
  "the_receive = [at_task 1 (mpi_ev MPI_RECV_EV 1 12 0), at_task 1 (mpi_ev MPI_RECV_EV 0 22 0)]"

definition sent_message :: message where
  "sent_message = \<lparr>m_task = 0, m_thread = 0, m_begin = Some (mpi_ev MPI_SEND_EV 1 10 0), m_event = mpi_ev MPI_SEND_EV 0 20 1, m_now = 20\<rparr>"

definition received_message :: message where
  "received_message = \<lparr>m_task = 1, m_thread = 0, m_begin = Some (mpi_ev MPI_RECV_EV 1 12 0), m_event = mpi_ev MPI_RECV_EV 0 22 0, m_now = 22\<rparr>"

lemma two_env_ok: "env_ok two_env two_tasks"
proof -
  have "isTaskInMyGroup two_env 0 (of_nat t) \<and> (\<forall>x. \<exists>y. TIMESYNC two_env 1 (of_nat (Suc t)) x = Inr y) \<and>
      task_enabled (env_options two_env) 1 (of_nat (Suc t)) = Inr True" if "t = 0 \<or> t = 1" for t
    using that
    by (auto simp: two_env_def isTaskInMyGroup_def TIMESYNC_def TimeSync_def table_get_def followed_def no_sync_def
        array_get_def in_range_def task_enabled_def joining_def)
  then show ?thesis
    by (simp add: env_ok_def less_2_cases_iff) (simp add: two_env_def two_tasks_def ample_all no_intercomms_def less_2_cases_iff)
qed

lemma two_fresh_ok: "fresh_run two_tasks two_fresh"
  using fresh_thread_ok
  by (auto simp: fresh_run_def two_tasks_def two_fresh_def Let_def fresh_queues_def fresh_queue_def roomy_def queue_inv_def
      queue_elems_def fresh_info_def fresh_thread_def less_2_cases_iff)

lemma example_handlers:
  "ev_handler (at_task t (mpi_ev MPI_SEND_EV v n p)) = Some H_Any_Send_Event"
  "ev_handler (at_task t (mpi_ev MPI_RECV_EV v n p)) = Some H_Recv_Event"
  by (simp_all add: ev_handler_def at_task_def mpi_ev_def Get_EvEvent_def PRV_MPI_Event_Handlers_def)

lemma example_comms:
  "comms two_env (the_send @ the_receive) no_events = [Send sent_message, Recv received_message]"
  "comms two_env (the_receive @ the_send) no_events = [Recv received_message, Send sent_message]"
  by (simp_all add: the_send_def the_receive_def with_begins_def begins_send_def begins_recv_def comms_of_def example_handlers
      Let_def sent_message_def received_message_def message_of_def unless_null_def two_env_def no_events_def with_send_def with_recv_def)
   (simp_all add: at_task_def mpi_ev_def short_value_def Get_EvValue_def Get_EvTarget_def Get_EvTime_def)


lemma run_example_ok:
  "\<forall>x \<in> set (the_send @ the_receive). followed_event two_tasks x"
  "message_ok two_env two_tasks sent_message" "message_ok two_env two_tasks received_message"
  by (auto simp: the_send_def the_receive_def followed_event_def example_handlers)
    (simp_all add: at_task_def place_def two_tasks_def message_ok_def sent_message_def received_message_def two_env_def
      mpi_ev_def Get_EvTarget_def Get_EvTag_def)

lemma example_channel:
  "send_channel sent_message = (0, 1, 9)" "recv_channel received_message = (0, 1, 9)"
  by (simp_all add: send_channel_def recv_channel_def sent_message_def received_message_def mpi_ev_def Get_EvTarget_def Get_EvTag_def)

lemma example_room:
  "never_full two_tasks no_matching [Send sent_message, Recv received_message]"
  "never_full two_tasks no_matching [Recv received_message, Send sent_message]"
  by (simp_all add: match_op.simps no_matching_def room_for_def two_tasks_def example_channel remove_nth_def)

lemma example_rule: "rule_records two_env two_tasks [Send sent_message, Recv received_message] 0 0 =
    [matched_rec two_env two_tasks sent_message received_message]"
  by (simp add: rule_records_def Let_def rank_rec_def rank_def example_channel) (simp add: sent_message_def)

theorem communications_paired_by_rank_witness:
  "\<exists>r. merge_events two_env (the_send @ the_receive) two_fresh = Inr r \<and>
    comm_records r 0 0 = [matched_rec two_env two_tasks sent_message received_message]"
proof -
  have "place two_tasks 0 0" by (simp add: place_def two_tasks_def)
  moreover have "\<exists>r. merge_events two_env (the_send @ the_receive) two_fresh = Inr r \<and>
    (\<forall>t th. place two_tasks t th \<longrightarrow> comm_records r t th =
      rule_records two_env two_tasks (comms two_env (the_send @ the_receive) no_events) t th)"
    by (rule communications_paired_by_rank [OF two_env_ok two_fresh_ok run_example_ok(1)])
      (use run_example_ok(2,3) example_room in \<open>simp_all add: example_comms\<close>)
  ultimately show ?thesis by (auto simp: example_comms example_rule)
qed

theorem merge_order_irrelevant_witness:
  "\<exists>r1 r2. merge_events two_env (the_send @ the_receive) two_fresh = Inr r1 \<and>
    merge_events two_env (the_receive @ the_send) two_fresh = Inr r2 \<and> comm_records r1 0 0 = comm_records r2 0 0"
proof -
  have "\<exists>r1 r2. merge_events two_env (the_send @ the_receive) two_fresh = Inr r1 \<and>
    merge_events two_env (the_receive @ the_send) two_fresh = Inr r2 \<and>
    (\<forall>t th. place two_tasks t th \<longrightarrow> comm_records r1 t th = comm_records r2 t th)"
  proof (rule merge_order_irrelevant [OF two_env_ok two_fresh_ok])
    show "filter (\<lambda>x. pe_task x = t) (the_send @ the_receive) = filter (\<lambda>x. pe_task x = t) (the_receive @ the_send)" for t
      by (simp add: the_send_def the_receive_def at_task_def)
  qed (use run_example_ok example_room in \<open>auto simp: example_comms\<close>)
  moreover have "place two_tasks 0 0" by (simp add: place_def two_tasks_def)
  ultimately show ?thesis by blast
qed

end
