(* ===== verification/Spec2Isabelle.thy ===== *)
theory Spec2Isabelle
  imports CommQueues BufferFaults BufferIterators Base64Props StubLayout ConstraintsProps ExecutorGen PyModule
    StateStack ParaverStates MemoryTrace ParaverOrder EventTypes MpiEvents MpiP2pProps MpiCollProps MpiRun
begin

text \<open>
  A model of the C code of this repository, a COMP Superscalar tree with the Extrae tracing
  library: the parts with state and logic of their own, each translated function by function,
  with the theorems that say what it does.

  The parts. \<^bold>\<open>Extrae\<close> (\<open>trunk/dependencies/extrae/src\<close>) has a tracer and a merger. In the tracer the
  wrappers of MPI and of the allocation functions (\<open>tracer/wrappers\<close>) build events with the macros of
  \<open>tracer/trace_macros.h\<close> and insert them into a buffer per thread (\<open>tracer/wrappers/API/buffers.c\<close>), which is
  flushed to a file. The merger (\<open>merger\<close>) reads the files of all tasks, sets their clocks
  (\<open>common/timesync.c\<close>), hands every event to the handler of its type, which writes records of states,
  events and communications to a file per thread, and at the end joins these files in the order of time to
  one Paraver trace. The \<^bold>\<open>C binding\<close> (\<open>trunk/compss/programming_model/bindings/c/src\<close>) generates, from an
  interface description, stubs that hand calls to the runtime and workers that carry them out (\<open>gsstubgen\<close>,
  \<open>compssgen\<close>), and has a base-64 codec for string parameters (\<open>bindinglib/base64.c\<close>). The \<^bold>\<open>Python binding\<close>
  (\<open>bindings/python/src/ext\<close>) hands the tasks of a Python program to the runtime.

  Theories and sources. In common:

  \<^item> \<open>Prelude\<close>: the result type \<open>res\<close> of a run that returns or stops (exit, an access outside an
    allocation, an uninitialised read, a null pointer, a failed assertion, a deadlock), arrays with
    checked accesses, \<open>first_index\<close>, allocators.
  \<^item> \<open>EventRecord\<close>, \<open>EventNumbers\<close>, \<open>EventTypes\<close>: \<open>common/record.h\<close>, \<open>common/events.h\<close> and \<open>common/events.c\<close>:
    the event record, the numbers of the event types and their classes, which are disjoint.
  \<^item> \<open>QueueSpec\<close> (locale \<open>element_queue\<close>) and \<open>NewQueue\<close>: \<open>common/new-queue.c\<close>, a growing array of
    elements; the locale is its contract as a list, interpreted there.

  The tracer:

  \<^item> \<open>BufferIO\<close>, \<open>Buffers\<close>, \<open>BufferOps\<close>: \<open>buffers.c\<close>, with its memory as a
    list of cells and its pointers as indices. \<open>BufferRing\<close>: the invariant and the abstraction of a
    buffer to the list of its events. \<open>BufferFlush\<close>: blocks and what a flush writes. \<open>TraceSink\<close>
    (locale \<open>trace_sink\<close>) and \<open>BufferInsert\<close>: the contract of insertion with a callback that makes
    room, and its interpretation. \<open>BufferProps\<close>, \<open>BufferFaults\<close>: what a whole run leaves in the
    file, and the paths that lose events, keep the lock or write at a wrong address.
    \<open>Cursor\<close> (locale \<open>cursor\<close>) and \<open>BufferIterators\<close>: iterators, interpreted forwards and backwards.
  \<^item> \<open>TraceMacros\<close>: the macros that make events. \<open>MallocWrapper\<close>: \<open>wrappers/MALLOC\<close>, the wrappers, their
    probes and the table of the traced pointers, an instance of the locale \<open>slot_table\<close> of \<open>SlotTable\<close>.
  \<^item> \<open>RequestTable\<close> (locale \<open>request_table\<close>), \<open>HashTable\<close>, \<open>HashTableProps\<close>: \<open>wrappers/MPI/hash_table.c\<close>; the
    locale is the contract of a table of pending operations, a bag of entries that is a finite map as long as
    no key is put twice, and the hash table with overflow cells interprets it. \<open>MpiTrace\<close>: the statistics of
    \<open>stats/MPI\<close>, \<open>persistent_requests.c\<close> and what the wrappers share. \<open>MpiP2p\<close>, \<open>MpiP2pProps\<close>: the wrappers of the
    point-to-point operations, \<open>mpi_wrapper_p2p_c.c\<close>, and what their events report of the receives. \<open>MpiColl\<close>,
    \<open>MpiCollProps\<close>: those of the collective operations for C and for Fortran, \<open>mpi_wrapper_coll_c.c\<close> and
    \<open>mpi_wrapper_coll_f.c\<close>, with the traced \<open>MPI_Comm_rank\<close> of \<open>mpi_wrapper.c\<close> that the scans for C call; the sizes that the
    merger reads from their events, their statistics, and where the two languages agree.

  The merger:

  \<^item> \<open>TimeSync\<close>: \<open>common/timesync.c\<close>, the latencies of the tasks' clocks for each strategy; \<open>ahead\<close> and
    \<open>earliest_start\<close> say directly what each task's times are moved by.
    \<open>Intercommunicators\<close>: \<open>merger/common/intercommunicators.c\<close>, the links between spawned applications.
  \<^item> \<open>StateStack\<close>: \<open>paraver_state.c\<close>, the stack of states of a thread. \<open>RecordFile\<close> (locale \<open>record_file\<close>),
    \<open>WriteFileBuffer\<close>, \<open>PrvRecord\<close>: \<open>write_file_buffer.c\<close>, files of records that can be completed in place; the
    locale is interpreted on bytes and on records. \<open>ParaverGenerator\<close>: the functions of \<open>paraver_generator.c\<close> that write
    the records; \<open>ParaverStates\<close>: the states of a thread tile its time. \<open>ParaverMerge\<close>, \<open>ParaverOrder\<close>: the join of
    the files.
  \<^item> \<open>SlotTable\<close> (locale \<open>slot_table\<close>) and \<open>AddressSpace\<close>: \<open>address_space.c\<close>, the live blocks of a task.
    \<open>DynamicMemory\<close>: the handler of the allocation events in \<open>misc_prv_semantics.c\<close>. \<open>MemoryTrace\<close>: from the calls of a
    program through the wrappers to the address space of the merger.
  \<^item> \<open>MpiEvents\<close>: \<open>mpi_prv_events.c\<close>, the translation and description of the MPI operations.
  \<^item> \<open>CommQueues\<close>: \<open>communication_queues.c\<close>, the pending sends and receives, proved from \<open>element_queue\<close>.
    \<open>MpiSemantics\<close>: all the handlers of \<open>mpi_prv_semantics.c\<close> with their table, \<open>trace_communication.c\<close> and the
    matching switches of \<open>file_set.c\<close>. \<open>MatchSpec\<close>: a machine that pairs what waits on a channel, and that it
    pairs by rank. \<open>MpiThreads\<close>, \<open>MpiMatching\<close>, \<open>MpiSim\<close>, \<open>MpiPairing\<close>, \<open>MpiReceive\<close>, \<open>MpiHandlers\<close>: the
    simulation between the handlers and that machine (what it relates, calls that write no communication,
    a send, a receive, each handler). \<open>MpiRun\<close>: the communications of a whole merge, and that the order
    of the tasks does not matter to them.

  The bindings:

  \<^item> \<open>Base64\<close>, \<open>Base64Props\<close>: \<open>base64.c\<close>, against the encoding of the standard on bit groups.
  \<^item> \<open>Idl\<close>, \<open>IdlProps\<close>: \<open>semantic.c\<close>, the actions of \<open>corba-gram.y\<close> and \<open>param_metadata.h\<close>; an interface
    as a value, and the theorem that parsing builds it.
  \<^item> \<open>Emit\<close>: generated text as a list of \<open>fprintf\<close> calls and its rendering. \<open>Backendlib\<close>: files and
    backups. \<open>StubGen\<close>: \<open>gsstubgen/c-backend.c\<close> and \<open>main.c\<close>. \<open>StubLayout\<close>: the parameter array that a
    stub fills and the places where a worker reads. \<open>StubFiles\<close>: prototypes, backups, the run from
    the interface to the files. \<open>ConstraintsGen\<close>, \<open>ConstraintsProps\<close>: \<open>gsstubgen/c-constraints-backend.c\<close>.
    \<open>ExecutorGen\<close>: \<open>compssgen\<close>, whose output agrees with that of \<open>gsstubgen\<close>.
  \<^item> \<open>PyModule\<close>: \<open>process_task\<close> of \<open>compssmodule.c\<close>.

  Interfaces between components are locales, each interpreted on the definitions of the code: the
  communication queues rely on \<open>element_queue\<close> (\<open>nq\<close>), insertion on \<open>trace_sink\<close> (\<open>buffer_sink\<close>), iteration on \<open>cursor\<close>
  (\<open>forward\<close>, \<open>backward\<close>), the record writers on \<open>record_file\<close> (\<open>bytes\<close>, \<open>recs\<close>), the allocation events on \<open>slot_table\<close>
  (\<open>traced\<close>, \<open>space\<close>), the MPI wrappers on \<open>request_table\<close> (\<open>pending\<close>).

  Bounds and parameters. What \<open>malloc\<close> answers is an argument, and so are the platform's sizes,
  the clock, what a \<open>write\<close> transfers, which files can be opened, and what the MPI library answers. Loops recurse on
  their data; the loop of \<open>writev_wrapper\<close>, the searches of the hash table and of an iterator have fuel, and the
  theorems about them show that the fuel given by the code's own bound is enough. Integers have their width where
  the code depends on it (base 64, event fields, times); the counters of the queues and buffers are integers
  without bound, which agrees with the code below \<open>2 ^ 31\<close> elements. The pairing of messages is proved for one application
  whose tasks are all enabled and read by this merger process, without intercommunicators, from empty queues and files, for
  messages with a begin event, a partner in the application and a tag that is not the wildcard, without completions of
  persistent receives (the merger queues them with what may be wildcards, and the pairing by rank fails for them), and
  for as long as the queues are not full (a full queue is read behind its end, as \<open>NewQueue\<close> shows).

  Not modelled: the printing of messages; generated code (the lexers and parsers; the rules of the grammar and
  their actions are modelled); third-party code (\<open>cl.hpp\<close>) and the launcher on DynInst; the wrappers of
  OpenMP, OpenSHMEM, CUDA, OpenCL, pthread, I/O, of the point-to-point operations of MPI for Fortran and of its other operations (files, one-sided, communicators), which repeat the pattern of those that are modelled over
  libraries that are not under \<open>src\<close>; the start and end of the tracer and its configuration (\<open>wrapper.c\<close>,
  \<open>xml-parse.c\<close>), hardware counters and sampling (PAPI, signals); the parallel merge and the Dimemas
  output; symbol tables and labels (BFD); the Java part of the runtime.
\<close>

end
